(* ===== verification/Xr_Prelude.thy ===== *)
theory Xr_Prelude
  imports Main "HOL-Library.Word"
begin

text \<open>
  Shared material of the development: names for the machine types of the C++ code, the
  little-endian image of an integer in memory (the code copies native integers with
  \<open>memcpy\<close> and \<open>asio::buffer\<close>, and every supported target is little-endian), the exact
  reader \<open>asio::read\<close> over a byte list, the sum-type sequencing used for exceptions, and
  a few list facts. The collections \<open>wire_simps\<close> and \<open>inv_simps\<close> gather the rewrite rules
  of the byte-level proofs and of the invariants.
\<close>

named_theorems wire_simps \<open>rewrite rules for byte images and readers\<close>
named_theorems inv_simps \<open>definitions of invariants\<close>

type_synonym byte = "8 word"
type_synonym bytes = "8 word list"
type_synonym u16 = "16 word"
type_synonym u32 = "32 word"
type_synonym u64 = "64 word"

section \<open>Little-endian images\<close>

fun le_bytes :: "nat \<Rightarrow> nat \<Rightarrow> bytes" where
  "le_bytes 0 v = []"
| "le_bytes (Suc n) v = word_of_nat (v mod 256) # le_bytes n (v div 256)"

fun le_val :: "bytes \<Rightarrow> nat" where
  "le_val [] = 0"
| "le_val (b # bs) = unat b + 256 * le_val bs"

lemma length_le_bytes [simp, wire_simps]: "length (le_bytes n v) = n"
  by (induction n arbitrary: v) auto

lemma unat_byte_lt [simp]: "unat (b :: byte) < 256"
  using unsigned_less [of b] by (simp add: nat_less_iff)

lemma le_val_lt: "le_val bs < 256 ^ length bs"
proof (induction bs)
  case Nil
  then show ?case by simp
next
  case (Cons b bs)
  have "unat b < 256" by (rule unat_byte_lt)
  moreover have "Suc (le_val bs) \<le> 256 ^ length bs" using Cons.IH by simp
  then have "256 * Suc (le_val bs) \<le> 256 * 256 ^ length bs"
    by (rule mult_le_mono2)
  ultimately show ?case by (simp add: algebra_simps del: unat_byte_lt)
qed

lemma le_val_le_bytes [wire_simps]: "le_val (le_bytes n v) = v mod 256 ^ n"
proof (induction n arbitrary: v)
  case 0
  then show ?case by simp
next
  case (Suc n)
  have "unat (word_of_nat (v mod 256) :: byte) = v mod 256"
    by (simp add: unat_of_nat)
  then show ?case using Suc.IH [of "v div 256"]
    by (simp add: mod_mult2_eq)
qed

lemma le_bytes_le_val [wire_simps]: "length bs = n \<Longrightarrow> le_bytes n (le_val bs) = bs"
proof (induction bs arbitrary: n)
  case Nil
  then show ?case by simp
next
  case (Cons b bs)
  have "(unat b + 256 * le_val bs) mod 256 = unat b"
    by simp
  moreover have "(unat b + 256 * le_val bs) div 256 = le_val bs"
    by simp
  ultimately show ?case using Cons by (cases n) auto
qed

definition word_bytes :: "'a::len word \<Rightarrow> bytes" where
  "word_bytes w = le_bytes (LENGTH('a) div 8) (unat w)"

definition bytes_word :: "bytes \<Rightarrow> 'a::len word" where
  "bytes_word bs = word_of_nat (le_val bs)"

lemma length_word_bytes [simp]:
  "length (word_bytes (w16 :: u16)) = 2"
  "length (word_bytes (w32 :: u32)) = 4"
  "length (word_bytes (w64 :: u64)) = 8"
  by (simp_all add: word_bytes_def)

lemma bytes_word_bytes [simp, wire_simps]:
  "bytes_word (word_bytes (w16 :: u16)) = w16"
  "bytes_word (word_bytes (w32 :: u32)) = w32"
  "bytes_word (word_bytes (w64 :: u64)) = w64"
  using unsigned_less [of w16, where ?'a = nat] unsigned_less [of w32, where ?'a = nat]
    unsigned_less [of w64, where ?'a = nat]
  by (simp_all add: word_bytes_def bytes_word_def le_val_le_bytes)

lemma word_bytes_word [wire_simps]:
  assumes "length bs = 4"
  shows "word_bytes (bytes_word bs :: u32) = bs"
proof -
  have "le_val bs < 256 ^ 4" using le_val_lt [of bs] assms by simp
  then show ?thesis using assms
    by (simp add: word_bytes_def bytes_word_def unat_of_nat le_bytes_le_val)
qed

lemma word_bytes_inject [simp]:
  "word_bytes (a :: u16) = word_bytes b \<longleftrightarrow> a = b"
  "word_bytes (c :: u32) = word_bytes d \<longleftrightarrow> c = d"
  "word_bytes (e :: u64) = word_bytes f \<longleftrightarrow> e = f"
  by (metis bytes_word_bytes)+

lemma ucast_of_nat_64_32 [simp]: "(ucast (word_of_nat n :: u64) :: u32) = word_of_nat n"
  by (simp add: unsigned_of_nat word_of_nat_eq_iff)

section \<open>Exact reads\<close>

text \<open>
  \<open>asio::read(stream, asio::buffer(p, n))\<close> returns when \<open>n\<close> bytes have arrived and throws
  when the stream ends first. Over the list of the bytes that will arrive it is a split.
\<close>

definition read_exact :: "nat \<Rightarrow> bytes \<Rightarrow> (bytes \<times> bytes) option" where
  "read_exact n bs = (if n \<le> length bs then Some (take n bs, drop n bs) else None)"

lemma read_exact_append [simp, wire_simps]:
  "length xs = n \<Longrightarrow> read_exact n (xs @ ys) = Some (xs, ys)"
  by (simp add: read_exact_def)

lemma read_exact_self [simp]: "length xs = n \<Longrightarrow> read_exact n xs = Some (xs, [])"
  by (simp add: read_exact_def)

lemma read_exact_0 [simp]: "read_exact 0 bs = Some ([], bs)"
  by (simp add: read_exact_def)

lemma read_exact_Some_iff:
  "read_exact n bs = Some (xs, ys) \<longleftrightarrow> bs = xs @ ys \<and> length xs = n"
  by (auto simp: read_exact_def)

lemma read_exact_None_iff: "read_exact n bs = None \<longleftrightarrow> length bs < n"
  by (auto simp: read_exact_def)

section \<open>Lists\<close>

lemma map_nth_upt_drop: "map (\<lambda>k. xs ! (i + k)) [0..<n] = take n (drop i xs)"
  if "i + n \<le> length xs"
  using that by (intro nth_equalityI) auto

lemma map_upt_append: "map f [0..<m + n] = map f [0..<m] @ map (\<lambda>k. f (m + k)) [0..<n]"
proof (induction n)
  case 0
  then show ?case by simp
next
  case (Suc n)
  then show ?case by simp
qed

lemma map_of_Some_split:
  "map_of xs k = Some v \<Longrightarrow> \<exists>us vs. xs = us @ (k, v) # vs \<and> k \<notin> fst ` set us"
proof (induction xs)
  case Nil
  then show ?case by simp
next
  case (Cons p xs)
  obtain a b where p: "p = (a, b)" by (cases p)
  show ?case
  proof (cases "a = k")
    case True
    with Cons.prems p have "p # xs = [] @ (k, v) # xs" by simp
    then show ?thesis by fastforce
  next
    case False
    with Cons p obtain us vs where "xs = us @ (k, v) # vs" "k \<notin> fst ` set us" by auto
    with p False have "p # xs = (p # us) @ (k, v) # vs" "k \<notin> fst ` set (p # us)" by auto
    then show ?thesis by blast
  qed
qed

end
