(* ===== verification/Message_Buffers.thy ===== *)
theory Message_Buffers
  imports Xr_Prelude
begin

text \<open>
  The message layer of \<open>src/common/transport/transport_impl.h\<close>: the eight byte
  \<open>MessageHeader\<close>, the received message \<open>MessageIn\<close>, the two in-memory streams
  \<open>ReceiveBuffer\<close> and \<open>SendBuffer\<close>, and the outcomes (return, exception, termination,
  undefined behaviour) that the operations of the transport can have.

  The locale \<open>byte_source\<close> is the interface every reader relies on: \<open>read_some\<close> hands out
  a non-empty prefix of what is pending. A reader that asks for exactly \<open>n\<close> bytes
  (\<open>asio::read\<close>, documented as repeated calls of \<open>read_some\<close>) is proved once inside it to
  split the pending bytes, and the locale is interpreted on \<open>ReceiveBuffer\<close>.
\<close>

section \<open>Outcomes\<close>

datatype error_category = System_category | Misc_category

datatype exn =
    Transport_exception string
  | System_error error_category int
  | Std_exception string

text \<open>
  \<open>Terminate\<close> is \<open>std::terminate\<close> (an exception leaving a destructor), \<open>Fault\<close> is undefined
  behaviour (an access outside an object), \<open>Blocked\<close> a wait that nothing will end.
\<close>

datatype 'a outcome = Ret 'a | Throw exn | Terminate | Fault | Blocked

text \<open>\<open>asio::error::eof\<close> is value 2 of the misc category.\<close>

definition asio_eof :: exn where
  "asio_eof = System_error Misc_category 2"

section \<open>MessageHeader and MessageIn\<close>

record message_header =
  mh_header :: u16
  mh_padding :: u16
  mh_size :: u32

record message_in =
  mi_header :: u16
  mi_payload :: bytes

lemma message_in_eta [simp]: "\<lparr>mi_header = mi_header m, mi_payload = mi_payload m\<rparr> = m"
  by (cases m) simp

definition message_header_size :: nat where
  "message_header_size = 8"

text \<open>The bytes of the struct in memory: three fields without gaps.\<close>

definition header_bytes :: "message_header \<Rightarrow> bytes" where
  "header_bytes h = word_bytes (mh_header h) @ word_bytes (mh_padding h) @ word_bytes (mh_size h)"

definition header_of_bytes :: "bytes \<Rightarrow> message_header" where
  "header_of_bytes bs =
     \<lparr>mh_header = bytes_word (take 2 bs), mh_padding = bytes_word (take 2 (drop 2 bs)),
      mh_size = bytes_word (take 4 (drop 4 bs))\<rparr>"

lemma length_header_bytes [simp, wire_simps]: "length (header_bytes h) = message_header_size"
  by (simp add: header_bytes_def message_header_size_def)

lemma header_of_header_bytes [simp, wire_simps]: "header_of_bytes (header_bytes h) = h"
  by (simp add: header_of_bytes_def header_bytes_def)

section \<open>ReceiveBuffer\<close>

record receive_buffer =
  rb_buffer :: bytes
  rb_read_head :: nat

definition receive_buffer_init :: "bytes \<Rightarrow> receive_buffer" where
  "receive_buffer_init bs = \<lparr>rb_buffer = bs, rb_read_head = 0\<rparr>"

definition receive_read_some :: "nat \<Rightarrow> receive_buffer \<Rightarrow> exn + bytes \<times> receive_buffer" where
  "receive_read_some n rb =
     (if length (rb_buffer rb) - rb_read_head rb = 0 then Inl asio_eof
      else let size = min n (length (rb_buffer rb) - rb_read_head rb)
           in Inr (take size (drop (rb_read_head rb) (rb_buffer rb)),
                   rb\<lparr>rb_read_head := rb_read_head rb + size\<rparr>))"

definition receive_pending :: "receive_buffer \<Rightarrow> bytes" where
  "receive_pending rb = drop (rb_read_head rb) (rb_buffer rb)"

section \<open>Reading exactly n bytes\<close>

text \<open>
  The documented behaviour of \<open>asio::read\<close> on a stream: call \<open>read_some\<close> for the rest until
  the buffer is full or a call fails. Each successful call delivers at least one byte, so
  \<open>n\<close> rounds are enough.
\<close>

fun asio_read :: "(nat \<Rightarrow> 's \<Rightarrow> 'e + bytes \<times> 's) \<Rightarrow> nat \<Rightarrow> nat \<Rightarrow> 's \<Rightarrow> 'e + bytes \<times> 's" where
  "asio_read rd rounds 0 s = Inr ([], s)"
| "asio_read rd 0 (Suc n) s = Inr ([], s)"
| "asio_read rd (Suc rounds) (Suc n) s =
     (case rd (Suc n) s of
        Inl e \<Rightarrow> Inl e
      | Inr (xs, s') \<Rightarrow>
          (case asio_read rd rounds (Suc n - length xs) s' of
             Inl e \<Rightarrow> Inl e
           | Inr (ys, s'') \<Rightarrow> Inr (xs @ ys, s'')))"

locale byte_source =
  fixes read_some :: "nat \<Rightarrow> 's \<Rightarrow> 'e + bytes \<times> 's"
    and pending :: "'s \<Rightarrow> bytes"
    and eof :: 'e
  assumes read_some_empty: "pending s = [] \<Longrightarrow> read_some n s = Inl eof"
    and read_some_prefix: "pending s \<noteq> [] \<Longrightarrow> 0 < n \<Longrightarrow>
      \<exists>k s'. 0 < k \<and> k \<le> n \<and> k \<le> length (pending s) \<and>
        read_some n s = Inr (take k (pending s), s') \<and> pending s' = drop k (pending s)"
begin

lemma read_some_prefixE:
  assumes "pending s \<noteq> []"
  obtains k s' where "0 < k" "k \<le> Suc n" "k \<le> length (pending s)"
    "read_some (Suc n) s = Inr (take k (pending s), s')" "pending s' = drop k (pending s)"
  using read_some_prefix [OF assms, of "Suc n"] by auto

lemma asio_read_split:
  "n \<le> rounds \<Longrightarrow> n \<le> length (pending s) \<Longrightarrow>
   \<exists>s'. asio_read read_some rounds n s = Inr (take n (pending s), s') \<and>
        pending s' = drop n (pending s)"
proof (induction rounds arbitrary: n s)
  case 0
  then show ?case by simp
next
  case (Suc rounds)
  show ?case
  proof (cases n)
    case 0
    then show ?thesis by simp
  next
    case (Suc m)
    with Suc.prems have "pending s \<noteq> []" by auto
    then obtain k s1 where k: "0 < k" "k \<le> n" "k \<le> length (pending s)"
      and rd: "read_some n s = Inr (take k (pending s), s1)"
      and p1: "pending s1 = drop k (pending s)"
      using read_some_prefixE [of s m] Suc by metis
    have "n - k \<le> rounds" and "n - k \<le> length (pending s1)"
      using k Suc.prems p1 by auto
    then obtain s2 where
      s2: "asio_read read_some rounds (n - k) s1 = Inr (take (n - k) (pending s1), s2)"
          "pending s2 = drop (n - k) (pending s1)"
      using Suc.IH by blast
    have "take k (pending s) @ take (n - k) (pending s1) = take n (pending s)"
      using k p1 by (metis le_add_diff_inverse take_add)
    moreover have "pending s2 = drop n (pending s)"
      using s2(2) p1 k by simp
    ultimately show ?thesis using rd s2(1) k Suc by simp
  qed
qed

lemma asio_read_short:
  "n \<le> rounds \<Longrightarrow> length (pending s) < n \<Longrightarrow> asio_read read_some rounds n s = Inl eof"
proof (induction rounds arbitrary: n s)
  case 0
  then show ?case by simp
next
  case (Suc rounds)
  then obtain m where n: "n = Suc m" by (cases n) auto
  show ?case
  proof (cases "pending s = []")
    case True
    then show ?thesis by (simp add: read_some_empty n)
  next
    case False
    then obtain k s1 where k: "0 < k" "k \<le> n" "k \<le> length (pending s)"
      and rd: "read_some n s = Inr (take k (pending s), s1)"
      and p1: "pending s1 = drop k (pending s)"
      using read_some_prefixE [of s m] n by metis
    have "asio_read read_some rounds (n - k) s1 = Inl eof"
      using Suc.IH [of "n - k" s1] k p1 Suc.prems by auto
    with rd k n show ?thesis by simp
  qed
qed

lemma asio_read_exact:
  "(case read_exact n (pending s) of
      None \<Rightarrow> asio_read read_some n n s = Inl eof
    | Some (xs, rest) \<Rightarrow>
        (\<exists>s'. asio_read read_some n n s = Inr (xs, s') \<and> pending s' = rest))"
  using asio_read_split [of n n s] asio_read_short [of n n s]
  by (auto simp: read_exact_def split: option.splits)

end

interpretation rbuf: byte_source receive_read_some receive_pending asio_eof
proof unfold_locales
  fix s :: receive_buffer and n
  assume "receive_pending s = []"
  then show "receive_read_some n s = Inl asio_eof"
    by (simp add: receive_pending_def receive_read_some_def)
next
  fix s :: receive_buffer and n :: nat
  assume p: "receive_pending s \<noteq> []" and n: "0 < n"
  let ?k = "min n (length (rb_buffer s) - rb_read_head s)"
  let ?s' = "s\<lparr>rb_read_head := rb_read_head s + ?k\<rparr>"
  have "0 < ?k" "?k \<le> n" "?k \<le> length (receive_pending s)"
    using p n by (auto simp: receive_pending_def)
  moreover have "receive_read_some n s = Inr (take ?k (receive_pending s), ?s')"
    using p by (auto simp: receive_pending_def receive_read_some_def Let_def)
  moreover have "receive_pending ?s' = drop ?k (receive_pending s)"
    by (simp add: receive_pending_def add.commute)
  ultimately show "\<exists>k s'. 0 < k \<and> k \<le> n \<and> k \<le> length (receive_pending s) \<and>
      receive_read_some n s = Inr (take k (receive_pending s), s') \<and>
      receive_pending s' = drop k (receive_pending s)" by blast
qed

section \<open>SendBuffer\<close>

record send_buffer =
  sb_buffer :: bytes

definition send_write_some :: "bytes \<Rightarrow> send_buffer \<Rightarrow> nat \<times> send_buffer" where
  "send_write_some bs sb = (length bs, sb\<lparr>sb_buffer := sb_buffer sb @ bs\<rparr>)"

definition send_clear :: "send_buffer \<Rightarrow> send_buffer" where
  "send_clear sb = sb\<lparr>sb_buffer := []\<rparr>"

section \<open>MessageLockOut\<close>

record message_out =
  mo_header :: message_header
  mo_buffer :: send_buffer

text \<open>The constructor reserves the header at the front of the buffer.\<close>

definition message_out_init :: "u16 \<Rightarrow> message_out" where
  "message_out_init code =
     (let h = \<lparr>mh_header = code, mh_padding = 0, mh_size = 0\<rparr>
      in \<lparr>mo_header = h, mo_buffer = snd (send_write_some (header_bytes h) \<lparr>sb_buffer = []\<rparr>)\<rparr>)"

definition message_out_write :: "bytes \<Rightarrow> message_out \<Rightarrow> message_out" where
  "message_out_write bs m = m\<lparr>mo_buffer := snd (send_write_some bs (mo_buffer m))\<rparr>"

text \<open>
  The part of \<open>flush\<close> before the stream is touched: nothing for an empty buffer, otherwise
  the size field is updated and the header copied over the first eight bytes. The
  subtraction is one of \<open>size_t\<close>, the cast truncates to 32 bits, and the copy leaves the
  buffer when it holds fewer than eight bytes.
\<close>

definition message_out_seal :: "message_out \<Rightarrow> message_out outcome" where
  "message_out_seal m =
     (let n = length (sb_buffer (mo_buffer m));
          h = (mo_header m)\<lparr>mh_size := ucast ((word_of_nat n :: u64) - word_of_nat message_header_size)\<rparr>
      in if n < message_header_size then Fault
         else Ret (m\<lparr>mo_header := h,
                     mo_buffer := \<lparr>sb_buffer = header_bytes h
                        @ drop message_header_size (sb_buffer (mo_buffer m))\<rparr>\<rparr>))"

section \<open>Frames\<close>

text \<open>What one message looks like on the wire.\<close>

definition frame :: "message_in \<Rightarrow> bytes" where
  "frame m = header_bytes \<lparr>mh_header = mi_header m, mh_padding = 0,
                            mh_size = word_of_nat (length (mi_payload m))\<rparr> @ mi_payload m"

definition frame_ok :: "message_in \<Rightarrow> bool" where
  "frame_ok m \<longleftrightarrow> length (mi_payload m) < 2 ^ 32"

lemma length_frame: "length (frame m) = 8 + length (mi_payload m)"
  by (simp add: frame_def message_header_size_def)

lemma message_out_buffer:
  "sb_buffer (mo_buffer (message_out_init code))
     = header_bytes \<lparr>mh_header = code, mh_padding = 0, mh_size = 0\<rparr>"
  "mo_header (message_out_init code) = \<lparr>mh_header = code, mh_padding = 0, mh_size = 0\<rparr>"
  "sb_buffer (mo_buffer (message_out_write bs m)) = sb_buffer (mo_buffer m) @ bs"
  "mo_header (message_out_write bs m) = mo_header m"
  by (simp_all add: message_out_init_def message_out_write_def send_write_some_def Let_def)

text \<open>A message built by the constructor and one write is sealed into its frame.\<close>

lemma message_out_seal_frame:
  "\<exists>m. message_out_seal (message_out_write payload (message_out_init code)) = Ret m \<and>
             sb_buffer (mo_buffer m) = frame \<lparr>mi_header = code, mi_payload = payload\<rparr>"
proof -
  have "(ucast ((word_of_nat (length payload + 8) :: u64) - 8) :: u32)
        = word_of_nat (length payload)"
    by simp
  then show ?thesis
    by (simp add: message_out_seal_def message_out_buffer frame_def Let_def message_header_size_def
        add.commute [of 8])
qed

end
