(* ===== verification/Transport_Core.thy ===== *)
theory Transport_Core
  imports Message_Buffers
begin

text \<open>
  \<open>TransportImpl\<close> of \<open>src/common/transport/transport_impl.cpp\<close> as seen by the thread that
  holds the message lock: status, receive queue, handler table and stream, and one
  definition per method. The producer thread runs concurrently; its iterations are the
  definition \<open>producer_step\<close>, and every wait on the queue takes the number of producer
  iterations that happen before it, so that the theorems quantify over all interleavings of
  the two. What the threads do between the locks is the subject of \<open>Transport_Threads\<close>.

  The handlers are application code. They are a type \<open>'h\<close> of names and a parameter
  \<open>exec\<close> that runs one on a payload, with the whole transport as the state it may change.
\<close>

section \<open>State\<close>

datatype transport_status = STATUS_CREATED | STATUS_OPEN | STATUS_WRITE_CLOSED | STATUS_CLOSED

definition XRTP_MSG_SHUTDOWN :: u16 where
  "XRTP_MSG_SHUTDOWN = 99"

text \<open>
  \<open>stream_in\<close> holds the bytes that the peer has sent and the producer has not read;
  \<open>peer_open\<close> says that more may follow, \<open>stream_open\<close> that our end is not closed. The field
  \<open>app\<close> is the state that belongs to the handlers.
\<close>

record ('h, 'e) transport =
  status :: transport_status
  in_queue :: "message_in list"
  handlers :: "u16 \<Rightarrow> 'h option"
  stream_in :: bytes
  peer_open :: bool
  stream_out :: bytes
  stream_open :: bool
  producer_running :: bool
  app :: 'e

type_synonym ('h, 'e) handler_exec =
  "'h \<Rightarrow> bytes \<Rightarrow> ('h, 'e) transport \<Rightarrow> unit outcome \<times> ('h, 'e) transport"

definition transport_create :: "bytes \<Rightarrow> 'e \<Rightarrow> ('h, 'e) transport" where
  "transport_create inp e =
     \<lparr>status = STATUS_CREATED, in_queue = [], handlers = (\<lambda>_. None), stream_in = inp,
      peer_open = True, stream_out = [], stream_open = True, producer_running = False, app = e\<rparr>"

section \<open>Stopping\<close>

definition stop_threads :: "('h, 'e) transport \<Rightarrow> ('h, 'e) transport" where
  "stop_threads t = t\<lparr>status := STATUS_CLOSED\<rparr>"

definition close_transport :: "('h, 'e) transport \<Rightarrow> ('h, 'e) transport" where
  "close_transport t = (stop_threads t)\<lparr>stream_open := False\<rparr>"

definition start :: "('h, 'e) transport \<Rightarrow> unit outcome \<times> ('h, 'e) transport" where
  "start t =
     (if status t \<noteq> STATUS_CREATED
      then (Throw (Transport_exception ''This transport has already been started''), t)
      else (Ret (), t\<lparr>status := STATUS_OPEN, producer_running := True\<rparr>))"

definition get_status :: "('h, 'e) transport \<Rightarrow> transport_status" where
  "get_status t = status t"

section \<open>Handler table\<close>

definition register_handler :: "u16 \<Rightarrow> 'h \<Rightarrow> ('h, 'e) transport \<Rightarrow> ('h, 'e) transport" where
  "register_handler header h t = t\<lparr>handlers := (handlers t)(header := Some h)\<rparr>"

definition unregister_handler :: "u16 \<Rightarrow> ('h, 'e) transport \<Rightarrow> ('h, 'e) transport" where
  "unregister_handler header t = t\<lparr>handlers := (handlers t)(header := None)\<rparr>"

definition clear_handlers :: "('h, 'e) transport \<Rightarrow> ('h, 'e) transport" where
  "clear_handlers t = t\<lparr>handlers := (\<lambda>_. None)\<rparr>"

section \<open>Sending\<close>

text \<open>
  \<open>asio::write\<close> on the native stream: all bytes, or an error when our end has been closed
  (\<open>EBADF\<close>, 9).
\<close>

definition stream_write :: "bytes \<Rightarrow> ('h, 'e) transport \<Rightarrow> unit outcome \<times> ('h, 'e) transport" where
  "stream_write bs t =
     (if stream_open t then (Ret (), t\<lparr>stream_out := stream_out t @ bs\<rparr>)
      else (Throw (System_error System_category 9), t))"

definition flush_to_stream :: "bytes \<Rightarrow> ('h, 'e) transport \<Rightarrow> unit outcome \<times> ('h, 'e) transport" where
  "flush_to_stream bs t =
     (if status t \<noteq> STATUS_OPEN
      then (Throw (Transport_exception ''cannot flush message: transport write closed''), t)
      else stream_write bs t)"

definition start_message :: "u16 \<Rightarrow> ('h, 'e) transport \<Rightarrow> message_out outcome" where
  "start_message header t =
     (if status t = STATUS_CREATED
      then Throw (Transport_exception ''You must start the transport before using'')
      else if status t \<noteq> STATUS_OPEN
      then Throw (Transport_exception ''cannot start message: transport write closed'')
      else Ret (message_out_init header))"

definition message_out_flush ::
  "message_out \<Rightarrow> ('h, 'e) transport \<Rightarrow> unit outcome \<times> message_out \<times> ('h, 'e) transport" where
  "message_out_flush m t =
     (if length (sb_buffer (mo_buffer m)) = 0 then (Ret (), m, t)
      else case message_out_seal m of
             Ret m' \<Rightarrow>
               (case flush_to_stream (sb_buffer (mo_buffer m')) t of
                  (Ret _, t') \<Rightarrow> (Ret (), m'\<lparr>mo_buffer := send_clear (mo_buffer m')\<rparr>, t')
                | (Throw e, t') \<Rightarrow> (Throw e, m', t')
                | (_, t') \<Rightarrow> (Fault, m', t'))
           | _ \<Rightarrow> (Fault, m, t))"

text \<open>
  \<open>~MessageLockOutImpl\<close> flushes. A destructor is implicitly \<open>noexcept\<close>: an exception that
  leaves it ends the process.
\<close>

definition message_out_release ::
  "message_out \<Rightarrow> ('h, 'e) transport \<Rightarrow> unit outcome \<times> ('h, 'e) transport" where
  "message_out_release m t =
     (case message_out_flush m t of
        (Ret _, _, t') \<Rightarrow> (Ret (), t')
      | (Throw _, _, t') \<Rightarrow> (Terminate, t')
      | (_, _, t') \<Rightarrow> (Fault, t'))"

text \<open>
  A block \<open>{ auto msg_out = start_message(h); write(msg_out.buffer, payload); msg_out.flush(); }\<close>:
  the destructor runs at the end of the scope, also when \<open>flush\<close> throws.
\<close>

definition send_message :: "u16 \<Rightarrow> bytes \<Rightarrow> ('h, 'e) transport \<Rightarrow> unit outcome \<times> ('h, 'e) transport" where
  "send_message header payload t =
     (case start_message header t of
        Ret m \<Rightarrow>
          (case message_out_flush (message_out_write payload m) t of
             (Ret _, m', t') \<Rightarrow> message_out_release m' t'
           | (Throw e, m', t') \<Rightarrow>
               (case message_out_release m' t' of
                  (Ret _, t'') \<Rightarrow> (Throw e, t'')
                | (other, t'') \<Rightarrow> (other, t''))
           | (other, m', t') \<Rightarrow> (other, t'))
      | Throw e \<Rightarrow> (Throw e, t)
      | _ \<Rightarrow> (Fault, t))"

text \<open>
  \<open>shutdown\<close> flushes its message and then stores the status. The store is not protected by the lock
  under which the other threads close the transport, so that the two are separate steps of it.
\<close>

definition shutdown_flush :: "('h, 'e) transport \<Rightarrow> unit outcome \<times> ('h, 'e) transport" where
  "shutdown_flush t =
     (if status t \<noteq> STATUS_OPEN
      then (Throw (Transport_exception ''Transport is either already shut down or not yet started''), t)
      else send_message XRTP_MSG_SHUTDOWN [] t)"

definition shutdown_store :: "('h, 'e) transport \<Rightarrow> ('h, 'e) transport" where
  "shutdown_store t = t\<lparr>status := STATUS_WRITE_CLOSED\<rparr>"

definition shutdown :: "('h, 'e) transport \<Rightarrow> unit outcome \<times> ('h, 'e) transport" where
  "shutdown t =
     (case shutdown_flush t of
        (Ret _, t') \<Rightarrow> (Ret (), shutdown_store t')
      | (other, t') \<Rightarrow> (other, t'))"

section \<open>Dispatching\<close>

definition dispatch_to_handler ::
  "('h, 'e) handler_exec \<Rightarrow> message_in \<Rightarrow> ('h, 'e) transport \<Rightarrow> unit outcome \<times> ('h, 'e) transport" where
  "dispatch_to_handler exec m t =
     (if mi_header m = XRTP_MSG_SHUTDOWN then
        (if status t = STATUS_OPEN then
           (case send_message XRTP_MSG_SHUTDOWN [] t of
              (Ret _, t') \<Rightarrow> (Ret (), stop_threads t')
            | (other, t') \<Rightarrow> (other, t'))
         else (Ret (), stop_threads t))
      else
        (case handlers t (mi_header m) of
           Some h \<Rightarrow>
             (case exec h (mi_payload m) t of
                (Throw _, t') \<Rightarrow> (Ret (), t')
              | (other, t') \<Rightarrow> (other, t'))
         | None \<Rightarrow> (Ret (), t)))"

section \<open>The producer\<close>

text \<open>
  One iteration of \<open>producer_loop\<close>. A read that lacks bytes waits as long as the stream is
  open on both ends (the iteration does not complete, nothing changes); otherwise
  \<open>asio::read\<close> throws and the handler of the loop closes the transport.
\<close>

definition producer_fail :: "('h, 'e) transport \<Rightarrow> ('h, 'e) transport" where
  "producer_fail t =
     (if peer_open t \<and> stream_open t then t
      else (close_transport t)\<lparr>producer_running := False\<rparr>)"

definition producer_step :: "('h, 'e) transport \<Rightarrow> ('h, 'e) transport" where
  "producer_step t =
     (if \<not> producer_running t then t
      else if status t = STATUS_CLOSED then t\<lparr>producer_running := False\<rparr>
      else case read_exact message_header_size (stream_in t) of
             None \<Rightarrow> producer_fail t
           | Some (hb, rest) \<Rightarrow>
               let header = header_of_bytes hb in
               (case read_exact (unat (mh_size header)) rest of
                  None \<Rightarrow> producer_fail t
                | Some (payload, rest') \<Rightarrow>
                    t\<lparr>stream_in := rest',
                      in_queue := in_queue t @ [\<lparr>mi_header = mh_header header, mi_payload = payload\<rparr>],
                      producer_running := (mh_header header \<noteq> XRTP_MSG_SHUTDOWN)\<rparr>))"

text \<open>What a run of the producer makes of a byte sequence; nothing is read after a shutdown.\<close>

function parse_messages :: "bytes \<Rightarrow> message_in list" where
  "parse_messages bs =
     (case read_exact message_header_size bs of
        None \<Rightarrow> []
      | Some (hb, rest) \<Rightarrow>
          (case read_exact (unat (mh_size (header_of_bytes hb))) rest of
             None \<Rightarrow> []
           | Some (payload, rest') \<Rightarrow>
               \<lparr>mi_header = mh_header (header_of_bytes hb), mi_payload = payload\<rparr> #
               (if mh_header (header_of_bytes hb) = XRTP_MSG_SHUTDOWN then []
                else parse_messages rest')))"
  by pat_completeness auto
termination
  by (relation "measure length") (auto simp: read_exact_Some_iff message_header_size_def)

declare parse_messages.simps [simp del]

section \<open>Waiting for messages\<close>

text \<open>
  \<open>await_any_message\<close>: \<open>k\<close> producer iterations happen before the predicate of the wait is
  looked at; when it does not hold yet, the next iteration is waited for. \<open>Blocked\<close> is a
  wait that no producer iteration ends.
\<close>

definition await_any_message ::
  "nat \<Rightarrow> ('h, 'e) transport \<Rightarrow> message_in outcome \<times> ('h, 'e) transport" where
  "await_any_message k t =
     (if status t = STATUS_CLOSED
      then (Throw (Transport_exception ''Await aborted: transport closed''), t)
      else
        let t1 = (producer_step ^^ k) t;
            t2 = (if in_queue t1 = [] \<and> status t1 \<noteq> STATUS_CLOSED then producer_step t1 else t1)
        in if status t2 = STATUS_CLOSED
           then (Throw (Transport_exception ''Await aborted: transport closed''), t2)
           else case in_queue t2 of
                  [] \<Rightarrow> (Blocked, t2)
                | m # ms \<Rightarrow> (Ret m, t2\<lparr>in_queue := ms\<rparr>))"

text \<open>
  The loop of \<open>await_message\<close>, over the way messages are received and dispatched. The
  schedule gives the producer iterations before each wait; \<open>None\<close> is a loop that is still
  running after \<open>fuel\<close> rounds.
\<close>

fun await_loop ::
  "(nat \<Rightarrow> 's \<Rightarrow> message_in outcome \<times> 's) \<Rightarrow> (message_in \<Rightarrow> 's \<Rightarrow> unit outcome \<times> 's) \<Rightarrow>
   nat \<Rightarrow> (nat \<Rightarrow> nat) \<Rightarrow> u16 \<Rightarrow> 's \<Rightarrow> (bytes outcome \<times> 's) option" where
  "await_loop recv dispatch 0 sched header s = None"
| "await_loop recv dispatch (Suc fuel) sched header s =
     (case recv (sched fuel) s of
        (Ret m, s') \<Rightarrow>
          if mi_header m = header then Some (Ret (mi_payload m), s')
          else (case dispatch m s' of
                  (Ret _, s'') \<Rightarrow> await_loop recv dispatch fuel sched header s''
                | (Throw e, s'') \<Rightarrow> Some (Throw e, s'')
                | (Terminate, s'') \<Rightarrow> Some (Terminate, s'')
                | (Fault, s'') \<Rightarrow> Some (Fault, s'')
                | (Blocked, s'') \<Rightarrow> Some (Blocked, s''))
      | (Throw e, s') \<Rightarrow> Some (Throw e, s')
      | (Terminate, s') \<Rightarrow> Some (Terminate, s')
      | (Fault, s') \<Rightarrow> Some (Fault, s')
      | (Blocked, s') \<Rightarrow> Some (Blocked, s'))"

definition await_message ::
  "('h, 'e) handler_exec \<Rightarrow> nat \<Rightarrow> (nat \<Rightarrow> nat) \<Rightarrow> u16 \<Rightarrow> ('h, 'e) transport \<Rightarrow>
   (bytes outcome \<times> ('h, 'e) transport) option" where
  "await_message exec fuel sched header t =
     (if status t = STATUS_CREATED
      then Some (Throw (Transport_exception ''You must start the transport before using''), t)
      else if header = XRTP_MSG_SHUTDOWN
      then Some (Throw (Transport_exception ''Can't await shutdown message''), t)
      else await_loop await_any_message (dispatch_to_handler exec) fuel sched header t)"

fun handle_loop ::
  "(nat \<Rightarrow> 's \<Rightarrow> message_in outcome \<times> 's) \<Rightarrow> (message_in \<Rightarrow> 's \<Rightarrow> unit outcome \<times> 's) \<Rightarrow>
   nat \<Rightarrow> (nat \<Rightarrow> nat) \<Rightarrow> u16 \<Rightarrow> 's \<Rightarrow> (unit outcome \<times> 's) option" where
  "handle_loop recv dispatch 0 sched header s = None"
| "handle_loop recv dispatch (Suc fuel) sched header s =
     (case recv (sched fuel) s of
        (Ret m, s') \<Rightarrow>
          (case dispatch m s' of
             (Ret _, s'') \<Rightarrow>
               if mi_header m = header then Some (Ret (), s'')
               else handle_loop recv dispatch fuel sched header s''
           | (other, s'') \<Rightarrow> Some (other, s''))
      | (Throw e, s') \<Rightarrow> Some (Throw e, s')
      | (Terminate, s') \<Rightarrow> Some (Terminate, s')
      | (Fault, s') \<Rightarrow> Some (Fault, s')
      | (Blocked, s') \<Rightarrow> Some (Blocked, s'))"

definition handle_message ::
  "('h, 'e) handler_exec \<Rightarrow> nat \<Rightarrow> (nat \<Rightarrow> nat) \<Rightarrow> u16 \<Rightarrow> ('h, 'e) transport \<Rightarrow>
   (unit outcome \<times> ('h, 'e) transport) option" where
  "handle_message exec fuel sched header t =
     (if status t = STATUS_CREATED
      then Some (Throw (Transport_exception ''You must start the transport before using''), t)
      else handle_loop await_any_message (dispatch_to_handler exec) fuel sched header t)"

section \<open>The consumer\<close>

text \<open>
  The body of \<open>consumer_loop\<close> once it holds the message lock and the queue lock: nothing to
  do leaves the state alone (the thread waits). An exception that leaves the thread function
  ends the process.
\<close>

definition consumer_step ::
  "('h, 'e) handler_exec \<Rightarrow> ('h, 'e) transport \<Rightarrow> unit outcome \<times> ('h, 'e) transport" where
  "consumer_step exec t =
     (if status t = STATUS_CLOSED then (Ret (), t)
      else case in_queue t of
             m # ms \<Rightarrow>
               (case dispatch_to_handler exec m (t\<lparr>in_queue := ms\<rparr>) of
                  (Throw _, t') \<Rightarrow> (Terminate, t')
                | (other, t') \<Rightarrow> (other, t'))
           | [] \<Rightarrow> (Ret (), t))"

text \<open>
  The two threads of a transport without user calls: before each consumer iteration the
  producer completes some iterations of its own.
\<close>

fun run_threads ::
  "('h, 'e) handler_exec \<Rightarrow> nat list \<Rightarrow> ('h, 'e) transport \<Rightarrow> unit outcome \<times> ('h, 'e) transport" where
  "run_threads exec [] t = (Ret (), t)"
| "run_threads exec (k # ks) t =
     (case consumer_step exec ((producer_step ^^ k) t) of
        (Ret _, t') \<Rightarrow> run_threads exec ks t'
      | (other, t') \<Rightarrow> (other, t'))"

text \<open>The destructor closes an open transport; the join of the threads is not a state change.\<close>

definition transport_destroy :: "('h, 'e) transport \<Rightarrow> ('h, 'e) transport" where
  "transport_destroy t =
     (if status t = STATUS_OPEN \<or> status t = STATUS_WRITE_CLOSED then close_transport t else t)"

end
