(* ===== verification/Transport_Laws.thy ===== *)
theory Transport_Laws
  imports Transport_Core
begin

text \<open>
  The laws of the transport. Sending: a message block on an open transport appends exactly
  its frame. Receiving: whatever the interleaving with the producer, the waits deliver the
  pending messages in order. The locale \<open>message_loop\<close> states that interface of the receive
  queue and of a dispatcher; the behaviour of the two waiting loops is proved in it once, and
  it is interpreted on \<open>await_any_message\<close> and \<open>dispatch_to_handler\<close> for handlers that update
  their own state and send replies.
\<close>

section \<open>Sending\<close>

lemma message_out_flush_frame:
  assumes "status t = STATUS_OPEN" "stream_open t"
  shows "\<exists>m. message_out_flush (message_out_write payload (message_out_init code)) t =
      (Ret (), m, t\<lparr>stream_out := stream_out t @ frame \<lparr>mi_header = code, mi_payload = payload\<rparr>\<rparr>) \<and>
      sb_buffer (mo_buffer m) = []"
proof -
  obtain m where m: "message_out_seal (message_out_write payload (message_out_init code)) = Ret m"
    "sb_buffer (mo_buffer m) = frame \<lparr>mi_header = code, mi_payload = payload\<rparr>"
    using message_out_seal_frame by blast
  then show ?thesis using assms
    by (auto simp: message_out_flush_def message_out_buffer flush_to_stream_def stream_write_def
        send_clear_def message_header_size_def)
qed

lemma send_message_open:
  assumes "status t = STATUS_OPEN" "stream_open t"
  shows "send_message code payload t =
    (Ret (), t\<lparr>stream_out := stream_out t @ frame \<lparr>mi_header = code, mi_payload = payload\<rparr>\<rparr>)"
  using message_out_flush_frame [OF assms, of payload code] assms
  by (auto simp: send_message_def start_message_def message_out_release_def message_out_flush_def)

lemma send_message_not_open:
  assumes "status t \<noteq> STATUS_OPEN"
  shows "\<exists>e. send_message code payload t = (Throw e, t)"
  using assms by (auto simp: send_message_def start_message_def)

fun send_all :: "message_in list \<Rightarrow> ('h, 'e) transport \<Rightarrow> unit outcome \<times> ('h, 'e) transport" where
  "send_all [] t = (Ret (), t)"
| "send_all (m # ms) t =
     (case send_message (mi_header m) (mi_payload m) t of
        (Ret _, t') \<Rightarrow> send_all ms t'
      | (other, t') \<Rightarrow> (other, t'))"

lemma send_all_open:
  assumes "status t = STATUS_OPEN" "stream_open t"
  shows "send_all ms t = (Ret (), t\<lparr>stream_out := stream_out t @ concat (map frame ms)\<rparr>)"
  using assms
proof (induction ms arbitrary: t)
  case Nil
  then show ?case by simp
next
  case (Cons m ms)
  let ?t = "t\<lparr>stream_out := stream_out t @ frame m\<rparr>"
  have "send_message (mi_header m) (mi_payload m) t = (Ret (), ?t)"
    using send_message_open [OF Cons.prems] by simp
  moreover have "send_all ms ?t = (Ret (), ?t\<lparr>stream_out := stream_out ?t @ concat (map frame ms)\<rparr>)"
    using Cons.IH [of ?t] Cons.prems by simp
  ultimately show ?case by simp
qed

lemma send_all_not_open:
  assumes "status t \<noteq> STATUS_OPEN"
  shows "\<exists>r. send_all ms t = (r, t) \<and> (r = Ret () \<or> (\<exists>e. r = Throw e))"
proof (cases ms)
  case (Cons m ms')
  then show ?thesis using send_message_not_open [OF assms, of "mi_header m" "mi_payload m"] by auto
qed simp

section \<open>Parsing what was sent\<close>

lemma parse_messages_frame:
  assumes "frame_ok m"
  shows "parse_messages (frame m @ rest) =
    m # (if mi_header m = XRTP_MSG_SHUTDOWN then [] else parse_messages rest)"
proof -
  let ?h = "\<lparr>mh_header = mi_header m, mh_padding = 0,
             mh_size = word_of_nat (length (mi_payload m))\<rparr>"
  have size: "unat (word_of_nat (length (mi_payload m)) :: u32) = length (mi_payload m)"
    using assms by (simp add: frame_ok_def unat_of_nat)
  have 1: "read_exact message_header_size (frame m @ rest) = Some (header_bytes ?h, mi_payload m @ rest)"
    by (simp add: frame_def)
  have 2: "read_exact (length (mi_payload m)) (mi_payload m @ rest) = Some (mi_payload m, rest)"
    by simp
  show ?thesis
    by (subst parse_messages.simps) (simp add: 1 2 size)
qed

lemma parse_messages_frames:
  assumes "\<forall>m\<in>set ms. frame_ok m \<and> mi_header m \<noteq> XRTP_MSG_SHUTDOWN"
  shows "parse_messages (concat (map frame ms) @ rest) = ms @ parse_messages rest"
  using assms by (induction ms) (auto simp: parse_messages_frame)

lemma parse_messages_Nil [simp]: "parse_messages [] = []"
  by (subst parse_messages.simps) (simp add: read_exact_def message_header_size_def)

section \<open>Pending messages\<close>

definition pending_messages :: "('h, 'e) transport \<Rightarrow> message_in list" where
  "pending_messages t =
     in_queue t @ (if producer_running t then parse_messages (stream_in t) else [])"

definition live :: "('h, 'e) transport \<Rightarrow> bool" where
  "live t \<longleftrightarrow> (status t = STATUS_OPEN \<or> status t = STATUS_WRITE_CLOSED) \<and> peer_open t \<and> stream_open t"

text \<open>What a producer iteration or a wait leaves alone.\<close>

definition transport_view ::
  "('h, 'e) transport \<Rightarrow> transport_status \<times> (u16 \<Rightarrow> 'h option) \<times> bytes \<times> 'e" where
  "transport_view t = (status t, handlers t, stream_out t, app t)"

lemma producer_fail_live [simp]: "live t \<Longrightarrow> producer_fail t = t"
  by (simp add: producer_fail_def live_def)

lemma producer_step_parse:
  assumes "live t" "producer_running t"
  shows "producer_step t =
    (case parse_messages (stream_in t) of
       [] \<Rightarrow> t
     | m # _ \<Rightarrow>
         t\<lparr>stream_in := drop (8 + length (mi_payload m)) (stream_in t),
           in_queue := in_queue t @ [m],
           producer_running := (mi_header m \<noteq> XRTP_MSG_SHUTDOWN)\<rparr>)"
  using assms
  by (subst parse_messages.simps)
    (auto simp: producer_step_def live_def read_exact_Some_iff message_header_size_def Let_def
      producer_fail_def split: option.splits)

lemma parse_messages_Cons:
  assumes "parse_messages bs = m # ms"
  shows "ms = (if mi_header m = XRTP_MSG_SHUTDOWN then []
               else parse_messages (drop (8 + length (mi_payload m)) bs))"
  using assms
  by (subst (asm) parse_messages.simps)
    (auto simp: read_exact_Some_iff message_header_size_def split: option.splits if_splits)

lemma producer_step_live:
  assumes "live t"
  shows "live (producer_step t)" "pending_messages (producer_step t) = pending_messages t"
    "transport_view (producer_step t) = transport_view t"
proof -
  have "live (producer_step t) \<and> pending_messages (producer_step t) = pending_messages t \<and>
    transport_view (producer_step t) = transport_view t"
  proof (cases "producer_running t")
    case False
    with assms show ?thesis by (simp add: producer_step_def)
  next
    case True
    show ?thesis
    proof (cases "parse_messages (stream_in t)")
      case Nil
      then show ?thesis using assms producer_step_parse [OF assms True] by simp
    next
      case (Cons m ms)
      have "producer_step t = t\<lparr>stream_in := drop (8 + length (mi_payload m)) (stream_in t),
           in_queue := in_queue t @ [m],
           producer_running := (mi_header m \<noteq> XRTP_MSG_SHUTDOWN)\<rparr>"
        using producer_step_parse [OF assms True] Cons by simp
      with assms True Cons parse_messages_Cons [OF Cons] show ?thesis
        by (auto simp: live_def pending_messages_def transport_view_def)
    qed
  qed
  then show "live (producer_step t)" "pending_messages (producer_step t) = pending_messages t"
    "transport_view (producer_step t) = transport_view t" by simp_all
qed

lemma producer_steps_live:
  assumes "live t"
  shows "live ((producer_step ^^ k) t)" "pending_messages ((producer_step ^^ k) t) = pending_messages t"
    "transport_view ((producer_step ^^ k) t) = transport_view t"
  using assms by (induction k) (simp_all add: producer_step_live)

lemma producer_step_fills:
  assumes "live t" "in_queue t = []" "pending_messages t = m # ms"
  shows "in_queue (producer_step t) = [m]"
proof -
  from assms have "producer_running t" "parse_messages (stream_in t) = m # ms"
    by (auto simp: pending_messages_def split: if_splits)
  then show ?thesis using assms producer_step_parse [of t] by simp
qed

lemma producer_step_queue_mono:
  assumes "live t"
  shows "\<exists>xs. in_queue (producer_step t) = in_queue t @ xs"
proof (cases "producer_running t")
  case True
  then show ?thesis
    using producer_step_parse [OF assms True] by (auto split: list.splits)
qed (simp add: producer_step_def)

lemma producer_steps_queue_mono:
  assumes "live t"
  shows "\<exists>xs. in_queue ((producer_step ^^ k) t) = in_queue t @ xs"
proof (induction k)
  case (Suc k)
  then show ?case
    using producer_step_queue_mono [OF producer_steps_live(1) [OF assms, of k]] by auto
qed simp

section \<open>Delivery in order\<close>

lemma await_any_next:
  assumes "live t" "pending_messages t = m # ms"
  shows "\<exists>t'. await_any_message k t = (Ret m, t') \<and> live t' \<and> pending_messages t' = ms \<and>
    transport_view t' = transport_view t"
proof -
  define t1 where "t1 = (producer_step ^^ k) t"
  define t2 where "t2 = (if in_queue t1 = [] \<and> status t1 \<noteq> STATUS_CLOSED then producer_step t1 else t1)"
  have t1: "live t1" "pending_messages t1 = m # ms" "transport_view t1 = transport_view t"
    using assms by (simp_all add: t1_def producer_steps_live)
  have t2: "live t2" "pending_messages t2 = m # ms" "transport_view t2 = transport_view t"
    using t1 by (simp_all add: t2_def producer_step_live)
  have "in_queue t2 \<noteq> []"
    using t1 producer_step_fills [OF t1(1) _ t1(2)] by (auto simp: t2_def live_def)
  then obtain q where q: "in_queue t2 = m # q"
    using t2(2) by (cases "in_queue t2") (auto simp: pending_messages_def)
  have "await_any_message k t = (Ret m, t2\<lparr>in_queue := q\<rparr>)"
    using assms(1) t2(1) q
    by (auto simp: await_any_message_def Let_def live_def t1_def [symmetric] t2_def [symmetric])
  moreover have "live (t2\<lparr>in_queue := q\<rparr>)" "pending_messages (t2\<lparr>in_queue := q\<rparr>) = ms"
    "transport_view (t2\<lparr>in_queue := q\<rparr>) = transport_view t"
    using t2 q by (auto simp: live_def pending_messages_def transport_view_def)
  ultimately show ?thesis by blast
qed

lemma await_any_blocks:
  assumes "live t" "pending_messages t = []"
  shows "\<exists>t'. await_any_message k t = (Blocked, t')"
proof -
  define t1 where "t1 = (producer_step ^^ k) t"
  define t2 where "t2 = (if in_queue t1 = [] \<and> status t1 \<noteq> STATUS_CLOSED then producer_step t1 else t1)"
  have t1: "live t1" "pending_messages t1 = []"
    using assms by (simp_all add: t1_def producer_steps_live)
  have t2: "live t2" "pending_messages t2 = []"
    using t1 by (simp_all add: t2_def producer_step_live)
  then have "in_queue t2 = []" by (simp add: pending_messages_def)
  then show ?thesis using assms(1) t2(1)
    by (auto simp: await_any_message_def Let_def live_def t1_def [symmetric] t2_def [symmetric])
qed

section \<open>The waiting loops\<close>

text \<open>
  What the loops rely on: receiving delivers the pending messages in order and blocks when
  there is none; dispatching an ordinary message returns, leaves the pending messages alone
  and acts on the visible state by \<open>effect\<close>.
\<close>

locale message_loop =
  fixes recv :: "nat \<Rightarrow> 's \<Rightarrow> message_in outcome \<times> 's"
    and dispatch :: "message_in \<Rightarrow> 's \<Rightarrow> unit outcome \<times> 's"
    and pend :: "'s \<Rightarrow> message_in list"
    and alive :: "'s \<Rightarrow> bool"
    and view :: "'s \<Rightarrow> 'v"
    and effect :: "message_in \<Rightarrow> 'v \<Rightarrow> 'v"
  assumes recv_next: "alive s \<Longrightarrow> pend s = m # ms \<Longrightarrow>
      \<exists>s'. recv k s = (Ret m, s') \<and> alive s' \<and> pend s' = ms \<and> view s' = view s"
    and recv_blocks: "alive s \<Longrightarrow> pend s = [] \<Longrightarrow> \<exists>s'. recv k s = (Blocked, s')"
    and dispatch_ret: "alive s \<Longrightarrow> mi_header m \<noteq> XRTP_MSG_SHUTDOWN \<Longrightarrow>
      \<exists>s'. dispatch m s = (Ret (), s') \<and> alive s' \<and> pend s' = pend s \<and>
           view s' = effect m (view s)"
begin

lemma await_loop_finds:
  assumes "alive s" "pend s = pre @ m # post"
    "\<forall>x\<in>set pre. mi_header x \<noteq> header \<and> mi_header x \<noteq> XRTP_MSG_SHUTDOWN"
    "mi_header m = header" "length pre < fuel"
  shows "\<exists>s'. await_loop recv dispatch fuel sched header s = Some (Ret (mi_payload m), s') \<and>
    alive s' \<and> pend s' = post \<and> view s' = fold effect pre (view s)"
  using assms
proof (induction pre arbitrary: s fuel)
  case Nil
  then obtain n where n: "fuel = Suc n" by (cases fuel) auto
  obtain s' where "recv (sched n) s = (Ret m, s')" "alive s'" "pend s' = post" "view s' = view s"
    using recv_next [of s m post "sched n"] Nil.prems by auto
  then show ?case using Nil.prems n by simp
next
  case (Cons x pre)
  then obtain n where n: "fuel = Suc n" by (cases fuel) auto
  obtain s1 where s1: "recv (sched n) s = (Ret x, s1)" "alive s1" "pend s1 = pre @ m # post"
    "view s1 = view s"
    using recv_next [of s x "pre @ m # post" "sched n"] Cons.prems by auto
  obtain s2 where s2: "dispatch x s1 = (Ret (), s2)" "alive s2" "pend s2 = pend s1"
    "view s2 = effect x (view s1)"
    using dispatch_ret [OF s1(2), of x] Cons.prems by auto
  have "\<exists>s'. await_loop recv dispatch n sched header s2 = Some (Ret (mi_payload m), s') \<and>
    alive s' \<and> pend s' = post \<and> view s' = fold effect pre (view s2)"
    using Cons.IH [of s2 n] Cons.prems s1 s2 n by simp
  then show ?case using n s1 s2 Cons.prems by simp
qed

lemma await_loop_blocks:
  assumes "alive s" "\<forall>x\<in>set (pend s). mi_header x \<noteq> header \<and> mi_header x \<noteq> XRTP_MSG_SHUTDOWN"
    "length (pend s) < fuel"
  shows "\<exists>s'. await_loop recv dispatch fuel sched header s = Some (Blocked, s')"
  using assms
proof (induction "pend s" arbitrary: s fuel)
  case Nil
  then obtain n where n: "fuel = Suc n" by (cases fuel) auto
  then show ?case using recv_blocks [of s "sched n"] Nil by auto
next
  case (Cons x xs)
  then obtain n where n: "fuel = Suc n" by (cases fuel) auto
  obtain s1 where s1: "recv (sched n) s = (Ret x, s1)" "alive s1" "pend s1 = xs"
    using recv_next [of s x xs "sched n"] Cons by metis
  have x: "mi_header x \<noteq> header" "mi_header x \<noteq> XRTP_MSG_SHUTDOWN"
    using Cons.prems(2) Cons.hyps(2) [symmetric] by simp_all
  obtain s2 where s2: "dispatch x s1 = (Ret (), s2)" "alive s2" "pend s2 = pend s1"
    using dispatch_ret [OF s1(2) x(2)] by blast
  have "\<exists>s'. await_loop recv dispatch n sched header s2 = Some (Blocked, s')"
    using Cons.hyps(1) [of s2 n] Cons.prems Cons.hyps(2) [symmetric] s1 s2 n by simp
  then show ?case using n s1 s2 x by simp
qed

lemma handle_loop_finds:
  assumes "alive s" "pend s = pre @ m # post"
    "\<forall>x\<in>set pre. mi_header x \<noteq> header \<and> mi_header x \<noteq> XRTP_MSG_SHUTDOWN"
    "mi_header m = header" "header \<noteq> XRTP_MSG_SHUTDOWN" "length pre < fuel"
  shows "\<exists>s'. handle_loop recv dispatch fuel sched header s = Some (Ret (), s') \<and>
    alive s' \<and> pend s' = post \<and> view s' = fold effect (pre @ [m]) (view s)"
  using assms
proof (induction pre arbitrary: s fuel)
  case Nil
  then obtain n where n: "fuel = Suc n" by (cases fuel) auto
  obtain s1 where s1: "recv (sched n) s = (Ret m, s1)" "alive s1" "pend s1 = post" "view s1 = view s"
    using recv_next [of s m post "sched n"] Nil.prems by auto
  obtain s2 where s2: "dispatch m s1 = (Ret (), s2)" "alive s2" "pend s2 = pend s1"
    "view s2 = effect m (view s1)"
    using dispatch_ret [OF s1(2), of m] Nil.prems by auto
  then show ?case using Nil.prems n s1 by simp
next
  case (Cons x pre)
  then obtain n where n: "fuel = Suc n" by (cases fuel) auto
  obtain s1 where s1: "recv (sched n) s = (Ret x, s1)" "alive s1" "pend s1 = pre @ m # post"
    "view s1 = view s"
    using recv_next [of s x "pre @ m # post" "sched n"] Cons.prems by auto
  obtain s2 where s2: "dispatch x s1 = (Ret (), s2)" "alive s2" "pend s2 = pend s1"
    "view s2 = effect x (view s1)"
    using dispatch_ret [OF s1(2), of x] Cons.prems by auto
  have "\<exists>s'. handle_loop recv dispatch n sched header s2 = Some (Ret (), s') \<and>
    alive s' \<and> pend s' = post \<and> view s' = fold effect (pre @ [m]) (view s2)"
    using Cons.IH [of s2 n] Cons.prems s1 s2 n by simp
  then show ?case using n s1 s2 Cons.prems by simp
qed

end

section \<open>Handlers that reply\<close>

text \<open>
  The handlers of the program read their payload, work on their own state, and answer with
  complete messages (\<open>Server::run\<close>, \<open>FunctionDispatch\<close>): a function \<open>f\<close> from the handler, the
  payload and the application state to the new state and the replies.
\<close>

definition reply_exec ::
  "('h \<Rightarrow> bytes \<Rightarrow> 'e \<Rightarrow> 'e \<times> message_in list) \<Rightarrow> ('h, 'e) handler_exec" where
  "reply_exec f h payload t =
     (case f h payload (app t) of (e, replies) \<Rightarrow> send_all replies (t\<lparr>app := e\<rparr>))"

definition reply_effect ::
  "('h \<Rightarrow> bytes \<Rightarrow> 'e \<Rightarrow> 'e \<times> message_in list) \<Rightarrow> message_in \<Rightarrow>
   transport_status \<times> (u16 \<Rightarrow> 'h option) \<times> bytes \<times> 'e \<Rightarrow>
   transport_status \<times> (u16 \<Rightarrow> 'h option) \<times> bytes \<times> 'e" where
  "reply_effect f m v =
     (case v of (st, hs, out, e) \<Rightarrow>
        (case hs (mi_header m) of
           None \<Rightarrow> v
         | Some h \<Rightarrow>
             (st, hs,
              (if st = STATUS_OPEN then out @ concat (map frame (snd (f h (mi_payload m) e))) else out),
              fst (f h (mi_payload m) e))))"

lemma dispatch_reply:
  assumes "live t" "mi_header m \<noteq> XRTP_MSG_SHUTDOWN"
  shows "\<exists>t'. dispatch_to_handler (reply_exec f) m t = (Ret (), t') \<and> live t' \<and>
    pending_messages t' = pending_messages t \<and>
    transport_view t' = reply_effect f m (transport_view t)"
proof (cases "handlers t (mi_header m)")
  case None
  with assms show ?thesis
    by (simp add: dispatch_to_handler_def transport_view_def reply_effect_def)
next
  case (Some h)
  obtain e rs where f: "f h (mi_payload m) (app t) = (e, rs)" by (cases "f h (mi_payload m) (app t)")
  show ?thesis
  proof (cases "status t = STATUS_OPEN")
    case True
    have "send_all rs (t\<lparr>app := e\<rparr>)
        = (Ret (), t\<lparr>app := e, stream_out := stream_out t @ concat (map frame rs)\<rparr>)"
      using send_all_open [of "t\<lparr>app := e\<rparr>" rs] assms(1) True by (simp add: live_def)
    then show ?thesis using assms True Some f
      by (simp add: dispatch_to_handler_def reply_exec_def live_def pending_messages_def
          transport_view_def reply_effect_def)
  next
    case False
    then obtain r where r: "send_all rs (t\<lparr>app := e\<rparr>) = (r, t\<lparr>app := e\<rparr>)"
      "r = Ret () \<or> (\<exists>x. r = Throw x)"
      using send_all_not_open [of "t\<lparr>app := e\<rparr>" rs] by auto
    have "dispatch_to_handler (reply_exec f) m t = (Ret (), t\<lparr>app := e\<rparr>)"
      using assms(2) Some f r by (elim disjE exE) (simp_all add: dispatch_to_handler_def reply_exec_def)
    then show ?thesis using assms(1) False Some f
      by (simp add: live_def pending_messages_def transport_view_def reply_effect_def)
  qed
qed

interpretation reply: message_loop await_any_message "dispatch_to_handler (reply_exec f)"
  pending_messages live transport_view "reply_effect f"
  for f :: "'h \<Rightarrow> bytes \<Rightarrow> 'e \<Rightarrow> 'e \<times> message_in list"
proof
  show "\<exists>s'. await_any_message k s = (Ret m, s') \<and> live s' \<and> pending_messages s' = ms \<and>
      transport_view s' = transport_view s"
    if "live s" "pending_messages s = m # ms"
    for s :: "('h, 'e) transport" and m ms k
    using that by (rule await_any_next)
  show "\<exists>s'. await_any_message k s = (Blocked, s')"
    if "live s" "pending_messages s = []" for s :: "('h, 'e) transport" and k
    using that by (rule await_any_blocks)
  show "\<exists>s'. dispatch_to_handler (reply_exec f) m s = (Ret (), s') \<and> live s' \<and>
      pending_messages s' = pending_messages s \<and> transport_view s' = reply_effect f m (transport_view s)"
    if "live s" "mi_header m \<noteq> XRTP_MSG_SHUTDOWN" for s :: "('h, 'e) transport" and m
    using that by (rule dispatch_reply)
qed

end
