(* ===== verification/Transport_Props.thy ===== *)
theory Transport_Props
  imports Transport_Laws
begin

text \<open>
  The properties of \<open>TransportImpl\<close>: what one side sends the other receives, the waits
  deliver in order under every interleaving with the producer, the status only moves
  forward, an orderly shutdown loses nothing, and what happens when a connection is lost.
\<close>

section \<open>Receiving everything\<close>

fun receive_all ::
  "nat list \<Rightarrow> ('h, 'e) transport \<Rightarrow> message_in list outcome \<times> ('h, 'e) transport" where
  "receive_all [] t = (Ret [], t)"
| "receive_all (k # ks) t =
     (case await_any_message k t of
        (Ret m, t') \<Rightarrow>
          (case receive_all ks t' of
             (Ret ms, t'') \<Rightarrow> (Ret (m # ms), t'')
           | (other, t'') \<Rightarrow> (other, t''))
      | (Throw e, t') \<Rightarrow> (Throw e, t')
      | (Terminate, t') \<Rightarrow> (Terminate, t')
      | (Fault, t') \<Rightarrow> (Fault, t')
      | (Blocked, t') \<Rightarrow> (Blocked, t'))"

lemma receive_all_pending:
  assumes "live t" "pending_messages t = ms @ post" "length ks = length ms"
  shows "\<exists>t'. receive_all ks t = (Ret ms, t') \<and> live t' \<and> pending_messages t' = post \<and>
    transport_view t' = transport_view t"
  using assms
proof (induction ks arbitrary: t ms)
  case (Cons k ks)
  then obtain m ms' where ms: "ms = m # ms'" by (cases ms) auto
  then obtain t1 where t1: "await_any_message k t = (Ret m, t1)" "live t1"
    "pending_messages t1 = ms' @ post" "transport_view t1 = transport_view t"
    using await_any_next [OF Cons.prems(1), of m "ms' @ post" k] Cons.prems(2) by auto
  then obtain t2 where "receive_all ks t1 = (Ret ms', t2)" "live t2" "pending_messages t2 = post"
    "transport_view t2 = transport_view t1"
    using Cons.IH [of t1 ms'] Cons.prems(3) ms by auto
  then show ?case using t1 ms by simp
qed simp

text \<open>A started transport whose peer's bytes are \<open>inp\<close>.\<close>

definition connected :: "bytes \<Rightarrow> 'e \<Rightarrow> ('h, 'e) transport" where
  "connected inp e = snd (start (transport_create inp e))"

lemma connected_simps [simp]:
  "status (connected inp e) = STATUS_OPEN" "in_queue (connected inp e) = []"
  "handlers (connected inp e) = (\<lambda>_. None)" "stream_in (connected inp e) = inp"
  "peer_open (connected inp e)" "stream_out (connected inp e) = []"
  "stream_open (connected inp e)" "producer_running (connected inp e)" "app (connected inp e) = e"
  by (simp_all add: connected_def start_def transport_create_def)

lemma live_connected [simp]: "live (connected inp e)"
  by (simp add: live_def)

text \<open>
  C1: The messages that one side sends with \<open>start_message\<close>, \<open>write\<close>, \<open>flush\<close> are exactly the
  messages, in order and with the same payloads, that the other side receives, however its
  producer thread is scheduled between the waits.
\<close>

theorem sent_messages_received:
  assumes "\<forall>m\<in>set ms. frame_ok m \<and> mi_header m \<noteq> XRTP_MSG_SHUTDOWN"
    and "length ks = length ms"
  shows "\<exists>a b. send_all ms (connected inp e) = (Ret (), a) \<and>
    receive_all ks (connected (stream_out a) e') = (Ret ms, b) \<and> pending_messages b = []"
proof -
  let ?a = "(connected inp e)\<lparr>stream_out := concat (map frame ms)\<rparr>"
  have "send_all ms (connected inp e) = (Ret (), ?a)"
    by (simp add: send_all_open)
  moreover have "pending_messages (connected (stream_out ?a) e') = ms"
    using parse_messages_frames [OF assms(1), of "[]"] by (simp add: pending_messages_def)
  then have "\<exists>b. receive_all ks (connected (stream_out ?a) e') = (Ret ms, b) \<and> pending_messages b = []"
    using receive_all_pending [of "connected (stream_out ?a) e'" ms "[]" ks] assms(2) by auto
  ultimately show ?thesis by blast
qed

theorem sent_messages_received_witness:
  "\<exists>a b. send_all [\<lparr>mi_header = 3, mi_payload = [1, 2]\<rparr>, \<lparr>mi_header = 4, mi_payload = []\<rparr>]
      (connected [] ()) = (Ret (), a) \<and>
    receive_all [0, 2] (connected (stream_out a) ())
      = (Ret [\<lparr>mi_header = 3, mi_payload = [1, 2]\<rparr>, \<lparr>mi_header = 4, mi_payload = []\<rparr>], b) \<and>
    pending_messages b = []"
  by (rule sent_messages_received) (simp_all add: frame_ok_def XRTP_MSG_SHUTDOWN_def)

section \<open>The producer\<close>

text \<open>
  C35: On a live connection the receive queue after \<open>k\<close> iterations of \<open>producer_loop\<close> is the
  first \<open>k\<close> messages of the byte stream: a message is queued only when it is complete, and
  nothing is read after a shutdown message.
\<close>

theorem producer_queues_parsed_prefix:
  assumes "live t" "producer_running t" "in_queue t = []"
  shows "in_queue ((producer_step ^^ k) t) = take k (parse_messages (stream_in t))"
  using assms
proof -
  have "in_queue ((producer_step ^^ k) t) = in_queue t @ take k (parse_messages (stream_in t))"
    if "live t" "producer_running t" for t :: "('a, 'b) transport"
    using that
  proof (induction k arbitrary: t)
    case (Suc k)
    show ?case
    proof (cases "parse_messages (stream_in t)")
      case Nil
      then have "producer_step t = t" using producer_step_parse [OF Suc.prems] by simp
      then show ?thesis using Suc Nil by (simp add: funpow_swap1)
    next
      case (Cons m ms)
      let ?t = "t\<lparr>stream_in := drop (8 + length (mi_payload m)) (stream_in t),
           in_queue := in_queue t @ [m], producer_running := (mi_header m \<noteq> XRTP_MSG_SHUTDOWN)\<rparr>"
      have step: "producer_step t = ?t" using producer_step_parse [OF Suc.prems] Cons by simp
      have l: "live ?t" using Suc.prems by (simp add: live_def)
      have "in_queue ((producer_step ^^ k) ?t) = in_queue t @ m # take k ms"
      proof (cases "mi_header m = XRTP_MSG_SHUTDOWN")
        case True
        then have "producer_step ?t = ?t" by (simp add: producer_step_def)
        then have "(producer_step ^^ k) ?t = ?t" by (induction k) simp_all
        then show ?thesis using parse_messages_Cons [OF Cons] True by simp
      next
        case False
        then show ?thesis using Suc.IH [OF l] parse_messages_Cons [OF Cons] by simp
      qed
      then show ?thesis using step Cons by (simp add: funpow_swap1)
    qed
  qed simp
  then show ?thesis using assms by simp
qed

theorem producer_queues_parsed_prefix_witness:
  "in_queue ((producer_step ^^ 5)
      (connected (frame \<lparr>mi_header = 7, mi_payload = [9]\<rparr> @ []) () :: (nat, unit) transport))
     = [\<lparr>mi_header = 7, mi_payload = [9]\<rparr>]"
  using producer_queues_parsed_prefix
      [of "connected (frame \<lparr>mi_header = 7, mi_payload = [9]\<rparr> @ []) () :: (nat, unit) transport" 5]
  by (simp add: parse_messages_frame [of _ "[]", simplified] frame_ok_def XRTP_MSG_SHUTDOWN_def)

section \<open>Waiting\<close>

text \<open>
  C12: \<open>await_message(h)\<close> returns the payload of the first pending message with header \<open>h\<close>, for
  every schedule of the producer. The messages before it have been dispatched to their handlers,
  in order, with their replies on the stream; the messages after it are still pending.
\<close>

theorem await_message_first_match:
  assumes "live t" "pending_messages t = pre @ m # post"
    and "\<forall>x\<in>set pre. mi_header x \<noteq> mi_header m \<and> mi_header x \<noteq> XRTP_MSG_SHUTDOWN"
    and "mi_header m \<noteq> XRTP_MSG_SHUTDOWN" "length pre < fuel"
  shows "\<exists>t'. await_message (reply_exec f) fuel sched (mi_header m) t = Some (Ret (mi_payload m), t') \<and>
    live t' \<and> pending_messages t' = post \<and>
    transport_view t' = fold (reply_effect f) pre (transport_view t)"
  using reply.await_loop_finds [OF assms(1,2,3) refl assms(5)] assms(1,4)
  by (auto simp: await_message_def live_def)

theorem await_message_first_match_witness:
  "\<exists>t' :: (nat, bytes list) transport.
    await_message (reply_exec (\<lambda>h p e. (p # e, []))) 2 (\<lambda>_. 1) (mi_header \<lparr>mi_header = 5, mi_payload = [1]\<rparr>)
      ((register_handler 6 0 (connected [] []))\<lparr>in_queue :=
         [\<lparr>mi_header = 6, mi_payload = [7]\<rparr>] @ \<lparr>mi_header = 5, mi_payload = [1]\<rparr> # []\<rparr>)
      = Some (Ret (mi_payload \<lparr>mi_header = 5, mi_payload = [1]\<rparr>), t') \<and>
    live t' \<and> pending_messages t' = [] \<and>
    transport_view t' = fold (reply_effect (\<lambda>h p e. (p # e, []))) [\<lparr>mi_header = 6, mi_payload = [7]\<rparr>]
      (transport_view ((register_handler 6 0 (connected [] []))\<lparr>in_queue :=
         [\<lparr>mi_header = 6, mi_payload = [7]\<rparr>] @ \<lparr>mi_header = 5, mi_payload = [1]\<rparr> # []\<rparr>))"
  by (rule await_message_first_match)
    (simp_all add: live_def register_handler_def pending_messages_def XRTP_MSG_SHUTDOWN_def)

text \<open>
  When no pending message has the awaited header (and none is a shutdown), \<open>await_message\<close>
  works through all of them and then waits: it neither returns another message nor fails.
\<close>

theorem await_message_waits:
  assumes "live t" "header \<noteq> XRTP_MSG_SHUTDOWN"
    and "\<forall>x\<in>set (pending_messages t). mi_header x \<noteq> header \<and> mi_header x \<noteq> XRTP_MSG_SHUTDOWN"
    and "length (pending_messages t) < fuel"
  shows "\<exists>t'. await_message (reply_exec f) fuel sched header t = Some (Blocked, t')"
  using reply.await_loop_blocks [OF assms(1,3,4)] assms(1,2)
  by (auto simp: await_message_def live_def)

theorem await_message_waits_witness:
  "\<exists>t' :: (nat, unit) transport.
    await_message (reply_exec (\<lambda>h p e. (e, []))) 2 (\<lambda>_. 0) 8
      (connected (frame \<lparr>mi_header = 7, mi_payload = []\<rparr>) ()) = Some (Blocked, t')"
  by (rule await_message_waits)
    (simp_all add: pending_messages_def XRTP_MSG_SHUTDOWN_def frame_ok_def
      parse_messages_frame [where rest = "[]", simplified])

text \<open>
  \<open>handle_message(h)\<close> dispatches the pending messages up to and including the first one
  with header \<open>h\<close> to their handlers and returns; the later ones stay pending.
\<close>

theorem handle_message_dispatches:
  assumes "live t" "pending_messages t = pre @ m # post"
    and "\<forall>x\<in>set pre. mi_header x \<noteq> mi_header m \<and> mi_header x \<noteq> XRTP_MSG_SHUTDOWN"
    and "mi_header m \<noteq> XRTP_MSG_SHUTDOWN" "length pre < fuel"
  shows "\<exists>t'. handle_message (reply_exec f) fuel sched (mi_header m) t = Some (Ret (), t') \<and>
    live t' \<and> pending_messages t' = post \<and>
    transport_view t' = fold (reply_effect f) (pre @ [m]) (transport_view t)"
  using reply.handle_loop_finds [OF assms(1,2,3) refl assms(4,5)] assms(1)
  by (auto simp: handle_message_def live_def)

theorem handle_message_dispatches_witness:
  "\<exists>t' :: (nat, bytes list) transport.
    handle_message (reply_exec (\<lambda>h p e. (p # e, []))) 2 (\<lambda>_. 1) (mi_header \<lparr>mi_header = 5, mi_payload = [1]\<rparr>)
      ((register_handler 5 0 (connected [] []))\<lparr>in_queue := [] @ \<lparr>mi_header = 5, mi_payload = [1]\<rparr> # []\<rparr>)
      = Some (Ret (), t') \<and>
    live t' \<and> pending_messages t' = [] \<and>
    transport_view t' = fold (reply_effect (\<lambda>h p e. (p # e, []))) ([] @ [\<lparr>mi_header = 5, mi_payload = [1]\<rparr>])
      (transport_view ((register_handler 5 0 (connected [] []))\<lparr>in_queue :=
         [] @ \<lparr>mi_header = 5, mi_payload = [1]\<rparr> # []\<rparr>))"
  by (rule handle_message_dispatches)
    (simp_all add: live_def register_handler_def pending_messages_def XRTP_MSG_SHUTDOWN_def)

section \<open>Status and output over time\<close>

fun status_rank :: "transport_status \<Rightarrow> nat" where
  "status_rank STATUS_CREATED = 0"
| "status_rank STATUS_OPEN = 1"
| "status_rank STATUS_WRITE_CLOSED = 2"
| "status_rank STATUS_CLOSED = 3"

definition no_shutdown :: "message_in list \<Rightarrow> bool" where
  "no_shutdown ms \<longleftrightarrow> (\<forall>m\<in>set ms. mi_header m \<noteq> XRTP_MSG_SHUTDOWN)"

text \<open>
  What may lie between two states: the status did not move back, the stream got whole frames
  only, none unless the transport was open, and a shutdown frame only as the last one and
  only on the way out of the open status.
\<close>

definition evolves :: "('h, 'e) transport \<Rightarrow> ('h, 'e) transport \<Rightarrow> bool" where
  "evolves t t' \<longleftrightarrow> status_rank (status t) \<le> status_rank (status t') \<and>
     (\<exists>ms. stream_out t' = stream_out t @ concat (map frame ms) \<and>
        (status t \<noteq> STATUS_OPEN \<longrightarrow> status t \<noteq> STATUS_CREATED \<longrightarrow> ms = []) \<and>
        (no_shutdown ms \<or> no_shutdown (butlast ms) \<and> 2 \<le> status_rank (status t')))"

lemma evolves_same:
  "status_rank (status t) \<le> status_rank (status t') \<Longrightarrow> stream_out t' = stream_out t \<Longrightarrow> evolves t t'"
  by (auto simp: evolves_def no_shutdown_def intro!: exI [of _ "[]"])

lemma evolves_refl [simp]: "evolves t t"
  by (simp add: evolves_same)

lemma status_rank_ge2: "2 \<le> status_rank st \<longleftrightarrow> st \<noteq> STATUS_OPEN \<and> st \<noteq> STATUS_CREATED"
  by (cases st) simp_all

lemma evolves_trans:
  assumes "evolves t t'" "evolves t' t''"
  shows "evolves t t''"
proof -
  from assms(1) obtain ms where ms: "stream_out t' = stream_out t @ concat (map frame ms)"
    "status t \<noteq> STATUS_OPEN \<longrightarrow> status t \<noteq> STATUS_CREATED \<longrightarrow> ms = []"
    "no_shutdown ms \<or> no_shutdown (butlast ms) \<and> 2 \<le> status_rank (status t')"
    by (auto simp: evolves_def)
  from assms(2) obtain ns where ns: "stream_out t'' = stream_out t' @ concat (map frame ns)"
    "status t' \<noteq> STATUS_OPEN \<longrightarrow> status t' \<noteq> STATUS_CREATED \<longrightarrow> ns = []"
    "no_shutdown ns \<or> no_shutdown (butlast ns) \<and> 2 \<le> status_rank (status t'')"
    by (auto simp: evolves_def)
  have rank: "status_rank (status t) \<le> status_rank (status t')"
    "status_rank (status t') \<le> status_rank (status t'')"
    using assms by (auto simp: evolves_def)
  have "status t \<noteq> STATUS_OPEN \<longrightarrow> status t \<noteq> STATUS_CREATED \<longrightarrow> ms @ ns = []"
    using ms(2) ns(2) rank(1) status_rank_ge2 [of "status t"] status_rank_ge2 [of "status t'"] by auto
  moreover have "no_shutdown (ms @ ns) \<or> no_shutdown (butlast (ms @ ns)) \<and> 2 \<le> status_rank (status t'')"
  proof (cases "no_shutdown ms")
    case True
    then show ?thesis using ns(3) by (auto simp: no_shutdown_def butlast_append)
  next
    case False
    then have "no_shutdown (butlast ms)" "2 \<le> status_rank (status t')" "ns = []"
      using ms(3) ns(2) status_rank_ge2 by auto
    then show ?thesis using rank by simp
  qed
  ultimately show ?thesis using ms(1) ns(1) rank
    unfolding evolves_def by (intro conjI exI [of _ "ms @ ns"]) auto
qed

lemma send_message_result:
  "send_message code payload t = (Ret (), t\<lparr>stream_out := stream_out t @
       frame \<lparr>mi_header = code, mi_payload = payload\<rparr>\<rparr>) \<and> status t = STATUS_OPEN \<or>
   (\<exists>r. send_message code payload t = (r, t) \<and> r \<noteq> Ret ())"
proof (cases "status t = STATUS_OPEN \<and> stream_open t")
  case True
  then show ?thesis using send_message_open by blast
next
  case False
  show ?thesis
  proof (cases "status t = STATUS_OPEN")
    case True
    with False have st: "flush_to_stream bs t = (Throw (System_error System_category 9), t)" for bs
      by (simp add: flush_to_stream_def stream_write_def)
    obtain m where m: "message_out_seal (message_out_write payload (message_out_init code)) = Ret m"
      "sb_buffer (mo_buffer m) = frame \<lparr>mi_header = code, mi_payload = payload\<rparr>"
      using message_out_seal_frame by blast
    have "\<exists>m'. message_out_flush (message_out_write payload (message_out_init code)) t
        = (Throw (System_error System_category 9), m, t)"
      using m st by (simp add: message_out_flush_def message_out_buffer message_header_size_def)
    moreover obtain m2 where "message_out_seal m = Ret m2"
      using m(2) by (simp add: message_out_seal_def length_frame message_header_size_def Let_def)
    then have "fst (message_out_release m t) = Terminate \<and> snd (message_out_release m t) = t"
      using m(2) st length_frame [of "\<lparr>mi_header = code, mi_payload = payload\<rparr>"]
      by (auto simp: message_out_release_def message_out_flush_def)
    ultimately show ?thesis using True
      by (cases "message_out_release m t") (auto simp: send_message_def start_message_def)
  next
    case False
    then show ?thesis using send_message_not_open [OF False, of code payload] by auto
  qed
qed

lemma evolves_send:
  assumes "code \<noteq> XRTP_MSG_SHUTDOWN"
  shows "evolves t (snd (send_message code payload t))"
  using send_message_result [of code payload t]
proof (elim disjE conjE exE)
  assume s: "send_message code payload t = (Ret (), t\<lparr>stream_out := stream_out t @
       frame \<lparr>mi_header = code, mi_payload = payload\<rparr>\<rparr>)" "status t = STATUS_OPEN"
  then show ?thesis using assms
    by (auto simp: evolves_def no_shutdown_def
        intro!: exI [of _ "[\<lparr>mi_header = code, mi_payload = payload\<rparr>]"])
qed simp

lemma evolves_send_all:
  assumes "no_shutdown ms"
  shows "evolves t (snd (send_all ms t))"
  using assms
proof (induction ms arbitrary: t)
  case (Cons m ms)
  obtain r t1 where s: "send_message (mi_header m) (mi_payload m) t = (r, t1)" by force
  have 1: "evolves t t1"
    using evolves_send [of "mi_header m" t "mi_payload m"] Cons.prems s by (simp add: no_shutdown_def)
  have 2: "evolves t1 (snd (send_all ms t1))" using Cons by (simp add: no_shutdown_def)
  show ?case using s 1 evolves_trans [OF 1 2] by (cases r) simp_all
qed simp

text \<open>Sending a shutdown frame and leaving the open status at once, as both senders of it do.\<close>

lemma evolves_send_shutdown:
  assumes "send_message XRTP_MSG_SHUTDOWN [] t = (Ret (), t1)" "status t2 = STATUS_WRITE_CLOSED \<or> status t2 = STATUS_CLOSED"
    "stream_out t2 = stream_out t1"
  shows "evolves t t2"
  using assms send_message_result [of XRTP_MSG_SHUTDOWN "[]" t]
  by (auto simp: evolves_def no_shutdown_def
      intro!: exI [of _ "[\<lparr>mi_header = XRTP_MSG_SHUTDOWN, mi_payload = []\<rparr>]"])

lemma send_message_failed: "send_message c p t = (r, t1) \<Longrightarrow> r \<noteq> Ret () \<Longrightarrow> t1 = t"
  using send_message_result [of c p t] by auto

lemma status_rank_le3: "status_rank st \<le> 3"
  by (cases st) simp_all

lemma evolves_stop_threads: "evolves t (stop_threads t)" "evolves t (close_transport t)"
  by (rule evolves_same; simp add: stop_threads_def close_transport_def status_rank_le3)+

lemma evolves_producer: "evolves t (producer_step t)"
  by (rule evolves_same)
    (auto simp: producer_step_def producer_fail_def close_transport_def stop_threads_def Let_def
      status_rank_le3 split: option.splits)

lemma evolves_producers: "evolves t ((producer_step ^^ k) t)"
  by (induction k) (auto intro: evolves_trans evolves_producer)

lemma evolves_dispatch:
  assumes "\<And>h p e. no_shutdown (snd (f h p e))"
  shows "evolves t (snd (dispatch_to_handler (reply_exec f) m t))"
proof (cases "mi_header m = XRTP_MSG_SHUTDOWN")
  case True
  obtain r t1 where s: "send_message XRTP_MSG_SHUTDOWN [] t = (r, t1)" by force
  show ?thesis
  proof (cases "r = Ret ()")
    case r: True
    have "evolves t (stop_threads t1)"
      using s r by (intro evolves_send_shutdown) (auto simp: stop_threads_def)
    then show ?thesis using True s r
      by (simp add: dispatch_to_handler_def evolves_stop_threads)
  next
    case False
    then show ?thesis using True s send_message_failed [OF s]
      by (cases r) (simp_all add: dispatch_to_handler_def evolves_stop_threads)
  qed
next
  case False
  show ?thesis
  proof (cases "handlers t (mi_header m)")
    case None
    then show ?thesis using False by (simp add: dispatch_to_handler_def)
  next
    case (Some h)
    obtain e rs where f: "f h (mi_payload m) (app t) = (e, rs)" by force
    have "evolves t (t\<lparr>app := e\<rparr>)" by (rule evolves_same) simp_all
    moreover have "evolves (t\<lparr>app := e\<rparr>) (snd (send_all rs (t\<lparr>app := e\<rparr>)))"
      using evolves_send_all assms [of h "mi_payload m" "app t"] f by simp
    ultimately have "evolves t (snd (send_all rs (t\<lparr>app := e\<rparr>)))" by (rule evolves_trans)
    moreover have "snd (dispatch_to_handler (reply_exec f) m t) = snd (send_all rs (t\<lparr>app := e\<rparr>))"
      using False Some f
      by (auto simp: dispatch_to_handler_def reply_exec_def split: prod.split outcome.split)
    ultimately show ?thesis by simp
  qed
qed

lemma evolves_await_any: "evolves t (snd (await_any_message k t))"
proof -
  define t1 where "t1 = (producer_step ^^ k) t"
  obtain t2 where t2: "t2 = (if in_queue t1 = [] \<and> status t1 \<noteq> STATUS_CLOSED then producer_step t1 else t1)"
    by simp
  have "evolves t t2"
    using evolves_producers [of t k] evolves_producer [of t1]
    by (auto simp: t1_def t2 intro: evolves_trans)
  moreover have "evolves t2 (t2\<lparr>in_queue := q\<rparr>)" for q by (rule evolves_same) simp_all
  ultimately have "evolves t (t2\<lparr>in_queue := q\<rparr>)" for q by (rule evolves_trans)
  then show ?thesis using \<open>evolves t t2\<close>
    unfolding await_any_message_def Let_def t1_def [symmetric] t2 [symmetric]
    by (auto split: list.split)
qed

lemma evolves_await_loop:
  assumes "\<And>k s. evolves s (snd (recv k s))" "\<And>m s. evolves s (snd (dispatch m s))"
  shows "await_loop recv dispatch fuel sched header t = Some (r, t') \<Longrightarrow> evolves t t'"
proof (induction fuel arbitrary: t)
  case (Suc fuel)
  obtain r1 t1 where 1: "recv (sched fuel) t = (r1, t1)" by force
  have e1: "evolves t t1" using assms(1) [of t "sched fuel"] 1 by simp
  show ?case
  proof (cases r1)
    case (Ret m)
    obtain r2 t2 where 2: "dispatch m t1 = (r2, t2)" by force
    have e2: "evolves t t2" using assms(2) [of t1 m] 2 e1 by (auto intro: evolves_trans)
    show ?thesis using Suc.prems 1 2 Ret e1 e2 Suc.IH [of t2]
      by (auto split: if_splits outcome.splits intro: evolves_trans)
  qed (use Suc.prems 1 e1 in auto)
qed simp

lemma evolves_handle_loop:
  assumes "\<And>k s. evolves s (snd (recv k s))" "\<And>m s. evolves s (snd (dispatch m s))"
  shows "handle_loop recv dispatch fuel sched header t = Some (r, t') \<Longrightarrow> evolves t t'"
proof (induction fuel arbitrary: t)
  case (Suc fuel)
  obtain r1 t1 where 1: "recv (sched fuel) t = (r1, t1)" by force
  have e1: "evolves t t1" using assms(1) [of t "sched fuel"] 1 by simp
  show ?case
  proof (cases r1)
    case (Ret m)
    obtain r2 t2 where 2: "dispatch m t1 = (r2, t2)" by force
    have e2: "evolves t t2" using assms(2) [of t1 m] 2 e1 by (auto intro: evolves_trans)
    show ?thesis using Suc.prems 1 2 Ret e1 e2 Suc.IH [of t2]
      by (auto split: if_splits outcome.splits intro: evolves_trans)
  qed (use Suc.prems 1 e1 in auto)
qed simp

text \<open>
  The calls that users and threads make, as data. \<open>shutdown\<close> is two operations: a thread that has
  flushed its message still holds the message lock and has the status to store. Meanwhile only
  what does not take that lock goes on: the producer, \<open>close\<close> and \<open>start\<close>; everybody else waits. A
  dispatch and a wait are one operation each, with the producer iterations of the schedule.
\<close>

datatype 'h transport_op =
    Op_start | Op_shutdown_flush | Op_shutdown_store | Op_close | Op_destroy | Op_producer | Op_consumer
  | Op_register u16 'h | Op_unregister u16 | Op_clear
  | Op_send u16 bytes | Op_await nat "nat \<Rightarrow> nat" u16 | Op_handle nat "nat \<Rightarrow> nat" u16

record ('h, 'e) shared_transport =
  transport_of :: "('h, 'e) transport"
  flushed :: bool

definition result_state :: "'s \<Rightarrow> ('r \<times> 's) option \<Rightarrow> 's" where
  "result_state t r = (case r of None \<Rightarrow> t | Some (_, t') \<Rightarrow> t')"

text \<open>The operations that are one step of the transport.\<close>

fun plain_op :: "('h, 'e) handler_exec \<Rightarrow> 'h transport_op \<Rightarrow> ('h, 'e) transport \<Rightarrow> ('h, 'e) transport" where
  "plain_op exec Op_start t = snd (start t)"
| "plain_op exec Op_close t = close_transport t"
| "plain_op exec Op_destroy t = transport_destroy t"
| "plain_op exec Op_producer t = producer_step t"
| "plain_op exec Op_consumer t = snd (consumer_step exec t)"
| "plain_op exec (Op_register header h) t = register_handler header h t"
| "plain_op exec (Op_unregister header) t = unregister_handler header t"
| "plain_op exec Op_clear t = clear_handlers t"
| "plain_op exec (Op_send header payload) t = snd (send_message header payload t)"
| "plain_op exec (Op_await fuel sched header) t = result_state t (await_message exec fuel sched header t)"
| "plain_op exec (Op_handle fuel sched header) t = result_state t (handle_message exec fuel sched header t)"
| "plain_op exec Op_shutdown_flush t = t"
| "plain_op exec Op_shutdown_store t = t"

definition needs_no_lock :: "'h transport_op \<Rightarrow> bool" where
  "needs_no_lock op \<longleftrightarrow> op = Op_start \<or> op = Op_close \<or> op = Op_producer"

definition run_op ::
  "('h, 'e) handler_exec \<Rightarrow> 'h transport_op \<Rightarrow> ('h, 'e) shared_transport \<Rightarrow> ('h, 'e) shared_transport" where
  "run_op exec op r =
     (case op of
        Op_shutdown_flush \<Rightarrow>
          if flushed r then r
          else (case shutdown_flush (transport_of r) of (x, t) \<Rightarrow> \<lparr>transport_of = t, flushed = (x = Ret ())\<rparr>)
      | Op_shutdown_store \<Rightarrow> if flushed r then \<lparr>transport_of = shutdown_store (transport_of r), flushed = False\<rparr> else r
      | _ \<Rightarrow> if flushed r \<and> \<not> needs_no_lock op then r else r\<lparr>transport_of := plain_op exec op (transport_of r)\<rparr>)"

definition sends_shutdown :: "'h transport_op \<Rightarrow> bool" where
  "sends_shutdown op \<longleftrightarrow> (\<exists>payload. op = Op_send XRTP_MSG_SHUTDOWN payload)"

lemma evolves_plain_op:
  assumes f: "\<And>h p e. no_shutdown (snd (f h p e))" and op: "\<not> sends_shutdown op"
  shows "evolves t (plain_op (reply_exec f) op t)"
proof (cases op)
  case Op_start
  have "evolves t (t\<lparr>status := STATUS_OPEN, producer_running := True\<rparr>)" if "status t = STATUS_CREATED"
    using that by (intro evolves_same) simp_all
  then show ?thesis using Op_start by (simp add: start_def)
next
  case Op_consumer
  have q: "evolves t (t\<lparr>in_queue := ms\<rparr>)" for ms by (rule evolves_same) simp_all
  have "evolves t (snd (dispatch_to_handler (reply_exec f) m (t\<lparr>in_queue := ms\<rparr>)))" for m ms
    using evolves_trans [OF q evolves_dispatch [OF f]] .
  then show ?thesis using Op_consumer
    by (auto simp: consumer_step_def split: list.split prod.split outcome.split) (metis snd_conv)+
next
  case (Op_send header payload)
  then show ?thesis using op evolves_send by (simp add: sends_shutdown_def)
next
  case (Op_await fuel sched header)
  then show ?thesis
    using evolves_await_loop [OF evolves_await_any evolves_dispatch [OF f]]
    by (auto simp: await_message_def result_state_def split: option.split)
next
  case (Op_handle fuel sched header)
  then show ?thesis
    using evolves_handle_loop [OF evolves_await_any evolves_dispatch [OF f]]
    by (auto simp: handle_message_def result_state_def split: option.split)
qed (auto simp: evolves_producer evolves_stop_threads transport_destroy_def
    register_handler_def unregister_handler_def clear_handlers_def intro: evolves_same)

text \<open>Nothing more can be sent: the status is past open, or the shutdown message is out.\<close>

definition sealed :: "('h, 'e) shared_transport \<Rightarrow> bool" where
  "sealed r \<longleftrightarrow> flushed r \<or> 2 \<le> status_rank (status (transport_of r))"

text \<open>The one way back: from closed, while a shutdown has flushed and not stored.\<close>

definition overwritten :: "('h, 'e) shared_transport \<Rightarrow> ('h, 'e) shared_transport \<Rightarrow> bool" where
  "overwritten r r' \<longleftrightarrow> flushed r \<and> status (transport_of r) = STATUS_CLOSED \<and> status (transport_of r') = STATUS_WRITE_CLOSED"

definition develops :: "('h, 'e) shared_transport \<Rightarrow> ('h, 'e) shared_transport \<Rightarrow> bool" where
  "develops r r' \<longleftrightarrow>
     (status_rank (status (transport_of r)) \<le> status_rank (status (transport_of r')) \<or> overwritten r r') \<and>
     (sealed r \<longrightarrow> sealed r') \<and> (2 \<le> status_rank (status (transport_of r)) \<longrightarrow> 2 \<le> status_rank (status (transport_of r'))) \<and>
     (2 \<le> status_rank (status (transport_of r)) \<and> \<not> flushed r \<longrightarrow> \<not> flushed r') \<and>
     (\<exists>ms. stream_out (transport_of r') = stream_out (transport_of r) @ concat (map frame ms) \<and> (sealed r \<longrightarrow> ms = []) \<and>
        (no_shutdown ms \<or> no_shutdown (butlast ms) \<and> sealed r'))"

lemma develops_refl [simp]: "develops r r"
  by (auto simp: develops_def no_shutdown_def intro!: exI [of _ "[]"])

lemma develops_trans:
  assumes "develops r r'" "develops r' r''"
  shows "develops r r''"
proof -
  from assms(1) obtain ms where ms: "stream_out (transport_of r') = stream_out (transport_of r) @ concat (map frame ms)"
    "sealed r \<longrightarrow> ms = []" "no_shutdown ms \<or> no_shutdown (butlast ms) \<and> sealed r'"
    unfolding develops_def by blast
  from assms(2) obtain ns where ns: "stream_out (transport_of r'') = stream_out (transport_of r') @ concat (map frame ns)"
    "sealed r' \<longrightarrow> ns = []" "no_shutdown ns \<or> no_shutdown (butlast ns) \<and> sealed r''"
    unfolding develops_def by blast
  have seal: "sealed r \<longrightarrow> sealed r'" "sealed r' \<longrightarrow> sealed r''" using assms unfolding develops_def by blast+
  have wire: "stream_out (transport_of r'') = stream_out (transport_of r) @ concat (map frame (ms @ ns))" using ms(1) ns(1) by simp
  have quiet: "sealed r \<longrightarrow> ms @ ns = []" using ms(2) ns(2) seal by simp
  have last: "no_shutdown (ms @ ns) \<or> no_shutdown (butlast (ms @ ns)) \<and> sealed r''"
  proof (cases "no_shutdown ms")
    case True
    then show ?thesis using ns(3) by (auto simp: no_shutdown_def butlast_append)
  next
    case False
    then show ?thesis using ms(3) ns(2) seal(2) by simp
  qed
  have up: "2 \<le> status_rank (status (transport_of r)) \<longrightarrow> 2 \<le> status_rank (status (transport_of r'))"
      "2 \<le> status_rank (status (transport_of r')) \<longrightarrow> 2 \<le> status_rank (status (transport_of r''))"
    and free: "2 \<le> status_rank (status (transport_of r)) \<and> \<not> flushed r \<longrightarrow> \<not> flushed r'"
      "2 \<le> status_rank (status (transport_of r')) \<and> \<not> flushed r' \<longrightarrow> \<not> flushed r''"
    and rank: "status_rank (status (transport_of r)) \<le> status_rank (status (transport_of r')) \<or> overwritten r r'"
      "status_rank (status (transport_of r')) \<le> status_rank (status (transport_of r'')) \<or> overwritten r' r''"
    using assms unfolding develops_def by blast+
  have "status_rank (status (transport_of r)) \<le> status_rank (status (transport_of r'')) \<or> overwritten r r''"
    using up free rank unfolding overwritten_def
    by (cases "status (transport_of r)"; cases "status (transport_of r')"; cases "status (transport_of r'')") auto
  moreover have "2 \<le> status_rank (status (transport_of r)) \<and> \<not> flushed r \<longrightarrow> \<not> flushed r''" using up free by blast
  ultimately show ?thesis unfolding develops_def using wire quiet last seal up by blast
qed

lemma develops_evolves:
  assumes "evolves (transport_of r) t" "\<not> flushed r"
  shows "develops r (r\<lparr>transport_of := t\<rparr>)"
proof -
  obtain ms where ms: "stream_out t = stream_out (transport_of r) @ concat (map frame ms)"
      "2 \<le> status_rank (status (transport_of r)) \<longrightarrow> ms = []"
      "no_shutdown ms \<or> no_shutdown (butlast ms) \<and> 2 \<le> status_rank (status t)"
      "status_rank (status (transport_of r)) \<le> status_rank (status t)"
    using assms(1) status_rank_ge2 [of "status (transport_of r)"] unfolding evolves_def by blast
  then show ?thesis using assms(2) unfolding develops_def sealed_def
    by (intro conjI exI [of _ ms]) auto
qed

lemma develops_same_output:
  assumes "stream_out t = stream_out (transport_of r)" "status_rank (status (transport_of r)) \<le> status_rank (status t)"
  shows "develops r (r\<lparr>transport_of := t\<rparr>)"
  using assms by (auto simp: develops_def sealed_def no_shutdown_def intro!: exI [of _ "[]"])

lemma lock_free_output:
  assumes "needs_no_lock op"
  shows "stream_out (plain_op exec op t) = stream_out t" "status_rank (status t) \<le> status_rank (status (plain_op exec op t))"
  using assms by (auto simp: needs_no_lock_def start_def close_transport_def stop_threads_def producer_step_def producer_fail_def
      Let_def status_rank_le3 split: option.split)

lemma develops_plain:
  assumes "\<And>h p e. no_shutdown (snd (f h p e))" "\<not> sends_shutdown op"
  shows "develops r (if flushed r \<and> \<not> needs_no_lock op then r else r\<lparr>transport_of := plain_op (reply_exec f) op (transport_of r)\<rparr>)"
  using develops_evolves [OF evolves_plain_op [OF assms], of r] develops_same_output [OF lock_free_output, of op r]
  by auto

lemma develops_run_op:
  assumes f: "\<And>h p e. no_shutdown (snd (f h p e))" and op: "\<not> sends_shutdown op"
  shows "develops r (run_op (reply_exec f) op r)"
proof -
  consider "op = Op_shutdown_flush" | "op = Op_shutdown_store"
    | "run_op (reply_exec f) op r
        = (if flushed r \<and> \<not> needs_no_lock op then r else r\<lparr>transport_of := plain_op (reply_exec f) op (transport_of r)\<rparr>)"
    by (cases op) (simp_all add: run_op_def)
  then show ?thesis
  proof cases
    case 1
    obtain x t where s: "shutdown_flush (transport_of r) = (x, t)" by force
    show ?thesis
    proof (cases "flushed r")
      case False
      show ?thesis
      proof (cases "x = Ret ()")
        case True
        then have "status (transport_of r) = STATUS_OPEN" "t = (transport_of r)\<lparr>stream_out := stream_out (transport_of r) @
            frame \<lparr>mi_header = XRTP_MSG_SHUTDOWN, mi_payload = []\<rparr>\<rparr>"
          using s send_message_result [of XRTP_MSG_SHUTDOWN "[]" "transport_of r"] by (auto simp: shutdown_flush_def split: if_splits)
        then show ?thesis using 1 False True s
          by (auto simp: run_op_def develops_def sealed_def no_shutdown_def
              intro!: exI [of _ "[\<lparr>mi_header = XRTP_MSG_SHUTDOWN, mi_payload = []\<rparr>]"])
      next
        case x: False
        then have "t = transport_of r" using s send_message_failed by (auto simp: shutdown_flush_def split: if_splits)
        then have "run_op (reply_exec f) op r = r" using 1 False x s by (cases r) (simp add: run_op_def)
        then show ?thesis by simp
      qed
    qed (use 1 in \<open>simp add: run_op_def\<close>)
  next
    case 2
    then show ?thesis
      by (cases "status (transport_of r)")
        (auto simp: run_op_def develops_def sealed_def overwritten_def shutdown_store_def no_shutdown_def intro!: exI [of _ "[]"])
  next
    case 3
    then show ?thesis using develops_plain [OF f op, of r] by simp
  qed
qed

definition run_ops ::
  "('h, 'e) handler_exec \<Rightarrow> 'h transport_op list \<Rightarrow> ('h, 'e) shared_transport \<Rightarrow> ('h, 'e) shared_transport" where
  "run_ops exec ops r = fold (run_op exec) ops r"


definition shared :: "('h, 'e) transport \<Rightarrow> ('h, 'e) shared_transport" where
  "shared t = \<lparr>transport_of = t, flushed = False\<rparr>"


text \<open>The exception happens: the status of a closed transport is overwritten.\<close>

lemma shutdown_reopens_closed:
  "status (transport_of (run_ops exec [Op_shutdown_flush, Op_close] (shared (connected inp e)))) = STATUS_CLOSED \<and>
   status (transport_of (run_ops exec [Op_shutdown_flush, Op_close, Op_shutdown_store] (shared (connected inp e)))) = STATUS_WRITE_CLOSED"
  by (simp add: run_ops_def run_op_def shared_def shutdown_flush_def send_message_open needs_no_lock_def close_transport_def
      stop_threads_def shutdown_store_def)

text \<open>
  In the closed status, with no shutdown half done, no call and no thread changes the status, the
  output or the receive queue any more; every attempt to send, shut down, start or wait is refused.
\<close>

theorem closed_is_final:
  assumes "status (transport_of r) = STATUS_CLOSED" "\<not> flushed r"
  shows "status (transport_of (run_op exec op r)) = STATUS_CLOSED \<and> \<not> flushed (run_op exec op r) \<and>
    stream_out (transport_of (run_op exec op r)) = stream_out (transport_of r) \<and>
    in_queue (transport_of (run_op exec op r)) = in_queue (transport_of r) \<and>
    (\<exists>e. fst (send_message code payload (transport_of r)) = Throw e) \<and> (\<exists>e. fst (shutdown (transport_of r)) = Throw e) \<and>
    (\<exists>e. fst (start (transport_of r)) = Throw e) \<and> (\<exists>e. fst (await_any_message k (transport_of r)) = Throw e)"
proof -
  let ?t = "transport_of r"
  have a: "await_any_message k' ?t = (Throw (Transport_exception ''Await aborted: transport closed''), ?t)" for k'
    using assms by (simp add: await_any_message_def)
  have al: "result_state ?t (await_loop await_any_message d fuel sched header ?t) = ?t" for d fuel sched header
    by (cases fuel) (simp_all add: result_state_def a)
  have hl: "result_state ?t (handle_loop await_any_message d fuel sched header ?t) = ?t" for d fuel sched header
    by (cases fuel) (simp_all add: result_state_def a)
  have s: "send_message c p ?t = (Throw (Transport_exception ''cannot start message: transport write closed''), ?t)"
    for c p using assms by (simp add: send_message_def start_message_def)
  have aw: "result_state ?t (await_message exec fuel sched header ?t) = ?t" for fuel sched header
    using assms al by (simp add: await_message_def) (simp add: result_state_def)
  have hw: "result_state ?t (handle_message exec fuel sched header ?t) = ?t" for fuel sched header
    using assms hl by (simp add: handle_message_def)
  have "status (plain_op exec op ?t) = STATUS_CLOSED \<and> stream_out (plain_op exec op ?t) = stream_out ?t \<and>
    in_queue (plain_op exec op ?t) = in_queue ?t"
    using assms(1) s aw hw
    by (cases op) (simp_all add: start_def transport_destroy_def producer_step_def close_transport_def stop_threads_def
        consumer_step_def register_handler_def unregister_handler_def clear_handlers_def)
  then have "status (transport_of (run_op exec op r)) = STATUS_CLOSED \<and> \<not> flushed (run_op exec op r) \<and>
    stream_out (transport_of (run_op exec op r)) = stream_out ?t \<and> in_queue (transport_of (run_op exec op r)) = in_queue ?t"
    using assms by (cases op) (simp_all add: run_op_def shutdown_flush_def)
  then show ?thesis using s a assms by (simp add: shutdown_def shutdown_flush_def start_def)
qed

section \<open>Orderly shutdown\<close>

lemma producer_steps_fill:
  assumes "live t" "pending_messages t = m # ms" "1 \<le> k"
  shows "\<exists>q. in_queue ((producer_step ^^ k) t) = m # q"
proof -
  obtain j where k: "k = Suc j" using assms(3) by (cases k) auto
  have "\<exists>q. in_queue (producer_step t) = m # q"
  proof (cases "in_queue t")
    case Nil
    then show ?thesis using producer_step_fills [OF assms(1) Nil assms(2)] by simp
  next
    case (Cons x xs)
    then show ?thesis using producer_step_queue_mono [OF assms(1)] assms(2)
      by (auto simp: pending_messages_def)
  qed
  then show ?thesis
    using producer_steps_queue_mono [OF producer_step_live(1) [OF assms(1)], of j]
    by (auto simp: k funpow_swap1)
qed

lemma run_threads_closed: "status t = STATUS_CLOSED \<Longrightarrow> \<exists>t'. run_threads exec ks t = (Ret (), t') \<and>
    transport_view t' = transport_view t \<and> stream_open t' = stream_open t"
proof (induction ks arbitrary: t)
  case (Cons k ks)
  have p: "status (producer_step t) = STATUS_CLOSED \<and> transport_view (producer_step t) = transport_view t \<and>
      stream_open (producer_step t) = stream_open t"
    if "status t = STATUS_CLOSED" for t :: "('a, 'b) transport"
    using that by (simp add: producer_step_def transport_view_def)
  have "status ((producer_step ^^ k) t) = STATUS_CLOSED \<and>
      transport_view ((producer_step ^^ k) t) = transport_view t \<and>
      stream_open ((producer_step ^^ k) t) = stream_open t"
    using Cons.prems by (induction k) (simp_all add: p)
  then show ?case using Cons.IH [of "(producer_step ^^ k) t"] by (simp add: consumer_step_def)
qed simp

lemma consumer_step_message:
  assumes "live t" "pending_messages t = m # ms" "mi_header m \<noteq> XRTP_MSG_SHUTDOWN" "1 \<le> k"
  shows "\<exists>t'. consumer_step (reply_exec f) ((producer_step ^^ k) t) = (Ret (), t') \<and> live t' \<and>
    pending_messages t' = ms \<and> transport_view t' = reply_effect f m (transport_view t)"
proof -
  obtain q where q: "in_queue ((producer_step ^^ k) t) = m # q"
    using producer_steps_fill [OF assms(1,2,4)] by blast
  let ?t = "((producer_step ^^ k) t)\<lparr>in_queue := q\<rparr>"
  have l: "live ((producer_step ^^ k) t)" "pending_messages ((producer_step ^^ k) t) = m # ms"
    "transport_view ((producer_step ^^ k) t) = transport_view t"
    using producer_steps_live [OF assms(1)] assms(2) by simp_all
  have "live ?t" "pending_messages ?t = ms" "transport_view ?t = transport_view t"
    using l q by (auto simp: live_def pending_messages_def transport_view_def split: if_splits)
  then obtain t' where "dispatch_to_handler (reply_exec f) m ?t = (Ret (), t')" "live t'"
    "pending_messages t' = ms" "transport_view t' = reply_effect f m (transport_view t)"
    using dispatch_reply [of ?t m f] assms(3) by auto
  then show ?thesis using q l(1) by (auto simp: consumer_step_def live_def)
qed

lemma consumer_step_shutdown:
  assumes "live t" "pending_messages t = [m]" "mi_header m = XRTP_MSG_SHUTDOWN" "1 \<le> k"
  shows "\<exists>t'. consumer_step exec ((producer_step ^^ k) t) = (Ret (), t') \<and>
    status t' = STATUS_CLOSED \<and> stream_open t' \<and> app t' = app t \<and>
    stream_out t' = stream_out t @ (if status t = STATUS_OPEN
      then frame \<lparr>mi_header = XRTP_MSG_SHUTDOWN, mi_payload = []\<rparr> else [])"
proof -
  obtain q where q: "in_queue ((producer_step ^^ k) t) = m # q"
    using producer_steps_fill [OF assms(1,2,4)] by blast
  let ?t = "((producer_step ^^ k) t)\<lparr>in_queue := q\<rparr>"
  have "live ?t" "transport_view ?t = transport_view t"
    using producer_steps_live [OF assms(1), of k] by (simp_all add: live_def transport_view_def)
  then show ?thesis
    using q assms(3) send_message_open [of ?t XRTP_MSG_SHUTDOWN "[]"]
    by (auto simp: consumer_step_def dispatch_to_handler_def live_def transport_view_def stop_threads_def)
qed

lemma run_threads_drains:
  assumes "live t" "pending_messages t = ms @ [m]" "no_shutdown ms" "mi_header m = XRTP_MSG_SHUTDOWN"
    "\<forall>k\<in>set ks. 1 \<le> k" "length ms < length ks"
  shows "\<exists>t'. run_threads (reply_exec f) ks t = (Ret (), t') \<and> status t' = STATUS_CLOSED \<and> stream_open t' \<and>
    app t' = snd (snd (snd (fold (reply_effect f) ms (transport_view t)))) \<and>
    stream_out t' = fst (snd (snd (fold (reply_effect f) ms (transport_view t)))) @
      (if status t = STATUS_OPEN then frame \<lparr>mi_header = XRTP_MSG_SHUTDOWN, mi_payload = []\<rparr> else [])"
  using assms
proof (induction ks arbitrary: t ms)
  case (Cons k ks)
  show ?case
  proof (cases ms)
    case Nil
    obtain t1 where t1: "consumer_step (reply_exec f) ((producer_step ^^ k) t) = (Ret (), t1)"
      "status t1 = STATUS_CLOSED" "stream_open t1" "app t1 = app t"
      "stream_out t1 = stream_out t @ (if status t = STATUS_OPEN
        then frame \<lparr>mi_header = XRTP_MSG_SHUTDOWN, mi_payload = []\<rparr> else [])"
      using consumer_step_shutdown [OF Cons.prems(1) _ Cons.prems(4), of k "reply_exec f"]
        Cons.prems(2,5) Nil by auto
    then show ?thesis using run_threads_closed [OF t1(2), of "reply_exec f" ks] Nil
      by (auto simp: transport_view_def)
  next
    case (Cons x xs)
    obtain t1 where t1: "consumer_step (reply_exec f) ((producer_step ^^ k) t) = (Ret (), t1)" "live t1"
      "pending_messages t1 = xs @ [m]" "transport_view t1 = reply_effect f x (transport_view t)"
      using consumer_step_message [OF Cons.prems(1), of x "xs @ [m]" k f] Cons.prems Cons
      by (auto simp: no_shutdown_def)
    have st: "status t1 = status t" using t1(4)
      by (auto simp: transport_view_def reply_effect_def split: option.splits)
    show ?thesis using Cons.IH [OF t1(2,3)] Cons.prems Cons t1(1,4) st
      by (auto simp: no_shutdown_def)
  qed
qed simp

definition ok_replies :: "('h \<Rightarrow> bytes \<Rightarrow> 'e \<Rightarrow> 'e \<times> message_in list) \<Rightarrow> bool" where
  "ok_replies f \<longleftrightarrow> (\<forall>h p e. no_shutdown (snd (f h p e)) \<and> (\<forall>m\<in>set (snd (f h p e)). frame_ok m))"

lemma fold_reply_effect:
  assumes "ok_replies f"
  shows "\<exists>rs e'. fold (reply_effect f) ms (STATUS_OPEN, hs, out, e)
      = (STATUS_OPEN, hs, out @ concat (map frame rs), e') \<and> no_shutdown rs \<and> (\<forall>m\<in>set rs. frame_ok m)"
proof (induction ms arbitrary: out e)
  case Nil
  then show ?case by (auto simp: no_shutdown_def intro!: exI [of _ "[]"])
next
  case (Cons m ms)
  obtain rs1 e1 where 1: "reply_effect f m (STATUS_OPEN, hs, out, e)
      = (STATUS_OPEN, hs, out @ concat (map frame rs1), e1)" "no_shutdown rs1" "\<forall>m\<in>set rs1. frame_ok m"
  proof (cases "hs (mi_header m)")
    case None
    then show ?thesis using that [of "[]" e] by (simp add: reply_effect_def no_shutdown_def)
  next
    case (Some h)
    then show ?thesis using assms that [of "snd (f h (mi_payload m) e)"]
      by (simp add: reply_effect_def ok_replies_def)
  qed
  obtain rs2 e2 where "fold (reply_effect f) ms (STATUS_OPEN, hs, out @ concat (map frame rs1), e1)
      = (STATUS_OPEN, hs, (out @ concat (map frame rs1)) @ concat (map frame rs2), e2)"
      "no_shutdown rs2" "\<forall>m\<in>set rs2. frame_ok m"
    using Cons.IH by blast
  then show ?case using 1 by (auto simp: no_shutdown_def intro!: exI [of _ "rs1 @ rs2"])
qed

definition shutdown_message :: message_in where
  "shutdown_message = \<lparr>mi_header = XRTP_MSG_SHUTDOWN, mi_payload = []\<rparr>"

lemma shutdown_message_header: "mi_header shutdown_message = XRTP_MSG_SHUTDOWN"
  by (simp add: shutdown_message_def)

lemma parse_messages_shutdown:
  assumes "no_shutdown ms" "\<forall>m\<in>set ms. frame_ok m"
  shows "parse_messages (concat (map frame ms) @ frame shutdown_message) = ms @ [shutdown_message]"
  using assms parse_messages_frames [of ms "frame shutdown_message"]
    parse_messages_frame [of shutdown_message "[]"]
  by (simp add: no_shutdown_def shutdown_message_def frame_ok_def)

text \<open>
  C3: Orderly shutdown. One side sends messages and calls \<open>shutdown\<close>; the threads of the other
  side dispatch every one of these messages, in order, answer with one shutdown frame and close;
  the replies reach the first side, whose threads dispatch all of them before it closes without
  sending anything more. This holds for every schedule in which the consumer finds the next
  message. Neither side closes its stream.
\<close>

theorem orderly_shutdown:
  assumes ms: "no_shutdown ms" "\<forall>m\<in>set ms. frame_ok m" and f: "ok_replies f"
    and ks: "\<forall>k\<in>set ks. 1 \<le> k" "length ms < length ks"
  shows "\<exists>a a' b' rs.
    send_all ms ((connected [] e)\<lparr>handlers := ha\<rparr>) = (Ret (), a) \<and> shutdown a = (Ret (), a') \<and>
    status a' = STATUS_WRITE_CLOSED \<and>
    run_threads (reply_exec f) ks ((connected (stream_out a') e2)\<lparr>handlers := hb\<rparr>) = (Ret (), b') \<and>
    status b' = STATUS_CLOSED \<and> stream_open b' \<and>
    app b' = snd (snd (snd (fold (reply_effect f) ms (STATUS_OPEN, hb, [], e2)))) \<and>
    stream_out b' = concat (map frame rs) @ frame shutdown_message \<and>
    (\<forall>js. (\<forall>k\<in>set js. 1 \<le> k) \<longrightarrow> length rs < length js \<longrightarrow>
      (\<exists>a''. run_threads (reply_exec g) js (a'\<lparr>stream_in := stream_out b'\<rparr>) = (Ret (), a'') \<and>
        status a'' = STATUS_CLOSED \<and> stream_open a'' \<and> stream_out a'' = stream_out a' \<and>
        app a'' = snd (snd (snd (fold (reply_effect g) rs (STATUS_WRITE_CLOSED, ha, stream_out a', e))))))"
proof -
  let ?init = "(connected [] e)\<lparr>handlers := ha\<rparr>"
  let ?a = "?init\<lparr>stream_out := concat (map frame ms)\<rparr>"
  let ?a' = "?a\<lparr>stream_out := concat (map frame ms) @ frame shutdown_message, status := STATUS_WRITE_CLOSED\<rparr>"
  have a: "send_all ms ?init = (Ret (), ?a)" using send_all_open [of ?init ms] by simp
  have a': "shutdown ?a = (Ret (), ?a')"
    by (simp add: shutdown_def shutdown_flush_def shutdown_store_def send_message_open shutdown_message_def)
  let ?b = "(connected (stream_out ?a') e2)\<lparr>handlers := hb\<rparr>"
  have b: "live ?b" "pending_messages ?b = ms @ [shutdown_message]"
    using parse_messages_shutdown [OF ms] by (simp_all add: live_def pending_messages_def)
  obtain rs e' where rs: "fold (reply_effect f) ms (STATUS_OPEN, hb, [], e2)
      = (STATUS_OPEN, hb, concat (map frame rs), e')" "no_shutdown rs" "\<forall>m\<in>set rs. frame_ok m"
    using fold_reply_effect [OF f, of ms hb "[]" e2] by auto
  have v: "transport_view ?b = (STATUS_OPEN, hb, [], e2)" by (simp add: transport_view_def)
  obtain b' where b': "run_threads (reply_exec f) ks ?b = (Ret (), b')" "status b' = STATUS_CLOSED"
    "stream_open b'" "app b' = e'" "stream_out b' = concat (map frame rs) @ frame shutdown_message"
    using run_threads_drains [OF b ms(1) shutdown_message_header ks, of f, unfolded v rs(1)]
    by (auto simp: shutdown_message_def [symmetric])
  have "\<exists>a''. run_threads (reply_exec g) js (?a'\<lparr>stream_in := stream_out b'\<rparr>) = (Ret (), a'') \<and>
      status a'' = STATUS_CLOSED \<and> stream_open a'' \<and> stream_out a'' = stream_out ?a' \<and>
      app a'' = snd (snd (snd (fold (reply_effect g) rs (STATUS_WRITE_CLOSED, ha, stream_out ?a', e))))"
    if js: "\<forall>k\<in>set js. 1 \<le> k" "length rs < length js" for js
  proof -
    let ?c = "?a'\<lparr>stream_in := stream_out b'\<rparr>"
    have c: "live ?c" "pending_messages ?c = rs @ [shutdown_message]"
      using parse_messages_shutdown [OF rs(2,3)] b'(5) by (simp_all add: live_def pending_messages_def)
    have "transport_view ?c = (STATUS_WRITE_CLOSED, ha, stream_out ?a', e)" by (simp add: transport_view_def)
    moreover have "fst (snd (snd (fold (reply_effect g) rs (STATUS_WRITE_CLOSED, ha, out, x)))) = out" for out x
      by (induction rs arbitrary: x) (auto simp: reply_effect_def split: option.splits)
    ultimately show ?thesis
      using run_threads_drains [OF c rs(2) shutdown_message_header js, of g] by auto
  qed
  then show ?thesis using a a' b' rs(1) by (intro exI [of _ ?a] exI [of _ ?a'] exI [of _ b'] exI [of _ rs]) simp
qed

theorem orderly_shutdown_witness:
  "\<exists>a a' b' :: (nat, bytes list) transport.
    send_all [\<lparr>mi_header = 5, mi_payload = [1]\<rparr>] ((connected [] ([] :: bytes list))\<lparr>handlers := (\<lambda>_. None :: nat option)\<rparr>)
      = (Ret (), a) \<and>
    shutdown a = (Ret (), a') \<and>
    run_threads (reply_exec (\<lambda>h p e. (p # e, []))) [1, 3]
      ((connected (stream_out a') [])\<lparr>handlers := [5 \<mapsto> 0]\<rparr>) = (Ret (), b') \<and>
    status b' = STATUS_CLOSED \<and> app b' = [[1]]"
proof -
  let ?f = "\<lambda>(h :: nat) p (e :: bytes list). (p # e, [] :: message_in list)"
  let ?m = "\<lparr>mi_header = 5, mi_payload = [1]\<rparr>"
  have prems: "no_shutdown [?m]" "\<forall>m\<in>set [?m]. frame_ok m" "ok_replies ?f" "\<forall>k\<in>set [1, 3]. 1 \<le> (k :: nat)"
    "length [?m] < length [1, 3 :: nat]"
    by (simp_all add: no_shutdown_def frame_ok_def ok_replies_def XRTP_MSG_SHUTDOWN_def)
  have fold: "snd (snd (snd (fold (reply_effect ?f) [?m] (STATUS_OPEN, [5 \<mapsto> 0], [], [])))) = [[1]]"
    by (simp add: reply_effect_def)
  show ?thesis
    using orderly_shutdown [OF prems, where e = "[]" and ha = "\<lambda>_. None" and ?e2.0 = "[]"
        and hb = "[5 \<mapsto> 0]" and g = ?f, unfolded fold]
    by blast
qed

section \<open>Losing the connection\<close>

text \<open>
  When the peer is gone and the rest of its bytes is no complete message, the next producer
  iteration closes the transport and our end of the stream, and every wait fails from then on,
  also when messages that were received in full are still in the queue: they are never handled.
\<close>

theorem lost_connection_discards_queue:
  assumes "status t = STATUS_OPEN \<or> status t = STATUS_WRITE_CLOSED" "producer_running t"
    "\<not> peer_open t" "parse_messages (stream_in t) = []"
  shows "status (producer_step t) = STATUS_CLOSED \<and> \<not> stream_open (producer_step t) \<and>
    in_queue (producer_step t) = in_queue t \<and>
    consumer_step exec (producer_step t) = (Ret (), producer_step t) \<and>
    (\<exists>e. fst (await_any_message k (producer_step t)) = Throw e)"
proof -
  have "producer_step t = producer_fail t"
    using assms(1,2,4) unfolding producer_step_def
    by (subst (asm) parse_messages.simps) (auto simp: Let_def split: option.splits prod.splits)
  then have "producer_step t = (close_transport t)\<lparr>producer_running := False\<rparr>"
    using assms(3) by (simp add: producer_fail_def)
  then show ?thesis
    by (simp add: close_transport_def stop_threads_def consumer_step_def await_any_message_def)
qed

theorem lost_connection_discards_queue_witness:
  "\<exists>t :: (nat, unit) transport. in_queue t \<noteq> [] \<and> status (producer_step t) = STATUS_CLOSED \<and>
    in_queue (producer_step t) = in_queue t \<and> (\<exists>e. fst (await_any_message 0 (producer_step t)) = Throw e)"
proof -
  let ?t = "(connected [] ())\<lparr>peer_open := False, in_queue := [\<lparr>mi_header = 5, mi_payload = [1]\<rparr>]\<rparr>
      :: (nat, unit) transport"
  show ?thesis
    using lost_connection_discards_queue [of ?t "reply_exec (\<lambda>h p e. (e, []))" 0]
    by (intro exI [of _ ?t]) simp
qed

text \<open>
  A message that was started while the transport was open and is released after the
  transport left that status (the connection was lost, or the peer shut down while the message
  was being written) ends the process: the flush in the destructor throws. An explicit
  \<open>flush\<close> throws first, and the destructor then does the same.
\<close>

theorem release_after_close_terminates:
  assumes "status t \<noteq> STATUS_OPEN"
  shows "message_out_release (message_out_write payload (message_out_init header)) t = (Terminate, t) \<and>
    (\<exists>e m'. message_out_flush (message_out_write payload (message_out_init header)) t = (Throw e, m', t) \<and>
      message_out_release m' t = (Terminate, t))"
proof -
  let ?e = "Transport_exception ''cannot flush message: transport write closed''"
  have st: "flush_to_stream bs t = (Throw ?e, t)" for bs
    using assms by (simp add: flush_to_stream_def)
  obtain m where m: "message_out_seal (message_out_write payload (message_out_init header)) = Ret m"
    "sb_buffer (mo_buffer m) = frame \<lparr>mi_header = header, mi_payload = payload\<rparr>"
    using message_out_seal_frame by blast
  have 1: "message_out_flush (message_out_write payload (message_out_init header)) t = (Throw ?e, m, t)"
    using m st by (simp add: message_out_flush_def message_out_buffer message_header_size_def)
  obtain m2 where m2: "message_out_seal m = Ret m2"
    using m(2) by (simp add: message_out_seal_def length_frame message_header_size_def Let_def)
  have 2: "message_out_flush m t = (Throw ?e, m2, t)"
    using m(2) m2 st length_frame [of "\<lparr>mi_header = header, mi_payload = payload\<rparr>"]
    by (auto simp: message_out_flush_def)
  show ?thesis using 1 2 by (simp add: message_out_release_def)
qed

theorem release_after_close_terminates_witness:
  "message_out_release (message_out_write [1] (message_out_init 5))
      (close_transport (connected [] () :: (nat, unit) transport))
     = (Terminate, close_transport (connected [] ()))"
  using release_after_close_terminates [of "close_transport (connected [] () :: (nat, unit) transport)" "[1]" 5]
  by (simp add: close_transport_def stop_threads_def)

end
