(* ===== verification/Transport_Api.thy ===== *)
theory Transport_Api
  imports Transport_Props
begin

text \<open>
  The C boundary of the transport, \<open>src/common/transport/transport_c_api.cpp\<close>, and the header
  only C++ wrapper on its other side, \<open>include/xrtransport/transport/transport.h\<close>. Exceptions
  become integers (\<open>XRTP_CATCH_HANDLER\<close>) and integers exceptions again (\<open>check_xrtp_result\<close>).
  The wrapper keeps the registered \<open>std::function\<close>s in the nodes of a map and hands the
  address of a node through the boundary.
\<close>

section \<open>Results\<close>

type_synonym xrtp_result = int

definition xrtp_catch_handler :: "exn \<Rightarrow> xrtp_result" where
  "xrtp_catch_handler e =
     (case e of
        Transport_exception _ \<Rightarrow> -1
      | System_error _ v \<Rightarrow> v
      | Std_exception _ \<Rightarrow> -1)"

text \<open>
  A \<open>XRTP_TRY\<close> body: 0 and the value when it returns, the code of the handler when it throws.
  What is no exception is not caught.
\<close>

definition xrtp_try :: "'a outcome \<times> 's \<Rightarrow> (xrtp_result \<times> 'a option) outcome \<times> 's" where
  "xrtp_try r =
     (case r of
        (Ret v, s) \<Rightarrow> (Ret (0, Some v), s)
      | (Throw e, s) \<Rightarrow> (Ret (xrtp_catch_handler e, None), s)
      | (Terminate, s) \<Rightarrow> (Terminate, s)
      | (Fault, s) \<Rightarrow> (Fault, s)
      | (Blocked, s) \<Rightarrow> (Blocked, s))"

definition check_for_transport_exception :: "xrtp_result \<Rightarrow> exn option" where
  "check_for_transport_exception r =
     (if r = -1
      then Some (Transport_exception
        ''non-IO exception happened in Transport implementation; see logs'')
      else None)"

definition check_xrtp_result :: "xrtp_result \<Rightarrow> exn option" where
  "check_xrtp_result r =
     (case check_for_transport_exception r of
        Some e \<Rightarrow> Some e
      | None \<Rightarrow> (if r \<noteq> 0 then Some (System_error System_category r) else None))"

text \<open>\<open>CHK_XRTP\<close> around a call; an out parameter that was not written keeps its initial value.\<close>

definition chk_xrtp :: "'a \<Rightarrow> (xrtp_result \<times> 'a option) outcome \<times> 's \<Rightarrow> 'a outcome \<times> 's" where
  "chk_xrtp init r =
     (case r of
        (Ret (code, v), s) \<Rightarrow>
          (case check_xrtp_result code of
             Some e \<Rightarrow> (Throw e, s)
           | None \<Rightarrow> (Ret (case v of Some x \<Rightarrow> x | None \<Rightarrow> init), s))
      | (Throw e, s) \<Rightarrow> (Throw e, s)
      | (Terminate, s) \<Rightarrow> (Terminate, s)
      | (Fault, s) \<Rightarrow> (Fault, s)
      | (Blocked, s) \<Rightarrow> (Blocked, s))"

section \<open>The C functions\<close>

definition xrtp_transport_create ::
  "bytes \<Rightarrow> 'e \<Rightarrow> (xrtp_result \<times> ('h, 'e) transport option) outcome \<times> unit" where
  "xrtp_transport_create inp e = xrtp_try (Ret (transport_create inp e), ())"

definition xrtp_transport_start where
  "xrtp_transport_start (t :: ('h, 'e) transport) = xrtp_try (start t)"

definition xrtp_transport_release where
  "xrtp_transport_release (t :: ('h, 'e) transport) = xrtp_try (Ret (), transport_destroy t)"

definition xrtp_start_message where
  "xrtp_start_message header (t :: ('h, 'e) transport) = xrtp_try (start_message header t, t)"

definition xrtp_register_handler where
  "xrtp_register_handler header h (t :: ('h, 'e) transport) = xrtp_try (Ret (), register_handler header h t)"

definition xrtp_unregister_handler where
  "xrtp_unregister_handler header (t :: ('h, 'e) transport) = xrtp_try (Ret (), unregister_handler header t)"

definition xrtp_clear_handlers where
  "xrtp_clear_handlers (t :: ('h, 'e) transport) = xrtp_try (Ret (), clear_handlers t)"

definition xrtp_await_message where
  "xrtp_await_message exec fuel sched header (t :: ('h, 'e) transport) =
     map_option xrtp_try (await_message exec fuel sched header t)"

definition xrtp_handle_message where
  "xrtp_handle_message exec fuel sched header (t :: ('h, 'e) transport) =
     map_option xrtp_try (handle_message exec fuel sched header t)"

definition xrtp_transport_get_status where
  "xrtp_transport_get_status (t :: ('h, 'e) transport) = xrtp_try (Ret (get_status t), t)"

definition xrtp_transport_shutdown where
  "xrtp_transport_shutdown (t :: ('h, 'e) transport) = xrtp_try (shutdown t)"

definition xrtp_transport_close where
  "xrtp_transport_close (t :: ('h, 'e) transport) = xrtp_try (Ret (), close_transport t)"

definition xrtp_msg_in_read_some ::
  "nat \<Rightarrow> receive_buffer \<Rightarrow> (xrtp_result \<times> bytes option) outcome \<times> receive_buffer" where
  "xrtp_msg_in_read_some n rb =
     xrtp_try (case receive_read_some n rb of Inl e \<Rightarrow> (Throw e, rb) | Inr (bs, rb') \<Rightarrow> (Ret bs, rb'))"

definition xrtp_msg_out_write_some ::
  "bytes \<Rightarrow> message_out \<Rightarrow> (xrtp_result \<times> nat option) outcome \<times> message_out" where
  "xrtp_msg_out_write_some bs m =
     xrtp_try (Ret (fst (send_write_some bs (mo_buffer m))), message_out_write bs m)"

definition xrtp_msg_out_flush where
  "xrtp_msg_out_flush m (t :: ('h, 'e) transport) = xrtp_try (message_out_flush m t)"

text \<open>\<open>delete\<close> runs the destructor, whose termination no handler of this function can catch.\<close>

definition xrtp_msg_out_release where
  "xrtp_msg_out_release m (t :: ('h, 'e) transport) = xrtp_try (message_out_release m t)"

section \<open>Errors across the boundary\<close>

text \<open>
  What an exception of the transport looks like on the other side of the C boundary: a
  \<open>TransportException\<close> stays one, without its message; a \<open>system_error\<close> keeps its value but
  always comes back in the system category; every other exception becomes a
  \<open>TransportException\<close>. A system error of value 0 is not seen at all.
\<close>

theorem exception_across_boundary:
  "chk_xrtp init (xrtp_try (Throw e, s)) =
     (case e of
        Transport_exception _ \<Rightarrow>
          (Throw (Transport_exception ''non-IO exception happened in Transport implementation; see logs''), s)
      | Std_exception _ \<Rightarrow>
          (Throw (Transport_exception ''non-IO exception happened in Transport implementation; see logs''), s)
      | System_error _ v \<Rightarrow>
          (if v = -1
           then (Throw (Transport_exception ''non-IO exception happened in Transport implementation; see logs''), s)
           else if v = 0 then (Ret init, s)
           else (Throw (System_error System_category v), s)))"
  by (cases e)
    (auto simp: chk_xrtp_def xrtp_try_def xrtp_catch_handler_def check_xrtp_result_def
      check_for_transport_exception_def)

lemma exception_across_boundary_transport [simp]:
  "chk_xrtp init (xrtp_try (Throw (Transport_exception msg), s)) =
     (Throw (Transport_exception ''non-IO exception happened in Transport implementation; see logs''), s)"
  by (simp add: chk_xrtp_def xrtp_try_def xrtp_catch_handler_def check_xrtp_result_def
      check_for_transport_exception_def)

lemma chk_xrtp_Ret [simp]: "chk_xrtp init (xrtp_try (Ret v, s)) = (Ret v, s)"
  by (simp add: chk_xrtp_def xrtp_try_def check_xrtp_result_def check_for_transport_exception_def)

lemma chk_xrtp_stop [simp]:
  "chk_xrtp init (xrtp_try (Terminate, s)) = (Terminate, s)"
  "chk_xrtp init (xrtp_try (Fault, s)) = (Fault, s)"
  "chk_xrtp init (xrtp_try (Blocked, s)) = (Blocked, s)"
  by (simp_all add: chk_xrtp_def xrtp_try_def)

section \<open>Reading a message through the wrapper\<close>

text \<open>\<open>MessageLockInStream::read_some\<close>, both overloads: an \<open>error_code\<close>, then an exception.\<close>

definition msg_in_stream_read_some :: "nat \<Rightarrow> receive_buffer \<Rightarrow> exn + bytes \<times> receive_buffer" where
  "msg_in_stream_read_some n rb =
     (case xrtp_msg_in_read_some n rb of
        (Ret (code, v), rb') \<Rightarrow>
          (case check_for_transport_exception code of
             Some e \<Rightarrow> Inl e
           | None \<Rightarrow>
               if code \<noteq> 0 then Inl (System_error System_category code)
               else Inr ((case v of Some bs \<Rightarrow> bs | None \<Rightarrow> []), rb'))
      | (_, rb') \<Rightarrow> Inl (Std_exception ''''))"

definition msg_in_eof :: exn where
  "msg_in_eof = System_error System_category 2"

lemma msg_in_stream_read_some_eq:
  "msg_in_stream_read_some n rb =
     (case receive_read_some n rb of
        Inl _ \<Rightarrow> Inl msg_in_eof
      | Inr (bs, rb') \<Rightarrow> Inr (bs, rb'))"
  by (auto simp: msg_in_stream_read_some_def xrtp_msg_in_read_some_def xrtp_try_def
      receive_read_some_def asio_eof_def xrtp_catch_handler_def msg_in_eof_def
      check_for_transport_exception_def Let_def)

interpretation client_in: byte_source msg_in_stream_read_some receive_pending msg_in_eof
proof
  show "msg_in_stream_read_some n s = Inl msg_in_eof" if "receive_pending s = []" for s n
    using rbuf.read_some_empty [OF that] by (simp add: msg_in_stream_read_some_eq)
  show "\<exists>k s'. 0 < k \<and> k \<le> n \<and> k \<le> length (receive_pending s) \<and>
      msg_in_stream_read_some n s = Inr (take k (receive_pending s), s') \<and>
      receive_pending s' = drop k (receive_pending s)"
    if "receive_pending s \<noteq> []" "0 < n" for s n
    using rbuf.read_some_prefix [OF that] by (auto simp: msg_in_stream_read_some_eq)
qed

text \<open>
  Reading \<open>n\<close> bytes of a received message through the wrapper gives the next \<open>n\<close> bytes of
  its payload when there are that many, and otherwise throws; the error is system error 2, no
  longer the end-of-file error that \<open>ReceiveBuffer\<close> reports.
\<close>

theorem message_read_exact:
  "(case read_exact n (receive_pending rb) of
      None \<Rightarrow> asio_read msg_in_stream_read_some n n rb = Inl (System_error System_category 2) \<and>
              asio_read receive_read_some n n rb = Inl (System_error Misc_category 2)
    | Some (xs, rest) \<Rightarrow>
        (\<exists>rb'. asio_read msg_in_stream_read_some n n rb = Inr (xs, rb') \<and> receive_pending rb' = rest))"
  using client_in.asio_read_exact [of n rb] rbuf.asio_read_exact [of n rb]
  by (auto simp: msg_in_eof_def asio_eof_def split: option.splits)

section \<open>Messages through the wrapper\<close>

definition client_start_message :: "u16 \<Rightarrow> ('h, 'e) transport \<Rightarrow> message_out outcome \<times> ('h, 'e) transport" where
  "client_start_message header t = chk_xrtp (message_out_init 0) (xrtp_start_message header t)"

definition client_flush ::
  "message_out \<Rightarrow> ('h, 'e) transport \<Rightarrow> unit outcome \<times> message_out \<times> ('h, 'e) transport" where
  "client_flush m t = chk_xrtp () (xrtp_msg_out_flush m t)"

text \<open>\<open>~MessageLockOut\<close>: flush, then release; both are checked, and the destructor is \<open>noexcept\<close>.\<close>

definition client_message_out_destroy ::
  "message_out \<Rightarrow> ('h, 'e) transport \<Rightarrow> unit outcome \<times> ('h, 'e) transport" where
  "client_message_out_destroy m t =
     (case client_flush m t of
        (Ret _, m', t') \<Rightarrow>
          (case chk_xrtp () (xrtp_msg_out_release m' t') of
             (Throw _, t'') \<Rightarrow> (Terminate, t'')
           | (other, t'') \<Rightarrow> (other, t''))
      | (Throw _, _, t') \<Rightarrow> (Terminate, t')
      | (other, _, t') \<Rightarrow> (other, t'))"

definition client_send_message ::
  "u16 \<Rightarrow> bytes \<Rightarrow> ('h, 'e) transport \<Rightarrow> unit outcome \<times> ('h, 'e) transport" where
  "client_send_message header payload t =
     (case client_start_message header t of
        (Ret m, t1) \<Rightarrow>
          (case chk_xrtp 0 (xrtp_msg_out_write_some payload m) of
             (Ret _, m1) \<Rightarrow>
               (case client_flush m1 t1 of
                  (Ret _, m2, t2) \<Rightarrow> client_message_out_destroy m2 t2
                | (Throw e, m2, t2) \<Rightarrow>
                    (case client_message_out_destroy m2 t2 of
                       (Ret _, t3) \<Rightarrow> (Throw e, t3)
                     | (other, t3) \<Rightarrow> (other, t3))
                | (other, m2, t2) \<Rightarrow> (other, t2))
           | (Throw e, m1) \<Rightarrow> (Throw e, t1)
           | (_, m1) \<Rightarrow> (Fault, t1))
      | (Throw e, t1) \<Rightarrow> (Throw e, t1)
      | (_, t1) \<Rightarrow> (Fault, t1))"

lemma message_out_flush_empty:
  "sb_buffer (mo_buffer m) = [] \<Longrightarrow> message_out_flush m t = (Ret (), m, t)"
  by (simp add: message_out_flush_def)

text \<open>
  Through the wrapper a message block does what it does on \<open>TransportImpl\<close>: on an open
  transport exactly its frame is appended to the stream, on any other the block throws and
  nothing is sent.
\<close>

theorem client_send_message_frame:
  assumes "stream_open t"
  shows "client_send_message header payload t =
    (if status t = STATUS_OPEN
     then (Ret (), t\<lparr>stream_out := stream_out t @ frame \<lparr>mi_header = header, mi_payload = payload\<rparr>\<rparr>)
     else (Throw (Transport_exception
            ''non-IO exception happened in Transport implementation; see logs''), t))"
proof (cases "status t = STATUS_OPEN")
  case True
  obtain m where m: "message_out_flush (message_out_write payload (message_out_init header)) t =
      (Ret (), m, t\<lparr>stream_out := stream_out t @ frame \<lparr>mi_header = header, mi_payload = payload\<rparr>\<rparr>)"
      "sb_buffer (mo_buffer m) = []"
    using message_out_flush_frame [OF True assms, of payload header] by blast
  then show ?thesis using True
    by (simp add: client_send_message_def client_start_message_def xrtp_start_message_def
        start_message_def xrtp_msg_out_write_some_def client_flush_def xrtp_msg_out_flush_def
        client_message_out_destroy_def xrtp_msg_out_release_def message_out_release_def
        message_out_flush_empty)
next
  case False
  then show ?thesis
    by (auto simp: client_send_message_def client_start_message_def xrtp_start_message_def
        start_message_def exception_across_boundary_transport)
qed

theorem client_send_message_frame_witness:
  "client_send_message 5 [1] (connected [] () :: (nat, unit) transport) =
    (Ret (), (connected [] ())\<lparr>stream_out := frame \<lparr>mi_header = 5, mi_payload = [1]\<rparr>\<rparr>)"
  using client_send_message_frame [of "connected [] () :: (nat, unit) transport" 5 "[1]"] by simp

section \<open>Handlers behind a pointer\<close>

text \<open>
  \<open>Transport\<close> keeps its functions in the nodes of an \<open>unordered_map\<close>; the implementation holds
  the same static function for every header, with the address of a node as its data. The
  addresses are the type \<open>nat\<close>; \<open>nodes\<close> is the memory behind them.
\<close>

record ('f, 'e) wrapper =
  owns_transport :: bool
  wrapped :: "(nat, 'e) transport"
  stored :: "u16 \<Rightarrow> nat option"
  nodes :: "nat \<Rightarrow> 'f option"
  next_node :: nat

definition wrapper_create :: "bytes \<Rightarrow> 'e \<Rightarrow> ('f, 'e) wrapper" where
  "wrapper_create inp e =
     \<lparr>owns_transport = True, wrapped = transport_create inp e, stored = (\<lambda>_. None),
      nodes = (\<lambda>_. None), next_node = 0\<rparr>"

text \<open>\<open>emplace\<close> leaves an existing element alone and returns it.\<close>

definition wrapper_register_handler ::
  "u16 \<Rightarrow> 'f \<Rightarrow> ('f, 'e) wrapper \<Rightarrow> unit outcome \<times> ('f, 'e) wrapper" where
  "wrapper_register_handler header f w =
     (let (n, w1) = (case stored w header of
                       Some n \<Rightarrow> (n, w)
                     | None \<Rightarrow> (next_node w,
                         w\<lparr>stored := (stored w)(header := Some (next_node w)),
                           nodes := (nodes w)(next_node w := Some f),
                           next_node := Suc (next_node w)\<rparr>));
          (r, t) = chk_xrtp () (xrtp_register_handler header n (wrapped w1))
      in (r, w1\<lparr>wrapped := t\<rparr>))"

definition wrapper_unregister_handler ::
  "u16 \<Rightarrow> ('f, 'e) wrapper \<Rightarrow> unit outcome \<times> ('f, 'e) wrapper" where
  "wrapper_unregister_handler header w =
     (case chk_xrtp () (xrtp_unregister_handler header (wrapped w)) of
        (Ret _, t) \<Rightarrow>
          (Ret (), w\<lparr>wrapped := t, stored := (stored w)(header := None),
             nodes := (case stored w header of Some n \<Rightarrow> (nodes w)(n := None) | None \<Rightarrow> nodes w)\<rparr>)
      | (other, t) \<Rightarrow> (other, w\<lparr>wrapped := t\<rparr>))"

definition wrapper_clear_handlers :: "('f, 'e) wrapper \<Rightarrow> unit outcome \<times> ('f, 'e) wrapper" where
  "wrapper_clear_handlers w =
     (case chk_xrtp () (xrtp_clear_handlers (wrapped w)) of
        (Ret _, t) \<Rightarrow>
          (Ret (), w\<lparr>wrapped := t, stored := (\<lambda>_. None),
             nodes := (\<lambda>n. if Some n \<in> range (stored w) then None else nodes w n)\<rparr>)
      | (other, t) \<Rightarrow> (other, w\<lparr>wrapped := t\<rparr>))"

text \<open>
  The static \<open>raw_handler\<close>: it calls the function behind its data pointer. The function is a
  value that \<open>run\<close> executes.
\<close>

definition raw_handler ::
  "(nat \<Rightarrow> 'f option) \<Rightarrow> ('f \<Rightarrow> bytes \<Rightarrow> (nat, 'e) transport \<Rightarrow> unit outcome \<times> (nat, 'e) transport) \<Rightarrow>
   (nat, 'e) handler_exec" where
  "raw_handler mem run n payload t =
     (case mem n of None \<Rightarrow> (Fault, t) | Some f \<Rightarrow> run f payload t)"

datatype 'f handler_op = Register u16 'f | Unregister u16 | Clear

fun run_handler_op :: "'f handler_op \<Rightarrow> ('f, 'e) wrapper \<Rightarrow> ('f, 'e) wrapper" where
  "run_handler_op (Register h f) w = snd (wrapper_register_handler h f w)"
| "run_handler_op (Unregister h) w = snd (wrapper_unregister_handler h w)"
| "run_handler_op Clear w = snd (wrapper_clear_handlers w)"

text \<open>What the table means: the function that a message with a header runs.\<close>

fun handler_table_op :: "'f handler_op \<Rightarrow> (u16 \<Rightarrow> 'f option) \<Rightarrow> u16 \<Rightarrow> 'f option" where
  "handler_table_op (Register h f) m = (if m h = None then m(h := Some f) else m)"
| "handler_table_op (Unregister h) m = m(h := None)"
| "handler_table_op Clear m = (\<lambda>_. None)"

definition handler_table :: "('f, 'e) wrapper \<Rightarrow> u16 \<Rightarrow> 'f option" where
  "handler_table w h = Option.bind (handlers (wrapped w) h) (nodes w)"

definition wrapper_ok :: "('f, 'e) wrapper \<Rightarrow> bool" where
  "wrapper_ok w \<longleftrightarrow>
     handlers (wrapped w) = stored w \<and>
     (\<forall>h n. stored w h = Some n \<longrightarrow> nodes w n \<noteq> None \<and> n < next_node w) \<and>
     (\<forall>h h' n. stored w h = Some n \<longrightarrow> stored w h' = Some n \<longrightarrow> h = h')"

lemmas handler_calls =
  wrapper_register_handler_def wrapper_unregister_handler_def wrapper_clear_handlers_def
  xrtp_register_handler_def xrtp_unregister_handler_def xrtp_clear_handlers_def
  register_handler_def unregister_handler_def clear_handlers_def

lemma run_handler_op_ok:
  assumes "wrapper_ok w"
  shows "wrapper_ok (run_handler_op op w)"
    "handler_table (run_handler_op op w) = handler_table_op op (handler_table w)"
proof -
  have stored: "handlers (wrapped w) = stored w" using assms by (simp add: wrapper_ok_def)
  have nodes: "nodes w n \<noteq> None \<and> n < next_node w" if "stored w h = Some n" for h n
    using assms that unfolding wrapper_ok_def by blast
  have inj: "h = h'" if "stored w h = Some n" "stored w h' = Some n" for h h' n
    using assms that unfolding wrapper_ok_def by blast
  have "wrapper_ok (run_handler_op op w) \<and>
    handler_table (run_handler_op op w) = handler_table_op op (handler_table w)"
  proof (cases op)
    case (Register h f)
    show ?thesis
    proof (cases "stored w h")
      case None
      have fresh: "n \<noteq> next_node w \<and> n < Suc (next_node w)" if "stored w h' = Some n" for h' n
        using nodes [OF that] by auto
      have "Option.bind (stored w x) ((nodes w)(next_node w := Some f)) = Option.bind (stored w x) (nodes w)" for x
        using fresh [of x] by (cases "stored w x") auto
      then show ?thesis using None Register stored nodes inj fresh
        by (auto simp: handler_calls wrapper_ok_def handler_table_def Let_def fun_eq_iff)
    next
      case (Some n)
      then obtain g where "nodes w n = Some g" using nodes [OF Some] by auto
      then show ?thesis using Some Register stored assms
        by (auto simp: handler_calls wrapper_ok_def handler_table_def fun_upd_idem fun_eq_iff)
    qed
  next
    case (Unregister h)
    let ?nodes = "case stored w h of Some n \<Rightarrow> (nodes w)(n := None) | None \<Rightarrow> nodes w"
    have keep: "?nodes k = nodes w k" if "stored w x = Some k" "x \<noteq> h" for x k
      using that inj [of x k h] by (auto split: option.split)
    then have "Option.bind (stored w x) ?nodes = Option.bind (stored w x) (nodes w)" if "x \<noteq> h" for x
      using that by (cases "stored w x") auto
    then show ?thesis using Unregister stored nodes inj keep
      by (auto simp: handler_calls wrapper_ok_def handler_table_def fun_eq_iff split: if_splits)
  next
    case Clear
    then show ?thesis
      by (simp add: handler_calls wrapper_ok_def handler_table_def fun_eq_iff)
  qed
  then show "wrapper_ok (run_handler_op op w)"
    "handler_table (run_handler_op op w) = handler_table_op op (handler_table w)" by simp_all
qed

text \<open>
  The wrapper's handler table over any sequence of registrations: the implementation's table
  and the nodes agree, so that no registered data pointer dangles and a dispatched message never
  faults in \<open>raw_handler\<close>; and a message runs the function that was registered FIRST for its
  header since it was last unregistered. A second registration is silently ignored, where
  \<open>TransportImpl::register_handler\<close> replaces.
\<close>

theorem wrapper_handler_table:
  "wrapper_ok (fold run_handler_op ops (wrapper_create inp e)) \<and>
   handler_table (fold run_handler_op ops (wrapper_create inp e))
     = fold handler_table_op ops (\<lambda>_. None) \<and>
   (case handlers (wrapped (fold run_handler_op ops (wrapper_create inp e))) h of
      None \<Rightarrow> fold handler_table_op ops (\<lambda>_. None) h = None
    | Some n \<Rightarrow> (\<exists>f. fold handler_table_op ops (\<lambda>_. None) h = Some f \<and>
        raw_handler (nodes (fold run_handler_op ops (wrapper_create inp e))) run n payload t
          = run f payload t))"
proof -
  have "wrapper_ok (fold run_handler_op ops w) \<and>
      handler_table (fold run_handler_op ops w) = fold handler_table_op ops (handler_table w)"
    if "wrapper_ok w" for w :: "('a, 'b) wrapper"
    using that by (induction ops arbitrary: w) (simp_all add: run_handler_op_ok)
  moreover have "wrapper_ok (wrapper_create inp e :: ('a, 'b) wrapper)"
    "handler_table (wrapper_create inp e :: ('a, 'b) wrapper) = (\<lambda>_. None)"
    by (simp_all add: wrapper_ok_def wrapper_create_def transport_create_def handler_table_def fun_eq_iff)
  ultimately have w: "wrapper_ok (fold run_handler_op ops (wrapper_create inp e))"
    "handler_table (fold run_handler_op ops (wrapper_create inp e)) = fold handler_table_op ops (\<lambda>_. None)"
    by metis+
  let ?w = "fold run_handler_op ops (wrapper_create inp e)"
  have t: "fold handler_table_op ops (\<lambda>_. None) h = Option.bind (stored ?w h) (nodes ?w)"
    using w by (simp add: handler_table_def wrapper_ok_def fun_eq_iff)
  have "handlers (wrapped ?w) = stored ?w" "\<forall>n. stored ?w h = Some n \<longrightarrow> nodes ?w n \<noteq> None"
    using w(1) by (auto simp: wrapper_ok_def)
  then show ?thesis using w t by (auto simp: raw_handler_def split: option.split)
qed

section \<open>Reusing a message\<close>

text \<open>
  A \<open>MessageLockOut\<close> that is written again after a flush is not a second message: the first
  eight bytes of the new data are overwritten by the header and lost, and data of fewer than
  eight bytes is written out of the buffer's bounds.
\<close>

theorem message_out_reuse_loses_data:
  assumes "status t = STATUS_OPEN" "stream_open t" "sb_buffer (mo_buffer m) = []" "bs \<noteq> []"
  shows "if length bs < 8 then fst (message_out_flush (message_out_write bs m) t) = Fault
    else \<exists>m'. message_out_flush (message_out_write bs m) t =
      (Ret (), m', t\<lparr>stream_out := stream_out t @
         header_bytes ((mo_header m)\<lparr>mh_size := ucast ((word_of_nat (length bs) :: u64) - 8)\<rparr>) @ drop 8 bs\<rparr>)"
  using assms
  by (auto simp: message_out_flush_def message_out_seal_def message_out_buffer Let_def
      message_header_size_def flush_to_stream_def stream_write_def)

theorem message_out_reuse_loses_data_witness:
  "fst (message_out_flush (message_out_write [1, 2] (message_out_init 5 \<lparr>mo_buffer := \<lparr>sb_buffer = []\<rparr>\<rparr>))
     (connected [] () :: (nat, unit) transport)) = Fault"
  using message_out_reuse_loses_data [of "connected [] () :: (nat, unit) transport"
      "message_out_init 5 \<lparr>mo_buffer := \<lparr>sb_buffer = []\<rparr>\<rparr>" "[1, 2]"]
  by simp

end
