(* ===== verification/Transport_Threads.thy ===== *)
theory Transport_Threads
  imports Transport_Core
begin

text \<open>
  The threads of \<open>TransportImpl\<close>: the producer, the consumer and any number of user threads,
  as a step relation whose steps are the critical sections of the three mutexes. A wait on a
  condition variable is two steps, going to sleep (which releases the mutex) and waking; a
  notification is a step of its own, after the section that made it necessary, as in the code.
  Wake-ups without notification are steps too. \<open>message_mutex\<close> is recursive: it has an owner and
  a depth. The relation \<open>tstep\<close> covers \<open>lock_message_mutex\<close>, \<open>producer_loop\<close>, \<open>consumer_loop\<close>,
  \<open>await_any_message\<close>, \<open>shutdown\<close>, \<open>stop_threads\<close> and \<open>close\<close>.
\<close>

section \<open>State\<close>

datatype thread = Consumer | User nat

text \<open>
  Where the consumer is: about to test the status, to lock the message mutex, to look at
  \<open>num_waiting\<close>; asleep on \<open>num_waiting_cv\<close>; about to lock the queue; asleep on \<open>queue_cv\<close>;
  dispatching; inside a nested \<open>lock_message_mutex\<close> of a handler (three places); about to
  notify in \<open>stop_threads\<close>; finished.
\<close>

datatype consumer_pc =
    C_top | C_lock | C_check | C_cvwait | C_queue | C_qwait | C_dispatch message_in
  | C_want message_in | C_got message_in | C_notify message_in | C_closing | C_done

datatype producer_pc = P_read | P_notify u16 | P_closing | P_done

text \<open>
  A user thread: outside; waiting for, holding and about to notify in \<open>lock_message_mutex\<close>;
  owning the message lock; in \<open>await_any_message\<close>, asleep there, with a message to dispatch;
  in \<open>shutdown\<close> after the flush; in \<open>stop_threads\<close>, to return outside or to owning.
\<close>

datatype user_pc =
    U_idle | U_want | U_got | U_notify | U_own | U_await | U_qwait | U_dispatch message_in
  | U_flushed | U_closing bool

record threads =
  num_waiting :: nat
  owner :: "thread option"
  depth :: nat
  tstatus :: transport_status
  tqueue :: "message_in list"
  cons :: consumer_pc
  prod :: producer_pc
  users :: "user_pc list"

definition threads_init :: "nat \<Rightarrow> threads" where
  "threads_init n =
     \<lparr>num_waiting = 0, owner = None, depth = 0, tstatus = STATUS_OPEN, tqueue = [],
      cons = C_top, prod = P_read, users = replicate n U_idle\<rparr>"

text \<open>\<open>notify_all\<close> on \<open>queue_cv\<close>.\<close>

definition wake_queue :: "threads \<Rightarrow> threads" where
  "wake_queue s = s\<lparr>cons := (if cons s = C_qwait then C_top else cons s),
     users := map (\<lambda>p. if p = U_qwait then U_await else p) (users s)\<rparr>"

definition set_user :: "nat \<Rightarrow> user_pc \<Rightarrow> threads \<Rightarrow> threads" where
  "set_user u p s = s\<lparr>users := (users s)[u := p]\<rparr>"

definition unlock :: "threads \<Rightarrow> threads" where
  "unlock s = s\<lparr>depth := depth s - 1, owner := (if depth s = 1 then None else owner s)\<rparr>"

section \<open>Steps\<close>

inductive tstep :: "threads \<Rightarrow> threads \<Rightarrow> bool" where
  \<comment> \<open>consumer_loop\<close>
  c_exit: "cons s = C_top \<Longrightarrow> tstatus s = STATUS_CLOSED \<Longrightarrow> tstep s (s\<lparr>cons := C_done\<rparr>)"
| c_enter: "cons s = C_top \<Longrightarrow> tstatus s \<noteq> STATUS_CLOSED \<Longrightarrow> tstep s (s\<lparr>cons := C_lock\<rparr>)"
| c_lock: "cons s = C_lock \<Longrightarrow> owner s = None \<Longrightarrow>
    tstep s (s\<lparr>cons := C_check, owner := Some Consumer, depth := 1\<rparr>)"
| c_defer: "cons s = C_check \<Longrightarrow> 0 < num_waiting s \<Longrightarrow> tstep s (unlock (s\<lparr>cons := C_cvwait\<rparr>))"
| c_proceed: "cons s = C_check \<Longrightarrow> num_waiting s = 0 \<Longrightarrow> tstep s (s\<lparr>cons := C_queue\<rparr>)"
| c_spurious_cv: "cons s = C_cvwait \<Longrightarrow> tstep s (s\<lparr>cons := C_top\<rparr>)"
| c_break: "cons s = C_queue \<Longrightarrow> tstatus s = STATUS_CLOSED \<Longrightarrow> tstep s (unlock (s\<lparr>cons := C_done\<rparr>))"
| c_pop: "cons s = C_queue \<Longrightarrow> tstatus s \<noteq> STATUS_CLOSED \<Longrightarrow> tqueue s = m # ms \<Longrightarrow>
    tstep s (s\<lparr>cons := C_dispatch m, tqueue := ms\<rparr>)"
| c_sleep: "cons s = C_queue \<Longrightarrow> tstatus s \<noteq> STATUS_CLOSED \<Longrightarrow> tqueue s = [] \<Longrightarrow>
    tstep s (unlock (s\<lparr>cons := C_qwait\<rparr>))"
| c_spurious_queue: "cons s = C_qwait \<Longrightarrow> tstep s (s\<lparr>cons := C_top\<rparr>)"
| c_shutdown: "cons s = C_dispatch m \<Longrightarrow> mi_header m = XRTP_MSG_SHUTDOWN \<Longrightarrow> depth s = 1 \<Longrightarrow>
    tstep s (s\<lparr>cons := C_closing, tstatus := STATUS_CLOSED\<rparr>)"
| c_closed: "cons s = C_closing \<Longrightarrow> tstep s (unlock (wake_queue (s\<lparr>cons := C_top\<rparr>)))"
| c_handled: "cons s = C_dispatch m \<Longrightarrow> mi_header m \<noteq> XRTP_MSG_SHUTDOWN \<Longrightarrow> depth s = 1 \<Longrightarrow>
    tstep s (unlock (s\<lparr>cons := C_top\<rparr>))"
  \<comment> \<open>lock_message_mutex inside a handler on the consumer thread\<close>
| c_want: "cons s = C_dispatch m \<Longrightarrow>
    tstep s (s\<lparr>cons := C_want m, num_waiting := num_waiting s + 1\<rparr>)"
| c_got: "cons s = C_want m \<Longrightarrow> owner s = Some Consumer \<Longrightarrow>
    tstep s (s\<lparr>cons := C_got m, depth := depth s + 1\<rparr>)"
| c_dec: "cons s = C_got m \<Longrightarrow>
    tstep s (s\<lparr>cons := (if num_waiting s - 1 = 0 then C_notify m else C_dispatch m),
               num_waiting := num_waiting s - 1\<rparr>)"
| c_notify: "cons s = C_notify m \<Longrightarrow> tstep s (s\<lparr>cons := C_dispatch m\<rparr>)"
| c_release: "cons s = C_dispatch m \<Longrightarrow> 1 < depth s \<Longrightarrow> tstep s (s\<lparr>depth := depth s - 1\<rparr>)"
  \<comment> \<open>producer_loop\<close>
| p_stop: "prod s = P_read \<Longrightarrow> tstatus s = STATUS_CLOSED \<Longrightarrow> tstep s (s\<lparr>prod := P_done\<rparr>)"
| p_push: "prod s = P_read \<Longrightarrow>
    tstep s (s\<lparr>prod := P_notify (mi_header m), tqueue := tqueue s @ [m]\<rparr>)"
| p_notify: "prod s = P_notify h \<Longrightarrow>
    tstep s (wake_queue (s\<lparr>prod := (if h = XRTP_MSG_SHUTDOWN then P_done else P_read)\<rparr>))"
| p_error: "prod s = P_read \<Longrightarrow> tstep s (s\<lparr>prod := P_closing, tstatus := STATUS_CLOSED\<rparr>)"
| p_closed: "prod s = P_closing \<Longrightarrow> tstep s (wake_queue (s\<lparr>prod := P_done\<rparr>))"
  \<comment> \<open>lock_message_mutex\<close>
| u_want: "u < length (users s) \<Longrightarrow> users s ! u = U_idle \<or> users s ! u = U_own \<Longrightarrow>
    tstep s (set_user u U_want (s\<lparr>num_waiting := num_waiting s + 1\<rparr>))"
| u_got: "u < length (users s) \<Longrightarrow> users s ! u = U_want \<Longrightarrow>
    owner s = None \<or> owner s = Some (User u) \<Longrightarrow>
    tstep s (set_user u U_got (s\<lparr>owner := Some (User u), depth := depth s + 1\<rparr>))"
| u_dec: "u < length (users s) \<Longrightarrow> users s ! u = U_got \<Longrightarrow>
    tstep s (set_user u (if num_waiting s - 1 = 0 then U_notify else U_own)
               (s\<lparr>num_waiting := num_waiting s - 1\<rparr>))"
| u_notify: "u < length (users s) \<Longrightarrow> users s ! u = U_notify \<Longrightarrow>
    tstep s (set_user u U_own (s\<lparr>cons := (if cons s = C_cvwait then C_top else cons s)\<rparr>))"
| u_release: "u < length (users s) \<Longrightarrow> users s ! u = U_own \<Longrightarrow>
    tstep s (set_user u (if depth s = 1 then U_idle else U_own) (unlock s))"
  \<comment> \<open>await_any_message, with the message lock held\<close>
| u_await: "u < length (users s) \<Longrightarrow> users s ! u = U_own \<Longrightarrow> tstep s (set_user u U_await s)"
| u_aborted: "u < length (users s) \<Longrightarrow> users s ! u = U_await \<Longrightarrow> tstatus s = STATUS_CLOSED \<Longrightarrow>
    tstep s (set_user u U_own s)"
| u_pop: "u < length (users s) \<Longrightarrow> users s ! u = U_await \<Longrightarrow> tstatus s \<noteq> STATUS_CLOSED \<Longrightarrow>
    tqueue s = m # ms \<Longrightarrow> tstep s (set_user u (U_dispatch m) (s\<lparr>tqueue := ms\<rparr>))"
| u_sleep: "u < length (users s) \<Longrightarrow> users s ! u = U_await \<Longrightarrow> tstatus s \<noteq> STATUS_CLOSED \<Longrightarrow>
    tqueue s = [] \<Longrightarrow> tstep s (set_user u U_qwait s)"
| u_spurious: "u < length (users s) \<Longrightarrow> users s ! u = U_qwait \<Longrightarrow> tstep s (set_user u U_await s)"
| u_dispatched: "u < length (users s) \<Longrightarrow> users s ! u = U_dispatch m \<Longrightarrow>
    mi_header m \<noteq> XRTP_MSG_SHUTDOWN \<Longrightarrow> tstep s (set_user u U_own s)"
| u_dispatch_shutdown: "u < length (users s) \<Longrightarrow> users s ! u = U_dispatch m \<Longrightarrow>
    mi_header m = XRTP_MSG_SHUTDOWN \<Longrightarrow>
    tstep s (set_user u (U_closing True) (s\<lparr>tstatus := STATUS_CLOSED\<rparr>))"
  \<comment> \<open>close, shutdown\<close>
| u_close: "u < length (users s) \<Longrightarrow> users s ! u = U_idle \<Longrightarrow>
    tstep s (set_user u (U_closing False) (s\<lparr>tstatus := STATUS_CLOSED\<rparr>))"
| u_closed: "u < length (users s) \<Longrightarrow> users s ! u = U_closing b \<Longrightarrow>
    tstep s (set_user u (if b then U_own else U_idle) (wake_queue s))"
| u_flush: "u < length (users s) \<Longrightarrow> users s ! u = U_own \<Longrightarrow> tstatus s = STATUS_OPEN \<Longrightarrow>
    tstep s (set_user u U_flushed s)"
| u_shutdown: "u < length (users s) \<Longrightarrow> users s ! u = U_flushed \<Longrightarrow>
    tstep s (set_user u U_own (s\<lparr>tstatus := STATUS_WRITE_CLOSED\<rparr>))"

definition treachable :: "nat \<Rightarrow> threads \<Rightarrow> bool" where
  "treachable n s = tstep\<^sup>*\<^sup>* (threads_init n) s"

section \<open>The invariant\<close>

definition wants :: "user_pc \<Rightarrow> bool" where
  "wants p \<longleftrightarrow> p = U_want \<or> p = U_got"

definition holds_lock :: "user_pc \<Rightarrow> bool" where
  "holds_lock p \<longleftrightarrow> p \<in> {U_got, U_notify, U_own, U_await, U_qwait, U_flushed, U_closing True} \<or>
     (\<exists>m. p = U_dispatch m)"

definition consumer_holds :: "consumer_pc \<Rightarrow> bool" where
  "consumer_holds p \<longleftrightarrow> p \<in> {C_check, C_queue, C_closing} \<or>
     (\<exists>m. p \<in> {C_dispatch m, C_want m, C_got m, C_notify m})"

definition consumer_wants :: "consumer_pc \<Rightarrow> nat" where
  "consumer_wants p = (if \<exists>m. p = C_want m \<or> p = C_got m then 1 else 0)"

definition count_inv :: "threads \<Rightarrow> bool" where
  "count_inv s \<longleftrightarrow> num_waiting s = length (filter wants (users s)) + consumer_wants (cons s)"

definition lock_inv :: "threads \<Rightarrow> bool" where
  "lock_inv s \<longleftrightarrow>
     (consumer_holds (cons s) \<longrightarrow> owner s = Some Consumer) \<and>
     (\<forall>u<length (users s). holds_lock (users s ! u) \<longrightarrow> owner s = Some (User u)) \<and>
     (owner s = None \<longleftrightarrow> depth s = 0) \<and>
     (cons s \<in> {C_check, C_queue, C_closing} \<longrightarrow> depth s = 1)"

definition cv_inv :: "threads \<Rightarrow> bool" where
  "cv_inv s \<longleftrightarrow> (cons s = C_cvwait \<longrightarrow> 0 < num_waiting s \<or> U_notify \<in> set (users s))"

definition asleep_on_queue :: "threads \<Rightarrow> bool" where
  "asleep_on_queue s \<longleftrightarrow> cons s = C_qwait \<or> U_qwait \<in> set (users s)"

definition close_pending :: "threads \<Rightarrow> bool" where
  "close_pending s \<longleftrightarrow> prod s = P_closing \<or> cons s = C_closing \<or> (\<exists>b. U_closing b \<in> set (users s))"

definition queue_inv :: "threads \<Rightarrow> bool" where
  "queue_inv s \<longleftrightarrow> (asleep_on_queue s \<longrightarrow>
     (tqueue s \<noteq> [] \<longrightarrow> (\<exists>h. prod s = P_notify h)) \<and> (tstatus s = STATUS_CLOSED \<longrightarrow> close_pending s))"

lemma filter_update_count:
  "u < length xs \<Longrightarrow> length (filter P (xs[u := p])) + (if P (xs ! u) then 1 else 0)
     = length (filter P xs) + (if P p then 1 else 0)"
proof (induction xs arbitrary: u)
  case (Cons x xs)
  then show ?case by (cases u) auto
qed simp

lemma wake_queue_simps [simp]:
  "num_waiting (wake_queue s) = num_waiting s" "owner (wake_queue s) = owner s"
  "depth (wake_queue s) = depth s" "tstatus (wake_queue s) = tstatus s"
  "tqueue (wake_queue s) = tqueue s" "prod (wake_queue s) = prod s"
  "cons (wake_queue s) = (if cons s = C_qwait then C_top else cons s)"
  "users (wake_queue s) = map (\<lambda>p. if p = U_qwait then U_await else p) (users s)"
  by (simp_all add: wake_queue_def)

lemma set_user_simps [simp]:
  "num_waiting (set_user u p s) = num_waiting s" "owner (set_user u p s) = owner s"
  "depth (set_user u p s) = depth s" "tstatus (set_user u p s) = tstatus s"
  "tqueue (set_user u p s) = tqueue s" "prod (set_user u p s) = prod s"
  "cons (set_user u p s) = cons s" "users (set_user u p s) = (users s)[u := p]"
  by (simp_all add: set_user_def)

lemma unlock_simps [simp]:
  "num_waiting (unlock s) = num_waiting s" "tstatus (unlock s) = tstatus s"
  "depth (unlock s) = depth s - 1" "owner (unlock s) = (if depth s = 1 then None else owner s)"
  "tqueue (unlock s) = tqueue s" "prod (unlock s) = prod s"
  "cons (unlock s) = cons s" "users (unlock s) = users s"
  by (simp_all add: unlock_def)

lemma wants_wake [simp]:
  "wants \<circ> (\<lambda>p. if p = U_qwait then U_await else p) = wants"
  by (auto simp: wants_def fun_eq_iff)

lemma consumer_wants_simps [simp]:
  "consumer_wants C_top = 0" "consumer_wants C_lock = 0" "consumer_wants C_check = 0"
  "consumer_wants C_cvwait = 0" "consumer_wants C_queue = 0" "consumer_wants C_qwait = 0"
  "consumer_wants C_closing = 0" "consumer_wants C_done = 0" "consumer_wants (C_dispatch m) = 0"
  "consumer_wants (C_notify m) = 0" "consumer_wants (C_want m) = 1" "consumer_wants (C_got m) = 1"
  by (simp_all add: consumer_wants_def)

lemma wants_simps [simp]:
  "wants U_want" "wants U_got" "\<not> wants U_idle" "\<not> wants U_notify" "\<not> wants U_own" "\<not> wants U_await"
  "\<not> wants U_qwait" "\<not> wants (U_dispatch m)" "\<not> wants U_flushed" "\<not> wants (U_closing b)"
  by (simp_all add: wants_def)

lemma filter_update_same:
  "u < length xs \<Longrightarrow> P (xs ! u) = P p \<Longrightarrow> length (filter P (xs[u := p])) = length (filter P xs)"
  using filter_update_count [of u xs P p] by simp

lemma count_inv_step: "tstep s s' \<Longrightarrow> count_inv s \<Longrightarrow> count_inv s'"
proof (induction rule: tstep.induct)
  case (u_want u s)
  then show ?case using filter_update_count [of u "users s" wants U_want] by (auto simp: count_inv_def)
next
  case (u_dec u s)
  let ?p = "if num_waiting s - 1 = 0 then U_notify else U_own"
  have "length (filter wants ((users s)[u := ?p])) + 1 = length (filter wants (users s))"
    using filter_update_count [of u "users s" wants ?p] u_dec by auto
  then show ?case using u_dec by (simp add: count_inv_def del: One_nat_def)
next
  case (u_closed u s b)
  then show ?case
    using filter_update_same [of u "map (\<lambda>p. if p = U_qwait then U_await else p) (users s)" wants]
    by (auto simp: count_inv_def)
qed (auto simp: count_inv_def filter_update_same split: if_splits)

lemma holds_lock_simps [simp]:
  "holds_lock U_got" "holds_lock U_notify" "holds_lock U_own" "holds_lock U_await" "holds_lock U_qwait"
  "holds_lock U_flushed" "holds_lock (U_dispatch m)" "holds_lock (U_closing b) = b"
  "\<not> holds_lock U_idle" "\<not> holds_lock U_want"
  by (simp_all add: holds_lock_def)

lemma consumer_holds_simps [simp]:
  "consumer_holds C_check" "consumer_holds C_queue" "consumer_holds C_closing"
  "consumer_holds (C_dispatch m)" "consumer_holds (C_want m)" "consumer_holds (C_got m)"
  "consumer_holds (C_notify m)" "\<not> consumer_holds C_top" "\<not> consumer_holds C_lock"
  "\<not> consumer_holds C_cvwait" "\<not> consumer_holds C_qwait" "\<not> consumer_holds C_done"
  by (simp_all add: consumer_holds_def)

lemma holds_wake [simp]:
  "holds_lock (if p = U_qwait then U_await else p) = holds_lock p"
  by simp

lemma lock_inv_irrelevant [simp]:
  "lock_inv (s\<lparr>num_waiting := n\<rparr>) = lock_inv s" "lock_inv (s\<lparr>tqueue := q\<rparr>) = lock_inv s"
  "lock_inv (s\<lparr>tstatus := st\<rparr>) = lock_inv s" "lock_inv (s\<lparr>prod := p\<rparr>) = lock_inv s"
  by (simp_all add: lock_inv_def)

lemma lock_inv_cons:
  assumes "lock_inv s" "consumer_holds c \<longrightarrow> owner s = Some Consumer"
    "c \<in> {C_check, C_queue, C_closing} \<longrightarrow> depth s = 1"
  shows "lock_inv (s\<lparr>cons := c\<rparr>)"
  using assms by (simp add: lock_inv_def)

lemma lock_inv_set_user:
  assumes "lock_inv s" "u < length (users s)" "holds_lock p \<longrightarrow> owner s = Some (User u)"
  shows "lock_inv (set_user u p s)"
  using assms unfolding lock_inv_def by (auto simp: nth_list_update)

lemma lock_inv_wake: "lock_inv s \<Longrightarrow> lock_inv (wake_queue s)"
  unfolding lock_inv_def by auto

text \<open>Releasing: whoever holds the lock after the last release must have left.\<close>

lemma lock_inv_unlock:
  assumes "lock_inv s" "cons s \<notin> {C_check, C_queue, C_closing}"
    "depth s = 1 \<longrightarrow> \<not> consumer_holds (cons s) \<and> (\<forall>u<length (users s). \<not> holds_lock (users s ! u))"
  shows "lock_inv (unlock s)"
  using assms unfolding lock_inv_def by auto

lemma lock_inv_user:
  assumes "lock_inv s" "u < length (users s)" "holds_lock (users s ! u)"
  shows "owner s = Some (User u)" "\<not> consumer_holds (cons s)"
    "v < length (users s) \<Longrightarrow> holds_lock (users s ! v) \<Longrightarrow> v = u"
proof -
  have users: "owner s = Some (User v)" if "v < length (users s)" "holds_lock (users s ! v)" for v
    using assms(1) that by (simp add: lock_inv_def)
  show o: "owner s = Some (User u)" using users assms by blast
  show "\<not> consumer_holds (cons s)" using assms(1) o by (auto simp: lock_inv_def)
  show "v = u" if "v < length (users s)" "holds_lock (users s ! v)" using users [OF that] o by simp
qed

lemma lock_inv_consumer:
  assumes "lock_inv s" "consumer_holds (cons s)"
  shows "owner s = Some Consumer" "u < length (users s) \<Longrightarrow> \<not> holds_lock (users s ! u)"
  using assms by (auto simp: lock_inv_def)

lemma unlock_wake: "unlock (wake_queue s) = wake_queue (unlock s)"
  by (cases s) (simp add: unlock_def wake_queue_def)

lemma unlock_set_user: "unlock (set_user u p s) = set_user u p (unlock s)"
  by (cases s) (simp add: unlock_def set_user_def)

lemma lock_inv_consumer_unlock:
  assumes "lock_inv s" "consumer_holds (cons s)" "\<not> consumer_holds c"
  shows "lock_inv (unlock (s\<lparr>cons := c\<rparr>))"
proof (rule lock_inv_unlock)
  show "lock_inv (s\<lparr>cons := c\<rparr>)" using assms by (intro lock_inv_cons) auto
qed (use assms lock_inv_consumer [OF assms(1,2)] in auto)

lemma lock_inv_step: "tstep s s' \<Longrightarrow> lock_inv s \<Longrightarrow> lock_inv s'"
proof (induction rule: tstep.induct)
  case (c_lock s)
  then show ?case by (auto simp: lock_inv_def)
next
  case (c_got s m)
  then show ?case by (simp add: lock_inv_def)
next
  case (c_proceed s)
  then show ?case by (auto simp: lock_inv_def)
next
  case (c_release s m)
  then show ?case by (auto simp: lock_inv_def)
next
  case (c_defer s)
  then show ?case by (intro lock_inv_consumer_unlock) auto
next
  case (c_break s)
  then show ?case by (intro lock_inv_consumer_unlock) auto
next
  case (c_sleep s)
  then show ?case by (intro lock_inv_consumer_unlock) auto
next
  case (c_handled s m)
  then show ?case by (intro lock_inv_consumer_unlock) auto
next
  case (c_closed s)
  then have "lock_inv (wake_queue (unlock (s\<lparr>cons := C_top\<rparr>)))"
    by (intro lock_inv_wake lock_inv_consumer_unlock) auto
  then show ?case by (simp only: unlock_wake)
next
  case (u_got u s)
  have cons: "\<not> consumer_holds (cons s)"
  proof
    assume "consumer_holds (cons s)"
    then have "owner s = Some Consumer" using u_got(4) by (simp add: lock_inv_def)
    then show False using u_got(3) by simp
  qed
  have "v = u" if "v < length (users s)" "holds_lock (users s ! v)" for v
  proof -
    have "owner s = Some (User v)" using u_got(4) that by (simp add: lock_inv_def)
    then show ?thesis using u_got(3) by simp
  qed
  then have "lock_inv (s\<lparr>owner := Some (User u), depth := depth s + 1\<rparr>)"
    using cons by (auto simp: lock_inv_def)
  then show ?case using u_got by (intro lock_inv_set_user) auto
next
  case (u_release u s)
  have own: "holds_lock (users s ! u)" using u_release by simp
  note o = lock_inv_user [OF u_release(3,1) own]
  have other: "\<not> holds_lock (users s ! v)" if "v < length (users s)" "v \<noteq> u" for v
    using o(3) that by blast
  have "lock_inv (unlock (set_user u (if depth s = 1 then U_idle else U_own) s))"
  proof (rule lock_inv_unlock)
    show "lock_inv (set_user u (if depth s = 1 then U_idle else U_own) s)"
      using u_release(1,3) o(1) by (intro lock_inv_set_user) simp_all
    show "cons (set_user u (if depth s = 1 then U_idle else U_own) s) \<notin> {C_check, C_queue, C_closing}"
      using o(2) by auto
    show "depth (set_user u (if depth s = 1 then U_idle else U_own) s) = 1 \<longrightarrow>
        \<not> consumer_holds (cons (set_user u (if depth s = 1 then U_idle else U_own) s)) \<and>
        (\<forall>v<length (users (set_user u (if depth s = 1 then U_idle else U_own) s)).
          \<not> holds_lock (users (set_user u (if depth s = 1 then U_idle else U_own) s) ! v))"
      using o(2) other u_release(1) by (simp add: nth_list_update)
  qed
  then show ?case by (simp only: unlock_set_user)
next
  case (u_notify u s)
  have o: "owner s = Some (User u)" using lock_inv_user(1) [OF u_notify(3,1)] u_notify(2) by simp
  have "lock_inv (s\<lparr>cons := if cons s = C_cvwait then C_top else cons s\<rparr>)"
    using u_notify(3) by (simp add: lock_inv_cons)
  then show ?case using u_notify(1) o by (intro lock_inv_set_user) simp_all
next
  case (u_closed u s b)
  then show ?case using lock_inv_user(1) [of s u]
    by (intro lock_inv_set_user lock_inv_wake) auto
qed (auto intro!: lock_inv_set_user lock_inv_wake lock_inv_cons intro: lock_inv_user(1) lock_inv_consumer(1))

lemma in_set_update_other: "p \<in> set xs \<Longrightarrow> xs ! u \<noteq> p \<Longrightarrow> p \<in> set (xs[u := q])"
  by (metis in_set_conv_nth length_list_update nth_list_update_neq)

lemma in_set_update_new: "p \<noteq> q \<Longrightarrow> p \<in> set (xs[u := q]) \<Longrightarrow> p \<in> set xs"
  using set_update_subset_insert by fastforce

lemma cv_inv_step: "tstep s s' \<Longrightarrow> count_inv s \<Longrightarrow> cv_inv s \<Longrightarrow> cv_inv s'"
proof (induction rule: tstep.induct)
  case (u_dec u s)
  then show ?case using set_update_memI [of u "users s"] by (auto simp: cv_inv_def)
qed (auto simp: cv_inv_def image_iff intro: in_set_update_other)

lemma queue_inv_awake: "\<not> asleep_on_queue s \<Longrightarrow> queue_inv s"
  by (simp add: queue_inv_def)

lemma asleep_wake [simp]: "\<not> asleep_on_queue (wake_queue s)"
  by (auto simp: asleep_on_queue_def)

lemma asleep_set_user: "p \<noteq> U_qwait \<Longrightarrow> asleep_on_queue (set_user u p s) \<Longrightarrow> asleep_on_queue s"
  using in_set_update_new [of U_qwait p "users s" u] by (auto simp: asleep_on_queue_def)

lemma close_pending_set_user:
  "close_pending s \<Longrightarrow> \<forall>b. users s ! u \<noteq> U_closing b \<Longrightarrow> close_pending (set_user u p s)"
  by (auto simp: close_pending_def intro: in_set_update_other)

text \<open>A step of a user thread that touches neither queue nor status.\<close>

lemma queue_inv_set_user:
  assumes "queue_inv s" "p \<noteq> U_qwait" "\<forall>b. users s ! u \<noteq> U_closing b"
  shows "queue_inv (set_user u p s)"
  using assms asleep_set_user close_pending_set_user by (auto simp: queue_inv_def)

lemma queue_inv_irrelevant [simp]:
  "queue_inv (s\<lparr>num_waiting := n\<rparr>) = queue_inv s" "queue_inv (s\<lparr>depth := d\<rparr>) = queue_inv s"
  "queue_inv (s\<lparr>owner := w\<rparr>) = queue_inv s" "queue_inv (unlock s) = queue_inv s"
  by (simp_all add: queue_inv_def asleep_on_queue_def close_pending_def)

lemma queue_inv_cons:
  assumes "queue_inv s" "cons s \<noteq> C_closing" "c \<noteq> C_qwait"
  shows "queue_inv (s\<lparr>cons := c\<rparr>)"
  using assms by (auto simp: queue_inv_def asleep_on_queue_def close_pending_def)

lemma queue_inv_step: "tstep s s' \<Longrightarrow> queue_inv s \<Longrightarrow> queue_inv s'"
proof (induction rule: tstep.induct)
  case (c_pop s m ms)
  then show ?case by (auto simp: queue_inv_def asleep_on_queue_def close_pending_def)
next
  case (c_sleep s)
  then show ?case by (simp add: queue_inv_def)
next
  case (c_shutdown s m)
  then show ?case by (auto simp: queue_inv_def asleep_on_queue_def close_pending_def)
next
  case (c_closed s)
  then show ?case by (simp add: queue_inv_awake)
next
  case (p_stop s)
  then show ?case by (auto simp: queue_inv_def asleep_on_queue_def close_pending_def)
next
  case (p_push s m)
  then show ?case by (auto simp: queue_inv_def asleep_on_queue_def close_pending_def)
next
  case (p_notify s h)
  then show ?case by (simp add: queue_inv_awake)
next
  case (p_error s)
  then show ?case by (auto simp: queue_inv_def asleep_on_queue_def close_pending_def)
next
  case (p_closed s)
  then show ?case by (simp add: queue_inv_awake)
next
  case (u_pop u s m ms)
  then have "queue_inv (s\<lparr>tqueue := ms\<rparr>)"
    by (auto simp: queue_inv_def asleep_on_queue_def close_pending_def)
  then show ?case using u_pop by (intro queue_inv_set_user) auto
next
  case (u_sleep u s)
  then show ?case by (simp add: queue_inv_def)
next
  case (u_dispatch_shutdown u s m)
  then have "close_pending (set_user u (U_closing True) (s\<lparr>tstatus := STATUS_CLOSED\<rparr>))"
    using set_update_memI [of u "users s"] by (auto simp: close_pending_def)
  then show ?case using u_dispatch_shutdown asleep_set_user
    by (auto simp: queue_inv_def asleep_on_queue_def dest: in_set_update_new [rotated])
next
  case (u_close u s)
  then have "close_pending (set_user u (U_closing False) (s\<lparr>tstatus := STATUS_CLOSED\<rparr>))"
    using set_update_memI [of u "users s"] by (auto simp: close_pending_def)
  then show ?case using u_close
    by (auto simp: queue_inv_def asleep_on_queue_def dest: in_set_update_new [rotated])
next
  case (u_closed u s b)
  have "\<not> asleep_on_queue (set_user u (if b then U_own else U_idle) (wake_queue s))"
    using asleep_set_user [of "if b then U_own else U_idle" u "wake_queue s"] by auto
  then show ?case by (rule queue_inv_awake)
next
  case (u_shutdown u s)
  then have "queue_inv (s\<lparr>tstatus := STATUS_WRITE_CLOSED\<rparr>)"
    by (auto simp: queue_inv_def asleep_on_queue_def close_pending_def)
  then show ?case using u_shutdown by (intro queue_inv_set_user) auto
qed (auto intro!: queue_inv_set_user queue_inv_cons)

section \<open>Reachable states\<close>

lemma treachable_init: "treachable n (threads_init n)"
  by (simp add: treachable_def)

lemma treachable_step: "treachable n s \<Longrightarrow> tstep s s' \<Longrightarrow> treachable n s'"
  by (simp add: treachable_def)

lemma treachable_invs:
  assumes "treachable n s"
  shows "count_inv s" "lock_inv s" "cv_inv s" "queue_inv s"
proof -
  have "count_inv s \<and> lock_inv s \<and> cv_inv s \<and> queue_inv s"
    using assms unfolding treachable_def
  proof (induction rule: rtranclp_induct)
    case base
    show ?case
      by (simp add: threads_init_def count_inv_def lock_inv_def cv_inv_def queue_inv_def asleep_on_queue_def)
  next
    case (step s s')
    then show ?case
      using count_inv_step [OF step(2)] lock_inv_step [OF step(2)] cv_inv_step [OF step(2)]
        queue_inv_step [OF step(2)] by blast
  qed
  then show "count_inv s" "lock_inv s" "cv_inv s" "queue_inv s" by simp_all
qed

text \<open>
  C23: In every reachable state of the threads \<open>num_waiting\<close> is the number of threads between
  its increment and its decrement, and at most one thread is in a section that needs the message
  lock: two user threads never hold it together, and the consumer never dispatches, pops or
  closes while a user thread holds it.
\<close>

theorem message_lock_exclusive:
  assumes "treachable n s"
  shows "num_waiting s = length (filter wants (users s)) + consumer_wants (cons s) \<and>
    (\<forall>u<length (users s). \<forall>v<length (users s).
       holds_lock (users s ! u) \<longrightarrow> holds_lock (users s ! v) \<longrightarrow> u = v) \<and>
    (consumer_holds (cons s) \<longrightarrow> (\<forall>u<length (users s). \<not> holds_lock (users s ! u)))"
  using treachable_invs(1,2) [OF assms] lock_inv_user(3) lock_inv_consumer(2)
  unfolding count_inv_def by blast

text \<open>A user thread takes the lock, and the consumer defers to it.\<close>

definition deferring_state :: threads where
  "deferring_state = \<lparr>num_waiting = 1, owner = None, depth = 0, tstatus = STATUS_OPEN, tqueue = [],
     cons = C_cvwait, prod = P_read, users = [U_want]\<rparr>"

lemma treachable_deferring: "treachable 1 deferring_state"
proof -
  let ?s = "threads_init 1"
  have 1: "treachable 1 (?s\<lparr>cons := C_lock\<rparr>)"
    by (rule treachable_step [OF treachable_init c_enter]) (simp_all add: threads_init_def)
  have 2: "treachable 1 (?s\<lparr>cons := C_check, owner := Some Consumer, depth := 1\<rparr>)"
    using treachable_step [OF 1 c_lock] by (simp add: threads_init_def)
  have 3: "treachable 1 (?s\<lparr>cons := C_check, owner := Some Consumer, depth := 1, num_waiting := 1,
      users := [U_want]\<rparr>)"
    using treachable_step [OF 2 u_want [of 0]] by (simp add: threads_init_def set_user_def)
  show ?thesis
    using treachable_step [OF 3 c_defer] by (simp add: threads_init_def deferring_state_def unlock_def)
qed

theorem message_lock_exclusive_witness:
  "num_waiting deferring_state =
     length (filter wants (users deferring_state)) + consumer_wants (cons deferring_state)"
  using message_lock_exclusive [OF treachable_deferring] by blast

section \<open>Who ends the sleep\<close>

text \<open>
  A shutdown message that is being dispatched, by the consumer or by a user thread; it closes the
  transport. The producer ends only when the transport is closed or a shutdown message is on its way.
\<close>

definition handles_shutdown :: "threads \<Rightarrow> bool" where
  "handles_shutdown s \<longleftrightarrow> (\<exists>m. mi_header m = XRTP_MSG_SHUTDOWN \<and>
     (cons s \<in> {C_dispatch m, C_want m, C_got m, C_notify m} \<or> U_dispatch m \<in> set (users s)))"

definition shutdown_known :: "threads \<Rightarrow> bool" where
  "shutdown_known s \<longleftrightarrow> tstatus s = STATUS_CLOSED \<or> (\<exists>m\<in>set (tqueue s). mi_header m = XRTP_MSG_SHUTDOWN) \<or> handles_shutdown s"

definition done_inv :: "threads \<Rightarrow> bool" where
  "done_inv s \<longleftrightarrow> (prod s = P_closing \<longrightarrow> tstatus s = STATUS_CLOSED) \<and>
     (prod s = P_done \<or> prod s = P_notify XRTP_MSG_SHUTDOWN \<longrightarrow> shutdown_known s)"

text \<open>Steps, except the one in which a \<open>shutdown\<close> overwrites the closed status.\<close>

definition clean_step :: "threads \<Rightarrow> threads \<Rightarrow> bool" where
  "clean_step s s' \<longleftrightarrow> tstep s s' \<and> \<not> (tstatus s = STATUS_CLOSED \<and> tstatus s' = STATUS_WRITE_CLOSED)"

lemma shutdown_known_cons:
  assumes "shutdown_known s" "\<forall>m. mi_header m = XRTP_MSG_SHUTDOWN \<longrightarrow> cons s \<in> {C_dispatch m, C_want m, C_got m, C_notify m} \<longrightarrow>
    c \<in> {C_dispatch m, C_want m, C_got m, C_notify m}"
  shows "shutdown_known (s\<lparr>cons := c\<rparr>)"
  using assms unfolding shutdown_known_def handles_shutdown_def by (simp, blast)

lemma shutdown_known_set_user:
  assumes "shutdown_known s" "\<forall>m. users s ! u = U_dispatch m \<longrightarrow> mi_header m \<noteq> XRTP_MSG_SHUTDOWN"
  shows "shutdown_known (set_user u p s)"
proof -
  have "U_dispatch m \<in> set ((users s)[u := p])" if "U_dispatch m \<in> set (users s)" "mi_header m = XRTP_MSG_SHUTDOWN" for m
    using that assms(2) by (intro in_set_update_other) auto
  then show ?thesis using assms(1) unfolding shutdown_known_def handles_shutdown_def by (simp, blast)
qed

lemma shutdown_known_irrelevant [simp]:
  "shutdown_known (s\<lparr>num_waiting := n\<rparr>) = shutdown_known s" "shutdown_known (s\<lparr>depth := d\<rparr>) = shutdown_known s"
  "shutdown_known (s\<lparr>owner := w\<rparr>) = shutdown_known s" "shutdown_known (s\<lparr>prod := p\<rparr>) = shutdown_known s"
  "shutdown_known (unlock s) = shutdown_known s"
  by (simp_all add: shutdown_known_def handles_shutdown_def)

lemma shutdown_known_wake: "shutdown_known s \<Longrightarrow> shutdown_known (wake_queue s)"
  unfolding shutdown_known_def handles_shutdown_def by (auto simp: image_iff)

lemma shutdown_known_closed [simp]: "tstatus s = STATUS_CLOSED \<Longrightarrow> shutdown_known s"
  by (simp add: shutdown_known_def)

lemma done_inv_weaken:
  assumes "done_inv s" "prod s' = prod s" "tstatus s = STATUS_CLOSED \<longrightarrow> tstatus s' = STATUS_CLOSED"
    "shutdown_known s \<Longrightarrow> shutdown_known s'"
  shows "done_inv s'"
  using assms unfolding done_inv_def by auto

lemma done_inv_step: "tstep s s' \<Longrightarrow> \<not> (tstatus s = STATUS_CLOSED \<and> tstatus s' = STATUS_WRITE_CLOSED) \<Longrightarrow> done_inv s \<Longrightarrow> done_inv s'"
proof (induction rule: tstep.induct)
  case (c_pop s m ms)
  have "shutdown_known (s\<lparr>cons := C_dispatch m, tqueue := ms\<rparr>)" if "shutdown_known s"
    using that c_pop(1-3) unfolding shutdown_known_def handles_shutdown_def by auto
  then show ?case by (intro done_inv_weaken [OF c_pop(5)]) simp_all
next
  case (u_pop u s m ms)
  have "shutdown_known (set_user u (U_dispatch m) (s\<lparr>tqueue := ms\<rparr>))" if "shutdown_known s"
  proof (cases "mi_header m = XRTP_MSG_SHUTDOWN")
    case True
    then show ?thesis using set_update_memI [of u "users s" "U_dispatch m"] u_pop(1)
      by (auto simp: shutdown_known_def handles_shutdown_def)
  next
    case False
    then have "shutdown_known (s\<lparr>tqueue := ms\<rparr>)"
      using that u_pop(4) by (auto simp: shutdown_known_def handles_shutdown_def)
    then show ?thesis using u_pop(2) by (intro shutdown_known_set_user) simp_all
  qed
  then show ?case by (intro done_inv_weaken [OF u_pop(6)]) simp_all
next
  case (p_push s m)
  then show ?case by (auto simp: done_inv_def shutdown_known_def handles_shutdown_def)
next
  case (p_notify s h)
  then show ?case by (auto simp: done_inv_def intro!: shutdown_known_wake split: if_splits)
next
  case (u_closed u s b)
  then show ?case
    by (intro done_inv_weaken [OF u_closed(4)]) (auto intro!: shutdown_known_set_user shutdown_known_wake)
next
  case (u_shutdown u s)
  then have open_still: "tstatus s \<noteq> STATUS_CLOSED" by simp
  have "shutdown_known (set_user u U_own (s\<lparr>tstatus := STATUS_WRITE_CLOSED\<rparr>))" if "shutdown_known s"
  proof (rule shutdown_known_set_user)
    show "shutdown_known (s\<lparr>tstatus := STATUS_WRITE_CLOSED\<rparr>)"
      using that open_still by (simp add: shutdown_known_def handles_shutdown_def)
  qed (use u_shutdown(2) in simp)
  then show ?case using u_shutdown(4) open_still by (simp add: done_inv_def)
next
  case (c_closed s)
  then show ?case
    by (intro done_inv_weaken [OF c_closed(3)]) (auto intro!: shutdown_known_cons shutdown_known_wake)
qed (force simp: done_inv_def intro!: shutdown_known_cons shutdown_known_set_user shutdown_known_wake)+

lemma clean_reachable:
  assumes "clean_step\<^sup>*\<^sup>* (threads_init n) s"
  shows "treachable n s" "done_inv s"
proof -
  have "treachable n s \<and> done_inv s" using assms
  proof (induction rule: rtranclp_induct)
    case base
    show ?case using treachable_init [of n] by (simp add: done_inv_def) (simp add: threads_init_def)
  next
    case (step s s')
    then show ?case using treachable_step done_inv_step unfolding clean_step_def by blast
  qed
  then show "treachable n s" "done_inv s" by simp_all
qed

text \<open>
  C31: When is a sleeping thread woken? The consumer sleeps on \<open>num_waiting_cv\<close> only while some user
  thread is inside \<open>lock_message_mutex\<close> and has still to notify it. While a thread sleeps on
  \<open>queue_cv\<close>, a non-empty queue means that the producer is about to notify, and the closed status
  that the thread which set it is about to notify. And somebody is always left to end that sleep:
  the producer is still reading or about to notify, a close is under way, or another thread is
  dispatching the shutdown message, which closes; this holds unless a \<open>shutdown\<close> has overwritten the
  closed status on the way (\<open>close_overwritten_by_shutdown\<close> shows that nobody is left then).
\<close>

theorem no_lost_wakeup:
  assumes "treachable n s"
  shows "(cons s = C_cvwait \<longrightarrow> (\<exists>p\<in>set (users s). p = U_want \<or> p = U_got \<or> p = U_notify)) \<and>
    (cons s = C_qwait \<or> U_qwait \<in> set (users s) \<longrightarrow>
       (tqueue s \<noteq> [] \<longrightarrow> (\<exists>h. prod s = P_notify h)) \<and>
       (tstatus s = STATUS_CLOSED \<longrightarrow> prod s = P_closing \<or> cons s = C_closing \<or>
          (\<exists>b. U_closing b \<in> set (users s))) \<and>
       (clean_step\<^sup>*\<^sup>* (threads_init n) s \<longrightarrow>
          prod s \<noteq> P_done \<or> cons s = C_closing \<or> (\<exists>b. U_closing b \<in> set (users s)) \<or> handles_shutdown s))"
proof -
  note inv = treachable_invs [OF assms]
  have cv: "\<exists>p\<in>set (users s). p = U_want \<or> p = U_got \<or> p = U_notify" if "cons s = C_cvwait"
  proof (cases "U_notify \<in> set (users s)")
    case False
    then have "filter wants (users s) \<noteq> []" using inv(1,3) that by (auto simp: cv_inv_def count_inv_def)
    then obtain p where "p \<in> set (users s)" "wants p" by (metis filter_False)
    then show ?thesis by (auto simp: wants_def)
  qed blast
  have "close_pending s \<or> handles_shutdown s"
    if "asleep_on_queue s" "clean_step\<^sup>*\<^sup>* (threads_init n) s" "prod s = P_done"
  proof -
    have "shutdown_known s" using clean_reachable(2) [OF that(2)] that(3) by (simp add: done_inv_def)
    then consider "tstatus s = STATUS_CLOSED" | "tqueue s \<noteq> []" | "handles_shutdown s"
      unfolding shutdown_known_def by fastforce
    then show ?thesis using inv(4) that(1,3) by cases (auto simp: queue_inv_def)
  qed
  then show ?thesis
    using cv inv(4) unfolding queue_inv_def asleep_on_queue_def close_pending_def by (auto 0 3)
qed

theorem no_lost_wakeup_witness:
  "\<exists>p\<in>set (users deferring_state). p = U_want \<or> p = U_got \<or> p = U_notify"
  using no_lost_wakeup [OF treachable_deferring] by (simp add: deferring_state_def)

section \<open>A close that is overwritten\<close>

text \<open>
  \<open>shutdown\<close> stores \<open>XRTP_STATUS_WRITE_CLOSED\<close> without looking at the status again.
\<close>

definition hung :: "threads \<Rightarrow> bool" where
  "hung s \<longleftrightarrow> prod s = P_done \<and> tqueue s = [] \<and> tstatus s = STATUS_WRITE_CLOSED \<and>
     cons s \<in> {C_top, C_lock, C_check, C_cvwait, C_queue, C_qwait} \<and>
     (\<forall>p\<in>set (users s). \<forall>b m. p \<noteq> U_closing b \<and> p \<noteq> U_dispatch m \<and> p \<noteq> U_flushed)"

definition no_close :: "threads \<Rightarrow> bool" where
  "no_close s \<longleftrightarrow> U_closing False \<notin> set (users s)"

lemma hung_set_user:
  assumes "hung s" "\<forall>b m. p \<noteq> U_closing b \<and> p \<noteq> U_dispatch m \<and> p \<noteq> U_flushed"
  shows "hung (set_user u p s)"
proof -
  have "\<forall>b m. q \<noteq> U_closing b \<and> q \<noteq> U_dispatch m \<and> q \<noteq> U_flushed"
    if "q \<in> set ((users s)[u := p])" for q
  proof (cases "q = p")
    case False
    then have "q \<in> set (users s)" using that by (rule in_set_update_new)
    then show ?thesis using assms(1) by (simp add: hung_def)
  qed (use assms(2) in simp)
  then show ?thesis using assms(1) by (simp add: hung_def)
qed

lemma hung_user: "hung s \<Longrightarrow> u < length (users s) \<Longrightarrow>
    users s ! u \<noteq> U_closing b \<and> users s ! u \<noteq> U_dispatch m \<and> users s ! u \<noteq> U_flushed"
  by (simp add: hung_def)

lemma hung_step: "tstep s s' \<Longrightarrow> hung s \<Longrightarrow> no_close s' \<Longrightarrow> hung s'"
proof (induction rule: tstep.induct)
  case (u_close u s)
  then show ?case using set_update_memI [of u "users s"] by (simp add: no_close_def)
next
  case (u_closed u s b)
  then show ?case using hung_user by blast
next
  case (u_dispatched u s m)
  then show ?case using hung_user by blast
next
  case (u_dispatch_shutdown u s m)
  then show ?case using hung_user by blast
next
  case (u_shutdown u s)
  then show ?case using hung_user by blast
next
  case (u_pop u s m ms)
  then show ?case by (simp add: hung_def)
next
  case (u_flush u s)
  then show ?case by (simp add: hung_def)
next
  case (u_want u s)
  then have "hung (s\<lparr>num_waiting := num_waiting s + 1\<rparr>)" by (simp add: hung_def)
  then show ?case by (intro hung_set_user) simp_all
next
  case (u_got u s)
  then have "hung (s\<lparr>owner := Some (User u), depth := depth s + 1\<rparr>)" by (simp add: hung_def)
  then show ?case by (intro hung_set_user) simp_all
next
  case (u_dec u s)
  then have "hung (s\<lparr>num_waiting := num_waiting s - 1\<rparr>)" by (simp add: hung_def)
  then show ?case by (intro hung_set_user) simp_all
next
  case (u_notify u s)
  then have "hung (s\<lparr>cons := if cons s = C_cvwait then C_top else cons s\<rparr>)" by (auto simp: hung_def)
  then show ?case by (intro hung_set_user) simp_all
next
  case (u_release u s)
  then have "hung (unlock s)" by (simp add: hung_def)
  then show ?case by (intro hung_set_user) simp_all
next
  case (u_await u s)
  then show ?case by (simp add: hung_set_user)
next
  case (u_aborted u s)
  then show ?case by (simp add: hung_set_user)
next
  case (u_sleep u s)
  then show ?case by (simp add: hung_set_user)
next
  case (u_spurious u s)
  then show ?case by (simp add: hung_set_user)
qed (simp_all add: hung_def)

definition stuck_state :: threads where
  "stuck_state = \<lparr>num_waiting = 0, owner = None, depth = 0, tstatus = STATUS_WRITE_CLOSED, tqueue = [],
     cons = C_lock, prod = P_done, users = [U_idle]\<rparr>"

lemma treachable_stuck: "treachable 1 stuck_state"
proof -
  let ?s = "threads_init 1"
  have 1: "treachable 1 (?s\<lparr>cons := C_lock\<rparr>)"
    by (rule treachable_step [OF treachable_init c_enter]) (simp_all add: threads_init_def)
  have 2: "treachable 1 (?s\<lparr>cons := C_lock, num_waiting := 1, users := [U_want]\<rparr>)"
    using treachable_step [OF 1 u_want [of 0]] by (simp add: threads_init_def set_user_def)
  have 3: "treachable 1 (?s\<lparr>cons := C_lock, num_waiting := 1, users := [U_got], owner := Some (User 0),
      depth := 1\<rparr>)"
    using treachable_step [OF 2 u_got [of 0]] by (simp add: threads_init_def set_user_def)
  have 4: "treachable 1 (?s\<lparr>cons := C_lock, users := [U_notify], owner := Some (User 0), depth := 1\<rparr>)"
    using treachable_step [OF 3 u_dec [of 0]] by (simp add: threads_init_def set_user_def)
  have 5: "treachable 1 (?s\<lparr>cons := C_lock, users := [U_own], owner := Some (User 0), depth := 1\<rparr>)"
    using treachable_step [OF 4 u_notify [of 0]] by (simp add: threads_init_def set_user_def)
  have 6: "treachable 1 (?s\<lparr>cons := C_lock, users := [U_flushed], owner := Some (User 0), depth := 1\<rparr>)"
    using treachable_step [OF 5 u_flush [of 0]] by (simp add: threads_init_def set_user_def)
  have 7: "treachable 1 (?s\<lparr>cons := C_lock, users := [U_flushed], owner := Some (User 0), depth := 1,
      tstatus := STATUS_CLOSED, prod := P_closing\<rparr>)"
    using treachable_step [OF 6 p_error] by (simp add: threads_init_def)
  have 8: "treachable 1 (?s\<lparr>cons := C_lock, users := [U_flushed], owner := Some (User 0), depth := 1,
      tstatus := STATUS_CLOSED, prod := P_done\<rparr>)"
    using treachable_step [OF 7 p_closed] by (simp add: threads_init_def wake_queue_def)
  have 9: "treachable 1 (?s\<lparr>cons := C_lock, users := [U_own], owner := Some (User 0), depth := 1,
      tstatus := STATUS_WRITE_CLOSED, prod := P_done\<rparr>)"
    using treachable_step [OF 8 u_shutdown [of 0]] by (simp add: threads_init_def set_user_def)
  show ?thesis
    using treachable_step [OF 9 u_release [of 0]]
    by (simp add: threads_init_def set_user_def unlock_def stuck_state_def)
qed

text \<open>
  The status can leave \<open>XRTP_STATUS_CLOSED\<close> again: when the producer closes the transport
  after an I/O error while \<open>shutdown\<close> is between its flush and its store, the store replaces the
  closed status. From then on, until somebody calls \<open>close\<close>, no step of any thread closes the
  transport, so that the consumer thread does not end and \<open>join\<close> does not return.
\<close>

theorem close_overwritten_by_shutdown:
  "\<exists>s. treachable 1 s \<and> users s = [U_idle] \<and> prod s = P_done \<and> tstatus s = STATUS_WRITE_CLOSED \<and>
     (\<forall>s'. (\<lambda>a b. tstep a b \<and> no_close b)\<^sup>*\<^sup>* s s' \<longrightarrow>
        tstatus s' = STATUS_WRITE_CLOSED \<and> cons s' \<noteq> C_done)"
proof -
  have "hung s'" if "(\<lambda>a b. tstep a b \<and> no_close b)\<^sup>*\<^sup>* stuck_state s'" for s'
    using that
  proof (induction rule: rtranclp_induct)
    case base
    show ?case by (simp add: hung_def stuck_state_def)
  next
    case (step s t)
    then show ?case using hung_step by blast
  qed
  then have "\<forall>s'. (\<lambda>a b. tstep a b \<and> no_close b)\<^sup>*\<^sup>* stuck_state s' \<longrightarrow>
      tstatus s' = STATUS_WRITE_CLOSED \<and> cons s' \<noteq> C_done"
    unfolding hung_def by fastforce
  moreover have "users stuck_state = [U_idle]" "prod stuck_state = P_done"
    "tstatus stuck_state = STATUS_WRITE_CLOSED"
    by (simp_all add: stuck_state_def)
  ultimately show ?thesis using treachable_stuck by blast
qed

theorem close_overwritten_by_shutdown_witness:
  "\<exists>s. treachable 1 s \<and> prod s = P_done \<and> tstatus s = STATUS_WRITE_CLOSED \<and> cons s \<noteq> C_done"
  using close_overwritten_by_shutdown by blast

end
