(* ===== verification/Serialization.thy ===== *)
theory Serialization
  imports Message_Buffers
begin

text \<open>
  The generic serializers and deserializers of
  \<open>include/xrtransport/serialization/serializer.h\<close> and \<open>deserializer.h\<close>. The struct functions
  generated into \<open>serializer.cpp\<close> and \<open>deserializer.cpp\<close> are straight-line programs over a few
  operations (\<open>serialize\<close>, \<open>serialize_time\<close>, \<open>serialize_xr\<close>, \<open>serialize_array\<close>,
  \<open>serialize_ptr\<close> and their inverses); they are data here, the lists of \<open>sop\<close> and \<open>dop\<close>,
  and the definitions of this theory execute them. The sizes and field types, the
  \<open>XR_MAX_*\<close> constants and the structure type values come from \<open>openxr.h\<close>, which is not part of
  the repository: they are the fields of a \<open>codec\<close> record, next to the programs and the lookup
  tables. \<open>malloc\<close> is taken to succeed.
\<close>

section \<open>Sequencing outcomes\<close>

fun obind :: "'a outcome \<Rightarrow> ('a \<Rightarrow> 'b outcome) \<Rightarrow> 'b outcome" where
  "obind (Ret x) f = f x"
| "obind (Throw e) f = Throw e"
| "obind Terminate f = Terminate"
| "obind Fault f = Fault"
| "obind Blocked f = Blocked"

lemma obind_cong [fundef_cong]:
  "x = y \<Longrightarrow> (\<And>a. y = Ret a \<Longrightarrow> f a = g a) \<Longrightarrow> obind x f = obind y g"
  by (cases x) auto

lemma obind_Ret_iff: "obind x f = Ret y \<longleftrightarrow> (\<exists>a. x = Ret a \<and> f a = Ret y)"
  by (cases x) auto

section \<open>Writing\<close>

text \<open>
  What a serializer did: it wrote bytes, it wrote bytes and then raised an exception, or its
  behaviour is undefined. What was written before an exception is sent, because the destructor of
  the outgoing message flushes it.
\<close>

datatype wout = Wrote bytes | Raised bytes exn | Crash

fun wseq :: "wout \<Rightarrow> wout \<Rightarrow> wout" where
  "wseq (Wrote a) (Wrote b) = Wrote (a @ b)"
| "wseq (Wrote a) (Raised b e) = Raised (a @ b) e"
| "wseq (Wrote a) Crash = Crash"
| "wseq (Raised a e) w = Raised a e"
| "wseq Crash w = Crash"

fun won :: "nat outcome \<Rightarrow> (nat \<Rightarrow> wout) \<Rightarrow> wout" where
  "won (Ret n) f = f n"
| "won _ f = Crash"

lemma wseq_Nil [simp]: "wseq (Wrote []) w = w"
  by (cases w) simp_all

lemma wseq_Wrote_iff: "wseq x y = Wrote bs \<longleftrightarrow> (\<exists>a b. x = Wrote a \<and> y = Wrote b \<and> bs = a @ b)"
  by (cases x; cases y) auto

lemma wseq_Raised_iff:
  "wseq x y = Raised bs e \<longleftrightarrow> x = Raised bs e \<or> (\<exists>a b. x = Wrote a \<and> y = Raised b e \<and> bs = a @ b)"
  by (cases x; cases y) auto

lemma won_Wrote_iff: "won r f = Wrote bs \<longleftrightarrow> (\<exists>n. r = Ret n \<and> f n = Wrote bs)"
  by (cases r) auto

lemma won_Raised_iff: "won r f = Raised bs e \<longleftrightarrow> (\<exists>n. r = Ret n \<and> f n = Raised bs e)"
  by (cases r) auto

lemma won_cong [fundef_cong]: "x = y \<Longrightarrow> (\<And>a. y = Ret a \<Longrightarrow> f a = g a) \<Longrightarrow> won x f = won y g"
  by (cases x) auto

section \<open>Values\<close>

text \<open>
  A value in memory: the bytes of a scalar, a struct (its fields in the order in which they are
  serialized), an inline array, a null pointer, a pointer to the first of several objects, and a
  pointer to one struct of a \<open>next\<close> chain or of a polymorphic list.
\<close>

datatype xv =
    V_prim bytes | V_struct "fld list" | V_array "xv list" | V_null | V_ptr "xv list" | V_ref xv
and fld = Field string xv

fun find_field :: "fld list \<Rightarrow> string \<Rightarrow> xv option" where
  "find_field [] g = None"
| "find_field (Field f v # fs) g = (if f = g then Some v else find_field fs g)"

lemma find_field_size [termination_simp]: "find_field fs f = Some v \<Longrightarrow> size v < Suc (size_list size fs)"
  by (induction fs f rule: find_field.induct) (auto split: if_splits)

text \<open>The first member of every chained struct is its \<open>XrStructureType\<close>, a 32-bit enumeration.\<close>

definition struct_type :: "fld list \<Rightarrow> u32 option" where
  "struct_type fs =
     (case find_field fs ''type'' of
        Some (V_prim bs) \<Rightarrow> if length bs = 4 then Some (bytes_word bs) else None
      | _ \<Rightarrow> None)"

section \<open>Programs\<close>

datatype ftype = T_prim nat | T_struct string

datatype count = C_one | C_field string | C_const string | C_null_terminated

datatype bound = B_lit nat | B_const string

datatype sop =
    Ser string | Ser_time string | Ser_xr string | Ser_array string bound
  | Ser_ptr string count | Ser_xr_array string count
  | Ser_ptr_each string string | Ser_xr_each string string

datatype dop =
    De string | De_time string | De_xr string | De_array string bound
  | De_ptr string | De_xr_array string | De_ptr_each string string | De_xr_each string string

fun sop_field :: "sop \<Rightarrow> string" where
  "sop_field (Ser f) = f"
| "sop_field (Ser_time f) = f"
| "sop_field (Ser_xr f) = f"
| "sop_field (Ser_array f c) = f"
| "sop_field (Ser_ptr f c) = f"
| "sop_field (Ser_xr_array f c) = f"
| "sop_field (Ser_ptr_each f c) = f"
| "sop_field (Ser_xr_each f c) = f"

fun dop_field :: "dop \<Rightarrow> string" where
  "dop_field (De f) = f"
| "dop_field (De_time f) = f"
| "dop_field (De_xr f) = f"
| "dop_field (De_array f c) = f"
| "dop_field (De_ptr f) = f"
| "dop_field (De_xr_array f) = f"
| "dop_field (De_ptr_each f c) = f"
| "dop_field (De_xr_each f c) = f"

record codec =
  field_type :: "string \<Rightarrow> string \<Rightarrow> ftype"
  field_const :: "string \<Rightarrow> string \<Rightarrow> bool"
  xr_constant :: "string \<Rightarrow> nat"
  ser_program :: "string \<Rightarrow> sop list option"
  des_program :: "string \<Rightarrow> dop list option"
  ser_lookup :: "u32 \<Rightarrow> string option"
  des_lookup :: "u32 \<Rightarrow> string option"

definition bound_value :: "codec \<Rightarrow> bound \<Rightarrow> nat" where
  "bound_value E k = (case k of B_lit n \<Rightarrow> n | B_const s \<Rightarrow> xr_constant E s)"

section \<open>Serializing\<close>

record ser_ctx =
  ser_time_offset :: u64
  skip_unknown_structs :: bool

text \<open>\<open>count_null_terminated\<close> runs off the end of an array without terminator.\<close>

fun count_null_terminated :: "xv list \<Rightarrow> nat outcome" where
  "count_null_terminated [] = Fault"
| "count_null_terminated (V_prim bs # vs) =
     (if list_all (\<lambda>b. b = 0) bs then Ret 1 else obind (count_null_terminated vs) (\<lambda>n. Ret (Suc n)))"
| "count_null_terminated (_ # vs) = Fault"

text \<open>Every count of the API is a \<open>uint32_t\<close>.\<close>

fun uint_field :: "fld list \<Rightarrow> string \<Rightarrow> nat outcome" where
  "uint_field fs g =
     (case find_field fs g of
        Some (V_prim bs) \<Rightarrow> if length bs = 4 then Ret (le_val bs) else Fault
      | _ \<Rightarrow> Fault)"

definition count_value :: "codec \<Rightarrow> fld list \<Rightarrow> count \<Rightarrow> xv \<Rightarrow> nat outcome" where
  "count_value E fs c v =
     (case c of
        C_one \<Rightarrow> Ret 1
      | C_field g \<Rightarrow> uint_field fs g
      | C_const s \<Rightarrow> Ret (xr_constant E s)
      | C_null_terminated \<Rightarrow>
          (case v of V_null \<Rightarrow> Ret 0 | V_ptr vs \<Rightarrow> count_null_terminated vs | _ \<Rightarrow> Fault))"

definition zero32 :: bytes where
  "zero32 = word_bytes (0 :: u32)"

definition unknown_struct :: exn where
  "unknown_struct = Std_exception ''Unknown XrStructureType''"

text \<open>
  The templates take the serializer they are instantiated with as an argument: \<open>rec\<close> is the
  overloaded \<open>serialize\<close> of a type (\<open>K_val\<close>) and \<open>serialize_xr\<close> (\<open>K_xr\<close>).
\<close>

datatype kind = K_val ftype | K_xr

fun serialize_array :: "(xv \<Rightarrow> wout) \<Rightarrow> nat \<Rightarrow> xv list \<Rightarrow> wout" where
  "serialize_array f 0 vs = Wrote []"
| "serialize_array f (Suc n) [] = Crash"
| "serialize_array f (Suc n) (v # vs) = wseq (f v) (serialize_array f n vs)"

lemma serialize_array_cong_set:
  "(\<And>x. x \<in> set vs \<Longrightarrow> f x = g x) \<Longrightarrow> serialize_array f n vs = serialize_array g n vs"
proof (induction vs arbitrary: n)
  case Nil
  then show ?case by (cases n) simp_all
next
  case (Cons v vs)
  then show ?case by (cases n) simp_all
qed

text \<open>An array decays to a pointer to its first element.\<close>

definition pointee :: "xv \<Rightarrow> xv list option" where
  "pointee v = (case v of V_ptr vs \<Rightarrow> Some vs | V_array vs \<Rightarrow> Some vs | _ \<Rightarrow> None)"

lemma pointee_simps [simp]:
  "pointee (V_ptr vs) = Some vs" "pointee (V_array vs) = Some vs" "pointee V_null = None"
  "pointee (V_prim bs) = None" "pointee (V_struct fs) = None" "pointee (V_ref v) = None"
  by (simp_all add: pointee_def)

definition serialize_ptr :: "(xv \<Rightarrow> wout) \<Rightarrow> nat \<Rightarrow> xv \<Rightarrow> wout" where
  "serialize_ptr f len v =
     (let marker = (if v \<noteq> V_null then word_of_nat len else 0 :: u32)
      in if marker = 0 then Wrote (word_bytes marker)
         else case pointee v of
                Some vs \<Rightarrow> wseq (Wrote (word_bytes marker)) (serialize_array f len vs)
              | None \<Rightarrow> Crash)"

definition serialize_time :: "ser_ctx \<Rightarrow> xv \<Rightarrow> wout" where
  "serialize_time c v =
     (case v of
        V_prim bs \<Rightarrow>
          if length bs = 8
          then let local_time = (bytes_word bs :: u64); remote_time = local_time - ser_time_offset c
               in Wrote (word_bytes remote_time)
          else Crash
      | _ \<Rightarrow> Crash)"

definition serialize_xr_array ::
  "codec \<Rightarrow> ser_ctx \<Rightarrow> (kind \<Rightarrow> xv \<Rightarrow> wout) \<Rightarrow> nat outcome \<Rightarrow> xv \<Rightarrow> wout" where
  "serialize_xr_array E c rec len v =
     (case v of
        V_null \<Rightarrow> Wrote zero32
      | V_ptr (V_struct fs # vs) \<Rightarrow>
          (case struct_type fs of
             None \<Rightarrow> Crash
           | Some ty \<Rightarrow>
               (case ser_lookup E ty of
                  None \<Rightarrow> if skip_unknown_structs c then Wrote zero32 else Raised [] unknown_struct
                | Some s \<Rightarrow>
                    won len
                      (\<lambda>n. let count = (word_of_nat n :: u32)
                        in wseq (Wrote (word_bytes count @ word_bytes ty))
                             (serialize_array (rec (K_val (T_struct s))) (unat count) (V_struct fs # vs)))))
      | _ \<Rightarrow> Crash)"

text \<open>The loops of \<open>custom_serializer.cpp\<close> over an array of pointers.\<close>

definition serialize_each :: "(xv \<Rightarrow> wout) \<Rightarrow> nat \<Rightarrow> xv \<Rightarrow> wout" where
  "serialize_each f n v =
     (case v of
        V_ptr vs \<Rightarrow> serialize_array f n vs
      | V_null \<Rightarrow> if n = 0 then Wrote [] else Crash
      | _ \<Rightarrow> Crash)"

text \<open>One statement of a struct function, and its body; \<open>all\<close> are the fields of the struct.\<close>

fun ser_op ::
  "codec \<Rightarrow> ser_ctx \<Rightarrow> (kind \<Rightarrow> xv \<Rightarrow> wout) \<Rightarrow> string \<Rightarrow> fld list \<Rightarrow> sop \<Rightarrow> xv \<Rightarrow> wout" where
  "ser_op E c rec s all (Ser f) v = rec (K_val (field_type E s f)) v"
| "ser_op E c rec s all (Ser_time f) v = serialize_time c v"
| "ser_op E c rec s all (Ser_xr f) v = rec K_xr v"
| "ser_op E c rec s all (Ser_array f k) v =
     (case pointee v of
        Some vs \<Rightarrow> serialize_array (rec (K_val (field_type E s f))) (bound_value E k) vs
      | None \<Rightarrow> Crash)"
| "ser_op E c rec s all (Ser_ptr f k) v =
     won (count_value E all k v) (\<lambda>len. serialize_ptr (rec (K_val (field_type E s f))) len v)"
| "ser_op E c rec s all (Ser_xr_array f k) v = serialize_xr_array E c rec (count_value E all k v) v"
| "ser_op E c rec s all (Ser_ptr_each f g) v =
     won (uint_field all g)
       (\<lambda>n. serialize_each
          (\<lambda>x. won (count_value E all C_null_terminated x)
             (\<lambda>len. serialize_ptr (rec (K_val (field_type E s f))) len x)) n v)"
| "ser_op E c rec s all (Ser_xr_each f g) v =
     won (uint_field all g) (\<lambda>n. serialize_each (rec K_xr) n v)"

fun run_sops :: "(sop \<Rightarrow> xv \<Rightarrow> wout) \<Rightarrow> sop list \<Rightarrow> fld list \<Rightarrow> wout" where
  "run_sops f [] [] = Wrote []"
| "run_sops f (op # ops) (Field g v # fs) =
     (if sop_field op = g then wseq (f op v) (run_sops f ops fs) else Crash)"
| "run_sops f _ _ = Crash"

lemma size_ptr_elem: "x \<in> set vs \<Longrightarrow> size x < size (V_ptr vs)" "x \<in> set vs \<Longrightarrow> size x < size (V_array vs)"
  by (simp_all add: less_Suc_eq_le size_list_estimation')

lemma size_pointee: "pointee v = Some vs \<Longrightarrow> x \<in> set vs \<Longrightarrow> size x < size v"
  using size_ptr_elem by (cases v) auto

lemma length_pointee: "pointee v = Some vs \<Longrightarrow> length vs \<le> size v"
proof -
  have "length vs \<le> size_list size vs" for vs :: "xv list" by (induction vs) auto
  then show "pointee v = Some vs \<Longrightarrow> ?thesis" by (cases v) (auto intro: le_SucI)
qed

lemma serialize_ptr_cong:
  assumes "\<And>x. size x < size v \<Longrightarrow> f x = g x"
  shows "serialize_ptr f len v = serialize_ptr g len v"
proof (cases "pointee v")
  case (Some vs)
  then have "serialize_array f len vs = serialize_array g len vs"
    using assms size_pointee by (intro serialize_array_cong_set) blast
  then show ?thesis using Some by (simp add: serialize_ptr_def Let_def)
qed (simp add: serialize_ptr_def Let_def)

lemma serialize_each_cong:
  assumes "\<And>x. size x < size v \<Longrightarrow> f x = g x"
  shows "serialize_each f n v = serialize_each g n v"
proof (cases v)
  case (V_ptr vs)
  then have "serialize_array f n vs = serialize_array g n vs"
    using assms size_ptr_elem(1) by (intro serialize_array_cong_set) blast
  then show ?thesis using V_ptr by (simp add: serialize_each_def)
qed (simp_all add: serialize_each_def)

lemma ser_op_cong:
  assumes rec: "\<And>k x. size x \<le> size v \<Longrightarrow> rec k x = rec' k x"
  shows "ser_op E c rec s all op v = ser_op E c rec' s all op v"
proof -
  have small: "rec k x = rec' k x" if "size x < size v" for k x
    using rec that by simp
  have arr: "serialize_array (rec k) n vs = serialize_array (rec' k) n vs"
    if "pointee v = Some vs" for k n vs
    using that small size_pointee by (intro serialize_array_cong_set) blast
  have ptr: "serialize_ptr (rec k) len x = serialize_ptr (rec' k) len x" if "size x \<le> size v" for k len x
    using small that by (intro serialize_ptr_cong) simp
  have each: "serialize_each (\<lambda>x. won (m x) (\<lambda>len. serialize_ptr (rec k) len x)) n v
      = serialize_each (\<lambda>x. won (m x) (\<lambda>len. serialize_ptr (rec' k) len x)) n v" for m k n
    by (rule serialize_each_cong) (simp add: ptr)
  have xr: "serialize_each (rec K_xr) n v = serialize_each (rec' K_xr) n v" for n
    by (rule serialize_each_cong) (rule small)
  show ?thesis
  proof (cases op)
    case (Ser_array f k)
    then show ?thesis using arr by (simp split: option.split)
  next
    case (Ser_xr_array f k)
    then show ?thesis using arr by (simp add: serialize_xr_array_def split: xv.split list.split option.split)
  qed (simp_all add: rec ptr each xr)
qed

lemma run_sops_cong_set:
  "(\<And>op v. size v < Suc (size_list size fs) \<Longrightarrow> f op v = g op v) \<Longrightarrow> run_sops f ops fs = run_sops g ops fs"
  by (induction f ops fs rule: run_sops.induct) simp_all

lemma run_sops_cong [fundef_cong]:
  assumes "ops = ops'" "fs = fs'" "\<And>op v. size v < Suc (size_list size fs') \<Longrightarrow> f op v = g op v"
  shows "run_sops f ops fs = run_sops g ops' fs'"
  unfolding assms(1,2) by (rule run_sops_cong_set) (rule assms(3))

lemma ser_op_fundef_cong [fundef_cong]:
  assumes "E = E'" "c = c'" "s = s'" "all = all'" "op = op'" "v = v'"
    "\<And>k x. size x \<le> size v' \<Longrightarrow> rec k x = rec' k x"
  shows "ser_op E c rec s all op v = ser_op E' c' rec' s' all' op' v'"
  unfolding assms(1-6) by (rule ser_op_cong) (rule assms(7))

text \<open>The overloaded \<open>serialize\<close> and \<open>serialize_xr\<close>.\<close>

fun ser :: "codec \<Rightarrow> ser_ctx \<Rightarrow> kind \<Rightarrow> xv \<Rightarrow> wout" where
  "ser E c (K_val (T_prim n)) (V_prim bs) = (if length bs = n then Wrote bs else Crash)"
| "ser E c (K_val (T_struct s)) (V_struct fs) =
     (case ser_program E s of
        None \<Rightarrow> Crash
      | Some ops \<Rightarrow> run_sops (\<lambda>op v. ser_op E c (\<lambda>k x. ser E c k x) s fs op v) ops fs)"
| "ser E c K_xr V_null = Wrote zero32"
| "ser E c K_xr (V_ref (V_struct fs)) =
     (case struct_type fs of
        None \<Rightarrow> Crash
      | Some ty \<Rightarrow>
          (case ser_lookup E ty of
             None \<Rightarrow>
               if skip_unknown_structs c
               then (case find_field fs ''next'' of Some nxt \<Rightarrow> ser E c K_xr nxt | None \<Rightarrow> Crash)
               else Raised [] unknown_struct
           | Some s \<Rightarrow> wseq (Wrote (word_bytes ty)) (ser E c (K_val (T_struct s)) (V_struct fs))))"
| "ser E c _ _ = Crash"

section \<open>Deserializing\<close>

text \<open>
  A deserializer turns a prefix of the bytes of a message into a value. In place it overwrites
  an existing object (\<open>old\<close>); otherwise it fills fresh memory. \<open>None\<close> is a recursion deeper than
  the fuel.
\<close>

type_synonym 'a parsed = "('a \<times> bytes) outcome option"

fun pbind :: "'a parsed \<Rightarrow> ('a \<Rightarrow> bytes \<Rightarrow> 'b parsed) \<Rightarrow> 'b parsed" where
  "pbind None f = None"
| "pbind (Some (Ret (x, bs))) f = f x bs"
| "pbind (Some (Throw e)) f = Some (Throw e)"
| "pbind (Some Terminate) f = Some Terminate"
| "pbind (Some Fault) f = Some Fault"
| "pbind (Some Blocked) f = Some Blocked"

definition msg_end :: exn where
  "msg_end = System_error System_category 2"

definition des_bytes :: "nat \<Rightarrow> bytes \<Rightarrow> bytes parsed" where
  "des_bytes n bs = Some (case read_exact n bs of None \<Rightarrow> Throw msg_end | Some r \<Rightarrow> Ret r)"

definition in_place_null :: exn where
  "in_place_null = Std_exception ''Attempted to deserialize in-place into nullptr''"

definition in_place_allocated :: exn where
  "in_place_allocated = Std_exception ''Attempted to deserialize in-place nullptr but pointer is allocated''"

text \<open>The objects to overwrite, one for each element; a shorter buffer is overrun.\<close>

fun deserialize_array ::
  "(xv option \<Rightarrow> bytes \<Rightarrow> xv parsed) \<Rightarrow> nat \<Rightarrow> xv list option \<Rightarrow> bytes \<Rightarrow> xv list parsed" where
  "deserialize_array f 0 olds bs = Some (Ret (case olds of None \<Rightarrow> [] | Some vs \<Rightarrow> vs, bs))"
| "deserialize_array f (Suc n) None bs =
     pbind (f None bs) (\<lambda>v bs'. pbind (deserialize_array f n None bs') (\<lambda>vs bs''. Some (Ret (v # vs, bs''))))"
| "deserialize_array f (Suc n) (Some []) bs = Some Fault"
| "deserialize_array f (Suc n) (Some (x # xs)) bs =
     pbind (f (Some x) bs)
       (\<lambda>v bs'. pbind (deserialize_array f n (Some xs) bs') (\<lambda>vs bs''. Some (Ret (v # vs, bs''))))"

definition deserialize_ptr ::
  "(xv option \<Rightarrow> bytes \<Rightarrow> xv parsed) \<Rightarrow> xv option \<Rightarrow> bytes \<Rightarrow> xv parsed" where
  "deserialize_ptr f old bs =
     pbind (des_bytes 4 bs) (\<lambda>lb bs'.
       let len = unat (bytes_word lb :: u32) in
       if len \<noteq> 0 then
         (case old of
            None \<Rightarrow> pbind (deserialize_array f len None bs') (\<lambda>vs bs''. Some (Ret (V_ptr vs, bs'')))
          | Some V_null \<Rightarrow> Some (Throw in_place_null)
          | Some (V_ptr os) \<Rightarrow>
              pbind (deserialize_array f len (Some os) bs') (\<lambda>vs bs''. Some (Ret (V_ptr vs, bs'')))
          | Some _ \<Rightarrow> Some Fault)
       else
         (case old of
            None \<Rightarrow> Some (Ret (V_null, bs'))
          | Some V_null \<Rightarrow> Some (Ret (V_null, bs'))
          | Some _ \<Rightarrow> Some (Throw in_place_allocated)))"

definition deserialize_time :: "u64 \<Rightarrow> bytes \<Rightarrow> xv parsed" where
  "deserialize_time off bs =
     pbind (des_bytes 8 bs)
       (\<lambda>tb bs'. let remote_time = (bytes_word tb :: u64)
                 in Some (Ret (V_prim (word_bytes (remote_time + off)), bs')))"

text \<open>
  \<open>deserialize_xr\<close> exists for pointers to const, where the checks throw, and for others, where
  they are assertions. A missing lookup entry is a null function pointer, which is called.
\<close>

definition xr_check_failed :: "bool \<Rightarrow> exn \<Rightarrow> xv parsed" where
  "xr_check_failed const e = Some (if const then Throw e else Terminate)"

definition deserialize_xr ::
  "codec \<Rightarrow> (kind \<Rightarrow> xv option \<Rightarrow> bytes \<Rightarrow> xv parsed) \<Rightarrow> bool \<Rightarrow> xv option \<Rightarrow> bytes \<Rightarrow> xv parsed" where
  "deserialize_xr E rec const old bs =
     pbind (des_bytes 4 bs) (\<lambda>tb bs'.
       let type = (bytes_word tb :: u32) in
       if type \<noteq> 0 then
         (case old of
            None \<Rightarrow>
              (case des_lookup E type of
                 None \<Rightarrow> Some Fault
               | Some s \<Rightarrow> pbind (rec (K_val (T_struct s)) None bs') (\<lambda>v bs''. Some (Ret (V_ref v, bs''))))
          | Some V_null \<Rightarrow> xr_check_failed const in_place_null
          | Some (V_ref v0) \<Rightarrow>
              (case des_lookup E type of
                 None \<Rightarrow> Some Fault
               | Some s \<Rightarrow> pbind (rec (K_val (T_struct s)) (Some v0) bs') (\<lambda>v bs''. Some (Ret (V_ref v, bs''))))
          | Some _ \<Rightarrow> Some Fault)
       else
         (case old of
            None \<Rightarrow> Some (Ret (V_null, bs'))
          | Some V_null \<Rightarrow> Some (Ret (V_null, bs'))
          | Some _ \<Rightarrow> xr_check_failed const in_place_allocated))"

definition deserialize_xr_array ::
  "codec \<Rightarrow> (kind \<Rightarrow> xv option \<Rightarrow> bytes \<Rightarrow> xv parsed) \<Rightarrow> xv option \<Rightarrow> bytes \<Rightarrow> xv parsed" where
  "deserialize_xr_array E rec old bs =
     pbind (des_bytes 4 bs) (\<lambda>cb bs'.
       let count = unat (bytes_word cb :: u32) in
       if count \<noteq> 0 then
         pbind (des_bytes 4 bs') (\<lambda>tb bs''.
           case des_lookup E (bytes_word tb) of
             None \<Rightarrow> Some Fault
           | Some s \<Rightarrow>
               (case old of
                  None \<Rightarrow>
                    pbind (deserialize_array (rec (K_val (T_struct s))) count None bs'')
                      (\<lambda>vs bs3. Some (Ret (V_ptr vs, bs3)))
                | Some (V_ptr os) \<Rightarrow>
                    pbind (deserialize_array (rec (K_val (T_struct s))) count (Some os) bs'')
                      (\<lambda>vs bs3. Some (Ret (V_ptr vs, bs3)))
                | Some _ \<Rightarrow> Some Fault))
       else Some (Ret (V_null, bs')))"

text \<open>
  The loops of \<open>custom_deserializer.cpp\<close>: the array of pointers is allocated unless in place,
  its elements are filled either way.
\<close>

definition deserialize_each ::
  "(xv option \<Rightarrow> bytes \<Rightarrow> xv parsed) \<Rightarrow> nat \<Rightarrow> xv option \<Rightarrow> bytes \<Rightarrow> xv parsed" where
  "deserialize_each f n old bs =
     (case old of
        None \<Rightarrow> pbind (deserialize_array f n None bs) (\<lambda>vs bs'. Some (Ret (V_ptr vs, bs')))
      | Some (V_ptr os) \<Rightarrow>
          pbind (deserialize_array f n (Some os) bs) (\<lambda>vs bs'. Some (Ret (V_ptr vs, bs')))
      | Some v \<Rightarrow> if n = 0 then Some (Ret (v, bs)) else Some Fault)"

fun des_op ::
  "codec \<Rightarrow> u64 \<Rightarrow> (kind \<Rightarrow> xv option \<Rightarrow> bytes \<Rightarrow> xv parsed) \<Rightarrow> string \<Rightarrow> fld list \<Rightarrow> dop \<Rightarrow>
   xv option \<Rightarrow> bytes \<Rightarrow> xv parsed" where
  "des_op E off rec s done (De f) old bs = rec (K_val (field_type E s f)) old bs"
| "des_op E off rec s done (De_time f) old bs = deserialize_time off bs"
| "des_op E off rec s done (De_xr f) old bs = deserialize_xr E rec (field_const E s f) old bs"
| "des_op E off rec s done (De_array f k) old bs =
     (case old of
        None \<Rightarrow>
          pbind (deserialize_array (rec (K_val (field_type E s f))) (bound_value E k) None bs)
            (\<lambda>vs bs'. Some (Ret (V_array vs, bs')))
      | Some (V_array os) \<Rightarrow>
          pbind (deserialize_array (rec (K_val (field_type E s f))) (bound_value E k) (Some os) bs)
            (\<lambda>vs bs'. Some (Ret (V_array vs, bs')))
      | Some _ \<Rightarrow> Some Fault)"
| "des_op E off rec s done (De_ptr f) old bs = deserialize_ptr (rec (K_val (field_type E s f))) old bs"
| "des_op E off rec s done (De_xr_array f) old bs = deserialize_xr_array E rec old bs"
| "des_op E off rec s done (De_ptr_each f g) old bs =
     (case uint_field done g of
        Ret n \<Rightarrow> deserialize_each (\<lambda>o' b. deserialize_ptr (rec (K_val (field_type E s f))) o' b) n old bs
      | _ \<Rightarrow> Some Fault)"
| "des_op E off rec s done (De_xr_each f g) old bs =
     (case uint_field done g of
        Ret n \<Rightarrow> deserialize_each (\<lambda>o' b. deserialize_xr E rec True o' b) n old bs
      | _ \<Rightarrow> Some Fault)"

text \<open>The body of a struct function; \<open>done\<close> are the fields already read.\<close>

fun run_dops ::
  "(fld list \<Rightarrow> dop \<Rightarrow> xv option \<Rightarrow> bytes \<Rightarrow> xv parsed) \<Rightarrow> fld list \<Rightarrow> dop list \<Rightarrow> fld list option \<Rightarrow>
   bytes \<Rightarrow> fld list parsed" where
  "run_dops f done [] None bs = Some (Ret (done, bs))"
| "run_dops f done (op # ops) None bs =
     pbind (f done op None bs)
       (\<lambda>v bs'. run_dops f (done @ [Field (dop_field op) v]) ops None bs')"
| "run_dops f done [] (Some []) bs = Some (Ret (done, bs))"
| "run_dops f done (op # ops) (Some (Field g x # os)) bs =
     (if dop_field op = g
      then pbind (f done op (Some x) bs)
             (\<lambda>v bs'. run_dops f (done @ [Field g v]) ops (Some os) bs')
      else Some Fault)"
| "run_dops f done _ (Some _) bs = Some Fault"

fun des :: "codec \<Rightarrow> u64 \<Rightarrow> nat \<Rightarrow> kind \<Rightarrow> xv option \<Rightarrow> bytes \<Rightarrow> xv parsed" where
  "des E off 0 k old bs = None"
| "des E off (Suc n) k old bs =
     (case k of
        K_val (T_prim m) \<Rightarrow> pbind (des_bytes m bs) (\<lambda>b bs'. Some (Ret (V_prim b, bs')))
      | K_val (T_struct s) \<Rightarrow>
          (case des_program E s of
             None \<Rightarrow> Some Fault
           | Some ops \<Rightarrow>
               (case old of
                  None \<Rightarrow>
                    pbind (run_dops (des_op E off (des E off n) s) [] ops None bs)
                      (\<lambda>fs bs'. Some (Ret (V_struct fs, bs')))
                | Some (V_struct os) \<Rightarrow>
                    pbind (run_dops (des_op E off (des E off n) s) [] ops (Some os) bs)
                      (\<lambda>fs bs'. Some (Ret (V_struct fs, bs')))
                | Some _ \<Rightarrow> Some Fault))
      | K_xr \<Rightarrow> deserialize_xr E (des E off n) True old bs)"

end
