(* ===== verification/Serialization_Laws.thy ===== *)
theory Serialization_Laws
  imports Serialization
begin

text \<open>
  What arrives. \<open>arr\<close> gives the value that the peer gets for a value that was serialized:
  pointers with a zero count become null, arrays are cut to their count, times are shifted by
  the two offsets, unknown structs have left their chain. The locale \<open>agreeing_codec\<close> states
  what the two generated files have to agree on; inside it the deserializer is proved to invert
  the serializer, into fresh memory and in place.
\<close>

section \<open>The value that arrives\<close>

definition ret_or :: "'a \<Rightarrow> 'a outcome \<Rightarrow> 'a" where
  "ret_or d r = (case r of Ret x \<Rightarrow> x | _ \<Rightarrow> d)"

lemma ret_or_Ret [simp]: "ret_or d (Ret x) = x"
  by (simp add: ret_or_def)

definition arr_ptr :: "(xv \<Rightarrow> xv) \<Rightarrow> nat \<Rightarrow> xv \<Rightarrow> xv" where
  "arr_ptr f len v =
     (case pointee v of
        Some vs \<Rightarrow> if (word_of_nat len :: u32) = 0 then V_null else V_ptr (map f (take len vs))
      | None \<Rightarrow> V_null)"

definition arr_each :: "(xv \<Rightarrow> xv) \<Rightarrow> nat \<Rightarrow> xv \<Rightarrow> xv" where
  "arr_each f n v = V_ptr (case v of V_ptr vs \<Rightarrow> map f (take n vs) | _ \<Rightarrow> [])"

definition arr_time :: "u64 \<Rightarrow> u64 \<Rightarrow> xv \<Rightarrow> xv" where
  "arr_time soff doff v =
     (case v of V_prim bs \<Rightarrow> V_prim (word_bytes (bytes_word bs - soff + doff)) | _ \<Rightarrow> V_null)"

fun arr_op ::
  "codec \<Rightarrow> ser_ctx \<Rightarrow> u64 \<Rightarrow> (kind \<Rightarrow> xv \<Rightarrow> xv) \<Rightarrow> string \<Rightarrow> fld list \<Rightarrow> sop \<Rightarrow> xv \<Rightarrow> xv" where
  "arr_op E c off rec s all (Ser f) v = rec (K_val (field_type E s f)) v"
| "arr_op E c off rec s all (Ser_time f) v = arr_time (ser_time_offset c) off v"
| "arr_op E c off rec s all (Ser_xr f) v = rec K_xr v"
| "arr_op E c off rec s all (Ser_array f k) v =
     (case pointee v of
        Some vs \<Rightarrow> V_array (map (rec (K_val (field_type E s f))) (take (bound_value E k) vs))
      | None \<Rightarrow> v)"
| "arr_op E c off rec s all (Ser_ptr f k) v =
     arr_ptr (rec (K_val (field_type E s f))) (ret_or 0 (count_value E all k v)) v"
| "arr_op E c off rec s all (Ser_xr_array f k) v = v"
| "arr_op E c off rec s all (Ser_ptr_each f g) v =
     arr_each (\<lambda>x. arr_ptr (rec (K_val (field_type E s f)))
       (ret_or 0 (count_value E all C_null_terminated x)) x) (ret_or 0 (uint_field all g)) v"
| "arr_op E c off rec s all (Ser_xr_each f g) v = arr_each (rec K_xr) (ret_or 0 (uint_field all g)) v"

fun run_arr :: "(sop \<Rightarrow> xv \<Rightarrow> xv) \<Rightarrow> sop list \<Rightarrow> fld list \<Rightarrow> fld list" where
  "run_arr f (op # ops) (Field g v # fs) = Field g (f op v) # run_arr f ops fs"
| "run_arr f _ _ = []"

lemma arr_ptr_cong:
  assumes "\<And>x. size x < size v \<Longrightarrow> f x = g x"
  shows "arr_ptr f len v = arr_ptr g len v"
proof (cases "pointee v")
  case (Some vs)
  then have "map f (take len vs) = map g (take len vs)"
    using assms size_pointee by (auto dest: in_set_takeD)
  then show ?thesis using Some by (simp add: arr_ptr_def)
qed (simp add: arr_ptr_def)

lemma arr_each_cong: "(\<And>x. size x < size v \<Longrightarrow> f x = g x) \<Longrightarrow> arr_each f n v = arr_each g n v"
proof (cases v)
  case (V_ptr vs)
  assume "\<And>x. size x < size v \<Longrightarrow> f x = g x"
  then have "map f (take n vs) = map g (take n vs)"
    using V_ptr size_ptr_elem(1) by (auto dest: in_set_takeD)
  then show ?thesis using V_ptr by (simp add: arr_each_def)
qed (simp_all add: arr_each_def)

lemma arr_op_cong:
  assumes rec: "\<And>k x. size x \<le> size v \<Longrightarrow> rec k x = rec' k x"
  shows "arr_op E c off rec s all op v = arr_op E c off rec' s all op v"
proof -
  have ptr: "arr_ptr (rec k) len x = arr_ptr (rec' k) len x" if "size x \<le> size v" for k len x
    using rec that by (intro arr_ptr_cong) simp
  have each: "arr_each (\<lambda>x. arr_ptr (rec k) (m x) x) n v = arr_each (\<lambda>x. arr_ptr (rec' k) (m x) x) n v" for m k n
    by (rule arr_each_cong) (simp add: ptr)
  have xr: "arr_each (rec K_xr) n v = arr_each (rec' K_xr) n v" for n
    using rec by (intro arr_each_cong) simp
  show ?thesis
  proof (cases op)
    case (Ser_array f k)
    have "map (rec (K_val (field_type E s f))) (take n vs) = map (rec' (K_val (field_type E s f))) (take n vs)"
      if "pointee v = Some vs" for n vs
      using rec size_pointee [OF that] by (auto dest!: in_set_takeD simp: less_imp_le)
    then show ?thesis using Ser_array by (simp split: option.split)
  qed (simp_all add: rec ptr each xr)
qed

lemma arr_op_fundef_cong [fundef_cong]:
  assumes "E = E'" "c = c'" "off = off'" "s = s'" "all = all'" "op = op'" "v = v'"
    "\<And>k x. size x \<le> size v' \<Longrightarrow> rec k x = rec' k x"
  shows "arr_op E c off rec s all op v = arr_op E' c' off' rec' s' all' op' v'"
  unfolding assms(1-7) by (rule arr_op_cong) (rule assms(8))

lemma run_arr_cong_set:
  "(\<And>op v. size v < Suc (size_list size fs) \<Longrightarrow> f op v = g op v) \<Longrightarrow> run_arr f ops fs = run_arr g ops fs"
  by (induction f ops fs rule: run_arr.induct) simp_all

lemma run_arr_cong [fundef_cong]:
  assumes "ops = ops'" "fs = fs'" "\<And>op v. size v < Suc (size_list size fs') \<Longrightarrow> f op v = g op v"
  shows "run_arr f ops fs = run_arr g ops' fs'"
  unfolding assms(1,2) by (rule run_arr_cong_set) (rule assms(3))

fun arr :: "codec \<Rightarrow> ser_ctx \<Rightarrow> u64 \<Rightarrow> kind \<Rightarrow> xv \<Rightarrow> xv" where
  "arr E c off (K_val (T_struct s)) (V_struct fs) =
     (case ser_program E s of
        None \<Rightarrow> V_null
      | Some ops \<Rightarrow> V_struct (run_arr (\<lambda>op v. arr_op E c off (\<lambda>k x. arr E c off k x) s fs op v) ops fs))"
| "arr E c off K_xr (V_ref (V_struct fs)) =
     (case struct_type fs of
        None \<Rightarrow> V_null
      | Some ty \<Rightarrow>
          (case ser_lookup E ty of
             None \<Rightarrow> (case find_field fs ''next'' of Some nxt \<Rightarrow> arr E c off K_xr nxt | None \<Rightarrow> V_null)
           | Some s \<Rightarrow> V_ref (arr E c off (K_val (T_struct s)) (V_struct fs))))"
| "arr E c off _ v = v"

text \<open>Objects that are overwritten in place have the shape of what arrives.\<close>

fun shape :: "xv \<Rightarrow> xv" and shape_fld :: "fld \<Rightarrow> fld" where
  "shape (V_prim bs) = V_prim []"
| "shape (V_struct fs) = V_struct (map shape_fld fs)"
| "shape (V_array vs) = V_array (map shape vs)"
| "shape V_null = V_null"
| "shape (V_ptr vs) = V_ptr (map shape vs)"
| "shape (V_ref v) = V_ref (shape v)"
| "shape_fld (Field f v) = Field f (shape v)"

definition fits :: "xv option \<Rightarrow> xv \<Rightarrow> bool" where
  "fits old v \<longleftrightarrow> (case old of None \<Rightarrow> True | Some o' \<Rightarrow> shape o' = shape v)"

lemma fits_None [simp]: "fits None v"
  by (simp add: fits_def)

lemma shape_eq_iff:
  "shape v = V_null \<longleftrightarrow> v = V_null"
  "shape v = V_ptr ws \<longleftrightarrow> (\<exists>vs. v = V_ptr vs \<and> map shape vs = ws)"
  "shape v = V_array ws \<longleftrightarrow> (\<exists>vs. v = V_array vs \<and> map shape vs = ws)"
  "shape v = V_ref w \<longleftrightarrow> (\<exists>u. v = V_ref u \<and> shape u = w)"
  "shape v = V_struct gs \<longleftrightarrow> (\<exists>fs. v = V_struct fs \<and> map shape_fld fs = gs)"
  by (cases v; auto)+

section \<open>Agreement of the two sides\<close>

fun dop_of :: "sop \<Rightarrow> dop" where
  "dop_of (Ser f) = De f"
| "dop_of (Ser_time f) = De_time f"
| "dop_of (Ser_xr f) = De_xr f"
| "dop_of (Ser_array f k) = De_array f k"
| "dop_of (Ser_ptr f k) = De_ptr f"
| "dop_of (Ser_xr_array f k) = De_xr_array f"
| "dop_of (Ser_ptr_each f g) = De_ptr_each f g"
| "dop_of (Ser_xr_each f g) = De_xr_each f g"

lemma dop_field_dop_of [simp]: "dop_field (dop_of op) = sop_field op"
  by (cases op) simp_all

text \<open>
  Field names are distinct, the count of a loop over pointers is a member that was read before,
  and no struct holds a polymorphic array (only parameters of functions do).
\<close>

fun program_ok :: "string list \<Rightarrow> string list \<Rightarrow> sop list \<Rightarrow> bool" where
  "program_ok scalars names [] \<longleftrightarrow> True"
| "program_ok scalars names (op # ops) \<longleftrightarrow>
     sop_field op \<notin> set names \<and>
     (case op of
        Ser_ptr_each f g \<Rightarrow> g \<in> set scalars
      | Ser_xr_each f g \<Rightarrow> g \<in> set scalars
      | Ser_xr_array f k \<Rightarrow> False
      | _ \<Rightarrow> True) \<and>
     program_ok
       (case op of Ser f \<Rightarrow> f # scalars | _ \<Rightarrow> scalars)
       (sop_field op # names) ops"

section \<open>Inverting the templates\<close>

definition inverts ::
  "(xv \<Rightarrow> wout) \<Rightarrow> (xv option \<Rightarrow> bytes \<Rightarrow> xv parsed) \<Rightarrow> (xv \<Rightarrow> xv) \<Rightarrow> xv \<Rightarrow> bool" where
  "inverts f g a x \<longleftrightarrow> (\<forall>bs rest old. f x = Wrote bs \<longrightarrow> fits old (a x) \<longrightarrow>
     g old (bs @ rest) = Some (Ret (a x, rest)))"

lemma invertsD: "inverts f g a x \<Longrightarrow> f x = Wrote bs \<Longrightarrow> fits old (a x) \<Longrightarrow>
    g old (bs @ rest) = Some (Ret (a x, rest))"
  by (simp add: inverts_def)

lemma serialize_array_length: "serialize_array f n vs = Wrote bs \<Longrightarrow> n \<le> length vs"
proof (induction f n vs arbitrary: bs rule: serialize_array.induct)
  case (3 f n v vs)
  then obtain b where "f v = Wrote b" "\<exists>c. serialize_array f n vs = Wrote c"
    by (auto simp: wseq_Wrote_iff won_Wrote_iff)
  then show ?case using 3(1) by auto
qed simp_all

lemma array_inverts:
  assumes "\<And>x. x \<in> set vs \<Longrightarrow> inverts f g a x" "serialize_array f n vs = Wrote bs"
    "olds = None \<or> (\<exists>os. olds = Some os \<and> map shape os = map shape (map a (take n vs)))"
  shows "deserialize_array g n olds (bs @ rest) = Some (Ret (map a (take n vs), rest))"
  using assms
proof (induction n arbitrary: vs bs olds)
  case 0
  then show ?case by auto
next
  case (Suc n)
  then obtain v vs' where vs: "vs = v # vs'" by (cases vs) auto
  then obtain b1 b2 where b: "f v = Wrote b1" "serialize_array f n vs' = Wrote b2" "bs = b1 @ b2"
    using Suc.prems(2) by (auto simp: wseq_Wrote_iff won_Wrote_iff)
  have inv: "inverts f g a v" using Suc.prems(1) vs by simp
  show ?case
  proof (cases olds)
    case None
    have "g None (b1 @ b2 @ rest) = Some (Ret (a v, b2 @ rest))" using invertsD [OF inv b(1)] by simp
    moreover have "deserialize_array g n None (b2 @ rest) = Some (Ret (map a (take n vs'), rest))"
      using Suc.IH [of vs' b2 None] Suc.prems(1) vs b(2) by simp
    ultimately show ?thesis using None vs b(3) by simp
  next
    case (Some os')
    then obtain x os where os: "os' = x # os" "shape x = shape (a v)"
      "map shape os = map shape (map a (take n vs'))"
      using Suc.prems(3) vs by (cases os') auto
    have "g (Some x) (b1 @ b2 @ rest) = Some (Ret (a v, b2 @ rest))"
      using invertsD [OF inv b(1)] os(2) by (simp add: fits_def)
    moreover have "deserialize_array g n (Some os) (b2 @ rest) = Some (Ret (map a (take n vs'), rest))"
      using Suc.IH [of vs' b2 "Some os"] Suc.prems(1) vs b(2) os(3) by simp
    ultimately show ?thesis using Some os(1) vs b(3) by simp
  qed
qed

lemma des_bytes_append [simp]: "length xs = n \<Longrightarrow> des_bytes n (xs @ ys) = Some (Ret (xs, ys))"
  by (simp add: des_bytes_def)

lemma unat_len: "n < 2 ^ 32 \<Longrightarrow> unat (word_of_nat n :: u32) = n"
  by (simp add: unat_of_nat)

lemma ptr_inverts:
  assumes inv: "\<And>x. size x < size v \<Longrightarrow> inverts f g a x" and v: "size v < 2 ^ 32"
    and ser: "serialize_ptr f len v = Wrote bs" and old: "fits old (arr_ptr a len v)"
  shows "deserialize_ptr g old (bs @ rest) = Some (Ret (arr_ptr a len v, rest))"
proof (cases "v = V_null \<or> (word_of_nat len :: u32) = 0")
  case True
  then have "bs = word_bytes (0 :: u32)" "arr_ptr a len v = V_null"
    using ser by (auto simp: serialize_ptr_def Let_def arr_ptr_def split: option.splits if_splits)
  then show ?thesis using old
    by (cases old) (auto simp: deserialize_ptr_def Let_def fits_def shape_eq_iff)
next
  case False
  then obtain vs b where vs: "pointee v = Some vs" "serialize_array f len vs = Wrote b"
    "bs = word_bytes (word_of_nat len :: u32) @ b"
    using ser by (auto simp: serialize_ptr_def Let_def wseq_Wrote_iff won_Wrote_iff split: option.splits)
  have "len \<le> length vs" using vs(2) by (rule serialize_array_length)
  then have "len < 2 ^ 32" using v length_pointee [OF vs(1)] by simp
  then have len: "unat (word_of_nat len :: u32) = len" by (rule unat_len)
  have nz: "len \<noteq> 0"
  proof
    assume "len = 0"
    then show False using False by simp
  qed
  have arr: "arr_ptr a len v = V_ptr (map a (take len vs))" using False vs(1) by (simp add: arr_ptr_def)
  have elems: "inverts f g a x" if "x \<in> set vs" for x
    using inv size_pointee [OF vs(1) that] by simp
  show ?thesis
  proof (cases old)
    case None
    have "deserialize_array g len None (b @ rest) = Some (Ret (map a (take len vs), rest))"
      using array_inverts [OF elems vs(2), of None] by simp
    then show ?thesis using None vs(3) len nz arr by (simp add: deserialize_ptr_def)
  next
    case (Some o')
    then obtain os where os: "o' = V_ptr os" "map shape os = map shape (map a (take len vs))"
      using old arr by (auto simp: fits_def shape_eq_iff)
    have "deserialize_array g len (Some os) (b @ rest) = Some (Ret (map a (take len vs), rest))"
      using array_inverts [OF elems vs(2), of "Some os"] os(2) by simp
    then show ?thesis using Some os(1) vs(3) len nz arr by (simp add: deserialize_ptr_def)
  qed
qed

lemma each_inverts:
  assumes inv: "\<And>x. size x < size v \<Longrightarrow> inverts f g a x"
    and ser: "serialize_each f n v = Wrote bs" and old: "fits old (arr_each a n v)"
  shows "deserialize_each g n old (bs @ rest) = Some (Ret (arr_each a n v, rest))"
proof -
  obtain vs where vs: "arr_each a n v = V_ptr (map a (take n vs))" "serialize_array f n vs = Wrote bs"
    "\<And>x. x \<in> set vs \<Longrightarrow> inverts f g a x"
  proof (cases v)
    case (V_ptr vs)
    then show ?thesis using that [of vs] ser inv size_ptr_elem(1)
      by (auto simp: serialize_each_def arr_each_def)
  next
    case V_null
    then show ?thesis using that [of "[]"] ser
      by (auto simp: serialize_each_def arr_each_def split: if_splits)
  qed (use ser in \<open>simp_all add: serialize_each_def\<close>)
  show ?thesis
  proof (cases old)
    case None
    then show ?thesis using array_inverts [OF vs(3,2), of None] vs(1) by (simp add: deserialize_each_def)
  next
    case (Some o')
    then obtain os where os: "o' = V_ptr os" "map shape os = map shape (map a (take n vs))"
      using old vs(1) by (auto simp: fits_def shape_eq_iff)
    then show ?thesis using array_inverts [OF vs(3,2), of "Some os"] vs(1) Some
      by (simp add: deserialize_each_def)
  qed
qed

lemma time_inverts:
  assumes "serialize_time c v = Wrote bs"
  shows "deserialize_time off (bs @ rest) = Some (Ret (arr_time (ser_time_offset c) off v, rest))"
  using assms
  by (auto simp: serialize_time_def deserialize_time_def arr_time_def Let_def split: xv.splits if_splits)

lemma ser_xr_Ret:
  assumes "ser E c K_xr v = Wrote bs"
  shows "v = V_null \<or> (\<exists>fs. v = V_ref (V_struct fs))"
proof (cases v)
  case (V_ref u)
  then show ?thesis using assms by (cases u) simp_all
qed (use assms in simp_all)

lemma run_sops_Cons:
  assumes "run_sops f (op # ops) fs = Wrote bs"
  shows "\<exists>v fs'. fs = Field (sop_field op) v # fs'"
proof (cases fs)
  case (Cons x fs')
  then show ?thesis using assms by (cases x) (auto split: if_splits)
qed (use assms in simp)

definition fld_name :: "fld \<Rightarrow> string" where
  "fld_name x = (case x of Field f v \<Rightarrow> f)"

lemma fld_name_Field [simp]: "fld_name (Field f v) = f"
  by (simp add: fld_name_def)

lemma find_field_append:
  "find_field (xs @ ys) g = (case find_field xs g of None \<Rightarrow> find_field ys g | Some v \<Rightarrow> Some v)"
  by (induction xs g rule: find_field.induct) simp_all

lemma find_field_fresh: "g \<notin> fld_name ` set xs \<Longrightarrow> find_field xs g = None"
  by (induction xs g rule: find_field.induct) auto

text \<open>\<open>XR_TYPE_UNKNOWN\<close> is 0 and no struct has it.\<close>

definition types_ok :: "codec \<Rightarrow> bool" where
  "types_ok E \<longleftrightarrow> (\<forall>ty s. ser_lookup E ty = Some s \<longrightarrow> ty \<noteq> 0)"

text \<open>The loops over arrays of pointers, whose bound is a member that was read before.\<close>

definition is_loop :: "sop \<Rightarrow> bool" where
  "is_loop op \<longleftrightarrow> (\<exists>f g. op = Ser_ptr_each f g \<or> op = Ser_xr_each f g)"

text \<open>What has been read agrees with the source on the scalars that loops refer to.\<close>

definition scalars_agree :: "string list \<Rightarrow> fld list \<Rightarrow> fld list \<Rightarrow> bool" where
  "scalars_agree gs read all \<longleftrightarrow>
     (\<forall>g\<in>set gs. \<exists>v w. find_field all g = Some v \<and> find_field read g = Some w \<and>
        (\<forall>b. v = V_prim b \<longrightarrow> w = V_prim b))"

lemma uint_field_agree:
  assumes "scalars_agree gs read all" "g \<in> set gs" "uint_field all g = Ret n"
  shows "uint_field read g = Ret n"
proof -
  obtain v w where "find_field all g = Some v" "find_field read g = Some w"
    "\<forall>b. v = V_prim b \<longrightarrow> w = V_prim b"
    using assms(1,2) unfolding scalars_agree_def by blast
  then show ?thesis using assms(3) by (auto split: xv.splits if_splits)
qed

lemma scalars_agree_step:
  assumes "scalars_agree scalars read all" "all = pre @ Field (sop_field op) v # fs"
    "sop_field op \<notin> fld_name ` set pre" "sop_field op \<notin> fld_name ` set read"
    "\<And>f b. op = Ser f \<Longrightarrow> v = V_prim b \<Longrightarrow> w = V_prim b"
  shows "scalars_agree (case op of Ser f \<Rightarrow> f # scalars | _ \<Rightarrow> scalars) (read @ [Field (sop_field op) w]) all"
proof -
  have "scalars_agree scalars (read @ [Field (sop_field op) w]) all"
    using assms(1) by (fastforce simp: scalars_agree_def find_field_append)
  moreover have "find_field all f = Some v \<and> find_field (read @ [Field (sop_field op) w]) f = Some w \<and>
      (\<forall>b. v = V_prim b \<longrightarrow> w = V_prim b)" if "op = Ser f" for f
    using that assms(2-5) by (simp add: find_field_append find_field_fresh)
  ultimately show ?thesis by (auto simp: scalars_agree_def split: sop.split)
qed

locale agreeing_codec =
  fixes E :: codec
  assumes programs_agree: "ser_program E s = Some ops \<Longrightarrow>
      des_program E s = Some (map dop_of ops) \<and> program_ok [] [] ops"
    and lookups_agree: "ser_lookup E ty = Some s \<Longrightarrow> des_lookup E ty = Some s"
begin

lemma xr_inverts:
  assumes types: "types_ok E" and rec: "\<And>x t. size x < size v \<Longrightarrow>
      inverts (ser E c (K_val (T_struct t))) (rec (K_val (T_struct t))) (arr E c off (K_val (T_struct t))) x"
    and ser: "ser E c K_xr v = Wrote bs" and old: "fits old (arr E c off K_xr v)"
  shows "deserialize_xr E rec const old (bs @ rest) = Some (Ret (arr E c off K_xr v, rest))"
  using rec ser old
proof (induction "size v" arbitrary: v rule: less_induct)
  case less
  consider "v = V_null" | fs where "v = V_ref (V_struct fs)"
    using ser_xr_Ret [OF less.prems(2)] by blast
  then show ?case
  proof cases
    case 1
    then show ?thesis using less.prems(2,3)
      by (cases old) (auto simp: deserialize_xr_def zero32_def fits_def shape_eq_iff Let_def)
  next
    case 2
    then obtain ty where ty: "struct_type fs = Some ty"
      using less.prems(2) by (cases "struct_type fs") auto
    show ?thesis
    proof (cases "ser_lookup E ty")
      case None
      then obtain nxt where n: "find_field fs ''next'' = Some nxt" "ser E c K_xr nxt = Wrote bs"
        using less.prems(2) 2 ty by (auto split: if_splits option.splits)
      have a: "arr E c off K_xr v = arr E c off K_xr nxt" using 2 ty None n(1) by simp
      have sz: "size nxt < size v" using find_field_size [OF n(1)] 2 by simp
      show ?thesis
        using less.hyps [OF sz _ n(2)] less.prems(1,3) sz by (simp add: a)
    next
      case (Some t)
      obtain b where b: "ser E c (K_val (T_struct t)) (V_struct fs) = Wrote b" "bs = word_bytes ty @ b"
        using less.prems(2) 2 ty Some by (auto simp: wseq_Wrote_iff won_Wrote_iff)
      have a: "arr E c off K_xr v = V_ref (arr E c off (K_val (T_struct t)) (V_struct fs))"
        using 2 ty Some by simp
      have l: "des_lookup E ty = Some t" "ty \<noteq> 0"
        using lookups_agree [OF Some] types Some by (auto simp: types_ok_def)
      have inv: "inverts (ser E c (K_val (T_struct t))) (rec (K_val (T_struct t)))
          (arr E c off (K_val (T_struct t))) (V_struct fs)"
        using less.prems(1) 2 by simp
      show ?thesis
      proof (cases old)
        case None
        then show ?thesis using invertsD [OF inv b(1), of None] b(2) a l
          by (simp add: deserialize_xr_def)
      next
        case (Some o')
        then obtain u where u: "o' = V_ref u" "shape u = shape (arr E c off (K_val (T_struct t)) (V_struct fs))"
          using less.prems(3) a by (auto simp: fits_def shape_eq_iff simp del: arr.simps)
        then show ?thesis using invertsD [OF inv b(1), of "Some u"] b(2) a l Some
          by (simp add: deserialize_xr_def fits_def)
      qed
    qed
  qed
qed

lemma op_inverts:
  assumes types: "types_ok E" and rec: "\<And>x ty. size x \<le> size v \<Longrightarrow>
      inverts (ser E c (K_val ty)) (rec (K_val ty)) (arr E c off (K_val ty)) x"
    and v: "size v < 2 ^ 32"
    and ser: "ser_op E c (ser E c) s all op v = Wrote bs"
    and old: "fits old (arr_op E c off (arr E c off) s all op v)"
    and each: "\<And>f g n. op = Ser_ptr_each f g \<or> op = Ser_xr_each f g \<Longrightarrow>
      uint_field all g = Ret n \<Longrightarrow> uint_field done g = Ret n"
    and no_array: "\<And>f k. op \<noteq> Ser_xr_array f k"
  shows "des_op E off rec s done (dop_of op) old (bs @ rest)
     = Some (Ret (arr_op E c off (arr E c off) s all op v, rest))"
proof -
  have smaller: "inverts (ser E c (K_val ty)) (rec (K_val ty)) (arr E c off (K_val ty)) x"
    if "size x < size v" for x ty
    using rec that by simp
  show ?thesis
  proof (cases op)
    case (Ser f)
    then show ?thesis using invertsD [OF rec [OF order_refl]] ser old by simp
  next
    case (Ser_time f)
    then show ?thesis using time_inverts ser by simp
  next
    case (Ser_xr f)
    then show ?thesis using xr_inverts [of v c rec off, OF types smaller] ser old by simp
  next
    case (Ser_array f k)
    let ?ty = "K_val (field_type E s f)"
    obtain vs where vs: "pointee v = Some vs" "serialize_array (ser E c ?ty) (bound_value E k) vs = Wrote bs"
      using ser Ser_array by (auto split: option.splits)
    have elems: "inverts (ser E c ?ty) (rec ?ty) (arr E c off ?ty) x" if "x \<in> set vs" for x
      using smaller size_pointee [OF vs(1) that] by simp
    show ?thesis
    proof (cases old)
      case None
      then show ?thesis using array_inverts [OF elems vs(2), of None] Ser_array vs(1) by simp
    next
      case (Some o')
      then obtain os where os: "o' = V_array os"
        "map shape os = map shape (map (arr E c off ?ty) (take (bound_value E k) vs))"
        using old Ser_array vs(1) by (auto simp: fits_def shape_eq_iff)
      then show ?thesis using array_inverts [OF elems vs(2), of "Some os"] Ser_array vs(1) Some by simp
    qed
  next
    case (Ser_ptr f k)
    then obtain len where len: "count_value E all k v = Ret len"
      "serialize_ptr (ser E c (K_val (field_type E s f))) len v = Wrote bs"
      using ser by (auto simp: wseq_Wrote_iff won_Wrote_iff)
    then show ?thesis using ptr_inverts [OF smaller v len(2)] old Ser_ptr by simp
  next
    case (Ser_xr_array f k)
    then show ?thesis using no_array by simp
  next
    case (Ser_ptr_each f g)
    let ?ty = "K_val (field_type E s f)"
    let ?cnt = "\<lambda>x. count_value E all C_null_terminated x"
    let ?f = "\<lambda>x. won (?cnt x) (\<lambda>len. serialize_ptr (ser E c ?ty) len x)"
    let ?a = "\<lambda>x. arr_ptr (arr E c off ?ty) (ret_or 0 (?cnt x)) x"
    obtain n where n: "uint_field all g = Ret n" "serialize_each ?f n v = Wrote bs"
      using ser Ser_ptr_each by (auto simp: wseq_Wrote_iff won_Wrote_iff simp del: uint_field.simps)
    have inv: "inverts ?f (\<lambda>o' b. deserialize_ptr (rec ?ty) o' b) ?a x" if "size x < size v" for x
      unfolding inverts_def
    proof (intro allI impI)
      fix b r o'
      assume 1: "?f x = Wrote b" and 2: "fits o' (?a x)"
      then obtain len where len: "?cnt x = Ret len" "serialize_ptr (ser E c ?ty) len x = Wrote b"
        by (auto simp: wseq_Wrote_iff won_Wrote_iff)
      have "deserialize_ptr (rec ?ty) o' (b @ r) = Some (Ret (arr_ptr (arr E c off ?ty) len x, r))"
        by (rule ptr_inverts [OF _ _ len(2)]) (use that smaller v 2 len(1) in auto)
      then show "deserialize_ptr (rec ?ty) o' (b @ r) = Some (Ret (?a x, r))" using len(1) by simp
    qed
    have "fits old (arr_each ?a n v)" using old Ser_ptr_each n(1) by (simp del: uint_field.simps)
    then have "deserialize_each (\<lambda>o' b. deserialize_ptr (rec ?ty) o' b) n old (bs @ rest)
        = Some (Ret (arr_each ?a n v, rest))"
      using each_inverts [OF inv n(2)] by blast
    then show ?thesis using Ser_ptr_each n(1) each [of f g n] by (simp del: uint_field.simps)
  next
    case (Ser_xr_each f g)
    obtain n where n: "uint_field all g = Ret n" "serialize_each (ser E c K_xr) n v = Wrote bs"
      using ser Ser_xr_each by (auto simp: wseq_Wrote_iff won_Wrote_iff simp del: uint_field.simps)
    have inv: "inverts (ser E c K_xr) (\<lambda>o' b. deserialize_xr E rec True o' b) (arr E c off K_xr) x"
      if "size x < size v" for x
      unfolding inverts_def using xr_inverts [of x c rec off, OF types smaller] that by simp
    have "fits old (arr_each (arr E c off K_xr) n v)" using old Ser_xr_each n(1) by (simp del: uint_field.simps)
    then have "deserialize_each (\<lambda>o' b. deserialize_xr E rec True o' b) n old (bs @ rest)
        = Some (Ret (arr_each (arr E c off K_xr) n v, rest))"
      using each_inverts [OF inv n(2)] by blast
    then show ?thesis using Ser_xr_each n(1) each [of f g n] by (simp del: uint_field.simps)
  qed
qed

lemma ops_inverts:
  assumes types: "types_ok E" and rec: "\<And>x ty. size x < Suc (size_list size fs) \<Longrightarrow>
      inverts (ser E c (K_val ty)) (rec (K_val ty)) (arr E c off (K_val ty)) x"
    and v: "size_list size fs < 2 ^ 32"
    and ser: "run_sops (\<lambda>op v. ser_op E c (ser E c) s all op v) ops fs = Wrote bs"
    and old: "olds = None \<or> (\<exists>os. olds = Some os \<and> map shape_fld os =
        map shape_fld (run_arr (\<lambda>op v. arr_op E c off (arr E c off) s all op v) ops fs))"
    and ok: "program_ok scalars names ops"
    and loops: "(\<exists>op\<in>set ops. is_loop op) \<longrightarrow> all = pre @ fs \<and> scalars_agree scalars read all"
    and names: "fld_name ` set pre = set names" "fld_name ` set read = set names"
  shows "run_dops (des_op E off rec s) read (map dop_of ops) olds (bs @ rest)
     = Some (Ret (read @ run_arr (\<lambda>op v. arr_op E c off (arr E c off) s all op v) ops fs, rest))"
  using rec v ser old ok loops names
proof (induction ops arbitrary: fs bs olds scalars names pre read)
  case Nil
  then have "fs = []" "bs = []" by (cases fs; simp)+
  then show ?case using Nil.prems(4) by auto
next
  case (Cons op ops)
  let ?F = "\<lambda>op v. ser_op E c (ser E c) s all op v" and ?A = "\<lambda>op v. arr_op E c off (arr E c off) s all op v"
  obtain v fs' where fs: "fs = Field (sop_field op) v # fs'"
    using run_sops_Cons [OF Cons.prems(3)] by blast
  obtain b1 b2 where b: "?F op v = Wrote b1" "run_sops ?F ops fs' = Wrote b2" "bs = b1 @ b2"
    using Cons.prems(3) fs by (auto simp: wseq_Wrote_iff won_Wrote_iff)
  have fresh: "sop_field op \<notin> fld_name ` set pre" "sop_field op \<notin> fld_name ` set read"
    using Cons.prems(5) Cons.prems(7,8) by simp_all
  have each: "uint_field read g = Ret n"
    if "op = Ser_ptr_each f g \<or> op = Ser_xr_each f g" "uint_field all g = Ret n" for f g n
    by (rule uint_field_agree [OF _ _ that(2)]) (use Cons.prems(5,6) that(1) in \<open>auto simp: is_loop_def\<close>)
  have no_array: "op \<noteq> Ser_xr_array f k" for f k using Cons.prems(5) by auto
  have sizes: "size v < 2 ^ 32" "size_list size fs' < 2 ^ 32" using Cons.prems(2) fs by simp_all
  have rec1: "inverts (ser E c (K_val ty)) (rec (K_val ty)) (arr E c off (K_val ty)) x"
    if "size x \<le> size v" for x ty
    using Cons.prems(1) that fs by simp
  have rec2: "inverts (ser E c (K_val ty)) (rec (K_val ty)) (arr E c off (K_val ty)) x"
    if "size x < Suc (size_list size fs')" for x ty
    using Cons.prems(1) that fs by simp
  have step: "des_op E off rec s read (dop_of op) o' (b1 @ r) = Some (Ret (?A op v, r))"
    if "fits o' (?A op v)" for o' r
    by (rule op_inverts [OF types _ sizes(1) b(1) that _ no_array]) (fact rec1, rule each, assumption+)
  let ?read = "read @ [Field (sop_field op) (?A op v)]" and ?pre = "pre @ [Field (sop_field op) v]"
  let ?scalars = "case op of Ser f \<Rightarrow> f # scalars | _ \<Rightarrow> scalars"
  have ok': "program_ok ?scalars (sop_field op # names) ops" using Cons.prems(5) by simp
  have loops': "(\<exists>op\<in>set ops. is_loop op) \<longrightarrow> all = ?pre @ fs' \<and> scalars_agree ?scalars ?read all"
  proof
    assume "\<exists>op\<in>set ops. is_loop op"
    then have all: "all = pre @ fs" and agree: "scalars_agree scalars read all"
      using Cons.prems(6) by auto
    show "all = ?pre @ fs' \<and> scalars_agree ?scalars ?read all"
      using scalars_agree_step [OF agree all [unfolded fs] fresh, of "?A op v"] all fs by simp
  qed
  have IH: "run_dops (des_op E off rec s) ?read (map dop_of ops) olds' (b2 @ rest)
      = Some (Ret (?read @ run_arr ?A ops fs', rest))"
    if "olds' = None \<or> (\<exists>os. olds' = Some os \<and> map shape_fld os = map shape_fld (run_arr ?A ops fs'))" for olds'
    by (rule Cons.IH [OF rec2 sizes(2) b(2) that ok' loops'])
      (use Cons.prems(7,8) in simp_all)
  show ?case
  proof (cases olds)
    case None
    then show ?thesis using step [of None "b2 @ rest"] IH [of None] fs b(3) by simp
  next
    case (Some os')
    obtain x os where os: "os' = Field (sop_field op) x # os" "shape x = shape (?A op v)"
      "map shape_fld os = map shape_fld (run_arr ?A ops fs')"
    proof -
      obtain y os where "os' = y # os" using Cons.prems(4) Some fs by auto
      moreover obtain g x where "y = Field g x" by (cases y)
      ultimately show ?thesis using that Cons.prems(4) Some fs by auto
    qed
    then show ?thesis using step [of "Some x" "b2 @ rest"] IH [of "Some os"] fs b(3) Some
      by (simp add: fits_def)
  qed
qed

lemma ser_inverts:
  "types_ok E \<Longrightarrow> size v < n \<Longrightarrow> size v < 2 ^ 32 \<Longrightarrow>
   inverts (ser E c (K_val ty)) (des E off n (K_val ty)) (arr E c off (K_val ty)) v"
proof (induction n arbitrary: v ty)
  case (Suc n)
  show ?case
    unfolding inverts_def
  proof (intro allI impI)
    fix bs rest old
    assume ser: "ser E c (K_val ty) v = Wrote bs" and old: "fits old (arr E c off (K_val ty) v)"
    show "des E off (Suc n) (K_val ty) old (bs @ rest) = Some (Ret (arr E c off (K_val ty) v, rest))"
    proof (cases ty)
      case (T_prim m)
      then show ?thesis using ser by (cases v) (auto split: if_splits)
    next
      case (T_struct s)
      obtain fs where fs: "v = V_struct fs" using ser T_struct by (cases v) simp_all
      obtain ops where ops: "ser_program E s = Some ops"
        "run_sops (\<lambda>op v. ser_op E c (ser E c) s fs op v) ops fs = Wrote bs"
        using ser T_struct fs by (auto split: option.splits)
      have d: "des_program E s = Some (map dop_of ops)" "program_ok [] [] ops"
        using programs_agree [OF ops(1)] by simp_all
      let ?A = "\<lambda>op v. arr_op E c off (arr E c off) s fs op v"
      have a: "arr E c off (K_val ty) v = V_struct (run_arr ?A ops fs)"
        using T_struct fs ops(1) by simp
      have run: "run_dops (des_op E off (des E off n) s) [] (map dop_of ops) olds (bs @ rest)
          = Some (Ret ([] @ run_arr ?A ops fs, rest))"
        if "olds = None \<or> (\<exists>os. olds = Some os \<and> map shape_fld os = map shape_fld (run_arr ?A ops fs))" for olds
      proof (rule ops_inverts [OF Suc.prems(1) _ _ ops(2) that d(2), where pre = "[]"])
        show "inverts (ser E c (K_val t)) (des E off n (K_val t)) (arr E c off (K_val t)) x"
          if "size x < Suc (size_list size fs)" for x t
          using Suc.IH [of x t] Suc.prems that fs by simp
      qed (use Suc.prems(3) fs in \<open>simp_all add: scalars_agree_def\<close>)
      show ?thesis
      proof (cases old)
        case None
        then show ?thesis using run [of None] T_struct d(1) a by simp
      next
        case (Some o')
        then obtain os where "o' = V_struct os" "map shape_fld os = map shape_fld (run_arr ?A ops fs)"
          using old a by (auto simp: fits_def shape_eq_iff simp del: arr.simps)
        then show ?thesis using run [of "Some os"] T_struct d(1) a Some by simp
      qed
    qed
  qed
qed simp

lemma ser_xr_inverts:
  assumes "types_ok E" "size v < n" "size v < 2 ^ 32"
  shows "inverts (ser E c K_xr) (des E off (Suc n) K_xr) (arr E c off K_xr) v"
  unfolding inverts_def
proof (intro allI impI)
  fix bs rest old
  assume ser: "ser E c K_xr v = Wrote bs" and old: "fits old (arr E c off K_xr v)"
  have "deserialize_xr E (des E off n) True old (bs @ rest) = Some (Ret (arr E c off K_xr v, rest))"
    by (rule xr_inverts [OF assms(1) _ ser old], rule ser_inverts) (use assms in auto)
  then show "des E off (Suc n) K_xr old (bs @ rest) = Some (Ret (arr E c off K_xr v, rest))" by simp
qed

text \<open>Both kinds of values at once\<close>

lemma reads_back:
  assumes "types_ok E" "size v < n" "size v < 2 ^ 32" "ser E c k v = Wrote bs" "fits old (arr E c off k v)"
  shows "des E off (Suc n) k old (bs @ rest) = Some (Ret (arr E c off k v, rest))"
proof (cases k)
  case (K_val ty)
  then show ?thesis using invertsD [OF ser_inverts [of v "Suc n" c ty off]] assms by simp
next
  case K_xr
  then show ?thesis using invertsD [OF ser_xr_inverts [of v n c off]] assms by blast
qed

end

end
