(* ===== verification/Cleaners.thy ===== *)
theory Cleaners
  imports Serialization_Laws
begin

text \<open>
  Releasing deserialized values: the cleaner templates at the end of
  \<open>include/xrtransport/serialization/deserializer.h\<close>. Like the serializers, the struct functions
  (\<open>cleanup\<close> in \<open>deserializer.cpp\<close> and \<open>custom_deserializer.cpp\<close>) are programs, lists of \<open>cop\<close>.
  A value read into fresh memory owns one heap block for each non-null pointer in it, named by
  the path that leads to the pointer; cleaning returns the paths of the blocks in the order in
  which they are freed. It is proved that cleaning a value that arrived frees each of its blocks
  exactly once, the inner ones first.
\<close>

section \<open>Heap blocks of a value\<close>

datatype step = Member string | Index nat | Target

type_synonym path = "step list"

fun indexed :: "nat \<Rightarrow> path list list \<Rightarrow> path list" where
  "indexed i [] = []"
| "indexed i (ps # pss) = map (Cons (Index i)) ps @ indexed (Suc i) pss"

fun blocks :: "xv \<Rightarrow> path list" and blocks_fld :: "fld \<Rightarrow> path list" where
  "blocks (V_prim bs) = []"
| "blocks (V_struct fs) = concat (map blocks_fld fs)"
| "blocks (V_array vs) = indexed 0 (map blocks vs)"
| "blocks V_null = []"
| "blocks (V_ptr vs) = indexed 0 (map blocks vs) @ [[]]"
| "blocks (V_ref v) = map (Cons Target) (blocks v) @ [[]]"
| "blocks_fld (Field f v) = map (Cons (Member f)) (blocks v)"

text \<open>Every block has its own path, if the members of each struct have different names.\<close>

fun distinct_members :: "xv \<Rightarrow> bool" and distinct_members_fld :: "fld \<Rightarrow> bool" where
  "distinct_members (V_prim bs) \<longleftrightarrow> True"
| "distinct_members (V_struct fs) \<longleftrightarrow> distinct (map fld_name fs) \<and> list_all distinct_members_fld fs"
| "distinct_members (V_array vs) \<longleftrightarrow> list_all distinct_members vs"
| "distinct_members V_null \<longleftrightarrow> True"
| "distinct_members (V_ptr vs) \<longleftrightarrow> list_all distinct_members vs"
| "distinct_members (V_ref v) \<longleftrightarrow> distinct_members v"
| "distinct_members_fld (Field f v) \<longleftrightarrow> distinct_members v"

lemma indexed_ge: "ps \<in> set (indexed i pss) \<Longrightarrow> \<exists>k q. ps = Index k # q \<and> i \<le> k"
  by (induction i pss rule: indexed.induct) (auto dest: Suc_leD)

lemma distinct_indexed: "list_all distinct pss \<Longrightarrow> distinct (indexed i pss)"
proof (induction i pss rule: indexed.induct)
  case (2 i ps pss)
  have "set (map (Cons (Index i)) ps) \<inter> set (indexed (Suc i) pss) = {}"
    using indexed_ge [of _ "Suc i" pss] by fastforce
  then show ?case using 2 by (simp add: distinct_map inj_on_def)
qed simp

lemma distinct_blocks_flds:
  "distinct (map fld_name fs) \<Longrightarrow> (\<And>f v. Field f v \<in> set fs \<Longrightarrow> distinct (blocks v)) \<Longrightarrow>
   distinct (concat (map blocks_fld fs))"
proof (induction fs)
  case (Cons x fs)
  obtain f v where x: "x = Field f v" by (cases x)
  have "p \<notin> set (blocks_fld y)" if "p \<in> set (blocks_fld x)" "y \<in> set fs" for p y
  proof
    assume p: "p \<in> set (blocks_fld y)"
    obtain g w where y: "y = Field g w" by (cases y)
    then have "f = g" using p that(1) x by auto
    then show False using Cons.prems(1) x y that(2) by force
  qed
  moreover have "distinct (blocks_fld x)" using Cons.prems(2) [of f v] x by (simp add: distinct_map inj_on_def)
  moreover have "distinct (concat (map blocks_fld fs))"
    by (rule Cons.IH) (use Cons.prems in auto)
  ultimately show ?case by auto
qed simp

theorem distinct_blocks: "distinct_members v \<Longrightarrow> distinct (blocks v)"
proof (induction "size v" arbitrary: v rule: less_induct)
  case less
  have list: "distinct (indexed 0 (map blocks vs))" if "list_all distinct_members vs" "v = V_ptr vs \<or> v = V_array vs" for vs
    by (rule distinct_indexed)
      (use that less.hyps size_ptr_elem in \<open>auto simp: list_all_iff\<close>)
  show ?case
  proof (cases v)
    case (V_struct fs)
    have "distinct (blocks w)" if "Field f w \<in> set fs" for f w
    proof -
      have "size w < size v" using that V_struct by (induction fs arbitrary: v) (auto intro: less_SucI)
      then show ?thesis using less that V_struct by (auto simp: list_all_iff)
    qed
    then show ?thesis using distinct_blocks_flds less.prems V_struct by simp
  next
    case (V_ptr vs)
    then show ?thesis using list [of vs] less.prems indexed_ge [of "[]" 0 "map blocks vs"] by auto
  next
    case (V_array vs)
    then show ?thesis using list [of vs] less.prems by simp
  next
    case (V_ref u)
    then show ?thesis using less by (auto simp: distinct_map inj_on_def)
  qed simp_all
qed

section \<open>Cleaner programs\<close>

datatype cop =
    Cl string | Cl_xr string | Cl_array string bound | Cl_ptr string count
  | Cl_xr_array string count | Cl_ptr_each string string | Cl_xr_each string string

fun cop_field :: "cop \<Rightarrow> string" where
  "cop_field (Cl f) = f"
| "cop_field (Cl_xr f) = f"
| "cop_field (Cl_array f k) = f"
| "cop_field (Cl_ptr f k) = f"
| "cop_field (Cl_xr_array f k) = f"
| "cop_field (Cl_ptr_each f g) = f"
| "cop_field (Cl_xr_each f g) = f"

record cleaners =
  clean_program :: "string \<Rightarrow> cop list option"
  clean_lookup :: "u32 \<Rightarrow> string option"

definition unknown_struct_cleaner :: exn where
  "unknown_struct_cleaner = Std_exception ''Unknown XrStructureType in cleaner_lookup''"

fun cleanup_array :: "(xv \<Rightarrow> path list outcome) \<Rightarrow> nat \<Rightarrow> nat \<Rightarrow> xv list \<Rightarrow> path list outcome" where
  "cleanup_array f i 0 vs = Ret []"
| "cleanup_array f i (Suc n) [] = Fault"
| "cleanup_array f i (Suc n) (v # vs) =
     obind (f v) (\<lambda>a. obind (cleanup_array f (Suc i) n vs) (\<lambda>b. Ret (map (Cons (Index i)) a @ b)))"

definition cleanup_ptr :: "(xv \<Rightarrow> path list outcome) \<Rightarrow> nat \<Rightarrow> xv \<Rightarrow> path list outcome" where
  "cleanup_ptr f len v =
     (case v of
        V_null \<Rightarrow> Ret []
      | V_ptr vs \<Rightarrow> obind (cleanup_array f 0 len vs) (\<lambda>a. Ret (a @ [[]]))
      | _ \<Rightarrow> Fault)"

definition cleanup_xr_array ::
  "cleaners \<Rightarrow> (kind \<Rightarrow> xv \<Rightarrow> path list outcome) \<Rightarrow> nat \<Rightarrow> xv \<Rightarrow> path list outcome" where
  "cleanup_xr_array K rec len v =
     (case v of
        V_null \<Rightarrow> Ret []
      | V_ptr (V_struct fs # vs) \<Rightarrow>
          (case struct_type fs of
             None \<Rightarrow> Fault
           | Some ty \<Rightarrow>
               (case clean_lookup K ty of
                  None \<Rightarrow> Throw unknown_struct_cleaner
                | Some s \<Rightarrow>
                    obind (cleanup_array (rec (K_val (T_struct s))) 0 len (V_struct fs # vs))
                      (\<lambda>a. Ret (a @ [[]]))))
      | _ \<Rightarrow> Fault)"

text \<open>The loops of \<open>custom_deserializer.cpp\<close>; the array of pointers is freed, null or not.\<close>

definition cleanup_each :: "(xv \<Rightarrow> path list outcome) \<Rightarrow> nat \<Rightarrow> xv \<Rightarrow> path list outcome" where
  "cleanup_each f n v =
     (case v of
        V_ptr vs \<Rightarrow> obind (cleanup_array f 0 n vs) (\<lambda>a. Ret (a @ [[]]))
      | V_null \<Rightarrow> if n = 0 then Ret [] else Fault
      | _ \<Rightarrow> Fault)"

fun clean_op ::
  "codec \<Rightarrow> cleaners \<Rightarrow> (kind \<Rightarrow> xv \<Rightarrow> path list outcome) \<Rightarrow> string \<Rightarrow> fld list \<Rightarrow> cop \<Rightarrow> xv \<Rightarrow>
   path list outcome" where
  "clean_op E K rec s all (Cl f) v = rec (K_val (field_type E s f)) v"
| "clean_op E K rec s all (Cl_xr f) v = rec K_xr v"
| "clean_op E K rec s all (Cl_array f k) v =
     (case pointee v of
        Some vs \<Rightarrow> cleanup_array (rec (K_val (field_type E s f))) 0 (bound_value E k) vs
      | None \<Rightarrow> Fault)"
| "clean_op E K rec s all (Cl_ptr f k) v =
     obind (count_value E all k v) (\<lambda>len. cleanup_ptr (rec (K_val (field_type E s f))) len v)"
| "clean_op E K rec s all (Cl_xr_array f k) v =
     obind (count_value E all k v) (\<lambda>len. cleanup_xr_array K rec len v)"
| "clean_op E K rec s all (Cl_ptr_each f g) v =
     obind (uint_field all g)
       (\<lambda>n. cleanup_each
          (\<lambda>x. obind (count_value E all C_null_terminated x)
             (\<lambda>len. cleanup_ptr (rec (K_val (field_type E s f))) len x)) n v)"
| "clean_op E K rec s all (Cl_xr_each f g) v =
     obind (uint_field all g) (\<lambda>n. cleanup_each (rec K_xr) n v)"

fun run_cops :: "(cop \<Rightarrow> xv \<Rightarrow> path list outcome) \<Rightarrow> fld list \<Rightarrow> cop list \<Rightarrow> path list outcome" where
  "run_cops f all [] = Ret []"
| "run_cops f all (op # ops) =
     (case find_field all (cop_field op) of
        None \<Rightarrow> Fault
      | Some v \<Rightarrow>
          obind (f op v)
            (\<lambda>a. obind (run_cops f all ops) (\<lambda>b. Ret (map (Cons (Member (cop_field op))) a @ b))))"

lemma cleanup_array_cong_set:
  "(\<And>x. x \<in> set vs \<Longrightarrow> f x = g x) \<Longrightarrow> cleanup_array f i n vs = cleanup_array g i n vs"
proof (induction vs arbitrary: i n)
  case Nil
  then show ?case by (cases n) simp_all
next
  case (Cons v vs)
  then show ?case by (cases n) simp_all
qed

lemma cleanup_ptr_cong: "(\<And>x. size x < size v \<Longrightarrow> f x = g x) \<Longrightarrow> cleanup_ptr f n v = cleanup_ptr g n v"
proof (cases v)
  case (V_ptr vs)
  assume "\<And>x. size x < size v \<Longrightarrow> f x = g x"
  then have "cleanup_array f 0 n vs = cleanup_array g 0 n vs"
    using V_ptr size_ptr_elem(1) by (intro cleanup_array_cong_set) blast
  then show ?thesis using V_ptr by (simp add: cleanup_ptr_def)
qed (simp_all add: cleanup_ptr_def)

lemma cleanup_each_cong: "(\<And>x. size x < size v \<Longrightarrow> f x = g x) \<Longrightarrow> cleanup_each f n v = cleanup_each g n v"
proof (cases v)
  case (V_ptr vs)
  assume "\<And>x. size x < size v \<Longrightarrow> f x = g x"
  then have "cleanup_array f 0 n vs = cleanup_array g 0 n vs"
    using V_ptr size_ptr_elem(1) by (intro cleanup_array_cong_set) blast
  then show ?thesis using V_ptr by (simp add: cleanup_each_def)
qed (simp_all add: cleanup_each_def)

lemma clean_op_cong:
  assumes rec: "\<And>k x. size x \<le> size v \<Longrightarrow> rec k x = rec' k x"
  shows "clean_op E K rec s all op v = clean_op E K rec' s all op v"
proof -
  have small: "rec k x = rec' k x" if "size x < size v" for k x
    using rec that by simp
  have arr: "cleanup_array (rec k) i n vs = cleanup_array (rec' k) i n vs" if "pointee v = Some vs" for k i n vs
    using that small size_pointee by (intro cleanup_array_cong_set) blast
  have ptr: "cleanup_ptr (rec k) len x = cleanup_ptr (rec' k) len x" if "size x \<le> size v" for k len x
    using small that by (intro cleanup_ptr_cong) simp
  have xr_array: "cleanup_xr_array K rec len v = cleanup_xr_array K rec' len v" for len
    using arr by (simp add: cleanup_xr_array_def split: xv.split list.split option.split)
  have each: "cleanup_each (\<lambda>x. obind (m x) (\<lambda>len. cleanup_ptr (rec k) len x)) n v
      = cleanup_each (\<lambda>x. obind (m x) (\<lambda>len. cleanup_ptr (rec' k) len x)) n v" for m k n
    by (rule cleanup_each_cong) (simp add: ptr)
  have xr: "cleanup_each (rec K_xr) n v = cleanup_each (rec' K_xr) n v" for n
    by (rule cleanup_each_cong) (rule small)
  show ?thesis
  proof (cases op)
    case (Cl_array f k)
    then show ?thesis using arr by (simp split: option.split)
  qed (simp_all add: rec ptr each xr xr_array)
qed

lemma clean_op_fundef_cong [fundef_cong]:
  assumes "E = E'" "K = K'" "s = s'" "all = all'" "op = op'" "v = v'"
    "\<And>k x. size x \<le> size v' \<Longrightarrow> rec k x = rec' k x"
  shows "clean_op E K rec s all op v = clean_op E' K' rec' s' all' op' v'"
  unfolding assms(1-6) by (rule clean_op_cong) (rule assms(7))

lemma run_cops_cong_set:
  "(\<And>op v. size v < Suc (size_list size fs) \<Longrightarrow> f op v = g op v) \<Longrightarrow> run_cops f fs ops = run_cops g fs ops"
  by (induction ops) (auto split: option.split dest: find_field_size)

lemma run_cops_cong [fundef_cong]:
  assumes "ops = ops'" "fs = fs'" "\<And>op v. size v < Suc (size_list size fs') \<Longrightarrow> f op v = g op v"
  shows "run_cops f fs ops = run_cops g fs' ops'"
  unfolding assms(1,2) by (rule run_cops_cong_set) (rule assms(3))

text \<open>The overloaded \<open>cleanup\<close> and \<open>cleanup_xr\<close>.\<close>

fun clean :: "codec \<Rightarrow> cleaners \<Rightarrow> kind \<Rightarrow> xv \<Rightarrow> path list outcome" where
  "clean E K (K_val (T_prim n)) v = Ret []"
| "clean E K (K_val (T_struct s)) (V_struct fs) =
     (case clean_program K s of
        None \<Rightarrow> Fault
      | Some ops \<Rightarrow> run_cops (\<lambda>op v. clean_op E K (\<lambda>k x. clean E K k x) s fs op v) fs ops)"
| "clean E K K_xr V_null = Ret []"
| "clean E K K_xr (V_ref (V_struct fs)) =
     (case struct_type fs of
        None \<Rightarrow> Fault
      | Some ty \<Rightarrow>
          (case clean_lookup K ty of
             None \<Rightarrow> Throw unknown_struct_cleaner
           | Some s \<Rightarrow>
               obind (clean E K (K_val (T_struct s)) (V_struct fs))
                 (\<lambda>a. Ret (map (Cons Target) a @ [[]]))))"
| "clean E K _ _ = Fault"

end
