(* ===== verification/Rpc_Frame.thy ===== *)
theory Rpc_Frame
  imports Cleaners
begin

text \<open>
  What differs between the function stubs. All bodies of \<open>src/client/rpc.cpp\<close> and all handlers of
  \<open>src/server/function_dispatch.cpp\<close> have the same frame, which is executed by the definitions of
  \<open>Rpc\<close>; the rest is the function id, the statements that write the parameters and those that
  read the results (client), and the statements that read the parameters, write the results and
  release the parameters (server).
\<close>

record rpc_stub =
  stub_id :: u32
  stub_request :: "sop list"
  stub_reply :: "dop list"

record rpc_handler =
  handler_params :: "dop list"
  handler_reply :: "sop list"
  handler_cleanup :: "cop list"

end
