(* ===== verification/Rpc_Tables.thy ===== *)
theory Rpc_Tables
  imports Rpc_Frame
begin

text \<open>
  The function stubs of core OpenXR: the bodies in \<open>src/client/rpc.cpp\<close> and the handlers in
  \<open>src/server/function_dispatch.cpp\<close>, outside the extension blocks. All bodies of a file have the
  same frame, which is executed by the definitions of \<open>Rpc\<close>; what differs is the function id,
  the statements that write the parameters and those that read the results (client), and the
  statements that read the parameters and write the results (server).
\<close>

section \<open>Client stubs\<close>

definition rpc_xrAcquireSwapchainImage :: rpc_stub where
  "rpc_xrAcquireSwapchainImage =
     \<lparr>stub_id = 1,
      stub_request = [Ser ''swapchain'', Ser_ptr ''acquireInfo'' C_one, Ser_ptr ''index'' C_one],
      stub_reply = [De_ptr ''index'']\<rparr>"

definition rpc_xrApplyHapticFeedback :: rpc_stub where
  "rpc_xrApplyHapticFeedback =
     \<lparr>stub_id = 2,
      stub_request = [Ser ''session'', Ser_ptr ''hapticActionInfo'' C_one, Ser_xr ''hapticFeedback''],
      stub_reply = []\<rparr>"

definition rpc_xrAttachSessionActionSets :: rpc_stub where
  "rpc_xrAttachSessionActionSets =
     \<lparr>stub_id = 3,
      stub_request = [Ser ''session'', Ser_ptr ''attachInfo'' C_one],
      stub_reply = []\<rparr>"

definition rpc_xrBeginFrame :: rpc_stub where
  "rpc_xrBeginFrame =
     \<lparr>stub_id = 4,
      stub_request = [Ser ''session'', Ser_ptr ''frameBeginInfo'' C_one],
      stub_reply = []\<rparr>"

definition rpc_xrBeginSession :: rpc_stub where
  "rpc_xrBeginSession =
     \<lparr>stub_id = 5,
      stub_request = [Ser ''session'', Ser_ptr ''beginInfo'' C_one],
      stub_reply = []\<rparr>"

definition rpc_xrCreateAction :: rpc_stub where
  "rpc_xrCreateAction =
     \<lparr>stub_id = 6,
      stub_request = [Ser ''actionSet'', Ser_ptr ''createInfo'' C_one, Ser_ptr ''action'' C_one],
      stub_reply = [De_ptr ''action'']\<rparr>"

definition rpc_xrCreateActionSet :: rpc_stub where
  "rpc_xrCreateActionSet =
     \<lparr>stub_id = 7,
      stub_request = [Ser ''instance'', Ser_ptr ''createInfo'' C_one, Ser_ptr ''actionSet'' C_one],
      stub_reply = [De_ptr ''actionSet'']\<rparr>"

definition rpc_xrCreateActionSpace :: rpc_stub where
  "rpc_xrCreateActionSpace =
     \<lparr>stub_id = 8,
      stub_request = [Ser ''session'', Ser_ptr ''createInfo'' C_one, Ser_ptr ''space'' C_one],
      stub_reply = [De_ptr ''space'']\<rparr>"

definition rpc_xrCreateInstance :: rpc_stub where
  "rpc_xrCreateInstance =
     \<lparr>stub_id = 9,
      stub_request = [Ser_ptr ''createInfo'' C_one, Ser_ptr ''instance'' C_one],
      stub_reply = [De_ptr ''instance'']\<rparr>"

definition rpc_xrCreateReferenceSpace :: rpc_stub where
  "rpc_xrCreateReferenceSpace =
     \<lparr>stub_id = 10,
      stub_request = [Ser ''session'', Ser_ptr ''createInfo'' C_one, Ser_ptr ''space'' C_one],
      stub_reply = [De_ptr ''space'']\<rparr>"

definition rpc_xrCreateSession :: rpc_stub where
  "rpc_xrCreateSession =
     \<lparr>stub_id = 11,
      stub_request = [Ser ''instance'', Ser_ptr ''createInfo'' C_one, Ser_ptr ''session'' C_one],
      stub_reply = [De_ptr ''session'']\<rparr>"

definition rpc_xrCreateSwapchain :: rpc_stub where
  "rpc_xrCreateSwapchain =
     \<lparr>stub_id = 12,
      stub_request = [Ser ''session'', Ser_ptr ''createInfo'' C_one, Ser_ptr ''swapchain'' C_one],
      stub_reply = [De_ptr ''swapchain'']\<rparr>"

definition rpc_xrDestroyAction :: rpc_stub where
  "rpc_xrDestroyAction =
     \<lparr>stub_id = 13,
      stub_request = [Ser ''action''],
      stub_reply = []\<rparr>"

definition rpc_xrDestroyActionSet :: rpc_stub where
  "rpc_xrDestroyActionSet =
     \<lparr>stub_id = 14,
      stub_request = [Ser ''actionSet''],
      stub_reply = []\<rparr>"

definition rpc_xrDestroyInstance :: rpc_stub where
  "rpc_xrDestroyInstance =
     \<lparr>stub_id = 15,
      stub_request = [Ser ''instance''],
      stub_reply = []\<rparr>"

definition rpc_xrDestroySession :: rpc_stub where
  "rpc_xrDestroySession =
     \<lparr>stub_id = 16,
      stub_request = [Ser ''session''],
      stub_reply = []\<rparr>"

definition rpc_xrDestroySpace :: rpc_stub where
  "rpc_xrDestroySpace =
     \<lparr>stub_id = 17,
      stub_request = [Ser ''space''],
      stub_reply = []\<rparr>"

definition rpc_xrDestroySwapchain :: rpc_stub where
  "rpc_xrDestroySwapchain =
     \<lparr>stub_id = 18,
      stub_request = [Ser ''swapchain''],
      stub_reply = []\<rparr>"

definition rpc_xrEndFrame :: rpc_stub where
  "rpc_xrEndFrame =
     \<lparr>stub_id = 19,
      stub_request = [Ser ''session'', Ser_ptr ''frameEndInfo'' C_one],
      stub_reply = []\<rparr>"

definition rpc_xrEndSession :: rpc_stub where
  "rpc_xrEndSession =
     \<lparr>stub_id = 20,
      stub_request = [Ser ''session''],
      stub_reply = []\<rparr>"

definition rpc_xrEnumerateApiLayerProperties :: rpc_stub where
  "rpc_xrEnumerateApiLayerProperties =
     \<lparr>stub_id = 21,
      stub_request = [Ser ''propertyCapacityInput'', Ser_ptr ''propertyCountOutput'' C_one,
        Ser_ptr ''properties'' (C_field ''propertyCapacityInput'')],
      stub_reply = [De_ptr ''propertyCountOutput'', De_ptr ''properties'']\<rparr>"

definition rpc_xrEnumerateBoundSourcesForAction :: rpc_stub where
  "rpc_xrEnumerateBoundSourcesForAction =
     \<lparr>stub_id = 22,
      stub_request = [Ser ''session'', Ser_ptr ''enumerateInfo'' C_one, Ser ''sourceCapacityInput'',
        Ser_ptr ''sourceCountOutput'' C_one,
        Ser_ptr ''sources'' (C_field ''sourceCapacityInput'')],
      stub_reply = [De_ptr ''sourceCountOutput'', De_ptr ''sources'']\<rparr>"

definition rpc_xrEnumerateEnvironmentBlendModes :: rpc_stub where
  "rpc_xrEnumerateEnvironmentBlendModes =
     \<lparr>stub_id = 23,
      stub_request = [Ser ''instance'', Ser ''systemId'', Ser ''viewConfigurationType'',
        Ser ''environmentBlendModeCapacityInput'',
        Ser_ptr ''environmentBlendModeCountOutput'' C_one,
        Ser_ptr ''environmentBlendModes'' (C_field ''environmentBlendModeCapacityInput'')],
      stub_reply = [De_ptr ''environmentBlendModeCountOutput'', De_ptr ''environmentBlendModes'']\<rparr>"

definition rpc_xrEnumerateInstanceExtensionProperties :: rpc_stub where
  "rpc_xrEnumerateInstanceExtensionProperties =
     \<lparr>stub_id = 24,
      stub_request = [Ser_ptr ''layerName'' C_null_terminated, Ser ''propertyCapacityInput'',
        Ser_ptr ''propertyCountOutput'' C_one,
        Ser_ptr ''properties'' (C_field ''propertyCapacityInput'')],
      stub_reply = [De_ptr ''propertyCountOutput'', De_ptr ''properties'']\<rparr>"

definition rpc_xrEnumerateReferenceSpaces :: rpc_stub where
  "rpc_xrEnumerateReferenceSpaces =
     \<lparr>stub_id = 25,
      stub_request = [Ser ''session'', Ser ''spaceCapacityInput'', Ser_ptr ''spaceCountOutput'' C_one,
        Ser_ptr ''spaces'' (C_field ''spaceCapacityInput'')],
      stub_reply = [De_ptr ''spaceCountOutput'', De_ptr ''spaces'']\<rparr>"

definition rpc_xrEnumerateSwapchainFormats :: rpc_stub where
  "rpc_xrEnumerateSwapchainFormats =
     \<lparr>stub_id = 26,
      stub_request = [Ser ''session'', Ser ''formatCapacityInput'', Ser_ptr ''formatCountOutput'' C_one,
        Ser_ptr ''formats'' (C_field ''formatCapacityInput'')],
      stub_reply = [De_ptr ''formatCountOutput'', De_ptr ''formats'']\<rparr>"

definition rpc_xrEnumerateSwapchainImages :: rpc_stub where
  "rpc_xrEnumerateSwapchainImages =
     \<lparr>stub_id = 27,
      stub_request = [Ser ''swapchain'', Ser ''imageCapacityInput'', Ser_ptr ''imageCountOutput'' C_one,
        Ser_xr_array ''images'' (C_field ''imageCapacityInput'')],
      stub_reply = [De_ptr ''imageCountOutput'', De_xr_array ''images'']\<rparr>"

definition rpc_xrEnumerateViewConfigurationViews :: rpc_stub where
  "rpc_xrEnumerateViewConfigurationViews =
     \<lparr>stub_id = 28,
      stub_request = [Ser ''instance'', Ser ''systemId'', Ser ''viewConfigurationType'',
        Ser ''viewCapacityInput'', Ser_ptr ''viewCountOutput'' C_one,
        Ser_ptr ''views'' (C_field ''viewCapacityInput'')],
      stub_reply = [De_ptr ''viewCountOutput'', De_ptr ''views'']\<rparr>"

definition rpc_xrEnumerateViewConfigurations :: rpc_stub where
  "rpc_xrEnumerateViewConfigurations =
     \<lparr>stub_id = 29,
      stub_request = [Ser ''instance'', Ser ''systemId'', Ser ''viewConfigurationTypeCapacityInput'',
        Ser_ptr ''viewConfigurationTypeCountOutput'' C_one,
        Ser_ptr ''viewConfigurationTypes'' (C_field ''viewConfigurationTypeCapacityInput'')],
      stub_reply = [De_ptr ''viewConfigurationTypeCountOutput'', De_ptr ''viewConfigurationTypes'']\<rparr>"

definition rpc_xrGetActionStateBoolean :: rpc_stub where
  "rpc_xrGetActionStateBoolean =
     \<lparr>stub_id = 30,
      stub_request = [Ser ''session'', Ser_ptr ''getInfo'' C_one, Ser_ptr ''state'' C_one],
      stub_reply = [De_ptr ''state'']\<rparr>"

definition rpc_xrGetActionStateFloat :: rpc_stub where
  "rpc_xrGetActionStateFloat =
     \<lparr>stub_id = 31,
      stub_request = [Ser ''session'', Ser_ptr ''getInfo'' C_one, Ser_ptr ''state'' C_one],
      stub_reply = [De_ptr ''state'']\<rparr>"

definition rpc_xrGetActionStatePose :: rpc_stub where
  "rpc_xrGetActionStatePose =
     \<lparr>stub_id = 32,
      stub_request = [Ser ''session'', Ser_ptr ''getInfo'' C_one, Ser_ptr ''state'' C_one],
      stub_reply = [De_ptr ''state'']\<rparr>"

definition rpc_xrGetActionStateVector2f :: rpc_stub where
  "rpc_xrGetActionStateVector2f =
     \<lparr>stub_id = 33,
      stub_request = [Ser ''session'', Ser_ptr ''getInfo'' C_one, Ser_ptr ''state'' C_one],
      stub_reply = [De_ptr ''state'']\<rparr>"

definition rpc_xrGetCurrentInteractionProfile :: rpc_stub where
  "rpc_xrGetCurrentInteractionProfile =
     \<lparr>stub_id = 34,
      stub_request = [Ser ''session'', Ser ''topLevelUserPath'', Ser_ptr ''interactionProfile'' C_one],
      stub_reply = [De_ptr ''interactionProfile'']\<rparr>"

definition rpc_xrGetInputSourceLocalizedName :: rpc_stub where
  "rpc_xrGetInputSourceLocalizedName =
     \<lparr>stub_id = 35,
      stub_request = [Ser ''session'', Ser_ptr ''getInfo'' C_one, Ser ''bufferCapacityInput'',
        Ser_ptr ''bufferCountOutput'' C_one,
        Ser_ptr ''buffer'' (C_field ''bufferCapacityInput'')],
      stub_reply = [De_ptr ''bufferCountOutput'', De_ptr ''buffer'']\<rparr>"

definition rpc_xrGetInstanceProperties :: rpc_stub where
  "rpc_xrGetInstanceProperties =
     \<lparr>stub_id = 36,
      stub_request = [Ser ''instance'', Ser_ptr ''instanceProperties'' C_one],
      stub_reply = [De_ptr ''instanceProperties'']\<rparr>"

definition rpc_xrGetReferenceSpaceBoundsRect :: rpc_stub where
  "rpc_xrGetReferenceSpaceBoundsRect =
     \<lparr>stub_id = 37,
      stub_request = [Ser ''session'', Ser ''referenceSpaceType'', Ser_ptr ''bounds'' C_one],
      stub_reply = [De_ptr ''bounds'']\<rparr>"

definition rpc_xrGetSystem :: rpc_stub where
  "rpc_xrGetSystem =
     \<lparr>stub_id = 38,
      stub_request = [Ser ''instance'', Ser_ptr ''getInfo'' C_one, Ser_ptr ''systemId'' C_one],
      stub_reply = [De_ptr ''systemId'']\<rparr>"

definition rpc_xrGetSystemProperties :: rpc_stub where
  "rpc_xrGetSystemProperties =
     \<lparr>stub_id = 39,
      stub_request = [Ser ''instance'', Ser ''systemId'', Ser_ptr ''properties'' C_one],
      stub_reply = [De_ptr ''properties'']\<rparr>"

definition rpc_xrGetViewConfigurationProperties :: rpc_stub where
  "rpc_xrGetViewConfigurationProperties =
     \<lparr>stub_id = 40,
      stub_request = [Ser ''instance'', Ser ''systemId'', Ser ''viewConfigurationType'',
        Ser_ptr ''configurationProperties'' C_one],
      stub_reply = [De_ptr ''configurationProperties'']\<rparr>"

definition rpc_xrLocateSpace :: rpc_stub where
  "rpc_xrLocateSpace =
     \<lparr>stub_id = 41,
      stub_request = [Ser ''space'', Ser ''baseSpace'', Ser_time ''time'', Ser_ptr ''location'' C_one],
      stub_reply = [De_ptr ''location'']\<rparr>"

definition rpc_xrLocateSpaces :: rpc_stub where
  "rpc_xrLocateSpaces =
     \<lparr>stub_id = 42,
      stub_request = [Ser ''session'', Ser_ptr ''locateInfo'' C_one, Ser_ptr ''spaceLocations'' C_one],
      stub_reply = [De_ptr ''spaceLocations'']\<rparr>"

definition rpc_xrLocateViews :: rpc_stub where
  "rpc_xrLocateViews =
     \<lparr>stub_id = 43,
      stub_request = [Ser ''session'', Ser_ptr ''viewLocateInfo'' C_one, Ser_ptr ''viewState'' C_one,
        Ser ''viewCapacityInput'', Ser_ptr ''viewCountOutput'' C_one,
        Ser_ptr ''views'' (C_field ''viewCapacityInput'')],
      stub_reply = [De_ptr ''viewState'', De_ptr ''viewCountOutput'', De_ptr ''views'']\<rparr>"

definition rpc_xrPathToString :: rpc_stub where
  "rpc_xrPathToString =
     \<lparr>stub_id = 44,
      stub_request = [Ser ''instance'', Ser ''path'', Ser ''bufferCapacityInput'',
        Ser_ptr ''bufferCountOutput'' C_one,
        Ser_ptr ''buffer'' (C_field ''bufferCapacityInput'')],
      stub_reply = [De_ptr ''bufferCountOutput'', De_ptr ''buffer'']\<rparr>"

definition rpc_xrPollEvent :: rpc_stub where
  "rpc_xrPollEvent =
     \<lparr>stub_id = 45,
      stub_request = [Ser ''instance'', Ser_ptr ''eventData'' C_one],
      stub_reply = [De_ptr ''eventData'']\<rparr>"

definition rpc_xrReleaseSwapchainImage :: rpc_stub where
  "rpc_xrReleaseSwapchainImage =
     \<lparr>stub_id = 46,
      stub_request = [Ser ''swapchain'', Ser_ptr ''releaseInfo'' C_one],
      stub_reply = []\<rparr>"

definition rpc_xrRequestExitSession :: rpc_stub where
  "rpc_xrRequestExitSession =
     \<lparr>stub_id = 47,
      stub_request = [Ser ''session''],
      stub_reply = []\<rparr>"

definition rpc_xrResultToString :: rpc_stub where
  "rpc_xrResultToString =
     \<lparr>stub_id = 48,
      stub_request = [Ser ''instance'', Ser ''value'',
        Ser_array ''buffer'' (B_const ''XR_MAX_RESULT_STRING_SIZE'')],
      stub_reply = [De_ptr ''buffer'']\<rparr>"

definition rpc_xrStopHapticFeedback :: rpc_stub where
  "rpc_xrStopHapticFeedback =
     \<lparr>stub_id = 49,
      stub_request = [Ser ''session'', Ser_ptr ''hapticActionInfo'' C_one],
      stub_reply = []\<rparr>"

definition rpc_xrStringToPath :: rpc_stub where
  "rpc_xrStringToPath =
     \<lparr>stub_id = 50,
      stub_request = [Ser ''instance'', Ser_ptr ''pathString'' C_null_terminated, Ser_ptr ''path'' C_one],
      stub_reply = [De_ptr ''path'']\<rparr>"

definition rpc_xrStructureTypeToString :: rpc_stub where
  "rpc_xrStructureTypeToString =
     \<lparr>stub_id = 51,
      stub_request = [Ser ''instance'', Ser ''value'',
        Ser_array ''buffer'' (B_const ''XR_MAX_STRUCTURE_NAME_SIZE'')],
      stub_reply = [De_ptr ''buffer'']\<rparr>"

definition rpc_xrSuggestInteractionProfileBindings :: rpc_stub where
  "rpc_xrSuggestInteractionProfileBindings =
     \<lparr>stub_id = 52,
      stub_request = [Ser ''instance'', Ser_ptr ''suggestedBindings'' C_one],
      stub_reply = []\<rparr>"

definition rpc_xrSyncActions :: rpc_stub where
  "rpc_xrSyncActions =
     \<lparr>stub_id = 53,
      stub_request = [Ser ''session'', Ser_ptr ''syncInfo'' C_one],
      stub_reply = []\<rparr>"

definition rpc_xrWaitFrame :: rpc_stub where
  "rpc_xrWaitFrame =
     \<lparr>stub_id = 54,
      stub_request = [Ser ''session'', Ser_ptr ''frameWaitInfo'' C_one, Ser_ptr ''frameState'' C_one],
      stub_reply = [De_ptr ''frameState'']\<rparr>"

definition rpc_xrWaitSwapchainImage :: rpc_stub where
  "rpc_xrWaitSwapchainImage =
     \<lparr>stub_id = 55,
      stub_request = [Ser ''swapchain'', Ser_ptr ''waitInfo'' C_one],
      stub_reply = []\<rparr>"

definition core_stubs :: "(string \<times> rpc_stub) list" where
  "core_stubs =
    [(''xrAcquireSwapchainImage'', rpc_xrAcquireSwapchainImage),
     (''xrApplyHapticFeedback'', rpc_xrApplyHapticFeedback),
     (''xrAttachSessionActionSets'', rpc_xrAttachSessionActionSets),
     (''xrBeginFrame'', rpc_xrBeginFrame),
     (''xrBeginSession'', rpc_xrBeginSession),
     (''xrCreateAction'', rpc_xrCreateAction),
     (''xrCreateActionSet'', rpc_xrCreateActionSet),
     (''xrCreateActionSpace'', rpc_xrCreateActionSpace),
     (''xrCreateInstance'', rpc_xrCreateInstance),
     (''xrCreateReferenceSpace'', rpc_xrCreateReferenceSpace),
     (''xrCreateSession'', rpc_xrCreateSession),
     (''xrCreateSwapchain'', rpc_xrCreateSwapchain),
     (''xrDestroyAction'', rpc_xrDestroyAction),
     (''xrDestroyActionSet'', rpc_xrDestroyActionSet),
     (''xrDestroyInstance'', rpc_xrDestroyInstance),
     (''xrDestroySession'', rpc_xrDestroySession),
     (''xrDestroySpace'', rpc_xrDestroySpace),
     (''xrDestroySwapchain'', rpc_xrDestroySwapchain),
     (''xrEndFrame'', rpc_xrEndFrame),
     (''xrEndSession'', rpc_xrEndSession),
     (''xrEnumerateApiLayerProperties'', rpc_xrEnumerateApiLayerProperties),
     (''xrEnumerateBoundSourcesForAction'', rpc_xrEnumerateBoundSourcesForAction),
     (''xrEnumerateEnvironmentBlendModes'', rpc_xrEnumerateEnvironmentBlendModes),
     (''xrEnumerateInstanceExtensionProperties'', rpc_xrEnumerateInstanceExtensionProperties),
     (''xrEnumerateReferenceSpaces'', rpc_xrEnumerateReferenceSpaces),
     (''xrEnumerateSwapchainFormats'', rpc_xrEnumerateSwapchainFormats),
     (''xrEnumerateSwapchainImages'', rpc_xrEnumerateSwapchainImages),
     (''xrEnumerateViewConfigurationViews'', rpc_xrEnumerateViewConfigurationViews),
     (''xrEnumerateViewConfigurations'', rpc_xrEnumerateViewConfigurations),
     (''xrGetActionStateBoolean'', rpc_xrGetActionStateBoolean),
     (''xrGetActionStateFloat'', rpc_xrGetActionStateFloat),
     (''xrGetActionStatePose'', rpc_xrGetActionStatePose),
     (''xrGetActionStateVector2f'', rpc_xrGetActionStateVector2f),
     (''xrGetCurrentInteractionProfile'', rpc_xrGetCurrentInteractionProfile),
     (''xrGetInputSourceLocalizedName'', rpc_xrGetInputSourceLocalizedName),
     (''xrGetInstanceProperties'', rpc_xrGetInstanceProperties),
     (''xrGetReferenceSpaceBoundsRect'', rpc_xrGetReferenceSpaceBoundsRect),
     (''xrGetSystem'', rpc_xrGetSystem),
     (''xrGetSystemProperties'', rpc_xrGetSystemProperties),
     (''xrGetViewConfigurationProperties'', rpc_xrGetViewConfigurationProperties),
     (''xrLocateSpace'', rpc_xrLocateSpace),
     (''xrLocateSpaces'', rpc_xrLocateSpaces),
     (''xrLocateViews'', rpc_xrLocateViews),
     (''xrPathToString'', rpc_xrPathToString),
     (''xrPollEvent'', rpc_xrPollEvent),
     (''xrReleaseSwapchainImage'', rpc_xrReleaseSwapchainImage),
     (''xrRequestExitSession'', rpc_xrRequestExitSession),
     (''xrResultToString'', rpc_xrResultToString),
     (''xrStopHapticFeedback'', rpc_xrStopHapticFeedback),
     (''xrStringToPath'', rpc_xrStringToPath),
     (''xrStructureTypeToString'', rpc_xrStructureTypeToString),
     (''xrSuggestInteractionProfileBindings'', rpc_xrSuggestInteractionProfileBindings),
     (''xrSyncActions'', rpc_xrSyncActions),
     (''xrWaitFrame'', rpc_xrWaitFrame),
     (''xrWaitSwapchainImage'', rpc_xrWaitSwapchainImage)]"

section \<open>Server handlers\<close>

definition handle_xrAcquireSwapchainImage :: rpc_handler where
  "handle_xrAcquireSwapchainImage =
     \<lparr>handler_params = [De ''swapchain'', De_ptr ''acquireInfo'', De_ptr ''index''],
      handler_reply = [Ser_ptr ''index'' C_one],
      handler_cleanup = [Cl ''swapchain'', Cl_ptr ''acquireInfo'' C_one, Cl_ptr ''index'' C_one]\<rparr>"

definition handle_xrApplyHapticFeedback :: rpc_handler where
  "handle_xrApplyHapticFeedback =
     \<lparr>handler_params = [De ''session'', De_ptr ''hapticActionInfo'', De_xr ''hapticFeedback''],
      handler_reply = [],
      handler_cleanup = [Cl ''session'', Cl_ptr ''hapticActionInfo'' C_one, Cl_xr ''hapticFeedback'']\<rparr>"

definition handle_xrAttachSessionActionSets :: rpc_handler where
  "handle_xrAttachSessionActionSets =
     \<lparr>handler_params = [De ''session'', De_ptr ''attachInfo''],
      handler_reply = [],
      handler_cleanup = [Cl ''session'', Cl_ptr ''attachInfo'' C_one]\<rparr>"

definition handle_xrBeginFrame :: rpc_handler where
  "handle_xrBeginFrame =
     \<lparr>handler_params = [De ''session'', De_ptr ''frameBeginInfo''],
      handler_reply = [],
      handler_cleanup = [Cl ''session'', Cl_ptr ''frameBeginInfo'' C_one]\<rparr>"

definition handle_xrBeginSession :: rpc_handler where
  "handle_xrBeginSession =
     \<lparr>handler_params = [De ''session'', De_ptr ''beginInfo''],
      handler_reply = [],
      handler_cleanup = [Cl ''session'', Cl_ptr ''beginInfo'' C_one]\<rparr>"

definition handle_xrCreateAction :: rpc_handler where
  "handle_xrCreateAction =
     \<lparr>handler_params = [De ''actionSet'', De_ptr ''createInfo'', De_ptr ''action''],
      handler_reply = [Ser_ptr ''action'' C_one],
      handler_cleanup = [Cl ''actionSet'', Cl_ptr ''createInfo'' C_one, Cl_ptr ''action'' C_one]\<rparr>"

definition handle_xrCreateActionSet :: rpc_handler where
  "handle_xrCreateActionSet =
     \<lparr>handler_params = [De ''instance'', De_ptr ''createInfo'', De_ptr ''actionSet''],
      handler_reply = [Ser_ptr ''actionSet'' C_one],
      handler_cleanup = [Cl ''instance'', Cl_ptr ''createInfo'' C_one, Cl_ptr ''actionSet'' C_one]\<rparr>"

definition handle_xrCreateActionSpace :: rpc_handler where
  "handle_xrCreateActionSpace =
     \<lparr>handler_params = [De ''session'', De_ptr ''createInfo'', De_ptr ''space''],
      handler_reply = [Ser_ptr ''space'' C_one],
      handler_cleanup = [Cl ''session'', Cl_ptr ''createInfo'' C_one, Cl_ptr ''space'' C_one]\<rparr>"

definition handle_xrCreateReferenceSpace :: rpc_handler where
  "handle_xrCreateReferenceSpace =
     \<lparr>handler_params = [De ''session'', De_ptr ''createInfo'', De_ptr ''space''],
      handler_reply = [Ser_ptr ''space'' C_one],
      handler_cleanup = [Cl ''session'', Cl_ptr ''createInfo'' C_one, Cl_ptr ''space'' C_one]\<rparr>"

definition handle_xrCreateSession :: rpc_handler where
  "handle_xrCreateSession =
     \<lparr>handler_params = [De ''instance'', De_ptr ''createInfo'', De_ptr ''session''],
      handler_reply = [Ser_ptr ''session'' C_one],
      handler_cleanup = [Cl ''instance'', Cl_ptr ''createInfo'' C_one, Cl_ptr ''session'' C_one]\<rparr>"

definition handle_xrCreateSwapchain :: rpc_handler where
  "handle_xrCreateSwapchain =
     \<lparr>handler_params = [De ''session'', De_ptr ''createInfo'', De_ptr ''swapchain''],
      handler_reply = [Ser_ptr ''swapchain'' C_one],
      handler_cleanup = [Cl ''session'', Cl_ptr ''createInfo'' C_one, Cl_ptr ''swapchain'' C_one]\<rparr>"

definition handle_xrDestroyAction :: rpc_handler where
  "handle_xrDestroyAction =
     \<lparr>handler_params = [De ''action''],
      handler_reply = [],
      handler_cleanup = [Cl ''action'']\<rparr>"

definition handle_xrDestroyActionSet :: rpc_handler where
  "handle_xrDestroyActionSet =
     \<lparr>handler_params = [De ''actionSet''],
      handler_reply = [],
      handler_cleanup = [Cl ''actionSet'']\<rparr>"

definition handle_xrDestroySession :: rpc_handler where
  "handle_xrDestroySession =
     \<lparr>handler_params = [De ''session''],
      handler_reply = [],
      handler_cleanup = [Cl ''session'']\<rparr>"

definition handle_xrDestroySpace :: rpc_handler where
  "handle_xrDestroySpace =
     \<lparr>handler_params = [De ''space''],
      handler_reply = [],
      handler_cleanup = [Cl ''space'']\<rparr>"

definition handle_xrDestroySwapchain :: rpc_handler where
  "handle_xrDestroySwapchain =
     \<lparr>handler_params = [De ''swapchain''],
      handler_reply = [],
      handler_cleanup = [Cl ''swapchain'']\<rparr>"

definition handle_xrEndFrame :: rpc_handler where
  "handle_xrEndFrame =
     \<lparr>handler_params = [De ''session'', De_ptr ''frameEndInfo''],
      handler_reply = [],
      handler_cleanup = [Cl ''session'', Cl_ptr ''frameEndInfo'' C_one]\<rparr>"

definition handle_xrEndSession :: rpc_handler where
  "handle_xrEndSession =
     \<lparr>handler_params = [De ''session''],
      handler_reply = [],
      handler_cleanup = [Cl ''session'']\<rparr>"

definition handle_xrEnumerateApiLayerProperties :: rpc_handler where
  "handle_xrEnumerateApiLayerProperties =
     \<lparr>handler_params = [De ''propertyCapacityInput'', De_ptr ''propertyCountOutput'', De_ptr ''properties''],
      handler_reply = [Ser_ptr ''propertyCountOutput'' C_one,
        Ser_ptr ''properties'' (C_field ''propertyCapacityInput'')],
      handler_cleanup = [Cl ''propertyCapacityInput'', Cl_ptr ''propertyCountOutput'' C_one,
        Cl_ptr ''properties'' (C_field ''propertyCapacityInput'')]\<rparr>"

definition handle_xrEnumerateBoundSourcesForAction :: rpc_handler where
  "handle_xrEnumerateBoundSourcesForAction =
     \<lparr>handler_params = [De ''session'', De_ptr ''enumerateInfo'', De ''sourceCapacityInput'',
        De_ptr ''sourceCountOutput'', De_ptr ''sources''],
      handler_reply = [Ser_ptr ''sourceCountOutput'' C_one,
        Ser_ptr ''sources'' (C_field ''sourceCapacityInput'')],
      handler_cleanup = [Cl ''session'', Cl_ptr ''enumerateInfo'' C_one, Cl ''sourceCapacityInput'',
        Cl_ptr ''sourceCountOutput'' C_one,
        Cl_ptr ''sources'' (C_field ''sourceCapacityInput'')]\<rparr>"

definition handle_xrEnumerateEnvironmentBlendModes :: rpc_handler where
  "handle_xrEnumerateEnvironmentBlendModes =
     \<lparr>handler_params = [De ''instance'', De ''systemId'', De ''viewConfigurationType'',
        De ''environmentBlendModeCapacityInput'',
        De_ptr ''environmentBlendModeCountOutput'', De_ptr ''environmentBlendModes''],
      handler_reply = [Ser_ptr ''environmentBlendModeCountOutput'' C_one,
        Ser_ptr ''environmentBlendModes'' (C_field ''environmentBlendModeCapacityInput'')],
      handler_cleanup = [Cl ''instance'', Cl ''systemId'', Cl ''viewConfigurationType'',
        Cl ''environmentBlendModeCapacityInput'',
        Cl_ptr ''environmentBlendModeCountOutput'' C_one,
        Cl_ptr ''environmentBlendModes'' (C_field ''environmentBlendModeCapacityInput'')]\<rparr>"

definition handle_xrEnumerateInstanceExtensionProperties :: rpc_handler where
  "handle_xrEnumerateInstanceExtensionProperties =
     \<lparr>handler_params = [De_ptr ''layerName'', De ''propertyCapacityInput'', De_ptr ''propertyCountOutput'',
        De_ptr ''properties''],
      handler_reply = [Ser_ptr ''propertyCountOutput'' C_one,
        Ser_ptr ''properties'' (C_field ''propertyCapacityInput'')],
      handler_cleanup = [Cl_ptr ''layerName'' C_null_terminated, Cl ''propertyCapacityInput'',
        Cl_ptr ''propertyCountOutput'' C_one,
        Cl_ptr ''properties'' (C_field ''propertyCapacityInput'')]\<rparr>"

definition handle_xrEnumerateReferenceSpaces :: rpc_handler where
  "handle_xrEnumerateReferenceSpaces =
     \<lparr>handler_params = [De ''session'', De ''spaceCapacityInput'', De_ptr ''spaceCountOutput'',
        De_ptr ''spaces''],
      handler_reply = [Ser_ptr ''spaceCountOutput'' C_one,
        Ser_ptr ''spaces'' (C_field ''spaceCapacityInput'')],
      handler_cleanup = [Cl ''session'', Cl ''spaceCapacityInput'', Cl_ptr ''spaceCountOutput'' C_one,
        Cl_ptr ''spaces'' (C_field ''spaceCapacityInput'')]\<rparr>"

definition handle_xrEnumerateSwapchainFormats :: rpc_handler where
  "handle_xrEnumerateSwapchainFormats =
     \<lparr>handler_params = [De ''session'', De ''formatCapacityInput'', De_ptr ''formatCountOutput'',
        De_ptr ''formats''],
      handler_reply = [Ser_ptr ''formatCountOutput'' C_one,
        Ser_ptr ''formats'' (C_field ''formatCapacityInput'')],
      handler_cleanup = [Cl ''session'', Cl ''formatCapacityInput'', Cl_ptr ''formatCountOutput'' C_one,
        Cl_ptr ''formats'' (C_field ''formatCapacityInput'')]\<rparr>"

definition handle_xrEnumerateSwapchainImages :: rpc_handler where
  "handle_xrEnumerateSwapchainImages =
     \<lparr>handler_params = [De ''swapchain'', De ''imageCapacityInput'', De_ptr ''imageCountOutput'',
        De_xr_array ''images''],
      handler_reply = [Ser_ptr ''imageCountOutput'' C_one,
        Ser_xr_array ''images'' (C_field ''imageCapacityInput'')],
      handler_cleanup = [Cl ''swapchain'', Cl ''imageCapacityInput'', Cl_ptr ''imageCountOutput'' C_one,
        Cl_xr_array ''images'' (C_field ''imageCapacityInput'')]\<rparr>"

definition handle_xrEnumerateViewConfigurationViews :: rpc_handler where
  "handle_xrEnumerateViewConfigurationViews =
     \<lparr>handler_params = [De ''instance'', De ''systemId'', De ''viewConfigurationType'',
        De ''viewCapacityInput'', De_ptr ''viewCountOutput'', De_ptr ''views''],
      handler_reply = [Ser_ptr ''viewCountOutput'' C_one, Ser_ptr ''views'' (C_field ''viewCapacityInput'')],
      handler_cleanup = [Cl ''instance'', Cl ''systemId'', Cl ''viewConfigurationType'',
        Cl ''viewCapacityInput'', Cl_ptr ''viewCountOutput'' C_one,
        Cl_ptr ''views'' (C_field ''viewCapacityInput'')]\<rparr>"

definition handle_xrEnumerateViewConfigurations :: rpc_handler where
  "handle_xrEnumerateViewConfigurations =
     \<lparr>handler_params = [De ''instance'', De ''systemId'', De ''viewConfigurationTypeCapacityInput'',
        De_ptr ''viewConfigurationTypeCountOutput'', De_ptr ''viewConfigurationTypes''],
      handler_reply = [Ser_ptr ''viewConfigurationTypeCountOutput'' C_one,
        Ser_ptr ''viewConfigurationTypes'' (C_field ''viewConfigurationTypeCapacityInput'')],
      handler_cleanup = [Cl ''instance'', Cl ''systemId'', Cl ''viewConfigurationTypeCapacityInput'',
        Cl_ptr ''viewConfigurationTypeCountOutput'' C_one,
        Cl_ptr ''viewConfigurationTypes'' (C_field ''viewConfigurationTypeCapacityInput'')]\<rparr>"

definition handle_xrGetActionStateBoolean :: rpc_handler where
  "handle_xrGetActionStateBoolean =
     \<lparr>handler_params = [De ''session'', De_ptr ''getInfo'', De_ptr ''state''],
      handler_reply = [Ser_ptr ''state'' C_one],
      handler_cleanup = [Cl ''session'', Cl_ptr ''getInfo'' C_one, Cl_ptr ''state'' C_one]\<rparr>"

definition handle_xrGetActionStateFloat :: rpc_handler where
  "handle_xrGetActionStateFloat =
     \<lparr>handler_params = [De ''session'', De_ptr ''getInfo'', De_ptr ''state''],
      handler_reply = [Ser_ptr ''state'' C_one],
      handler_cleanup = [Cl ''session'', Cl_ptr ''getInfo'' C_one, Cl_ptr ''state'' C_one]\<rparr>"

definition handle_xrGetActionStatePose :: rpc_handler where
  "handle_xrGetActionStatePose =
     \<lparr>handler_params = [De ''session'', De_ptr ''getInfo'', De_ptr ''state''],
      handler_reply = [Ser_ptr ''state'' C_one],
      handler_cleanup = [Cl ''session'', Cl_ptr ''getInfo'' C_one, Cl_ptr ''state'' C_one]\<rparr>"

definition handle_xrGetActionStateVector2f :: rpc_handler where
  "handle_xrGetActionStateVector2f =
     \<lparr>handler_params = [De ''session'', De_ptr ''getInfo'', De_ptr ''state''],
      handler_reply = [Ser_ptr ''state'' C_one],
      handler_cleanup = [Cl ''session'', Cl_ptr ''getInfo'' C_one, Cl_ptr ''state'' C_one]\<rparr>"

definition handle_xrGetCurrentInteractionProfile :: rpc_handler where
  "handle_xrGetCurrentInteractionProfile =
     \<lparr>handler_params = [De ''session'', De ''topLevelUserPath'', De_ptr ''interactionProfile''],
      handler_reply = [Ser_ptr ''interactionProfile'' C_one],
      handler_cleanup = [Cl ''session'', Cl ''topLevelUserPath'', Cl_ptr ''interactionProfile'' C_one]\<rparr>"

definition handle_xrGetInputSourceLocalizedName :: rpc_handler where
  "handle_xrGetInputSourceLocalizedName =
     \<lparr>handler_params = [De ''session'', De_ptr ''getInfo'', De ''bufferCapacityInput'',
        De_ptr ''bufferCountOutput'', De_ptr ''buffer''],
      handler_reply = [Ser_ptr ''bufferCountOutput'' C_one,
        Ser_ptr ''buffer'' (C_field ''bufferCapacityInput'')],
      handler_cleanup = [Cl ''session'', Cl_ptr ''getInfo'' C_one, Cl ''bufferCapacityInput'',
        Cl_ptr ''bufferCountOutput'' C_one,
        Cl_ptr ''buffer'' (C_field ''bufferCapacityInput'')]\<rparr>"

definition handle_xrGetInstanceProperties :: rpc_handler where
  "handle_xrGetInstanceProperties =
     \<lparr>handler_params = [De ''instance'', De_ptr ''instanceProperties''],
      handler_reply = [Ser_ptr ''instanceProperties'' C_one],
      handler_cleanup = [Cl ''instance'', Cl_ptr ''instanceProperties'' C_one]\<rparr>"

definition handle_xrGetReferenceSpaceBoundsRect :: rpc_handler where
  "handle_xrGetReferenceSpaceBoundsRect =
     \<lparr>handler_params = [De ''session'', De ''referenceSpaceType'', De_ptr ''bounds''],
      handler_reply = [Ser_ptr ''bounds'' C_one],
      handler_cleanup = [Cl ''session'', Cl ''referenceSpaceType'', Cl_ptr ''bounds'' C_one]\<rparr>"

definition handle_xrGetSystem :: rpc_handler where
  "handle_xrGetSystem =
     \<lparr>handler_params = [De ''instance'', De_ptr ''getInfo'', De_ptr ''systemId''],
      handler_reply = [Ser_ptr ''systemId'' C_one],
      handler_cleanup = [Cl ''instance'', Cl_ptr ''getInfo'' C_one, Cl_ptr ''systemId'' C_one]\<rparr>"

definition handle_xrGetSystemProperties :: rpc_handler where
  "handle_xrGetSystemProperties =
     \<lparr>handler_params = [De ''instance'', De ''systemId'', De_ptr ''properties''],
      handler_reply = [Ser_ptr ''properties'' C_one],
      handler_cleanup = [Cl ''instance'', Cl ''systemId'', Cl_ptr ''properties'' C_one]\<rparr>"

definition handle_xrGetViewConfigurationProperties :: rpc_handler where
  "handle_xrGetViewConfigurationProperties =
     \<lparr>handler_params = [De ''instance'', De ''systemId'', De ''viewConfigurationType'',
        De_ptr ''configurationProperties''],
      handler_reply = [Ser_ptr ''configurationProperties'' C_one],
      handler_cleanup = [Cl ''instance'', Cl ''systemId'', Cl ''viewConfigurationType'',
        Cl_ptr ''configurationProperties'' C_one]\<rparr>"

definition handle_xrLocateSpace :: rpc_handler where
  "handle_xrLocateSpace =
     \<lparr>handler_params = [De ''space'', De ''baseSpace'', De_time ''time'', De_ptr ''location''],
      handler_reply = [Ser_ptr ''location'' C_one],
      handler_cleanup = [Cl ''space'', Cl ''baseSpace'', Cl ''time'', Cl_ptr ''location'' C_one]\<rparr>"

definition handle_xrLocateSpaces :: rpc_handler where
  "handle_xrLocateSpaces =
     \<lparr>handler_params = [De ''session'', De_ptr ''locateInfo'', De_ptr ''spaceLocations''],
      handler_reply = [Ser_ptr ''spaceLocations'' C_one],
      handler_cleanup = [Cl ''session'', Cl_ptr ''locateInfo'' C_one, Cl_ptr ''spaceLocations'' C_one]\<rparr>"

definition handle_xrLocateViews :: rpc_handler where
  "handle_xrLocateViews =
     \<lparr>handler_params = [De ''session'', De_ptr ''viewLocateInfo'', De_ptr ''viewState'',
        De ''viewCapacityInput'', De_ptr ''viewCountOutput'', De_ptr ''views''],
      handler_reply = [Ser_ptr ''viewState'' C_one, Ser_ptr ''viewCountOutput'' C_one,
        Ser_ptr ''views'' (C_field ''viewCapacityInput'')],
      handler_cleanup = [Cl ''session'', Cl_ptr ''viewLocateInfo'' C_one, Cl_ptr ''viewState'' C_one,
        Cl ''viewCapacityInput'', Cl_ptr ''viewCountOutput'' C_one,
        Cl_ptr ''views'' (C_field ''viewCapacityInput'')]\<rparr>"

definition handle_xrPathToString :: rpc_handler where
  "handle_xrPathToString =
     \<lparr>handler_params = [De ''instance'', De ''path'', De ''bufferCapacityInput'',
        De_ptr ''bufferCountOutput'', De_ptr ''buffer''],
      handler_reply = [Ser_ptr ''bufferCountOutput'' C_one,
        Ser_ptr ''buffer'' (C_field ''bufferCapacityInput'')],
      handler_cleanup = [Cl ''instance'', Cl ''path'', Cl ''bufferCapacityInput'',
        Cl_ptr ''bufferCountOutput'' C_one,
        Cl_ptr ''buffer'' (C_field ''bufferCapacityInput'')]\<rparr>"

definition handle_xrPollEvent :: rpc_handler where
  "handle_xrPollEvent =
     \<lparr>handler_params = [De ''instance'', De_ptr ''eventData''],
      handler_reply = [Ser_ptr ''eventData'' C_one],
      handler_cleanup = [Cl ''instance'', Cl_ptr ''eventData'' C_one]\<rparr>"

definition handle_xrReleaseSwapchainImage :: rpc_handler where
  "handle_xrReleaseSwapchainImage =
     \<lparr>handler_params = [De ''swapchain'', De_ptr ''releaseInfo''],
      handler_reply = [],
      handler_cleanup = [Cl ''swapchain'', Cl_ptr ''releaseInfo'' C_one]\<rparr>"

definition handle_xrRequestExitSession :: rpc_handler where
  "handle_xrRequestExitSession =
     \<lparr>handler_params = [De ''session''],
      handler_reply = [],
      handler_cleanup = [Cl ''session'']\<rparr>"

definition handle_xrResultToString :: rpc_handler where
  "handle_xrResultToString =
     \<lparr>handler_params = [De ''instance'', De ''value'',
        De_array ''buffer'' (B_const ''XR_MAX_RESULT_STRING_SIZE'')],
      handler_reply = [Ser_ptr ''buffer'' (C_const ''XR_MAX_RESULT_STRING_SIZE'')],
      handler_cleanup = [Cl ''instance'', Cl ''value'',
        Cl_array ''buffer'' (B_const ''XR_MAX_RESULT_STRING_SIZE'')]\<rparr>"

definition handle_xrStopHapticFeedback :: rpc_handler where
  "handle_xrStopHapticFeedback =
     \<lparr>handler_params = [De ''session'', De_ptr ''hapticActionInfo''],
      handler_reply = [],
      handler_cleanup = [Cl ''session'', Cl_ptr ''hapticActionInfo'' C_one]\<rparr>"

definition handle_xrStringToPath :: rpc_handler where
  "handle_xrStringToPath =
     \<lparr>handler_params = [De ''instance'', De_ptr ''pathString'', De_ptr ''path''],
      handler_reply = [Ser_ptr ''path'' C_one],
      handler_cleanup = [Cl ''instance'', Cl_ptr ''pathString'' C_null_terminated, Cl_ptr ''path'' C_one]\<rparr>"

definition handle_xrStructureTypeToString :: rpc_handler where
  "handle_xrStructureTypeToString =
     \<lparr>handler_params = [De ''instance'', De ''value'',
        De_array ''buffer'' (B_const ''XR_MAX_STRUCTURE_NAME_SIZE'')],
      handler_reply = [Ser_ptr ''buffer'' (C_const ''XR_MAX_STRUCTURE_NAME_SIZE'')],
      handler_cleanup = [Cl ''instance'', Cl ''value'',
        Cl_array ''buffer'' (B_const ''XR_MAX_STRUCTURE_NAME_SIZE'')]\<rparr>"

definition handle_xrSuggestInteractionProfileBindings :: rpc_handler where
  "handle_xrSuggestInteractionProfileBindings =
     \<lparr>handler_params = [De ''instance'', De_ptr ''suggestedBindings''],
      handler_reply = [],
      handler_cleanup = [Cl ''instance'', Cl_ptr ''suggestedBindings'' C_one]\<rparr>"

definition handle_xrSyncActions :: rpc_handler where
  "handle_xrSyncActions =
     \<lparr>handler_params = [De ''session'', De_ptr ''syncInfo''],
      handler_reply = [],
      handler_cleanup = [Cl ''session'', Cl_ptr ''syncInfo'' C_one]\<rparr>"

definition handle_xrWaitFrame :: rpc_handler where
  "handle_xrWaitFrame =
     \<lparr>handler_params = [De ''session'', De_ptr ''frameWaitInfo'', De_ptr ''frameState''],
      handler_reply = [Ser_ptr ''frameState'' C_one],
      handler_cleanup = [Cl ''session'', Cl_ptr ''frameWaitInfo'' C_one, Cl_ptr ''frameState'' C_one]\<rparr>"

definition handle_xrWaitSwapchainImage :: rpc_handler where
  "handle_xrWaitSwapchainImage =
     \<lparr>handler_params = [De ''swapchain'', De_ptr ''waitInfo''],
      handler_reply = [],
      handler_cleanup = [Cl ''swapchain'', Cl_ptr ''waitInfo'' C_one]\<rparr>"

definition core_handlers :: "(string \<times> rpc_handler) list" where
  "core_handlers =
    [(''xrAcquireSwapchainImage'', handle_xrAcquireSwapchainImage),
     (''xrApplyHapticFeedback'', handle_xrApplyHapticFeedback),
     (''xrAttachSessionActionSets'', handle_xrAttachSessionActionSets),
     (''xrBeginFrame'', handle_xrBeginFrame),
     (''xrBeginSession'', handle_xrBeginSession),
     (''xrCreateAction'', handle_xrCreateAction),
     (''xrCreateActionSet'', handle_xrCreateActionSet),
     (''xrCreateActionSpace'', handle_xrCreateActionSpace),
     (''xrCreateReferenceSpace'', handle_xrCreateReferenceSpace),
     (''xrCreateSession'', handle_xrCreateSession),
     (''xrCreateSwapchain'', handle_xrCreateSwapchain),
     (''xrDestroyAction'', handle_xrDestroyAction),
     (''xrDestroyActionSet'', handle_xrDestroyActionSet),
     (''xrDestroySession'', handle_xrDestroySession),
     (''xrDestroySpace'', handle_xrDestroySpace),
     (''xrDestroySwapchain'', handle_xrDestroySwapchain),
     (''xrEndFrame'', handle_xrEndFrame),
     (''xrEndSession'', handle_xrEndSession),
     (''xrEnumerateApiLayerProperties'', handle_xrEnumerateApiLayerProperties),
     (''xrEnumerateBoundSourcesForAction'', handle_xrEnumerateBoundSourcesForAction),
     (''xrEnumerateEnvironmentBlendModes'', handle_xrEnumerateEnvironmentBlendModes),
     (''xrEnumerateInstanceExtensionProperties'', handle_xrEnumerateInstanceExtensionProperties),
     (''xrEnumerateReferenceSpaces'', handle_xrEnumerateReferenceSpaces),
     (''xrEnumerateSwapchainFormats'', handle_xrEnumerateSwapchainFormats),
     (''xrEnumerateSwapchainImages'', handle_xrEnumerateSwapchainImages),
     (''xrEnumerateViewConfigurationViews'', handle_xrEnumerateViewConfigurationViews),
     (''xrEnumerateViewConfigurations'', handle_xrEnumerateViewConfigurations),
     (''xrGetActionStateBoolean'', handle_xrGetActionStateBoolean),
     (''xrGetActionStateFloat'', handle_xrGetActionStateFloat),
     (''xrGetActionStatePose'', handle_xrGetActionStatePose),
     (''xrGetActionStateVector2f'', handle_xrGetActionStateVector2f),
     (''xrGetCurrentInteractionProfile'', handle_xrGetCurrentInteractionProfile),
     (''xrGetInputSourceLocalizedName'', handle_xrGetInputSourceLocalizedName),
     (''xrGetInstanceProperties'', handle_xrGetInstanceProperties),
     (''xrGetReferenceSpaceBoundsRect'', handle_xrGetReferenceSpaceBoundsRect),
     (''xrGetSystem'', handle_xrGetSystem),
     (''xrGetSystemProperties'', handle_xrGetSystemProperties),
     (''xrGetViewConfigurationProperties'', handle_xrGetViewConfigurationProperties),
     (''xrLocateSpace'', handle_xrLocateSpace),
     (''xrLocateSpaces'', handle_xrLocateSpaces),
     (''xrLocateViews'', handle_xrLocateViews),
     (''xrPathToString'', handle_xrPathToString),
     (''xrPollEvent'', handle_xrPollEvent),
     (''xrReleaseSwapchainImage'', handle_xrReleaseSwapchainImage),
     (''xrRequestExitSession'', handle_xrRequestExitSession),
     (''xrResultToString'', handle_xrResultToString),
     (''xrStopHapticFeedback'', handle_xrStopHapticFeedback),
     (''xrStringToPath'', handle_xrStringToPath),
     (''xrStructureTypeToString'', handle_xrStructureTypeToString),
     (''xrSuggestInteractionProfileBindings'', handle_xrSuggestInteractionProfileBindings),
     (''xrSyncActions'', handle_xrSyncActions),
     (''xrWaitFrame'', handle_xrWaitFrame),
     (''xrWaitSwapchainImage'', handle_xrWaitSwapchainImage)]"

text \<open>The core rows of \<open>FunctionDispatch::handlers\<close>\<close>

definition dispatch_table :: "(u32 \<times> string) list" where
  "dispatch_table =
    [(1, ''xrAcquireSwapchainImage''),
     (2, ''xrApplyHapticFeedback''),
     (3, ''xrAttachSessionActionSets''),
     (4, ''xrBeginFrame''),
     (5, ''xrBeginSession''),
     (6, ''xrCreateAction''),
     (7, ''xrCreateActionSet''),
     (8, ''xrCreateActionSpace''),
     (9, ''xrCreateInstance''),
     (10, ''xrCreateReferenceSpace''),
     (11, ''xrCreateSession''),
     (12, ''xrCreateSwapchain''),
     (13, ''xrDestroyAction''),
     (14, ''xrDestroyActionSet''),
     (15, ''xrDestroyInstance''),
     (16, ''xrDestroySession''),
     (17, ''xrDestroySpace''),
     (18, ''xrDestroySwapchain''),
     (19, ''xrEndFrame''),
     (20, ''xrEndSession''),
     (21, ''xrEnumerateApiLayerProperties''),
     (22, ''xrEnumerateBoundSourcesForAction''),
     (23, ''xrEnumerateEnvironmentBlendModes''),
     (24, ''xrEnumerateInstanceExtensionProperties''),
     (25, ''xrEnumerateReferenceSpaces''),
     (26, ''xrEnumerateSwapchainFormats''),
     (27, ''xrEnumerateSwapchainImages''),
     (28, ''xrEnumerateViewConfigurationViews''),
     (29, ''xrEnumerateViewConfigurations''),
     (30, ''xrGetActionStateBoolean''),
     (31, ''xrGetActionStateFloat''),
     (32, ''xrGetActionStatePose''),
     (33, ''xrGetActionStateVector2f''),
     (34, ''xrGetCurrentInteractionProfile''),
     (35, ''xrGetInputSourceLocalizedName''),
     (36, ''xrGetInstanceProperties''),
     (37, ''xrGetReferenceSpaceBoundsRect''),
     (38, ''xrGetSystem''),
     (39, ''xrGetSystemProperties''),
     (40, ''xrGetViewConfigurationProperties''),
     (41, ''xrLocateSpace''),
     (42, ''xrLocateSpaces''),
     (43, ''xrLocateViews''),
     (44, ''xrPathToString''),
     (45, ''xrPollEvent''),
     (46, ''xrReleaseSwapchainImage''),
     (47, ''xrRequestExitSession''),
     (48, ''xrResultToString''),
     (49, ''xrStopHapticFeedback''),
     (50, ''xrStringToPath''),
     (51, ''xrStructureTypeToString''),
     (52, ''xrSuggestInteractionProfileBindings''),
     (53, ''xrSyncActions''),
     (54, ''xrWaitFrame''),
     (55, ''xrWaitSwapchainImage'')]"

end
