(* ===== verification/Core_Structs.thy ===== *)
theory Core_Structs
  imports Serialization_Laws
begin

text \<open>
  The struct functions of core OpenXR: the parts of \<open>serializer.cpp\<close> and \<open>deserializer.cpp\<close>
  outside the extension blocks, their rows of the two lookup tables, and the two hand-written
  pairs of \<open>custom_serializer.cpp\<close> and \<open>custom_deserializer.cpp\<close>, statement by statement. The
  four base header structs, which are only reached through \<open>serialize_xr\<close>, have no program of
  their own. The record \<open>openxr\<close> holds what the code takes from \<open>openxr.h\<close>.
\<close>

section \<open>Serializers\<close>

definition core_serializers_1 :: "(string \<times> sop list) list" where
  "core_serializers_1 =
   [(''XrActionCreateInfo'',
      [Ser ''type'', Ser_xr ''next'',
       Ser_array ''actionName'' (B_const ''XR_MAX_ACTION_NAME_SIZE''), Ser ''actionType'',
       Ser ''countSubactionPaths'',
       Ser_ptr ''subactionPaths'' (C_field ''countSubactionPaths''),
       Ser_array ''localizedActionName'' (B_const ''XR_MAX_LOCALIZED_ACTION_NAME_SIZE'')]),
    (''XrActionSetCreateInfo'',
      [Ser ''type'', Ser_xr ''next'',
       Ser_array ''actionSetName'' (B_const ''XR_MAX_ACTION_SET_NAME_SIZE''),
       Ser_array ''localizedActionSetName'' (B_const ''XR_MAX_LOCALIZED_ACTION_SET_NAME_SIZE''),
       Ser ''priority'']),
    (''XrActionSpaceCreateInfo'',
      [Ser ''type'', Ser_xr ''next'', Ser ''action'', Ser ''subactionPath'',
       Ser ''poseInActionSpace'']),
    (''XrActionStateBoolean'',
      [Ser ''type'', Ser_xr ''next'', Ser ''currentState'', Ser ''changedSinceLastSync'',
       Ser_time ''lastChangeTime'', Ser ''isActive'']),
    (''XrActionStateFloat'',
      [Ser ''type'', Ser_xr ''next'', Ser ''currentState'', Ser ''changedSinceLastSync'',
       Ser_time ''lastChangeTime'', Ser ''isActive'']),
    (''XrActionStateGetInfo'',
      [Ser ''type'', Ser_xr ''next'', Ser ''action'', Ser ''subactionPath'']),
    (''XrActionStatePose'',
      [Ser ''type'', Ser_xr ''next'', Ser ''isActive'']),
    (''XrActionStateVector2f'',
      [Ser ''type'', Ser_xr ''next'', Ser ''currentState'', Ser ''changedSinceLastSync'',
       Ser_time ''lastChangeTime'', Ser ''isActive'']),
    (''XrActionSuggestedBinding'',
      [Ser ''action'', Ser ''binding'']),
    (''XrActionsSyncInfo'',
      [Ser ''type'', Ser_xr ''next'', Ser ''countActiveActionSets'',
       Ser_ptr ''activeActionSets'' (C_field ''countActiveActionSets'')]),
    (''XrActiveActionSet'',
      [Ser ''actionSet'', Ser ''subactionPath'']),
    (''XrApiLayerProperties'',
      [Ser ''type'', Ser_xr ''next'',
       Ser_array ''layerName'' (B_const ''XR_MAX_API_LAYER_NAME_SIZE''), Ser ''specVersion'',
       Ser ''layerVersion'',
       Ser_array ''description'' (B_const ''XR_MAX_API_LAYER_DESCRIPTION_SIZE'')]),
    (''XrApplicationInfo'',
      [Ser_array ''applicationName'' (B_const ''XR_MAX_APPLICATION_NAME_SIZE''),
       Ser ''applicationVersion'',
       Ser_array ''engineName'' (B_const ''XR_MAX_ENGINE_NAME_SIZE''), Ser ''engineVersion'',
       Ser ''apiVersion'']),
    (''XrBodySkeletonJointHTC'',
      [Ser ''pose'']),
    (''XrBoundSourcesForActionEnumerateInfo'',
      [Ser ''type'', Ser_xr ''next'', Ser ''action'']),
    (''XrBoxf'',
      [Ser ''center'', Ser ''extents'']),
    (''XrColor3f'',
      [Ser ''r'', Ser ''g'', Ser ''b'']),
    (''XrColor4f'',
      [Ser ''r'', Ser ''g'', Ser ''b'', Ser ''a''])]"

definition core_serializers_2 :: "(string \<times> sop list) list" where
  "core_serializers_2 =
   [(''XrCompositionLayerProjection'',
      [Ser ''type'', Ser_xr ''next'', Ser ''layerFlags'', Ser ''space'', Ser ''viewCount'',
       Ser_ptr ''views'' (C_field ''viewCount'')]),
    (''XrCompositionLayerProjectionView'',
      [Ser ''type'', Ser_xr ''next'', Ser ''pose'', Ser ''fov'', Ser ''subImage'']),
    (''XrCompositionLayerQuad'',
      [Ser ''type'', Ser_xr ''next'', Ser ''layerFlags'', Ser ''space'',
       Ser ''eyeVisibility'', Ser ''subImage'', Ser ''pose'', Ser ''size'']),
    (''XrEventDataBuffer'',
      [Ser ''type'', Ser_xr ''next'', Ser_array ''varying'' (B_lit 4000)]),
    (''XrEventDataEventsLost'',
      [Ser ''type'', Ser_xr ''next'', Ser ''lostEventCount'']),
    (''XrEventDataInstanceLossPending'',
      [Ser ''type'', Ser_xr ''next'', Ser_time ''lossTime'']),
    (''XrEventDataInteractionProfileChanged'',
      [Ser ''type'', Ser_xr ''next'', Ser ''session'']),
    (''XrEventDataReferenceSpaceChangePending'',
      [Ser ''type'', Ser_xr ''next'', Ser ''session'', Ser ''referenceSpaceType'',
       Ser_time ''changeTime'', Ser ''poseValid'', Ser ''poseInPreviousSpace'']),
    (''XrEventDataSessionStateChanged'',
      [Ser ''type'', Ser_xr ''next'', Ser ''session'', Ser ''state'', Ser_time ''time'']),
    (''XrExtensionProperties'',
      [Ser ''type'', Ser_xr ''next'',
       Ser_array ''extensionName'' (B_const ''XR_MAX_EXTENSION_NAME_SIZE''),
       Ser ''extensionVersion'']),
    (''XrExtent2Df'',
      [Ser ''width'', Ser ''height'']),
    (''XrExtent2Di'',
      [Ser ''width'', Ser ''height'']),
    (''XrExtent3Df'',
      [Ser ''width'', Ser ''height'', Ser ''depth'']),
    (''XrFovf'',
      [Ser ''angleLeft'', Ser ''angleRight'', Ser ''angleUp'', Ser ''angleDown'']),
    (''XrFrameBeginInfo'',
      [Ser ''type'', Ser_xr ''next'']),
    (''XrFrameState'',
      [Ser ''type'', Ser_xr ''next'', Ser_time ''predictedDisplayTime'',
       Ser ''predictedDisplayPeriod'', Ser ''shouldRender'']),
    (''XrFrameWaitInfo'',
      [Ser ''type'', Ser_xr ''next'']),
    (''XrFrustumf'',
      [Ser ''pose'', Ser ''fov'', Ser ''nearZ'', Ser ''farZ''])]"

definition core_serializers_3 :: "(string \<times> sop list) list" where
  "core_serializers_3 =
   [(''XrHapticActionInfo'',
      [Ser ''type'', Ser_xr ''next'', Ser ''action'', Ser ''subactionPath'']),
    (''XrHapticVibration'',
      [Ser ''type'', Ser_xr ''next'', Ser ''duration'', Ser ''frequency'', Ser ''amplitude'']),
    (''XrInputSourceLocalizedNameGetInfo'',
      [Ser ''type'', Ser_xr ''next'', Ser ''sourcePath'', Ser ''whichComponents'']),
    (''XrInstanceProperties'',
      [Ser ''type'', Ser_xr ''next'', Ser ''runtimeVersion'',
       Ser_array ''runtimeName'' (B_const ''XR_MAX_RUNTIME_NAME_SIZE'')]),
    (''XrInteractionProfileState'',
      [Ser ''type'', Ser_xr ''next'', Ser ''interactionProfile'']),
    (''XrInteractionProfileSuggestedBinding'',
      [Ser ''type'', Ser_xr ''next'', Ser ''interactionProfile'',
       Ser ''countSuggestedBindings'',
       Ser_ptr ''suggestedBindings'' (C_field ''countSuggestedBindings'')]),
    (''XrOffset2Df'',
      [Ser ''x'', Ser ''y'']),
    (''XrOffset2Di'',
      [Ser ''x'', Ser ''y'']),
    (''XrPosef'',
      [Ser ''orientation'', Ser ''position'']),
    (''XrQuaternionf'',
      [Ser ''x'', Ser ''y'', Ser ''z'', Ser ''w'']),
    (''XrRect2Df'',
      [Ser ''offset'', Ser ''extent'']),
    (''XrRect2Di'',
      [Ser ''offset'', Ser ''extent'']),
    (''XrReferenceSpaceCreateInfo'',
      [Ser ''type'', Ser_xr ''next'', Ser ''referenceSpaceType'', Ser ''poseInReferenceSpace'']),
    (''XrSessionActionSetsAttachInfo'',
      [Ser ''type'', Ser_xr ''next'', Ser ''countActionSets'',
       Ser_ptr ''actionSets'' (C_field ''countActionSets'')]),
    (''XrSessionBeginInfo'',
      [Ser ''type'', Ser_xr ''next'', Ser ''primaryViewConfigurationType'']),
    (''XrSessionCreateInfo'',
      [Ser ''type'', Ser_xr ''next'', Ser ''createFlags'', Ser ''systemId'']),
    (''XrSpaceLocation'',
      [Ser ''type'', Ser_xr ''next'', Ser ''locationFlags'', Ser ''pose'']),
    (''XrSpaceLocationData'',
      [Ser ''locationFlags'', Ser ''pose'']),
    (''XrSpaceLocations'',
      [Ser ''type'', Ser_xr ''next'', Ser ''locationCount'',
       Ser_ptr ''locations'' (C_field ''locationCount'')])]"

definition core_serializers_4 :: "(string \<times> sop list) list" where
  "core_serializers_4 =
   [(''XrSpaceVelocities'',
      [Ser ''type'', Ser_xr ''next'', Ser ''velocityCount'',
       Ser_ptr ''velocities'' (C_field ''velocityCount'')]),
    (''XrSpaceVelocity'',
      [Ser ''type'', Ser_xr ''next'', Ser ''velocityFlags'', Ser ''linearVelocity'',
       Ser ''angularVelocity'']),
    (''XrSpaceVelocityData'',
      [Ser ''velocityFlags'', Ser ''linearVelocity'', Ser ''angularVelocity'']),
    (''XrSpacesLocateInfo'',
      [Ser ''type'', Ser_xr ''next'', Ser ''baseSpace'', Ser_time ''time'',
       Ser ''spaceCount'', Ser_ptr ''spaces'' (C_field ''spaceCount'')]),
    (''XrSpheref'',
      [Ser ''center'', Ser ''radius'']),
    (''XrSwapchainCreateInfo'',
      [Ser ''type'', Ser_xr ''next'', Ser ''createFlags'', Ser ''usageFlags'', Ser ''format'',
       Ser ''sampleCount'', Ser ''width'', Ser ''height'', Ser ''faceCount'',
       Ser ''arraySize'', Ser ''mipCount'']),
    (''XrSwapchainImageAcquireInfo'',
      [Ser ''type'', Ser_xr ''next'']),
    (''XrSwapchainImageReleaseInfo'',
      [Ser ''type'', Ser_xr ''next'']),
    (''XrSwapchainImageWaitInfo'',
      [Ser ''type'', Ser_xr ''next'', Ser ''timeout'']),
    (''XrSwapchainSubImage'',
      [Ser ''swapchain'', Ser ''imageRect'', Ser ''imageArrayIndex'']),
    (''XrSystemGetInfo'',
      [Ser ''type'', Ser_xr ''next'', Ser ''formFactor'']),
    (''XrSystemGraphicsProperties'',
      [Ser ''maxSwapchainImageHeight'', Ser ''maxSwapchainImageWidth'', Ser ''maxLayerCount'']),
    (''XrSystemProperties'',
      [Ser ''type'', Ser_xr ''next'', Ser ''systemId'', Ser ''vendorId'',
       Ser_array ''systemName'' (B_const ''XR_MAX_SYSTEM_NAME_SIZE''),
       Ser ''graphicsProperties'', Ser ''trackingProperties'']),
    (''XrSystemTrackingProperties'',
      [Ser ''orientationTracking'', Ser ''positionTracking'']),
    (''XrUuid'',
      [Ser_array ''data'' (B_const ''XR_UUID_SIZE'')]),
    (''XrVector2f'',
      [Ser ''x'', Ser ''y'']),
    (''XrVector3f'',
      [Ser ''x'', Ser ''y'', Ser ''z'']),
    (''XrVector4f'',
      [Ser ''x'', Ser ''y'', Ser ''z'', Ser ''w'']),
    (''XrView'',
      [Ser ''type'', Ser_xr ''next'', Ser ''pose'', Ser ''fov''])]"

definition core_serializers_5 :: "(string \<times> sop list) list" where
  "core_serializers_5 =
   [(''XrViewConfigurationProperties'',
      [Ser ''type'', Ser_xr ''next'', Ser ''viewConfigurationType'', Ser ''fovMutable'']),
    (''XrViewConfigurationView'',
      [Ser ''type'', Ser_xr ''next'', Ser ''recommendedImageRectWidth'',
       Ser ''maxImageRectWidth'', Ser ''recommendedImageRectHeight'',
       Ser ''maxImageRectHeight'', Ser ''recommendedSwapchainSampleCount'',
       Ser ''maxSwapchainSampleCount'']),
    (''XrViewLocateInfo'',
      [Ser ''type'', Ser_xr ''next'', Ser ''viewConfigurationType'', Ser_time ''displayTime'',
       Ser ''space'']),
    (''XrViewState'',
      [Ser ''type'', Ser_xr ''next'', Ser ''viewStateFlags''])]"

text \<open>\<open>custom_serializer.cpp\<close>\<close>

definition serialize_XrInstanceCreateInfo :: "sop list" where
  "serialize_XrInstanceCreateInfo =
     [Ser ''type'', Ser_xr ''next'', Ser ''createFlags'', Ser ''applicationInfo'',
      Ser ''enabledApiLayerCount'', Ser_ptr_each ''enabledApiLayerNames'' ''enabledApiLayerCount'',
      Ser ''enabledExtensionCount'', Ser_ptr_each ''enabledExtensionNames'' ''enabledExtensionCount'']"

definition serialize_XrFrameEndInfo :: "sop list" where
  "serialize_XrFrameEndInfo =
     [Ser ''type'', Ser_xr ''next'', Ser_time ''displayTime'', Ser ''environmentBlendMode'',
      Ser ''layerCount'', Ser_xr_each ''layers'' ''layerCount'']"

definition core_serializers :: "(string \<times> sop list) list" where
  "core_serializers =
     (''XrInstanceCreateInfo'', serialize_XrInstanceCreateInfo) #
     (''XrFrameEndInfo'', serialize_XrFrameEndInfo) #
     core_serializers_1 @ core_serializers_2 @ core_serializers_3 @ core_serializers_4 @ core_serializers_5"

definition core_serializer_table :: "(string \<times> string) list" where
  "core_serializer_table =
   [(''XR_TYPE_ACTION_CREATE_INFO'', ''XrActionCreateInfo''),
    (''XR_TYPE_ACTION_SET_CREATE_INFO'', ''XrActionSetCreateInfo''),
    (''XR_TYPE_ACTION_SPACE_CREATE_INFO'', ''XrActionSpaceCreateInfo''),
    (''XR_TYPE_ACTION_STATE_BOOLEAN'', ''XrActionStateBoolean''),
    (''XR_TYPE_ACTION_STATE_FLOAT'', ''XrActionStateFloat''),
    (''XR_TYPE_ACTION_STATE_GET_INFO'', ''XrActionStateGetInfo''),
    (''XR_TYPE_ACTION_STATE_POSE'', ''XrActionStatePose''),
    (''XR_TYPE_ACTION_STATE_VECTOR2F'', ''XrActionStateVector2f''),
    (''XR_TYPE_ACTIONS_SYNC_INFO'', ''XrActionsSyncInfo''),
    (''XR_TYPE_API_LAYER_PROPERTIES'', ''XrApiLayerProperties''),
    (''XR_TYPE_BOUND_SOURCES_FOR_ACTION_ENUMERATE_INFO'', ''XrBoundSourcesForActionEnumerateInfo''),
    (''XR_TYPE_COMPOSITION_LAYER_PROJECTION'', ''XrCompositionLayerProjection''),
    (''XR_TYPE_COMPOSITION_LAYER_PROJECTION_VIEW'', ''XrCompositionLayerProjectionView''),
    (''XR_TYPE_COMPOSITION_LAYER_QUAD'', ''XrCompositionLayerQuad''),
    (''XR_TYPE_EVENT_DATA_BUFFER'', ''XrEventDataBuffer''),
    (''XR_TYPE_EVENT_DATA_EVENTS_LOST'', ''XrEventDataEventsLost''),
    (''XR_TYPE_EVENT_DATA_INSTANCE_LOSS_PENDING'', ''XrEventDataInstanceLossPending''),
    (''XR_TYPE_EVENT_DATA_INTERACTION_PROFILE_CHANGED'', ''XrEventDataInteractionProfileChanged''),
    (''XR_TYPE_EVENT_DATA_REFERENCE_SPACE_CHANGE_PENDING'', ''XrEventDataReferenceSpaceChangePending''),
    (''XR_TYPE_EVENT_DATA_SESSION_STATE_CHANGED'', ''XrEventDataSessionStateChanged''),
    (''XR_TYPE_EXTENSION_PROPERTIES'', ''XrExtensionProperties''),
    (''XR_TYPE_FRAME_BEGIN_INFO'', ''XrFrameBeginInfo''),
    (''XR_TYPE_FRAME_END_INFO'', ''XrFrameEndInfo''),
    (''XR_TYPE_FRAME_STATE'', ''XrFrameState''),
    (''XR_TYPE_FRAME_WAIT_INFO'', ''XrFrameWaitInfo''),
    (''XR_TYPE_HAPTIC_ACTION_INFO'', ''XrHapticActionInfo''),
    (''XR_TYPE_HAPTIC_VIBRATION'', ''XrHapticVibration''),
    (''XR_TYPE_INPUT_SOURCE_LOCALIZED_NAME_GET_INFO'', ''XrInputSourceLocalizedNameGetInfo''),
    (''XR_TYPE_INSTANCE_CREATE_INFO'', ''XrInstanceCreateInfo''),
    (''XR_TYPE_INSTANCE_PROPERTIES'', ''XrInstanceProperties''),
    (''XR_TYPE_INTERACTION_PROFILE_STATE'', ''XrInteractionProfileState''),
    (''XR_TYPE_INTERACTION_PROFILE_SUGGESTED_BINDING'', ''XrInteractionProfileSuggestedBinding''),
    (''XR_TYPE_REFERENCE_SPACE_CREATE_INFO'', ''XrReferenceSpaceCreateInfo''),
    (''XR_TYPE_SESSION_ACTION_SETS_ATTACH_INFO'', ''XrSessionActionSetsAttachInfo''),
    (''XR_TYPE_SESSION_BEGIN_INFO'', ''XrSessionBeginInfo''),
    (''XR_TYPE_SESSION_CREATE_INFO'', ''XrSessionCreateInfo''),
    (''XR_TYPE_SPACE_LOCATION'', ''XrSpaceLocation''),
    (''XR_TYPE_SPACE_LOCATIONS'', ''XrSpaceLocations''),
    (''XR_TYPE_SPACE_VELOCITIES'', ''XrSpaceVelocities''),
    (''XR_TYPE_SPACE_VELOCITY'', ''XrSpaceVelocity''),
    (''XR_TYPE_SPACES_LOCATE_INFO'', ''XrSpacesLocateInfo''),
    (''XR_TYPE_SWAPCHAIN_CREATE_INFO'', ''XrSwapchainCreateInfo''),
    (''XR_TYPE_SWAPCHAIN_IMAGE_ACQUIRE_INFO'', ''XrSwapchainImageAcquireInfo''),
    (''XR_TYPE_SWAPCHAIN_IMAGE_RELEASE_INFO'', ''XrSwapchainImageReleaseInfo''),
    (''XR_TYPE_SWAPCHAIN_IMAGE_WAIT_INFO'', ''XrSwapchainImageWaitInfo''),
    (''XR_TYPE_SYSTEM_GET_INFO'', ''XrSystemGetInfo''),
    (''XR_TYPE_SYSTEM_PROPERTIES'', ''XrSystemProperties''),
    (''XR_TYPE_VIEW'', ''XrView''),
    (''XR_TYPE_VIEW_CONFIGURATION_PROPERTIES'', ''XrViewConfigurationProperties''),
    (''XR_TYPE_VIEW_CONFIGURATION_VIEW'', ''XrViewConfigurationView''),
    (''XR_TYPE_VIEW_LOCATE_INFO'', ''XrViewLocateInfo''),
    (''XR_TYPE_VIEW_STATE'', ''XrViewState'')]"

section \<open>Deserializers\<close>

definition core_deserializers_1 :: "(string \<times> dop list) list" where
  "core_deserializers_1 =
   [(''XrActionCreateInfo'',
      [De ''type'', De_xr ''next'',
       De_array ''actionName'' (B_const ''XR_MAX_ACTION_NAME_SIZE''), De ''actionType'',
       De ''countSubactionPaths'', De_ptr ''subactionPaths'',
       De_array ''localizedActionName'' (B_const ''XR_MAX_LOCALIZED_ACTION_NAME_SIZE'')]),
    (''XrActionSetCreateInfo'',
      [De ''type'', De_xr ''next'',
       De_array ''actionSetName'' (B_const ''XR_MAX_ACTION_SET_NAME_SIZE''),
       De_array ''localizedActionSetName'' (B_const ''XR_MAX_LOCALIZED_ACTION_SET_NAME_SIZE''),
       De ''priority'']),
    (''XrActionSpaceCreateInfo'',
      [De ''type'', De_xr ''next'', De ''action'', De ''subactionPath'',
       De ''poseInActionSpace'']),
    (''XrActionStateBoolean'',
      [De ''type'', De_xr ''next'', De ''currentState'', De ''changedSinceLastSync'',
       De_time ''lastChangeTime'', De ''isActive'']),
    (''XrActionStateFloat'',
      [De ''type'', De_xr ''next'', De ''currentState'', De ''changedSinceLastSync'',
       De_time ''lastChangeTime'', De ''isActive'']),
    (''XrActionStateGetInfo'',
      [De ''type'', De_xr ''next'', De ''action'', De ''subactionPath'']),
    (''XrActionStatePose'',
      [De ''type'', De_xr ''next'', De ''isActive'']),
    (''XrActionStateVector2f'',
      [De ''type'', De_xr ''next'', De ''currentState'', De ''changedSinceLastSync'',
       De_time ''lastChangeTime'', De ''isActive'']),
    (''XrActionSuggestedBinding'',
      [De ''action'', De ''binding'']),
    (''XrActionsSyncInfo'',
      [De ''type'', De_xr ''next'', De ''countActiveActionSets'', De_ptr ''activeActionSets'']),
    (''XrActiveActionSet'',
      [De ''actionSet'', De ''subactionPath'']),
    (''XrApiLayerProperties'',
      [De ''type'', De_xr ''next'',
       De_array ''layerName'' (B_const ''XR_MAX_API_LAYER_NAME_SIZE''), De ''specVersion'',
       De ''layerVersion'',
       De_array ''description'' (B_const ''XR_MAX_API_LAYER_DESCRIPTION_SIZE'')]),
    (''XrApplicationInfo'',
      [De_array ''applicationName'' (B_const ''XR_MAX_APPLICATION_NAME_SIZE''),
       De ''applicationVersion'',
       De_array ''engineName'' (B_const ''XR_MAX_ENGINE_NAME_SIZE''), De ''engineVersion'',
       De ''apiVersion'']),
    (''XrBodySkeletonJointHTC'',
      [De ''pose'']),
    (''XrBoundSourcesForActionEnumerateInfo'',
      [De ''type'', De_xr ''next'', De ''action'']),
    (''XrBoxf'',
      [De ''center'', De ''extents'']),
    (''XrColor3f'',
      [De ''r'', De ''g'', De ''b'']),
    (''XrColor4f'',
      [De ''r'', De ''g'', De ''b'', De ''a'']),
    (''XrCompositionLayerProjection'',
      [De ''type'', De_xr ''next'', De ''layerFlags'', De ''space'', De ''viewCount'',
       De_ptr ''views''])]"

definition core_deserializers_2 :: "(string \<times> dop list) list" where
  "core_deserializers_2 =
   [(''XrCompositionLayerProjectionView'',
      [De ''type'', De_xr ''next'', De ''pose'', De ''fov'', De ''subImage'']),
    (''XrCompositionLayerQuad'',
      [De ''type'', De_xr ''next'', De ''layerFlags'', De ''space'', De ''eyeVisibility'',
       De ''subImage'', De ''pose'', De ''size'']),
    (''XrEventDataBuffer'',
      [De ''type'', De_xr ''next'', De_array ''varying'' (B_lit 4000)]),
    (''XrEventDataEventsLost'',
      [De ''type'', De_xr ''next'', De ''lostEventCount'']),
    (''XrEventDataInstanceLossPending'',
      [De ''type'', De_xr ''next'', De_time ''lossTime'']),
    (''XrEventDataInteractionProfileChanged'',
      [De ''type'', De_xr ''next'', De ''session'']),
    (''XrEventDataReferenceSpaceChangePending'',
      [De ''type'', De_xr ''next'', De ''session'', De ''referenceSpaceType'',
       De_time ''changeTime'', De ''poseValid'', De ''poseInPreviousSpace'']),
    (''XrEventDataSessionStateChanged'',
      [De ''type'', De_xr ''next'', De ''session'', De ''state'', De_time ''time'']),
    (''XrExtensionProperties'',
      [De ''type'', De_xr ''next'',
       De_array ''extensionName'' (B_const ''XR_MAX_EXTENSION_NAME_SIZE''),
       De ''extensionVersion'']),
    (''XrExtent2Df'',
      [De ''width'', De ''height'']),
    (''XrExtent2Di'',
      [De ''width'', De ''height'']),
    (''XrExtent3Df'',
      [De ''width'', De ''height'', De ''depth'']),
    (''XrFovf'',
      [De ''angleLeft'', De ''angleRight'', De ''angleUp'', De ''angleDown'']),
    (''XrFrameBeginInfo'',
      [De ''type'', De_xr ''next'']),
    (''XrFrameState'',
      [De ''type'', De_xr ''next'', De_time ''predictedDisplayTime'',
       De ''predictedDisplayPeriod'', De ''shouldRender'']),
    (''XrFrameWaitInfo'',
      [De ''type'', De_xr ''next'']),
    (''XrFrustumf'',
      [De ''pose'', De ''fov'', De ''nearZ'', De ''farZ'']),
    (''XrHapticActionInfo'',
      [De ''type'', De_xr ''next'', De ''action'', De ''subactionPath'']),
    (''XrHapticVibration'',
      [De ''type'', De_xr ''next'', De ''duration'', De ''frequency'', De ''amplitude'']),
    (''XrInputSourceLocalizedNameGetInfo'',
      [De ''type'', De_xr ''next'', De ''sourcePath'', De ''whichComponents''])]"

definition core_deserializers_3 :: "(string \<times> dop list) list" where
  "core_deserializers_3 =
   [(''XrInstanceProperties'',
      [De ''type'', De_xr ''next'', De ''runtimeVersion'',
       De_array ''runtimeName'' (B_const ''XR_MAX_RUNTIME_NAME_SIZE'')]),
    (''XrInteractionProfileState'',
      [De ''type'', De_xr ''next'', De ''interactionProfile'']),
    (''XrInteractionProfileSuggestedBinding'',
      [De ''type'', De_xr ''next'', De ''interactionProfile'', De ''countSuggestedBindings'',
       De_ptr ''suggestedBindings'']),
    (''XrOffset2Df'',
      [De ''x'', De ''y'']),
    (''XrOffset2Di'',
      [De ''x'', De ''y'']),
    (''XrPosef'',
      [De ''orientation'', De ''position'']),
    (''XrQuaternionf'',
      [De ''x'', De ''y'', De ''z'', De ''w'']),
    (''XrRect2Df'',
      [De ''offset'', De ''extent'']),
    (''XrRect2Di'',
      [De ''offset'', De ''extent'']),
    (''XrReferenceSpaceCreateInfo'',
      [De ''type'', De_xr ''next'', De ''referenceSpaceType'', De ''poseInReferenceSpace'']),
    (''XrSessionActionSetsAttachInfo'',
      [De ''type'', De_xr ''next'', De ''countActionSets'', De_ptr ''actionSets'']),
    (''XrSessionBeginInfo'',
      [De ''type'', De_xr ''next'', De ''primaryViewConfigurationType'']),
    (''XrSessionCreateInfo'',
      [De ''type'', De_xr ''next'', De ''createFlags'', De ''systemId'']),
    (''XrSpaceLocation'',
      [De ''type'', De_xr ''next'', De ''locationFlags'', De ''pose'']),
    (''XrSpaceLocationData'',
      [De ''locationFlags'', De ''pose'']),
    (''XrSpaceLocations'',
      [De ''type'', De_xr ''next'', De ''locationCount'', De_ptr ''locations'']),
    (''XrSpaceVelocities'',
      [De ''type'', De_xr ''next'', De ''velocityCount'', De_ptr ''velocities'']),
    (''XrSpaceVelocity'',
      [De ''type'', De_xr ''next'', De ''velocityFlags'', De ''linearVelocity'',
       De ''angularVelocity'']),
    (''XrSpaceVelocityData'',
      [De ''velocityFlags'', De ''linearVelocity'', De ''angularVelocity'']),
    (''XrSpacesLocateInfo'',
      [De ''type'', De_xr ''next'', De ''baseSpace'', De_time ''time'', De ''spaceCount'',
       De_ptr ''spaces'']),
    (''XrSpheref'',
      [De ''center'', De ''radius'']),
    (''XrSwapchainCreateInfo'',
      [De ''type'', De_xr ''next'', De ''createFlags'', De ''usageFlags'', De ''format'',
       De ''sampleCount'', De ''width'', De ''height'', De ''faceCount'', De ''arraySize'',
       De ''mipCount''])]"

definition core_deserializers_4 :: "(string \<times> dop list) list" where
  "core_deserializers_4 =
   [(''XrSwapchainImageAcquireInfo'',
      [De ''type'', De_xr ''next'']),
    (''XrSwapchainImageReleaseInfo'',
      [De ''type'', De_xr ''next'']),
    (''XrSwapchainImageWaitInfo'',
      [De ''type'', De_xr ''next'', De ''timeout'']),
    (''XrSwapchainSubImage'',
      [De ''swapchain'', De ''imageRect'', De ''imageArrayIndex'']),
    (''XrSystemGetInfo'',
      [De ''type'', De_xr ''next'', De ''formFactor'']),
    (''XrSystemGraphicsProperties'',
      [De ''maxSwapchainImageHeight'', De ''maxSwapchainImageWidth'', De ''maxLayerCount'']),
    (''XrSystemProperties'',
      [De ''type'', De_xr ''next'', De ''systemId'', De ''vendorId'',
       De_array ''systemName'' (B_const ''XR_MAX_SYSTEM_NAME_SIZE''),
       De ''graphicsProperties'', De ''trackingProperties'']),
    (''XrSystemTrackingProperties'',
      [De ''orientationTracking'', De ''positionTracking'']),
    (''XrUuid'',
      [De_array ''data'' (B_const ''XR_UUID_SIZE'')]),
    (''XrVector2f'',
      [De ''x'', De ''y'']),
    (''XrVector3f'',
      [De ''x'', De ''y'', De ''z'']),
    (''XrVector4f'',
      [De ''x'', De ''y'', De ''z'', De ''w'']),
    (''XrView'',
      [De ''type'', De_xr ''next'', De ''pose'', De ''fov'']),
    (''XrViewConfigurationProperties'',
      [De ''type'', De_xr ''next'', De ''viewConfigurationType'', De ''fovMutable'']),
    (''XrViewConfigurationView'',
      [De ''type'', De_xr ''next'', De ''recommendedImageRectWidth'',
       De ''maxImageRectWidth'', De ''recommendedImageRectHeight'', De ''maxImageRectHeight'',
       De ''recommendedSwapchainSampleCount'', De ''maxSwapchainSampleCount'']),
    (''XrViewLocateInfo'',
      [De ''type'', De_xr ''next'', De ''viewConfigurationType'', De_time ''displayTime'',
       De ''space'']),
    (''XrViewState'',
      [De ''type'', De_xr ''next'', De ''viewStateFlags''])]"

text \<open>\<open>custom_deserializer.cpp\<close>\<close>

definition deserialize_XrInstanceCreateInfo :: "dop list" where
  "deserialize_XrInstanceCreateInfo =
     [De ''type'', De_xr ''next'', De ''createFlags'', De ''applicationInfo'',
      De ''enabledApiLayerCount'', De_ptr_each ''enabledApiLayerNames'' ''enabledApiLayerCount'',
      De ''enabledExtensionCount'', De_ptr_each ''enabledExtensionNames'' ''enabledExtensionCount'']"

definition deserialize_XrFrameEndInfo :: "dop list" where
  "deserialize_XrFrameEndInfo =
     [De ''type'', De_xr ''next'', De_time ''displayTime'', De ''environmentBlendMode'',
      De ''layerCount'', De_xr_each ''layers'' ''layerCount'']"

definition core_deserializers :: "(string \<times> dop list) list" where
  "core_deserializers =
     (''XrInstanceCreateInfo'', deserialize_XrInstanceCreateInfo) #
     (''XrFrameEndInfo'', deserialize_XrFrameEndInfo) #
     core_deserializers_1 @ core_deserializers_2 @ core_deserializers_3 @ core_deserializers_4"

definition core_deserializer_table :: "(string \<times> string) list" where
  "core_deserializer_table =
   [(''XR_TYPE_ACTION_CREATE_INFO'', ''XrActionCreateInfo''),
    (''XR_TYPE_ACTION_SET_CREATE_INFO'', ''XrActionSetCreateInfo''),
    (''XR_TYPE_ACTION_SPACE_CREATE_INFO'', ''XrActionSpaceCreateInfo''),
    (''XR_TYPE_ACTION_STATE_BOOLEAN'', ''XrActionStateBoolean''),
    (''XR_TYPE_ACTION_STATE_FLOAT'', ''XrActionStateFloat''),
    (''XR_TYPE_ACTION_STATE_GET_INFO'', ''XrActionStateGetInfo''),
    (''XR_TYPE_ACTION_STATE_POSE'', ''XrActionStatePose''),
    (''XR_TYPE_ACTION_STATE_VECTOR2F'', ''XrActionStateVector2f''),
    (''XR_TYPE_ACTIONS_SYNC_INFO'', ''XrActionsSyncInfo''),
    (''XR_TYPE_API_LAYER_PROPERTIES'', ''XrApiLayerProperties''),
    (''XR_TYPE_BOUND_SOURCES_FOR_ACTION_ENUMERATE_INFO'', ''XrBoundSourcesForActionEnumerateInfo''),
    (''XR_TYPE_COMPOSITION_LAYER_PROJECTION'', ''XrCompositionLayerProjection''),
    (''XR_TYPE_COMPOSITION_LAYER_PROJECTION_VIEW'', ''XrCompositionLayerProjectionView''),
    (''XR_TYPE_COMPOSITION_LAYER_QUAD'', ''XrCompositionLayerQuad''),
    (''XR_TYPE_EVENT_DATA_BUFFER'', ''XrEventDataBuffer''),
    (''XR_TYPE_EVENT_DATA_EVENTS_LOST'', ''XrEventDataEventsLost''),
    (''XR_TYPE_EVENT_DATA_INSTANCE_LOSS_PENDING'', ''XrEventDataInstanceLossPending''),
    (''XR_TYPE_EVENT_DATA_INTERACTION_PROFILE_CHANGED'', ''XrEventDataInteractionProfileChanged''),
    (''XR_TYPE_EVENT_DATA_REFERENCE_SPACE_CHANGE_PENDING'', ''XrEventDataReferenceSpaceChangePending''),
    (''XR_TYPE_EVENT_DATA_SESSION_STATE_CHANGED'', ''XrEventDataSessionStateChanged''),
    (''XR_TYPE_EXTENSION_PROPERTIES'', ''XrExtensionProperties''),
    (''XR_TYPE_FRAME_BEGIN_INFO'', ''XrFrameBeginInfo''),
    (''XR_TYPE_FRAME_END_INFO'', ''XrFrameEndInfo''),
    (''XR_TYPE_FRAME_STATE'', ''XrFrameState''),
    (''XR_TYPE_FRAME_WAIT_INFO'', ''XrFrameWaitInfo''),
    (''XR_TYPE_HAPTIC_ACTION_INFO'', ''XrHapticActionInfo''),
    (''XR_TYPE_HAPTIC_VIBRATION'', ''XrHapticVibration''),
    (''XR_TYPE_INPUT_SOURCE_LOCALIZED_NAME_GET_INFO'', ''XrInputSourceLocalizedNameGetInfo''),
    (''XR_TYPE_INSTANCE_CREATE_INFO'', ''XrInstanceCreateInfo''),
    (''XR_TYPE_INSTANCE_PROPERTIES'', ''XrInstanceProperties''),
    (''XR_TYPE_INTERACTION_PROFILE_STATE'', ''XrInteractionProfileState''),
    (''XR_TYPE_INTERACTION_PROFILE_SUGGESTED_BINDING'', ''XrInteractionProfileSuggestedBinding''),
    (''XR_TYPE_REFERENCE_SPACE_CREATE_INFO'', ''XrReferenceSpaceCreateInfo''),
    (''XR_TYPE_SESSION_ACTION_SETS_ATTACH_INFO'', ''XrSessionActionSetsAttachInfo''),
    (''XR_TYPE_SESSION_BEGIN_INFO'', ''XrSessionBeginInfo''),
    (''XR_TYPE_SESSION_CREATE_INFO'', ''XrSessionCreateInfo''),
    (''XR_TYPE_SPACE_LOCATION'', ''XrSpaceLocation''),
    (''XR_TYPE_SPACE_LOCATIONS'', ''XrSpaceLocations''),
    (''XR_TYPE_SPACE_VELOCITIES'', ''XrSpaceVelocities''),
    (''XR_TYPE_SPACE_VELOCITY'', ''XrSpaceVelocity''),
    (''XR_TYPE_SPACES_LOCATE_INFO'', ''XrSpacesLocateInfo''),
    (''XR_TYPE_SWAPCHAIN_CREATE_INFO'', ''XrSwapchainCreateInfo''),
    (''XR_TYPE_SWAPCHAIN_IMAGE_ACQUIRE_INFO'', ''XrSwapchainImageAcquireInfo''),
    (''XR_TYPE_SWAPCHAIN_IMAGE_RELEASE_INFO'', ''XrSwapchainImageReleaseInfo''),
    (''XR_TYPE_SWAPCHAIN_IMAGE_WAIT_INFO'', ''XrSwapchainImageWaitInfo''),
    (''XR_TYPE_SYSTEM_GET_INFO'', ''XrSystemGetInfo''),
    (''XR_TYPE_SYSTEM_PROPERTIES'', ''XrSystemProperties''),
    (''XR_TYPE_VIEW'', ''XrView''),
    (''XR_TYPE_VIEW_CONFIGURATION_PROPERTIES'', ''XrViewConfigurationProperties''),
    (''XR_TYPE_VIEW_CONFIGURATION_VIEW'', ''XrViewConfigurationView''),
    (''XR_TYPE_VIEW_LOCATE_INFO'', ''XrViewLocateInfo''),
    (''XR_TYPE_VIEW_STATE'', ''XrViewState'')]"

section \<open>The codec\<close>

record openxr =
  xr_field_type :: "string \<Rightarrow> string \<Rightarrow> ftype"
  xr_field_const :: "string \<Rightarrow> string \<Rightarrow> bool"
  xr_macro :: "string \<Rightarrow> nat"
  xr_type_value :: "string \<Rightarrow> u32"

text \<open>The lookup tables are hash maps from the values of the enumerators.\<close>

definition table_lookup :: "openxr \<Rightarrow> (string \<times> string) list \<Rightarrow> u32 \<Rightarrow> string option" where
  "table_lookup X tab ty = map_of (map (\<lambda>(e, s). (xr_type_value X e, s)) tab) ty"

text \<open>The two files list the structs in the same order, so that they can be compared row by row.\<close>

lemma core_programs_match: "map (\<lambda>(s, ops). (s, map dop_of ops)) core_serializers = core_deserializers"
  by (simp add: core_serializers_def core_deserializers_def core_serializers_1_def
      core_serializers_2_def core_serializers_3_def core_serializers_4_def core_serializers_5_def
      core_deserializers_1_def core_deserializers_2_def core_deserializers_3_def
      core_deserializers_4_def serialize_XrInstanceCreateInfo_def serialize_XrFrameEndInfo_def
      deserialize_XrInstanceCreateInfo_def deserialize_XrFrameEndInfo_def)

lemma core_tables_agree: "core_serializer_table = core_deserializer_table"
  by (simp add: core_serializer_table_def core_deserializer_table_def)

end
