(* ===== verification/Cleaners_Laws.thy ===== *)
theory Cleaners_Laws
  imports Cleaners
begin

text \<open>
  Cleaning a value that arrived frees exactly its blocks. The locale states what the cleaner
  programs have to share with the serializer programs: the same members with the same counts,
  except for members that own no memory.
\<close>

section \<open>Agreement of cleaners and serializers\<close>

fun cop_of :: "sop \<Rightarrow> cop" where
  "cop_of (Ser f) = Cl f"
| "cop_of (Ser_time f) = Cl f"
| "cop_of (Ser_xr f) = Cl_xr f"
| "cop_of (Ser_array f k) = Cl_array f k"
| "cop_of (Ser_ptr f k) = Cl_ptr f k"
| "cop_of (Ser_xr_array f k) = Cl_xr_array f k"
| "cop_of (Ser_ptr_each f g) = Cl_ptr_each f g"
| "cop_of (Ser_xr_each f g) = Cl_xr_each f g"

lemma cop_field_cop_of [simp]: "cop_field (cop_of op) = sop_field op"
  by (cases op) simp_all

text \<open>A type whose values own no memory: a scalar, or a struct of scalars and arrays of scalars.\<close>

definition scalar_member :: "codec \<Rightarrow> string \<Rightarrow> sop \<Rightarrow> bool" where
  "scalar_member E s op \<longleftrightarrow>
     (case op of
        Ser f \<Rightarrow> \<exists>n. field_type E s f = T_prim n
      | Ser_array f k \<Rightarrow> \<exists>n. field_type E s f = T_prim n
      | _ \<Rightarrow> False)"

definition blockless :: "codec \<Rightarrow> ftype \<Rightarrow> bool" where
  "blockless E ty \<longleftrightarrow>
     (case ty of
        T_prim n \<Rightarrow> True
      | T_struct s \<Rightarrow> \<exists>ops. ser_program E s = Some ops \<and> list_all (scalar_member E s) ops)"

text \<open>The cleaner covers the members in order; it may pass over members without memory.\<close>

fun covers :: "(string \<Rightarrow> bool) \<Rightarrow> sop list \<Rightarrow> cop list \<Rightarrow> bool" where
  "covers d [] cs \<longleftrightarrow> cs = []"
| "covers d (op # ops) cs \<longleftrightarrow>
     (case cs of c # cs' \<Rightarrow> c = cop_of op \<and> covers d ops cs' | [] \<Rightarrow> False) \<or>
     (case op of Ser f \<Rightarrow> d f \<and> covers d ops cs | Ser_time f \<Rightarrow> covers d ops cs | _ \<Rightarrow> False)"

lemma covers_same: "covers d ops (map cop_of ops)"
  by (induction ops) simp_all

lemma covers_mono: "(\<And>f. d f \<Longrightarrow> d' f) \<Longrightarrow> covers d ops cs \<Longrightarrow> covers d' ops cs"
proof (induction ops arbitrary: cs)
  case (Cons op ops)
  then show ?case by (cases op; cases cs) auto
qed simp

definition skips_ok :: "codec \<Rightarrow> (string \<Rightarrow> string list) \<Rightarrow> bool" where
  "skips_ok E skipped \<longleftrightarrow> (\<forall>s f. f \<in> set (skipped s) \<longrightarrow> blockless E (field_type E s f))"

text \<open>Counts are scalar members of the same struct.\<close>

definition count_member :: "sop \<Rightarrow> string option" where
  "count_member op =
     (case op of
        Ser_ptr f (C_field g) \<Rightarrow> Some g
      | Ser_ptr_each f g \<Rightarrow> Some g
      | Ser_xr_each f g \<Rightarrow> Some g
      | _ \<Rightarrow> None)"

definition counts_ok :: "sop list \<Rightarrow> bool" where
  "counts_ok ops \<longleftrightarrow> (\<forall>op\<in>set ops. \<forall>g. count_member op = Some g \<longrightarrow> Ser g \<in> set ops)"

lemma program_ok_distinct:
  "program_ok scalars names ops \<Longrightarrow>
   distinct (map sop_field ops) \<and> set (map sop_field ops) \<inter> set names = {} \<and> (\<forall>f k. Ser_xr_array f k \<notin> set ops)"
proof (induction ops arbitrary: scalars names)
  case (Cons op ops)
  obtain sc where "program_ok sc (sop_field op # names) ops" "sop_field op \<notin> set names" "\<forall>f k. op \<noteq> Ser_xr_array f k"
    using Cons.prems by (cases op) auto
  moreover from Cons.IH [OF this(1)]
  have "distinct (map sop_field ops) \<and> set (map sop_field ops) \<inter> set (sop_field op # names) = {} \<and>
      (\<forall>f k. Ser_xr_array f k \<notin> set ops)" .
  ultimately show ?case by auto
qed simp

section \<open>Fields of what arrived\<close>

lemma run_sops_names: "run_sops f ops fs = Wrote bs \<Longrightarrow> map fld_name fs = map sop_field ops"
  by (induction f ops fs arbitrary: bs rule: run_sops.induct) (auto simp: wseq_Wrote_iff split: if_splits)

lemma run_arr_names: "map fld_name fs = map sop_field ops \<Longrightarrow> map fld_name (run_arr a ops fs) = map sop_field ops"
  by (induction a ops fs rule: run_arr.induct) auto

lemma run_arr_find:
  "map fld_name fs = map sop_field ops \<Longrightarrow> distinct (map sop_field ops) \<Longrightarrow> op \<in> set ops \<Longrightarrow>
   \<exists>v. find_field fs (sop_field op) = Some v \<and> find_field (run_arr a ops fs) (sop_field op) = Some (a op v)"
proof (induction a ops fs rule: run_arr.induct)
  case (1 f op' ops g v fs)
  then show ?case by (cases "op = op'") force+
qed auto

lemma run_sops_op:
  "run_sops f ops fs = Wrote bs \<Longrightarrow> op \<in> set ops \<Longrightarrow> distinct (map sop_field ops) \<Longrightarrow>
   \<exists>v b. find_field fs (sop_field op) = Some v \<and> f op v = Wrote b"
proof (induction f ops fs arbitrary: bs rule: run_sops.induct)
  case (2 f op' ops g v fs)
  then show ?case by (cases "op = op'") (force simp: wseq_Wrote_iff split: if_splits)+
qed auto

text \<open>Scalars arrive as they are, so that counts and types can be read from either struct.\<close>

lemma scalar_arrives:
  assumes "map fld_name fs = map sop_field ops" "distinct (map sop_field ops)" "Ser g \<in> set ops"
    "find_field fs g = Some (V_prim b)"
  shows "find_field (run_arr (\<lambda>op v. arr_op E c off (arr E c off) s all op v) ops fs) g = Some (V_prim b)"
proof -
  have "arr E c off (K_val ty) (V_prim b) = V_prim b" for ty by (cases ty) simp_all
  then show ?thesis
    using run_arr_find [OF assms(1,2,3), of "\<lambda>op v. arr_op E c off (arr E c off) s all op v"] assms(4) by auto
qed

lemma uint_field_arrives:
  assumes "map fld_name fs = map sop_field ops" "distinct (map sop_field ops)" "Ser g \<in> set ops"
    "uint_field fs g = Ret n"
  shows "uint_field (run_arr (\<lambda>op v. arr_op E c off (arr E c off) s all op v) ops fs) g = Ret n"
proof -
  obtain b where "find_field fs g = Some (V_prim b)"
    using assms(4) by (auto split: option.splits xv.splits)
  from scalar_arrives [OF assms(1-3) this] show ?thesis
    using assms(4) \<open>find_field fs g = Some (V_prim b)\<close> by simp
qed

lemma struct_type_arrives:
  assumes "map fld_name fs = map sop_field ops" "distinct (map sop_field ops)" "Ser ''type'' \<in> set ops"
    "struct_type fs = Some ty"
  shows "struct_type (run_arr (\<lambda>op v. arr_op E c off (arr E c off) s all op v) ops fs) = Some ty"
proof -
  obtain b where "find_field fs ''type'' = Some (V_prim b)"
    using assms(4) by (auto simp: struct_type_def split: option.splits xv.splits)
  from scalar_arrives [OF assms(1-3) this] show ?thesis
    using assms(4) \<open>find_field fs ''type'' = Some (V_prim b)\<close> by (simp add: struct_type_def)
qed

section \<open>The templates free exactly the blocks\<close>

lemma cleanup_array_blocks:
  "(\<And>x. x \<in> set vs \<Longrightarrow> f x = Ret (blocks x)) \<Longrightarrow> n = length vs \<Longrightarrow>
   cleanup_array f i n vs = Ret (indexed i (map blocks vs))"
  by (induction vs arbitrary: i n) auto

lemma cleanup_ptr_blocks:
  assumes "\<And>x. x \<in> set (take len vs) \<Longrightarrow> f (a x) = Ret (blocks (a x))" "pointee v = Some vs" "len \<le> length vs"
  shows "cleanup_ptr f len (arr_ptr a len v) = Ret (blocks (arr_ptr a len v))"
proof -
  have "cleanup_array f 0 len (map a (take len vs)) = Ret (indexed 0 (map blocks (map a (take len vs))))"
    by (rule cleanup_array_blocks) (use assms in auto)
  then show ?thesis using assms(2) by (simp add: arr_ptr_def cleanup_ptr_def)
qed

lemma cleanup_each_blocks:
  assumes "\<And>x. x \<in> set vs \<Longrightarrow> f x = Ret (blocks x)"
  shows "cleanup_each f (length vs) (V_ptr vs) = Ret (blocks (V_ptr vs))"
  using cleanup_array_blocks [of vs f "length vs" 0] assms by (simp add: cleanup_each_def)

lemma serialize_array_elems:
  "serialize_array f n vs = Wrote bs \<Longrightarrow> x \<in> set (take n vs) \<Longrightarrow> \<exists>b. f x = Wrote b"
  by (induction f n vs arbitrary: bs rule: serialize_array.induct) (auto simp: wseq_Wrote_iff)

lemma serialize_ptr_elems:
  assumes "serialize_ptr f len v = Wrote bs"
  shows "arr_ptr a len v = V_null \<or>
    (\<exists>vs. pointee v = Some vs \<and> len \<le> length vs \<and> arr_ptr a len v = V_ptr (map a (take len vs)) \<and>
       (\<forall>x\<in>set (take len vs). \<exists>b. f x = Wrote b))"
proof (cases "(word_of_nat len :: u32) = 0 \<or> v = V_null")
  case True
  then show ?thesis by (auto simp: arr_ptr_def split: option.split)
next
  case False
  then obtain vs b where vs: "pointee v = Some vs" "serialize_array f len vs = Wrote b"
    using assms by (auto simp: serialize_ptr_def Let_def wseq_Wrote_iff split: option.splits)
  then show ?thesis
    using False serialize_array_length [OF vs(2)] serialize_array_elems [OF vs(2)] by (simp add: arr_ptr_def)
qed

lemma serialize_each_elems:
  assumes "serialize_each f n v = Wrote bs"
  shows "\<exists>vs. arr_each a n v = V_ptr (map a vs) \<and> length vs = n \<and> (\<forall>x\<in>set vs. size x < size v \<and> (\<exists>b. f x = Wrote b))"
proof (cases v)
  case (V_ptr vs)
  then have "serialize_array f n vs = Wrote bs" using assms by (simp add: serialize_each_def)
  then have "length (take n vs) = n" "\<forall>x\<in>set (take n vs). \<exists>b. f x = Wrote b"
    using serialize_array_length serialize_array_elems by (simp, blast)
  moreover have "\<forall>x\<in>set (take n vs). size x < size v"
    using V_ptr size_ptr_elem(1) in_set_takeD by fast
  ultimately show ?thesis
    using V_ptr by (intro exI [of _ "take n vs"]) (simp add: arr_each_def)
next
  case V_null
  then show ?thesis using assms by (auto simp: serialize_each_def arr_each_def split: if_splits)
qed (use assms in \<open>simp_all add: serialize_each_def\<close>)

text \<open>The terminator of a string arrives, so that its length can be counted again.\<close>

lemma count_null_terminated_take:
  "count_null_terminated vs = Ret len \<Longrightarrow> (\<And>b. a (V_prim b) = V_prim b) \<Longrightarrow>
   count_null_terminated (map a (take len vs)) = Ret len"
proof (induction vs arbitrary: len rule: count_null_terminated.induct)
  case (2 bs vs)
  show ?case
  proof (cases "list_all (\<lambda>b. b = 0) bs")
    case True
    then have "len = Suc 0" using "2.prems"(1) by simp
    then show ?thesis using True "2.prems"(2) by simp
  next
    case False
    then obtain n where "count_null_terminated vs = Ret n" "len = Suc n"
      using "2.prems"(1) by (cases "count_null_terminated vs") auto
    then show ?thesis using 2 False by simp
  qed
qed auto

lemma covers_count:
  assumes "count_value E all k v = Ret len" "a = arr E c off (K_val ty)"
    "\<And>g n. k = C_field g \<Longrightarrow> uint_field all g = Ret n \<Longrightarrow> uint_field all' g = Ret n"
    "arr_ptr a len v = V_null \<or> (\<exists>vs. pointee v = Some vs \<and> arr_ptr a len v = V_ptr (map a (take len vs)))"
  shows "\<exists>len'. count_value E all' k (arr_ptr a len v) = Ret len' \<and> (arr_ptr a len v = V_null \<or> len' = len)"
proof (cases k)
  case C_null_terminated
  have prim: "a (V_prim b) = V_prim b" for b using assms(2) by (cases ty) simp_all
  show ?thesis
  proof (cases "arr_ptr a len v = V_null")
    case False
    then obtain vs where vs: "pointee v = Some vs" "arr_ptr a len v = V_ptr (map a (take len vs))"
      using assms(4) by blast
    then have "count_null_terminated vs = Ret len"
      using assms(1) C_null_terminated by (cases v) (auto simp: count_value_def)
    then show ?thesis using count_null_terminated_take [OF _ prim] vs(2) C_null_terminated
      by (simp add: count_value_def)
  qed (simp add: C_null_terminated count_value_def)
qed (use assms(1,3) in \<open>simp_all add: count_value_def del: uint_field.simps\<close>)

section \<open>Cleaning what arrived\<close>

text \<open>Times are 64-bit scalars in the header.\<close>

definition times_ok :: "codec \<Rightarrow> bool" where
  "times_ok E \<longleftrightarrow> (\<forall>s ops f. ser_program E s = Some ops \<longrightarrow> Ser_time f \<in> set ops \<longrightarrow> field_type E s f = T_prim 8)"

definition cleaned :: "codec \<Rightarrow> cleaners \<Rightarrow> ser_ctx \<Rightarrow> u64 \<Rightarrow> kind \<Rightarrow> xv \<Rightarrow> bool" where
  "cleaned E K c off k v \<longleftrightarrow>
     ((\<exists>bs. ser E c k v = Wrote bs) \<longrightarrow> clean E K k (arr E c off k v) = Ret (blocks (arr E c off k v)))"

lemma cleanedD: "cleaned E K c off k v \<Longrightarrow> ser E c k v = Wrote bs \<Longrightarrow>
    clean E K k (arr E c off k v) = Ret (blocks (arr E c off k v))"
  by (auto simp: cleaned_def)

lemma ptr_cleaned:
  assumes inv: "\<And>x ty. size x < size v \<Longrightarrow> cleaned E K c off (K_val ty) x"
    and ser: "serialize_ptr (ser E c (K_val ty)) len v = Wrote bs" and count: "count_value E all k v = Ret len"
    and counts: "\<And>g n. k = C_field g \<Longrightarrow> uint_field all g = Ret n \<Longrightarrow> uint_field all' g = Ret n"
  shows "obind (count_value E all' k (arr_ptr (arr E c off (K_val ty)) len v))
      (\<lambda>l. cleanup_ptr (clean E K (K_val ty)) l (arr_ptr (arr E c off (K_val ty)) len v))
    = Ret (blocks (arr_ptr (arr E c off (K_val ty)) len v))"
proof -
  let ?a = "arr E c off (K_val ty)"
  let ?w = "arr_ptr ?a len v"
  have elems: "?w = V_null \<or>
    (\<exists>vs. pointee v = Some vs \<and> len \<le> length vs \<and> ?w = V_ptr (map ?a (take len vs)) \<and>
       (\<forall>x\<in>set (take len vs). \<exists>b. ser E c (K_val ty) x = Wrote b))"
    by (rule serialize_ptr_elems [OF ser])
  obtain len'' where l: "count_value E all' k ?w = Ret len''" "?w = V_null \<or> len'' = len"
    using covers_count [OF count refl counts, of _ _ ty] elems by blast
  show ?thesis
  proof (cases "?w = V_null")
    case True
    then show ?thesis using l by (simp add: cleanup_ptr_def)
  next
    case False
    then obtain vs where vs: "pointee v = Some vs" "len \<le> length vs"
      "\<forall>x\<in>set (take len vs). \<exists>b. ser E c (K_val ty) x = Wrote b"
      using elems by blast
    have elems': "clean E K (K_val ty) (?a x) = Ret (blocks (?a x))" if "x \<in> set (take len vs)" for x
      using that vs(3) inv [of x] size_pointee [OF vs(1), of x] cleanedD in_set_takeD by metis
    show ?thesis
      using cleanup_ptr_blocks [of len vs "clean E K (K_val ty)" ?a v] elems' vs(1,2) l False by simp
  qed
qed

locale cleaning_codec = agreeing_codec E for E :: codec +
  fixes K :: cleaners and skipped :: "string \<Rightarrow> string list"
  assumes cleaners_agree: "ser_program E s = Some ops \<Longrightarrow>
      counts_ok ops \<and>
      (\<exists>cops. clean_program K s = Some cops \<and> covers (\<lambda>f. f \<in> set (skipped s)) ops cops)"
    and clean_lookups_agree: "ser_lookup E ty = Some s \<Longrightarrow> clean_lookup K ty = Some s"
    and typed: "ser_program E s = Some ops \<Longrightarrow> op \<in> set ops \<Longrightarrow> sop_field op = ''type'' \<Longrightarrow> op = Ser ''type''"
begin

lemma struct_type_of_program:
  assumes "ser_program E s = Some ops" "run_sops (\<lambda>op v. ser_op E c (ser E c) s all op v) ops fs = Wrote b"
    "struct_type fs = Some ty"
  shows "struct_type (run_arr (\<lambda>op v. arr_op E c off (arr E c off) s all op v) ops fs) = Some ty"
proof -
  have names: "map fld_name fs = map sop_field ops" by (rule run_sops_names [OF assms(2)])
  have "''type'' \<in> set (map fld_name fs)"
    using assms(3) find_field_fresh [of "''type''" fs]
    by (cases "''type'' \<in> set (map fld_name fs)") (auto simp: struct_type_def)
  then have "Ser ''type'' \<in> set ops" using names typed [OF assms(1)] by auto
  moreover have "distinct (map sop_field ops)"
    using programs_agree [OF assms(1)] program_ok_distinct by blast
  ultimately show ?thesis using struct_type_arrives [OF names _ _ assms(3)] by blast
qed

lemma xr_cleaned:
  assumes "\<And>x t. size x < size v \<Longrightarrow> cleaned E K c off (K_val (T_struct t)) x"
  shows "cleaned E K c off K_xr v"
  using assms
proof (induction "size v" arbitrary: v rule: less_induct)
  case less
  show ?case
    unfolding cleaned_def
  proof (rule impI, elim exE)
    fix bs assume ser: "ser E c K_xr v = Wrote bs"
    consider "v = V_null" | fs where "v = V_ref (V_struct fs)"
      using ser_xr_Ret [OF ser] by blast
    then show "clean E K K_xr (arr E c off K_xr v) = Ret (blocks (arr E c off K_xr v))"
    proof cases
      case 2
      then obtain ty where ty: "struct_type fs = Some ty"
        using ser by (cases "struct_type fs") auto
      show ?thesis
      proof (cases "ser_lookup E ty")
        case None
        then obtain nxt where n: "find_field fs ''next'' = Some nxt" "ser E c K_xr nxt = Wrote bs"
          using ser 2 ty by (auto split: if_splits option.splits)
        have "size nxt < size v" using find_field_size [OF n(1)] 2 by simp
        then have "cleaned E K c off K_xr nxt" using less.hyps less.prems by simp
        then show ?thesis using cleanedD n(2) 2 ty None n(1) by simp
      next
        case (Some t)
        obtain b where b: "ser E c (K_val (T_struct t)) (V_struct fs) = Wrote b"
          using ser 2 ty Some by (auto simp: wseq_Wrote_iff)
        then obtain ops where ops: "ser_program E t = Some ops"
          "run_sops (\<lambda>op v. ser_op E c (ser E c) t fs op v) ops fs = Wrote b"
          by (auto split: option.splits)
        let ?w = "arr E c off (K_val (T_struct t)) (V_struct fs)"
        let ?gs = "run_arr (\<lambda>op v. arr_op E c off (arr E c off) t fs op v) ops fs"
        have w: "?w = V_struct ?gs" using ops(1) by simp
        have "struct_type ?gs = Some ty" by (rule struct_type_of_program [OF ops ty])
        moreover have "clean E K (K_val (T_struct t)) ?w = Ret (blocks ?w)"
          using cleanedD [OF less.prems b] 2 by simp
        moreover have "arr E c off K_xr v = V_ref ?w" using 2 ty Some by simp
        ultimately show ?thesis using clean_lookups_agree [OF Some] w by simp
      qed
    qed simp
  qed
qed

lemma op_cleaned:
  assumes rec: "\<And>x ty. size x \<le> size v \<Longrightarrow> cleaned E K c off (K_val ty) x"
    and ser: "ser_op E c (ser E c) s all op v = Wrote bs"
    and time: "\<And>f. op = Ser_time f \<Longrightarrow> field_type E s f = T_prim 8"
    and counts: "\<And>g n. count_member op = Some g \<Longrightarrow> uint_field all g = Ret n \<Longrightarrow> uint_field all' g = Ret n"
    and no_array: "\<And>f k. op \<noteq> Ser_xr_array f k"
  shows "clean_op E K (clean E K) s all' (cop_of op) (arr_op E c off (arr E c off) s all op v)
     = Ret (blocks (arr_op E c off (arr E c off) s all op v))"
proof -
  have smaller: "cleaned E K c off (K_val ty) x" if "size x < size v" for x ty
    using rec that by simp
  show ?thesis
  proof (cases op)
    case (Ser f)
    then show ?thesis using cleanedD [OF rec [OF order_refl]] ser by simp
  next
    case (Ser_time f)
    then obtain b where "v = V_prim b" using ser by (cases v) (simp_all add: serialize_time_def)
    then show ?thesis using time [OF Ser_time] Ser_time by (simp add: arr_time_def)
  next
    case (Ser_xr f)
    then show ?thesis using cleanedD [OF xr_cleaned [OF smaller]] ser by simp
  next
    case (Ser_array f k)
    let ?ty = "K_val (field_type E s f)"
    obtain vs where vs: "pointee v = Some vs" "serialize_array (ser E c ?ty) (bound_value E k) vs = Wrote bs"
      using ser Ser_array by (auto split: option.splits)
    let ?ws = "map (arr E c off ?ty) (take (bound_value E k) vs)"
    have "clean E K ?ty w = Ret (blocks w)" if w: "w \<in> set ?ws" for w
    proof -
      obtain x where x: "x \<in> set (take (bound_value E k) vs)" "w = arr E c off ?ty x" using w by auto
      then obtain b where "ser E c ?ty x = Wrote b" using serialize_array_elems [OF vs(2)] by blast
      moreover have "size x < size v" using size_pointee [OF vs(1)] in_set_takeD [OF x(1)] by blast
      ultimately show ?thesis using cleanedD [OF smaller] x(2) by blast
    qed
    then have "cleanup_array (clean E K ?ty) 0 (bound_value E k) ?ws = Ret (indexed 0 (map blocks ?ws))"
      by (rule cleanup_array_blocks) (use serialize_array_length [OF vs(2)] in auto)
    then show ?thesis using Ser_array vs(1) by simp
  next
    case (Ser_ptr f k)
    then obtain len where len: "count_value E all k v = Ret len"
      "serialize_ptr (ser E c (K_val (field_type E s f))) len v = Wrote bs"
      using ser by (auto simp: won_Wrote_iff)
    have "uint_field all' g = Ret n" if "k = C_field g" "uint_field all g = Ret n" for g n
      by (rule counts [OF _ that(2)]) (simp add: Ser_ptr that(1) count_member_def)
    from ptr_cleaned [OF smaller len(2,1) this] show ?thesis using Ser_ptr len(1) by simp
  next
    case (Ser_xr_array f k)
    then show ?thesis using no_array by simp
  next
    case (Ser_ptr_each f g)
    let ?ty = "K_val (field_type E s f)"
    let ?cnt = "\<lambda>all x. count_value E all C_null_terminated x"
    let ?f = "\<lambda>x. won (?cnt all x) (\<lambda>len. serialize_ptr (ser E c ?ty) len x)"
    let ?a = "\<lambda>x. arr_ptr (arr E c off ?ty) (ret_or 0 (?cnt all x)) x"
    let ?g = "\<lambda>x. obind (?cnt all' x) (\<lambda>len. cleanup_ptr (clean E K ?ty) len x)"
    obtain n where n: "uint_field all g = Ret n" "serialize_each ?f n v = Wrote bs"
      using ser Ser_ptr_each by (auto simp: won_Wrote_iff simp del: uint_field.simps)
    obtain vs where vs: "arr_each ?a n v = V_ptr (map ?a vs)" "length vs = n"
      "\<forall>x\<in>set vs. size x < size v \<and> (\<exists>b. ?f x = Wrote b)"
      using serialize_each_elems [OF n(2), of ?a] by blast
    have "?g (?a x) = Ret (blocks (?a x))" if x: "x \<in> set vs" for x
    proof -
      obtain len b where len: "?cnt all x = Ret len" "serialize_ptr (ser E c ?ty) len x = Wrote b"
        using vs(3) x by (auto simp: won_Wrote_iff)
      have "cleaned E K c off (K_val t) y" if "size y < size x" for y t
        using smaller that vs(3) x by (meson order_less_trans)
      from ptr_cleaned [OF this len(2,1)] show ?thesis using len(1) by simp
    qed
    then have "cleanup_each ?g n (V_ptr (map ?a vs)) = Ret (blocks (V_ptr (map ?a vs)))"
      using cleanup_each_blocks [of "map ?a vs" ?g] vs(2) by auto
    moreover have "uint_field all' g = Ret n"
      by (rule counts [OF _ n(1)]) (simp add: Ser_ptr_each count_member_def)
    ultimately show ?thesis using Ser_ptr_each n(1) vs(1) by (simp del: uint_field.simps blocks.simps)
  next
    case (Ser_xr_each f g)
    obtain n where n: "uint_field all g = Ret n" "serialize_each (ser E c K_xr) n v = Wrote bs"
      using ser Ser_xr_each by (auto simp: won_Wrote_iff simp del: uint_field.simps)
    obtain vs where vs: "arr_each (arr E c off K_xr) n v = V_ptr (map (arr E c off K_xr) vs)" "length vs = n"
      "\<forall>x\<in>set vs. size x < size v \<and> (\<exists>b. ser E c K_xr x = Wrote b)"
      using serialize_each_elems [OF n(2), of "arr E c off K_xr"] by blast
    have "clean E K K_xr (arr E c off K_xr x) = Ret (blocks (arr E c off K_xr x))" if x: "x \<in> set vs" for x
    proof -
      have "cleaned E K c off (K_val (T_struct t)) y" if "size y < size x" for y t
        using smaller that vs(3) x by (meson order_less_trans)
      from xr_cleaned [OF this] show ?thesis using vs(3) x by (auto simp: cleaned_def)
    qed
    then have "cleanup_each (clean E K K_xr) n (V_ptr (map (arr E c off K_xr) vs))
        = Ret (blocks (V_ptr (map (arr E c off K_xr) vs)))"
      using cleanup_each_blocks [of "map (arr E c off K_xr) vs" "clean E K K_xr"] vs(2) by auto
    moreover have "uint_field all' g = Ret n"
      by (rule counts [OF _ n(1)]) (simp add: Ser_xr_each count_member_def)
    ultimately show ?thesis using Ser_xr_each n(1) vs(1) by (simp del: uint_field.simps blocks.simps)
  qed
qed

lemma indexed_Nil: "list_all (\<lambda>ps. ps = []) pss \<Longrightarrow> indexed i pss = []"
  by (induction i pss rule: indexed.induct) simp_all

lemma scalar_ser: "ser E c (K_val (T_prim n)) v = Wrote b \<Longrightarrow> \<exists>bs. v = V_prim bs"
  by (cases v) simp_all

lemma scalar_member_blocks:
  assumes "scalar_member E s op" "ser_op E c (ser E c) s all op v = Wrote bs"
  shows "blocks (arr_op E c off (arr E c off) s all op v) = []"
proof (cases op)
  case (Ser f)
  then obtain n where "field_type E s f = T_prim n" using assms(1) by (auto simp: scalar_member_def)
  then show ?thesis using assms(2) Ser scalar_ser by fastforce
next
  case (Ser_array f k)
  then obtain n where n: "field_type E s f = T_prim n" using assms(1) by (auto simp: scalar_member_def)
  then obtain vs where vs: "pointee v = Some vs" "serialize_array (ser E c (K_val (T_prim n))) (bound_value E k) vs = Wrote bs"
    using assms(2) Ser_array by (auto split: option.splits)
  have "list_all (\<lambda>ps. ps = []) (map blocks (map (arr E c off (K_val (T_prim n))) (take (bound_value E k) vs)))"
    unfolding list_all_iff
  proof
    fix ps assume "ps \<in> set (map blocks (map (arr E c off (K_val (T_prim n))) (take (bound_value E k) vs)))"
    then obtain x where x: "x \<in> set (take (bound_value E k) vs)" "ps = blocks (arr E c off (K_val (T_prim n)) x)"
      by auto
    obtain b where "x = V_prim b" using serialize_array_elems [OF vs(2) x(1)] scalar_ser by blast
    then show "ps = []" using x(2) by simp
  qed
  then have "indexed 0 (map blocks (map (arr E c off (K_val (T_prim n))) (take (bound_value E k) vs))) = []"
    by (rule indexed_Nil)
  then show ?thesis using Ser_array n vs(1) by simp
qed (use assms(1) in \<open>simp_all add: scalar_member_def\<close>)

lemma scalar_members_blocks:
  "list_all (scalar_member E s) ops \<Longrightarrow> run_sops (\<lambda>op v. ser_op E c (ser E c) s all op v) ops fs = Wrote bs \<Longrightarrow>
   concat (map blocks_fld (run_arr (\<lambda>op v. arr_op E c off (arr E c off) s all op v) ops fs)) = []"
proof (induction ops arbitrary: fs bs)
  case (Cons op ops)
  obtain v fs' where fs: "fs = Field (sop_field op) v # fs'"
    using run_sops_Cons [OF Cons.prems(2)] by blast
  then obtain b b' where "ser_op E c (ser E c) s all op v = Wrote b"
    "run_sops (\<lambda>op v. ser_op E c (ser E c) s all op v) ops fs' = Wrote b'"
    using Cons.prems(2) by (auto simp: wseq_Wrote_iff)
  then show ?case using Cons scalar_member_blocks [of s op c all v b off] fs by simp
qed simp

lemma blockless_blocks:
  assumes "blockless E ty" "ser E c (K_val ty) v = Wrote bs"
  shows "blocks (arr E c off (K_val ty) v) = []"
proof (cases ty)
  case (T_prim n)
  then show ?thesis using assms(2) by (cases v) simp_all
next
  case (T_struct s)
  then obtain fs ops where "v = V_struct fs" "ser_program E s = Some ops" "list_all (scalar_member E s) ops"
    using assms by (cases v) (auto simp: blockless_def)
  then show ?thesis using T_struct assms(2) scalar_members_blocks [of s ops c fs fs bs off] by simp
qed

lemma find_field_middle:
  "distinct (map fld_name (xs @ Field f v # ys)) \<Longrightarrow> find_field (xs @ Field f v # ys) f = Some v"
  by (induction xs) (auto simp: find_field_append find_field_fresh fld_name_def split: fld.splits)

lemma ops_cleaned:
  assumes rec: "\<And>x ty. size x < Suc (size_list size fs) \<Longrightarrow> cleaned E K c off (K_val ty) x"
    and ser: "run_sops (\<lambda>op v. ser_op E c (ser E c) s all op v) ops fs = Wrote bs"
    and cov: "covers (\<lambda>f. blockless E (field_type E s f)) ops cops"
    and time: "\<And>f. Ser_time f \<in> set ops \<Longrightarrow> field_type E s f = T_prim 8"
    and counts: "\<And>op g n. op \<in> set ops \<Longrightarrow> count_member op = Some g \<Longrightarrow> uint_field all g = Ret n \<Longrightarrow>
      uint_field all' g = Ret n"
    and no_array: "\<And>f k. Ser_xr_array f k \<notin> set ops"
    and all': "all' = pre @ run_arr (\<lambda>op v. arr_op E c off (arr E c off) s all op v) ops fs"
      "distinct (map fld_name all')"
  shows "run_cops (\<lambda>op v. clean_op E K (clean E K) s all' op v) all' cops
     = Ret (concat (map blocks_fld (run_arr (\<lambda>op v. arr_op E c off (arr E c off) s all op v) ops fs)))"
  using rec ser cov time counts no_array all'(1)
proof (induction ops arbitrary: fs bs cops pre)
  case Nil
  then have "fs = []" "cops = []" by (cases fs; simp)+
  then show ?case by simp
next
  case (Cons op ops)
  let ?A = "\<lambda>op v. arr_op E c off (arr E c off) s all op v"
  let ?C = "\<lambda>op v. clean_op E K (clean E K) s all' op v"
  obtain v fs' where fs: "fs = Field (sop_field op) v # fs'"
    using run_sops_Cons [OF Cons.prems(2)] by blast
  then obtain b1 b2 where b: "ser_op E c (ser E c) s all op v = Wrote b1"
    "run_sops (\<lambda>op v. ser_op E c (ser E c) s all op v) ops fs' = Wrote b2"
    using Cons.prems(2) by (auto simp: wseq_Wrote_iff)
  have rest: "run_cops ?C all' cs = Ret (concat (map blocks_fld (run_arr ?A ops fs')))"
    if "covers (\<lambda>f. blockless E (field_type E s f)) ops cs" for cs
  proof (rule Cons.IH [OF _ b(2) that, of "pre @ [Field (sop_field op) (?A op v)]"])
    show "cleaned E K c off (K_val ty) x" if "size x < Suc (size_list size fs')" for x ty
      using Cons.prems(1) [of x ty] that fs by simp
    show "uint_field all' g = Ret n" if "op' \<in> set ops" "count_member op' = Some g" "uint_field all g = Ret n" for op' g n
      using Cons.prems(5) [of op' g n] that by (simp del: uint_field.simps)
  qed (use Cons.prems(4,6,7) fs in auto)
  have here: "?C (cop_of op) (?A op v) = Ret (blocks (?A op v))"
  proof (rule op_cleaned [OF _ b(1)])
    show "cleaned E K c off (K_val ty) x" if "size x \<le> size v" for x ty
      using Cons.prems(1) [of x ty] that fs by simp
    show "uint_field all' g = Ret n" if "count_member op = Some g" "uint_field all g = Ret n" for g n
      using Cons.prems(5) [of op g n] that by (simp del: uint_field.simps)
  qed (use Cons.prems(4,6) in auto)
  have found: "find_field all' (sop_field op) = Some (?A op v)"
    using all'(2) unfolding Cons.prems(7) fs by (simp add: find_field_middle)
  from Cons.prems(3) consider cs where "cops = cop_of op # cs" "covers (\<lambda>f. blockless E (field_type E s f)) ops cs"
    | f where "op = Ser f" "blockless E (field_type E s f)" "covers (\<lambda>f. blockless E (field_type E s f)) ops cops"
    | f where "op = Ser_time f" "covers (\<lambda>f. blockless E (field_type E s f)) ops cops"
    by (auto split: list.splits sop.splits)
  then show ?case
  proof cases
    case 1
    then show ?thesis using rest here found fs by simp
  next
    case 2
    then have "blocks (?A op v) = []" using blockless_blocks b(1) by simp
    then show ?thesis using rest [OF 2(3)] fs by simp
  next
    case 3
    then have "blocks (?A op v) = []" using b(1) by (cases v) (simp_all add: serialize_time_def arr_time_def)
    then show ?thesis using rest [OF 3(2)] fs by simp
  qed
qed

text \<open>What could be written is cleaned exactly after it has been read into fresh memory.\<close>

lemma value_cleaned: "times_ok E \<Longrightarrow> skips_ok E skipped \<Longrightarrow> cleaned E K c off (K_val ty) v"
proof (induction "size v" arbitrary: v ty rule: less_induct)
  case less
  show ?case
    unfolding cleaned_def
  proof (rule impI, elim exE)
    fix bs assume ser: "ser E c (K_val ty) v = Wrote bs"
    show "clean E K (K_val ty) (arr E c off (K_val ty) v) = Ret (blocks (arr E c off (K_val ty) v))"
    proof (cases ty)
      case (T_prim n)
      then show ?thesis using ser by (cases v) simp_all
    next
      case (T_struct s)
      obtain fs where fs: "v = V_struct fs" using ser T_struct by (cases v) simp_all
      obtain ops where ops: "ser_program E s = Some ops"
        "run_sops (\<lambda>op v. ser_op E c (ser E c) s fs op v) ops fs = Wrote bs"
        using ser T_struct fs by (auto split: option.splits)
      obtain cops where "clean_program K s = Some cops" "covers (\<lambda>f. f \<in> set (skipped s)) ops cops" "counts_ok ops"
        using cleaners_agree [OF ops(1)] by blast
      moreover from this have "covers (\<lambda>f. blockless E (field_type E s f)) ops cops"
        using less.prems(2) covers_mono [of "\<lambda>f. f \<in> set (skipped s)" "\<lambda>f. blockless E (field_type E s f)" ops cops]
        by (simp add: skips_ok_def)
      ultimately have cops: "clean_program K s = Some cops"
        "covers (\<lambda>f. blockless E (field_type E s f)) ops cops" "counts_ok ops" by blast+
      have ok: "distinct (map sop_field ops)" "\<forall>f k. Ser_xr_array f k \<notin> set ops"
        using programs_agree [OF ops(1)] program_ok_distinct by blast+
      have names: "map fld_name fs = map sop_field ops" by (rule run_sops_names [OF ops(2)])
      let ?gs = "run_arr (\<lambda>op v. arr_op E c off (arr E c off) s fs op v) ops fs"
      have "run_cops (\<lambda>op v. clean_op E K (clean E K) s ?gs op v) ?gs cops = Ret (concat (map blocks_fld ?gs))"
      proof (rule ops_cleaned [OF _ ops(2) cops(2), where pre = "[]"])
        show "cleaned E K c off (K_val t) x" if "size x < Suc (size_list size fs)" for x t
          using less that fs by simp
        show "field_type E s f = T_prim 8" if "Ser_time f \<in> set ops" for f
          using less.prems(1) ops(1) that by (simp add: times_ok_def)
        show "uint_field ?gs g = Ret n" if "op \<in> set ops" "count_member op = Some g" "uint_field fs g = Ret n" for op g n
        proof (rule uint_field_arrives [OF names ok(1) _ that(3)])
          show "Ser g \<in> set ops" using cops(3) that(1,2) by (auto simp: counts_ok_def)
        qed
        show "distinct (map fld_name ?gs)"
          using run_arr_names [OF names] ok(1) by simp
      qed (use ok(2) in auto)
      then show ?thesis using T_struct fs ops(1) cops(1) by simp
    qed
  qed
qed

lemma chain_cleaned: "times_ok E \<Longrightarrow> skips_ok E skipped \<Longrightarrow> cleaned E K c off K_xr v"
  by (rule xr_cleaned) (rule value_cleaned)

section \<open>No block twice\<close>

lemma members_flds:
  "run_sops (\<lambda>op v. ser_op E c (ser E c) s all op v) ops fs = Wrote bs \<Longrightarrow>
   (\<And>op v b. op \<in> set ops \<Longrightarrow> size v < Suc (size_list size fs) \<Longrightarrow>
     ser_op E c (ser E c) s all op v = Wrote b \<Longrightarrow> distinct_members (a op v)) \<Longrightarrow>
   list_all distinct_members_fld (run_arr a ops fs)"
proof (induction ops arbitrary: fs bs)
  case (Cons op ops)
  obtain v fs' where fs: "fs = Field (sop_field op) v # fs'"
    using run_sops_Cons [OF Cons.prems(1)] by blast
  then obtain b b' where b: "ser_op E c (ser E c) s all op v = Wrote b"
    "run_sops (\<lambda>op v. ser_op E c (ser E c) s all op v) ops fs' = Wrote b'"
    using Cons.prems(1) by (auto simp: wseq_Wrote_iff)
  have "distinct_members (a op' x)"
    if "op' \<in> set ops" "size x < Suc (size_list size fs')" "ser_op E c (ser E c) s all op' x = Wrote b''" for op' x b''
    using Cons.prems(2) [of op' x b''] that fs by simp
  then have "list_all distinct_members_fld (run_arr a ops fs')" using Cons.IH [OF b(2)] by blast
  moreover have "distinct_members (a op v)" using Cons.prems(2) [of op v b] b(1) fs by simp
  ultimately show ?case using fs by simp
qed simp

lemma ptr_members:
  assumes "\<And>x b. size x < size v \<Longrightarrow> f x = Wrote b \<Longrightarrow> distinct_members (a x)"
    and "serialize_ptr f len v = Wrote bs"
  shows "distinct_members (arr_ptr a len v)"
proof (cases "arr_ptr a len v = V_null")
  case False
  then obtain vs where vs: "pointee v = Some vs" "arr_ptr a len v = V_ptr (map a (take len vs))"
    "\<forall>x\<in>set (take len vs). \<exists>b. f x = Wrote b"
    using serialize_ptr_elems [OF assms(2), of a] by blast
  have "distinct_members (a x)" if "x \<in> set (take len vs)" for x
    using that vs(3) assms(1) [of x] size_pointee [OF vs(1), of x] in_set_takeD by metis
  then show ?thesis using vs(2) by (simp add: list_all_iff)
qed simp

lemma each_members:
  assumes "\<And>x b. size x < size v \<Longrightarrow> f x = Wrote b \<Longrightarrow> distinct_members (a x)"
    and "serialize_each f n v = Wrote bs"
  shows "distinct_members (arr_each a n v)"
proof -
  obtain vs where "arr_each a n v = V_ptr (map a vs)" "\<forall>x\<in>set vs. size x < size v \<and> (\<exists>b. f x = Wrote b)"
    using serialize_each_elems [OF assms(2), of a] by blast
  then show ?thesis using assms(1) unfolding list_all_iff by (simp add: list_all_iff) blast
qed

lemma op_members:
  assumes rec: "\<And>k x b. size x \<le> size v \<Longrightarrow> ser E c k x = Wrote b \<Longrightarrow> distinct_members (arr E c off k x)"
    and ser: "ser_op E c (ser E c) s all op v = Wrote bs" and no_array: "\<And>f k. op \<noteq> Ser_xr_array f k"
  shows "distinct_members (arr_op E c off (arr E c off) s all op v)"
proof (cases op)
  case (Ser_time f)
  then show ?thesis using ser by (cases v) (simp_all add: serialize_time_def arr_time_def)
next
  case (Ser_array f k)
  let ?ty = "K_val (field_type E s f)"
  obtain vs where vs: "pointee v = Some vs" "serialize_array (ser E c ?ty) (bound_value E k) vs = Wrote bs"
    using ser Ser_array by (auto split: option.splits)
  have "distinct_members (arr E c off ?ty x)" if x: "x \<in> set (take (bound_value E k) vs)" for x
  proof -
    have "size x \<le> size v" using size_pointee [OF vs(1) in_set_takeD [OF x]] by simp
    then show ?thesis using rec serialize_array_elems [OF vs(2) x] by blast
  qed
  then show ?thesis using Ser_array vs(1) by (simp add: list_all_iff)
next
  case (Ser_ptr f k)
  then obtain len where "count_value E all k v = Ret len"
    "serialize_ptr (ser E c (K_val (field_type E s f))) len v = Wrote bs"
    using ser by (auto simp: won_Wrote_iff)
  then show ?thesis using ptr_members [OF rec [OF less_imp_le]] Ser_ptr by simp
next
  case (Ser_ptr_each f g)
  let ?ty = "K_val (field_type E s f)"
  let ?cnt = "\<lambda>x. count_value E all C_null_terminated x"
  let ?f = "\<lambda>x. won (?cnt x) (\<lambda>len. serialize_ptr (ser E c ?ty) len x)"
  let ?a = "\<lambda>x. arr_ptr (arr E c off ?ty) (ret_or 0 (?cnt x)) x"
  obtain n where n: "uint_field all g = Ret n" "serialize_each ?f n v = Wrote bs"
    using ser Ser_ptr_each by (auto simp: won_Wrote_iff simp del: uint_field.simps)
  have "distinct_members (?a x)" if "size x < size v" "?f x = Wrote b" for x b
  proof -
    obtain len where len: "?cnt x = Ret len" "serialize_ptr (ser E c ?ty) len x = Wrote b"
      using \<open>?f x = Wrote b\<close> by (auto simp: won_Wrote_iff)
    have "distinct_members (arr E c off ?ty y)" if "size y < size x" "ser E c ?ty y = Wrote b'" for y b'
      using rec [of y ?ty b'] that \<open>size x < size v\<close> by simp
    from ptr_members [of x "ser E c ?ty", OF this len(2)] show ?thesis using len(1) by simp
  qed
  from each_members [of v ?f ?a, OF this n(2)] show ?thesis using Ser_ptr_each n(1) by (simp del: uint_field.simps)
next
  case (Ser_xr_each f g)
  then obtain n where n: "uint_field all g = Ret n" "serialize_each (ser E c K_xr) n v = Wrote bs"
    using ser by (auto simp: won_Wrote_iff simp del: uint_field.simps)
  from each_members [of v _ "arr E c off K_xr", OF rec [OF less_imp_le] n(2)] show ?thesis
    using Ser_xr_each n(1) by (simp del: uint_field.simps)
qed (use assms in auto)

lemma value_members: "ser E c k v = Wrote bs \<Longrightarrow> distinct_members (arr E c off k v)"
proof (induction "size v" arbitrary: v k bs rule: less_induct)
  case less
  have IH: "distinct_members (arr E c off k' x)" if "size x < size v" "ser E c k' x = Wrote b" for x k' b
    by (rule less.hyps [OF that])
  show ?case
  proof (cases k)
    case (K_val ty)
    show ?thesis
    proof (cases ty)
      case (T_prim n)
      then show ?thesis using less.prems K_val by (cases v) simp_all
    next
      case (T_struct s)
      obtain fs where fs: "v = V_struct fs" using less.prems T_struct K_val by (cases v) simp_all
      obtain ops where ops: "ser_program E s = Some ops"
        "run_sops (\<lambda>op v. ser_op E c (ser E c) s fs op v) ops fs = Wrote bs"
        using less.prems T_struct K_val fs by (auto split: option.splits)
      have ok: "distinct (map sop_field ops)" "\<forall>f k. Ser_xr_array f k \<notin> set ops"
        using programs_agree [OF ops(1)] program_ok_distinct by blast+
      let ?a = "\<lambda>op v. arr_op E c off (arr E c off) s fs op v"
      have "list_all distinct_members_fld (run_arr ?a ops fs)"
      proof (rule members_flds [OF ops(2)])
        fix op x b
        assume op: "op \<in> set ops" "size x < Suc (size_list size fs)" "ser_op E c (ser E c) s fs op x = Wrote b"
        show "distinct_members (?a op x)"
          by (rule op_members [OF _ op(3)], rule IH) (use op(1,2) fs ok(2) in auto)
      qed
      moreover have "distinct (map fld_name (run_arr ?a ops fs))"
        using run_arr_names [OF run_sops_names [OF ops(2)]] ok(1) by simp
      ultimately show ?thesis using K_val T_struct fs ops(1) by simp
    qed
  next
    case K_xr
    consider "v = V_null" | fs where "v = V_ref (V_struct fs)"
      using ser_xr_Ret less.prems K_xr by blast
    then show ?thesis
    proof cases
      case 2
      then obtain ty where ty: "struct_type fs = Some ty"
        using less.prems K_xr by (cases "struct_type fs") auto
      show ?thesis
      proof (cases "ser_lookup E ty")
        case None
        then obtain nxt where n: "find_field fs ''next'' = Some nxt" "ser E c K_xr nxt = Wrote bs"
          using less.prems K_xr 2 ty by (auto split: if_splits option.splits)
        have "size nxt < size v" using find_field_size [OF n(1)] 2 by simp
        then show ?thesis using IH [OF _ n(2)] K_xr 2 ty None n(1) by simp
      next
        case (Some t)
        then obtain b where "ser E c (K_val (T_struct t)) (V_struct fs) = Wrote b"
          using less.prems K_xr 2 ty by (auto simp: wseq_Wrote_iff)
        moreover have "size (V_struct fs) < size v" using 2 by simp
        ultimately have "distinct_members (arr E c off (K_val (T_struct t)) (V_struct fs))" using IH by blast
        then show ?thesis using K_xr 2 ty Some by simp
      qed
    qed (use K_xr in simp)
  qed
qed

text \<open>Each block once, and nothing else.\<close>

lemma freed_exactly:
  assumes "times_ok E" "skips_ok E skipped" "ser E c k v = Wrote bs"
  shows "clean E K k (arr E c off k v) = Ret (blocks (arr E c off k v)) \<and> distinct (blocks (arr E c off k v))"
proof -
  have "cleaned E K c off k v"
    using value_cleaned [OF assms(1,2)] chain_cleaned [OF assms(1,2)] by (cases k) simp_all
  then show ?thesis using cleanedD assms(3) distinct_blocks [OF value_members [OF assms(3)]] by blast
qed

text \<open>The members of a parameter list\<close>

lemma fields_freed:
  fixes c off s fs ops
  defines "gs \<equiv> run_arr (\<lambda>op v. arr_op E c off (arr E c off) s fs op v) ops fs"
  assumes "times_ok E" "skips_ok E skipped" "\<And>f. Ser_time f \<in> set ops \<Longrightarrow> field_type E s f = T_prim 8"
    and ops: "run_sops (\<lambda>op v. ser_op E c (ser E c) s fs op v) ops fs = Wrote bs" "program_ok [] [] ops" "counts_ok ops"
  shows "run_cops (\<lambda>op v. clean_op E K (clean E K) s gs op v) gs (map cop_of ops) = Ret (concat (map blocks_fld gs))
    \<and> distinct (concat (map blocks_fld gs))"
proof
  have ok: "distinct (map sop_field ops)" "\<forall>f k. Ser_xr_array f k \<notin> set ops"
    using program_ok_distinct [OF ops(2)] by blast+
  have names: "map fld_name fs = map sop_field ops" by (rule run_sops_names [OF ops(1)])
  then have names': "map fld_name gs = map sop_field ops" unfolding gs_def by (rule run_arr_names)
  show "run_cops (\<lambda>op v. clean_op E K (clean E K) s gs op v) gs (map cop_of ops) = Ret (concat (map blocks_fld gs))"
    unfolding gs_def
  proof (rule ops_cleaned [OF _ ops(1) covers_same, where pre = "[]"])
    show "cleaned E K c off (K_val ty) x" for x ty by (rule value_cleaned [OF assms(2,3)])
    show "uint_field (run_arr (\<lambda>op v. arr_op E c off (arr E c off) s fs op v) ops fs) g = Ret n"
      if "op \<in> set ops" "count_member op = Some g" "uint_field fs g = Ret n" for op g n
    proof (rule uint_field_arrives [OF names ok(1) _ that(3)])
      show "Ser g \<in> set ops" using ops(3) that(1,2) by (auto simp: counts_ok_def)
    qed
    show "distinct (map fld_name (run_arr (\<lambda>op v. arr_op E c off (arr E c off) s fs op v) ops fs))"
      using names' ok(1) by (simp add: gs_def)
  qed (use assms(4) ok(2) in auto)
  have "list_all distinct_members_fld gs"
    unfolding gs_def
  proof (rule members_flds [OF ops(1)])
    fix op x b
    assume op: "op \<in> set ops" "ser_op E c (ser E c) s fs op x = Wrote b"
    show "distinct_members (arr_op E c off (arr E c off) s fs op x)"
      by (rule op_members [OF value_members op(2)]) (use ok(2) op(1) in auto)
  qed
  then have "distinct_members (V_struct gs)" using names' ok(1) by simp
  from distinct_blocks [OF this] show "distinct (concat (map blocks_fld gs))" by simp
qed

end

end
