(* ===== verification/Ext_Serializers.thy ===== *)
theory Ext_Serializers
  imports Serialization
begin

text \<open>
  The struct serializers of the extensions, the blocks of \<open>src/common/serialization/serializer.cpp\<close>
  that are compiled when \<open>XRTRANSPORT_EXT_<name>\<close> is defined: for each block its structs in order,
  with the statements of the function and the number of times in a row that the file defines it.
  Left out are the base headers, which are only reached through \<open>serialize_xr\<close>, and two structs
  whose functions hold an \<open>#error\<close> line.
\<close>

definition ext_serializers_1 :: "(string \<times> (nat \<times> string \<times> sop list) list) list" where
  "ext_serializers_1 =
   [(''XR_ALMALENCE_digital_lens_control'',
     [(1, ''XrDigitalLensControlALMALENCE'',
       [Ser ''type'', Ser_xr ''next'', Ser ''flags''])]),
    (''XR_BD_body_tracking'',
     [(1, ''XrBodyJointLocationBD'',
       [Ser ''locationFlags'', Ser ''pose'']),
      (2, ''XrBodyJointLocationsBD'',
       [Ser ''type'', Ser_xr ''next'', Ser ''allJointPosesTracked'',
        Ser ''jointLocationCount'', Ser_ptr ''jointLocations'' (C_field ''jointLocationCount'')]),
      (2, ''XrBodyJointsLocateInfoBD'',
       [Ser ''type'', Ser_xr ''next'', Ser ''baseSpace'', Ser_time ''time'']),
      (2, ''XrBodyTrackerCreateInfoBD'',
       [Ser ''type'', Ser_xr ''next'', Ser ''jointSet'']),
      (2, ''XrSystemBodyTrackingPropertiesBD'',
       [Ser ''type'', Ser_xr ''next'', Ser ''supportsBodyTracking''])]),
    (''XR_BD_future_progress'',
     [(2, ''XrFuturePollResultProgressBD'',
       [Ser ''type'', Ser_xr ''next'', Ser ''isSupported'', Ser ''progressPercentage''])]),
    (''XR_BD_spatial_anchor'',
     [(2, ''XrSpatialAnchorCreateCompletionBD'',
       [Ser ''type'', Ser_xr ''next'', Ser ''futureResult'', Ser ''anchor'', Ser ''uuid'']),
      (2, ''XrSpatialAnchorCreateInfoBD'',
       [Ser ''type'', Ser_xr ''next'', Ser ''space'', Ser ''pose'', Ser_time ''time'']),
      (2, ''XrSpatialAnchorPersistInfoBD'',
       [Ser ''type'', Ser_xr ''next'', Ser ''location'', Ser ''anchor''])])]"

definition ext_serializers_2 :: "(string \<times> (nat \<times> string \<times> sop list) list) list" where
  "ext_serializers_2 =
   [(''XR_BD_spatial_anchor'',
     [(2, ''XrSpatialAnchorUnpersistInfoBD'',
       [Ser ''type'', Ser_xr ''next'', Ser ''location'', Ser ''anchor'']),
      (2, ''XrSystemSpatialAnchorPropertiesBD'',
       [Ser ''type'', Ser_xr ''next'', Ser ''supportsSpatialAnchor''])]),
    (''XR_BD_spatial_anchor_sharing'',
     [(2, ''XrSharedSpatialAnchorDownloadInfoBD'',
       [Ser ''type'', Ser_xr ''next'', Ser ''uuid'']),
      (2, ''XrSpatialAnchorShareInfoBD'',
       [Ser ''type'', Ser_xr ''next'', Ser ''anchor'']),
      (2, ''XrSystemSpatialAnchorSharingPropertiesBD'',
       [Ser ''type'', Ser_xr ''next'', Ser ''supportsSpatialAnchorSharing''])]),
    (''XR_BD_spatial_mesh'',
     [(2, ''XrSenseDataProviderCreateInfoSpatialMeshBD'',
       [Ser ''type'', Ser_xr ''next'', Ser ''configFlags'', Ser ''lod'']),
      (2, ''XrSystemSpatialMeshPropertiesBD'',
       [Ser ''type'', Ser_xr ''next'', Ser ''supportsSpatialMesh''])]),
    (''XR_BD_spatial_scene'',
     [(2, ''XrSceneCaptureInfoBD'',
       [Ser ''type'', Ser_xr ''next'']),
      (2, ''XrSystemSpatialScenePropertiesBD'',
       [Ser ''type'', Ser_xr ''next'', Ser ''supportsSpatialScene''])]),
    (''XR_BD_spatial_sensing'',
     [(2, ''XrAnchorSpaceCreateInfoBD'',
       [Ser ''type'', Ser_xr ''next'', Ser ''anchor'', Ser ''poseInAnchorSpace''])])]"

definition ext_serializers_3 :: "(string \<times> (nat \<times> string \<times> sop list) list) list" where
  "ext_serializers_3 =
   [(''XR_BD_spatial_sensing'',
     [(2, ''XrEventDataSenseDataProviderStateChangedBD'',
       [Ser ''type'', Ser_xr ''next'', Ser ''provider'', Ser ''newState'']),
      (2, ''XrEventDataSenseDataUpdatedBD'',
       [Ser ''type'', Ser_xr ''next'', Ser ''provider'']),
      (2, ''XrQueriedSenseDataBD'',
       [Ser ''type'', Ser_xr ''next'', Ser ''stateCapacityInput'', Ser ''stateCountOutput'',
        Ser_ptr ''states'' (C_field ''stateCapacityInput'')]),
      (2, ''XrQueriedSenseDataGetInfoBD'',
       [Ser ''type'', Ser_xr ''next'']),
      (2, ''XrSenseDataFilterSemanticBD'',
       [Ser ''type'', Ser_xr ''next'', Ser ''labelCount'',
        Ser_ptr ''labels'' (C_field ''labelCount'')]),
      (2, ''XrSenseDataFilterUuidBD'',
       [Ser ''type'', Ser_xr ''next'', Ser ''uuidCount'',
        Ser_ptr ''uuids'' (C_field ''uuidCount'')]),
      (2, ''XrSenseDataProviderCreateInfoBD'',
       [Ser ''type'', Ser_xr ''next'', Ser ''providerType'']),
      (2, ''XrSenseDataProviderStartInfoBD'',
       [Ser ''type'', Ser_xr ''next'']),
      (2, ''XrSenseDataQueryCompletionBD'',
       [Ser ''type'', Ser_xr ''next'', Ser ''futureResult'', Ser ''snapshot'']),
      (2, ''XrSenseDataQueryInfoBD'',
       [Ser ''type'', Ser_xr ''next''])])]"

definition ext_serializers_4 :: "(string \<times> (nat \<times> string \<times> sop list) list) list" where
  "ext_serializers_4 =
   [(''XR_BD_spatial_sensing'',
     [(2, ''XrSpatialEntityAnchorCreateInfoBD'',
       [Ser ''type'', Ser_xr ''next'', Ser ''snapshot'', Ser ''entityId''])])]"

definition ext_serializers_5 :: "(string \<times> (nat \<times> string \<times> sop list) list) list" where
  "ext_serializers_5 =
   [(''XR_BD_spatial_sensing'',
     [(2, ''XrSpatialEntityComponentDataBoundingBox2DBD'',
       [Ser ''type'', Ser_xr ''next'', Ser ''boundingBox2D'']),
      (2, ''XrSpatialEntityComponentDataBoundingBox3DBD'',
       [Ser ''type'', Ser_xr ''next'', Ser ''boundingBox3D'']),
      (2, ''XrSpatialEntityComponentDataLocationBD'',
       [Ser ''type'', Ser_xr ''next'', Ser ''location'']),
      (2, ''XrSpatialEntityComponentDataPolygonBD'',
       [Ser ''type'', Ser_xr ''next'', Ser ''vertexCapacityInput'', Ser ''vertexCountOutput'',
        Ser_ptr ''vertices'' (C_field ''vertexCapacityInput'')]),
      (2, ''XrSpatialEntityComponentDataSemanticBD'',
       [Ser ''type'', Ser_xr ''next'', Ser ''labelCapacityInput'', Ser ''labelCountOutput'',
        Ser_ptr ''labels'' (C_field ''labelCapacityInput'')]),
      (2, ''XrSpatialEntityComponentDataTriangleMeshBD'',
       [Ser ''type'', Ser_xr ''next'', Ser ''vertexCapacityInput'', Ser ''vertexCountOutput'',
        Ser_ptr ''vertices'' (C_field ''vertexCapacityInput''), Ser ''indexCapacityInput'',
        Ser ''indexCountOutput'', Ser_ptr ''indices'' (C_field ''indexCapacityInput'')]),
      (2, ''XrSpatialEntityComponentGetInfoBD'',
       [Ser ''type'', Ser_xr ''next'', Ser ''entityId'', Ser ''componentType'']),
      (2, ''XrSpatialEntityLocationGetInfoBD'',
       [Ser ''type'', Ser_xr ''next'', Ser ''baseSpace'']),
      (2, ''XrSpatialEntityStateBD'',
       [Ser ''type'', Ser_xr ''next'', Ser ''entityId'', Ser_time ''lastUpdateTime'',
        Ser ''uuid''])])]"

definition ext_serializers_6 :: "(string \<times> (nat \<times> string \<times> sop list) list) list" where
  "ext_serializers_6 =
   [(''XR_BD_spatial_sensing'',
     [(2, ''XrSystemSpatialSensingPropertiesBD'',
       [Ser ''type'', Ser_xr ''next'', Ser ''supportsSpatialSensing''])]),
    (''XR_EPIC_view_configuration_fov'',
     [(2, ''XrViewConfigurationViewFovEPIC'',
       [Ser ''type'', Ser_xr ''next'', Ser ''recommendedFov'', Ser ''maxMutableFov''])]),
    (''XR_EXTX_overlay'',
     [(2, ''XrEventDataMainSessionVisibilityChangedEXTX'',
       [Ser ''type'', Ser_xr ''next'', Ser ''visible'', Ser ''flags'']),
      (2, ''XrSessionCreateInfoOverlayEXTX'',
       [Ser ''type'', Ser_xr ''next'', Ser ''createFlags'', Ser ''sessionLayersPlacement''])]),
    (''XR_EXT_active_action_set_priority'',
     [(2, ''XrActiveActionSetPrioritiesEXT'',
       [Ser ''type'', Ser_xr ''next'', Ser ''actionSetPriorityCount'',
        Ser_ptr ''actionSetPriorities'' (C_field ''actionSetPriorityCount'')]),
      (1, ''XrActiveActionSetPriorityEXT'',
       [Ser ''actionSet'', Ser ''priorityOverride''])]),
    (''XR_EXT_debug_utils'',
     [(2, ''XrDebugUtilsLabelEXT'',
       [Ser ''type'', Ser_xr ''next'', Ser_ptr ''labelName'' C_null_terminated]),
      (2, ''XrDebugUtilsMessengerCallbackDataEXT'',
       [Ser ''type'', Ser_xr ''next'', Ser_ptr ''messageId'' C_null_terminated,
        Ser_ptr ''functionName'' C_null_terminated, Ser_ptr ''message'' C_null_terminated,
        Ser ''objectCount'', Ser_ptr ''objects'' (C_field ''objectCount''),
        Ser ''sessionLabelCount'', Ser_ptr ''sessionLabels'' (C_field ''sessionLabelCount'')]),
      (2, ''XrDebugUtilsMessengerCreateInfoEXT'',
       [Ser ''type'', Ser_xr ''next'', Ser ''messageSeverities'', Ser ''messageTypes'',
        Ser ''userCallback'', Ser_ptr ''userData'' C_one])])]"

definition ext_serializers_7 :: "(string \<times> (nat \<times> string \<times> sop list) list) list" where
  "ext_serializers_7 =
   [(''XR_EXT_debug_utils'',
     [(2, ''XrDebugUtilsObjectNameInfoEXT'',
       [Ser ''type'', Ser_xr ''next'', Ser ''objectType'', Ser ''objectHandle'',
        Ser_ptr ''objectName'' C_null_terminated])]),
    (''XR_EXT_dpad_binding'',
     [(2, ''XrInteractionProfileDpadBindingEXT'',
       [Ser ''type'', Ser_xr ''next'', Ser ''binding'', Ser ''actionSet'',
        Ser ''forceThreshold'', Ser ''forceThresholdReleased'', Ser ''centerRegion'',
        Ser ''wedgeAngle'', Ser ''isSticky'', Ser_xr ''onHaptic'', Ser_xr ''offHaptic''])]),
    (''XR_EXT_eye_gaze_interaction'',
     [(2, ''XrEyeGazeSampleTimeEXT'',
       [Ser ''type'', Ser_xr ''next'', Ser_time ''time'']),
      (2, ''XrSystemEyeGazeInteractionPropertiesEXT'',
       [Ser ''type'', Ser_xr ''next'', Ser ''supportsEyeGazeInteraction''])]),
    (''XR_EXT_frame_synthesis'',
     [(2, ''XrFrameSynthesisConfigViewEXT'',
       [Ser ''type'', Ser_xr ''next'', Ser ''recommendedMotionVectorImageRectWidth'',
        Ser ''recommendedMotionVectorImageRectHeight'']),
      (2, ''XrFrameSynthesisInfoEXT'',
       [Ser ''type'', Ser_xr ''next'', Ser ''layerFlags'', Ser ''motionVectorSubImage'',
        Ser ''motionVectorScale'', Ser ''motionVectorOffset'', Ser ''appSpaceDeltaPose'',
        Ser ''depthSubImage'', Ser ''minDepth'', Ser ''maxDepth'', Ser ''nearZ'', Ser ''farZ''])]),
    (''XR_EXT_future'',
     [(2, ''XrFutureCancelInfoEXT'',
       [Ser ''type'', Ser_xr ''next'', Ser ''future''])])]"

definition ext_serializers_8 :: "(string \<times> (nat \<times> string \<times> sop list) list) list" where
  "ext_serializers_8 =
   [(''XR_EXT_future'',
     [(2, ''XrFutureCompletionEXT'',
       [Ser ''type'', Ser_xr ''next'', Ser ''futureResult'']),
      (2, ''XrFuturePollInfoEXT'',
       [Ser ''type'', Ser_xr ''next'', Ser ''future'']),
      (2, ''XrFuturePollResultEXT'',
       [Ser ''type'', Ser_xr ''next'', Ser ''state''])]),
    (''XR_EXT_hand_joints_motion_range'',
     [(2, ''XrHandJointsMotionRangeInfoEXT'',
       [Ser ''type'', Ser_xr ''next'', Ser ''handJointsMotionRange''])]),
    (''XR_EXT_hand_tracking'',
     [(1, ''XrHandJointLocationEXT'',
       [Ser ''locationFlags'', Ser ''pose'', Ser ''radius'']),
      (2, ''XrHandJointLocationsEXT'',
       [Ser ''type'', Ser_xr ''next'', Ser ''isActive'', Ser ''jointCount'',
        Ser_ptr ''jointLocations'' (C_field ''jointCount'')]),
      (2, ''XrHandJointVelocitiesEXT'',
       [Ser ''type'', Ser_xr ''next'', Ser ''jointCount'',
        Ser_ptr ''jointVelocities'' (C_field ''jointCount'')]),
      (1, ''XrHandJointVelocityEXT'',
       [Ser ''velocityFlags'', Ser ''linearVelocity'', Ser ''angularVelocity'']),
      (2, ''XrHandJointsLocateInfoEXT'',
       [Ser ''type'', Ser_xr ''next'', Ser ''baseSpace'', Ser_time ''time'']),
      (2, ''XrHandTrackerCreateInfoEXT'',
       [Ser ''type'', Ser_xr ''next'', Ser ''hand'', Ser ''handJointSet''])])]"

definition ext_serializers_9 :: "(string \<times> (nat \<times> string \<times> sop list) list) list" where
  "ext_serializers_9 =
   [(''XR_EXT_hand_tracking'',
     [(2, ''XrSystemHandTrackingPropertiesEXT'',
       [Ser ''type'', Ser_xr ''next'', Ser ''supportsHandTracking''])]),
    (''XR_EXT_hand_tracking_data_source'',
     [(2, ''XrHandTrackingDataSourceInfoEXT'',
       [Ser ''type'', Ser_xr ''next'', Ser ''requestedDataSourceCount'',
        Ser_ptr ''requestedDataSources'' (C_field ''requestedDataSourceCount'')]),
      (2, ''XrHandTrackingDataSourceStateEXT'',
       [Ser ''type'', Ser_xr ''next'', Ser ''isActive'', Ser ''dataSource''])]),
    (''XR_EXT_performance_settings'',
     [(2, ''XrEventDataPerfSettingsEXT'',
       [Ser ''type'', Ser_xr ''next'', Ser ''domain'', Ser ''subDomain'', Ser ''fromLevel'',
        Ser ''toLevel''])]),
    (''XR_EXT_plane_detection'',
     [(2, ''XrPlaneDetectorBeginInfoEXT'',
       [Ser ''type'', Ser_xr ''next'', Ser ''baseSpace'', Ser_time ''time'',
        Ser ''orientationCount'', Ser_ptr ''orientations'' (C_field ''orientationCount''),
        Ser ''semanticTypeCount'', Ser_ptr ''semanticTypes'' (C_field ''semanticTypeCount''),
        Ser ''maxPlanes'', Ser ''minArea'', Ser ''boundingBoxPose'', Ser ''boundingBoxExtent'']),
      (2, ''XrPlaneDetectorCreateInfoEXT'',
       [Ser ''type'', Ser_xr ''next'', Ser ''flags'']),
      (2, ''XrPlaneDetectorGetInfoEXT'',
       [Ser ''type'', Ser_xr ''next'', Ser ''baseSpace'', Ser_time ''time''])])]"

definition ext_serializers_10 :: "(string \<times> (nat \<times> string \<times> sop list) list) list" where
  "ext_serializers_10 =
   [(''XR_EXT_plane_detection'',
     [(2, ''XrPlaneDetectorLocationEXT'',
       [Ser ''type'', Ser_xr ''next'', Ser ''planeId'', Ser ''locationFlags'', Ser ''pose'',
        Ser ''extents'', Ser ''orientation'', Ser ''semanticType'', Ser ''polygonBufferCount'']),
      (2, ''XrPlaneDetectorLocationsEXT'',
       [Ser ''type'', Ser_xr ''next'', Ser ''planeLocationCapacityInput'',
        Ser ''planeLocationCountOutput'',
        Ser_ptr ''planeLocations'' (C_field ''planeLocationCapacityInput'')]),
      (2, ''XrPlaneDetectorPolygonBufferEXT'',
       [Ser ''type'', Ser_xr ''next'', Ser ''vertexCapacityInput'', Ser ''vertexCountOutput'',
        Ser_ptr ''vertices'' (C_field ''vertexCapacityInput'')]),
      (2, ''XrSystemPlaneDetectionPropertiesEXT'',
       [Ser ''type'', Ser_xr ''next'', Ser ''supportedFeatures''])]),
    (''XR_EXT_user_presence'',
     [(2, ''XrEventDataUserPresenceChangedEXT'',
       [Ser ''type'', Ser_xr ''next'', Ser ''session'', Ser ''isUserPresent'']),
      (2, ''XrSystemUserPresencePropertiesEXT'',
       [Ser ''type'', Ser_xr ''next'', Ser ''supportsUserPresence''])]),
    (''XR_EXT_view_configuration_depth_range'',
     [(2, ''XrViewConfigurationDepthRangeEXT'',
       [Ser ''type'', Ser_xr ''next'', Ser ''recommendedNearZ'', Ser ''minNearZ'',
        Ser ''recommendedFarZ'', Ser ''maxFarZ''])]),
    (''XR_FB_android_surface_swapchain_create'',
     [(2, ''XrAndroidSurfaceSwapchainCreateInfoFB'',
       [Ser ''type'', Ser_xr ''next'', Ser ''createFlags''])])]"

definition ext_serializers_11 :: "(string \<times> (nat \<times> string \<times> sop list) list) list" where
  "ext_serializers_11 =
   [(''XR_FB_body_tracking'',
     [(1, ''XrBodyJointLocationFB'',
       [Ser ''locationFlags'', Ser ''pose'']),
      (2, ''XrBodyJointLocationsFB'',
       [Ser ''type'', Ser_xr ''next'', Ser ''isActive'', Ser ''confidence'',
        Ser ''jointCount'', Ser_ptr ''jointLocations'' (C_field ''jointCount''),
        Ser ''skeletonChangedCount'', Ser_time ''time'']),
      (2, ''XrBodyJointsLocateInfoFB'',
       [Ser ''type'', Ser_xr ''next'', Ser ''baseSpace'', Ser_time ''time'']),
      (2, ''XrBodySkeletonFB'',
       [Ser ''type'', Ser_xr ''next'', Ser ''jointCount'',
        Ser_ptr ''joints'' (C_field ''jointCount'')]),
      (1, ''XrBodySkeletonJointFB'',
       [Ser ''joint'', Ser ''parentJoint'', Ser ''pose'']),
      (2, ''XrBodyTrackerCreateInfoFB'',
       [Ser ''type'', Ser_xr ''next'', Ser ''bodyJointSet'']),
      (2, ''XrSystemBodyTrackingPropertiesFB'',
       [Ser ''type'', Ser_xr ''next'', Ser ''supportsBodyTracking''])]),
    (''XR_FB_color_space'',
     [(2, ''XrSystemColorSpacePropertiesFB'',
       [Ser ''type'', Ser_xr ''next'', Ser ''colorSpace''])]),
    (''XR_FB_composition_layer_alpha_blend'',
     [(2, ''XrCompositionLayerAlphaBlendFB'',
       [Ser ''type'', Ser_xr ''next'', Ser ''srcFactorColor'', Ser ''dstFactorColor'',
        Ser ''srcFactorAlpha'', Ser ''dstFactorAlpha''])])]"

definition ext_serializers_12 :: "(string \<times> (nat \<times> string \<times> sop list) list) list" where
  "ext_serializers_12 =
   [(''XR_FB_composition_layer_depth_test'',
     [(2, ''XrCompositionLayerDepthTestFB'',
       [Ser ''type'', Ser_xr ''next'', Ser ''depthMask'', Ser ''compareOp''])]),
    (''XR_FB_composition_layer_image_layout'',
     [(2, ''XrCompositionLayerImageLayoutFB'',
       [Ser ''type'', Ser_xr ''next'', Ser ''flags''])]),
    (''XR_FB_composition_layer_secure_content'',
     [(2, ''XrCompositionLayerSecureContentFB'',
       [Ser ''type'', Ser_xr ''next'', Ser ''flags''])]),
    (''XR_FB_composition_layer_settings'',
     [(2, ''XrCompositionLayerSettingsFB'',
       [Ser ''type'', Ser_xr ''next'', Ser ''layerFlags''])]),
    (''XR_FB_display_refresh_rate'',
     [(2, ''XrEventDataDisplayRefreshRateChangedFB'',
       [Ser ''type'', Ser_xr ''next'', Ser ''fromDisplayRefreshRate'',
        Ser ''toDisplayRefreshRate''])]),
    (''XR_FB_eye_tracking_social'',
     [(1, ''XrEyeGazeFB'',
       [Ser ''isValid'', Ser ''gazePose'', Ser ''gazeConfidence'']),
      (2, ''XrEyeGazesFB'',
       [Ser ''type'', Ser_xr ''next'',
        Ser_array ''gaze'' (B_const ''XR_EYE_POSITION_COUNT_FB''), Ser_time ''time'']),
      (2, ''XrEyeGazesInfoFB'',
       [Ser ''type'', Ser_xr ''next'', Ser ''baseSpace'', Ser_time ''time'']),
      (2, ''XrEyeTrackerCreateInfoFB'',
       [Ser ''type'', Ser_xr ''next'']),
      (2, ''XrSystemEyeTrackingPropertiesFB'',
       [Ser ''type'', Ser_xr ''next'', Ser ''supportsEyeTracking''])])]"

definition ext_serializers_13 :: "(string \<times> (nat \<times> string \<times> sop list) list) list" where
  "ext_serializers_13 =
   [(''XR_FB_face_tracking'',
     [(2, ''XrFaceExpressionInfoFB'',
       [Ser ''type'', Ser_xr ''next'', Ser_time ''time'']),
      (1, ''XrFaceExpressionStatusFB'',
       [Ser ''isValid'', Ser ''isEyeFollowingBlendshapesValid'']),
      (2, ''XrFaceExpressionWeightsFB'',
       [Ser ''type'', Ser_xr ''next'', Ser ''weightCount'',
        Ser_ptr ''weights'' (C_field ''weightCount''), Ser ''confidenceCount'',
        Ser_ptr ''confidences'' (C_field ''confidenceCount''), Ser ''status'', Ser_time ''time'']),
      (2, ''XrFaceTrackerCreateInfoFB'',
       [Ser ''type'', Ser_xr ''next'', Ser ''faceExpressionSet'']),
      (2, ''XrSystemFaceTrackingPropertiesFB'',
       [Ser ''type'', Ser_xr ''next'', Ser ''supportsFaceTracking''])]),
    (''XR_FB_face_tracking2'',
     [(2, ''XrFaceExpressionInfo2FB'',
       [Ser ''type'', Ser_xr ''next'', Ser_time ''time'']),
      (2, ''XrFaceExpressionWeights2FB'',
       [Ser ''type'', Ser_xr ''next'', Ser ''weightCount'',
        Ser_ptr ''weights'' (C_field ''weightCount''), Ser ''confidenceCount'',
        Ser_ptr ''confidences'' (C_field ''confidenceCount''), Ser ''isValid'',
        Ser ''isEyeFollowingBlendshapesValid'', Ser ''dataSource'', Ser_time ''time'']),
      (2, ''XrFaceTrackerCreateInfo2FB'',
       [Ser ''type'', Ser_xr ''next'', Ser ''faceExpressionSet'',
        Ser ''requestedDataSourceCount'',
        Ser_ptr ''requestedDataSources'' (C_field ''requestedDataSourceCount'')]),
      (2, ''XrSystemFaceTrackingProperties2FB'',
       [Ser ''type'', Ser_xr ''next'', Ser ''supportsVisualFaceTracking'',
        Ser ''supportsAudioFaceTracking''])])]"

definition ext_serializers_14 :: "(string \<times> (nat \<times> string \<times> sop list) list) list" where
  "ext_serializers_14 =
   [(''XR_FB_foveation'',
     [(2, ''XrFoveationProfileCreateInfoFB'',
       [Ser ''type'', Ser_xr ''next'']),
      (2, ''XrSwapchainCreateInfoFoveationFB'',
       [Ser ''type'', Ser_xr ''next'', Ser ''flags'']),
      (2, ''XrSwapchainStateFoveationFB'',
       [Ser ''type'', Ser_xr ''next'', Ser ''flags'', Ser ''profile''])]),
    (''XR_FB_foveation_configuration'',
     [(2, ''XrFoveationLevelProfileCreateInfoFB'',
       [Ser ''type'', Ser_xr ''next'', Ser ''level'', Ser ''verticalOffset'', Ser ''dynamic''])]),
    (''XR_FB_foveation_vulkan'',
     [(2, ''XrSwapchainImageFoveationVulkanFB'',
       [Ser ''type'', Ser_xr ''next'', Ser ''image'', Ser ''width'', Ser ''height''])]),
    (''XR_FB_hand_tracking_aim'',
     [(2, ''XrHandTrackingAimStateFB'',
       [Ser ''type'', Ser_xr ''next'', Ser ''status'', Ser ''aimPose'',
        Ser ''pinchStrengthIndex'', Ser ''pinchStrengthMiddle'', Ser ''pinchStrengthRing'',
        Ser ''pinchStrengthLittle''])]),
    (''XR_FB_hand_tracking_capsules'',
     [(1, ''XrHandCapsuleFB'',
       [Ser_array ''points'' (B_const ''XR_HAND_TRACKING_CAPSULE_POINT_COUNT_FB''),
        Ser ''radius'', Ser ''joint'']),
      (2, ''XrHandTrackingCapsulesStateFB'',
       [Ser ''type'', Ser_xr ''next'',
        Ser_array ''capsules'' (B_const ''XR_HAND_TRACKING_CAPSULE_COUNT_FB'')])])]"

definition ext_serializers_15 :: "(string \<times> (nat \<times> string \<times> sop list) list) list" where
  "ext_serializers_15 =
   [(''XR_FB_hand_tracking_mesh'',
     [(2, ''XrHandTrackingMeshFB'',
       [Ser ''type'', Ser_xr ''next'', Ser ''jointCapacityInput'', Ser ''jointCountOutput'',
        Ser_ptr ''jointBindPoses'' (C_field ''jointCapacityInput''),
        Ser_ptr ''jointRadii'' (C_field ''jointCapacityInput''),
        Ser_ptr ''jointParents'' (C_field ''jointCapacityInput''), Ser ''vertexCapacityInput'',
        Ser ''vertexCountOutput'',
        Ser_ptr ''vertexPositions'' (C_field ''vertexCapacityInput''),
        Ser_ptr ''vertexNormals'' (C_field ''vertexCapacityInput''),
        Ser_ptr ''vertexUVs'' (C_field ''vertexCapacityInput''),
        Ser_ptr ''vertexBlendIndices'' (C_field ''vertexCapacityInput''),
        Ser_ptr ''vertexBlendWeights'' (C_field ''vertexCapacityInput''),
        Ser ''indexCapacityInput'', Ser ''indexCountOutput'',
        Ser_ptr ''indices'' (C_field ''indexCapacityInput'')]),
      (2, ''XrHandTrackingScaleFB'',
       [Ser ''type'', Ser_xr ''next'', Ser ''sensorOutput'', Ser ''currentOutput'',
        Ser ''overrideHandScale'', Ser ''overrideValueInput'']),
      (1, ''XrVector4sFB'',
       [Ser ''x'', Ser ''y'', Ser ''z'', Ser ''w''])]),
    (''XR_FB_haptic_amplitude_envelope'',
     [(2, ''XrHapticAmplitudeEnvelopeVibrationFB'',
       [Ser ''type'', Ser_xr ''next'', Ser ''duration'', Ser ''amplitudeCount'',
        Ser_ptr ''amplitudes'' (C_field ''amplitudeCount'')])]),
    (''XR_FB_haptic_pcm'',
     [(2, ''XrDevicePcmSampleRateStateFB'',
       [Ser ''type'', Ser_xr ''next'', Ser ''sampleRate'']),
      (2, ''XrHapticPcmVibrationFB'',
       [Ser ''type'', Ser_xr ''next'', Ser ''bufferSize'',
        Ser_ptr ''buffer'' (C_field ''bufferSize''), Ser ''sampleRate'', Ser ''append'',
        Ser_ptr ''samplesConsumed'' C_one])]),
    (''XR_FB_keyboard_tracking'',
     [(2, ''XrKeyboardSpaceCreateInfoFB'',
       [Ser ''type'', Ser_xr ''next'', Ser ''trackedKeyboardId'']),
      (1, ''XrKeyboardTrackingDescriptionFB'',
       [Ser ''trackedKeyboardId'', Ser ''size'', Ser ''flags'',
        Ser_array ''name'' (B_const ''XR_MAX_KEYBOARD_TRACKING_NAME_SIZE_FB'')])])]"

definition ext_serializers_16 :: "(string \<times> (nat \<times> string \<times> sop list) list) list" where
  "ext_serializers_16 =
   [(''XR_FB_keyboard_tracking'',
     [(2, ''XrKeyboardTrackingQueryFB'',
       [Ser ''type'', Ser_xr ''next'', Ser ''flags'']),
      (2, ''XrSystemKeyboardTrackingPropertiesFB'',
       [Ser ''type'', Ser_xr ''next'', Ser ''supportsKeyboardTracking''])]),
    (''XR_FB_passthrough'',
     [(2, ''XrCompositionLayerPassthroughFB'',
       [Ser ''type'', Ser_xr ''next'', Ser ''flags'', Ser ''space'', Ser ''layerHandle'']),
      (2, ''XrEventDataPassthroughStateChangedFB'',
       [Ser ''type'', Ser_xr ''next'', Ser ''flags'']),
      (2, ''XrGeometryInstanceCreateInfoFB'',
       [Ser ''type'', Ser_xr ''next'', Ser ''layer'', Ser ''mesh'', Ser ''baseSpace'',
        Ser ''pose'', Ser ''scale'']),
      (2, ''XrGeometryInstanceTransformFB'',
       [Ser ''type'', Ser_xr ''next'', Ser ''baseSpace'', Ser_time ''time'', Ser ''pose'',
        Ser ''scale'']),
      (2, ''XrPassthroughBrightnessContrastSaturationFB'',
       [Ser ''type'', Ser_xr ''next'', Ser ''brightness'', Ser ''contrast'', Ser ''saturation'']),
      (2, ''XrPassthroughColorMapMonoToMonoFB'',
       [Ser ''type'', Ser_xr ''next'',
        Ser_array ''textureColorMap'' (B_const ''XR_PASSTHROUGH_COLOR_MAP_MONO_SIZE_FB'')]),
      (2, ''XrPassthroughColorMapMonoToRgbaFB'',
       [Ser ''type'', Ser_xr ''next'',
        Ser_array ''textureColorMap'' (B_const ''XR_PASSTHROUGH_COLOR_MAP_MONO_SIZE_FB'')])])]"

definition ext_serializers_17 :: "(string \<times> (nat \<times> string \<times> sop list) list) list" where
  "ext_serializers_17 =
   [(''XR_FB_passthrough'',
     [(2, ''XrPassthroughCreateInfoFB'',
       [Ser ''type'', Ser_xr ''next'', Ser ''flags'']),
      (2, ''XrPassthroughLayerCreateInfoFB'',
       [Ser ''type'', Ser_xr ''next'', Ser ''passthrough'', Ser ''flags'', Ser ''purpose'']),
      (2, ''XrPassthroughStyleFB'',
       [Ser ''type'', Ser_xr ''next'', Ser ''textureOpacityFactor'', Ser ''edgeColor'']),
      (2, ''XrSystemPassthroughProperties2FB'',
       [Ser ''type'', Ser_xr ''next'', Ser ''capabilities'']),
      (2, ''XrSystemPassthroughPropertiesFB'',
       [Ser ''type'', Ser_xr ''next'', Ser ''supportsPassthrough''])]),
    (''XR_FB_passthrough_keyboard_hands'',
     [(2, ''XrPassthroughKeyboardHandsIntensityFB'',
       [Ser ''type'', Ser_xr ''next'', Ser ''leftHandIntensity'', Ser ''rightHandIntensity''])]),
    (''XR_FB_render_model'',
     [(2, ''XrRenderModelBufferFB'',
       [Ser ''type'', Ser_xr ''next'', Ser ''bufferCapacityInput'', Ser ''bufferCountOutput'',
        Ser_ptr ''buffer'' (C_field ''bufferCapacityInput'')]),
      (2, ''XrRenderModelCapabilitiesRequestFB'',
       [Ser ''type'', Ser_xr ''next'', Ser ''flags'']),
      (2, ''XrRenderModelLoadInfoFB'',
       [Ser ''type'', Ser_xr ''next'', Ser ''modelKey''])])]"

definition ext_serializers_18 :: "(string \<times> (nat \<times> string \<times> sop list) list) list" where
  "ext_serializers_18 =
   [(''XR_FB_render_model'',
     [(2, ''XrRenderModelPathInfoFB'',
       [Ser ''type'', Ser_xr ''next'', Ser ''path'']),
      (2, ''XrRenderModelPropertiesFB'',
       [Ser ''type'', Ser_xr ''next'', Ser ''vendorId'',
        Ser_array ''modelName'' (B_const ''XR_MAX_RENDER_MODEL_NAME_SIZE_FB''),
        Ser ''modelKey'', Ser ''modelVersion'', Ser ''flags'']),
      (2, ''XrSystemRenderModelPropertiesFB'',
       [Ser ''type'', Ser_xr ''next'', Ser ''supportsRenderModelLoading''])]),
    (''XR_FB_scene'',
     [(2, ''XrBoundary2DFB'',
       [Ser ''type'', Ser_xr ''next'', Ser ''vertexCapacityInput'', Ser ''vertexCountOutput'',
        Ser_ptr ''vertices'' (C_field ''vertexCapacityInput'')]),
      (1, ''XrOffset3DfFB'',
       [Ser ''x'', Ser ''y'', Ser ''z'']),
      (1, ''XrRect3DfFB'',
       [Ser ''offset'', Ser ''extent'']),
      (2, ''XrRoomLayoutFB'',
       [Ser ''type'', Ser_xr ''next'', Ser ''floorUuid'', Ser ''ceilingUuid'',
        Ser ''wallUuidCapacityInput'', Ser ''wallUuidCountOutput'',
        Ser_ptr ''wallUuids'' (C_field ''wallUuidCapacityInput'')]),
      (2, ''XrSemanticLabelsFB'',
       [Ser ''type'', Ser_xr ''next'', Ser ''bufferCapacityInput'', Ser ''bufferCountOutput'',
        Ser_ptr ''buffer'' (C_field ''bufferCapacityInput'')]),
      (2, ''XrSemanticLabelsSupportInfoFB'',
       [Ser ''type'', Ser_xr ''next'', Ser ''flags'',
        Ser_ptr ''recognizedLabels'' C_null_terminated])])]"

definition ext_serializers_19 :: "(string \<times> (nat \<times> string \<times> sop list) list) list" where
  "ext_serializers_19 =
   [(''XR_FB_scene_capture'',
     [(2, ''XrEventDataSceneCaptureCompleteFB'',
       [Ser ''type'', Ser_xr ''next'', Ser ''requestId'', Ser ''result'']),
      (2, ''XrSceneCaptureRequestInfoFB'',
       [Ser ''type'', Ser_xr ''next'', Ser ''requestByteCount'',
        Ser_ptr ''request'' (C_field ''requestByteCount'')])]),
    (''XR_FB_space_warp'',
     [(2, ''XrCompositionLayerSpaceWarpInfoFB'',
       [Ser ''type'', Ser_xr ''next'', Ser ''layerFlags'', Ser ''motionVectorSubImage'',
        Ser ''appSpaceDeltaPose'', Ser ''depthSubImage'', Ser ''minDepth'', Ser ''maxDepth'',
        Ser ''nearZ'', Ser ''farZ'']),
      (2, ''XrSystemSpaceWarpPropertiesFB'',
       [Ser ''type'', Ser_xr ''next'', Ser ''recommendedMotionVectorImageRectWidth'',
        Ser ''recommendedMotionVectorImageRectHeight''])]),
    (''XR_FB_spatial_entity'',
     [(2, ''XrEventDataSpaceSetStatusCompleteFB'',
       [Ser ''type'', Ser_xr ''next'', Ser ''requestId'', Ser ''result'', Ser ''space'',
        Ser ''uuid'', Ser ''componentType'', Ser ''enabled'']),
      (2, ''XrEventDataSpatialAnchorCreateCompleteFB'',
       [Ser ''type'', Ser_xr ''next'', Ser ''requestId'', Ser ''result'', Ser ''space'',
        Ser ''uuid'']),
      (2, ''XrSpaceComponentStatusFB'',
       [Ser ''type'', Ser_xr ''next'', Ser ''enabled'', Ser ''changePending''])])]"

definition ext_serializers_20 :: "(string \<times> (nat \<times> string \<times> sop list) list) list" where
  "ext_serializers_20 =
   [(''XR_FB_spatial_entity'',
     [(2, ''XrSpaceComponentStatusSetInfoFB'',
       [Ser ''type'', Ser_xr ''next'', Ser ''componentType'', Ser ''enabled'', Ser ''timeout'']),
      (2, ''XrSpatialAnchorCreateInfoFB'',
       [Ser ''type'', Ser_xr ''next'', Ser ''space'', Ser ''poseInSpace'', Ser_time ''time'']),
      (2, ''XrSystemSpatialEntityPropertiesFB'',
       [Ser ''type'', Ser_xr ''next'', Ser ''supportsSpatialEntity''])]),
    (''XR_FB_spatial_entity_container'',
     [(2, ''XrSpaceContainerFB'',
       [Ser ''type'', Ser_xr ''next'', Ser ''uuidCapacityInput'', Ser ''uuidCountOutput'',
        Ser_ptr ''uuids'' (C_field ''uuidCapacityInput'')])]),
    (''XR_FB_spatial_entity_query'',
     [(2, ''XrEventDataSpaceQueryCompleteFB'',
       [Ser ''type'', Ser_xr ''next'', Ser ''requestId'', Ser ''result'']),
      (2, ''XrEventDataSpaceQueryResultsAvailableFB'',
       [Ser ''type'', Ser_xr ''next'', Ser ''requestId'']),
      (2, ''XrSpaceComponentFilterInfoFB'',
       [Ser ''type'', Ser_xr ''next'', Ser ''componentType''])])]"

definition ext_serializers_21 :: "(string \<times> (nat \<times> string \<times> sop list) list) list" where
  "ext_serializers_21 =
   [(''XR_FB_spatial_entity_query'',
     [(2, ''XrSpaceQueryInfoFB'',
       [Ser ''type'', Ser_xr ''next'', Ser ''queryAction'', Ser ''maxResultCount'',
        Ser ''timeout'', Ser_xr ''filter'', Ser_xr ''excludeFilter'']),
      (1, ''XrSpaceQueryResultFB'',
       [Ser ''space'', Ser ''uuid'']),
      (2, ''XrSpaceQueryResultsFB'',
       [Ser ''type'', Ser_xr ''next'', Ser ''resultCapacityInput'', Ser ''resultCountOutput'',
        Ser_ptr ''results'' (C_field ''resultCapacityInput'')]),
      (2, ''XrSpaceStorageLocationFilterInfoFB'',
       [Ser ''type'', Ser_xr ''next'', Ser ''location'']),
      (2, ''XrSpaceUuidFilterInfoFB'',
       [Ser ''type'', Ser_xr ''next'', Ser ''uuidCount'',
        Ser_ptr ''uuids'' (C_field ''uuidCount'')])]),
    (''XR_FB_spatial_entity_sharing'',
     [(2, ''XrEventDataSpaceShareCompleteFB'',
       [Ser ''type'', Ser_xr ''next'', Ser ''requestId'', Ser ''result'']),
      (2, ''XrSpaceShareInfoFB'',
       [Ser ''type'', Ser_xr ''next'', Ser ''spaceCount'',
        Ser_ptr ''spaces'' (C_field ''spaceCount''), Ser ''userCount'',
        Ser_ptr ''users'' (C_field ''userCount'')])]),
    (''XR_FB_spatial_entity_storage'',
     [(2, ''XrEventDataSpaceEraseCompleteFB'',
       [Ser ''type'', Ser_xr ''next'', Ser ''requestId'', Ser ''result'', Ser ''space'',
        Ser ''uuid'', Ser ''location''])])]"

definition ext_serializers_22 :: "(string \<times> (nat \<times> string \<times> sop list) list) list" where
  "ext_serializers_22 =
   [(''XR_FB_spatial_entity_storage'',
     [(2, ''XrEventDataSpaceSaveCompleteFB'',
       [Ser ''type'', Ser_xr ''next'', Ser ''requestId'', Ser ''result'', Ser ''space'',
        Ser ''uuid'', Ser ''location'']),
      (2, ''XrSpaceEraseInfoFB'',
       [Ser ''type'', Ser_xr ''next'', Ser ''space'', Ser ''location'']),
      (2, ''XrSpaceSaveInfoFB'',
       [Ser ''type'', Ser_xr ''next'', Ser ''space'', Ser ''location'', Ser ''persistenceMode''])]),
    (''XR_FB_spatial_entity_storage_batch'',
     [(2, ''XrEventDataSpaceListSaveCompleteFB'',
       [Ser ''type'', Ser_xr ''next'', Ser ''requestId'', Ser ''result'']),
      (2, ''XrSpaceListSaveInfoFB'',
       [Ser ''type'', Ser_xr ''next'', Ser ''spaceCount'',
        Ser_ptr ''spaces'' (C_field ''spaceCount''), Ser ''location''])]),
    (''XR_FB_spatial_entity_user'',
     [(2, ''XrSpaceUserCreateInfoFB'',
       [Ser ''type'', Ser_xr ''next'', Ser ''userId''])])]"

definition ext_serializers_23 :: "(string \<times> (nat \<times> string \<times> sop list) list) list" where
  "ext_serializers_23 =
   [(''XR_FB_swapchain_update_state_android_surface'',
     [(2, ''XrSwapchainStateAndroidSurfaceDimensionsFB'',
       [Ser ''type'', Ser_xr ''next'', Ser ''width'', Ser ''height''])]),
    (''XR_FB_swapchain_update_state_opengl_es'',
     [(2, ''XrSwapchainStateSamplerOpenGLESFB'',
       [Ser ''type'', Ser_xr ''next'', Ser ''minFilter'', Ser ''magFilter'', Ser ''wrapModeS'',
        Ser ''wrapModeT'', Ser ''swizzleRed'', Ser ''swizzleGreen'', Ser ''swizzleBlue'',
        Ser ''swizzleAlpha'', Ser ''maxAnisotropy'', Ser ''borderColor''])]),
    (''XR_FB_swapchain_update_state_vulkan'',
     [(2, ''XrSwapchainStateSamplerVulkanFB'',
       [Ser ''type'', Ser_xr ''next'', Ser ''minFilter'', Ser ''magFilter'',
        Ser ''mipmapMode'', Ser ''wrapModeS'', Ser ''wrapModeT'', Ser ''swizzleRed'',
        Ser ''swizzleGreen'', Ser ''swizzleBlue'', Ser ''swizzleAlpha'', Ser ''maxAnisotropy'',
        Ser ''borderColor''])]),
    (''XR_FB_triangle_mesh'',
     [(2, ''XrTriangleMeshCreateInfoFB'',
       [Ser ''type'', Ser_xr ''next'', Ser ''flags'', Ser ''windingOrder'',
        Ser ''vertexCount'', Ser_ptr ''vertexBuffer'' C_one, Ser ''triangleCount'',
        Ser_ptr ''indexBuffer'' C_one])]),
    (''XR_HTCX_vive_tracker_interaction'',
     [(2, ''XrEventDataViveTrackerConnectedHTCX'',
       [Ser ''type'', Ser_xr ''next'', Ser_ptr ''paths'' C_one]),
      (2, ''XrViveTrackerPathsHTCX'',
       [Ser ''type'', Ser_xr ''next'', Ser ''persistentPath'', Ser ''rolePath''])])]"

definition ext_serializers_24 :: "(string \<times> (nat \<times> string \<times> sop list) list) list" where
  "ext_serializers_24 =
   [(''XR_HTC_anchor'',
     [(2, ''XrSpatialAnchorCreateInfoHTC'',
       [Ser ''type'', Ser_xr ''next'', Ser ''space'', Ser ''poseInSpace'', Ser ''name'']),
      (1, ''XrSpatialAnchorNameHTC'',
       [Ser_array ''name'' (B_const ''XR_MAX_SPATIAL_ANCHOR_NAME_SIZE_HTC'')]),
      (2, ''XrSystemAnchorPropertiesHTC'',
       [Ser ''type'', Ser_xr ''next'', Ser ''supportsAnchor''])]),
    (''XR_HTC_body_tracking'',
     [(1, ''XrBodyJointLocationHTC'',
       [Ser ''locationFlags'', Ser ''pose'']),
      (2, ''XrBodyJointLocationsHTC'',
       [Ser ''type'', Ser_xr ''next'', Ser ''combinedLocationFlags'', Ser ''confidenceLevel'',
        Ser ''jointLocationCount'',
        Ser_ptr ''jointLocations'' (C_field ''jointLocationCount''),
        Ser ''skeletonGenerationId'']),
      (2, ''XrBodyJointsLocateInfoHTC'',
       [Ser ''type'', Ser_xr ''next'', Ser ''baseSpace'', Ser_time ''time'']),
      (2, ''XrBodySkeletonHTC'',
       [Ser ''type'', Ser_xr ''next'', Ser ''jointCount'',
        Ser_ptr ''joints'' (C_field ''jointCount'')]),
      (2, ''XrBodyTrackerCreateInfoHTC'',
       [Ser ''type'', Ser_xr ''next'', Ser ''bodyJointSet'']),
      (2, ''XrSystemBodyTrackingPropertiesHTC'',
       [Ser ''type'', Ser_xr ''next'', Ser ''supportsBodyTracking''])]),
    (''XR_HTC_facial_tracking'',
     [(2, ''XrFacialExpressionsHTC'',
       [Ser ''type'', Ser_xr ''next'', Ser ''isActive'', Ser_time ''sampleTime'',
        Ser ''expressionCount'', Ser_ptr ''expressionWeightings'' C_one])])]"

definition ext_serializers_25 :: "(string \<times> (nat \<times> string \<times> sop list) list) list" where
  "ext_serializers_25 =
   [(''XR_HTC_facial_tracking'',
     [(2, ''XrFacialTrackerCreateInfoHTC'',
       [Ser ''type'', Ser_xr ''next'', Ser ''facialTrackingType'']),
      (2, ''XrSystemFacialTrackingPropertiesHTC'',
       [Ser ''type'', Ser_xr ''next'', Ser ''supportEyeFacialTracking'',
        Ser ''supportLipFacialTracking''])]),
    (''XR_HTC_foveation'',
     [(2, ''XrFoveationApplyInfoHTC'',
       [Ser ''type'', Ser_xr ''next'', Ser ''mode'', Ser ''subImageCount'',
        Ser_ptr ''subImages'' (C_field ''subImageCount'')]),
      (1, ''XrFoveationConfigurationHTC'',
       [Ser ''level'', Ser ''clearFovDegree'', Ser ''focalCenterOffset'']),
      (2, ''XrFoveationCustomModeInfoHTC'',
       [Ser ''type'', Ser_xr ''next'', Ser ''configCount'',
        Ser_ptr ''configs'' (C_field ''configCount'')]),
      (2, ''XrFoveationDynamicModeInfoHTC'',
       [Ser ''type'', Ser_xr ''next'', Ser ''dynamicFlags''])]),
    (''XR_HTC_passthrough'',
     [(2, ''XrCompositionLayerPassthroughHTC'',
       [Ser ''type'', Ser_xr ''next'', Ser ''layerFlags'', Ser ''space'', Ser ''passthrough'',
        Ser ''color'']),
      (2, ''XrPassthroughColorHTC'',
       [Ser ''type'', Ser_xr ''next'', Ser ''alpha'']),
      (2, ''XrPassthroughCreateInfoHTC'',
       [Ser ''type'', Ser_xr ''next'', Ser ''form''])])]"

definition ext_serializers_26 :: "(string \<times> (nat \<times> string \<times> sop list) list) list" where
  "ext_serializers_26 =
   [(''XR_HTC_passthrough'',
     [(2, ''XrPassthroughMeshTransformInfoHTC'',
       [Ser ''type'', Ser_xr ''next'', Ser ''vertexCount'',
        Ser_ptr ''vertices'' (C_field ''vertexCount''), Ser ''indexCount'',
        Ser_ptr ''indices'' (C_field ''indexCount''), Ser ''baseSpace'', Ser_time ''time'',
        Ser ''pose'', Ser ''scale''])]),
    (''XR_KHR_D3D11_enable'',
     [(2, ''XrGraphicsBindingD3D11KHR'',
       [Ser ''type'', Ser_xr ''next'', Ser_ptr ''device'' C_one]),
      (2, ''XrGraphicsRequirementsD3D11KHR'',
       [Ser ''type'', Ser_xr ''next'', Ser ''adapterLuid'', Ser ''minFeatureLevel'']),
      (2, ''XrSwapchainImageD3D11KHR'',
       [Ser ''type'', Ser_xr ''next'', Ser_ptr ''texture'' C_one])]),
    (''XR_KHR_D3D12_enable'',
     [(2, ''XrGraphicsBindingD3D12KHR'',
       [Ser ''type'', Ser_xr ''next'', Ser_ptr ''device'' C_one, Ser_ptr ''queue'' C_one]),
      (2, ''XrGraphicsRequirementsD3D12KHR'',
       [Ser ''type'', Ser_xr ''next'', Ser ''adapterLuid'', Ser ''minFeatureLevel'']),
      (2, ''XrSwapchainImageD3D12KHR'',
       [Ser ''type'', Ser_xr ''next'', Ser_ptr ''texture'' C_one])]),
    (''XR_KHR_android_create_instance'',
     [(2, ''XrInstanceCreateInfoAndroidKHR'',
       [Ser ''type'', Ser_xr ''next'', Ser_ptr ''applicationVM'' C_one,
        Ser_ptr ''applicationActivity'' C_one])])]"

definition ext_serializers_27 :: "(string \<times> (nat \<times> string \<times> sop list) list) list" where
  "ext_serializers_27 =
   [(''XR_KHR_composition_layer_color_scale_bias'',
     [(2, ''XrCompositionLayerColorScaleBiasKHR'',
       [Ser ''type'', Ser_xr ''next'', Ser ''colorScale'', Ser ''colorBias''])]),
    (''XR_KHR_composition_layer_cube'',
     [(2, ''XrCompositionLayerCubeKHR'',
       [Ser ''type'', Ser_xr ''next'', Ser ''layerFlags'', Ser ''space'',
        Ser ''eyeVisibility'', Ser ''swapchain'', Ser ''imageArrayIndex'', Ser ''orientation''])]),
    (''XR_KHR_composition_layer_cylinder'',
     [(2, ''XrCompositionLayerCylinderKHR'',
       [Ser ''type'', Ser_xr ''next'', Ser ''layerFlags'', Ser ''space'',
        Ser ''eyeVisibility'', Ser ''subImage'', Ser ''pose'', Ser ''radius'',
        Ser ''centralAngle'', Ser ''aspectRatio''])]),
    (''XR_KHR_composition_layer_depth'',
     [(2, ''XrCompositionLayerDepthInfoKHR'',
       [Ser ''type'', Ser_xr ''next'', Ser ''subImage'', Ser ''minDepth'', Ser ''maxDepth'',
        Ser ''nearZ'', Ser ''farZ''])]),
    (''XR_KHR_composition_layer_equirect'',
     [(2, ''XrCompositionLayerEquirectKHR'',
       [Ser ''type'', Ser_xr ''next'', Ser ''layerFlags'', Ser ''space'',
        Ser ''eyeVisibility'', Ser ''subImage'', Ser ''pose'', Ser ''radius'', Ser ''scale'',
        Ser ''bias''])])]"

definition ext_serializers_28 :: "(string \<times> (nat \<times> string \<times> sop list) list) list" where
  "ext_serializers_28 =
   [(''XR_KHR_composition_layer_equirect2'',
     [(2, ''XrCompositionLayerEquirect2KHR'',
       [Ser ''type'', Ser_xr ''next'', Ser ''layerFlags'', Ser ''space'',
        Ser ''eyeVisibility'', Ser ''subImage'', Ser ''pose'', Ser ''radius'',
        Ser ''centralHorizontalAngle'', Ser ''upperVerticalAngle'', Ser ''lowerVerticalAngle''])])]"

definition ext_serializers_29 :: "(string \<times> (nat \<times> string \<times> sop list) list) list" where
  "ext_serializers_29 =
   [(''XR_KHR_loader_init_android'',
     [(2, ''XrLoaderInitInfoAndroidKHR'',
       [Ser ''type'', Ser_xr ''next'', Ser_ptr ''applicationVM'' C_one,
        Ser_ptr ''applicationContext'' C_one])]),
    (''XR_KHR_metal_enable'',
     [(2, ''XrGraphicsBindingMetalKHR'',
       [Ser ''type'', Ser_xr ''next'', Ser_ptr ''commandQueue'' C_one]),
      (2, ''XrGraphicsRequirementsMetalKHR'',
       [Ser ''type'', Ser_xr ''next'', Ser_ptr ''metalDevice'' C_one]),
      (2, ''XrSwapchainImageMetalKHR'',
       [Ser ''type'', Ser_xr ''next'', Ser_ptr ''texture'' C_one])]),
    (''XR_KHR_opengl_enable'',
     [(2, ''XrGraphicsBindingOpenGLWaylandKHR'',
       [Ser ''type'', Ser_xr ''next'', Ser_ptr ''display'' C_one]),
      (2, ''XrGraphicsBindingOpenGLWin32KHR'',
       [Ser ''type'', Ser_xr ''next'', Ser ''hDC'', Ser ''hGLRC'']),
      (2, ''XrGraphicsBindingOpenGLXcbKHR'',
       [Ser ''type'', Ser_xr ''next'', Ser_ptr ''connection'' C_one, Ser ''screenNumber'',
        Ser ''fbconfigid'', Ser ''visualid'', Ser ''glxDrawable'', Ser ''glxContext'']),
      (2, ''XrGraphicsBindingOpenGLXlibKHR'',
       [Ser ''type'', Ser_xr ''next'', Ser_ptr ''xDisplay'' C_one, Ser ''visualid'',
        Ser ''glxFBConfig'', Ser ''glxDrawable'', Ser ''glxContext''])])]"

definition ext_serializers_30 :: "(string \<times> (nat \<times> string \<times> sop list) list) list" where
  "ext_serializers_30 =
   [(''XR_KHR_opengl_enable'',
     [(2, ''XrGraphicsRequirementsOpenGLKHR'',
       [Ser ''type'', Ser_xr ''next'', Ser ''minApiVersionSupported'',
        Ser ''maxApiVersionSupported'']),
      (2, ''XrSwapchainImageOpenGLKHR'',
       [Ser ''type'', Ser_xr ''next'', Ser ''image''])]),
    (''XR_KHR_opengl_es_enable'',
     [(2, ''XrGraphicsBindingOpenGLESAndroidKHR'',
       [Ser ''type'', Ser_xr ''next'', Ser ''display'', Ser ''config'', Ser ''context'']),
      (2, ''XrGraphicsRequirementsOpenGLESKHR'',
       [Ser ''type'', Ser_xr ''next'', Ser ''minApiVersionSupported'',
        Ser ''maxApiVersionSupported'']),
      (2, ''XrSwapchainImageOpenGLESKHR'',
       [Ser ''type'', Ser_xr ''next'', Ser ''image''])]),
    (''XR_KHR_visibility_mask'',
     [(2, ''XrEventDataVisibilityMaskChangedKHR'',
       [Ser ''type'', Ser_xr ''next'', Ser ''session'', Ser ''viewConfigurationType'',
        Ser ''viewIndex'']),
      (2, ''XrVisibilityMaskKHR'',
       [Ser ''type'', Ser_xr ''next'', Ser ''vertexCapacityInput'', Ser ''vertexCountOutput'',
        Ser_ptr ''vertices'' (C_field ''vertexCapacityInput''), Ser ''indexCapacityInput'',
        Ser ''indexCountOutput'', Ser_ptr ''indices'' (C_field ''indexCapacityInput'')])]),
    (''XR_KHR_vulkan_enable'',
     [(2, ''XrGraphicsBindingVulkanKHR'',
       [Ser ''type'', Ser_xr ''next'', Ser ''instance'', Ser ''physicalDevice'',
        Ser ''device'', Ser ''queueFamilyIndex'', Ser ''queueIndex''])])]"

definition ext_serializers_31 :: "(string \<times> (nat \<times> string \<times> sop list) list) list" where
  "ext_serializers_31 =
   [(''XR_KHR_vulkan_enable'',
     [(2, ''XrGraphicsRequirementsVulkanKHR'',
       [Ser ''type'', Ser_xr ''next'', Ser ''minApiVersionSupported'',
        Ser ''maxApiVersionSupported'']),
      (2, ''XrSwapchainImageVulkanKHR'',
       [Ser ''type'', Ser_xr ''next'', Ser ''image''])]),
    (''XR_KHR_vulkan_enable2'',
     [(2, ''XrVulkanDeviceCreateInfoKHR'',
       [Ser ''type'', Ser_xr ''next'', Ser ''systemId'', Ser ''createFlags'',
        Ser ''pfnGetInstanceProcAddr'', Ser ''vulkanPhysicalDevice'',
        Ser_ptr ''vulkanCreateInfo'' C_one, Ser_ptr ''vulkanAllocator'' C_one]),
      (2, ''XrVulkanGraphicsDeviceGetInfoKHR'',
       [Ser ''type'', Ser_xr ''next'', Ser ''systemId'', Ser ''vulkanInstance'']),
      (2, ''XrVulkanInstanceCreateInfoKHR'',
       [Ser ''type'', Ser_xr ''next'', Ser ''systemId'', Ser ''createFlags'',
        Ser ''pfnGetInstanceProcAddr'', Ser_ptr ''vulkanCreateInfo'' C_one,
        Ser_ptr ''vulkanAllocator'' C_one])]),
    (''XR_KHR_vulkan_swapchain_format_list'',
     [(2, ''XrVulkanSwapchainFormatListCreateInfoKHR'',
       [Ser ''type'', Ser_xr ''next'', Ser ''viewFormatCount'',
        Ser_ptr ''viewFormats'' (C_field ''viewFormatCount'')])]),
    (''XR_META_body_tracking_full_body'',
     [(2, ''XrSystemPropertiesBodyTrackingFullBodyMETA'',
       [Ser ''type'', Ser_xr ''next'', Ser ''supportsFullBodyTracking''])]),
    (''XR_META_colocation_discovery'',
     [(2, ''XrColocationAdvertisementStartInfoMETA'',
       [Ser ''type'', Ser_xr ''next'', Ser ''bufferSize'',
        Ser_ptr ''buffer'' (C_field ''bufferSize'')])])]"

definition ext_serializers_32 :: "(string \<times> (nat \<times> string \<times> sop list) list) list" where
  "ext_serializers_32 =
   [(''XR_META_colocation_discovery'',
     [(2, ''XrColocationAdvertisementStopInfoMETA'',
       [Ser ''type'', Ser_xr ''next'']),
      (2, ''XrColocationDiscoveryStartInfoMETA'',
       [Ser ''type'', Ser_xr ''next'']),
      (2, ''XrColocationDiscoveryStopInfoMETA'',
       [Ser ''type'', Ser_xr ''next'']),
      (2, ''XrEventDataColocationAdvertisementCompleteMETA'',
       [Ser ''type'', Ser_xr ''next'', Ser ''advertisementRequestId'', Ser ''result'']),
      (2, ''XrEventDataColocationDiscoveryCompleteMETA'',
       [Ser ''type'', Ser_xr ''next'', Ser ''discoveryRequestId'', Ser ''result'']),
      (2, ''XrEventDataColocationDiscoveryResultMETA'',
       [Ser ''type'', Ser_xr ''next'', Ser ''discoveryRequestId'', Ser ''advertisementUuid'',
        Ser ''bufferSize'',
        Ser_array ''buffer'' (B_const ''XR_MAX_COLOCATION_DISCOVERY_BUFFER_SIZE_META'')]),
      (2, ''XrEventDataStartColocationAdvertisementCompleteMETA'',
       [Ser ''type'', Ser_xr ''next'', Ser ''advertisementRequestId'', Ser ''result'',
        Ser ''advertisementUuid'']),
      (2, ''XrEventDataStartColocationDiscoveryCompleteMETA'',
       [Ser ''type'', Ser_xr ''next'', Ser ''discoveryRequestId'', Ser ''result'']),
      (2, ''XrEventDataStopColocationAdvertisementCompleteMETA'',
       [Ser ''type'', Ser_xr ''next'', Ser ''requestId'', Ser ''result''])])]"

definition ext_serializers_33 :: "(string \<times> (nat \<times> string \<times> sop list) list) list" where
  "ext_serializers_33 =
   [(''XR_META_colocation_discovery'',
     [(2, ''XrEventDataStopColocationDiscoveryCompleteMETA'',
       [Ser ''type'', Ser_xr ''next'', Ser ''requestId'', Ser ''result'']),
      (2, ''XrSystemColocationDiscoveryPropertiesMETA'',
       [Ser ''type'', Ser_xr ''next'', Ser ''supportsColocationDiscovery''])]),
    (''XR_META_environment_depth'',
     [(2, ''XrEnvironmentDepthHandRemovalSetInfoMETA'',
       [Ser ''type'', Ser_xr ''next'', Ser ''enabled'']),
      (2, ''XrEnvironmentDepthImageAcquireInfoMETA'',
       [Ser ''type'', Ser_xr ''next'', Ser ''space'', Ser_time ''displayTime'']),
      (2, ''XrEnvironmentDepthImageMETA'',
       [Ser ''type'', Ser_xr ''next'', Ser ''swapchainIndex'', Ser ''nearZ'', Ser ''farZ'',
        Ser_array ''views'' (B_lit 2)]),
      (2, ''XrEnvironmentDepthImageViewMETA'',
       [Ser ''type'', Ser_xr ''next'', Ser ''fov'', Ser ''pose'']),
      (2, ''XrEnvironmentDepthProviderCreateInfoMETA'',
       [Ser ''type'', Ser_xr ''next'', Ser ''createFlags'']),
      (2, ''XrEnvironmentDepthSwapchainCreateInfoMETA'',
       [Ser ''type'', Ser_xr ''next'', Ser ''createFlags'']),
      (2, ''XrEnvironmentDepthSwapchainStateMETA'',
       [Ser ''type'', Ser_xr ''next'', Ser ''width'', Ser ''height''])])]"

definition ext_serializers_34 :: "(string \<times> (nat \<times> string \<times> sop list) list) list" where
  "ext_serializers_34 =
   [(''XR_META_environment_depth'',
     [(2, ''XrSystemEnvironmentDepthPropertiesMETA'',
       [Ser ''type'', Ser_xr ''next'', Ser ''supportsEnvironmentDepth'',
        Ser ''supportsHandRemoval''])]),
    (''XR_META_foveation_eye_tracked'',
     [(2, ''XrFoveationEyeTrackedProfileCreateInfoMETA'',
       [Ser ''type'', Ser_xr ''next'', Ser ''flags'']),
      (2, ''XrFoveationEyeTrackedStateMETA'',
       [Ser ''type'', Ser_xr ''next'',
        Ser_array ''foveationCenter'' (B_const ''XR_FOVEATION_CENTER_SIZE_META''), Ser ''flags'']),
      (2, ''XrSystemFoveationEyeTrackedPropertiesMETA'',
       [Ser ''type'', Ser_xr ''next'', Ser ''supportsFoveationEyeTracked''])]),
    (''XR_META_headset_id'',
     [(2, ''XrSystemHeadsetIdPropertiesMETA'',
       [Ser ''type'', Ser_xr ''next'', Ser ''id''])]),
    (''XR_META_local_dimming'',
     [(2, ''XrLocalDimmingFrameEndInfoMETA'',
       [Ser ''type'', Ser_xr ''next'', Ser ''localDimmingMode''])]),
    (''XR_META_passthrough_color_lut'',
     [(2, ''XrPassthroughColorLutCreateInfoMETA'',
       [Ser ''type'', Ser_xr ''next'', Ser ''channels'', Ser ''resolution'', Ser ''data'']),
      (1, ''XrPassthroughColorLutDataMETA'',
       [Ser ''bufferSize'', Ser_ptr ''buffer'' (C_field ''bufferSize'')]),
      (2, ''XrPassthroughColorLutUpdateInfoMETA'',
       [Ser ''type'', Ser_xr ''next'', Ser ''data'']),
      (2, ''XrPassthroughColorMapInterpolatedLutMETA'',
       [Ser ''type'', Ser_xr ''next'', Ser ''sourceColorLut'', Ser ''targetColorLut'',
        Ser ''weight''])])]"

definition ext_serializers_35 :: "(string \<times> (nat \<times> string \<times> sop list) list) list" where
  "ext_serializers_35 =
   [(''XR_META_passthrough_color_lut'',
     [(2, ''XrPassthroughColorMapLutMETA'',
       [Ser ''type'', Ser_xr ''next'', Ser ''colorLut'', Ser ''weight'']),
      (2, ''XrSystemPassthroughColorLutPropertiesMETA'',
       [Ser ''type'', Ser_xr ''next'', Ser ''maxColorLutResolution''])]),
    (''XR_META_passthrough_layer_resumed_event'',
     [(2, ''XrEventDataPassthroughLayerResumedMETA'',
       [Ser ''type'', Ser_xr ''next'', Ser ''layer''])]),
    (''XR_META_passthrough_preferences'',
     [(2, ''XrPassthroughPreferencesMETA'',
       [Ser ''type'', Ser_xr ''next'', Ser ''flags''])]),
    (''XR_META_performance_metrics'',
     [(2, ''XrPerformanceMetricsCounterMETA'',
       [Ser ''type'', Ser_xr ''next'', Ser ''counterFlags'', Ser ''counterUnit'',
        Ser ''uintValue'', Ser ''floatValue'']),
      (2, ''XrPerformanceMetricsStateMETA'',
       [Ser ''type'', Ser_xr ''next'', Ser ''enabled''])]),
    (''XR_META_recommended_layer_resolution'',
     [(2, ''XrRecommendedLayerResolutionGetInfoMETA'',
       [Ser ''type'', Ser_xr ''next'', Ser_xr ''layer'', Ser_time ''predictedDisplayTime'']),
      (2, ''XrRecommendedLayerResolutionMETA'',
       [Ser ''type'', Ser_xr ''next'', Ser ''recommendedImageDimensions'', Ser ''isValid''])]),
    (''XR_META_simultaneous_hands_and_controllers'',
     [(2, ''XrSimultaneousHandsAndControllersTrackingPauseInfoMETA'',
       [Ser ''type'', Ser_xr ''next''])])]"

definition ext_serializers_36 :: "(string \<times> (nat \<times> string \<times> sop list) list) list" where
  "ext_serializers_36 =
   [(''XR_META_simultaneous_hands_and_controllers'',
     [(2, ''XrSimultaneousHandsAndControllersTrackingResumeInfoMETA'',
       [Ser ''type'', Ser_xr ''next'']),
      (2, ''XrSystemSimultaneousHandsAndControllersPropertiesMETA'',
       [Ser ''type'', Ser_xr ''next'', Ser ''supportsSimultaneousHandsAndControllers''])]),
    (''XR_META_spatial_entity_group_sharing'',
     [(2, ''XrShareSpacesRecipientGroupsMETA'',
       [Ser ''type'', Ser_xr ''next'', Ser ''groupCount'',
        Ser_ptr ''groups'' (C_field ''groupCount'')]),
      (2, ''XrSpaceGroupUuidFilterInfoMETA'',
       [Ser ''type'', Ser_xr ''next'', Ser ''groupUuid'']),
      (2, ''XrSystemSpatialEntityGroupSharingPropertiesMETA'',
       [Ser ''type'', Ser_xr ''next'', Ser ''supportsSpatialEntityGroupSharing''])]),
    (''XR_META_spatial_entity_mesh'',
     [(2, ''XrSpaceTriangleMeshGetInfoMETA'',
       [Ser ''type'', Ser_xr ''next'']),
      (2, ''XrSpaceTriangleMeshMETA'',
       [Ser ''type'', Ser_xr ''next'', Ser ''vertexCapacityInput'', Ser ''vertexCountOutput'',
        Ser_ptr ''vertices'' (C_field ''vertexCapacityInput''), Ser ''indexCapacityInput'',
        Ser ''indexCountOutput'', Ser_ptr ''indices'' (C_field ''indexCapacityInput'')])]),
    (''XR_META_spatial_entity_sharing'',
     [(2, ''XrEventDataShareSpacesCompleteMETA'',
       [Ser ''type'', Ser_xr ''next'', Ser ''requestId'', Ser ''result'']),
      (2, ''XrShareSpacesInfoMETA'',
       [Ser ''type'', Ser_xr ''next'', Ser ''spaceCount'',
        Ser_ptr ''spaces'' (C_field ''spaceCount''), Ser_xr ''recipientInfo''])])]"

definition ext_serializers_37 :: "(string \<times> (nat \<times> string \<times> sop list) list) list" where
  "ext_serializers_37 =
   [(''XR_META_spatial_entity_sharing'',
     [(2, ''XrSystemSpatialEntitySharingPropertiesMETA'',
       [Ser ''type'', Ser_xr ''next'', Ser ''supportsSpatialEntitySharing''])]),
    (''XR_META_virtual_keyboard'',
     [(2, ''XrEventDataVirtualKeyboardBackspaceMETA'',
       [Ser ''type'', Ser_xr ''next'', Ser ''keyboard'']),
      (2, ''XrEventDataVirtualKeyboardCommitTextMETA'',
       [Ser ''type'', Ser_xr ''next'', Ser ''keyboard'',
        Ser_array ''text'' (B_const ''XR_MAX_VIRTUAL_KEYBOARD_COMMIT_TEXT_SIZE_META'')]),
      (2, ''XrEventDataVirtualKeyboardEnterMETA'',
       [Ser ''type'', Ser_xr ''next'', Ser ''keyboard'']),
      (2, ''XrEventDataVirtualKeyboardHiddenMETA'',
       [Ser ''type'', Ser_xr ''next'', Ser ''keyboard'']),
      (2, ''XrEventDataVirtualKeyboardShownMETA'',
       [Ser ''type'', Ser_xr ''next'', Ser ''keyboard'']),
      (2, ''XrSystemVirtualKeyboardPropertiesMETA'',
       [Ser ''type'', Ser_xr ''next'', Ser ''supportsVirtualKeyboard'']),
      (2, ''XrVirtualKeyboardAnimationStateMETA'',
       [Ser ''type'', Ser_xr ''next'', Ser ''animationIndex'', Ser ''fraction'']),
      (2, ''XrVirtualKeyboardCreateInfoMETA'',
       [Ser ''type'', Ser_xr ''next'']),
      (2, ''XrVirtualKeyboardInputInfoMETA'',
       [Ser ''type'', Ser_xr ''next'', Ser ''inputSource'', Ser ''inputSpace'',
        Ser ''inputPoseInSpace'', Ser ''inputState''])])]"

definition ext_serializers_38 :: "(string \<times> (nat \<times> string \<times> sop list) list) list" where
  "ext_serializers_38 =
   [(''XR_META_virtual_keyboard'',
     [(2, ''XrVirtualKeyboardLocationInfoMETA'',
       [Ser ''type'', Ser_xr ''next'', Ser ''locationType'', Ser ''space'',
        Ser ''poseInSpace'', Ser ''scale'']),
      (2, ''XrVirtualKeyboardModelAnimationStatesMETA'',
       [Ser ''type'', Ser_xr ''next'', Ser ''stateCapacityInput'', Ser ''stateCountOutput'',
        Ser_ptr ''states'' (C_field ''stateCapacityInput'')]),
      (2, ''XrVirtualKeyboardModelVisibilitySetInfoMETA'',
       [Ser ''type'', Ser_xr ''next'', Ser ''visible'']),
      (2, ''XrVirtualKeyboardSpaceCreateInfoMETA'',
       [Ser ''type'', Ser_xr ''next'', Ser ''locationType'', Ser ''space'', Ser ''poseInSpace'']),
      (2, ''XrVirtualKeyboardTextContextChangeInfoMETA'',
       [Ser ''type'', Ser_xr ''next'', Ser_ptr ''textContext'' C_null_terminated]),
      (2, ''XrVirtualKeyboardTextureDataMETA'',
       [Ser ''type'', Ser_xr ''next'', Ser ''textureWidth'', Ser ''textureHeight'',
        Ser ''bufferCapacityInput'', Ser ''bufferCountOutput'',
        Ser_ptr ''buffer'' (C_field ''bufferCapacityInput'')])]),
    (''XR_META_vulkan_swapchain_create_info'',
     [(2, ''XrVulkanSwapchainCreateInfoMETA'',
       [Ser ''type'', Ser_xr ''next'', Ser ''additionalCreateFlags'',
        Ser ''additionalUsageFlags''])]),
    (''XR_ML_compat'',
     [(1, ''XrCoordinateSpaceCreateInfoML'',
       [Ser ''type'', Ser_xr ''next'', Ser ''cfuid'', Ser ''poseInCoordinateSpace''])]),
    (''XR_ML_facial_expression'',
     [(2, ''XrFacialExpressionBlendShapeGetInfoML'',
       [Ser ''type'', Ser_xr ''next''])])]"

definition ext_serializers_39 :: "(string \<times> (nat \<times> string \<times> sop list) list) list" where
  "ext_serializers_39 =
   [(''XR_ML_facial_expression'',
     [(2, ''XrFacialExpressionBlendShapePropertiesML'',
       [Ser ''type'', Ser_xr ''next'', Ser ''requestedFacialBlendShape'', Ser ''weight'',
        Ser ''flags'', Ser_time ''time'']),
      (2, ''XrFacialExpressionClientCreateInfoML'',
       [Ser ''type'', Ser_xr ''next'', Ser ''requestedCount'',
        Ser_ptr ''requestedFacialBlendShapes'' (C_field ''requestedCount'')]),
      (2, ''XrSystemFacialExpressionPropertiesML'',
       [Ser ''type'', Ser_xr ''next'', Ser ''supportsFacialExpression''])]),
    (''XR_ML_frame_end_info'',
     [(2, ''XrFrameEndInfoML'',
       [Ser ''type'', Ser_xr ''next'', Ser ''focusDistance'', Ser ''flags''])]),
    (''XR_ML_global_dimmer'',
     [(2, ''XrGlobalDimmerFrameEndInfoML'',
       [Ser ''type'', Ser_xr ''next'', Ser ''dimmerValue'', Ser ''flags''])]),
    (''XR_ML_localization_map'',
     [(2, ''XrEventDataLocalizationChangedML'',
       [Ser ''type'', Ser_xr ''next'', Ser ''session'', Ser ''state'', Ser ''map'',
        Ser ''confidence'', Ser ''errorFlags'']),
      (2, ''XrLocalizationEnableEventsInfoML'',
       [Ser ''type'', Ser_xr ''next'', Ser ''enabled'']),
      (2, ''XrLocalizationMapImportInfoML'',
       [Ser ''type'', Ser_xr ''next'', Ser ''size'', Ser_ptr ''data'' (C_field ''size'')])])]"

definition ext_serializers_40 :: "(string \<times> (nat \<times> string \<times> sop list) list) list" where
  "ext_serializers_40 =
   [(''XR_ML_localization_map'',
     [(2, ''XrLocalizationMapML'',
       [Ser ''type'', Ser_xr ''next'',
        Ser_array ''name'' (B_const ''XR_MAX_LOCALIZATION_MAP_NAME_LENGTH_ML''),
        Ser ''mapUuid'', Ser ''mapType''])])]"

definition ext_serializers_41 :: "(string \<times> (nat \<times> string \<times> sop list) list) list" where
  "ext_serializers_41 =
   [(''XR_ML_localization_map'',
     [(2, ''XrMapLocalizationRequestInfoML'',
       [Ser ''type'', Ser_xr ''next'', Ser ''mapUuid''])]),
    (''XR_ML_marker_understanding'',
     [(2, ''XrMarkerDetectorAprilTagInfoML'',
       [Ser ''type'', Ser_xr ''next'', Ser ''aprilTagDict'']),
      (2, ''XrMarkerDetectorArucoInfoML'',
       [Ser ''type'', Ser_xr ''next'', Ser ''arucoDict'']),
      (2, ''XrMarkerDetectorCreateInfoML'',
       [Ser ''type'', Ser_xr ''next'', Ser ''profile'', Ser ''markerType'']),
      (2, ''XrMarkerDetectorCustomProfileInfoML'',
       [Ser ''type'', Ser_xr ''next'', Ser ''fpsHint'', Ser ''resolutionHint'',
        Ser ''cameraHint'', Ser ''cornerRefineMethod'', Ser ''useEdgeRefinement'',
        Ser ''fullAnalysisIntervalHint'']),
      (2, ''XrMarkerDetectorSizeInfoML'',
       [Ser ''type'', Ser_xr ''next'', Ser ''markerLength'']),
      (2, ''XrMarkerDetectorSnapshotInfoML'',
       [Ser ''type'', Ser_xr ''next'']),
      (2, ''XrMarkerDetectorStateML'',
       [Ser ''type'', Ser_xr ''next'', Ser ''state'']),
      (2, ''XrMarkerSpaceCreateInfoML'',
       [Ser ''type'', Ser_xr ''next'', Ser ''markerDetector'', Ser ''marker'',
        Ser ''poseInMarkerSpace''])])]"

definition ext_serializers_42 :: "(string \<times> (nat \<times> string \<times> sop list) list) list" where
  "ext_serializers_42 =
   [(''XR_ML_marker_understanding'',
     [(2, ''XrSystemMarkerUnderstandingPropertiesML'',
       [Ser ''type'', Ser_xr ''next'', Ser ''supportsMarkerUnderstanding''])]),
    (''XR_ML_spatial_anchors'',
     [(2, ''XrCreateSpatialAnchorsCompletionML'',
       [Ser ''type'', Ser_xr ''next'', Ser ''futureResult'', Ser ''spaceCount'',
        Ser_ptr ''spaces'' (C_field ''spaceCount'')]),
      (2, ''XrSpatialAnchorStateML'',
       [Ser ''type'', Ser_xr ''next'', Ser ''confidence''])])]"

definition ext_serializers_43 :: "(string \<times> (nat \<times> string \<times> sop list) list) list" where
  "ext_serializers_43 =
   [(''XR_ML_spatial_anchors'',
     [(2, ''XrSpatialAnchorsCreateInfoFromPoseML'',
       [Ser ''type'', Ser_xr ''next'', Ser ''baseSpace'', Ser ''poseInBaseSpace'',
        Ser_time ''time''])]),
    (''XR_ML_spatial_anchors_storage'',
     [(1, ''XrSpatialAnchorCompletionResultML'',
       [Ser ''uuid'', Ser ''result'']),
      (2, ''XrSpatialAnchorsCreateInfoFromUuidsML'',
       [Ser ''type'', Ser_xr ''next'', Ser ''storage'', Ser ''uuidCount'',
        Ser_ptr ''uuids'' (C_field ''uuidCount'')]),
      (2, ''XrSpatialAnchorsCreateStorageInfoML'',
       [Ser ''type'', Ser_xr ''next'']),
      (2, ''XrSpatialAnchorsDeleteCompletionDetailsML'',
       [Ser ''type'', Ser_xr ''next'', Ser ''resultCount'',
        Ser_ptr ''results'' (C_field ''resultCount'')]),
      (2, ''XrSpatialAnchorsDeleteCompletionML'',
       [Ser ''type'', Ser_xr ''next'', Ser ''futureResult'']),
      (2, ''XrSpatialAnchorsDeleteInfoML'',
       [Ser ''type'', Ser_xr ''next'', Ser ''uuidCount'',
        Ser_ptr ''uuids'' (C_field ''uuidCount'')]),
      (2, ''XrSpatialAnchorsPublishCompletionDetailsML'',
       [Ser ''type'', Ser_xr ''next'', Ser ''resultCount'',
        Ser_ptr ''results'' (C_field ''resultCount'')]),
      (2, ''XrSpatialAnchorsPublishCompletionML'',
       [Ser ''type'', Ser_xr ''next'', Ser ''futureResult'', Ser ''uuidCount'',
        Ser_ptr ''uuids'' (C_field ''uuidCount'')])])]"

definition ext_serializers_44 :: "(string \<times> (nat \<times> string \<times> sop list) list) list" where
  "ext_serializers_44 =
   [(''XR_ML_spatial_anchors_storage'',
     [(2, ''XrSpatialAnchorsPublishInfoML'',
       [Ser ''type'', Ser_xr ''next'', Ser ''anchorCount'',
        Ser_ptr ''anchors'' (C_field ''anchorCount''), Ser ''expiration'']),
      (2, ''XrSpatialAnchorsQueryCompletionML'',
       [Ser ''type'', Ser_xr ''next'', Ser ''futureResult'', Ser ''uuidCapacityInput'',
        Ser ''uuidCountOutput'', Ser_ptr ''uuids'' (C_field ''uuidCapacityInput'')])])]"

definition ext_serializers_45 :: "(string \<times> (nat \<times> string \<times> sop list) list) list" where
  "ext_serializers_45 =
   [(''XR_ML_spatial_anchors_storage'',
     [(2, ''XrSpatialAnchorsQueryInfoRadiusML'',
       [Ser ''type'', Ser_xr ''next'', Ser ''baseSpace'', Ser ''center'', Ser_time ''time'',
        Ser ''radius'']),
      (2, ''XrSpatialAnchorsUpdateExpirationCompletionDetailsML'',
       [Ser ''type'', Ser_xr ''next'', Ser ''resultCount'',
        Ser_ptr ''results'' (C_field ''resultCount'')]),
      (2, ''XrSpatialAnchorsUpdateExpirationCompletionML'',
       [Ser ''type'', Ser_xr ''next'', Ser ''futureResult'']),
      (2, ''XrSpatialAnchorsUpdateExpirationInfoML'',
       [Ser ''type'', Ser_xr ''next'', Ser ''uuidCount'',
        Ser_ptr ''uuids'' (C_field ''uuidCount''), Ser ''expiration''])]),
    (''XR_ML_system_notifications'',
     [(2, ''XrSystemNotificationsSetInfoML'',
       [Ser ''type'', Ser_xr ''next'', Ser ''suppressNotifications''])]),
    (''XR_ML_user_calibration'',
     [(2, ''XrEventDataEyeCalibrationChangedML'',
       [Ser ''type'', Ser_xr ''next'', Ser ''status'']),
      (2, ''XrEventDataHeadsetFitChangedML'',
       [Ser ''type'', Ser_xr ''next'', Ser ''status'', Ser_time ''time'']),
      (2, ''XrUserCalibrationEnableEventsInfoML'',
       [Ser ''type'', Ser_xr ''next'', Ser ''enabled''])])]"

definition ext_serializers_46 :: "(string \<times> (nat \<times> string \<times> sop list) list) list" where
  "ext_serializers_46 =
   [(''XR_ML_world_mesh_detection'',
     [(2, ''XrWorldMeshBlockML'',
       [Ser ''type'', Ser_xr ''next'', Ser ''uuid'', Ser ''blockResult'', Ser ''lod'',
        Ser ''flags'', Ser ''indexCount'', Ser_ptr ''indexBuffer'' (C_field ''indexCount''),
        Ser ''vertexCount'', Ser_ptr ''vertexBuffer'' (C_field ''vertexCount''),
        Ser ''normalCount'', Ser_ptr ''normalBuffer'' (C_field ''normalCount''),
        Ser ''confidenceCount'', Ser_ptr ''confidenceBuffer'' (C_field ''confidenceCount'')]),
      (2, ''XrWorldMeshBlockRequestML'',
       [Ser ''type'', Ser_xr ''next'', Ser ''uuid'', Ser ''lod'']),
      (2, ''XrWorldMeshBlockStateML'',
       [Ser ''type'', Ser_xr ''next'', Ser ''uuid'', Ser ''meshBoundingBoxCenter'',
        Ser ''meshBoundingBoxExtents'', Ser_time ''lastUpdateTime'', Ser ''status'']),
      (2, ''XrWorldMeshBufferML'',
       [Ser ''type'', Ser_xr ''next'', Ser ''bufferSize'',
        Ser_ptr ''buffer'' (C_field ''bufferSize'')]),
      (2, ''XrWorldMeshBufferRecommendedSizeInfoML'',
       [Ser ''type'', Ser_xr ''next'', Ser ''maxBlockCount'']),
      (2, ''XrWorldMeshBufferSizeML'',
       [Ser ''type'', Ser_xr ''next'', Ser ''size'']),
      (2, ''XrWorldMeshDetectorCreateInfoML'',
       [Ser ''type'', Ser_xr ''next'']),
      (2, ''XrWorldMeshGetInfoML'',
       [Ser ''type'', Ser_xr ''next'', Ser ''flags'', Ser ''fillHoleLength'',
        Ser ''disconnectedComponentArea'', Ser ''blockCount'',
        Ser_ptr ''blocks'' (C_field ''blockCount'')])])]"

definition ext_serializers_47 :: "(string \<times> (nat \<times> string \<times> sop list) list) list" where
  "ext_serializers_47 =
   [(''XR_ML_world_mesh_detection'',
     [(2, ''XrWorldMeshRequestCompletionInfoML'',
       [Ser ''type'', Ser_xr ''next'', Ser ''meshSpace'', Ser_time ''meshSpaceLocateTime'']),
      (2, ''XrWorldMeshRequestCompletionML'',
       [Ser ''type'', Ser_xr ''next'', Ser ''futureResult'', Ser ''blockCount'',
        Ser_ptr ''blocks'' (C_field ''blockCount'')]),
      (2, ''XrWorldMeshStateRequestCompletionML'',
       [Ser ''type'', Ser_xr ''next'', Ser ''futureResult'', Ser_time ''timestamp'',
        Ser ''meshBlockStateCapacityInput'', Ser ''meshBlockStateCountOutput'',
        Ser_ptr ''meshBlockStates'' (C_field ''meshBlockStateCapacityInput'')]),
      (2, ''XrWorldMeshStateRequestInfoML'',
       [Ser ''type'', Ser_xr ''next'', Ser ''baseSpace'', Ser_time ''time'',
        Ser ''boundingBoxCenter'', Ser ''boundingBoxExtents''])]),
    (''XR_MNDX_egl_enable'',
     [(2, ''XrGraphicsBindingEGLMNDX'',
       [Ser ''type'', Ser_xr ''next'', Ser ''getProcAddress'', Ser ''display'', Ser ''config'',
        Ser ''context''])]),
    (''XR_MNDX_force_feedback_curl'',
     [(1, ''XrForceFeedbackCurlApplyLocationMNDX'',
       [Ser ''location'', Ser ''value'']),
      (2, ''XrForceFeedbackCurlApplyLocationsMNDX'',
       [Ser ''type'', Ser_xr ''next'', Ser ''locationCount'',
        Ser_ptr ''locations'' (C_field ''locationCount'')]),
      (2, ''XrSystemForceFeedbackCurlPropertiesMNDX'',
       [Ser ''type'', Ser_xr ''next'', Ser ''supportsForceFeedbackCurl''])]),
    (''XR_MSFT_composition_layer_reprojection'',
     [(2, ''XrCompositionLayerReprojectionInfoMSFT'',
       [Ser ''type'', Ser_xr ''next'', Ser ''reprojectionMode''])])]"

definition ext_serializers_48 :: "(string \<times> (nat \<times> string \<times> sop list) list) list" where
  "ext_serializers_48 =
   [(''XR_MSFT_composition_layer_reprojection'',
     [(2, ''XrCompositionLayerReprojectionPlaneOverrideMSFT'',
       [Ser ''type'', Ser_xr ''next'', Ser ''position'', Ser ''normal'', Ser ''velocity''])]),
    (''XR_MSFT_controller_model'',
     [(2, ''XrControllerModelKeyStateMSFT'',
       [Ser ''type'', Ser_xr ''next'', Ser ''modelKey'']),
      (2, ''XrControllerModelNodePropertiesMSFT'',
       [Ser ''type'', Ser_xr ''next'',
        Ser_array ''parentNodeName'' (B_const ''XR_MAX_CONTROLLER_MODEL_NODE_NAME_SIZE_MSFT''),
        Ser_array ''nodeName'' (B_const ''XR_MAX_CONTROLLER_MODEL_NODE_NAME_SIZE_MSFT'')]),
      (2, ''XrControllerModelNodeStateMSFT'',
       [Ser ''type'', Ser_xr ''next'', Ser ''nodePose'']),
      (2, ''XrControllerModelPropertiesMSFT'',
       [Ser ''type'', Ser_xr ''next'', Ser ''nodeCapacityInput'', Ser ''nodeCountOutput'',
        Ser_ptr ''nodeProperties'' (C_field ''nodeCapacityInput'')]),
      (2, ''XrControllerModelStateMSFT'',
       [Ser ''type'', Ser_xr ''next'', Ser ''nodeCapacityInput'', Ser ''nodeCountOutput'',
        Ser_ptr ''nodeStates'' (C_field ''nodeCapacityInput'')])]),
    (''XR_MSFT_hand_tracking_mesh'',
     [(1, ''XrHandMeshIndexBufferMSFT'',
       [Ser ''indexBufferKey'', Ser ''indexCapacityInput'', Ser ''indexCountOutput'',
        Ser_ptr ''indices'' (C_field ''indexCapacityInput'')]),
      (2, ''XrHandMeshMSFT'',
       [Ser ''type'', Ser_xr ''next'', Ser ''isActive'', Ser ''indexBufferChanged'',
        Ser ''vertexBufferChanged'', Ser ''indexBuffer'', Ser ''vertexBuffer'']),
      (2, ''XrHandMeshSpaceCreateInfoMSFT'',
       [Ser ''type'', Ser_xr ''next'', Ser ''handPoseType'', Ser ''poseInHandMeshSpace''])])]"

definition ext_serializers_49 :: "(string \<times> (nat \<times> string \<times> sop list) list) list" where
  "ext_serializers_49 =
   [(''XR_MSFT_hand_tracking_mesh'',
     [(2, ''XrHandMeshUpdateInfoMSFT'',
       [Ser ''type'', Ser_xr ''next'', Ser_time ''time'', Ser ''handPoseType'']),
      (1, ''XrHandMeshVertexBufferMSFT'',
       [Ser_time ''vertexUpdateTime'', Ser ''vertexCapacityInput'', Ser ''vertexCountOutput'',
        Ser_ptr ''vertices'' (C_field ''vertexCapacityInput'')]),
      (1, ''XrHandMeshVertexMSFT'',
       [Ser ''position'', Ser ''normal'']),
      (2, ''XrHandPoseTypeInfoMSFT'',
       [Ser ''type'', Ser_xr ''next'', Ser ''handPoseType'']),
      (2, ''XrSystemHandTrackingMeshPropertiesMSFT'',
       [Ser ''type'', Ser_xr ''next'', Ser ''supportsHandTrackingMesh'',
        Ser ''maxHandMeshIndexCount'', Ser ''maxHandMeshVertexCount''])]),
    (''XR_MSFT_holographic_window_attachment'',
     [(2, ''XrHolographicWindowAttachmentMSFT'',
       [Ser ''type'', Ser_xr ''next'', Ser_ptr ''holographicSpace'' C_one,
        Ser_ptr ''coreWindow'' C_one])]),
    (''XR_MSFT_scene_marker'',
     [(1, ''XrSceneMarkerMSFT'',
       [Ser ''markerType'', Ser_time ''lastSeenTime'', Ser ''center'', Ser ''size'']),
      (1, ''XrSceneMarkerQRCodeMSFT'',
       [Ser ''symbolType'', Ser ''version'']),
      (2, ''XrSceneMarkerQRCodesMSFT'',
       [Ser ''type'', Ser_xr ''next'', Ser ''qrCodeCapacityInput'',
        Ser_ptr ''qrCodes'' (C_field ''qrCodeCapacityInput'')]),
      (2, ''XrSceneMarkerTypeFilterMSFT'',
       [Ser ''type'', Ser_xr ''next'', Ser ''markerTypeCount'',
        Ser_ptr ''markerTypes'' (C_field ''markerTypeCount'')]),
      (2, ''XrSceneMarkersMSFT'',
       [Ser ''type'', Ser_xr ''next'', Ser ''sceneMarkerCapacityInput'',
        Ser_ptr ''sceneMarkers'' (C_field ''sceneMarkerCapacityInput'')])])]"

definition ext_serializers_50 :: "(string \<times> (nat \<times> string \<times> sop list) list) list" where
  "ext_serializers_50 =
   [(''XR_MSFT_scene_understanding'',
     [(2, ''XrNewSceneComputeInfoMSFT'',
       [Ser ''type'', Ser_xr ''next'', Ser ''requestedFeatureCount'',
        Ser_ptr ''requestedFeatures'' (C_field ''requestedFeatureCount''), Ser ''consistency'',
        Ser ''bounds'']),
      (1, ''XrSceneBoundsMSFT'',
       [Ser ''space'', Ser_time ''time'', Ser ''sphereCount'',
        Ser_ptr ''spheres'' (C_field ''sphereCount''), Ser ''boxCount'',
        Ser_ptr ''boxes'' (C_field ''boxCount''), Ser ''frustumCount'',
        Ser_ptr ''frustums'' (C_field ''frustumCount'')]),
      (1, ''XrSceneComponentLocationMSFT'',
       [Ser ''flags'', Ser ''pose'']),
      (2, ''XrSceneComponentLocationsMSFT'',
       [Ser ''type'', Ser_xr ''next'', Ser ''locationCount'',
        Ser_ptr ''locations'' (C_field ''locationCount'')]),
      (1, ''XrSceneComponentMSFT'',
       [Ser ''componentType'', Ser ''id'', Ser ''parentId'', Ser_time ''updateTime'']),
      (2, ''XrSceneComponentParentFilterInfoMSFT'',
       [Ser ''type'', Ser_xr ''next'', Ser ''parentId'']),
      (2, ''XrSceneComponentsGetInfoMSFT'',
       [Ser ''type'', Ser_xr ''next'', Ser ''componentType'']),
      (2, ''XrSceneComponentsLocateInfoMSFT'',
       [Ser ''type'', Ser_xr ''next'', Ser ''baseSpace'', Ser_time ''time'',
        Ser ''componentIdCount'', Ser_ptr ''componentIds'' (C_field ''componentIdCount'')]),
      (2, ''XrSceneComponentsMSFT'',
       [Ser ''type'', Ser_xr ''next'', Ser ''componentCapacityInput'',
        Ser ''componentCountOutput'',
        Ser_ptr ''components'' (C_field ''componentCapacityInput'')]),
      (2, ''XrSceneCreateInfoMSFT'',
       [Ser ''type'', Ser_xr ''next'']),
      (1, ''XrSceneFrustumBoundMSFT'',
       [Ser ''pose'', Ser ''fov'', Ser ''farDistance''])])]"

definition ext_serializers_51 :: "(string \<times> (nat \<times> string \<times> sop list) list) list" where
  "ext_serializers_51 =
   [(''XR_MSFT_scene_understanding'',
     [(2, ''XrSceneMeshBuffersGetInfoMSFT'',
       [Ser ''type'', Ser_xr ''next'', Ser ''meshBufferId'']),
      (2, ''XrSceneMeshBuffersMSFT'',
       [Ser ''type'', Ser_xr ''next'']),
      (2, ''XrSceneMeshIndicesUint16MSFT'',
       [Ser ''type'', Ser_xr ''next'', Ser ''indexCapacityInput'', Ser ''indexCountOutput'',
        Ser_ptr ''indices'' (C_field ''indexCapacityInput'')]),
      (2, ''XrSceneMeshIndicesUint32MSFT'',
       [Ser ''type'', Ser_xr ''next'', Ser ''indexCapacityInput'', Ser ''indexCountOutput'',
        Ser_ptr ''indices'' (C_field ''indexCapacityInput'')]),
      (1, ''XrSceneMeshMSFT'',
       [Ser ''meshBufferId'', Ser ''supportsIndicesUint16'']),
      (2, ''XrSceneMeshVertexBufferMSFT'',
       [Ser ''type'', Ser_xr ''next'', Ser ''vertexCapacityInput'', Ser ''vertexCountOutput'',
        Ser_ptr ''vertices'' (C_field ''vertexCapacityInput'')]),
      (2, ''XrSceneMeshesMSFT'',
       [Ser ''type'', Ser_xr ''next'', Ser ''sceneMeshCount'',
        Ser_ptr ''sceneMeshes'' (C_field ''sceneMeshCount'')]),
      (1, ''XrSceneObjectMSFT'',
       [Ser ''objectType'']),
      (2, ''XrSceneObjectTypesFilterInfoMSFT'',
       [Ser ''type'', Ser_xr ''next'', Ser ''objectTypeCount'',
        Ser_ptr ''objectTypes'' (C_field ''objectTypeCount'')]),
      (2, ''XrSceneObjectsMSFT'',
       [Ser ''type'', Ser_xr ''next'', Ser ''sceneObjectCount'',
        Ser_ptr ''sceneObjects'' (C_field ''sceneObjectCount'')]),
      (2, ''XrSceneObserverCreateInfoMSFT'',
       [Ser ''type'', Ser_xr ''next''])])]"

definition ext_serializers_52 :: "(string \<times> (nat \<times> string \<times> sop list) list) list" where
  "ext_serializers_52 =
   [(''XR_MSFT_scene_understanding'',
     [(1, ''XrSceneOrientedBoxBoundMSFT'',
       [Ser ''pose'', Ser ''extents'']),
      (2, ''XrScenePlaneAlignmentFilterInfoMSFT'',
       [Ser ''type'', Ser_xr ''next'', Ser ''alignmentCount'',
        Ser_ptr ''alignments'' (C_field ''alignmentCount'')]),
      (1, ''XrScenePlaneMSFT'',
       [Ser ''alignment'', Ser ''size'', Ser ''meshBufferId'', Ser ''supportsIndicesUint16'']),
      (2, ''XrScenePlanesMSFT'',
       [Ser ''type'', Ser_xr ''next'', Ser ''scenePlaneCount'',
        Ser_ptr ''scenePlanes'' (C_field ''scenePlaneCount'')]),
      (1, ''XrSceneSphereBoundMSFT'',
       [Ser ''center'', Ser ''radius'']),
      (1, ''XrUuidMSFT'',
       [Ser_array ''bytes'' (B_lit 16)]),
      (2, ''XrVisualMeshComputeLodInfoMSFT'',
       [Ser ''type'', Ser_xr ''next'', Ser ''lod''])]),
    (''XR_MSFT_scene_understanding_serialization'',
     [(1, ''XrDeserializeSceneFragmentMSFT'',
       [Ser ''bufferSize'', Ser_ptr ''buffer'' (C_field ''bufferSize'')]),
      (2, ''XrSceneDeserializeInfoMSFT'',
       [Ser ''type'', Ser_xr ''next'', Ser ''fragmentCount'',
        Ser_ptr ''fragments'' (C_field ''fragmentCount'')]),
      (2, ''XrSerializedSceneFragmentDataGetInfoMSFT'',
       [Ser ''type'', Ser_xr ''next'', Ser ''sceneFragmentId''])]),
    (''XR_MSFT_secondary_view_configuration'',
     [(2, ''XrSecondaryViewConfigurationFrameEndInfoMSFT'',
       [Ser ''type'', Ser_xr ''next'', Ser ''viewConfigurationCount'',
        Ser_ptr ''viewConfigurationLayersInfo'' (C_field ''viewConfigurationCount'')]),
      (2, ''XrSecondaryViewConfigurationFrameStateMSFT'',
       [Ser ''type'', Ser_xr ''next'', Ser ''viewConfigurationCount'',
        Ser_ptr ''viewConfigurationStates'' (C_field ''viewConfigurationCount'')])])]"

definition ext_serializers_53 :: "(string \<times> (nat \<times> string \<times> sop list) list) list" where
  "ext_serializers_53 =
   [(''XR_MSFT_secondary_view_configuration'',
     [(2, ''XrSecondaryViewConfigurationSessionBeginInfoMSFT'',
       [Ser ''type'', Ser_xr ''next'', Ser ''viewConfigurationCount'',
        Ser_ptr ''enabledViewConfigurationTypes'' (C_field ''viewConfigurationCount'')]),
      (2, ''XrSecondaryViewConfigurationStateMSFT'',
       [Ser ''type'', Ser_xr ''next'', Ser ''viewConfigurationType'', Ser ''active'']),
      (2, ''XrSecondaryViewConfigurationSwapchainCreateInfoMSFT'',
       [Ser ''type'', Ser_xr ''next'', Ser ''viewConfigurationType''])]),
    (''XR_MSFT_spatial_anchor'',
     [(1, ''XrSpatialAnchorCreateInfoMSFT'',
       [Ser ''type'', Ser_xr ''next'', Ser ''space'', Ser ''pose'', Ser_time ''time'']),
      (1, ''XrSpatialAnchorSpaceCreateInfoMSFT'',
       [Ser ''type'', Ser_xr ''next'', Ser ''anchor'', Ser ''poseInAnchorSpace''])]),
    (''XR_MSFT_spatial_anchor_persistence'',
     [(2, ''XrSpatialAnchorFromPersistedAnchorCreateInfoMSFT'',
       [Ser ''type'', Ser_xr ''next'', Ser ''spatialAnchorStore'',
        Ser ''spatialAnchorPersistenceName'']),
      (2, ''XrSpatialAnchorPersistenceInfoMSFT'',
       [Ser ''type'', Ser_xr ''next'', Ser ''spatialAnchorPersistenceName'',
        Ser ''spatialAnchor'']),
      (1, ''XrSpatialAnchorPersistenceNameMSFT'',
       [Ser_array ''name'' (B_const ''XR_MAX_SPATIAL_ANCHOR_NAME_SIZE_MSFT'')])]),
    (''XR_MSFT_spatial_graph_bridge'',
     [(2, ''XrSpatialGraphNodeBindingPropertiesGetInfoMSFT'',
       [Ser ''type'', Ser_xr ''next'']),
      (2, ''XrSpatialGraphNodeBindingPropertiesMSFT'',
       [Ser ''type'', Ser_xr ''next'', Ser_array ''nodeId'' (B_const ''XR_GUID_SIZE_MSFT''),
        Ser ''poseInNodeSpace'']),
      (2, ''XrSpatialGraphNodeSpaceCreateInfoMSFT'',
       [Ser ''type'', Ser_xr ''next'', Ser ''nodeType'',
        Ser_array ''nodeId'' (B_const ''XR_GUID_SIZE_MSFT''), Ser ''pose''])])]"

definition ext_serializers_54 :: "(string \<times> (nat \<times> string \<times> sop list) list) list" where
  "ext_serializers_54 =
   [(''XR_MSFT_spatial_graph_bridge'',
     [(2, ''XrSpatialGraphStaticNodeBindingCreateInfoMSFT'',
       [Ser ''type'', Ser_xr ''next'', Ser ''space'', Ser ''poseInSpace'', Ser_time ''time''])]),
    (''XR_OCULUS_external_camera'',
     [(1, ''XrExternalCameraExtrinsicsOCULUS'',
       [Ser_time ''lastChangeTime'', Ser ''cameraStatusFlags'', Ser ''attachedToDevice'',
        Ser ''relativePose'']),
      (1, ''XrExternalCameraIntrinsicsOCULUS'',
       [Ser_time ''lastChangeTime'', Ser ''fov'', Ser ''virtualNearPlaneDistance'',
        Ser ''virtualFarPlaneDistance'', Ser ''imageSensorPixelResolution'']),
      (2, ''XrExternalCameraOCULUS'',
       [Ser ''type'', Ser_xr ''next'',
        Ser_array ''name'' (B_const ''XR_MAX_EXTERNAL_CAMERA_NAME_SIZE_OCULUS''),
        Ser ''intrinsics'', Ser ''extrinsics''])]),
    (''XR_VALVE_analog_threshold'',
     [(2, ''XrInteractionProfileAnalogThresholdVALVE'',
       [Ser ''type'', Ser_xr ''next'', Ser ''action'', Ser ''binding'', Ser ''onThreshold'',
        Ser ''offThreshold'', Ser_xr ''onHaptic'', Ser_xr ''offHaptic''])]),
    (''XR_VARJO_composition_layer_depth_test'',
     [(2, ''XrCompositionLayerDepthTestVARJO'',
       [Ser ''type'', Ser_xr ''next'', Ser ''depthTestRangeNearZ'', Ser ''depthTestRangeFarZ''])]),
    (''XR_VARJO_foveated_rendering'',
     [(2, ''XrFoveatedViewConfigurationViewVARJO'',
       [Ser ''type'', Ser_xr ''next'', Ser ''foveatedRenderingActive'']),
      (2, ''XrSystemFoveatedRenderingPropertiesVARJO'',
       [Ser ''type'', Ser_xr ''next'', Ser ''supportsFoveatedRendering'']),
      (2, ''XrViewLocateFoveatedRenderingVARJO'',
       [Ser ''type'', Ser_xr ''next'', Ser ''foveatedRenderingActive''])])]"

definition ext_serializers_55 :: "(string \<times> (nat \<times> string \<times> sop list) list) list" where
  "ext_serializers_55 =
   [(''XR_VARJO_marker_tracking'',
     [(2, ''XrEventDataMarkerTrackingUpdateVARJO'',
       [Ser ''type'', Ser_xr ''next'', Ser ''markerId'', Ser ''isActive'', Ser ''isPredicted'',
        Ser_time ''time'']),
      (2, ''XrMarkerSpaceCreateInfoVARJO'',
       [Ser ''type'', Ser_xr ''next'', Ser ''markerId'', Ser ''poseInMarkerSpace'']),
      (2, ''XrSystemMarkerTrackingPropertiesVARJO'',
       [Ser ''type'', Ser_xr ''next'', Ser ''supportsMarkerTracking''])])]"

definition ext_serializers :: "(string \<times> (nat \<times> string \<times> sop list) list) list" where
  "ext_serializers =
     ext_serializers_1 @ ext_serializers_2 @ ext_serializers_3 @ ext_serializers_4 @
     ext_serializers_5 @ ext_serializers_6 @ ext_serializers_7 @ ext_serializers_8 @
     ext_serializers_9 @ ext_serializers_10 @ ext_serializers_11 @ ext_serializers_12 @
     ext_serializers_13 @ ext_serializers_14 @ ext_serializers_15 @ ext_serializers_16 @
     ext_serializers_17 @ ext_serializers_18 @ ext_serializers_19 @ ext_serializers_20 @
     ext_serializers_21 @ ext_serializers_22 @ ext_serializers_23 @ ext_serializers_24 @
     ext_serializers_25 @ ext_serializers_26 @ ext_serializers_27 @ ext_serializers_28 @
     ext_serializers_29 @ ext_serializers_30 @ ext_serializers_31 @ ext_serializers_32 @
     ext_serializers_33 @ ext_serializers_34 @ ext_serializers_35 @ ext_serializers_36 @
     ext_serializers_37 @ ext_serializers_38 @ ext_serializers_39 @ ext_serializers_40 @
     ext_serializers_41 @ ext_serializers_42 @ ext_serializers_43 @ ext_serializers_44 @
     ext_serializers_45 @ ext_serializers_46 @ ext_serializers_47 @ ext_serializers_48 @
     ext_serializers_49 @ ext_serializers_50 @ ext_serializers_51 @ ext_serializers_52 @
     ext_serializers_53 @ ext_serializers_54 @ ext_serializers_55"

lemmas ext_serializers_defs =
  ext_serializers_1_def ext_serializers_2_def ext_serializers_3_def ext_serializers_4_def
  ext_serializers_5_def ext_serializers_6_def ext_serializers_7_def ext_serializers_8_def
  ext_serializers_9_def ext_serializers_10_def ext_serializers_11_def ext_serializers_12_def
  ext_serializers_13_def ext_serializers_14_def ext_serializers_15_def ext_serializers_16_def
  ext_serializers_17_def ext_serializers_18_def ext_serializers_19_def ext_serializers_20_def
  ext_serializers_21_def ext_serializers_22_def ext_serializers_23_def ext_serializers_24_def
  ext_serializers_25_def ext_serializers_26_def ext_serializers_27_def ext_serializers_28_def
  ext_serializers_29_def ext_serializers_30_def ext_serializers_31_def ext_serializers_32_def
  ext_serializers_33_def ext_serializers_34_def ext_serializers_35_def ext_serializers_36_def
  ext_serializers_37_def ext_serializers_38_def ext_serializers_39_def ext_serializers_40_def
  ext_serializers_41_def ext_serializers_42_def ext_serializers_43_def ext_serializers_44_def
  ext_serializers_45_def ext_serializers_46_def ext_serializers_47_def ext_serializers_48_def
  ext_serializers_49_def ext_serializers_50_def ext_serializers_51_def ext_serializers_52_def
  ext_serializers_53_def ext_serializers_54_def ext_serializers_55_def


end
