(* ===== verification/Ext_Deserializers.thy ===== *)
theory Ext_Deserializers
  imports Serialization
begin

text \<open>
  The struct deserializers of the extensions, from \<open>src/common/serialization/deserializer.cpp\<close>,
  laid out like \<open>Ext_Serializers\<close>.
\<close>

definition ext_deserializers_1 :: "(string \<times> (nat \<times> string \<times> dop list) list) list" where
  "ext_deserializers_1 =
   [(''XR_ALMALENCE_digital_lens_control'',
     [(1, ''XrDigitalLensControlALMALENCE'',
       [De ''type'', De_xr ''next'', De ''flags''])]),
    (''XR_BD_body_tracking'',
     [(1, ''XrBodyJointLocationBD'',
       [De ''locationFlags'', De ''pose'']),
      (2, ''XrBodyJointLocationsBD'',
       [De ''type'', De_xr ''next'', De ''allJointPosesTracked'', De ''jointLocationCount'',
        De_ptr ''jointLocations'']),
      (2, ''XrBodyJointsLocateInfoBD'',
       [De ''type'', De_xr ''next'', De ''baseSpace'', De_time ''time'']),
      (2, ''XrBodyTrackerCreateInfoBD'',
       [De ''type'', De_xr ''next'', De ''jointSet'']),
      (2, ''XrSystemBodyTrackingPropertiesBD'',
       [De ''type'', De_xr ''next'', De ''supportsBodyTracking''])]),
    (''XR_BD_future_progress'',
     [(2, ''XrFuturePollResultProgressBD'',
       [De ''type'', De_xr ''next'', De ''isSupported'', De ''progressPercentage''])]),
    (''XR_BD_spatial_anchor'',
     [(2, ''XrSpatialAnchorCreateCompletionBD'',
       [De ''type'', De_xr ''next'', De ''futureResult'', De ''anchor'', De ''uuid'']),
      (2, ''XrSpatialAnchorCreateInfoBD'',
       [De ''type'', De_xr ''next'', De ''space'', De ''pose'', De_time ''time'']),
      (2, ''XrSpatialAnchorPersistInfoBD'',
       [De ''type'', De_xr ''next'', De ''location'', De ''anchor''])])]"

definition ext_deserializers_2 :: "(string \<times> (nat \<times> string \<times> dop list) list) list" where
  "ext_deserializers_2 =
   [(''XR_BD_spatial_anchor'',
     [(2, ''XrSpatialAnchorUnpersistInfoBD'',
       [De ''type'', De_xr ''next'', De ''location'', De ''anchor'']),
      (2, ''XrSystemSpatialAnchorPropertiesBD'',
       [De ''type'', De_xr ''next'', De ''supportsSpatialAnchor''])]),
    (''XR_BD_spatial_anchor_sharing'',
     [(2, ''XrSharedSpatialAnchorDownloadInfoBD'',
       [De ''type'', De_xr ''next'', De ''uuid'']),
      (2, ''XrSpatialAnchorShareInfoBD'',
       [De ''type'', De_xr ''next'', De ''anchor'']),
      (2, ''XrSystemSpatialAnchorSharingPropertiesBD'',
       [De ''type'', De_xr ''next'', De ''supportsSpatialAnchorSharing''])]),
    (''XR_BD_spatial_mesh'',
     [(2, ''XrSenseDataProviderCreateInfoSpatialMeshBD'',
       [De ''type'', De_xr ''next'', De ''configFlags'', De ''lod'']),
      (2, ''XrSystemSpatialMeshPropertiesBD'',
       [De ''type'', De_xr ''next'', De ''supportsSpatialMesh''])]),
    (''XR_BD_spatial_scene'',
     [(2, ''XrSceneCaptureInfoBD'',
       [De ''type'', De_xr ''next'']),
      (2, ''XrSystemSpatialScenePropertiesBD'',
       [De ''type'', De_xr ''next'', De ''supportsSpatialScene''])]),
    (''XR_BD_spatial_sensing'',
     [(2, ''XrAnchorSpaceCreateInfoBD'',
       [De ''type'', De_xr ''next'', De ''anchor'', De ''poseInAnchorSpace''])])]"

definition ext_deserializers_3 :: "(string \<times> (nat \<times> string \<times> dop list) list) list" where
  "ext_deserializers_3 =
   [(''XR_BD_spatial_sensing'',
     [(2, ''XrEventDataSenseDataProviderStateChangedBD'',
       [De ''type'', De_xr ''next'', De ''provider'', De ''newState'']),
      (2, ''XrEventDataSenseDataUpdatedBD'',
       [De ''type'', De_xr ''next'', De ''provider'']),
      (2, ''XrQueriedSenseDataBD'',
       [De ''type'', De_xr ''next'', De ''stateCapacityInput'', De ''stateCountOutput'',
        De_ptr ''states'']),
      (2, ''XrQueriedSenseDataGetInfoBD'',
       [De ''type'', De_xr ''next'']),
      (2, ''XrSenseDataFilterSemanticBD'',
       [De ''type'', De_xr ''next'', De ''labelCount'', De_ptr ''labels'']),
      (2, ''XrSenseDataFilterUuidBD'',
       [De ''type'', De_xr ''next'', De ''uuidCount'', De_ptr ''uuids'']),
      (2, ''XrSenseDataProviderCreateInfoBD'',
       [De ''type'', De_xr ''next'', De ''providerType'']),
      (2, ''XrSenseDataProviderStartInfoBD'',
       [De ''type'', De_xr ''next'']),
      (2, ''XrSenseDataQueryCompletionBD'',
       [De ''type'', De_xr ''next'', De ''futureResult'', De ''snapshot'']),
      (2, ''XrSenseDataQueryInfoBD'',
       [De ''type'', De_xr ''next''])])]"

definition ext_deserializers_4 :: "(string \<times> (nat \<times> string \<times> dop list) list) list" where
  "ext_deserializers_4 =
   [(''XR_BD_spatial_sensing'',
     [(2, ''XrSpatialEntityAnchorCreateInfoBD'',
       [De ''type'', De_xr ''next'', De ''snapshot'', De ''entityId''])])]"

definition ext_deserializers_5 :: "(string \<times> (nat \<times> string \<times> dop list) list) list" where
  "ext_deserializers_5 =
   [(''XR_BD_spatial_sensing'',
     [(2, ''XrSpatialEntityComponentDataBoundingBox2DBD'',
       [De ''type'', De_xr ''next'', De ''boundingBox2D'']),
      (2, ''XrSpatialEntityComponentDataBoundingBox3DBD'',
       [De ''type'', De_xr ''next'', De ''boundingBox3D'']),
      (2, ''XrSpatialEntityComponentDataLocationBD'',
       [De ''type'', De_xr ''next'', De ''location'']),
      (2, ''XrSpatialEntityComponentDataPolygonBD'',
       [De ''type'', De_xr ''next'', De ''vertexCapacityInput'', De ''vertexCountOutput'',
        De_ptr ''vertices'']),
      (2, ''XrSpatialEntityComponentDataSemanticBD'',
       [De ''type'', De_xr ''next'', De ''labelCapacityInput'', De ''labelCountOutput'',
        De_ptr ''labels'']),
      (2, ''XrSpatialEntityComponentDataTriangleMeshBD'',
       [De ''type'', De_xr ''next'', De ''vertexCapacityInput'', De ''vertexCountOutput'',
        De_ptr ''vertices'', De ''indexCapacityInput'', De ''indexCountOutput'',
        De_ptr ''indices'']),
      (2, ''XrSpatialEntityComponentGetInfoBD'',
       [De ''type'', De_xr ''next'', De ''entityId'', De ''componentType'']),
      (2, ''XrSpatialEntityLocationGetInfoBD'',
       [De ''type'', De_xr ''next'', De ''baseSpace'']),
      (2, ''XrSpatialEntityStateBD'',
       [De ''type'', De_xr ''next'', De ''entityId'', De_time ''lastUpdateTime'', De ''uuid''])])]"

definition ext_deserializers_6 :: "(string \<times> (nat \<times> string \<times> dop list) list) list" where
  "ext_deserializers_6 =
   [(''XR_BD_spatial_sensing'',
     [(2, ''XrSystemSpatialSensingPropertiesBD'',
       [De ''type'', De_xr ''next'', De ''supportsSpatialSensing''])]),
    (''XR_EPIC_view_configuration_fov'',
     [(2, ''XrViewConfigurationViewFovEPIC'',
       [De ''type'', De_xr ''next'', De ''recommendedFov'', De ''maxMutableFov''])]),
    (''XR_EXTX_overlay'',
     [(2, ''XrEventDataMainSessionVisibilityChangedEXTX'',
       [De ''type'', De_xr ''next'', De ''visible'', De ''flags'']),
      (2, ''XrSessionCreateInfoOverlayEXTX'',
       [De ''type'', De_xr ''next'', De ''createFlags'', De ''sessionLayersPlacement''])]),
    (''XR_EXT_active_action_set_priority'',
     [(2, ''XrActiveActionSetPrioritiesEXT'',
       [De ''type'', De_xr ''next'', De ''actionSetPriorityCount'',
        De_ptr ''actionSetPriorities'']),
      (1, ''XrActiveActionSetPriorityEXT'',
       [De ''actionSet'', De ''priorityOverride''])]),
    (''XR_EXT_debug_utils'',
     [(2, ''XrDebugUtilsLabelEXT'',
       [De ''type'', De_xr ''next'', De_ptr ''labelName'']),
      (2, ''XrDebugUtilsMessengerCallbackDataEXT'',
       [De ''type'', De_xr ''next'', De_ptr ''messageId'', De_ptr ''functionName'',
        De_ptr ''message'', De ''objectCount'', De_ptr ''objects'', De ''sessionLabelCount'',
        De_ptr ''sessionLabels'']),
      (2, ''XrDebugUtilsMessengerCreateInfoEXT'',
       [De ''type'', De_xr ''next'', De ''messageSeverities'', De ''messageTypes'',
        De ''userCallback'', De_ptr ''userData''])])]"

definition ext_deserializers_7 :: "(string \<times> (nat \<times> string \<times> dop list) list) list" where
  "ext_deserializers_7 =
   [(''XR_EXT_debug_utils'',
     [(2, ''XrDebugUtilsObjectNameInfoEXT'',
       [De ''type'', De_xr ''next'', De ''objectType'', De ''objectHandle'',
        De_ptr ''objectName''])]),
    (''XR_EXT_dpad_binding'',
     [(2, ''XrInteractionProfileDpadBindingEXT'',
       [De ''type'', De_xr ''next'', De ''binding'', De ''actionSet'', De ''forceThreshold'',
        De ''forceThresholdReleased'', De ''centerRegion'', De ''wedgeAngle'', De ''isSticky'',
        De_xr ''onHaptic'', De_xr ''offHaptic''])]),
    (''XR_EXT_eye_gaze_interaction'',
     [(2, ''XrEyeGazeSampleTimeEXT'',
       [De ''type'', De_xr ''next'', De_time ''time'']),
      (2, ''XrSystemEyeGazeInteractionPropertiesEXT'',
       [De ''type'', De_xr ''next'', De ''supportsEyeGazeInteraction''])]),
    (''XR_EXT_frame_synthesis'',
     [(2, ''XrFrameSynthesisConfigViewEXT'',
       [De ''type'', De_xr ''next'', De ''recommendedMotionVectorImageRectWidth'',
        De ''recommendedMotionVectorImageRectHeight'']),
      (2, ''XrFrameSynthesisInfoEXT'',
       [De ''type'', De_xr ''next'', De ''layerFlags'', De ''motionVectorSubImage'',
        De ''motionVectorScale'', De ''motionVectorOffset'', De ''appSpaceDeltaPose'',
        De ''depthSubImage'', De ''minDepth'', De ''maxDepth'', De ''nearZ'', De ''farZ''])]),
    (''XR_EXT_future'',
     [(2, ''XrFutureCancelInfoEXT'',
       [De ''type'', De_xr ''next'', De ''future''])])]"

definition ext_deserializers_8 :: "(string \<times> (nat \<times> string \<times> dop list) list) list" where
  "ext_deserializers_8 =
   [(''XR_EXT_future'',
     [(2, ''XrFutureCompletionEXT'',
       [De ''type'', De_xr ''next'', De ''futureResult'']),
      (2, ''XrFuturePollInfoEXT'',
       [De ''type'', De_xr ''next'', De ''future'']),
      (2, ''XrFuturePollResultEXT'',
       [De ''type'', De_xr ''next'', De ''state''])]),
    (''XR_EXT_hand_joints_motion_range'',
     [(2, ''XrHandJointsMotionRangeInfoEXT'',
       [De ''type'', De_xr ''next'', De ''handJointsMotionRange''])]),
    (''XR_EXT_hand_tracking'',
     [(1, ''XrHandJointLocationEXT'',
       [De ''locationFlags'', De ''pose'', De ''radius'']),
      (2, ''XrHandJointLocationsEXT'',
       [De ''type'', De_xr ''next'', De ''isActive'', De ''jointCount'',
        De_ptr ''jointLocations'']),
      (2, ''XrHandJointVelocitiesEXT'',
       [De ''type'', De_xr ''next'', De ''jointCount'', De_ptr ''jointVelocities'']),
      (1, ''XrHandJointVelocityEXT'',
       [De ''velocityFlags'', De ''linearVelocity'', De ''angularVelocity'']),
      (2, ''XrHandJointsLocateInfoEXT'',
       [De ''type'', De_xr ''next'', De ''baseSpace'', De_time ''time'']),
      (2, ''XrHandTrackerCreateInfoEXT'',
       [De ''type'', De_xr ''next'', De ''hand'', De ''handJointSet''])])]"

definition ext_deserializers_9 :: "(string \<times> (nat \<times> string \<times> dop list) list) list" where
  "ext_deserializers_9 =
   [(''XR_EXT_hand_tracking'',
     [(2, ''XrSystemHandTrackingPropertiesEXT'',
       [De ''type'', De_xr ''next'', De ''supportsHandTracking''])]),
    (''XR_EXT_hand_tracking_data_source'',
     [(2, ''XrHandTrackingDataSourceInfoEXT'',
       [De ''type'', De_xr ''next'', De ''requestedDataSourceCount'',
        De_ptr ''requestedDataSources'']),
      (2, ''XrHandTrackingDataSourceStateEXT'',
       [De ''type'', De_xr ''next'', De ''isActive'', De ''dataSource''])]),
    (''XR_EXT_performance_settings'',
     [(2, ''XrEventDataPerfSettingsEXT'',
       [De ''type'', De_xr ''next'', De ''domain'', De ''subDomain'', De ''fromLevel'',
        De ''toLevel''])]),
    (''XR_EXT_plane_detection'',
     [(2, ''XrPlaneDetectorBeginInfoEXT'',
       [De ''type'', De_xr ''next'', De ''baseSpace'', De_time ''time'',
        De ''orientationCount'', De_ptr ''orientations'', De ''semanticTypeCount'',
        De_ptr ''semanticTypes'', De ''maxPlanes'', De ''minArea'', De ''boundingBoxPose'',
        De ''boundingBoxExtent'']),
      (2, ''XrPlaneDetectorCreateInfoEXT'',
       [De ''type'', De_xr ''next'', De ''flags'']),
      (2, ''XrPlaneDetectorGetInfoEXT'',
       [De ''type'', De_xr ''next'', De ''baseSpace'', De_time ''time''])])]"

definition ext_deserializers_10 :: "(string \<times> (nat \<times> string \<times> dop list) list) list" where
  "ext_deserializers_10 =
   [(''XR_EXT_plane_detection'',
     [(2, ''XrPlaneDetectorLocationEXT'',
       [De ''type'', De_xr ''next'', De ''planeId'', De ''locationFlags'', De ''pose'',
        De ''extents'', De ''orientation'', De ''semanticType'', De ''polygonBufferCount'']),
      (2, ''XrPlaneDetectorLocationsEXT'',
       [De ''type'', De_xr ''next'', De ''planeLocationCapacityInput'',
        De ''planeLocationCountOutput'', De_ptr ''planeLocations'']),
      (2, ''XrPlaneDetectorPolygonBufferEXT'',
       [De ''type'', De_xr ''next'', De ''vertexCapacityInput'', De ''vertexCountOutput'',
        De_ptr ''vertices'']),
      (2, ''XrSystemPlaneDetectionPropertiesEXT'',
       [De ''type'', De_xr ''next'', De ''supportedFeatures''])]),
    (''XR_EXT_user_presence'',
     [(2, ''XrEventDataUserPresenceChangedEXT'',
       [De ''type'', De_xr ''next'', De ''session'', De ''isUserPresent'']),
      (2, ''XrSystemUserPresencePropertiesEXT'',
       [De ''type'', De_xr ''next'', De ''supportsUserPresence''])]),
    (''XR_EXT_view_configuration_depth_range'',
     [(2, ''XrViewConfigurationDepthRangeEXT'',
       [De ''type'', De_xr ''next'', De ''recommendedNearZ'', De ''minNearZ'',
        De ''recommendedFarZ'', De ''maxFarZ''])]),
    (''XR_FB_android_surface_swapchain_create'',
     [(2, ''XrAndroidSurfaceSwapchainCreateInfoFB'',
       [De ''type'', De_xr ''next'', De ''createFlags''])])]"

definition ext_deserializers_11 :: "(string \<times> (nat \<times> string \<times> dop list) list) list" where
  "ext_deserializers_11 =
   [(''XR_FB_body_tracking'',
     [(1, ''XrBodyJointLocationFB'',
       [De ''locationFlags'', De ''pose'']),
      (2, ''XrBodyJointLocationsFB'',
       [De ''type'', De_xr ''next'', De ''isActive'', De ''confidence'', De ''jointCount'',
        De_ptr ''jointLocations'', De ''skeletonChangedCount'', De_time ''time'']),
      (2, ''XrBodyJointsLocateInfoFB'',
       [De ''type'', De_xr ''next'', De ''baseSpace'', De_time ''time'']),
      (2, ''XrBodySkeletonFB'',
       [De ''type'', De_xr ''next'', De ''jointCount'', De_ptr ''joints'']),
      (1, ''XrBodySkeletonJointFB'',
       [De ''joint'', De ''parentJoint'', De ''pose'']),
      (2, ''XrBodyTrackerCreateInfoFB'',
       [De ''type'', De_xr ''next'', De ''bodyJointSet'']),
      (2, ''XrSystemBodyTrackingPropertiesFB'',
       [De ''type'', De_xr ''next'', De ''supportsBodyTracking''])]),
    (''XR_FB_color_space'',
     [(2, ''XrSystemColorSpacePropertiesFB'',
       [De ''type'', De_xr ''next'', De ''colorSpace''])]),
    (''XR_FB_composition_layer_alpha_blend'',
     [(2, ''XrCompositionLayerAlphaBlendFB'',
       [De ''type'', De_xr ''next'', De ''srcFactorColor'', De ''dstFactorColor'',
        De ''srcFactorAlpha'', De ''dstFactorAlpha''])])]"

definition ext_deserializers_12 :: "(string \<times> (nat \<times> string \<times> dop list) list) list" where
  "ext_deserializers_12 =
   [(''XR_FB_composition_layer_depth_test'',
     [(2, ''XrCompositionLayerDepthTestFB'',
       [De ''type'', De_xr ''next'', De ''depthMask'', De ''compareOp''])]),
    (''XR_FB_composition_layer_image_layout'',
     [(2, ''XrCompositionLayerImageLayoutFB'',
       [De ''type'', De_xr ''next'', De ''flags''])]),
    (''XR_FB_composition_layer_secure_content'',
     [(2, ''XrCompositionLayerSecureContentFB'',
       [De ''type'', De_xr ''next'', De ''flags''])]),
    (''XR_FB_composition_layer_settings'',
     [(2, ''XrCompositionLayerSettingsFB'',
       [De ''type'', De_xr ''next'', De ''layerFlags''])]),
    (''XR_FB_display_refresh_rate'',
     [(2, ''XrEventDataDisplayRefreshRateChangedFB'',
       [De ''type'', De_xr ''next'', De ''fromDisplayRefreshRate'', De ''toDisplayRefreshRate''])]),
    (''XR_FB_eye_tracking_social'',
     [(1, ''XrEyeGazeFB'',
       [De ''isValid'', De ''gazePose'', De ''gazeConfidence'']),
      (2, ''XrEyeGazesFB'',
       [De ''type'', De_xr ''next'', De_array ''gaze'' (B_const ''XR_EYE_POSITION_COUNT_FB''),
        De_time ''time'']),
      (2, ''XrEyeGazesInfoFB'',
       [De ''type'', De_xr ''next'', De ''baseSpace'', De_time ''time'']),
      (2, ''XrEyeTrackerCreateInfoFB'',
       [De ''type'', De_xr ''next'']),
      (2, ''XrSystemEyeTrackingPropertiesFB'',
       [De ''type'', De_xr ''next'', De ''supportsEyeTracking''])])]"

definition ext_deserializers_13 :: "(string \<times> (nat \<times> string \<times> dop list) list) list" where
  "ext_deserializers_13 =
   [(''XR_FB_face_tracking'',
     [(2, ''XrFaceExpressionInfoFB'',
       [De ''type'', De_xr ''next'', De_time ''time'']),
      (1, ''XrFaceExpressionStatusFB'',
       [De ''isValid'', De ''isEyeFollowingBlendshapesValid'']),
      (2, ''XrFaceExpressionWeightsFB'',
       [De ''type'', De_xr ''next'', De ''weightCount'', De_ptr ''weights'',
        De ''confidenceCount'', De_ptr ''confidences'', De ''status'', De_time ''time'']),
      (2, ''XrFaceTrackerCreateInfoFB'',
       [De ''type'', De_xr ''next'', De ''faceExpressionSet'']),
      (2, ''XrSystemFaceTrackingPropertiesFB'',
       [De ''type'', De_xr ''next'', De ''supportsFaceTracking''])]),
    (''XR_FB_face_tracking2'',
     [(2, ''XrFaceExpressionInfo2FB'',
       [De ''type'', De_xr ''next'', De_time ''time'']),
      (2, ''XrFaceExpressionWeights2FB'',
       [De ''type'', De_xr ''next'', De ''weightCount'', De_ptr ''weights'',
        De ''confidenceCount'', De_ptr ''confidences'', De ''isValid'',
        De ''isEyeFollowingBlendshapesValid'', De ''dataSource'', De_time ''time'']),
      (2, ''XrFaceTrackerCreateInfo2FB'',
       [De ''type'', De_xr ''next'', De ''faceExpressionSet'', De ''requestedDataSourceCount'',
        De_ptr ''requestedDataSources'']),
      (2, ''XrSystemFaceTrackingProperties2FB'',
       [De ''type'', De_xr ''next'', De ''supportsVisualFaceTracking'',
        De ''supportsAudioFaceTracking''])])]"

definition ext_deserializers_14 :: "(string \<times> (nat \<times> string \<times> dop list) list) list" where
  "ext_deserializers_14 =
   [(''XR_FB_foveation'',
     [(2, ''XrFoveationProfileCreateInfoFB'',
       [De ''type'', De_xr ''next'']),
      (2, ''XrSwapchainCreateInfoFoveationFB'',
       [De ''type'', De_xr ''next'', De ''flags'']),
      (2, ''XrSwapchainStateFoveationFB'',
       [De ''type'', De_xr ''next'', De ''flags'', De ''profile''])]),
    (''XR_FB_foveation_configuration'',
     [(2, ''XrFoveationLevelProfileCreateInfoFB'',
       [De ''type'', De_xr ''next'', De ''level'', De ''verticalOffset'', De ''dynamic''])]),
    (''XR_FB_foveation_vulkan'',
     [(2, ''XrSwapchainImageFoveationVulkanFB'',
       [De ''type'', De_xr ''next'', De ''image'', De ''width'', De ''height''])]),
    (''XR_FB_hand_tracking_aim'',
     [(2, ''XrHandTrackingAimStateFB'',
       [De ''type'', De_xr ''next'', De ''status'', De ''aimPose'', De ''pinchStrengthIndex'',
        De ''pinchStrengthMiddle'', De ''pinchStrengthRing'', De ''pinchStrengthLittle''])]),
    (''XR_FB_hand_tracking_capsules'',
     [(1, ''XrHandCapsuleFB'',
       [De_array ''points'' (B_const ''XR_HAND_TRACKING_CAPSULE_POINT_COUNT_FB''),
        De ''radius'', De ''joint'']),
      (2, ''XrHandTrackingCapsulesStateFB'',
       [De ''type'', De_xr ''next'',
        De_array ''capsules'' (B_const ''XR_HAND_TRACKING_CAPSULE_COUNT_FB'')])])]"

definition ext_deserializers_15 :: "(string \<times> (nat \<times> string \<times> dop list) list) list" where
  "ext_deserializers_15 =
   [(''XR_FB_hand_tracking_mesh'',
     [(2, ''XrHandTrackingMeshFB'',
       [De ''type'', De_xr ''next'', De ''jointCapacityInput'', De ''jointCountOutput'',
        De_ptr ''jointBindPoses'', De_ptr ''jointRadii'', De_ptr ''jointParents'',
        De ''vertexCapacityInput'', De ''vertexCountOutput'', De_ptr ''vertexPositions'',
        De_ptr ''vertexNormals'', De_ptr ''vertexUVs'', De_ptr ''vertexBlendIndices'',
        De_ptr ''vertexBlendWeights'', De ''indexCapacityInput'', De ''indexCountOutput'',
        De_ptr ''indices'']),
      (2, ''XrHandTrackingScaleFB'',
       [De ''type'', De_xr ''next'', De ''sensorOutput'', De ''currentOutput'',
        De ''overrideHandScale'', De ''overrideValueInput'']),
      (1, ''XrVector4sFB'',
       [De ''x'', De ''y'', De ''z'', De ''w''])]),
    (''XR_FB_haptic_amplitude_envelope'',
     [(2, ''XrHapticAmplitudeEnvelopeVibrationFB'',
       [De ''type'', De_xr ''next'', De ''duration'', De ''amplitudeCount'',
        De_ptr ''amplitudes''])]),
    (''XR_FB_haptic_pcm'',
     [(2, ''XrDevicePcmSampleRateStateFB'',
       [De ''type'', De_xr ''next'', De ''sampleRate'']),
      (2, ''XrHapticPcmVibrationFB'',
       [De ''type'', De_xr ''next'', De ''bufferSize'', De_ptr ''buffer'', De ''sampleRate'',
        De ''append'', De_ptr ''samplesConsumed''])]),
    (''XR_FB_keyboard_tracking'',
     [(2, ''XrKeyboardSpaceCreateInfoFB'',
       [De ''type'', De_xr ''next'', De ''trackedKeyboardId'']),
      (1, ''XrKeyboardTrackingDescriptionFB'',
       [De ''trackedKeyboardId'', De ''size'', De ''flags'',
        De_array ''name'' (B_const ''XR_MAX_KEYBOARD_TRACKING_NAME_SIZE_FB'')])])]"

definition ext_deserializers_16 :: "(string \<times> (nat \<times> string \<times> dop list) list) list" where
  "ext_deserializers_16 =
   [(''XR_FB_keyboard_tracking'',
     [(2, ''XrKeyboardTrackingQueryFB'',
       [De ''type'', De_xr ''next'', De ''flags'']),
      (2, ''XrSystemKeyboardTrackingPropertiesFB'',
       [De ''type'', De_xr ''next'', De ''supportsKeyboardTracking''])]),
    (''XR_FB_passthrough'',
     [(2, ''XrCompositionLayerPassthroughFB'',
       [De ''type'', De_xr ''next'', De ''flags'', De ''space'', De ''layerHandle'']),
      (2, ''XrEventDataPassthroughStateChangedFB'',
       [De ''type'', De_xr ''next'', De ''flags'']),
      (2, ''XrGeometryInstanceCreateInfoFB'',
       [De ''type'', De_xr ''next'', De ''layer'', De ''mesh'', De ''baseSpace'', De ''pose'',
        De ''scale'']),
      (2, ''XrGeometryInstanceTransformFB'',
       [De ''type'', De_xr ''next'', De ''baseSpace'', De_time ''time'', De ''pose'',
        De ''scale'']),
      (2, ''XrPassthroughBrightnessContrastSaturationFB'',
       [De ''type'', De_xr ''next'', De ''brightness'', De ''contrast'', De ''saturation'']),
      (2, ''XrPassthroughColorMapMonoToMonoFB'',
       [De ''type'', De_xr ''next'',
        De_array ''textureColorMap'' (B_const ''XR_PASSTHROUGH_COLOR_MAP_MONO_SIZE_FB'')]),
      (2, ''XrPassthroughColorMapMonoToRgbaFB'',
       [De ''type'', De_xr ''next'',
        De_array ''textureColorMap'' (B_const ''XR_PASSTHROUGH_COLOR_MAP_MONO_SIZE_FB'')])])]"

definition ext_deserializers_17 :: "(string \<times> (nat \<times> string \<times> dop list) list) list" where
  "ext_deserializers_17 =
   [(''XR_FB_passthrough'',
     [(2, ''XrPassthroughCreateInfoFB'',
       [De ''type'', De_xr ''next'', De ''flags'']),
      (2, ''XrPassthroughLayerCreateInfoFB'',
       [De ''type'', De_xr ''next'', De ''passthrough'', De ''flags'', De ''purpose'']),
      (2, ''XrPassthroughStyleFB'',
       [De ''type'', De_xr ''next'', De ''textureOpacityFactor'', De ''edgeColor'']),
      (2, ''XrSystemPassthroughProperties2FB'',
       [De ''type'', De_xr ''next'', De ''capabilities'']),
      (2, ''XrSystemPassthroughPropertiesFB'',
       [De ''type'', De_xr ''next'', De ''supportsPassthrough''])]),
    (''XR_FB_passthrough_keyboard_hands'',
     [(2, ''XrPassthroughKeyboardHandsIntensityFB'',
       [De ''type'', De_xr ''next'', De ''leftHandIntensity'', De ''rightHandIntensity''])]),
    (''XR_FB_render_model'',
     [(2, ''XrRenderModelBufferFB'',
       [De ''type'', De_xr ''next'', De ''bufferCapacityInput'', De ''bufferCountOutput'',
        De_ptr ''buffer'']),
      (2, ''XrRenderModelCapabilitiesRequestFB'',
       [De ''type'', De_xr ''next'', De ''flags'']),
      (2, ''XrRenderModelLoadInfoFB'',
       [De ''type'', De_xr ''next'', De ''modelKey''])])]"

definition ext_deserializers_18 :: "(string \<times> (nat \<times> string \<times> dop list) list) list" where
  "ext_deserializers_18 =
   [(''XR_FB_render_model'',
     [(2, ''XrRenderModelPathInfoFB'',
       [De ''type'', De_xr ''next'', De ''path'']),
      (2, ''XrRenderModelPropertiesFB'',
       [De ''type'', De_xr ''next'', De ''vendorId'',
        De_array ''modelName'' (B_const ''XR_MAX_RENDER_MODEL_NAME_SIZE_FB''), De ''modelKey'',
        De ''modelVersion'', De ''flags'']),
      (2, ''XrSystemRenderModelPropertiesFB'',
       [De ''type'', De_xr ''next'', De ''supportsRenderModelLoading''])]),
    (''XR_FB_scene'',
     [(2, ''XrBoundary2DFB'',
       [De ''type'', De_xr ''next'', De ''vertexCapacityInput'', De ''vertexCountOutput'',
        De_ptr ''vertices'']),
      (1, ''XrOffset3DfFB'',
       [De ''x'', De ''y'', De ''z'']),
      (1, ''XrRect3DfFB'',
       [De ''offset'', De ''extent'']),
      (2, ''XrRoomLayoutFB'',
       [De ''type'', De_xr ''next'', De ''floorUuid'', De ''ceilingUuid'',
        De ''wallUuidCapacityInput'', De ''wallUuidCountOutput'', De_ptr ''wallUuids'']),
      (2, ''XrSemanticLabelsFB'',
       [De ''type'', De_xr ''next'', De ''bufferCapacityInput'', De ''bufferCountOutput'',
        De_ptr ''buffer'']),
      (2, ''XrSemanticLabelsSupportInfoFB'',
       [De ''type'', De_xr ''next'', De ''flags'', De_ptr ''recognizedLabels''])])]"

definition ext_deserializers_19 :: "(string \<times> (nat \<times> string \<times> dop list) list) list" where
  "ext_deserializers_19 =
   [(''XR_FB_scene_capture'',
     [(2, ''XrEventDataSceneCaptureCompleteFB'',
       [De ''type'', De_xr ''next'', De ''requestId'', De ''result'']),
      (2, ''XrSceneCaptureRequestInfoFB'',
       [De ''type'', De_xr ''next'', De ''requestByteCount'', De_ptr ''request''])]),
    (''XR_FB_space_warp'',
     [(2, ''XrCompositionLayerSpaceWarpInfoFB'',
       [De ''type'', De_xr ''next'', De ''layerFlags'', De ''motionVectorSubImage'',
        De ''appSpaceDeltaPose'', De ''depthSubImage'', De ''minDepth'', De ''maxDepth'',
        De ''nearZ'', De ''farZ'']),
      (2, ''XrSystemSpaceWarpPropertiesFB'',
       [De ''type'', De_xr ''next'', De ''recommendedMotionVectorImageRectWidth'',
        De ''recommendedMotionVectorImageRectHeight''])]),
    (''XR_FB_spatial_entity'',
     [(2, ''XrEventDataSpaceSetStatusCompleteFB'',
       [De ''type'', De_xr ''next'', De ''requestId'', De ''result'', De ''space'',
        De ''uuid'', De ''componentType'', De ''enabled'']),
      (2, ''XrEventDataSpatialAnchorCreateCompleteFB'',
       [De ''type'', De_xr ''next'', De ''requestId'', De ''result'', De ''space'', De ''uuid'']),
      (2, ''XrSpaceComponentStatusFB'',
       [De ''type'', De_xr ''next'', De ''enabled'', De ''changePending''])])]"

definition ext_deserializers_20 :: "(string \<times> (nat \<times> string \<times> dop list) list) list" where
  "ext_deserializers_20 =
   [(''XR_FB_spatial_entity'',
     [(2, ''XrSpaceComponentStatusSetInfoFB'',
       [De ''type'', De_xr ''next'', De ''componentType'', De ''enabled'', De ''timeout'']),
      (2, ''XrSpatialAnchorCreateInfoFB'',
       [De ''type'', De_xr ''next'', De ''space'', De ''poseInSpace'', De_time ''time'']),
      (2, ''XrSystemSpatialEntityPropertiesFB'',
       [De ''type'', De_xr ''next'', De ''supportsSpatialEntity''])]),
    (''XR_FB_spatial_entity_container'',
     [(2, ''XrSpaceContainerFB'',
       [De ''type'', De_xr ''next'', De ''uuidCapacityInput'', De ''uuidCountOutput'',
        De_ptr ''uuids''])]),
    (''XR_FB_spatial_entity_query'',
     [(2, ''XrEventDataSpaceQueryCompleteFB'',
       [De ''type'', De_xr ''next'', De ''requestId'', De ''result'']),
      (2, ''XrEventDataSpaceQueryResultsAvailableFB'',
       [De ''type'', De_xr ''next'', De ''requestId'']),
      (2, ''XrSpaceComponentFilterInfoFB'',
       [De ''type'', De_xr ''next'', De ''componentType''])])]"

definition ext_deserializers_21 :: "(string \<times> (nat \<times> string \<times> dop list) list) list" where
  "ext_deserializers_21 =
   [(''XR_FB_spatial_entity_query'',
     [(2, ''XrSpaceQueryInfoFB'',
       [De ''type'', De_xr ''next'', De ''queryAction'', De ''maxResultCount'', De ''timeout'',
        De_xr ''filter'', De_xr ''excludeFilter'']),
      (1, ''XrSpaceQueryResultFB'',
       [De ''space'', De ''uuid'']),
      (2, ''XrSpaceQueryResultsFB'',
       [De ''type'', De_xr ''next'', De ''resultCapacityInput'', De ''resultCountOutput'',
        De_ptr ''results'']),
      (2, ''XrSpaceStorageLocationFilterInfoFB'',
       [De ''type'', De_xr ''next'', De ''location'']),
      (2, ''XrSpaceUuidFilterInfoFB'',
       [De ''type'', De_xr ''next'', De ''uuidCount'', De_ptr ''uuids''])]),
    (''XR_FB_spatial_entity_sharing'',
     [(2, ''XrEventDataSpaceShareCompleteFB'',
       [De ''type'', De_xr ''next'', De ''requestId'', De ''result'']),
      (2, ''XrSpaceShareInfoFB'',
       [De ''type'', De_xr ''next'', De ''spaceCount'', De_ptr ''spaces'', De ''userCount'',
        De_ptr ''users''])]),
    (''XR_FB_spatial_entity_storage'',
     [(2, ''XrEventDataSpaceEraseCompleteFB'',
       [De ''type'', De_xr ''next'', De ''requestId'', De ''result'', De ''space'',
        De ''uuid'', De ''location''])])]"

definition ext_deserializers_22 :: "(string \<times> (nat \<times> string \<times> dop list) list) list" where
  "ext_deserializers_22 =
   [(''XR_FB_spatial_entity_storage'',
     [(2, ''XrEventDataSpaceSaveCompleteFB'',
       [De ''type'', De_xr ''next'', De ''requestId'', De ''result'', De ''space'',
        De ''uuid'', De ''location'']),
      (2, ''XrSpaceEraseInfoFB'',
       [De ''type'', De_xr ''next'', De ''space'', De ''location'']),
      (2, ''XrSpaceSaveInfoFB'',
       [De ''type'', De_xr ''next'', De ''space'', De ''location'', De ''persistenceMode''])]),
    (''XR_FB_spatial_entity_storage_batch'',
     [(2, ''XrEventDataSpaceListSaveCompleteFB'',
       [De ''type'', De_xr ''next'', De ''requestId'', De ''result'']),
      (2, ''XrSpaceListSaveInfoFB'',
       [De ''type'', De_xr ''next'', De ''spaceCount'', De_ptr ''spaces'', De ''location''])]),
    (''XR_FB_spatial_entity_user'',
     [(2, ''XrSpaceUserCreateInfoFB'',
       [De ''type'', De_xr ''next'', De ''userId''])])]"

definition ext_deserializers_23 :: "(string \<times> (nat \<times> string \<times> dop list) list) list" where
  "ext_deserializers_23 =
   [(''XR_FB_swapchain_update_state_android_surface'',
     [(2, ''XrSwapchainStateAndroidSurfaceDimensionsFB'',
       [De ''type'', De_xr ''next'', De ''width'', De ''height''])]),
    (''XR_FB_swapchain_update_state_opengl_es'',
     [(2, ''XrSwapchainStateSamplerOpenGLESFB'',
       [De ''type'', De_xr ''next'', De ''minFilter'', De ''magFilter'', De ''wrapModeS'',
        De ''wrapModeT'', De ''swizzleRed'', De ''swizzleGreen'', De ''swizzleBlue'',
        De ''swizzleAlpha'', De ''maxAnisotropy'', De ''borderColor''])]),
    (''XR_FB_swapchain_update_state_vulkan'',
     [(2, ''XrSwapchainStateSamplerVulkanFB'',
       [De ''type'', De_xr ''next'', De ''minFilter'', De ''magFilter'', De ''mipmapMode'',
        De ''wrapModeS'', De ''wrapModeT'', De ''swizzleRed'', De ''swizzleGreen'',
        De ''swizzleBlue'', De ''swizzleAlpha'', De ''maxAnisotropy'', De ''borderColor''])]),
    (''XR_FB_triangle_mesh'',
     [(2, ''XrTriangleMeshCreateInfoFB'',
       [De ''type'', De_xr ''next'', De ''flags'', De ''windingOrder'', De ''vertexCount'',
        De_ptr ''vertexBuffer'', De ''triangleCount'', De_ptr ''indexBuffer''])]),
    (''XR_HTCX_vive_tracker_interaction'',
     [(2, ''XrEventDataViveTrackerConnectedHTCX'',
       [De ''type'', De_xr ''next'', De_ptr ''paths'']),
      (2, ''XrViveTrackerPathsHTCX'',
       [De ''type'', De_xr ''next'', De ''persistentPath'', De ''rolePath''])])]"

definition ext_deserializers_24 :: "(string \<times> (nat \<times> string \<times> dop list) list) list" where
  "ext_deserializers_24 =
   [(''XR_HTC_anchor'',
     [(2, ''XrSpatialAnchorCreateInfoHTC'',
       [De ''type'', De_xr ''next'', De ''space'', De ''poseInSpace'', De ''name'']),
      (1, ''XrSpatialAnchorNameHTC'',
       [De_array ''name'' (B_const ''XR_MAX_SPATIAL_ANCHOR_NAME_SIZE_HTC'')]),
      (2, ''XrSystemAnchorPropertiesHTC'',
       [De ''type'', De_xr ''next'', De ''supportsAnchor''])]),
    (''XR_HTC_body_tracking'',
     [(1, ''XrBodyJointLocationHTC'',
       [De ''locationFlags'', De ''pose'']),
      (2, ''XrBodyJointLocationsHTC'',
       [De ''type'', De_xr ''next'', De ''combinedLocationFlags'', De ''confidenceLevel'',
        De ''jointLocationCount'', De_ptr ''jointLocations'', De ''skeletonGenerationId'']),
      (2, ''XrBodyJointsLocateInfoHTC'',
       [De ''type'', De_xr ''next'', De ''baseSpace'', De_time ''time'']),
      (2, ''XrBodySkeletonHTC'',
       [De ''type'', De_xr ''next'', De ''jointCount'', De_ptr ''joints'']),
      (2, ''XrBodyTrackerCreateInfoHTC'',
       [De ''type'', De_xr ''next'', De ''bodyJointSet'']),
      (2, ''XrSystemBodyTrackingPropertiesHTC'',
       [De ''type'', De_xr ''next'', De ''supportsBodyTracking''])]),
    (''XR_HTC_facial_tracking'',
     [(2, ''XrFacialExpressionsHTC'',
       [De ''type'', De_xr ''next'', De ''isActive'', De_time ''sampleTime'',
        De ''expressionCount'', De_ptr ''expressionWeightings''])])]"

definition ext_deserializers_25 :: "(string \<times> (nat \<times> string \<times> dop list) list) list" where
  "ext_deserializers_25 =
   [(''XR_HTC_facial_tracking'',
     [(2, ''XrFacialTrackerCreateInfoHTC'',
       [De ''type'', De_xr ''next'', De ''facialTrackingType'']),
      (2, ''XrSystemFacialTrackingPropertiesHTC'',
       [De ''type'', De_xr ''next'', De ''supportEyeFacialTracking'',
        De ''supportLipFacialTracking''])]),
    (''XR_HTC_foveation'',
     [(2, ''XrFoveationApplyInfoHTC'',
       [De ''type'', De_xr ''next'', De ''mode'', De ''subImageCount'', De_ptr ''subImages'']),
      (1, ''XrFoveationConfigurationHTC'',
       [De ''level'', De ''clearFovDegree'', De ''focalCenterOffset'']),
      (2, ''XrFoveationCustomModeInfoHTC'',
       [De ''type'', De_xr ''next'', De ''configCount'', De_ptr ''configs'']),
      (2, ''XrFoveationDynamicModeInfoHTC'',
       [De ''type'', De_xr ''next'', De ''dynamicFlags''])]),
    (''XR_HTC_passthrough'',
     [(2, ''XrCompositionLayerPassthroughHTC'',
       [De ''type'', De_xr ''next'', De ''layerFlags'', De ''space'', De ''passthrough'',
        De ''color'']),
      (2, ''XrPassthroughColorHTC'',
       [De ''type'', De_xr ''next'', De ''alpha'']),
      (2, ''XrPassthroughCreateInfoHTC'',
       [De ''type'', De_xr ''next'', De ''form''])])]"

definition ext_deserializers_26 :: "(string \<times> (nat \<times> string \<times> dop list) list) list" where
  "ext_deserializers_26 =
   [(''XR_HTC_passthrough'',
     [(2, ''XrPassthroughMeshTransformInfoHTC'',
       [De ''type'', De_xr ''next'', De ''vertexCount'', De_ptr ''vertices'',
        De ''indexCount'', De_ptr ''indices'', De ''baseSpace'', De_time ''time'', De ''pose'',
        De ''scale''])]),
    (''XR_KHR_D3D11_enable'',
     [(2, ''XrGraphicsBindingD3D11KHR'',
       [De ''type'', De_xr ''next'', De_ptr ''device'']),
      (2, ''XrGraphicsRequirementsD3D11KHR'',
       [De ''type'', De_xr ''next'', De ''adapterLuid'', De ''minFeatureLevel'']),
      (2, ''XrSwapchainImageD3D11KHR'',
       [De ''type'', De_xr ''next'', De_ptr ''texture''])]),
    (''XR_KHR_D3D12_enable'',
     [(2, ''XrGraphicsBindingD3D12KHR'',
       [De ''type'', De_xr ''next'', De_ptr ''device'', De_ptr ''queue'']),
      (2, ''XrGraphicsRequirementsD3D12KHR'',
       [De ''type'', De_xr ''next'', De ''adapterLuid'', De ''minFeatureLevel'']),
      (2, ''XrSwapchainImageD3D12KHR'',
       [De ''type'', De_xr ''next'', De_ptr ''texture''])]),
    (''XR_KHR_android_create_instance'',
     [(2, ''XrInstanceCreateInfoAndroidKHR'',
       [De ''type'', De_xr ''next'', De_ptr ''applicationVM'', De_ptr ''applicationActivity''])])]"

definition ext_deserializers_27 :: "(string \<times> (nat \<times> string \<times> dop list) list) list" where
  "ext_deserializers_27 =
   [(''XR_KHR_composition_layer_color_scale_bias'',
     [(2, ''XrCompositionLayerColorScaleBiasKHR'',
       [De ''type'', De_xr ''next'', De ''colorScale'', De ''colorBias''])]),
    (''XR_KHR_composition_layer_cube'',
     [(2, ''XrCompositionLayerCubeKHR'',
       [De ''type'', De_xr ''next'', De ''layerFlags'', De ''space'', De ''eyeVisibility'',
        De ''swapchain'', De ''imageArrayIndex'', De ''orientation''])]),
    (''XR_KHR_composition_layer_cylinder'',
     [(2, ''XrCompositionLayerCylinderKHR'',
       [De ''type'', De_xr ''next'', De ''layerFlags'', De ''space'', De ''eyeVisibility'',
        De ''subImage'', De ''pose'', De ''radius'', De ''centralAngle'', De ''aspectRatio''])]),
    (''XR_KHR_composition_layer_depth'',
     [(2, ''XrCompositionLayerDepthInfoKHR'',
       [De ''type'', De_xr ''next'', De ''subImage'', De ''minDepth'', De ''maxDepth'',
        De ''nearZ'', De ''farZ''])]),
    (''XR_KHR_composition_layer_equirect'',
     [(2, ''XrCompositionLayerEquirectKHR'',
       [De ''type'', De_xr ''next'', De ''layerFlags'', De ''space'', De ''eyeVisibility'',
        De ''subImage'', De ''pose'', De ''radius'', De ''scale'', De ''bias''])])]"

definition ext_deserializers_28 :: "(string \<times> (nat \<times> string \<times> dop list) list) list" where
  "ext_deserializers_28 =
   [(''XR_KHR_composition_layer_equirect2'',
     [(2, ''XrCompositionLayerEquirect2KHR'',
       [De ''type'', De_xr ''next'', De ''layerFlags'', De ''space'', De ''eyeVisibility'',
        De ''subImage'', De ''pose'', De ''radius'', De ''centralHorizontalAngle'',
        De ''upperVerticalAngle'', De ''lowerVerticalAngle''])])]"

definition ext_deserializers_29 :: "(string \<times> (nat \<times> string \<times> dop list) list) list" where
  "ext_deserializers_29 =
   [(''XR_KHR_loader_init_android'',
     [(2, ''XrLoaderInitInfoAndroidKHR'',
       [De ''type'', De_xr ''next'', De_ptr ''applicationVM'', De_ptr ''applicationContext''])]),
    (''XR_KHR_metal_enable'',
     [(2, ''XrGraphicsBindingMetalKHR'',
       [De ''type'', De_xr ''next'', De_ptr ''commandQueue'']),
      (2, ''XrGraphicsRequirementsMetalKHR'',
       [De ''type'', De_xr ''next'', De_ptr ''metalDevice'']),
      (2, ''XrSwapchainImageMetalKHR'',
       [De ''type'', De_xr ''next'', De_ptr ''texture''])]),
    (''XR_KHR_opengl_enable'',
     [(2, ''XrGraphicsBindingOpenGLWaylandKHR'',
       [De ''type'', De_xr ''next'', De_ptr ''display'']),
      (2, ''XrGraphicsBindingOpenGLWin32KHR'',
       [De ''type'', De_xr ''next'', De ''hDC'', De ''hGLRC'']),
      (2, ''XrGraphicsBindingOpenGLXcbKHR'',
       [De ''type'', De_xr ''next'', De_ptr ''connection'', De ''screenNumber'',
        De ''fbconfigid'', De ''visualid'', De ''glxDrawable'', De ''glxContext'']),
      (2, ''XrGraphicsBindingOpenGLXlibKHR'',
       [De ''type'', De_xr ''next'', De_ptr ''xDisplay'', De ''visualid'', De ''glxFBConfig'',
        De ''glxDrawable'', De ''glxContext''])])]"

definition ext_deserializers_30 :: "(string \<times> (nat \<times> string \<times> dop list) list) list" where
  "ext_deserializers_30 =
   [(''XR_KHR_opengl_enable'',
     [(2, ''XrGraphicsRequirementsOpenGLKHR'',
       [De ''type'', De_xr ''next'', De ''minApiVersionSupported'',
        De ''maxApiVersionSupported'']),
      (2, ''XrSwapchainImageOpenGLKHR'',
       [De ''type'', De_xr ''next'', De ''image''])]),
    (''XR_KHR_opengl_es_enable'',
     [(2, ''XrGraphicsBindingOpenGLESAndroidKHR'',
       [De ''type'', De_xr ''next'', De ''display'', De ''config'', De ''context'']),
      (2, ''XrGraphicsRequirementsOpenGLESKHR'',
       [De ''type'', De_xr ''next'', De ''minApiVersionSupported'',
        De ''maxApiVersionSupported'']),
      (2, ''XrSwapchainImageOpenGLESKHR'',
       [De ''type'', De_xr ''next'', De ''image''])]),
    (''XR_KHR_visibility_mask'',
     [(2, ''XrEventDataVisibilityMaskChangedKHR'',
       [De ''type'', De_xr ''next'', De ''session'', De ''viewConfigurationType'',
        De ''viewIndex'']),
      (2, ''XrVisibilityMaskKHR'',
       [De ''type'', De_xr ''next'', De ''vertexCapacityInput'', De ''vertexCountOutput'',
        De_ptr ''vertices'', De ''indexCapacityInput'', De ''indexCountOutput'',
        De_ptr ''indices''])]),
    (''XR_KHR_vulkan_enable'',
     [(2, ''XrGraphicsBindingVulkanKHR'',
       [De ''type'', De_xr ''next'', De ''instance'', De ''physicalDevice'', De ''device'',
        De ''queueFamilyIndex'', De ''queueIndex''])])]"

definition ext_deserializers_31 :: "(string \<times> (nat \<times> string \<times> dop list) list) list" where
  "ext_deserializers_31 =
   [(''XR_KHR_vulkan_enable'',
     [(2, ''XrGraphicsRequirementsVulkanKHR'',
       [De ''type'', De_xr ''next'', De ''minApiVersionSupported'',
        De ''maxApiVersionSupported'']),
      (2, ''XrSwapchainImageVulkanKHR'',
       [De ''type'', De_xr ''next'', De ''image''])]),
    (''XR_KHR_vulkan_enable2'',
     [(2, ''XrVulkanDeviceCreateInfoKHR'',
       [De ''type'', De_xr ''next'', De ''systemId'', De ''createFlags'',
        De ''pfnGetInstanceProcAddr'', De ''vulkanPhysicalDevice'',
        De_ptr ''vulkanCreateInfo'', De_ptr ''vulkanAllocator'']),
      (2, ''XrVulkanGraphicsDeviceGetInfoKHR'',
       [De ''type'', De_xr ''next'', De ''systemId'', De ''vulkanInstance'']),
      (2, ''XrVulkanInstanceCreateInfoKHR'',
       [De ''type'', De_xr ''next'', De ''systemId'', De ''createFlags'',
        De ''pfnGetInstanceProcAddr'', De_ptr ''vulkanCreateInfo'', De_ptr ''vulkanAllocator''])]),
    (''XR_KHR_vulkan_swapchain_format_list'',
     [(2, ''XrVulkanSwapchainFormatListCreateInfoKHR'',
       [De ''type'', De_xr ''next'', De ''viewFormatCount'', De_ptr ''viewFormats''])]),
    (''XR_META_body_tracking_full_body'',
     [(2, ''XrSystemPropertiesBodyTrackingFullBodyMETA'',
       [De ''type'', De_xr ''next'', De ''supportsFullBodyTracking''])]),
    (''XR_META_colocation_discovery'',
     [(2, ''XrColocationAdvertisementStartInfoMETA'',
       [De ''type'', De_xr ''next'', De ''bufferSize'', De_ptr ''buffer''])])]"

definition ext_deserializers_32 :: "(string \<times> (nat \<times> string \<times> dop list) list) list" where
  "ext_deserializers_32 =
   [(''XR_META_colocation_discovery'',
     [(2, ''XrColocationAdvertisementStopInfoMETA'',
       [De ''type'', De_xr ''next'']),
      (2, ''XrColocationDiscoveryStartInfoMETA'',
       [De ''type'', De_xr ''next'']),
      (2, ''XrColocationDiscoveryStopInfoMETA'',
       [De ''type'', De_xr ''next'']),
      (2, ''XrEventDataColocationAdvertisementCompleteMETA'',
       [De ''type'', De_xr ''next'', De ''advertisementRequestId'', De ''result'']),
      (2, ''XrEventDataColocationDiscoveryCompleteMETA'',
       [De ''type'', De_xr ''next'', De ''discoveryRequestId'', De ''result'']),
      (2, ''XrEventDataColocationDiscoveryResultMETA'',
       [De ''type'', De_xr ''next'', De ''discoveryRequestId'', De ''advertisementUuid'',
        De ''bufferSize'',
        De_array ''buffer'' (B_const ''XR_MAX_COLOCATION_DISCOVERY_BUFFER_SIZE_META'')]),
      (2, ''XrEventDataStartColocationAdvertisementCompleteMETA'',
       [De ''type'', De_xr ''next'', De ''advertisementRequestId'', De ''result'',
        De ''advertisementUuid'']),
      (2, ''XrEventDataStartColocationDiscoveryCompleteMETA'',
       [De ''type'', De_xr ''next'', De ''discoveryRequestId'', De ''result'']),
      (2, ''XrEventDataStopColocationAdvertisementCompleteMETA'',
       [De ''type'', De_xr ''next'', De ''requestId'', De ''result''])])]"

definition ext_deserializers_33 :: "(string \<times> (nat \<times> string \<times> dop list) list) list" where
  "ext_deserializers_33 =
   [(''XR_META_colocation_discovery'',
     [(2, ''XrEventDataStopColocationDiscoveryCompleteMETA'',
       [De ''type'', De_xr ''next'', De ''requestId'', De ''result'']),
      (2, ''XrSystemColocationDiscoveryPropertiesMETA'',
       [De ''type'', De_xr ''next'', De ''supportsColocationDiscovery''])]),
    (''XR_META_environment_depth'',
     [(2, ''XrEnvironmentDepthHandRemovalSetInfoMETA'',
       [De ''type'', De_xr ''next'', De ''enabled'']),
      (2, ''XrEnvironmentDepthImageAcquireInfoMETA'',
       [De ''type'', De_xr ''next'', De ''space'', De_time ''displayTime'']),
      (2, ''XrEnvironmentDepthImageMETA'',
       [De ''type'', De_xr ''next'', De ''swapchainIndex'', De ''nearZ'', De ''farZ'',
        De_array ''views'' (B_lit 2)]),
      (2, ''XrEnvironmentDepthImageViewMETA'',
       [De ''type'', De_xr ''next'', De ''fov'', De ''pose'']),
      (2, ''XrEnvironmentDepthProviderCreateInfoMETA'',
       [De ''type'', De_xr ''next'', De ''createFlags'']),
      (2, ''XrEnvironmentDepthSwapchainCreateInfoMETA'',
       [De ''type'', De_xr ''next'', De ''createFlags'']),
      (2, ''XrEnvironmentDepthSwapchainStateMETA'',
       [De ''type'', De_xr ''next'', De ''width'', De ''height''])])]"

definition ext_deserializers_34 :: "(string \<times> (nat \<times> string \<times> dop list) list) list" where
  "ext_deserializers_34 =
   [(''XR_META_environment_depth'',
     [(2, ''XrSystemEnvironmentDepthPropertiesMETA'',
       [De ''type'', De_xr ''next'', De ''supportsEnvironmentDepth'', De ''supportsHandRemoval''])]),
    (''XR_META_foveation_eye_tracked'',
     [(2, ''XrFoveationEyeTrackedProfileCreateInfoMETA'',
       [De ''type'', De_xr ''next'', De ''flags'']),
      (2, ''XrFoveationEyeTrackedStateMETA'',
       [De ''type'', De_xr ''next'',
        De_array ''foveationCenter'' (B_const ''XR_FOVEATION_CENTER_SIZE_META''), De ''flags'']),
      (2, ''XrSystemFoveationEyeTrackedPropertiesMETA'',
       [De ''type'', De_xr ''next'', De ''supportsFoveationEyeTracked''])]),
    (''XR_META_headset_id'',
     [(2, ''XrSystemHeadsetIdPropertiesMETA'',
       [De ''type'', De_xr ''next'', De ''id''])]),
    (''XR_META_local_dimming'',
     [(2, ''XrLocalDimmingFrameEndInfoMETA'',
       [De ''type'', De_xr ''next'', De ''localDimmingMode''])]),
    (''XR_META_passthrough_color_lut'',
     [(2, ''XrPassthroughColorLutCreateInfoMETA'',
       [De ''type'', De_xr ''next'', De ''channels'', De ''resolution'', De ''data'']),
      (1, ''XrPassthroughColorLutDataMETA'',
       [De ''bufferSize'', De_ptr ''buffer'']),
      (2, ''XrPassthroughColorLutUpdateInfoMETA'',
       [De ''type'', De_xr ''next'', De ''data'']),
      (2, ''XrPassthroughColorMapInterpolatedLutMETA'',
       [De ''type'', De_xr ''next'', De ''sourceColorLut'', De ''targetColorLut'', De ''weight''])])]"

definition ext_deserializers_35 :: "(string \<times> (nat \<times> string \<times> dop list) list) list" where
  "ext_deserializers_35 =
   [(''XR_META_passthrough_color_lut'',
     [(2, ''XrPassthroughColorMapLutMETA'',
       [De ''type'', De_xr ''next'', De ''colorLut'', De ''weight'']),
      (2, ''XrSystemPassthroughColorLutPropertiesMETA'',
       [De ''type'', De_xr ''next'', De ''maxColorLutResolution''])]),
    (''XR_META_passthrough_layer_resumed_event'',
     [(2, ''XrEventDataPassthroughLayerResumedMETA'',
       [De ''type'', De_xr ''next'', De ''layer''])]),
    (''XR_META_passthrough_preferences'',
     [(2, ''XrPassthroughPreferencesMETA'',
       [De ''type'', De_xr ''next'', De ''flags''])]),
    (''XR_META_performance_metrics'',
     [(2, ''XrPerformanceMetricsCounterMETA'',
       [De ''type'', De_xr ''next'', De ''counterFlags'', De ''counterUnit'', De ''uintValue'',
        De ''floatValue'']),
      (2, ''XrPerformanceMetricsStateMETA'',
       [De ''type'', De_xr ''next'', De ''enabled''])]),
    (''XR_META_recommended_layer_resolution'',
     [(2, ''XrRecommendedLayerResolutionGetInfoMETA'',
       [De ''type'', De_xr ''next'', De_xr ''layer'', De_time ''predictedDisplayTime'']),
      (2, ''XrRecommendedLayerResolutionMETA'',
       [De ''type'', De_xr ''next'', De ''recommendedImageDimensions'', De ''isValid''])]),
    (''XR_META_simultaneous_hands_and_controllers'',
     [(2, ''XrSimultaneousHandsAndControllersTrackingPauseInfoMETA'',
       [De ''type'', De_xr ''next''])])]"

definition ext_deserializers_36 :: "(string \<times> (nat \<times> string \<times> dop list) list) list" where
  "ext_deserializers_36 =
   [(''XR_META_simultaneous_hands_and_controllers'',
     [(2, ''XrSimultaneousHandsAndControllersTrackingResumeInfoMETA'',
       [De ''type'', De_xr ''next'']),
      (2, ''XrSystemSimultaneousHandsAndControllersPropertiesMETA'',
       [De ''type'', De_xr ''next'', De ''supportsSimultaneousHandsAndControllers''])]),
    (''XR_META_spatial_entity_group_sharing'',
     [(2, ''XrShareSpacesRecipientGroupsMETA'',
       [De ''type'', De_xr ''next'', De ''groupCount'', De_ptr ''groups'']),
      (2, ''XrSpaceGroupUuidFilterInfoMETA'',
       [De ''type'', De_xr ''next'', De ''groupUuid'']),
      (2, ''XrSystemSpatialEntityGroupSharingPropertiesMETA'',
       [De ''type'', De_xr ''next'', De ''supportsSpatialEntityGroupSharing''])]),
    (''XR_META_spatial_entity_mesh'',
     [(2, ''XrSpaceTriangleMeshGetInfoMETA'',
       [De ''type'', De_xr ''next'']),
      (2, ''XrSpaceTriangleMeshMETA'',
       [De ''type'', De_xr ''next'', De ''vertexCapacityInput'', De ''vertexCountOutput'',
        De_ptr ''vertices'', De ''indexCapacityInput'', De ''indexCountOutput'',
        De_ptr ''indices''])]),
    (''XR_META_spatial_entity_sharing'',
     [(2, ''XrEventDataShareSpacesCompleteMETA'',
       [De ''type'', De_xr ''next'', De ''requestId'', De ''result'']),
      (2, ''XrShareSpacesInfoMETA'',
       [De ''type'', De_xr ''next'', De ''spaceCount'', De_ptr ''spaces'',
        De_xr ''recipientInfo''])])]"

definition ext_deserializers_37 :: "(string \<times> (nat \<times> string \<times> dop list) list) list" where
  "ext_deserializers_37 =
   [(''XR_META_spatial_entity_sharing'',
     [(2, ''XrSystemSpatialEntitySharingPropertiesMETA'',
       [De ''type'', De_xr ''next'', De ''supportsSpatialEntitySharing''])]),
    (''XR_META_virtual_keyboard'',
     [(2, ''XrEventDataVirtualKeyboardBackspaceMETA'',
       [De ''type'', De_xr ''next'', De ''keyboard'']),
      (2, ''XrEventDataVirtualKeyboardCommitTextMETA'',
       [De ''type'', De_xr ''next'', De ''keyboard'',
        De_array ''text'' (B_const ''XR_MAX_VIRTUAL_KEYBOARD_COMMIT_TEXT_SIZE_META'')]),
      (2, ''XrEventDataVirtualKeyboardEnterMETA'',
       [De ''type'', De_xr ''next'', De ''keyboard'']),
      (2, ''XrEventDataVirtualKeyboardHiddenMETA'',
       [De ''type'', De_xr ''next'', De ''keyboard'']),
      (2, ''XrEventDataVirtualKeyboardShownMETA'',
       [De ''type'', De_xr ''next'', De ''keyboard'']),
      (2, ''XrSystemVirtualKeyboardPropertiesMETA'',
       [De ''type'', De_xr ''next'', De ''supportsVirtualKeyboard'']),
      (2, ''XrVirtualKeyboardAnimationStateMETA'',
       [De ''type'', De_xr ''next'', De ''animationIndex'', De ''fraction'']),
      (2, ''XrVirtualKeyboardCreateInfoMETA'',
       [De ''type'', De_xr ''next'']),
      (2, ''XrVirtualKeyboardInputInfoMETA'',
       [De ''type'', De_xr ''next'', De ''inputSource'', De ''inputSpace'',
        De ''inputPoseInSpace'', De ''inputState''])])]"

definition ext_deserializers_38 :: "(string \<times> (nat \<times> string \<times> dop list) list) list" where
  "ext_deserializers_38 =
   [(''XR_META_virtual_keyboard'',
     [(2, ''XrVirtualKeyboardLocationInfoMETA'',
       [De ''type'', De_xr ''next'', De ''locationType'', De ''space'', De ''poseInSpace'',
        De ''scale'']),
      (2, ''XrVirtualKeyboardModelAnimationStatesMETA'',
       [De ''type'', De_xr ''next'', De ''stateCapacityInput'', De ''stateCountOutput'',
        De_ptr ''states'']),
      (2, ''XrVirtualKeyboardModelVisibilitySetInfoMETA'',
       [De ''type'', De_xr ''next'', De ''visible'']),
      (2, ''XrVirtualKeyboardSpaceCreateInfoMETA'',
       [De ''type'', De_xr ''next'', De ''locationType'', De ''space'', De ''poseInSpace'']),
      (2, ''XrVirtualKeyboardTextContextChangeInfoMETA'',
       [De ''type'', De_xr ''next'', De_ptr ''textContext'']),
      (2, ''XrVirtualKeyboardTextureDataMETA'',
       [De ''type'', De_xr ''next'', De ''textureWidth'', De ''textureHeight'',
        De ''bufferCapacityInput'', De ''bufferCountOutput'', De_ptr ''buffer''])]),
    (''XR_META_vulkan_swapchain_create_info'',
     [(2, ''XrVulkanSwapchainCreateInfoMETA'',
       [De ''type'', De_xr ''next'', De ''additionalCreateFlags'', De ''additionalUsageFlags''])]),
    (''XR_ML_compat'',
     [(1, ''XrCoordinateSpaceCreateInfoML'',
       [De ''type'', De_xr ''next'', De ''cfuid'', De ''poseInCoordinateSpace''])]),
    (''XR_ML_facial_expression'',
     [(2, ''XrFacialExpressionBlendShapeGetInfoML'',
       [De ''type'', De_xr ''next''])])]"

definition ext_deserializers_39 :: "(string \<times> (nat \<times> string \<times> dop list) list) list" where
  "ext_deserializers_39 =
   [(''XR_ML_facial_expression'',
     [(2, ''XrFacialExpressionBlendShapePropertiesML'',
       [De ''type'', De_xr ''next'', De ''requestedFacialBlendShape'', De ''weight'',
        De ''flags'', De_time ''time'']),
      (2, ''XrFacialExpressionClientCreateInfoML'',
       [De ''type'', De_xr ''next'', De ''requestedCount'',
        De_ptr ''requestedFacialBlendShapes'']),
      (2, ''XrSystemFacialExpressionPropertiesML'',
       [De ''type'', De_xr ''next'', De ''supportsFacialExpression''])]),
    (''XR_ML_frame_end_info'',
     [(2, ''XrFrameEndInfoML'',
       [De ''type'', De_xr ''next'', De ''focusDistance'', De ''flags''])]),
    (''XR_ML_global_dimmer'',
     [(2, ''XrGlobalDimmerFrameEndInfoML'',
       [De ''type'', De_xr ''next'', De ''dimmerValue'', De ''flags''])]),
    (''XR_ML_localization_map'',
     [(2, ''XrEventDataLocalizationChangedML'',
       [De ''type'', De_xr ''next'', De ''session'', De ''state'', De ''map'',
        De ''confidence'', De ''errorFlags'']),
      (2, ''XrLocalizationEnableEventsInfoML'',
       [De ''type'', De_xr ''next'', De ''enabled'']),
      (2, ''XrLocalizationMapImportInfoML'',
       [De ''type'', De_xr ''next'', De ''size'', De_ptr ''data''])])]"

definition ext_deserializers_40 :: "(string \<times> (nat \<times> string \<times> dop list) list) list" where
  "ext_deserializers_40 =
   [(''XR_ML_localization_map'',
     [(2, ''XrLocalizationMapML'',
       [De ''type'', De_xr ''next'',
        De_array ''name'' (B_const ''XR_MAX_LOCALIZATION_MAP_NAME_LENGTH_ML''), De ''mapUuid'',
        De ''mapType''])])]"

definition ext_deserializers_41 :: "(string \<times> (nat \<times> string \<times> dop list) list) list" where
  "ext_deserializers_41 =
   [(''XR_ML_localization_map'',
     [(2, ''XrMapLocalizationRequestInfoML'',
       [De ''type'', De_xr ''next'', De ''mapUuid''])]),
    (''XR_ML_marker_understanding'',
     [(2, ''XrMarkerDetectorAprilTagInfoML'',
       [De ''type'', De_xr ''next'', De ''aprilTagDict'']),
      (2, ''XrMarkerDetectorArucoInfoML'',
       [De ''type'', De_xr ''next'', De ''arucoDict'']),
      (2, ''XrMarkerDetectorCreateInfoML'',
       [De ''type'', De_xr ''next'', De ''profile'', De ''markerType'']),
      (2, ''XrMarkerDetectorCustomProfileInfoML'',
       [De ''type'', De_xr ''next'', De ''fpsHint'', De ''resolutionHint'', De ''cameraHint'',
        De ''cornerRefineMethod'', De ''useEdgeRefinement'', De ''fullAnalysisIntervalHint'']),
      (2, ''XrMarkerDetectorSizeInfoML'',
       [De ''type'', De_xr ''next'', De ''markerLength'']),
      (2, ''XrMarkerDetectorSnapshotInfoML'',
       [De ''type'', De_xr ''next'']),
      (2, ''XrMarkerDetectorStateML'',
       [De ''type'', De_xr ''next'', De ''state'']),
      (2, ''XrMarkerSpaceCreateInfoML'',
       [De ''type'', De_xr ''next'', De ''markerDetector'', De ''marker'',
        De ''poseInMarkerSpace''])])]"

definition ext_deserializers_42 :: "(string \<times> (nat \<times> string \<times> dop list) list) list" where
  "ext_deserializers_42 =
   [(''XR_ML_marker_understanding'',
     [(2, ''XrSystemMarkerUnderstandingPropertiesML'',
       [De ''type'', De_xr ''next'', De ''supportsMarkerUnderstanding''])]),
    (''XR_ML_spatial_anchors'',
     [(2, ''XrCreateSpatialAnchorsCompletionML'',
       [De ''type'', De_xr ''next'', De ''futureResult'', De ''spaceCount'', De_ptr ''spaces'']),
      (2, ''XrSpatialAnchorStateML'',
       [De ''type'', De_xr ''next'', De ''confidence''])])]"

definition ext_deserializers_43 :: "(string \<times> (nat \<times> string \<times> dop list) list) list" where
  "ext_deserializers_43 =
   [(''XR_ML_spatial_anchors'',
     [(2, ''XrSpatialAnchorsCreateInfoFromPoseML'',
       [De ''type'', De_xr ''next'', De ''baseSpace'', De ''poseInBaseSpace'', De_time ''time''])]),
    (''XR_ML_spatial_anchors_storage'',
     [(1, ''XrSpatialAnchorCompletionResultML'',
       [De ''uuid'', De ''result'']),
      (2, ''XrSpatialAnchorsCreateInfoFromUuidsML'',
       [De ''type'', De_xr ''next'', De ''storage'', De ''uuidCount'', De_ptr ''uuids'']),
      (2, ''XrSpatialAnchorsCreateStorageInfoML'',
       [De ''type'', De_xr ''next'']),
      (2, ''XrSpatialAnchorsDeleteCompletionDetailsML'',
       [De ''type'', De_xr ''next'', De ''resultCount'', De_ptr ''results'']),
      (2, ''XrSpatialAnchorsDeleteCompletionML'',
       [De ''type'', De_xr ''next'', De ''futureResult'']),
      (2, ''XrSpatialAnchorsDeleteInfoML'',
       [De ''type'', De_xr ''next'', De ''uuidCount'', De_ptr ''uuids'']),
      (2, ''XrSpatialAnchorsPublishCompletionDetailsML'',
       [De ''type'', De_xr ''next'', De ''resultCount'', De_ptr ''results'']),
      (2, ''XrSpatialAnchorsPublishCompletionML'',
       [De ''type'', De_xr ''next'', De ''futureResult'', De ''uuidCount'', De_ptr ''uuids''])])]"

definition ext_deserializers_44 :: "(string \<times> (nat \<times> string \<times> dop list) list) list" where
  "ext_deserializers_44 =
   [(''XR_ML_spatial_anchors_storage'',
     [(2, ''XrSpatialAnchorsPublishInfoML'',
       [De ''type'', De_xr ''next'', De ''anchorCount'', De_ptr ''anchors'', De ''expiration'']),
      (2, ''XrSpatialAnchorsQueryCompletionML'',
       [De ''type'', De_xr ''next'', De ''futureResult'', De ''uuidCapacityInput'',
        De ''uuidCountOutput'', De_ptr ''uuids''])])]"

definition ext_deserializers_45 :: "(string \<times> (nat \<times> string \<times> dop list) list) list" where
  "ext_deserializers_45 =
   [(''XR_ML_spatial_anchors_storage'',
     [(2, ''XrSpatialAnchorsQueryInfoRadiusML'',
       [De ''type'', De_xr ''next'', De ''baseSpace'', De ''center'', De_time ''time'',
        De ''radius'']),
      (2, ''XrSpatialAnchorsUpdateExpirationCompletionDetailsML'',
       [De ''type'', De_xr ''next'', De ''resultCount'', De_ptr ''results'']),
      (2, ''XrSpatialAnchorsUpdateExpirationCompletionML'',
       [De ''type'', De_xr ''next'', De ''futureResult'']),
      (2, ''XrSpatialAnchorsUpdateExpirationInfoML'',
       [De ''type'', De_xr ''next'', De ''uuidCount'', De_ptr ''uuids'', De ''expiration''])]),
    (''XR_ML_system_notifications'',
     [(2, ''XrSystemNotificationsSetInfoML'',
       [De ''type'', De_xr ''next'', De ''suppressNotifications''])]),
    (''XR_ML_user_calibration'',
     [(2, ''XrEventDataEyeCalibrationChangedML'',
       [De ''type'', De_xr ''next'', De ''status'']),
      (2, ''XrEventDataHeadsetFitChangedML'',
       [De ''type'', De_xr ''next'', De ''status'', De_time ''time'']),
      (2, ''XrUserCalibrationEnableEventsInfoML'',
       [De ''type'', De_xr ''next'', De ''enabled''])])]"

definition ext_deserializers_46 :: "(string \<times> (nat \<times> string \<times> dop list) list) list" where
  "ext_deserializers_46 =
   [(''XR_ML_world_mesh_detection'',
     [(2, ''XrWorldMeshBlockML'',
       [De ''type'', De_xr ''next'', De ''uuid'', De ''blockResult'', De ''lod'', De ''flags'',
        De ''indexCount'', De_ptr ''indexBuffer'', De ''vertexCount'', De_ptr ''vertexBuffer'',
        De ''normalCount'', De_ptr ''normalBuffer'', De ''confidenceCount'',
        De_ptr ''confidenceBuffer'']),
      (2, ''XrWorldMeshBlockRequestML'',
       [De ''type'', De_xr ''next'', De ''uuid'', De ''lod'']),
      (2, ''XrWorldMeshBlockStateML'',
       [De ''type'', De_xr ''next'', De ''uuid'', De ''meshBoundingBoxCenter'',
        De ''meshBoundingBoxExtents'', De_time ''lastUpdateTime'', De ''status'']),
      (2, ''XrWorldMeshBufferML'',
       [De ''type'', De_xr ''next'', De ''bufferSize'', De_ptr ''buffer'']),
      (2, ''XrWorldMeshBufferRecommendedSizeInfoML'',
       [De ''type'', De_xr ''next'', De ''maxBlockCount'']),
      (2, ''XrWorldMeshBufferSizeML'',
       [De ''type'', De_xr ''next'', De ''size'']),
      (2, ''XrWorldMeshDetectorCreateInfoML'',
       [De ''type'', De_xr ''next'']),
      (2, ''XrWorldMeshGetInfoML'',
       [De ''type'', De_xr ''next'', De ''flags'', De ''fillHoleLength'',
        De ''disconnectedComponentArea'', De ''blockCount'', De_ptr ''blocks''])])]"

definition ext_deserializers_47 :: "(string \<times> (nat \<times> string \<times> dop list) list) list" where
  "ext_deserializers_47 =
   [(''XR_ML_world_mesh_detection'',
     [(2, ''XrWorldMeshRequestCompletionInfoML'',
       [De ''type'', De_xr ''next'', De ''meshSpace'', De_time ''meshSpaceLocateTime'']),
      (2, ''XrWorldMeshRequestCompletionML'',
       [De ''type'', De_xr ''next'', De ''futureResult'', De ''blockCount'', De_ptr ''blocks'']),
      (2, ''XrWorldMeshStateRequestCompletionML'',
       [De ''type'', De_xr ''next'', De ''futureResult'', De_time ''timestamp'',
        De ''meshBlockStateCapacityInput'', De ''meshBlockStateCountOutput'',
        De_ptr ''meshBlockStates'']),
      (2, ''XrWorldMeshStateRequestInfoML'',
       [De ''type'', De_xr ''next'', De ''baseSpace'', De_time ''time'',
        De ''boundingBoxCenter'', De ''boundingBoxExtents''])]),
    (''XR_MNDX_egl_enable'',
     [(2, ''XrGraphicsBindingEGLMNDX'',
       [De ''type'', De_xr ''next'', De ''getProcAddress'', De ''display'', De ''config'',
        De ''context''])]),
    (''XR_MNDX_force_feedback_curl'',
     [(1, ''XrForceFeedbackCurlApplyLocationMNDX'',
       [De ''location'', De ''value'']),
      (2, ''XrForceFeedbackCurlApplyLocationsMNDX'',
       [De ''type'', De_xr ''next'', De ''locationCount'', De_ptr ''locations'']),
      (2, ''XrSystemForceFeedbackCurlPropertiesMNDX'',
       [De ''type'', De_xr ''next'', De ''supportsForceFeedbackCurl''])]),
    (''XR_MSFT_composition_layer_reprojection'',
     [(2, ''XrCompositionLayerReprojectionInfoMSFT'',
       [De ''type'', De_xr ''next'', De ''reprojectionMode''])])]"

definition ext_deserializers_48 :: "(string \<times> (nat \<times> string \<times> dop list) list) list" where
  "ext_deserializers_48 =
   [(''XR_MSFT_composition_layer_reprojection'',
     [(2, ''XrCompositionLayerReprojectionPlaneOverrideMSFT'',
       [De ''type'', De_xr ''next'', De ''position'', De ''normal'', De ''velocity''])]),
    (''XR_MSFT_controller_model'',
     [(2, ''XrControllerModelKeyStateMSFT'',
       [De ''type'', De_xr ''next'', De ''modelKey'']),
      (2, ''XrControllerModelNodePropertiesMSFT'',
       [De ''type'', De_xr ''next'',
        De_array ''parentNodeName'' (B_const ''XR_MAX_CONTROLLER_MODEL_NODE_NAME_SIZE_MSFT''),
        De_array ''nodeName'' (B_const ''XR_MAX_CONTROLLER_MODEL_NODE_NAME_SIZE_MSFT'')]),
      (2, ''XrControllerModelNodeStateMSFT'',
       [De ''type'', De_xr ''next'', De ''nodePose'']),
      (2, ''XrControllerModelPropertiesMSFT'',
       [De ''type'', De_xr ''next'', De ''nodeCapacityInput'', De ''nodeCountOutput'',
        De_ptr ''nodeProperties'']),
      (2, ''XrControllerModelStateMSFT'',
       [De ''type'', De_xr ''next'', De ''nodeCapacityInput'', De ''nodeCountOutput'',
        De_ptr ''nodeStates''])]),
    (''XR_MSFT_hand_tracking_mesh'',
     [(1, ''XrHandMeshIndexBufferMSFT'',
       [De ''indexBufferKey'', De ''indexCapacityInput'', De ''indexCountOutput'',
        De_ptr ''indices'']),
      (2, ''XrHandMeshMSFT'',
       [De ''type'', De_xr ''next'', De ''isActive'', De ''indexBufferChanged'',
        De ''vertexBufferChanged'', De ''indexBuffer'', De ''vertexBuffer'']),
      (2, ''XrHandMeshSpaceCreateInfoMSFT'',
       [De ''type'', De_xr ''next'', De ''handPoseType'', De ''poseInHandMeshSpace''])])]"

definition ext_deserializers_49 :: "(string \<times> (nat \<times> string \<times> dop list) list) list" where
  "ext_deserializers_49 =
   [(''XR_MSFT_hand_tracking_mesh'',
     [(2, ''XrHandMeshUpdateInfoMSFT'',
       [De ''type'', De_xr ''next'', De_time ''time'', De ''handPoseType'']),
      (1, ''XrHandMeshVertexBufferMSFT'',
       [De_time ''vertexUpdateTime'', De ''vertexCapacityInput'', De ''vertexCountOutput'',
        De_ptr ''vertices'']),
      (1, ''XrHandMeshVertexMSFT'',
       [De ''position'', De ''normal'']),
      (2, ''XrHandPoseTypeInfoMSFT'',
       [De ''type'', De_xr ''next'', De ''handPoseType'']),
      (2, ''XrSystemHandTrackingMeshPropertiesMSFT'',
       [De ''type'', De_xr ''next'', De ''supportsHandTrackingMesh'',
        De ''maxHandMeshIndexCount'', De ''maxHandMeshVertexCount''])]),
    (''XR_MSFT_holographic_window_attachment'',
     [(2, ''XrHolographicWindowAttachmentMSFT'',
       [De ''type'', De_xr ''next'', De_ptr ''holographicSpace'', De_ptr ''coreWindow''])]),
    (''XR_MSFT_scene_marker'',
     [(1, ''XrSceneMarkerMSFT'',
       [De ''markerType'', De_time ''lastSeenTime'', De ''center'', De ''size'']),
      (1, ''XrSceneMarkerQRCodeMSFT'',
       [De ''symbolType'', De ''version'']),
      (2, ''XrSceneMarkerQRCodesMSFT'',
       [De ''type'', De_xr ''next'', De ''qrCodeCapacityInput'', De_ptr ''qrCodes'']),
      (2, ''XrSceneMarkerTypeFilterMSFT'',
       [De ''type'', De_xr ''next'', De ''markerTypeCount'', De_ptr ''markerTypes'']),
      (2, ''XrSceneMarkersMSFT'',
       [De ''type'', De_xr ''next'', De ''sceneMarkerCapacityInput'', De_ptr ''sceneMarkers''])])]"

definition ext_deserializers_50 :: "(string \<times> (nat \<times> string \<times> dop list) list) list" where
  "ext_deserializers_50 =
   [(''XR_MSFT_scene_understanding'',
     [(2, ''XrNewSceneComputeInfoMSFT'',
       [De ''type'', De_xr ''next'', De ''requestedFeatureCount'',
        De_ptr ''requestedFeatures'', De ''consistency'', De ''bounds'']),
      (1, ''XrSceneBoundsMSFT'',
       [De ''space'', De_time ''time'', De ''sphereCount'', De_ptr ''spheres'',
        De ''boxCount'', De_ptr ''boxes'', De ''frustumCount'', De_ptr ''frustums'']),
      (1, ''XrSceneComponentLocationMSFT'',
       [De ''flags'', De ''pose'']),
      (2, ''XrSceneComponentLocationsMSFT'',
       [De ''type'', De_xr ''next'', De ''locationCount'', De_ptr ''locations'']),
      (1, ''XrSceneComponentMSFT'',
       [De ''componentType'', De ''id'', De ''parentId'', De_time ''updateTime'']),
      (2, ''XrSceneComponentParentFilterInfoMSFT'',
       [De ''type'', De_xr ''next'', De ''parentId'']),
      (2, ''XrSceneComponentsGetInfoMSFT'',
       [De ''type'', De_xr ''next'', De ''componentType'']),
      (2, ''XrSceneComponentsLocateInfoMSFT'',
       [De ''type'', De_xr ''next'', De ''baseSpace'', De_time ''time'',
        De ''componentIdCount'', De_ptr ''componentIds'']),
      (2, ''XrSceneComponentsMSFT'',
       [De ''type'', De_xr ''next'', De ''componentCapacityInput'',
        De ''componentCountOutput'', De_ptr ''components'']),
      (2, ''XrSceneCreateInfoMSFT'',
       [De ''type'', De_xr ''next'']),
      (1, ''XrSceneFrustumBoundMSFT'',
       [De ''pose'', De ''fov'', De ''farDistance''])])]"

definition ext_deserializers_51 :: "(string \<times> (nat \<times> string \<times> dop list) list) list" where
  "ext_deserializers_51 =
   [(''XR_MSFT_scene_understanding'',
     [(2, ''XrSceneMeshBuffersGetInfoMSFT'',
       [De ''type'', De_xr ''next'', De ''meshBufferId'']),
      (2, ''XrSceneMeshBuffersMSFT'',
       [De ''type'', De_xr ''next'']),
      (2, ''XrSceneMeshIndicesUint16MSFT'',
       [De ''type'', De_xr ''next'', De ''indexCapacityInput'', De ''indexCountOutput'',
        De_ptr ''indices'']),
      (2, ''XrSceneMeshIndicesUint32MSFT'',
       [De ''type'', De_xr ''next'', De ''indexCapacityInput'', De ''indexCountOutput'',
        De_ptr ''indices'']),
      (1, ''XrSceneMeshMSFT'',
       [De ''meshBufferId'', De ''supportsIndicesUint16'']),
      (2, ''XrSceneMeshVertexBufferMSFT'',
       [De ''type'', De_xr ''next'', De ''vertexCapacityInput'', De ''vertexCountOutput'',
        De_ptr ''vertices'']),
      (2, ''XrSceneMeshesMSFT'',
       [De ''type'', De_xr ''next'', De ''sceneMeshCount'', De_ptr ''sceneMeshes'']),
      (1, ''XrSceneObjectMSFT'',
       [De ''objectType'']),
      (2, ''XrSceneObjectTypesFilterInfoMSFT'',
       [De ''type'', De_xr ''next'', De ''objectTypeCount'', De_ptr ''objectTypes'']),
      (2, ''XrSceneObjectsMSFT'',
       [De ''type'', De_xr ''next'', De ''sceneObjectCount'', De_ptr ''sceneObjects'']),
      (2, ''XrSceneObserverCreateInfoMSFT'',
       [De ''type'', De_xr ''next''])])]"

definition ext_deserializers_52 :: "(string \<times> (nat \<times> string \<times> dop list) list) list" where
  "ext_deserializers_52 =
   [(''XR_MSFT_scene_understanding'',
     [(1, ''XrSceneOrientedBoxBoundMSFT'',
       [De ''pose'', De ''extents'']),
      (2, ''XrScenePlaneAlignmentFilterInfoMSFT'',
       [De ''type'', De_xr ''next'', De ''alignmentCount'', De_ptr ''alignments'']),
      (1, ''XrScenePlaneMSFT'',
       [De ''alignment'', De ''size'', De ''meshBufferId'', De ''supportsIndicesUint16'']),
      (2, ''XrScenePlanesMSFT'',
       [De ''type'', De_xr ''next'', De ''scenePlaneCount'', De_ptr ''scenePlanes'']),
      (1, ''XrSceneSphereBoundMSFT'',
       [De ''center'', De ''radius'']),
      (1, ''XrUuidMSFT'',
       [De_array ''bytes'' (B_lit 16)]),
      (2, ''XrVisualMeshComputeLodInfoMSFT'',
       [De ''type'', De_xr ''next'', De ''lod''])]),
    (''XR_MSFT_scene_understanding_serialization'',
     [(1, ''XrDeserializeSceneFragmentMSFT'',
       [De ''bufferSize'', De_ptr ''buffer'']),
      (2, ''XrSceneDeserializeInfoMSFT'',
       [De ''type'', De_xr ''next'', De ''fragmentCount'', De_ptr ''fragments'']),
      (2, ''XrSerializedSceneFragmentDataGetInfoMSFT'',
       [De ''type'', De_xr ''next'', De ''sceneFragmentId''])]),
    (''XR_MSFT_secondary_view_configuration'',
     [(2, ''XrSecondaryViewConfigurationFrameEndInfoMSFT'',
       [De ''type'', De_xr ''next'', De ''viewConfigurationCount'',
        De_ptr ''viewConfigurationLayersInfo'']),
      (2, ''XrSecondaryViewConfigurationFrameStateMSFT'',
       [De ''type'', De_xr ''next'', De ''viewConfigurationCount'',
        De_ptr ''viewConfigurationStates''])])]"

definition ext_deserializers_53 :: "(string \<times> (nat \<times> string \<times> dop list) list) list" where
  "ext_deserializers_53 =
   [(''XR_MSFT_secondary_view_configuration'',
     [(2, ''XrSecondaryViewConfigurationSessionBeginInfoMSFT'',
       [De ''type'', De_xr ''next'', De ''viewConfigurationCount'',
        De_ptr ''enabledViewConfigurationTypes'']),
      (2, ''XrSecondaryViewConfigurationStateMSFT'',
       [De ''type'', De_xr ''next'', De ''viewConfigurationType'', De ''active'']),
      (2, ''XrSecondaryViewConfigurationSwapchainCreateInfoMSFT'',
       [De ''type'', De_xr ''next'', De ''viewConfigurationType''])]),
    (''XR_MSFT_spatial_anchor'',
     [(1, ''XrSpatialAnchorCreateInfoMSFT'',
       [De ''type'', De_xr ''next'', De ''space'', De ''pose'', De_time ''time'']),
      (1, ''XrSpatialAnchorSpaceCreateInfoMSFT'',
       [De ''type'', De_xr ''next'', De ''anchor'', De ''poseInAnchorSpace''])]),
    (''XR_MSFT_spatial_anchor_persistence'',
     [(2, ''XrSpatialAnchorFromPersistedAnchorCreateInfoMSFT'',
       [De ''type'', De_xr ''next'', De ''spatialAnchorStore'',
        De ''spatialAnchorPersistenceName'']),
      (2, ''XrSpatialAnchorPersistenceInfoMSFT'',
       [De ''type'', De_xr ''next'', De ''spatialAnchorPersistenceName'', De ''spatialAnchor'']),
      (1, ''XrSpatialAnchorPersistenceNameMSFT'',
       [De_array ''name'' (B_const ''XR_MAX_SPATIAL_ANCHOR_NAME_SIZE_MSFT'')])]),
    (''XR_MSFT_spatial_graph_bridge'',
     [(2, ''XrSpatialGraphNodeBindingPropertiesGetInfoMSFT'',
       [De ''type'', De_xr ''next'']),
      (2, ''XrSpatialGraphNodeBindingPropertiesMSFT'',
       [De ''type'', De_xr ''next'', De_array ''nodeId'' (B_const ''XR_GUID_SIZE_MSFT''),
        De ''poseInNodeSpace'']),
      (2, ''XrSpatialGraphNodeSpaceCreateInfoMSFT'',
       [De ''type'', De_xr ''next'', De ''nodeType'',
        De_array ''nodeId'' (B_const ''XR_GUID_SIZE_MSFT''), De ''pose''])])]"

definition ext_deserializers_54 :: "(string \<times> (nat \<times> string \<times> dop list) list) list" where
  "ext_deserializers_54 =
   [(''XR_MSFT_spatial_graph_bridge'',
     [(2, ''XrSpatialGraphStaticNodeBindingCreateInfoMSFT'',
       [De ''type'', De_xr ''next'', De ''space'', De ''poseInSpace'', De_time ''time''])]),
    (''XR_OCULUS_external_camera'',
     [(1, ''XrExternalCameraExtrinsicsOCULUS'',
       [De_time ''lastChangeTime'', De ''cameraStatusFlags'', De ''attachedToDevice'',
        De ''relativePose'']),
      (1, ''XrExternalCameraIntrinsicsOCULUS'',
       [De_time ''lastChangeTime'', De ''fov'', De ''virtualNearPlaneDistance'',
        De ''virtualFarPlaneDistance'', De ''imageSensorPixelResolution'']),
      (2, ''XrExternalCameraOCULUS'',
       [De ''type'', De_xr ''next'',
        De_array ''name'' (B_const ''XR_MAX_EXTERNAL_CAMERA_NAME_SIZE_OCULUS''),
        De ''intrinsics'', De ''extrinsics''])]),
    (''XR_VALVE_analog_threshold'',
     [(2, ''XrInteractionProfileAnalogThresholdVALVE'',
       [De ''type'', De_xr ''next'', De ''action'', De ''binding'', De ''onThreshold'',
        De ''offThreshold'', De_xr ''onHaptic'', De_xr ''offHaptic''])]),
    (''XR_VARJO_composition_layer_depth_test'',
     [(2, ''XrCompositionLayerDepthTestVARJO'',
       [De ''type'', De_xr ''next'', De ''depthTestRangeNearZ'', De ''depthTestRangeFarZ''])]),
    (''XR_VARJO_foveated_rendering'',
     [(2, ''XrFoveatedViewConfigurationViewVARJO'',
       [De ''type'', De_xr ''next'', De ''foveatedRenderingActive'']),
      (2, ''XrSystemFoveatedRenderingPropertiesVARJO'',
       [De ''type'', De_xr ''next'', De ''supportsFoveatedRendering'']),
      (2, ''XrViewLocateFoveatedRenderingVARJO'',
       [De ''type'', De_xr ''next'', De ''foveatedRenderingActive''])])]"

definition ext_deserializers_55 :: "(string \<times> (nat \<times> string \<times> dop list) list) list" where
  "ext_deserializers_55 =
   [(''XR_VARJO_marker_tracking'',
     [(2, ''XrEventDataMarkerTrackingUpdateVARJO'',
       [De ''type'', De_xr ''next'', De ''markerId'', De ''isActive'', De ''isPredicted'',
        De_time ''time'']),
      (2, ''XrMarkerSpaceCreateInfoVARJO'',
       [De ''type'', De_xr ''next'', De ''markerId'', De ''poseInMarkerSpace'']),
      (2, ''XrSystemMarkerTrackingPropertiesVARJO'',
       [De ''type'', De_xr ''next'', De ''supportsMarkerTracking''])])]"

definition ext_deserializers :: "(string \<times> (nat \<times> string \<times> dop list) list) list" where
  "ext_deserializers =
     ext_deserializers_1 @ ext_deserializers_2 @ ext_deserializers_3 @ ext_deserializers_4 @
     ext_deserializers_5 @ ext_deserializers_6 @ ext_deserializers_7 @ ext_deserializers_8 @
     ext_deserializers_9 @ ext_deserializers_10 @ ext_deserializers_11 @
     ext_deserializers_12 @ ext_deserializers_13 @ ext_deserializers_14 @
     ext_deserializers_15 @ ext_deserializers_16 @ ext_deserializers_17 @
     ext_deserializers_18 @ ext_deserializers_19 @ ext_deserializers_20 @
     ext_deserializers_21 @ ext_deserializers_22 @ ext_deserializers_23 @
     ext_deserializers_24 @ ext_deserializers_25 @ ext_deserializers_26 @
     ext_deserializers_27 @ ext_deserializers_28 @ ext_deserializers_29 @
     ext_deserializers_30 @ ext_deserializers_31 @ ext_deserializers_32 @
     ext_deserializers_33 @ ext_deserializers_34 @ ext_deserializers_35 @
     ext_deserializers_36 @ ext_deserializers_37 @ ext_deserializers_38 @
     ext_deserializers_39 @ ext_deserializers_40 @ ext_deserializers_41 @
     ext_deserializers_42 @ ext_deserializers_43 @ ext_deserializers_44 @
     ext_deserializers_45 @ ext_deserializers_46 @ ext_deserializers_47 @
     ext_deserializers_48 @ ext_deserializers_49 @ ext_deserializers_50 @
     ext_deserializers_51 @ ext_deserializers_52 @ ext_deserializers_53 @
     ext_deserializers_54 @ ext_deserializers_55"

lemmas ext_deserializers_defs =
  ext_deserializers_1_def ext_deserializers_2_def ext_deserializers_3_def
  ext_deserializers_4_def ext_deserializers_5_def ext_deserializers_6_def
  ext_deserializers_7_def ext_deserializers_8_def ext_deserializers_9_def
  ext_deserializers_10_def ext_deserializers_11_def ext_deserializers_12_def
  ext_deserializers_13_def ext_deserializers_14_def ext_deserializers_15_def
  ext_deserializers_16_def ext_deserializers_17_def ext_deserializers_18_def
  ext_deserializers_19_def ext_deserializers_20_def ext_deserializers_21_def
  ext_deserializers_22_def ext_deserializers_23_def ext_deserializers_24_def
  ext_deserializers_25_def ext_deserializers_26_def ext_deserializers_27_def
  ext_deserializers_28_def ext_deserializers_29_def ext_deserializers_30_def
  ext_deserializers_31_def ext_deserializers_32_def ext_deserializers_33_def
  ext_deserializers_34_def ext_deserializers_35_def ext_deserializers_36_def
  ext_deserializers_37_def ext_deserializers_38_def ext_deserializers_39_def
  ext_deserializers_40_def ext_deserializers_41_def ext_deserializers_42_def
  ext_deserializers_43_def ext_deserializers_44_def ext_deserializers_45_def
  ext_deserializers_46_def ext_deserializers_47_def ext_deserializers_48_def
  ext_deserializers_49_def ext_deserializers_50_def ext_deserializers_51_def
  ext_deserializers_52_def ext_deserializers_53_def ext_deserializers_54_def
  ext_deserializers_55_def


end
