(* ===== verification/Ext_Cleaners.thy ===== *)
theory Ext_Cleaners
  imports Cleaners
begin

text \<open>
  The struct cleaners at the end of \<open>src/common/serialization/deserializer.cpp\<close>, those of core
  OpenXR and those of the extensions, laid out like \<open>Ext_Serializers\<close>.
\<close>

section \<open>Core\<close>

definition core_cleaners_1 :: "(string \<times> cop list) list" where
  "core_cleaners_1 =
   [(''XrActionCreateInfo'',
      [Cl ''type'', Cl_xr ''next'',
       Cl_array ''actionName'' (B_const ''XR_MAX_ACTION_NAME_SIZE''), Cl ''actionType'',
       Cl ''countSubactionPaths'',
       Cl_ptr ''subactionPaths'' (C_field ''countSubactionPaths''),
       Cl_array ''localizedActionName'' (B_const ''XR_MAX_LOCALIZED_ACTION_NAME_SIZE'')]),
    (''XrActionSetCreateInfo'',
      [Cl ''type'', Cl_xr ''next'',
       Cl_array ''actionSetName'' (B_const ''XR_MAX_ACTION_SET_NAME_SIZE''),
       Cl_array ''localizedActionSetName'' (B_const ''XR_MAX_LOCALIZED_ACTION_SET_NAME_SIZE''),
       Cl ''priority'']),
    (''XrActionSpaceCreateInfo'',
      [Cl ''type'', Cl_xr ''next'', Cl ''action'', Cl ''subactionPath'',
       Cl ''poseInActionSpace'']),
    (''XrActionStateBoolean'',
      [Cl ''type'', Cl_xr ''next'', Cl ''currentState'', Cl ''changedSinceLastSync'',
       Cl ''lastChangeTime'', Cl ''isActive'']),
    (''XrActionStateFloat'',
      [Cl ''type'', Cl_xr ''next'', Cl ''currentState'', Cl ''changedSinceLastSync'',
       Cl ''lastChangeTime'', Cl ''isActive'']),
    (''XrActionStateGetInfo'',
      [Cl ''type'', Cl_xr ''next'', Cl ''action'', Cl ''subactionPath'']),
    (''XrActionStatePose'',
      [Cl ''type'', Cl_xr ''next'', Cl ''isActive'']),
    (''XrActionStateVector2f'',
      [Cl ''type'', Cl_xr ''next'', Cl ''currentState'', Cl ''changedSinceLastSync'',
       Cl ''lastChangeTime'', Cl ''isActive'']),
    (''XrActionSuggestedBinding'',
      [Cl ''action'', Cl ''binding'']),
    (''XrActionsSyncInfo'',
      [Cl ''type'', Cl_xr ''next'', Cl ''countActiveActionSets'',
       Cl_ptr ''activeActionSets'' (C_field ''countActiveActionSets'')]),
    (''XrActiveActionSet'',
      [Cl ''actionSet'', Cl ''subactionPath'']),
    (''XrApiLayerProperties'',
      [Cl ''type'', Cl_xr ''next'',
       Cl_array ''layerName'' (B_const ''XR_MAX_API_LAYER_NAME_SIZE''), Cl ''specVersion'',
       Cl ''layerVersion'',
       Cl_array ''description'' (B_const ''XR_MAX_API_LAYER_DESCRIPTION_SIZE'')]),
    (''XrApplicationInfo'',
      [Cl_array ''applicationName'' (B_const ''XR_MAX_APPLICATION_NAME_SIZE''),
       Cl ''applicationVersion'',
       Cl_array ''engineName'' (B_const ''XR_MAX_ENGINE_NAME_SIZE''), Cl ''engineVersion'',
       Cl ''apiVersion'']),
    (''XrBodySkeletonJointHTC'',
      [Cl ''pose'']),
    (''XrBoundSourcesForActionEnumerateInfo'',
      [Cl ''type'', Cl_xr ''next'', Cl ''action'']),
    (''XrBoxf'',
      [Cl ''center'', Cl ''extents'']),
    (''XrColor3f'',
      [Cl ''r'', Cl ''g'', Cl ''b'']),
    (''XrColor4f'',
      [Cl ''r'', Cl ''g'', Cl ''b'', Cl ''a'']),
    (''XrCompositionLayerProjection'',
      [Cl ''type'', Cl_xr ''next'', Cl ''layerFlags'', Cl ''space'', Cl ''viewCount'',
       Cl_ptr ''views'' (C_field ''viewCount'')])]"

definition core_cleaners_2 :: "(string \<times> cop list) list" where
  "core_cleaners_2 =
   [(''XrCompositionLayerProjectionView'',
      [Cl ''type'', Cl_xr ''next'', Cl ''pose'', Cl ''fov'', Cl ''subImage'']),
    (''XrCompositionLayerQuad'',
      [Cl ''type'', Cl_xr ''next'', Cl ''layerFlags'', Cl ''space'', Cl ''eyeVisibility'',
       Cl ''subImage'', Cl ''pose'', Cl ''size'']),
    (''XrEventDataBuffer'',
      [Cl ''type'', Cl_xr ''next'', Cl_array ''varying'' (B_lit 4000)]),
    (''XrEventDataEventsLost'',
      [Cl ''type'', Cl_xr ''next'', Cl ''lostEventCount'']),
    (''XrEventDataInstanceLossPending'',
      [Cl ''type'', Cl_xr ''next'', Cl ''lossTime'']),
    (''XrEventDataInteractionProfileChanged'',
      [Cl ''type'', Cl_xr ''next'', Cl ''session'']),
    (''XrEventDataReferenceSpaceChangePending'',
      [Cl ''type'', Cl_xr ''next'', Cl ''session'', Cl ''referenceSpaceType'',
       Cl ''changeTime'', Cl ''poseValid'', Cl ''poseInPreviousSpace'']),
    (''XrEventDataSessionStateChanged'',
      [Cl ''type'', Cl_xr ''next'', Cl ''session'', Cl ''state'', Cl ''time'']),
    (''XrExtensionProperties'',
      [Cl ''type'', Cl_xr ''next'',
       Cl_array ''extensionName'' (B_const ''XR_MAX_EXTENSION_NAME_SIZE''),
       Cl ''extensionVersion'']),
    (''XrExtent2Df'',
      [Cl ''width'', Cl ''height'']),
    (''XrExtent2Di'',
      [Cl ''width'', Cl ''height'']),
    (''XrExtent3Df'',
      [Cl ''width'', Cl ''height'', Cl ''depth'']),
    (''XrFovf'',
      [Cl ''angleLeft'', Cl ''angleRight'', Cl ''angleUp'', Cl ''angleDown'']),
    (''XrFrameBeginInfo'',
      [Cl ''type'', Cl_xr ''next'']),
    (''XrFrameState'',
      [Cl ''type'', Cl_xr ''next'', Cl ''predictedDisplayTime'',
       Cl ''predictedDisplayPeriod'', Cl ''shouldRender'']),
    (''XrFrameWaitInfo'',
      [Cl ''type'', Cl_xr ''next'']),
    (''XrFrustumf'',
      [Cl ''pose'', Cl ''fov'', Cl ''nearZ'', Cl ''farZ'']),
    (''XrHapticActionInfo'',
      [Cl ''type'', Cl_xr ''next'', Cl ''action'', Cl ''subactionPath'']),
    (''XrHapticVibration'',
      [Cl ''type'', Cl_xr ''next'', Cl ''duration'', Cl ''frequency'', Cl ''amplitude'']),
    (''XrInputSourceLocalizedNameGetInfo'',
      [Cl ''type'', Cl_xr ''next'', Cl ''sourcePath'', Cl ''whichComponents''])]"

definition core_cleaners_3 :: "(string \<times> cop list) list" where
  "core_cleaners_3 =
   [(''XrInstanceProperties'',
      [Cl ''type'', Cl_xr ''next'', Cl ''runtimeVersion'',
       Cl_array ''runtimeName'' (B_const ''XR_MAX_RUNTIME_NAME_SIZE'')]),
    (''XrInteractionProfileState'',
      [Cl ''type'', Cl_xr ''next'', Cl ''interactionProfile'']),
    (''XrInteractionProfileSuggestedBinding'',
      [Cl ''type'', Cl_xr ''next'', Cl ''interactionProfile'', Cl ''countSuggestedBindings'',
       Cl_ptr ''suggestedBindings'' (C_field ''countSuggestedBindings'')]),
    (''XrOffset2Df'',
      [Cl ''x'', Cl ''y'']),
    (''XrOffset2Di'',
      [Cl ''x'', Cl ''y'']),
    (''XrPosef'',
      [Cl ''orientation'', Cl ''position'']),
    (''XrQuaternionf'',
      [Cl ''x'', Cl ''y'', Cl ''z'', Cl ''w'']),
    (''XrRect2Df'',
      [Cl ''offset'', Cl ''extent'']),
    (''XrRect2Di'',
      [Cl ''offset'', Cl ''extent'']),
    (''XrReferenceSpaceCreateInfo'',
      [Cl ''type'', Cl_xr ''next'', Cl ''referenceSpaceType'', Cl ''poseInReferenceSpace'']),
    (''XrSessionActionSetsAttachInfo'',
      [Cl ''type'', Cl_xr ''next'', Cl ''countActionSets'',
       Cl_ptr ''actionSets'' (C_field ''countActionSets'')]),
    (''XrSessionBeginInfo'',
      [Cl ''type'', Cl_xr ''next'', Cl ''primaryViewConfigurationType'']),
    (''XrSessionCreateInfo'',
      [Cl ''type'', Cl_xr ''next'', Cl ''createFlags'', Cl ''systemId'']),
    (''XrSpaceLocation'',
      [Cl ''type'', Cl_xr ''next'', Cl ''locationFlags'', Cl ''pose'']),
    (''XrSpaceLocationData'',
      [Cl ''locationFlags'', Cl ''pose'']),
    (''XrSpaceLocations'',
      [Cl ''type'', Cl_xr ''next'', Cl ''locationCount'',
       Cl_ptr ''locations'' (C_field ''locationCount'')]),
    (''XrSpaceVelocities'',
      [Cl ''type'', Cl_xr ''next'', Cl ''velocityCount'',
       Cl_ptr ''velocities'' (C_field ''velocityCount'')]),
    (''XrSpaceVelocity'',
      [Cl ''type'', Cl_xr ''next'', Cl ''velocityFlags'', Cl ''linearVelocity'',
       Cl ''angularVelocity'']),
    (''XrSpaceVelocityData'',
      [Cl ''velocityFlags'', Cl ''linearVelocity'', Cl ''angularVelocity'']),
    (''XrSpacesLocateInfo'',
      [Cl ''type'', Cl_xr ''next'', Cl ''baseSpace'', Cl ''time'', Cl ''spaceCount'',
       Cl_ptr ''spaces'' (C_field ''spaceCount'')]),
    (''XrSpheref'',
      [Cl ''center'', Cl ''radius'']),
    (''XrSwapchainCreateInfo'',
      [Cl ''type'', Cl_xr ''next'', Cl ''createFlags'', Cl ''usageFlags'', Cl ''format'',
       Cl ''sampleCount'', Cl ''width'', Cl ''height'', Cl ''faceCount'', Cl ''arraySize'',
       Cl ''mipCount''])]"

definition core_cleaners_4 :: "(string \<times> cop list) list" where
  "core_cleaners_4 =
   [(''XrSwapchainImageAcquireInfo'',
      [Cl ''type'', Cl_xr ''next'']),
    (''XrSwapchainImageReleaseInfo'',
      [Cl ''type'', Cl_xr ''next'']),
    (''XrSwapchainImageWaitInfo'',
      [Cl ''type'', Cl_xr ''next'', Cl ''timeout'']),
    (''XrSwapchainSubImage'',
      [Cl ''swapchain'', Cl ''imageRect'', Cl ''imageArrayIndex'']),
    (''XrSystemGetInfo'',
      [Cl ''type'', Cl_xr ''next'', Cl ''formFactor'']),
    (''XrSystemGraphicsProperties'',
      [Cl ''maxSwapchainImageHeight'', Cl ''maxSwapchainImageWidth'', Cl ''maxLayerCount'']),
    (''XrSystemProperties'',
      [Cl ''type'', Cl_xr ''next'', Cl ''systemId'', Cl ''vendorId'',
       Cl_array ''systemName'' (B_const ''XR_MAX_SYSTEM_NAME_SIZE''),
       Cl ''graphicsProperties'', Cl ''trackingProperties'']),
    (''XrSystemTrackingProperties'',
      [Cl ''orientationTracking'', Cl ''positionTracking'']),
    (''XrUuid'',
      [Cl_array ''data'' (B_const ''XR_UUID_SIZE'')]),
    (''XrVector2f'',
      [Cl ''x'', Cl ''y'']),
    (''XrVector3f'',
      [Cl ''x'', Cl ''y'', Cl ''z'']),
    (''XrVector4f'',
      [Cl ''x'', Cl ''y'', Cl ''z'', Cl ''w'']),
    (''XrView'',
      [Cl ''type'', Cl_xr ''next'', Cl ''pose'', Cl ''fov'']),
    (''XrViewConfigurationProperties'',
      [Cl ''type'', Cl_xr ''next'', Cl ''viewConfigurationType'', Cl ''fovMutable'']),
    (''XrViewConfigurationView'',
      [Cl ''type'', Cl_xr ''next'', Cl ''recommendedImageRectWidth'',
       Cl ''maxImageRectWidth'', Cl ''recommendedImageRectHeight'', Cl ''maxImageRectHeight'',
       Cl ''recommendedSwapchainSampleCount'', Cl ''maxSwapchainSampleCount'']),
    (''XrViewLocateInfo'',
      [Cl ''type'', Cl_xr ''next'', Cl ''viewConfigurationType'', Cl ''displayTime'',
       Cl ''space'']),
    (''XrViewState'',
      [Cl ''type'', Cl_xr ''next'', Cl ''viewStateFlags''])]"

text \<open>\<open>custom_deserializer.cpp\<close>\<close>

definition cleanup_XrInstanceCreateInfo :: "cop list" where
  "cleanup_XrInstanceCreateInfo =
     [Cl_xr ''next'', Cl_ptr_each ''enabledApiLayerNames'' ''enabledApiLayerCount'',
      Cl_ptr_each ''enabledExtensionNames'' ''enabledExtensionCount'']"

definition cleanup_XrFrameEndInfo :: "cop list" where
  "cleanup_XrFrameEndInfo = [Cl_xr ''next'', Cl_xr_each ''layers'' ''layerCount'']"

definition core_cleaners :: "(string \<times> cop list) list" where
  "core_cleaners =
     (''XrInstanceCreateInfo'', cleanup_XrInstanceCreateInfo) #
     (''XrFrameEndInfo'', cleanup_XrFrameEndInfo) #
     core_cleaners_1 @ core_cleaners_2 @ core_cleaners_3 @ core_cleaners_4"

lemmas core_cleaners_defs =
  core_cleaners_def core_cleaners_1_def core_cleaners_2_def core_cleaners_3_def core_cleaners_4_def
  cleanup_XrInstanceCreateInfo_def cleanup_XrFrameEndInfo_def

section \<open>Extensions\<close>

definition ext_cleaners_1 :: "(string \<times> (nat \<times> string \<times> cop list) list) list" where
  "ext_cleaners_1 =
   [(''XR_ALMALENCE_digital_lens_control'',
     [(1, ''XrDigitalLensControlALMALENCE'',
       [Cl ''type'', Cl_xr ''next'', Cl ''flags''])]),
    (''XR_BD_body_tracking'',
     [(1, ''XrBodyJointLocationBD'',
       [Cl ''locationFlags'', Cl ''pose'']),
      (2, ''XrBodyJointLocationsBD'',
       [Cl ''type'', Cl_xr ''next'', Cl ''allJointPosesTracked'', Cl ''jointLocationCount'',
        Cl_ptr ''jointLocations'' (C_field ''jointLocationCount'')]),
      (2, ''XrBodyJointsLocateInfoBD'',
       [Cl ''type'', Cl_xr ''next'', Cl ''baseSpace'', Cl ''time'']),
      (2, ''XrBodyTrackerCreateInfoBD'',
       [Cl ''type'', Cl_xr ''next'', Cl ''jointSet'']),
      (2, ''XrSystemBodyTrackingPropertiesBD'',
       [Cl ''type'', Cl_xr ''next'', Cl ''supportsBodyTracking''])]),
    (''XR_BD_future_progress'',
     [(2, ''XrFuturePollResultProgressBD'',
       [Cl ''type'', Cl_xr ''next'', Cl ''isSupported'', Cl ''progressPercentage''])]),
    (''XR_BD_spatial_anchor'',
     [(2, ''XrSpatialAnchorCreateCompletionBD'',
       [Cl ''type'', Cl_xr ''next'', Cl ''futureResult'', Cl ''anchor'', Cl ''uuid'']),
      (2, ''XrSpatialAnchorCreateInfoBD'',
       [Cl ''type'', Cl_xr ''next'', Cl ''space'', Cl ''pose'', Cl ''time'']),
      (2, ''XrSpatialAnchorPersistInfoBD'',
       [Cl ''type'', Cl_xr ''next'', Cl ''location'', Cl ''anchor''])])]"

definition ext_cleaners_2 :: "(string \<times> (nat \<times> string \<times> cop list) list) list" where
  "ext_cleaners_2 =
   [(''XR_BD_spatial_anchor'',
     [(2, ''XrSpatialAnchorUnpersistInfoBD'',
       [Cl ''type'', Cl_xr ''next'', Cl ''location'', Cl ''anchor'']),
      (2, ''XrSystemSpatialAnchorPropertiesBD'',
       [Cl ''type'', Cl_xr ''next'', Cl ''supportsSpatialAnchor''])]),
    (''XR_BD_spatial_anchor_sharing'',
     [(2, ''XrSharedSpatialAnchorDownloadInfoBD'',
       [Cl ''type'', Cl_xr ''next'', Cl ''uuid'']),
      (2, ''XrSpatialAnchorShareInfoBD'',
       [Cl ''type'', Cl_xr ''next'', Cl ''anchor'']),
      (2, ''XrSystemSpatialAnchorSharingPropertiesBD'',
       [Cl ''type'', Cl_xr ''next'', Cl ''supportsSpatialAnchorSharing''])]),
    (''XR_BD_spatial_mesh'',
     [(2, ''XrSenseDataProviderCreateInfoSpatialMeshBD'',
       [Cl ''type'', Cl_xr ''next'', Cl ''configFlags'', Cl ''lod'']),
      (2, ''XrSystemSpatialMeshPropertiesBD'',
       [Cl ''type'', Cl_xr ''next'', Cl ''supportsSpatialMesh''])]),
    (''XR_BD_spatial_scene'',
     [(2, ''XrSceneCaptureInfoBD'',
       [Cl ''type'', Cl_xr ''next'']),
      (2, ''XrSystemSpatialScenePropertiesBD'',
       [Cl ''type'', Cl_xr ''next'', Cl ''supportsSpatialScene''])]),
    (''XR_BD_spatial_sensing'',
     [(2, ''XrAnchorSpaceCreateInfoBD'',
       [Cl ''type'', Cl_xr ''next'', Cl ''anchor'', Cl ''poseInAnchorSpace''])])]"

definition ext_cleaners_3 :: "(string \<times> (nat \<times> string \<times> cop list) list) list" where
  "ext_cleaners_3 =
   [(''XR_BD_spatial_sensing'',
     [(2, ''XrEventDataSenseDataProviderStateChangedBD'',
       [Cl ''type'', Cl_xr ''next'', Cl ''provider'', Cl ''newState'']),
      (2, ''XrEventDataSenseDataUpdatedBD'',
       [Cl ''type'', Cl_xr ''next'', Cl ''provider'']),
      (2, ''XrQueriedSenseDataBD'',
       [Cl ''type'', Cl_xr ''next'', Cl ''stateCapacityInput'', Cl ''stateCountOutput'',
        Cl_ptr ''states'' (C_field ''stateCapacityInput'')]),
      (2, ''XrQueriedSenseDataGetInfoBD'',
       [Cl ''type'', Cl_xr ''next'']),
      (2, ''XrSenseDataFilterSemanticBD'',
       [Cl ''type'', Cl_xr ''next'', Cl ''labelCount'',
        Cl_ptr ''labels'' (C_field ''labelCount'')]),
      (2, ''XrSenseDataFilterUuidBD'',
       [Cl ''type'', Cl_xr ''next'', Cl ''uuidCount'', Cl_ptr ''uuids'' (C_field ''uuidCount'')]),
      (2, ''XrSenseDataProviderCreateInfoBD'',
       [Cl ''type'', Cl_xr ''next'', Cl ''providerType'']),
      (2, ''XrSenseDataProviderStartInfoBD'',
       [Cl ''type'', Cl_xr ''next'']),
      (2, ''XrSenseDataQueryCompletionBD'',
       [Cl ''type'', Cl_xr ''next'', Cl ''futureResult'', Cl ''snapshot'']),
      (2, ''XrSenseDataQueryInfoBD'',
       [Cl ''type'', Cl_xr ''next''])])]"

definition ext_cleaners_4 :: "(string \<times> (nat \<times> string \<times> cop list) list) list" where
  "ext_cleaners_4 =
   [(''XR_BD_spatial_sensing'',
     [(2, ''XrSpatialEntityAnchorCreateInfoBD'',
       [Cl ''type'', Cl_xr ''next'', Cl ''snapshot'', Cl ''entityId''])])]"

definition ext_cleaners_5 :: "(string \<times> (nat \<times> string \<times> cop list) list) list" where
  "ext_cleaners_5 =
   [(''XR_BD_spatial_sensing'',
     [(2, ''XrSpatialEntityComponentDataBoundingBox2DBD'',
       [Cl ''type'', Cl_xr ''next'', Cl ''boundingBox2D'']),
      (2, ''XrSpatialEntityComponentDataBoundingBox3DBD'',
       [Cl ''type'', Cl_xr ''next'', Cl ''boundingBox3D'']),
      (2, ''XrSpatialEntityComponentDataLocationBD'',
       [Cl ''type'', Cl_xr ''next'', Cl ''location'']),
      (2, ''XrSpatialEntityComponentDataPolygonBD'',
       [Cl ''type'', Cl_xr ''next'', Cl ''vertexCapacityInput'', Cl ''vertexCountOutput'',
        Cl_ptr ''vertices'' (C_field ''vertexCapacityInput'')]),
      (2, ''XrSpatialEntityComponentDataSemanticBD'',
       [Cl ''type'', Cl_xr ''next'', Cl ''labelCapacityInput'', Cl ''labelCountOutput'',
        Cl_ptr ''labels'' (C_field ''labelCapacityInput'')]),
      (2, ''XrSpatialEntityComponentDataTriangleMeshBD'',
       [Cl ''type'', Cl_xr ''next'', Cl ''vertexCapacityInput'', Cl ''vertexCountOutput'',
        Cl_ptr ''vertices'' (C_field ''vertexCapacityInput''), Cl ''indexCapacityInput'',
        Cl ''indexCountOutput'', Cl_ptr ''indices'' (C_field ''indexCapacityInput'')]),
      (2, ''XrSpatialEntityComponentGetInfoBD'',
       [Cl ''type'', Cl_xr ''next'', Cl ''entityId'', Cl ''componentType'']),
      (2, ''XrSpatialEntityLocationGetInfoBD'',
       [Cl ''type'', Cl_xr ''next'', Cl ''baseSpace'']),
      (2, ''XrSpatialEntityStateBD'',
       [Cl ''type'', Cl_xr ''next'', Cl ''entityId'', Cl ''lastUpdateTime'', Cl ''uuid''])])]"

definition ext_cleaners_6 :: "(string \<times> (nat \<times> string \<times> cop list) list) list" where
  "ext_cleaners_6 =
   [(''XR_BD_spatial_sensing'',
     [(2, ''XrSystemSpatialSensingPropertiesBD'',
       [Cl ''type'', Cl_xr ''next'', Cl ''supportsSpatialSensing''])]),
    (''XR_EPIC_view_configuration_fov'',
     [(2, ''XrViewConfigurationViewFovEPIC'',
       [Cl ''type'', Cl_xr ''next'', Cl ''recommendedFov'', Cl ''maxMutableFov''])]),
    (''XR_EXTX_overlay'',
     [(2, ''XrEventDataMainSessionVisibilityChangedEXTX'',
       [Cl ''type'', Cl_xr ''next'', Cl ''visible'', Cl ''flags'']),
      (2, ''XrSessionCreateInfoOverlayEXTX'',
       [Cl ''type'', Cl_xr ''next'', Cl ''createFlags'', Cl ''sessionLayersPlacement''])]),
    (''XR_EXT_active_action_set_priority'',
     [(2, ''XrActiveActionSetPrioritiesEXT'',
       [Cl ''type'', Cl_xr ''next'', Cl ''actionSetPriorityCount'',
        Cl_ptr ''actionSetPriorities'' (C_field ''actionSetPriorityCount'')]),
      (1, ''XrActiveActionSetPriorityEXT'',
       [Cl ''actionSet'', Cl ''priorityOverride''])]),
    (''XR_EXT_debug_utils'',
     [(2, ''XrDebugUtilsLabelEXT'',
       [Cl ''type'', Cl_xr ''next'', Cl_ptr ''labelName'' C_null_terminated]),
      (2, ''XrDebugUtilsMessengerCallbackDataEXT'',
       [Cl ''type'', Cl_xr ''next'', Cl_ptr ''messageId'' C_null_terminated,
        Cl_ptr ''functionName'' C_null_terminated, Cl_ptr ''message'' C_null_terminated,
        Cl ''objectCount'', Cl_ptr ''objects'' (C_field ''objectCount''),
        Cl ''sessionLabelCount'', Cl_ptr ''sessionLabels'' (C_field ''sessionLabelCount'')]),
      (2, ''XrDebugUtilsMessengerCreateInfoEXT'',
       [Cl ''type'', Cl_xr ''next'', Cl ''messageSeverities'', Cl ''messageTypes'',
        Cl ''userCallback'', Cl_ptr ''userData'' C_one])])]"

definition ext_cleaners_7 :: "(string \<times> (nat \<times> string \<times> cop list) list) list" where
  "ext_cleaners_7 =
   [(''XR_EXT_debug_utils'',
     [(2, ''XrDebugUtilsObjectNameInfoEXT'',
       [Cl ''type'', Cl_xr ''next'', Cl ''objectType'', Cl ''objectHandle'',
        Cl_ptr ''objectName'' C_null_terminated])]),
    (''XR_EXT_dpad_binding'',
     [(2, ''XrInteractionProfileDpadBindingEXT'',
       [Cl ''type'', Cl_xr ''next'', Cl ''binding'', Cl ''actionSet'', Cl ''forceThreshold'',
        Cl ''forceThresholdReleased'', Cl ''centerRegion'', Cl ''wedgeAngle'', Cl ''isSticky'',
        Cl_xr ''onHaptic'', Cl_xr ''offHaptic''])]),
    (''XR_EXT_eye_gaze_interaction'',
     [(2, ''XrEyeGazeSampleTimeEXT'',
       [Cl ''type'', Cl_xr ''next'', Cl ''time'']),
      (2, ''XrSystemEyeGazeInteractionPropertiesEXT'',
       [Cl ''type'', Cl_xr ''next'', Cl ''supportsEyeGazeInteraction''])]),
    (''XR_EXT_frame_synthesis'',
     [(2, ''XrFrameSynthesisConfigViewEXT'',
       [Cl ''type'', Cl_xr ''next'', Cl ''recommendedMotionVectorImageRectWidth'',
        Cl ''recommendedMotionVectorImageRectHeight'']),
      (2, ''XrFrameSynthesisInfoEXT'',
       [Cl ''type'', Cl_xr ''next'', Cl ''layerFlags'', Cl ''motionVectorSubImage'',
        Cl ''motionVectorScale'', Cl ''motionVectorOffset'', Cl ''appSpaceDeltaPose'',
        Cl ''depthSubImage'', Cl ''minDepth'', Cl ''maxDepth'', Cl ''nearZ'', Cl ''farZ''])]),
    (''XR_EXT_future'',
     [(2, ''XrFutureCancelInfoEXT'',
       [Cl ''type'', Cl_xr ''next'', Cl ''future''])])]"

definition ext_cleaners_8 :: "(string \<times> (nat \<times> string \<times> cop list) list) list" where
  "ext_cleaners_8 =
   [(''XR_EXT_future'',
     [(2, ''XrFutureCompletionEXT'',
       [Cl ''type'', Cl_xr ''next'', Cl ''futureResult'']),
      (2, ''XrFuturePollInfoEXT'',
       [Cl ''type'', Cl_xr ''next'', Cl ''future'']),
      (2, ''XrFuturePollResultEXT'',
       [Cl ''type'', Cl_xr ''next'', Cl ''state''])]),
    (''XR_EXT_hand_joints_motion_range'',
     [(2, ''XrHandJointsMotionRangeInfoEXT'',
       [Cl ''type'', Cl_xr ''next'', Cl ''handJointsMotionRange''])]),
    (''XR_EXT_hand_tracking'',
     [(1, ''XrHandJointLocationEXT'',
       [Cl ''locationFlags'', Cl ''pose'', Cl ''radius'']),
      (2, ''XrHandJointLocationsEXT'',
       [Cl ''type'', Cl_xr ''next'', Cl ''isActive'', Cl ''jointCount'',
        Cl_ptr ''jointLocations'' (C_field ''jointCount'')]),
      (2, ''XrHandJointVelocitiesEXT'',
       [Cl ''type'', Cl_xr ''next'', Cl ''jointCount'',
        Cl_ptr ''jointVelocities'' (C_field ''jointCount'')]),
      (1, ''XrHandJointVelocityEXT'',
       [Cl ''velocityFlags'', Cl ''linearVelocity'', Cl ''angularVelocity'']),
      (2, ''XrHandJointsLocateInfoEXT'',
       [Cl ''type'', Cl_xr ''next'', Cl ''baseSpace'', Cl ''time'']),
      (2, ''XrHandTrackerCreateInfoEXT'',
       [Cl ''type'', Cl_xr ''next'', Cl ''hand'', Cl ''handJointSet''])])]"

definition ext_cleaners_9 :: "(string \<times> (nat \<times> string \<times> cop list) list) list" where
  "ext_cleaners_9 =
   [(''XR_EXT_hand_tracking'',
     [(2, ''XrSystemHandTrackingPropertiesEXT'',
       [Cl ''type'', Cl_xr ''next'', Cl ''supportsHandTracking''])]),
    (''XR_EXT_hand_tracking_data_source'',
     [(2, ''XrHandTrackingDataSourceInfoEXT'',
       [Cl ''type'', Cl_xr ''next'', Cl ''requestedDataSourceCount'',
        Cl_ptr ''requestedDataSources'' (C_field ''requestedDataSourceCount'')]),
      (2, ''XrHandTrackingDataSourceStateEXT'',
       [Cl ''type'', Cl_xr ''next'', Cl ''isActive'', Cl ''dataSource''])]),
    (''XR_EXT_performance_settings'',
     [(2, ''XrEventDataPerfSettingsEXT'',
       [Cl ''type'', Cl_xr ''next'', Cl ''domain'', Cl ''subDomain'', Cl ''fromLevel'',
        Cl ''toLevel''])]),
    (''XR_EXT_plane_detection'',
     [(2, ''XrPlaneDetectorBeginInfoEXT'',
       [Cl ''type'', Cl_xr ''next'', Cl ''baseSpace'', Cl ''time'', Cl ''orientationCount'',
        Cl_ptr ''orientations'' (C_field ''orientationCount''), Cl ''semanticTypeCount'',
        Cl_ptr ''semanticTypes'' (C_field ''semanticTypeCount''), Cl ''maxPlanes'',
        Cl ''minArea'', Cl ''boundingBoxPose'', Cl ''boundingBoxExtent'']),
      (2, ''XrPlaneDetectorCreateInfoEXT'',
       [Cl ''type'', Cl_xr ''next'', Cl ''flags'']),
      (2, ''XrPlaneDetectorGetInfoEXT'',
       [Cl ''type'', Cl_xr ''next'', Cl ''baseSpace'', Cl ''time''])])]"

definition ext_cleaners_10 :: "(string \<times> (nat \<times> string \<times> cop list) list) list" where
  "ext_cleaners_10 =
   [(''XR_EXT_plane_detection'',
     [(2, ''XrPlaneDetectorLocationEXT'',
       [Cl ''type'', Cl_xr ''next'', Cl ''planeId'', Cl ''locationFlags'', Cl ''pose'',
        Cl ''extents'', Cl ''orientation'', Cl ''semanticType'', Cl ''polygonBufferCount'']),
      (2, ''XrPlaneDetectorLocationsEXT'',
       [Cl ''type'', Cl_xr ''next'', Cl ''planeLocationCapacityInput'',
        Cl ''planeLocationCountOutput'',
        Cl_ptr ''planeLocations'' (C_field ''planeLocationCapacityInput'')]),
      (2, ''XrPlaneDetectorPolygonBufferEXT'',
       [Cl ''type'', Cl_xr ''next'', Cl ''vertexCapacityInput'', Cl ''vertexCountOutput'',
        Cl_ptr ''vertices'' (C_field ''vertexCapacityInput'')]),
      (2, ''XrSystemPlaneDetectionPropertiesEXT'',
       [Cl ''type'', Cl_xr ''next'', Cl ''supportedFeatures''])]),
    (''XR_EXT_user_presence'',
     [(2, ''XrEventDataUserPresenceChangedEXT'',
       [Cl ''type'', Cl_xr ''next'', Cl ''session'', Cl ''isUserPresent'']),
      (2, ''XrSystemUserPresencePropertiesEXT'',
       [Cl ''type'', Cl_xr ''next'', Cl ''supportsUserPresence''])]),
    (''XR_EXT_view_configuration_depth_range'',
     [(2, ''XrViewConfigurationDepthRangeEXT'',
       [Cl ''type'', Cl_xr ''next'', Cl ''recommendedNearZ'', Cl ''minNearZ'',
        Cl ''recommendedFarZ'', Cl ''maxFarZ''])]),
    (''XR_FB_android_surface_swapchain_create'',
     [(2, ''XrAndroidSurfaceSwapchainCreateInfoFB'',
       [Cl ''type'', Cl_xr ''next'', Cl ''createFlags''])])]"

definition ext_cleaners_11 :: "(string \<times> (nat \<times> string \<times> cop list) list) list" where
  "ext_cleaners_11 =
   [(''XR_FB_body_tracking'',
     [(1, ''XrBodyJointLocationFB'',
       [Cl ''locationFlags'', Cl ''pose'']),
      (2, ''XrBodyJointLocationsFB'',
       [Cl ''type'', Cl_xr ''next'', Cl ''isActive'', Cl ''confidence'', Cl ''jointCount'',
        Cl_ptr ''jointLocations'' (C_field ''jointCount''), Cl ''skeletonChangedCount'',
        Cl ''time'']),
      (2, ''XrBodyJointsLocateInfoFB'',
       [Cl ''type'', Cl_xr ''next'', Cl ''baseSpace'', Cl ''time'']),
      (2, ''XrBodySkeletonFB'',
       [Cl ''type'', Cl_xr ''next'', Cl ''jointCount'',
        Cl_ptr ''joints'' (C_field ''jointCount'')]),
      (1, ''XrBodySkeletonJointFB'',
       [Cl ''joint'', Cl ''parentJoint'', Cl ''pose'']),
      (2, ''XrBodyTrackerCreateInfoFB'',
       [Cl ''type'', Cl_xr ''next'', Cl ''bodyJointSet'']),
      (2, ''XrSystemBodyTrackingPropertiesFB'',
       [Cl ''type'', Cl_xr ''next'', Cl ''supportsBodyTracking''])]),
    (''XR_FB_color_space'',
     [(2, ''XrSystemColorSpacePropertiesFB'',
       [Cl ''type'', Cl_xr ''next'', Cl ''colorSpace''])]),
    (''XR_FB_composition_layer_alpha_blend'',
     [(2, ''XrCompositionLayerAlphaBlendFB'',
       [Cl ''type'', Cl_xr ''next'', Cl ''srcFactorColor'', Cl ''dstFactorColor'',
        Cl ''srcFactorAlpha'', Cl ''dstFactorAlpha''])])]"

definition ext_cleaners_12 :: "(string \<times> (nat \<times> string \<times> cop list) list) list" where
  "ext_cleaners_12 =
   [(''XR_FB_composition_layer_depth_test'',
     [(2, ''XrCompositionLayerDepthTestFB'',
       [Cl ''type'', Cl_xr ''next'', Cl ''depthMask'', Cl ''compareOp''])]),
    (''XR_FB_composition_layer_image_layout'',
     [(2, ''XrCompositionLayerImageLayoutFB'',
       [Cl ''type'', Cl_xr ''next'', Cl ''flags''])]),
    (''XR_FB_composition_layer_secure_content'',
     [(2, ''XrCompositionLayerSecureContentFB'',
       [Cl ''type'', Cl_xr ''next'', Cl ''flags''])]),
    (''XR_FB_composition_layer_settings'',
     [(2, ''XrCompositionLayerSettingsFB'',
       [Cl ''type'', Cl_xr ''next'', Cl ''layerFlags''])]),
    (''XR_FB_display_refresh_rate'',
     [(2, ''XrEventDataDisplayRefreshRateChangedFB'',
       [Cl ''type'', Cl_xr ''next'', Cl ''fromDisplayRefreshRate'', Cl ''toDisplayRefreshRate''])]),
    (''XR_FB_eye_tracking_social'',
     [(1, ''XrEyeGazeFB'',
       [Cl ''isValid'', Cl ''gazePose'', Cl ''gazeConfidence'']),
      (2, ''XrEyeGazesFB'',
       [Cl ''type'', Cl_xr ''next'', Cl_array ''gaze'' (B_const ''XR_EYE_POSITION_COUNT_FB''),
        Cl ''time'']),
      (2, ''XrEyeGazesInfoFB'',
       [Cl ''type'', Cl_xr ''next'', Cl ''baseSpace'', Cl ''time'']),
      (2, ''XrEyeTrackerCreateInfoFB'',
       [Cl ''type'', Cl_xr ''next'']),
      (2, ''XrSystemEyeTrackingPropertiesFB'',
       [Cl ''type'', Cl_xr ''next'', Cl ''supportsEyeTracking''])])]"

definition ext_cleaners_13 :: "(string \<times> (nat \<times> string \<times> cop list) list) list" where
  "ext_cleaners_13 =
   [(''XR_FB_face_tracking'',
     [(2, ''XrFaceExpressionInfoFB'',
       [Cl ''type'', Cl_xr ''next'', Cl ''time'']),
      (1, ''XrFaceExpressionStatusFB'',
       [Cl ''isValid'', Cl ''isEyeFollowingBlendshapesValid'']),
      (2, ''XrFaceExpressionWeightsFB'',
       [Cl ''type'', Cl_xr ''next'', Cl ''weightCount'',
        Cl_ptr ''weights'' (C_field ''weightCount''), Cl ''confidenceCount'',
        Cl_ptr ''confidences'' (C_field ''confidenceCount''), Cl ''status'', Cl ''time'']),
      (2, ''XrFaceTrackerCreateInfoFB'',
       [Cl ''type'', Cl_xr ''next'', Cl ''faceExpressionSet'']),
      (2, ''XrSystemFaceTrackingPropertiesFB'',
       [Cl ''type'', Cl_xr ''next'', Cl ''supportsFaceTracking''])]),
    (''XR_FB_face_tracking2'',
     [(2, ''XrFaceExpressionInfo2FB'',
       [Cl ''type'', Cl_xr ''next'', Cl ''time'']),
      (2, ''XrFaceExpressionWeights2FB'',
       [Cl ''type'', Cl_xr ''next'', Cl ''weightCount'',
        Cl_ptr ''weights'' (C_field ''weightCount''), Cl ''confidenceCount'',
        Cl_ptr ''confidences'' (C_field ''confidenceCount''), Cl ''isValid'',
        Cl ''isEyeFollowingBlendshapesValid'', Cl ''dataSource'', Cl ''time'']),
      (2, ''XrFaceTrackerCreateInfo2FB'',
       [Cl ''type'', Cl_xr ''next'', Cl ''faceExpressionSet'', Cl ''requestedDataSourceCount'',
        Cl_ptr ''requestedDataSources'' (C_field ''requestedDataSourceCount'')]),
      (2, ''XrSystemFaceTrackingProperties2FB'',
       [Cl ''type'', Cl_xr ''next'', Cl ''supportsVisualFaceTracking'',
        Cl ''supportsAudioFaceTracking''])])]"

definition ext_cleaners_14 :: "(string \<times> (nat \<times> string \<times> cop list) list) list" where
  "ext_cleaners_14 =
   [(''XR_FB_foveation'',
     [(2, ''XrFoveationProfileCreateInfoFB'',
       [Cl ''type'', Cl_xr ''next'']),
      (2, ''XrSwapchainCreateInfoFoveationFB'',
       [Cl ''type'', Cl_xr ''next'', Cl ''flags'']),
      (2, ''XrSwapchainStateFoveationFB'',
       [Cl ''type'', Cl_xr ''next'', Cl ''flags'', Cl ''profile''])]),
    (''XR_FB_foveation_configuration'',
     [(2, ''XrFoveationLevelProfileCreateInfoFB'',
       [Cl ''type'', Cl_xr ''next'', Cl ''level'', Cl ''verticalOffset'', Cl ''dynamic''])]),
    (''XR_FB_foveation_vulkan'',
     [(2, ''XrSwapchainImageFoveationVulkanFB'',
       [Cl ''type'', Cl_xr ''next'', Cl ''image'', Cl ''width'', Cl ''height''])]),
    (''XR_FB_hand_tracking_aim'',
     [(2, ''XrHandTrackingAimStateFB'',
       [Cl ''type'', Cl_xr ''next'', Cl ''status'', Cl ''aimPose'', Cl ''pinchStrengthIndex'',
        Cl ''pinchStrengthMiddle'', Cl ''pinchStrengthRing'', Cl ''pinchStrengthLittle''])]),
    (''XR_FB_hand_tracking_capsules'',
     [(1, ''XrHandCapsuleFB'',
       [Cl_array ''points'' (B_const ''XR_HAND_TRACKING_CAPSULE_POINT_COUNT_FB''),
        Cl ''radius'', Cl ''joint'']),
      (2, ''XrHandTrackingCapsulesStateFB'',
       [Cl ''type'', Cl_xr ''next'',
        Cl_array ''capsules'' (B_const ''XR_HAND_TRACKING_CAPSULE_COUNT_FB'')])])]"

definition ext_cleaners_15 :: "(string \<times> (nat \<times> string \<times> cop list) list) list" where
  "ext_cleaners_15 =
   [(''XR_FB_hand_tracking_mesh'',
     [(2, ''XrHandTrackingMeshFB'',
       [Cl ''type'', Cl_xr ''next'', Cl ''jointCapacityInput'', Cl ''jointCountOutput'',
        Cl_ptr ''jointBindPoses'' (C_field ''jointCapacityInput''),
        Cl_ptr ''jointRadii'' (C_field ''jointCapacityInput''),
        Cl_ptr ''jointParents'' (C_field ''jointCapacityInput''), Cl ''vertexCapacityInput'',
        Cl ''vertexCountOutput'', Cl_ptr ''vertexPositions'' (C_field ''vertexCapacityInput''),
        Cl_ptr ''vertexNormals'' (C_field ''vertexCapacityInput''),
        Cl_ptr ''vertexUVs'' (C_field ''vertexCapacityInput''),
        Cl_ptr ''vertexBlendIndices'' (C_field ''vertexCapacityInput''),
        Cl_ptr ''vertexBlendWeights'' (C_field ''vertexCapacityInput''),
        Cl ''indexCapacityInput'', Cl ''indexCountOutput'',
        Cl_ptr ''indices'' (C_field ''indexCapacityInput'')]),
      (2, ''XrHandTrackingScaleFB'',
       [Cl ''type'', Cl_xr ''next'', Cl ''sensorOutput'', Cl ''currentOutput'',
        Cl ''overrideHandScale'', Cl ''overrideValueInput'']),
      (1, ''XrVector4sFB'',
       [Cl ''x'', Cl ''y'', Cl ''z'', Cl ''w''])]),
    (''XR_FB_haptic_amplitude_envelope'',
     [(2, ''XrHapticAmplitudeEnvelopeVibrationFB'',
       [Cl ''type'', Cl_xr ''next'', Cl ''duration'', Cl ''amplitudeCount'',
        Cl_ptr ''amplitudes'' (C_field ''amplitudeCount'')])]),
    (''XR_FB_haptic_pcm'',
     [(2, ''XrDevicePcmSampleRateStateFB'',
       [Cl ''type'', Cl_xr ''next'', Cl ''sampleRate'']),
      (2, ''XrHapticPcmVibrationFB'',
       [Cl ''type'', Cl_xr ''next'', Cl ''bufferSize'',
        Cl_ptr ''buffer'' (C_field ''bufferSize''), Cl ''sampleRate'', Cl ''append'',
        Cl_ptr ''samplesConsumed'' C_one])]),
    (''XR_FB_keyboard_tracking'',
     [(2, ''XrKeyboardSpaceCreateInfoFB'',
       [Cl ''type'', Cl_xr ''next'', Cl ''trackedKeyboardId'']),
      (1, ''XrKeyboardTrackingDescriptionFB'',
       [Cl ''trackedKeyboardId'', Cl ''size'', Cl ''flags'',
        Cl_array ''name'' (B_const ''XR_MAX_KEYBOARD_TRACKING_NAME_SIZE_FB'')])])]"

definition ext_cleaners_16 :: "(string \<times> (nat \<times> string \<times> cop list) list) list" where
  "ext_cleaners_16 =
   [(''XR_FB_keyboard_tracking'',
     [(2, ''XrKeyboardTrackingQueryFB'',
       [Cl ''type'', Cl_xr ''next'', Cl ''flags'']),
      (2, ''XrSystemKeyboardTrackingPropertiesFB'',
       [Cl ''type'', Cl_xr ''next'', Cl ''supportsKeyboardTracking''])]),
    (''XR_FB_passthrough'',
     [(2, ''XrCompositionLayerPassthroughFB'',
       [Cl ''type'', Cl_xr ''next'', Cl ''flags'', Cl ''space'', Cl ''layerHandle'']),
      (2, ''XrEventDataPassthroughStateChangedFB'',
       [Cl ''type'', Cl_xr ''next'', Cl ''flags'']),
      (2, ''XrGeometryInstanceCreateInfoFB'',
       [Cl ''type'', Cl_xr ''next'', Cl ''layer'', Cl ''mesh'', Cl ''baseSpace'', Cl ''pose'',
        Cl ''scale'']),
      (2, ''XrGeometryInstanceTransformFB'',
       [Cl ''type'', Cl_xr ''next'', Cl ''baseSpace'', Cl ''time'', Cl ''pose'', Cl ''scale'']),
      (2, ''XrPassthroughBrightnessContrastSaturationFB'',
       [Cl ''type'', Cl_xr ''next'', Cl ''brightness'', Cl ''contrast'', Cl ''saturation'']),
      (2, ''XrPassthroughColorMapMonoToMonoFB'',
       [Cl ''type'', Cl_xr ''next'',
        Cl_array ''textureColorMap'' (B_const ''XR_PASSTHROUGH_COLOR_MAP_MONO_SIZE_FB'')]),
      (2, ''XrPassthroughColorMapMonoToRgbaFB'',
       [Cl ''type'', Cl_xr ''next'',
        Cl_array ''textureColorMap'' (B_const ''XR_PASSTHROUGH_COLOR_MAP_MONO_SIZE_FB'')])])]"

definition ext_cleaners_17 :: "(string \<times> (nat \<times> string \<times> cop list) list) list" where
  "ext_cleaners_17 =
   [(''XR_FB_passthrough'',
     [(2, ''XrPassthroughCreateInfoFB'',
       [Cl ''type'', Cl_xr ''next'', Cl ''flags'']),
      (2, ''XrPassthroughLayerCreateInfoFB'',
       [Cl ''type'', Cl_xr ''next'', Cl ''passthrough'', Cl ''flags'', Cl ''purpose'']),
      (2, ''XrPassthroughStyleFB'',
       [Cl ''type'', Cl_xr ''next'', Cl ''textureOpacityFactor'', Cl ''edgeColor'']),
      (2, ''XrSystemPassthroughProperties2FB'',
       [Cl ''type'', Cl_xr ''next'', Cl ''capabilities'']),
      (2, ''XrSystemPassthroughPropertiesFB'',
       [Cl ''type'', Cl_xr ''next'', Cl ''supportsPassthrough''])]),
    (''XR_FB_passthrough_keyboard_hands'',
     [(2, ''XrPassthroughKeyboardHandsIntensityFB'',
       [Cl ''type'', Cl_xr ''next'', Cl ''leftHandIntensity'', Cl ''rightHandIntensity''])]),
    (''XR_FB_render_model'',
     [(2, ''XrRenderModelBufferFB'',
       [Cl ''type'', Cl_xr ''next'', Cl ''bufferCapacityInput'', Cl ''bufferCountOutput'',
        Cl_ptr ''buffer'' (C_field ''bufferCapacityInput'')]),
      (2, ''XrRenderModelCapabilitiesRequestFB'',
       [Cl ''type'', Cl_xr ''next'', Cl ''flags'']),
      (2, ''XrRenderModelLoadInfoFB'',
       [Cl ''type'', Cl_xr ''next'', Cl ''modelKey''])])]"

definition ext_cleaners_18 :: "(string \<times> (nat \<times> string \<times> cop list) list) list" where
  "ext_cleaners_18 =
   [(''XR_FB_render_model'',
     [(2, ''XrRenderModelPathInfoFB'',
       [Cl ''type'', Cl_xr ''next'', Cl ''path'']),
      (2, ''XrRenderModelPropertiesFB'',
       [Cl ''type'', Cl_xr ''next'', Cl ''vendorId'',
        Cl_array ''modelName'' (B_const ''XR_MAX_RENDER_MODEL_NAME_SIZE_FB''), Cl ''modelKey'',
        Cl ''modelVersion'', Cl ''flags'']),
      (2, ''XrSystemRenderModelPropertiesFB'',
       [Cl ''type'', Cl_xr ''next'', Cl ''supportsRenderModelLoading''])]),
    (''XR_FB_scene'',
     [(2, ''XrBoundary2DFB'',
       [Cl ''type'', Cl_xr ''next'', Cl ''vertexCapacityInput'', Cl ''vertexCountOutput'',
        Cl_ptr ''vertices'' (C_field ''vertexCapacityInput'')]),
      (1, ''XrOffset3DfFB'',
       [Cl ''x'', Cl ''y'', Cl ''z'']),
      (1, ''XrRect3DfFB'',
       [Cl ''offset'', Cl ''extent'']),
      (2, ''XrRoomLayoutFB'',
       [Cl ''type'', Cl_xr ''next'', Cl ''floorUuid'', Cl ''ceilingUuid'',
        Cl ''wallUuidCapacityInput'', Cl ''wallUuidCountOutput'',
        Cl_ptr ''wallUuids'' (C_field ''wallUuidCapacityInput'')]),
      (2, ''XrSemanticLabelsFB'',
       [Cl ''type'', Cl_xr ''next'', Cl ''bufferCapacityInput'', Cl ''bufferCountOutput'',
        Cl_ptr ''buffer'' (C_field ''bufferCapacityInput'')]),
      (2, ''XrSemanticLabelsSupportInfoFB'',
       [Cl ''type'', Cl_xr ''next'', Cl ''flags'', Cl_ptr ''recognizedLabels'' C_null_terminated])])]"

definition ext_cleaners_19 :: "(string \<times> (nat \<times> string \<times> cop list) list) list" where
  "ext_cleaners_19 =
   [(''XR_FB_scene_capture'',
     [(2, ''XrEventDataSceneCaptureCompleteFB'',
       [Cl ''type'', Cl_xr ''next'', Cl ''requestId'', Cl ''result'']),
      (2, ''XrSceneCaptureRequestInfoFB'',
       [Cl ''type'', Cl_xr ''next'', Cl ''requestByteCount'',
        Cl_ptr ''request'' (C_field ''requestByteCount'')])]),
    (''XR_FB_space_warp'',
     [(2, ''XrCompositionLayerSpaceWarpInfoFB'',
       [Cl ''type'', Cl_xr ''next'', Cl ''layerFlags'', Cl ''motionVectorSubImage'',
        Cl ''appSpaceDeltaPose'', Cl ''depthSubImage'', Cl ''minDepth'', Cl ''maxDepth'',
        Cl ''nearZ'', Cl ''farZ'']),
      (2, ''XrSystemSpaceWarpPropertiesFB'',
       [Cl ''type'', Cl_xr ''next'', Cl ''recommendedMotionVectorImageRectWidth'',
        Cl ''recommendedMotionVectorImageRectHeight''])]),
    (''XR_FB_spatial_entity'',
     [(2, ''XrEventDataSpaceSetStatusCompleteFB'',
       [Cl ''type'', Cl_xr ''next'', Cl ''requestId'', Cl ''result'', Cl ''space'',
        Cl ''uuid'', Cl ''componentType'', Cl ''enabled'']),
      (2, ''XrEventDataSpatialAnchorCreateCompleteFB'',
       [Cl ''type'', Cl_xr ''next'', Cl ''requestId'', Cl ''result'', Cl ''space'', Cl ''uuid'']),
      (2, ''XrSpaceComponentStatusFB'',
       [Cl ''type'', Cl_xr ''next'', Cl ''enabled'', Cl ''changePending''])])]"

definition ext_cleaners_20 :: "(string \<times> (nat \<times> string \<times> cop list) list) list" where
  "ext_cleaners_20 =
   [(''XR_FB_spatial_entity'',
     [(2, ''XrSpaceComponentStatusSetInfoFB'',
       [Cl ''type'', Cl_xr ''next'', Cl ''componentType'', Cl ''enabled'', Cl ''timeout'']),
      (2, ''XrSpatialAnchorCreateInfoFB'',
       [Cl ''type'', Cl_xr ''next'', Cl ''space'', Cl ''poseInSpace'', Cl ''time'']),
      (2, ''XrSystemSpatialEntityPropertiesFB'',
       [Cl ''type'', Cl_xr ''next'', Cl ''supportsSpatialEntity''])]),
    (''XR_FB_spatial_entity_container'',
     [(2, ''XrSpaceContainerFB'',
       [Cl ''type'', Cl_xr ''next'', Cl ''uuidCapacityInput'', Cl ''uuidCountOutput'',
        Cl_ptr ''uuids'' (C_field ''uuidCapacityInput'')])]),
    (''XR_FB_spatial_entity_query'',
     [(2, ''XrEventDataSpaceQueryCompleteFB'',
       [Cl ''type'', Cl_xr ''next'', Cl ''requestId'', Cl ''result'']),
      (2, ''XrEventDataSpaceQueryResultsAvailableFB'',
       [Cl ''type'', Cl_xr ''next'', Cl ''requestId'']),
      (2, ''XrSpaceComponentFilterInfoFB'',
       [Cl ''type'', Cl_xr ''next'', Cl ''componentType''])])]"

definition ext_cleaners_21 :: "(string \<times> (nat \<times> string \<times> cop list) list) list" where
  "ext_cleaners_21 =
   [(''XR_FB_spatial_entity_query'',
     [(2, ''XrSpaceQueryInfoFB'',
       [Cl ''type'', Cl_xr ''next'', Cl ''queryAction'', Cl ''maxResultCount'', Cl ''timeout'',
        Cl_xr ''filter'', Cl_xr ''excludeFilter'']),
      (1, ''XrSpaceQueryResultFB'',
       [Cl ''space'', Cl ''uuid'']),
      (2, ''XrSpaceQueryResultsFB'',
       [Cl ''type'', Cl_xr ''next'', Cl ''resultCapacityInput'', Cl ''resultCountOutput'',
        Cl_ptr ''results'' (C_field ''resultCapacityInput'')]),
      (2, ''XrSpaceStorageLocationFilterInfoFB'',
       [Cl ''type'', Cl_xr ''next'', Cl ''location'']),
      (2, ''XrSpaceUuidFilterInfoFB'',
       [Cl ''type'', Cl_xr ''next'', Cl ''uuidCount'', Cl_ptr ''uuids'' (C_field ''uuidCount'')])]),
    (''XR_FB_spatial_entity_sharing'',
     [(2, ''XrEventDataSpaceShareCompleteFB'',
       [Cl ''type'', Cl_xr ''next'', Cl ''requestId'', Cl ''result'']),
      (2, ''XrSpaceShareInfoFB'',
       [Cl ''type'', Cl_xr ''next'', Cl ''spaceCount'',
        Cl_ptr ''spaces'' (C_field ''spaceCount''), Cl ''userCount'',
        Cl_ptr ''users'' (C_field ''userCount'')])]),
    (''XR_FB_spatial_entity_storage'',
     [(2, ''XrEventDataSpaceEraseCompleteFB'',
       [Cl ''type'', Cl_xr ''next'', Cl ''requestId'', Cl ''result'', Cl ''space'',
        Cl ''uuid'', Cl ''location''])])]"

definition ext_cleaners_22 :: "(string \<times> (nat \<times> string \<times> cop list) list) list" where
  "ext_cleaners_22 =
   [(''XR_FB_spatial_entity_storage'',
     [(2, ''XrEventDataSpaceSaveCompleteFB'',
       [Cl ''type'', Cl_xr ''next'', Cl ''requestId'', Cl ''result'', Cl ''space'',
        Cl ''uuid'', Cl ''location'']),
      (2, ''XrSpaceEraseInfoFB'',
       [Cl ''type'', Cl_xr ''next'', Cl ''space'', Cl ''location'']),
      (2, ''XrSpaceSaveInfoFB'',
       [Cl ''type'', Cl_xr ''next'', Cl ''space'', Cl ''location'', Cl ''persistenceMode''])]),
    (''XR_FB_spatial_entity_storage_batch'',
     [(2, ''XrEventDataSpaceListSaveCompleteFB'',
       [Cl ''type'', Cl_xr ''next'', Cl ''requestId'', Cl ''result'']),
      (2, ''XrSpaceListSaveInfoFB'',
       [Cl ''type'', Cl_xr ''next'', Cl ''spaceCount'',
        Cl_ptr ''spaces'' (C_field ''spaceCount''), Cl ''location''])]),
    (''XR_FB_spatial_entity_user'',
     [(2, ''XrSpaceUserCreateInfoFB'',
       [Cl ''type'', Cl_xr ''next'', Cl ''userId''])])]"

definition ext_cleaners_23 :: "(string \<times> (nat \<times> string \<times> cop list) list) list" where
  "ext_cleaners_23 =
   [(''XR_FB_swapchain_update_state_android_surface'',
     [(2, ''XrSwapchainStateAndroidSurfaceDimensionsFB'',
       [Cl ''type'', Cl_xr ''next'', Cl ''width'', Cl ''height''])]),
    (''XR_FB_swapchain_update_state_opengl_es'',
     [(2, ''XrSwapchainStateSamplerOpenGLESFB'',
       [Cl ''type'', Cl_xr ''next'', Cl ''minFilter'', Cl ''magFilter'', Cl ''wrapModeS'',
        Cl ''wrapModeT'', Cl ''swizzleRed'', Cl ''swizzleGreen'', Cl ''swizzleBlue'',
        Cl ''swizzleAlpha'', Cl ''maxAnisotropy'', Cl ''borderColor''])]),
    (''XR_FB_swapchain_update_state_vulkan'',
     [(2, ''XrSwapchainStateSamplerVulkanFB'',
       [Cl ''type'', Cl_xr ''next'', Cl ''minFilter'', Cl ''magFilter'', Cl ''mipmapMode'',
        Cl ''wrapModeS'', Cl ''wrapModeT'', Cl ''swizzleRed'', Cl ''swizzleGreen'',
        Cl ''swizzleBlue'', Cl ''swizzleAlpha'', Cl ''maxAnisotropy'', Cl ''borderColor''])]),
    (''XR_FB_triangle_mesh'',
     [(2, ''XrTriangleMeshCreateInfoFB'',
       [Cl ''type'', Cl_xr ''next'', Cl ''flags'', Cl ''windingOrder'', Cl ''vertexCount'',
        Cl_ptr ''vertexBuffer'' C_one, Cl ''triangleCount'', Cl_ptr ''indexBuffer'' C_one])]),
    (''XR_HTCX_vive_tracker_interaction'',
     [(2, ''XrEventDataViveTrackerConnectedHTCX'',
       [Cl ''type'', Cl_xr ''next'', Cl_ptr ''paths'' C_one]),
      (2, ''XrViveTrackerPathsHTCX'',
       [Cl ''type'', Cl_xr ''next'', Cl ''persistentPath'', Cl ''rolePath''])])]"

definition ext_cleaners_24 :: "(string \<times> (nat \<times> string \<times> cop list) list) list" where
  "ext_cleaners_24 =
   [(''XR_HTC_anchor'',
     [(2, ''XrSpatialAnchorCreateInfoHTC'',
       [Cl ''type'', Cl_xr ''next'', Cl ''space'', Cl ''poseInSpace'', Cl ''name'']),
      (1, ''XrSpatialAnchorNameHTC'',
       [Cl_array ''name'' (B_const ''XR_MAX_SPATIAL_ANCHOR_NAME_SIZE_HTC'')]),
      (2, ''XrSystemAnchorPropertiesHTC'',
       [Cl ''type'', Cl_xr ''next'', Cl ''supportsAnchor''])]),
    (''XR_HTC_body_tracking'',
     [(1, ''XrBodyJointLocationHTC'',
       [Cl ''locationFlags'', Cl ''pose'']),
      (2, ''XrBodyJointLocationsHTC'',
       [Cl ''type'', Cl_xr ''next'', Cl ''combinedLocationFlags'', Cl ''confidenceLevel'',
        Cl ''jointLocationCount'', Cl_ptr ''jointLocations'' (C_field ''jointLocationCount''),
        Cl ''skeletonGenerationId'']),
      (2, ''XrBodyJointsLocateInfoHTC'',
       [Cl ''type'', Cl_xr ''next'', Cl ''baseSpace'', Cl ''time'']),
      (2, ''XrBodySkeletonHTC'',
       [Cl ''type'', Cl_xr ''next'', Cl ''jointCount'',
        Cl_ptr ''joints'' (C_field ''jointCount'')]),
      (2, ''XrBodyTrackerCreateInfoHTC'',
       [Cl ''type'', Cl_xr ''next'', Cl ''bodyJointSet'']),
      (2, ''XrSystemBodyTrackingPropertiesHTC'',
       [Cl ''type'', Cl_xr ''next'', Cl ''supportsBodyTracking''])]),
    (''XR_HTC_facial_tracking'',
     [(2, ''XrFacialExpressionsHTC'',
       [Cl ''type'', Cl_xr ''next'', Cl ''isActive'', Cl ''sampleTime'',
        Cl ''expressionCount'', Cl_ptr ''expressionWeightings'' C_one])])]"

definition ext_cleaners_25 :: "(string \<times> (nat \<times> string \<times> cop list) list) list" where
  "ext_cleaners_25 =
   [(''XR_HTC_facial_tracking'',
     [(2, ''XrFacialTrackerCreateInfoHTC'',
       [Cl ''type'', Cl_xr ''next'', Cl ''facialTrackingType'']),
      (2, ''XrSystemFacialTrackingPropertiesHTC'',
       [Cl ''type'', Cl_xr ''next'', Cl ''supportEyeFacialTracking'',
        Cl ''supportLipFacialTracking''])]),
    (''XR_HTC_foveation'',
     [(2, ''XrFoveationApplyInfoHTC'',
       [Cl ''type'', Cl_xr ''next'', Cl ''mode'', Cl ''subImageCount'',
        Cl_ptr ''subImages'' (C_field ''subImageCount'')]),
      (1, ''XrFoveationConfigurationHTC'',
       [Cl ''level'', Cl ''clearFovDegree'', Cl ''focalCenterOffset'']),
      (2, ''XrFoveationCustomModeInfoHTC'',
       [Cl ''type'', Cl_xr ''next'', Cl ''configCount'',
        Cl_ptr ''configs'' (C_field ''configCount'')]),
      (2, ''XrFoveationDynamicModeInfoHTC'',
       [Cl ''type'', Cl_xr ''next'', Cl ''dynamicFlags''])]),
    (''XR_HTC_passthrough'',
     [(2, ''XrCompositionLayerPassthroughHTC'',
       [Cl ''type'', Cl_xr ''next'', Cl ''layerFlags'', Cl ''space'', Cl ''passthrough'',
        Cl ''color'']),
      (2, ''XrPassthroughColorHTC'',
       [Cl ''type'', Cl_xr ''next'', Cl ''alpha'']),
      (2, ''XrPassthroughCreateInfoHTC'',
       [Cl ''type'', Cl_xr ''next'', Cl ''form''])])]"

definition ext_cleaners_26 :: "(string \<times> (nat \<times> string \<times> cop list) list) list" where
  "ext_cleaners_26 =
   [(''XR_HTC_passthrough'',
     [(2, ''XrPassthroughMeshTransformInfoHTC'',
       [Cl ''type'', Cl_xr ''next'', Cl ''vertexCount'',
        Cl_ptr ''vertices'' (C_field ''vertexCount''), Cl ''indexCount'',
        Cl_ptr ''indices'' (C_field ''indexCount''), Cl ''baseSpace'', Cl ''time'',
        Cl ''pose'', Cl ''scale''])]),
    (''XR_KHR_D3D11_enable'',
     [(2, ''XrGraphicsBindingD3D11KHR'',
       [Cl ''type'', Cl_xr ''next'', Cl_ptr ''device'' C_one]),
      (2, ''XrGraphicsRequirementsD3D11KHR'',
       [Cl ''type'', Cl_xr ''next'', Cl ''adapterLuid'', Cl ''minFeatureLevel'']),
      (2, ''XrSwapchainImageD3D11KHR'',
       [Cl ''type'', Cl_xr ''next'', Cl_ptr ''texture'' C_one])]),
    (''XR_KHR_D3D12_enable'',
     [(2, ''XrGraphicsBindingD3D12KHR'',
       [Cl ''type'', Cl_xr ''next'', Cl_ptr ''device'' C_one, Cl_ptr ''queue'' C_one]),
      (2, ''XrGraphicsRequirementsD3D12KHR'',
       [Cl ''type'', Cl_xr ''next'', Cl ''adapterLuid'', Cl ''minFeatureLevel'']),
      (2, ''XrSwapchainImageD3D12KHR'',
       [Cl ''type'', Cl_xr ''next'', Cl_ptr ''texture'' C_one])]),
    (''XR_KHR_android_create_instance'',
     [(2, ''XrInstanceCreateInfoAndroidKHR'',
       [Cl ''type'', Cl_xr ''next'', Cl_ptr ''applicationVM'' C_one,
        Cl_ptr ''applicationActivity'' C_one])])]"

definition ext_cleaners_27 :: "(string \<times> (nat \<times> string \<times> cop list) list) list" where
  "ext_cleaners_27 =
   [(''XR_KHR_composition_layer_color_scale_bias'',
     [(2, ''XrCompositionLayerColorScaleBiasKHR'',
       [Cl ''type'', Cl_xr ''next'', Cl ''colorScale'', Cl ''colorBias''])]),
    (''XR_KHR_composition_layer_cube'',
     [(2, ''XrCompositionLayerCubeKHR'',
       [Cl ''type'', Cl_xr ''next'', Cl ''layerFlags'', Cl ''space'', Cl ''eyeVisibility'',
        Cl ''swapchain'', Cl ''imageArrayIndex'', Cl ''orientation''])]),
    (''XR_KHR_composition_layer_cylinder'',
     [(2, ''XrCompositionLayerCylinderKHR'',
       [Cl ''type'', Cl_xr ''next'', Cl ''layerFlags'', Cl ''space'', Cl ''eyeVisibility'',
        Cl ''subImage'', Cl ''pose'', Cl ''radius'', Cl ''centralAngle'', Cl ''aspectRatio''])]),
    (''XR_KHR_composition_layer_depth'',
     [(2, ''XrCompositionLayerDepthInfoKHR'',
       [Cl ''type'', Cl_xr ''next'', Cl ''subImage'', Cl ''minDepth'', Cl ''maxDepth'',
        Cl ''nearZ'', Cl ''farZ''])]),
    (''XR_KHR_composition_layer_equirect'',
     [(2, ''XrCompositionLayerEquirectKHR'',
       [Cl ''type'', Cl_xr ''next'', Cl ''layerFlags'', Cl ''space'', Cl ''eyeVisibility'',
        Cl ''subImage'', Cl ''pose'', Cl ''radius'', Cl ''scale'', Cl ''bias''])])]"

definition ext_cleaners_28 :: "(string \<times> (nat \<times> string \<times> cop list) list) list" where
  "ext_cleaners_28 =
   [(''XR_KHR_composition_layer_equirect2'',
     [(2, ''XrCompositionLayerEquirect2KHR'',
       [Cl ''type'', Cl_xr ''next'', Cl ''layerFlags'', Cl ''space'', Cl ''eyeVisibility'',
        Cl ''subImage'', Cl ''pose'', Cl ''radius'', Cl ''centralHorizontalAngle'',
        Cl ''upperVerticalAngle'', Cl ''lowerVerticalAngle''])])]"

definition ext_cleaners_29 :: "(string \<times> (nat \<times> string \<times> cop list) list) list" where
  "ext_cleaners_29 =
   [(''XR_KHR_loader_init_android'',
     [(2, ''XrLoaderInitInfoAndroidKHR'',
       [Cl ''type'', Cl_xr ''next'', Cl_ptr ''applicationVM'' C_one,
        Cl_ptr ''applicationContext'' C_one])]),
    (''XR_KHR_metal_enable'',
     [(2, ''XrGraphicsBindingMetalKHR'',
       [Cl ''type'', Cl_xr ''next'', Cl_ptr ''commandQueue'' C_one]),
      (2, ''XrGraphicsRequirementsMetalKHR'',
       [Cl ''type'', Cl_xr ''next'', Cl_ptr ''metalDevice'' C_one]),
      (2, ''XrSwapchainImageMetalKHR'',
       [Cl ''type'', Cl_xr ''next'', Cl_ptr ''texture'' C_one])]),
    (''XR_KHR_opengl_enable'',
     [(2, ''XrGraphicsBindingOpenGLWaylandKHR'',
       [Cl ''type'', Cl_xr ''next'', Cl_ptr ''display'' C_one]),
      (2, ''XrGraphicsBindingOpenGLWin32KHR'',
       [Cl ''type'', Cl_xr ''next'', Cl ''hDC'', Cl ''hGLRC'']),
      (2, ''XrGraphicsBindingOpenGLXcbKHR'',
       [Cl ''type'', Cl_xr ''next'', Cl_ptr ''connection'' C_one, Cl ''screenNumber'',
        Cl ''fbconfigid'', Cl ''visualid'', Cl ''glxDrawable'', Cl ''glxContext'']),
      (2, ''XrGraphicsBindingOpenGLXlibKHR'',
       [Cl ''type'', Cl_xr ''next'', Cl_ptr ''xDisplay'' C_one, Cl ''visualid'',
        Cl ''glxFBConfig'', Cl ''glxDrawable'', Cl ''glxContext''])])]"

definition ext_cleaners_30 :: "(string \<times> (nat \<times> string \<times> cop list) list) list" where
  "ext_cleaners_30 =
   [(''XR_KHR_opengl_enable'',
     [(2, ''XrGraphicsRequirementsOpenGLKHR'',
       [Cl ''type'', Cl_xr ''next'', Cl ''minApiVersionSupported'',
        Cl ''maxApiVersionSupported'']),
      (2, ''XrSwapchainImageOpenGLKHR'',
       [Cl ''type'', Cl_xr ''next'', Cl ''image''])]),
    (''XR_KHR_opengl_es_enable'',
     [(2, ''XrGraphicsBindingOpenGLESAndroidKHR'',
       [Cl ''type'', Cl_xr ''next'', Cl ''display'', Cl ''config'', Cl ''context'']),
      (2, ''XrGraphicsRequirementsOpenGLESKHR'',
       [Cl ''type'', Cl_xr ''next'', Cl ''minApiVersionSupported'',
        Cl ''maxApiVersionSupported'']),
      (2, ''XrSwapchainImageOpenGLESKHR'',
       [Cl ''type'', Cl_xr ''next'', Cl ''image''])]),
    (''XR_KHR_visibility_mask'',
     [(2, ''XrEventDataVisibilityMaskChangedKHR'',
       [Cl ''type'', Cl_xr ''next'', Cl ''session'', Cl ''viewConfigurationType'',
        Cl ''viewIndex'']),
      (2, ''XrVisibilityMaskKHR'',
       [Cl ''type'', Cl_xr ''next'', Cl ''vertexCapacityInput'', Cl ''vertexCountOutput'',
        Cl_ptr ''vertices'' (C_field ''vertexCapacityInput''), Cl ''indexCapacityInput'',
        Cl ''indexCountOutput'', Cl_ptr ''indices'' (C_field ''indexCapacityInput'')])]),
    (''XR_KHR_vulkan_enable'',
     [(2, ''XrGraphicsBindingVulkanKHR'',
       [Cl ''type'', Cl_xr ''next'', Cl ''instance'', Cl ''physicalDevice'', Cl ''device'',
        Cl ''queueFamilyIndex'', Cl ''queueIndex''])])]"

definition ext_cleaners_31 :: "(string \<times> (nat \<times> string \<times> cop list) list) list" where
  "ext_cleaners_31 =
   [(''XR_KHR_vulkan_enable'',
     [(2, ''XrGraphicsRequirementsVulkanKHR'',
       [Cl ''type'', Cl_xr ''next'', Cl ''minApiVersionSupported'',
        Cl ''maxApiVersionSupported'']),
      (2, ''XrSwapchainImageVulkanKHR'',
       [Cl ''type'', Cl_xr ''next'', Cl ''image''])]),
    (''XR_KHR_vulkan_enable2'',
     [(2, ''XrVulkanDeviceCreateInfoKHR'',
       [Cl ''type'', Cl_xr ''next'', Cl ''systemId'', Cl ''createFlags'',
        Cl ''pfnGetInstanceProcAddr'', Cl ''vulkanPhysicalDevice'',
        Cl_ptr ''vulkanCreateInfo'' C_one, Cl_ptr ''vulkanAllocator'' C_one]),
      (2, ''XrVulkanGraphicsDeviceGetInfoKHR'',
       [Cl ''type'', Cl_xr ''next'', Cl ''systemId'', Cl ''vulkanInstance'']),
      (2, ''XrVulkanInstanceCreateInfoKHR'',
       [Cl ''type'', Cl_xr ''next'', Cl ''systemId'', Cl ''createFlags'',
        Cl ''pfnGetInstanceProcAddr'', Cl_ptr ''vulkanCreateInfo'' C_one,
        Cl_ptr ''vulkanAllocator'' C_one])]),
    (''XR_KHR_vulkan_swapchain_format_list'',
     [(2, ''XrVulkanSwapchainFormatListCreateInfoKHR'',
       [Cl ''type'', Cl_xr ''next'', Cl ''viewFormatCount'',
        Cl_ptr ''viewFormats'' (C_field ''viewFormatCount'')])]),
    (''XR_META_body_tracking_full_body'',
     [(2, ''XrSystemPropertiesBodyTrackingFullBodyMETA'',
       [Cl ''type'', Cl_xr ''next'', Cl ''supportsFullBodyTracking''])]),
    (''XR_META_colocation_discovery'',
     [(2, ''XrColocationAdvertisementStartInfoMETA'',
       [Cl ''type'', Cl_xr ''next'', Cl ''bufferSize'',
        Cl_ptr ''buffer'' (C_field ''bufferSize'')])])]"

definition ext_cleaners_32 :: "(string \<times> (nat \<times> string \<times> cop list) list) list" where
  "ext_cleaners_32 =
   [(''XR_META_colocation_discovery'',
     [(2, ''XrColocationAdvertisementStopInfoMETA'',
       [Cl ''type'', Cl_xr ''next'']),
      (2, ''XrColocationDiscoveryStartInfoMETA'',
       [Cl ''type'', Cl_xr ''next'']),
      (2, ''XrColocationDiscoveryStopInfoMETA'',
       [Cl ''type'', Cl_xr ''next'']),
      (2, ''XrEventDataColocationAdvertisementCompleteMETA'',
       [Cl ''type'', Cl_xr ''next'', Cl ''advertisementRequestId'', Cl ''result'']),
      (2, ''XrEventDataColocationDiscoveryCompleteMETA'',
       [Cl ''type'', Cl_xr ''next'', Cl ''discoveryRequestId'', Cl ''result'']),
      (2, ''XrEventDataColocationDiscoveryResultMETA'',
       [Cl ''type'', Cl_xr ''next'', Cl ''discoveryRequestId'', Cl ''advertisementUuid'',
        Cl ''bufferSize'',
        Cl_array ''buffer'' (B_const ''XR_MAX_COLOCATION_DISCOVERY_BUFFER_SIZE_META'')]),
      (2, ''XrEventDataStartColocationAdvertisementCompleteMETA'',
       [Cl ''type'', Cl_xr ''next'', Cl ''advertisementRequestId'', Cl ''result'',
        Cl ''advertisementUuid'']),
      (2, ''XrEventDataStartColocationDiscoveryCompleteMETA'',
       [Cl ''type'', Cl_xr ''next'', Cl ''discoveryRequestId'', Cl ''result'']),
      (2, ''XrEventDataStopColocationAdvertisementCompleteMETA'',
       [Cl ''type'', Cl_xr ''next'', Cl ''requestId'', Cl ''result''])])]"

definition ext_cleaners_33 :: "(string \<times> (nat \<times> string \<times> cop list) list) list" where
  "ext_cleaners_33 =
   [(''XR_META_colocation_discovery'',
     [(2, ''XrEventDataStopColocationDiscoveryCompleteMETA'',
       [Cl ''type'', Cl_xr ''next'', Cl ''requestId'', Cl ''result'']),
      (2, ''XrSystemColocationDiscoveryPropertiesMETA'',
       [Cl ''type'', Cl_xr ''next'', Cl ''supportsColocationDiscovery''])]),
    (''XR_META_environment_depth'',
     [(2, ''XrEnvironmentDepthHandRemovalSetInfoMETA'',
       [Cl ''type'', Cl_xr ''next'', Cl ''enabled'']),
      (2, ''XrEnvironmentDepthImageAcquireInfoMETA'',
       [Cl ''type'', Cl_xr ''next'', Cl ''space'', Cl ''displayTime'']),
      (2, ''XrEnvironmentDepthImageMETA'',
       [Cl ''type'', Cl_xr ''next'', Cl ''swapchainIndex'', Cl ''nearZ'', Cl ''farZ'',
        Cl_array ''views'' (B_lit 2)]),
      (2, ''XrEnvironmentDepthImageViewMETA'',
       [Cl ''type'', Cl_xr ''next'', Cl ''fov'', Cl ''pose'']),
      (2, ''XrEnvironmentDepthProviderCreateInfoMETA'',
       [Cl ''type'', Cl_xr ''next'', Cl ''createFlags'']),
      (2, ''XrEnvironmentDepthSwapchainCreateInfoMETA'',
       [Cl ''type'', Cl_xr ''next'', Cl ''createFlags'']),
      (2, ''XrEnvironmentDepthSwapchainStateMETA'',
       [Cl ''type'', Cl_xr ''next'', Cl ''width'', Cl ''height''])])]"

definition ext_cleaners_34 :: "(string \<times> (nat \<times> string \<times> cop list) list) list" where
  "ext_cleaners_34 =
   [(''XR_META_environment_depth'',
     [(2, ''XrSystemEnvironmentDepthPropertiesMETA'',
       [Cl ''type'', Cl_xr ''next'', Cl ''supportsEnvironmentDepth'', Cl ''supportsHandRemoval''])]),
    (''XR_META_foveation_eye_tracked'',
     [(2, ''XrFoveationEyeTrackedProfileCreateInfoMETA'',
       [Cl ''type'', Cl_xr ''next'', Cl ''flags'']),
      (2, ''XrFoveationEyeTrackedStateMETA'',
       [Cl ''type'', Cl_xr ''next'',
        Cl_array ''foveationCenter'' (B_const ''XR_FOVEATION_CENTER_SIZE_META''), Cl ''flags'']),
      (2, ''XrSystemFoveationEyeTrackedPropertiesMETA'',
       [Cl ''type'', Cl_xr ''next'', Cl ''supportsFoveationEyeTracked''])]),
    (''XR_META_headset_id'',
     [(2, ''XrSystemHeadsetIdPropertiesMETA'',
       [Cl ''type'', Cl_xr ''next'', Cl ''id''])]),
    (''XR_META_local_dimming'',
     [(2, ''XrLocalDimmingFrameEndInfoMETA'',
       [Cl ''type'', Cl_xr ''next'', Cl ''localDimmingMode''])]),
    (''XR_META_passthrough_color_lut'',
     [(2, ''XrPassthroughColorLutCreateInfoMETA'',
       [Cl ''type'', Cl_xr ''next'', Cl ''channels'', Cl ''resolution'', Cl ''data'']),
      (1, ''XrPassthroughColorLutDataMETA'',
       [Cl ''bufferSize'', Cl_ptr ''buffer'' (C_field ''bufferSize'')]),
      (2, ''XrPassthroughColorLutUpdateInfoMETA'',
       [Cl ''type'', Cl_xr ''next'', Cl ''data'']),
      (2, ''XrPassthroughColorMapInterpolatedLutMETA'',
       [Cl ''type'', Cl_xr ''next'', Cl ''sourceColorLut'', Cl ''targetColorLut'', Cl ''weight''])])]"

definition ext_cleaners_35 :: "(string \<times> (nat \<times> string \<times> cop list) list) list" where
  "ext_cleaners_35 =
   [(''XR_META_passthrough_color_lut'',
     [(2, ''XrPassthroughColorMapLutMETA'',
       [Cl ''type'', Cl_xr ''next'', Cl ''colorLut'', Cl ''weight'']),
      (2, ''XrSystemPassthroughColorLutPropertiesMETA'',
       [Cl ''type'', Cl_xr ''next'', Cl ''maxColorLutResolution''])]),
    (''XR_META_passthrough_layer_resumed_event'',
     [(2, ''XrEventDataPassthroughLayerResumedMETA'',
       [Cl ''type'', Cl_xr ''next'', Cl ''layer''])]),
    (''XR_META_passthrough_preferences'',
     [(2, ''XrPassthroughPreferencesMETA'',
       [Cl ''type'', Cl_xr ''next'', Cl ''flags''])]),
    (''XR_META_performance_metrics'',
     [(2, ''XrPerformanceMetricsCounterMETA'',
       [Cl ''type'', Cl_xr ''next'', Cl ''counterFlags'', Cl ''counterUnit'', Cl ''uintValue'',
        Cl ''floatValue'']),
      (2, ''XrPerformanceMetricsStateMETA'',
       [Cl ''type'', Cl_xr ''next'', Cl ''enabled''])]),
    (''XR_META_recommended_layer_resolution'',
     [(2, ''XrRecommendedLayerResolutionGetInfoMETA'',
       [Cl ''type'', Cl_xr ''next'', Cl_xr ''layer'', Cl ''predictedDisplayTime'']),
      (2, ''XrRecommendedLayerResolutionMETA'',
       [Cl ''type'', Cl_xr ''next'', Cl ''recommendedImageDimensions'', Cl ''isValid''])]),
    (''XR_META_simultaneous_hands_and_controllers'',
     [(2, ''XrSimultaneousHandsAndControllersTrackingPauseInfoMETA'',
       [Cl ''type'', Cl_xr ''next''])])]"

definition ext_cleaners_36 :: "(string \<times> (nat \<times> string \<times> cop list) list) list" where
  "ext_cleaners_36 =
   [(''XR_META_simultaneous_hands_and_controllers'',
     [(2, ''XrSimultaneousHandsAndControllersTrackingResumeInfoMETA'',
       [Cl ''type'', Cl_xr ''next'']),
      (2, ''XrSystemSimultaneousHandsAndControllersPropertiesMETA'',
       [Cl ''type'', Cl_xr ''next'', Cl ''supportsSimultaneousHandsAndControllers''])]),
    (''XR_META_spatial_entity_group_sharing'',
     [(2, ''XrShareSpacesRecipientGroupsMETA'',
       [Cl ''type'', Cl_xr ''next'', Cl ''groupCount'',
        Cl_ptr ''groups'' (C_field ''groupCount'')]),
      (2, ''XrSpaceGroupUuidFilterInfoMETA'',
       [Cl ''type'', Cl_xr ''next'', Cl ''groupUuid'']),
      (2, ''XrSystemSpatialEntityGroupSharingPropertiesMETA'',
       [Cl ''type'', Cl_xr ''next'', Cl ''supportsSpatialEntityGroupSharing''])]),
    (''XR_META_spatial_entity_mesh'',
     [(2, ''XrSpaceTriangleMeshGetInfoMETA'',
       [Cl ''type'', Cl_xr ''next'']),
      (2, ''XrSpaceTriangleMeshMETA'',
       [Cl ''type'', Cl_xr ''next'', Cl ''vertexCapacityInput'', Cl ''vertexCountOutput'',
        Cl_ptr ''vertices'' (C_field ''vertexCapacityInput''), Cl ''indexCapacityInput'',
        Cl ''indexCountOutput'', Cl_ptr ''indices'' (C_field ''indexCapacityInput'')])]),
    (''XR_META_spatial_entity_sharing'',
     [(2, ''XrEventDataShareSpacesCompleteMETA'',
       [Cl ''type'', Cl_xr ''next'', Cl ''requestId'', Cl ''result'']),
      (2, ''XrShareSpacesInfoMETA'',
       [Cl ''type'', Cl_xr ''next'', Cl ''spaceCount'',
        Cl_ptr ''spaces'' (C_field ''spaceCount''), Cl_xr ''recipientInfo''])])]"

definition ext_cleaners_37 :: "(string \<times> (nat \<times> string \<times> cop list) list) list" where
  "ext_cleaners_37 =
   [(''XR_META_spatial_entity_sharing'',
     [(2, ''XrSystemSpatialEntitySharingPropertiesMETA'',
       [Cl ''type'', Cl_xr ''next'', Cl ''supportsSpatialEntitySharing''])]),
    (''XR_META_virtual_keyboard'',
     [(2, ''XrEventDataVirtualKeyboardBackspaceMETA'',
       [Cl ''type'', Cl_xr ''next'', Cl ''keyboard'']),
      (2, ''XrEventDataVirtualKeyboardCommitTextMETA'',
       [Cl ''type'', Cl_xr ''next'', Cl ''keyboard'',
        Cl_array ''text'' (B_const ''XR_MAX_VIRTUAL_KEYBOARD_COMMIT_TEXT_SIZE_META'')]),
      (2, ''XrEventDataVirtualKeyboardEnterMETA'',
       [Cl ''type'', Cl_xr ''next'', Cl ''keyboard'']),
      (2, ''XrEventDataVirtualKeyboardHiddenMETA'',
       [Cl ''type'', Cl_xr ''next'', Cl ''keyboard'']),
      (2, ''XrEventDataVirtualKeyboardShownMETA'',
       [Cl ''type'', Cl_xr ''next'', Cl ''keyboard'']),
      (2, ''XrSystemVirtualKeyboardPropertiesMETA'',
       [Cl ''type'', Cl_xr ''next'', Cl ''supportsVirtualKeyboard'']),
      (2, ''XrVirtualKeyboardAnimationStateMETA'',
       [Cl ''type'', Cl_xr ''next'', Cl ''animationIndex'', Cl ''fraction'']),
      (2, ''XrVirtualKeyboardCreateInfoMETA'',
       [Cl ''type'', Cl_xr ''next'']),
      (2, ''XrVirtualKeyboardInputInfoMETA'',
       [Cl ''type'', Cl_xr ''next'', Cl ''inputSource'', Cl ''inputSpace'',
        Cl ''inputPoseInSpace'', Cl ''inputState''])])]"

definition ext_cleaners_38 :: "(string \<times> (nat \<times> string \<times> cop list) list) list" where
  "ext_cleaners_38 =
   [(''XR_META_virtual_keyboard'',
     [(2, ''XrVirtualKeyboardLocationInfoMETA'',
       [Cl ''type'', Cl_xr ''next'', Cl ''locationType'', Cl ''space'', Cl ''poseInSpace'',
        Cl ''scale'']),
      (2, ''XrVirtualKeyboardModelAnimationStatesMETA'',
       [Cl ''type'', Cl_xr ''next'', Cl ''stateCapacityInput'', Cl ''stateCountOutput'',
        Cl_ptr ''states'' (C_field ''stateCapacityInput'')]),
      (2, ''XrVirtualKeyboardModelVisibilitySetInfoMETA'',
       [Cl ''type'', Cl_xr ''next'', Cl ''visible'']),
      (2, ''XrVirtualKeyboardSpaceCreateInfoMETA'',
       [Cl ''type'', Cl_xr ''next'', Cl ''locationType'', Cl ''space'', Cl ''poseInSpace'']),
      (2, ''XrVirtualKeyboardTextContextChangeInfoMETA'',
       [Cl ''type'', Cl_xr ''next'', Cl_ptr ''textContext'' C_null_terminated]),
      (2, ''XrVirtualKeyboardTextureDataMETA'',
       [Cl ''type'', Cl_xr ''next'', Cl ''textureWidth'', Cl ''textureHeight'',
        Cl ''bufferCapacityInput'', Cl ''bufferCountOutput'',
        Cl_ptr ''buffer'' (C_field ''bufferCapacityInput'')])]),
    (''XR_META_vulkan_swapchain_create_info'',
     [(2, ''XrVulkanSwapchainCreateInfoMETA'',
       [Cl ''type'', Cl_xr ''next'', Cl ''additionalCreateFlags'', Cl ''additionalUsageFlags''])]),
    (''XR_ML_compat'',
     [(1, ''XrCoordinateSpaceCreateInfoML'',
       [Cl ''type'', Cl_xr ''next'', Cl ''cfuid'', Cl ''poseInCoordinateSpace''])]),
    (''XR_ML_facial_expression'',
     [(2, ''XrFacialExpressionBlendShapeGetInfoML'',
       [Cl ''type'', Cl_xr ''next''])])]"

definition ext_cleaners_39 :: "(string \<times> (nat \<times> string \<times> cop list) list) list" where
  "ext_cleaners_39 =
   [(''XR_ML_facial_expression'',
     [(2, ''XrFacialExpressionBlendShapePropertiesML'',
       [Cl ''type'', Cl_xr ''next'', Cl ''requestedFacialBlendShape'', Cl ''weight'',
        Cl ''flags'', Cl ''time'']),
      (2, ''XrFacialExpressionClientCreateInfoML'',
       [Cl ''type'', Cl_xr ''next'', Cl ''requestedCount'',
        Cl_ptr ''requestedFacialBlendShapes'' (C_field ''requestedCount'')]),
      (2, ''XrSystemFacialExpressionPropertiesML'',
       [Cl ''type'', Cl_xr ''next'', Cl ''supportsFacialExpression''])]),
    (''XR_ML_frame_end_info'',
     [(2, ''XrFrameEndInfoML'',
       [Cl ''type'', Cl_xr ''next'', Cl ''focusDistance'', Cl ''flags''])]),
    (''XR_ML_global_dimmer'',
     [(2, ''XrGlobalDimmerFrameEndInfoML'',
       [Cl ''type'', Cl_xr ''next'', Cl ''dimmerValue'', Cl ''flags''])]),
    (''XR_ML_localization_map'',
     [(2, ''XrEventDataLocalizationChangedML'',
       [Cl ''type'', Cl_xr ''next'', Cl ''session'', Cl ''state'', Cl ''map'',
        Cl ''confidence'', Cl ''errorFlags'']),
      (2, ''XrLocalizationEnableEventsInfoML'',
       [Cl ''type'', Cl_xr ''next'', Cl ''enabled'']),
      (2, ''XrLocalizationMapImportInfoML'',
       [Cl ''type'', Cl_xr ''next'', Cl ''size'', Cl_ptr ''data'' (C_field ''size'')])])]"

definition ext_cleaners_40 :: "(string \<times> (nat \<times> string \<times> cop list) list) list" where
  "ext_cleaners_40 =
   [(''XR_ML_localization_map'',
     [(2, ''XrLocalizationMapML'',
       [Cl ''type'', Cl_xr ''next'',
        Cl_array ''name'' (B_const ''XR_MAX_LOCALIZATION_MAP_NAME_LENGTH_ML''), Cl ''mapUuid'',
        Cl ''mapType''])])]"

definition ext_cleaners_41 :: "(string \<times> (nat \<times> string \<times> cop list) list) list" where
  "ext_cleaners_41 =
   [(''XR_ML_localization_map'',
     [(2, ''XrMapLocalizationRequestInfoML'',
       [Cl ''type'', Cl_xr ''next'', Cl ''mapUuid''])]),
    (''XR_ML_marker_understanding'',
     [(2, ''XrMarkerDetectorAprilTagInfoML'',
       [Cl ''type'', Cl_xr ''next'', Cl ''aprilTagDict'']),
      (2, ''XrMarkerDetectorArucoInfoML'',
       [Cl ''type'', Cl_xr ''next'', Cl ''arucoDict'']),
      (2, ''XrMarkerDetectorCreateInfoML'',
       [Cl ''type'', Cl_xr ''next'', Cl ''profile'', Cl ''markerType'']),
      (2, ''XrMarkerDetectorCustomProfileInfoML'',
       [Cl ''type'', Cl_xr ''next'', Cl ''fpsHint'', Cl ''resolutionHint'', Cl ''cameraHint'',
        Cl ''cornerRefineMethod'', Cl ''useEdgeRefinement'', Cl ''fullAnalysisIntervalHint'']),
      (2, ''XrMarkerDetectorSizeInfoML'',
       [Cl ''type'', Cl_xr ''next'', Cl ''markerLength'']),
      (2, ''XrMarkerDetectorSnapshotInfoML'',
       [Cl ''type'', Cl_xr ''next'']),
      (2, ''XrMarkerDetectorStateML'',
       [Cl ''type'', Cl_xr ''next'', Cl ''state'']),
      (2, ''XrMarkerSpaceCreateInfoML'',
       [Cl ''type'', Cl_xr ''next'', Cl ''markerDetector'', Cl ''marker'',
        Cl ''poseInMarkerSpace''])])]"

definition ext_cleaners_42 :: "(string \<times> (nat \<times> string \<times> cop list) list) list" where
  "ext_cleaners_42 =
   [(''XR_ML_marker_understanding'',
     [(2, ''XrSystemMarkerUnderstandingPropertiesML'',
       [Cl ''type'', Cl_xr ''next'', Cl ''supportsMarkerUnderstanding''])]),
    (''XR_ML_spatial_anchors'',
     [(2, ''XrCreateSpatialAnchorsCompletionML'',
       [Cl ''type'', Cl_xr ''next'', Cl ''futureResult'', Cl ''spaceCount'',
        Cl_ptr ''spaces'' (C_field ''spaceCount'')]),
      (2, ''XrSpatialAnchorStateML'',
       [Cl ''type'', Cl_xr ''next'', Cl ''confidence''])])]"

definition ext_cleaners_43 :: "(string \<times> (nat \<times> string \<times> cop list) list) list" where
  "ext_cleaners_43 =
   [(''XR_ML_spatial_anchors'',
     [(2, ''XrSpatialAnchorsCreateInfoFromPoseML'',
       [Cl ''type'', Cl_xr ''next'', Cl ''baseSpace'', Cl ''poseInBaseSpace'', Cl ''time''])]),
    (''XR_ML_spatial_anchors_storage'',
     [(1, ''XrSpatialAnchorCompletionResultML'',
       [Cl ''uuid'', Cl ''result'']),
      (2, ''XrSpatialAnchorsCreateInfoFromUuidsML'',
       [Cl ''type'', Cl_xr ''next'', Cl ''storage'', Cl ''uuidCount'',
        Cl_ptr ''uuids'' (C_field ''uuidCount'')]),
      (2, ''XrSpatialAnchorsCreateStorageInfoML'',
       [Cl ''type'', Cl_xr ''next'']),
      (2, ''XrSpatialAnchorsDeleteCompletionDetailsML'',
       [Cl ''type'', Cl_xr ''next'', Cl ''resultCount'',
        Cl_ptr ''results'' (C_field ''resultCount'')]),
      (2, ''XrSpatialAnchorsDeleteCompletionML'',
       [Cl ''type'', Cl_xr ''next'', Cl ''futureResult'']),
      (2, ''XrSpatialAnchorsDeleteInfoML'',
       [Cl ''type'', Cl_xr ''next'', Cl ''uuidCount'', Cl_ptr ''uuids'' (C_field ''uuidCount'')]),
      (2, ''XrSpatialAnchorsPublishCompletionDetailsML'',
       [Cl ''type'', Cl_xr ''next'', Cl ''resultCount'',
        Cl_ptr ''results'' (C_field ''resultCount'')]),
      (2, ''XrSpatialAnchorsPublishCompletionML'',
       [Cl ''type'', Cl_xr ''next'', Cl ''futureResult'', Cl ''uuidCount'',
        Cl_ptr ''uuids'' (C_field ''uuidCount'')])])]"

definition ext_cleaners_44 :: "(string \<times> (nat \<times> string \<times> cop list) list) list" where
  "ext_cleaners_44 =
   [(''XR_ML_spatial_anchors_storage'',
     [(2, ''XrSpatialAnchorsPublishInfoML'',
       [Cl ''type'', Cl_xr ''next'', Cl ''anchorCount'',
        Cl_ptr ''anchors'' (C_field ''anchorCount''), Cl ''expiration'']),
      (2, ''XrSpatialAnchorsQueryCompletionML'',
       [Cl ''type'', Cl_xr ''next'', Cl ''futureResult'', Cl ''uuidCapacityInput'',
        Cl ''uuidCountOutput'', Cl_ptr ''uuids'' (C_field ''uuidCapacityInput'')])])]"

definition ext_cleaners_45 :: "(string \<times> (nat \<times> string \<times> cop list) list) list" where
  "ext_cleaners_45 =
   [(''XR_ML_spatial_anchors_storage'',
     [(2, ''XrSpatialAnchorsQueryInfoRadiusML'',
       [Cl ''type'', Cl_xr ''next'', Cl ''baseSpace'', Cl ''center'', Cl ''time'', Cl ''radius'']),
      (2, ''XrSpatialAnchorsUpdateExpirationCompletionDetailsML'',
       [Cl ''type'', Cl_xr ''next'', Cl ''resultCount'',
        Cl_ptr ''results'' (C_field ''resultCount'')]),
      (2, ''XrSpatialAnchorsUpdateExpirationCompletionML'',
       [Cl ''type'', Cl_xr ''next'', Cl ''futureResult'']),
      (2, ''XrSpatialAnchorsUpdateExpirationInfoML'',
       [Cl ''type'', Cl_xr ''next'', Cl ''uuidCount'',
        Cl_ptr ''uuids'' (C_field ''uuidCount''), Cl ''expiration''])]),
    (''XR_ML_system_notifications'',
     [(2, ''XrSystemNotificationsSetInfoML'',
       [Cl ''type'', Cl_xr ''next'', Cl ''suppressNotifications''])]),
    (''XR_ML_user_calibration'',
     [(2, ''XrEventDataEyeCalibrationChangedML'',
       [Cl ''type'', Cl_xr ''next'', Cl ''status'']),
      (2, ''XrEventDataHeadsetFitChangedML'',
       [Cl ''type'', Cl_xr ''next'', Cl ''status'', Cl ''time'']),
      (2, ''XrUserCalibrationEnableEventsInfoML'',
       [Cl ''type'', Cl_xr ''next'', Cl ''enabled''])])]"

definition ext_cleaners_46 :: "(string \<times> (nat \<times> string \<times> cop list) list) list" where
  "ext_cleaners_46 =
   [(''XR_ML_world_mesh_detection'',
     [(2, ''XrWorldMeshBlockML'',
       [Cl ''type'', Cl_xr ''next'', Cl ''uuid'', Cl ''blockResult'', Cl ''lod'', Cl ''flags'',
        Cl ''indexCount'', Cl_ptr ''indexBuffer'' (C_field ''indexCount''), Cl ''vertexCount'',
        Cl_ptr ''vertexBuffer'' (C_field ''vertexCount''), Cl ''normalCount'',
        Cl_ptr ''normalBuffer'' (C_field ''normalCount''), Cl ''confidenceCount'',
        Cl_ptr ''confidenceBuffer'' (C_field ''confidenceCount'')]),
      (2, ''XrWorldMeshBlockRequestML'',
       [Cl ''type'', Cl_xr ''next'', Cl ''uuid'', Cl ''lod'']),
      (2, ''XrWorldMeshBlockStateML'',
       [Cl ''type'', Cl_xr ''next'', Cl ''uuid'', Cl ''meshBoundingBoxCenter'',
        Cl ''meshBoundingBoxExtents'', Cl ''lastUpdateTime'', Cl ''status'']),
      (2, ''XrWorldMeshBufferML'',
       [Cl ''type'', Cl_xr ''next'', Cl ''bufferSize'',
        Cl_ptr ''buffer'' (C_field ''bufferSize'')]),
      (2, ''XrWorldMeshBufferRecommendedSizeInfoML'',
       [Cl ''type'', Cl_xr ''next'', Cl ''maxBlockCount'']),
      (2, ''XrWorldMeshBufferSizeML'',
       [Cl ''type'', Cl_xr ''next'', Cl ''size'']),
      (2, ''XrWorldMeshDetectorCreateInfoML'',
       [Cl ''type'', Cl_xr ''next'']),
      (2, ''XrWorldMeshGetInfoML'',
       [Cl ''type'', Cl_xr ''next'', Cl ''flags'', Cl ''fillHoleLength'',
        Cl ''disconnectedComponentArea'', Cl ''blockCount'',
        Cl_ptr ''blocks'' (C_field ''blockCount'')])])]"

definition ext_cleaners_47 :: "(string \<times> (nat \<times> string \<times> cop list) list) list" where
  "ext_cleaners_47 =
   [(''XR_ML_world_mesh_detection'',
     [(2, ''XrWorldMeshRequestCompletionInfoML'',
       [Cl ''type'', Cl_xr ''next'', Cl ''meshSpace'', Cl ''meshSpaceLocateTime'']),
      (2, ''XrWorldMeshRequestCompletionML'',
       [Cl ''type'', Cl_xr ''next'', Cl ''futureResult'', Cl ''blockCount'',
        Cl_ptr ''blocks'' (C_field ''blockCount'')]),
      (2, ''XrWorldMeshStateRequestCompletionML'',
       [Cl ''type'', Cl_xr ''next'', Cl ''futureResult'', Cl ''timestamp'',
        Cl ''meshBlockStateCapacityInput'', Cl ''meshBlockStateCountOutput'',
        Cl_ptr ''meshBlockStates'' (C_field ''meshBlockStateCapacityInput'')]),
      (2, ''XrWorldMeshStateRequestInfoML'',
       [Cl ''type'', Cl_xr ''next'', Cl ''baseSpace'', Cl ''time'', Cl ''boundingBoxCenter'',
        Cl ''boundingBoxExtents''])]),
    (''XR_MNDX_egl_enable'',
     [(2, ''XrGraphicsBindingEGLMNDX'',
       [Cl ''type'', Cl_xr ''next'', Cl ''getProcAddress'', Cl ''display'', Cl ''config'',
        Cl ''context''])]),
    (''XR_MNDX_force_feedback_curl'',
     [(1, ''XrForceFeedbackCurlApplyLocationMNDX'',
       [Cl ''location'', Cl ''value'']),
      (2, ''XrForceFeedbackCurlApplyLocationsMNDX'',
       [Cl ''type'', Cl_xr ''next'', Cl ''locationCount'',
        Cl_ptr ''locations'' (C_field ''locationCount'')]),
      (2, ''XrSystemForceFeedbackCurlPropertiesMNDX'',
       [Cl ''type'', Cl_xr ''next'', Cl ''supportsForceFeedbackCurl''])]),
    (''XR_MSFT_composition_layer_reprojection'',
     [(2, ''XrCompositionLayerReprojectionInfoMSFT'',
       [Cl ''type'', Cl_xr ''next'', Cl ''reprojectionMode''])])]"

definition ext_cleaners_48 :: "(string \<times> (nat \<times> string \<times> cop list) list) list" where
  "ext_cleaners_48 =
   [(''XR_MSFT_composition_layer_reprojection'',
     [(2, ''XrCompositionLayerReprojectionPlaneOverrideMSFT'',
       [Cl ''type'', Cl_xr ''next'', Cl ''position'', Cl ''normal'', Cl ''velocity''])]),
    (''XR_MSFT_controller_model'',
     [(2, ''XrControllerModelKeyStateMSFT'',
       [Cl ''type'', Cl_xr ''next'', Cl ''modelKey'']),
      (2, ''XrControllerModelNodePropertiesMSFT'',
       [Cl ''type'', Cl_xr ''next'',
        Cl_array ''parentNodeName'' (B_const ''XR_MAX_CONTROLLER_MODEL_NODE_NAME_SIZE_MSFT''),
        Cl_array ''nodeName'' (B_const ''XR_MAX_CONTROLLER_MODEL_NODE_NAME_SIZE_MSFT'')]),
      (2, ''XrControllerModelNodeStateMSFT'',
       [Cl ''type'', Cl_xr ''next'', Cl ''nodePose'']),
      (2, ''XrControllerModelPropertiesMSFT'',
       [Cl ''type'', Cl_xr ''next'', Cl ''nodeCapacityInput'', Cl ''nodeCountOutput'',
        Cl_ptr ''nodeProperties'' (C_field ''nodeCapacityInput'')]),
      (2, ''XrControllerModelStateMSFT'',
       [Cl ''type'', Cl_xr ''next'', Cl ''nodeCapacityInput'', Cl ''nodeCountOutput'',
        Cl_ptr ''nodeStates'' (C_field ''nodeCapacityInput'')])]),
    (''XR_MSFT_hand_tracking_mesh'',
     [(1, ''XrHandMeshIndexBufferMSFT'',
       [Cl ''indexBufferKey'', Cl ''indexCapacityInput'', Cl ''indexCountOutput'',
        Cl_ptr ''indices'' (C_field ''indexCapacityInput'')]),
      (2, ''XrHandMeshMSFT'',
       [Cl ''type'', Cl_xr ''next'', Cl ''isActive'', Cl ''indexBufferChanged'',
        Cl ''vertexBufferChanged'', Cl ''indexBuffer'', Cl ''vertexBuffer'']),
      (2, ''XrHandMeshSpaceCreateInfoMSFT'',
       [Cl ''type'', Cl_xr ''next'', Cl ''handPoseType'', Cl ''poseInHandMeshSpace''])])]"

definition ext_cleaners_49 :: "(string \<times> (nat \<times> string \<times> cop list) list) list" where
  "ext_cleaners_49 =
   [(''XR_MSFT_hand_tracking_mesh'',
     [(2, ''XrHandMeshUpdateInfoMSFT'',
       [Cl ''type'', Cl_xr ''next'', Cl ''time'', Cl ''handPoseType'']),
      (1, ''XrHandMeshVertexBufferMSFT'',
       [Cl ''vertexUpdateTime'', Cl ''vertexCapacityInput'', Cl ''vertexCountOutput'',
        Cl_ptr ''vertices'' (C_field ''vertexCapacityInput'')]),
      (1, ''XrHandMeshVertexMSFT'',
       [Cl ''position'', Cl ''normal'']),
      (2, ''XrHandPoseTypeInfoMSFT'',
       [Cl ''type'', Cl_xr ''next'', Cl ''handPoseType'']),
      (2, ''XrSystemHandTrackingMeshPropertiesMSFT'',
       [Cl ''type'', Cl_xr ''next'', Cl ''supportsHandTrackingMesh'',
        Cl ''maxHandMeshIndexCount'', Cl ''maxHandMeshVertexCount''])]),
    (''XR_MSFT_holographic_window_attachment'',
     [(2, ''XrHolographicWindowAttachmentMSFT'',
       [Cl ''type'', Cl_xr ''next'', Cl_ptr ''holographicSpace'' C_one,
        Cl_ptr ''coreWindow'' C_one])]),
    (''XR_MSFT_scene_marker'',
     [(1, ''XrSceneMarkerMSFT'',
       [Cl ''markerType'', Cl ''lastSeenTime'', Cl ''center'', Cl ''size'']),
      (1, ''XrSceneMarkerQRCodeMSFT'',
       [Cl ''symbolType'', Cl ''version'']),
      (2, ''XrSceneMarkerQRCodesMSFT'',
       [Cl ''type'', Cl_xr ''next'', Cl ''qrCodeCapacityInput'',
        Cl_ptr ''qrCodes'' (C_field ''qrCodeCapacityInput'')]),
      (2, ''XrSceneMarkerTypeFilterMSFT'',
       [Cl ''type'', Cl_xr ''next'', Cl ''markerTypeCount'',
        Cl_ptr ''markerTypes'' (C_field ''markerTypeCount'')]),
      (2, ''XrSceneMarkersMSFT'',
       [Cl ''type'', Cl_xr ''next'', Cl ''sceneMarkerCapacityInput'',
        Cl_ptr ''sceneMarkers'' (C_field ''sceneMarkerCapacityInput'')])])]"

definition ext_cleaners_50 :: "(string \<times> (nat \<times> string \<times> cop list) list) list" where
  "ext_cleaners_50 =
   [(''XR_MSFT_scene_understanding'',
     [(2, ''XrNewSceneComputeInfoMSFT'',
       [Cl ''type'', Cl_xr ''next'', Cl ''requestedFeatureCount'',
        Cl_ptr ''requestedFeatures'' (C_field ''requestedFeatureCount''), Cl ''consistency'',
        Cl ''bounds'']),
      (1, ''XrSceneBoundsMSFT'',
       [Cl ''space'', Cl ''time'', Cl ''sphereCount'',
        Cl_ptr ''spheres'' (C_field ''sphereCount''), Cl ''boxCount'',
        Cl_ptr ''boxes'' (C_field ''boxCount''), Cl ''frustumCount'',
        Cl_ptr ''frustums'' (C_field ''frustumCount'')]),
      (1, ''XrSceneComponentLocationMSFT'',
       [Cl ''flags'', Cl ''pose'']),
      (2, ''XrSceneComponentLocationsMSFT'',
       [Cl ''type'', Cl_xr ''next'', Cl ''locationCount'',
        Cl_ptr ''locations'' (C_field ''locationCount'')]),
      (1, ''XrSceneComponentMSFT'',
       [Cl ''componentType'', Cl ''id'', Cl ''parentId'', Cl ''updateTime'']),
      (2, ''XrSceneComponentParentFilterInfoMSFT'',
       [Cl ''type'', Cl_xr ''next'', Cl ''parentId'']),
      (2, ''XrSceneComponentsGetInfoMSFT'',
       [Cl ''type'', Cl_xr ''next'', Cl ''componentType'']),
      (2, ''XrSceneComponentsLocateInfoMSFT'',
       [Cl ''type'', Cl_xr ''next'', Cl ''baseSpace'', Cl ''time'', Cl ''componentIdCount'',
        Cl_ptr ''componentIds'' (C_field ''componentIdCount'')]),
      (2, ''XrSceneComponentsMSFT'',
       [Cl ''type'', Cl_xr ''next'', Cl ''componentCapacityInput'',
        Cl ''componentCountOutput'', Cl_ptr ''components'' (C_field ''componentCapacityInput'')]),
      (2, ''XrSceneCreateInfoMSFT'',
       [Cl ''type'', Cl_xr ''next'']),
      (1, ''XrSceneFrustumBoundMSFT'',
       [Cl ''pose'', Cl ''fov'', Cl ''farDistance''])])]"

definition ext_cleaners_51 :: "(string \<times> (nat \<times> string \<times> cop list) list) list" where
  "ext_cleaners_51 =
   [(''XR_MSFT_scene_understanding'',
     [(2, ''XrSceneMeshBuffersGetInfoMSFT'',
       [Cl ''type'', Cl_xr ''next'', Cl ''meshBufferId'']),
      (2, ''XrSceneMeshBuffersMSFT'',
       [Cl ''type'', Cl_xr ''next'']),
      (2, ''XrSceneMeshIndicesUint16MSFT'',
       [Cl ''type'', Cl_xr ''next'', Cl ''indexCapacityInput'', Cl ''indexCountOutput'',
        Cl_ptr ''indices'' (C_field ''indexCapacityInput'')]),
      (2, ''XrSceneMeshIndicesUint32MSFT'',
       [Cl ''type'', Cl_xr ''next'', Cl ''indexCapacityInput'', Cl ''indexCountOutput'',
        Cl_ptr ''indices'' (C_field ''indexCapacityInput'')]),
      (1, ''XrSceneMeshMSFT'',
       [Cl ''meshBufferId'', Cl ''supportsIndicesUint16'']),
      (2, ''XrSceneMeshVertexBufferMSFT'',
       [Cl ''type'', Cl_xr ''next'', Cl ''vertexCapacityInput'', Cl ''vertexCountOutput'',
        Cl_ptr ''vertices'' (C_field ''vertexCapacityInput'')]),
      (2, ''XrSceneMeshesMSFT'',
       [Cl ''type'', Cl_xr ''next'', Cl ''sceneMeshCount'',
        Cl_ptr ''sceneMeshes'' (C_field ''sceneMeshCount'')]),
      (1, ''XrSceneObjectMSFT'',
       [Cl ''objectType'']),
      (2, ''XrSceneObjectTypesFilterInfoMSFT'',
       [Cl ''type'', Cl_xr ''next'', Cl ''objectTypeCount'',
        Cl_ptr ''objectTypes'' (C_field ''objectTypeCount'')]),
      (2, ''XrSceneObjectsMSFT'',
       [Cl ''type'', Cl_xr ''next'', Cl ''sceneObjectCount'',
        Cl_ptr ''sceneObjects'' (C_field ''sceneObjectCount'')]),
      (2, ''XrSceneObserverCreateInfoMSFT'',
       [Cl ''type'', Cl_xr ''next''])])]"

definition ext_cleaners_52 :: "(string \<times> (nat \<times> string \<times> cop list) list) list" where
  "ext_cleaners_52 =
   [(''XR_MSFT_scene_understanding'',
     [(1, ''XrSceneOrientedBoxBoundMSFT'',
       [Cl ''pose'', Cl ''extents'']),
      (2, ''XrScenePlaneAlignmentFilterInfoMSFT'',
       [Cl ''type'', Cl_xr ''next'', Cl ''alignmentCount'',
        Cl_ptr ''alignments'' (C_field ''alignmentCount'')]),
      (1, ''XrScenePlaneMSFT'',
       [Cl ''alignment'', Cl ''size'', Cl ''meshBufferId'', Cl ''supportsIndicesUint16'']),
      (2, ''XrScenePlanesMSFT'',
       [Cl ''type'', Cl_xr ''next'', Cl ''scenePlaneCount'',
        Cl_ptr ''scenePlanes'' (C_field ''scenePlaneCount'')]),
      (1, ''XrSceneSphereBoundMSFT'',
       [Cl ''center'', Cl ''radius'']),
      (1, ''XrUuidMSFT'',
       [Cl_array ''bytes'' (B_lit 16)]),
      (2, ''XrVisualMeshComputeLodInfoMSFT'',
       [Cl ''type'', Cl_xr ''next'', Cl ''lod''])]),
    (''XR_MSFT_scene_understanding_serialization'',
     [(1, ''XrDeserializeSceneFragmentMSFT'',
       [Cl ''bufferSize'', Cl_ptr ''buffer'' (C_field ''bufferSize'')]),
      (2, ''XrSceneDeserializeInfoMSFT'',
       [Cl ''type'', Cl_xr ''next'', Cl ''fragmentCount'',
        Cl_ptr ''fragments'' (C_field ''fragmentCount'')]),
      (2, ''XrSerializedSceneFragmentDataGetInfoMSFT'',
       [Cl ''type'', Cl_xr ''next'', Cl ''sceneFragmentId''])]),
    (''XR_MSFT_secondary_view_configuration'',
     [(2, ''XrSecondaryViewConfigurationFrameEndInfoMSFT'',
       [Cl ''type'', Cl_xr ''next'', Cl ''viewConfigurationCount'',
        Cl_ptr ''viewConfigurationLayersInfo'' (C_field ''viewConfigurationCount'')]),
      (2, ''XrSecondaryViewConfigurationFrameStateMSFT'',
       [Cl ''type'', Cl_xr ''next'', Cl ''viewConfigurationCount'',
        Cl_ptr ''viewConfigurationStates'' (C_field ''viewConfigurationCount'')])])]"

definition ext_cleaners_53 :: "(string \<times> (nat \<times> string \<times> cop list) list) list" where
  "ext_cleaners_53 =
   [(''XR_MSFT_secondary_view_configuration'',
     [(2, ''XrSecondaryViewConfigurationSessionBeginInfoMSFT'',
       [Cl ''type'', Cl_xr ''next'', Cl ''viewConfigurationCount'',
        Cl_ptr ''enabledViewConfigurationTypes'' (C_field ''viewConfigurationCount'')]),
      (2, ''XrSecondaryViewConfigurationStateMSFT'',
       [Cl ''type'', Cl_xr ''next'', Cl ''viewConfigurationType'', Cl ''active'']),
      (2, ''XrSecondaryViewConfigurationSwapchainCreateInfoMSFT'',
       [Cl ''type'', Cl_xr ''next'', Cl ''viewConfigurationType''])]),
    (''XR_MSFT_spatial_anchor'',
     [(1, ''XrSpatialAnchorCreateInfoMSFT'',
       [Cl ''type'', Cl_xr ''next'', Cl ''space'', Cl ''pose'', Cl ''time'']),
      (1, ''XrSpatialAnchorSpaceCreateInfoMSFT'',
       [Cl ''type'', Cl_xr ''next'', Cl ''anchor'', Cl ''poseInAnchorSpace''])]),
    (''XR_MSFT_spatial_anchor_persistence'',
     [(2, ''XrSpatialAnchorFromPersistedAnchorCreateInfoMSFT'',
       [Cl ''type'', Cl_xr ''next'', Cl ''spatialAnchorStore'',
        Cl ''spatialAnchorPersistenceName'']),
      (2, ''XrSpatialAnchorPersistenceInfoMSFT'',
       [Cl ''type'', Cl_xr ''next'', Cl ''spatialAnchorPersistenceName'', Cl ''spatialAnchor'']),
      (1, ''XrSpatialAnchorPersistenceNameMSFT'',
       [Cl_array ''name'' (B_const ''XR_MAX_SPATIAL_ANCHOR_NAME_SIZE_MSFT'')])]),
    (''XR_MSFT_spatial_graph_bridge'',
     [(2, ''XrSpatialGraphNodeBindingPropertiesGetInfoMSFT'',
       [Cl ''type'', Cl_xr ''next'']),
      (2, ''XrSpatialGraphNodeBindingPropertiesMSFT'',
       [Cl ''type'', Cl_xr ''next'', Cl_array ''nodeId'' (B_const ''XR_GUID_SIZE_MSFT''),
        Cl ''poseInNodeSpace'']),
      (2, ''XrSpatialGraphNodeSpaceCreateInfoMSFT'',
       [Cl ''type'', Cl_xr ''next'', Cl ''nodeType'',
        Cl_array ''nodeId'' (B_const ''XR_GUID_SIZE_MSFT''), Cl ''pose''])])]"

definition ext_cleaners_54 :: "(string \<times> (nat \<times> string \<times> cop list) list) list" where
  "ext_cleaners_54 =
   [(''XR_MSFT_spatial_graph_bridge'',
     [(2, ''XrSpatialGraphStaticNodeBindingCreateInfoMSFT'',
       [Cl ''type'', Cl_xr ''next'', Cl ''space'', Cl ''poseInSpace'', Cl ''time''])]),
    (''XR_OCULUS_external_camera'',
     [(1, ''XrExternalCameraExtrinsicsOCULUS'',
       [Cl ''lastChangeTime'', Cl ''cameraStatusFlags'', Cl ''attachedToDevice'',
        Cl ''relativePose'']),
      (1, ''XrExternalCameraIntrinsicsOCULUS'',
       [Cl ''lastChangeTime'', Cl ''fov'', Cl ''virtualNearPlaneDistance'',
        Cl ''virtualFarPlaneDistance'', Cl ''imageSensorPixelResolution'']),
      (2, ''XrExternalCameraOCULUS'',
       [Cl ''type'', Cl_xr ''next'',
        Cl_array ''name'' (B_const ''XR_MAX_EXTERNAL_CAMERA_NAME_SIZE_OCULUS''),
        Cl ''intrinsics'', Cl ''extrinsics''])]),
    (''XR_VALVE_analog_threshold'',
     [(2, ''XrInteractionProfileAnalogThresholdVALVE'',
       [Cl ''type'', Cl_xr ''next'', Cl ''action'', Cl ''binding'', Cl ''onThreshold'',
        Cl ''offThreshold'', Cl_xr ''onHaptic'', Cl_xr ''offHaptic''])]),
    (''XR_VARJO_composition_layer_depth_test'',
     [(2, ''XrCompositionLayerDepthTestVARJO'',
       [Cl ''type'', Cl_xr ''next'', Cl ''depthTestRangeNearZ'', Cl ''depthTestRangeFarZ''])]),
    (''XR_VARJO_foveated_rendering'',
     [(2, ''XrFoveatedViewConfigurationViewVARJO'',
       [Cl ''type'', Cl_xr ''next'', Cl ''foveatedRenderingActive'']),
      (2, ''XrSystemFoveatedRenderingPropertiesVARJO'',
       [Cl ''type'', Cl_xr ''next'', Cl ''supportsFoveatedRendering'']),
      (2, ''XrViewLocateFoveatedRenderingVARJO'',
       [Cl ''type'', Cl_xr ''next'', Cl ''foveatedRenderingActive''])])]"

definition ext_cleaners_55 :: "(string \<times> (nat \<times> string \<times> cop list) list) list" where
  "ext_cleaners_55 =
   [(''XR_VARJO_marker_tracking'',
     [(2, ''XrEventDataMarkerTrackingUpdateVARJO'',
       [Cl ''type'', Cl_xr ''next'', Cl ''markerId'', Cl ''isActive'', Cl ''isPredicted'',
        Cl ''time'']),
      (2, ''XrMarkerSpaceCreateInfoVARJO'',
       [Cl ''type'', Cl_xr ''next'', Cl ''markerId'', Cl ''poseInMarkerSpace'']),
      (2, ''XrSystemMarkerTrackingPropertiesVARJO'',
       [Cl ''type'', Cl_xr ''next'', Cl ''supportsMarkerTracking''])])]"

definition ext_cleaners :: "(string \<times> (nat \<times> string \<times> cop list) list) list" where
  "ext_cleaners =
     ext_cleaners_1 @ ext_cleaners_2 @ ext_cleaners_3 @ ext_cleaners_4 @ ext_cleaners_5 @
     ext_cleaners_6 @ ext_cleaners_7 @ ext_cleaners_8 @ ext_cleaners_9 @ ext_cleaners_10 @
     ext_cleaners_11 @ ext_cleaners_12 @ ext_cleaners_13 @ ext_cleaners_14 @ ext_cleaners_15 @
     ext_cleaners_16 @ ext_cleaners_17 @ ext_cleaners_18 @ ext_cleaners_19 @ ext_cleaners_20 @
     ext_cleaners_21 @ ext_cleaners_22 @ ext_cleaners_23 @ ext_cleaners_24 @ ext_cleaners_25 @
     ext_cleaners_26 @ ext_cleaners_27 @ ext_cleaners_28 @ ext_cleaners_29 @ ext_cleaners_30 @
     ext_cleaners_31 @ ext_cleaners_32 @ ext_cleaners_33 @ ext_cleaners_34 @ ext_cleaners_35 @
     ext_cleaners_36 @ ext_cleaners_37 @ ext_cleaners_38 @ ext_cleaners_39 @ ext_cleaners_40 @
     ext_cleaners_41 @ ext_cleaners_42 @ ext_cleaners_43 @ ext_cleaners_44 @ ext_cleaners_45 @
     ext_cleaners_46 @ ext_cleaners_47 @ ext_cleaners_48 @ ext_cleaners_49 @ ext_cleaners_50 @
     ext_cleaners_51 @ ext_cleaners_52 @ ext_cleaners_53 @ ext_cleaners_54 @ ext_cleaners_55"

lemmas ext_cleaners_defs =
  ext_cleaners_1_def ext_cleaners_2_def ext_cleaners_3_def ext_cleaners_4_def
  ext_cleaners_5_def ext_cleaners_6_def ext_cleaners_7_def ext_cleaners_8_def
  ext_cleaners_9_def ext_cleaners_10_def ext_cleaners_11_def ext_cleaners_12_def
  ext_cleaners_13_def ext_cleaners_14_def ext_cleaners_15_def ext_cleaners_16_def
  ext_cleaners_17_def ext_cleaners_18_def ext_cleaners_19_def ext_cleaners_20_def
  ext_cleaners_21_def ext_cleaners_22_def ext_cleaners_23_def ext_cleaners_24_def
  ext_cleaners_25_def ext_cleaners_26_def ext_cleaners_27_def ext_cleaners_28_def
  ext_cleaners_29_def ext_cleaners_30_def ext_cleaners_31_def ext_cleaners_32_def
  ext_cleaners_33_def ext_cleaners_34_def ext_cleaners_35_def ext_cleaners_36_def
  ext_cleaners_37_def ext_cleaners_38_def ext_cleaners_39_def ext_cleaners_40_def
  ext_cleaners_41_def ext_cleaners_42_def ext_cleaners_43_def ext_cleaners_44_def
  ext_cleaners_45_def ext_cleaners_46_def ext_cleaners_47_def ext_cleaners_48_def
  ext_cleaners_49_def ext_cleaners_50_def ext_cleaners_51_def ext_cleaners_52_def
  ext_cleaners_53_def ext_cleaners_54_def ext_cleaners_55_def


end
