(* ===== verification/Ext_Tables.thy ===== *)
theory Ext_Tables
  imports Main
begin

text \<open>
  The rows of the four lookup tables from structure types: serializers, deserializers and
  cleaners of \<open>serializer.cpp\<close> and \<open>deserializer.cpp\<close>, and the sizes of \<open>struct_size.cpp\<close>. The
  rows of an extension are compiled when its macro is defined; the number counts how many times in
  a row the file lists it. The core rows of the first two are in \<open>Core_Structs\<close>.
\<close>

definition ext_serializer_rows_1 :: "(string \<times> (nat \<times> string \<times> string) list) list" where
  "ext_serializer_rows_1 =
   [(''XR_ALMALENCE_digital_lens_control'',
     [(1, ''XR_TYPE_DIGITAL_LENS_CONTROL_ALMALENCE'', ''XrDigitalLensControlALMALENCE'')]),
    (''XR_BD_body_tracking'',
     [(2, ''XR_TYPE_BODY_JOINT_LOCATIONS_BD'', ''XrBodyJointLocationsBD''),
      (2, ''XR_TYPE_BODY_JOINTS_LOCATE_INFO_BD'', ''XrBodyJointsLocateInfoBD''),
      (2, ''XR_TYPE_BODY_TRACKER_CREATE_INFO_BD'', ''XrBodyTrackerCreateInfoBD''),
      (2, ''XR_TYPE_SYSTEM_BODY_TRACKING_PROPERTIES_BD'', ''XrSystemBodyTrackingPropertiesBD'')]),
    (''XR_BD_future_progress'',
     [(2, ''XR_TYPE_FUTURE_POLL_RESULT_PROGRESS_BD'', ''XrFuturePollResultProgressBD'')]),
    (''XR_BD_spatial_anchor'',
     [(2, ''XR_TYPE_SPATIAL_ANCHOR_CREATE_COMPLETION_BD'', ''XrSpatialAnchorCreateCompletionBD''),
      (2, ''XR_TYPE_SPATIAL_ANCHOR_CREATE_INFO_BD'', ''XrSpatialAnchorCreateInfoBD''),
      (2, ''XR_TYPE_SPATIAL_ANCHOR_PERSIST_INFO_BD'', ''XrSpatialAnchorPersistInfoBD''),
      (2, ''XR_TYPE_SPATIAL_ANCHOR_UNPERSIST_INFO_BD'', ''XrSpatialAnchorUnpersistInfoBD''),
      (2, ''XR_TYPE_SYSTEM_SPATIAL_ANCHOR_PROPERTIES_BD'', ''XrSystemSpatialAnchorPropertiesBD'')]),
    (''XR_BD_spatial_anchor_sharing'',
     [(2, ''XR_TYPE_SHARED_SPATIAL_ANCHOR_DOWNLOAD_INFO_BD'', ''XrSharedSpatialAnchorDownloadInfoBD''),
      (2, ''XR_TYPE_SPATIAL_ANCHOR_SHARE_INFO_BD'', ''XrSpatialAnchorShareInfoBD''),
      (2, ''XR_TYPE_SYSTEM_SPATIAL_ANCHOR_SHARING_PROPERTIES_BD'', ''XrSystemSpatialAnchorSharingPropertiesBD'')]),
    (''XR_BD_spatial_mesh'',
     [(2, ''XR_TYPE_SENSE_DATA_PROVIDER_CREATE_INFO_SPATIAL_MESH_BD'', ''XrSenseDataProviderCreateInfoSpatialMeshBD''),
      (2, ''XR_TYPE_SYSTEM_SPATIAL_MESH_PROPERTIES_BD'', ''XrSystemSpatialMeshPropertiesBD'')]),
    (''XR_BD_spatial_scene'',
     [(2, ''XR_TYPE_SCENE_CAPTURE_INFO_BD'', ''XrSceneCaptureInfoBD''),
      (2, ''XR_TYPE_SYSTEM_SPATIAL_SCENE_PROPERTIES_BD'', ''XrSystemSpatialScenePropertiesBD'')]),
    (''XR_BD_spatial_sensing'',
     [(2, ''XR_TYPE_ANCHOR_SPACE_CREATE_INFO_BD'', ''XrAnchorSpaceCreateInfoBD''),
      (2, ''XR_TYPE_EVENT_DATA_SENSE_DATA_PROVIDER_STATE_CHANGED_BD'', ''XrEventDataSenseDataProviderStateChangedBD''),
      (2, ''XR_TYPE_EVENT_DATA_SENSE_DATA_UPDATED_BD'', ''XrEventDataSenseDataUpdatedBD''),
      (2, ''XR_TYPE_QUERIED_SENSE_DATA_BD'', ''XrQueriedSenseDataBD''),
      (2, ''XR_TYPE_QUERIED_SENSE_DATA_GET_INFO_BD'', ''XrQueriedSenseDataGetInfoBD''),
      (2, ''XR_TYPE_SENSE_DATA_FILTER_SEMANTIC_BD'', ''XrSenseDataFilterSemanticBD''),
      (2, ''XR_TYPE_SENSE_DATA_FILTER_UUID_BD'', ''XrSenseDataFilterUuidBD''),
      (2, ''XR_TYPE_SENSE_DATA_PROVIDER_CREATE_INFO_BD'', ''XrSenseDataProviderCreateInfoBD''),
      (2, ''XR_TYPE_SENSE_DATA_PROVIDER_START_INFO_BD'', ''XrSenseDataProviderStartInfoBD''),
      (2, ''XR_TYPE_SENSE_DATA_QUERY_COMPLETION_BD'', ''XrSenseDataQueryCompletionBD''),
      (2, ''XR_TYPE_SENSE_DATA_QUERY_INFO_BD'', ''XrSenseDataQueryInfoBD''),
      (2, ''XR_TYPE_SPATIAL_ENTITY_ANCHOR_CREATE_INFO_BD'', ''XrSpatialEntityAnchorCreateInfoBD''),
      (2, ''XR_TYPE_SPATIAL_ENTITY_COMPONENT_DATA_BOUNDING_BOX_2D_BD'', ''XrSpatialEntityComponentDataBoundingBox2DBD''),
      (2, ''XR_TYPE_SPATIAL_ENTITY_COMPONENT_DATA_BOUNDING_BOX_3D_BD'', ''XrSpatialEntityComponentDataBoundingBox3DBD''),
      (2, ''XR_TYPE_SPATIAL_ENTITY_COMPONENT_DATA_LOCATION_BD'', ''XrSpatialEntityComponentDataLocationBD''),
      (2, ''XR_TYPE_SPATIAL_ENTITY_COMPONENT_DATA_POLYGON_BD'', ''XrSpatialEntityComponentDataPolygonBD''),
      (2, ''XR_TYPE_SPATIAL_ENTITY_COMPONENT_DATA_SEMANTIC_BD'', ''XrSpatialEntityComponentDataSemanticBD''),
      (2, ''XR_TYPE_SPATIAL_ENTITY_COMPONENT_DATA_TRIANGLE_MESH_BD'', ''XrSpatialEntityComponentDataTriangleMeshBD''),
      (2, ''XR_TYPE_SPATIAL_ENTITY_COMPONENT_GET_INFO_BD'', ''XrSpatialEntityComponentGetInfoBD''),
      (2, ''XR_TYPE_SPATIAL_ENTITY_LOCATION_GET_INFO_BD'', ''XrSpatialEntityLocationGetInfoBD''),
      (2, ''XR_TYPE_SPATIAL_ENTITY_STATE_BD'', ''XrSpatialEntityStateBD''),
      (2, ''XR_TYPE_SYSTEM_SPATIAL_SENSING_PROPERTIES_BD'', ''XrSystemSpatialSensingPropertiesBD'')]),
    (''XR_EPIC_view_configuration_fov'',
     [(2, ''XR_TYPE_VIEW_CONFIGURATION_VIEW_FOV_EPIC'', ''XrViewConfigurationViewFovEPIC'')]),
    (''XR_EXTX_overlay'',
     [(2, ''XR_TYPE_EVENT_DATA_MAIN_SESSION_VISIBILITY_CHANGED_EXTX'', ''XrEventDataMainSessionVisibilityChangedEXTX''),
      (2, ''XR_TYPE_SESSION_CREATE_INFO_OVERLAY_EXTX'', ''XrSessionCreateInfoOverlayEXTX'')]),
    (''XR_EXT_active_action_set_priority'',
     [(2, ''XR_TYPE_ACTIVE_ACTION_SET_PRIORITIES_EXT'', ''XrActiveActionSetPrioritiesEXT'')]),
    (''XR_EXT_debug_utils'',
     [(2, ''XR_TYPE_DEBUG_UTILS_LABEL_EXT'', ''XrDebugUtilsLabelEXT''),
      (2, ''XR_TYPE_DEBUG_UTILS_MESSENGER_CALLBACK_DATA_EXT'', ''XrDebugUtilsMessengerCallbackDataEXT''),
      (2, ''XR_TYPE_DEBUG_UTILS_MESSENGER_CREATE_INFO_EXT'', ''XrDebugUtilsMessengerCreateInfoEXT''),
      (2, ''XR_TYPE_DEBUG_UTILS_OBJECT_NAME_INFO_EXT'', ''XrDebugUtilsObjectNameInfoEXT'')]),
    (''XR_EXT_dpad_binding'',
     [(2, ''XR_TYPE_INTERACTION_PROFILE_DPAD_BINDING_EXT'', ''XrInteractionProfileDpadBindingEXT'')]),
    (''XR_EXT_eye_gaze_interaction'',
     [(2, ''XR_TYPE_EYE_GAZE_SAMPLE_TIME_EXT'', ''XrEyeGazeSampleTimeEXT''),
      (2, ''XR_TYPE_SYSTEM_EYE_GAZE_INTERACTION_PROPERTIES_EXT'', ''XrSystemEyeGazeInteractionPropertiesEXT'')]),
    (''XR_EXT_frame_synthesis'',
     [(2, ''XR_TYPE_FRAME_SYNTHESIS_CONFIG_VIEW_EXT'', ''XrFrameSynthesisConfigViewEXT''),
      (2, ''XR_TYPE_FRAME_SYNTHESIS_INFO_EXT'', ''XrFrameSynthesisInfoEXT'')]),
    (''XR_EXT_future'',
     [(2, ''XR_TYPE_FUTURE_CANCEL_INFO_EXT'', ''XrFutureCancelInfoEXT''),
      (2, ''XR_TYPE_FUTURE_COMPLETION_EXT'', ''XrFutureCompletionEXT''),
      (2, ''XR_TYPE_FUTURE_POLL_INFO_EXT'', ''XrFuturePollInfoEXT''),
      (2, ''XR_TYPE_FUTURE_POLL_RESULT_EXT'', ''XrFuturePollResultEXT'')]),
    (''XR_EXT_hand_joints_motion_range'',
     [(2, ''XR_TYPE_HAND_JOINTS_MOTION_RANGE_INFO_EXT'', ''XrHandJointsMotionRangeInfoEXT'')])]"

definition ext_serializer_rows_2 :: "(string \<times> (nat \<times> string \<times> string) list) list" where
  "ext_serializer_rows_2 =
   [(''XR_EXT_hand_tracking'',
     [(2, ''XR_TYPE_HAND_JOINT_LOCATIONS_EXT'', ''XrHandJointLocationsEXT''),
      (2, ''XR_TYPE_HAND_JOINT_VELOCITIES_EXT'', ''XrHandJointVelocitiesEXT''),
      (2, ''XR_TYPE_HAND_JOINTS_LOCATE_INFO_EXT'', ''XrHandJointsLocateInfoEXT''),
      (2, ''XR_TYPE_HAND_TRACKER_CREATE_INFO_EXT'', ''XrHandTrackerCreateInfoEXT''),
      (2, ''XR_TYPE_SYSTEM_HAND_TRACKING_PROPERTIES_EXT'', ''XrSystemHandTrackingPropertiesEXT'')]),
    (''XR_EXT_hand_tracking_data_source'',
     [(2, ''XR_TYPE_HAND_TRACKING_DATA_SOURCE_INFO_EXT'', ''XrHandTrackingDataSourceInfoEXT''),
      (2, ''XR_TYPE_HAND_TRACKING_DATA_SOURCE_STATE_EXT'', ''XrHandTrackingDataSourceStateEXT'')]),
    (''XR_EXT_performance_settings'',
     [(2, ''XR_TYPE_EVENT_DATA_PERF_SETTINGS_EXT'', ''XrEventDataPerfSettingsEXT'')]),
    (''XR_EXT_plane_detection'',
     [(2, ''XR_TYPE_PLANE_DETECTOR_BEGIN_INFO_EXT'', ''XrPlaneDetectorBeginInfoEXT''),
      (2, ''XR_TYPE_PLANE_DETECTOR_CREATE_INFO_EXT'', ''XrPlaneDetectorCreateInfoEXT''),
      (2, ''XR_TYPE_PLANE_DETECTOR_GET_INFO_EXT'', ''XrPlaneDetectorGetInfoEXT''),
      (2, ''XR_TYPE_PLANE_DETECTOR_LOCATION_EXT'', ''XrPlaneDetectorLocationEXT''),
      (2, ''XR_TYPE_PLANE_DETECTOR_LOCATIONS_EXT'', ''XrPlaneDetectorLocationsEXT''),
      (2, ''XR_TYPE_PLANE_DETECTOR_POLYGON_BUFFER_EXT'', ''XrPlaneDetectorPolygonBufferEXT''),
      (2, ''XR_TYPE_SYSTEM_PLANE_DETECTION_PROPERTIES_EXT'', ''XrSystemPlaneDetectionPropertiesEXT'')]),
    (''XR_EXT_user_presence'',
     [(2, ''XR_TYPE_EVENT_DATA_USER_PRESENCE_CHANGED_EXT'', ''XrEventDataUserPresenceChangedEXT''),
      (2, ''XR_TYPE_SYSTEM_USER_PRESENCE_PROPERTIES_EXT'', ''XrSystemUserPresencePropertiesEXT'')]),
    (''XR_EXT_view_configuration_depth_range'',
     [(2, ''XR_TYPE_VIEW_CONFIGURATION_DEPTH_RANGE_EXT'', ''XrViewConfigurationDepthRangeEXT'')]),
    (''XR_FB_android_surface_swapchain_create'',
     [(2, ''XR_TYPE_ANDROID_SURFACE_SWAPCHAIN_CREATE_INFO_FB'', ''XrAndroidSurfaceSwapchainCreateInfoFB'')]),
    (''XR_FB_body_tracking'',
     [(2, ''XR_TYPE_BODY_JOINT_LOCATIONS_FB'', ''XrBodyJointLocationsFB''),
      (2, ''XR_TYPE_BODY_JOINTS_LOCATE_INFO_FB'', ''XrBodyJointsLocateInfoFB''),
      (2, ''XR_TYPE_BODY_SKELETON_FB'', ''XrBodySkeletonFB''),
      (2, ''XR_TYPE_BODY_TRACKER_CREATE_INFO_FB'', ''XrBodyTrackerCreateInfoFB''),
      (2, ''XR_TYPE_SYSTEM_BODY_TRACKING_PROPERTIES_FB'', ''XrSystemBodyTrackingPropertiesFB'')]),
    (''XR_FB_color_space'',
     [(2, ''XR_TYPE_SYSTEM_COLOR_SPACE_PROPERTIES_FB'', ''XrSystemColorSpacePropertiesFB'')]),
    (''XR_FB_composition_layer_alpha_blend'',
     [(2, ''XR_TYPE_COMPOSITION_LAYER_ALPHA_BLEND_FB'', ''XrCompositionLayerAlphaBlendFB'')]),
    (''XR_FB_composition_layer_depth_test'',
     [(2, ''XR_TYPE_COMPOSITION_LAYER_DEPTH_TEST_FB'', ''XrCompositionLayerDepthTestFB'')]),
    (''XR_FB_composition_layer_image_layout'',
     [(2, ''XR_TYPE_COMPOSITION_LAYER_IMAGE_LAYOUT_FB'', ''XrCompositionLayerImageLayoutFB'')]),
    (''XR_FB_composition_layer_secure_content'',
     [(2, ''XR_TYPE_COMPOSITION_LAYER_SECURE_CONTENT_FB'', ''XrCompositionLayerSecureContentFB'')]),
    (''XR_FB_composition_layer_settings'',
     [(2, ''XR_TYPE_COMPOSITION_LAYER_SETTINGS_FB'', ''XrCompositionLayerSettingsFB'')]),
    (''XR_FB_display_refresh_rate'',
     [(2, ''XR_TYPE_EVENT_DATA_DISPLAY_REFRESH_RATE_CHANGED_FB'', ''XrEventDataDisplayRefreshRateChangedFB'')]),
    (''XR_FB_eye_tracking_social'',
     [(2, ''XR_TYPE_EYE_GAZES_FB'', ''XrEyeGazesFB''),
      (2, ''XR_TYPE_EYE_GAZES_INFO_FB'', ''XrEyeGazesInfoFB''),
      (2, ''XR_TYPE_EYE_TRACKER_CREATE_INFO_FB'', ''XrEyeTrackerCreateInfoFB''),
      (2, ''XR_TYPE_SYSTEM_EYE_TRACKING_PROPERTIES_FB'', ''XrSystemEyeTrackingPropertiesFB'')]),
    (''XR_FB_face_tracking'',
     [(2, ''XR_TYPE_FACE_EXPRESSION_INFO_FB'', ''XrFaceExpressionInfoFB''),
      (2, ''XR_TYPE_FACE_EXPRESSION_WEIGHTS_FB'', ''XrFaceExpressionWeightsFB''),
      (2, ''XR_TYPE_FACE_TRACKER_CREATE_INFO_FB'', ''XrFaceTrackerCreateInfoFB''),
      (2, ''XR_TYPE_SYSTEM_FACE_TRACKING_PROPERTIES_FB'', ''XrSystemFaceTrackingPropertiesFB'')]),
    (''XR_FB_face_tracking2'',
     [(2, ''XR_TYPE_FACE_EXPRESSION_INFO2_FB'', ''XrFaceExpressionInfo2FB''),
      (2, ''XR_TYPE_FACE_EXPRESSION_WEIGHTS2_FB'', ''XrFaceExpressionWeights2FB''),
      (2, ''XR_TYPE_FACE_TRACKER_CREATE_INFO2_FB'', ''XrFaceTrackerCreateInfo2FB''),
      (2, ''XR_TYPE_SYSTEM_FACE_TRACKING_PROPERTIES2_FB'', ''XrSystemFaceTrackingProperties2FB'')]),
    (''XR_FB_foveation'',
     [(2, ''XR_TYPE_FOVEATION_PROFILE_CREATE_INFO_FB'', ''XrFoveationProfileCreateInfoFB''),
      (2, ''XR_TYPE_SWAPCHAIN_CREATE_INFO_FOVEATION_FB'', ''XrSwapchainCreateInfoFoveationFB''),
      (2, ''XR_TYPE_SWAPCHAIN_STATE_FOVEATION_FB'', ''XrSwapchainStateFoveationFB'')]),
    (''XR_FB_foveation_configuration'',
     [(2, ''XR_TYPE_FOVEATION_LEVEL_PROFILE_CREATE_INFO_FB'', ''XrFoveationLevelProfileCreateInfoFB'')]),
    (''XR_FB_foveation_vulkan'',
     [(2, ''XR_TYPE_SWAPCHAIN_IMAGE_FOVEATION_VULKAN_FB'', ''XrSwapchainImageFoveationVulkanFB'')]),
    (''XR_FB_hand_tracking_aim'',
     [(2, ''XR_TYPE_HAND_TRACKING_AIM_STATE_FB'', ''XrHandTrackingAimStateFB'')]),
    (''XR_FB_hand_tracking_capsules'',
     [(2, ''XR_TYPE_HAND_TRACKING_CAPSULES_STATE_FB'', ''XrHandTrackingCapsulesStateFB'')]),
    (''XR_FB_hand_tracking_mesh'',
     [(2, ''XR_TYPE_HAND_TRACKING_MESH_FB'', ''XrHandTrackingMeshFB''),
      (2, ''XR_TYPE_HAND_TRACKING_SCALE_FB'', ''XrHandTrackingScaleFB'')])]"

definition ext_serializer_rows_3 :: "(string \<times> (nat \<times> string \<times> string) list) list" where
  "ext_serializer_rows_3 =
   [(''XR_FB_haptic_amplitude_envelope'',
     [(2, ''XR_TYPE_HAPTIC_AMPLITUDE_ENVELOPE_VIBRATION_FB'', ''XrHapticAmplitudeEnvelopeVibrationFB'')]),
    (''XR_FB_haptic_pcm'',
     [(2, ''XR_TYPE_DEVICE_PCM_SAMPLE_RATE_STATE_FB'', ''XrDevicePcmSampleRateStateFB''),
      (2, ''XR_TYPE_HAPTIC_PCM_VIBRATION_FB'', ''XrHapticPcmVibrationFB'')]),
    (''XR_FB_keyboard_tracking'',
     [(2, ''XR_TYPE_KEYBOARD_SPACE_CREATE_INFO_FB'', ''XrKeyboardSpaceCreateInfoFB''),
      (2, ''XR_TYPE_KEYBOARD_TRACKING_QUERY_FB'', ''XrKeyboardTrackingQueryFB''),
      (2, ''XR_TYPE_SYSTEM_KEYBOARD_TRACKING_PROPERTIES_FB'', ''XrSystemKeyboardTrackingPropertiesFB'')]),
    (''XR_FB_passthrough'',
     [(2, ''XR_TYPE_COMPOSITION_LAYER_PASSTHROUGH_FB'', ''XrCompositionLayerPassthroughFB''),
      (2, ''XR_TYPE_EVENT_DATA_PASSTHROUGH_STATE_CHANGED_FB'', ''XrEventDataPassthroughStateChangedFB''),
      (2, ''XR_TYPE_GEOMETRY_INSTANCE_CREATE_INFO_FB'', ''XrGeometryInstanceCreateInfoFB''),
      (2, ''XR_TYPE_GEOMETRY_INSTANCE_TRANSFORM_FB'', ''XrGeometryInstanceTransformFB''),
      (2, ''XR_TYPE_PASSTHROUGH_BRIGHTNESS_CONTRAST_SATURATION_FB'', ''XrPassthroughBrightnessContrastSaturationFB''),
      (2, ''XR_TYPE_PASSTHROUGH_COLOR_MAP_MONO_TO_MONO_FB'', ''XrPassthroughColorMapMonoToMonoFB''),
      (2, ''XR_TYPE_PASSTHROUGH_COLOR_MAP_MONO_TO_RGBA_FB'', ''XrPassthroughColorMapMonoToRgbaFB''),
      (2, ''XR_TYPE_PASSTHROUGH_CREATE_INFO_FB'', ''XrPassthroughCreateInfoFB''),
      (2, ''XR_TYPE_PASSTHROUGH_LAYER_CREATE_INFO_FB'', ''XrPassthroughLayerCreateInfoFB''),
      (2, ''XR_TYPE_PASSTHROUGH_STYLE_FB'', ''XrPassthroughStyleFB''),
      (2, ''XR_TYPE_SYSTEM_PASSTHROUGH_PROPERTIES2_FB'', ''XrSystemPassthroughProperties2FB''),
      (2, ''XR_TYPE_SYSTEM_PASSTHROUGH_PROPERTIES_FB'', ''XrSystemPassthroughPropertiesFB'')]),
    (''XR_FB_passthrough_keyboard_hands'',
     [(2, ''XR_TYPE_PASSTHROUGH_KEYBOARD_HANDS_INTENSITY_FB'', ''XrPassthroughKeyboardHandsIntensityFB'')]),
    (''XR_FB_render_model'',
     [(2, ''XR_TYPE_RENDER_MODEL_BUFFER_FB'', ''XrRenderModelBufferFB''),
      (2, ''XR_TYPE_RENDER_MODEL_CAPABILITIES_REQUEST_FB'', ''XrRenderModelCapabilitiesRequestFB''),
      (2, ''XR_TYPE_RENDER_MODEL_LOAD_INFO_FB'', ''XrRenderModelLoadInfoFB''),
      (2, ''XR_TYPE_RENDER_MODEL_PATH_INFO_FB'', ''XrRenderModelPathInfoFB''),
      (2, ''XR_TYPE_RENDER_MODEL_PROPERTIES_FB'', ''XrRenderModelPropertiesFB''),
      (2, ''XR_TYPE_SYSTEM_RENDER_MODEL_PROPERTIES_FB'', ''XrSystemRenderModelPropertiesFB'')]),
    (''XR_FB_scene'',
     [(2, ''XR_TYPE_BOUNDARY_2D_FB'', ''XrBoundary2DFB''),
      (2, ''XR_TYPE_ROOM_LAYOUT_FB'', ''XrRoomLayoutFB''),
      (2, ''XR_TYPE_SEMANTIC_LABELS_FB'', ''XrSemanticLabelsFB''),
      (2, ''XR_TYPE_SEMANTIC_LABELS_SUPPORT_INFO_FB'', ''XrSemanticLabelsSupportInfoFB'')]),
    (''XR_FB_scene_capture'',
     [(2, ''XR_TYPE_EVENT_DATA_SCENE_CAPTURE_COMPLETE_FB'', ''XrEventDataSceneCaptureCompleteFB''),
      (2, ''XR_TYPE_SCENE_CAPTURE_REQUEST_INFO_FB'', ''XrSceneCaptureRequestInfoFB'')]),
    (''XR_FB_space_warp'',
     [(2, ''XR_TYPE_COMPOSITION_LAYER_SPACE_WARP_INFO_FB'', ''XrCompositionLayerSpaceWarpInfoFB''),
      (2, ''XR_TYPE_SYSTEM_SPACE_WARP_PROPERTIES_FB'', ''XrSystemSpaceWarpPropertiesFB'')]),
    (''XR_FB_spatial_entity'',
     [(2, ''XR_TYPE_EVENT_DATA_SPACE_SET_STATUS_COMPLETE_FB'', ''XrEventDataSpaceSetStatusCompleteFB''),
      (2, ''XR_TYPE_EVENT_DATA_SPATIAL_ANCHOR_CREATE_COMPLETE_FB'', ''XrEventDataSpatialAnchorCreateCompleteFB''),
      (2, ''XR_TYPE_SPACE_COMPONENT_STATUS_FB'', ''XrSpaceComponentStatusFB''),
      (2, ''XR_TYPE_SPACE_COMPONENT_STATUS_SET_INFO_FB'', ''XrSpaceComponentStatusSetInfoFB''),
      (2, ''XR_TYPE_SPATIAL_ANCHOR_CREATE_INFO_FB'', ''XrSpatialAnchorCreateInfoFB''),
      (2, ''XR_TYPE_SYSTEM_SPATIAL_ENTITY_PROPERTIES_FB'', ''XrSystemSpatialEntityPropertiesFB'')]),
    (''XR_FB_spatial_entity_container'',
     [(2, ''XR_TYPE_SPACE_CONTAINER_FB'', ''XrSpaceContainerFB'')]),
    (''XR_FB_spatial_entity_query'',
     [(2, ''XR_TYPE_EVENT_DATA_SPACE_QUERY_COMPLETE_FB'', ''XrEventDataSpaceQueryCompleteFB''),
      (2, ''XR_TYPE_EVENT_DATA_SPACE_QUERY_RESULTS_AVAILABLE_FB'', ''XrEventDataSpaceQueryResultsAvailableFB''),
      (2, ''XR_TYPE_SPACE_COMPONENT_FILTER_INFO_FB'', ''XrSpaceComponentFilterInfoFB''),
      (2, ''XR_TYPE_SPACE_QUERY_INFO_FB'', ''XrSpaceQueryInfoFB''),
      (2, ''XR_TYPE_SPACE_QUERY_RESULTS_FB'', ''XrSpaceQueryResultsFB''),
      (2, ''XR_TYPE_SPACE_STORAGE_LOCATION_FILTER_INFO_FB'', ''XrSpaceStorageLocationFilterInfoFB''),
      (2, ''XR_TYPE_SPACE_UUID_FILTER_INFO_FB'', ''XrSpaceUuidFilterInfoFB'')]),
    (''XR_FB_spatial_entity_sharing'',
     [(2, ''XR_TYPE_EVENT_DATA_SPACE_SHARE_COMPLETE_FB'', ''XrEventDataSpaceShareCompleteFB''),
      (2, ''XR_TYPE_SPACE_SHARE_INFO_FB'', ''XrSpaceShareInfoFB'')]),
    (''XR_FB_spatial_entity_storage'',
     [(2, ''XR_TYPE_EVENT_DATA_SPACE_ERASE_COMPLETE_FB'', ''XrEventDataSpaceEraseCompleteFB''),
      (2, ''XR_TYPE_EVENT_DATA_SPACE_SAVE_COMPLETE_FB'', ''XrEventDataSpaceSaveCompleteFB''),
      (2, ''XR_TYPE_SPACE_ERASE_INFO_FB'', ''XrSpaceEraseInfoFB''),
      (2, ''XR_TYPE_SPACE_SAVE_INFO_FB'', ''XrSpaceSaveInfoFB'')]),
    (''XR_FB_spatial_entity_storage_batch'',
     [(2, ''XR_TYPE_EVENT_DATA_SPACE_LIST_SAVE_COMPLETE_FB'', ''XrEventDataSpaceListSaveCompleteFB''),
      (2, ''XR_TYPE_SPACE_LIST_SAVE_INFO_FB'', ''XrSpaceListSaveInfoFB'')]),
    (''XR_FB_spatial_entity_user'',
     [(2, ''XR_TYPE_SPACE_USER_CREATE_INFO_FB'', ''XrSpaceUserCreateInfoFB'')]),
    (''XR_FB_swapchain_update_state_android_surface'',
     [(2, ''XR_TYPE_SWAPCHAIN_STATE_ANDROID_SURFACE_DIMENSIONS_FB'', ''XrSwapchainStateAndroidSurfaceDimensionsFB'')])]"

definition ext_serializer_rows_4 :: "(string \<times> (nat \<times> string \<times> string) list) list" where
  "ext_serializer_rows_4 =
   [(''XR_FB_swapchain_update_state_opengl_es'',
     [(2, ''XR_TYPE_SWAPCHAIN_STATE_SAMPLER_OPENGL_ES_FB'', ''XrSwapchainStateSamplerOpenGLESFB'')]),
    (''XR_FB_swapchain_update_state_vulkan'',
     [(2, ''XR_TYPE_SWAPCHAIN_STATE_SAMPLER_VULKAN_FB'', ''XrSwapchainStateSamplerVulkanFB'')]),
    (''XR_FB_triangle_mesh'',
     [(2, ''XR_TYPE_TRIANGLE_MESH_CREATE_INFO_FB'', ''XrTriangleMeshCreateInfoFB'')]),
    (''XR_HTCX_vive_tracker_interaction'',
     [(2, ''XR_TYPE_EVENT_DATA_VIVE_TRACKER_CONNECTED_HTCX'', ''XrEventDataViveTrackerConnectedHTCX''),
      (2, ''XR_TYPE_VIVE_TRACKER_PATHS_HTCX'', ''XrViveTrackerPathsHTCX'')]),
    (''XR_HTC_anchor'',
     [(2, ''XR_TYPE_SPATIAL_ANCHOR_CREATE_INFO_HTC'', ''XrSpatialAnchorCreateInfoHTC''),
      (2, ''XR_TYPE_SYSTEM_ANCHOR_PROPERTIES_HTC'', ''XrSystemAnchorPropertiesHTC'')]),
    (''XR_HTC_body_tracking'',
     [(2, ''XR_TYPE_BODY_JOINT_LOCATIONS_HTC'', ''XrBodyJointLocationsHTC''),
      (2, ''XR_TYPE_BODY_JOINTS_LOCATE_INFO_HTC'', ''XrBodyJointsLocateInfoHTC''),
      (2, ''XR_TYPE_BODY_SKELETON_HTC'', ''XrBodySkeletonHTC''),
      (2, ''XR_TYPE_BODY_TRACKER_CREATE_INFO_HTC'', ''XrBodyTrackerCreateInfoHTC''),
      (2, ''XR_TYPE_SYSTEM_BODY_TRACKING_PROPERTIES_HTC'', ''XrSystemBodyTrackingPropertiesHTC'')]),
    (''XR_HTC_facial_tracking'',
     [(2, ''XR_TYPE_FACIAL_EXPRESSIONS_HTC'', ''XrFacialExpressionsHTC''),
      (2, ''XR_TYPE_FACIAL_TRACKER_CREATE_INFO_HTC'', ''XrFacialTrackerCreateInfoHTC''),
      (2, ''XR_TYPE_SYSTEM_FACIAL_TRACKING_PROPERTIES_HTC'', ''XrSystemFacialTrackingPropertiesHTC'')]),
    (''XR_HTC_foveation'',
     [(2, ''XR_TYPE_FOVEATION_APPLY_INFO_HTC'', ''XrFoveationApplyInfoHTC''),
      (2, ''XR_TYPE_FOVEATION_CUSTOM_MODE_INFO_HTC'', ''XrFoveationCustomModeInfoHTC''),
      (2, ''XR_TYPE_FOVEATION_DYNAMIC_MODE_INFO_HTC'', ''XrFoveationDynamicModeInfoHTC'')]),
    (''XR_HTC_passthrough'',
     [(2, ''XR_TYPE_COMPOSITION_LAYER_PASSTHROUGH_HTC'', ''XrCompositionLayerPassthroughHTC''),
      (2, ''XR_TYPE_PASSTHROUGH_COLOR_HTC'', ''XrPassthroughColorHTC''),
      (2, ''XR_TYPE_PASSTHROUGH_CREATE_INFO_HTC'', ''XrPassthroughCreateInfoHTC''),
      (2, ''XR_TYPE_PASSTHROUGH_MESH_TRANSFORM_INFO_HTC'', ''XrPassthroughMeshTransformInfoHTC'')]),
    (''XR_KHR_D3D11_enable'',
     [(2, ''XR_TYPE_GRAPHICS_BINDING_D3D11_KHR'', ''XrGraphicsBindingD3D11KHR''),
      (2, ''XR_TYPE_GRAPHICS_REQUIREMENTS_D3D11_KHR'', ''XrGraphicsRequirementsD3D11KHR''),
      (2, ''XR_TYPE_SWAPCHAIN_IMAGE_D3D11_KHR'', ''XrSwapchainImageD3D11KHR'')]),
    (''XR_KHR_D3D12_enable'',
     [(2, ''XR_TYPE_GRAPHICS_BINDING_D3D12_KHR'', ''XrGraphicsBindingD3D12KHR''),
      (2, ''XR_TYPE_GRAPHICS_REQUIREMENTS_D3D12_KHR'', ''XrGraphicsRequirementsD3D12KHR''),
      (2, ''XR_TYPE_SWAPCHAIN_IMAGE_D3D12_KHR'', ''XrSwapchainImageD3D12KHR'')]),
    (''XR_KHR_android_create_instance'',
     [(2, ''XR_TYPE_INSTANCE_CREATE_INFO_ANDROID_KHR'', ''XrInstanceCreateInfoAndroidKHR'')]),
    (''XR_KHR_binding_modification'',
     [(2, ''XR_TYPE_BINDING_MODIFICATIONS_KHR'', ''XrBindingModificationsKHR'')]),
    (''XR_KHR_composition_layer_color_scale_bias'',
     [(2, ''XR_TYPE_COMPOSITION_LAYER_COLOR_SCALE_BIAS_KHR'', ''XrCompositionLayerColorScaleBiasKHR'')]),
    (''XR_KHR_composition_layer_cube'',
     [(2, ''XR_TYPE_COMPOSITION_LAYER_CUBE_KHR'', ''XrCompositionLayerCubeKHR'')]),
    (''XR_KHR_composition_layer_cylinder'',
     [(2, ''XR_TYPE_COMPOSITION_LAYER_CYLINDER_KHR'', ''XrCompositionLayerCylinderKHR'')]),
    (''XR_KHR_composition_layer_depth'',
     [(2, ''XR_TYPE_COMPOSITION_LAYER_DEPTH_INFO_KHR'', ''XrCompositionLayerDepthInfoKHR'')]),
    (''XR_KHR_composition_layer_equirect'',
     [(2, ''XR_TYPE_COMPOSITION_LAYER_EQUIRECT_KHR'', ''XrCompositionLayerEquirectKHR'')]),
    (''XR_KHR_composition_layer_equirect2'',
     [(2, ''XR_TYPE_COMPOSITION_LAYER_EQUIRECT2_KHR'', ''XrCompositionLayerEquirect2KHR'')]),
    (''XR_KHR_loader_init_android'',
     [(2, ''XR_TYPE_LOADER_INIT_INFO_ANDROID_KHR'', ''XrLoaderInitInfoAndroidKHR'')]),
    (''XR_KHR_metal_enable'',
     [(2, ''XR_TYPE_GRAPHICS_BINDING_METAL_KHR'', ''XrGraphicsBindingMetalKHR''),
      (2, ''XR_TYPE_GRAPHICS_REQUIREMENTS_METAL_KHR'', ''XrGraphicsRequirementsMetalKHR''),
      (2, ''XR_TYPE_SWAPCHAIN_IMAGE_METAL_KHR'', ''XrSwapchainImageMetalKHR'')]),
    (''XR_KHR_opengl_enable'',
     [(2, ''XR_TYPE_GRAPHICS_BINDING_OPENGL_WAYLAND_KHR'', ''XrGraphicsBindingOpenGLWaylandKHR''),
      (2, ''XR_TYPE_GRAPHICS_BINDING_OPENGL_WIN32_KHR'', ''XrGraphicsBindingOpenGLWin32KHR''),
      (2, ''XR_TYPE_GRAPHICS_BINDING_OPENGL_XCB_KHR'', ''XrGraphicsBindingOpenGLXcbKHR''),
      (2, ''XR_TYPE_GRAPHICS_BINDING_OPENGL_XLIB_KHR'', ''XrGraphicsBindingOpenGLXlibKHR''),
      (2, ''XR_TYPE_GRAPHICS_REQUIREMENTS_OPENGL_KHR'', ''XrGraphicsRequirementsOpenGLKHR''),
      (2, ''XR_TYPE_SWAPCHAIN_IMAGE_OPENGL_KHR'', ''XrSwapchainImageOpenGLKHR'')]),
    (''XR_KHR_opengl_es_enable'',
     [(2, ''XR_TYPE_GRAPHICS_BINDING_OPENGL_ES_ANDROID_KHR'', ''XrGraphicsBindingOpenGLESAndroidKHR''),
      (2, ''XR_TYPE_GRAPHICS_REQUIREMENTS_OPENGL_ES_KHR'', ''XrGraphicsRequirementsOpenGLESKHR''),
      (2, ''XR_TYPE_SWAPCHAIN_IMAGE_OPENGL_ES_KHR'', ''XrSwapchainImageOpenGLESKHR'')]),
    (''XR_KHR_visibility_mask'',
     [(2, ''XR_TYPE_EVENT_DATA_VISIBILITY_MASK_CHANGED_KHR'', ''XrEventDataVisibilityMaskChangedKHR''),
      (2, ''XR_TYPE_VISIBILITY_MASK_KHR'', ''XrVisibilityMaskKHR'')])]"

definition ext_serializer_rows_5 :: "(string \<times> (nat \<times> string \<times> string) list) list" where
  "ext_serializer_rows_5 =
   [(''XR_KHR_vulkan_enable'',
     [(2, ''XR_TYPE_GRAPHICS_BINDING_VULKAN_KHR'', ''XrGraphicsBindingVulkanKHR''),
      (2, ''XR_TYPE_GRAPHICS_REQUIREMENTS_VULKAN_KHR'', ''XrGraphicsRequirementsVulkanKHR''),
      (2, ''XR_TYPE_SWAPCHAIN_IMAGE_VULKAN_KHR'', ''XrSwapchainImageVulkanKHR'')]),
    (''XR_KHR_vulkan_enable2'',
     [(2, ''XR_TYPE_VULKAN_DEVICE_CREATE_INFO_KHR'', ''XrVulkanDeviceCreateInfoKHR''),
      (2, ''XR_TYPE_VULKAN_GRAPHICS_DEVICE_GET_INFO_KHR'', ''XrVulkanGraphicsDeviceGetInfoKHR''),
      (2, ''XR_TYPE_VULKAN_INSTANCE_CREATE_INFO_KHR'', ''XrVulkanInstanceCreateInfoKHR'')]),
    (''XR_KHR_vulkan_swapchain_format_list'',
     [(2, ''XR_TYPE_VULKAN_SWAPCHAIN_FORMAT_LIST_CREATE_INFO_KHR'', ''XrVulkanSwapchainFormatListCreateInfoKHR'')]),
    (''XR_META_body_tracking_full_body'',
     [(2, ''XR_TYPE_SYSTEM_PROPERTIES_BODY_TRACKING_FULL_BODY_META'', ''XrSystemPropertiesBodyTrackingFullBodyMETA'')]),
    (''XR_META_colocation_discovery'',
     [(2, ''XR_TYPE_COLOCATION_ADVERTISEMENT_START_INFO_META'', ''XrColocationAdvertisementStartInfoMETA''),
      (2, ''XR_TYPE_COLOCATION_ADVERTISEMENT_STOP_INFO_META'', ''XrColocationAdvertisementStopInfoMETA''),
      (2, ''XR_TYPE_COLOCATION_DISCOVERY_START_INFO_META'', ''XrColocationDiscoveryStartInfoMETA''),
      (2, ''XR_TYPE_COLOCATION_DISCOVERY_STOP_INFO_META'', ''XrColocationDiscoveryStopInfoMETA''),
      (2, ''XR_TYPE_EVENT_DATA_COLOCATION_ADVERTISEMENT_COMPLETE_META'', ''XrEventDataColocationAdvertisementCompleteMETA''),
      (2, ''XR_TYPE_EVENT_DATA_COLOCATION_DISCOVERY_COMPLETE_META'', ''XrEventDataColocationDiscoveryCompleteMETA''),
      (2, ''XR_TYPE_EVENT_DATA_COLOCATION_DISCOVERY_RESULT_META'', ''XrEventDataColocationDiscoveryResultMETA''),
      (2, ''XR_TYPE_EVENT_DATA_START_COLOCATION_ADVERTISEMENT_COMPLETE_META'', ''XrEventDataStartColocationAdvertisementCompleteMETA''),
      (2, ''XR_TYPE_EVENT_DATA_START_COLOCATION_DISCOVERY_COMPLETE_META'', ''XrEventDataStartColocationDiscoveryCompleteMETA''),
      (2, ''XR_TYPE_EVENT_DATA_STOP_COLOCATION_ADVERTISEMENT_COMPLETE_META'', ''XrEventDataStopColocationAdvertisementCompleteMETA''),
      (2, ''XR_TYPE_EVENT_DATA_STOP_COLOCATION_DISCOVERY_COMPLETE_META'', ''XrEventDataStopColocationDiscoveryCompleteMETA''),
      (2, ''XR_TYPE_SYSTEM_COLOCATION_DISCOVERY_PROPERTIES_META'', ''XrSystemColocationDiscoveryPropertiesMETA'')]),
    (''XR_META_environment_depth'',
     [(2, ''XR_TYPE_ENVIRONMENT_DEPTH_HAND_REMOVAL_SET_INFO_META'', ''XrEnvironmentDepthHandRemovalSetInfoMETA''),
      (2, ''XR_TYPE_ENVIRONMENT_DEPTH_IMAGE_ACQUIRE_INFO_META'', ''XrEnvironmentDepthImageAcquireInfoMETA''),
      (2, ''XR_TYPE_ENVIRONMENT_DEPTH_IMAGE_META'', ''XrEnvironmentDepthImageMETA''),
      (2, ''XR_TYPE_ENVIRONMENT_DEPTH_IMAGE_VIEW_META'', ''XrEnvironmentDepthImageViewMETA''),
      (2, ''XR_TYPE_ENVIRONMENT_DEPTH_PROVIDER_CREATE_INFO_META'', ''XrEnvironmentDepthProviderCreateInfoMETA''),
      (2, ''XR_TYPE_ENVIRONMENT_DEPTH_SWAPCHAIN_CREATE_INFO_META'', ''XrEnvironmentDepthSwapchainCreateInfoMETA''),
      (2, ''XR_TYPE_ENVIRONMENT_DEPTH_SWAPCHAIN_STATE_META'', ''XrEnvironmentDepthSwapchainStateMETA''),
      (2, ''XR_TYPE_SYSTEM_ENVIRONMENT_DEPTH_PROPERTIES_META'', ''XrSystemEnvironmentDepthPropertiesMETA'')]),
    (''XR_META_foveation_eye_tracked'',
     [(2, ''XR_TYPE_FOVEATION_EYE_TRACKED_PROFILE_CREATE_INFO_META'', ''XrFoveationEyeTrackedProfileCreateInfoMETA''),
      (2, ''XR_TYPE_FOVEATION_EYE_TRACKED_STATE_META'', ''XrFoveationEyeTrackedStateMETA''),
      (2, ''XR_TYPE_SYSTEM_FOVEATION_EYE_TRACKED_PROPERTIES_META'', ''XrSystemFoveationEyeTrackedPropertiesMETA'')]),
    (''XR_META_headset_id'',
     [(2, ''XR_TYPE_SYSTEM_HEADSET_ID_PROPERTIES_META'', ''XrSystemHeadsetIdPropertiesMETA'')]),
    (''XR_META_local_dimming'',
     [(2, ''XR_TYPE_LOCAL_DIMMING_FRAME_END_INFO_META'', ''XrLocalDimmingFrameEndInfoMETA'')]),
    (''XR_META_passthrough_color_lut'',
     [(2, ''XR_TYPE_PASSTHROUGH_COLOR_LUT_CREATE_INFO_META'', ''XrPassthroughColorLutCreateInfoMETA''),
      (2, ''XR_TYPE_PASSTHROUGH_COLOR_LUT_UPDATE_INFO_META'', ''XrPassthroughColorLutUpdateInfoMETA''),
      (2, ''XR_TYPE_PASSTHROUGH_COLOR_MAP_INTERPOLATED_LUT_META'', ''XrPassthroughColorMapInterpolatedLutMETA''),
      (2, ''XR_TYPE_PASSTHROUGH_COLOR_MAP_LUT_META'', ''XrPassthroughColorMapLutMETA''),
      (2, ''XR_TYPE_SYSTEM_PASSTHROUGH_COLOR_LUT_PROPERTIES_META'', ''XrSystemPassthroughColorLutPropertiesMETA'')]),
    (''XR_META_passthrough_layer_resumed_event'',
     [(2, ''XR_TYPE_EVENT_DATA_PASSTHROUGH_LAYER_RESUMED_META'', ''XrEventDataPassthroughLayerResumedMETA'')]),
    (''XR_META_passthrough_preferences'',
     [(2, ''XR_TYPE_PASSTHROUGH_PREFERENCES_META'', ''XrPassthroughPreferencesMETA'')]),
    (''XR_META_performance_metrics'',
     [(2, ''XR_TYPE_PERFORMANCE_METRICS_COUNTER_META'', ''XrPerformanceMetricsCounterMETA''),
      (2, ''XR_TYPE_PERFORMANCE_METRICS_STATE_META'', ''XrPerformanceMetricsStateMETA'')]),
    (''XR_META_recommended_layer_resolution'',
     [(2, ''XR_TYPE_RECOMMENDED_LAYER_RESOLUTION_GET_INFO_META'', ''XrRecommendedLayerResolutionGetInfoMETA''),
      (2, ''XR_TYPE_RECOMMENDED_LAYER_RESOLUTION_META'', ''XrRecommendedLayerResolutionMETA'')]),
    (''XR_META_simultaneous_hands_and_controllers'',
     [(2, ''XR_TYPE_SIMULTANEOUS_HANDS_AND_CONTROLLERS_TRACKING_PAUSE_INFO_META'', ''XrSimultaneousHandsAndControllersTrackingPauseInfoMETA''),
      (2, ''XR_TYPE_SIMULTANEOUS_HANDS_AND_CONTROLLERS_TRACKING_RESUME_INFO_META'', ''XrSimultaneousHandsAndControllersTrackingResumeInfoMETA''),
      (2, ''XR_TYPE_SYSTEM_SIMULTANEOUS_HANDS_AND_CONTROLLERS_PROPERTIES_META'', ''XrSystemSimultaneousHandsAndControllersPropertiesMETA'')]),
    (''XR_META_spatial_entity_group_sharing'',
     [(2, ''XR_TYPE_SHARE_SPACES_RECIPIENT_GROUPS_META'', ''XrShareSpacesRecipientGroupsMETA''),
      (2, ''XR_TYPE_SPACE_GROUP_UUID_FILTER_INFO_META'', ''XrSpaceGroupUuidFilterInfoMETA''),
      (2, ''XR_TYPE_SYSTEM_SPATIAL_ENTITY_GROUP_SHARING_PROPERTIES_META'', ''XrSystemSpatialEntityGroupSharingPropertiesMETA'')]),
    (''XR_META_spatial_entity_mesh'',
     [(2, ''XR_TYPE_SPACE_TRIANGLE_MESH_GET_INFO_META'', ''XrSpaceTriangleMeshGetInfoMETA''),
      (2, ''XR_TYPE_SPACE_TRIANGLE_MESH_META'', ''XrSpaceTriangleMeshMETA'')]),
    (''XR_META_spatial_entity_sharing'',
     [(2, ''XR_TYPE_EVENT_DATA_SHARE_SPACES_COMPLETE_META'', ''XrEventDataShareSpacesCompleteMETA''),
      (2, ''XR_TYPE_SHARE_SPACES_INFO_META'', ''XrShareSpacesInfoMETA''),
      (2, ''XR_TYPE_SYSTEM_SPATIAL_ENTITY_SHARING_PROPERTIES_META'', ''XrSystemSpatialEntitySharingPropertiesMETA'')]),
    (''XR_META_virtual_keyboard'',
     [(2, ''XR_TYPE_EVENT_DATA_VIRTUAL_KEYBOARD_BACKSPACE_META'', ''XrEventDataVirtualKeyboardBackspaceMETA''),
      (2, ''XR_TYPE_EVENT_DATA_VIRTUAL_KEYBOARD_COMMIT_TEXT_META'', ''XrEventDataVirtualKeyboardCommitTextMETA'')])]"

definition ext_serializer_rows_6 :: "(string \<times> (nat \<times> string \<times> string) list) list" where
  "ext_serializer_rows_6 =
   [(''XR_META_virtual_keyboard'',
     [(2, ''XR_TYPE_EVENT_DATA_VIRTUAL_KEYBOARD_ENTER_META'', ''XrEventDataVirtualKeyboardEnterMETA''),
      (2, ''XR_TYPE_EVENT_DATA_VIRTUAL_KEYBOARD_HIDDEN_META'', ''XrEventDataVirtualKeyboardHiddenMETA''),
      (2, ''XR_TYPE_EVENT_DATA_VIRTUAL_KEYBOARD_SHOWN_META'', ''XrEventDataVirtualKeyboardShownMETA''),
      (2, ''XR_TYPE_SYSTEM_VIRTUAL_KEYBOARD_PROPERTIES_META'', ''XrSystemVirtualKeyboardPropertiesMETA''),
      (2, ''XR_TYPE_VIRTUAL_KEYBOARD_ANIMATION_STATE_META'', ''XrVirtualKeyboardAnimationStateMETA''),
      (2, ''XR_TYPE_VIRTUAL_KEYBOARD_CREATE_INFO_META'', ''XrVirtualKeyboardCreateInfoMETA''),
      (2, ''XR_TYPE_VIRTUAL_KEYBOARD_INPUT_INFO_META'', ''XrVirtualKeyboardInputInfoMETA''),
      (2, ''XR_TYPE_VIRTUAL_KEYBOARD_LOCATION_INFO_META'', ''XrVirtualKeyboardLocationInfoMETA''),
      (2, ''XR_TYPE_VIRTUAL_KEYBOARD_MODEL_ANIMATION_STATES_META'', ''XrVirtualKeyboardModelAnimationStatesMETA''),
      (2, ''XR_TYPE_VIRTUAL_KEYBOARD_MODEL_VISIBILITY_SET_INFO_META'', ''XrVirtualKeyboardModelVisibilitySetInfoMETA''),
      (2, ''XR_TYPE_VIRTUAL_KEYBOARD_SPACE_CREATE_INFO_META'', ''XrVirtualKeyboardSpaceCreateInfoMETA''),
      (2, ''XR_TYPE_VIRTUAL_KEYBOARD_TEXT_CONTEXT_CHANGE_INFO_META'', ''XrVirtualKeyboardTextContextChangeInfoMETA''),
      (2, ''XR_TYPE_VIRTUAL_KEYBOARD_TEXTURE_DATA_META'', ''XrVirtualKeyboardTextureDataMETA'')]),
    (''XR_META_vulkan_swapchain_create_info'',
     [(2, ''XR_TYPE_VULKAN_SWAPCHAIN_CREATE_INFO_META'', ''XrVulkanSwapchainCreateInfoMETA'')]),
    (''XR_ML_compat'',
     [(1, ''XR_TYPE_COORDINATE_SPACE_CREATE_INFO_ML'', ''XrCoordinateSpaceCreateInfoML'')]),
    (''XR_ML_facial_expression'',
     [(2, ''XR_TYPE_FACIAL_EXPRESSION_BLEND_SHAPE_GET_INFO_ML'', ''XrFacialExpressionBlendShapeGetInfoML''),
      (2, ''XR_TYPE_FACIAL_EXPRESSION_BLEND_SHAPE_PROPERTIES_ML'', ''XrFacialExpressionBlendShapePropertiesML''),
      (2, ''XR_TYPE_FACIAL_EXPRESSION_CLIENT_CREATE_INFO_ML'', ''XrFacialExpressionClientCreateInfoML''),
      (2, ''XR_TYPE_SYSTEM_FACIAL_EXPRESSION_PROPERTIES_ML'', ''XrSystemFacialExpressionPropertiesML'')]),
    (''XR_ML_frame_end_info'',
     [(2, ''XR_TYPE_FRAME_END_INFO_ML'', ''XrFrameEndInfoML'')]),
    (''XR_ML_global_dimmer'',
     [(2, ''XR_TYPE_GLOBAL_DIMMER_FRAME_END_INFO_ML'', ''XrGlobalDimmerFrameEndInfoML'')]),
    (''XR_ML_localization_map'',
     [(2, ''XR_TYPE_EVENT_DATA_LOCALIZATION_CHANGED_ML'', ''XrEventDataLocalizationChangedML''),
      (2, ''XR_TYPE_LOCALIZATION_ENABLE_EVENTS_INFO_ML'', ''XrLocalizationEnableEventsInfoML''),
      (2, ''XR_TYPE_LOCALIZATION_MAP_IMPORT_INFO_ML'', ''XrLocalizationMapImportInfoML''),
      (2, ''XR_TYPE_LOCALIZATION_MAP_ML'', ''XrLocalizationMapML''),
      (2, ''XR_TYPE_MAP_LOCALIZATION_REQUEST_INFO_ML'', ''XrMapLocalizationRequestInfoML'')]),
    (''XR_ML_marker_understanding'',
     [(2, ''XR_TYPE_MARKER_DETECTOR_APRIL_TAG_INFO_ML'', ''XrMarkerDetectorAprilTagInfoML''),
      (2, ''XR_TYPE_MARKER_DETECTOR_ARUCO_INFO_ML'', ''XrMarkerDetectorArucoInfoML''),
      (2, ''XR_TYPE_MARKER_DETECTOR_CREATE_INFO_ML'', ''XrMarkerDetectorCreateInfoML''),
      (2, ''XR_TYPE_MARKER_DETECTOR_CUSTOM_PROFILE_INFO_ML'', ''XrMarkerDetectorCustomProfileInfoML''),
      (2, ''XR_TYPE_MARKER_DETECTOR_SIZE_INFO_ML'', ''XrMarkerDetectorSizeInfoML''),
      (2, ''XR_TYPE_MARKER_DETECTOR_SNAPSHOT_INFO_ML'', ''XrMarkerDetectorSnapshotInfoML''),
      (2, ''XR_TYPE_MARKER_DETECTOR_STATE_ML'', ''XrMarkerDetectorStateML''),
      (2, ''XR_TYPE_MARKER_SPACE_CREATE_INFO_ML'', ''XrMarkerSpaceCreateInfoML''),
      (2, ''XR_TYPE_SYSTEM_MARKER_UNDERSTANDING_PROPERTIES_ML'', ''XrSystemMarkerUnderstandingPropertiesML'')]),
    (''XR_ML_spatial_anchors'',
     [(2, ''XR_TYPE_CREATE_SPATIAL_ANCHORS_COMPLETION_ML'', ''XrCreateSpatialAnchorsCompletionML''),
      (2, ''XR_TYPE_SPATIAL_ANCHOR_STATE_ML'', ''XrSpatialAnchorStateML''),
      (2, ''XR_TYPE_SPATIAL_ANCHORS_CREATE_INFO_FROM_POSE_ML'', ''XrSpatialAnchorsCreateInfoFromPoseML'')]),
    (''XR_ML_spatial_anchors_storage'',
     [(2, ''XR_TYPE_SPATIAL_ANCHORS_CREATE_INFO_FROM_UUIDS_ML'', ''XrSpatialAnchorsCreateInfoFromUuidsML''),
      (2, ''XR_TYPE_SPATIAL_ANCHORS_CREATE_STORAGE_INFO_ML'', ''XrSpatialAnchorsCreateStorageInfoML''),
      (2, ''XR_TYPE_SPATIAL_ANCHORS_DELETE_COMPLETION_DETAILS_ML'', ''XrSpatialAnchorsDeleteCompletionDetailsML''),
      (2, ''XR_TYPE_SPATIAL_ANCHORS_DELETE_COMPLETION_ML'', ''XrSpatialAnchorsDeleteCompletionML''),
      (2, ''XR_TYPE_SPATIAL_ANCHORS_DELETE_INFO_ML'', ''XrSpatialAnchorsDeleteInfoML''),
      (2, ''XR_TYPE_SPATIAL_ANCHORS_PUBLISH_COMPLETION_DETAILS_ML'', ''XrSpatialAnchorsPublishCompletionDetailsML''),
      (2, ''XR_TYPE_SPATIAL_ANCHORS_PUBLISH_COMPLETION_ML'', ''XrSpatialAnchorsPublishCompletionML''),
      (2, ''XR_TYPE_SPATIAL_ANCHORS_PUBLISH_INFO_ML'', ''XrSpatialAnchorsPublishInfoML''),
      (2, ''XR_TYPE_SPATIAL_ANCHORS_QUERY_COMPLETION_ML'', ''XrSpatialAnchorsQueryCompletionML''),
      (2, ''XR_TYPE_SPATIAL_ANCHORS_QUERY_INFO_RADIUS_ML'', ''XrSpatialAnchorsQueryInfoRadiusML''),
      (2, ''XR_TYPE_SPATIAL_ANCHORS_UPDATE_EXPIRATION_COMPLETION_DETAILS_ML'', ''XrSpatialAnchorsUpdateExpirationCompletionDetailsML''),
      (2, ''XR_TYPE_SPATIAL_ANCHORS_UPDATE_EXPIRATION_COMPLETION_ML'', ''XrSpatialAnchorsUpdateExpirationCompletionML''),
      (2, ''XR_TYPE_SPATIAL_ANCHORS_UPDATE_EXPIRATION_INFO_ML'', ''XrSpatialAnchorsUpdateExpirationInfoML'')]),
    (''XR_ML_system_notifications'',
     [(2, ''XR_TYPE_SYSTEM_NOTIFICATIONS_SET_INFO_ML'', ''XrSystemNotificationsSetInfoML'')]),
    (''XR_ML_user_calibration'',
     [(2, ''XR_TYPE_EVENT_DATA_EYE_CALIBRATION_CHANGED_ML'', ''XrEventDataEyeCalibrationChangedML''),
      (2, ''XR_TYPE_EVENT_DATA_HEADSET_FIT_CHANGED_ML'', ''XrEventDataHeadsetFitChangedML''),
      (2, ''XR_TYPE_USER_CALIBRATION_ENABLE_EVENTS_INFO_ML'', ''XrUserCalibrationEnableEventsInfoML'')]),
    (''XR_ML_world_mesh_detection'',
     [(2, ''XR_TYPE_WORLD_MESH_BLOCK_ML'', ''XrWorldMeshBlockML''),
      (2, ''XR_TYPE_WORLD_MESH_BLOCK_REQUEST_ML'', ''XrWorldMeshBlockRequestML''),
      (2, ''XR_TYPE_WORLD_MESH_BLOCK_STATE_ML'', ''XrWorldMeshBlockStateML''),
      (2, ''XR_TYPE_WORLD_MESH_BUFFER_ML'', ''XrWorldMeshBufferML''),
      (2, ''XR_TYPE_WORLD_MESH_BUFFER_RECOMMENDED_SIZE_INFO_ML'', ''XrWorldMeshBufferRecommendedSizeInfoML''),
      (2, ''XR_TYPE_WORLD_MESH_BUFFER_SIZE_ML'', ''XrWorldMeshBufferSizeML''),
      (2, ''XR_TYPE_WORLD_MESH_DETECTOR_CREATE_INFO_ML'', ''XrWorldMeshDetectorCreateInfoML''),
      (2, ''XR_TYPE_WORLD_MESH_GET_INFO_ML'', ''XrWorldMeshGetInfoML'')])]"

definition ext_serializer_rows_7 :: "(string \<times> (nat \<times> string \<times> string) list) list" where
  "ext_serializer_rows_7 =
   [(''XR_ML_world_mesh_detection'',
     [(2, ''XR_TYPE_WORLD_MESH_REQUEST_COMPLETION_INFO_ML'', ''XrWorldMeshRequestCompletionInfoML''),
      (2, ''XR_TYPE_WORLD_MESH_REQUEST_COMPLETION_ML'', ''XrWorldMeshRequestCompletionML''),
      (2, ''XR_TYPE_WORLD_MESH_STATE_REQUEST_COMPLETION_ML'', ''XrWorldMeshStateRequestCompletionML''),
      (2, ''XR_TYPE_WORLD_MESH_STATE_REQUEST_INFO_ML'', ''XrWorldMeshStateRequestInfoML'')]),
    (''XR_MNDX_egl_enable'',
     [(2, ''XR_TYPE_GRAPHICS_BINDING_EGL_MNDX'', ''XrGraphicsBindingEGLMNDX'')]),
    (''XR_MNDX_force_feedback_curl'',
     [(2, ''XR_TYPE_FORCE_FEEDBACK_CURL_APPLY_LOCATIONS_MNDX'', ''XrForceFeedbackCurlApplyLocationsMNDX''),
      (2, ''XR_TYPE_SYSTEM_FORCE_FEEDBACK_CURL_PROPERTIES_MNDX'', ''XrSystemForceFeedbackCurlPropertiesMNDX'')]),
    (''XR_MSFT_composition_layer_reprojection'',
     [(2, ''XR_TYPE_COMPOSITION_LAYER_REPROJECTION_INFO_MSFT'', ''XrCompositionLayerReprojectionInfoMSFT''),
      (2, ''XR_TYPE_COMPOSITION_LAYER_REPROJECTION_PLANE_OVERRIDE_MSFT'', ''XrCompositionLayerReprojectionPlaneOverrideMSFT'')]),
    (''XR_MSFT_controller_model'',
     [(2, ''XR_TYPE_CONTROLLER_MODEL_KEY_STATE_MSFT'', ''XrControllerModelKeyStateMSFT''),
      (2, ''XR_TYPE_CONTROLLER_MODEL_NODE_PROPERTIES_MSFT'', ''XrControllerModelNodePropertiesMSFT''),
      (2, ''XR_TYPE_CONTROLLER_MODEL_NODE_STATE_MSFT'', ''XrControllerModelNodeStateMSFT''),
      (2, ''XR_TYPE_CONTROLLER_MODEL_PROPERTIES_MSFT'', ''XrControllerModelPropertiesMSFT''),
      (2, ''XR_TYPE_CONTROLLER_MODEL_STATE_MSFT'', ''XrControllerModelStateMSFT'')]),
    (''XR_MSFT_hand_tracking_mesh'',
     [(2, ''XR_TYPE_HAND_MESH_MSFT'', ''XrHandMeshMSFT''),
      (2, ''XR_TYPE_HAND_MESH_SPACE_CREATE_INFO_MSFT'', ''XrHandMeshSpaceCreateInfoMSFT''),
      (2, ''XR_TYPE_HAND_MESH_UPDATE_INFO_MSFT'', ''XrHandMeshUpdateInfoMSFT''),
      (2, ''XR_TYPE_HAND_POSE_TYPE_INFO_MSFT'', ''XrHandPoseTypeInfoMSFT''),
      (2, ''XR_TYPE_SYSTEM_HAND_TRACKING_MESH_PROPERTIES_MSFT'', ''XrSystemHandTrackingMeshPropertiesMSFT'')]),
    (''XR_MSFT_holographic_window_attachment'',
     [(2, ''XR_TYPE_HOLOGRAPHIC_WINDOW_ATTACHMENT_MSFT'', ''XrHolographicWindowAttachmentMSFT'')]),
    (''XR_MSFT_scene_marker'',
     [(2, ''XR_TYPE_SCENE_MARKER_QR_CODES_MSFT'', ''XrSceneMarkerQRCodesMSFT''),
      (2, ''XR_TYPE_SCENE_MARKER_TYPE_FILTER_MSFT'', ''XrSceneMarkerTypeFilterMSFT''),
      (2, ''XR_TYPE_SCENE_MARKERS_MSFT'', ''XrSceneMarkersMSFT'')]),
    (''XR_MSFT_scene_understanding'',
     [(2, ''XR_TYPE_NEW_SCENE_COMPUTE_INFO_MSFT'', ''XrNewSceneComputeInfoMSFT''),
      (2, ''XR_TYPE_SCENE_COMPONENT_LOCATIONS_MSFT'', ''XrSceneComponentLocationsMSFT''),
      (2, ''XR_TYPE_SCENE_COMPONENT_PARENT_FILTER_INFO_MSFT'', ''XrSceneComponentParentFilterInfoMSFT''),
      (2, ''XR_TYPE_SCENE_COMPONENTS_GET_INFO_MSFT'', ''XrSceneComponentsGetInfoMSFT''),
      (2, ''XR_TYPE_SCENE_COMPONENTS_LOCATE_INFO_MSFT'', ''XrSceneComponentsLocateInfoMSFT''),
      (2, ''XR_TYPE_SCENE_COMPONENTS_MSFT'', ''XrSceneComponentsMSFT''),
      (2, ''XR_TYPE_SCENE_CREATE_INFO_MSFT'', ''XrSceneCreateInfoMSFT''),
      (2, ''XR_TYPE_SCENE_MESH_BUFFERS_GET_INFO_MSFT'', ''XrSceneMeshBuffersGetInfoMSFT''),
      (2, ''XR_TYPE_SCENE_MESH_BUFFERS_MSFT'', ''XrSceneMeshBuffersMSFT''),
      (2, ''XR_TYPE_SCENE_MESH_INDICES_UINT16_MSFT'', ''XrSceneMeshIndicesUint16MSFT''),
      (2, ''XR_TYPE_SCENE_MESH_INDICES_UINT32_MSFT'', ''XrSceneMeshIndicesUint32MSFT''),
      (2, ''XR_TYPE_SCENE_MESH_VERTEX_BUFFER_MSFT'', ''XrSceneMeshVertexBufferMSFT''),
      (2, ''XR_TYPE_SCENE_MESHES_MSFT'', ''XrSceneMeshesMSFT''),
      (2, ''XR_TYPE_SCENE_OBJECT_TYPES_FILTER_INFO_MSFT'', ''XrSceneObjectTypesFilterInfoMSFT''),
      (2, ''XR_TYPE_SCENE_OBJECTS_MSFT'', ''XrSceneObjectsMSFT''),
      (2, ''XR_TYPE_SCENE_OBSERVER_CREATE_INFO_MSFT'', ''XrSceneObserverCreateInfoMSFT''),
      (2, ''XR_TYPE_SCENE_PLANE_ALIGNMENT_FILTER_INFO_MSFT'', ''XrScenePlaneAlignmentFilterInfoMSFT''),
      (2, ''XR_TYPE_SCENE_PLANES_MSFT'', ''XrScenePlanesMSFT''),
      (2, ''XR_TYPE_VISUAL_MESH_COMPUTE_LOD_INFO_MSFT'', ''XrVisualMeshComputeLodInfoMSFT'')]),
    (''XR_MSFT_scene_understanding_serialization'',
     [(2, ''XR_TYPE_SCENE_DESERIALIZE_INFO_MSFT'', ''XrSceneDeserializeInfoMSFT''),
      (2, ''XR_TYPE_SERIALIZED_SCENE_FRAGMENT_DATA_GET_INFO_MSFT'', ''XrSerializedSceneFragmentDataGetInfoMSFT'')]),
    (''XR_MSFT_secondary_view_configuration'',
     [(2, ''XR_TYPE_SECONDARY_VIEW_CONFIGURATION_FRAME_END_INFO_MSFT'', ''XrSecondaryViewConfigurationFrameEndInfoMSFT''),
      (2, ''XR_TYPE_SECONDARY_VIEW_CONFIGURATION_FRAME_STATE_MSFT'', ''XrSecondaryViewConfigurationFrameStateMSFT''),
      (2, ''XR_TYPE_SECONDARY_VIEW_CONFIGURATION_LAYER_INFO_MSFT'', ''XrSecondaryViewConfigurationLayerInfoMSFT''),
      (2, ''XR_TYPE_SECONDARY_VIEW_CONFIGURATION_SESSION_BEGIN_INFO_MSFT'', ''XrSecondaryViewConfigurationSessionBeginInfoMSFT''),
      (2, ''XR_TYPE_SECONDARY_VIEW_CONFIGURATION_STATE_MSFT'', ''XrSecondaryViewConfigurationStateMSFT''),
      (2, ''XR_TYPE_SECONDARY_VIEW_CONFIGURATION_SWAPCHAIN_CREATE_INFO_MSFT'', ''XrSecondaryViewConfigurationSwapchainCreateInfoMSFT'')]),
    (''XR_MSFT_spatial_anchor'',
     [(1, ''XR_TYPE_SPATIAL_ANCHOR_CREATE_INFO_MSFT'', ''XrSpatialAnchorCreateInfoMSFT''),
      (1, ''XR_TYPE_SPATIAL_ANCHOR_SPACE_CREATE_INFO_MSFT'', ''XrSpatialAnchorSpaceCreateInfoMSFT'')]),
    (''XR_MSFT_spatial_anchor_persistence'',
     [(2, ''XR_TYPE_SPATIAL_ANCHOR_FROM_PERSISTED_ANCHOR_CREATE_INFO_MSFT'', ''XrSpatialAnchorFromPersistedAnchorCreateInfoMSFT''),
      (2, ''XR_TYPE_SPATIAL_ANCHOR_PERSISTENCE_INFO_MSFT'', ''XrSpatialAnchorPersistenceInfoMSFT'')]),
    (''XR_MSFT_spatial_graph_bridge'',
     [(2, ''XR_TYPE_SPATIAL_GRAPH_NODE_BINDING_PROPERTIES_GET_INFO_MSFT'', ''XrSpatialGraphNodeBindingPropertiesGetInfoMSFT''),
      (2, ''XR_TYPE_SPATIAL_GRAPH_NODE_BINDING_PROPERTIES_MSFT'', ''XrSpatialGraphNodeBindingPropertiesMSFT''),
      (2, ''XR_TYPE_SPATIAL_GRAPH_NODE_SPACE_CREATE_INFO_MSFT'', ''XrSpatialGraphNodeSpaceCreateInfoMSFT''),
      (2, ''XR_TYPE_SPATIAL_GRAPH_STATIC_NODE_BINDING_CREATE_INFO_MSFT'', ''XrSpatialGraphStaticNodeBindingCreateInfoMSFT'')]),
    (''XR_OCULUS_external_camera'',
     [(2, ''XR_TYPE_EXTERNAL_CAMERA_OCULUS'', ''XrExternalCameraOCULUS'')]),
    (''XR_VALVE_analog_threshold'',
     [(2, ''XR_TYPE_INTERACTION_PROFILE_ANALOG_THRESHOLD_VALVE'', ''XrInteractionProfileAnalogThresholdVALVE'')])]"

definition ext_serializer_rows_8 :: "(string \<times> (nat \<times> string \<times> string) list) list" where
  "ext_serializer_rows_8 =
   [(''XR_VARJO_composition_layer_depth_test'',
     [(2, ''XR_TYPE_COMPOSITION_LAYER_DEPTH_TEST_VARJO'', ''XrCompositionLayerDepthTestVARJO'')]),
    (''XR_VARJO_foveated_rendering'',
     [(2, ''XR_TYPE_FOVEATED_VIEW_CONFIGURATION_VIEW_VARJO'', ''XrFoveatedViewConfigurationViewVARJO''),
      (2, ''XR_TYPE_SYSTEM_FOVEATED_RENDERING_PROPERTIES_VARJO'', ''XrSystemFoveatedRenderingPropertiesVARJO''),
      (2, ''XR_TYPE_VIEW_LOCATE_FOVEATED_RENDERING_VARJO'', ''XrViewLocateFoveatedRenderingVARJO'')]),
    (''XR_VARJO_marker_tracking'',
     [(2, ''XR_TYPE_EVENT_DATA_MARKER_TRACKING_UPDATE_VARJO'', ''XrEventDataMarkerTrackingUpdateVARJO''),
      (2, ''XR_TYPE_MARKER_SPACE_CREATE_INFO_VARJO'', ''XrMarkerSpaceCreateInfoVARJO''),
      (2, ''XR_TYPE_SYSTEM_MARKER_TRACKING_PROPERTIES_VARJO'', ''XrSystemMarkerTrackingPropertiesVARJO'')])]"

definition ext_serializer_rows :: "(string \<times> (nat \<times> string \<times> string) list) list" where
  "ext_serializer_rows =
     ext_serializer_rows_1 @ ext_serializer_rows_2 @ ext_serializer_rows_3 @
     ext_serializer_rows_4 @ ext_serializer_rows_5 @ ext_serializer_rows_6 @
     ext_serializer_rows_7 @ ext_serializer_rows_8"

lemmas ext_serializer_rows_defs =
  ext_serializer_rows_def ext_serializer_rows_1_def ext_serializer_rows_2_def ext_serializer_rows_3_def
  ext_serializer_rows_4_def ext_serializer_rows_5_def ext_serializer_rows_6_def
  ext_serializer_rows_7_def ext_serializer_rows_8_def

definition ext_deserializer_rows_1 :: "(string \<times> (nat \<times> string \<times> string) list) list" where
  "ext_deserializer_rows_1 =
   [(''XR_ALMALENCE_digital_lens_control'',
     [(1, ''XR_TYPE_DIGITAL_LENS_CONTROL_ALMALENCE'', ''XrDigitalLensControlALMALENCE'')]),
    (''XR_BD_body_tracking'',
     [(2, ''XR_TYPE_BODY_JOINT_LOCATIONS_BD'', ''XrBodyJointLocationsBD''),
      (2, ''XR_TYPE_BODY_JOINTS_LOCATE_INFO_BD'', ''XrBodyJointsLocateInfoBD''),
      (2, ''XR_TYPE_BODY_TRACKER_CREATE_INFO_BD'', ''XrBodyTrackerCreateInfoBD''),
      (2, ''XR_TYPE_SYSTEM_BODY_TRACKING_PROPERTIES_BD'', ''XrSystemBodyTrackingPropertiesBD'')]),
    (''XR_BD_future_progress'',
     [(2, ''XR_TYPE_FUTURE_POLL_RESULT_PROGRESS_BD'', ''XrFuturePollResultProgressBD'')]),
    (''XR_BD_spatial_anchor'',
     [(2, ''XR_TYPE_SPATIAL_ANCHOR_CREATE_COMPLETION_BD'', ''XrSpatialAnchorCreateCompletionBD''),
      (2, ''XR_TYPE_SPATIAL_ANCHOR_CREATE_INFO_BD'', ''XrSpatialAnchorCreateInfoBD''),
      (2, ''XR_TYPE_SPATIAL_ANCHOR_PERSIST_INFO_BD'', ''XrSpatialAnchorPersistInfoBD''),
      (2, ''XR_TYPE_SPATIAL_ANCHOR_UNPERSIST_INFO_BD'', ''XrSpatialAnchorUnpersistInfoBD''),
      (2, ''XR_TYPE_SYSTEM_SPATIAL_ANCHOR_PROPERTIES_BD'', ''XrSystemSpatialAnchorPropertiesBD'')]),
    (''XR_BD_spatial_anchor_sharing'',
     [(2, ''XR_TYPE_SHARED_SPATIAL_ANCHOR_DOWNLOAD_INFO_BD'', ''XrSharedSpatialAnchorDownloadInfoBD''),
      (2, ''XR_TYPE_SPATIAL_ANCHOR_SHARE_INFO_BD'', ''XrSpatialAnchorShareInfoBD''),
      (2, ''XR_TYPE_SYSTEM_SPATIAL_ANCHOR_SHARING_PROPERTIES_BD'', ''XrSystemSpatialAnchorSharingPropertiesBD'')]),
    (''XR_BD_spatial_mesh'',
     [(2, ''XR_TYPE_SENSE_DATA_PROVIDER_CREATE_INFO_SPATIAL_MESH_BD'', ''XrSenseDataProviderCreateInfoSpatialMeshBD''),
      (2, ''XR_TYPE_SYSTEM_SPATIAL_MESH_PROPERTIES_BD'', ''XrSystemSpatialMeshPropertiesBD'')]),
    (''XR_BD_spatial_scene'',
     [(2, ''XR_TYPE_SCENE_CAPTURE_INFO_BD'', ''XrSceneCaptureInfoBD''),
      (2, ''XR_TYPE_SYSTEM_SPATIAL_SCENE_PROPERTIES_BD'', ''XrSystemSpatialScenePropertiesBD'')]),
    (''XR_BD_spatial_sensing'',
     [(2, ''XR_TYPE_ANCHOR_SPACE_CREATE_INFO_BD'', ''XrAnchorSpaceCreateInfoBD''),
      (2, ''XR_TYPE_EVENT_DATA_SENSE_DATA_PROVIDER_STATE_CHANGED_BD'', ''XrEventDataSenseDataProviderStateChangedBD''),
      (2, ''XR_TYPE_EVENT_DATA_SENSE_DATA_UPDATED_BD'', ''XrEventDataSenseDataUpdatedBD''),
      (2, ''XR_TYPE_QUERIED_SENSE_DATA_BD'', ''XrQueriedSenseDataBD''),
      (2, ''XR_TYPE_QUERIED_SENSE_DATA_GET_INFO_BD'', ''XrQueriedSenseDataGetInfoBD''),
      (2, ''XR_TYPE_SENSE_DATA_FILTER_SEMANTIC_BD'', ''XrSenseDataFilterSemanticBD''),
      (2, ''XR_TYPE_SENSE_DATA_FILTER_UUID_BD'', ''XrSenseDataFilterUuidBD''),
      (2, ''XR_TYPE_SENSE_DATA_PROVIDER_CREATE_INFO_BD'', ''XrSenseDataProviderCreateInfoBD''),
      (2, ''XR_TYPE_SENSE_DATA_PROVIDER_START_INFO_BD'', ''XrSenseDataProviderStartInfoBD''),
      (2, ''XR_TYPE_SENSE_DATA_QUERY_COMPLETION_BD'', ''XrSenseDataQueryCompletionBD''),
      (2, ''XR_TYPE_SENSE_DATA_QUERY_INFO_BD'', ''XrSenseDataQueryInfoBD''),
      (2, ''XR_TYPE_SPATIAL_ENTITY_ANCHOR_CREATE_INFO_BD'', ''XrSpatialEntityAnchorCreateInfoBD''),
      (2, ''XR_TYPE_SPATIAL_ENTITY_COMPONENT_DATA_BOUNDING_BOX_2D_BD'', ''XrSpatialEntityComponentDataBoundingBox2DBD''),
      (2, ''XR_TYPE_SPATIAL_ENTITY_COMPONENT_DATA_BOUNDING_BOX_3D_BD'', ''XrSpatialEntityComponentDataBoundingBox3DBD''),
      (2, ''XR_TYPE_SPATIAL_ENTITY_COMPONENT_DATA_LOCATION_BD'', ''XrSpatialEntityComponentDataLocationBD''),
      (2, ''XR_TYPE_SPATIAL_ENTITY_COMPONENT_DATA_POLYGON_BD'', ''XrSpatialEntityComponentDataPolygonBD''),
      (2, ''XR_TYPE_SPATIAL_ENTITY_COMPONENT_DATA_SEMANTIC_BD'', ''XrSpatialEntityComponentDataSemanticBD''),
      (2, ''XR_TYPE_SPATIAL_ENTITY_COMPONENT_DATA_TRIANGLE_MESH_BD'', ''XrSpatialEntityComponentDataTriangleMeshBD''),
      (2, ''XR_TYPE_SPATIAL_ENTITY_COMPONENT_GET_INFO_BD'', ''XrSpatialEntityComponentGetInfoBD''),
      (2, ''XR_TYPE_SPATIAL_ENTITY_LOCATION_GET_INFO_BD'', ''XrSpatialEntityLocationGetInfoBD''),
      (2, ''XR_TYPE_SPATIAL_ENTITY_STATE_BD'', ''XrSpatialEntityStateBD''),
      (2, ''XR_TYPE_SYSTEM_SPATIAL_SENSING_PROPERTIES_BD'', ''XrSystemSpatialSensingPropertiesBD'')]),
    (''XR_EPIC_view_configuration_fov'',
     [(2, ''XR_TYPE_VIEW_CONFIGURATION_VIEW_FOV_EPIC'', ''XrViewConfigurationViewFovEPIC'')]),
    (''XR_EXTX_overlay'',
     [(2, ''XR_TYPE_EVENT_DATA_MAIN_SESSION_VISIBILITY_CHANGED_EXTX'', ''XrEventDataMainSessionVisibilityChangedEXTX''),
      (2, ''XR_TYPE_SESSION_CREATE_INFO_OVERLAY_EXTX'', ''XrSessionCreateInfoOverlayEXTX'')]),
    (''XR_EXT_active_action_set_priority'',
     [(2, ''XR_TYPE_ACTIVE_ACTION_SET_PRIORITIES_EXT'', ''XrActiveActionSetPrioritiesEXT'')]),
    (''XR_EXT_debug_utils'',
     [(2, ''XR_TYPE_DEBUG_UTILS_LABEL_EXT'', ''XrDebugUtilsLabelEXT''),
      (2, ''XR_TYPE_DEBUG_UTILS_MESSENGER_CALLBACK_DATA_EXT'', ''XrDebugUtilsMessengerCallbackDataEXT''),
      (2, ''XR_TYPE_DEBUG_UTILS_MESSENGER_CREATE_INFO_EXT'', ''XrDebugUtilsMessengerCreateInfoEXT''),
      (2, ''XR_TYPE_DEBUG_UTILS_OBJECT_NAME_INFO_EXT'', ''XrDebugUtilsObjectNameInfoEXT'')]),
    (''XR_EXT_dpad_binding'',
     [(2, ''XR_TYPE_INTERACTION_PROFILE_DPAD_BINDING_EXT'', ''XrInteractionProfileDpadBindingEXT'')]),
    (''XR_EXT_eye_gaze_interaction'',
     [(2, ''XR_TYPE_EYE_GAZE_SAMPLE_TIME_EXT'', ''XrEyeGazeSampleTimeEXT''),
      (2, ''XR_TYPE_SYSTEM_EYE_GAZE_INTERACTION_PROPERTIES_EXT'', ''XrSystemEyeGazeInteractionPropertiesEXT'')]),
    (''XR_EXT_frame_synthesis'',
     [(2, ''XR_TYPE_FRAME_SYNTHESIS_CONFIG_VIEW_EXT'', ''XrFrameSynthesisConfigViewEXT''),
      (2, ''XR_TYPE_FRAME_SYNTHESIS_INFO_EXT'', ''XrFrameSynthesisInfoEXT'')]),
    (''XR_EXT_future'',
     [(2, ''XR_TYPE_FUTURE_CANCEL_INFO_EXT'', ''XrFutureCancelInfoEXT''),
      (2, ''XR_TYPE_FUTURE_COMPLETION_EXT'', ''XrFutureCompletionEXT''),
      (2, ''XR_TYPE_FUTURE_POLL_INFO_EXT'', ''XrFuturePollInfoEXT''),
      (2, ''XR_TYPE_FUTURE_POLL_RESULT_EXT'', ''XrFuturePollResultEXT'')]),
    (''XR_EXT_hand_joints_motion_range'',
     [(2, ''XR_TYPE_HAND_JOINTS_MOTION_RANGE_INFO_EXT'', ''XrHandJointsMotionRangeInfoEXT'')])]"

definition ext_deserializer_rows_2 :: "(string \<times> (nat \<times> string \<times> string) list) list" where
  "ext_deserializer_rows_2 =
   [(''XR_EXT_hand_tracking'',
     [(2, ''XR_TYPE_HAND_JOINT_LOCATIONS_EXT'', ''XrHandJointLocationsEXT''),
      (2, ''XR_TYPE_HAND_JOINT_VELOCITIES_EXT'', ''XrHandJointVelocitiesEXT''),
      (2, ''XR_TYPE_HAND_JOINTS_LOCATE_INFO_EXT'', ''XrHandJointsLocateInfoEXT''),
      (2, ''XR_TYPE_HAND_TRACKER_CREATE_INFO_EXT'', ''XrHandTrackerCreateInfoEXT''),
      (2, ''XR_TYPE_SYSTEM_HAND_TRACKING_PROPERTIES_EXT'', ''XrSystemHandTrackingPropertiesEXT'')]),
    (''XR_EXT_hand_tracking_data_source'',
     [(2, ''XR_TYPE_HAND_TRACKING_DATA_SOURCE_INFO_EXT'', ''XrHandTrackingDataSourceInfoEXT''),
      (2, ''XR_TYPE_HAND_TRACKING_DATA_SOURCE_STATE_EXT'', ''XrHandTrackingDataSourceStateEXT'')]),
    (''XR_EXT_performance_settings'',
     [(2, ''XR_TYPE_EVENT_DATA_PERF_SETTINGS_EXT'', ''XrEventDataPerfSettingsEXT'')]),
    (''XR_EXT_plane_detection'',
     [(2, ''XR_TYPE_PLANE_DETECTOR_BEGIN_INFO_EXT'', ''XrPlaneDetectorBeginInfoEXT''),
      (2, ''XR_TYPE_PLANE_DETECTOR_CREATE_INFO_EXT'', ''XrPlaneDetectorCreateInfoEXT''),
      (2, ''XR_TYPE_PLANE_DETECTOR_GET_INFO_EXT'', ''XrPlaneDetectorGetInfoEXT''),
      (2, ''XR_TYPE_PLANE_DETECTOR_LOCATION_EXT'', ''XrPlaneDetectorLocationEXT''),
      (2, ''XR_TYPE_PLANE_DETECTOR_LOCATIONS_EXT'', ''XrPlaneDetectorLocationsEXT''),
      (2, ''XR_TYPE_PLANE_DETECTOR_POLYGON_BUFFER_EXT'', ''XrPlaneDetectorPolygonBufferEXT''),
      (2, ''XR_TYPE_SYSTEM_PLANE_DETECTION_PROPERTIES_EXT'', ''XrSystemPlaneDetectionPropertiesEXT'')]),
    (''XR_EXT_user_presence'',
     [(2, ''XR_TYPE_EVENT_DATA_USER_PRESENCE_CHANGED_EXT'', ''XrEventDataUserPresenceChangedEXT''),
      (2, ''XR_TYPE_SYSTEM_USER_PRESENCE_PROPERTIES_EXT'', ''XrSystemUserPresencePropertiesEXT'')]),
    (''XR_EXT_view_configuration_depth_range'',
     [(2, ''XR_TYPE_VIEW_CONFIGURATION_DEPTH_RANGE_EXT'', ''XrViewConfigurationDepthRangeEXT'')]),
    (''XR_FB_android_surface_swapchain_create'',
     [(2, ''XR_TYPE_ANDROID_SURFACE_SWAPCHAIN_CREATE_INFO_FB'', ''XrAndroidSurfaceSwapchainCreateInfoFB'')]),
    (''XR_FB_body_tracking'',
     [(2, ''XR_TYPE_BODY_JOINT_LOCATIONS_FB'', ''XrBodyJointLocationsFB''),
      (2, ''XR_TYPE_BODY_JOINTS_LOCATE_INFO_FB'', ''XrBodyJointsLocateInfoFB''),
      (2, ''XR_TYPE_BODY_SKELETON_FB'', ''XrBodySkeletonFB''),
      (2, ''XR_TYPE_BODY_TRACKER_CREATE_INFO_FB'', ''XrBodyTrackerCreateInfoFB''),
      (2, ''XR_TYPE_SYSTEM_BODY_TRACKING_PROPERTIES_FB'', ''XrSystemBodyTrackingPropertiesFB'')]),
    (''XR_FB_color_space'',
     [(2, ''XR_TYPE_SYSTEM_COLOR_SPACE_PROPERTIES_FB'', ''XrSystemColorSpacePropertiesFB'')]),
    (''XR_FB_composition_layer_alpha_blend'',
     [(2, ''XR_TYPE_COMPOSITION_LAYER_ALPHA_BLEND_FB'', ''XrCompositionLayerAlphaBlendFB'')]),
    (''XR_FB_composition_layer_depth_test'',
     [(2, ''XR_TYPE_COMPOSITION_LAYER_DEPTH_TEST_FB'', ''XrCompositionLayerDepthTestFB'')]),
    (''XR_FB_composition_layer_image_layout'',
     [(2, ''XR_TYPE_COMPOSITION_LAYER_IMAGE_LAYOUT_FB'', ''XrCompositionLayerImageLayoutFB'')]),
    (''XR_FB_composition_layer_secure_content'',
     [(2, ''XR_TYPE_COMPOSITION_LAYER_SECURE_CONTENT_FB'', ''XrCompositionLayerSecureContentFB'')]),
    (''XR_FB_composition_layer_settings'',
     [(2, ''XR_TYPE_COMPOSITION_LAYER_SETTINGS_FB'', ''XrCompositionLayerSettingsFB'')]),
    (''XR_FB_display_refresh_rate'',
     [(2, ''XR_TYPE_EVENT_DATA_DISPLAY_REFRESH_RATE_CHANGED_FB'', ''XrEventDataDisplayRefreshRateChangedFB'')]),
    (''XR_FB_eye_tracking_social'',
     [(2, ''XR_TYPE_EYE_GAZES_FB'', ''XrEyeGazesFB''),
      (2, ''XR_TYPE_EYE_GAZES_INFO_FB'', ''XrEyeGazesInfoFB''),
      (2, ''XR_TYPE_EYE_TRACKER_CREATE_INFO_FB'', ''XrEyeTrackerCreateInfoFB''),
      (2, ''XR_TYPE_SYSTEM_EYE_TRACKING_PROPERTIES_FB'', ''XrSystemEyeTrackingPropertiesFB'')]),
    (''XR_FB_face_tracking'',
     [(2, ''XR_TYPE_FACE_EXPRESSION_INFO_FB'', ''XrFaceExpressionInfoFB''),
      (2, ''XR_TYPE_FACE_EXPRESSION_WEIGHTS_FB'', ''XrFaceExpressionWeightsFB''),
      (2, ''XR_TYPE_FACE_TRACKER_CREATE_INFO_FB'', ''XrFaceTrackerCreateInfoFB''),
      (2, ''XR_TYPE_SYSTEM_FACE_TRACKING_PROPERTIES_FB'', ''XrSystemFaceTrackingPropertiesFB'')]),
    (''XR_FB_face_tracking2'',
     [(2, ''XR_TYPE_FACE_EXPRESSION_INFO2_FB'', ''XrFaceExpressionInfo2FB''),
      (2, ''XR_TYPE_FACE_EXPRESSION_WEIGHTS2_FB'', ''XrFaceExpressionWeights2FB''),
      (2, ''XR_TYPE_FACE_TRACKER_CREATE_INFO2_FB'', ''XrFaceTrackerCreateInfo2FB''),
      (2, ''XR_TYPE_SYSTEM_FACE_TRACKING_PROPERTIES2_FB'', ''XrSystemFaceTrackingProperties2FB'')]),
    (''XR_FB_foveation'',
     [(2, ''XR_TYPE_FOVEATION_PROFILE_CREATE_INFO_FB'', ''XrFoveationProfileCreateInfoFB''),
      (2, ''XR_TYPE_SWAPCHAIN_CREATE_INFO_FOVEATION_FB'', ''XrSwapchainCreateInfoFoveationFB''),
      (2, ''XR_TYPE_SWAPCHAIN_STATE_FOVEATION_FB'', ''XrSwapchainStateFoveationFB'')]),
    (''XR_FB_foveation_configuration'',
     [(2, ''XR_TYPE_FOVEATION_LEVEL_PROFILE_CREATE_INFO_FB'', ''XrFoveationLevelProfileCreateInfoFB'')]),
    (''XR_FB_foveation_vulkan'',
     [(2, ''XR_TYPE_SWAPCHAIN_IMAGE_FOVEATION_VULKAN_FB'', ''XrSwapchainImageFoveationVulkanFB'')]),
    (''XR_FB_hand_tracking_aim'',
     [(2, ''XR_TYPE_HAND_TRACKING_AIM_STATE_FB'', ''XrHandTrackingAimStateFB'')]),
    (''XR_FB_hand_tracking_capsules'',
     [(2, ''XR_TYPE_HAND_TRACKING_CAPSULES_STATE_FB'', ''XrHandTrackingCapsulesStateFB'')]),
    (''XR_FB_hand_tracking_mesh'',
     [(2, ''XR_TYPE_HAND_TRACKING_MESH_FB'', ''XrHandTrackingMeshFB''),
      (2, ''XR_TYPE_HAND_TRACKING_SCALE_FB'', ''XrHandTrackingScaleFB'')])]"

definition ext_deserializer_rows_3 :: "(string \<times> (nat \<times> string \<times> string) list) list" where
  "ext_deserializer_rows_3 =
   [(''XR_FB_haptic_amplitude_envelope'',
     [(2, ''XR_TYPE_HAPTIC_AMPLITUDE_ENVELOPE_VIBRATION_FB'', ''XrHapticAmplitudeEnvelopeVibrationFB'')]),
    (''XR_FB_haptic_pcm'',
     [(2, ''XR_TYPE_DEVICE_PCM_SAMPLE_RATE_STATE_FB'', ''XrDevicePcmSampleRateStateFB''),
      (2, ''XR_TYPE_HAPTIC_PCM_VIBRATION_FB'', ''XrHapticPcmVibrationFB'')]),
    (''XR_FB_keyboard_tracking'',
     [(2, ''XR_TYPE_KEYBOARD_SPACE_CREATE_INFO_FB'', ''XrKeyboardSpaceCreateInfoFB''),
      (2, ''XR_TYPE_KEYBOARD_TRACKING_QUERY_FB'', ''XrKeyboardTrackingQueryFB''),
      (2, ''XR_TYPE_SYSTEM_KEYBOARD_TRACKING_PROPERTIES_FB'', ''XrSystemKeyboardTrackingPropertiesFB'')]),
    (''XR_FB_passthrough'',
     [(2, ''XR_TYPE_COMPOSITION_LAYER_PASSTHROUGH_FB'', ''XrCompositionLayerPassthroughFB''),
      (2, ''XR_TYPE_EVENT_DATA_PASSTHROUGH_STATE_CHANGED_FB'', ''XrEventDataPassthroughStateChangedFB''),
      (2, ''XR_TYPE_GEOMETRY_INSTANCE_CREATE_INFO_FB'', ''XrGeometryInstanceCreateInfoFB''),
      (2, ''XR_TYPE_GEOMETRY_INSTANCE_TRANSFORM_FB'', ''XrGeometryInstanceTransformFB''),
      (2, ''XR_TYPE_PASSTHROUGH_BRIGHTNESS_CONTRAST_SATURATION_FB'', ''XrPassthroughBrightnessContrastSaturationFB''),
      (2, ''XR_TYPE_PASSTHROUGH_COLOR_MAP_MONO_TO_MONO_FB'', ''XrPassthroughColorMapMonoToMonoFB''),
      (2, ''XR_TYPE_PASSTHROUGH_COLOR_MAP_MONO_TO_RGBA_FB'', ''XrPassthroughColorMapMonoToRgbaFB''),
      (2, ''XR_TYPE_PASSTHROUGH_CREATE_INFO_FB'', ''XrPassthroughCreateInfoFB''),
      (2, ''XR_TYPE_PASSTHROUGH_LAYER_CREATE_INFO_FB'', ''XrPassthroughLayerCreateInfoFB''),
      (2, ''XR_TYPE_PASSTHROUGH_STYLE_FB'', ''XrPassthroughStyleFB''),
      (2, ''XR_TYPE_SYSTEM_PASSTHROUGH_PROPERTIES2_FB'', ''XrSystemPassthroughProperties2FB''),
      (2, ''XR_TYPE_SYSTEM_PASSTHROUGH_PROPERTIES_FB'', ''XrSystemPassthroughPropertiesFB'')]),
    (''XR_FB_passthrough_keyboard_hands'',
     [(2, ''XR_TYPE_PASSTHROUGH_KEYBOARD_HANDS_INTENSITY_FB'', ''XrPassthroughKeyboardHandsIntensityFB'')]),
    (''XR_FB_render_model'',
     [(2, ''XR_TYPE_RENDER_MODEL_BUFFER_FB'', ''XrRenderModelBufferFB''),
      (2, ''XR_TYPE_RENDER_MODEL_CAPABILITIES_REQUEST_FB'', ''XrRenderModelCapabilitiesRequestFB''),
      (2, ''XR_TYPE_RENDER_MODEL_LOAD_INFO_FB'', ''XrRenderModelLoadInfoFB''),
      (2, ''XR_TYPE_RENDER_MODEL_PATH_INFO_FB'', ''XrRenderModelPathInfoFB''),
      (2, ''XR_TYPE_RENDER_MODEL_PROPERTIES_FB'', ''XrRenderModelPropertiesFB''),
      (2, ''XR_TYPE_SYSTEM_RENDER_MODEL_PROPERTIES_FB'', ''XrSystemRenderModelPropertiesFB'')]),
    (''XR_FB_scene'',
     [(2, ''XR_TYPE_BOUNDARY_2D_FB'', ''XrBoundary2DFB''),
      (2, ''XR_TYPE_ROOM_LAYOUT_FB'', ''XrRoomLayoutFB''),
      (2, ''XR_TYPE_SEMANTIC_LABELS_FB'', ''XrSemanticLabelsFB''),
      (2, ''XR_TYPE_SEMANTIC_LABELS_SUPPORT_INFO_FB'', ''XrSemanticLabelsSupportInfoFB'')]),
    (''XR_FB_scene_capture'',
     [(2, ''XR_TYPE_EVENT_DATA_SCENE_CAPTURE_COMPLETE_FB'', ''XrEventDataSceneCaptureCompleteFB''),
      (2, ''XR_TYPE_SCENE_CAPTURE_REQUEST_INFO_FB'', ''XrSceneCaptureRequestInfoFB'')]),
    (''XR_FB_space_warp'',
     [(2, ''XR_TYPE_COMPOSITION_LAYER_SPACE_WARP_INFO_FB'', ''XrCompositionLayerSpaceWarpInfoFB''),
      (2, ''XR_TYPE_SYSTEM_SPACE_WARP_PROPERTIES_FB'', ''XrSystemSpaceWarpPropertiesFB'')]),
    (''XR_FB_spatial_entity'',
     [(2, ''XR_TYPE_EVENT_DATA_SPACE_SET_STATUS_COMPLETE_FB'', ''XrEventDataSpaceSetStatusCompleteFB''),
      (2, ''XR_TYPE_EVENT_DATA_SPATIAL_ANCHOR_CREATE_COMPLETE_FB'', ''XrEventDataSpatialAnchorCreateCompleteFB''),
      (2, ''XR_TYPE_SPACE_COMPONENT_STATUS_FB'', ''XrSpaceComponentStatusFB''),
      (2, ''XR_TYPE_SPACE_COMPONENT_STATUS_SET_INFO_FB'', ''XrSpaceComponentStatusSetInfoFB''),
      (2, ''XR_TYPE_SPATIAL_ANCHOR_CREATE_INFO_FB'', ''XrSpatialAnchorCreateInfoFB''),
      (2, ''XR_TYPE_SYSTEM_SPATIAL_ENTITY_PROPERTIES_FB'', ''XrSystemSpatialEntityPropertiesFB'')]),
    (''XR_FB_spatial_entity_container'',
     [(2, ''XR_TYPE_SPACE_CONTAINER_FB'', ''XrSpaceContainerFB'')]),
    (''XR_FB_spatial_entity_query'',
     [(2, ''XR_TYPE_EVENT_DATA_SPACE_QUERY_COMPLETE_FB'', ''XrEventDataSpaceQueryCompleteFB''),
      (2, ''XR_TYPE_EVENT_DATA_SPACE_QUERY_RESULTS_AVAILABLE_FB'', ''XrEventDataSpaceQueryResultsAvailableFB''),
      (2, ''XR_TYPE_SPACE_COMPONENT_FILTER_INFO_FB'', ''XrSpaceComponentFilterInfoFB''),
      (2, ''XR_TYPE_SPACE_QUERY_INFO_FB'', ''XrSpaceQueryInfoFB''),
      (2, ''XR_TYPE_SPACE_QUERY_RESULTS_FB'', ''XrSpaceQueryResultsFB''),
      (2, ''XR_TYPE_SPACE_STORAGE_LOCATION_FILTER_INFO_FB'', ''XrSpaceStorageLocationFilterInfoFB''),
      (2, ''XR_TYPE_SPACE_UUID_FILTER_INFO_FB'', ''XrSpaceUuidFilterInfoFB'')]),
    (''XR_FB_spatial_entity_sharing'',
     [(2, ''XR_TYPE_EVENT_DATA_SPACE_SHARE_COMPLETE_FB'', ''XrEventDataSpaceShareCompleteFB''),
      (2, ''XR_TYPE_SPACE_SHARE_INFO_FB'', ''XrSpaceShareInfoFB'')]),
    (''XR_FB_spatial_entity_storage'',
     [(2, ''XR_TYPE_EVENT_DATA_SPACE_ERASE_COMPLETE_FB'', ''XrEventDataSpaceEraseCompleteFB''),
      (2, ''XR_TYPE_EVENT_DATA_SPACE_SAVE_COMPLETE_FB'', ''XrEventDataSpaceSaveCompleteFB''),
      (2, ''XR_TYPE_SPACE_ERASE_INFO_FB'', ''XrSpaceEraseInfoFB''),
      (2, ''XR_TYPE_SPACE_SAVE_INFO_FB'', ''XrSpaceSaveInfoFB'')]),
    (''XR_FB_spatial_entity_storage_batch'',
     [(2, ''XR_TYPE_EVENT_DATA_SPACE_LIST_SAVE_COMPLETE_FB'', ''XrEventDataSpaceListSaveCompleteFB''),
      (2, ''XR_TYPE_SPACE_LIST_SAVE_INFO_FB'', ''XrSpaceListSaveInfoFB'')]),
    (''XR_FB_spatial_entity_user'',
     [(2, ''XR_TYPE_SPACE_USER_CREATE_INFO_FB'', ''XrSpaceUserCreateInfoFB'')]),
    (''XR_FB_swapchain_update_state_android_surface'',
     [(2, ''XR_TYPE_SWAPCHAIN_STATE_ANDROID_SURFACE_DIMENSIONS_FB'', ''XrSwapchainStateAndroidSurfaceDimensionsFB'')])]"

definition ext_deserializer_rows_4 :: "(string \<times> (nat \<times> string \<times> string) list) list" where
  "ext_deserializer_rows_4 =
   [(''XR_FB_swapchain_update_state_opengl_es'',
     [(2, ''XR_TYPE_SWAPCHAIN_STATE_SAMPLER_OPENGL_ES_FB'', ''XrSwapchainStateSamplerOpenGLESFB'')]),
    (''XR_FB_swapchain_update_state_vulkan'',
     [(2, ''XR_TYPE_SWAPCHAIN_STATE_SAMPLER_VULKAN_FB'', ''XrSwapchainStateSamplerVulkanFB'')]),
    (''XR_FB_triangle_mesh'',
     [(2, ''XR_TYPE_TRIANGLE_MESH_CREATE_INFO_FB'', ''XrTriangleMeshCreateInfoFB'')]),
    (''XR_HTCX_vive_tracker_interaction'',
     [(2, ''XR_TYPE_EVENT_DATA_VIVE_TRACKER_CONNECTED_HTCX'', ''XrEventDataViveTrackerConnectedHTCX''),
      (2, ''XR_TYPE_VIVE_TRACKER_PATHS_HTCX'', ''XrViveTrackerPathsHTCX'')]),
    (''XR_HTC_anchor'',
     [(2, ''XR_TYPE_SPATIAL_ANCHOR_CREATE_INFO_HTC'', ''XrSpatialAnchorCreateInfoHTC''),
      (2, ''XR_TYPE_SYSTEM_ANCHOR_PROPERTIES_HTC'', ''XrSystemAnchorPropertiesHTC'')]),
    (''XR_HTC_body_tracking'',
     [(2, ''XR_TYPE_BODY_JOINT_LOCATIONS_HTC'', ''XrBodyJointLocationsHTC''),
      (2, ''XR_TYPE_BODY_JOINTS_LOCATE_INFO_HTC'', ''XrBodyJointsLocateInfoHTC''),
      (2, ''XR_TYPE_BODY_SKELETON_HTC'', ''XrBodySkeletonHTC''),
      (2, ''XR_TYPE_BODY_TRACKER_CREATE_INFO_HTC'', ''XrBodyTrackerCreateInfoHTC''),
      (2, ''XR_TYPE_SYSTEM_BODY_TRACKING_PROPERTIES_HTC'', ''XrSystemBodyTrackingPropertiesHTC'')]),
    (''XR_HTC_facial_tracking'',
     [(2, ''XR_TYPE_FACIAL_EXPRESSIONS_HTC'', ''XrFacialExpressionsHTC''),
      (2, ''XR_TYPE_FACIAL_TRACKER_CREATE_INFO_HTC'', ''XrFacialTrackerCreateInfoHTC''),
      (2, ''XR_TYPE_SYSTEM_FACIAL_TRACKING_PROPERTIES_HTC'', ''XrSystemFacialTrackingPropertiesHTC'')]),
    (''XR_HTC_foveation'',
     [(2, ''XR_TYPE_FOVEATION_APPLY_INFO_HTC'', ''XrFoveationApplyInfoHTC''),
      (2, ''XR_TYPE_FOVEATION_CUSTOM_MODE_INFO_HTC'', ''XrFoveationCustomModeInfoHTC''),
      (2, ''XR_TYPE_FOVEATION_DYNAMIC_MODE_INFO_HTC'', ''XrFoveationDynamicModeInfoHTC'')]),
    (''XR_HTC_passthrough'',
     [(2, ''XR_TYPE_COMPOSITION_LAYER_PASSTHROUGH_HTC'', ''XrCompositionLayerPassthroughHTC''),
      (2, ''XR_TYPE_PASSTHROUGH_COLOR_HTC'', ''XrPassthroughColorHTC''),
      (2, ''XR_TYPE_PASSTHROUGH_CREATE_INFO_HTC'', ''XrPassthroughCreateInfoHTC''),
      (2, ''XR_TYPE_PASSTHROUGH_MESH_TRANSFORM_INFO_HTC'', ''XrPassthroughMeshTransformInfoHTC'')]),
    (''XR_KHR_D3D11_enable'',
     [(2, ''XR_TYPE_GRAPHICS_BINDING_D3D11_KHR'', ''XrGraphicsBindingD3D11KHR''),
      (2, ''XR_TYPE_GRAPHICS_REQUIREMENTS_D3D11_KHR'', ''XrGraphicsRequirementsD3D11KHR''),
      (2, ''XR_TYPE_SWAPCHAIN_IMAGE_D3D11_KHR'', ''XrSwapchainImageD3D11KHR'')]),
    (''XR_KHR_D3D12_enable'',
     [(2, ''XR_TYPE_GRAPHICS_BINDING_D3D12_KHR'', ''XrGraphicsBindingD3D12KHR''),
      (2, ''XR_TYPE_GRAPHICS_REQUIREMENTS_D3D12_KHR'', ''XrGraphicsRequirementsD3D12KHR''),
      (2, ''XR_TYPE_SWAPCHAIN_IMAGE_D3D12_KHR'', ''XrSwapchainImageD3D12KHR'')]),
    (''XR_KHR_android_create_instance'',
     [(2, ''XR_TYPE_INSTANCE_CREATE_INFO_ANDROID_KHR'', ''XrInstanceCreateInfoAndroidKHR'')]),
    (''XR_KHR_binding_modification'',
     [(2, ''XR_TYPE_BINDING_MODIFICATIONS_KHR'', ''XrBindingModificationsKHR'')]),
    (''XR_KHR_composition_layer_color_scale_bias'',
     [(2, ''XR_TYPE_COMPOSITION_LAYER_COLOR_SCALE_BIAS_KHR'', ''XrCompositionLayerColorScaleBiasKHR'')]),
    (''XR_KHR_composition_layer_cube'',
     [(2, ''XR_TYPE_COMPOSITION_LAYER_CUBE_KHR'', ''XrCompositionLayerCubeKHR'')]),
    (''XR_KHR_composition_layer_cylinder'',
     [(2, ''XR_TYPE_COMPOSITION_LAYER_CYLINDER_KHR'', ''XrCompositionLayerCylinderKHR'')]),
    (''XR_KHR_composition_layer_depth'',
     [(2, ''XR_TYPE_COMPOSITION_LAYER_DEPTH_INFO_KHR'', ''XrCompositionLayerDepthInfoKHR'')]),
    (''XR_KHR_composition_layer_equirect'',
     [(2, ''XR_TYPE_COMPOSITION_LAYER_EQUIRECT_KHR'', ''XrCompositionLayerEquirectKHR'')]),
    (''XR_KHR_composition_layer_equirect2'',
     [(2, ''XR_TYPE_COMPOSITION_LAYER_EQUIRECT2_KHR'', ''XrCompositionLayerEquirect2KHR'')]),
    (''XR_KHR_loader_init_android'',
     [(2, ''XR_TYPE_LOADER_INIT_INFO_ANDROID_KHR'', ''XrLoaderInitInfoAndroidKHR'')]),
    (''XR_KHR_metal_enable'',
     [(2, ''XR_TYPE_GRAPHICS_BINDING_METAL_KHR'', ''XrGraphicsBindingMetalKHR''),
      (2, ''XR_TYPE_GRAPHICS_REQUIREMENTS_METAL_KHR'', ''XrGraphicsRequirementsMetalKHR''),
      (2, ''XR_TYPE_SWAPCHAIN_IMAGE_METAL_KHR'', ''XrSwapchainImageMetalKHR'')]),
    (''XR_KHR_opengl_enable'',
     [(2, ''XR_TYPE_GRAPHICS_BINDING_OPENGL_WAYLAND_KHR'', ''XrGraphicsBindingOpenGLWaylandKHR''),
      (2, ''XR_TYPE_GRAPHICS_BINDING_OPENGL_WIN32_KHR'', ''XrGraphicsBindingOpenGLWin32KHR''),
      (2, ''XR_TYPE_GRAPHICS_BINDING_OPENGL_XCB_KHR'', ''XrGraphicsBindingOpenGLXcbKHR''),
      (2, ''XR_TYPE_GRAPHICS_BINDING_OPENGL_XLIB_KHR'', ''XrGraphicsBindingOpenGLXlibKHR''),
      (2, ''XR_TYPE_GRAPHICS_REQUIREMENTS_OPENGL_KHR'', ''XrGraphicsRequirementsOpenGLKHR''),
      (2, ''XR_TYPE_SWAPCHAIN_IMAGE_OPENGL_KHR'', ''XrSwapchainImageOpenGLKHR'')]),
    (''XR_KHR_opengl_es_enable'',
     [(2, ''XR_TYPE_GRAPHICS_BINDING_OPENGL_ES_ANDROID_KHR'', ''XrGraphicsBindingOpenGLESAndroidKHR''),
      (2, ''XR_TYPE_GRAPHICS_REQUIREMENTS_OPENGL_ES_KHR'', ''XrGraphicsRequirementsOpenGLESKHR''),
      (2, ''XR_TYPE_SWAPCHAIN_IMAGE_OPENGL_ES_KHR'', ''XrSwapchainImageOpenGLESKHR'')]),
    (''XR_KHR_visibility_mask'',
     [(2, ''XR_TYPE_EVENT_DATA_VISIBILITY_MASK_CHANGED_KHR'', ''XrEventDataVisibilityMaskChangedKHR''),
      (2, ''XR_TYPE_VISIBILITY_MASK_KHR'', ''XrVisibilityMaskKHR'')])]"

definition ext_deserializer_rows_5 :: "(string \<times> (nat \<times> string \<times> string) list) list" where
  "ext_deserializer_rows_5 =
   [(''XR_KHR_vulkan_enable'',
     [(2, ''XR_TYPE_GRAPHICS_BINDING_VULKAN_KHR'', ''XrGraphicsBindingVulkanKHR''),
      (2, ''XR_TYPE_GRAPHICS_REQUIREMENTS_VULKAN_KHR'', ''XrGraphicsRequirementsVulkanKHR''),
      (2, ''XR_TYPE_SWAPCHAIN_IMAGE_VULKAN_KHR'', ''XrSwapchainImageVulkanKHR'')]),
    (''XR_KHR_vulkan_enable2'',
     [(2, ''XR_TYPE_VULKAN_DEVICE_CREATE_INFO_KHR'', ''XrVulkanDeviceCreateInfoKHR''),
      (2, ''XR_TYPE_VULKAN_GRAPHICS_DEVICE_GET_INFO_KHR'', ''XrVulkanGraphicsDeviceGetInfoKHR''),
      (2, ''XR_TYPE_VULKAN_INSTANCE_CREATE_INFO_KHR'', ''XrVulkanInstanceCreateInfoKHR'')]),
    (''XR_KHR_vulkan_swapchain_format_list'',
     [(2, ''XR_TYPE_VULKAN_SWAPCHAIN_FORMAT_LIST_CREATE_INFO_KHR'', ''XrVulkanSwapchainFormatListCreateInfoKHR'')]),
    (''XR_META_body_tracking_full_body'',
     [(2, ''XR_TYPE_SYSTEM_PROPERTIES_BODY_TRACKING_FULL_BODY_META'', ''XrSystemPropertiesBodyTrackingFullBodyMETA'')]),
    (''XR_META_colocation_discovery'',
     [(2, ''XR_TYPE_COLOCATION_ADVERTISEMENT_START_INFO_META'', ''XrColocationAdvertisementStartInfoMETA''),
      (2, ''XR_TYPE_COLOCATION_ADVERTISEMENT_STOP_INFO_META'', ''XrColocationAdvertisementStopInfoMETA''),
      (2, ''XR_TYPE_COLOCATION_DISCOVERY_START_INFO_META'', ''XrColocationDiscoveryStartInfoMETA''),
      (2, ''XR_TYPE_COLOCATION_DISCOVERY_STOP_INFO_META'', ''XrColocationDiscoveryStopInfoMETA''),
      (2, ''XR_TYPE_EVENT_DATA_COLOCATION_ADVERTISEMENT_COMPLETE_META'', ''XrEventDataColocationAdvertisementCompleteMETA''),
      (2, ''XR_TYPE_EVENT_DATA_COLOCATION_DISCOVERY_COMPLETE_META'', ''XrEventDataColocationDiscoveryCompleteMETA''),
      (2, ''XR_TYPE_EVENT_DATA_COLOCATION_DISCOVERY_RESULT_META'', ''XrEventDataColocationDiscoveryResultMETA''),
      (2, ''XR_TYPE_EVENT_DATA_START_COLOCATION_ADVERTISEMENT_COMPLETE_META'', ''XrEventDataStartColocationAdvertisementCompleteMETA''),
      (2, ''XR_TYPE_EVENT_DATA_START_COLOCATION_DISCOVERY_COMPLETE_META'', ''XrEventDataStartColocationDiscoveryCompleteMETA''),
      (2, ''XR_TYPE_EVENT_DATA_STOP_COLOCATION_ADVERTISEMENT_COMPLETE_META'', ''XrEventDataStopColocationAdvertisementCompleteMETA''),
      (2, ''XR_TYPE_EVENT_DATA_STOP_COLOCATION_DISCOVERY_COMPLETE_META'', ''XrEventDataStopColocationDiscoveryCompleteMETA''),
      (2, ''XR_TYPE_SYSTEM_COLOCATION_DISCOVERY_PROPERTIES_META'', ''XrSystemColocationDiscoveryPropertiesMETA'')]),
    (''XR_META_environment_depth'',
     [(2, ''XR_TYPE_ENVIRONMENT_DEPTH_HAND_REMOVAL_SET_INFO_META'', ''XrEnvironmentDepthHandRemovalSetInfoMETA''),
      (2, ''XR_TYPE_ENVIRONMENT_DEPTH_IMAGE_ACQUIRE_INFO_META'', ''XrEnvironmentDepthImageAcquireInfoMETA''),
      (2, ''XR_TYPE_ENVIRONMENT_DEPTH_IMAGE_META'', ''XrEnvironmentDepthImageMETA''),
      (2, ''XR_TYPE_ENVIRONMENT_DEPTH_IMAGE_VIEW_META'', ''XrEnvironmentDepthImageViewMETA''),
      (2, ''XR_TYPE_ENVIRONMENT_DEPTH_PROVIDER_CREATE_INFO_META'', ''XrEnvironmentDepthProviderCreateInfoMETA''),
      (2, ''XR_TYPE_ENVIRONMENT_DEPTH_SWAPCHAIN_CREATE_INFO_META'', ''XrEnvironmentDepthSwapchainCreateInfoMETA''),
      (2, ''XR_TYPE_ENVIRONMENT_DEPTH_SWAPCHAIN_STATE_META'', ''XrEnvironmentDepthSwapchainStateMETA''),
      (2, ''XR_TYPE_SYSTEM_ENVIRONMENT_DEPTH_PROPERTIES_META'', ''XrSystemEnvironmentDepthPropertiesMETA'')]),
    (''XR_META_foveation_eye_tracked'',
     [(2, ''XR_TYPE_FOVEATION_EYE_TRACKED_PROFILE_CREATE_INFO_META'', ''XrFoveationEyeTrackedProfileCreateInfoMETA''),
      (2, ''XR_TYPE_FOVEATION_EYE_TRACKED_STATE_META'', ''XrFoveationEyeTrackedStateMETA''),
      (2, ''XR_TYPE_SYSTEM_FOVEATION_EYE_TRACKED_PROPERTIES_META'', ''XrSystemFoveationEyeTrackedPropertiesMETA'')]),
    (''XR_META_headset_id'',
     [(2, ''XR_TYPE_SYSTEM_HEADSET_ID_PROPERTIES_META'', ''XrSystemHeadsetIdPropertiesMETA'')]),
    (''XR_META_local_dimming'',
     [(2, ''XR_TYPE_LOCAL_DIMMING_FRAME_END_INFO_META'', ''XrLocalDimmingFrameEndInfoMETA'')]),
    (''XR_META_passthrough_color_lut'',
     [(2, ''XR_TYPE_PASSTHROUGH_COLOR_LUT_CREATE_INFO_META'', ''XrPassthroughColorLutCreateInfoMETA''),
      (2, ''XR_TYPE_PASSTHROUGH_COLOR_LUT_UPDATE_INFO_META'', ''XrPassthroughColorLutUpdateInfoMETA''),
      (2, ''XR_TYPE_PASSTHROUGH_COLOR_MAP_INTERPOLATED_LUT_META'', ''XrPassthroughColorMapInterpolatedLutMETA''),
      (2, ''XR_TYPE_PASSTHROUGH_COLOR_MAP_LUT_META'', ''XrPassthroughColorMapLutMETA''),
      (2, ''XR_TYPE_SYSTEM_PASSTHROUGH_COLOR_LUT_PROPERTIES_META'', ''XrSystemPassthroughColorLutPropertiesMETA'')]),
    (''XR_META_passthrough_layer_resumed_event'',
     [(2, ''XR_TYPE_EVENT_DATA_PASSTHROUGH_LAYER_RESUMED_META'', ''XrEventDataPassthroughLayerResumedMETA'')]),
    (''XR_META_passthrough_preferences'',
     [(2, ''XR_TYPE_PASSTHROUGH_PREFERENCES_META'', ''XrPassthroughPreferencesMETA'')]),
    (''XR_META_performance_metrics'',
     [(2, ''XR_TYPE_PERFORMANCE_METRICS_COUNTER_META'', ''XrPerformanceMetricsCounterMETA''),
      (2, ''XR_TYPE_PERFORMANCE_METRICS_STATE_META'', ''XrPerformanceMetricsStateMETA'')]),
    (''XR_META_recommended_layer_resolution'',
     [(2, ''XR_TYPE_RECOMMENDED_LAYER_RESOLUTION_GET_INFO_META'', ''XrRecommendedLayerResolutionGetInfoMETA''),
      (2, ''XR_TYPE_RECOMMENDED_LAYER_RESOLUTION_META'', ''XrRecommendedLayerResolutionMETA'')]),
    (''XR_META_simultaneous_hands_and_controllers'',
     [(2, ''XR_TYPE_SIMULTANEOUS_HANDS_AND_CONTROLLERS_TRACKING_PAUSE_INFO_META'', ''XrSimultaneousHandsAndControllersTrackingPauseInfoMETA''),
      (2, ''XR_TYPE_SIMULTANEOUS_HANDS_AND_CONTROLLERS_TRACKING_RESUME_INFO_META'', ''XrSimultaneousHandsAndControllersTrackingResumeInfoMETA''),
      (2, ''XR_TYPE_SYSTEM_SIMULTANEOUS_HANDS_AND_CONTROLLERS_PROPERTIES_META'', ''XrSystemSimultaneousHandsAndControllersPropertiesMETA'')]),
    (''XR_META_spatial_entity_group_sharing'',
     [(2, ''XR_TYPE_SHARE_SPACES_RECIPIENT_GROUPS_META'', ''XrShareSpacesRecipientGroupsMETA''),
      (2, ''XR_TYPE_SPACE_GROUP_UUID_FILTER_INFO_META'', ''XrSpaceGroupUuidFilterInfoMETA''),
      (2, ''XR_TYPE_SYSTEM_SPATIAL_ENTITY_GROUP_SHARING_PROPERTIES_META'', ''XrSystemSpatialEntityGroupSharingPropertiesMETA'')]),
    (''XR_META_spatial_entity_mesh'',
     [(2, ''XR_TYPE_SPACE_TRIANGLE_MESH_GET_INFO_META'', ''XrSpaceTriangleMeshGetInfoMETA''),
      (2, ''XR_TYPE_SPACE_TRIANGLE_MESH_META'', ''XrSpaceTriangleMeshMETA'')]),
    (''XR_META_spatial_entity_sharing'',
     [(2, ''XR_TYPE_EVENT_DATA_SHARE_SPACES_COMPLETE_META'', ''XrEventDataShareSpacesCompleteMETA''),
      (2, ''XR_TYPE_SHARE_SPACES_INFO_META'', ''XrShareSpacesInfoMETA''),
      (2, ''XR_TYPE_SYSTEM_SPATIAL_ENTITY_SHARING_PROPERTIES_META'', ''XrSystemSpatialEntitySharingPropertiesMETA'')]),
    (''XR_META_virtual_keyboard'',
     [(2, ''XR_TYPE_EVENT_DATA_VIRTUAL_KEYBOARD_BACKSPACE_META'', ''XrEventDataVirtualKeyboardBackspaceMETA''),
      (2, ''XR_TYPE_EVENT_DATA_VIRTUAL_KEYBOARD_COMMIT_TEXT_META'', ''XrEventDataVirtualKeyboardCommitTextMETA'')])]"

definition ext_deserializer_rows_6 :: "(string \<times> (nat \<times> string \<times> string) list) list" where
  "ext_deserializer_rows_6 =
   [(''XR_META_virtual_keyboard'',
     [(2, ''XR_TYPE_EVENT_DATA_VIRTUAL_KEYBOARD_ENTER_META'', ''XrEventDataVirtualKeyboardEnterMETA''),
      (2, ''XR_TYPE_EVENT_DATA_VIRTUAL_KEYBOARD_HIDDEN_META'', ''XrEventDataVirtualKeyboardHiddenMETA''),
      (2, ''XR_TYPE_EVENT_DATA_VIRTUAL_KEYBOARD_SHOWN_META'', ''XrEventDataVirtualKeyboardShownMETA''),
      (2, ''XR_TYPE_SYSTEM_VIRTUAL_KEYBOARD_PROPERTIES_META'', ''XrSystemVirtualKeyboardPropertiesMETA''),
      (2, ''XR_TYPE_VIRTUAL_KEYBOARD_ANIMATION_STATE_META'', ''XrVirtualKeyboardAnimationStateMETA''),
      (2, ''XR_TYPE_VIRTUAL_KEYBOARD_CREATE_INFO_META'', ''XrVirtualKeyboardCreateInfoMETA''),
      (2, ''XR_TYPE_VIRTUAL_KEYBOARD_INPUT_INFO_META'', ''XrVirtualKeyboardInputInfoMETA''),
      (2, ''XR_TYPE_VIRTUAL_KEYBOARD_LOCATION_INFO_META'', ''XrVirtualKeyboardLocationInfoMETA''),
      (2, ''XR_TYPE_VIRTUAL_KEYBOARD_MODEL_ANIMATION_STATES_META'', ''XrVirtualKeyboardModelAnimationStatesMETA''),
      (2, ''XR_TYPE_VIRTUAL_KEYBOARD_MODEL_VISIBILITY_SET_INFO_META'', ''XrVirtualKeyboardModelVisibilitySetInfoMETA''),
      (2, ''XR_TYPE_VIRTUAL_KEYBOARD_SPACE_CREATE_INFO_META'', ''XrVirtualKeyboardSpaceCreateInfoMETA''),
      (2, ''XR_TYPE_VIRTUAL_KEYBOARD_TEXT_CONTEXT_CHANGE_INFO_META'', ''XrVirtualKeyboardTextContextChangeInfoMETA''),
      (2, ''XR_TYPE_VIRTUAL_KEYBOARD_TEXTURE_DATA_META'', ''XrVirtualKeyboardTextureDataMETA'')]),
    (''XR_META_vulkan_swapchain_create_info'',
     [(2, ''XR_TYPE_VULKAN_SWAPCHAIN_CREATE_INFO_META'', ''XrVulkanSwapchainCreateInfoMETA'')]),
    (''XR_ML_compat'',
     [(1, ''XR_TYPE_COORDINATE_SPACE_CREATE_INFO_ML'', ''XrCoordinateSpaceCreateInfoML'')]),
    (''XR_ML_facial_expression'',
     [(2, ''XR_TYPE_FACIAL_EXPRESSION_BLEND_SHAPE_GET_INFO_ML'', ''XrFacialExpressionBlendShapeGetInfoML''),
      (2, ''XR_TYPE_FACIAL_EXPRESSION_BLEND_SHAPE_PROPERTIES_ML'', ''XrFacialExpressionBlendShapePropertiesML''),
      (2, ''XR_TYPE_FACIAL_EXPRESSION_CLIENT_CREATE_INFO_ML'', ''XrFacialExpressionClientCreateInfoML''),
      (2, ''XR_TYPE_SYSTEM_FACIAL_EXPRESSION_PROPERTIES_ML'', ''XrSystemFacialExpressionPropertiesML'')]),
    (''XR_ML_frame_end_info'',
     [(2, ''XR_TYPE_FRAME_END_INFO_ML'', ''XrFrameEndInfoML'')]),
    (''XR_ML_global_dimmer'',
     [(2, ''XR_TYPE_GLOBAL_DIMMER_FRAME_END_INFO_ML'', ''XrGlobalDimmerFrameEndInfoML'')]),
    (''XR_ML_localization_map'',
     [(2, ''XR_TYPE_EVENT_DATA_LOCALIZATION_CHANGED_ML'', ''XrEventDataLocalizationChangedML''),
      (2, ''XR_TYPE_LOCALIZATION_ENABLE_EVENTS_INFO_ML'', ''XrLocalizationEnableEventsInfoML''),
      (2, ''XR_TYPE_LOCALIZATION_MAP_IMPORT_INFO_ML'', ''XrLocalizationMapImportInfoML''),
      (2, ''XR_TYPE_LOCALIZATION_MAP_ML'', ''XrLocalizationMapML''),
      (2, ''XR_TYPE_MAP_LOCALIZATION_REQUEST_INFO_ML'', ''XrMapLocalizationRequestInfoML'')]),
    (''XR_ML_marker_understanding'',
     [(2, ''XR_TYPE_MARKER_DETECTOR_APRIL_TAG_INFO_ML'', ''XrMarkerDetectorAprilTagInfoML''),
      (2, ''XR_TYPE_MARKER_DETECTOR_ARUCO_INFO_ML'', ''XrMarkerDetectorArucoInfoML''),
      (2, ''XR_TYPE_MARKER_DETECTOR_CREATE_INFO_ML'', ''XrMarkerDetectorCreateInfoML''),
      (2, ''XR_TYPE_MARKER_DETECTOR_CUSTOM_PROFILE_INFO_ML'', ''XrMarkerDetectorCustomProfileInfoML''),
      (2, ''XR_TYPE_MARKER_DETECTOR_SIZE_INFO_ML'', ''XrMarkerDetectorSizeInfoML''),
      (2, ''XR_TYPE_MARKER_DETECTOR_SNAPSHOT_INFO_ML'', ''XrMarkerDetectorSnapshotInfoML''),
      (2, ''XR_TYPE_MARKER_DETECTOR_STATE_ML'', ''XrMarkerDetectorStateML''),
      (2, ''XR_TYPE_MARKER_SPACE_CREATE_INFO_ML'', ''XrMarkerSpaceCreateInfoML''),
      (2, ''XR_TYPE_SYSTEM_MARKER_UNDERSTANDING_PROPERTIES_ML'', ''XrSystemMarkerUnderstandingPropertiesML'')]),
    (''XR_ML_spatial_anchors'',
     [(2, ''XR_TYPE_CREATE_SPATIAL_ANCHORS_COMPLETION_ML'', ''XrCreateSpatialAnchorsCompletionML''),
      (2, ''XR_TYPE_SPATIAL_ANCHOR_STATE_ML'', ''XrSpatialAnchorStateML''),
      (2, ''XR_TYPE_SPATIAL_ANCHORS_CREATE_INFO_FROM_POSE_ML'', ''XrSpatialAnchorsCreateInfoFromPoseML'')]),
    (''XR_ML_spatial_anchors_storage'',
     [(2, ''XR_TYPE_SPATIAL_ANCHORS_CREATE_INFO_FROM_UUIDS_ML'', ''XrSpatialAnchorsCreateInfoFromUuidsML''),
      (2, ''XR_TYPE_SPATIAL_ANCHORS_CREATE_STORAGE_INFO_ML'', ''XrSpatialAnchorsCreateStorageInfoML''),
      (2, ''XR_TYPE_SPATIAL_ANCHORS_DELETE_COMPLETION_DETAILS_ML'', ''XrSpatialAnchorsDeleteCompletionDetailsML''),
      (2, ''XR_TYPE_SPATIAL_ANCHORS_DELETE_COMPLETION_ML'', ''XrSpatialAnchorsDeleteCompletionML''),
      (2, ''XR_TYPE_SPATIAL_ANCHORS_DELETE_INFO_ML'', ''XrSpatialAnchorsDeleteInfoML''),
      (2, ''XR_TYPE_SPATIAL_ANCHORS_PUBLISH_COMPLETION_DETAILS_ML'', ''XrSpatialAnchorsPublishCompletionDetailsML''),
      (2, ''XR_TYPE_SPATIAL_ANCHORS_PUBLISH_COMPLETION_ML'', ''XrSpatialAnchorsPublishCompletionML''),
      (2, ''XR_TYPE_SPATIAL_ANCHORS_PUBLISH_INFO_ML'', ''XrSpatialAnchorsPublishInfoML''),
      (2, ''XR_TYPE_SPATIAL_ANCHORS_QUERY_COMPLETION_ML'', ''XrSpatialAnchorsQueryCompletionML''),
      (2, ''XR_TYPE_SPATIAL_ANCHORS_QUERY_INFO_RADIUS_ML'', ''XrSpatialAnchorsQueryInfoRadiusML''),
      (2, ''XR_TYPE_SPATIAL_ANCHORS_UPDATE_EXPIRATION_COMPLETION_DETAILS_ML'', ''XrSpatialAnchorsUpdateExpirationCompletionDetailsML''),
      (2, ''XR_TYPE_SPATIAL_ANCHORS_UPDATE_EXPIRATION_COMPLETION_ML'', ''XrSpatialAnchorsUpdateExpirationCompletionML''),
      (2, ''XR_TYPE_SPATIAL_ANCHORS_UPDATE_EXPIRATION_INFO_ML'', ''XrSpatialAnchorsUpdateExpirationInfoML'')]),
    (''XR_ML_system_notifications'',
     [(2, ''XR_TYPE_SYSTEM_NOTIFICATIONS_SET_INFO_ML'', ''XrSystemNotificationsSetInfoML'')]),
    (''XR_ML_user_calibration'',
     [(2, ''XR_TYPE_EVENT_DATA_EYE_CALIBRATION_CHANGED_ML'', ''XrEventDataEyeCalibrationChangedML''),
      (2, ''XR_TYPE_EVENT_DATA_HEADSET_FIT_CHANGED_ML'', ''XrEventDataHeadsetFitChangedML''),
      (2, ''XR_TYPE_USER_CALIBRATION_ENABLE_EVENTS_INFO_ML'', ''XrUserCalibrationEnableEventsInfoML'')]),
    (''XR_ML_world_mesh_detection'',
     [(2, ''XR_TYPE_WORLD_MESH_BLOCK_ML'', ''XrWorldMeshBlockML''),
      (2, ''XR_TYPE_WORLD_MESH_BLOCK_REQUEST_ML'', ''XrWorldMeshBlockRequestML''),
      (2, ''XR_TYPE_WORLD_MESH_BLOCK_STATE_ML'', ''XrWorldMeshBlockStateML''),
      (2, ''XR_TYPE_WORLD_MESH_BUFFER_ML'', ''XrWorldMeshBufferML''),
      (2, ''XR_TYPE_WORLD_MESH_BUFFER_RECOMMENDED_SIZE_INFO_ML'', ''XrWorldMeshBufferRecommendedSizeInfoML''),
      (2, ''XR_TYPE_WORLD_MESH_BUFFER_SIZE_ML'', ''XrWorldMeshBufferSizeML''),
      (2, ''XR_TYPE_WORLD_MESH_DETECTOR_CREATE_INFO_ML'', ''XrWorldMeshDetectorCreateInfoML''),
      (2, ''XR_TYPE_WORLD_MESH_GET_INFO_ML'', ''XrWorldMeshGetInfoML'')])]"

definition ext_deserializer_rows_7 :: "(string \<times> (nat \<times> string \<times> string) list) list" where
  "ext_deserializer_rows_7 =
   [(''XR_ML_world_mesh_detection'',
     [(2, ''XR_TYPE_WORLD_MESH_REQUEST_COMPLETION_INFO_ML'', ''XrWorldMeshRequestCompletionInfoML''),
      (2, ''XR_TYPE_WORLD_MESH_REQUEST_COMPLETION_ML'', ''XrWorldMeshRequestCompletionML''),
      (2, ''XR_TYPE_WORLD_MESH_STATE_REQUEST_COMPLETION_ML'', ''XrWorldMeshStateRequestCompletionML''),
      (2, ''XR_TYPE_WORLD_MESH_STATE_REQUEST_INFO_ML'', ''XrWorldMeshStateRequestInfoML'')]),
    (''XR_MNDX_egl_enable'',
     [(2, ''XR_TYPE_GRAPHICS_BINDING_EGL_MNDX'', ''XrGraphicsBindingEGLMNDX'')]),
    (''XR_MNDX_force_feedback_curl'',
     [(2, ''XR_TYPE_FORCE_FEEDBACK_CURL_APPLY_LOCATIONS_MNDX'', ''XrForceFeedbackCurlApplyLocationsMNDX''),
      (2, ''XR_TYPE_SYSTEM_FORCE_FEEDBACK_CURL_PROPERTIES_MNDX'', ''XrSystemForceFeedbackCurlPropertiesMNDX'')]),
    (''XR_MSFT_composition_layer_reprojection'',
     [(2, ''XR_TYPE_COMPOSITION_LAYER_REPROJECTION_INFO_MSFT'', ''XrCompositionLayerReprojectionInfoMSFT''),
      (2, ''XR_TYPE_COMPOSITION_LAYER_REPROJECTION_PLANE_OVERRIDE_MSFT'', ''XrCompositionLayerReprojectionPlaneOverrideMSFT'')]),
    (''XR_MSFT_controller_model'',
     [(2, ''XR_TYPE_CONTROLLER_MODEL_KEY_STATE_MSFT'', ''XrControllerModelKeyStateMSFT''),
      (2, ''XR_TYPE_CONTROLLER_MODEL_NODE_PROPERTIES_MSFT'', ''XrControllerModelNodePropertiesMSFT''),
      (2, ''XR_TYPE_CONTROLLER_MODEL_NODE_STATE_MSFT'', ''XrControllerModelNodeStateMSFT''),
      (2, ''XR_TYPE_CONTROLLER_MODEL_PROPERTIES_MSFT'', ''XrControllerModelPropertiesMSFT''),
      (2, ''XR_TYPE_CONTROLLER_MODEL_STATE_MSFT'', ''XrControllerModelStateMSFT'')]),
    (''XR_MSFT_hand_tracking_mesh'',
     [(2, ''XR_TYPE_HAND_MESH_MSFT'', ''XrHandMeshMSFT''),
      (2, ''XR_TYPE_HAND_MESH_SPACE_CREATE_INFO_MSFT'', ''XrHandMeshSpaceCreateInfoMSFT''),
      (2, ''XR_TYPE_HAND_MESH_UPDATE_INFO_MSFT'', ''XrHandMeshUpdateInfoMSFT''),
      (2, ''XR_TYPE_HAND_POSE_TYPE_INFO_MSFT'', ''XrHandPoseTypeInfoMSFT''),
      (2, ''XR_TYPE_SYSTEM_HAND_TRACKING_MESH_PROPERTIES_MSFT'', ''XrSystemHandTrackingMeshPropertiesMSFT'')]),
    (''XR_MSFT_holographic_window_attachment'',
     [(2, ''XR_TYPE_HOLOGRAPHIC_WINDOW_ATTACHMENT_MSFT'', ''XrHolographicWindowAttachmentMSFT'')]),
    (''XR_MSFT_scene_marker'',
     [(2, ''XR_TYPE_SCENE_MARKER_QR_CODES_MSFT'', ''XrSceneMarkerQRCodesMSFT''),
      (2, ''XR_TYPE_SCENE_MARKER_TYPE_FILTER_MSFT'', ''XrSceneMarkerTypeFilterMSFT''),
      (2, ''XR_TYPE_SCENE_MARKERS_MSFT'', ''XrSceneMarkersMSFT'')]),
    (''XR_MSFT_scene_understanding'',
     [(2, ''XR_TYPE_NEW_SCENE_COMPUTE_INFO_MSFT'', ''XrNewSceneComputeInfoMSFT''),
      (2, ''XR_TYPE_SCENE_COMPONENT_LOCATIONS_MSFT'', ''XrSceneComponentLocationsMSFT''),
      (2, ''XR_TYPE_SCENE_COMPONENT_PARENT_FILTER_INFO_MSFT'', ''XrSceneComponentParentFilterInfoMSFT''),
      (2, ''XR_TYPE_SCENE_COMPONENTS_GET_INFO_MSFT'', ''XrSceneComponentsGetInfoMSFT''),
      (2, ''XR_TYPE_SCENE_COMPONENTS_LOCATE_INFO_MSFT'', ''XrSceneComponentsLocateInfoMSFT''),
      (2, ''XR_TYPE_SCENE_COMPONENTS_MSFT'', ''XrSceneComponentsMSFT''),
      (2, ''XR_TYPE_SCENE_CREATE_INFO_MSFT'', ''XrSceneCreateInfoMSFT''),
      (2, ''XR_TYPE_SCENE_MESH_BUFFERS_GET_INFO_MSFT'', ''XrSceneMeshBuffersGetInfoMSFT''),
      (2, ''XR_TYPE_SCENE_MESH_BUFFERS_MSFT'', ''XrSceneMeshBuffersMSFT''),
      (2, ''XR_TYPE_SCENE_MESH_INDICES_UINT16_MSFT'', ''XrSceneMeshIndicesUint16MSFT''),
      (2, ''XR_TYPE_SCENE_MESH_INDICES_UINT32_MSFT'', ''XrSceneMeshIndicesUint32MSFT''),
      (2, ''XR_TYPE_SCENE_MESH_VERTEX_BUFFER_MSFT'', ''XrSceneMeshVertexBufferMSFT''),
      (2, ''XR_TYPE_SCENE_MESHES_MSFT'', ''XrSceneMeshesMSFT''),
      (2, ''XR_TYPE_SCENE_OBJECT_TYPES_FILTER_INFO_MSFT'', ''XrSceneObjectTypesFilterInfoMSFT''),
      (2, ''XR_TYPE_SCENE_OBJECTS_MSFT'', ''XrSceneObjectsMSFT''),
      (2, ''XR_TYPE_SCENE_OBSERVER_CREATE_INFO_MSFT'', ''XrSceneObserverCreateInfoMSFT''),
      (2, ''XR_TYPE_SCENE_PLANE_ALIGNMENT_FILTER_INFO_MSFT'', ''XrScenePlaneAlignmentFilterInfoMSFT''),
      (2, ''XR_TYPE_SCENE_PLANES_MSFT'', ''XrScenePlanesMSFT''),
      (2, ''XR_TYPE_VISUAL_MESH_COMPUTE_LOD_INFO_MSFT'', ''XrVisualMeshComputeLodInfoMSFT'')]),
    (''XR_MSFT_scene_understanding_serialization'',
     [(2, ''XR_TYPE_SCENE_DESERIALIZE_INFO_MSFT'', ''XrSceneDeserializeInfoMSFT''),
      (2, ''XR_TYPE_SERIALIZED_SCENE_FRAGMENT_DATA_GET_INFO_MSFT'', ''XrSerializedSceneFragmentDataGetInfoMSFT'')]),
    (''XR_MSFT_secondary_view_configuration'',
     [(2, ''XR_TYPE_SECONDARY_VIEW_CONFIGURATION_FRAME_END_INFO_MSFT'', ''XrSecondaryViewConfigurationFrameEndInfoMSFT''),
      (2, ''XR_TYPE_SECONDARY_VIEW_CONFIGURATION_FRAME_STATE_MSFT'', ''XrSecondaryViewConfigurationFrameStateMSFT''),
      (2, ''XR_TYPE_SECONDARY_VIEW_CONFIGURATION_LAYER_INFO_MSFT'', ''XrSecondaryViewConfigurationLayerInfoMSFT''),
      (2, ''XR_TYPE_SECONDARY_VIEW_CONFIGURATION_SESSION_BEGIN_INFO_MSFT'', ''XrSecondaryViewConfigurationSessionBeginInfoMSFT''),
      (2, ''XR_TYPE_SECONDARY_VIEW_CONFIGURATION_STATE_MSFT'', ''XrSecondaryViewConfigurationStateMSFT''),
      (2, ''XR_TYPE_SECONDARY_VIEW_CONFIGURATION_SWAPCHAIN_CREATE_INFO_MSFT'', ''XrSecondaryViewConfigurationSwapchainCreateInfoMSFT'')]),
    (''XR_MSFT_spatial_anchor'',
     [(1, ''XR_TYPE_SPATIAL_ANCHOR_CREATE_INFO_MSFT'', ''XrSpatialAnchorCreateInfoMSFT''),
      (1, ''XR_TYPE_SPATIAL_ANCHOR_SPACE_CREATE_INFO_MSFT'', ''XrSpatialAnchorSpaceCreateInfoMSFT'')]),
    (''XR_MSFT_spatial_anchor_persistence'',
     [(2, ''XR_TYPE_SPATIAL_ANCHOR_FROM_PERSISTED_ANCHOR_CREATE_INFO_MSFT'', ''XrSpatialAnchorFromPersistedAnchorCreateInfoMSFT''),
      (2, ''XR_TYPE_SPATIAL_ANCHOR_PERSISTENCE_INFO_MSFT'', ''XrSpatialAnchorPersistenceInfoMSFT'')]),
    (''XR_MSFT_spatial_graph_bridge'',
     [(2, ''XR_TYPE_SPATIAL_GRAPH_NODE_BINDING_PROPERTIES_GET_INFO_MSFT'', ''XrSpatialGraphNodeBindingPropertiesGetInfoMSFT''),
      (2, ''XR_TYPE_SPATIAL_GRAPH_NODE_BINDING_PROPERTIES_MSFT'', ''XrSpatialGraphNodeBindingPropertiesMSFT''),
      (2, ''XR_TYPE_SPATIAL_GRAPH_NODE_SPACE_CREATE_INFO_MSFT'', ''XrSpatialGraphNodeSpaceCreateInfoMSFT''),
      (2, ''XR_TYPE_SPATIAL_GRAPH_STATIC_NODE_BINDING_CREATE_INFO_MSFT'', ''XrSpatialGraphStaticNodeBindingCreateInfoMSFT'')]),
    (''XR_OCULUS_external_camera'',
     [(2, ''XR_TYPE_EXTERNAL_CAMERA_OCULUS'', ''XrExternalCameraOCULUS'')]),
    (''XR_VALVE_analog_threshold'',
     [(2, ''XR_TYPE_INTERACTION_PROFILE_ANALOG_THRESHOLD_VALVE'', ''XrInteractionProfileAnalogThresholdVALVE'')])]"

definition ext_deserializer_rows_8 :: "(string \<times> (nat \<times> string \<times> string) list) list" where
  "ext_deserializer_rows_8 =
   [(''XR_VARJO_composition_layer_depth_test'',
     [(2, ''XR_TYPE_COMPOSITION_LAYER_DEPTH_TEST_VARJO'', ''XrCompositionLayerDepthTestVARJO'')]),
    (''XR_VARJO_foveated_rendering'',
     [(2, ''XR_TYPE_FOVEATED_VIEW_CONFIGURATION_VIEW_VARJO'', ''XrFoveatedViewConfigurationViewVARJO''),
      (2, ''XR_TYPE_SYSTEM_FOVEATED_RENDERING_PROPERTIES_VARJO'', ''XrSystemFoveatedRenderingPropertiesVARJO''),
      (2, ''XR_TYPE_VIEW_LOCATE_FOVEATED_RENDERING_VARJO'', ''XrViewLocateFoveatedRenderingVARJO'')]),
    (''XR_VARJO_marker_tracking'',
     [(2, ''XR_TYPE_EVENT_DATA_MARKER_TRACKING_UPDATE_VARJO'', ''XrEventDataMarkerTrackingUpdateVARJO''),
      (2, ''XR_TYPE_MARKER_SPACE_CREATE_INFO_VARJO'', ''XrMarkerSpaceCreateInfoVARJO''),
      (2, ''XR_TYPE_SYSTEM_MARKER_TRACKING_PROPERTIES_VARJO'', ''XrSystemMarkerTrackingPropertiesVARJO'')])]"

definition ext_deserializer_rows :: "(string \<times> (nat \<times> string \<times> string) list) list" where
  "ext_deserializer_rows =
     ext_deserializer_rows_1 @ ext_deserializer_rows_2 @ ext_deserializer_rows_3 @
     ext_deserializer_rows_4 @ ext_deserializer_rows_5 @ ext_deserializer_rows_6 @
     ext_deserializer_rows_7 @ ext_deserializer_rows_8"

lemmas ext_deserializer_rows_defs =
  ext_deserializer_rows_def ext_deserializer_rows_1_def ext_deserializer_rows_2_def ext_deserializer_rows_3_def
  ext_deserializer_rows_4_def ext_deserializer_rows_5_def ext_deserializer_rows_6_def
  ext_deserializer_rows_7_def ext_deserializer_rows_8_def

definition ext_cleaner_rows_1 :: "(string \<times> (nat \<times> string \<times> string) list) list" where
  "ext_cleaner_rows_1 =
   [(''XR_ALMALENCE_digital_lens_control'',
     [(1, ''XR_TYPE_DIGITAL_LENS_CONTROL_ALMALENCE'', ''XrDigitalLensControlALMALENCE'')]),
    (''XR_BD_body_tracking'',
     [(2, ''XR_TYPE_BODY_JOINT_LOCATIONS_BD'', ''XrBodyJointLocationsBD''),
      (2, ''XR_TYPE_BODY_JOINTS_LOCATE_INFO_BD'', ''XrBodyJointsLocateInfoBD''),
      (2, ''XR_TYPE_BODY_TRACKER_CREATE_INFO_BD'', ''XrBodyTrackerCreateInfoBD''),
      (2, ''XR_TYPE_SYSTEM_BODY_TRACKING_PROPERTIES_BD'', ''XrSystemBodyTrackingPropertiesBD'')]),
    (''XR_BD_future_progress'',
     [(2, ''XR_TYPE_FUTURE_POLL_RESULT_PROGRESS_BD'', ''XrFuturePollResultProgressBD'')]),
    (''XR_BD_spatial_anchor'',
     [(2, ''XR_TYPE_SPATIAL_ANCHOR_CREATE_COMPLETION_BD'', ''XrSpatialAnchorCreateCompletionBD''),
      (2, ''XR_TYPE_SPATIAL_ANCHOR_CREATE_INFO_BD'', ''XrSpatialAnchorCreateInfoBD''),
      (2, ''XR_TYPE_SPATIAL_ANCHOR_PERSIST_INFO_BD'', ''XrSpatialAnchorPersistInfoBD''),
      (2, ''XR_TYPE_SPATIAL_ANCHOR_UNPERSIST_INFO_BD'', ''XrSpatialAnchorUnpersistInfoBD''),
      (2, ''XR_TYPE_SYSTEM_SPATIAL_ANCHOR_PROPERTIES_BD'', ''XrSystemSpatialAnchorPropertiesBD'')]),
    (''XR_BD_spatial_anchor_sharing'',
     [(2, ''XR_TYPE_SHARED_SPATIAL_ANCHOR_DOWNLOAD_INFO_BD'', ''XrSharedSpatialAnchorDownloadInfoBD''),
      (2, ''XR_TYPE_SPATIAL_ANCHOR_SHARE_INFO_BD'', ''XrSpatialAnchorShareInfoBD''),
      (2, ''XR_TYPE_SYSTEM_SPATIAL_ANCHOR_SHARING_PROPERTIES_BD'', ''XrSystemSpatialAnchorSharingPropertiesBD'')]),
    (''XR_BD_spatial_mesh'',
     [(2, ''XR_TYPE_SENSE_DATA_PROVIDER_CREATE_INFO_SPATIAL_MESH_BD'', ''XrSenseDataProviderCreateInfoSpatialMeshBD''),
      (2, ''XR_TYPE_SYSTEM_SPATIAL_MESH_PROPERTIES_BD'', ''XrSystemSpatialMeshPropertiesBD'')]),
    (''XR_BD_spatial_scene'',
     [(2, ''XR_TYPE_SCENE_CAPTURE_INFO_BD'', ''XrSceneCaptureInfoBD''),
      (2, ''XR_TYPE_SYSTEM_SPATIAL_SCENE_PROPERTIES_BD'', ''XrSystemSpatialScenePropertiesBD'')]),
    (''XR_BD_spatial_sensing'',
     [(2, ''XR_TYPE_ANCHOR_SPACE_CREATE_INFO_BD'', ''XrAnchorSpaceCreateInfoBD''),
      (2, ''XR_TYPE_EVENT_DATA_SENSE_DATA_PROVIDER_STATE_CHANGED_BD'', ''XrEventDataSenseDataProviderStateChangedBD''),
      (2, ''XR_TYPE_EVENT_DATA_SENSE_DATA_UPDATED_BD'', ''XrEventDataSenseDataUpdatedBD''),
      (2, ''XR_TYPE_QUERIED_SENSE_DATA_BD'', ''XrQueriedSenseDataBD''),
      (2, ''XR_TYPE_QUERIED_SENSE_DATA_GET_INFO_BD'', ''XrQueriedSenseDataGetInfoBD''),
      (2, ''XR_TYPE_SENSE_DATA_FILTER_SEMANTIC_BD'', ''XrSenseDataFilterSemanticBD''),
      (2, ''XR_TYPE_SENSE_DATA_FILTER_UUID_BD'', ''XrSenseDataFilterUuidBD''),
      (2, ''XR_TYPE_SENSE_DATA_PROVIDER_CREATE_INFO_BD'', ''XrSenseDataProviderCreateInfoBD''),
      (2, ''XR_TYPE_SENSE_DATA_PROVIDER_START_INFO_BD'', ''XrSenseDataProviderStartInfoBD''),
      (2, ''XR_TYPE_SENSE_DATA_QUERY_COMPLETION_BD'', ''XrSenseDataQueryCompletionBD''),
      (2, ''XR_TYPE_SENSE_DATA_QUERY_INFO_BD'', ''XrSenseDataQueryInfoBD''),
      (2, ''XR_TYPE_SPATIAL_ENTITY_ANCHOR_CREATE_INFO_BD'', ''XrSpatialEntityAnchorCreateInfoBD''),
      (2, ''XR_TYPE_SPATIAL_ENTITY_COMPONENT_DATA_BOUNDING_BOX_2D_BD'', ''XrSpatialEntityComponentDataBoundingBox2DBD''),
      (2, ''XR_TYPE_SPATIAL_ENTITY_COMPONENT_DATA_BOUNDING_BOX_3D_BD'', ''XrSpatialEntityComponentDataBoundingBox3DBD''),
      (2, ''XR_TYPE_SPATIAL_ENTITY_COMPONENT_DATA_LOCATION_BD'', ''XrSpatialEntityComponentDataLocationBD''),
      (2, ''XR_TYPE_SPATIAL_ENTITY_COMPONENT_DATA_POLYGON_BD'', ''XrSpatialEntityComponentDataPolygonBD''),
      (2, ''XR_TYPE_SPATIAL_ENTITY_COMPONENT_DATA_SEMANTIC_BD'', ''XrSpatialEntityComponentDataSemanticBD''),
      (2, ''XR_TYPE_SPATIAL_ENTITY_COMPONENT_DATA_TRIANGLE_MESH_BD'', ''XrSpatialEntityComponentDataTriangleMeshBD''),
      (2, ''XR_TYPE_SPATIAL_ENTITY_COMPONENT_GET_INFO_BD'', ''XrSpatialEntityComponentGetInfoBD''),
      (2, ''XR_TYPE_SPATIAL_ENTITY_LOCATION_GET_INFO_BD'', ''XrSpatialEntityLocationGetInfoBD''),
      (2, ''XR_TYPE_SPATIAL_ENTITY_STATE_BD'', ''XrSpatialEntityStateBD''),
      (2, ''XR_TYPE_SYSTEM_SPATIAL_SENSING_PROPERTIES_BD'', ''XrSystemSpatialSensingPropertiesBD'')]),
    (''XR_EPIC_view_configuration_fov'',
     [(2, ''XR_TYPE_VIEW_CONFIGURATION_VIEW_FOV_EPIC'', ''XrViewConfigurationViewFovEPIC'')]),
    (''XR_EXTX_overlay'',
     [(2, ''XR_TYPE_EVENT_DATA_MAIN_SESSION_VISIBILITY_CHANGED_EXTX'', ''XrEventDataMainSessionVisibilityChangedEXTX''),
      (2, ''XR_TYPE_SESSION_CREATE_INFO_OVERLAY_EXTX'', ''XrSessionCreateInfoOverlayEXTX'')]),
    (''XR_EXT_active_action_set_priority'',
     [(2, ''XR_TYPE_ACTIVE_ACTION_SET_PRIORITIES_EXT'', ''XrActiveActionSetPrioritiesEXT'')]),
    (''XR_EXT_debug_utils'',
     [(2, ''XR_TYPE_DEBUG_UTILS_LABEL_EXT'', ''XrDebugUtilsLabelEXT''),
      (2, ''XR_TYPE_DEBUG_UTILS_MESSENGER_CALLBACK_DATA_EXT'', ''XrDebugUtilsMessengerCallbackDataEXT''),
      (2, ''XR_TYPE_DEBUG_UTILS_MESSENGER_CREATE_INFO_EXT'', ''XrDebugUtilsMessengerCreateInfoEXT''),
      (2, ''XR_TYPE_DEBUG_UTILS_OBJECT_NAME_INFO_EXT'', ''XrDebugUtilsObjectNameInfoEXT'')]),
    (''XR_EXT_dpad_binding'',
     [(2, ''XR_TYPE_INTERACTION_PROFILE_DPAD_BINDING_EXT'', ''XrInteractionProfileDpadBindingEXT'')]),
    (''XR_EXT_eye_gaze_interaction'',
     [(2, ''XR_TYPE_EYE_GAZE_SAMPLE_TIME_EXT'', ''XrEyeGazeSampleTimeEXT''),
      (2, ''XR_TYPE_SYSTEM_EYE_GAZE_INTERACTION_PROPERTIES_EXT'', ''XrSystemEyeGazeInteractionPropertiesEXT'')]),
    (''XR_EXT_frame_synthesis'',
     [(2, ''XR_TYPE_FRAME_SYNTHESIS_CONFIG_VIEW_EXT'', ''XrFrameSynthesisConfigViewEXT''),
      (2, ''XR_TYPE_FRAME_SYNTHESIS_INFO_EXT'', ''XrFrameSynthesisInfoEXT'')]),
    (''XR_EXT_future'',
     [(2, ''XR_TYPE_FUTURE_CANCEL_INFO_EXT'', ''XrFutureCancelInfoEXT''),
      (2, ''XR_TYPE_FUTURE_COMPLETION_EXT'', ''XrFutureCompletionEXT''),
      (2, ''XR_TYPE_FUTURE_POLL_INFO_EXT'', ''XrFuturePollInfoEXT''),
      (2, ''XR_TYPE_FUTURE_POLL_RESULT_EXT'', ''XrFuturePollResultEXT'')]),
    (''XR_EXT_hand_joints_motion_range'',
     [(2, ''XR_TYPE_HAND_JOINTS_MOTION_RANGE_INFO_EXT'', ''XrHandJointsMotionRangeInfoEXT'')])]"

definition ext_cleaner_rows_2 :: "(string \<times> (nat \<times> string \<times> string) list) list" where
  "ext_cleaner_rows_2 =
   [(''XR_EXT_hand_tracking'',
     [(2, ''XR_TYPE_HAND_JOINT_LOCATIONS_EXT'', ''XrHandJointLocationsEXT''),
      (2, ''XR_TYPE_HAND_JOINT_VELOCITIES_EXT'', ''XrHandJointVelocitiesEXT''),
      (2, ''XR_TYPE_HAND_JOINTS_LOCATE_INFO_EXT'', ''XrHandJointsLocateInfoEXT''),
      (2, ''XR_TYPE_HAND_TRACKER_CREATE_INFO_EXT'', ''XrHandTrackerCreateInfoEXT''),
      (2, ''XR_TYPE_SYSTEM_HAND_TRACKING_PROPERTIES_EXT'', ''XrSystemHandTrackingPropertiesEXT'')]),
    (''XR_EXT_hand_tracking_data_source'',
     [(2, ''XR_TYPE_HAND_TRACKING_DATA_SOURCE_INFO_EXT'', ''XrHandTrackingDataSourceInfoEXT''),
      (2, ''XR_TYPE_HAND_TRACKING_DATA_SOURCE_STATE_EXT'', ''XrHandTrackingDataSourceStateEXT'')]),
    (''XR_EXT_performance_settings'',
     [(2, ''XR_TYPE_EVENT_DATA_PERF_SETTINGS_EXT'', ''XrEventDataPerfSettingsEXT'')]),
    (''XR_EXT_plane_detection'',
     [(2, ''XR_TYPE_PLANE_DETECTOR_BEGIN_INFO_EXT'', ''XrPlaneDetectorBeginInfoEXT''),
      (2, ''XR_TYPE_PLANE_DETECTOR_CREATE_INFO_EXT'', ''XrPlaneDetectorCreateInfoEXT''),
      (2, ''XR_TYPE_PLANE_DETECTOR_GET_INFO_EXT'', ''XrPlaneDetectorGetInfoEXT''),
      (2, ''XR_TYPE_PLANE_DETECTOR_LOCATION_EXT'', ''XrPlaneDetectorLocationEXT''),
      (2, ''XR_TYPE_PLANE_DETECTOR_LOCATIONS_EXT'', ''XrPlaneDetectorLocationsEXT''),
      (2, ''XR_TYPE_PLANE_DETECTOR_POLYGON_BUFFER_EXT'', ''XrPlaneDetectorPolygonBufferEXT''),
      (2, ''XR_TYPE_SYSTEM_PLANE_DETECTION_PROPERTIES_EXT'', ''XrSystemPlaneDetectionPropertiesEXT'')]),
    (''XR_EXT_user_presence'',
     [(2, ''XR_TYPE_EVENT_DATA_USER_PRESENCE_CHANGED_EXT'', ''XrEventDataUserPresenceChangedEXT''),
      (2, ''XR_TYPE_SYSTEM_USER_PRESENCE_PROPERTIES_EXT'', ''XrSystemUserPresencePropertiesEXT'')]),
    (''XR_EXT_view_configuration_depth_range'',
     [(2, ''XR_TYPE_VIEW_CONFIGURATION_DEPTH_RANGE_EXT'', ''XrViewConfigurationDepthRangeEXT'')]),
    (''XR_FB_android_surface_swapchain_create'',
     [(2, ''XR_TYPE_ANDROID_SURFACE_SWAPCHAIN_CREATE_INFO_FB'', ''XrAndroidSurfaceSwapchainCreateInfoFB'')]),
    (''XR_FB_body_tracking'',
     [(2, ''XR_TYPE_BODY_JOINT_LOCATIONS_FB'', ''XrBodyJointLocationsFB''),
      (2, ''XR_TYPE_BODY_JOINTS_LOCATE_INFO_FB'', ''XrBodyJointsLocateInfoFB''),
      (2, ''XR_TYPE_BODY_SKELETON_FB'', ''XrBodySkeletonFB''),
      (2, ''XR_TYPE_BODY_TRACKER_CREATE_INFO_FB'', ''XrBodyTrackerCreateInfoFB''),
      (2, ''XR_TYPE_SYSTEM_BODY_TRACKING_PROPERTIES_FB'', ''XrSystemBodyTrackingPropertiesFB'')]),
    (''XR_FB_color_space'',
     [(2, ''XR_TYPE_SYSTEM_COLOR_SPACE_PROPERTIES_FB'', ''XrSystemColorSpacePropertiesFB'')]),
    (''XR_FB_composition_layer_alpha_blend'',
     [(2, ''XR_TYPE_COMPOSITION_LAYER_ALPHA_BLEND_FB'', ''XrCompositionLayerAlphaBlendFB'')]),
    (''XR_FB_composition_layer_depth_test'',
     [(2, ''XR_TYPE_COMPOSITION_LAYER_DEPTH_TEST_FB'', ''XrCompositionLayerDepthTestFB'')]),
    (''XR_FB_composition_layer_image_layout'',
     [(2, ''XR_TYPE_COMPOSITION_LAYER_IMAGE_LAYOUT_FB'', ''XrCompositionLayerImageLayoutFB'')]),
    (''XR_FB_composition_layer_secure_content'',
     [(2, ''XR_TYPE_COMPOSITION_LAYER_SECURE_CONTENT_FB'', ''XrCompositionLayerSecureContentFB'')]),
    (''XR_FB_composition_layer_settings'',
     [(2, ''XR_TYPE_COMPOSITION_LAYER_SETTINGS_FB'', ''XrCompositionLayerSettingsFB'')]),
    (''XR_FB_display_refresh_rate'',
     [(2, ''XR_TYPE_EVENT_DATA_DISPLAY_REFRESH_RATE_CHANGED_FB'', ''XrEventDataDisplayRefreshRateChangedFB'')]),
    (''XR_FB_eye_tracking_social'',
     [(2, ''XR_TYPE_EYE_GAZES_FB'', ''XrEyeGazesFB''),
      (2, ''XR_TYPE_EYE_GAZES_INFO_FB'', ''XrEyeGazesInfoFB''),
      (2, ''XR_TYPE_EYE_TRACKER_CREATE_INFO_FB'', ''XrEyeTrackerCreateInfoFB''),
      (2, ''XR_TYPE_SYSTEM_EYE_TRACKING_PROPERTIES_FB'', ''XrSystemEyeTrackingPropertiesFB'')]),
    (''XR_FB_face_tracking'',
     [(2, ''XR_TYPE_FACE_EXPRESSION_INFO_FB'', ''XrFaceExpressionInfoFB''),
      (2, ''XR_TYPE_FACE_EXPRESSION_WEIGHTS_FB'', ''XrFaceExpressionWeightsFB''),
      (2, ''XR_TYPE_FACE_TRACKER_CREATE_INFO_FB'', ''XrFaceTrackerCreateInfoFB''),
      (2, ''XR_TYPE_SYSTEM_FACE_TRACKING_PROPERTIES_FB'', ''XrSystemFaceTrackingPropertiesFB'')]),
    (''XR_FB_face_tracking2'',
     [(2, ''XR_TYPE_FACE_EXPRESSION_INFO2_FB'', ''XrFaceExpressionInfo2FB''),
      (2, ''XR_TYPE_FACE_EXPRESSION_WEIGHTS2_FB'', ''XrFaceExpressionWeights2FB''),
      (2, ''XR_TYPE_FACE_TRACKER_CREATE_INFO2_FB'', ''XrFaceTrackerCreateInfo2FB''),
      (2, ''XR_TYPE_SYSTEM_FACE_TRACKING_PROPERTIES2_FB'', ''XrSystemFaceTrackingProperties2FB'')]),
    (''XR_FB_foveation'',
     [(2, ''XR_TYPE_FOVEATION_PROFILE_CREATE_INFO_FB'', ''XrFoveationProfileCreateInfoFB''),
      (2, ''XR_TYPE_SWAPCHAIN_CREATE_INFO_FOVEATION_FB'', ''XrSwapchainCreateInfoFoveationFB''),
      (2, ''XR_TYPE_SWAPCHAIN_STATE_FOVEATION_FB'', ''XrSwapchainStateFoveationFB'')]),
    (''XR_FB_foveation_configuration'',
     [(2, ''XR_TYPE_FOVEATION_LEVEL_PROFILE_CREATE_INFO_FB'', ''XrFoveationLevelProfileCreateInfoFB'')]),
    (''XR_FB_foveation_vulkan'',
     [(2, ''XR_TYPE_SWAPCHAIN_IMAGE_FOVEATION_VULKAN_FB'', ''XrSwapchainImageFoveationVulkanFB'')]),
    (''XR_FB_hand_tracking_aim'',
     [(2, ''XR_TYPE_HAND_TRACKING_AIM_STATE_FB'', ''XrHandTrackingAimStateFB'')]),
    (''XR_FB_hand_tracking_capsules'',
     [(2, ''XR_TYPE_HAND_TRACKING_CAPSULES_STATE_FB'', ''XrHandTrackingCapsulesStateFB'')]),
    (''XR_FB_hand_tracking_mesh'',
     [(2, ''XR_TYPE_HAND_TRACKING_MESH_FB'', ''XrHandTrackingMeshFB''),
      (2, ''XR_TYPE_HAND_TRACKING_SCALE_FB'', ''XrHandTrackingScaleFB'')])]"

definition ext_cleaner_rows_3 :: "(string \<times> (nat \<times> string \<times> string) list) list" where
  "ext_cleaner_rows_3 =
   [(''XR_FB_haptic_amplitude_envelope'',
     [(2, ''XR_TYPE_HAPTIC_AMPLITUDE_ENVELOPE_VIBRATION_FB'', ''XrHapticAmplitudeEnvelopeVibrationFB'')]),
    (''XR_FB_haptic_pcm'',
     [(2, ''XR_TYPE_DEVICE_PCM_SAMPLE_RATE_STATE_FB'', ''XrDevicePcmSampleRateStateFB''),
      (2, ''XR_TYPE_HAPTIC_PCM_VIBRATION_FB'', ''XrHapticPcmVibrationFB'')]),
    (''XR_FB_keyboard_tracking'',
     [(2, ''XR_TYPE_KEYBOARD_SPACE_CREATE_INFO_FB'', ''XrKeyboardSpaceCreateInfoFB''),
      (2, ''XR_TYPE_KEYBOARD_TRACKING_QUERY_FB'', ''XrKeyboardTrackingQueryFB''),
      (2, ''XR_TYPE_SYSTEM_KEYBOARD_TRACKING_PROPERTIES_FB'', ''XrSystemKeyboardTrackingPropertiesFB'')]),
    (''XR_FB_passthrough'',
     [(2, ''XR_TYPE_COMPOSITION_LAYER_PASSTHROUGH_FB'', ''XrCompositionLayerPassthroughFB''),
      (2, ''XR_TYPE_EVENT_DATA_PASSTHROUGH_STATE_CHANGED_FB'', ''XrEventDataPassthroughStateChangedFB''),
      (2, ''XR_TYPE_GEOMETRY_INSTANCE_CREATE_INFO_FB'', ''XrGeometryInstanceCreateInfoFB''),
      (2, ''XR_TYPE_GEOMETRY_INSTANCE_TRANSFORM_FB'', ''XrGeometryInstanceTransformFB''),
      (2, ''XR_TYPE_PASSTHROUGH_BRIGHTNESS_CONTRAST_SATURATION_FB'', ''XrPassthroughBrightnessContrastSaturationFB''),
      (2, ''XR_TYPE_PASSTHROUGH_COLOR_MAP_MONO_TO_MONO_FB'', ''XrPassthroughColorMapMonoToMonoFB''),
      (2, ''XR_TYPE_PASSTHROUGH_COLOR_MAP_MONO_TO_RGBA_FB'', ''XrPassthroughColorMapMonoToRgbaFB''),
      (2, ''XR_TYPE_PASSTHROUGH_CREATE_INFO_FB'', ''XrPassthroughCreateInfoFB''),
      (2, ''XR_TYPE_PASSTHROUGH_LAYER_CREATE_INFO_FB'', ''XrPassthroughLayerCreateInfoFB''),
      (2, ''XR_TYPE_PASSTHROUGH_STYLE_FB'', ''XrPassthroughStyleFB''),
      (2, ''XR_TYPE_SYSTEM_PASSTHROUGH_PROPERTIES2_FB'', ''XrSystemPassthroughProperties2FB''),
      (2, ''XR_TYPE_SYSTEM_PASSTHROUGH_PROPERTIES_FB'', ''XrSystemPassthroughPropertiesFB'')]),
    (''XR_FB_passthrough_keyboard_hands'',
     [(2, ''XR_TYPE_PASSTHROUGH_KEYBOARD_HANDS_INTENSITY_FB'', ''XrPassthroughKeyboardHandsIntensityFB'')]),
    (''XR_FB_render_model'',
     [(2, ''XR_TYPE_RENDER_MODEL_BUFFER_FB'', ''XrRenderModelBufferFB''),
      (2, ''XR_TYPE_RENDER_MODEL_CAPABILITIES_REQUEST_FB'', ''XrRenderModelCapabilitiesRequestFB''),
      (2, ''XR_TYPE_RENDER_MODEL_LOAD_INFO_FB'', ''XrRenderModelLoadInfoFB''),
      (2, ''XR_TYPE_RENDER_MODEL_PATH_INFO_FB'', ''XrRenderModelPathInfoFB''),
      (2, ''XR_TYPE_RENDER_MODEL_PROPERTIES_FB'', ''XrRenderModelPropertiesFB''),
      (2, ''XR_TYPE_SYSTEM_RENDER_MODEL_PROPERTIES_FB'', ''XrSystemRenderModelPropertiesFB'')]),
    (''XR_FB_scene'',
     [(2, ''XR_TYPE_BOUNDARY_2D_FB'', ''XrBoundary2DFB''),
      (2, ''XR_TYPE_ROOM_LAYOUT_FB'', ''XrRoomLayoutFB''),
      (2, ''XR_TYPE_SEMANTIC_LABELS_FB'', ''XrSemanticLabelsFB''),
      (2, ''XR_TYPE_SEMANTIC_LABELS_SUPPORT_INFO_FB'', ''XrSemanticLabelsSupportInfoFB'')]),
    (''XR_FB_scene_capture'',
     [(2, ''XR_TYPE_EVENT_DATA_SCENE_CAPTURE_COMPLETE_FB'', ''XrEventDataSceneCaptureCompleteFB''),
      (2, ''XR_TYPE_SCENE_CAPTURE_REQUEST_INFO_FB'', ''XrSceneCaptureRequestInfoFB'')]),
    (''XR_FB_space_warp'',
     [(2, ''XR_TYPE_COMPOSITION_LAYER_SPACE_WARP_INFO_FB'', ''XrCompositionLayerSpaceWarpInfoFB''),
      (2, ''XR_TYPE_SYSTEM_SPACE_WARP_PROPERTIES_FB'', ''XrSystemSpaceWarpPropertiesFB'')]),
    (''XR_FB_spatial_entity'',
     [(2, ''XR_TYPE_EVENT_DATA_SPACE_SET_STATUS_COMPLETE_FB'', ''XrEventDataSpaceSetStatusCompleteFB''),
      (2, ''XR_TYPE_EVENT_DATA_SPATIAL_ANCHOR_CREATE_COMPLETE_FB'', ''XrEventDataSpatialAnchorCreateCompleteFB''),
      (2, ''XR_TYPE_SPACE_COMPONENT_STATUS_FB'', ''XrSpaceComponentStatusFB''),
      (2, ''XR_TYPE_SPACE_COMPONENT_STATUS_SET_INFO_FB'', ''XrSpaceComponentStatusSetInfoFB''),
      (2, ''XR_TYPE_SPATIAL_ANCHOR_CREATE_INFO_FB'', ''XrSpatialAnchorCreateInfoFB''),
      (2, ''XR_TYPE_SYSTEM_SPATIAL_ENTITY_PROPERTIES_FB'', ''XrSystemSpatialEntityPropertiesFB'')]),
    (''XR_FB_spatial_entity_container'',
     [(2, ''XR_TYPE_SPACE_CONTAINER_FB'', ''XrSpaceContainerFB'')]),
    (''XR_FB_spatial_entity_query'',
     [(2, ''XR_TYPE_EVENT_DATA_SPACE_QUERY_COMPLETE_FB'', ''XrEventDataSpaceQueryCompleteFB''),
      (2, ''XR_TYPE_EVENT_DATA_SPACE_QUERY_RESULTS_AVAILABLE_FB'', ''XrEventDataSpaceQueryResultsAvailableFB''),
      (2, ''XR_TYPE_SPACE_COMPONENT_FILTER_INFO_FB'', ''XrSpaceComponentFilterInfoFB''),
      (2, ''XR_TYPE_SPACE_QUERY_INFO_FB'', ''XrSpaceQueryInfoFB''),
      (2, ''XR_TYPE_SPACE_QUERY_RESULTS_FB'', ''XrSpaceQueryResultsFB''),
      (2, ''XR_TYPE_SPACE_STORAGE_LOCATION_FILTER_INFO_FB'', ''XrSpaceStorageLocationFilterInfoFB''),
      (2, ''XR_TYPE_SPACE_UUID_FILTER_INFO_FB'', ''XrSpaceUuidFilterInfoFB'')]),
    (''XR_FB_spatial_entity_sharing'',
     [(2, ''XR_TYPE_EVENT_DATA_SPACE_SHARE_COMPLETE_FB'', ''XrEventDataSpaceShareCompleteFB''),
      (2, ''XR_TYPE_SPACE_SHARE_INFO_FB'', ''XrSpaceShareInfoFB'')]),
    (''XR_FB_spatial_entity_storage'',
     [(2, ''XR_TYPE_EVENT_DATA_SPACE_ERASE_COMPLETE_FB'', ''XrEventDataSpaceEraseCompleteFB''),
      (2, ''XR_TYPE_EVENT_DATA_SPACE_SAVE_COMPLETE_FB'', ''XrEventDataSpaceSaveCompleteFB''),
      (2, ''XR_TYPE_SPACE_ERASE_INFO_FB'', ''XrSpaceEraseInfoFB''),
      (2, ''XR_TYPE_SPACE_SAVE_INFO_FB'', ''XrSpaceSaveInfoFB'')]),
    (''XR_FB_spatial_entity_storage_batch'',
     [(2, ''XR_TYPE_EVENT_DATA_SPACE_LIST_SAVE_COMPLETE_FB'', ''XrEventDataSpaceListSaveCompleteFB''),
      (2, ''XR_TYPE_SPACE_LIST_SAVE_INFO_FB'', ''XrSpaceListSaveInfoFB'')]),
    (''XR_FB_spatial_entity_user'',
     [(2, ''XR_TYPE_SPACE_USER_CREATE_INFO_FB'', ''XrSpaceUserCreateInfoFB'')]),
    (''XR_FB_swapchain_update_state_android_surface'',
     [(2, ''XR_TYPE_SWAPCHAIN_STATE_ANDROID_SURFACE_DIMENSIONS_FB'', ''XrSwapchainStateAndroidSurfaceDimensionsFB'')])]"

definition ext_cleaner_rows_4 :: "(string \<times> (nat \<times> string \<times> string) list) list" where
  "ext_cleaner_rows_4 =
   [(''XR_FB_swapchain_update_state_opengl_es'',
     [(2, ''XR_TYPE_SWAPCHAIN_STATE_SAMPLER_OPENGL_ES_FB'', ''XrSwapchainStateSamplerOpenGLESFB'')]),
    (''XR_FB_swapchain_update_state_vulkan'',
     [(2, ''XR_TYPE_SWAPCHAIN_STATE_SAMPLER_VULKAN_FB'', ''XrSwapchainStateSamplerVulkanFB'')]),
    (''XR_FB_triangle_mesh'',
     [(2, ''XR_TYPE_TRIANGLE_MESH_CREATE_INFO_FB'', ''XrTriangleMeshCreateInfoFB'')]),
    (''XR_HTCX_vive_tracker_interaction'',
     [(2, ''XR_TYPE_EVENT_DATA_VIVE_TRACKER_CONNECTED_HTCX'', ''XrEventDataViveTrackerConnectedHTCX''),
      (2, ''XR_TYPE_VIVE_TRACKER_PATHS_HTCX'', ''XrViveTrackerPathsHTCX'')]),
    (''XR_HTC_anchor'',
     [(2, ''XR_TYPE_SPATIAL_ANCHOR_CREATE_INFO_HTC'', ''XrSpatialAnchorCreateInfoHTC''),
      (2, ''XR_TYPE_SYSTEM_ANCHOR_PROPERTIES_HTC'', ''XrSystemAnchorPropertiesHTC'')]),
    (''XR_HTC_body_tracking'',
     [(2, ''XR_TYPE_BODY_JOINT_LOCATIONS_HTC'', ''XrBodyJointLocationsHTC''),
      (2, ''XR_TYPE_BODY_JOINTS_LOCATE_INFO_HTC'', ''XrBodyJointsLocateInfoHTC''),
      (2, ''XR_TYPE_BODY_SKELETON_HTC'', ''XrBodySkeletonHTC''),
      (2, ''XR_TYPE_BODY_TRACKER_CREATE_INFO_HTC'', ''XrBodyTrackerCreateInfoHTC''),
      (2, ''XR_TYPE_SYSTEM_BODY_TRACKING_PROPERTIES_HTC'', ''XrSystemBodyTrackingPropertiesHTC'')]),
    (''XR_HTC_facial_tracking'',
     [(2, ''XR_TYPE_FACIAL_EXPRESSIONS_HTC'', ''XrFacialExpressionsHTC''),
      (2, ''XR_TYPE_FACIAL_TRACKER_CREATE_INFO_HTC'', ''XrFacialTrackerCreateInfoHTC''),
      (2, ''XR_TYPE_SYSTEM_FACIAL_TRACKING_PROPERTIES_HTC'', ''XrSystemFacialTrackingPropertiesHTC'')]),
    (''XR_HTC_foveation'',
     [(2, ''XR_TYPE_FOVEATION_APPLY_INFO_HTC'', ''XrFoveationApplyInfoHTC''),
      (2, ''XR_TYPE_FOVEATION_CUSTOM_MODE_INFO_HTC'', ''XrFoveationCustomModeInfoHTC''),
      (2, ''XR_TYPE_FOVEATION_DYNAMIC_MODE_INFO_HTC'', ''XrFoveationDynamicModeInfoHTC'')]),
    (''XR_HTC_passthrough'',
     [(2, ''XR_TYPE_COMPOSITION_LAYER_PASSTHROUGH_HTC'', ''XrCompositionLayerPassthroughHTC''),
      (2, ''XR_TYPE_PASSTHROUGH_COLOR_HTC'', ''XrPassthroughColorHTC''),
      (2, ''XR_TYPE_PASSTHROUGH_CREATE_INFO_HTC'', ''XrPassthroughCreateInfoHTC''),
      (2, ''XR_TYPE_PASSTHROUGH_MESH_TRANSFORM_INFO_HTC'', ''XrPassthroughMeshTransformInfoHTC'')]),
    (''XR_KHR_D3D11_enable'',
     [(2, ''XR_TYPE_GRAPHICS_BINDING_D3D11_KHR'', ''XrGraphicsBindingD3D11KHR''),
      (2, ''XR_TYPE_GRAPHICS_REQUIREMENTS_D3D11_KHR'', ''XrGraphicsRequirementsD3D11KHR''),
      (2, ''XR_TYPE_SWAPCHAIN_IMAGE_D3D11_KHR'', ''XrSwapchainImageD3D11KHR'')]),
    (''XR_KHR_D3D12_enable'',
     [(2, ''XR_TYPE_GRAPHICS_BINDING_D3D12_KHR'', ''XrGraphicsBindingD3D12KHR''),
      (2, ''XR_TYPE_GRAPHICS_REQUIREMENTS_D3D12_KHR'', ''XrGraphicsRequirementsD3D12KHR''),
      (2, ''XR_TYPE_SWAPCHAIN_IMAGE_D3D12_KHR'', ''XrSwapchainImageD3D12KHR'')]),
    (''XR_KHR_android_create_instance'',
     [(2, ''XR_TYPE_INSTANCE_CREATE_INFO_ANDROID_KHR'', ''XrInstanceCreateInfoAndroidKHR'')]),
    (''XR_KHR_binding_modification'',
     [(2, ''XR_TYPE_BINDING_MODIFICATIONS_KHR'', ''XrBindingModificationsKHR'')]),
    (''XR_KHR_composition_layer_color_scale_bias'',
     [(2, ''XR_TYPE_COMPOSITION_LAYER_COLOR_SCALE_BIAS_KHR'', ''XrCompositionLayerColorScaleBiasKHR'')]),
    (''XR_KHR_composition_layer_cube'',
     [(2, ''XR_TYPE_COMPOSITION_LAYER_CUBE_KHR'', ''XrCompositionLayerCubeKHR'')]),
    (''XR_KHR_composition_layer_cylinder'',
     [(2, ''XR_TYPE_COMPOSITION_LAYER_CYLINDER_KHR'', ''XrCompositionLayerCylinderKHR'')]),
    (''XR_KHR_composition_layer_depth'',
     [(2, ''XR_TYPE_COMPOSITION_LAYER_DEPTH_INFO_KHR'', ''XrCompositionLayerDepthInfoKHR'')]),
    (''XR_KHR_composition_layer_equirect'',
     [(2, ''XR_TYPE_COMPOSITION_LAYER_EQUIRECT_KHR'', ''XrCompositionLayerEquirectKHR'')]),
    (''XR_KHR_composition_layer_equirect2'',
     [(2, ''XR_TYPE_COMPOSITION_LAYER_EQUIRECT2_KHR'', ''XrCompositionLayerEquirect2KHR'')]),
    (''XR_KHR_loader_init_android'',
     [(2, ''XR_TYPE_LOADER_INIT_INFO_ANDROID_KHR'', ''XrLoaderInitInfoAndroidKHR'')]),
    (''XR_KHR_metal_enable'',
     [(2, ''XR_TYPE_GRAPHICS_BINDING_METAL_KHR'', ''XrGraphicsBindingMetalKHR''),
      (2, ''XR_TYPE_GRAPHICS_REQUIREMENTS_METAL_KHR'', ''XrGraphicsRequirementsMetalKHR''),
      (2, ''XR_TYPE_SWAPCHAIN_IMAGE_METAL_KHR'', ''XrSwapchainImageMetalKHR'')]),
    (''XR_KHR_opengl_enable'',
     [(2, ''XR_TYPE_GRAPHICS_BINDING_OPENGL_WAYLAND_KHR'', ''XrGraphicsBindingOpenGLWaylandKHR''),
      (2, ''XR_TYPE_GRAPHICS_BINDING_OPENGL_WIN32_KHR'', ''XrGraphicsBindingOpenGLWin32KHR''),
      (2, ''XR_TYPE_GRAPHICS_BINDING_OPENGL_XCB_KHR'', ''XrGraphicsBindingOpenGLXcbKHR''),
      (2, ''XR_TYPE_GRAPHICS_BINDING_OPENGL_XLIB_KHR'', ''XrGraphicsBindingOpenGLXlibKHR''),
      (2, ''XR_TYPE_GRAPHICS_REQUIREMENTS_OPENGL_KHR'', ''XrGraphicsRequirementsOpenGLKHR''),
      (2, ''XR_TYPE_SWAPCHAIN_IMAGE_OPENGL_KHR'', ''XrSwapchainImageOpenGLKHR'')]),
    (''XR_KHR_opengl_es_enable'',
     [(2, ''XR_TYPE_GRAPHICS_BINDING_OPENGL_ES_ANDROID_KHR'', ''XrGraphicsBindingOpenGLESAndroidKHR''),
      (2, ''XR_TYPE_GRAPHICS_REQUIREMENTS_OPENGL_ES_KHR'', ''XrGraphicsRequirementsOpenGLESKHR''),
      (2, ''XR_TYPE_SWAPCHAIN_IMAGE_OPENGL_ES_KHR'', ''XrSwapchainImageOpenGLESKHR'')]),
    (''XR_KHR_visibility_mask'',
     [(2, ''XR_TYPE_EVENT_DATA_VISIBILITY_MASK_CHANGED_KHR'', ''XrEventDataVisibilityMaskChangedKHR''),
      (2, ''XR_TYPE_VISIBILITY_MASK_KHR'', ''XrVisibilityMaskKHR'')])]"

definition ext_cleaner_rows_5 :: "(string \<times> (nat \<times> string \<times> string) list) list" where
  "ext_cleaner_rows_5 =
   [(''XR_KHR_vulkan_enable'',
     [(2, ''XR_TYPE_GRAPHICS_BINDING_VULKAN_KHR'', ''XrGraphicsBindingVulkanKHR''),
      (2, ''XR_TYPE_GRAPHICS_REQUIREMENTS_VULKAN_KHR'', ''XrGraphicsRequirementsVulkanKHR''),
      (2, ''XR_TYPE_SWAPCHAIN_IMAGE_VULKAN_KHR'', ''XrSwapchainImageVulkanKHR'')]),
    (''XR_KHR_vulkan_enable2'',
     [(2, ''XR_TYPE_VULKAN_DEVICE_CREATE_INFO_KHR'', ''XrVulkanDeviceCreateInfoKHR''),
      (2, ''XR_TYPE_VULKAN_GRAPHICS_DEVICE_GET_INFO_KHR'', ''XrVulkanGraphicsDeviceGetInfoKHR''),
      (2, ''XR_TYPE_VULKAN_INSTANCE_CREATE_INFO_KHR'', ''XrVulkanInstanceCreateInfoKHR'')]),
    (''XR_KHR_vulkan_swapchain_format_list'',
     [(2, ''XR_TYPE_VULKAN_SWAPCHAIN_FORMAT_LIST_CREATE_INFO_KHR'', ''XrVulkanSwapchainFormatListCreateInfoKHR'')]),
    (''XR_META_body_tracking_full_body'',
     [(2, ''XR_TYPE_SYSTEM_PROPERTIES_BODY_TRACKING_FULL_BODY_META'', ''XrSystemPropertiesBodyTrackingFullBodyMETA'')]),
    (''XR_META_colocation_discovery'',
     [(2, ''XR_TYPE_COLOCATION_ADVERTISEMENT_START_INFO_META'', ''XrColocationAdvertisementStartInfoMETA''),
      (2, ''XR_TYPE_COLOCATION_ADVERTISEMENT_STOP_INFO_META'', ''XrColocationAdvertisementStopInfoMETA''),
      (2, ''XR_TYPE_COLOCATION_DISCOVERY_START_INFO_META'', ''XrColocationDiscoveryStartInfoMETA''),
      (2, ''XR_TYPE_COLOCATION_DISCOVERY_STOP_INFO_META'', ''XrColocationDiscoveryStopInfoMETA''),
      (2, ''XR_TYPE_EVENT_DATA_COLOCATION_ADVERTISEMENT_COMPLETE_META'', ''XrEventDataColocationAdvertisementCompleteMETA''),
      (2, ''XR_TYPE_EVENT_DATA_COLOCATION_DISCOVERY_COMPLETE_META'', ''XrEventDataColocationDiscoveryCompleteMETA''),
      (2, ''XR_TYPE_EVENT_DATA_COLOCATION_DISCOVERY_RESULT_META'', ''XrEventDataColocationDiscoveryResultMETA''),
      (2, ''XR_TYPE_EVENT_DATA_START_COLOCATION_ADVERTISEMENT_COMPLETE_META'', ''XrEventDataStartColocationAdvertisementCompleteMETA''),
      (2, ''XR_TYPE_EVENT_DATA_START_COLOCATION_DISCOVERY_COMPLETE_META'', ''XrEventDataStartColocationDiscoveryCompleteMETA''),
      (2, ''XR_TYPE_EVENT_DATA_STOP_COLOCATION_ADVERTISEMENT_COMPLETE_META'', ''XrEventDataStopColocationAdvertisementCompleteMETA''),
      (2, ''XR_TYPE_EVENT_DATA_STOP_COLOCATION_DISCOVERY_COMPLETE_META'', ''XrEventDataStopColocationDiscoveryCompleteMETA''),
      (2, ''XR_TYPE_SYSTEM_COLOCATION_DISCOVERY_PROPERTIES_META'', ''XrSystemColocationDiscoveryPropertiesMETA'')]),
    (''XR_META_environment_depth'',
     [(2, ''XR_TYPE_ENVIRONMENT_DEPTH_HAND_REMOVAL_SET_INFO_META'', ''XrEnvironmentDepthHandRemovalSetInfoMETA''),
      (2, ''XR_TYPE_ENVIRONMENT_DEPTH_IMAGE_ACQUIRE_INFO_META'', ''XrEnvironmentDepthImageAcquireInfoMETA''),
      (2, ''XR_TYPE_ENVIRONMENT_DEPTH_IMAGE_META'', ''XrEnvironmentDepthImageMETA''),
      (2, ''XR_TYPE_ENVIRONMENT_DEPTH_IMAGE_VIEW_META'', ''XrEnvironmentDepthImageViewMETA''),
      (2, ''XR_TYPE_ENVIRONMENT_DEPTH_PROVIDER_CREATE_INFO_META'', ''XrEnvironmentDepthProviderCreateInfoMETA''),
      (2, ''XR_TYPE_ENVIRONMENT_DEPTH_SWAPCHAIN_CREATE_INFO_META'', ''XrEnvironmentDepthSwapchainCreateInfoMETA''),
      (2, ''XR_TYPE_ENVIRONMENT_DEPTH_SWAPCHAIN_STATE_META'', ''XrEnvironmentDepthSwapchainStateMETA''),
      (2, ''XR_TYPE_SYSTEM_ENVIRONMENT_DEPTH_PROPERTIES_META'', ''XrSystemEnvironmentDepthPropertiesMETA'')]),
    (''XR_META_foveation_eye_tracked'',
     [(2, ''XR_TYPE_FOVEATION_EYE_TRACKED_PROFILE_CREATE_INFO_META'', ''XrFoveationEyeTrackedProfileCreateInfoMETA''),
      (2, ''XR_TYPE_FOVEATION_EYE_TRACKED_STATE_META'', ''XrFoveationEyeTrackedStateMETA''),
      (2, ''XR_TYPE_SYSTEM_FOVEATION_EYE_TRACKED_PROPERTIES_META'', ''XrSystemFoveationEyeTrackedPropertiesMETA'')]),
    (''XR_META_headset_id'',
     [(2, ''XR_TYPE_SYSTEM_HEADSET_ID_PROPERTIES_META'', ''XrSystemHeadsetIdPropertiesMETA'')]),
    (''XR_META_local_dimming'',
     [(2, ''XR_TYPE_LOCAL_DIMMING_FRAME_END_INFO_META'', ''XrLocalDimmingFrameEndInfoMETA'')]),
    (''XR_META_passthrough_color_lut'',
     [(2, ''XR_TYPE_PASSTHROUGH_COLOR_LUT_CREATE_INFO_META'', ''XrPassthroughColorLutCreateInfoMETA''),
      (2, ''XR_TYPE_PASSTHROUGH_COLOR_LUT_UPDATE_INFO_META'', ''XrPassthroughColorLutUpdateInfoMETA''),
      (2, ''XR_TYPE_PASSTHROUGH_COLOR_MAP_INTERPOLATED_LUT_META'', ''XrPassthroughColorMapInterpolatedLutMETA''),
      (2, ''XR_TYPE_PASSTHROUGH_COLOR_MAP_LUT_META'', ''XrPassthroughColorMapLutMETA''),
      (2, ''XR_TYPE_SYSTEM_PASSTHROUGH_COLOR_LUT_PROPERTIES_META'', ''XrSystemPassthroughColorLutPropertiesMETA'')]),
    (''XR_META_passthrough_layer_resumed_event'',
     [(2, ''XR_TYPE_EVENT_DATA_PASSTHROUGH_LAYER_RESUMED_META'', ''XrEventDataPassthroughLayerResumedMETA'')]),
    (''XR_META_passthrough_preferences'',
     [(2, ''XR_TYPE_PASSTHROUGH_PREFERENCES_META'', ''XrPassthroughPreferencesMETA'')]),
    (''XR_META_performance_metrics'',
     [(2, ''XR_TYPE_PERFORMANCE_METRICS_COUNTER_META'', ''XrPerformanceMetricsCounterMETA''),
      (2, ''XR_TYPE_PERFORMANCE_METRICS_STATE_META'', ''XrPerformanceMetricsStateMETA'')]),
    (''XR_META_recommended_layer_resolution'',
     [(2, ''XR_TYPE_RECOMMENDED_LAYER_RESOLUTION_GET_INFO_META'', ''XrRecommendedLayerResolutionGetInfoMETA''),
      (2, ''XR_TYPE_RECOMMENDED_LAYER_RESOLUTION_META'', ''XrRecommendedLayerResolutionMETA'')]),
    (''XR_META_simultaneous_hands_and_controllers'',
     [(2, ''XR_TYPE_SIMULTANEOUS_HANDS_AND_CONTROLLERS_TRACKING_PAUSE_INFO_META'', ''XrSimultaneousHandsAndControllersTrackingPauseInfoMETA''),
      (2, ''XR_TYPE_SIMULTANEOUS_HANDS_AND_CONTROLLERS_TRACKING_RESUME_INFO_META'', ''XrSimultaneousHandsAndControllersTrackingResumeInfoMETA''),
      (2, ''XR_TYPE_SYSTEM_SIMULTANEOUS_HANDS_AND_CONTROLLERS_PROPERTIES_META'', ''XrSystemSimultaneousHandsAndControllersPropertiesMETA'')]),
    (''XR_META_spatial_entity_group_sharing'',
     [(2, ''XR_TYPE_SHARE_SPACES_RECIPIENT_GROUPS_META'', ''XrShareSpacesRecipientGroupsMETA''),
      (2, ''XR_TYPE_SPACE_GROUP_UUID_FILTER_INFO_META'', ''XrSpaceGroupUuidFilterInfoMETA''),
      (2, ''XR_TYPE_SYSTEM_SPATIAL_ENTITY_GROUP_SHARING_PROPERTIES_META'', ''XrSystemSpatialEntityGroupSharingPropertiesMETA'')]),
    (''XR_META_spatial_entity_mesh'',
     [(2, ''XR_TYPE_SPACE_TRIANGLE_MESH_GET_INFO_META'', ''XrSpaceTriangleMeshGetInfoMETA''),
      (2, ''XR_TYPE_SPACE_TRIANGLE_MESH_META'', ''XrSpaceTriangleMeshMETA'')]),
    (''XR_META_spatial_entity_sharing'',
     [(2, ''XR_TYPE_EVENT_DATA_SHARE_SPACES_COMPLETE_META'', ''XrEventDataShareSpacesCompleteMETA''),
      (2, ''XR_TYPE_SHARE_SPACES_INFO_META'', ''XrShareSpacesInfoMETA''),
      (2, ''XR_TYPE_SYSTEM_SPATIAL_ENTITY_SHARING_PROPERTIES_META'', ''XrSystemSpatialEntitySharingPropertiesMETA'')]),
    (''XR_META_virtual_keyboard'',
     [(2, ''XR_TYPE_EVENT_DATA_VIRTUAL_KEYBOARD_BACKSPACE_META'', ''XrEventDataVirtualKeyboardBackspaceMETA''),
      (2, ''XR_TYPE_EVENT_DATA_VIRTUAL_KEYBOARD_COMMIT_TEXT_META'', ''XrEventDataVirtualKeyboardCommitTextMETA'')])]"

definition ext_cleaner_rows_6 :: "(string \<times> (nat \<times> string \<times> string) list) list" where
  "ext_cleaner_rows_6 =
   [(''XR_META_virtual_keyboard'',
     [(2, ''XR_TYPE_EVENT_DATA_VIRTUAL_KEYBOARD_ENTER_META'', ''XrEventDataVirtualKeyboardEnterMETA''),
      (2, ''XR_TYPE_EVENT_DATA_VIRTUAL_KEYBOARD_HIDDEN_META'', ''XrEventDataVirtualKeyboardHiddenMETA''),
      (2, ''XR_TYPE_EVENT_DATA_VIRTUAL_KEYBOARD_SHOWN_META'', ''XrEventDataVirtualKeyboardShownMETA''),
      (2, ''XR_TYPE_SYSTEM_VIRTUAL_KEYBOARD_PROPERTIES_META'', ''XrSystemVirtualKeyboardPropertiesMETA''),
      (2, ''XR_TYPE_VIRTUAL_KEYBOARD_ANIMATION_STATE_META'', ''XrVirtualKeyboardAnimationStateMETA''),
      (2, ''XR_TYPE_VIRTUAL_KEYBOARD_CREATE_INFO_META'', ''XrVirtualKeyboardCreateInfoMETA''),
      (2, ''XR_TYPE_VIRTUAL_KEYBOARD_INPUT_INFO_META'', ''XrVirtualKeyboardInputInfoMETA''),
      (2, ''XR_TYPE_VIRTUAL_KEYBOARD_LOCATION_INFO_META'', ''XrVirtualKeyboardLocationInfoMETA''),
      (2, ''XR_TYPE_VIRTUAL_KEYBOARD_MODEL_ANIMATION_STATES_META'', ''XrVirtualKeyboardModelAnimationStatesMETA''),
      (2, ''XR_TYPE_VIRTUAL_KEYBOARD_MODEL_VISIBILITY_SET_INFO_META'', ''XrVirtualKeyboardModelVisibilitySetInfoMETA''),
      (2, ''XR_TYPE_VIRTUAL_KEYBOARD_SPACE_CREATE_INFO_META'', ''XrVirtualKeyboardSpaceCreateInfoMETA''),
      (2, ''XR_TYPE_VIRTUAL_KEYBOARD_TEXT_CONTEXT_CHANGE_INFO_META'', ''XrVirtualKeyboardTextContextChangeInfoMETA''),
      (2, ''XR_TYPE_VIRTUAL_KEYBOARD_TEXTURE_DATA_META'', ''XrVirtualKeyboardTextureDataMETA'')]),
    (''XR_META_vulkan_swapchain_create_info'',
     [(2, ''XR_TYPE_VULKAN_SWAPCHAIN_CREATE_INFO_META'', ''XrVulkanSwapchainCreateInfoMETA'')]),
    (''XR_ML_compat'',
     [(1, ''XR_TYPE_COORDINATE_SPACE_CREATE_INFO_ML'', ''XrCoordinateSpaceCreateInfoML'')]),
    (''XR_ML_facial_expression'',
     [(2, ''XR_TYPE_FACIAL_EXPRESSION_BLEND_SHAPE_GET_INFO_ML'', ''XrFacialExpressionBlendShapeGetInfoML''),
      (2, ''XR_TYPE_FACIAL_EXPRESSION_BLEND_SHAPE_PROPERTIES_ML'', ''XrFacialExpressionBlendShapePropertiesML''),
      (2, ''XR_TYPE_FACIAL_EXPRESSION_CLIENT_CREATE_INFO_ML'', ''XrFacialExpressionClientCreateInfoML''),
      (2, ''XR_TYPE_SYSTEM_FACIAL_EXPRESSION_PROPERTIES_ML'', ''XrSystemFacialExpressionPropertiesML'')]),
    (''XR_ML_frame_end_info'',
     [(2, ''XR_TYPE_FRAME_END_INFO_ML'', ''XrFrameEndInfoML'')]),
    (''XR_ML_global_dimmer'',
     [(2, ''XR_TYPE_GLOBAL_DIMMER_FRAME_END_INFO_ML'', ''XrGlobalDimmerFrameEndInfoML'')]),
    (''XR_ML_localization_map'',
     [(2, ''XR_TYPE_EVENT_DATA_LOCALIZATION_CHANGED_ML'', ''XrEventDataLocalizationChangedML''),
      (2, ''XR_TYPE_LOCALIZATION_ENABLE_EVENTS_INFO_ML'', ''XrLocalizationEnableEventsInfoML''),
      (2, ''XR_TYPE_LOCALIZATION_MAP_IMPORT_INFO_ML'', ''XrLocalizationMapImportInfoML''),
      (2, ''XR_TYPE_LOCALIZATION_MAP_ML'', ''XrLocalizationMapML''),
      (2, ''XR_TYPE_MAP_LOCALIZATION_REQUEST_INFO_ML'', ''XrMapLocalizationRequestInfoML'')]),
    (''XR_ML_marker_understanding'',
     [(2, ''XR_TYPE_MARKER_DETECTOR_APRIL_TAG_INFO_ML'', ''XrMarkerDetectorAprilTagInfoML''),
      (2, ''XR_TYPE_MARKER_DETECTOR_ARUCO_INFO_ML'', ''XrMarkerDetectorArucoInfoML''),
      (2, ''XR_TYPE_MARKER_DETECTOR_CREATE_INFO_ML'', ''XrMarkerDetectorCreateInfoML''),
      (2, ''XR_TYPE_MARKER_DETECTOR_CUSTOM_PROFILE_INFO_ML'', ''XrMarkerDetectorCustomProfileInfoML''),
      (2, ''XR_TYPE_MARKER_DETECTOR_SIZE_INFO_ML'', ''XrMarkerDetectorSizeInfoML''),
      (2, ''XR_TYPE_MARKER_DETECTOR_SNAPSHOT_INFO_ML'', ''XrMarkerDetectorSnapshotInfoML''),
      (2, ''XR_TYPE_MARKER_DETECTOR_STATE_ML'', ''XrMarkerDetectorStateML''),
      (2, ''XR_TYPE_MARKER_SPACE_CREATE_INFO_ML'', ''XrMarkerSpaceCreateInfoML''),
      (2, ''XR_TYPE_SYSTEM_MARKER_UNDERSTANDING_PROPERTIES_ML'', ''XrSystemMarkerUnderstandingPropertiesML'')]),
    (''XR_ML_spatial_anchors'',
     [(2, ''XR_TYPE_CREATE_SPATIAL_ANCHORS_COMPLETION_ML'', ''XrCreateSpatialAnchorsCompletionML''),
      (2, ''XR_TYPE_SPATIAL_ANCHOR_STATE_ML'', ''XrSpatialAnchorStateML''),
      (2, ''XR_TYPE_SPATIAL_ANCHORS_CREATE_INFO_FROM_POSE_ML'', ''XrSpatialAnchorsCreateInfoFromPoseML'')]),
    (''XR_ML_spatial_anchors_storage'',
     [(2, ''XR_TYPE_SPATIAL_ANCHORS_CREATE_INFO_FROM_UUIDS_ML'', ''XrSpatialAnchorsCreateInfoFromUuidsML''),
      (2, ''XR_TYPE_SPATIAL_ANCHORS_CREATE_STORAGE_INFO_ML'', ''XrSpatialAnchorsCreateStorageInfoML''),
      (2, ''XR_TYPE_SPATIAL_ANCHORS_DELETE_COMPLETION_DETAILS_ML'', ''XrSpatialAnchorsDeleteCompletionDetailsML''),
      (2, ''XR_TYPE_SPATIAL_ANCHORS_DELETE_COMPLETION_ML'', ''XrSpatialAnchorsDeleteCompletionML''),
      (2, ''XR_TYPE_SPATIAL_ANCHORS_DELETE_INFO_ML'', ''XrSpatialAnchorsDeleteInfoML''),
      (2, ''XR_TYPE_SPATIAL_ANCHORS_PUBLISH_COMPLETION_DETAILS_ML'', ''XrSpatialAnchorsPublishCompletionDetailsML''),
      (2, ''XR_TYPE_SPATIAL_ANCHORS_PUBLISH_COMPLETION_ML'', ''XrSpatialAnchorsPublishCompletionML''),
      (2, ''XR_TYPE_SPATIAL_ANCHORS_PUBLISH_INFO_ML'', ''XrSpatialAnchorsPublishInfoML''),
      (2, ''XR_TYPE_SPATIAL_ANCHORS_QUERY_COMPLETION_ML'', ''XrSpatialAnchorsQueryCompletionML''),
      (2, ''XR_TYPE_SPATIAL_ANCHORS_QUERY_INFO_RADIUS_ML'', ''XrSpatialAnchorsQueryInfoRadiusML''),
      (2, ''XR_TYPE_SPATIAL_ANCHORS_UPDATE_EXPIRATION_COMPLETION_DETAILS_ML'', ''XrSpatialAnchorsUpdateExpirationCompletionDetailsML''),
      (2, ''XR_TYPE_SPATIAL_ANCHORS_UPDATE_EXPIRATION_COMPLETION_ML'', ''XrSpatialAnchorsUpdateExpirationCompletionML''),
      (2, ''XR_TYPE_SPATIAL_ANCHORS_UPDATE_EXPIRATION_INFO_ML'', ''XrSpatialAnchorsUpdateExpirationInfoML'')]),
    (''XR_ML_system_notifications'',
     [(2, ''XR_TYPE_SYSTEM_NOTIFICATIONS_SET_INFO_ML'', ''XrSystemNotificationsSetInfoML'')]),
    (''XR_ML_user_calibration'',
     [(2, ''XR_TYPE_EVENT_DATA_EYE_CALIBRATION_CHANGED_ML'', ''XrEventDataEyeCalibrationChangedML''),
      (2, ''XR_TYPE_EVENT_DATA_HEADSET_FIT_CHANGED_ML'', ''XrEventDataHeadsetFitChangedML''),
      (2, ''XR_TYPE_USER_CALIBRATION_ENABLE_EVENTS_INFO_ML'', ''XrUserCalibrationEnableEventsInfoML'')]),
    (''XR_ML_world_mesh_detection'',
     [(2, ''XR_TYPE_WORLD_MESH_BLOCK_ML'', ''XrWorldMeshBlockML''),
      (2, ''XR_TYPE_WORLD_MESH_BLOCK_REQUEST_ML'', ''XrWorldMeshBlockRequestML''),
      (2, ''XR_TYPE_WORLD_MESH_BLOCK_STATE_ML'', ''XrWorldMeshBlockStateML''),
      (2, ''XR_TYPE_WORLD_MESH_BUFFER_ML'', ''XrWorldMeshBufferML''),
      (2, ''XR_TYPE_WORLD_MESH_BUFFER_RECOMMENDED_SIZE_INFO_ML'', ''XrWorldMeshBufferRecommendedSizeInfoML''),
      (2, ''XR_TYPE_WORLD_MESH_BUFFER_SIZE_ML'', ''XrWorldMeshBufferSizeML''),
      (2, ''XR_TYPE_WORLD_MESH_DETECTOR_CREATE_INFO_ML'', ''XrWorldMeshDetectorCreateInfoML''),
      (2, ''XR_TYPE_WORLD_MESH_GET_INFO_ML'', ''XrWorldMeshGetInfoML'')])]"

definition ext_cleaner_rows_7 :: "(string \<times> (nat \<times> string \<times> string) list) list" where
  "ext_cleaner_rows_7 =
   [(''XR_ML_world_mesh_detection'',
     [(2, ''XR_TYPE_WORLD_MESH_REQUEST_COMPLETION_INFO_ML'', ''XrWorldMeshRequestCompletionInfoML''),
      (2, ''XR_TYPE_WORLD_MESH_REQUEST_COMPLETION_ML'', ''XrWorldMeshRequestCompletionML''),
      (2, ''XR_TYPE_WORLD_MESH_STATE_REQUEST_COMPLETION_ML'', ''XrWorldMeshStateRequestCompletionML''),
      (2, ''XR_TYPE_WORLD_MESH_STATE_REQUEST_INFO_ML'', ''XrWorldMeshStateRequestInfoML'')]),
    (''XR_MNDX_egl_enable'',
     [(2, ''XR_TYPE_GRAPHICS_BINDING_EGL_MNDX'', ''XrGraphicsBindingEGLMNDX'')]),
    (''XR_MNDX_force_feedback_curl'',
     [(2, ''XR_TYPE_FORCE_FEEDBACK_CURL_APPLY_LOCATIONS_MNDX'', ''XrForceFeedbackCurlApplyLocationsMNDX''),
      (2, ''XR_TYPE_SYSTEM_FORCE_FEEDBACK_CURL_PROPERTIES_MNDX'', ''XrSystemForceFeedbackCurlPropertiesMNDX'')]),
    (''XR_MSFT_composition_layer_reprojection'',
     [(2, ''XR_TYPE_COMPOSITION_LAYER_REPROJECTION_INFO_MSFT'', ''XrCompositionLayerReprojectionInfoMSFT''),
      (2, ''XR_TYPE_COMPOSITION_LAYER_REPROJECTION_PLANE_OVERRIDE_MSFT'', ''XrCompositionLayerReprojectionPlaneOverrideMSFT'')]),
    (''XR_MSFT_controller_model'',
     [(2, ''XR_TYPE_CONTROLLER_MODEL_KEY_STATE_MSFT'', ''XrControllerModelKeyStateMSFT''),
      (2, ''XR_TYPE_CONTROLLER_MODEL_NODE_PROPERTIES_MSFT'', ''XrControllerModelNodePropertiesMSFT''),
      (2, ''XR_TYPE_CONTROLLER_MODEL_NODE_STATE_MSFT'', ''XrControllerModelNodeStateMSFT''),
      (2, ''XR_TYPE_CONTROLLER_MODEL_PROPERTIES_MSFT'', ''XrControllerModelPropertiesMSFT''),
      (2, ''XR_TYPE_CONTROLLER_MODEL_STATE_MSFT'', ''XrControllerModelStateMSFT'')]),
    (''XR_MSFT_hand_tracking_mesh'',
     [(2, ''XR_TYPE_HAND_MESH_MSFT'', ''XrHandMeshMSFT''),
      (2, ''XR_TYPE_HAND_MESH_SPACE_CREATE_INFO_MSFT'', ''XrHandMeshSpaceCreateInfoMSFT''),
      (2, ''XR_TYPE_HAND_MESH_UPDATE_INFO_MSFT'', ''XrHandMeshUpdateInfoMSFT''),
      (2, ''XR_TYPE_HAND_POSE_TYPE_INFO_MSFT'', ''XrHandPoseTypeInfoMSFT''),
      (2, ''XR_TYPE_SYSTEM_HAND_TRACKING_MESH_PROPERTIES_MSFT'', ''XrSystemHandTrackingMeshPropertiesMSFT'')]),
    (''XR_MSFT_holographic_window_attachment'',
     [(2, ''XR_TYPE_HOLOGRAPHIC_WINDOW_ATTACHMENT_MSFT'', ''XrHolographicWindowAttachmentMSFT'')]),
    (''XR_MSFT_scene_marker'',
     [(2, ''XR_TYPE_SCENE_MARKER_QR_CODES_MSFT'', ''XrSceneMarkerQRCodesMSFT''),
      (2, ''XR_TYPE_SCENE_MARKER_TYPE_FILTER_MSFT'', ''XrSceneMarkerTypeFilterMSFT''),
      (2, ''XR_TYPE_SCENE_MARKERS_MSFT'', ''XrSceneMarkersMSFT'')]),
    (''XR_MSFT_scene_understanding'',
     [(2, ''XR_TYPE_NEW_SCENE_COMPUTE_INFO_MSFT'', ''XrNewSceneComputeInfoMSFT''),
      (2, ''XR_TYPE_SCENE_COMPONENT_LOCATIONS_MSFT'', ''XrSceneComponentLocationsMSFT''),
      (2, ''XR_TYPE_SCENE_COMPONENT_PARENT_FILTER_INFO_MSFT'', ''XrSceneComponentParentFilterInfoMSFT''),
      (2, ''XR_TYPE_SCENE_COMPONENTS_GET_INFO_MSFT'', ''XrSceneComponentsGetInfoMSFT''),
      (2, ''XR_TYPE_SCENE_COMPONENTS_LOCATE_INFO_MSFT'', ''XrSceneComponentsLocateInfoMSFT''),
      (2, ''XR_TYPE_SCENE_COMPONENTS_MSFT'', ''XrSceneComponentsMSFT''),
      (2, ''XR_TYPE_SCENE_CREATE_INFO_MSFT'', ''XrSceneCreateInfoMSFT''),
      (2, ''XR_TYPE_SCENE_MESH_BUFFERS_GET_INFO_MSFT'', ''XrSceneMeshBuffersGetInfoMSFT''),
      (2, ''XR_TYPE_SCENE_MESH_BUFFERS_MSFT'', ''XrSceneMeshBuffersMSFT''),
      (2, ''XR_TYPE_SCENE_MESH_INDICES_UINT16_MSFT'', ''XrSceneMeshIndicesUint16MSFT''),
      (2, ''XR_TYPE_SCENE_MESH_INDICES_UINT32_MSFT'', ''XrSceneMeshIndicesUint32MSFT''),
      (2, ''XR_TYPE_SCENE_MESH_VERTEX_BUFFER_MSFT'', ''XrSceneMeshVertexBufferMSFT''),
      (2, ''XR_TYPE_SCENE_MESHES_MSFT'', ''XrSceneMeshesMSFT''),
      (2, ''XR_TYPE_SCENE_OBJECT_TYPES_FILTER_INFO_MSFT'', ''XrSceneObjectTypesFilterInfoMSFT''),
      (2, ''XR_TYPE_SCENE_OBJECTS_MSFT'', ''XrSceneObjectsMSFT''),
      (2, ''XR_TYPE_SCENE_OBSERVER_CREATE_INFO_MSFT'', ''XrSceneObserverCreateInfoMSFT''),
      (2, ''XR_TYPE_SCENE_PLANE_ALIGNMENT_FILTER_INFO_MSFT'', ''XrScenePlaneAlignmentFilterInfoMSFT''),
      (2, ''XR_TYPE_SCENE_PLANES_MSFT'', ''XrScenePlanesMSFT''),
      (2, ''XR_TYPE_VISUAL_MESH_COMPUTE_LOD_INFO_MSFT'', ''XrVisualMeshComputeLodInfoMSFT'')]),
    (''XR_MSFT_scene_understanding_serialization'',
     [(2, ''XR_TYPE_SCENE_DESERIALIZE_INFO_MSFT'', ''XrSceneDeserializeInfoMSFT''),
      (2, ''XR_TYPE_SERIALIZED_SCENE_FRAGMENT_DATA_GET_INFO_MSFT'', ''XrSerializedSceneFragmentDataGetInfoMSFT'')]),
    (''XR_MSFT_secondary_view_configuration'',
     [(2, ''XR_TYPE_SECONDARY_VIEW_CONFIGURATION_FRAME_END_INFO_MSFT'', ''XrSecondaryViewConfigurationFrameEndInfoMSFT''),
      (2, ''XR_TYPE_SECONDARY_VIEW_CONFIGURATION_FRAME_STATE_MSFT'', ''XrSecondaryViewConfigurationFrameStateMSFT''),
      (2, ''XR_TYPE_SECONDARY_VIEW_CONFIGURATION_LAYER_INFO_MSFT'', ''XrSecondaryViewConfigurationLayerInfoMSFT''),
      (2, ''XR_TYPE_SECONDARY_VIEW_CONFIGURATION_SESSION_BEGIN_INFO_MSFT'', ''XrSecondaryViewConfigurationSessionBeginInfoMSFT''),
      (2, ''XR_TYPE_SECONDARY_VIEW_CONFIGURATION_STATE_MSFT'', ''XrSecondaryViewConfigurationStateMSFT''),
      (2, ''XR_TYPE_SECONDARY_VIEW_CONFIGURATION_SWAPCHAIN_CREATE_INFO_MSFT'', ''XrSecondaryViewConfigurationSwapchainCreateInfoMSFT'')]),
    (''XR_MSFT_spatial_anchor'',
     [(1, ''XR_TYPE_SPATIAL_ANCHOR_CREATE_INFO_MSFT'', ''XrSpatialAnchorCreateInfoMSFT''),
      (1, ''XR_TYPE_SPATIAL_ANCHOR_SPACE_CREATE_INFO_MSFT'', ''XrSpatialAnchorSpaceCreateInfoMSFT'')]),
    (''XR_MSFT_spatial_anchor_persistence'',
     [(2, ''XR_TYPE_SPATIAL_ANCHOR_FROM_PERSISTED_ANCHOR_CREATE_INFO_MSFT'', ''XrSpatialAnchorFromPersistedAnchorCreateInfoMSFT''),
      (2, ''XR_TYPE_SPATIAL_ANCHOR_PERSISTENCE_INFO_MSFT'', ''XrSpatialAnchorPersistenceInfoMSFT'')]),
    (''XR_MSFT_spatial_graph_bridge'',
     [(2, ''XR_TYPE_SPATIAL_GRAPH_NODE_BINDING_PROPERTIES_GET_INFO_MSFT'', ''XrSpatialGraphNodeBindingPropertiesGetInfoMSFT''),
      (2, ''XR_TYPE_SPATIAL_GRAPH_NODE_BINDING_PROPERTIES_MSFT'', ''XrSpatialGraphNodeBindingPropertiesMSFT''),
      (2, ''XR_TYPE_SPATIAL_GRAPH_NODE_SPACE_CREATE_INFO_MSFT'', ''XrSpatialGraphNodeSpaceCreateInfoMSFT''),
      (2, ''XR_TYPE_SPATIAL_GRAPH_STATIC_NODE_BINDING_CREATE_INFO_MSFT'', ''XrSpatialGraphStaticNodeBindingCreateInfoMSFT'')]),
    (''XR_OCULUS_external_camera'',
     [(2, ''XR_TYPE_EXTERNAL_CAMERA_OCULUS'', ''XrExternalCameraOCULUS'')]),
    (''XR_VALVE_analog_threshold'',
     [(2, ''XR_TYPE_INTERACTION_PROFILE_ANALOG_THRESHOLD_VALVE'', ''XrInteractionProfileAnalogThresholdVALVE'')])]"

definition ext_cleaner_rows_8 :: "(string \<times> (nat \<times> string \<times> string) list) list" where
  "ext_cleaner_rows_8 =
   [(''XR_VARJO_composition_layer_depth_test'',
     [(2, ''XR_TYPE_COMPOSITION_LAYER_DEPTH_TEST_VARJO'', ''XrCompositionLayerDepthTestVARJO'')]),
    (''XR_VARJO_foveated_rendering'',
     [(2, ''XR_TYPE_FOVEATED_VIEW_CONFIGURATION_VIEW_VARJO'', ''XrFoveatedViewConfigurationViewVARJO''),
      (2, ''XR_TYPE_SYSTEM_FOVEATED_RENDERING_PROPERTIES_VARJO'', ''XrSystemFoveatedRenderingPropertiesVARJO''),
      (2, ''XR_TYPE_VIEW_LOCATE_FOVEATED_RENDERING_VARJO'', ''XrViewLocateFoveatedRenderingVARJO'')]),
    (''XR_VARJO_marker_tracking'',
     [(2, ''XR_TYPE_EVENT_DATA_MARKER_TRACKING_UPDATE_VARJO'', ''XrEventDataMarkerTrackingUpdateVARJO''),
      (2, ''XR_TYPE_MARKER_SPACE_CREATE_INFO_VARJO'', ''XrMarkerSpaceCreateInfoVARJO''),
      (2, ''XR_TYPE_SYSTEM_MARKER_TRACKING_PROPERTIES_VARJO'', ''XrSystemMarkerTrackingPropertiesVARJO'')])]"

definition ext_cleaner_rows :: "(string \<times> (nat \<times> string \<times> string) list) list" where
  "ext_cleaner_rows =
     ext_cleaner_rows_1 @ ext_cleaner_rows_2 @ ext_cleaner_rows_3 @ ext_cleaner_rows_4 @
     ext_cleaner_rows_5 @ ext_cleaner_rows_6 @ ext_cleaner_rows_7 @ ext_cleaner_rows_8"

definition core_cleaner_table :: "(string \<times> string) list" where
  "core_cleaner_table =
   [(''XR_TYPE_ACTION_CREATE_INFO'', ''XrActionCreateInfo''),
    (''XR_TYPE_ACTION_SET_CREATE_INFO'', ''XrActionSetCreateInfo''),
    (''XR_TYPE_ACTION_SPACE_CREATE_INFO'', ''XrActionSpaceCreateInfo''),
    (''XR_TYPE_ACTION_STATE_BOOLEAN'', ''XrActionStateBoolean''),
    (''XR_TYPE_ACTION_STATE_FLOAT'', ''XrActionStateFloat''),
    (''XR_TYPE_ACTION_STATE_GET_INFO'', ''XrActionStateGetInfo''),
    (''XR_TYPE_ACTION_STATE_POSE'', ''XrActionStatePose''),
    (''XR_TYPE_ACTION_STATE_VECTOR2F'', ''XrActionStateVector2f''),
    (''XR_TYPE_ACTIONS_SYNC_INFO'', ''XrActionsSyncInfo''),
    (''XR_TYPE_API_LAYER_PROPERTIES'', ''XrApiLayerProperties''),
    (''XR_TYPE_BOUND_SOURCES_FOR_ACTION_ENUMERATE_INFO'', ''XrBoundSourcesForActionEnumerateInfo''),
    (''XR_TYPE_COMPOSITION_LAYER_PROJECTION'', ''XrCompositionLayerProjection''),
    (''XR_TYPE_COMPOSITION_LAYER_PROJECTION_VIEW'', ''XrCompositionLayerProjectionView''),
    (''XR_TYPE_COMPOSITION_LAYER_QUAD'', ''XrCompositionLayerQuad''),
    (''XR_TYPE_EVENT_DATA_BUFFER'', ''XrEventDataBuffer''),
    (''XR_TYPE_EVENT_DATA_EVENTS_LOST'', ''XrEventDataEventsLost''),
    (''XR_TYPE_EVENT_DATA_INSTANCE_LOSS_PENDING'', ''XrEventDataInstanceLossPending''),
    (''XR_TYPE_EVENT_DATA_INTERACTION_PROFILE_CHANGED'', ''XrEventDataInteractionProfileChanged''),
    (''XR_TYPE_EVENT_DATA_REFERENCE_SPACE_CHANGE_PENDING'', ''XrEventDataReferenceSpaceChangePending''),
    (''XR_TYPE_EVENT_DATA_SESSION_STATE_CHANGED'', ''XrEventDataSessionStateChanged''),
    (''XR_TYPE_EXTENSION_PROPERTIES'', ''XrExtensionProperties''),
    (''XR_TYPE_FRAME_BEGIN_INFO'', ''XrFrameBeginInfo''),
    (''XR_TYPE_FRAME_END_INFO'', ''XrFrameEndInfo''),
    (''XR_TYPE_FRAME_STATE'', ''XrFrameState''),
    (''XR_TYPE_FRAME_WAIT_INFO'', ''XrFrameWaitInfo''),
    (''XR_TYPE_HAPTIC_ACTION_INFO'', ''XrHapticActionInfo''),
    (''XR_TYPE_HAPTIC_VIBRATION'', ''XrHapticVibration''),
    (''XR_TYPE_INPUT_SOURCE_LOCALIZED_NAME_GET_INFO'', ''XrInputSourceLocalizedNameGetInfo''),
    (''XR_TYPE_INSTANCE_CREATE_INFO'', ''XrInstanceCreateInfo''),
    (''XR_TYPE_INSTANCE_PROPERTIES'', ''XrInstanceProperties''),
    (''XR_TYPE_INTERACTION_PROFILE_STATE'', ''XrInteractionProfileState''),
    (''XR_TYPE_INTERACTION_PROFILE_SUGGESTED_BINDING'', ''XrInteractionProfileSuggestedBinding''),
    (''XR_TYPE_REFERENCE_SPACE_CREATE_INFO'', ''XrReferenceSpaceCreateInfo''),
    (''XR_TYPE_SESSION_ACTION_SETS_ATTACH_INFO'', ''XrSessionActionSetsAttachInfo''),
    (''XR_TYPE_SESSION_BEGIN_INFO'', ''XrSessionBeginInfo''),
    (''XR_TYPE_SESSION_CREATE_INFO'', ''XrSessionCreateInfo''),
    (''XR_TYPE_SPACE_LOCATION'', ''XrSpaceLocation''),
    (''XR_TYPE_SPACE_LOCATIONS'', ''XrSpaceLocations''),
    (''XR_TYPE_SPACE_VELOCITIES'', ''XrSpaceVelocities''),
    (''XR_TYPE_SPACE_VELOCITY'', ''XrSpaceVelocity''),
    (''XR_TYPE_SPACES_LOCATE_INFO'', ''XrSpacesLocateInfo''),
    (''XR_TYPE_SWAPCHAIN_CREATE_INFO'', ''XrSwapchainCreateInfo''),
    (''XR_TYPE_SWAPCHAIN_IMAGE_ACQUIRE_INFO'', ''XrSwapchainImageAcquireInfo''),
    (''XR_TYPE_SWAPCHAIN_IMAGE_RELEASE_INFO'', ''XrSwapchainImageReleaseInfo''),
    (''XR_TYPE_SWAPCHAIN_IMAGE_WAIT_INFO'', ''XrSwapchainImageWaitInfo''),
    (''XR_TYPE_SYSTEM_GET_INFO'', ''XrSystemGetInfo''),
    (''XR_TYPE_SYSTEM_PROPERTIES'', ''XrSystemProperties''),
    (''XR_TYPE_VIEW'', ''XrView''),
    (''XR_TYPE_VIEW_CONFIGURATION_PROPERTIES'', ''XrViewConfigurationProperties''),
    (''XR_TYPE_VIEW_CONFIGURATION_VIEW'', ''XrViewConfigurationView''),
    (''XR_TYPE_VIEW_LOCATE_INFO'', ''XrViewLocateInfo''),
    (''XR_TYPE_VIEW_STATE'', ''XrViewState'')]"

lemmas ext_cleaner_rows_defs =
  ext_cleaner_rows_def ext_cleaner_rows_1_def ext_cleaner_rows_2_def ext_cleaner_rows_3_def ext_cleaner_rows_4_def
  ext_cleaner_rows_5_def ext_cleaner_rows_6_def ext_cleaner_rows_7_def ext_cleaner_rows_8_def

definition ext_size_rows_1 :: "(string \<times> (nat \<times> string \<times> string) list) list" where
  "ext_size_rows_1 =
   [(''XR_ALMALENCE_digital_lens_control'',
     [(1, ''XR_TYPE_DIGITAL_LENS_CONTROL_ALMALENCE'', ''XrDigitalLensControlALMALENCE'')]),
    (''XR_BD_body_tracking'',
     [(2, ''XR_TYPE_BODY_JOINT_LOCATIONS_BD'', ''XrBodyJointLocationsBD''),
      (2, ''XR_TYPE_BODY_JOINTS_LOCATE_INFO_BD'', ''XrBodyJointsLocateInfoBD''),
      (2, ''XR_TYPE_BODY_TRACKER_CREATE_INFO_BD'', ''XrBodyTrackerCreateInfoBD''),
      (2, ''XR_TYPE_SYSTEM_BODY_TRACKING_PROPERTIES_BD'', ''XrSystemBodyTrackingPropertiesBD'')]),
    (''XR_BD_future_progress'',
     [(2, ''XR_TYPE_FUTURE_POLL_RESULT_PROGRESS_BD'', ''XrFuturePollResultProgressBD'')]),
    (''XR_BD_spatial_anchor'',
     [(2, ''XR_TYPE_SPATIAL_ANCHOR_CREATE_COMPLETION_BD'', ''XrSpatialAnchorCreateCompletionBD''),
      (2, ''XR_TYPE_SPATIAL_ANCHOR_CREATE_INFO_BD'', ''XrSpatialAnchorCreateInfoBD''),
      (2, ''XR_TYPE_SPATIAL_ANCHOR_PERSIST_INFO_BD'', ''XrSpatialAnchorPersistInfoBD''),
      (2, ''XR_TYPE_SPATIAL_ANCHOR_UNPERSIST_INFO_BD'', ''XrSpatialAnchorUnpersistInfoBD''),
      (2, ''XR_TYPE_SYSTEM_SPATIAL_ANCHOR_PROPERTIES_BD'', ''XrSystemSpatialAnchorPropertiesBD'')]),
    (''XR_BD_spatial_anchor_sharing'',
     [(2, ''XR_TYPE_SHARED_SPATIAL_ANCHOR_DOWNLOAD_INFO_BD'', ''XrSharedSpatialAnchorDownloadInfoBD''),
      (2, ''XR_TYPE_SPATIAL_ANCHOR_SHARE_INFO_BD'', ''XrSpatialAnchorShareInfoBD''),
      (2, ''XR_TYPE_SYSTEM_SPATIAL_ANCHOR_SHARING_PROPERTIES_BD'', ''XrSystemSpatialAnchorSharingPropertiesBD'')]),
    (''XR_BD_spatial_mesh'',
     [(2, ''XR_TYPE_SENSE_DATA_PROVIDER_CREATE_INFO_SPATIAL_MESH_BD'', ''XrSenseDataProviderCreateInfoSpatialMeshBD''),
      (2, ''XR_TYPE_SYSTEM_SPATIAL_MESH_PROPERTIES_BD'', ''XrSystemSpatialMeshPropertiesBD'')]),
    (''XR_BD_spatial_scene'',
     [(2, ''XR_TYPE_SCENE_CAPTURE_INFO_BD'', ''XrSceneCaptureInfoBD''),
      (2, ''XR_TYPE_SYSTEM_SPATIAL_SCENE_PROPERTIES_BD'', ''XrSystemSpatialScenePropertiesBD'')]),
    (''XR_BD_spatial_sensing'',
     [(2, ''XR_TYPE_ANCHOR_SPACE_CREATE_INFO_BD'', ''XrAnchorSpaceCreateInfoBD''),
      (2, ''XR_TYPE_EVENT_DATA_SENSE_DATA_PROVIDER_STATE_CHANGED_BD'', ''XrEventDataSenseDataProviderStateChangedBD''),
      (2, ''XR_TYPE_EVENT_DATA_SENSE_DATA_UPDATED_BD'', ''XrEventDataSenseDataUpdatedBD''),
      (2, ''XR_TYPE_QUERIED_SENSE_DATA_BD'', ''XrQueriedSenseDataBD''),
      (2, ''XR_TYPE_QUERIED_SENSE_DATA_GET_INFO_BD'', ''XrQueriedSenseDataGetInfoBD''),
      (2, ''XR_TYPE_SENSE_DATA_FILTER_SEMANTIC_BD'', ''XrSenseDataFilterSemanticBD''),
      (2, ''XR_TYPE_SENSE_DATA_FILTER_UUID_BD'', ''XrSenseDataFilterUuidBD''),
      (2, ''XR_TYPE_SENSE_DATA_PROVIDER_CREATE_INFO_BD'', ''XrSenseDataProviderCreateInfoBD''),
      (2, ''XR_TYPE_SENSE_DATA_PROVIDER_START_INFO_BD'', ''XrSenseDataProviderStartInfoBD''),
      (2, ''XR_TYPE_SENSE_DATA_QUERY_COMPLETION_BD'', ''XrSenseDataQueryCompletionBD''),
      (2, ''XR_TYPE_SENSE_DATA_QUERY_INFO_BD'', ''XrSenseDataQueryInfoBD''),
      (2, ''XR_TYPE_SPATIAL_ENTITY_ANCHOR_CREATE_INFO_BD'', ''XrSpatialEntityAnchorCreateInfoBD''),
      (2, ''XR_TYPE_SPATIAL_ENTITY_COMPONENT_DATA_BOUNDING_BOX_2D_BD'', ''XrSpatialEntityComponentDataBoundingBox2DBD''),
      (2, ''XR_TYPE_SPATIAL_ENTITY_COMPONENT_DATA_BOUNDING_BOX_3D_BD'', ''XrSpatialEntityComponentDataBoundingBox3DBD''),
      (2, ''XR_TYPE_SPATIAL_ENTITY_COMPONENT_DATA_LOCATION_BD'', ''XrSpatialEntityComponentDataLocationBD''),
      (2, ''XR_TYPE_SPATIAL_ENTITY_COMPONENT_DATA_POLYGON_BD'', ''XrSpatialEntityComponentDataPolygonBD''),
      (2, ''XR_TYPE_SPATIAL_ENTITY_COMPONENT_DATA_SEMANTIC_BD'', ''XrSpatialEntityComponentDataSemanticBD''),
      (2, ''XR_TYPE_SPATIAL_ENTITY_COMPONENT_DATA_TRIANGLE_MESH_BD'', ''XrSpatialEntityComponentDataTriangleMeshBD''),
      (2, ''XR_TYPE_SPATIAL_ENTITY_COMPONENT_GET_INFO_BD'', ''XrSpatialEntityComponentGetInfoBD''),
      (2, ''XR_TYPE_SPATIAL_ENTITY_LOCATION_GET_INFO_BD'', ''XrSpatialEntityLocationGetInfoBD''),
      (2, ''XR_TYPE_SPATIAL_ENTITY_STATE_BD'', ''XrSpatialEntityStateBD''),
      (2, ''XR_TYPE_SYSTEM_SPATIAL_SENSING_PROPERTIES_BD'', ''XrSystemSpatialSensingPropertiesBD'')]),
    (''XR_EPIC_view_configuration_fov'',
     [(2, ''XR_TYPE_VIEW_CONFIGURATION_VIEW_FOV_EPIC'', ''XrViewConfigurationViewFovEPIC'')]),
    (''XR_EXTX_overlay'',
     [(2, ''XR_TYPE_EVENT_DATA_MAIN_SESSION_VISIBILITY_CHANGED_EXTX'', ''XrEventDataMainSessionVisibilityChangedEXTX''),
      (2, ''XR_TYPE_SESSION_CREATE_INFO_OVERLAY_EXTX'', ''XrSessionCreateInfoOverlayEXTX'')]),
    (''XR_EXT_active_action_set_priority'',
     [(2, ''XR_TYPE_ACTIVE_ACTION_SET_PRIORITIES_EXT'', ''XrActiveActionSetPrioritiesEXT'')]),
    (''XR_EXT_debug_utils'',
     [(2, ''XR_TYPE_DEBUG_UTILS_LABEL_EXT'', ''XrDebugUtilsLabelEXT''),
      (2, ''XR_TYPE_DEBUG_UTILS_MESSENGER_CALLBACK_DATA_EXT'', ''XrDebugUtilsMessengerCallbackDataEXT''),
      (2, ''XR_TYPE_DEBUG_UTILS_MESSENGER_CREATE_INFO_EXT'', ''XrDebugUtilsMessengerCreateInfoEXT''),
      (2, ''XR_TYPE_DEBUG_UTILS_OBJECT_NAME_INFO_EXT'', ''XrDebugUtilsObjectNameInfoEXT'')]),
    (''XR_EXT_dpad_binding'',
     [(2, ''XR_TYPE_INTERACTION_PROFILE_DPAD_BINDING_EXT'', ''XrInteractionProfileDpadBindingEXT'')]),
    (''XR_EXT_eye_gaze_interaction'',
     [(2, ''XR_TYPE_EYE_GAZE_SAMPLE_TIME_EXT'', ''XrEyeGazeSampleTimeEXT''),
      (2, ''XR_TYPE_SYSTEM_EYE_GAZE_INTERACTION_PROPERTIES_EXT'', ''XrSystemEyeGazeInteractionPropertiesEXT'')]),
    (''XR_EXT_frame_synthesis'',
     [(2, ''XR_TYPE_FRAME_SYNTHESIS_CONFIG_VIEW_EXT'', ''XrFrameSynthesisConfigViewEXT''),
      (2, ''XR_TYPE_FRAME_SYNTHESIS_INFO_EXT'', ''XrFrameSynthesisInfoEXT'')]),
    (''XR_EXT_future'',
     [(2, ''XR_TYPE_FUTURE_CANCEL_INFO_EXT'', ''XrFutureCancelInfoEXT''),
      (2, ''XR_TYPE_FUTURE_COMPLETION_EXT'', ''XrFutureCompletionEXT''),
      (2, ''XR_TYPE_FUTURE_POLL_INFO_EXT'', ''XrFuturePollInfoEXT''),
      (2, ''XR_TYPE_FUTURE_POLL_RESULT_EXT'', ''XrFuturePollResultEXT'')]),
    (''XR_EXT_hand_joints_motion_range'',
     [(2, ''XR_TYPE_HAND_JOINTS_MOTION_RANGE_INFO_EXT'', ''XrHandJointsMotionRangeInfoEXT'')])]"

definition ext_size_rows_2 :: "(string \<times> (nat \<times> string \<times> string) list) list" where
  "ext_size_rows_2 =
   [(''XR_EXT_hand_tracking'',
     [(2, ''XR_TYPE_HAND_JOINT_LOCATIONS_EXT'', ''XrHandJointLocationsEXT''),
      (2, ''XR_TYPE_HAND_JOINT_VELOCITIES_EXT'', ''XrHandJointVelocitiesEXT''),
      (2, ''XR_TYPE_HAND_JOINTS_LOCATE_INFO_EXT'', ''XrHandJointsLocateInfoEXT''),
      (2, ''XR_TYPE_HAND_TRACKER_CREATE_INFO_EXT'', ''XrHandTrackerCreateInfoEXT''),
      (2, ''XR_TYPE_SYSTEM_HAND_TRACKING_PROPERTIES_EXT'', ''XrSystemHandTrackingPropertiesEXT'')]),
    (''XR_EXT_hand_tracking_data_source'',
     [(2, ''XR_TYPE_HAND_TRACKING_DATA_SOURCE_INFO_EXT'', ''XrHandTrackingDataSourceInfoEXT''),
      (2, ''XR_TYPE_HAND_TRACKING_DATA_SOURCE_STATE_EXT'', ''XrHandTrackingDataSourceStateEXT'')]),
    (''XR_EXT_performance_settings'',
     [(2, ''XR_TYPE_EVENT_DATA_PERF_SETTINGS_EXT'', ''XrEventDataPerfSettingsEXT'')]),
    (''XR_EXT_plane_detection'',
     [(2, ''XR_TYPE_PLANE_DETECTOR_BEGIN_INFO_EXT'', ''XrPlaneDetectorBeginInfoEXT''),
      (2, ''XR_TYPE_PLANE_DETECTOR_CREATE_INFO_EXT'', ''XrPlaneDetectorCreateInfoEXT''),
      (2, ''XR_TYPE_PLANE_DETECTOR_GET_INFO_EXT'', ''XrPlaneDetectorGetInfoEXT''),
      (2, ''XR_TYPE_PLANE_DETECTOR_LOCATION_EXT'', ''XrPlaneDetectorLocationEXT''),
      (2, ''XR_TYPE_PLANE_DETECTOR_LOCATIONS_EXT'', ''XrPlaneDetectorLocationsEXT''),
      (2, ''XR_TYPE_PLANE_DETECTOR_POLYGON_BUFFER_EXT'', ''XrPlaneDetectorPolygonBufferEXT''),
      (2, ''XR_TYPE_SYSTEM_PLANE_DETECTION_PROPERTIES_EXT'', ''XrSystemPlaneDetectionPropertiesEXT'')]),
    (''XR_EXT_user_presence'',
     [(2, ''XR_TYPE_EVENT_DATA_USER_PRESENCE_CHANGED_EXT'', ''XrEventDataUserPresenceChangedEXT''),
      (2, ''XR_TYPE_SYSTEM_USER_PRESENCE_PROPERTIES_EXT'', ''XrSystemUserPresencePropertiesEXT'')]),
    (''XR_EXT_view_configuration_depth_range'',
     [(2, ''XR_TYPE_VIEW_CONFIGURATION_DEPTH_RANGE_EXT'', ''XrViewConfigurationDepthRangeEXT'')]),
    (''XR_FB_android_surface_swapchain_create'',
     [(2, ''XR_TYPE_ANDROID_SURFACE_SWAPCHAIN_CREATE_INFO_FB'', ''XrAndroidSurfaceSwapchainCreateInfoFB'')]),
    (''XR_FB_body_tracking'',
     [(2, ''XR_TYPE_BODY_JOINT_LOCATIONS_FB'', ''XrBodyJointLocationsFB''),
      (2, ''XR_TYPE_BODY_JOINTS_LOCATE_INFO_FB'', ''XrBodyJointsLocateInfoFB''),
      (2, ''XR_TYPE_BODY_SKELETON_FB'', ''XrBodySkeletonFB''),
      (2, ''XR_TYPE_BODY_TRACKER_CREATE_INFO_FB'', ''XrBodyTrackerCreateInfoFB''),
      (2, ''XR_TYPE_SYSTEM_BODY_TRACKING_PROPERTIES_FB'', ''XrSystemBodyTrackingPropertiesFB'')]),
    (''XR_FB_color_space'',
     [(2, ''XR_TYPE_SYSTEM_COLOR_SPACE_PROPERTIES_FB'', ''XrSystemColorSpacePropertiesFB'')]),
    (''XR_FB_composition_layer_alpha_blend'',
     [(2, ''XR_TYPE_COMPOSITION_LAYER_ALPHA_BLEND_FB'', ''XrCompositionLayerAlphaBlendFB'')]),
    (''XR_FB_composition_layer_depth_test'',
     [(2, ''XR_TYPE_COMPOSITION_LAYER_DEPTH_TEST_FB'', ''XrCompositionLayerDepthTestFB'')]),
    (''XR_FB_composition_layer_image_layout'',
     [(2, ''XR_TYPE_COMPOSITION_LAYER_IMAGE_LAYOUT_FB'', ''XrCompositionLayerImageLayoutFB'')]),
    (''XR_FB_composition_layer_secure_content'',
     [(2, ''XR_TYPE_COMPOSITION_LAYER_SECURE_CONTENT_FB'', ''XrCompositionLayerSecureContentFB'')]),
    (''XR_FB_composition_layer_settings'',
     [(2, ''XR_TYPE_COMPOSITION_LAYER_SETTINGS_FB'', ''XrCompositionLayerSettingsFB'')]),
    (''XR_FB_display_refresh_rate'',
     [(2, ''XR_TYPE_EVENT_DATA_DISPLAY_REFRESH_RATE_CHANGED_FB'', ''XrEventDataDisplayRefreshRateChangedFB'')]),
    (''XR_FB_eye_tracking_social'',
     [(2, ''XR_TYPE_EYE_GAZES_FB'', ''XrEyeGazesFB''),
      (2, ''XR_TYPE_EYE_GAZES_INFO_FB'', ''XrEyeGazesInfoFB''),
      (2, ''XR_TYPE_EYE_TRACKER_CREATE_INFO_FB'', ''XrEyeTrackerCreateInfoFB''),
      (2, ''XR_TYPE_SYSTEM_EYE_TRACKING_PROPERTIES_FB'', ''XrSystemEyeTrackingPropertiesFB'')]),
    (''XR_FB_face_tracking'',
     [(2, ''XR_TYPE_FACE_EXPRESSION_INFO_FB'', ''XrFaceExpressionInfoFB''),
      (2, ''XR_TYPE_FACE_EXPRESSION_WEIGHTS_FB'', ''XrFaceExpressionWeightsFB''),
      (2, ''XR_TYPE_FACE_TRACKER_CREATE_INFO_FB'', ''XrFaceTrackerCreateInfoFB''),
      (2, ''XR_TYPE_SYSTEM_FACE_TRACKING_PROPERTIES_FB'', ''XrSystemFaceTrackingPropertiesFB'')]),
    (''XR_FB_face_tracking2'',
     [(2, ''XR_TYPE_FACE_EXPRESSION_INFO2_FB'', ''XrFaceExpressionInfo2FB''),
      (2, ''XR_TYPE_FACE_EXPRESSION_WEIGHTS2_FB'', ''XrFaceExpressionWeights2FB''),
      (2, ''XR_TYPE_FACE_TRACKER_CREATE_INFO2_FB'', ''XrFaceTrackerCreateInfo2FB''),
      (2, ''XR_TYPE_SYSTEM_FACE_TRACKING_PROPERTIES2_FB'', ''XrSystemFaceTrackingProperties2FB'')]),
    (''XR_FB_foveation'',
     [(2, ''XR_TYPE_FOVEATION_PROFILE_CREATE_INFO_FB'', ''XrFoveationProfileCreateInfoFB''),
      (2, ''XR_TYPE_SWAPCHAIN_CREATE_INFO_FOVEATION_FB'', ''XrSwapchainCreateInfoFoveationFB''),
      (2, ''XR_TYPE_SWAPCHAIN_STATE_FOVEATION_FB'', ''XrSwapchainStateFoveationFB'')]),
    (''XR_FB_foveation_configuration'',
     [(2, ''XR_TYPE_FOVEATION_LEVEL_PROFILE_CREATE_INFO_FB'', ''XrFoveationLevelProfileCreateInfoFB'')]),
    (''XR_FB_foveation_vulkan'',
     [(2, ''XR_TYPE_SWAPCHAIN_IMAGE_FOVEATION_VULKAN_FB'', ''XrSwapchainImageFoveationVulkanFB'')]),
    (''XR_FB_hand_tracking_aim'',
     [(2, ''XR_TYPE_HAND_TRACKING_AIM_STATE_FB'', ''XrHandTrackingAimStateFB'')]),
    (''XR_FB_hand_tracking_capsules'',
     [(2, ''XR_TYPE_HAND_TRACKING_CAPSULES_STATE_FB'', ''XrHandTrackingCapsulesStateFB'')]),
    (''XR_FB_hand_tracking_mesh'',
     [(2, ''XR_TYPE_HAND_TRACKING_MESH_FB'', ''XrHandTrackingMeshFB''),
      (2, ''XR_TYPE_HAND_TRACKING_SCALE_FB'', ''XrHandTrackingScaleFB'')])]"

definition ext_size_rows_3 :: "(string \<times> (nat \<times> string \<times> string) list) list" where
  "ext_size_rows_3 =
   [(''XR_FB_haptic_amplitude_envelope'',
     [(2, ''XR_TYPE_HAPTIC_AMPLITUDE_ENVELOPE_VIBRATION_FB'', ''XrHapticAmplitudeEnvelopeVibrationFB'')]),
    (''XR_FB_haptic_pcm'',
     [(2, ''XR_TYPE_DEVICE_PCM_SAMPLE_RATE_STATE_FB'', ''XrDevicePcmSampleRateStateFB''),
      (2, ''XR_TYPE_HAPTIC_PCM_VIBRATION_FB'', ''XrHapticPcmVibrationFB'')]),
    (''XR_FB_keyboard_tracking'',
     [(2, ''XR_TYPE_KEYBOARD_SPACE_CREATE_INFO_FB'', ''XrKeyboardSpaceCreateInfoFB''),
      (2, ''XR_TYPE_KEYBOARD_TRACKING_QUERY_FB'', ''XrKeyboardTrackingQueryFB''),
      (2, ''XR_TYPE_SYSTEM_KEYBOARD_TRACKING_PROPERTIES_FB'', ''XrSystemKeyboardTrackingPropertiesFB'')]),
    (''XR_FB_passthrough'',
     [(2, ''XR_TYPE_COMPOSITION_LAYER_PASSTHROUGH_FB'', ''XrCompositionLayerPassthroughFB''),
      (2, ''XR_TYPE_EVENT_DATA_PASSTHROUGH_STATE_CHANGED_FB'', ''XrEventDataPassthroughStateChangedFB''),
      (2, ''XR_TYPE_GEOMETRY_INSTANCE_CREATE_INFO_FB'', ''XrGeometryInstanceCreateInfoFB''),
      (2, ''XR_TYPE_GEOMETRY_INSTANCE_TRANSFORM_FB'', ''XrGeometryInstanceTransformFB''),
      (2, ''XR_TYPE_PASSTHROUGH_BRIGHTNESS_CONTRAST_SATURATION_FB'', ''XrPassthroughBrightnessContrastSaturationFB''),
      (2, ''XR_TYPE_PASSTHROUGH_COLOR_MAP_MONO_TO_MONO_FB'', ''XrPassthroughColorMapMonoToMonoFB''),
      (2, ''XR_TYPE_PASSTHROUGH_COLOR_MAP_MONO_TO_RGBA_FB'', ''XrPassthroughColorMapMonoToRgbaFB''),
      (2, ''XR_TYPE_PASSTHROUGH_CREATE_INFO_FB'', ''XrPassthroughCreateInfoFB''),
      (2, ''XR_TYPE_PASSTHROUGH_LAYER_CREATE_INFO_FB'', ''XrPassthroughLayerCreateInfoFB''),
      (2, ''XR_TYPE_PASSTHROUGH_STYLE_FB'', ''XrPassthroughStyleFB''),
      (2, ''XR_TYPE_SYSTEM_PASSTHROUGH_PROPERTIES2_FB'', ''XrSystemPassthroughProperties2FB''),
      (2, ''XR_TYPE_SYSTEM_PASSTHROUGH_PROPERTIES_FB'', ''XrSystemPassthroughPropertiesFB'')]),
    (''XR_FB_passthrough_keyboard_hands'',
     [(2, ''XR_TYPE_PASSTHROUGH_KEYBOARD_HANDS_INTENSITY_FB'', ''XrPassthroughKeyboardHandsIntensityFB'')]),
    (''XR_FB_render_model'',
     [(2, ''XR_TYPE_RENDER_MODEL_BUFFER_FB'', ''XrRenderModelBufferFB''),
      (2, ''XR_TYPE_RENDER_MODEL_CAPABILITIES_REQUEST_FB'', ''XrRenderModelCapabilitiesRequestFB''),
      (2, ''XR_TYPE_RENDER_MODEL_LOAD_INFO_FB'', ''XrRenderModelLoadInfoFB''),
      (2, ''XR_TYPE_RENDER_MODEL_PATH_INFO_FB'', ''XrRenderModelPathInfoFB''),
      (2, ''XR_TYPE_RENDER_MODEL_PROPERTIES_FB'', ''XrRenderModelPropertiesFB''),
      (2, ''XR_TYPE_SYSTEM_RENDER_MODEL_PROPERTIES_FB'', ''XrSystemRenderModelPropertiesFB'')]),
    (''XR_FB_scene'',
     [(2, ''XR_TYPE_BOUNDARY_2D_FB'', ''XrBoundary2DFB''),
      (2, ''XR_TYPE_ROOM_LAYOUT_FB'', ''XrRoomLayoutFB''),
      (2, ''XR_TYPE_SEMANTIC_LABELS_FB'', ''XrSemanticLabelsFB''),
      (2, ''XR_TYPE_SEMANTIC_LABELS_SUPPORT_INFO_FB'', ''XrSemanticLabelsSupportInfoFB'')]),
    (''XR_FB_scene_capture'',
     [(2, ''XR_TYPE_EVENT_DATA_SCENE_CAPTURE_COMPLETE_FB'', ''XrEventDataSceneCaptureCompleteFB''),
      (2, ''XR_TYPE_SCENE_CAPTURE_REQUEST_INFO_FB'', ''XrSceneCaptureRequestInfoFB'')]),
    (''XR_FB_space_warp'',
     [(2, ''XR_TYPE_COMPOSITION_LAYER_SPACE_WARP_INFO_FB'', ''XrCompositionLayerSpaceWarpInfoFB''),
      (2, ''XR_TYPE_SYSTEM_SPACE_WARP_PROPERTIES_FB'', ''XrSystemSpaceWarpPropertiesFB'')]),
    (''XR_FB_spatial_entity'',
     [(2, ''XR_TYPE_EVENT_DATA_SPACE_SET_STATUS_COMPLETE_FB'', ''XrEventDataSpaceSetStatusCompleteFB''),
      (2, ''XR_TYPE_EVENT_DATA_SPATIAL_ANCHOR_CREATE_COMPLETE_FB'', ''XrEventDataSpatialAnchorCreateCompleteFB''),
      (2, ''XR_TYPE_SPACE_COMPONENT_STATUS_FB'', ''XrSpaceComponentStatusFB''),
      (2, ''XR_TYPE_SPACE_COMPONENT_STATUS_SET_INFO_FB'', ''XrSpaceComponentStatusSetInfoFB''),
      (2, ''XR_TYPE_SPATIAL_ANCHOR_CREATE_INFO_FB'', ''XrSpatialAnchorCreateInfoFB''),
      (2, ''XR_TYPE_SYSTEM_SPATIAL_ENTITY_PROPERTIES_FB'', ''XrSystemSpatialEntityPropertiesFB'')]),
    (''XR_FB_spatial_entity_container'',
     [(2, ''XR_TYPE_SPACE_CONTAINER_FB'', ''XrSpaceContainerFB'')]),
    (''XR_FB_spatial_entity_query'',
     [(2, ''XR_TYPE_EVENT_DATA_SPACE_QUERY_COMPLETE_FB'', ''XrEventDataSpaceQueryCompleteFB''),
      (2, ''XR_TYPE_EVENT_DATA_SPACE_QUERY_RESULTS_AVAILABLE_FB'', ''XrEventDataSpaceQueryResultsAvailableFB''),
      (2, ''XR_TYPE_SPACE_COMPONENT_FILTER_INFO_FB'', ''XrSpaceComponentFilterInfoFB''),
      (2, ''XR_TYPE_SPACE_QUERY_INFO_FB'', ''XrSpaceQueryInfoFB''),
      (2, ''XR_TYPE_SPACE_QUERY_RESULTS_FB'', ''XrSpaceQueryResultsFB''),
      (2, ''XR_TYPE_SPACE_STORAGE_LOCATION_FILTER_INFO_FB'', ''XrSpaceStorageLocationFilterInfoFB''),
      (2, ''XR_TYPE_SPACE_UUID_FILTER_INFO_FB'', ''XrSpaceUuidFilterInfoFB'')]),
    (''XR_FB_spatial_entity_sharing'',
     [(2, ''XR_TYPE_EVENT_DATA_SPACE_SHARE_COMPLETE_FB'', ''XrEventDataSpaceShareCompleteFB''),
      (2, ''XR_TYPE_SPACE_SHARE_INFO_FB'', ''XrSpaceShareInfoFB'')]),
    (''XR_FB_spatial_entity_storage'',
     [(2, ''XR_TYPE_EVENT_DATA_SPACE_ERASE_COMPLETE_FB'', ''XrEventDataSpaceEraseCompleteFB''),
      (2, ''XR_TYPE_EVENT_DATA_SPACE_SAVE_COMPLETE_FB'', ''XrEventDataSpaceSaveCompleteFB''),
      (2, ''XR_TYPE_SPACE_ERASE_INFO_FB'', ''XrSpaceEraseInfoFB''),
      (2, ''XR_TYPE_SPACE_SAVE_INFO_FB'', ''XrSpaceSaveInfoFB'')]),
    (''XR_FB_spatial_entity_storage_batch'',
     [(2, ''XR_TYPE_EVENT_DATA_SPACE_LIST_SAVE_COMPLETE_FB'', ''XrEventDataSpaceListSaveCompleteFB''),
      (2, ''XR_TYPE_SPACE_LIST_SAVE_INFO_FB'', ''XrSpaceListSaveInfoFB'')]),
    (''XR_FB_spatial_entity_user'',
     [(2, ''XR_TYPE_SPACE_USER_CREATE_INFO_FB'', ''XrSpaceUserCreateInfoFB'')]),
    (''XR_FB_swapchain_update_state_android_surface'',
     [(2, ''XR_TYPE_SWAPCHAIN_STATE_ANDROID_SURFACE_DIMENSIONS_FB'', ''XrSwapchainStateAndroidSurfaceDimensionsFB'')])]"

definition ext_size_rows_4 :: "(string \<times> (nat \<times> string \<times> string) list) list" where
  "ext_size_rows_4 =
   [(''XR_FB_swapchain_update_state_opengl_es'',
     [(2, ''XR_TYPE_SWAPCHAIN_STATE_SAMPLER_OPENGL_ES_FB'', ''XrSwapchainStateSamplerOpenGLESFB'')]),
    (''XR_FB_swapchain_update_state_vulkan'',
     [(2, ''XR_TYPE_SWAPCHAIN_STATE_SAMPLER_VULKAN_FB'', ''XrSwapchainStateSamplerVulkanFB'')]),
    (''XR_FB_triangle_mesh'',
     [(2, ''XR_TYPE_TRIANGLE_MESH_CREATE_INFO_FB'', ''XrTriangleMeshCreateInfoFB'')]),
    (''XR_HTCX_vive_tracker_interaction'',
     [(2, ''XR_TYPE_EVENT_DATA_VIVE_TRACKER_CONNECTED_HTCX'', ''XrEventDataViveTrackerConnectedHTCX''),
      (2, ''XR_TYPE_VIVE_TRACKER_PATHS_HTCX'', ''XrViveTrackerPathsHTCX'')]),
    (''XR_HTC_anchor'',
     [(2, ''XR_TYPE_SPATIAL_ANCHOR_CREATE_INFO_HTC'', ''XrSpatialAnchorCreateInfoHTC''),
      (2, ''XR_TYPE_SYSTEM_ANCHOR_PROPERTIES_HTC'', ''XrSystemAnchorPropertiesHTC'')]),
    (''XR_HTC_body_tracking'',
     [(2, ''XR_TYPE_BODY_JOINT_LOCATIONS_HTC'', ''XrBodyJointLocationsHTC''),
      (2, ''XR_TYPE_BODY_JOINTS_LOCATE_INFO_HTC'', ''XrBodyJointsLocateInfoHTC''),
      (2, ''XR_TYPE_BODY_SKELETON_HTC'', ''XrBodySkeletonHTC''),
      (2, ''XR_TYPE_BODY_TRACKER_CREATE_INFO_HTC'', ''XrBodyTrackerCreateInfoHTC''),
      (2, ''XR_TYPE_SYSTEM_BODY_TRACKING_PROPERTIES_HTC'', ''XrSystemBodyTrackingPropertiesHTC'')]),
    (''XR_HTC_facial_tracking'',
     [(2, ''XR_TYPE_FACIAL_EXPRESSIONS_HTC'', ''XrFacialExpressionsHTC''),
      (2, ''XR_TYPE_FACIAL_TRACKER_CREATE_INFO_HTC'', ''XrFacialTrackerCreateInfoHTC''),
      (2, ''XR_TYPE_SYSTEM_FACIAL_TRACKING_PROPERTIES_HTC'', ''XrSystemFacialTrackingPropertiesHTC'')]),
    (''XR_HTC_foveation'',
     [(2, ''XR_TYPE_FOVEATION_APPLY_INFO_HTC'', ''XrFoveationApplyInfoHTC''),
      (2, ''XR_TYPE_FOVEATION_CUSTOM_MODE_INFO_HTC'', ''XrFoveationCustomModeInfoHTC''),
      (2, ''XR_TYPE_FOVEATION_DYNAMIC_MODE_INFO_HTC'', ''XrFoveationDynamicModeInfoHTC'')]),
    (''XR_HTC_passthrough'',
     [(2, ''XR_TYPE_COMPOSITION_LAYER_PASSTHROUGH_HTC'', ''XrCompositionLayerPassthroughHTC''),
      (2, ''XR_TYPE_PASSTHROUGH_COLOR_HTC'', ''XrPassthroughColorHTC''),
      (2, ''XR_TYPE_PASSTHROUGH_CREATE_INFO_HTC'', ''XrPassthroughCreateInfoHTC''),
      (2, ''XR_TYPE_PASSTHROUGH_MESH_TRANSFORM_INFO_HTC'', ''XrPassthroughMeshTransformInfoHTC'')]),
    (''XR_KHR_D3D11_enable'',
     [(2, ''XR_TYPE_GRAPHICS_BINDING_D3D11_KHR'', ''XrGraphicsBindingD3D11KHR''),
      (2, ''XR_TYPE_GRAPHICS_REQUIREMENTS_D3D11_KHR'', ''XrGraphicsRequirementsD3D11KHR''),
      (2, ''XR_TYPE_SWAPCHAIN_IMAGE_D3D11_KHR'', ''XrSwapchainImageD3D11KHR'')]),
    (''XR_KHR_D3D12_enable'',
     [(2, ''XR_TYPE_GRAPHICS_BINDING_D3D12_KHR'', ''XrGraphicsBindingD3D12KHR''),
      (2, ''XR_TYPE_GRAPHICS_REQUIREMENTS_D3D12_KHR'', ''XrGraphicsRequirementsD3D12KHR''),
      (2, ''XR_TYPE_SWAPCHAIN_IMAGE_D3D12_KHR'', ''XrSwapchainImageD3D12KHR'')]),
    (''XR_KHR_android_create_instance'',
     [(2, ''XR_TYPE_INSTANCE_CREATE_INFO_ANDROID_KHR'', ''XrInstanceCreateInfoAndroidKHR'')]),
    (''XR_KHR_binding_modification'',
     [(2, ''XR_TYPE_BINDING_MODIFICATIONS_KHR'', ''XrBindingModificationsKHR'')]),
    (''XR_KHR_composition_layer_color_scale_bias'',
     [(2, ''XR_TYPE_COMPOSITION_LAYER_COLOR_SCALE_BIAS_KHR'', ''XrCompositionLayerColorScaleBiasKHR'')]),
    (''XR_KHR_composition_layer_cube'',
     [(2, ''XR_TYPE_COMPOSITION_LAYER_CUBE_KHR'', ''XrCompositionLayerCubeKHR'')]),
    (''XR_KHR_composition_layer_cylinder'',
     [(2, ''XR_TYPE_COMPOSITION_LAYER_CYLINDER_KHR'', ''XrCompositionLayerCylinderKHR'')]),
    (''XR_KHR_composition_layer_depth'',
     [(2, ''XR_TYPE_COMPOSITION_LAYER_DEPTH_INFO_KHR'', ''XrCompositionLayerDepthInfoKHR'')]),
    (''XR_KHR_composition_layer_equirect'',
     [(2, ''XR_TYPE_COMPOSITION_LAYER_EQUIRECT_KHR'', ''XrCompositionLayerEquirectKHR'')]),
    (''XR_KHR_composition_layer_equirect2'',
     [(2, ''XR_TYPE_COMPOSITION_LAYER_EQUIRECT2_KHR'', ''XrCompositionLayerEquirect2KHR'')]),
    (''XR_KHR_loader_init_android'',
     [(2, ''XR_TYPE_LOADER_INIT_INFO_ANDROID_KHR'', ''XrLoaderInitInfoAndroidKHR'')]),
    (''XR_KHR_metal_enable'',
     [(2, ''XR_TYPE_GRAPHICS_BINDING_METAL_KHR'', ''XrGraphicsBindingMetalKHR''),
      (2, ''XR_TYPE_GRAPHICS_REQUIREMENTS_METAL_KHR'', ''XrGraphicsRequirementsMetalKHR''),
      (2, ''XR_TYPE_SWAPCHAIN_IMAGE_METAL_KHR'', ''XrSwapchainImageMetalKHR'')]),
    (''XR_KHR_opengl_enable'',
     [(2, ''XR_TYPE_GRAPHICS_BINDING_OPENGL_WAYLAND_KHR'', ''XrGraphicsBindingOpenGLWaylandKHR''),
      (2, ''XR_TYPE_GRAPHICS_BINDING_OPENGL_WIN32_KHR'', ''XrGraphicsBindingOpenGLWin32KHR''),
      (2, ''XR_TYPE_GRAPHICS_BINDING_OPENGL_XCB_KHR'', ''XrGraphicsBindingOpenGLXcbKHR''),
      (2, ''XR_TYPE_GRAPHICS_BINDING_OPENGL_XLIB_KHR'', ''XrGraphicsBindingOpenGLXlibKHR''),
      (2, ''XR_TYPE_GRAPHICS_REQUIREMENTS_OPENGL_KHR'', ''XrGraphicsRequirementsOpenGLKHR''),
      (2, ''XR_TYPE_SWAPCHAIN_IMAGE_OPENGL_KHR'', ''XrSwapchainImageOpenGLKHR'')]),
    (''XR_KHR_opengl_es_enable'',
     [(2, ''XR_TYPE_GRAPHICS_BINDING_OPENGL_ES_ANDROID_KHR'', ''XrGraphicsBindingOpenGLESAndroidKHR''),
      (2, ''XR_TYPE_GRAPHICS_REQUIREMENTS_OPENGL_ES_KHR'', ''XrGraphicsRequirementsOpenGLESKHR''),
      (2, ''XR_TYPE_SWAPCHAIN_IMAGE_OPENGL_ES_KHR'', ''XrSwapchainImageOpenGLESKHR'')]),
    (''XR_KHR_visibility_mask'',
     [(2, ''XR_TYPE_EVENT_DATA_VISIBILITY_MASK_CHANGED_KHR'', ''XrEventDataVisibilityMaskChangedKHR''),
      (2, ''XR_TYPE_VISIBILITY_MASK_KHR'', ''XrVisibilityMaskKHR'')])]"

definition ext_size_rows_5 :: "(string \<times> (nat \<times> string \<times> string) list) list" where
  "ext_size_rows_5 =
   [(''XR_KHR_vulkan_enable'',
     [(2, ''XR_TYPE_GRAPHICS_BINDING_VULKAN_KHR'', ''XrGraphicsBindingVulkanKHR''),
      (2, ''XR_TYPE_GRAPHICS_REQUIREMENTS_VULKAN_KHR'', ''XrGraphicsRequirementsVulkanKHR''),
      (2, ''XR_TYPE_SWAPCHAIN_IMAGE_VULKAN_KHR'', ''XrSwapchainImageVulkanKHR'')]),
    (''XR_KHR_vulkan_enable2'',
     [(2, ''XR_TYPE_VULKAN_DEVICE_CREATE_INFO_KHR'', ''XrVulkanDeviceCreateInfoKHR''),
      (2, ''XR_TYPE_VULKAN_GRAPHICS_DEVICE_GET_INFO_KHR'', ''XrVulkanGraphicsDeviceGetInfoKHR''),
      (2, ''XR_TYPE_VULKAN_INSTANCE_CREATE_INFO_KHR'', ''XrVulkanInstanceCreateInfoKHR'')]),
    (''XR_KHR_vulkan_swapchain_format_list'',
     [(2, ''XR_TYPE_VULKAN_SWAPCHAIN_FORMAT_LIST_CREATE_INFO_KHR'', ''XrVulkanSwapchainFormatListCreateInfoKHR'')]),
    (''XR_META_body_tracking_full_body'',
     [(2, ''XR_TYPE_SYSTEM_PROPERTIES_BODY_TRACKING_FULL_BODY_META'', ''XrSystemPropertiesBodyTrackingFullBodyMETA'')]),
    (''XR_META_colocation_discovery'',
     [(2, ''XR_TYPE_COLOCATION_ADVERTISEMENT_START_INFO_META'', ''XrColocationAdvertisementStartInfoMETA''),
      (2, ''XR_TYPE_COLOCATION_ADVERTISEMENT_STOP_INFO_META'', ''XrColocationAdvertisementStopInfoMETA''),
      (2, ''XR_TYPE_COLOCATION_DISCOVERY_START_INFO_META'', ''XrColocationDiscoveryStartInfoMETA''),
      (2, ''XR_TYPE_COLOCATION_DISCOVERY_STOP_INFO_META'', ''XrColocationDiscoveryStopInfoMETA''),
      (2, ''XR_TYPE_EVENT_DATA_COLOCATION_ADVERTISEMENT_COMPLETE_META'', ''XrEventDataColocationAdvertisementCompleteMETA''),
      (2, ''XR_TYPE_EVENT_DATA_COLOCATION_DISCOVERY_COMPLETE_META'', ''XrEventDataColocationDiscoveryCompleteMETA''),
      (2, ''XR_TYPE_EVENT_DATA_COLOCATION_DISCOVERY_RESULT_META'', ''XrEventDataColocationDiscoveryResultMETA''),
      (2, ''XR_TYPE_EVENT_DATA_START_COLOCATION_ADVERTISEMENT_COMPLETE_META'', ''XrEventDataStartColocationAdvertisementCompleteMETA''),
      (2, ''XR_TYPE_EVENT_DATA_START_COLOCATION_DISCOVERY_COMPLETE_META'', ''XrEventDataStartColocationDiscoveryCompleteMETA''),
      (2, ''XR_TYPE_EVENT_DATA_STOP_COLOCATION_ADVERTISEMENT_COMPLETE_META'', ''XrEventDataStopColocationAdvertisementCompleteMETA''),
      (2, ''XR_TYPE_EVENT_DATA_STOP_COLOCATION_DISCOVERY_COMPLETE_META'', ''XrEventDataStopColocationDiscoveryCompleteMETA''),
      (2, ''XR_TYPE_SYSTEM_COLOCATION_DISCOVERY_PROPERTIES_META'', ''XrSystemColocationDiscoveryPropertiesMETA'')]),
    (''XR_META_environment_depth'',
     [(2, ''XR_TYPE_ENVIRONMENT_DEPTH_HAND_REMOVAL_SET_INFO_META'', ''XrEnvironmentDepthHandRemovalSetInfoMETA''),
      (2, ''XR_TYPE_ENVIRONMENT_DEPTH_IMAGE_ACQUIRE_INFO_META'', ''XrEnvironmentDepthImageAcquireInfoMETA''),
      (2, ''XR_TYPE_ENVIRONMENT_DEPTH_IMAGE_META'', ''XrEnvironmentDepthImageMETA''),
      (2, ''XR_TYPE_ENVIRONMENT_DEPTH_IMAGE_VIEW_META'', ''XrEnvironmentDepthImageViewMETA''),
      (2, ''XR_TYPE_ENVIRONMENT_DEPTH_PROVIDER_CREATE_INFO_META'', ''XrEnvironmentDepthProviderCreateInfoMETA''),
      (2, ''XR_TYPE_ENVIRONMENT_DEPTH_SWAPCHAIN_CREATE_INFO_META'', ''XrEnvironmentDepthSwapchainCreateInfoMETA''),
      (2, ''XR_TYPE_ENVIRONMENT_DEPTH_SWAPCHAIN_STATE_META'', ''XrEnvironmentDepthSwapchainStateMETA''),
      (2, ''XR_TYPE_SYSTEM_ENVIRONMENT_DEPTH_PROPERTIES_META'', ''XrSystemEnvironmentDepthPropertiesMETA'')]),
    (''XR_META_foveation_eye_tracked'',
     [(2, ''XR_TYPE_FOVEATION_EYE_TRACKED_PROFILE_CREATE_INFO_META'', ''XrFoveationEyeTrackedProfileCreateInfoMETA''),
      (2, ''XR_TYPE_FOVEATION_EYE_TRACKED_STATE_META'', ''XrFoveationEyeTrackedStateMETA''),
      (2, ''XR_TYPE_SYSTEM_FOVEATION_EYE_TRACKED_PROPERTIES_META'', ''XrSystemFoveationEyeTrackedPropertiesMETA'')]),
    (''XR_META_headset_id'',
     [(2, ''XR_TYPE_SYSTEM_HEADSET_ID_PROPERTIES_META'', ''XrSystemHeadsetIdPropertiesMETA'')]),
    (''XR_META_local_dimming'',
     [(2, ''XR_TYPE_LOCAL_DIMMING_FRAME_END_INFO_META'', ''XrLocalDimmingFrameEndInfoMETA'')]),
    (''XR_META_passthrough_color_lut'',
     [(2, ''XR_TYPE_PASSTHROUGH_COLOR_LUT_CREATE_INFO_META'', ''XrPassthroughColorLutCreateInfoMETA''),
      (2, ''XR_TYPE_PASSTHROUGH_COLOR_LUT_UPDATE_INFO_META'', ''XrPassthroughColorLutUpdateInfoMETA''),
      (2, ''XR_TYPE_PASSTHROUGH_COLOR_MAP_INTERPOLATED_LUT_META'', ''XrPassthroughColorMapInterpolatedLutMETA''),
      (2, ''XR_TYPE_PASSTHROUGH_COLOR_MAP_LUT_META'', ''XrPassthroughColorMapLutMETA''),
      (2, ''XR_TYPE_SYSTEM_PASSTHROUGH_COLOR_LUT_PROPERTIES_META'', ''XrSystemPassthroughColorLutPropertiesMETA'')]),
    (''XR_META_passthrough_layer_resumed_event'',
     [(2, ''XR_TYPE_EVENT_DATA_PASSTHROUGH_LAYER_RESUMED_META'', ''XrEventDataPassthroughLayerResumedMETA'')]),
    (''XR_META_passthrough_preferences'',
     [(2, ''XR_TYPE_PASSTHROUGH_PREFERENCES_META'', ''XrPassthroughPreferencesMETA'')]),
    (''XR_META_performance_metrics'',
     [(2, ''XR_TYPE_PERFORMANCE_METRICS_COUNTER_META'', ''XrPerformanceMetricsCounterMETA''),
      (2, ''XR_TYPE_PERFORMANCE_METRICS_STATE_META'', ''XrPerformanceMetricsStateMETA'')]),
    (''XR_META_recommended_layer_resolution'',
     [(2, ''XR_TYPE_RECOMMENDED_LAYER_RESOLUTION_GET_INFO_META'', ''XrRecommendedLayerResolutionGetInfoMETA''),
      (2, ''XR_TYPE_RECOMMENDED_LAYER_RESOLUTION_META'', ''XrRecommendedLayerResolutionMETA'')]),
    (''XR_META_simultaneous_hands_and_controllers'',
     [(2, ''XR_TYPE_SIMULTANEOUS_HANDS_AND_CONTROLLERS_TRACKING_PAUSE_INFO_META'', ''XrSimultaneousHandsAndControllersTrackingPauseInfoMETA''),
      (2, ''XR_TYPE_SIMULTANEOUS_HANDS_AND_CONTROLLERS_TRACKING_RESUME_INFO_META'', ''XrSimultaneousHandsAndControllersTrackingResumeInfoMETA''),
      (2, ''XR_TYPE_SYSTEM_SIMULTANEOUS_HANDS_AND_CONTROLLERS_PROPERTIES_META'', ''XrSystemSimultaneousHandsAndControllersPropertiesMETA'')]),
    (''XR_META_spatial_entity_group_sharing'',
     [(2, ''XR_TYPE_SHARE_SPACES_RECIPIENT_GROUPS_META'', ''XrShareSpacesRecipientGroupsMETA''),
      (2, ''XR_TYPE_SPACE_GROUP_UUID_FILTER_INFO_META'', ''XrSpaceGroupUuidFilterInfoMETA''),
      (2, ''XR_TYPE_SYSTEM_SPATIAL_ENTITY_GROUP_SHARING_PROPERTIES_META'', ''XrSystemSpatialEntityGroupSharingPropertiesMETA'')]),
    (''XR_META_spatial_entity_mesh'',
     [(2, ''XR_TYPE_SPACE_TRIANGLE_MESH_GET_INFO_META'', ''XrSpaceTriangleMeshGetInfoMETA''),
      (2, ''XR_TYPE_SPACE_TRIANGLE_MESH_META'', ''XrSpaceTriangleMeshMETA'')]),
    (''XR_META_spatial_entity_sharing'',
     [(2, ''XR_TYPE_EVENT_DATA_SHARE_SPACES_COMPLETE_META'', ''XrEventDataShareSpacesCompleteMETA''),
      (2, ''XR_TYPE_SHARE_SPACES_INFO_META'', ''XrShareSpacesInfoMETA''),
      (2, ''XR_TYPE_SYSTEM_SPATIAL_ENTITY_SHARING_PROPERTIES_META'', ''XrSystemSpatialEntitySharingPropertiesMETA'')]),
    (''XR_META_virtual_keyboard'',
     [(2, ''XR_TYPE_EVENT_DATA_VIRTUAL_KEYBOARD_BACKSPACE_META'', ''XrEventDataVirtualKeyboardBackspaceMETA''),
      (2, ''XR_TYPE_EVENT_DATA_VIRTUAL_KEYBOARD_COMMIT_TEXT_META'', ''XrEventDataVirtualKeyboardCommitTextMETA'')])]"

definition ext_size_rows_6 :: "(string \<times> (nat \<times> string \<times> string) list) list" where
  "ext_size_rows_6 =
   [(''XR_META_virtual_keyboard'',
     [(2, ''XR_TYPE_EVENT_DATA_VIRTUAL_KEYBOARD_ENTER_META'', ''XrEventDataVirtualKeyboardEnterMETA''),
      (2, ''XR_TYPE_EVENT_DATA_VIRTUAL_KEYBOARD_HIDDEN_META'', ''XrEventDataVirtualKeyboardHiddenMETA''),
      (2, ''XR_TYPE_EVENT_DATA_VIRTUAL_KEYBOARD_SHOWN_META'', ''XrEventDataVirtualKeyboardShownMETA''),
      (2, ''XR_TYPE_SYSTEM_VIRTUAL_KEYBOARD_PROPERTIES_META'', ''XrSystemVirtualKeyboardPropertiesMETA''),
      (2, ''XR_TYPE_VIRTUAL_KEYBOARD_ANIMATION_STATE_META'', ''XrVirtualKeyboardAnimationStateMETA''),
      (2, ''XR_TYPE_VIRTUAL_KEYBOARD_CREATE_INFO_META'', ''XrVirtualKeyboardCreateInfoMETA''),
      (2, ''XR_TYPE_VIRTUAL_KEYBOARD_INPUT_INFO_META'', ''XrVirtualKeyboardInputInfoMETA''),
      (2, ''XR_TYPE_VIRTUAL_KEYBOARD_LOCATION_INFO_META'', ''XrVirtualKeyboardLocationInfoMETA''),
      (2, ''XR_TYPE_VIRTUAL_KEYBOARD_MODEL_ANIMATION_STATES_META'', ''XrVirtualKeyboardModelAnimationStatesMETA''),
      (2, ''XR_TYPE_VIRTUAL_KEYBOARD_MODEL_VISIBILITY_SET_INFO_META'', ''XrVirtualKeyboardModelVisibilitySetInfoMETA''),
      (2, ''XR_TYPE_VIRTUAL_KEYBOARD_SPACE_CREATE_INFO_META'', ''XrVirtualKeyboardSpaceCreateInfoMETA''),
      (2, ''XR_TYPE_VIRTUAL_KEYBOARD_TEXT_CONTEXT_CHANGE_INFO_META'', ''XrVirtualKeyboardTextContextChangeInfoMETA''),
      (2, ''XR_TYPE_VIRTUAL_KEYBOARD_TEXTURE_DATA_META'', ''XrVirtualKeyboardTextureDataMETA'')]),
    (''XR_META_vulkan_swapchain_create_info'',
     [(2, ''XR_TYPE_VULKAN_SWAPCHAIN_CREATE_INFO_META'', ''XrVulkanSwapchainCreateInfoMETA'')]),
    (''XR_ML_compat'',
     [(1, ''XR_TYPE_COORDINATE_SPACE_CREATE_INFO_ML'', ''XrCoordinateSpaceCreateInfoML'')]),
    (''XR_ML_facial_expression'',
     [(2, ''XR_TYPE_FACIAL_EXPRESSION_BLEND_SHAPE_GET_INFO_ML'', ''XrFacialExpressionBlendShapeGetInfoML''),
      (2, ''XR_TYPE_FACIAL_EXPRESSION_BLEND_SHAPE_PROPERTIES_ML'', ''XrFacialExpressionBlendShapePropertiesML''),
      (2, ''XR_TYPE_FACIAL_EXPRESSION_CLIENT_CREATE_INFO_ML'', ''XrFacialExpressionClientCreateInfoML''),
      (2, ''XR_TYPE_SYSTEM_FACIAL_EXPRESSION_PROPERTIES_ML'', ''XrSystemFacialExpressionPropertiesML'')]),
    (''XR_ML_frame_end_info'',
     [(2, ''XR_TYPE_FRAME_END_INFO_ML'', ''XrFrameEndInfoML'')]),
    (''XR_ML_global_dimmer'',
     [(2, ''XR_TYPE_GLOBAL_DIMMER_FRAME_END_INFO_ML'', ''XrGlobalDimmerFrameEndInfoML'')]),
    (''XR_ML_localization_map'',
     [(2, ''XR_TYPE_EVENT_DATA_LOCALIZATION_CHANGED_ML'', ''XrEventDataLocalizationChangedML''),
      (2, ''XR_TYPE_LOCALIZATION_ENABLE_EVENTS_INFO_ML'', ''XrLocalizationEnableEventsInfoML''),
      (2, ''XR_TYPE_LOCALIZATION_MAP_IMPORT_INFO_ML'', ''XrLocalizationMapImportInfoML''),
      (2, ''XR_TYPE_LOCALIZATION_MAP_ML'', ''XrLocalizationMapML''),
      (2, ''XR_TYPE_MAP_LOCALIZATION_REQUEST_INFO_ML'', ''XrMapLocalizationRequestInfoML'')]),
    (''XR_ML_marker_understanding'',
     [(2, ''XR_TYPE_MARKER_DETECTOR_APRIL_TAG_INFO_ML'', ''XrMarkerDetectorAprilTagInfoML''),
      (2, ''XR_TYPE_MARKER_DETECTOR_ARUCO_INFO_ML'', ''XrMarkerDetectorArucoInfoML''),
      (2, ''XR_TYPE_MARKER_DETECTOR_CREATE_INFO_ML'', ''XrMarkerDetectorCreateInfoML''),
      (2, ''XR_TYPE_MARKER_DETECTOR_CUSTOM_PROFILE_INFO_ML'', ''XrMarkerDetectorCustomProfileInfoML''),
      (2, ''XR_TYPE_MARKER_DETECTOR_SIZE_INFO_ML'', ''XrMarkerDetectorSizeInfoML''),
      (2, ''XR_TYPE_MARKER_DETECTOR_SNAPSHOT_INFO_ML'', ''XrMarkerDetectorSnapshotInfoML''),
      (2, ''XR_TYPE_MARKER_DETECTOR_STATE_ML'', ''XrMarkerDetectorStateML''),
      (2, ''XR_TYPE_MARKER_SPACE_CREATE_INFO_ML'', ''XrMarkerSpaceCreateInfoML''),
      (2, ''XR_TYPE_SYSTEM_MARKER_UNDERSTANDING_PROPERTIES_ML'', ''XrSystemMarkerUnderstandingPropertiesML'')]),
    (''XR_ML_spatial_anchors'',
     [(2, ''XR_TYPE_CREATE_SPATIAL_ANCHORS_COMPLETION_ML'', ''XrCreateSpatialAnchorsCompletionML''),
      (2, ''XR_TYPE_SPATIAL_ANCHOR_STATE_ML'', ''XrSpatialAnchorStateML''),
      (2, ''XR_TYPE_SPATIAL_ANCHORS_CREATE_INFO_FROM_POSE_ML'', ''XrSpatialAnchorsCreateInfoFromPoseML'')]),
    (''XR_ML_spatial_anchors_storage'',
     [(2, ''XR_TYPE_SPATIAL_ANCHORS_CREATE_INFO_FROM_UUIDS_ML'', ''XrSpatialAnchorsCreateInfoFromUuidsML''),
      (2, ''XR_TYPE_SPATIAL_ANCHORS_CREATE_STORAGE_INFO_ML'', ''XrSpatialAnchorsCreateStorageInfoML''),
      (2, ''XR_TYPE_SPATIAL_ANCHORS_DELETE_COMPLETION_DETAILS_ML'', ''XrSpatialAnchorsDeleteCompletionDetailsML''),
      (2, ''XR_TYPE_SPATIAL_ANCHORS_DELETE_COMPLETION_ML'', ''XrSpatialAnchorsDeleteCompletionML''),
      (2, ''XR_TYPE_SPATIAL_ANCHORS_DELETE_INFO_ML'', ''XrSpatialAnchorsDeleteInfoML''),
      (2, ''XR_TYPE_SPATIAL_ANCHORS_PUBLISH_COMPLETION_DETAILS_ML'', ''XrSpatialAnchorsPublishCompletionDetailsML''),
      (2, ''XR_TYPE_SPATIAL_ANCHORS_PUBLISH_COMPLETION_ML'', ''XrSpatialAnchorsPublishCompletionML''),
      (2, ''XR_TYPE_SPATIAL_ANCHORS_PUBLISH_INFO_ML'', ''XrSpatialAnchorsPublishInfoML''),
      (2, ''XR_TYPE_SPATIAL_ANCHORS_QUERY_COMPLETION_ML'', ''XrSpatialAnchorsQueryCompletionML''),
      (2, ''XR_TYPE_SPATIAL_ANCHORS_QUERY_INFO_RADIUS_ML'', ''XrSpatialAnchorsQueryInfoRadiusML''),
      (2, ''XR_TYPE_SPATIAL_ANCHORS_UPDATE_EXPIRATION_COMPLETION_DETAILS_ML'', ''XrSpatialAnchorsUpdateExpirationCompletionDetailsML''),
      (2, ''XR_TYPE_SPATIAL_ANCHORS_UPDATE_EXPIRATION_COMPLETION_ML'', ''XrSpatialAnchorsUpdateExpirationCompletionML''),
      (2, ''XR_TYPE_SPATIAL_ANCHORS_UPDATE_EXPIRATION_INFO_ML'', ''XrSpatialAnchorsUpdateExpirationInfoML'')]),
    (''XR_ML_system_notifications'',
     [(2, ''XR_TYPE_SYSTEM_NOTIFICATIONS_SET_INFO_ML'', ''XrSystemNotificationsSetInfoML'')]),
    (''XR_ML_user_calibration'',
     [(2, ''XR_TYPE_EVENT_DATA_EYE_CALIBRATION_CHANGED_ML'', ''XrEventDataEyeCalibrationChangedML''),
      (2, ''XR_TYPE_EVENT_DATA_HEADSET_FIT_CHANGED_ML'', ''XrEventDataHeadsetFitChangedML''),
      (2, ''XR_TYPE_USER_CALIBRATION_ENABLE_EVENTS_INFO_ML'', ''XrUserCalibrationEnableEventsInfoML'')]),
    (''XR_ML_world_mesh_detection'',
     [(2, ''XR_TYPE_WORLD_MESH_BLOCK_ML'', ''XrWorldMeshBlockML''),
      (2, ''XR_TYPE_WORLD_MESH_BLOCK_REQUEST_ML'', ''XrWorldMeshBlockRequestML''),
      (2, ''XR_TYPE_WORLD_MESH_BLOCK_STATE_ML'', ''XrWorldMeshBlockStateML''),
      (2, ''XR_TYPE_WORLD_MESH_BUFFER_ML'', ''XrWorldMeshBufferML''),
      (2, ''XR_TYPE_WORLD_MESH_BUFFER_RECOMMENDED_SIZE_INFO_ML'', ''XrWorldMeshBufferRecommendedSizeInfoML''),
      (2, ''XR_TYPE_WORLD_MESH_BUFFER_SIZE_ML'', ''XrWorldMeshBufferSizeML''),
      (2, ''XR_TYPE_WORLD_MESH_DETECTOR_CREATE_INFO_ML'', ''XrWorldMeshDetectorCreateInfoML''),
      (2, ''XR_TYPE_WORLD_MESH_GET_INFO_ML'', ''XrWorldMeshGetInfoML'')])]"

definition ext_size_rows_7 :: "(string \<times> (nat \<times> string \<times> string) list) list" where
  "ext_size_rows_7 =
   [(''XR_ML_world_mesh_detection'',
     [(2, ''XR_TYPE_WORLD_MESH_REQUEST_COMPLETION_INFO_ML'', ''XrWorldMeshRequestCompletionInfoML''),
      (2, ''XR_TYPE_WORLD_MESH_REQUEST_COMPLETION_ML'', ''XrWorldMeshRequestCompletionML''),
      (2, ''XR_TYPE_WORLD_MESH_STATE_REQUEST_COMPLETION_ML'', ''XrWorldMeshStateRequestCompletionML''),
      (2, ''XR_TYPE_WORLD_MESH_STATE_REQUEST_INFO_ML'', ''XrWorldMeshStateRequestInfoML'')]),
    (''XR_MNDX_egl_enable'',
     [(2, ''XR_TYPE_GRAPHICS_BINDING_EGL_MNDX'', ''XrGraphicsBindingEGLMNDX'')]),
    (''XR_MNDX_force_feedback_curl'',
     [(2, ''XR_TYPE_FORCE_FEEDBACK_CURL_APPLY_LOCATIONS_MNDX'', ''XrForceFeedbackCurlApplyLocationsMNDX''),
      (2, ''XR_TYPE_SYSTEM_FORCE_FEEDBACK_CURL_PROPERTIES_MNDX'', ''XrSystemForceFeedbackCurlPropertiesMNDX'')]),
    (''XR_MSFT_composition_layer_reprojection'',
     [(2, ''XR_TYPE_COMPOSITION_LAYER_REPROJECTION_INFO_MSFT'', ''XrCompositionLayerReprojectionInfoMSFT''),
      (2, ''XR_TYPE_COMPOSITION_LAYER_REPROJECTION_PLANE_OVERRIDE_MSFT'', ''XrCompositionLayerReprojectionPlaneOverrideMSFT'')]),
    (''XR_MSFT_controller_model'',
     [(2, ''XR_TYPE_CONTROLLER_MODEL_KEY_STATE_MSFT'', ''XrControllerModelKeyStateMSFT''),
      (2, ''XR_TYPE_CONTROLLER_MODEL_NODE_PROPERTIES_MSFT'', ''XrControllerModelNodePropertiesMSFT''),
      (2, ''XR_TYPE_CONTROLLER_MODEL_NODE_STATE_MSFT'', ''XrControllerModelNodeStateMSFT''),
      (2, ''XR_TYPE_CONTROLLER_MODEL_PROPERTIES_MSFT'', ''XrControllerModelPropertiesMSFT''),
      (2, ''XR_TYPE_CONTROLLER_MODEL_STATE_MSFT'', ''XrControllerModelStateMSFT'')]),
    (''XR_MSFT_hand_tracking_mesh'',
     [(2, ''XR_TYPE_HAND_MESH_MSFT'', ''XrHandMeshMSFT''),
      (2, ''XR_TYPE_HAND_MESH_SPACE_CREATE_INFO_MSFT'', ''XrHandMeshSpaceCreateInfoMSFT''),
      (2, ''XR_TYPE_HAND_MESH_UPDATE_INFO_MSFT'', ''XrHandMeshUpdateInfoMSFT''),
      (2, ''XR_TYPE_HAND_POSE_TYPE_INFO_MSFT'', ''XrHandPoseTypeInfoMSFT''),
      (2, ''XR_TYPE_SYSTEM_HAND_TRACKING_MESH_PROPERTIES_MSFT'', ''XrSystemHandTrackingMeshPropertiesMSFT'')]),
    (''XR_MSFT_holographic_window_attachment'',
     [(2, ''XR_TYPE_HOLOGRAPHIC_WINDOW_ATTACHMENT_MSFT'', ''XrHolographicWindowAttachmentMSFT'')]),
    (''XR_MSFT_scene_marker'',
     [(2, ''XR_TYPE_SCENE_MARKER_QR_CODES_MSFT'', ''XrSceneMarkerQRCodesMSFT''),
      (2, ''XR_TYPE_SCENE_MARKER_TYPE_FILTER_MSFT'', ''XrSceneMarkerTypeFilterMSFT''),
      (2, ''XR_TYPE_SCENE_MARKERS_MSFT'', ''XrSceneMarkersMSFT'')]),
    (''XR_MSFT_scene_understanding'',
     [(2, ''XR_TYPE_NEW_SCENE_COMPUTE_INFO_MSFT'', ''XrNewSceneComputeInfoMSFT''),
      (2, ''XR_TYPE_SCENE_COMPONENT_LOCATIONS_MSFT'', ''XrSceneComponentLocationsMSFT''),
      (2, ''XR_TYPE_SCENE_COMPONENT_PARENT_FILTER_INFO_MSFT'', ''XrSceneComponentParentFilterInfoMSFT''),
      (2, ''XR_TYPE_SCENE_COMPONENTS_GET_INFO_MSFT'', ''XrSceneComponentsGetInfoMSFT''),
      (2, ''XR_TYPE_SCENE_COMPONENTS_LOCATE_INFO_MSFT'', ''XrSceneComponentsLocateInfoMSFT''),
      (2, ''XR_TYPE_SCENE_COMPONENTS_MSFT'', ''XrSceneComponentsMSFT''),
      (2, ''XR_TYPE_SCENE_CREATE_INFO_MSFT'', ''XrSceneCreateInfoMSFT''),
      (2, ''XR_TYPE_SCENE_MESH_BUFFERS_GET_INFO_MSFT'', ''XrSceneMeshBuffersGetInfoMSFT''),
      (2, ''XR_TYPE_SCENE_MESH_BUFFERS_MSFT'', ''XrSceneMeshBuffersMSFT''),
      (2, ''XR_TYPE_SCENE_MESH_INDICES_UINT16_MSFT'', ''XrSceneMeshIndicesUint16MSFT''),
      (2, ''XR_TYPE_SCENE_MESH_INDICES_UINT32_MSFT'', ''XrSceneMeshIndicesUint32MSFT''),
      (2, ''XR_TYPE_SCENE_MESH_VERTEX_BUFFER_MSFT'', ''XrSceneMeshVertexBufferMSFT''),
      (2, ''XR_TYPE_SCENE_MESHES_MSFT'', ''XrSceneMeshesMSFT''),
      (2, ''XR_TYPE_SCENE_OBJECT_TYPES_FILTER_INFO_MSFT'', ''XrSceneObjectTypesFilterInfoMSFT''),
      (2, ''XR_TYPE_SCENE_OBJECTS_MSFT'', ''XrSceneObjectsMSFT''),
      (2, ''XR_TYPE_SCENE_OBSERVER_CREATE_INFO_MSFT'', ''XrSceneObserverCreateInfoMSFT''),
      (2, ''XR_TYPE_SCENE_PLANE_ALIGNMENT_FILTER_INFO_MSFT'', ''XrScenePlaneAlignmentFilterInfoMSFT''),
      (2, ''XR_TYPE_SCENE_PLANES_MSFT'', ''XrScenePlanesMSFT''),
      (2, ''XR_TYPE_VISUAL_MESH_COMPUTE_LOD_INFO_MSFT'', ''XrVisualMeshComputeLodInfoMSFT'')]),
    (''XR_MSFT_scene_understanding_serialization'',
     [(2, ''XR_TYPE_SCENE_DESERIALIZE_INFO_MSFT'', ''XrSceneDeserializeInfoMSFT''),
      (2, ''XR_TYPE_SERIALIZED_SCENE_FRAGMENT_DATA_GET_INFO_MSFT'', ''XrSerializedSceneFragmentDataGetInfoMSFT'')]),
    (''XR_MSFT_secondary_view_configuration'',
     [(2, ''XR_TYPE_SECONDARY_VIEW_CONFIGURATION_FRAME_END_INFO_MSFT'', ''XrSecondaryViewConfigurationFrameEndInfoMSFT''),
      (2, ''XR_TYPE_SECONDARY_VIEW_CONFIGURATION_FRAME_STATE_MSFT'', ''XrSecondaryViewConfigurationFrameStateMSFT''),
      (2, ''XR_TYPE_SECONDARY_VIEW_CONFIGURATION_LAYER_INFO_MSFT'', ''XrSecondaryViewConfigurationLayerInfoMSFT''),
      (2, ''XR_TYPE_SECONDARY_VIEW_CONFIGURATION_SESSION_BEGIN_INFO_MSFT'', ''XrSecondaryViewConfigurationSessionBeginInfoMSFT''),
      (2, ''XR_TYPE_SECONDARY_VIEW_CONFIGURATION_STATE_MSFT'', ''XrSecondaryViewConfigurationStateMSFT''),
      (2, ''XR_TYPE_SECONDARY_VIEW_CONFIGURATION_SWAPCHAIN_CREATE_INFO_MSFT'', ''XrSecondaryViewConfigurationSwapchainCreateInfoMSFT'')]),
    (''XR_MSFT_spatial_anchor'',
     [(1, ''XR_TYPE_SPATIAL_ANCHOR_CREATE_INFO_MSFT'', ''XrSpatialAnchorCreateInfoMSFT''),
      (1, ''XR_TYPE_SPATIAL_ANCHOR_SPACE_CREATE_INFO_MSFT'', ''XrSpatialAnchorSpaceCreateInfoMSFT'')]),
    (''XR_MSFT_spatial_anchor_persistence'',
     [(2, ''XR_TYPE_SPATIAL_ANCHOR_FROM_PERSISTED_ANCHOR_CREATE_INFO_MSFT'', ''XrSpatialAnchorFromPersistedAnchorCreateInfoMSFT''),
      (2, ''XR_TYPE_SPATIAL_ANCHOR_PERSISTENCE_INFO_MSFT'', ''XrSpatialAnchorPersistenceInfoMSFT'')]),
    (''XR_MSFT_spatial_graph_bridge'',
     [(2, ''XR_TYPE_SPATIAL_GRAPH_NODE_BINDING_PROPERTIES_GET_INFO_MSFT'', ''XrSpatialGraphNodeBindingPropertiesGetInfoMSFT''),
      (2, ''XR_TYPE_SPATIAL_GRAPH_NODE_BINDING_PROPERTIES_MSFT'', ''XrSpatialGraphNodeBindingPropertiesMSFT''),
      (2, ''XR_TYPE_SPATIAL_GRAPH_NODE_SPACE_CREATE_INFO_MSFT'', ''XrSpatialGraphNodeSpaceCreateInfoMSFT''),
      (2, ''XR_TYPE_SPATIAL_GRAPH_STATIC_NODE_BINDING_CREATE_INFO_MSFT'', ''XrSpatialGraphStaticNodeBindingCreateInfoMSFT'')]),
    (''XR_OCULUS_external_camera'',
     [(2, ''XR_TYPE_EXTERNAL_CAMERA_OCULUS'', ''XrExternalCameraOCULUS'')]),
    (''XR_VALVE_analog_threshold'',
     [(2, ''XR_TYPE_INTERACTION_PROFILE_ANALOG_THRESHOLD_VALVE'', ''XrInteractionProfileAnalogThresholdVALVE'')])]"

definition ext_size_rows_8 :: "(string \<times> (nat \<times> string \<times> string) list) list" where
  "ext_size_rows_8 =
   [(''XR_VARJO_composition_layer_depth_test'',
     [(2, ''XR_TYPE_COMPOSITION_LAYER_DEPTH_TEST_VARJO'', ''XrCompositionLayerDepthTestVARJO'')]),
    (''XR_VARJO_foveated_rendering'',
     [(2, ''XR_TYPE_FOVEATED_VIEW_CONFIGURATION_VIEW_VARJO'', ''XrFoveatedViewConfigurationViewVARJO''),
      (2, ''XR_TYPE_SYSTEM_FOVEATED_RENDERING_PROPERTIES_VARJO'', ''XrSystemFoveatedRenderingPropertiesVARJO''),
      (2, ''XR_TYPE_VIEW_LOCATE_FOVEATED_RENDERING_VARJO'', ''XrViewLocateFoveatedRenderingVARJO'')]),
    (''XR_VARJO_marker_tracking'',
     [(2, ''XR_TYPE_EVENT_DATA_MARKER_TRACKING_UPDATE_VARJO'', ''XrEventDataMarkerTrackingUpdateVARJO''),
      (2, ''XR_TYPE_MARKER_SPACE_CREATE_INFO_VARJO'', ''XrMarkerSpaceCreateInfoVARJO''),
      (2, ''XR_TYPE_SYSTEM_MARKER_TRACKING_PROPERTIES_VARJO'', ''XrSystemMarkerTrackingPropertiesVARJO'')])]"

definition ext_size_rows :: "(string \<times> (nat \<times> string \<times> string) list) list" where
  "ext_size_rows =
     ext_size_rows_1 @ ext_size_rows_2 @ ext_size_rows_3 @ ext_size_rows_4 @ ext_size_rows_5 @
     ext_size_rows_6 @ ext_size_rows_7 @ ext_size_rows_8"

definition core_size_table :: "(string \<times> string) list" where
  "core_size_table =
   [(''XR_TYPE_ACTION_CREATE_INFO'', ''XrActionCreateInfo''),
    (''XR_TYPE_ACTION_SET_CREATE_INFO'', ''XrActionSetCreateInfo''),
    (''XR_TYPE_ACTION_SPACE_CREATE_INFO'', ''XrActionSpaceCreateInfo''),
    (''XR_TYPE_ACTION_STATE_BOOLEAN'', ''XrActionStateBoolean''),
    (''XR_TYPE_ACTION_STATE_FLOAT'', ''XrActionStateFloat''),
    (''XR_TYPE_ACTION_STATE_GET_INFO'', ''XrActionStateGetInfo''),
    (''XR_TYPE_ACTION_STATE_POSE'', ''XrActionStatePose''),
    (''XR_TYPE_ACTION_STATE_VECTOR2F'', ''XrActionStateVector2f''),
    (''XR_TYPE_ACTIONS_SYNC_INFO'', ''XrActionsSyncInfo''),
    (''XR_TYPE_API_LAYER_PROPERTIES'', ''XrApiLayerProperties''),
    (''XR_TYPE_BOUND_SOURCES_FOR_ACTION_ENUMERATE_INFO'', ''XrBoundSourcesForActionEnumerateInfo''),
    (''XR_TYPE_COMPOSITION_LAYER_PROJECTION'', ''XrCompositionLayerProjection''),
    (''XR_TYPE_COMPOSITION_LAYER_PROJECTION_VIEW'', ''XrCompositionLayerProjectionView''),
    (''XR_TYPE_COMPOSITION_LAYER_QUAD'', ''XrCompositionLayerQuad''),
    (''XR_TYPE_EVENT_DATA_BUFFER'', ''XrEventDataBuffer''),
    (''XR_TYPE_EVENT_DATA_EVENTS_LOST'', ''XrEventDataEventsLost''),
    (''XR_TYPE_EVENT_DATA_INSTANCE_LOSS_PENDING'', ''XrEventDataInstanceLossPending''),
    (''XR_TYPE_EVENT_DATA_INTERACTION_PROFILE_CHANGED'', ''XrEventDataInteractionProfileChanged''),
    (''XR_TYPE_EVENT_DATA_REFERENCE_SPACE_CHANGE_PENDING'', ''XrEventDataReferenceSpaceChangePending''),
    (''XR_TYPE_EVENT_DATA_SESSION_STATE_CHANGED'', ''XrEventDataSessionStateChanged''),
    (''XR_TYPE_EXTENSION_PROPERTIES'', ''XrExtensionProperties''),
    (''XR_TYPE_FRAME_BEGIN_INFO'', ''XrFrameBeginInfo''),
    (''XR_TYPE_FRAME_END_INFO'', ''XrFrameEndInfo''),
    (''XR_TYPE_FRAME_STATE'', ''XrFrameState''),
    (''XR_TYPE_FRAME_WAIT_INFO'', ''XrFrameWaitInfo''),
    (''XR_TYPE_HAPTIC_ACTION_INFO'', ''XrHapticActionInfo''),
    (''XR_TYPE_HAPTIC_VIBRATION'', ''XrHapticVibration''),
    (''XR_TYPE_INPUT_SOURCE_LOCALIZED_NAME_GET_INFO'', ''XrInputSourceLocalizedNameGetInfo''),
    (''XR_TYPE_INSTANCE_CREATE_INFO'', ''XrInstanceCreateInfo''),
    (''XR_TYPE_INSTANCE_PROPERTIES'', ''XrInstanceProperties''),
    (''XR_TYPE_INTERACTION_PROFILE_STATE'', ''XrInteractionProfileState''),
    (''XR_TYPE_INTERACTION_PROFILE_SUGGESTED_BINDING'', ''XrInteractionProfileSuggestedBinding''),
    (''XR_TYPE_REFERENCE_SPACE_CREATE_INFO'', ''XrReferenceSpaceCreateInfo''),
    (''XR_TYPE_SESSION_ACTION_SETS_ATTACH_INFO'', ''XrSessionActionSetsAttachInfo''),
    (''XR_TYPE_SESSION_BEGIN_INFO'', ''XrSessionBeginInfo''),
    (''XR_TYPE_SESSION_CREATE_INFO'', ''XrSessionCreateInfo''),
    (''XR_TYPE_SPACE_LOCATION'', ''XrSpaceLocation''),
    (''XR_TYPE_SPACE_LOCATIONS'', ''XrSpaceLocations''),
    (''XR_TYPE_SPACE_VELOCITIES'', ''XrSpaceVelocities''),
    (''XR_TYPE_SPACE_VELOCITY'', ''XrSpaceVelocity''),
    (''XR_TYPE_SPACES_LOCATE_INFO'', ''XrSpacesLocateInfo''),
    (''XR_TYPE_SWAPCHAIN_CREATE_INFO'', ''XrSwapchainCreateInfo''),
    (''XR_TYPE_SWAPCHAIN_IMAGE_ACQUIRE_INFO'', ''XrSwapchainImageAcquireInfo''),
    (''XR_TYPE_SWAPCHAIN_IMAGE_RELEASE_INFO'', ''XrSwapchainImageReleaseInfo''),
    (''XR_TYPE_SWAPCHAIN_IMAGE_WAIT_INFO'', ''XrSwapchainImageWaitInfo''),
    (''XR_TYPE_SYSTEM_GET_INFO'', ''XrSystemGetInfo''),
    (''XR_TYPE_SYSTEM_PROPERTIES'', ''XrSystemProperties''),
    (''XR_TYPE_VIEW'', ''XrView''),
    (''XR_TYPE_VIEW_CONFIGURATION_PROPERTIES'', ''XrViewConfigurationProperties''),
    (''XR_TYPE_VIEW_CONFIGURATION_VIEW'', ''XrViewConfigurationView''),
    (''XR_TYPE_VIEW_LOCATE_INFO'', ''XrViewLocateInfo''),
    (''XR_TYPE_VIEW_STATE'', ''XrViewState'')]"

lemmas ext_size_rows_defs =
  ext_size_rows_def ext_size_rows_1_def ext_size_rows_2_def ext_size_rows_3_def ext_size_rows_4_def
  ext_size_rows_5_def ext_size_rows_6_def ext_size_rows_7_def ext_size_rows_8_def


end
