(* ===== verification/Builds.thy ===== *)
theory Builds
  imports Core_Structs Cleaners_Laws Ext_Serializers Ext_Deserializers Ext_Cleaners Ext_Tables
begin

text \<open>
  Builds: the struct functions and lookup tables that are compiled for a set of enabled
  extensions. The generated files are compared row by row; together with core OpenXR they give a
  codec for every build, for which the laws of serialization and of cleaning hold.
\<close>

section \<open>What a build compiles\<close>

definition enabled :: "string list \<Rightarrow> (string \<times> 'r list) list \<Rightarrow> 'r list" where
  "enabled exts ext_blocks = concat (map (\<lambda>(e, rows). if e \<in> set exts then rows else []) ext_blocks)"

lemma enabled_append: "enabled exts (xs @ ys) = enabled exts xs @ enabled exts ys"
  by (simp add: enabled_def)

lemma enabled_none [simp]: "enabled [] ext_blocks = []"
  by (induction ext_blocks) (auto simp: enabled_def)

lemma enabled_map: "enabled exts (map (\<lambda>(e, rows). (e, map f rows)) ext_blocks) = map f (enabled exts ext_blocks)"
  by (induction ext_blocks) (auto simp: enabled_def)

text \<open>The rows without the number of repetitions.\<close>

definition enabled_pairs :: "string list \<Rightarrow> (string \<times> (nat \<times> string \<times> 'r) list) list \<Rightarrow> (string \<times> 'r) list" where
  "enabled_pairs exts ext_blocks = map snd (enabled exts ext_blocks)"

definition build_serializers :: "string list \<Rightarrow> (string \<times> sop list) list" where
  "build_serializers exts = enabled_pairs exts ext_serializers @ core_serializers"

definition build_deserializers :: "string list \<Rightarrow> (string \<times> dop list) list" where
  "build_deserializers exts = enabled_pairs exts ext_deserializers @ core_deserializers"

definition build_cleaner_programs :: "string list \<Rightarrow> (string \<times> cop list) list" where
  "build_cleaner_programs exts = enabled_pairs exts ext_cleaners @ core_cleaners"

definition serializer_lookup :: "openxr \<Rightarrow> string list \<Rightarrow> u32 \<Rightarrow> string option" where
  "serializer_lookup X exts = table_lookup X (enabled_pairs exts ext_serializer_rows @ core_serializer_table)"

definition deserializer_lookup :: "openxr \<Rightarrow> string list \<Rightarrow> u32 \<Rightarrow> string option" where
  "deserializer_lookup X exts = table_lookup X (enabled_pairs exts ext_deserializer_rows @ core_deserializer_table)"

definition cleaner_lookup :: "openxr \<Rightarrow> string list \<Rightarrow> u32 \<Rightarrow> string option" where
  "cleaner_lookup X exts = table_lookup X (enabled_pairs exts ext_cleaner_rows @ core_cleaner_table)"

text \<open>\<open>size_lookup\<close> is the size of a struct, here the struct itself, or 0.\<close>

definition size_lookup :: "openxr \<Rightarrow> string list \<Rightarrow> u32 \<Rightarrow> string option" where
  "size_lookup X exts = table_lookup X (enabled_pairs exts ext_size_rows @ core_size_table)"

definition build_codec :: "openxr \<Rightarrow> string list \<Rightarrow> codec" where
  "build_codec X exts =
     \<lparr>field_type = xr_field_type X, field_const = xr_field_const X, xr_constant = xr_macro X,
      ser_program = map_of (build_serializers exts), des_program = map_of (build_deserializers exts),
      ser_lookup = serializer_lookup X exts, des_lookup = deserializer_lookup X exts\<rparr>"

definition build_cleaners :: "openxr \<Rightarrow> string list \<Rightarrow> cleaners" where
  "build_cleaners X exts =
     \<lparr>clean_program = map_of (build_cleaner_programs exts), clean_lookup = cleaner_lookup X exts\<rparr>"

text \<open>Without extensions it is core OpenXR.\<close>

lemma core_build [simp]:
  "build_serializers [] = core_serializers" "build_deserializers [] = core_deserializers"
  "build_cleaner_programs [] = core_cleaners"
  by (simp_all add: build_serializers_def build_deserializers_def build_cleaner_programs_def enabled_pairs_def)

lemma core_lookups:
  "serializer_lookup X [] = table_lookup X core_serializer_table"
  "deserializer_lookup X [] = table_lookup X core_deserializer_table"
  "cleaner_lookup X [] = table_lookup X core_cleaner_table"
  by (simp_all add: serializer_lookup_def deserializer_lookup_def cleaner_lookup_def enabled_pairs_def)

section \<open>The generated files agree row by row\<close>

lemma ext_deserializers_match:
  "map (\<lambda>(e, rows). (e, map (\<lambda>(n, s, ops). (n, s, map dop_of ops)) rows)) ext_serializers = ext_deserializers"
  unfolding ext_serializers_def ext_deserializers_def
  by (simp add: ext_serializers_defs ext_deserializers_defs)

lemma ext_cleaners_match:
  "map (\<lambda>(e, rows). (e, map (\<lambda>(n, s, ops). (n, s, map cop_of ops)) rows)) ext_serializers = ext_cleaners"
  unfolding ext_serializers_def ext_cleaners_def
  by (simp add: ext_serializers_defs ext_cleaners_defs)

lemma ext_rows_match:
  "ext_deserializer_rows = ext_serializer_rows" "ext_cleaner_rows = ext_serializer_rows"
  "ext_size_rows = ext_serializer_rows"
  unfolding ext_serializer_rows_defs ext_deserializer_rows_defs ext_cleaner_rows_defs ext_size_rows_defs
  by (rule refl)+

lemma core_rows_match: "core_cleaner_table = core_serializer_table" "core_size_table = core_serializer_table"
  unfolding core_cleaner_table_def core_size_table_def core_serializer_table_def by (rule refl)+

lemma enabled_pairs_map:
  "enabled_pairs exts (map (\<lambda>(e, rows). (e, map (\<lambda>(n, s, ops). (n, s, f ops)) rows)) ext_blocks)
   = map (\<lambda>(s, ops). (s, f ops)) (enabled_pairs exts ext_blocks)"
  unfolding enabled_pairs_def enabled_map by (simp add: case_prod_unfold)

lemma lookups_match:
  "deserializer_lookup X exts = serializer_lookup X exts" "cleaner_lookup X exts = serializer_lookup X exts"
  "size_lookup X exts = serializer_lookup X exts"
  by (simp_all add: deserializer_lookup_def serializer_lookup_def cleaner_lookup_def size_lookup_def
      ext_rows_match core_rows_match core_tables_agree)

lemma build_deserializers_match:
  "build_deserializers exts = map (\<lambda>(s, ops). (s, map dop_of ops)) (build_serializers exts)"
  unfolding build_deserializers_def build_serializers_def ext_deserializers_match [symmetric]
    core_programs_match [symmetric] enabled_pairs_map by simp

text \<open>The members that the two custom cleaners pass over.\<close>

definition skipped_members :: "string \<Rightarrow> string list" where
  "skipped_members s =
     (if s = ''XrInstanceCreateInfo''
      then [''type'', ''createFlags'', ''applicationInfo'', ''enabledApiLayerCount'', ''enabledExtensionCount'']
      else if s = ''XrFrameEndInfo'' then [''type'', ''environmentBlendMode'', ''layerCount'']
      else [])"

definition custom_structs :: "string list" where
  "custom_structs = [''XrInstanceCreateInfo'', ''XrFrameEndInfo'']"

lemma core_cleaners_match:
  "map (\<lambda>(s, ops). (s, map cop_of ops)) (filter (\<lambda>(s, ops). s \<notin> set custom_structs) core_serializers)
   = filter (\<lambda>(s, ops). s \<notin> set custom_structs) core_cleaners"
  by (simp add: core_serializers_def core_serializers_1_def core_serializers_2_def core_serializers_3_def
      core_serializers_4_def core_serializers_5_def core_cleaners_defs custom_structs_def)

lemma custom_cleaners_cover:
  "covers (\<lambda>f. f \<in> set (skipped_members ''XrInstanceCreateInfo'')) serialize_XrInstanceCreateInfo cleanup_XrInstanceCreateInfo"
  "covers (\<lambda>f. f \<in> set (skipped_members ''XrFrameEndInfo'')) serialize_XrFrameEndInfo cleanup_XrFrameEndInfo"
  by (simp_all add: skipped_members_def serialize_XrInstanceCreateInfo_def cleanup_XrInstanceCreateInfo_def
      serialize_XrFrameEndInfo_def cleanup_XrFrameEndInfo_def)

section \<open>Every program is well formed\<close>

definition row_ok :: "sop list \<Rightarrow> bool" where
  "row_ok ops \<longleftrightarrow> program_ok [] [] ops \<and>
     list_all (\<lambda>op. case count_member op of Some g \<Rightarrow> Ser g \<in> set ops | None \<Rightarrow> True) ops \<and>
     list_all (\<lambda>op. sop_field op = ''type'' \<longrightarrow> op = Ser ''type'') ops \<and>
     list_all (\<lambda>op. sop_field op = ''next'' \<longrightarrow> op = Ser_xr ''next'') ops"

lemma row_okD:
  assumes "row_ok ops"
  shows "program_ok [] [] ops" "counts_ok ops" "op \<in> set ops \<Longrightarrow> sop_field op = ''type'' \<Longrightarrow> op = Ser ''type''"
    "op \<in> set ops \<Longrightarrow> sop_field op = ''next'' \<Longrightarrow> op = Ser_xr ''next''"
  using assms by (auto simp: row_ok_def counts_ok_def list_all_iff)

lemma ext_rows_ok: "list_all (\<lambda>(e, rows). list_all (\<lambda>(n, s, ops). row_ok ops) rows) ext_serializers"
  unfolding ext_serializers_def
  by (simp add: ext_serializers_defs row_ok_def count_member_def)

lemma core_rows_ok: "list_all (\<lambda>(s, ops). row_ok ops) core_serializers"
  by (simp add: core_serializers_def core_serializers_1_def core_serializers_2_def core_serializers_3_def
      core_serializers_4_def core_serializers_5_def serialize_XrInstanceCreateInfo_def
      serialize_XrFrameEndInfo_def row_ok_def count_member_def)

lemma build_rows_ok: "map_of (build_serializers exts) s = Some ops \<Longrightarrow> row_ok ops"
proof -
  assume "map_of (build_serializers exts) s = Some ops"
  then have "(s, ops) \<in> set (build_serializers exts)" by (rule map_of_SomeD)
  then show "row_ok ops"
    using ext_rows_ok core_rows_ok
    by (fastforce simp: build_serializers_def enabled_pairs_def enabled_def list_all_iff split: if_splits)
qed

lemma map_of_values: "map_of (map (\<lambda>(s, ops). (s, f ops)) xs) s = map_option f (map_of xs s)"
  by (simp add: map_of_map)

lemma map_of_filter_keys: "P s \<Longrightarrow> map_of (filter (\<lambda>(s, ops). P s) xs) s = map_of xs s"
  by (induction xs) auto

lemma core_cleaner_program:
  assumes "map_of core_serializers s = Some ops"
  shows "\<exists>cops. map_of core_cleaners s = Some cops \<and> covers (\<lambda>f. f \<in> set (skipped_members s)) ops cops"
proof (cases "s \<in> set custom_structs")
  case True
  then show ?thesis using assms custom_cleaners_cover
    by (auto simp: custom_structs_def core_serializers_def core_cleaners_def)
next
  case False
  have "map_of core_cleaners s = map_option (map cop_of) (map_of core_serializers s)"
    using map_of_values [of "map cop_of" "filter (\<lambda>(s, ops). s \<notin> set custom_structs) core_serializers" s]
      map_of_filter_keys [of "\<lambda>s. s \<notin> set custom_structs" s core_serializers]
      map_of_filter_keys [of "\<lambda>s. s \<notin> set custom_structs" s core_cleaners] False
    by (simp add: core_cleaners_match)
  then show ?thesis using assms covers_same by auto
qed

lemma build_cleaner_program:
  assumes "map_of (build_serializers exts) s = Some ops"
  shows "\<exists>cops. map_of (build_cleaner_programs exts) s = Some cops \<and>
    covers (\<lambda>f. f \<in> set (skipped_members s)) ops cops"
proof -
  have ext: "map_of (enabled_pairs exts ext_cleaners) s
      = map_option (map cop_of) (map_of (enabled_pairs exts ext_serializers) s)"
    unfolding ext_cleaners_match [symmetric] enabled_pairs_map by (rule map_of_values)
  show ?thesis
  proof (cases "map_of (enabled_pairs exts ext_serializers) s")
    case None
    then have "map_of core_serializers s = Some ops" using assms
      by (auto simp: build_serializers_def map_add_Some_iff)
    then show ?thesis using core_cleaner_program None ext
      by (fastforce simp: build_cleaner_programs_def map_add_Some_iff)
  next
    case (Some ops')
    then have "ops' = ops" using assms by (auto simp: build_serializers_def map_add_Some_iff)
    then show ?thesis using Some ext covers_same by (fastforce simp: build_cleaner_programs_def map_add_Some_iff)
  qed
qed

interpretation build: cleaning_codec "build_codec X exts" "build_cleaners X exts" skipped_members for X exts
proof
  fix s ops
  assume "ser_program (build_codec X exts) s = Some ops"
  then have ops: "map_of (build_serializers exts) s = Some ops" by (simp add: build_codec_def)
  then show "des_program (build_codec X exts) s = Some (map dop_of ops) \<and> program_ok [] [] ops"
    using row_okD(1) [OF build_rows_ok [OF ops]]
    by (simp add: build_codec_def build_deserializers_match map_of_values)
  show "counts_ok ops \<and> (\<exists>cops. clean_program (build_cleaners X exts) s = Some cops \<and>
      covers (\<lambda>f. f \<in> set (skipped_members s)) ops cops)"
    using row_okD(2) [OF build_rows_ok [OF ops]] build_cleaner_program [OF ops] by (simp add: build_cleaners_def)
  show "op = Ser ''type''" if "op \<in> set ops" "sop_field op = ''type''" for op
    using row_okD(3) [OF build_rows_ok [OF ops]] that by blast
qed (simp_all add: build_codec_def build_cleaners_def lookups_match)

text \<open>The \<open>next\<close> member of a struct is its chain.\<close>

lemma build_next:
  fixes X exts c off s all fs
  defines "E \<equiv> build_codec X exts"
  assumes "ser_program E s = Some ops" "run_sops (\<lambda>op v. ser_op E c (ser E c) s all op v) ops fs = Wrote b"
  shows "(find_field fs ''next'' = None \<and>
      find_field (run_arr (\<lambda>op v. arr_op E c off (arr E c off) s all op v) ops fs) ''next'' = None) \<or>
    (\<exists>nxt b. find_field fs ''next'' = Some nxt \<and> ser E c K_xr nxt = Wrote b \<and>
      find_field (run_arr (\<lambda>op v. arr_op E c off (arr E c off) s all op v) ops fs) ''next'' = Some (arr E c off K_xr nxt))"
proof (cases "''next'' \<in> set (map sop_field ops)")
  case False
  have names: "map fld_name fs = map sop_field ops" by (rule run_sops_names [OF assms(3)])
  show ?thesis
    using find_field_fresh [of "''next''" fs] names run_arr_names [OF names] False
      find_field_fresh [of "''next''" "run_arr (\<lambda>op v. arr_op E c off (arr E c off) s all op v) ops fs"]
    by (metis list.set_map)
next
  case True
  have names: "map fld_name fs = map sop_field ops" by (rule run_sops_names [OF assms(3)])
  have "row_ok ops" using assms(2) build_rows_ok by (simp add: E_def build_codec_def)
  moreover obtain op where "op \<in> set ops" "sop_field op = ''next''" using True by auto
  ultimately have op: "Ser_xr ''next'' \<in> set ops" and ok: "program_ok [] [] ops"
    using row_okD by metis+
  have d: "distinct (map sop_field ops)" using program_ok_distinct [OF ok] by blast
  show ?thesis
    using run_sops_op [OF assms(3) op d] run_arr_find [OF names d op] by fastforce
qed

end
