(* ===== verification/Ext_Stubs.thy ===== *)
theory Ext_Stubs
  imports Rpc_Frame
begin

text \<open>
  The client stubs of the extensions, the blocks of \<open>src/client/rpc.cpp\<close> that are compiled when
  \<open>XRTRANSPORT_EXT_<name>\<close> is defined. Twenty functions are left out: seventeen whose stubs also
  write members of a struct parameter back, and three that hold an \<open>#error\<close> line.
\<close>

definition ext_stubs_1 :: "(string \<times> (string \<times> rpc_stub) list) list" where
  "ext_stubs_1 =
   [(''XR_ALMALENCE_digital_lens_control'',
     [(''xrSetDigitalLensControlALMALENCE'',
       \<lparr>stub_id = 197001,
        stub_request = [Ser ''session'', Ser_ptr ''digitalLensControl'' C_one],
        stub_reply = []\<rparr>)]),
    (''XR_BD_body_tracking'',
     [(''xrCreateBodyTrackerBD'',
       \<lparr>stub_id = 386001,
        stub_request = [Ser ''session'', Ser_ptr ''createInfo'' C_one, Ser_ptr ''bodyTracker'' C_one],
        stub_reply = [De_ptr ''bodyTracker'']\<rparr>),
      (''xrDestroyBodyTrackerBD'',
       \<lparr>stub_id = 386002,
        stub_request = [Ser ''bodyTracker''],
        stub_reply = []\<rparr>),
      (''xrLocateBodyJointsBD'',
       \<lparr>stub_id = 386003,
        stub_request = [Ser ''bodyTracker'', Ser_ptr ''locateInfo'' C_one, Ser_ptr ''locations'' C_one],
        stub_reply = [De_ptr ''locations'']\<rparr>)])]"

definition ext_stubs_2 :: "(string \<times> (string \<times> rpc_stub) list) list" where
  "ext_stubs_2 =
   [(''XR_BD_spatial_anchor'',
     [(''xrCreateSpatialAnchorAsyncBD'',
       \<lparr>stub_id = 391001,
        stub_request = [Ser ''provider'', Ser_ptr ''info'' C_one, Ser_ptr ''future'' C_one],
        stub_reply = [De_ptr ''future'']\<rparr>),
      (''xrCreateSpatialAnchorCompleteBD'',
       \<lparr>stub_id = 391002,
        stub_request = [Ser ''provider'', Ser ''future'', Ser_ptr ''completion'' C_one],
        stub_reply = [De_ptr ''completion'']\<rparr>),
      (''xrPersistSpatialAnchorAsyncBD'',
       \<lparr>stub_id = 391003,
        stub_request = [Ser ''provider'', Ser_ptr ''info'' C_one, Ser_ptr ''future'' C_one],
        stub_reply = [De_ptr ''future'']\<rparr>),
      (''xrPersistSpatialAnchorCompleteBD'',
       \<lparr>stub_id = 391004,
        stub_request = [Ser ''provider'', Ser ''future'', Ser_ptr ''completion'' C_one],
        stub_reply = [De_ptr ''completion'']\<rparr>)])]"

definition ext_stubs_3 :: "(string \<times> (string \<times> rpc_stub) list) list" where
  "ext_stubs_3 =
   [(''XR_BD_spatial_anchor'',
     [(''xrUnpersistSpatialAnchorAsyncBD'',
       \<lparr>stub_id = 391005,
        stub_request = [Ser ''provider'', Ser_ptr ''info'' C_one, Ser_ptr ''future'' C_one],
        stub_reply = [De_ptr ''future'']\<rparr>),
      (''xrUnpersistSpatialAnchorCompleteBD'',
       \<lparr>stub_id = 391006,
        stub_request = [Ser ''provider'', Ser ''future'', Ser_ptr ''completion'' C_one],
        stub_reply = [De_ptr ''completion'']\<rparr>)]),
    (''XR_BD_spatial_anchor_sharing'',
     [(''xrDownloadSharedSpatialAnchorAsyncBD'',
       \<lparr>stub_id = 392001,
        stub_request = [Ser ''provider'', Ser_ptr ''info'' C_one, Ser_ptr ''future'' C_one],
        stub_reply = [De_ptr ''future'']\<rparr>),
      (''xrDownloadSharedSpatialAnchorCompleteBD'',
       \<lparr>stub_id = 392002,
        stub_request = [Ser ''provider'', Ser ''future'', Ser_ptr ''completion'' C_one],
        stub_reply = [De_ptr ''completion'']\<rparr>)])]"

definition ext_stubs_4 :: "(string \<times> (string \<times> rpc_stub) list) list" where
  "ext_stubs_4 =
   [(''XR_BD_spatial_anchor_sharing'',
     [(''xrShareSpatialAnchorAsyncBD'',
       \<lparr>stub_id = 392003,
        stub_request = [Ser ''provider'', Ser_ptr ''info'' C_one, Ser_ptr ''future'' C_one],
        stub_reply = [De_ptr ''future'']\<rparr>),
      (''xrShareSpatialAnchorCompleteBD'',
       \<lparr>stub_id = 392004,
        stub_request = [Ser ''provider'', Ser ''future'', Ser_ptr ''completion'' C_one],
        stub_reply = [De_ptr ''completion'']\<rparr>)]),
    (''XR_BD_spatial_scene'',
     [(''xrCaptureSceneAsyncBD'',
       \<lparr>stub_id = 393001,
        stub_request = [Ser ''provider'', Ser_ptr ''info'' C_one, Ser_ptr ''future'' C_one],
        stub_reply = [De_ptr ''future'']\<rparr>),
      (''xrCaptureSceneCompleteBD'',
       \<lparr>stub_id = 393002,
        stub_request = [Ser ''provider'', Ser ''future'', Ser_ptr ''completion'' C_one],
        stub_reply = [De_ptr ''completion'']\<rparr>)])]"

definition ext_stubs_5 :: "(string \<times> (string \<times> rpc_stub) list) list" where
  "ext_stubs_5 =
   [(''XR_BD_spatial_sensing'',
     [(''xrCreateAnchorSpaceBD'',
       \<lparr>stub_id = 390001,
        stub_request = [Ser ''session'', Ser_ptr ''createInfo'' C_one, Ser_ptr ''space'' C_one],
        stub_reply = [De_ptr ''space'']\<rparr>),
      (''xrCreateSenseDataProviderBD'',
       \<lparr>stub_id = 390002,
        stub_request = [Ser ''session'', Ser_ptr ''createInfo'' C_one, Ser_ptr ''provider'' C_one],
        stub_reply = [De_ptr ''provider'']\<rparr>),
      (''xrCreateSpatialEntityAnchorBD'',
       \<lparr>stub_id = 390003,
        stub_request = [Ser ''provider'', Ser_ptr ''createInfo'' C_one, Ser_ptr ''anchor'' C_one],
        stub_reply = [De_ptr ''anchor'']\<rparr>),
      (''xrDestroyAnchorBD'',
       \<lparr>stub_id = 390004,
        stub_request = [Ser ''anchor''],
        stub_reply = []\<rparr>)])]"

definition ext_stubs_6 :: "(string \<times> (string \<times> rpc_stub) list) list" where
  "ext_stubs_6 =
   [(''XR_BD_spatial_sensing'',
     [(''xrDestroySenseDataProviderBD'',
       \<lparr>stub_id = 390005,
        stub_request = [Ser ''provider''],
        stub_reply = []\<rparr>),
      (''xrDestroySenseDataSnapshotBD'',
       \<lparr>stub_id = 390006,
        stub_request = [Ser ''snapshot''],
        stub_reply = []\<rparr>),
      (''xrEnumerateSpatialEntityComponentTypesBD'',
       \<lparr>stub_id = 390007,
        stub_request = [Ser ''snapshot'', Ser ''entityId'', Ser ''componentTypeCapacityInput'',
          Ser_ptr ''componentTypeCountOutput'' C_one,
          Ser_ptr ''componentTypes'' (C_field ''componentTypeCapacityInput'')],
        stub_reply = [De_ptr ''componentTypeCountOutput'', De_ptr ''componentTypes'']\<rparr>),
      (''xrGetAnchorUuidBD'',
       \<lparr>stub_id = 390008,
        stub_request = [Ser ''anchor'', Ser_ptr ''uuid'' C_one],
        stub_reply = [De_ptr ''uuid'']\<rparr>)])]"

definition ext_stubs_7 :: "(string \<times> (string \<times> rpc_stub) list) list" where
  "ext_stubs_7 =
   [(''XR_BD_spatial_sensing'',
     [(''xrGetQueriedSenseDataBD'',
       \<lparr>stub_id = 390009,
        stub_request = [Ser ''snapshot'', Ser_ptr ''getInfo'' C_one, Ser_ptr ''queriedSenseData'' C_one],
        stub_reply = [De_ptr ''getInfo'', De_ptr ''queriedSenseData'']\<rparr>),
      (''xrGetSenseDataProviderStateBD'',
       \<lparr>stub_id = 390010,
        stub_request = [Ser ''provider'', Ser_ptr ''state'' C_one],
        stub_reply = [De_ptr ''state'']\<rparr>),
      (''xrGetSpatialEntityComponentDataBD'',
       \<lparr>stub_id = 390011,
        stub_request = [Ser ''snapshot'', Ser_ptr ''getInfo'' C_one, Ser_xr ''componentData''],
        stub_reply = [De_xr ''componentData'']\<rparr>),
      (''xrGetSpatialEntityUuidBD'',
       \<lparr>stub_id = 390012,
        stub_request = [Ser ''snapshot'', Ser ''entityId'', Ser_ptr ''uuid'' C_one],
        stub_reply = [De_ptr ''uuid'']\<rparr>)])]"

definition ext_stubs_8 :: "(string \<times> (string \<times> rpc_stub) list) list" where
  "ext_stubs_8 =
   [(''XR_BD_spatial_sensing'',
     [(''xrQuerySenseDataAsyncBD'',
       \<lparr>stub_id = 390013,
        stub_request = [Ser ''provider'', Ser_ptr ''queryInfo'' C_one, Ser_ptr ''future'' C_one],
        stub_reply = [De_ptr ''future'']\<rparr>),
      (''xrQuerySenseDataCompleteBD'',
       \<lparr>stub_id = 390014,
        stub_request = [Ser ''provider'', Ser ''future'', Ser_ptr ''completion'' C_one],
        stub_reply = [De_ptr ''completion'']\<rparr>),
      (''xrStartSenseDataProviderAsyncBD'',
       \<lparr>stub_id = 390015,
        stub_request = [Ser ''provider'', Ser_ptr ''startInfo'' C_one, Ser_ptr ''future'' C_one],
        stub_reply = [De_ptr ''future'']\<rparr>),
      (''xrStartSenseDataProviderCompleteBD'',
       \<lparr>stub_id = 390016,
        stub_request = [Ser ''session'', Ser ''future'', Ser_ptr ''completion'' C_one],
        stub_reply = [De_ptr ''completion'']\<rparr>)])]"

definition ext_stubs_9 :: "(string \<times> (string \<times> rpc_stub) list) list" where
  "ext_stubs_9 =
   [(''XR_BD_spatial_sensing'',
     [(''xrStopSenseDataProviderBD'',
       \<lparr>stub_id = 390017,
        stub_request = [Ser ''provider''],
        stub_reply = []\<rparr>)]),
    (''XR_EXT_conformance_automation'',
     [(''xrSetInputDeviceActiveEXT'',
       \<lparr>stub_id = 48001,
        stub_request = [Ser ''session'', Ser ''interactionProfile'', Ser ''topLevelPath'', Ser ''isActive''],
        stub_reply = []\<rparr>),
      (''xrSetInputDeviceLocationEXT'',
       \<lparr>stub_id = 48002,
        stub_request = [Ser ''session'', Ser ''topLevelPath'', Ser ''inputSourcePath'', Ser ''space'',
          Ser ''pose''],
        stub_reply = []\<rparr>),
      (''xrSetInputDeviceStateBoolEXT'',
       \<lparr>stub_id = 48003,
        stub_request = [Ser ''session'', Ser ''topLevelPath'', Ser ''inputSourcePath'', Ser ''state''],
        stub_reply = []\<rparr>)])]"

definition ext_stubs_10 :: "(string \<times> (string \<times> rpc_stub) list) list" where
  "ext_stubs_10 =
   [(''XR_EXT_conformance_automation'',
     [(''xrSetInputDeviceStateFloatEXT'',
       \<lparr>stub_id = 48004,
        stub_request = [Ser ''session'', Ser ''topLevelPath'', Ser ''inputSourcePath'', Ser ''state''],
        stub_reply = []\<rparr>),
      (''xrSetInputDeviceStateVector2fEXT'',
       \<lparr>stub_id = 48005,
        stub_request = [Ser ''session'', Ser ''topLevelPath'', Ser ''inputSourcePath'', Ser ''state''],
        stub_reply = []\<rparr>)])]"

definition ext_stubs_11 :: "(string \<times> (string \<times> rpc_stub) list) list" where
  "ext_stubs_11 =
   [(''XR_EXT_debug_utils'',
     [(''xrDestroyDebugUtilsMessengerEXT'',
       \<lparr>stub_id = 20002,
        stub_request = [Ser ''messenger''],
        stub_reply = []\<rparr>),
      (''xrSessionBeginDebugUtilsLabelRegionEXT'',
       \<lparr>stub_id = 20003,
        stub_request = [Ser ''session'', Ser_ptr ''labelInfo'' C_one],
        stub_reply = []\<rparr>),
      (''xrSessionEndDebugUtilsLabelRegionEXT'',
       \<lparr>stub_id = 20004,
        stub_request = [Ser ''session''],
        stub_reply = []\<rparr>),
      (''xrSessionInsertDebugUtilsLabelEXT'',
       \<lparr>stub_id = 20005,
        stub_request = [Ser ''session'', Ser_ptr ''labelInfo'' C_one],
        stub_reply = []\<rparr>)])]"

definition ext_stubs_12 :: "(string \<times> (string \<times> rpc_stub) list) list" where
  "ext_stubs_12 =
   [(''XR_EXT_debug_utils'',
     [(''xrSetDebugUtilsObjectNameEXT'',
       \<lparr>stub_id = 20006,
        stub_request = [Ser ''instance'', Ser_ptr ''nameInfo'' C_one],
        stub_reply = []\<rparr>)])]"

definition ext_stubs_13 :: "(string \<times> (string \<times> rpc_stub) list) list" where
  "ext_stubs_13 =
   [(''XR_EXT_future'',
     [(''xrCancelFutureEXT'',
       \<lparr>stub_id = 470001,
        stub_request = [Ser ''instance'', Ser_ptr ''cancelInfo'' C_one],
        stub_reply = []\<rparr>),
      (''xrPollFutureEXT'',
       \<lparr>stub_id = 470002,
        stub_request = [Ser ''instance'', Ser_ptr ''pollInfo'' C_one, Ser_ptr ''pollResult'' C_one],
        stub_reply = [De_ptr ''pollResult'']\<rparr>)]),
    (''XR_EXT_hand_tracking'',
     [(''xrCreateHandTrackerEXT'',
       \<lparr>stub_id = 52001,
        stub_request = [Ser ''session'', Ser_ptr ''createInfo'' C_one, Ser_ptr ''handTracker'' C_one],
        stub_reply = [De_ptr ''handTracker'']\<rparr>),
      (''xrDestroyHandTrackerEXT'',
       \<lparr>stub_id = 52002,
        stub_request = [Ser ''handTracker''],
        stub_reply = []\<rparr>)])]"

definition ext_stubs_14 :: "(string \<times> (string \<times> rpc_stub) list) list" where
  "ext_stubs_14 =
   [(''XR_EXT_hand_tracking'',
     [(''xrLocateHandJointsEXT'',
       \<lparr>stub_id = 52003,
        stub_request = [Ser ''handTracker'', Ser_ptr ''locateInfo'' C_one, Ser_ptr ''locations'' C_one],
        stub_reply = [De_ptr ''locations'']\<rparr>)]),
    (''XR_EXT_performance_settings'',
     [(''xrPerfSettingsSetPerformanceLevelEXT'',
       \<lparr>stub_id = 16001,
        stub_request = [Ser ''session'', Ser ''domain'', Ser ''level''],
        stub_reply = []\<rparr>)]),
    (''XR_EXT_plane_detection'',
     [(''xrBeginPlaneDetectionEXT'',
       \<lparr>stub_id = 430001,
        stub_request = [Ser ''planeDetector'', Ser_ptr ''beginInfo'' C_one],
        stub_reply = []\<rparr>),
      (''xrCreatePlaneDetectorEXT'',
       \<lparr>stub_id = 430002,
        stub_request = [Ser ''session'', Ser_ptr ''createInfo'' C_one, Ser_ptr ''planeDetector'' C_one],
        stub_reply = [De_ptr ''planeDetector'']\<rparr>)])]"

definition ext_stubs_15 :: "(string \<times> (string \<times> rpc_stub) list) list" where
  "ext_stubs_15 =
   [(''XR_EXT_plane_detection'',
     [(''xrDestroyPlaneDetectorEXT'',
       \<lparr>stub_id = 430003,
        stub_request = [Ser ''planeDetector''],
        stub_reply = []\<rparr>),
      (''xrGetPlaneDetectionStateEXT'',
       \<lparr>stub_id = 430004,
        stub_request = [Ser ''planeDetector'', Ser_ptr ''state'' C_one],
        stub_reply = [De_ptr ''state'']\<rparr>),
      (''xrGetPlaneDetectionsEXT'',
       \<lparr>stub_id = 430005,
        stub_request = [Ser ''planeDetector'', Ser_ptr ''info'' C_one, Ser_ptr ''locations'' C_one],
        stub_reply = [De_ptr ''locations'']\<rparr>),
      (''xrGetPlanePolygonBufferEXT'',
       \<lparr>stub_id = 430006,
        stub_request = [Ser ''planeDetector'', Ser ''planeId'', Ser ''polygonBufferIndex'',
          Ser_ptr ''polygonBuffer'' C_one],
        stub_reply = [De_ptr ''polygonBuffer'']\<rparr>)])]"

definition ext_stubs_16 :: "(string \<times> (string \<times> rpc_stub) list) list" where
  "ext_stubs_16 =
   [(''XR_EXT_thermal_query'',
     [(''xrThermalGetTemperatureTrendEXT'',
       \<lparr>stub_id = 17001,
        stub_request = [Ser ''session'', Ser ''domain'', Ser_ptr ''notificationLevel'' C_one,
          Ser_ptr ''tempHeadroom'' C_one, Ser_ptr ''tempSlope'' C_one],
        stub_reply = [De_ptr ''notificationLevel'', De_ptr ''tempHeadroom'', De_ptr ''tempSlope'']\<rparr>)]),
    (''XR_FB_body_tracking'',
     [(''xrCreateBodyTrackerFB'',
       \<lparr>stub_id = 77001,
        stub_request = [Ser ''session'', Ser_ptr ''createInfo'' C_one, Ser_ptr ''bodyTracker'' C_one],
        stub_reply = [De_ptr ''bodyTracker'']\<rparr>),
      (''xrDestroyBodyTrackerFB'',
       \<lparr>stub_id = 77002,
        stub_request = [Ser ''bodyTracker''],
        stub_reply = []\<rparr>),
      (''xrGetBodySkeletonFB'',
       \<lparr>stub_id = 77003,
        stub_request = [Ser ''bodyTracker'', Ser_ptr ''skeleton'' C_one],
        stub_reply = [De_ptr ''skeleton'']\<rparr>)])]"

definition ext_stubs_17 :: "(string \<times> (string \<times> rpc_stub) list) list" where
  "ext_stubs_17 =
   [(''XR_FB_body_tracking'',
     [(''xrLocateBodyJointsFB'',
       \<lparr>stub_id = 77004,
        stub_request = [Ser ''bodyTracker'', Ser_ptr ''locateInfo'' C_one, Ser_ptr ''locations'' C_one],
        stub_reply = [De_ptr ''locations'']\<rparr>)]),
    (''XR_FB_color_space'',
     [(''xrEnumerateColorSpacesFB'',
       \<lparr>stub_id = 109001,
        stub_request = [Ser ''session'', Ser ''colorSpaceCapacityInput'',
          Ser_ptr ''colorSpaceCountOutput'' C_one,
          Ser_ptr ''colorSpaces'' (C_field ''colorSpaceCapacityInput'')],
        stub_reply = [De_ptr ''colorSpaceCountOutput'', De_ptr ''colorSpaces'']\<rparr>),
      (''xrSetColorSpaceFB'',
       \<lparr>stub_id = 109002,
        stub_request = [Ser ''session'', Ser ''colorSpace''],
        stub_reply = []\<rparr>)])]"

definition ext_stubs_18 :: "(string \<times> (string \<times> rpc_stub) list) list" where
  "ext_stubs_18 =
   [(''XR_FB_display_refresh_rate'',
     [(''xrEnumerateDisplayRefreshRatesFB'',
       \<lparr>stub_id = 102001,
        stub_request = [Ser ''session'', Ser ''displayRefreshRateCapacityInput'',
          Ser_ptr ''displayRefreshRateCountOutput'' C_one,
          Ser_ptr ''displayRefreshRates'' (C_field ''displayRefreshRateCapacityInput'')],
        stub_reply = [De_ptr ''displayRefreshRateCountOutput'', De_ptr ''displayRefreshRates'']\<rparr>),
      (''xrGetDisplayRefreshRateFB'',
       \<lparr>stub_id = 102002,
        stub_request = [Ser ''session'', Ser_ptr ''displayRefreshRate'' C_one],
        stub_reply = [De_ptr ''displayRefreshRate'']\<rparr>),
      (''xrRequestDisplayRefreshRateFB'',
       \<lparr>stub_id = 102003,
        stub_request = [Ser ''session'', Ser ''displayRefreshRate''],
        stub_reply = []\<rparr>)]),
    (''XR_FB_eye_tracking_social'',
     [(''xrCreateEyeTrackerFB'',
       \<lparr>stub_id = 203001,
        stub_request = [Ser ''session'', Ser_ptr ''createInfo'' C_one, Ser_ptr ''eyeTracker'' C_one],
        stub_reply = [De_ptr ''eyeTracker'']\<rparr>)])]"

definition ext_stubs_19 :: "(string \<times> (string \<times> rpc_stub) list) list" where
  "ext_stubs_19 =
   [(''XR_FB_eye_tracking_social'',
     [(''xrDestroyEyeTrackerFB'',
       \<lparr>stub_id = 203002,
        stub_request = [Ser ''eyeTracker''],
        stub_reply = []\<rparr>),
      (''xrGetEyeGazesFB'',
       \<lparr>stub_id = 203003,
        stub_request = [Ser ''eyeTracker'', Ser_ptr ''gazeInfo'' C_one, Ser_ptr ''eyeGazes'' C_one],
        stub_reply = [De_ptr ''eyeGazes'']\<rparr>)]),
    (''XR_FB_face_tracking'',
     [(''xrCreateFaceTrackerFB'',
       \<lparr>stub_id = 202001,
        stub_request = [Ser ''session'', Ser_ptr ''createInfo'' C_one, Ser_ptr ''faceTracker'' C_one],
        stub_reply = [De_ptr ''faceTracker'']\<rparr>),
      (''xrDestroyFaceTrackerFB'',
       \<lparr>stub_id = 202002,
        stub_request = [Ser ''faceTracker''],
        stub_reply = []\<rparr>)])]"

definition ext_stubs_20 :: "(string \<times> (string \<times> rpc_stub) list) list" where
  "ext_stubs_20 =
   [(''XR_FB_face_tracking'',
     [(''xrGetFaceExpressionWeightsFB'',
       \<lparr>stub_id = 202003,
        stub_request = [Ser ''faceTracker'', Ser_ptr ''expressionInfo'' C_one,
          Ser_ptr ''expressionWeights'' C_one],
        stub_reply = [De_ptr ''expressionWeights'']\<rparr>)])]"

definition ext_stubs_21 :: "(string \<times> (string \<times> rpc_stub) list) list" where
  "ext_stubs_21 =
   [(''XR_FB_face_tracking2'',
     [(''xrDestroyFaceTracker2FB'',
       \<lparr>stub_id = 288002,
        stub_request = [Ser ''faceTracker''],
        stub_reply = []\<rparr>),
      (''xrGetFaceExpressionWeights2FB'',
       \<lparr>stub_id = 288003,
        stub_request = [Ser ''faceTracker'', Ser_ptr ''expressionInfo'' C_one,
          Ser_ptr ''expressionWeights'' C_one],
        stub_reply = [De_ptr ''expressionWeights'']\<rparr>)])]"

definition ext_stubs_22 :: "(string \<times> (string \<times> rpc_stub) list) list" where
  "ext_stubs_22 =
   [(''XR_FB_foveation'',
     [(''xrDestroyFoveationProfileFB'',
       \<lparr>stub_id = 115002,
        stub_request = [Ser ''profile''],
        stub_reply = []\<rparr>)]),
    (''XR_FB_hand_tracking_mesh'',
     [(''xrGetHandMeshFB'',
       \<lparr>stub_id = 111001,
        stub_request = [Ser ''handTracker'', Ser_ptr ''mesh'' C_one],
        stub_reply = [De_ptr ''mesh'']\<rparr>)]),
    (''XR_FB_haptic_pcm'',
     [(''xrGetDeviceSampleRateFB'',
       \<lparr>stub_id = 210001,
        stub_request = [Ser ''session'', Ser_ptr ''hapticActionInfo'' C_one,
          Ser_ptr ''deviceSampleRate'' C_one],
        stub_reply = [De_ptr ''deviceSampleRate'']\<rparr>)])]"

definition ext_stubs_23 :: "(string \<times> (string \<times> rpc_stub) list) list" where
  "ext_stubs_23 =
   [(''XR_FB_passthrough'',
     [(''xrCreateGeometryInstanceFB'',
       \<lparr>stub_id = 119001,
        stub_request = [Ser ''session'', Ser_ptr ''createInfo'' C_one, Ser_ptr ''outGeometryInstance'' C_one],
        stub_reply = [De_ptr ''outGeometryInstance'']\<rparr>),
      (''xrCreatePassthroughFB'',
       \<lparr>stub_id = 119002,
        stub_request = [Ser ''session'', Ser_ptr ''createInfo'' C_one, Ser_ptr ''outPassthrough'' C_one],
        stub_reply = [De_ptr ''outPassthrough'']\<rparr>),
      (''xrCreatePassthroughLayerFB'',
       \<lparr>stub_id = 119003,
        stub_request = [Ser ''session'', Ser_ptr ''createInfo'' C_one, Ser_ptr ''outLayer'' C_one],
        stub_reply = [De_ptr ''outLayer'']\<rparr>),
      (''xrDestroyGeometryInstanceFB'',
       \<lparr>stub_id = 119004,
        stub_request = [Ser ''instance''],
        stub_reply = []\<rparr>)])]"

definition ext_stubs_24 :: "(string \<times> (string \<times> rpc_stub) list) list" where
  "ext_stubs_24 =
   [(''XR_FB_passthrough'',
     [(''xrDestroyPassthroughFB'',
       \<lparr>stub_id = 119005,
        stub_request = [Ser ''passthrough''],
        stub_reply = []\<rparr>),
      (''xrDestroyPassthroughLayerFB'',
       \<lparr>stub_id = 119006,
        stub_request = [Ser ''layer''],
        stub_reply = []\<rparr>),
      (''xrGeometryInstanceSetTransformFB'',
       \<lparr>stub_id = 119007,
        stub_request = [Ser ''instance'', Ser_ptr ''transformation'' C_one],
        stub_reply = []\<rparr>),
      (''xrPassthroughLayerPauseFB'',
       \<lparr>stub_id = 119008,
        stub_request = [Ser ''layer''],
        stub_reply = []\<rparr>)])]"

definition ext_stubs_25 :: "(string \<times> (string \<times> rpc_stub) list) list" where
  "ext_stubs_25 =
   [(''XR_FB_passthrough'',
     [(''xrPassthroughLayerResumeFB'',
       \<lparr>stub_id = 119009,
        stub_request = [Ser ''layer''],
        stub_reply = []\<rparr>),
      (''xrPassthroughLayerSetStyleFB'',
       \<lparr>stub_id = 119010,
        stub_request = [Ser ''layer'', Ser_ptr ''style'' C_one],
        stub_reply = []\<rparr>),
      (''xrPassthroughPauseFB'',
       \<lparr>stub_id = 119011,
        stub_request = [Ser ''passthrough''],
        stub_reply = []\<rparr>),
      (''xrPassthroughStartFB'',
       \<lparr>stub_id = 119012,
        stub_request = [Ser ''passthrough''],
        stub_reply = []\<rparr>)])]"

definition ext_stubs_26 :: "(string \<times> (string \<times> rpc_stub) list) list" where
  "ext_stubs_26 =
   [(''XR_FB_passthrough_keyboard_hands'',
     [(''xrPassthroughLayerSetKeyboardHandsIntensityFB'',
       \<lparr>stub_id = 204001,
        stub_request = [Ser ''layer'', Ser_ptr ''intensity'' C_one],
        stub_reply = []\<rparr>)]),
    (''XR_FB_render_model'',
     [(''xrEnumerateRenderModelPathsFB'',
       \<lparr>stub_id = 120001,
        stub_request = [Ser ''session'', Ser ''pathCapacityInput'', Ser_ptr ''pathCountOutput'' C_one,
          Ser_ptr ''paths'' (C_field ''pathCapacityInput'')],
        stub_reply = [De_ptr ''pathCountOutput'', De_ptr ''paths'']\<rparr>),
      (''xrGetRenderModelPropertiesFB'',
       \<lparr>stub_id = 120002,
        stub_request = [Ser ''session'', Ser ''path'', Ser_ptr ''properties'' C_one],
        stub_reply = [De_ptr ''properties'']\<rparr>)])]"

definition ext_stubs_27 :: "(string \<times> (string \<times> rpc_stub) list) list" where
  "ext_stubs_27 =
   [(''XR_FB_scene'',
     [(''xrGetSpaceBoundary2DFB'',
       \<lparr>stub_id = 176001,
        stub_request = [Ser ''session'', Ser ''space'', Ser_ptr ''boundary2DOutput'' C_one],
        stub_reply = [De_ptr ''boundary2DOutput'']\<rparr>),
      (''xrGetSpaceBoundingBox2DFB'',
       \<lparr>stub_id = 176002,
        stub_request = [Ser ''session'', Ser ''space'', Ser_ptr ''boundingBox2DOutput'' C_one],
        stub_reply = [De_ptr ''boundingBox2DOutput'']\<rparr>),
      (''xrGetSpaceBoundingBox3DFB'',
       \<lparr>stub_id = 176003,
        stub_request = [Ser ''session'', Ser ''space'', Ser_ptr ''boundingBox3DOutput'' C_one],
        stub_reply = [De_ptr ''boundingBox3DOutput'']\<rparr>),
      (''xrGetSpaceRoomLayoutFB'',
       \<lparr>stub_id = 176004,
        stub_request = [Ser ''session'', Ser ''space'', Ser_ptr ''roomLayoutOutput'' C_one],
        stub_reply = [De_ptr ''roomLayoutOutput'']\<rparr>)])]"

definition ext_stubs_28 :: "(string \<times> (string \<times> rpc_stub) list) list" where
  "ext_stubs_28 =
   [(''XR_FB_scene'',
     [(''xrGetSpaceSemanticLabelsFB'',
       \<lparr>stub_id = 176005,
        stub_request = [Ser ''session'', Ser ''space'', Ser_ptr ''semanticLabelsOutput'' C_one],
        stub_reply = [De_ptr ''semanticLabelsOutput'']\<rparr>)]),
    (''XR_FB_scene_capture'',
     [(''xrRequestSceneCaptureFB'',
       \<lparr>stub_id = 199001,
        stub_request = [Ser ''session'', Ser_ptr ''info'' C_one, Ser_ptr ''requestId'' C_one],
        stub_reply = [De_ptr ''requestId'']\<rparr>)]),
    (''XR_FB_spatial_entity'',
     [(''xrCreateSpatialAnchorFB'',
       \<lparr>stub_id = 114001,
        stub_request = [Ser ''session'', Ser_ptr ''info'' C_one, Ser_ptr ''requestId'' C_one],
        stub_reply = [De_ptr ''requestId'']\<rparr>)])]"

definition ext_stubs_29 :: "(string \<times> (string \<times> rpc_stub) list) list" where
  "ext_stubs_29 =
   [(''XR_FB_spatial_entity'',
     [(''xrEnumerateSpaceSupportedComponentsFB'',
       \<lparr>stub_id = 114002,
        stub_request = [Ser ''space'', Ser ''componentTypeCapacityInput'',
          Ser_ptr ''componentTypeCountOutput'' C_one,
          Ser_ptr ''componentTypes'' (C_field ''componentTypeCapacityInput'')],
        stub_reply = [De_ptr ''componentTypeCountOutput'', De_ptr ''componentTypes'']\<rparr>),
      (''xrGetSpaceComponentStatusFB'',
       \<lparr>stub_id = 114003,
        stub_request = [Ser ''space'', Ser ''componentType'', Ser_ptr ''status'' C_one],
        stub_reply = [De_ptr ''status'']\<rparr>),
      (''xrGetSpaceUuidFB'',
       \<lparr>stub_id = 114004,
        stub_request = [Ser ''space'', Ser_ptr ''uuid'' C_one],
        stub_reply = [De_ptr ''uuid'']\<rparr>),
      (''xrSetSpaceComponentStatusFB'',
       \<lparr>stub_id = 114005,
        stub_request = [Ser ''space'', Ser_ptr ''info'' C_one, Ser_ptr ''requestId'' C_one],
        stub_reply = [De_ptr ''requestId'']\<rparr>)])]"

definition ext_stubs_30 :: "(string \<times> (string \<times> rpc_stub) list) list" where
  "ext_stubs_30 =
   [(''XR_FB_spatial_entity_container'',
     [(''xrGetSpaceContainerFB'',
       \<lparr>stub_id = 200001,
        stub_request = [Ser ''session'', Ser ''space'', Ser_ptr ''spaceContainerOutput'' C_one],
        stub_reply = [De_ptr ''spaceContainerOutput'']\<rparr>)]),
    (''XR_FB_spatial_entity_query'',
     [(''xrQuerySpacesFB'',
       \<lparr>stub_id = 157001,
        stub_request = [Ser ''session'', Ser_xr ''info'', Ser_ptr ''requestId'' C_one],
        stub_reply = [De_ptr ''requestId'']\<rparr>),
      (''xrRetrieveSpaceQueryResultsFB'',
       \<lparr>stub_id = 157002,
        stub_request = [Ser ''session'', Ser ''requestId'', Ser_ptr ''results'' C_one],
        stub_reply = [De_ptr ''results'']\<rparr>)])]"

definition ext_stubs_31 :: "(string \<times> (string \<times> rpc_stub) list) list" where
  "ext_stubs_31 =
   [(''XR_FB_spatial_entity_storage'',
     [(''xrEraseSpaceFB'',
       \<lparr>stub_id = 159001,
        stub_request = [Ser ''session'', Ser_ptr ''info'' C_one, Ser_ptr ''requestId'' C_one],
        stub_reply = [De_ptr ''requestId'']\<rparr>),
      (''xrSaveSpaceFB'',
       \<lparr>stub_id = 159002,
        stub_request = [Ser ''session'', Ser_ptr ''info'' C_one, Ser_ptr ''requestId'' C_one],
        stub_reply = [De_ptr ''requestId'']\<rparr>)])]"

definition ext_stubs_32 :: "(string \<times> (string \<times> rpc_stub) list) list" where
  "ext_stubs_32 =
   [(''XR_FB_spatial_entity_user'',
     [(''xrCreateSpaceUserFB'',
       \<lparr>stub_id = 242001,
        stub_request = [Ser ''session'', Ser_ptr ''info'' C_one, Ser_ptr ''user'' C_one],
        stub_reply = [De_ptr ''user'']\<rparr>),
      (''xrDestroySpaceUserFB'',
       \<lparr>stub_id = 242002,
        stub_request = [Ser ''user''],
        stub_reply = []\<rparr>),
      (''xrGetSpaceUserIdFB'',
       \<lparr>stub_id = 242003,
        stub_request = [Ser ''user'', Ser_ptr ''userId'' C_one],
        stub_reply = [De_ptr ''userId'']\<rparr>)]),
    (''XR_FB_swapchain_update_state'',
     [(''xrGetSwapchainStateFB'',
       \<lparr>stub_id = 72001,
        stub_request = [Ser ''swapchain'', Ser_xr ''state''],
        stub_reply = [De_xr ''state'']\<rparr>)])]"

definition ext_stubs_33 :: "(string \<times> (string \<times> rpc_stub) list) list" where
  "ext_stubs_33 =
   [(''XR_FB_swapchain_update_state'',
     [(''xrUpdateSwapchainFB'',
       \<lparr>stub_id = 72002,
        stub_request = [Ser ''swapchain'', Ser_xr ''state''],
        stub_reply = []\<rparr>)]),
    (''XR_FB_triangle_mesh'',
     [(''xrCreateTriangleMeshFB'',
       \<lparr>stub_id = 118001,
        stub_request = [Ser ''session'', Ser_ptr ''createInfo'' C_one, Ser_ptr ''outTriangleMesh'' C_one],
        stub_reply = [De_ptr ''outTriangleMesh'']\<rparr>),
      (''xrDestroyTriangleMeshFB'',
       \<lparr>stub_id = 118002,
        stub_request = [Ser ''mesh''],
        stub_reply = []\<rparr>),
      (''xrTriangleMeshBeginUpdateFB'',
       \<lparr>stub_id = 118003,
        stub_request = [Ser ''mesh''],
        stub_reply = []\<rparr>)])]"

definition ext_stubs_34 :: "(string \<times> (string \<times> rpc_stub) list) list" where
  "ext_stubs_34 =
   [(''XR_FB_triangle_mesh'',
     [(''xrTriangleMeshBeginVertexBufferUpdateFB'',
       \<lparr>stub_id = 118004,
        stub_request = [Ser ''mesh'', Ser_ptr ''outVertexCount'' C_one],
        stub_reply = [De_ptr ''outVertexCount'']\<rparr>),
      (''xrTriangleMeshEndUpdateFB'',
       \<lparr>stub_id = 118005,
        stub_request = [Ser ''mesh'', Ser ''vertexCount'', Ser ''triangleCount''],
        stub_reply = []\<rparr>),
      (''xrTriangleMeshEndVertexBufferUpdateFB'',
       \<lparr>stub_id = 118006,
        stub_request = [Ser ''mesh''],
        stub_reply = []\<rparr>)])]"

definition ext_stubs_35 :: "(string \<times> (string \<times> rpc_stub) list) list" where
  "ext_stubs_35 =
   [(''XR_HTCX_vive_tracker_interaction'',
     [(''xrEnumerateViveTrackerPathsHTCX'',
       \<lparr>stub_id = 104001,
        stub_request = [Ser ''instance'', Ser ''pathCapacityInput'', Ser_ptr ''pathCountOutput'' C_one,
          Ser_ptr ''paths'' (C_field ''pathCapacityInput'')],
        stub_reply = [De_ptr ''pathCountOutput'', De_ptr ''paths'']\<rparr>)]),
    (''XR_HTC_anchor'',
     [(''xrCreateSpatialAnchorHTC'',
       \<lparr>stub_id = 320001,
        stub_request = [Ser ''session'', Ser_ptr ''createInfo'' C_one, Ser_ptr ''anchor'' C_one],
        stub_reply = [De_ptr ''anchor'']\<rparr>),
      (''xrGetSpatialAnchorNameHTC'',
       \<lparr>stub_id = 320002,
        stub_request = [Ser ''anchor'', Ser_ptr ''name'' C_one],
        stub_reply = [De_ptr ''name'']\<rparr>)])]"

definition ext_stubs_36 :: "(string \<times> (string \<times> rpc_stub) list) list" where
  "ext_stubs_36 =
   [(''XR_HTC_body_tracking'',
     [(''xrCreateBodyTrackerHTC'',
       \<lparr>stub_id = 321001,
        stub_request = [Ser ''session'', Ser_ptr ''createInfo'' C_one, Ser_ptr ''bodyTracker'' C_one],
        stub_reply = [De_ptr ''bodyTracker'']\<rparr>),
      (''xrDestroyBodyTrackerHTC'',
       \<lparr>stub_id = 321002,
        stub_request = [Ser ''bodyTracker''],
        stub_reply = []\<rparr>),
      (''xrGetBodySkeletonHTC'',
       \<lparr>stub_id = 321003,
        stub_request = [Ser ''bodyTracker'', Ser ''baseSpace'', Ser ''skeletonGenerationId'',
          Ser_ptr ''skeleton'' C_one],
        stub_reply = [De_ptr ''skeleton'']\<rparr>),
      (''xrLocateBodyJointsHTC'',
       \<lparr>stub_id = 321004,
        stub_request = [Ser ''bodyTracker'', Ser_ptr ''locateInfo'' C_one, Ser_ptr ''locations'' C_one],
        stub_reply = [De_ptr ''locations'']\<rparr>)])]"

definition ext_stubs_37 :: "(string \<times> (string \<times> rpc_stub) list) list" where
  "ext_stubs_37 =
   [(''XR_HTC_facial_tracking'',
     [(''xrCreateFacialTrackerHTC'',
       \<lparr>stub_id = 105001,
        stub_request = [Ser ''session'', Ser_ptr ''createInfo'' C_one, Ser_ptr ''facialTracker'' C_one],
        stub_reply = [De_ptr ''facialTracker'']\<rparr>),
      (''xrDestroyFacialTrackerHTC'',
       \<lparr>stub_id = 105002,
        stub_request = [Ser ''facialTracker''],
        stub_reply = []\<rparr>),
      (''xrGetFacialExpressionsHTC'',
       \<lparr>stub_id = 105003,
        stub_request = [Ser ''facialTracker'', Ser_ptr ''facialExpressions'' C_one],
        stub_reply = [De_ptr ''facialExpressions'']\<rparr>)])]"

definition ext_stubs_38 :: "(string \<times> (string \<times> rpc_stub) list) list" where
  "ext_stubs_38 =
   [(''XR_HTC_passthrough'',
     [(''xrCreatePassthroughHTC'',
       \<lparr>stub_id = 318001,
        stub_request = [Ser ''session'', Ser_ptr ''createInfo'' C_one, Ser_ptr ''passthrough'' C_one],
        stub_reply = [De_ptr ''passthrough'']\<rparr>),
      (''xrDestroyPassthroughHTC'',
       \<lparr>stub_id = 318002,
        stub_request = [Ser ''passthrough''],
        stub_reply = []\<rparr>)]),
    (''XR_KHR_D3D11_enable'',
     [(''xrGetD3D11GraphicsRequirementsKHR'',
       \<lparr>stub_id = 28001,
        stub_request = [Ser ''instance'', Ser ''systemId'', Ser_ptr ''graphicsRequirements'' C_one],
        stub_reply = [De_ptr ''graphicsRequirements'']\<rparr>)]),
    (''XR_KHR_D3D12_enable'',
     [(''xrGetD3D12GraphicsRequirementsKHR'',
       \<lparr>stub_id = 29001,
        stub_request = [Ser ''instance'', Ser ''systemId'', Ser_ptr ''graphicsRequirements'' C_one],
        stub_reply = [De_ptr ''graphicsRequirements'']\<rparr>)])]"

definition ext_stubs_39 :: "(string \<times> (string \<times> rpc_stub) list) list" where
  "ext_stubs_39 =
   [(''XR_KHR_android_surface_swapchain'',
     [(''xrCreateSwapchainAndroidSurfaceKHR'',
       \<lparr>stub_id = 5001,
        stub_request = [Ser ''session'', Ser_ptr ''info'' C_one, Ser_ptr ''swapchain'' C_one,
          Ser_ptr ''surface'' C_one],
        stub_reply = [De_ptr ''swapchain'', De_ptr ''surface'']\<rparr>)]),
    (''XR_KHR_android_thread_settings'',
     [(''xrSetAndroidApplicationThreadKHR'',
       \<lparr>stub_id = 4001,
        stub_request = [Ser ''session'', Ser ''threadType'', Ser ''threadId''],
        stub_reply = []\<rparr>)]),
    (''XR_KHR_convert_timespec_time'',
     [(''xrConvertTimeToTimespecTimeKHR'',
       \<lparr>stub_id = 37001,
        stub_request = [Ser ''instance'', Ser_time ''time'', Ser_ptr ''timespecTime'' C_one],
        stub_reply = [De_ptr ''timespecTime'']\<rparr>)])]"

definition ext_stubs_40 :: "(string \<times> (string \<times> rpc_stub) list) list" where
  "ext_stubs_40 =
   [(''XR_KHR_convert_timespec_time'',
     [(''xrConvertTimespecTimeToTimeKHR'',
       \<lparr>stub_id = 37002,
        stub_request = [Ser ''instance'', Ser_ptr ''timespecTime'' C_one, Ser_ptr ''time'' C_one],
        stub_reply = [De_ptr ''timespecTime'', De_ptr ''time'']\<rparr>)]),
    (''XR_KHR_extended_struct_name_lengths'',
     [(''xrStructureTypeToString2KHR'',
       \<lparr>stub_id = 149001,
        stub_request = [Ser ''instance'', Ser ''value'',
          Ser_array ''buffer'' (B_const ''XR_MAX_STRUCTURE_NAME_SIZE_EXTENDED_KHR'')],
        stub_reply = [De_ptr ''buffer'']\<rparr>)]),
    (''XR_KHR_loader_init'',
     [(''xrInitializeLoaderKHR'',
       \<lparr>stub_id = 89001,
        stub_request = [Ser_xr ''loaderInitInfo''],
        stub_reply = []\<rparr>)])]"

definition ext_stubs_41 :: "(string \<times> (string \<times> rpc_stub) list) list" where
  "ext_stubs_41 =
   [(''XR_KHR_metal_enable'',
     [(''xrGetMetalGraphicsRequirementsKHR'',
       \<lparr>stub_id = 30001,
        stub_request = [Ser ''instance'', Ser ''systemId'', Ser_ptr ''graphicsRequirements'' C_one],
        stub_reply = [De_ptr ''graphicsRequirements'']\<rparr>)]),
    (''XR_KHR_opengl_enable'',
     [(''xrGetOpenGLGraphicsRequirementsKHR'',
       \<lparr>stub_id = 24001,
        stub_request = [Ser ''instance'', Ser ''systemId'', Ser_ptr ''graphicsRequirements'' C_one],
        stub_reply = [De_ptr ''graphicsRequirements'']\<rparr>)]),
    (''XR_KHR_opengl_es_enable'',
     [(''xrGetOpenGLESGraphicsRequirementsKHR'',
       \<lparr>stub_id = 25001,
        stub_request = [Ser ''instance'', Ser ''systemId'', Ser_ptr ''graphicsRequirements'' C_one],
        stub_reply = [De_ptr ''graphicsRequirements'']\<rparr>)])]"

definition ext_stubs_42 :: "(string \<times> (string \<times> rpc_stub) list) list" where
  "ext_stubs_42 =
   [(''XR_KHR_visibility_mask'',
     [(''xrGetVisibilityMaskKHR'',
       \<lparr>stub_id = 32001,
        stub_request = [Ser ''session'', Ser ''viewConfigurationType'', Ser ''viewIndex'',
          Ser ''visibilityMaskType'', Ser_ptr ''visibilityMask'' C_one],
        stub_reply = [De_ptr ''visibilityMask'']\<rparr>)]),
    (''XR_KHR_vulkan_enable'',
     [(''xrGetVulkanDeviceExtensionsKHR'',
       \<lparr>stub_id = 26001,
        stub_request = [Ser ''instance'', Ser ''systemId'', Ser ''bufferCapacityInput'',
          Ser_ptr ''bufferCountOutput'' C_one,
          Ser_ptr ''buffer'' (C_field ''bufferCapacityInput'')],
        stub_reply = [De_ptr ''bufferCountOutput'', De_ptr ''buffer'']\<rparr>),
      (''xrGetVulkanGraphicsDeviceKHR'',
       \<lparr>stub_id = 26002,
        stub_request = [Ser ''instance'', Ser ''systemId'', Ser ''vkInstance'',
          Ser_ptr ''vkPhysicalDevice'' C_one],
        stub_reply = [De_ptr ''vkPhysicalDevice'']\<rparr>)])]"

definition ext_stubs_43 :: "(string \<times> (string \<times> rpc_stub) list) list" where
  "ext_stubs_43 =
   [(''XR_KHR_vulkan_enable'',
     [(''xrGetVulkanGraphicsRequirementsKHR'',
       \<lparr>stub_id = 26003,
        stub_request = [Ser ''instance'', Ser ''systemId'', Ser_ptr ''graphicsRequirements'' C_one],
        stub_reply = [De_ptr ''graphicsRequirements'']\<rparr>),
      (''xrGetVulkanInstanceExtensionsKHR'',
       \<lparr>stub_id = 26004,
        stub_request = [Ser ''instance'', Ser ''systemId'', Ser ''bufferCapacityInput'',
          Ser_ptr ''bufferCountOutput'' C_one,
          Ser_ptr ''buffer'' (C_field ''bufferCapacityInput'')],
        stub_reply = [De_ptr ''bufferCountOutput'', De_ptr ''buffer'']\<rparr>)]),
    (''XR_KHR_vulkan_enable2'',
     [(''xrCreateVulkanDeviceKHR'',
       \<lparr>stub_id = 91001,
        stub_request = [Ser ''instance'', Ser_ptr ''createInfo'' C_one, Ser_ptr ''vulkanDevice'' C_one,
          Ser_ptr ''vulkanResult'' C_one],
        stub_reply = [De_ptr ''vulkanDevice'', De_ptr ''vulkanResult'']\<rparr>)])]"

definition ext_stubs_44 :: "(string \<times> (string \<times> rpc_stub) list) list" where
  "ext_stubs_44 =
   [(''XR_KHR_vulkan_enable2'',
     [(''xrCreateVulkanInstanceKHR'',
       \<lparr>stub_id = 91002,
        stub_request = [Ser ''instance'', Ser_ptr ''createInfo'' C_one, Ser_ptr ''vulkanInstance'' C_one,
          Ser_ptr ''vulkanResult'' C_one],
        stub_reply = [De_ptr ''vulkanInstance'', De_ptr ''vulkanResult'']\<rparr>),
      (''xrGetVulkanGraphicsDevice2KHR'',
       \<lparr>stub_id = 91003,
        stub_request = [Ser ''instance'', Ser_ptr ''getInfo'' C_one, Ser_ptr ''vulkanPhysicalDevice'' C_one],
        stub_reply = [De_ptr ''vulkanPhysicalDevice'']\<rparr>)]),
    (''XR_KHR_win32_convert_performance_counter_time'',
     [(''xrConvertTimeToWin32PerformanceCounterKHR'',
       \<lparr>stub_id = 36001,
        stub_request = [Ser ''instance'', Ser_time ''time'', Ser_ptr ''performanceCounter'' C_one],
        stub_reply = [De_ptr ''performanceCounter'']\<rparr>)])]"

definition ext_stubs_45 :: "(string \<times> (string \<times> rpc_stub) list) list" where
  "ext_stubs_45 =
   [(''XR_KHR_win32_convert_performance_counter_time'',
     [(''xrConvertWin32PerformanceCounterToTimeKHR'',
       \<lparr>stub_id = 36002,
        stub_request = [Ser ''instance'', Ser_ptr ''performanceCounter'' C_one, Ser_ptr ''time'' C_one],
        stub_reply = [De_ptr ''time'']\<rparr>)])]"

definition ext_stubs_46 :: "(string \<times> (string \<times> rpc_stub) list) list" where
  "ext_stubs_46 =
   [(''XR_META_colocation_discovery'',
     [(''xrStartColocationDiscoveryMETA'',
       \<lparr>stub_id = 572002,
        stub_request = [Ser ''session'', Ser_ptr ''info'' C_one, Ser_ptr ''discoveryRequestId'' C_one],
        stub_reply = [De_ptr ''discoveryRequestId'']\<rparr>),
      (''xrStopColocationAdvertisementMETA'',
       \<lparr>stub_id = 572003,
        stub_request = [Ser ''session'', Ser_ptr ''info'' C_one, Ser_ptr ''requestId'' C_one],
        stub_reply = [De_ptr ''requestId'']\<rparr>),
      (''xrStopColocationDiscoveryMETA'',
       \<lparr>stub_id = 572004,
        stub_request = [Ser ''session'', Ser_ptr ''info'' C_one, Ser_ptr ''requestId'' C_one],
        stub_reply = [De_ptr ''requestId'']\<rparr>)]),
    (''XR_META_environment_depth'',
     [(''xrAcquireEnvironmentDepthImageMETA'',
       \<lparr>stub_id = 292001,
        stub_request = [Ser ''environmentDepthProvider'', Ser_ptr ''acquireInfo'' C_one,
          Ser_ptr ''environmentDepthImage'' C_one],
        stub_reply = [De_ptr ''environmentDepthImage'']\<rparr>)])]"

definition ext_stubs_47 :: "(string \<times> (string \<times> rpc_stub) list) list" where
  "ext_stubs_47 =
   [(''XR_META_environment_depth'',
     [(''xrCreateEnvironmentDepthProviderMETA'',
       \<lparr>stub_id = 292002,
        stub_request = [Ser ''session'', Ser_ptr ''createInfo'' C_one,
          Ser_ptr ''environmentDepthProvider'' C_one],
        stub_reply = [De_ptr ''environmentDepthProvider'']\<rparr>),
      (''xrCreateEnvironmentDepthSwapchainMETA'',
       \<lparr>stub_id = 292003,
        stub_request = [Ser ''environmentDepthProvider'', Ser_ptr ''createInfo'' C_one,
          Ser_ptr ''swapchain'' C_one],
        stub_reply = [De_ptr ''swapchain'']\<rparr>),
      (''xrDestroyEnvironmentDepthProviderMETA'',
       \<lparr>stub_id = 292004,
        stub_request = [Ser ''environmentDepthProvider''],
        stub_reply = []\<rparr>),
      (''xrDestroyEnvironmentDepthSwapchainMETA'',
       \<lparr>stub_id = 292005,
        stub_request = [Ser ''swapchain''],
        stub_reply = []\<rparr>)])]"

definition ext_stubs_48 :: "(string \<times> (string \<times> rpc_stub) list) list" where
  "ext_stubs_48 =
   [(''XR_META_environment_depth'',
     [(''xrEnumerateEnvironmentDepthSwapchainImagesMETA'',
       \<lparr>stub_id = 292006,
        stub_request = [Ser ''swapchain'', Ser ''imageCapacityInput'', Ser_ptr ''imageCountOutput'' C_one,
          Ser_xr_array ''images'' (C_field ''imageCapacityInput'')],
        stub_reply = [De_ptr ''imageCountOutput'', De_xr_array ''images'']\<rparr>),
      (''xrGetEnvironmentDepthSwapchainStateMETA'',
       \<lparr>stub_id = 292007,
        stub_request = [Ser ''swapchain'', Ser_ptr ''state'' C_one],
        stub_reply = [De_ptr ''state'']\<rparr>),
      (''xrSetEnvironmentDepthHandRemovalMETA'',
       \<lparr>stub_id = 292008,
        stub_request = [Ser ''environmentDepthProvider'', Ser_ptr ''setInfo'' C_one],
        stub_reply = []\<rparr>),
      (''xrStartEnvironmentDepthProviderMETA'',
       \<lparr>stub_id = 292009,
        stub_request = [Ser ''environmentDepthProvider''],
        stub_reply = []\<rparr>)])]"

definition ext_stubs_49 :: "(string \<times> (string \<times> rpc_stub) list) list" where
  "ext_stubs_49 =
   [(''XR_META_environment_depth'',
     [(''xrStopEnvironmentDepthProviderMETA'',
       \<lparr>stub_id = 292010,
        stub_request = [Ser ''environmentDepthProvider''],
        stub_reply = []\<rparr>)]),
    (''XR_META_foveation_eye_tracked'',
     [(''xrGetFoveationEyeTrackedStateMETA'',
       \<lparr>stub_id = 201001,
        stub_request = [Ser ''session'', Ser_ptr ''foveationState'' C_one],
        stub_reply = [De_ptr ''foveationState'']\<rparr>)]),
    (''XR_META_passthrough_color_lut'',
     [(''xrCreatePassthroughColorLutMETA'',
       \<lparr>stub_id = 267001,
        stub_request = [Ser ''passthrough'', Ser_ptr ''createInfo'' C_one, Ser_ptr ''colorLut'' C_one],
        stub_reply = [De_ptr ''colorLut'']\<rparr>),
      (''xrDestroyPassthroughColorLutMETA'',
       \<lparr>stub_id = 267002,
        stub_request = [Ser ''colorLut''],
        stub_reply = []\<rparr>)])]"

definition ext_stubs_50 :: "(string \<times> (string \<times> rpc_stub) list) list" where
  "ext_stubs_50 =
   [(''XR_META_passthrough_color_lut'',
     [(''xrUpdatePassthroughColorLutMETA'',
       \<lparr>stub_id = 267003,
        stub_request = [Ser ''colorLut'', Ser_ptr ''updateInfo'' C_one],
        stub_reply = []\<rparr>)]),
    (''XR_META_passthrough_preferences'',
     [(''xrGetPassthroughPreferencesMETA'',
       \<lparr>stub_id = 218001,
        stub_request = [Ser ''session'', Ser_ptr ''preferences'' C_one],
        stub_reply = [De_ptr ''preferences'']\<rparr>)]),
    (''XR_META_performance_metrics'',
     [(''xrEnumeratePerformanceMetricsCounterPathsMETA'',
       \<lparr>stub_id = 233001,
        stub_request = [Ser ''instance'', Ser ''counterPathCapacityInput'',
          Ser_ptr ''counterPathCountOutput'' C_one,
          Ser_ptr ''counterPaths'' (C_field ''counterPathCapacityInput'')],
        stub_reply = [De_ptr ''counterPathCountOutput'', De_ptr ''counterPaths'']\<rparr>),
      (''xrGetPerformanceMetricsStateMETA'',
       \<lparr>stub_id = 233002,
        stub_request = [Ser ''session'', Ser_ptr ''state'' C_one],
        stub_reply = [De_ptr ''state'']\<rparr>)])]"

definition ext_stubs_51 :: "(string \<times> (string \<times> rpc_stub) list) list" where
  "ext_stubs_51 =
   [(''XR_META_performance_metrics'',
     [(''xrQueryPerformanceMetricsCounterMETA'',
       \<lparr>stub_id = 233003,
        stub_request = [Ser ''session'', Ser ''counterPath'', Ser_ptr ''counter'' C_one],
        stub_reply = [De_ptr ''counter'']\<rparr>),
      (''xrSetPerformanceMetricsStateMETA'',
       \<lparr>stub_id = 233004,
        stub_request = [Ser ''session'', Ser_ptr ''state'' C_one],
        stub_reply = []\<rparr>)]),
    (''XR_META_recommended_layer_resolution'',
     [(''xrGetRecommendedLayerResolutionMETA'',
       \<lparr>stub_id = 255001,
        stub_request = [Ser ''session'', Ser_ptr ''info'' C_one, Ser_ptr ''resolution'' C_one],
        stub_reply = [De_ptr ''resolution'']\<rparr>)]),
    (''XR_META_simultaneous_hands_and_controllers'',
     [(''xrPauseSimultaneousHandsAndControllersTrackingMETA'',
       \<lparr>stub_id = 533001,
        stub_request = [Ser ''session'', Ser_ptr ''pauseInfo'' C_one],
        stub_reply = []\<rparr>)])]"

definition ext_stubs_52 :: "(string \<times> (string \<times> rpc_stub) list) list" where
  "ext_stubs_52 =
   [(''XR_META_simultaneous_hands_and_controllers'',
     [(''xrResumeSimultaneousHandsAndControllersTrackingMETA'',
       \<lparr>stub_id = 533002,
        stub_request = [Ser ''session'', Ser_ptr ''resumeInfo'' C_one],
        stub_reply = []\<rparr>)]),
    (''XR_META_spatial_entity_mesh'',
     [(''xrGetSpaceTriangleMeshMETA'',
       \<lparr>stub_id = 270001,
        stub_request = [Ser ''space'', Ser_ptr ''getInfo'' C_one, Ser_ptr ''triangleMeshOutput'' C_one],
        stub_reply = [De_ptr ''triangleMeshOutput'']\<rparr>)])]"

definition ext_stubs_53 :: "(string \<times> (string \<times> rpc_stub) list) list" where
  "ext_stubs_53 =
   [(''XR_META_virtual_keyboard'',
     [(''xrChangeVirtualKeyboardTextContextMETA'',
       \<lparr>stub_id = 220001,
        stub_request = [Ser ''keyboard'', Ser_ptr ''changeInfo'' C_one],
        stub_reply = []\<rparr>),
      (''xrCreateVirtualKeyboardMETA'',
       \<lparr>stub_id = 220002,
        stub_request = [Ser ''session'', Ser_ptr ''createInfo'' C_one, Ser_ptr ''keyboard'' C_one],
        stub_reply = [De_ptr ''keyboard'']\<rparr>),
      (''xrCreateVirtualKeyboardSpaceMETA'',
       \<lparr>stub_id = 220003,
        stub_request = [Ser ''session'', Ser ''keyboard'', Ser_ptr ''createInfo'' C_one,
          Ser_ptr ''keyboardSpace'' C_one],
        stub_reply = [De_ptr ''keyboardSpace'']\<rparr>),
      (''xrDestroyVirtualKeyboardMETA'',
       \<lparr>stub_id = 220004,
        stub_request = [Ser ''keyboard''],
        stub_reply = []\<rparr>)])]"

definition ext_stubs_54 :: "(string \<times> (string \<times> rpc_stub) list) list" where
  "ext_stubs_54 =
   [(''XR_META_virtual_keyboard'',
     [(''xrGetVirtualKeyboardDirtyTexturesMETA'',
       \<lparr>stub_id = 220005,
        stub_request = [Ser ''keyboard'', Ser ''textureIdCapacityInput'',
          Ser_ptr ''textureIdCountOutput'' C_one,
          Ser_ptr ''textureIds'' (C_field ''textureIdCapacityInput'')],
        stub_reply = [De_ptr ''textureIdCountOutput'', De_ptr ''textureIds'']\<rparr>),
      (''xrGetVirtualKeyboardModelAnimationStatesMETA'',
       \<lparr>stub_id = 220006,
        stub_request = [Ser ''keyboard'', Ser_ptr ''animationStates'' C_one],
        stub_reply = [De_ptr ''animationStates'']\<rparr>),
      (''xrGetVirtualKeyboardScaleMETA'',
       \<lparr>stub_id = 220007,
        stub_request = [Ser ''keyboard'', Ser_ptr ''scale'' C_one],
        stub_reply = [De_ptr ''scale'']\<rparr>),
      (''xrGetVirtualKeyboardTextureDataMETA'',
       \<lparr>stub_id = 220008,
        stub_request = [Ser ''keyboard'', Ser ''textureId'', Ser_ptr ''textureData'' C_one],
        stub_reply = [De_ptr ''textureData'']\<rparr>)])]"

definition ext_stubs_55 :: "(string \<times> (string \<times> rpc_stub) list) list" where
  "ext_stubs_55 =
   [(''XR_META_virtual_keyboard'',
     [(''xrSendVirtualKeyboardInputMETA'',
       \<lparr>stub_id = 220009,
        stub_request = [Ser ''keyboard'', Ser_ptr ''info'' C_one, Ser_ptr ''interactorRootPose'' C_one],
        stub_reply = [De_ptr ''interactorRootPose'']\<rparr>),
      (''xrSetVirtualKeyboardModelVisibilityMETA'',
       \<lparr>stub_id = 220010,
        stub_request = [Ser ''keyboard'', Ser_ptr ''modelVisibility'' C_one],
        stub_reply = []\<rparr>),
      (''xrSuggestVirtualKeyboardLocationMETA'',
       \<lparr>stub_id = 220011,
        stub_request = [Ser ''keyboard'', Ser_ptr ''locationInfo'' C_one],
        stub_reply = []\<rparr>)]),
    (''XR_ML_compat'',
     [(''xrCreateSpaceFromCoordinateFrameUIDML'',
       \<lparr>stub_id = 138001,
        stub_request = [Ser ''session'', Ser_ptr ''createInfo'' C_one, Ser_ptr ''space'' C_one],
        stub_reply = [De_ptr ''space'']\<rparr>)])]"

definition ext_stubs_56 :: "(string \<times> (string \<times> rpc_stub) list) list" where
  "ext_stubs_56 =
   [(''XR_ML_facial_expression'',
     [(''xrCreateFacialExpressionClientML'',
       \<lparr>stub_id = 483001,
        stub_request = [Ser ''session'', Ser_ptr ''createInfo'' C_one,
          Ser_ptr ''facialExpressionClient'' C_one],
        stub_reply = [De_ptr ''facialExpressionClient'']\<rparr>),
      (''xrDestroyFacialExpressionClientML'',
       \<lparr>stub_id = 483002,
        stub_request = [Ser ''facialExpressionClient''],
        stub_reply = []\<rparr>),
      (''xrGetFacialExpressionBlendShapePropertiesML'',
       \<lparr>stub_id = 483003,
        stub_request = [Ser ''facialExpressionClient'', Ser_ptr ''blendShapeGetInfo'' C_one,
          Ser ''blendShapeCount'', Ser_ptr ''blendShapes'' (C_field ''blendShapeCount'')],
        stub_reply = [De_ptr ''blendShapes'']\<rparr>)]),
    (''XR_ML_localization_map'',
     [(''xrCreateExportedLocalizationMapML'',
       \<lparr>stub_id = 140001,
        stub_request = [Ser ''session'', Ser_ptr ''mapUuid'' C_one, Ser_ptr ''map'' C_one],
        stub_reply = [De_ptr ''map'']\<rparr>)])]"

definition ext_stubs_57 :: "(string \<times> (string \<times> rpc_stub) list) list" where
  "ext_stubs_57 =
   [(''XR_ML_localization_map'',
     [(''xrDestroyExportedLocalizationMapML'',
       \<lparr>stub_id = 140002,
        stub_request = [Ser ''map''],
        stub_reply = []\<rparr>),
      (''xrEnableLocalizationEventsML'',
       \<lparr>stub_id = 140003,
        stub_request = [Ser ''session'', Ser_ptr ''info'' C_one],
        stub_reply = []\<rparr>),
      (''xrGetExportedLocalizationMapDataML'',
       \<lparr>stub_id = 140004,
        stub_request = [Ser ''map'', Ser ''bufferCapacityInput'', Ser_ptr ''bufferCountOutput'' C_one,
          Ser_ptr ''buffer'' (C_field ''bufferCapacityInput'')],
        stub_reply = [De_ptr ''bufferCountOutput'', De_ptr ''buffer'']\<rparr>)])]"

definition ext_stubs_58 :: "(string \<times> (string \<times> rpc_stub) list) list" where
  "ext_stubs_58 =
   [(''XR_ML_localization_map'',
     [(''xrQueryLocalizationMapsML'',
       \<lparr>stub_id = 140006,
        stub_request = [Ser ''session'', Ser_xr ''queryInfo'', Ser ''mapCapacityInput'',
          Ser_ptr ''mapCountOutput'' C_one, Ser_ptr ''maps'' (C_field ''mapCapacityInput'')],
        stub_reply = [De_ptr ''mapCountOutput'', De_ptr ''maps'']\<rparr>),
      (''xrRequestMapLocalizationML'',
       \<lparr>stub_id = 140007,
        stub_request = [Ser ''session'', Ser_ptr ''requestInfo'' C_one],
        stub_reply = []\<rparr>)]),
    (''XR_ML_marker_understanding'',
     [(''xrCreateMarkerDetectorML'',
       \<lparr>stub_id = 139001,
        stub_request = [Ser ''session'', Ser_ptr ''createInfo'' C_one, Ser_ptr ''markerDetector'' C_one],
        stub_reply = [De_ptr ''markerDetector'']\<rparr>),
      (''xrCreateMarkerSpaceML'',
       \<lparr>stub_id = 139002,
        stub_request = [Ser ''session'', Ser_ptr ''createInfo'' C_one, Ser_ptr ''space'' C_one],
        stub_reply = [De_ptr ''space'']\<rparr>)])]"

definition ext_stubs_59 :: "(string \<times> (string \<times> rpc_stub) list) list" where
  "ext_stubs_59 =
   [(''XR_ML_marker_understanding'',
     [(''xrDestroyMarkerDetectorML'',
       \<lparr>stub_id = 139003,
        stub_request = [Ser ''markerDetector''],
        stub_reply = []\<rparr>),
      (''xrGetMarkerDetectorStateML'',
       \<lparr>stub_id = 139004,
        stub_request = [Ser ''markerDetector'', Ser_ptr ''state'' C_one],
        stub_reply = [De_ptr ''state'']\<rparr>),
      (''xrGetMarkerLengthML'',
       \<lparr>stub_id = 139005,
        stub_request = [Ser ''markerDetector'', Ser ''marker'', Ser_ptr ''meters'' C_one],
        stub_reply = [De_ptr ''meters'']\<rparr>),
      (''xrGetMarkerNumberML'',
       \<lparr>stub_id = 139006,
        stub_request = [Ser ''markerDetector'', Ser ''marker'', Ser_ptr ''number'' C_one],
        stub_reply = [De_ptr ''number'']\<rparr>)])]"

definition ext_stubs_60 :: "(string \<times> (string \<times> rpc_stub) list) list" where
  "ext_stubs_60 =
   [(''XR_ML_marker_understanding'',
     [(''xrGetMarkerReprojectionErrorML'',
       \<lparr>stub_id = 139007,
        stub_request = [Ser ''markerDetector'', Ser ''marker'', Ser_ptr ''reprojectionErrorMeters'' C_one],
        stub_reply = [De_ptr ''reprojectionErrorMeters'']\<rparr>),
      (''xrGetMarkerStringML'',
       \<lparr>stub_id = 139008,
        stub_request = [Ser ''markerDetector'', Ser ''marker'', Ser ''bufferCapacityInput'',
          Ser_ptr ''bufferCountOutput'' C_one,
          Ser_ptr ''buffer'' (C_field ''bufferCapacityInput'')],
        stub_reply = [De_ptr ''bufferCountOutput'', De_ptr ''buffer'']\<rparr>),
      (''xrGetMarkersML'',
       \<lparr>stub_id = 139009,
        stub_request = [Ser ''markerDetector'', Ser ''markerCapacityInput'',
          Ser_ptr ''markerCountOutput'' C_one,
          Ser_ptr ''markers'' (C_field ''markerCapacityInput'')],
        stub_reply = [De_ptr ''markerCountOutput'', De_ptr ''markers'']\<rparr>)])]"

definition ext_stubs_61 :: "(string \<times> (string \<times> rpc_stub) list) list" where
  "ext_stubs_61 =
   [(''XR_ML_marker_understanding'',
     [(''xrSnapshotMarkerDetectorML'',
       \<lparr>stub_id = 139010,
        stub_request = [Ser ''markerDetector'', Ser_ptr ''snapshotInfo'' C_one],
        stub_reply = [De_ptr ''snapshotInfo'']\<rparr>)]),
    (''XR_ML_spatial_anchors'',
     [(''xrCreateSpatialAnchorsAsyncML'',
       \<lparr>stub_id = 141001,
        stub_request = [Ser ''session'', Ser_xr ''createInfo'', Ser_ptr ''future'' C_one],
        stub_reply = [De_ptr ''future'']\<rparr>),
      (''xrCreateSpatialAnchorsCompleteML'',
       \<lparr>stub_id = 141002,
        stub_request = [Ser ''session'', Ser ''future'', Ser_ptr ''completion'' C_one],
        stub_reply = [De_ptr ''completion'']\<rparr>),
      (''xrGetSpatialAnchorStateML'',
       \<lparr>stub_id = 141003,
        stub_request = [Ser ''anchor'', Ser_ptr ''state'' C_one],
        stub_reply = [De_ptr ''state'']\<rparr>)])]"

definition ext_stubs_62 :: "(string \<times> (string \<times> rpc_stub) list) list" where
  "ext_stubs_62 =
   [(''XR_ML_spatial_anchors_storage'',
     [(''xrCreateSpatialAnchorsStorageML'',
       \<lparr>stub_id = 142001,
        stub_request = [Ser ''session'', Ser_ptr ''createInfo'' C_one, Ser_ptr ''storage'' C_one],
        stub_reply = [De_ptr ''storage'']\<rparr>),
      (''xrDeleteSpatialAnchorsAsyncML'',
       \<lparr>stub_id = 142002,
        stub_request = [Ser ''storage'', Ser_ptr ''deleteInfo'' C_one, Ser_ptr ''future'' C_one],
        stub_reply = [De_ptr ''future'']\<rparr>),
      (''xrDeleteSpatialAnchorsCompleteML'',
       \<lparr>stub_id = 142003,
        stub_request = [Ser ''storage'', Ser ''future'', Ser_ptr ''completion'' C_one],
        stub_reply = [De_ptr ''completion'']\<rparr>),
      (''xrDestroySpatialAnchorsStorageML'',
       \<lparr>stub_id = 142004,
        stub_request = [Ser ''storage''],
        stub_reply = []\<rparr>)])]"

definition ext_stubs_63 :: "(string \<times> (string \<times> rpc_stub) list) list" where
  "ext_stubs_63 =
   [(''XR_ML_spatial_anchors_storage'',
     [(''xrPublishSpatialAnchorsAsyncML'',
       \<lparr>stub_id = 142005,
        stub_request = [Ser ''storage'', Ser_ptr ''publishInfo'' C_one, Ser_ptr ''future'' C_one],
        stub_reply = [De_ptr ''future'']\<rparr>),
      (''xrPublishSpatialAnchorsCompleteML'',
       \<lparr>stub_id = 142006,
        stub_request = [Ser ''storage'', Ser ''future'', Ser_ptr ''completion'' C_one],
        stub_reply = [De_ptr ''completion'']\<rparr>),
      (''xrQuerySpatialAnchorsAsyncML'',
       \<lparr>stub_id = 142007,
        stub_request = [Ser ''storage'', Ser_xr ''queryInfo'', Ser_ptr ''future'' C_one],
        stub_reply = [De_ptr ''future'']\<rparr>),
      (''xrQuerySpatialAnchorsCompleteML'',
       \<lparr>stub_id = 142008,
        stub_request = [Ser ''storage'', Ser ''future'', Ser_ptr ''completion'' C_one],
        stub_reply = [De_ptr ''completion'']\<rparr>)])]"

definition ext_stubs_64 :: "(string \<times> (string \<times> rpc_stub) list) list" where
  "ext_stubs_64 =
   [(''XR_ML_spatial_anchors_storage'',
     [(''xrUpdateSpatialAnchorsExpirationAsyncML'',
       \<lparr>stub_id = 142009,
        stub_request = [Ser ''storage'', Ser_ptr ''updateInfo'' C_one, Ser_ptr ''future'' C_one],
        stub_reply = [De_ptr ''future'']\<rparr>),
      (''xrUpdateSpatialAnchorsExpirationCompleteML'',
       \<lparr>stub_id = 142010,
        stub_request = [Ser ''storage'', Ser ''future'', Ser_ptr ''completion'' C_one],
        stub_reply = [De_ptr ''completion'']\<rparr>)]),
    (''XR_ML_system_notifications'',
     [(''xrSetSystemNotificationsML'',
       \<lparr>stub_id = 474001,
        stub_request = [Ser ''instance'', Ser_ptr ''info'' C_one],
        stub_reply = []\<rparr>)]),
    (''XR_ML_user_calibration'',
     [(''xrEnableUserCalibrationEventsML'',
       \<lparr>stub_id = 473001,
        stub_request = [Ser ''instance'', Ser_ptr ''enableInfo'' C_one],
        stub_reply = []\<rparr>)])]"

definition ext_stubs_65 :: "(string \<times> (string \<times> rpc_stub) list) list" where
  "ext_stubs_65 =
   [(''XR_ML_world_mesh_detection'',
     [(''xrCreateWorldMeshDetectorML'',
       \<lparr>stub_id = 475002,
        stub_request = [Ser ''session'', Ser_ptr ''createInfo'' C_one, Ser_ptr ''detector'' C_one],
        stub_reply = [De_ptr ''detector'']\<rparr>),
      (''xrDestroyWorldMeshDetectorML'',
       \<lparr>stub_id = 475003,
        stub_request = [Ser ''detector''],
        stub_reply = []\<rparr>)])]"

definition ext_stubs_66 :: "(string \<times> (string \<times> rpc_stub) list) list" where
  "ext_stubs_66 =
   [(''XR_ML_world_mesh_detection'',
     [(''xrGetWorldMeshBufferRecommendSizeML'',
       \<lparr>stub_id = 475005,
        stub_request = [Ser ''detector'', Ser_ptr ''sizeInfo'' C_one, Ser_ptr ''size'' C_one],
        stub_reply = [De_ptr ''size'']\<rparr>)])]"

definition ext_stubs_67 :: "(string \<times> (string \<times> rpc_stub) list) list" where
  "ext_stubs_67 =
   [(''XR_ML_world_mesh_detection'',
     [(''xrRequestWorldMeshCompleteML'',
       \<lparr>stub_id = 475007,
        stub_request = [Ser ''detector'', Ser_ptr ''completionInfo'' C_one, Ser ''future'',
          Ser_ptr ''completion'' C_one],
        stub_reply = [De_ptr ''completion'']\<rparr>),
      (''xrRequestWorldMeshStateAsyncML'',
       \<lparr>stub_id = 475008,
        stub_request = [Ser ''detector'', Ser_ptr ''stateRequest'' C_one, Ser_ptr ''future'' C_one],
        stub_reply = [De_ptr ''future'']\<rparr>),
      (''xrRequestWorldMeshStateCompleteML'',
       \<lparr>stub_id = 475009,
        stub_request = [Ser ''detector'', Ser ''future'', Ser_ptr ''completion'' C_one],
        stub_reply = [De_ptr ''completion'']\<rparr>)])]"

definition ext_stubs_68 :: "(string \<times> (string \<times> rpc_stub) list) list" where
  "ext_stubs_68 =
   [(''XR_MSFT_composition_layer_reprojection'',
     [(''xrEnumerateReprojectionModesMSFT'',
       \<lparr>stub_id = 67001,
        stub_request = [Ser ''instance'', Ser ''systemId'', Ser ''viewConfigurationType'',
          Ser ''modeCapacityInput'', Ser_ptr ''modeCountOutput'' C_one,
          Ser_ptr ''modes'' (C_field ''modeCapacityInput'')],
        stub_reply = [De_ptr ''modeCountOutput'', De_ptr ''modes'']\<rparr>)]),
    (''XR_MSFT_controller_model'',
     [(''xrGetControllerModelKeyMSFT'',
       \<lparr>stub_id = 56001,
        stub_request = [Ser ''session'', Ser ''topLevelUserPath'', Ser_ptr ''controllerModelKeyState'' C_one],
        stub_reply = [De_ptr ''controllerModelKeyState'']\<rparr>),
      (''xrGetControllerModelPropertiesMSFT'',
       \<lparr>stub_id = 56002,
        stub_request = [Ser ''session'', Ser ''modelKey'', Ser_ptr ''properties'' C_one],
        stub_reply = [De_ptr ''properties'']\<rparr>)])]"

definition ext_stubs_69 :: "(string \<times> (string \<times> rpc_stub) list) list" where
  "ext_stubs_69 =
   [(''XR_MSFT_controller_model'',
     [(''xrGetControllerModelStateMSFT'',
       \<lparr>stub_id = 56003,
        stub_request = [Ser ''session'', Ser ''modelKey'', Ser_ptr ''state'' C_one],
        stub_reply = [De_ptr ''state'']\<rparr>),
      (''xrLoadControllerModelMSFT'',
       \<lparr>stub_id = 56004,
        stub_request = [Ser ''session'', Ser ''modelKey'', Ser ''bufferCapacityInput'',
          Ser_ptr ''bufferCountOutput'' C_one,
          Ser_ptr ''buffer'' (C_field ''bufferCapacityInput'')],
        stub_reply = [De_ptr ''bufferCountOutput'', De_ptr ''buffer'']\<rparr>)]),
    (''XR_MSFT_hand_tracking_mesh'',
     [(''xrCreateHandMeshSpaceMSFT'',
       \<lparr>stub_id = 53001,
        stub_request = [Ser ''handTracker'', Ser_ptr ''createInfo'' C_one, Ser_ptr ''space'' C_one],
        stub_reply = [De_ptr ''space'']\<rparr>)])]"

definition ext_stubs_70 :: "(string \<times> (string \<times> rpc_stub) list) list" where
  "ext_stubs_70 =
   [(''XR_MSFT_hand_tracking_mesh'',
     [(''xrUpdateHandMeshMSFT'',
       \<lparr>stub_id = 53002,
        stub_request = [Ser ''handTracker'', Ser_ptr ''updateInfo'' C_one, Ser_ptr ''handMesh'' C_one],
        stub_reply = [De_ptr ''handMesh'']\<rparr>)]),
    (''XR_MSFT_perception_anchor_interop'',
     [(''xrCreateSpatialAnchorFromPerceptionAnchorMSFT'',
       \<lparr>stub_id = 57001,
        stub_request = [Ser ''session'', Ser_ptr ''perceptionAnchor'' C_one, Ser_ptr ''anchor'' C_one],
        stub_reply = [De_ptr ''perceptionAnchor'', De_ptr ''anchor'']\<rparr>)])]"

definition ext_stubs_71 :: "(string \<times> (string \<times> rpc_stub) list) list" where
  "ext_stubs_71 =
   [(''XR_MSFT_scene_marker'',
     [(''xrGetSceneMarkerDecodedStringMSFT'',
       \<lparr>stub_id = 148001,
        stub_request = [Ser ''scene'', Ser_ptr ''markerId'' C_one, Ser ''bufferCapacityInput'',
          Ser_ptr ''bufferCountOutput'' C_one,
          Ser_ptr ''buffer'' (C_field ''bufferCapacityInput'')],
        stub_reply = [De_ptr ''bufferCountOutput'', De_ptr ''buffer'']\<rparr>),
      (''xrGetSceneMarkerRawDataMSFT'',
       \<lparr>stub_id = 148002,
        stub_request = [Ser ''scene'', Ser_ptr ''markerId'' C_one, Ser ''bufferCapacityInput'',
          Ser_ptr ''bufferCountOutput'' C_one,
          Ser_ptr ''buffer'' (C_field ''bufferCapacityInput'')],
        stub_reply = [De_ptr ''bufferCountOutput'', De_ptr ''buffer'']\<rparr>)]),
    (''XR_MSFT_scene_understanding'',
     [(''xrComputeNewSceneMSFT'',
       \<lparr>stub_id = 98001,
        stub_request = [Ser ''sceneObserver'', Ser_ptr ''computeInfo'' C_one],
        stub_reply = []\<rparr>)])]"

definition ext_stubs_72 :: "(string \<times> (string \<times> rpc_stub) list) list" where
  "ext_stubs_72 =
   [(''XR_MSFT_scene_understanding'',
     [(''xrCreateSceneMSFT'',
       \<lparr>stub_id = 98002,
        stub_request = [Ser ''sceneObserver'', Ser_ptr ''createInfo'' C_one, Ser_ptr ''scene'' C_one],
        stub_reply = [De_ptr ''scene'']\<rparr>),
      (''xrCreateSceneObserverMSFT'',
       \<lparr>stub_id = 98003,
        stub_request = [Ser ''session'', Ser_ptr ''createInfo'' C_one, Ser_ptr ''sceneObserver'' C_one],
        stub_reply = [De_ptr ''sceneObserver'']\<rparr>),
      (''xrDestroySceneMSFT'',
       \<lparr>stub_id = 98004,
        stub_request = [Ser ''scene''],
        stub_reply = []\<rparr>),
      (''xrDestroySceneObserverMSFT'',
       \<lparr>stub_id = 98005,
        stub_request = [Ser ''sceneObserver''],
        stub_reply = []\<rparr>)])]"

definition ext_stubs_73 :: "(string \<times> (string \<times> rpc_stub) list) list" where
  "ext_stubs_73 =
   [(''XR_MSFT_scene_understanding'',
     [(''xrEnumerateSceneComputeFeaturesMSFT'',
       \<lparr>stub_id = 98006,
        stub_request = [Ser ''instance'', Ser ''systemId'', Ser ''featureCapacityInput'',
          Ser_ptr ''featureCountOutput'' C_one,
          Ser_ptr ''features'' (C_field ''featureCapacityInput'')],
        stub_reply = [De_ptr ''featureCountOutput'', De_ptr ''features'']\<rparr>),
      (''xrGetSceneComponentsMSFT'',
       \<lparr>stub_id = 98007,
        stub_request = [Ser ''scene'', Ser_ptr ''getInfo'' C_one, Ser_ptr ''components'' C_one],
        stub_reply = [De_ptr ''components'']\<rparr>),
      (''xrGetSceneComputeStateMSFT'',
       \<lparr>stub_id = 98008,
        stub_request = [Ser ''sceneObserver'', Ser_ptr ''state'' C_one],
        stub_reply = [De_ptr ''state'']\<rparr>),
      (''xrGetSceneMeshBuffersMSFT'',
       \<lparr>stub_id = 98009,
        stub_request = [Ser ''scene'', Ser_ptr ''getInfo'' C_one, Ser_ptr ''buffers'' C_one],
        stub_reply = [De_ptr ''buffers'']\<rparr>)])]"

definition ext_stubs_74 :: "(string \<times> (string \<times> rpc_stub) list) list" where
  "ext_stubs_74 =
   [(''XR_MSFT_scene_understanding'',
     [(''xrLocateSceneComponentsMSFT'',
       \<lparr>stub_id = 98010,
        stub_request = [Ser ''scene'', Ser_ptr ''locateInfo'' C_one, Ser_ptr ''locations'' C_one],
        stub_reply = [De_ptr ''locations'']\<rparr>)]),
    (''XR_MSFT_scene_understanding_serialization'',
     [(''xrDeserializeSceneMSFT'',
       \<lparr>stub_id = 99001,
        stub_request = [Ser ''sceneObserver'', Ser_ptr ''deserializeInfo'' C_one],
        stub_reply = []\<rparr>),
      (''xrGetSerializedSceneFragmentDataMSFT'',
       \<lparr>stub_id = 99002,
        stub_request = [Ser ''scene'', Ser_ptr ''getInfo'' C_one, Ser ''countInput'',
          Ser_ptr ''readOutput'' C_one, Ser_ptr ''buffer'' (C_field ''countInput'')],
        stub_reply = [De_ptr ''readOutput'', De_ptr ''buffer'']\<rparr>)])]"

definition ext_stubs_75 :: "(string \<times> (string \<times> rpc_stub) list) list" where
  "ext_stubs_75 =
   [(''XR_MSFT_spatial_anchor'',
     [(''xrCreateSpatialAnchorMSFT'',
       \<lparr>stub_id = 40001,
        stub_request = [Ser ''session'', Ser_ptr ''createInfo'' C_one, Ser_ptr ''anchor'' C_one],
        stub_reply = [De_ptr ''anchor'']\<rparr>),
      (''xrCreateSpatialAnchorSpaceMSFT'',
       \<lparr>stub_id = 40002,
        stub_request = [Ser ''session'', Ser_ptr ''createInfo'' C_one, Ser_ptr ''space'' C_one],
        stub_reply = [De_ptr ''space'']\<rparr>),
      (''xrDestroySpatialAnchorMSFT'',
       \<lparr>stub_id = 40003,
        stub_request = [Ser ''anchor''],
        stub_reply = []\<rparr>)]),
    (''XR_MSFT_spatial_anchor_persistence'',
     [(''xrClearSpatialAnchorStoreMSFT'',
       \<lparr>stub_id = 143001,
        stub_request = [Ser ''spatialAnchorStore''],
        stub_reply = []\<rparr>)])]"

definition ext_stubs_76 :: "(string \<times> (string \<times> rpc_stub) list) list" where
  "ext_stubs_76 =
   [(''XR_MSFT_spatial_anchor_persistence'',
     [(''xrCreateSpatialAnchorFromPersistedNameMSFT'',
       \<lparr>stub_id = 143002,
        stub_request = [Ser ''session'', Ser_ptr ''spatialAnchorCreateInfo'' C_one,
          Ser_ptr ''spatialAnchor'' C_one],
        stub_reply = [De_ptr ''spatialAnchor'']\<rparr>),
      (''xrCreateSpatialAnchorStoreConnectionMSFT'',
       \<lparr>stub_id = 143003,
        stub_request = [Ser ''session'', Ser_ptr ''spatialAnchorStore'' C_one],
        stub_reply = [De_ptr ''spatialAnchorStore'']\<rparr>),
      (''xrDestroySpatialAnchorStoreConnectionMSFT'',
       \<lparr>stub_id = 143004,
        stub_request = [Ser ''spatialAnchorStore''],
        stub_reply = []\<rparr>),
      (''xrEnumeratePersistedSpatialAnchorNamesMSFT'',
       \<lparr>stub_id = 143005,
        stub_request = [Ser ''spatialAnchorStore'', Ser ''spatialAnchorNameCapacityInput'',
          Ser_ptr ''spatialAnchorNameCountOutput'' C_one,
          Ser_ptr ''spatialAnchorNames'' (C_field ''spatialAnchorNameCapacityInput'')],
        stub_reply = [De_ptr ''spatialAnchorNameCountOutput'', De_ptr ''spatialAnchorNames'']\<rparr>)])]"

definition ext_stubs_77 :: "(string \<times> (string \<times> rpc_stub) list) list" where
  "ext_stubs_77 =
   [(''XR_MSFT_spatial_anchor_persistence'',
     [(''xrPersistSpatialAnchorMSFT'',
       \<lparr>stub_id = 143006,
        stub_request = [Ser ''spatialAnchorStore'', Ser_ptr ''spatialAnchorPersistenceInfo'' C_one],
        stub_reply = []\<rparr>),
      (''xrUnpersistSpatialAnchorMSFT'',
       \<lparr>stub_id = 143007,
        stub_request = [Ser ''spatialAnchorStore'', Ser_ptr ''spatialAnchorPersistenceName'' C_one],
        stub_reply = []\<rparr>)]),
    (''XR_MSFT_spatial_graph_bridge'',
     [(''xrCreateSpatialGraphNodeSpaceMSFT'',
       \<lparr>stub_id = 50001,
        stub_request = [Ser ''session'', Ser_ptr ''createInfo'' C_one, Ser_ptr ''space'' C_one],
        stub_reply = [De_ptr ''space'']\<rparr>),
      (''xrDestroySpatialGraphNodeBindingMSFT'',
       \<lparr>stub_id = 50002,
        stub_request = [Ser ''nodeBinding''],
        stub_reply = []\<rparr>)])]"

definition ext_stubs_78 :: "(string \<times> (string \<times> rpc_stub) list) list" where
  "ext_stubs_78 =
   [(''XR_MSFT_spatial_graph_bridge'',
     [(''xrGetSpatialGraphNodeBindingPropertiesMSFT'',
       \<lparr>stub_id = 50003,
        stub_request = [Ser ''nodeBinding'', Ser_ptr ''getInfo'' C_one, Ser_ptr ''properties'' C_one],
        stub_reply = [De_ptr ''properties'']\<rparr>),
      (''xrTryCreateSpatialGraphStaticNodeBindingMSFT'',
       \<lparr>stub_id = 50004,
        stub_request = [Ser ''session'', Ser_ptr ''createInfo'' C_one, Ser_ptr ''nodeBinding'' C_one],
        stub_reply = [De_ptr ''nodeBinding'']\<rparr>)]),
    (''XR_OCULUS_audio_device_guid'',
     [(''xrGetAudioInputDeviceGuidOculus'',
       \<lparr>stub_id = 160001,
        stub_request = [Ser ''instance'',
          Ser_array ''buffer'' (B_const ''XR_MAX_AUDIO_DEVICE_STR_SIZE_OCULUS'')],
        stub_reply = [De_ptr ''buffer'']\<rparr>),
      (''xrGetAudioOutputDeviceGuidOculus'',
       \<lparr>stub_id = 160002,
        stub_request = [Ser ''instance'',
          Ser_array ''buffer'' (B_const ''XR_MAX_AUDIO_DEVICE_STR_SIZE_OCULUS'')],
        stub_reply = [De_ptr ''buffer'']\<rparr>)])]"

definition ext_stubs_79 :: "(string \<times> (string \<times> rpc_stub) list) list" where
  "ext_stubs_79 =
   [(''XR_OCULUS_external_camera'',
     [(''xrEnumerateExternalCamerasOCULUS'',
       \<lparr>stub_id = 227001,
        stub_request = [Ser ''session'', Ser ''cameraCapacityInput'', Ser_ptr ''cameraCountOutput'' C_one,
          Ser_ptr ''cameras'' (C_field ''cameraCapacityInput'')],
        stub_reply = [De_ptr ''cameraCountOutput'', De_ptr ''cameras'']\<rparr>)]),
    (''XR_QCOM_tracking_optimization_settings'',
     [(''xrSetTrackingOptimizationSettingsHintQCOM'',
       \<lparr>stub_id = 307001,
        stub_request = [Ser ''session'', Ser ''domain'', Ser ''hint''],
        stub_reply = []\<rparr>)]),
    (''XR_VARJO_environment_depth_estimation'',
     [(''xrSetEnvironmentDepthEstimationVARJO'',
       \<lparr>stub_id = 124001,
        stub_request = [Ser ''session'', Ser ''enabled''],
        stub_reply = []\<rparr>)])]"

definition ext_stubs_80 :: "(string \<times> (string \<times> rpc_stub) list) list" where
  "ext_stubs_80 =
   [(''XR_VARJO_marker_tracking'',
     [(''xrCreateMarkerSpaceVARJO'',
       \<lparr>stub_id = 125001,
        stub_request = [Ser ''session'', Ser_ptr ''createInfo'' C_one, Ser_ptr ''space'' C_one],
        stub_reply = [De_ptr ''space'']\<rparr>),
      (''xrGetMarkerSizeVARJO'',
       \<lparr>stub_id = 125002,
        stub_request = [Ser ''session'', Ser ''markerId'', Ser_ptr ''size'' C_one],
        stub_reply = [De_ptr ''size'']\<rparr>),
      (''xrSetMarkerTrackingPredictionVARJO'',
       \<lparr>stub_id = 125003,
        stub_request = [Ser ''session'', Ser ''markerId'', Ser ''enable''],
        stub_reply = []\<rparr>),
      (''xrSetMarkerTrackingTimeoutVARJO'',
       \<lparr>stub_id = 125004,
        stub_request = [Ser ''session'', Ser ''markerId'', Ser ''timeout''],
        stub_reply = []\<rparr>)])]"

definition ext_stubs_81 :: "(string \<times> (string \<times> rpc_stub) list) list" where
  "ext_stubs_81 =
   [(''XR_VARJO_marker_tracking'',
     [(''xrSetMarkerTrackingVARJO'',
       \<lparr>stub_id = 125005,
        stub_request = [Ser ''session'', Ser ''enabled''],
        stub_reply = []\<rparr>)]),
    (''XR_VARJO_view_offset'',
     [(''xrSetViewOffsetVARJO'',
       \<lparr>stub_id = 126001,
        stub_request = [Ser ''session'', Ser ''offset''],
        stub_reply = []\<rparr>)])]"

definition ext_stubs :: "(string \<times> (string \<times> rpc_stub) list) list" where
  "ext_stubs =
     ext_stubs_1 @ ext_stubs_2 @ ext_stubs_3 @ ext_stubs_4 @ ext_stubs_5 @ ext_stubs_6 @
     ext_stubs_7 @ ext_stubs_8 @ ext_stubs_9 @ ext_stubs_10 @ ext_stubs_11 @ ext_stubs_12 @
     ext_stubs_13 @ ext_stubs_14 @ ext_stubs_15 @ ext_stubs_16 @ ext_stubs_17 @ ext_stubs_18 @
     ext_stubs_19 @ ext_stubs_20 @ ext_stubs_21 @ ext_stubs_22 @ ext_stubs_23 @ ext_stubs_24 @
     ext_stubs_25 @ ext_stubs_26 @ ext_stubs_27 @ ext_stubs_28 @ ext_stubs_29 @ ext_stubs_30 @
     ext_stubs_31 @ ext_stubs_32 @ ext_stubs_33 @ ext_stubs_34 @ ext_stubs_35 @ ext_stubs_36 @
     ext_stubs_37 @ ext_stubs_38 @ ext_stubs_39 @ ext_stubs_40 @ ext_stubs_41 @ ext_stubs_42 @
     ext_stubs_43 @ ext_stubs_44 @ ext_stubs_45 @ ext_stubs_46 @ ext_stubs_47 @ ext_stubs_48 @
     ext_stubs_49 @ ext_stubs_50 @ ext_stubs_51 @ ext_stubs_52 @ ext_stubs_53 @ ext_stubs_54 @
     ext_stubs_55 @ ext_stubs_56 @ ext_stubs_57 @ ext_stubs_58 @ ext_stubs_59 @ ext_stubs_60 @
     ext_stubs_61 @ ext_stubs_62 @ ext_stubs_63 @ ext_stubs_64 @ ext_stubs_65 @ ext_stubs_66 @
     ext_stubs_67 @ ext_stubs_68 @ ext_stubs_69 @ ext_stubs_70 @ ext_stubs_71 @ ext_stubs_72 @
     ext_stubs_73 @ ext_stubs_74 @ ext_stubs_75 @ ext_stubs_76 @ ext_stubs_77 @ ext_stubs_78 @
     ext_stubs_79 @ ext_stubs_80 @ ext_stubs_81"

lemmas ext_stubs_defs =
  ext_stubs_1_def ext_stubs_2_def ext_stubs_3_def ext_stubs_4_def ext_stubs_5_def
  ext_stubs_6_def ext_stubs_7_def ext_stubs_8_def ext_stubs_9_def ext_stubs_10_def
  ext_stubs_11_def ext_stubs_12_def ext_stubs_13_def ext_stubs_14_def ext_stubs_15_def
  ext_stubs_16_def ext_stubs_17_def ext_stubs_18_def ext_stubs_19_def ext_stubs_20_def
  ext_stubs_21_def ext_stubs_22_def ext_stubs_23_def ext_stubs_24_def ext_stubs_25_def
  ext_stubs_26_def ext_stubs_27_def ext_stubs_28_def ext_stubs_29_def ext_stubs_30_def
  ext_stubs_31_def ext_stubs_32_def ext_stubs_33_def ext_stubs_34_def ext_stubs_35_def
  ext_stubs_36_def ext_stubs_37_def ext_stubs_38_def ext_stubs_39_def ext_stubs_40_def
  ext_stubs_41_def ext_stubs_42_def ext_stubs_43_def ext_stubs_44_def ext_stubs_45_def
  ext_stubs_46_def ext_stubs_47_def ext_stubs_48_def ext_stubs_49_def ext_stubs_50_def
  ext_stubs_51_def ext_stubs_52_def ext_stubs_53_def ext_stubs_54_def ext_stubs_55_def
  ext_stubs_56_def ext_stubs_57_def ext_stubs_58_def ext_stubs_59_def ext_stubs_60_def
  ext_stubs_61_def ext_stubs_62_def ext_stubs_63_def ext_stubs_64_def ext_stubs_65_def
  ext_stubs_66_def ext_stubs_67_def ext_stubs_68_def ext_stubs_69_def ext_stubs_70_def
  ext_stubs_71_def ext_stubs_72_def ext_stubs_73_def ext_stubs_74_def ext_stubs_75_def
  ext_stubs_76_def ext_stubs_77_def ext_stubs_78_def ext_stubs_79_def ext_stubs_80_def
  ext_stubs_81_def


end
