(* ===== verification/Ext_Handlers.thy ===== *)
theory Ext_Handlers
  imports Rpc_Frame
begin

text \<open>
  The handlers of the extensions in \<open>src/server/function_dispatch.cpp\<close>, the counterparts of
  \<open>Ext_Stubs\<close>.
\<close>

definition ext_handlers_1 :: "(string \<times> (string \<times> rpc_handler) list) list" where
  "ext_handlers_1 =
   [(''XR_ALMALENCE_digital_lens_control'',
     [(''xrSetDigitalLensControlALMALENCE'',
       \<lparr>handler_params = [De ''session'', De_ptr ''digitalLensControl''],
        handler_reply = [],
        handler_cleanup = [Cl ''session'', Cl_ptr ''digitalLensControl'' C_one]\<rparr>)]),
    (''XR_BD_body_tracking'',
     [(''xrCreateBodyTrackerBD'',
       \<lparr>handler_params = [De ''session'', De_ptr ''createInfo'', De_ptr ''bodyTracker''],
        handler_reply = [Ser_ptr ''bodyTracker'' C_one],
        handler_cleanup = [Cl ''session'', Cl_ptr ''createInfo'' C_one, Cl_ptr ''bodyTracker'' C_one]\<rparr>),
      (''xrDestroyBodyTrackerBD'',
       \<lparr>handler_params = [De ''bodyTracker''],
        handler_reply = [],
        handler_cleanup = [Cl ''bodyTracker'']\<rparr>),
      (''xrLocateBodyJointsBD'',
       \<lparr>handler_params = [De ''bodyTracker'', De_ptr ''locateInfo'', De_ptr ''locations''],
        handler_reply = [Ser_ptr ''locations'' C_one],
        handler_cleanup = [Cl ''bodyTracker'', Cl_ptr ''locateInfo'' C_one, Cl_ptr ''locations'' C_one]\<rparr>)])]"

definition ext_handlers_2 :: "(string \<times> (string \<times> rpc_handler) list) list" where
  "ext_handlers_2 =
   [(''XR_BD_spatial_anchor'',
     [(''xrCreateSpatialAnchorAsyncBD'',
       \<lparr>handler_params = [De ''provider'', De_ptr ''info'', De_ptr ''future''],
        handler_reply = [Ser_ptr ''future'' C_one],
        handler_cleanup = [Cl ''provider'', Cl_ptr ''info'' C_one, Cl_ptr ''future'' C_one]\<rparr>),
      (''xrCreateSpatialAnchorCompleteBD'',
       \<lparr>handler_params = [De ''provider'', De ''future'', De_ptr ''completion''],
        handler_reply = [Ser_ptr ''completion'' C_one],
        handler_cleanup = [Cl ''provider'', Cl ''future'', Cl_ptr ''completion'' C_one]\<rparr>),
      (''xrPersistSpatialAnchorAsyncBD'',
       \<lparr>handler_params = [De ''provider'', De_ptr ''info'', De_ptr ''future''],
        handler_reply = [Ser_ptr ''future'' C_one],
        handler_cleanup = [Cl ''provider'', Cl_ptr ''info'' C_one, Cl_ptr ''future'' C_one]\<rparr>),
      (''xrPersistSpatialAnchorCompleteBD'',
       \<lparr>handler_params = [De ''provider'', De ''future'', De_ptr ''completion''],
        handler_reply = [Ser_ptr ''completion'' C_one],
        handler_cleanup = [Cl ''provider'', Cl ''future'', Cl_ptr ''completion'' C_one]\<rparr>)])]"

definition ext_handlers_3 :: "(string \<times> (string \<times> rpc_handler) list) list" where
  "ext_handlers_3 =
   [(''XR_BD_spatial_anchor'',
     [(''xrUnpersistSpatialAnchorAsyncBD'',
       \<lparr>handler_params = [De ''provider'', De_ptr ''info'', De_ptr ''future''],
        handler_reply = [Ser_ptr ''future'' C_one],
        handler_cleanup = [Cl ''provider'', Cl_ptr ''info'' C_one, Cl_ptr ''future'' C_one]\<rparr>),
      (''xrUnpersistSpatialAnchorCompleteBD'',
       \<lparr>handler_params = [De ''provider'', De ''future'', De_ptr ''completion''],
        handler_reply = [Ser_ptr ''completion'' C_one],
        handler_cleanup = [Cl ''provider'', Cl ''future'', Cl_ptr ''completion'' C_one]\<rparr>)]),
    (''XR_BD_spatial_anchor_sharing'',
     [(''xrDownloadSharedSpatialAnchorAsyncBD'',
       \<lparr>handler_params = [De ''provider'', De_ptr ''info'', De_ptr ''future''],
        handler_reply = [Ser_ptr ''future'' C_one],
        handler_cleanup = [Cl ''provider'', Cl_ptr ''info'' C_one, Cl_ptr ''future'' C_one]\<rparr>),
      (''xrDownloadSharedSpatialAnchorCompleteBD'',
       \<lparr>handler_params = [De ''provider'', De ''future'', De_ptr ''completion''],
        handler_reply = [Ser_ptr ''completion'' C_one],
        handler_cleanup = [Cl ''provider'', Cl ''future'', Cl_ptr ''completion'' C_one]\<rparr>)])]"

definition ext_handlers_4 :: "(string \<times> (string \<times> rpc_handler) list) list" where
  "ext_handlers_4 =
   [(''XR_BD_spatial_anchor_sharing'',
     [(''xrShareSpatialAnchorAsyncBD'',
       \<lparr>handler_params = [De ''provider'', De_ptr ''info'', De_ptr ''future''],
        handler_reply = [Ser_ptr ''future'' C_one],
        handler_cleanup = [Cl ''provider'', Cl_ptr ''info'' C_one, Cl_ptr ''future'' C_one]\<rparr>),
      (''xrShareSpatialAnchorCompleteBD'',
       \<lparr>handler_params = [De ''provider'', De ''future'', De_ptr ''completion''],
        handler_reply = [Ser_ptr ''completion'' C_one],
        handler_cleanup = [Cl ''provider'', Cl ''future'', Cl_ptr ''completion'' C_one]\<rparr>)]),
    (''XR_BD_spatial_scene'',
     [(''xrCaptureSceneAsyncBD'',
       \<lparr>handler_params = [De ''provider'', De_ptr ''info'', De_ptr ''future''],
        handler_reply = [Ser_ptr ''future'' C_one],
        handler_cleanup = [Cl ''provider'', Cl_ptr ''info'' C_one, Cl_ptr ''future'' C_one]\<rparr>),
      (''xrCaptureSceneCompleteBD'',
       \<lparr>handler_params = [De ''provider'', De ''future'', De_ptr ''completion''],
        handler_reply = [Ser_ptr ''completion'' C_one],
        handler_cleanup = [Cl ''provider'', Cl ''future'', Cl_ptr ''completion'' C_one]\<rparr>)])]"

definition ext_handlers_5 :: "(string \<times> (string \<times> rpc_handler) list) list" where
  "ext_handlers_5 =
   [(''XR_BD_spatial_sensing'',
     [(''xrCreateAnchorSpaceBD'',
       \<lparr>handler_params = [De ''session'', De_ptr ''createInfo'', De_ptr ''space''],
        handler_reply = [Ser_ptr ''space'' C_one],
        handler_cleanup = [Cl ''session'', Cl_ptr ''createInfo'' C_one, Cl_ptr ''space'' C_one]\<rparr>),
      (''xrCreateSenseDataProviderBD'',
       \<lparr>handler_params = [De ''session'', De_ptr ''createInfo'', De_ptr ''provider''],
        handler_reply = [Ser_ptr ''provider'' C_one],
        handler_cleanup = [Cl ''session'', Cl_ptr ''createInfo'' C_one, Cl_ptr ''provider'' C_one]\<rparr>),
      (''xrCreateSpatialEntityAnchorBD'',
       \<lparr>handler_params = [De ''provider'', De_ptr ''createInfo'', De_ptr ''anchor''],
        handler_reply = [Ser_ptr ''anchor'' C_one],
        handler_cleanup = [Cl ''provider'', Cl_ptr ''createInfo'' C_one, Cl_ptr ''anchor'' C_one]\<rparr>),
      (''xrDestroyAnchorBD'',
       \<lparr>handler_params = [De ''anchor''],
        handler_reply = [],
        handler_cleanup = [Cl ''anchor'']\<rparr>)])]"

definition ext_handlers_6 :: "(string \<times> (string \<times> rpc_handler) list) list" where
  "ext_handlers_6 =
   [(''XR_BD_spatial_sensing'',
     [(''xrDestroySenseDataProviderBD'',
       \<lparr>handler_params = [De ''provider''],
        handler_reply = [],
        handler_cleanup = [Cl ''provider'']\<rparr>),
      (''xrDestroySenseDataSnapshotBD'',
       \<lparr>handler_params = [De ''snapshot''],
        handler_reply = [],
        handler_cleanup = [Cl ''snapshot'']\<rparr>),
      (''xrEnumerateSpatialEntityComponentTypesBD'',
       \<lparr>handler_params = [De ''snapshot'', De ''entityId'', De ''componentTypeCapacityInput'',
          De_ptr ''componentTypeCountOutput'', De_ptr ''componentTypes''],
        handler_reply = [Ser_ptr ''componentTypeCountOutput'' C_one,
          Ser_ptr ''componentTypes'' (C_field ''componentTypeCapacityInput'')],
        handler_cleanup = [Cl ''snapshot'', Cl ''entityId'', Cl ''componentTypeCapacityInput'',
          Cl_ptr ''componentTypeCountOutput'' C_one,
          Cl_ptr ''componentTypes'' (C_field ''componentTypeCapacityInput'')]\<rparr>),
      (''xrGetAnchorUuidBD'',
       \<lparr>handler_params = [De ''anchor'', De_ptr ''uuid''],
        handler_reply = [Ser_ptr ''uuid'' C_one],
        handler_cleanup = [Cl ''anchor'', Cl_ptr ''uuid'' C_one]\<rparr>)])]"

definition ext_handlers_7 :: "(string \<times> (string \<times> rpc_handler) list) list" where
  "ext_handlers_7 =
   [(''XR_BD_spatial_sensing'',
     [(''xrGetQueriedSenseDataBD'',
       \<lparr>handler_params = [De ''snapshot'', De_ptr ''getInfo'', De_ptr ''queriedSenseData''],
        handler_reply = [Ser_ptr ''getInfo'' C_one, Ser_ptr ''queriedSenseData'' C_one],
        handler_cleanup = [Cl ''snapshot'', Cl_ptr ''getInfo'' C_one, Cl_ptr ''queriedSenseData'' C_one]\<rparr>),
      (''xrGetSenseDataProviderStateBD'',
       \<lparr>handler_params = [De ''provider'', De_ptr ''state''],
        handler_reply = [Ser_ptr ''state'' C_one],
        handler_cleanup = [Cl ''provider'', Cl_ptr ''state'' C_one]\<rparr>),
      (''xrGetSpatialEntityComponentDataBD'',
       \<lparr>handler_params = [De ''snapshot'', De_ptr ''getInfo'', De_xr ''componentData''],
        handler_reply = [Ser_xr ''componentData''],
        handler_cleanup = [Cl ''snapshot'', Cl_ptr ''getInfo'' C_one, Cl_xr ''componentData'']\<rparr>),
      (''xrGetSpatialEntityUuidBD'',
       \<lparr>handler_params = [De ''snapshot'', De ''entityId'', De_ptr ''uuid''],
        handler_reply = [Ser_ptr ''uuid'' C_one],
        handler_cleanup = [Cl ''snapshot'', Cl ''entityId'', Cl_ptr ''uuid'' C_one]\<rparr>)])]"

definition ext_handlers_8 :: "(string \<times> (string \<times> rpc_handler) list) list" where
  "ext_handlers_8 =
   [(''XR_BD_spatial_sensing'',
     [(''xrQuerySenseDataAsyncBD'',
       \<lparr>handler_params = [De ''provider'', De_ptr ''queryInfo'', De_ptr ''future''],
        handler_reply = [Ser_ptr ''future'' C_one],
        handler_cleanup = [Cl ''provider'', Cl_ptr ''queryInfo'' C_one, Cl_ptr ''future'' C_one]\<rparr>),
      (''xrQuerySenseDataCompleteBD'',
       \<lparr>handler_params = [De ''provider'', De ''future'', De_ptr ''completion''],
        handler_reply = [Ser_ptr ''completion'' C_one],
        handler_cleanup = [Cl ''provider'', Cl ''future'', Cl_ptr ''completion'' C_one]\<rparr>),
      (''xrStartSenseDataProviderAsyncBD'',
       \<lparr>handler_params = [De ''provider'', De_ptr ''startInfo'', De_ptr ''future''],
        handler_reply = [Ser_ptr ''future'' C_one],
        handler_cleanup = [Cl ''provider'', Cl_ptr ''startInfo'' C_one, Cl_ptr ''future'' C_one]\<rparr>),
      (''xrStartSenseDataProviderCompleteBD'',
       \<lparr>handler_params = [De ''session'', De ''future'', De_ptr ''completion''],
        handler_reply = [Ser_ptr ''completion'' C_one],
        handler_cleanup = [Cl ''session'', Cl ''future'', Cl_ptr ''completion'' C_one]\<rparr>)])]"

definition ext_handlers_9 :: "(string \<times> (string \<times> rpc_handler) list) list" where
  "ext_handlers_9 =
   [(''XR_BD_spatial_sensing'',
     [(''xrStopSenseDataProviderBD'',
       \<lparr>handler_params = [De ''provider''],
        handler_reply = [],
        handler_cleanup = [Cl ''provider'']\<rparr>)]),
    (''XR_EXT_conformance_automation'',
     [(''xrSetInputDeviceActiveEXT'',
       \<lparr>handler_params = [De ''session'', De ''interactionProfile'', De ''topLevelPath'', De ''isActive''],
        handler_reply = [],
        handler_cleanup = [Cl ''session'', Cl ''interactionProfile'', Cl ''topLevelPath'', Cl ''isActive'']\<rparr>),
      (''xrSetInputDeviceLocationEXT'',
       \<lparr>handler_params = [De ''session'', De ''topLevelPath'', De ''inputSourcePath'', De ''space'',
          De ''pose''],
        handler_reply = [],
        handler_cleanup = [Cl ''session'', Cl ''topLevelPath'', Cl ''inputSourcePath'', Cl ''space'',
          Cl ''pose'']\<rparr>),
      (''xrSetInputDeviceStateBoolEXT'',
       \<lparr>handler_params = [De ''session'', De ''topLevelPath'', De ''inputSourcePath'', De ''state''],
        handler_reply = [],
        handler_cleanup = [Cl ''session'', Cl ''topLevelPath'', Cl ''inputSourcePath'', Cl ''state'']\<rparr>)])]"

definition ext_handlers_10 :: "(string \<times> (string \<times> rpc_handler) list) list" where
  "ext_handlers_10 =
   [(''XR_EXT_conformance_automation'',
     [(''xrSetInputDeviceStateFloatEXT'',
       \<lparr>handler_params = [De ''session'', De ''topLevelPath'', De ''inputSourcePath'', De ''state''],
        handler_reply = [],
        handler_cleanup = [Cl ''session'', Cl ''topLevelPath'', Cl ''inputSourcePath'', Cl ''state'']\<rparr>),
      (''xrSetInputDeviceStateVector2fEXT'',
       \<lparr>handler_params = [De ''session'', De ''topLevelPath'', De ''inputSourcePath'', De ''state''],
        handler_reply = [],
        handler_cleanup = [Cl ''session'', Cl ''topLevelPath'', Cl ''inputSourcePath'', Cl ''state'']\<rparr>)])]"

definition ext_handlers_11 :: "(string \<times> (string \<times> rpc_handler) list) list" where
  "ext_handlers_11 =
   [(''XR_EXT_debug_utils'',
     [(''xrDestroyDebugUtilsMessengerEXT'',
       \<lparr>handler_params = [De ''messenger''],
        handler_reply = [],
        handler_cleanup = [Cl ''messenger'']\<rparr>),
      (''xrSessionBeginDebugUtilsLabelRegionEXT'',
       \<lparr>handler_params = [De ''session'', De_ptr ''labelInfo''],
        handler_reply = [],
        handler_cleanup = [Cl ''session'', Cl_ptr ''labelInfo'' C_one]\<rparr>),
      (''xrSessionEndDebugUtilsLabelRegionEXT'',
       \<lparr>handler_params = [De ''session''],
        handler_reply = [],
        handler_cleanup = [Cl ''session'']\<rparr>),
      (''xrSessionInsertDebugUtilsLabelEXT'',
       \<lparr>handler_params = [De ''session'', De_ptr ''labelInfo''],
        handler_reply = [],
        handler_cleanup = [Cl ''session'', Cl_ptr ''labelInfo'' C_one]\<rparr>)])]"

definition ext_handlers_12 :: "(string \<times> (string \<times> rpc_handler) list) list" where
  "ext_handlers_12 =
   [(''XR_EXT_debug_utils'',
     [(''xrSetDebugUtilsObjectNameEXT'',
       \<lparr>handler_params = [De ''instance'', De_ptr ''nameInfo''],
        handler_reply = [],
        handler_cleanup = [Cl ''instance'', Cl_ptr ''nameInfo'' C_one]\<rparr>)])]"

definition ext_handlers_13 :: "(string \<times> (string \<times> rpc_handler) list) list" where
  "ext_handlers_13 =
   [(''XR_EXT_future'',
     [(''xrCancelFutureEXT'',
       \<lparr>handler_params = [De ''instance'', De_ptr ''cancelInfo''],
        handler_reply = [],
        handler_cleanup = [Cl ''instance'', Cl_ptr ''cancelInfo'' C_one]\<rparr>),
      (''xrPollFutureEXT'',
       \<lparr>handler_params = [De ''instance'', De_ptr ''pollInfo'', De_ptr ''pollResult''],
        handler_reply = [Ser_ptr ''pollResult'' C_one],
        handler_cleanup = [Cl ''instance'', Cl_ptr ''pollInfo'' C_one, Cl_ptr ''pollResult'' C_one]\<rparr>)]),
    (''XR_EXT_hand_tracking'',
     [(''xrCreateHandTrackerEXT'',
       \<lparr>handler_params = [De ''session'', De_ptr ''createInfo'', De_ptr ''handTracker''],
        handler_reply = [Ser_ptr ''handTracker'' C_one],
        handler_cleanup = [Cl ''session'', Cl_ptr ''createInfo'' C_one, Cl_ptr ''handTracker'' C_one]\<rparr>),
      (''xrDestroyHandTrackerEXT'',
       \<lparr>handler_params = [De ''handTracker''],
        handler_reply = [],
        handler_cleanup = [Cl ''handTracker'']\<rparr>)])]"

definition ext_handlers_14 :: "(string \<times> (string \<times> rpc_handler) list) list" where
  "ext_handlers_14 =
   [(''XR_EXT_hand_tracking'',
     [(''xrLocateHandJointsEXT'',
       \<lparr>handler_params = [De ''handTracker'', De_ptr ''locateInfo'', De_ptr ''locations''],
        handler_reply = [Ser_ptr ''locations'' C_one],
        handler_cleanup = [Cl ''handTracker'', Cl_ptr ''locateInfo'' C_one, Cl_ptr ''locations'' C_one]\<rparr>)]),
    (''XR_EXT_performance_settings'',
     [(''xrPerfSettingsSetPerformanceLevelEXT'',
       \<lparr>handler_params = [De ''session'', De ''domain'', De ''level''],
        handler_reply = [],
        handler_cleanup = [Cl ''session'', Cl ''domain'', Cl ''level'']\<rparr>)]),
    (''XR_EXT_plane_detection'',
     [(''xrBeginPlaneDetectionEXT'',
       \<lparr>handler_params = [De ''planeDetector'', De_ptr ''beginInfo''],
        handler_reply = [],
        handler_cleanup = [Cl ''planeDetector'', Cl_ptr ''beginInfo'' C_one]\<rparr>),
      (''xrCreatePlaneDetectorEXT'',
       \<lparr>handler_params = [De ''session'', De_ptr ''createInfo'', De_ptr ''planeDetector''],
        handler_reply = [Ser_ptr ''planeDetector'' C_one],
        handler_cleanup = [Cl ''session'', Cl_ptr ''createInfo'' C_one, Cl_ptr ''planeDetector'' C_one]\<rparr>)])]"

definition ext_handlers_15 :: "(string \<times> (string \<times> rpc_handler) list) list" where
  "ext_handlers_15 =
   [(''XR_EXT_plane_detection'',
     [(''xrDestroyPlaneDetectorEXT'',
       \<lparr>handler_params = [De ''planeDetector''],
        handler_reply = [],
        handler_cleanup = [Cl ''planeDetector'']\<rparr>),
      (''xrGetPlaneDetectionStateEXT'',
       \<lparr>handler_params = [De ''planeDetector'', De_ptr ''state''],
        handler_reply = [Ser_ptr ''state'' C_one],
        handler_cleanup = [Cl ''planeDetector'', Cl_ptr ''state'' C_one]\<rparr>),
      (''xrGetPlaneDetectionsEXT'',
       \<lparr>handler_params = [De ''planeDetector'', De_ptr ''info'', De_ptr ''locations''],
        handler_reply = [Ser_ptr ''locations'' C_one],
        handler_cleanup = [Cl ''planeDetector'', Cl_ptr ''info'' C_one, Cl_ptr ''locations'' C_one]\<rparr>),
      (''xrGetPlanePolygonBufferEXT'',
       \<lparr>handler_params = [De ''planeDetector'', De ''planeId'', De ''polygonBufferIndex'',
          De_ptr ''polygonBuffer''],
        handler_reply = [Ser_ptr ''polygonBuffer'' C_one],
        handler_cleanup = [Cl ''planeDetector'', Cl ''planeId'', Cl ''polygonBufferIndex'',
          Cl_ptr ''polygonBuffer'' C_one]\<rparr>)])]"

definition ext_handlers_16 :: "(string \<times> (string \<times> rpc_handler) list) list" where
  "ext_handlers_16 =
   [(''XR_EXT_thermal_query'',
     [(''xrThermalGetTemperatureTrendEXT'',
       \<lparr>handler_params = [De ''session'', De ''domain'', De_ptr ''notificationLevel'',
          De_ptr ''tempHeadroom'', De_ptr ''tempSlope''],
        handler_reply = [Ser_ptr ''notificationLevel'' C_one, Ser_ptr ''tempHeadroom'' C_one,
          Ser_ptr ''tempSlope'' C_one],
        handler_cleanup = [Cl ''session'', Cl ''domain'', Cl_ptr ''notificationLevel'' C_one,
          Cl_ptr ''tempHeadroom'' C_one, Cl_ptr ''tempSlope'' C_one]\<rparr>)]),
    (''XR_FB_body_tracking'',
     [(''xrCreateBodyTrackerFB'',
       \<lparr>handler_params = [De ''session'', De_ptr ''createInfo'', De_ptr ''bodyTracker''],
        handler_reply = [Ser_ptr ''bodyTracker'' C_one],
        handler_cleanup = [Cl ''session'', Cl_ptr ''createInfo'' C_one, Cl_ptr ''bodyTracker'' C_one]\<rparr>),
      (''xrDestroyBodyTrackerFB'',
       \<lparr>handler_params = [De ''bodyTracker''],
        handler_reply = [],
        handler_cleanup = [Cl ''bodyTracker'']\<rparr>),
      (''xrGetBodySkeletonFB'',
       \<lparr>handler_params = [De ''bodyTracker'', De_ptr ''skeleton''],
        handler_reply = [Ser_ptr ''skeleton'' C_one],
        handler_cleanup = [Cl ''bodyTracker'', Cl_ptr ''skeleton'' C_one]\<rparr>)])]"

definition ext_handlers_17 :: "(string \<times> (string \<times> rpc_handler) list) list" where
  "ext_handlers_17 =
   [(''XR_FB_body_tracking'',
     [(''xrLocateBodyJointsFB'',
       \<lparr>handler_params = [De ''bodyTracker'', De_ptr ''locateInfo'', De_ptr ''locations''],
        handler_reply = [Ser_ptr ''locations'' C_one],
        handler_cleanup = [Cl ''bodyTracker'', Cl_ptr ''locateInfo'' C_one, Cl_ptr ''locations'' C_one]\<rparr>)]),
    (''XR_FB_color_space'',
     [(''xrEnumerateColorSpacesFB'',
       \<lparr>handler_params = [De ''session'', De ''colorSpaceCapacityInput'', De_ptr ''colorSpaceCountOutput'',
          De_ptr ''colorSpaces''],
        handler_reply = [Ser_ptr ''colorSpaceCountOutput'' C_one,
          Ser_ptr ''colorSpaces'' (C_field ''colorSpaceCapacityInput'')],
        handler_cleanup = [Cl ''session'', Cl ''colorSpaceCapacityInput'',
          Cl_ptr ''colorSpaceCountOutput'' C_one,
          Cl_ptr ''colorSpaces'' (C_field ''colorSpaceCapacityInput'')]\<rparr>),
      (''xrSetColorSpaceFB'',
       \<lparr>handler_params = [De ''session'', De ''colorSpace''],
        handler_reply = [],
        handler_cleanup = [Cl ''session'', Cl ''colorSpace'']\<rparr>)])]"

definition ext_handlers_18 :: "(string \<times> (string \<times> rpc_handler) list) list" where
  "ext_handlers_18 =
   [(''XR_FB_display_refresh_rate'',
     [(''xrEnumerateDisplayRefreshRatesFB'',
       \<lparr>handler_params = [De ''session'', De ''displayRefreshRateCapacityInput'',
          De_ptr ''displayRefreshRateCountOutput'', De_ptr ''displayRefreshRates''],
        handler_reply = [Ser_ptr ''displayRefreshRateCountOutput'' C_one,
          Ser_ptr ''displayRefreshRates'' (C_field ''displayRefreshRateCapacityInput'')],
        handler_cleanup = [Cl ''session'', Cl ''displayRefreshRateCapacityInput'',
          Cl_ptr ''displayRefreshRateCountOutput'' C_one,
          Cl_ptr ''displayRefreshRates'' (C_field ''displayRefreshRateCapacityInput'')]\<rparr>),
      (''xrGetDisplayRefreshRateFB'',
       \<lparr>handler_params = [De ''session'', De_ptr ''displayRefreshRate''],
        handler_reply = [Ser_ptr ''displayRefreshRate'' C_one],
        handler_cleanup = [Cl ''session'', Cl_ptr ''displayRefreshRate'' C_one]\<rparr>),
      (''xrRequestDisplayRefreshRateFB'',
       \<lparr>handler_params = [De ''session'', De ''displayRefreshRate''],
        handler_reply = [],
        handler_cleanup = [Cl ''session'', Cl ''displayRefreshRate'']\<rparr>)]),
    (''XR_FB_eye_tracking_social'',
     [(''xrCreateEyeTrackerFB'',
       \<lparr>handler_params = [De ''session'', De_ptr ''createInfo'', De_ptr ''eyeTracker''],
        handler_reply = [Ser_ptr ''eyeTracker'' C_one],
        handler_cleanup = [Cl ''session'', Cl_ptr ''createInfo'' C_one, Cl_ptr ''eyeTracker'' C_one]\<rparr>)])]"

definition ext_handlers_19 :: "(string \<times> (string \<times> rpc_handler) list) list" where
  "ext_handlers_19 =
   [(''XR_FB_eye_tracking_social'',
     [(''xrDestroyEyeTrackerFB'',
       \<lparr>handler_params = [De ''eyeTracker''],
        handler_reply = [],
        handler_cleanup = [Cl ''eyeTracker'']\<rparr>),
      (''xrGetEyeGazesFB'',
       \<lparr>handler_params = [De ''eyeTracker'', De_ptr ''gazeInfo'', De_ptr ''eyeGazes''],
        handler_reply = [Ser_ptr ''eyeGazes'' C_one],
        handler_cleanup = [Cl ''eyeTracker'', Cl_ptr ''gazeInfo'' C_one, Cl_ptr ''eyeGazes'' C_one]\<rparr>)]),
    (''XR_FB_face_tracking'',
     [(''xrCreateFaceTrackerFB'',
       \<lparr>handler_params = [De ''session'', De_ptr ''createInfo'', De_ptr ''faceTracker''],
        handler_reply = [Ser_ptr ''faceTracker'' C_one],
        handler_cleanup = [Cl ''session'', Cl_ptr ''createInfo'' C_one, Cl_ptr ''faceTracker'' C_one]\<rparr>),
      (''xrDestroyFaceTrackerFB'',
       \<lparr>handler_params = [De ''faceTracker''],
        handler_reply = [],
        handler_cleanup = [Cl ''faceTracker'']\<rparr>)])]"

definition ext_handlers_20 :: "(string \<times> (string \<times> rpc_handler) list) list" where
  "ext_handlers_20 =
   [(''XR_FB_face_tracking'',
     [(''xrGetFaceExpressionWeightsFB'',
       \<lparr>handler_params = [De ''faceTracker'', De_ptr ''expressionInfo'', De_ptr ''expressionWeights''],
        handler_reply = [Ser_ptr ''expressionWeights'' C_one],
        handler_cleanup = [Cl ''faceTracker'', Cl_ptr ''expressionInfo'' C_one,
          Cl_ptr ''expressionWeights'' C_one]\<rparr>)])]"

definition ext_handlers_21 :: "(string \<times> (string \<times> rpc_handler) list) list" where
  "ext_handlers_21 =
   [(''XR_FB_face_tracking2'',
     [(''xrDestroyFaceTracker2FB'',
       \<lparr>handler_params = [De ''faceTracker''],
        handler_reply = [],
        handler_cleanup = [Cl ''faceTracker'']\<rparr>),
      (''xrGetFaceExpressionWeights2FB'',
       \<lparr>handler_params = [De ''faceTracker'', De_ptr ''expressionInfo'', De_ptr ''expressionWeights''],
        handler_reply = [Ser_ptr ''expressionWeights'' C_one],
        handler_cleanup = [Cl ''faceTracker'', Cl_ptr ''expressionInfo'' C_one,
          Cl_ptr ''expressionWeights'' C_one]\<rparr>)])]"

definition ext_handlers_22 :: "(string \<times> (string \<times> rpc_handler) list) list" where
  "ext_handlers_22 =
   [(''XR_FB_foveation'',
     [(''xrDestroyFoveationProfileFB'',
       \<lparr>handler_params = [De ''profile''],
        handler_reply = [],
        handler_cleanup = [Cl ''profile'']\<rparr>)]),
    (''XR_FB_hand_tracking_mesh'',
     [(''xrGetHandMeshFB'',
       \<lparr>handler_params = [De ''handTracker'', De_ptr ''mesh''],
        handler_reply = [Ser_ptr ''mesh'' C_one],
        handler_cleanup = [Cl ''handTracker'', Cl_ptr ''mesh'' C_one]\<rparr>)]),
    (''XR_FB_haptic_pcm'',
     [(''xrGetDeviceSampleRateFB'',
       \<lparr>handler_params = [De ''session'', De_ptr ''hapticActionInfo'', De_ptr ''deviceSampleRate''],
        handler_reply = [Ser_ptr ''deviceSampleRate'' C_one],
        handler_cleanup = [Cl ''session'', Cl_ptr ''hapticActionInfo'' C_one, Cl_ptr ''deviceSampleRate'' C_one]\<rparr>)])]"

definition ext_handlers_23 :: "(string \<times> (string \<times> rpc_handler) list) list" where
  "ext_handlers_23 =
   [(''XR_FB_passthrough'',
     [(''xrCreateGeometryInstanceFB'',
       \<lparr>handler_params = [De ''session'', De_ptr ''createInfo'', De_ptr ''outGeometryInstance''],
        handler_reply = [Ser_ptr ''outGeometryInstance'' C_one],
        handler_cleanup = [Cl ''session'', Cl_ptr ''createInfo'' C_one, Cl_ptr ''outGeometryInstance'' C_one]\<rparr>),
      (''xrCreatePassthroughFB'',
       \<lparr>handler_params = [De ''session'', De_ptr ''createInfo'', De_ptr ''outPassthrough''],
        handler_reply = [Ser_ptr ''outPassthrough'' C_one],
        handler_cleanup = [Cl ''session'', Cl_ptr ''createInfo'' C_one, Cl_ptr ''outPassthrough'' C_one]\<rparr>),
      (''xrCreatePassthroughLayerFB'',
       \<lparr>handler_params = [De ''session'', De_ptr ''createInfo'', De_ptr ''outLayer''],
        handler_reply = [Ser_ptr ''outLayer'' C_one],
        handler_cleanup = [Cl ''session'', Cl_ptr ''createInfo'' C_one, Cl_ptr ''outLayer'' C_one]\<rparr>),
      (''xrDestroyGeometryInstanceFB'',
       \<lparr>handler_params = [De ''instance''],
        handler_reply = [],
        handler_cleanup = [Cl ''instance'']\<rparr>)])]"

definition ext_handlers_24 :: "(string \<times> (string \<times> rpc_handler) list) list" where
  "ext_handlers_24 =
   [(''XR_FB_passthrough'',
     [(''xrDestroyPassthroughFB'',
       \<lparr>handler_params = [De ''passthrough''],
        handler_reply = [],
        handler_cleanup = [Cl ''passthrough'']\<rparr>),
      (''xrDestroyPassthroughLayerFB'',
       \<lparr>handler_params = [De ''layer''],
        handler_reply = [],
        handler_cleanup = [Cl ''layer'']\<rparr>),
      (''xrGeometryInstanceSetTransformFB'',
       \<lparr>handler_params = [De ''instance'', De_ptr ''transformation''],
        handler_reply = [],
        handler_cleanup = [Cl ''instance'', Cl_ptr ''transformation'' C_one]\<rparr>),
      (''xrPassthroughLayerPauseFB'',
       \<lparr>handler_params = [De ''layer''],
        handler_reply = [],
        handler_cleanup = [Cl ''layer'']\<rparr>)])]"

definition ext_handlers_25 :: "(string \<times> (string \<times> rpc_handler) list) list" where
  "ext_handlers_25 =
   [(''XR_FB_passthrough'',
     [(''xrPassthroughLayerResumeFB'',
       \<lparr>handler_params = [De ''layer''],
        handler_reply = [],
        handler_cleanup = [Cl ''layer'']\<rparr>),
      (''xrPassthroughLayerSetStyleFB'',
       \<lparr>handler_params = [De ''layer'', De_ptr ''style''],
        handler_reply = [],
        handler_cleanup = [Cl ''layer'', Cl_ptr ''style'' C_one]\<rparr>),
      (''xrPassthroughPauseFB'',
       \<lparr>handler_params = [De ''passthrough''],
        handler_reply = [],
        handler_cleanup = [Cl ''passthrough'']\<rparr>),
      (''xrPassthroughStartFB'',
       \<lparr>handler_params = [De ''passthrough''],
        handler_reply = [],
        handler_cleanup = [Cl ''passthrough'']\<rparr>)])]"

definition ext_handlers_26 :: "(string \<times> (string \<times> rpc_handler) list) list" where
  "ext_handlers_26 =
   [(''XR_FB_passthrough_keyboard_hands'',
     [(''xrPassthroughLayerSetKeyboardHandsIntensityFB'',
       \<lparr>handler_params = [De ''layer'', De_ptr ''intensity''],
        handler_reply = [],
        handler_cleanup = [Cl ''layer'', Cl_ptr ''intensity'' C_one]\<rparr>)]),
    (''XR_FB_render_model'',
     [(''xrEnumerateRenderModelPathsFB'',
       \<lparr>handler_params = [De ''session'', De ''pathCapacityInput'', De_ptr ''pathCountOutput'',
          De_ptr ''paths''],
        handler_reply = [Ser_ptr ''pathCountOutput'' C_one, Ser_ptr ''paths'' (C_field ''pathCapacityInput'')],
        handler_cleanup = [Cl ''session'', Cl ''pathCapacityInput'', Cl_ptr ''pathCountOutput'' C_one,
          Cl_ptr ''paths'' (C_field ''pathCapacityInput'')]\<rparr>),
      (''xrGetRenderModelPropertiesFB'',
       \<lparr>handler_params = [De ''session'', De ''path'', De_ptr ''properties''],
        handler_reply = [Ser_ptr ''properties'' C_one],
        handler_cleanup = [Cl ''session'', Cl ''path'', Cl_ptr ''properties'' C_one]\<rparr>)])]"

definition ext_handlers_27 :: "(string \<times> (string \<times> rpc_handler) list) list" where
  "ext_handlers_27 =
   [(''XR_FB_scene'',
     [(''xrGetSpaceBoundary2DFB'',
       \<lparr>handler_params = [De ''session'', De ''space'', De_ptr ''boundary2DOutput''],
        handler_reply = [Ser_ptr ''boundary2DOutput'' C_one],
        handler_cleanup = [Cl ''session'', Cl ''space'', Cl_ptr ''boundary2DOutput'' C_one]\<rparr>),
      (''xrGetSpaceBoundingBox2DFB'',
       \<lparr>handler_params = [De ''session'', De ''space'', De_ptr ''boundingBox2DOutput''],
        handler_reply = [Ser_ptr ''boundingBox2DOutput'' C_one],
        handler_cleanup = [Cl ''session'', Cl ''space'', Cl_ptr ''boundingBox2DOutput'' C_one]\<rparr>),
      (''xrGetSpaceBoundingBox3DFB'',
       \<lparr>handler_params = [De ''session'', De ''space'', De_ptr ''boundingBox3DOutput''],
        handler_reply = [Ser_ptr ''boundingBox3DOutput'' C_one],
        handler_cleanup = [Cl ''session'', Cl ''space'', Cl_ptr ''boundingBox3DOutput'' C_one]\<rparr>),
      (''xrGetSpaceRoomLayoutFB'',
       \<lparr>handler_params = [De ''session'', De ''space'', De_ptr ''roomLayoutOutput''],
        handler_reply = [Ser_ptr ''roomLayoutOutput'' C_one],
        handler_cleanup = [Cl ''session'', Cl ''space'', Cl_ptr ''roomLayoutOutput'' C_one]\<rparr>)])]"

definition ext_handlers_28 :: "(string \<times> (string \<times> rpc_handler) list) list" where
  "ext_handlers_28 =
   [(''XR_FB_scene'',
     [(''xrGetSpaceSemanticLabelsFB'',
       \<lparr>handler_params = [De ''session'', De ''space'', De_ptr ''semanticLabelsOutput''],
        handler_reply = [Ser_ptr ''semanticLabelsOutput'' C_one],
        handler_cleanup = [Cl ''session'', Cl ''space'', Cl_ptr ''semanticLabelsOutput'' C_one]\<rparr>)]),
    (''XR_FB_scene_capture'',
     [(''xrRequestSceneCaptureFB'',
       \<lparr>handler_params = [De ''session'', De_ptr ''info'', De_ptr ''requestId''],
        handler_reply = [Ser_ptr ''requestId'' C_one],
        handler_cleanup = [Cl ''session'', Cl_ptr ''info'' C_one, Cl_ptr ''requestId'' C_one]\<rparr>)]),
    (''XR_FB_spatial_entity'',
     [(''xrCreateSpatialAnchorFB'',
       \<lparr>handler_params = [De ''session'', De_ptr ''info'', De_ptr ''requestId''],
        handler_reply = [Ser_ptr ''requestId'' C_one],
        handler_cleanup = [Cl ''session'', Cl_ptr ''info'' C_one, Cl_ptr ''requestId'' C_one]\<rparr>)])]"

definition ext_handlers_29 :: "(string \<times> (string \<times> rpc_handler) list) list" where
  "ext_handlers_29 =
   [(''XR_FB_spatial_entity'',
     [(''xrEnumerateSpaceSupportedComponentsFB'',
       \<lparr>handler_params = [De ''space'', De ''componentTypeCapacityInput'',
          De_ptr ''componentTypeCountOutput'', De_ptr ''componentTypes''],
        handler_reply = [Ser_ptr ''componentTypeCountOutput'' C_one,
          Ser_ptr ''componentTypes'' (C_field ''componentTypeCapacityInput'')],
        handler_cleanup = [Cl ''space'', Cl ''componentTypeCapacityInput'',
          Cl_ptr ''componentTypeCountOutput'' C_one,
          Cl_ptr ''componentTypes'' (C_field ''componentTypeCapacityInput'')]\<rparr>),
      (''xrGetSpaceComponentStatusFB'',
       \<lparr>handler_params = [De ''space'', De ''componentType'', De_ptr ''status''],
        handler_reply = [Ser_ptr ''status'' C_one],
        handler_cleanup = [Cl ''space'', Cl ''componentType'', Cl_ptr ''status'' C_one]\<rparr>),
      (''xrGetSpaceUuidFB'',
       \<lparr>handler_params = [De ''space'', De_ptr ''uuid''],
        handler_reply = [Ser_ptr ''uuid'' C_one],
        handler_cleanup = [Cl ''space'', Cl_ptr ''uuid'' C_one]\<rparr>),
      (''xrSetSpaceComponentStatusFB'',
       \<lparr>handler_params = [De ''space'', De_ptr ''info'', De_ptr ''requestId''],
        handler_reply = [Ser_ptr ''requestId'' C_one],
        handler_cleanup = [Cl ''space'', Cl_ptr ''info'' C_one, Cl_ptr ''requestId'' C_one]\<rparr>)])]"

definition ext_handlers_30 :: "(string \<times> (string \<times> rpc_handler) list) list" where
  "ext_handlers_30 =
   [(''XR_FB_spatial_entity_container'',
     [(''xrGetSpaceContainerFB'',
       \<lparr>handler_params = [De ''session'', De ''space'', De_ptr ''spaceContainerOutput''],
        handler_reply = [Ser_ptr ''spaceContainerOutput'' C_one],
        handler_cleanup = [Cl ''session'', Cl ''space'', Cl_ptr ''spaceContainerOutput'' C_one]\<rparr>)]),
    (''XR_FB_spatial_entity_query'',
     [(''xrQuerySpacesFB'',
       \<lparr>handler_params = [De ''session'', De_xr ''info'', De_ptr ''requestId''],
        handler_reply = [Ser_ptr ''requestId'' C_one],
        handler_cleanup = [Cl ''session'', Cl_xr ''info'', Cl_ptr ''requestId'' C_one]\<rparr>),
      (''xrRetrieveSpaceQueryResultsFB'',
       \<lparr>handler_params = [De ''session'', De ''requestId'', De_ptr ''results''],
        handler_reply = [Ser_ptr ''results'' C_one],
        handler_cleanup = [Cl ''session'', Cl ''requestId'', Cl_ptr ''results'' C_one]\<rparr>)])]"

definition ext_handlers_31 :: "(string \<times> (string \<times> rpc_handler) list) list" where
  "ext_handlers_31 =
   [(''XR_FB_spatial_entity_storage'',
     [(''xrEraseSpaceFB'',
       \<lparr>handler_params = [De ''session'', De_ptr ''info'', De_ptr ''requestId''],
        handler_reply = [Ser_ptr ''requestId'' C_one],
        handler_cleanup = [Cl ''session'', Cl_ptr ''info'' C_one, Cl_ptr ''requestId'' C_one]\<rparr>),
      (''xrSaveSpaceFB'',
       \<lparr>handler_params = [De ''session'', De_ptr ''info'', De_ptr ''requestId''],
        handler_reply = [Ser_ptr ''requestId'' C_one],
        handler_cleanup = [Cl ''session'', Cl_ptr ''info'' C_one, Cl_ptr ''requestId'' C_one]\<rparr>)])]"

definition ext_handlers_32 :: "(string \<times> (string \<times> rpc_handler) list) list" where
  "ext_handlers_32 =
   [(''XR_FB_spatial_entity_user'',
     [(''xrCreateSpaceUserFB'',
       \<lparr>handler_params = [De ''session'', De_ptr ''info'', De_ptr ''user''],
        handler_reply = [Ser_ptr ''user'' C_one],
        handler_cleanup = [Cl ''session'', Cl_ptr ''info'' C_one, Cl_ptr ''user'' C_one]\<rparr>),
      (''xrDestroySpaceUserFB'',
       \<lparr>handler_params = [De ''user''],
        handler_reply = [],
        handler_cleanup = [Cl ''user'']\<rparr>),
      (''xrGetSpaceUserIdFB'',
       \<lparr>handler_params = [De ''user'', De_ptr ''userId''],
        handler_reply = [Ser_ptr ''userId'' C_one],
        handler_cleanup = [Cl ''user'', Cl_ptr ''userId'' C_one]\<rparr>)]),
    (''XR_FB_swapchain_update_state'',
     [(''xrGetSwapchainStateFB'',
       \<lparr>handler_params = [De ''swapchain'', De_xr ''state''],
        handler_reply = [Ser_xr ''state''],
        handler_cleanup = [Cl ''swapchain'', Cl_xr ''state'']\<rparr>)])]"

definition ext_handlers_33 :: "(string \<times> (string \<times> rpc_handler) list) list" where
  "ext_handlers_33 =
   [(''XR_FB_swapchain_update_state'',
     [(''xrUpdateSwapchainFB'',
       \<lparr>handler_params = [De ''swapchain'', De_xr ''state''],
        handler_reply = [],
        handler_cleanup = [Cl ''swapchain'', Cl_xr ''state'']\<rparr>)]),
    (''XR_FB_triangle_mesh'',
     [(''xrCreateTriangleMeshFB'',
       \<lparr>handler_params = [De ''session'', De_ptr ''createInfo'', De_ptr ''outTriangleMesh''],
        handler_reply = [Ser_ptr ''outTriangleMesh'' C_one],
        handler_cleanup = [Cl ''session'', Cl_ptr ''createInfo'' C_one, Cl_ptr ''outTriangleMesh'' C_one]\<rparr>),
      (''xrDestroyTriangleMeshFB'',
       \<lparr>handler_params = [De ''mesh''],
        handler_reply = [],
        handler_cleanup = [Cl ''mesh'']\<rparr>),
      (''xrTriangleMeshBeginUpdateFB'',
       \<lparr>handler_params = [De ''mesh''],
        handler_reply = [],
        handler_cleanup = [Cl ''mesh'']\<rparr>)])]"

definition ext_handlers_34 :: "(string \<times> (string \<times> rpc_handler) list) list" where
  "ext_handlers_34 =
   [(''XR_FB_triangle_mesh'',
     [(''xrTriangleMeshBeginVertexBufferUpdateFB'',
       \<lparr>handler_params = [De ''mesh'', De_ptr ''outVertexCount''],
        handler_reply = [Ser_ptr ''outVertexCount'' C_one],
        handler_cleanup = [Cl ''mesh'', Cl_ptr ''outVertexCount'' C_one]\<rparr>),
      (''xrTriangleMeshEndUpdateFB'',
       \<lparr>handler_params = [De ''mesh'', De ''vertexCount'', De ''triangleCount''],
        handler_reply = [],
        handler_cleanup = [Cl ''mesh'', Cl ''vertexCount'', Cl ''triangleCount'']\<rparr>),
      (''xrTriangleMeshEndVertexBufferUpdateFB'',
       \<lparr>handler_params = [De ''mesh''],
        handler_reply = [],
        handler_cleanup = [Cl ''mesh'']\<rparr>)])]"

definition ext_handlers_35 :: "(string \<times> (string \<times> rpc_handler) list) list" where
  "ext_handlers_35 =
   [(''XR_HTCX_vive_tracker_interaction'',
     [(''xrEnumerateViveTrackerPathsHTCX'',
       \<lparr>handler_params = [De ''instance'', De ''pathCapacityInput'', De_ptr ''pathCountOutput'',
          De_ptr ''paths''],
        handler_reply = [Ser_ptr ''pathCountOutput'' C_one, Ser_ptr ''paths'' (C_field ''pathCapacityInput'')],
        handler_cleanup = [Cl ''instance'', Cl ''pathCapacityInput'', Cl_ptr ''pathCountOutput'' C_one,
          Cl_ptr ''paths'' (C_field ''pathCapacityInput'')]\<rparr>)]),
    (''XR_HTC_anchor'',
     [(''xrCreateSpatialAnchorHTC'',
       \<lparr>handler_params = [De ''session'', De_ptr ''createInfo'', De_ptr ''anchor''],
        handler_reply = [Ser_ptr ''anchor'' C_one],
        handler_cleanup = [Cl ''session'', Cl_ptr ''createInfo'' C_one, Cl_ptr ''anchor'' C_one]\<rparr>),
      (''xrGetSpatialAnchorNameHTC'',
       \<lparr>handler_params = [De ''anchor'', De_ptr ''name''],
        handler_reply = [Ser_ptr ''name'' C_one],
        handler_cleanup = [Cl ''anchor'', Cl_ptr ''name'' C_one]\<rparr>)])]"

definition ext_handlers_36 :: "(string \<times> (string \<times> rpc_handler) list) list" where
  "ext_handlers_36 =
   [(''XR_HTC_body_tracking'',
     [(''xrCreateBodyTrackerHTC'',
       \<lparr>handler_params = [De ''session'', De_ptr ''createInfo'', De_ptr ''bodyTracker''],
        handler_reply = [Ser_ptr ''bodyTracker'' C_one],
        handler_cleanup = [Cl ''session'', Cl_ptr ''createInfo'' C_one, Cl_ptr ''bodyTracker'' C_one]\<rparr>),
      (''xrDestroyBodyTrackerHTC'',
       \<lparr>handler_params = [De ''bodyTracker''],
        handler_reply = [],
        handler_cleanup = [Cl ''bodyTracker'']\<rparr>),
      (''xrGetBodySkeletonHTC'',
       \<lparr>handler_params = [De ''bodyTracker'', De ''baseSpace'', De ''skeletonGenerationId'',
          De_ptr ''skeleton''],
        handler_reply = [Ser_ptr ''skeleton'' C_one],
        handler_cleanup = [Cl ''bodyTracker'', Cl ''baseSpace'', Cl ''skeletonGenerationId'',
          Cl_ptr ''skeleton'' C_one]\<rparr>),
      (''xrLocateBodyJointsHTC'',
       \<lparr>handler_params = [De ''bodyTracker'', De_ptr ''locateInfo'', De_ptr ''locations''],
        handler_reply = [Ser_ptr ''locations'' C_one],
        handler_cleanup = [Cl ''bodyTracker'', Cl_ptr ''locateInfo'' C_one, Cl_ptr ''locations'' C_one]\<rparr>)])]"

definition ext_handlers_37 :: "(string \<times> (string \<times> rpc_handler) list) list" where
  "ext_handlers_37 =
   [(''XR_HTC_facial_tracking'',
     [(''xrCreateFacialTrackerHTC'',
       \<lparr>handler_params = [De ''session'', De_ptr ''createInfo'', De_ptr ''facialTracker''],
        handler_reply = [Ser_ptr ''facialTracker'' C_one],
        handler_cleanup = [Cl ''session'', Cl_ptr ''createInfo'' C_one, Cl_ptr ''facialTracker'' C_one]\<rparr>),
      (''xrDestroyFacialTrackerHTC'',
       \<lparr>handler_params = [De ''facialTracker''],
        handler_reply = [],
        handler_cleanup = [Cl ''facialTracker'']\<rparr>),
      (''xrGetFacialExpressionsHTC'',
       \<lparr>handler_params = [De ''facialTracker'', De_ptr ''facialExpressions''],
        handler_reply = [Ser_ptr ''facialExpressions'' C_one],
        handler_cleanup = [Cl ''facialTracker'', Cl_ptr ''facialExpressions'' C_one]\<rparr>)])]"

definition ext_handlers_38 :: "(string \<times> (string \<times> rpc_handler) list) list" where
  "ext_handlers_38 =
   [(''XR_HTC_passthrough'',
     [(''xrCreatePassthroughHTC'',
       \<lparr>handler_params = [De ''session'', De_ptr ''createInfo'', De_ptr ''passthrough''],
        handler_reply = [Ser_ptr ''passthrough'' C_one],
        handler_cleanup = [Cl ''session'', Cl_ptr ''createInfo'' C_one, Cl_ptr ''passthrough'' C_one]\<rparr>),
      (''xrDestroyPassthroughHTC'',
       \<lparr>handler_params = [De ''passthrough''],
        handler_reply = [],
        handler_cleanup = [Cl ''passthrough'']\<rparr>)]),
    (''XR_KHR_D3D11_enable'',
     [(''xrGetD3D11GraphicsRequirementsKHR'',
       \<lparr>handler_params = [De ''instance'', De ''systemId'', De_ptr ''graphicsRequirements''],
        handler_reply = [Ser_ptr ''graphicsRequirements'' C_one],
        handler_cleanup = [Cl ''instance'', Cl ''systemId'', Cl_ptr ''graphicsRequirements'' C_one]\<rparr>)]),
    (''XR_KHR_D3D12_enable'',
     [(''xrGetD3D12GraphicsRequirementsKHR'',
       \<lparr>handler_params = [De ''instance'', De ''systemId'', De_ptr ''graphicsRequirements''],
        handler_reply = [Ser_ptr ''graphicsRequirements'' C_one],
        handler_cleanup = [Cl ''instance'', Cl ''systemId'', Cl_ptr ''graphicsRequirements'' C_one]\<rparr>)])]"

definition ext_handlers_39 :: "(string \<times> (string \<times> rpc_handler) list) list" where
  "ext_handlers_39 =
   [(''XR_KHR_android_surface_swapchain'',
     [(''xrCreateSwapchainAndroidSurfaceKHR'',
       \<lparr>handler_params = [De ''session'', De_ptr ''info'', De_ptr ''swapchain'', De_ptr ''surface''],
        handler_reply = [Ser_ptr ''swapchain'' C_one, Ser_ptr ''surface'' C_one],
        handler_cleanup = [Cl ''session'', Cl_ptr ''info'' C_one, Cl_ptr ''swapchain'' C_one,
          Cl_ptr ''surface'' C_one]\<rparr>)]),
    (''XR_KHR_android_thread_settings'',
     [(''xrSetAndroidApplicationThreadKHR'',
       \<lparr>handler_params = [De ''session'', De ''threadType'', De ''threadId''],
        handler_reply = [],
        handler_cleanup = [Cl ''session'', Cl ''threadType'', Cl ''threadId'']\<rparr>)]),
    (''XR_KHR_convert_timespec_time'',
     [(''xrConvertTimeToTimespecTimeKHR'',
       \<lparr>handler_params = [De ''instance'', De_time ''time'', De_ptr ''timespecTime''],
        handler_reply = [Ser_ptr ''timespecTime'' C_one],
        handler_cleanup = [Cl ''instance'', Cl ''time'', Cl_ptr ''timespecTime'' C_one]\<rparr>)])]"

definition ext_handlers_40 :: "(string \<times> (string \<times> rpc_handler) list) list" where
  "ext_handlers_40 =
   [(''XR_KHR_convert_timespec_time'',
     [(''xrConvertTimespecTimeToTimeKHR'',
       \<lparr>handler_params = [De ''instance'', De_ptr ''timespecTime'', De_ptr ''time''],
        handler_reply = [Ser_ptr ''timespecTime'' C_one, Ser_ptr ''time'' C_one],
        handler_cleanup = [Cl ''instance'', Cl_ptr ''timespecTime'' C_one, Cl_ptr ''time'' C_one]\<rparr>)]),
    (''XR_KHR_extended_struct_name_lengths'',
     [(''xrStructureTypeToString2KHR'',
       \<lparr>handler_params = [De ''instance'', De ''value'',
          De_array ''buffer'' (B_const ''XR_MAX_STRUCTURE_NAME_SIZE_EXTENDED_KHR'')],
        handler_reply = [Ser_ptr ''buffer'' (C_const ''XR_MAX_STRUCTURE_NAME_SIZE_EXTENDED_KHR'')],
        handler_cleanup = [Cl ''instance'', Cl ''value'',
          Cl_array ''buffer'' (B_const ''XR_MAX_STRUCTURE_NAME_SIZE_EXTENDED_KHR'')]\<rparr>)]),
    (''XR_KHR_loader_init'',
     [(''xrInitializeLoaderKHR'',
       \<lparr>handler_params = [De_xr ''loaderInitInfo''],
        handler_reply = [],
        handler_cleanup = [Cl_xr ''loaderInitInfo'']\<rparr>)])]"

definition ext_handlers_41 :: "(string \<times> (string \<times> rpc_handler) list) list" where
  "ext_handlers_41 =
   [(''XR_KHR_metal_enable'',
     [(''xrGetMetalGraphicsRequirementsKHR'',
       \<lparr>handler_params = [De ''instance'', De ''systemId'', De_ptr ''graphicsRequirements''],
        handler_reply = [Ser_ptr ''graphicsRequirements'' C_one],
        handler_cleanup = [Cl ''instance'', Cl ''systemId'', Cl_ptr ''graphicsRequirements'' C_one]\<rparr>)]),
    (''XR_KHR_opengl_enable'',
     [(''xrGetOpenGLGraphicsRequirementsKHR'',
       \<lparr>handler_params = [De ''instance'', De ''systemId'', De_ptr ''graphicsRequirements''],
        handler_reply = [Ser_ptr ''graphicsRequirements'' C_one],
        handler_cleanup = [Cl ''instance'', Cl ''systemId'', Cl_ptr ''graphicsRequirements'' C_one]\<rparr>)]),
    (''XR_KHR_opengl_es_enable'',
     [(''xrGetOpenGLESGraphicsRequirementsKHR'',
       \<lparr>handler_params = [De ''instance'', De ''systemId'', De_ptr ''graphicsRequirements''],
        handler_reply = [Ser_ptr ''graphicsRequirements'' C_one],
        handler_cleanup = [Cl ''instance'', Cl ''systemId'', Cl_ptr ''graphicsRequirements'' C_one]\<rparr>)])]"

definition ext_handlers_42 :: "(string \<times> (string \<times> rpc_handler) list) list" where
  "ext_handlers_42 =
   [(''XR_KHR_visibility_mask'',
     [(''xrGetVisibilityMaskKHR'',
       \<lparr>handler_params = [De ''session'', De ''viewConfigurationType'', De ''viewIndex'',
          De ''visibilityMaskType'', De_ptr ''visibilityMask''],
        handler_reply = [Ser_ptr ''visibilityMask'' C_one],
        handler_cleanup = [Cl ''session'', Cl ''viewConfigurationType'', Cl ''viewIndex'',
          Cl ''visibilityMaskType'', Cl_ptr ''visibilityMask'' C_one]\<rparr>)]),
    (''XR_KHR_vulkan_enable'',
     [(''xrGetVulkanDeviceExtensionsKHR'',
       \<lparr>handler_params = [De ''instance'', De ''systemId'', De ''bufferCapacityInput'',
          De_ptr ''bufferCountOutput'', De_ptr ''buffer''],
        handler_reply = [Ser_ptr ''bufferCountOutput'' C_one,
          Ser_ptr ''buffer'' (C_field ''bufferCapacityInput'')],
        handler_cleanup = [Cl ''instance'', Cl ''systemId'', Cl ''bufferCapacityInput'',
          Cl_ptr ''bufferCountOutput'' C_one,
          Cl_ptr ''buffer'' (C_field ''bufferCapacityInput'')]\<rparr>),
      (''xrGetVulkanGraphicsDeviceKHR'',
       \<lparr>handler_params = [De ''instance'', De ''systemId'', De ''vkInstance'', De_ptr ''vkPhysicalDevice''],
        handler_reply = [Ser_ptr ''vkPhysicalDevice'' C_one],
        handler_cleanup = [Cl ''instance'', Cl ''systemId'', Cl ''vkInstance'',
          Cl_ptr ''vkPhysicalDevice'' C_one]\<rparr>)])]"

definition ext_handlers_43 :: "(string \<times> (string \<times> rpc_handler) list) list" where
  "ext_handlers_43 =
   [(''XR_KHR_vulkan_enable'',
     [(''xrGetVulkanGraphicsRequirementsKHR'',
       \<lparr>handler_params = [De ''instance'', De ''systemId'', De_ptr ''graphicsRequirements''],
        handler_reply = [Ser_ptr ''graphicsRequirements'' C_one],
        handler_cleanup = [Cl ''instance'', Cl ''systemId'', Cl_ptr ''graphicsRequirements'' C_one]\<rparr>),
      (''xrGetVulkanInstanceExtensionsKHR'',
       \<lparr>handler_params = [De ''instance'', De ''systemId'', De ''bufferCapacityInput'',
          De_ptr ''bufferCountOutput'', De_ptr ''buffer''],
        handler_reply = [Ser_ptr ''bufferCountOutput'' C_one,
          Ser_ptr ''buffer'' (C_field ''bufferCapacityInput'')],
        handler_cleanup = [Cl ''instance'', Cl ''systemId'', Cl ''bufferCapacityInput'',
          Cl_ptr ''bufferCountOutput'' C_one,
          Cl_ptr ''buffer'' (C_field ''bufferCapacityInput'')]\<rparr>)]),
    (''XR_KHR_vulkan_enable2'',
     [(''xrCreateVulkanDeviceKHR'',
       \<lparr>handler_params = [De ''instance'', De_ptr ''createInfo'', De_ptr ''vulkanDevice'',
          De_ptr ''vulkanResult''],
        handler_reply = [Ser_ptr ''vulkanDevice'' C_one, Ser_ptr ''vulkanResult'' C_one],
        handler_cleanup = [Cl ''instance'', Cl_ptr ''createInfo'' C_one, Cl_ptr ''vulkanDevice'' C_one,
          Cl_ptr ''vulkanResult'' C_one]\<rparr>)])]"

definition ext_handlers_44 :: "(string \<times> (string \<times> rpc_handler) list) list" where
  "ext_handlers_44 =
   [(''XR_KHR_vulkan_enable2'',
     [(''xrCreateVulkanInstanceKHR'',
       \<lparr>handler_params = [De ''instance'', De_ptr ''createInfo'', De_ptr ''vulkanInstance'',
          De_ptr ''vulkanResult''],
        handler_reply = [Ser_ptr ''vulkanInstance'' C_one, Ser_ptr ''vulkanResult'' C_one],
        handler_cleanup = [Cl ''instance'', Cl_ptr ''createInfo'' C_one, Cl_ptr ''vulkanInstance'' C_one,
          Cl_ptr ''vulkanResult'' C_one]\<rparr>),
      (''xrGetVulkanGraphicsDevice2KHR'',
       \<lparr>handler_params = [De ''instance'', De_ptr ''getInfo'', De_ptr ''vulkanPhysicalDevice''],
        handler_reply = [Ser_ptr ''vulkanPhysicalDevice'' C_one],
        handler_cleanup = [Cl ''instance'', Cl_ptr ''getInfo'' C_one, Cl_ptr ''vulkanPhysicalDevice'' C_one]\<rparr>)]),
    (''XR_KHR_win32_convert_performance_counter_time'',
     [(''xrConvertTimeToWin32PerformanceCounterKHR'',
       \<lparr>handler_params = [De ''instance'', De_time ''time'', De_ptr ''performanceCounter''],
        handler_reply = [Ser_ptr ''performanceCounter'' C_one],
        handler_cleanup = [Cl ''instance'', Cl ''time'', Cl_ptr ''performanceCounter'' C_one]\<rparr>)])]"

definition ext_handlers_45 :: "(string \<times> (string \<times> rpc_handler) list) list" where
  "ext_handlers_45 =
   [(''XR_KHR_win32_convert_performance_counter_time'',
     [(''xrConvertWin32PerformanceCounterToTimeKHR'',
       \<lparr>handler_params = [De ''instance'', De_ptr ''performanceCounter'', De_ptr ''time''],
        handler_reply = [Ser_ptr ''time'' C_one],
        handler_cleanup = [Cl ''instance'', Cl_ptr ''performanceCounter'' C_one, Cl_ptr ''time'' C_one]\<rparr>)])]"

definition ext_handlers_46 :: "(string \<times> (string \<times> rpc_handler) list) list" where
  "ext_handlers_46 =
   [(''XR_META_colocation_discovery'',
     [(''xrStartColocationDiscoveryMETA'',
       \<lparr>handler_params = [De ''session'', De_ptr ''info'', De_ptr ''discoveryRequestId''],
        handler_reply = [Ser_ptr ''discoveryRequestId'' C_one],
        handler_cleanup = [Cl ''session'', Cl_ptr ''info'' C_one, Cl_ptr ''discoveryRequestId'' C_one]\<rparr>),
      (''xrStopColocationAdvertisementMETA'',
       \<lparr>handler_params = [De ''session'', De_ptr ''info'', De_ptr ''requestId''],
        handler_reply = [Ser_ptr ''requestId'' C_one],
        handler_cleanup = [Cl ''session'', Cl_ptr ''info'' C_one, Cl_ptr ''requestId'' C_one]\<rparr>),
      (''xrStopColocationDiscoveryMETA'',
       \<lparr>handler_params = [De ''session'', De_ptr ''info'', De_ptr ''requestId''],
        handler_reply = [Ser_ptr ''requestId'' C_one],
        handler_cleanup = [Cl ''session'', Cl_ptr ''info'' C_one, Cl_ptr ''requestId'' C_one]\<rparr>)]),
    (''XR_META_environment_depth'',
     [(''xrAcquireEnvironmentDepthImageMETA'',
       \<lparr>handler_params = [De ''environmentDepthProvider'', De_ptr ''acquireInfo'',
          De_ptr ''environmentDepthImage''],
        handler_reply = [Ser_ptr ''environmentDepthImage'' C_one],
        handler_cleanup = [Cl ''environmentDepthProvider'', Cl_ptr ''acquireInfo'' C_one,
          Cl_ptr ''environmentDepthImage'' C_one]\<rparr>)])]"

definition ext_handlers_47 :: "(string \<times> (string \<times> rpc_handler) list) list" where
  "ext_handlers_47 =
   [(''XR_META_environment_depth'',
     [(''xrCreateEnvironmentDepthProviderMETA'',
       \<lparr>handler_params = [De ''session'', De_ptr ''createInfo'', De_ptr ''environmentDepthProvider''],
        handler_reply = [Ser_ptr ''environmentDepthProvider'' C_one],
        handler_cleanup = [Cl ''session'', Cl_ptr ''createInfo'' C_one,
          Cl_ptr ''environmentDepthProvider'' C_one]\<rparr>),
      (''xrCreateEnvironmentDepthSwapchainMETA'',
       \<lparr>handler_params = [De ''environmentDepthProvider'', De_ptr ''createInfo'', De_ptr ''swapchain''],
        handler_reply = [Ser_ptr ''swapchain'' C_one],
        handler_cleanup = [Cl ''environmentDepthProvider'', Cl_ptr ''createInfo'' C_one,
          Cl_ptr ''swapchain'' C_one]\<rparr>),
      (''xrDestroyEnvironmentDepthProviderMETA'',
       \<lparr>handler_params = [De ''environmentDepthProvider''],
        handler_reply = [],
        handler_cleanup = [Cl ''environmentDepthProvider'']\<rparr>),
      (''xrDestroyEnvironmentDepthSwapchainMETA'',
       \<lparr>handler_params = [De ''swapchain''],
        handler_reply = [],
        handler_cleanup = [Cl ''swapchain'']\<rparr>)])]"

definition ext_handlers_48 :: "(string \<times> (string \<times> rpc_handler) list) list" where
  "ext_handlers_48 =
   [(''XR_META_environment_depth'',
     [(''xrEnumerateEnvironmentDepthSwapchainImagesMETA'',
       \<lparr>handler_params = [De ''swapchain'', De ''imageCapacityInput'', De_ptr ''imageCountOutput'',
          De_xr_array ''images''],
        handler_reply = [Ser_ptr ''imageCountOutput'' C_one,
          Ser_xr_array ''images'' (C_field ''imageCapacityInput'')],
        handler_cleanup = [Cl ''swapchain'', Cl ''imageCapacityInput'', Cl_ptr ''imageCountOutput'' C_one,
          Cl_xr_array ''images'' (C_field ''imageCapacityInput'')]\<rparr>),
      (''xrGetEnvironmentDepthSwapchainStateMETA'',
       \<lparr>handler_params = [De ''swapchain'', De_ptr ''state''],
        handler_reply = [Ser_ptr ''state'' C_one],
        handler_cleanup = [Cl ''swapchain'', Cl_ptr ''state'' C_one]\<rparr>),
      (''xrSetEnvironmentDepthHandRemovalMETA'',
       \<lparr>handler_params = [De ''environmentDepthProvider'', De_ptr ''setInfo''],
        handler_reply = [],
        handler_cleanup = [Cl ''environmentDepthProvider'', Cl_ptr ''setInfo'' C_one]\<rparr>),
      (''xrStartEnvironmentDepthProviderMETA'',
       \<lparr>handler_params = [De ''environmentDepthProvider''],
        handler_reply = [],
        handler_cleanup = [Cl ''environmentDepthProvider'']\<rparr>)])]"

definition ext_handlers_49 :: "(string \<times> (string \<times> rpc_handler) list) list" where
  "ext_handlers_49 =
   [(''XR_META_environment_depth'',
     [(''xrStopEnvironmentDepthProviderMETA'',
       \<lparr>handler_params = [De ''environmentDepthProvider''],
        handler_reply = [],
        handler_cleanup = [Cl ''environmentDepthProvider'']\<rparr>)]),
    (''XR_META_foveation_eye_tracked'',
     [(''xrGetFoveationEyeTrackedStateMETA'',
       \<lparr>handler_params = [De ''session'', De_ptr ''foveationState''],
        handler_reply = [Ser_ptr ''foveationState'' C_one],
        handler_cleanup = [Cl ''session'', Cl_ptr ''foveationState'' C_one]\<rparr>)]),
    (''XR_META_passthrough_color_lut'',
     [(''xrCreatePassthroughColorLutMETA'',
       \<lparr>handler_params = [De ''passthrough'', De_ptr ''createInfo'', De_ptr ''colorLut''],
        handler_reply = [Ser_ptr ''colorLut'' C_one],
        handler_cleanup = [Cl ''passthrough'', Cl_ptr ''createInfo'' C_one, Cl_ptr ''colorLut'' C_one]\<rparr>),
      (''xrDestroyPassthroughColorLutMETA'',
       \<lparr>handler_params = [De ''colorLut''],
        handler_reply = [],
        handler_cleanup = [Cl ''colorLut'']\<rparr>)])]"

definition ext_handlers_50 :: "(string \<times> (string \<times> rpc_handler) list) list" where
  "ext_handlers_50 =
   [(''XR_META_passthrough_color_lut'',
     [(''xrUpdatePassthroughColorLutMETA'',
       \<lparr>handler_params = [De ''colorLut'', De_ptr ''updateInfo''],
        handler_reply = [],
        handler_cleanup = [Cl ''colorLut'', Cl_ptr ''updateInfo'' C_one]\<rparr>)]),
    (''XR_META_passthrough_preferences'',
     [(''xrGetPassthroughPreferencesMETA'',
       \<lparr>handler_params = [De ''session'', De_ptr ''preferences''],
        handler_reply = [Ser_ptr ''preferences'' C_one],
        handler_cleanup = [Cl ''session'', Cl_ptr ''preferences'' C_one]\<rparr>)]),
    (''XR_META_performance_metrics'',
     [(''xrEnumeratePerformanceMetricsCounterPathsMETA'',
       \<lparr>handler_params = [De ''instance'', De ''counterPathCapacityInput'',
          De_ptr ''counterPathCountOutput'', De_ptr ''counterPaths''],
        handler_reply = [Ser_ptr ''counterPathCountOutput'' C_one,
          Ser_ptr ''counterPaths'' (C_field ''counterPathCapacityInput'')],
        handler_cleanup = [Cl ''instance'', Cl ''counterPathCapacityInput'',
          Cl_ptr ''counterPathCountOutput'' C_one,
          Cl_ptr ''counterPaths'' (C_field ''counterPathCapacityInput'')]\<rparr>),
      (''xrGetPerformanceMetricsStateMETA'',
       \<lparr>handler_params = [De ''session'', De_ptr ''state''],
        handler_reply = [Ser_ptr ''state'' C_one],
        handler_cleanup = [Cl ''session'', Cl_ptr ''state'' C_one]\<rparr>)])]"

definition ext_handlers_51 :: "(string \<times> (string \<times> rpc_handler) list) list" where
  "ext_handlers_51 =
   [(''XR_META_performance_metrics'',
     [(''xrQueryPerformanceMetricsCounterMETA'',
       \<lparr>handler_params = [De ''session'', De ''counterPath'', De_ptr ''counter''],
        handler_reply = [Ser_ptr ''counter'' C_one],
        handler_cleanup = [Cl ''session'', Cl ''counterPath'', Cl_ptr ''counter'' C_one]\<rparr>),
      (''xrSetPerformanceMetricsStateMETA'',
       \<lparr>handler_params = [De ''session'', De_ptr ''state''],
        handler_reply = [],
        handler_cleanup = [Cl ''session'', Cl_ptr ''state'' C_one]\<rparr>)]),
    (''XR_META_recommended_layer_resolution'',
     [(''xrGetRecommendedLayerResolutionMETA'',
       \<lparr>handler_params = [De ''session'', De_ptr ''info'', De_ptr ''resolution''],
        handler_reply = [Ser_ptr ''resolution'' C_one],
        handler_cleanup = [Cl ''session'', Cl_ptr ''info'' C_one, Cl_ptr ''resolution'' C_one]\<rparr>)]),
    (''XR_META_simultaneous_hands_and_controllers'',
     [(''xrPauseSimultaneousHandsAndControllersTrackingMETA'',
       \<lparr>handler_params = [De ''session'', De_ptr ''pauseInfo''],
        handler_reply = [],
        handler_cleanup = [Cl ''session'', Cl_ptr ''pauseInfo'' C_one]\<rparr>)])]"

definition ext_handlers_52 :: "(string \<times> (string \<times> rpc_handler) list) list" where
  "ext_handlers_52 =
   [(''XR_META_simultaneous_hands_and_controllers'',
     [(''xrResumeSimultaneousHandsAndControllersTrackingMETA'',
       \<lparr>handler_params = [De ''session'', De_ptr ''resumeInfo''],
        handler_reply = [],
        handler_cleanup = [Cl ''session'', Cl_ptr ''resumeInfo'' C_one]\<rparr>)]),
    (''XR_META_spatial_entity_mesh'',
     [(''xrGetSpaceTriangleMeshMETA'',
       \<lparr>handler_params = [De ''space'', De_ptr ''getInfo'', De_ptr ''triangleMeshOutput''],
        handler_reply = [Ser_ptr ''triangleMeshOutput'' C_one],
        handler_cleanup = [Cl ''space'', Cl_ptr ''getInfo'' C_one, Cl_ptr ''triangleMeshOutput'' C_one]\<rparr>)])]"

definition ext_handlers_53 :: "(string \<times> (string \<times> rpc_handler) list) list" where
  "ext_handlers_53 =
   [(''XR_META_virtual_keyboard'',
     [(''xrChangeVirtualKeyboardTextContextMETA'',
       \<lparr>handler_params = [De ''keyboard'', De_ptr ''changeInfo''],
        handler_reply = [],
        handler_cleanup = [Cl ''keyboard'', Cl_ptr ''changeInfo'' C_one]\<rparr>),
      (''xrCreateVirtualKeyboardMETA'',
       \<lparr>handler_params = [De ''session'', De_ptr ''createInfo'', De_ptr ''keyboard''],
        handler_reply = [Ser_ptr ''keyboard'' C_one],
        handler_cleanup = [Cl ''session'', Cl_ptr ''createInfo'' C_one, Cl_ptr ''keyboard'' C_one]\<rparr>),
      (''xrCreateVirtualKeyboardSpaceMETA'',
       \<lparr>handler_params = [De ''session'', De ''keyboard'', De_ptr ''createInfo'', De_ptr ''keyboardSpace''],
        handler_reply = [Ser_ptr ''keyboardSpace'' C_one],
        handler_cleanup = [Cl ''session'', Cl ''keyboard'', Cl_ptr ''createInfo'' C_one,
          Cl_ptr ''keyboardSpace'' C_one]\<rparr>),
      (''xrDestroyVirtualKeyboardMETA'',
       \<lparr>handler_params = [De ''keyboard''],
        handler_reply = [],
        handler_cleanup = [Cl ''keyboard'']\<rparr>)])]"

definition ext_handlers_54 :: "(string \<times> (string \<times> rpc_handler) list) list" where
  "ext_handlers_54 =
   [(''XR_META_virtual_keyboard'',
     [(''xrGetVirtualKeyboardDirtyTexturesMETA'',
       \<lparr>handler_params = [De ''keyboard'', De ''textureIdCapacityInput'', De_ptr ''textureIdCountOutput'',
          De_ptr ''textureIds''],
        handler_reply = [Ser_ptr ''textureIdCountOutput'' C_one,
          Ser_ptr ''textureIds'' (C_field ''textureIdCapacityInput'')],
        handler_cleanup = [Cl ''keyboard'', Cl ''textureIdCapacityInput'',
          Cl_ptr ''textureIdCountOutput'' C_one,
          Cl_ptr ''textureIds'' (C_field ''textureIdCapacityInput'')]\<rparr>),
      (''xrGetVirtualKeyboardModelAnimationStatesMETA'',
       \<lparr>handler_params = [De ''keyboard'', De_ptr ''animationStates''],
        handler_reply = [Ser_ptr ''animationStates'' C_one],
        handler_cleanup = [Cl ''keyboard'', Cl_ptr ''animationStates'' C_one]\<rparr>),
      (''xrGetVirtualKeyboardScaleMETA'',
       \<lparr>handler_params = [De ''keyboard'', De_ptr ''scale''],
        handler_reply = [Ser_ptr ''scale'' C_one],
        handler_cleanup = [Cl ''keyboard'', Cl_ptr ''scale'' C_one]\<rparr>),
      (''xrGetVirtualKeyboardTextureDataMETA'',
       \<lparr>handler_params = [De ''keyboard'', De ''textureId'', De_ptr ''textureData''],
        handler_reply = [Ser_ptr ''textureData'' C_one],
        handler_cleanup = [Cl ''keyboard'', Cl ''textureId'', Cl_ptr ''textureData'' C_one]\<rparr>)])]"

definition ext_handlers_55 :: "(string \<times> (string \<times> rpc_handler) list) list" where
  "ext_handlers_55 =
   [(''XR_META_virtual_keyboard'',
     [(''xrSendVirtualKeyboardInputMETA'',
       \<lparr>handler_params = [De ''keyboard'', De_ptr ''info'', De_ptr ''interactorRootPose''],
        handler_reply = [Ser_ptr ''interactorRootPose'' C_one],
        handler_cleanup = [Cl ''keyboard'', Cl_ptr ''info'' C_one, Cl_ptr ''interactorRootPose'' C_one]\<rparr>),
      (''xrSetVirtualKeyboardModelVisibilityMETA'',
       \<lparr>handler_params = [De ''keyboard'', De_ptr ''modelVisibility''],
        handler_reply = [],
        handler_cleanup = [Cl ''keyboard'', Cl_ptr ''modelVisibility'' C_one]\<rparr>),
      (''xrSuggestVirtualKeyboardLocationMETA'',
       \<lparr>handler_params = [De ''keyboard'', De_ptr ''locationInfo''],
        handler_reply = [],
        handler_cleanup = [Cl ''keyboard'', Cl_ptr ''locationInfo'' C_one]\<rparr>)]),
    (''XR_ML_compat'',
     [(''xrCreateSpaceFromCoordinateFrameUIDML'',
       \<lparr>handler_params = [De ''session'', De_ptr ''createInfo'', De_ptr ''space''],
        handler_reply = [Ser_ptr ''space'' C_one],
        handler_cleanup = [Cl ''session'', Cl_ptr ''createInfo'' C_one, Cl_ptr ''space'' C_one]\<rparr>)])]"

definition ext_handlers_56 :: "(string \<times> (string \<times> rpc_handler) list) list" where
  "ext_handlers_56 =
   [(''XR_ML_facial_expression'',
     [(''xrCreateFacialExpressionClientML'',
       \<lparr>handler_params = [De ''session'', De_ptr ''createInfo'', De_ptr ''facialExpressionClient''],
        handler_reply = [Ser_ptr ''facialExpressionClient'' C_one],
        handler_cleanup = [Cl ''session'', Cl_ptr ''createInfo'' C_one, Cl_ptr ''facialExpressionClient'' C_one]\<rparr>),
      (''xrDestroyFacialExpressionClientML'',
       \<lparr>handler_params = [De ''facialExpressionClient''],
        handler_reply = [],
        handler_cleanup = [Cl ''facialExpressionClient'']\<rparr>),
      (''xrGetFacialExpressionBlendShapePropertiesML'',
       \<lparr>handler_params = [De ''facialExpressionClient'', De_ptr ''blendShapeGetInfo'',
          De ''blendShapeCount'', De_ptr ''blendShapes''],
        handler_reply = [Ser_ptr ''blendShapes'' (C_field ''blendShapeCount'')],
        handler_cleanup = [Cl ''facialExpressionClient'', Cl_ptr ''blendShapeGetInfo'' C_one,
          Cl ''blendShapeCount'', Cl_ptr ''blendShapes'' (C_field ''blendShapeCount'')]\<rparr>)]),
    (''XR_ML_localization_map'',
     [(''xrCreateExportedLocalizationMapML'',
       \<lparr>handler_params = [De ''session'', De_ptr ''mapUuid'', De_ptr ''map''],
        handler_reply = [Ser_ptr ''map'' C_one],
        handler_cleanup = [Cl ''session'', Cl_ptr ''mapUuid'' C_one, Cl_ptr ''map'' C_one]\<rparr>)])]"

definition ext_handlers_57 :: "(string \<times> (string \<times> rpc_handler) list) list" where
  "ext_handlers_57 =
   [(''XR_ML_localization_map'',
     [(''xrDestroyExportedLocalizationMapML'',
       \<lparr>handler_params = [De ''map''],
        handler_reply = [],
        handler_cleanup = [Cl ''map'']\<rparr>),
      (''xrEnableLocalizationEventsML'',
       \<lparr>handler_params = [De ''session'', De_ptr ''info''],
        handler_reply = [],
        handler_cleanup = [Cl ''session'', Cl_ptr ''info'' C_one]\<rparr>),
      (''xrGetExportedLocalizationMapDataML'',
       \<lparr>handler_params = [De ''map'', De ''bufferCapacityInput'', De_ptr ''bufferCountOutput'',
          De_ptr ''buffer''],
        handler_reply = [Ser_ptr ''bufferCountOutput'' C_one,
          Ser_ptr ''buffer'' (C_field ''bufferCapacityInput'')],
        handler_cleanup = [Cl ''map'', Cl ''bufferCapacityInput'', Cl_ptr ''bufferCountOutput'' C_one,
          Cl_ptr ''buffer'' (C_field ''bufferCapacityInput'')]\<rparr>)])]"

definition ext_handlers_58 :: "(string \<times> (string \<times> rpc_handler) list) list" where
  "ext_handlers_58 =
   [(''XR_ML_localization_map'',
     [(''xrQueryLocalizationMapsML'',
       \<lparr>handler_params = [De ''session'', De_xr ''queryInfo'', De ''mapCapacityInput'',
          De_ptr ''mapCountOutput'', De_ptr ''maps''],
        handler_reply = [Ser_ptr ''mapCountOutput'' C_one, Ser_ptr ''maps'' (C_field ''mapCapacityInput'')],
        handler_cleanup = [Cl ''session'', Cl_xr ''queryInfo'', Cl ''mapCapacityInput'',
          Cl_ptr ''mapCountOutput'' C_one, Cl_ptr ''maps'' (C_field ''mapCapacityInput'')]\<rparr>),
      (''xrRequestMapLocalizationML'',
       \<lparr>handler_params = [De ''session'', De_ptr ''requestInfo''],
        handler_reply = [],
        handler_cleanup = [Cl ''session'', Cl_ptr ''requestInfo'' C_one]\<rparr>)]),
    (''XR_ML_marker_understanding'',
     [(''xrCreateMarkerDetectorML'',
       \<lparr>handler_params = [De ''session'', De_ptr ''createInfo'', De_ptr ''markerDetector''],
        handler_reply = [Ser_ptr ''markerDetector'' C_one],
        handler_cleanup = [Cl ''session'', Cl_ptr ''createInfo'' C_one, Cl_ptr ''markerDetector'' C_one]\<rparr>),
      (''xrCreateMarkerSpaceML'',
       \<lparr>handler_params = [De ''session'', De_ptr ''createInfo'', De_ptr ''space''],
        handler_reply = [Ser_ptr ''space'' C_one],
        handler_cleanup = [Cl ''session'', Cl_ptr ''createInfo'' C_one, Cl_ptr ''space'' C_one]\<rparr>)])]"

definition ext_handlers_59 :: "(string \<times> (string \<times> rpc_handler) list) list" where
  "ext_handlers_59 =
   [(''XR_ML_marker_understanding'',
     [(''xrDestroyMarkerDetectorML'',
       \<lparr>handler_params = [De ''markerDetector''],
        handler_reply = [],
        handler_cleanup = [Cl ''markerDetector'']\<rparr>),
      (''xrGetMarkerDetectorStateML'',
       \<lparr>handler_params = [De ''markerDetector'', De_ptr ''state''],
        handler_reply = [Ser_ptr ''state'' C_one],
        handler_cleanup = [Cl ''markerDetector'', Cl_ptr ''state'' C_one]\<rparr>),
      (''xrGetMarkerLengthML'',
       \<lparr>handler_params = [De ''markerDetector'', De ''marker'', De_ptr ''meters''],
        handler_reply = [Ser_ptr ''meters'' C_one],
        handler_cleanup = [Cl ''markerDetector'', Cl ''marker'', Cl_ptr ''meters'' C_one]\<rparr>),
      (''xrGetMarkerNumberML'',
       \<lparr>handler_params = [De ''markerDetector'', De ''marker'', De_ptr ''number''],
        handler_reply = [Ser_ptr ''number'' C_one],
        handler_cleanup = [Cl ''markerDetector'', Cl ''marker'', Cl_ptr ''number'' C_one]\<rparr>)])]"

definition ext_handlers_60 :: "(string \<times> (string \<times> rpc_handler) list) list" where
  "ext_handlers_60 =
   [(''XR_ML_marker_understanding'',
     [(''xrGetMarkerReprojectionErrorML'',
       \<lparr>handler_params = [De ''markerDetector'', De ''marker'', De_ptr ''reprojectionErrorMeters''],
        handler_reply = [Ser_ptr ''reprojectionErrorMeters'' C_one],
        handler_cleanup = [Cl ''markerDetector'', Cl ''marker'', Cl_ptr ''reprojectionErrorMeters'' C_one]\<rparr>),
      (''xrGetMarkerStringML'',
       \<lparr>handler_params = [De ''markerDetector'', De ''marker'', De ''bufferCapacityInput'',
          De_ptr ''bufferCountOutput'', De_ptr ''buffer''],
        handler_reply = [Ser_ptr ''bufferCountOutput'' C_one,
          Ser_ptr ''buffer'' (C_field ''bufferCapacityInput'')],
        handler_cleanup = [Cl ''markerDetector'', Cl ''marker'', Cl ''bufferCapacityInput'',
          Cl_ptr ''bufferCountOutput'' C_one,
          Cl_ptr ''buffer'' (C_field ''bufferCapacityInput'')]\<rparr>),
      (''xrGetMarkersML'',
       \<lparr>handler_params = [De ''markerDetector'', De ''markerCapacityInput'', De_ptr ''markerCountOutput'',
          De_ptr ''markers''],
        handler_reply = [Ser_ptr ''markerCountOutput'' C_one,
          Ser_ptr ''markers'' (C_field ''markerCapacityInput'')],
        handler_cleanup = [Cl ''markerDetector'', Cl ''markerCapacityInput'',
          Cl_ptr ''markerCountOutput'' C_one,
          Cl_ptr ''markers'' (C_field ''markerCapacityInput'')]\<rparr>)])]"

definition ext_handlers_61 :: "(string \<times> (string \<times> rpc_handler) list) list" where
  "ext_handlers_61 =
   [(''XR_ML_marker_understanding'',
     [(''xrSnapshotMarkerDetectorML'',
       \<lparr>handler_params = [De ''markerDetector'', De_ptr ''snapshotInfo''],
        handler_reply = [Ser_ptr ''snapshotInfo'' C_one],
        handler_cleanup = [Cl ''markerDetector'', Cl_ptr ''snapshotInfo'' C_one]\<rparr>)]),
    (''XR_ML_spatial_anchors'',
     [(''xrCreateSpatialAnchorsAsyncML'',
       \<lparr>handler_params = [De ''session'', De_xr ''createInfo'', De_ptr ''future''],
        handler_reply = [Ser_ptr ''future'' C_one],
        handler_cleanup = [Cl ''session'', Cl_xr ''createInfo'', Cl_ptr ''future'' C_one]\<rparr>),
      (''xrCreateSpatialAnchorsCompleteML'',
       \<lparr>handler_params = [De ''session'', De ''future'', De_ptr ''completion''],
        handler_reply = [Ser_ptr ''completion'' C_one],
        handler_cleanup = [Cl ''session'', Cl ''future'', Cl_ptr ''completion'' C_one]\<rparr>),
      (''xrGetSpatialAnchorStateML'',
       \<lparr>handler_params = [De ''anchor'', De_ptr ''state''],
        handler_reply = [Ser_ptr ''state'' C_one],
        handler_cleanup = [Cl ''anchor'', Cl_ptr ''state'' C_one]\<rparr>)])]"

definition ext_handlers_62 :: "(string \<times> (string \<times> rpc_handler) list) list" where
  "ext_handlers_62 =
   [(''XR_ML_spatial_anchors_storage'',
     [(''xrCreateSpatialAnchorsStorageML'',
       \<lparr>handler_params = [De ''session'', De_ptr ''createInfo'', De_ptr ''storage''],
        handler_reply = [Ser_ptr ''storage'' C_one],
        handler_cleanup = [Cl ''session'', Cl_ptr ''createInfo'' C_one, Cl_ptr ''storage'' C_one]\<rparr>),
      (''xrDeleteSpatialAnchorsAsyncML'',
       \<lparr>handler_params = [De ''storage'', De_ptr ''deleteInfo'', De_ptr ''future''],
        handler_reply = [Ser_ptr ''future'' C_one],
        handler_cleanup = [Cl ''storage'', Cl_ptr ''deleteInfo'' C_one, Cl_ptr ''future'' C_one]\<rparr>),
      (''xrDeleteSpatialAnchorsCompleteML'',
       \<lparr>handler_params = [De ''storage'', De ''future'', De_ptr ''completion''],
        handler_reply = [Ser_ptr ''completion'' C_one],
        handler_cleanup = [Cl ''storage'', Cl ''future'', Cl_ptr ''completion'' C_one]\<rparr>),
      (''xrDestroySpatialAnchorsStorageML'',
       \<lparr>handler_params = [De ''storage''],
        handler_reply = [],
        handler_cleanup = [Cl ''storage'']\<rparr>)])]"

definition ext_handlers_63 :: "(string \<times> (string \<times> rpc_handler) list) list" where
  "ext_handlers_63 =
   [(''XR_ML_spatial_anchors_storage'',
     [(''xrPublishSpatialAnchorsAsyncML'',
       \<lparr>handler_params = [De ''storage'', De_ptr ''publishInfo'', De_ptr ''future''],
        handler_reply = [Ser_ptr ''future'' C_one],
        handler_cleanup = [Cl ''storage'', Cl_ptr ''publishInfo'' C_one, Cl_ptr ''future'' C_one]\<rparr>),
      (''xrPublishSpatialAnchorsCompleteML'',
       \<lparr>handler_params = [De ''storage'', De ''future'', De_ptr ''completion''],
        handler_reply = [Ser_ptr ''completion'' C_one],
        handler_cleanup = [Cl ''storage'', Cl ''future'', Cl_ptr ''completion'' C_one]\<rparr>),
      (''xrQuerySpatialAnchorsAsyncML'',
       \<lparr>handler_params = [De ''storage'', De_xr ''queryInfo'', De_ptr ''future''],
        handler_reply = [Ser_ptr ''future'' C_one],
        handler_cleanup = [Cl ''storage'', Cl_xr ''queryInfo'', Cl_ptr ''future'' C_one]\<rparr>),
      (''xrQuerySpatialAnchorsCompleteML'',
       \<lparr>handler_params = [De ''storage'', De ''future'', De_ptr ''completion''],
        handler_reply = [Ser_ptr ''completion'' C_one],
        handler_cleanup = [Cl ''storage'', Cl ''future'', Cl_ptr ''completion'' C_one]\<rparr>)])]"

definition ext_handlers_64 :: "(string \<times> (string \<times> rpc_handler) list) list" where
  "ext_handlers_64 =
   [(''XR_ML_spatial_anchors_storage'',
     [(''xrUpdateSpatialAnchorsExpirationAsyncML'',
       \<lparr>handler_params = [De ''storage'', De_ptr ''updateInfo'', De_ptr ''future''],
        handler_reply = [Ser_ptr ''future'' C_one],
        handler_cleanup = [Cl ''storage'', Cl_ptr ''updateInfo'' C_one, Cl_ptr ''future'' C_one]\<rparr>),
      (''xrUpdateSpatialAnchorsExpirationCompleteML'',
       \<lparr>handler_params = [De ''storage'', De ''future'', De_ptr ''completion''],
        handler_reply = [Ser_ptr ''completion'' C_one],
        handler_cleanup = [Cl ''storage'', Cl ''future'', Cl_ptr ''completion'' C_one]\<rparr>)]),
    (''XR_ML_system_notifications'',
     [(''xrSetSystemNotificationsML'',
       \<lparr>handler_params = [De ''instance'', De_ptr ''info''],
        handler_reply = [],
        handler_cleanup = [Cl ''instance'', Cl_ptr ''info'' C_one]\<rparr>)]),
    (''XR_ML_user_calibration'',
     [(''xrEnableUserCalibrationEventsML'',
       \<lparr>handler_params = [De ''instance'', De_ptr ''enableInfo''],
        handler_reply = [],
        handler_cleanup = [Cl ''instance'', Cl_ptr ''enableInfo'' C_one]\<rparr>)])]"

definition ext_handlers_65 :: "(string \<times> (string \<times> rpc_handler) list) list" where
  "ext_handlers_65 =
   [(''XR_ML_world_mesh_detection'',
     [(''xrCreateWorldMeshDetectorML'',
       \<lparr>handler_params = [De ''session'', De_ptr ''createInfo'', De_ptr ''detector''],
        handler_reply = [Ser_ptr ''detector'' C_one],
        handler_cleanup = [Cl ''session'', Cl_ptr ''createInfo'' C_one, Cl_ptr ''detector'' C_one]\<rparr>),
      (''xrDestroyWorldMeshDetectorML'',
       \<lparr>handler_params = [De ''detector''],
        handler_reply = [],
        handler_cleanup = [Cl ''detector'']\<rparr>)])]"

definition ext_handlers_66 :: "(string \<times> (string \<times> rpc_handler) list) list" where
  "ext_handlers_66 =
   [(''XR_ML_world_mesh_detection'',
     [(''xrGetWorldMeshBufferRecommendSizeML'',
       \<lparr>handler_params = [De ''detector'', De_ptr ''sizeInfo'', De_ptr ''size''],
        handler_reply = [Ser_ptr ''size'' C_one],
        handler_cleanup = [Cl ''detector'', Cl_ptr ''sizeInfo'' C_one, Cl_ptr ''size'' C_one]\<rparr>)])]"

definition ext_handlers_67 :: "(string \<times> (string \<times> rpc_handler) list) list" where
  "ext_handlers_67 =
   [(''XR_ML_world_mesh_detection'',
     [(''xrRequestWorldMeshCompleteML'',
       \<lparr>handler_params = [De ''detector'', De_ptr ''completionInfo'', De ''future'', De_ptr ''completion''],
        handler_reply = [Ser_ptr ''completion'' C_one],
        handler_cleanup = [Cl ''detector'', Cl_ptr ''completionInfo'' C_one, Cl ''future'',
          Cl_ptr ''completion'' C_one]\<rparr>),
      (''xrRequestWorldMeshStateAsyncML'',
       \<lparr>handler_params = [De ''detector'', De_ptr ''stateRequest'', De_ptr ''future''],
        handler_reply = [Ser_ptr ''future'' C_one],
        handler_cleanup = [Cl ''detector'', Cl_ptr ''stateRequest'' C_one, Cl_ptr ''future'' C_one]\<rparr>),
      (''xrRequestWorldMeshStateCompleteML'',
       \<lparr>handler_params = [De ''detector'', De ''future'', De_ptr ''completion''],
        handler_reply = [Ser_ptr ''completion'' C_one],
        handler_cleanup = [Cl ''detector'', Cl ''future'', Cl_ptr ''completion'' C_one]\<rparr>)])]"

definition ext_handlers_68 :: "(string \<times> (string \<times> rpc_handler) list) list" where
  "ext_handlers_68 =
   [(''XR_MSFT_composition_layer_reprojection'',
     [(''xrEnumerateReprojectionModesMSFT'',
       \<lparr>handler_params = [De ''instance'', De ''systemId'', De ''viewConfigurationType'',
          De ''modeCapacityInput'', De_ptr ''modeCountOutput'', De_ptr ''modes''],
        handler_reply = [Ser_ptr ''modeCountOutput'' C_one, Ser_ptr ''modes'' (C_field ''modeCapacityInput'')],
        handler_cleanup = [Cl ''instance'', Cl ''systemId'', Cl ''viewConfigurationType'',
          Cl ''modeCapacityInput'', Cl_ptr ''modeCountOutput'' C_one,
          Cl_ptr ''modes'' (C_field ''modeCapacityInput'')]\<rparr>)]),
    (''XR_MSFT_controller_model'',
     [(''xrGetControllerModelKeyMSFT'',
       \<lparr>handler_params = [De ''session'', De ''topLevelUserPath'', De_ptr ''controllerModelKeyState''],
        handler_reply = [Ser_ptr ''controllerModelKeyState'' C_one],
        handler_cleanup = [Cl ''session'', Cl ''topLevelUserPath'', Cl_ptr ''controllerModelKeyState'' C_one]\<rparr>),
      (''xrGetControllerModelPropertiesMSFT'',
       \<lparr>handler_params = [De ''session'', De ''modelKey'', De_ptr ''properties''],
        handler_reply = [Ser_ptr ''properties'' C_one],
        handler_cleanup = [Cl ''session'', Cl ''modelKey'', Cl_ptr ''properties'' C_one]\<rparr>)])]"

definition ext_handlers_69 :: "(string \<times> (string \<times> rpc_handler) list) list" where
  "ext_handlers_69 =
   [(''XR_MSFT_controller_model'',
     [(''xrGetControllerModelStateMSFT'',
       \<lparr>handler_params = [De ''session'', De ''modelKey'', De_ptr ''state''],
        handler_reply = [Ser_ptr ''state'' C_one],
        handler_cleanup = [Cl ''session'', Cl ''modelKey'', Cl_ptr ''state'' C_one]\<rparr>),
      (''xrLoadControllerModelMSFT'',
       \<lparr>handler_params = [De ''session'', De ''modelKey'', De ''bufferCapacityInput'',
          De_ptr ''bufferCountOutput'', De_ptr ''buffer''],
        handler_reply = [Ser_ptr ''bufferCountOutput'' C_one,
          Ser_ptr ''buffer'' (C_field ''bufferCapacityInput'')],
        handler_cleanup = [Cl ''session'', Cl ''modelKey'', Cl ''bufferCapacityInput'',
          Cl_ptr ''bufferCountOutput'' C_one,
          Cl_ptr ''buffer'' (C_field ''bufferCapacityInput'')]\<rparr>)]),
    (''XR_MSFT_hand_tracking_mesh'',
     [(''xrCreateHandMeshSpaceMSFT'',
       \<lparr>handler_params = [De ''handTracker'', De_ptr ''createInfo'', De_ptr ''space''],
        handler_reply = [Ser_ptr ''space'' C_one],
        handler_cleanup = [Cl ''handTracker'', Cl_ptr ''createInfo'' C_one, Cl_ptr ''space'' C_one]\<rparr>)])]"

definition ext_handlers_70 :: "(string \<times> (string \<times> rpc_handler) list) list" where
  "ext_handlers_70 =
   [(''XR_MSFT_hand_tracking_mesh'',
     [(''xrUpdateHandMeshMSFT'',
       \<lparr>handler_params = [De ''handTracker'', De_ptr ''updateInfo'', De_ptr ''handMesh''],
        handler_reply = [Ser_ptr ''handMesh'' C_one],
        handler_cleanup = [Cl ''handTracker'', Cl_ptr ''updateInfo'' C_one, Cl_ptr ''handMesh'' C_one]\<rparr>)]),
    (''XR_MSFT_perception_anchor_interop'',
     [(''xrCreateSpatialAnchorFromPerceptionAnchorMSFT'',
       \<lparr>handler_params = [De ''session'', De_ptr ''perceptionAnchor'', De_ptr ''anchor''],
        handler_reply = [Ser_ptr ''perceptionAnchor'' C_one, Ser_ptr ''anchor'' C_one],
        handler_cleanup = [Cl ''session'', Cl_ptr ''perceptionAnchor'' C_one, Cl_ptr ''anchor'' C_one]\<rparr>)])]"

definition ext_handlers_71 :: "(string \<times> (string \<times> rpc_handler) list) list" where
  "ext_handlers_71 =
   [(''XR_MSFT_scene_marker'',
     [(''xrGetSceneMarkerDecodedStringMSFT'',
       \<lparr>handler_params = [De ''scene'', De_ptr ''markerId'', De ''bufferCapacityInput'',
          De_ptr ''bufferCountOutput'', De_ptr ''buffer''],
        handler_reply = [Ser_ptr ''bufferCountOutput'' C_one,
          Ser_ptr ''buffer'' (C_field ''bufferCapacityInput'')],
        handler_cleanup = [Cl ''scene'', Cl_ptr ''markerId'' C_one, Cl ''bufferCapacityInput'',
          Cl_ptr ''bufferCountOutput'' C_one,
          Cl_ptr ''buffer'' (C_field ''bufferCapacityInput'')]\<rparr>),
      (''xrGetSceneMarkerRawDataMSFT'',
       \<lparr>handler_params = [De ''scene'', De_ptr ''markerId'', De ''bufferCapacityInput'',
          De_ptr ''bufferCountOutput'', De_ptr ''buffer''],
        handler_reply = [Ser_ptr ''bufferCountOutput'' C_one,
          Ser_ptr ''buffer'' (C_field ''bufferCapacityInput'')],
        handler_cleanup = [Cl ''scene'', Cl_ptr ''markerId'' C_one, Cl ''bufferCapacityInput'',
          Cl_ptr ''bufferCountOutput'' C_one,
          Cl_ptr ''buffer'' (C_field ''bufferCapacityInput'')]\<rparr>)]),
    (''XR_MSFT_scene_understanding'',
     [(''xrComputeNewSceneMSFT'',
       \<lparr>handler_params = [De ''sceneObserver'', De_ptr ''computeInfo''],
        handler_reply = [],
        handler_cleanup = [Cl ''sceneObserver'', Cl_ptr ''computeInfo'' C_one]\<rparr>)])]"

definition ext_handlers_72 :: "(string \<times> (string \<times> rpc_handler) list) list" where
  "ext_handlers_72 =
   [(''XR_MSFT_scene_understanding'',
     [(''xrCreateSceneMSFT'',
       \<lparr>handler_params = [De ''sceneObserver'', De_ptr ''createInfo'', De_ptr ''scene''],
        handler_reply = [Ser_ptr ''scene'' C_one],
        handler_cleanup = [Cl ''sceneObserver'', Cl_ptr ''createInfo'' C_one, Cl_ptr ''scene'' C_one]\<rparr>),
      (''xrCreateSceneObserverMSFT'',
       \<lparr>handler_params = [De ''session'', De_ptr ''createInfo'', De_ptr ''sceneObserver''],
        handler_reply = [Ser_ptr ''sceneObserver'' C_one],
        handler_cleanup = [Cl ''session'', Cl_ptr ''createInfo'' C_one, Cl_ptr ''sceneObserver'' C_one]\<rparr>),
      (''xrDestroySceneMSFT'',
       \<lparr>handler_params = [De ''scene''],
        handler_reply = [],
        handler_cleanup = [Cl ''scene'']\<rparr>),
      (''xrDestroySceneObserverMSFT'',
       \<lparr>handler_params = [De ''sceneObserver''],
        handler_reply = [],
        handler_cleanup = [Cl ''sceneObserver'']\<rparr>)])]"

definition ext_handlers_73 :: "(string \<times> (string \<times> rpc_handler) list) list" where
  "ext_handlers_73 =
   [(''XR_MSFT_scene_understanding'',
     [(''xrEnumerateSceneComputeFeaturesMSFT'',
       \<lparr>handler_params = [De ''instance'', De ''systemId'', De ''featureCapacityInput'',
          De_ptr ''featureCountOutput'', De_ptr ''features''],
        handler_reply = [Ser_ptr ''featureCountOutput'' C_one,
          Ser_ptr ''features'' (C_field ''featureCapacityInput'')],
        handler_cleanup = [Cl ''instance'', Cl ''systemId'', Cl ''featureCapacityInput'',
          Cl_ptr ''featureCountOutput'' C_one,
          Cl_ptr ''features'' (C_field ''featureCapacityInput'')]\<rparr>),
      (''xrGetSceneComponentsMSFT'',
       \<lparr>handler_params = [De ''scene'', De_ptr ''getInfo'', De_ptr ''components''],
        handler_reply = [Ser_ptr ''components'' C_one],
        handler_cleanup = [Cl ''scene'', Cl_ptr ''getInfo'' C_one, Cl_ptr ''components'' C_one]\<rparr>),
      (''xrGetSceneComputeStateMSFT'',
       \<lparr>handler_params = [De ''sceneObserver'', De_ptr ''state''],
        handler_reply = [Ser_ptr ''state'' C_one],
        handler_cleanup = [Cl ''sceneObserver'', Cl_ptr ''state'' C_one]\<rparr>),
      (''xrGetSceneMeshBuffersMSFT'',
       \<lparr>handler_params = [De ''scene'', De_ptr ''getInfo'', De_ptr ''buffers''],
        handler_reply = [Ser_ptr ''buffers'' C_one],
        handler_cleanup = [Cl ''scene'', Cl_ptr ''getInfo'' C_one, Cl_ptr ''buffers'' C_one]\<rparr>)])]"

definition ext_handlers_74 :: "(string \<times> (string \<times> rpc_handler) list) list" where
  "ext_handlers_74 =
   [(''XR_MSFT_scene_understanding'',
     [(''xrLocateSceneComponentsMSFT'',
       \<lparr>handler_params = [De ''scene'', De_ptr ''locateInfo'', De_ptr ''locations''],
        handler_reply = [Ser_ptr ''locations'' C_one],
        handler_cleanup = [Cl ''scene'', Cl_ptr ''locateInfo'' C_one, Cl_ptr ''locations'' C_one]\<rparr>)]),
    (''XR_MSFT_scene_understanding_serialization'',
     [(''xrDeserializeSceneMSFT'',
       \<lparr>handler_params = [De ''sceneObserver'', De_ptr ''deserializeInfo''],
        handler_reply = [],
        handler_cleanup = [Cl ''sceneObserver'', Cl_ptr ''deserializeInfo'' C_one]\<rparr>),
      (''xrGetSerializedSceneFragmentDataMSFT'',
       \<lparr>handler_params = [De ''scene'', De_ptr ''getInfo'', De ''countInput'', De_ptr ''readOutput'',
          De_ptr ''buffer''],
        handler_reply = [Ser_ptr ''readOutput'' C_one, Ser_ptr ''buffer'' (C_field ''countInput'')],
        handler_cleanup = [Cl ''scene'', Cl_ptr ''getInfo'' C_one, Cl ''countInput'',
          Cl_ptr ''readOutput'' C_one, Cl_ptr ''buffer'' (C_field ''countInput'')]\<rparr>)])]"

definition ext_handlers_75 :: "(string \<times> (string \<times> rpc_handler) list) list" where
  "ext_handlers_75 =
   [(''XR_MSFT_spatial_anchor'',
     [(''xrCreateSpatialAnchorMSFT'',
       \<lparr>handler_params = [De ''session'', De_ptr ''createInfo'', De_ptr ''anchor''],
        handler_reply = [Ser_ptr ''anchor'' C_one],
        handler_cleanup = [Cl ''session'', Cl_ptr ''createInfo'' C_one, Cl_ptr ''anchor'' C_one]\<rparr>),
      (''xrCreateSpatialAnchorSpaceMSFT'',
       \<lparr>handler_params = [De ''session'', De_ptr ''createInfo'', De_ptr ''space''],
        handler_reply = [Ser_ptr ''space'' C_one],
        handler_cleanup = [Cl ''session'', Cl_ptr ''createInfo'' C_one, Cl_ptr ''space'' C_one]\<rparr>),
      (''xrDestroySpatialAnchorMSFT'',
       \<lparr>handler_params = [De ''anchor''],
        handler_reply = [],
        handler_cleanup = [Cl ''anchor'']\<rparr>)]),
    (''XR_MSFT_spatial_anchor_persistence'',
     [(''xrClearSpatialAnchorStoreMSFT'',
       \<lparr>handler_params = [De ''spatialAnchorStore''],
        handler_reply = [],
        handler_cleanup = [Cl ''spatialAnchorStore'']\<rparr>)])]"

definition ext_handlers_76 :: "(string \<times> (string \<times> rpc_handler) list) list" where
  "ext_handlers_76 =
   [(''XR_MSFT_spatial_anchor_persistence'',
     [(''xrCreateSpatialAnchorFromPersistedNameMSFT'',
       \<lparr>handler_params = [De ''session'', De_ptr ''spatialAnchorCreateInfo'', De_ptr ''spatialAnchor''],
        handler_reply = [Ser_ptr ''spatialAnchor'' C_one],
        handler_cleanup = [Cl ''session'', Cl_ptr ''spatialAnchorCreateInfo'' C_one,
          Cl_ptr ''spatialAnchor'' C_one]\<rparr>),
      (''xrCreateSpatialAnchorStoreConnectionMSFT'',
       \<lparr>handler_params = [De ''session'', De_ptr ''spatialAnchorStore''],
        handler_reply = [Ser_ptr ''spatialAnchorStore'' C_one],
        handler_cleanup = [Cl ''session'', Cl_ptr ''spatialAnchorStore'' C_one]\<rparr>),
      (''xrDestroySpatialAnchorStoreConnectionMSFT'',
       \<lparr>handler_params = [De ''spatialAnchorStore''],
        handler_reply = [],
        handler_cleanup = [Cl ''spatialAnchorStore'']\<rparr>),
      (''xrEnumeratePersistedSpatialAnchorNamesMSFT'',
       \<lparr>handler_params = [De ''spatialAnchorStore'', De ''spatialAnchorNameCapacityInput'',
          De_ptr ''spatialAnchorNameCountOutput'', De_ptr ''spatialAnchorNames''],
        handler_reply = [Ser_ptr ''spatialAnchorNameCountOutput'' C_one,
          Ser_ptr ''spatialAnchorNames'' (C_field ''spatialAnchorNameCapacityInput'')],
        handler_cleanup = [Cl ''spatialAnchorStore'', Cl ''spatialAnchorNameCapacityInput'',
          Cl_ptr ''spatialAnchorNameCountOutput'' C_one,
          Cl_ptr ''spatialAnchorNames'' (C_field ''spatialAnchorNameCapacityInput'')]\<rparr>)])]"

definition ext_handlers_77 :: "(string \<times> (string \<times> rpc_handler) list) list" where
  "ext_handlers_77 =
   [(''XR_MSFT_spatial_anchor_persistence'',
     [(''xrPersistSpatialAnchorMSFT'',
       \<lparr>handler_params = [De ''spatialAnchorStore'', De_ptr ''spatialAnchorPersistenceInfo''],
        handler_reply = [],
        handler_cleanup = [Cl ''spatialAnchorStore'', Cl_ptr ''spatialAnchorPersistenceInfo'' C_one]\<rparr>),
      (''xrUnpersistSpatialAnchorMSFT'',
       \<lparr>handler_params = [De ''spatialAnchorStore'', De_ptr ''spatialAnchorPersistenceName''],
        handler_reply = [],
        handler_cleanup = [Cl ''spatialAnchorStore'', Cl_ptr ''spatialAnchorPersistenceName'' C_one]\<rparr>)]),
    (''XR_MSFT_spatial_graph_bridge'',
     [(''xrCreateSpatialGraphNodeSpaceMSFT'',
       \<lparr>handler_params = [De ''session'', De_ptr ''createInfo'', De_ptr ''space''],
        handler_reply = [Ser_ptr ''space'' C_one],
        handler_cleanup = [Cl ''session'', Cl_ptr ''createInfo'' C_one, Cl_ptr ''space'' C_one]\<rparr>),
      (''xrDestroySpatialGraphNodeBindingMSFT'',
       \<lparr>handler_params = [De ''nodeBinding''],
        handler_reply = [],
        handler_cleanup = [Cl ''nodeBinding'']\<rparr>)])]"

definition ext_handlers_78 :: "(string \<times> (string \<times> rpc_handler) list) list" where
  "ext_handlers_78 =
   [(''XR_MSFT_spatial_graph_bridge'',
     [(''xrGetSpatialGraphNodeBindingPropertiesMSFT'',
       \<lparr>handler_params = [De ''nodeBinding'', De_ptr ''getInfo'', De_ptr ''properties''],
        handler_reply = [Ser_ptr ''properties'' C_one],
        handler_cleanup = [Cl ''nodeBinding'', Cl_ptr ''getInfo'' C_one, Cl_ptr ''properties'' C_one]\<rparr>),
      (''xrTryCreateSpatialGraphStaticNodeBindingMSFT'',
       \<lparr>handler_params = [De ''session'', De_ptr ''createInfo'', De_ptr ''nodeBinding''],
        handler_reply = [Ser_ptr ''nodeBinding'' C_one],
        handler_cleanup = [Cl ''session'', Cl_ptr ''createInfo'' C_one, Cl_ptr ''nodeBinding'' C_one]\<rparr>)]),
    (''XR_OCULUS_audio_device_guid'',
     [(''xrGetAudioInputDeviceGuidOculus'',
       \<lparr>handler_params = [De ''instance'',
          De_array ''buffer'' (B_const ''XR_MAX_AUDIO_DEVICE_STR_SIZE_OCULUS'')],
        handler_reply = [Ser_ptr ''buffer'' (C_const ''XR_MAX_AUDIO_DEVICE_STR_SIZE_OCULUS'')],
        handler_cleanup = [Cl ''instance'',
          Cl_array ''buffer'' (B_const ''XR_MAX_AUDIO_DEVICE_STR_SIZE_OCULUS'')]\<rparr>),
      (''xrGetAudioOutputDeviceGuidOculus'',
       \<lparr>handler_params = [De ''instance'',
          De_array ''buffer'' (B_const ''XR_MAX_AUDIO_DEVICE_STR_SIZE_OCULUS'')],
        handler_reply = [Ser_ptr ''buffer'' (C_const ''XR_MAX_AUDIO_DEVICE_STR_SIZE_OCULUS'')],
        handler_cleanup = [Cl ''instance'',
          Cl_array ''buffer'' (B_const ''XR_MAX_AUDIO_DEVICE_STR_SIZE_OCULUS'')]\<rparr>)])]"

definition ext_handlers_79 :: "(string \<times> (string \<times> rpc_handler) list) list" where
  "ext_handlers_79 =
   [(''XR_OCULUS_external_camera'',
     [(''xrEnumerateExternalCamerasOCULUS'',
       \<lparr>handler_params = [De ''session'', De ''cameraCapacityInput'', De_ptr ''cameraCountOutput'',
          De_ptr ''cameras''],
        handler_reply = [Ser_ptr ''cameraCountOutput'' C_one,
          Ser_ptr ''cameras'' (C_field ''cameraCapacityInput'')],
        handler_cleanup = [Cl ''session'', Cl ''cameraCapacityInput'', Cl_ptr ''cameraCountOutput'' C_one,
          Cl_ptr ''cameras'' (C_field ''cameraCapacityInput'')]\<rparr>)]),
    (''XR_QCOM_tracking_optimization_settings'',
     [(''xrSetTrackingOptimizationSettingsHintQCOM'',
       \<lparr>handler_params = [De ''session'', De ''domain'', De ''hint''],
        handler_reply = [],
        handler_cleanup = [Cl ''session'', Cl ''domain'', Cl ''hint'']\<rparr>)]),
    (''XR_VARJO_environment_depth_estimation'',
     [(''xrSetEnvironmentDepthEstimationVARJO'',
       \<lparr>handler_params = [De ''session'', De ''enabled''],
        handler_reply = [],
        handler_cleanup = [Cl ''session'', Cl ''enabled'']\<rparr>)])]"

definition ext_handlers_80 :: "(string \<times> (string \<times> rpc_handler) list) list" where
  "ext_handlers_80 =
   [(''XR_VARJO_marker_tracking'',
     [(''xrCreateMarkerSpaceVARJO'',
       \<lparr>handler_params = [De ''session'', De_ptr ''createInfo'', De_ptr ''space''],
        handler_reply = [Ser_ptr ''space'' C_one],
        handler_cleanup = [Cl ''session'', Cl_ptr ''createInfo'' C_one, Cl_ptr ''space'' C_one]\<rparr>),
      (''xrGetMarkerSizeVARJO'',
       \<lparr>handler_params = [De ''session'', De ''markerId'', De_ptr ''size''],
        handler_reply = [Ser_ptr ''size'' C_one],
        handler_cleanup = [Cl ''session'', Cl ''markerId'', Cl_ptr ''size'' C_one]\<rparr>),
      (''xrSetMarkerTrackingPredictionVARJO'',
       \<lparr>handler_params = [De ''session'', De ''markerId'', De ''enable''],
        handler_reply = [],
        handler_cleanup = [Cl ''session'', Cl ''markerId'', Cl ''enable'']\<rparr>),
      (''xrSetMarkerTrackingTimeoutVARJO'',
       \<lparr>handler_params = [De ''session'', De ''markerId'', De ''timeout''],
        handler_reply = [],
        handler_cleanup = [Cl ''session'', Cl ''markerId'', Cl ''timeout'']\<rparr>)])]"

definition ext_handlers_81 :: "(string \<times> (string \<times> rpc_handler) list) list" where
  "ext_handlers_81 =
   [(''XR_VARJO_marker_tracking'',
     [(''xrSetMarkerTrackingVARJO'',
       \<lparr>handler_params = [De ''session'', De ''enabled''],
        handler_reply = [],
        handler_cleanup = [Cl ''session'', Cl ''enabled'']\<rparr>)]),
    (''XR_VARJO_view_offset'',
     [(''xrSetViewOffsetVARJO'',
       \<lparr>handler_params = [De ''session'', De ''offset''],
        handler_reply = [],
        handler_cleanup = [Cl ''session'', Cl ''offset'']\<rparr>)])]"

definition ext_handlers :: "(string \<times> (string \<times> rpc_handler) list) list" where
  "ext_handlers =
     ext_handlers_1 @ ext_handlers_2 @ ext_handlers_3 @ ext_handlers_4 @ ext_handlers_5 @
     ext_handlers_6 @ ext_handlers_7 @ ext_handlers_8 @ ext_handlers_9 @ ext_handlers_10 @
     ext_handlers_11 @ ext_handlers_12 @ ext_handlers_13 @ ext_handlers_14 @ ext_handlers_15 @
     ext_handlers_16 @ ext_handlers_17 @ ext_handlers_18 @ ext_handlers_19 @ ext_handlers_20 @
     ext_handlers_21 @ ext_handlers_22 @ ext_handlers_23 @ ext_handlers_24 @ ext_handlers_25 @
     ext_handlers_26 @ ext_handlers_27 @ ext_handlers_28 @ ext_handlers_29 @ ext_handlers_30 @
     ext_handlers_31 @ ext_handlers_32 @ ext_handlers_33 @ ext_handlers_34 @ ext_handlers_35 @
     ext_handlers_36 @ ext_handlers_37 @ ext_handlers_38 @ ext_handlers_39 @ ext_handlers_40 @
     ext_handlers_41 @ ext_handlers_42 @ ext_handlers_43 @ ext_handlers_44 @ ext_handlers_45 @
     ext_handlers_46 @ ext_handlers_47 @ ext_handlers_48 @ ext_handlers_49 @ ext_handlers_50 @
     ext_handlers_51 @ ext_handlers_52 @ ext_handlers_53 @ ext_handlers_54 @ ext_handlers_55 @
     ext_handlers_56 @ ext_handlers_57 @ ext_handlers_58 @ ext_handlers_59 @ ext_handlers_60 @
     ext_handlers_61 @ ext_handlers_62 @ ext_handlers_63 @ ext_handlers_64 @ ext_handlers_65 @
     ext_handlers_66 @ ext_handlers_67 @ ext_handlers_68 @ ext_handlers_69 @ ext_handlers_70 @
     ext_handlers_71 @ ext_handlers_72 @ ext_handlers_73 @ ext_handlers_74 @ ext_handlers_75 @
     ext_handlers_76 @ ext_handlers_77 @ ext_handlers_78 @ ext_handlers_79 @ ext_handlers_80 @
     ext_handlers_81"

lemmas ext_handlers_defs =
  ext_handlers_1_def ext_handlers_2_def ext_handlers_3_def ext_handlers_4_def
  ext_handlers_5_def ext_handlers_6_def ext_handlers_7_def ext_handlers_8_def
  ext_handlers_9_def ext_handlers_10_def ext_handlers_11_def ext_handlers_12_def
  ext_handlers_13_def ext_handlers_14_def ext_handlers_15_def ext_handlers_16_def
  ext_handlers_17_def ext_handlers_18_def ext_handlers_19_def ext_handlers_20_def
  ext_handlers_21_def ext_handlers_22_def ext_handlers_23_def ext_handlers_24_def
  ext_handlers_25_def ext_handlers_26_def ext_handlers_27_def ext_handlers_28_def
  ext_handlers_29_def ext_handlers_30_def ext_handlers_31_def ext_handlers_32_def
  ext_handlers_33_def ext_handlers_34_def ext_handlers_35_def ext_handlers_36_def
  ext_handlers_37_def ext_handlers_38_def ext_handlers_39_def ext_handlers_40_def
  ext_handlers_41_def ext_handlers_42_def ext_handlers_43_def ext_handlers_44_def
  ext_handlers_45_def ext_handlers_46_def ext_handlers_47_def ext_handlers_48_def
  ext_handlers_49_def ext_handlers_50_def ext_handlers_51_def ext_handlers_52_def
  ext_handlers_53_def ext_handlers_54_def ext_handlers_55_def ext_handlers_56_def
  ext_handlers_57_def ext_handlers_58_def ext_handlers_59_def ext_handlers_60_def
  ext_handlers_61_def ext_handlers_62_def ext_handlers_63_def ext_handlers_64_def
  ext_handlers_65_def ext_handlers_66_def ext_handlers_67_def ext_handlers_68_def
  ext_handlers_69_def ext_handlers_70_def ext_handlers_71_def ext_handlers_72_def
  ext_handlers_73_def ext_handlers_74_def ext_handlers_75_def ext_handlers_76_def
  ext_handlers_77_def ext_handlers_78_def ext_handlers_79_def ext_handlers_80_def
  ext_handlers_81_def


end
