(* ===== verification/Ext_Dispatch.thy ===== *)
theory Ext_Dispatch
  imports Rpc_Frame
begin

text \<open>
  The tables of functions: the rows of \<open>FunctionDispatch::handlers\<close> in
  \<open>src/server/function_dispatch.cpp\<close> for the extensions, and the names that
  \<open>FunctionTable::init_with_rpc_functions\<close> of \<open>src/client/function_table.cpp\<close> enters, each with the
  stub of the same name.
\<close>

definition ext_dispatch_rows_1 :: "(string \<times> (u32 \<times> string) list) list" where
  "ext_dispatch_rows_1 =
   [(''XR_ALMALENCE_digital_lens_control'',
     [(197001, ''xrSetDigitalLensControlALMALENCE'')]),
    (''XR_BD_body_tracking'',
     [(386001, ''xrCreateBodyTrackerBD''),
      (386002, ''xrDestroyBodyTrackerBD''),
      (386003, ''xrLocateBodyJointsBD'')]),
    (''XR_BD_spatial_anchor'',
     [(391001, ''xrCreateSpatialAnchorAsyncBD''),
      (391002, ''xrCreateSpatialAnchorCompleteBD''),
      (391003, ''xrPersistSpatialAnchorAsyncBD''),
      (391004, ''xrPersistSpatialAnchorCompleteBD''),
      (391005, ''xrUnpersistSpatialAnchorAsyncBD''),
      (391006, ''xrUnpersistSpatialAnchorCompleteBD'')]),
    (''XR_BD_spatial_anchor_sharing'',
     [(392001, ''xrDownloadSharedSpatialAnchorAsyncBD''),
      (392002, ''xrDownloadSharedSpatialAnchorCompleteBD''),
      (392003, ''xrShareSpatialAnchorAsyncBD''),
      (392004, ''xrShareSpatialAnchorCompleteBD'')]),
    (''XR_BD_spatial_scene'',
     [(393001, ''xrCaptureSceneAsyncBD''),
      (393002, ''xrCaptureSceneCompleteBD'')]),
    (''XR_BD_spatial_sensing'',
     [(390001, ''xrCreateAnchorSpaceBD''),
      (390002, ''xrCreateSenseDataProviderBD''),
      (390003, ''xrCreateSpatialEntityAnchorBD''),
      (390004, ''xrDestroyAnchorBD''),
      (390005, ''xrDestroySenseDataProviderBD''),
      (390006, ''xrDestroySenseDataSnapshotBD''),
      (390007, ''xrEnumerateSpatialEntityComponentTypesBD''),
      (390008, ''xrGetAnchorUuidBD''),
      (390009, ''xrGetQueriedSenseDataBD''),
      (390010, ''xrGetSenseDataProviderStateBD''),
      (390011, ''xrGetSpatialEntityComponentDataBD''),
      (390012, ''xrGetSpatialEntityUuidBD''),
      (390013, ''xrQuerySenseDataAsyncBD''),
      (390014, ''xrQuerySenseDataCompleteBD''),
      (390015, ''xrStartSenseDataProviderAsyncBD''),
      (390016, ''xrStartSenseDataProviderCompleteBD''),
      (390017, ''xrStopSenseDataProviderBD'')]),
    (''XR_EXT_conformance_automation'',
     [(48001, ''xrSetInputDeviceActiveEXT''),
      (48002, ''xrSetInputDeviceLocationEXT''),
      (48003, ''xrSetInputDeviceStateBoolEXT''),
      (48004, ''xrSetInputDeviceStateFloatEXT''),
      (48005, ''xrSetInputDeviceStateVector2fEXT'')]),
    (''XR_EXT_debug_utils'',
     [(20001, ''xrCreateDebugUtilsMessengerEXT''),
      (20002, ''xrDestroyDebugUtilsMessengerEXT''),
      (20003, ''xrSessionBeginDebugUtilsLabelRegionEXT''),
      (20004, ''xrSessionEndDebugUtilsLabelRegionEXT''),
      (20005, ''xrSessionInsertDebugUtilsLabelEXT''),
      (20006, ''xrSetDebugUtilsObjectNameEXT''),
      (20007, ''xrSubmitDebugUtilsMessageEXT'')]),
    (''XR_EXT_future'',
     [(470001, ''xrCancelFutureEXT''),
      (470002, ''xrPollFutureEXT'')]),
    (''XR_EXT_hand_tracking'',
     [(52001, ''xrCreateHandTrackerEXT''),
      (52002, ''xrDestroyHandTrackerEXT''),
      (52003, ''xrLocateHandJointsEXT'')]),
    (''XR_EXT_performance_settings'',
     [(16001, ''xrPerfSettingsSetPerformanceLevelEXT'')]),
    (''XR_EXT_plane_detection'',
     [(430001, ''xrBeginPlaneDetectionEXT''),
      (430002, ''xrCreatePlaneDetectorEXT''),
      (430003, ''xrDestroyPlaneDetectorEXT''),
      (430004, ''xrGetPlaneDetectionStateEXT''),
      (430005, ''xrGetPlaneDetectionsEXT''),
      (430006, ''xrGetPlanePolygonBufferEXT'')]),
    (''XR_EXT_thermal_query'',
     [(17001, ''xrThermalGetTemperatureTrendEXT'')]),
    (''XR_FB_body_tracking'',
     [(77001, ''xrCreateBodyTrackerFB''),
      (77002, ''xrDestroyBodyTrackerFB''),
      (77003, ''xrGetBodySkeletonFB''),
      (77004, ''xrLocateBodyJointsFB'')]),
    (''XR_FB_color_space'',
     [(109001, ''xrEnumerateColorSpacesFB''),
      (109002, ''xrSetColorSpaceFB'')]),
    (''XR_FB_display_refresh_rate'',
     [(102001, ''xrEnumerateDisplayRefreshRatesFB''),
      (102002, ''xrGetDisplayRefreshRateFB''),
      (102003, ''xrRequestDisplayRefreshRateFB'')]),
    (''XR_FB_eye_tracking_social'',
     [(203001, ''xrCreateEyeTrackerFB''),
      (203002, ''xrDestroyEyeTrackerFB''),
      (203003, ''xrGetEyeGazesFB'')]),
    (''XR_FB_face_tracking'',
     [(202001, ''xrCreateFaceTrackerFB''),
      (202002, ''xrDestroyFaceTrackerFB''),
      (202003, ''xrGetFaceExpressionWeightsFB'')]),
    (''XR_FB_face_tracking2'',
     [(288001, ''xrCreateFaceTracker2FB''),
      (288002, ''xrDestroyFaceTracker2FB''),
      (288003, ''xrGetFaceExpressionWeights2FB'')]),
    (''XR_FB_foveation'',
     [(115001, ''xrCreateFoveationProfileFB''),
      (115002, ''xrDestroyFoveationProfileFB'')]),
    (''XR_FB_hand_tracking_mesh'',
     [(111001, ''xrGetHandMeshFB'')]),
    (''XR_FB_haptic_pcm'',
     [(210001, ''xrGetDeviceSampleRateFB'')]),
    (''XR_FB_keyboard_tracking'',
     [(117001, ''xrCreateKeyboardSpaceFB''),
      (117002, ''xrQuerySystemTrackedKeyboardFB'')]),
    (''XR_FB_passthrough'',
     [(119001, ''xrCreateGeometryInstanceFB''),
      (119002, ''xrCreatePassthroughFB''),
      (119003, ''xrCreatePassthroughLayerFB''),
      (119004, ''xrDestroyGeometryInstanceFB''),
      (119005, ''xrDestroyPassthroughFB''),
      (119006, ''xrDestroyPassthroughLayerFB''),
      (119007, ''xrGeometryInstanceSetTransformFB''),
      (119008, ''xrPassthroughLayerPauseFB''),
      (119009, ''xrPassthroughLayerResumeFB''),
      (119010, ''xrPassthroughLayerSetStyleFB''),
      (119011, ''xrPassthroughPauseFB''),
      (119012, ''xrPassthroughStartFB'')]),
    (''XR_FB_passthrough_keyboard_hands'',
     [(204001, ''xrPassthroughLayerSetKeyboardHandsIntensityFB'')]),
    (''XR_FB_render_model'',
     [(120001, ''xrEnumerateRenderModelPathsFB''),
      (120002, ''xrGetRenderModelPropertiesFB''),
      (120003, ''xrLoadRenderModelFB'')])]"

definition ext_dispatch_rows_2 :: "(string \<times> (u32 \<times> string) list) list" where
  "ext_dispatch_rows_2 =
   [(''XR_FB_scene'',
     [(176001, ''xrGetSpaceBoundary2DFB''),
      (176002, ''xrGetSpaceBoundingBox2DFB''),
      (176003, ''xrGetSpaceBoundingBox3DFB''),
      (176004, ''xrGetSpaceRoomLayoutFB''),
      (176005, ''xrGetSpaceSemanticLabelsFB'')]),
    (''XR_FB_scene_capture'',
     [(199001, ''xrRequestSceneCaptureFB'')]),
    (''XR_FB_spatial_entity'',
     [(114001, ''xrCreateSpatialAnchorFB''),
      (114002, ''xrEnumerateSpaceSupportedComponentsFB''),
      (114003, ''xrGetSpaceComponentStatusFB''),
      (114004, ''xrGetSpaceUuidFB''),
      (114005, ''xrSetSpaceComponentStatusFB'')]),
    (''XR_FB_spatial_entity_container'',
     [(200001, ''xrGetSpaceContainerFB'')]),
    (''XR_FB_spatial_entity_query'',
     [(157001, ''xrQuerySpacesFB''),
      (157002, ''xrRetrieveSpaceQueryResultsFB'')]),
    (''XR_FB_spatial_entity_sharing'',
     [(170001, ''xrShareSpacesFB'')]),
    (''XR_FB_spatial_entity_storage'',
     [(159001, ''xrEraseSpaceFB''),
      (159002, ''xrSaveSpaceFB'')]),
    (''XR_FB_spatial_entity_storage_batch'',
     [(239001, ''xrSaveSpaceListFB'')]),
    (''XR_FB_spatial_entity_user'',
     [(242001, ''xrCreateSpaceUserFB''),
      (242002, ''xrDestroySpaceUserFB''),
      (242003, ''xrGetSpaceUserIdFB'')]),
    (''XR_FB_swapchain_update_state'',
     [(72001, ''xrGetSwapchainStateFB''),
      (72002, ''xrUpdateSwapchainFB'')]),
    (''XR_FB_triangle_mesh'',
     [(118001, ''xrCreateTriangleMeshFB''),
      (118002, ''xrDestroyTriangleMeshFB''),
      (118003, ''xrTriangleMeshBeginUpdateFB''),
      (118004, ''xrTriangleMeshBeginVertexBufferUpdateFB''),
      (118005, ''xrTriangleMeshEndUpdateFB''),
      (118006, ''xrTriangleMeshEndVertexBufferUpdateFB''),
      (118007, ''xrTriangleMeshGetIndexBufferFB''),
      (118008, ''xrTriangleMeshGetVertexBufferFB'')]),
    (''XR_HTCX_vive_tracker_interaction'',
     [(104001, ''xrEnumerateViveTrackerPathsHTCX'')]),
    (''XR_HTC_anchor'',
     [(320001, ''xrCreateSpatialAnchorHTC''),
      (320002, ''xrGetSpatialAnchorNameHTC'')]),
    (''XR_HTC_body_tracking'',
     [(321001, ''xrCreateBodyTrackerHTC''),
      (321002, ''xrDestroyBodyTrackerHTC''),
      (321003, ''xrGetBodySkeletonHTC''),
      (321004, ''xrLocateBodyJointsHTC'')]),
    (''XR_HTC_facial_tracking'',
     [(105001, ''xrCreateFacialTrackerHTC''),
      (105002, ''xrDestroyFacialTrackerHTC''),
      (105003, ''xrGetFacialExpressionsHTC'')]),
    (''XR_HTC_foveation'',
     [(319001, ''xrApplyFoveationHTC'')]),
    (''XR_HTC_passthrough'',
     [(318001, ''xrCreatePassthroughHTC''),
      (318002, ''xrDestroyPassthroughHTC'')]),
    (''XR_KHR_D3D11_enable'',
     [(28001, ''xrGetD3D11GraphicsRequirementsKHR'')]),
    (''XR_KHR_D3D12_enable'',
     [(29001, ''xrGetD3D12GraphicsRequirementsKHR'')]),
    (''XR_KHR_android_surface_swapchain'',
     [(5001, ''xrCreateSwapchainAndroidSurfaceKHR'')]),
    (''XR_KHR_android_thread_settings'',
     [(4001, ''xrSetAndroidApplicationThreadKHR'')]),
    (''XR_KHR_convert_timespec_time'',
     [(37001, ''xrConvertTimeToTimespecTimeKHR''),
      (37002, ''xrConvertTimespecTimeToTimeKHR'')]),
    (''XR_KHR_extended_struct_name_lengths'',
     [(149001, ''xrStructureTypeToString2KHR'')]),
    (''XR_KHR_loader_init'',
     [(89001, ''xrInitializeLoaderKHR'')]),
    (''XR_KHR_metal_enable'',
     [(30001, ''xrGetMetalGraphicsRequirementsKHR'')]),
    (''XR_KHR_opengl_enable'',
     [(24001, ''xrGetOpenGLGraphicsRequirementsKHR'')]),
    (''XR_KHR_opengl_es_enable'',
     [(25001, ''xrGetOpenGLESGraphicsRequirementsKHR'')]),
    (''XR_KHR_visibility_mask'',
     [(32001, ''xrGetVisibilityMaskKHR'')]),
    (''XR_KHR_vulkan_enable'',
     [(26001, ''xrGetVulkanDeviceExtensionsKHR''),
      (26002, ''xrGetVulkanGraphicsDeviceKHR''),
      (26003, ''xrGetVulkanGraphicsRequirementsKHR''),
      (26004, ''xrGetVulkanInstanceExtensionsKHR'')]),
    (''XR_KHR_vulkan_enable2'',
     [(91001, ''xrCreateVulkanDeviceKHR''),
      (91002, ''xrCreateVulkanInstanceKHR''),
      (91003, ''xrGetVulkanGraphicsDevice2KHR'')]),
    (''XR_KHR_win32_convert_performance_counter_time'',
     [(36001, ''xrConvertTimeToWin32PerformanceCounterKHR''),
      (36002, ''xrConvertWin32PerformanceCounterToTimeKHR'')]),
    (''XR_META_colocation_discovery'',
     [(572001, ''xrStartColocationAdvertisementMETA''),
      (572002, ''xrStartColocationDiscoveryMETA''),
      (572003, ''xrStopColocationAdvertisementMETA''),
      (572004, ''xrStopColocationDiscoveryMETA'')]),
    (''XR_META_environment_depth'',
     [(292001, ''xrAcquireEnvironmentDepthImageMETA''),
      (292002, ''xrCreateEnvironmentDepthProviderMETA''),
      (292003, ''xrCreateEnvironmentDepthSwapchainMETA''),
      (292004, ''xrDestroyEnvironmentDepthProviderMETA''),
      (292005, ''xrDestroyEnvironmentDepthSwapchainMETA''),
      (292006, ''xrEnumerateEnvironmentDepthSwapchainImagesMETA''),
      (292007, ''xrGetEnvironmentDepthSwapchainStateMETA''),
      (292008, ''xrSetEnvironmentDepthHandRemovalMETA''),
      (292009, ''xrStartEnvironmentDepthProviderMETA''),
      (292010, ''xrStopEnvironmentDepthProviderMETA'')]),
    (''XR_META_foveation_eye_tracked'',
     [(201001, ''xrGetFoveationEyeTrackedStateMETA'')]),
    (''XR_META_passthrough_color_lut'',
     [(267001, ''xrCreatePassthroughColorLutMETA''),
      (267002, ''xrDestroyPassthroughColorLutMETA'')])]"

definition ext_dispatch_rows_3 :: "(string \<times> (u32 \<times> string) list) list" where
  "ext_dispatch_rows_3 =
   [(''XR_META_passthrough_color_lut'',
     [(267003, ''xrUpdatePassthroughColorLutMETA'')]),
    (''XR_META_passthrough_preferences'',
     [(218001, ''xrGetPassthroughPreferencesMETA'')]),
    (''XR_META_performance_metrics'',
     [(233001, ''xrEnumeratePerformanceMetricsCounterPathsMETA''),
      (233002, ''xrGetPerformanceMetricsStateMETA''),
      (233003, ''xrQueryPerformanceMetricsCounterMETA''),
      (233004, ''xrSetPerformanceMetricsStateMETA'')]),
    (''XR_META_recommended_layer_resolution'',
     [(255001, ''xrGetRecommendedLayerResolutionMETA'')]),
    (''XR_META_simultaneous_hands_and_controllers'',
     [(533001, ''xrPauseSimultaneousHandsAndControllersTrackingMETA''),
      (533002, ''xrResumeSimultaneousHandsAndControllersTrackingMETA'')]),
    (''XR_META_spatial_entity_mesh'',
     [(270001, ''xrGetSpaceTriangleMeshMETA'')]),
    (''XR_META_spatial_entity_sharing'',
     [(291001, ''xrShareSpacesMETA'')]),
    (''XR_META_virtual_keyboard'',
     [(220001, ''xrChangeVirtualKeyboardTextContextMETA''),
      (220002, ''xrCreateVirtualKeyboardMETA''),
      (220003, ''xrCreateVirtualKeyboardSpaceMETA''),
      (220004, ''xrDestroyVirtualKeyboardMETA''),
      (220005, ''xrGetVirtualKeyboardDirtyTexturesMETA''),
      (220006, ''xrGetVirtualKeyboardModelAnimationStatesMETA''),
      (220007, ''xrGetVirtualKeyboardScaleMETA''),
      (220008, ''xrGetVirtualKeyboardTextureDataMETA''),
      (220009, ''xrSendVirtualKeyboardInputMETA''),
      (220010, ''xrSetVirtualKeyboardModelVisibilityMETA''),
      (220011, ''xrSuggestVirtualKeyboardLocationMETA'')]),
    (''XR_ML_compat'',
     [(138001, ''xrCreateSpaceFromCoordinateFrameUIDML'')]),
    (''XR_ML_facial_expression'',
     [(483001, ''xrCreateFacialExpressionClientML''),
      (483002, ''xrDestroyFacialExpressionClientML''),
      (483003, ''xrGetFacialExpressionBlendShapePropertiesML'')]),
    (''XR_ML_localization_map'',
     [(140001, ''xrCreateExportedLocalizationMapML''),
      (140002, ''xrDestroyExportedLocalizationMapML''),
      (140003, ''xrEnableLocalizationEventsML''),
      (140004, ''xrGetExportedLocalizationMapDataML''),
      (140005, ''xrImportLocalizationMapML''),
      (140006, ''xrQueryLocalizationMapsML''),
      (140007, ''xrRequestMapLocalizationML'')]),
    (''XR_ML_marker_understanding'',
     [(139001, ''xrCreateMarkerDetectorML''),
      (139002, ''xrCreateMarkerSpaceML''),
      (139003, ''xrDestroyMarkerDetectorML''),
      (139004, ''xrGetMarkerDetectorStateML''),
      (139005, ''xrGetMarkerLengthML''),
      (139006, ''xrGetMarkerNumberML''),
      (139007, ''xrGetMarkerReprojectionErrorML''),
      (139008, ''xrGetMarkerStringML''),
      (139009, ''xrGetMarkersML''),
      (139010, ''xrSnapshotMarkerDetectorML'')]),
    (''XR_ML_spatial_anchors'',
     [(141001, ''xrCreateSpatialAnchorsAsyncML''),
      (141002, ''xrCreateSpatialAnchorsCompleteML''),
      (141003, ''xrGetSpatialAnchorStateML'')]),
    (''XR_ML_spatial_anchors_storage'',
     [(142001, ''xrCreateSpatialAnchorsStorageML''),
      (142002, ''xrDeleteSpatialAnchorsAsyncML''),
      (142003, ''xrDeleteSpatialAnchorsCompleteML''),
      (142004, ''xrDestroySpatialAnchorsStorageML''),
      (142005, ''xrPublishSpatialAnchorsAsyncML''),
      (142006, ''xrPublishSpatialAnchorsCompleteML''),
      (142007, ''xrQuerySpatialAnchorsAsyncML''),
      (142008, ''xrQuerySpatialAnchorsCompleteML''),
      (142009, ''xrUpdateSpatialAnchorsExpirationAsyncML''),
      (142010, ''xrUpdateSpatialAnchorsExpirationCompleteML'')]),
    (''XR_ML_system_notifications'',
     [(474001, ''xrSetSystemNotificationsML'')]),
    (''XR_ML_user_calibration'',
     [(473001, ''xrEnableUserCalibrationEventsML'')]),
    (''XR_ML_world_mesh_detection'',
     [(475001, ''xrAllocateWorldMeshBufferML''),
      (475002, ''xrCreateWorldMeshDetectorML''),
      (475003, ''xrDestroyWorldMeshDetectorML''),
      (475004, ''xrFreeWorldMeshBufferML''),
      (475005, ''xrGetWorldMeshBufferRecommendSizeML''),
      (475006, ''xrRequestWorldMeshAsyncML''),
      (475007, ''xrRequestWorldMeshCompleteML''),
      (475008, ''xrRequestWorldMeshStateAsyncML''),
      (475009, ''xrRequestWorldMeshStateCompleteML'')]),
    (''XR_MNDX_force_feedback_curl'',
     [(376001, ''xrApplyForceFeedbackCurlMNDX'')]),
    (''XR_MSFT_composition_layer_reprojection'',
     [(67001, ''xrEnumerateReprojectionModesMSFT'')]),
    (''XR_MSFT_controller_model'',
     [(56001, ''xrGetControllerModelKeyMSFT''),
      (56002, ''xrGetControllerModelPropertiesMSFT''),
      (56003, ''xrGetControllerModelStateMSFT''),
      (56004, ''xrLoadControllerModelMSFT'')]),
    (''XR_MSFT_hand_tracking_mesh'',
     [(53001, ''xrCreateHandMeshSpaceMSFT''),
      (53002, ''xrUpdateHandMeshMSFT'')]),
    (''XR_MSFT_perception_anchor_interop'',
     [(57001, ''xrCreateSpatialAnchorFromPerceptionAnchorMSFT''),
      (57002, ''xrTryGetPerceptionAnchorFromSpatialAnchorMSFT'')]),
    (''XR_MSFT_scene_marker'',
     [(148001, ''xrGetSceneMarkerDecodedStringMSFT''),
      (148002, ''xrGetSceneMarkerRawDataMSFT'')]),
    (''XR_MSFT_scene_understanding'',
     [(98001, ''xrComputeNewSceneMSFT''),
      (98002, ''xrCreateSceneMSFT''),
      (98003, ''xrCreateSceneObserverMSFT''),
      (98004, ''xrDestroySceneMSFT''),
      (98005, ''xrDestroySceneObserverMSFT''),
      (98006, ''xrEnumerateSceneComputeFeaturesMSFT''),
      (98007, ''xrGetSceneComponentsMSFT''),
      (98008, ''xrGetSceneComputeStateMSFT''),
      (98009, ''xrGetSceneMeshBuffersMSFT''),
      (98010, ''xrLocateSceneComponentsMSFT'')]),
    (''XR_MSFT_scene_understanding_serialization'',
     [(99001, ''xrDeserializeSceneMSFT''),
      (99002, ''xrGetSerializedSceneFragmentDataMSFT'')]),
    (''XR_MSFT_spatial_anchor'',
     [(40001, ''xrCreateSpatialAnchorMSFT''),
      (40002, ''xrCreateSpatialAnchorSpaceMSFT''),
      (40003, ''xrDestroySpatialAnchorMSFT'')]),
    (''XR_MSFT_spatial_anchor_persistence'',
     [(143001, ''xrClearSpatialAnchorStoreMSFT''),
      (143002, ''xrCreateSpatialAnchorFromPersistedNameMSFT''),
      (143003, ''xrCreateSpatialAnchorStoreConnectionMSFT''),
      (143004, ''xrDestroySpatialAnchorStoreConnectionMSFT'')])]"

definition ext_dispatch_rows_4 :: "(string \<times> (u32 \<times> string) list) list" where
  "ext_dispatch_rows_4 =
   [(''XR_MSFT_spatial_anchor_persistence'',
     [(143005, ''xrEnumeratePersistedSpatialAnchorNamesMSFT''),
      (143006, ''xrPersistSpatialAnchorMSFT''),
      (143007, ''xrUnpersistSpatialAnchorMSFT'')]),
    (''XR_MSFT_spatial_graph_bridge'',
     [(50001, ''xrCreateSpatialGraphNodeSpaceMSFT''),
      (50002, ''xrDestroySpatialGraphNodeBindingMSFT''),
      (50003, ''xrGetSpatialGraphNodeBindingPropertiesMSFT''),
      (50004, ''xrTryCreateSpatialGraphStaticNodeBindingMSFT'')]),
    (''XR_OCULUS_audio_device_guid'',
     [(160001, ''xrGetAudioInputDeviceGuidOculus''),
      (160002, ''xrGetAudioOutputDeviceGuidOculus'')]),
    (''XR_OCULUS_external_camera'',
     [(227001, ''xrEnumerateExternalCamerasOCULUS'')]),
    (''XR_QCOM_tracking_optimization_settings'',
     [(307001, ''xrSetTrackingOptimizationSettingsHintQCOM'')]),
    (''XR_VARJO_environment_depth_estimation'',
     [(124001, ''xrSetEnvironmentDepthEstimationVARJO'')]),
    (''XR_VARJO_marker_tracking'',
     [(125001, ''xrCreateMarkerSpaceVARJO''),
      (125002, ''xrGetMarkerSizeVARJO''),
      (125003, ''xrSetMarkerTrackingPredictionVARJO''),
      (125004, ''xrSetMarkerTrackingTimeoutVARJO''),
      (125005, ''xrSetMarkerTrackingVARJO'')]),
    (''XR_VARJO_view_offset'',
     [(126001, ''xrSetViewOffsetVARJO'')])]"

definition ext_dispatch_rows :: "(string \<times> (u32 \<times> string) list) list" where
  "ext_dispatch_rows =
     ext_dispatch_rows_1 @ ext_dispatch_rows_2 @ ext_dispatch_rows_3 @ ext_dispatch_rows_4"

lemmas ext_dispatch_rows_defs =
  ext_dispatch_rows_1_def ext_dispatch_rows_2_def ext_dispatch_rows_3_def
  ext_dispatch_rows_4_def

definition ext_function_rows_1 :: "(string \<times> string list) list" where
  "ext_function_rows_1 =
   [(''XR_ALMALENCE_digital_lens_control'',
     [''xrSetDigitalLensControlALMALENCE'']),
    (''XR_BD_body_tracking'',
     [''xrCreateBodyTrackerBD'',
      ''xrDestroyBodyTrackerBD'',
      ''xrLocateBodyJointsBD'']),
    (''XR_BD_spatial_anchor'',
     [''xrCreateSpatialAnchorAsyncBD'',
      ''xrCreateSpatialAnchorCompleteBD'',
      ''xrPersistSpatialAnchorAsyncBD'',
      ''xrPersistSpatialAnchorCompleteBD'',
      ''xrUnpersistSpatialAnchorAsyncBD'',
      ''xrUnpersistSpatialAnchorCompleteBD'']),
    (''XR_BD_spatial_anchor_sharing'',
     [''xrDownloadSharedSpatialAnchorAsyncBD'',
      ''xrDownloadSharedSpatialAnchorCompleteBD'',
      ''xrShareSpatialAnchorAsyncBD'',
      ''xrShareSpatialAnchorCompleteBD'']),
    (''XR_BD_spatial_scene'',
     [''xrCaptureSceneAsyncBD'',
      ''xrCaptureSceneCompleteBD'']),
    (''XR_BD_spatial_sensing'',
     [''xrCreateAnchorSpaceBD'',
      ''xrCreateSenseDataProviderBD'',
      ''xrCreateSpatialEntityAnchorBD'',
      ''xrDestroyAnchorBD'',
      ''xrDestroySenseDataProviderBD'',
      ''xrDestroySenseDataSnapshotBD'',
      ''xrEnumerateSpatialEntityComponentTypesBD'',
      ''xrGetAnchorUuidBD'',
      ''xrGetQueriedSenseDataBD'',
      ''xrGetSenseDataProviderStateBD'',
      ''xrGetSpatialEntityComponentDataBD'',
      ''xrGetSpatialEntityUuidBD'',
      ''xrQuerySenseDataAsyncBD'',
      ''xrQuerySenseDataCompleteBD'',
      ''xrStartSenseDataProviderAsyncBD'',
      ''xrStartSenseDataProviderCompleteBD'',
      ''xrStopSenseDataProviderBD'']),
    (''XR_EXT_conformance_automation'',
     [''xrSetInputDeviceActiveEXT'',
      ''xrSetInputDeviceLocationEXT'',
      ''xrSetInputDeviceStateBoolEXT'',
      ''xrSetInputDeviceStateFloatEXT'',
      ''xrSetInputDeviceStateVector2fEXT'']),
    (''XR_EXT_debug_utils'',
     [''xrCreateDebugUtilsMessengerEXT'',
      ''xrDestroyDebugUtilsMessengerEXT'',
      ''xrSessionBeginDebugUtilsLabelRegionEXT'',
      ''xrSessionEndDebugUtilsLabelRegionEXT'',
      ''xrSessionInsertDebugUtilsLabelEXT'',
      ''xrSetDebugUtilsObjectNameEXT'',
      ''xrSubmitDebugUtilsMessageEXT'']),
    (''XR_EXT_future'',
     [''xrCancelFutureEXT'',
      ''xrPollFutureEXT'']),
    (''XR_EXT_hand_tracking'',
     [''xrCreateHandTrackerEXT'',
      ''xrDestroyHandTrackerEXT'',
      ''xrLocateHandJointsEXT'']),
    (''XR_EXT_performance_settings'',
     [''xrPerfSettingsSetPerformanceLevelEXT'']),
    (''XR_EXT_plane_detection'',
     [''xrBeginPlaneDetectionEXT'',
      ''xrCreatePlaneDetectorEXT'',
      ''xrDestroyPlaneDetectorEXT'',
      ''xrGetPlaneDetectionStateEXT'',
      ''xrGetPlaneDetectionsEXT'',
      ''xrGetPlanePolygonBufferEXT'']),
    (''XR_EXT_thermal_query'',
     [''xrThermalGetTemperatureTrendEXT'']),
    (''XR_FB_body_tracking'',
     [''xrCreateBodyTrackerFB'',
      ''xrDestroyBodyTrackerFB'',
      ''xrGetBodySkeletonFB'',
      ''xrLocateBodyJointsFB'']),
    (''XR_FB_color_space'',
     [''xrEnumerateColorSpacesFB'',
      ''xrSetColorSpaceFB'']),
    (''XR_FB_display_refresh_rate'',
     [''xrEnumerateDisplayRefreshRatesFB'',
      ''xrGetDisplayRefreshRateFB'',
      ''xrRequestDisplayRefreshRateFB'']),
    (''XR_FB_eye_tracking_social'',
     [''xrCreateEyeTrackerFB'',
      ''xrDestroyEyeTrackerFB'',
      ''xrGetEyeGazesFB'']),
    (''XR_FB_face_tracking'',
     [''xrCreateFaceTrackerFB'',
      ''xrDestroyFaceTrackerFB'',
      ''xrGetFaceExpressionWeightsFB'']),
    (''XR_FB_face_tracking2'',
     [''xrCreateFaceTracker2FB'',
      ''xrDestroyFaceTracker2FB'',
      ''xrGetFaceExpressionWeights2FB'']),
    (''XR_FB_foveation'',
     [''xrCreateFoveationProfileFB'',
      ''xrDestroyFoveationProfileFB'']),
    (''XR_FB_hand_tracking_mesh'',
     [''xrGetHandMeshFB'']),
    (''XR_FB_haptic_pcm'',
     [''xrGetDeviceSampleRateFB'']),
    (''XR_FB_keyboard_tracking'',
     [''xrCreateKeyboardSpaceFB'',
      ''xrQuerySystemTrackedKeyboardFB'']),
    (''XR_FB_passthrough'',
     [''xrCreateGeometryInstanceFB'',
      ''xrCreatePassthroughFB'',
      ''xrCreatePassthroughLayerFB'',
      ''xrDestroyGeometryInstanceFB'',
      ''xrDestroyPassthroughFB'',
      ''xrDestroyPassthroughLayerFB'',
      ''xrGeometryInstanceSetTransformFB'',
      ''xrPassthroughLayerPauseFB'',
      ''xrPassthroughLayerResumeFB'',
      ''xrPassthroughLayerSetStyleFB'',
      ''xrPassthroughPauseFB'',
      ''xrPassthroughStartFB'']),
    (''XR_FB_passthrough_keyboard_hands'',
     [''xrPassthroughLayerSetKeyboardHandsIntensityFB'']),
    (''XR_FB_render_model'',
     [''xrEnumerateRenderModelPathsFB'',
      ''xrGetRenderModelPropertiesFB'',
      ''xrLoadRenderModelFB''])]"

definition ext_function_rows_2 :: "(string \<times> string list) list" where
  "ext_function_rows_2 =
   [(''XR_FB_scene'',
     [''xrGetSpaceBoundary2DFB'',
      ''xrGetSpaceBoundingBox2DFB'',
      ''xrGetSpaceBoundingBox3DFB'',
      ''xrGetSpaceRoomLayoutFB'',
      ''xrGetSpaceSemanticLabelsFB'']),
    (''XR_FB_scene_capture'',
     [''xrRequestSceneCaptureFB'']),
    (''XR_FB_spatial_entity'',
     [''xrCreateSpatialAnchorFB'',
      ''xrEnumerateSpaceSupportedComponentsFB'',
      ''xrGetSpaceComponentStatusFB'',
      ''xrGetSpaceUuidFB'',
      ''xrSetSpaceComponentStatusFB'']),
    (''XR_FB_spatial_entity_container'',
     [''xrGetSpaceContainerFB'']),
    (''XR_FB_spatial_entity_query'',
     [''xrQuerySpacesFB'',
      ''xrRetrieveSpaceQueryResultsFB'']),
    (''XR_FB_spatial_entity_sharing'',
     [''xrShareSpacesFB'']),
    (''XR_FB_spatial_entity_storage'',
     [''xrEraseSpaceFB'',
      ''xrSaveSpaceFB'']),
    (''XR_FB_spatial_entity_storage_batch'',
     [''xrSaveSpaceListFB'']),
    (''XR_FB_spatial_entity_user'',
     [''xrCreateSpaceUserFB'',
      ''xrDestroySpaceUserFB'',
      ''xrGetSpaceUserIdFB'']),
    (''XR_FB_swapchain_update_state'',
     [''xrGetSwapchainStateFB'',
      ''xrUpdateSwapchainFB'']),
    (''XR_FB_triangle_mesh'',
     [''xrCreateTriangleMeshFB'',
      ''xrDestroyTriangleMeshFB'',
      ''xrTriangleMeshBeginUpdateFB'',
      ''xrTriangleMeshBeginVertexBufferUpdateFB'',
      ''xrTriangleMeshEndUpdateFB'',
      ''xrTriangleMeshEndVertexBufferUpdateFB'',
      ''xrTriangleMeshGetIndexBufferFB'',
      ''xrTriangleMeshGetVertexBufferFB'']),
    (''XR_HTCX_vive_tracker_interaction'',
     [''xrEnumerateViveTrackerPathsHTCX'']),
    (''XR_HTC_anchor'',
     [''xrCreateSpatialAnchorHTC'',
      ''xrGetSpatialAnchorNameHTC'']),
    (''XR_HTC_body_tracking'',
     [''xrCreateBodyTrackerHTC'',
      ''xrDestroyBodyTrackerHTC'',
      ''xrGetBodySkeletonHTC'',
      ''xrLocateBodyJointsHTC'']),
    (''XR_HTC_facial_tracking'',
     [''xrCreateFacialTrackerHTC'',
      ''xrDestroyFacialTrackerHTC'',
      ''xrGetFacialExpressionsHTC'']),
    (''XR_HTC_foveation'',
     [''xrApplyFoveationHTC'']),
    (''XR_HTC_passthrough'',
     [''xrCreatePassthroughHTC'',
      ''xrDestroyPassthroughHTC'']),
    (''XR_KHR_D3D11_enable'',
     [''xrGetD3D11GraphicsRequirementsKHR'']),
    (''XR_KHR_D3D12_enable'',
     [''xrGetD3D12GraphicsRequirementsKHR'']),
    (''XR_KHR_android_surface_swapchain'',
     [''xrCreateSwapchainAndroidSurfaceKHR'']),
    (''XR_KHR_android_thread_settings'',
     [''xrSetAndroidApplicationThreadKHR'']),
    (''XR_KHR_convert_timespec_time'',
     [''xrConvertTimeToTimespecTimeKHR'',
      ''xrConvertTimespecTimeToTimeKHR'']),
    (''XR_KHR_extended_struct_name_lengths'',
     [''xrStructureTypeToString2KHR'']),
    (''XR_KHR_loader_init'',
     [''xrInitializeLoaderKHR'']),
    (''XR_KHR_metal_enable'',
     [''xrGetMetalGraphicsRequirementsKHR'']),
    (''XR_KHR_opengl_enable'',
     [''xrGetOpenGLGraphicsRequirementsKHR'']),
    (''XR_KHR_opengl_es_enable'',
     [''xrGetOpenGLESGraphicsRequirementsKHR'']),
    (''XR_KHR_visibility_mask'',
     [''xrGetVisibilityMaskKHR'']),
    (''XR_KHR_vulkan_enable'',
     [''xrGetVulkanDeviceExtensionsKHR'',
      ''xrGetVulkanGraphicsDeviceKHR'',
      ''xrGetVulkanGraphicsRequirementsKHR'',
      ''xrGetVulkanInstanceExtensionsKHR'']),
    (''XR_KHR_vulkan_enable2'',
     [''xrCreateVulkanDeviceKHR'',
      ''xrCreateVulkanInstanceKHR'',
      ''xrGetVulkanGraphicsDevice2KHR'']),
    (''XR_KHR_win32_convert_performance_counter_time'',
     [''xrConvertTimeToWin32PerformanceCounterKHR'',
      ''xrConvertWin32PerformanceCounterToTimeKHR'']),
    (''XR_META_colocation_discovery'',
     [''xrStartColocationAdvertisementMETA'',
      ''xrStartColocationDiscoveryMETA'',
      ''xrStopColocationAdvertisementMETA'',
      ''xrStopColocationDiscoveryMETA'']),
    (''XR_META_environment_depth'',
     [''xrAcquireEnvironmentDepthImageMETA'',
      ''xrCreateEnvironmentDepthProviderMETA'',
      ''xrCreateEnvironmentDepthSwapchainMETA'',
      ''xrDestroyEnvironmentDepthProviderMETA'',
      ''xrDestroyEnvironmentDepthSwapchainMETA'',
      ''xrEnumerateEnvironmentDepthSwapchainImagesMETA'',
      ''xrGetEnvironmentDepthSwapchainStateMETA'',
      ''xrSetEnvironmentDepthHandRemovalMETA'',
      ''xrStartEnvironmentDepthProviderMETA'',
      ''xrStopEnvironmentDepthProviderMETA'']),
    (''XR_META_foveation_eye_tracked'',
     [''xrGetFoveationEyeTrackedStateMETA'']),
    (''XR_META_passthrough_color_lut'',
     [''xrCreatePassthroughColorLutMETA'',
      ''xrDestroyPassthroughColorLutMETA''])]"

definition ext_function_rows_3 :: "(string \<times> string list) list" where
  "ext_function_rows_3 =
   [(''XR_META_passthrough_color_lut'',
     [''xrUpdatePassthroughColorLutMETA'']),
    (''XR_META_passthrough_preferences'',
     [''xrGetPassthroughPreferencesMETA'']),
    (''XR_META_performance_metrics'',
     [''xrEnumeratePerformanceMetricsCounterPathsMETA'',
      ''xrGetPerformanceMetricsStateMETA'',
      ''xrQueryPerformanceMetricsCounterMETA'',
      ''xrSetPerformanceMetricsStateMETA'']),
    (''XR_META_recommended_layer_resolution'',
     [''xrGetRecommendedLayerResolutionMETA'']),
    (''XR_META_simultaneous_hands_and_controllers'',
     [''xrPauseSimultaneousHandsAndControllersTrackingMETA'',
      ''xrResumeSimultaneousHandsAndControllersTrackingMETA'']),
    (''XR_META_spatial_entity_mesh'',
     [''xrGetSpaceTriangleMeshMETA'']),
    (''XR_META_spatial_entity_sharing'',
     [''xrShareSpacesMETA'']),
    (''XR_META_virtual_keyboard'',
     [''xrChangeVirtualKeyboardTextContextMETA'',
      ''xrCreateVirtualKeyboardMETA'',
      ''xrCreateVirtualKeyboardSpaceMETA'',
      ''xrDestroyVirtualKeyboardMETA'',
      ''xrGetVirtualKeyboardDirtyTexturesMETA'',
      ''xrGetVirtualKeyboardModelAnimationStatesMETA'',
      ''xrGetVirtualKeyboardScaleMETA'',
      ''xrGetVirtualKeyboardTextureDataMETA'',
      ''xrSendVirtualKeyboardInputMETA'',
      ''xrSetVirtualKeyboardModelVisibilityMETA'',
      ''xrSuggestVirtualKeyboardLocationMETA'']),
    (''XR_ML_compat'',
     [''xrCreateSpaceFromCoordinateFrameUIDML'']),
    (''XR_ML_facial_expression'',
     [''xrCreateFacialExpressionClientML'',
      ''xrDestroyFacialExpressionClientML'',
      ''xrGetFacialExpressionBlendShapePropertiesML'']),
    (''XR_ML_localization_map'',
     [''xrCreateExportedLocalizationMapML'',
      ''xrDestroyExportedLocalizationMapML'',
      ''xrEnableLocalizationEventsML'',
      ''xrGetExportedLocalizationMapDataML'',
      ''xrImportLocalizationMapML'',
      ''xrQueryLocalizationMapsML'',
      ''xrRequestMapLocalizationML'']),
    (''XR_ML_marker_understanding'',
     [''xrCreateMarkerDetectorML'',
      ''xrCreateMarkerSpaceML'',
      ''xrDestroyMarkerDetectorML'',
      ''xrGetMarkerDetectorStateML'',
      ''xrGetMarkerLengthML'',
      ''xrGetMarkerNumberML'',
      ''xrGetMarkerReprojectionErrorML'',
      ''xrGetMarkerStringML'',
      ''xrGetMarkersML'',
      ''xrSnapshotMarkerDetectorML'']),
    (''XR_ML_spatial_anchors'',
     [''xrCreateSpatialAnchorsAsyncML'',
      ''xrCreateSpatialAnchorsCompleteML'',
      ''xrGetSpatialAnchorStateML'']),
    (''XR_ML_spatial_anchors_storage'',
     [''xrCreateSpatialAnchorsStorageML'',
      ''xrDeleteSpatialAnchorsAsyncML'',
      ''xrDeleteSpatialAnchorsCompleteML'',
      ''xrDestroySpatialAnchorsStorageML'',
      ''xrPublishSpatialAnchorsAsyncML'',
      ''xrPublishSpatialAnchorsCompleteML'',
      ''xrQuerySpatialAnchorsAsyncML'',
      ''xrQuerySpatialAnchorsCompleteML'',
      ''xrUpdateSpatialAnchorsExpirationAsyncML'',
      ''xrUpdateSpatialAnchorsExpirationCompleteML'']),
    (''XR_ML_system_notifications'',
     [''xrSetSystemNotificationsML'']),
    (''XR_ML_user_calibration'',
     [''xrEnableUserCalibrationEventsML'']),
    (''XR_ML_world_mesh_detection'',
     [''xrAllocateWorldMeshBufferML'',
      ''xrCreateWorldMeshDetectorML'',
      ''xrDestroyWorldMeshDetectorML'',
      ''xrFreeWorldMeshBufferML'',
      ''xrGetWorldMeshBufferRecommendSizeML'',
      ''xrRequestWorldMeshAsyncML'',
      ''xrRequestWorldMeshCompleteML'',
      ''xrRequestWorldMeshStateAsyncML'',
      ''xrRequestWorldMeshStateCompleteML'']),
    (''XR_MNDX_force_feedback_curl'',
     [''xrApplyForceFeedbackCurlMNDX'']),
    (''XR_MSFT_composition_layer_reprojection'',
     [''xrEnumerateReprojectionModesMSFT'']),
    (''XR_MSFT_controller_model'',
     [''xrGetControllerModelKeyMSFT'',
      ''xrGetControllerModelPropertiesMSFT'',
      ''xrGetControllerModelStateMSFT'',
      ''xrLoadControllerModelMSFT'']),
    (''XR_MSFT_hand_tracking_mesh'',
     [''xrCreateHandMeshSpaceMSFT'',
      ''xrUpdateHandMeshMSFT'']),
    (''XR_MSFT_perception_anchor_interop'',
     [''xrCreateSpatialAnchorFromPerceptionAnchorMSFT'',
      ''xrTryGetPerceptionAnchorFromSpatialAnchorMSFT'']),
    (''XR_MSFT_scene_marker'',
     [''xrGetSceneMarkerDecodedStringMSFT'',
      ''xrGetSceneMarkerRawDataMSFT'']),
    (''XR_MSFT_scene_understanding'',
     [''xrComputeNewSceneMSFT'',
      ''xrCreateSceneMSFT'',
      ''xrCreateSceneObserverMSFT'',
      ''xrDestroySceneMSFT'',
      ''xrDestroySceneObserverMSFT'',
      ''xrEnumerateSceneComputeFeaturesMSFT'',
      ''xrGetSceneComponentsMSFT'',
      ''xrGetSceneComputeStateMSFT'',
      ''xrGetSceneMeshBuffersMSFT'',
      ''xrLocateSceneComponentsMSFT'']),
    (''XR_MSFT_scene_understanding_serialization'',
     [''xrDeserializeSceneMSFT'',
      ''xrGetSerializedSceneFragmentDataMSFT'']),
    (''XR_MSFT_spatial_anchor'',
     [''xrCreateSpatialAnchorMSFT'',
      ''xrCreateSpatialAnchorSpaceMSFT'',
      ''xrDestroySpatialAnchorMSFT'']),
    (''XR_MSFT_spatial_anchor_persistence'',
     [''xrClearSpatialAnchorStoreMSFT'',
      ''xrCreateSpatialAnchorFromPersistedNameMSFT'',
      ''xrCreateSpatialAnchorStoreConnectionMSFT'',
      ''xrDestroySpatialAnchorStoreConnectionMSFT''])]"

definition ext_function_rows_4 :: "(string \<times> string list) list" where
  "ext_function_rows_4 =
   [(''XR_MSFT_spatial_anchor_persistence'',
     [''xrEnumeratePersistedSpatialAnchorNamesMSFT'',
      ''xrPersistSpatialAnchorMSFT'',
      ''xrUnpersistSpatialAnchorMSFT'']),
    (''XR_MSFT_spatial_graph_bridge'',
     [''xrCreateSpatialGraphNodeSpaceMSFT'',
      ''xrDestroySpatialGraphNodeBindingMSFT'',
      ''xrGetSpatialGraphNodeBindingPropertiesMSFT'',
      ''xrTryCreateSpatialGraphStaticNodeBindingMSFT'']),
    (''XR_OCULUS_audio_device_guid'',
     [''xrGetAudioInputDeviceGuidOculus'',
      ''xrGetAudioOutputDeviceGuidOculus'']),
    (''XR_OCULUS_external_camera'',
     [''xrEnumerateExternalCamerasOCULUS'']),
    (''XR_QCOM_tracking_optimization_settings'',
     [''xrSetTrackingOptimizationSettingsHintQCOM'']),
    (''XR_VARJO_environment_depth_estimation'',
     [''xrSetEnvironmentDepthEstimationVARJO'']),
    (''XR_VARJO_marker_tracking'',
     [''xrCreateMarkerSpaceVARJO'',
      ''xrGetMarkerSizeVARJO'',
      ''xrSetMarkerTrackingPredictionVARJO'',
      ''xrSetMarkerTrackingTimeoutVARJO'',
      ''xrSetMarkerTrackingVARJO'']),
    (''XR_VARJO_view_offset'',
     [''xrSetViewOffsetVARJO''])]"

definition ext_function_rows :: "(string \<times> string list) list" where
  "ext_function_rows =
     ext_function_rows_1 @ ext_function_rows_2 @ ext_function_rows_3 @ ext_function_rows_4"

lemmas ext_function_rows_defs =
  ext_function_rows_1_def ext_function_rows_2_def ext_function_rows_3_def
  ext_function_rows_4_def

definition core_function_table :: "string list" where
  "core_function_table =
   [''xrAcquireSwapchainImage'',
    ''xrApplyHapticFeedback'',
    ''xrAttachSessionActionSets'',
    ''xrBeginFrame'',
    ''xrBeginSession'',
    ''xrCreateAction'',
    ''xrCreateActionSet'',
    ''xrCreateActionSpace'',
    ''xrCreateInstance'',
    ''xrCreateReferenceSpace'',
    ''xrCreateSession'',
    ''xrCreateSwapchain'',
    ''xrDestroyAction'',
    ''xrDestroyActionSet'',
    ''xrDestroyInstance'',
    ''xrDestroySession'',
    ''xrDestroySpace'',
    ''xrDestroySwapchain'',
    ''xrEndFrame'',
    ''xrEndSession'',
    ''xrEnumerateApiLayerProperties'',
    ''xrEnumerateBoundSourcesForAction'',
    ''xrEnumerateEnvironmentBlendModes'',
    ''xrEnumerateInstanceExtensionProperties'',
    ''xrEnumerateReferenceSpaces'',
    ''xrEnumerateSwapchainFormats'',
    ''xrEnumerateSwapchainImages'',
    ''xrEnumerateViewConfigurationViews'',
    ''xrEnumerateViewConfigurations'',
    ''xrGetActionStateBoolean'',
    ''xrGetActionStateFloat'',
    ''xrGetActionStatePose'',
    ''xrGetActionStateVector2f'',
    ''xrGetCurrentInteractionProfile'',
    ''xrGetInputSourceLocalizedName'',
    ''xrGetInstanceProperties'',
    ''xrGetReferenceSpaceBoundsRect'',
    ''xrGetSystem'',
    ''xrGetSystemProperties'',
    ''xrGetViewConfigurationProperties'',
    ''xrLocateSpace'',
    ''xrLocateSpaces'',
    ''xrLocateViews'',
    ''xrPathToString'',
    ''xrPollEvent'',
    ''xrReleaseSwapchainImage'',
    ''xrRequestExitSession'',
    ''xrResultToString'',
    ''xrStopHapticFeedback'',
    ''xrStringToPath'',
    ''xrStructureTypeToString'',
    ''xrSuggestInteractionProfileBindings'',
    ''xrSyncActions'',
    ''xrWaitFrame'',
    ''xrWaitSwapchainImage'']"


end
