(* ===== verification/Rpc_Builds.thy ===== *)
theory Rpc_Builds
  imports "HOL-Library.Sublist" Rpc_Tables Builds Ext_Stubs Ext_Handlers Ext_Dispatch
begin

text \<open>
  The functions of a build: the stubs of the client, the handlers of the server and the dispatch
  table between them, for core OpenXR and a set of enabled extensions, compared function by
  function.
\<close>

section \<open>What a build compiles\<close>

definition build_stubs :: "string list \<Rightarrow> (string \<times> rpc_stub) list" where
  "build_stubs exts = enabled exts ext_stubs @ core_stubs"

definition build_handlers :: "string list \<Rightarrow> (string \<times> rpc_handler) list" where
  "build_handlers exts = enabled exts ext_handlers @ core_handlers"

definition build_dispatch :: "string list \<Rightarrow> (u32 \<times> string) list" where
  "build_dispatch exts = enabled exts ext_dispatch_rows @ dispatch_table"

definition function_table :: "string list \<Rightarrow> string list" where
  "function_table exts = enabled exts ext_function_rows @ core_function_table"

text \<open>Blocks as one list; the files may be cut at different places.\<close>

definition flatten :: "(string \<times> 'r list) list \<Rightarrow> (string \<times> 'r) list" where
  "flatten blks = concat (map (\<lambda>(e, rows). map (Pair e) rows) blks)"

lemma enabled_flatten: "enabled exts blks = map snd (filter (\<lambda>(e, r). e \<in> set exts) (flatten blks))"
  by (induction blks) (auto simp: enabled_def flatten_def comp_def)

section \<open>The two sides agree function by function\<close>

definition stub_view :: "rpc_stub \<Rightarrow> dop list \<times> dop list \<times> cop list" where
  "stub_view st = (map dop_of (stub_request st), stub_reply st, map cop_of (stub_request st))"

definition handler_view :: "rpc_handler \<Rightarrow> dop list \<times> dop list \<times> cop list" where
  "handler_view h = (handler_params h, map dop_of (handler_reply h), handler_cleanup h)"

lemma ext_handlers_match:
  "map (\<lambda>(e, rows). (e, map (\<lambda>(f, h). (f, handler_view h)) rows)) ext_handlers
   = map (\<lambda>(e, rows). (e, map (\<lambda>(f, st). (f, stub_view st)) rows)) ext_stubs"
  unfolding ext_handlers_def ext_stubs_def
  by (simp add: ext_handlers_defs ext_stubs_defs handler_view_def stub_view_def)

lemma ext_ids_match:
  "subseq (map (\<lambda>(e, f, st). (e, stub_id st, f)) (flatten ext_stubs)) (flatten ext_dispatch_rows)"
  unfolding ext_dispatch_rows_def ext_stubs_def
  by (simp only: ext_dispatch_rows_defs ext_stubs_defs flatten_def append.simps list.map concat.simps
      prod.case rpc_stub.select_convs)
    (rule subseq_Cons2 list_emb_Cons list_emb_Nil)+

lemma ext_names_match:
  "map (\<lambda>(e, i, f). (e, f)) (flatten ext_dispatch_rows) = flatten ext_function_rows"
  unfolding ext_dispatch_rows_def ext_function_rows_def
  by (simp add: ext_dispatch_rows_defs ext_function_rows_defs flatten_def)

definition ext_id_numbers :: "nat list" where
  "ext_id_numbers = map (\<lambda>(e, i, f). unat i) (flatten ext_dispatch_rows)"

lemma ext_ids_distinct: "distinct ext_id_numbers"
  unfolding ext_id_numbers_def ext_dispatch_rows_def
  by (simp add: ext_dispatch_rows_defs flatten_def)

section \<open>The core tables\<close>

lemmas stub_defs =
  rpc_xrAcquireSwapchainImage_def rpc_xrApplyHapticFeedback_def rpc_xrAttachSessionActionSets_def
  rpc_xrBeginFrame_def rpc_xrBeginSession_def rpc_xrCreateAction_def rpc_xrCreateActionSet_def
  rpc_xrCreateActionSpace_def rpc_xrCreateInstance_def rpc_xrCreateReferenceSpace_def
  rpc_xrCreateSession_def rpc_xrCreateSwapchain_def rpc_xrDestroyAction_def
  rpc_xrDestroyActionSet_def rpc_xrDestroyInstance_def rpc_xrDestroySession_def
  rpc_xrDestroySpace_def rpc_xrDestroySwapchain_def rpc_xrEndFrame_def rpc_xrEndSession_def
  rpc_xrEnumerateApiLayerProperties_def rpc_xrEnumerateBoundSourcesForAction_def
  rpc_xrEnumerateEnvironmentBlendModes_def rpc_xrEnumerateInstanceExtensionProperties_def
  rpc_xrEnumerateReferenceSpaces_def rpc_xrEnumerateSwapchainFormats_def
  rpc_xrEnumerateSwapchainImages_def rpc_xrEnumerateViewConfigurationViews_def
  rpc_xrEnumerateViewConfigurations_def rpc_xrGetActionStateBoolean_def
  rpc_xrGetActionStateFloat_def rpc_xrGetActionStatePose_def rpc_xrGetActionStateVector2f_def
  rpc_xrGetCurrentInteractionProfile_def rpc_xrGetInputSourceLocalizedName_def
  rpc_xrGetInstanceProperties_def rpc_xrGetReferenceSpaceBoundsRect_def rpc_xrGetSystem_def
  rpc_xrGetSystemProperties_def rpc_xrGetViewConfigurationProperties_def rpc_xrLocateSpace_def
  rpc_xrLocateSpaces_def rpc_xrLocateViews_def rpc_xrPathToString_def rpc_xrPollEvent_def
  rpc_xrReleaseSwapchainImage_def rpc_xrRequestExitSession_def rpc_xrResultToString_def
  rpc_xrStopHapticFeedback_def rpc_xrStringToPath_def rpc_xrStructureTypeToString_def
  rpc_xrSuggestInteractionProfileBindings_def rpc_xrSyncActions_def rpc_xrWaitFrame_def
  rpc_xrWaitSwapchainImage_def

lemmas handler_defs =
  handle_xrAcquireSwapchainImage_def handle_xrApplyHapticFeedback_def
  handle_xrAttachSessionActionSets_def handle_xrBeginFrame_def handle_xrBeginSession_def
  handle_xrCreateAction_def handle_xrCreateActionSet_def handle_xrCreateActionSpace_def
  handle_xrCreateReferenceSpace_def handle_xrCreateSession_def handle_xrCreateSwapchain_def
  handle_xrDestroyAction_def handle_xrDestroyActionSet_def handle_xrDestroySession_def
  handle_xrDestroySpace_def handle_xrDestroySwapchain_def handle_xrEndFrame_def
  handle_xrEndSession_def handle_xrEnumerateApiLayerProperties_def
  handle_xrEnumerateBoundSourcesForAction_def handle_xrEnumerateEnvironmentBlendModes_def
  handle_xrEnumerateInstanceExtensionProperties_def handle_xrEnumerateReferenceSpaces_def
  handle_xrEnumerateSwapchainFormats_def handle_xrEnumerateSwapchainImages_def
  handle_xrEnumerateViewConfigurationViews_def handle_xrEnumerateViewConfigurations_def
  handle_xrGetActionStateBoolean_def handle_xrGetActionStateFloat_def
  handle_xrGetActionStatePose_def handle_xrGetActionStateVector2f_def
  handle_xrGetCurrentInteractionProfile_def handle_xrGetInputSourceLocalizedName_def
  handle_xrGetInstanceProperties_def handle_xrGetReferenceSpaceBoundsRect_def
  handle_xrGetSystem_def handle_xrGetSystemProperties_def
  handle_xrGetViewConfigurationProperties_def handle_xrLocateSpace_def handle_xrLocateSpaces_def
  handle_xrLocateViews_def handle_xrPathToString_def handle_xrPollEvent_def
  handle_xrReleaseSwapchainImage_def handle_xrRequestExitSession_def handle_xrResultToString_def
  handle_xrStopHapticFeedback_def handle_xrStringToPath_def handle_xrStructureTypeToString_def
  handle_xrSuggestInteractionProfileBindings_def handle_xrSyncActions_def handle_xrWaitFrame_def
  handle_xrWaitSwapchainImage_def

definition injected_functions :: "string list" where
  "injected_functions = [''xrCreateInstance'', ''xrDestroyInstance'']"

lemma tables_match:
  "map (\<lambda>(f, h). (f, handler_view h)) core_handlers
   = map (\<lambda>(f, st). (f, stub_view st)) (filter (\<lambda>(f, st). f \<notin> set injected_functions) core_stubs)"
  by (simp add: core_handlers_def core_stubs_def injected_functions_def stub_defs handler_defs handler_view_def stub_view_def)

lemma ids_match: "map (\<lambda>(f, st). (stub_id st, f)) core_stubs = dispatch_table"
  by (simp add: core_stubs_def dispatch_table_def stub_defs)

lemma ids_distinct: "distinct (map fst dispatch_table)"
  by (simp add: dispatch_table_def)

section \<open>Lookups in a build\<close>

lemma enabled_stub: "(f, st) \<in> set (enabled exts ext_stubs) \<Longrightarrow> (stub_id st, f) \<in> set (enabled exts ext_dispatch_rows)"
proof -
  assume "(f, st) \<in> set (enabled exts ext_stubs)"
  then obtain e where e: "e \<in> set exts" "(e, f, st) \<in> set (flatten ext_stubs)"
    by (auto simp: enabled_flatten)
  then have "(e, stub_id st, f) \<in> set (map (\<lambda>(e, f, st). (e, stub_id st, f)) (flatten ext_stubs))" by force
  then have "(e, stub_id st, f) \<in> set (flatten ext_dispatch_rows)"
    using list_emb_set [OF ext_ids_match] by blast
  then show ?thesis using e(1) by (force simp: enabled_flatten)
qed

lemma ext_ids_large: "list_all (\<lambda>n. 55 < n) ext_id_numbers"
  unfolding ext_id_numbers_def ext_dispatch_rows_def
  by (simp add: ext_dispatch_rows_defs flatten_def)

lemma core_ids_small: "list_all (\<lambda>(i, f). unat i \<le> 55) dispatch_table"
  by (simp add: dispatch_table_def)

lemma build_ids_distinct: "distinct (map fst (build_dispatch exts))"
proof -
  have "distinct (map (\<lambda>(e, i, f). unat i) (filter (\<lambda>(e, r). e \<in> set exts) (flatten ext_dispatch_rows)))"
    using ext_ids_distinct by (auto simp: ext_id_numbers_def intro: distinct_map_filter)
  then have "distinct (map unat (map fst (enabled exts ext_dispatch_rows)))"
    by (simp add: enabled_flatten comp_def case_prod_unfold)
  then have "distinct (map fst (enabled exts ext_dispatch_rows))"
    unfolding distinct_map [of unat] by blast
  moreover have "i \<noteq> j" if "i \<in> set (map fst (enabled exts ext_dispatch_rows))" "j \<in> set (map fst dispatch_table)" for i j
  proof -
    have "55 < unat i" using that(1) ext_ids_large
      by (auto simp: ext_id_numbers_def list_all_iff enabled_flatten)
    moreover have "unat j \<le> 55" using that(2) core_ids_small by (auto simp: list_all_iff)
    ultimately show ?thesis by auto
  qed
  ultimately show ?thesis using ids_distinct by (auto simp: build_dispatch_def)
qed

lemma stub_dispatched:
  assumes "map_of (build_stubs exts) f = Some st"
  shows "map_of (build_dispatch exts) (stub_id st) = Some f"
proof -
  have "(f, st) \<in> set (enabled exts ext_stubs) \<or> (f, st) \<in> set core_stubs"
    using map_of_SomeD [OF assms] by (auto simp: build_stubs_def)
  moreover have "(stub_id st, f) \<in> set dispatch_table" if "(f, st) \<in> set core_stubs"
    using that unfolding ids_match [symmetric] by force
  ultimately have "(stub_id st, f) \<in> set (build_dispatch exts)"
    using enabled_stub by (auto simp: build_dispatch_def)
  then show ?thesis using build_ids_distinct by simp
qed

lemma map_of_views: "map_of (map (\<lambda>(f, x). (f, g x)) xs) f = map_option g (map_of xs f)"
  by (simp add: map_of_map)

lemma stub_handled:
  assumes "map_of (build_stubs exts) f = Some st" "f \<notin> set injected_functions"
  shows "\<exists>h. map_of (build_handlers exts) f = Some h \<and> handler_view h = stub_view st"
proof -
  have ext: "map_option handler_view (map_of (enabled exts ext_handlers) f)
      = map_option stub_view (map_of (enabled exts ext_stubs) f)"
    using arg_cong [OF ext_handlers_match, of "\<lambda>bs. map_of (enabled exts bs) f"]
    unfolding enabled_map map_of_views .
  have core: "map_option handler_view (map_of core_handlers f) = map_option stub_view (map_of core_stubs f)"
    using arg_cong [OF tables_match, of "\<lambda>bs. map_of bs f"] map_of_filter_keys [of "\<lambda>f. f \<notin> set injected_functions" f core_stubs] assms(2)
    unfolding map_of_views by simp
  have "map_option handler_view (map_of (build_handlers exts) f) = map_option stub_view (map_of (build_stubs exts) f)"
    using ext core by (auto simp: build_handlers_def build_stubs_def map_add_def split: option.splits)
  then show ?thesis using assms(1) by auto
qed

lemma core_names_match: "map fst core_stubs = core_function_table"
  by (simp add: core_stubs_def core_function_table_def)

lemma stub_listed:
  assumes "map_of (build_stubs exts) f = Some st"
  shows "f \<in> set (function_table exts)"
proof -
  have "f \<in> set (enabled exts ext_function_rows)" if st: "(f, st) \<in> set (enabled exts ext_stubs)"
  proof -
    obtain e where "e \<in> set exts" "(e, stub_id st, f) \<in> set (flatten ext_dispatch_rows)"
      using enabled_stub [OF st] st list_emb_set [OF ext_ids_match] by (force simp: enabled_flatten)
    then show ?thesis
      using ext_names_match [symmetric] by (force simp: enabled_flatten)
  qed
  moreover have "f \<in> set core_function_table" if "(f, st) \<in> set core_stubs"
    using that unfolding core_names_match [symmetric] by force
  ultimately show ?thesis
    using map_of_SomeD [OF assms] by (auto simp: build_stubs_def function_table_def)
qed

lemma core_build_functions [simp]:
  "build_stubs [] = core_stubs" "build_handlers [] = core_handlers" "build_dispatch [] = dispatch_table"
  by (simp_all add: build_stubs_def build_handlers_def build_dispatch_def)

end
