(* ===== verification/Rpc_Programs.thy ===== *)
theory Rpc_Programs
  imports Rpc_Builds
begin

text \<open>
  The statements of stubs and handlers are well-formed programs, in every build, except for the
  two functions with a polymorphic array of swapchain images.
\<close>

text \<open>No polymorphic array.\<close>

definition plain :: "sop list \<Rightarrow> bool" where
  "plain ops \<longleftrightarrow> list_all (\<lambda>op. case op of Ser_xr_array f k \<Rightarrow> False | _ \<Rightarrow> True) ops"

text \<open>A request can be read and released; a reply has no loop over pointers.\<close>

definition request_ok :: "sop list \<Rightarrow> bool" where
  "request_ok ops \<longleftrightarrow> (if plain ops then row_ok ops else True)"

definition reply_ok :: "sop list \<Rightarrow> bool" where
  "reply_ok ops \<longleftrightarrow> (if plain ops then program_ok [] [] ops else True) \<and>
     list_all (\<lambda>op. case op of Ser_ptr_each f g \<Rightarrow> False | Ser_xr_each f g \<Rightarrow> False | _ \<Rightarrow> True) ops"

lemma ext_requests_ok: "list_all (\<lambda>(e, rows). list_all (\<lambda>(f, st). request_ok (stub_request st)) rows) ext_stubs"
  unfolding ext_stubs_def
  by (simp add: ext_stubs_defs request_ok_def plain_def row_ok_def count_member_def)

lemma core_requests_ok: "list_all (\<lambda>(f, st). request_ok (stub_request st)) core_stubs"
  by (simp add: core_stubs_def stub_defs request_ok_def plain_def row_ok_def count_member_def)

lemma ext_replies_ok: "list_all (\<lambda>(e, rows). list_all (\<lambda>(f, h). reply_ok (handler_reply h)) rows) ext_handlers"
  unfolding ext_handlers_def
  by (simp add: ext_handlers_defs reply_ok_def plain_def)

lemma core_replies_ok: "list_all (\<lambda>(f, h). reply_ok (handler_reply h)) core_handlers"
  by (simp add: core_handlers_def handler_defs reply_ok_def plain_def)

lemma enabled_rows: "list_all (\<lambda>(e, rows). list_all p rows) blks \<Longrightarrow> x \<in> set (enabled exts blks) \<Longrightarrow> p x"
  by (auto simp: enabled_def list_all_iff split: if_splits)

lemma build_request_ok:
  assumes "map_of (build_stubs exts) f = Some st" "plain (stub_request st)"
  shows "row_ok (stub_request st)"
proof -
  have "(f, st) \<in> set (enabled exts ext_stubs) \<or> (f, st) \<in> set core_stubs"
    using map_of_SomeD [OF assms(1)] by (auto simp: build_stubs_def)
  then have "request_ok (stub_request st)"
    using enabled_rows [OF ext_requests_ok] core_requests_ok by (fastforce simp: list_all_iff)
  then show ?thesis using assms(2) by (simp add: request_ok_def)
qed

lemma build_reply_ok:
  assumes "map_of (build_handlers exts) f = Some h"
  shows "plain (handler_reply h) \<Longrightarrow> program_ok [] [] (handler_reply h)"
    and "\<not> (\<exists>op\<in>set (handler_reply h). is_loop op)"
proof -
  have "(f, h) \<in> set (enabled exts ext_handlers) \<or> (f, h) \<in> set core_handlers"
    using map_of_SomeD [OF assms(1)] by (auto simp: build_handlers_def)
  then have "reply_ok (handler_reply h)"
    using enabled_rows [OF ext_replies_ok] core_replies_ok by (fastforce simp: list_all_iff)
  then show "plain (handler_reply h) \<Longrightarrow> program_ok [] [] (handler_reply h)"
    and "\<not> (\<exists>op\<in>set (handler_reply h). is_loop op)"
    by (auto simp: reply_ok_def list_all_iff is_loop_def)
qed

end
