(* ===== verification/Xr_Results.thy ===== *)
theory Xr_Results
  imports Xr_Prelude
begin

text \<open>
  \<open>XrResult\<close> and \<open>VkResult\<close>: 32-bit enumerations whose values are fixed by the OpenXR and Vulkan
  specifications; a code fails when it is negative.
\<close>

type_synonym xr_result = u32
type_synonym vk_result = u32

definition XR_SUCCESS :: xr_result where "XR_SUCCESS = 0"
definition XR_TIMEOUT_EXPIRED :: xr_result where "XR_TIMEOUT_EXPIRED = 1"
definition XR_EVENT_UNAVAILABLE :: xr_result where "XR_EVENT_UNAVAILABLE = 4"
definition XR_ERROR_VALIDATION_FAILURE :: xr_result where "XR_ERROR_VALIDATION_FAILURE = - 1"
definition XR_ERROR_RUNTIME_FAILURE :: xr_result where "XR_ERROR_RUNTIME_FAILURE = - 2"
definition XR_ERROR_API_VERSION_UNSUPPORTED :: xr_result where "XR_ERROR_API_VERSION_UNSUPPORTED = - 4"
definition XR_ERROR_FUNCTION_UNSUPPORTED :: xr_result where "XR_ERROR_FUNCTION_UNSUPPORTED = - 7"
definition XR_ERROR_EXTENSION_NOT_PRESENT :: xr_result where "XR_ERROR_EXTENSION_NOT_PRESENT = - 9"
definition XR_ERROR_LIMIT_REACHED :: xr_result where "XR_ERROR_LIMIT_REACHED = - 10"
definition XR_ERROR_SIZE_INSUFFICIENT :: xr_result where "XR_ERROR_SIZE_INSUFFICIENT = - 11"
definition XR_ERROR_HANDLE_INVALID :: xr_result where "XR_ERROR_HANDLE_INVALID = - 12"
definition XR_ERROR_CALL_ORDER_INVALID :: xr_result where "XR_ERROR_CALL_ORDER_INVALID = - 37"
definition XR_ERROR_GRAPHICS_DEVICE_INVALID :: xr_result where "XR_ERROR_GRAPHICS_DEVICE_INVALID = - 38"
definition XR_ERROR_GRAPHICS_REQUIREMENTS_CALL_MISSING :: xr_result where
  "XR_ERROR_GRAPHICS_REQUIREMENTS_CALL_MISSING = - 50"

definition VK_SUCCESS :: vk_result where "VK_SUCCESS = 0"
definition VK_TIMEOUT :: vk_result where "VK_TIMEOUT = 2"

definition XR_SUCCEEDED :: "xr_result \<Rightarrow> bool" where
  "XR_SUCCEEDED r \<longleftrightarrow> sint r \<ge> 0"

named_theorems code_simps \<open>the values of the result codes\<close>

lemmas result_codes [code_simps] =
  XR_SUCCESS_def XR_TIMEOUT_EXPIRED_def XR_EVENT_UNAVAILABLE_def XR_ERROR_VALIDATION_FAILURE_def
  XR_ERROR_RUNTIME_FAILURE_def XR_ERROR_API_VERSION_UNSUPPORTED_def XR_ERROR_FUNCTION_UNSUPPORTED_def
  XR_ERROR_EXTENSION_NOT_PRESENT_def XR_ERROR_LIMIT_REACHED_def XR_ERROR_SIZE_INSUFFICIENT_def
  XR_ERROR_HANDLE_INVALID_def XR_ERROR_CALL_ORDER_INVALID_def XR_ERROR_GRAPHICS_DEVICE_INVALID_def
  XR_ERROR_GRAPHICS_REQUIREMENTS_CALL_MISSING_def VK_SUCCESS_def VK_TIMEOUT_def XR_SUCCEEDED_def

end
