(* ===== verification/Rpc.thy ===== *)
theory Rpc
  imports Rpc_Programs Xr_Results
begin

text \<open>
  A remote call from end to end: the frame that all client stubs of \<open>src/client/rpc.cpp\<close> share,
  \<open>FunctionDispatch::handle_function\<close> and the frame of the handlers of
  \<open>src/server/function_dispatch.cpp\<close>. The OpenXR runtime behind the server is a parameter: which
  functions \<open>xrGetInstanceProcAddr\<close> finds, and what a call returns and leaves in the objects its
  parameters refer to. The transport hands over whole messages, which is
  \<open>Transport_Props\<close>; the offset between the clocks is an argument.
\<close>

section \<open>The parts of a call\<close>

record 's runtime =
  rt_loads :: "'s \<Rightarrow> string \<Rightarrow> bool"
  rt_call :: "string \<Rightarrow> fld list \<Rightarrow> 's \<Rightarrow> u32 \<times> fld list \<times> 's"
  rt_duration :: "'s \<Rightarrow> string \<Rightarrow> u64"

definition function_loader_error :: exn where
  "function_loader_error = Std_exception ''xrGetInstanceProcAddr returned an error''"

definition unknown_function_id :: exn where
  "unknown_function_id = Std_exception ''Unknown function id in handle_function''"

text \<open>The members with the given names, in that order.\<close>

definition pick :: "string list \<Rightarrow> fld list \<Rightarrow> fld list" where
  "pick gs fs = map (\<lambda>g. Field g (case find_field fs g of Some v \<Rightarrow> v | None \<Rightarrow> V_null)) gs"

text \<open>The objects that were written, the others unchanged.\<close>

definition update_fields :: "fld list \<Rightarrow> fld list \<Rightarrow> fld list" where
  "update_fields fs news =
     map (\<lambda>x. case x of Field g v \<Rightarrow> Field g (case find_field news g of Some w \<Rightarrow> w | None \<Rightarrow> v)) fs"

text \<open>The body of the message \<open>XRTP_MSG_FUNCTION_CALL\<close>.\<close>

definition call_ctx :: "u64 \<Rightarrow> ser_ctx" where
  "call_ctx off = \<lparr>ser_time_offset = off, skip_unknown_structs = False\<rparr>"

definition rpc_request :: "codec \<Rightarrow> u64 \<Rightarrow> string \<Rightarrow> rpc_stub \<Rightarrow> fld list \<Rightarrow> wout" where
  "rpc_request E off f st params =
     wseq (Wrote (word_bytes (stub_id st)))
       (run_sops (\<lambda>op v. ser_op E (call_ctx off) (ser E (call_ctx off)) f params op v)
          (stub_request st) params)"

text \<open>The end of a handler: the body of \<open>XRTP_MSG_FUNCTION_RETURN\<close>.\<close>

definition rpc_reply ::
  "codec \<Rightarrow> string \<Rightarrow> sop list \<Rightarrow> u32 \<Rightarrow> u64 \<Rightarrow> fld list \<Rightarrow> wout" where
  "rpc_reply E f ops res duration params =
     wseq (Wrote (word_bytes res @ word_bytes duration))
       (run_sops (\<lambda>op v. ser_op E (call_ctx 0) (ser E (call_ctx 0)) f params op v)
          ops (pick (map sop_field ops) params))"

text \<open>
  How a handler of the server ends: with a reply; with an exception that leaves it, where the
  destructor of \<open>msg_out\<close> has flushed the part of a reply that was written, if the handler had started
  one; or with the process.
\<close>

datatype 's handled =
    Replied bytes 's | Raised_in "bytes option" exn 's | Process_ended "unit outcome"

fun go_on :: "'a outcome \<Rightarrow> 's \<Rightarrow> ('a \<Rightarrow> 's handled) \<Rightarrow> 's handled" where
  "go_on (Ret x) s f = f x"
| "go_on (Throw e) s f = Raised_in None e s"
| "go_on Terminate s f = Process_ended Terminate"
| "go_on Fault s f = Process_ended Fault"
| "go_on Blocked s f = Process_ended Blocked"

fun send_reply :: "wout \<Rightarrow> 's \<Rightarrow> 's handled" where
  "send_reply (Wrote reply) s = Replied reply s"
| "send_reply (Raised part e) s = Raised_in (Some part) e s"
| "send_reply Crash s = Process_ended Fault"

lemma go_on_Replied_iff: "go_on d s f = Replied reply s' \<longleftrightarrow> (\<exists>x. d = Ret x \<and> f x = Replied reply s')"
  by (cases d) simp_all

text \<open>A handler, from the parameters on the wire to the reply.\<close>

definition run_handler ::
  "codec \<Rightarrow> nat \<Rightarrow> 's runtime \<Rightarrow> string \<Rightarrow> rpc_handler \<Rightarrow> bytes \<Rightarrow> 's \<Rightarrow> 's handled option" where
  "run_handler E n R f h body s =
     (if \<not> rt_loads R s f then Some (Raised_in None function_loader_error s)
      else case run_dops (des_op E 0 (des E 0 n) f) [] (handler_params h) None body of
             None \<Rightarrow> None
           | Some d \<Rightarrow>
               Some (go_on d s (\<lambda>(params, _).
                 let (res, params', s') = rt_call R f params s
                 in send_reply (rpc_reply E f (handler_reply h) res (rt_duration R s f) params') s')))"

text \<open>
  \<open>handle_function\<close> after \<open>Server::run\<close> has read the function id; \<open>xrCreateInstance\<close> and
  \<open>xrDestroyInstance\<close> go to the two functions that the server injects. \<open>None\<close> is, besides fuel that
  runs out, one of the functions of another form that \<open>Ext_Handlers\<close> leaves out.
\<close>

type_synonym 's injected = "bytes \<Rightarrow> 's \<Rightarrow> 's handled option"

definition handle_function ::
  "codec \<Rightarrow> string list \<Rightarrow> nat \<Rightarrow> 's runtime \<Rightarrow> 's injected \<Rightarrow> 's injected \<Rightarrow> u32 \<Rightarrow> bytes \<Rightarrow> 's \<Rightarrow>
   's handled option" where
  "handle_function E exts n R create_instance_handler destroy_instance_handler function_id body s =
     (case map_of (build_dispatch exts) function_id of
        None \<Rightarrow> Some (Raised_in None unknown_function_id s)
      | Some f \<Rightarrow>
          if f = ''xrCreateInstance'' then create_instance_handler body s
          else if f = ''xrDestroyInstance'' then destroy_instance_handler body s
          else case map_of (build_handlers exts) f of
                 None \<Rightarrow> None
               | Some h \<Rightarrow> run_handler E n R f h body s)"

definition function_call_handler ::
  "codec \<Rightarrow> string list \<Rightarrow> nat \<Rightarrow> 's runtime \<Rightarrow> 's injected \<Rightarrow> 's injected \<Rightarrow> bytes \<Rightarrow> 's \<Rightarrow>
   's handled option" where
  "function_call_handler E exts n R ci di msg s =
     (case read_exact 4 msg of
        None \<Rightarrow> Some (Raised_in None msg_end s)
      | Some (ib, body) \<Rightarrow> handle_function E exts n R ci di (bytes_word ib) body s)"

text \<open>
  What \<open>dispatch_to_handler\<close> makes of it: an exception is logged and the server goes on. The result is
  the message that the client gets, if any.
\<close>

fun server_goes_on :: "'s handled \<Rightarrow> (bytes option \<times> 's) outcome" where
  "server_goes_on (Replied reply s) = Ret (Some reply, s)"
| "server_goes_on (Raised_in part e s) = Ret (part, s)"
| "server_goes_on (Process_ended r) = obind r (\<lambda>_. Fault)"

lemma goes_on_go_on:
  "server_goes_on (go_on d s f) = Ret (reply, c) \<longleftrightarrow>
     (\<exists>x. d = Ret x \<and> server_goes_on (f x) = Ret (reply, c)) \<or> (\<exists>e. d = Throw e \<and> reply = None \<and> c = s)"
  by (cases d) auto

lemma goes_on_send_reply: "server_goes_on (send_reply w s) = Ret (reply, c) \<Longrightarrow> c = s"
  by (cases w) simp_all

text \<open>
  The end of a stub: the reply is read over the caller's own objects. The result has the objects
  that were written, or nothing when an exception was caught (some may be half written).
\<close>

definition rpc_read_reply ::
  "codec \<Rightarrow> u64 \<Rightarrow> nat \<Rightarrow> string \<Rightarrow> rpc_stub \<Rightarrow> fld list \<Rightarrow> bytes \<Rightarrow> (u32 \<times> fld list) parsed" where
  "rpc_read_reply E off n f st params msg =
     pbind (des_bytes 4 msg) (\<lambda>rb bs.
     pbind (des_bytes 8 bs) (\<lambda>db bs'.
     pbind (run_dops (des_op E off (des E off n) f) [] (stub_reply st)
              (Some (pick (map dop_field (stub_reply st)) params)) bs')
       (\<lambda>outs rest. Some (Ret ((bytes_word rb, update_fields params outs), rest)))))"

fun catch_failure :: "((u32 \<times> fld list) \<times> bytes) outcome \<Rightarrow> (u32 \<times> fld list option) outcome" where
  "catch_failure (Ret ((res, params), rest)) = Ret (res, Some params)"
| "catch_failure (Throw e) = Ret (XR_ERROR_RUNTIME_FAILURE, None)"
| "catch_failure Terminate = Terminate"
| "catch_failure Fault = Fault"
| "catch_failure Blocked = Blocked"

definition rpc_finish ::
  "codec \<Rightarrow> u64 \<Rightarrow> nat \<Rightarrow> string \<Rightarrow> rpc_stub \<Rightarrow> fld list \<Rightarrow> bytes \<Rightarrow>
   (u32 \<times> fld list option) outcome option" where
  "rpc_finish E off n f st params msg =
     (case rpc_read_reply E off n f st params msg of
        None \<Rightarrow> None
      | Some r \<Rightarrow> Some (catch_failure r))"

text \<open>
  One call of the application against a server: what the call returns, the server afterwards, and a
  reply that arrives after the call has given up. A stub that gets no reply waits in
  \<open>await_message\<close>; one whose server process ends loses the connection and catches the exception.
  When writing the request raises an exception, the destructor of the outgoing message flushes the
  part that was written, the server handles that, and nobody waits for its reply.
\<close>

definition rpc_call ::
  "codec \<Rightarrow> string list \<Rightarrow> u64 \<Rightarrow> nat \<Rightarrow> 's runtime \<Rightarrow> 's injected \<Rightarrow> 's injected \<Rightarrow> string \<Rightarrow> rpc_stub \<Rightarrow> fld list \<Rightarrow> 's \<Rightarrow>
   ((u32 \<times> fld list option) outcome \<times> 's outcome \<times> bytes option) option" where
  "rpc_call E exts off n R ci di f st params s =
     (case rpc_request E off f st params of
        Wrote msg \<Rightarrow>
          (case map_option server_goes_on (function_call_handler E exts n R ci di msg s) of
             None \<Rightarrow> None
           | Some (Ret (Some reply, s')) \<Rightarrow>
               (case rpc_finish E off n f st params reply of
                  None \<Rightarrow> None
                | Some r \<Rightarrow> Some (r, Ret s', None))
           | Some (Ret (None, s')) \<Rightarrow> Some (Blocked, Ret s', None)
           | Some Blocked \<Rightarrow> Some (Blocked, Blocked, None)
           | Some r \<Rightarrow> Some (Ret (XR_ERROR_RUNTIME_FAILURE, None), obind r (\<lambda>(_, s'). Ret s'), None))
      | Raised part e \<Rightarrow>
          (case map_option server_goes_on (function_call_handler E exts n R ci di part s) of
             None \<Rightarrow> None
           | Some r \<Rightarrow> Some (Ret (XR_ERROR_RUNTIME_FAILURE, None), obind r (\<lambda>(_, s'). Ret s'),
               case r of Ret (late, _) \<Rightarrow> late | _ \<Rightarrow> None))
      | Crash \<Rightarrow> Some (Fault, Ret s, None))"

end
