(* ===== verification/Serialization_Wellformed.thy ===== *)
theory Serialization_Wellformed
  imports Serialization_Laws
begin

text \<open>
  Well-formed values: what the OpenXR specification asks of the structs an application passes.
  Counts are the lengths of the arrays they count, fixed arrays have their bound, strings end
  with their terminator, every struct of a chain is known. Such values can always be written,
  and what arrives is the value itself, up to the two time offsets.
\<close>

section \<open>Well-formedness\<close>

definition wf_ptr :: "(xv \<Rightarrow> bool) \<Rightarrow> nat outcome \<Rightarrow> xv \<Rightarrow> bool" where
  "wf_ptr p len v =
     (case v of
        V_null \<Rightarrow> (\<exists>n. len = Ret n)
      | V_ptr vs \<Rightarrow> len = Ret (length vs) \<and> vs \<noteq> [] \<and> list_all p vs
      | _ \<Rightarrow> False)"

definition wf_each :: "(xv \<Rightarrow> bool) \<Rightarrow> nat outcome \<Rightarrow> xv \<Rightarrow> bool" where
  "wf_each p len v = (case v of V_ptr vs \<Rightarrow> len = Ret (length vs) \<and> list_all p vs | _ \<Rightarrow> False)"

fun wf_op :: "codec \<Rightarrow> (kind \<Rightarrow> xv \<Rightarrow> bool) \<Rightarrow> string \<Rightarrow> fld list \<Rightarrow> sop \<Rightarrow> xv \<Rightarrow> bool" where
  "wf_op E rec s all (Ser f) v \<longleftrightarrow> rec (K_val (field_type E s f)) v"
| "wf_op E rec s all (Ser_time f) v \<longleftrightarrow> (case v of V_prim bs \<Rightarrow> length bs = 8 | _ \<Rightarrow> False)"
| "wf_op E rec s all (Ser_xr f) v \<longleftrightarrow> rec K_xr v"
| "wf_op E rec s all (Ser_array f k) v \<longleftrightarrow>
     (case v of
        V_array vs \<Rightarrow> length vs = bound_value E k \<and> list_all (rec (K_val (field_type E s f))) vs
      | _ \<Rightarrow> False)"
| "wf_op E rec s all (Ser_ptr f k) v \<longleftrightarrow> wf_ptr (rec (K_val (field_type E s f))) (count_value E all k v) v"
| "wf_op E rec s all (Ser_xr_array f k) v \<longleftrightarrow> False"
| "wf_op E rec s all (Ser_ptr_each f g) v \<longleftrightarrow>
     wf_each (\<lambda>x. wf_ptr (rec (K_val (field_type E s f))) (count_value E all C_null_terminated x) x)
       (uint_field all g) v"
| "wf_op E rec s all (Ser_xr_each f g) v \<longleftrightarrow> wf_each (rec K_xr) (uint_field all g) v"

fun run_wf :: "(sop \<Rightarrow> xv \<Rightarrow> bool) \<Rightarrow> sop list \<Rightarrow> fld list \<Rightarrow> bool" where
  "run_wf p [] [] \<longleftrightarrow> True"
| "run_wf p (op # ops) (Field g v # fs) \<longleftrightarrow> sop_field op = g \<and> p op v \<and> run_wf p ops fs"
| "run_wf p _ _ \<longleftrightarrow> False"

lemma wf_ptr_cong: "(\<And>x. size x < size v \<Longrightarrow> p x = q x) \<Longrightarrow> wf_ptr p len v = wf_ptr q len v"
proof (cases v)
  case (V_ptr vs)
  assume "\<And>x. size x < size v \<Longrightarrow> p x = q x"
  then have "list_all p vs = list_all q vs" using V_ptr size_ptr_elem(1) by (auto simp: list_all_iff)
  then show ?thesis using V_ptr by (simp add: wf_ptr_def)
qed (simp_all add: wf_ptr_def)

lemma wf_each_cong: "(\<And>x. size x < size v \<Longrightarrow> p x = q x) \<Longrightarrow> wf_each p len v = wf_each q len v"
proof (cases v)
  case (V_ptr vs)
  assume "\<And>x. size x < size v \<Longrightarrow> p x = q x"
  then have "list_all p vs = list_all q vs" using V_ptr size_ptr_elem(1) by (auto simp: list_all_iff)
  then show ?thesis using V_ptr by (simp add: wf_each_def)
qed (simp_all add: wf_each_def)

lemma wf_op_cong:
  assumes rec: "\<And>k x. size x \<le> size v \<Longrightarrow> rec k x = rec' k x"
  shows "wf_op E rec s all op v = wf_op E rec' s all op v"
proof -
  have ptr: "wf_ptr (rec k) len x = wf_ptr (rec' k) len x" if "size x \<le> size v" for k len x
    using rec that by (intro wf_ptr_cong) simp
  have each: "wf_each (\<lambda>x. wf_ptr (rec k) (m x) x) n v = wf_each (\<lambda>x. wf_ptr (rec' k) (m x) x) n v" for m k n
    by (rule wf_each_cong) (simp add: ptr)
  have xr: "wf_each (rec K_xr) n v = wf_each (rec' K_xr) n v" for n
    using rec by (intro wf_each_cong) simp
  show ?thesis
  proof (cases op)
    case (Ser_array f k)
    have "list_all (rec (K_val (field_type E s f))) vs = list_all (rec' (K_val (field_type E s f))) vs"
      if "v = V_array vs" for vs
      using rec size_ptr_elem(2) that by (auto simp: list_all_iff less_imp_le)
    then show ?thesis using Ser_array by (simp split: xv.split)
  qed (simp_all add: rec ptr each xr)
qed

lemma wf_op_fundef_cong [fundef_cong]:
  assumes "E = E'" "s = s'" "all = all'" "op = op'" "v = v'"
    "\<And>k x. size x \<le> size v' \<Longrightarrow> rec k x = rec' k x"
  shows "wf_op E rec s all op v = wf_op E' rec' s' all' op' v'"
  unfolding assms(1-5) by (rule wf_op_cong) (rule assms(6))

lemma run_wf_cong_set:
  "(\<And>op v. size v < Suc (size_list size fs) \<Longrightarrow> p op v = q op v) \<Longrightarrow> run_wf p ops fs = run_wf q ops fs"
  by (induction p ops fs rule: run_wf.induct) simp_all

lemma run_wf_cong [fundef_cong]:
  assumes "ops = ops'" "fs = fs'" "\<And>op v. size v < Suc (size_list size fs') \<Longrightarrow> p op v = q op v"
  shows "run_wf p ops fs = run_wf q ops' fs'"
  unfolding assms(1,2) by (rule run_wf_cong_set) (rule assms(3))

fun wellformed :: "codec \<Rightarrow> kind \<Rightarrow> xv \<Rightarrow> bool" where
  "wellformed E (K_val (T_prim n)) (V_prim bs) \<longleftrightarrow> length bs = n"
| "wellformed E (K_val (T_struct s)) (V_struct fs) \<longleftrightarrow>
     (case ser_program E s of
        None \<Rightarrow> False
      | Some ops \<Rightarrow> run_wf (\<lambda>op v. wf_op E (\<lambda>k x. wellformed E k x) s fs op v) ops fs)"
| "wellformed E K_xr V_null \<longleftrightarrow> True"
| "wellformed E K_xr (V_ref (V_struct fs)) \<longleftrightarrow>
     (case struct_type fs of
        None \<Rightarrow> False
      | Some ty \<Rightarrow>
          (case ser_lookup E ty of
             None \<Rightarrow> False
           | Some s \<Rightarrow> wellformed E (K_val (T_struct s)) (V_struct fs)))"
| "wellformed E _ _ \<longleftrightarrow> False"

section \<open>Well-formed values can be written and arrive unchanged\<close>

lemma word_bytes_bytes_word64: "length bs = 8 \<Longrightarrow> word_bytes (bytes_word bs :: u64) = bs"
proof -
  assume len: "length bs = 8"
  have "le_val bs < 2 ^ 64" using le_val_lt [of bs] len by simp
  then show ?thesis using le_bytes_le_val [OF len]
    by (simp add: word_bytes_def bytes_word_def unat_of_nat)
qed

definition carried :: "(xv \<Rightarrow> wout) \<Rightarrow> (xv \<Rightarrow> xv) \<Rightarrow> xv \<Rightarrow> bool" where
  "carried f a v \<longleftrightarrow> (\<exists>bs. f v = Wrote bs) \<and> a v = v"

lemma array_carried:
  "list_all (carried f a) vs \<Longrightarrow> (\<exists>bs. serialize_array f (length vs) vs = Wrote bs) \<and> map a vs = vs"
  by (induction vs) (auto simp: carried_def wseq_Wrote_iff won_Wrote_iff)

lemma ptr_carried:
  assumes "wf_ptr p len v" "\<And>x. size x < size v \<Longrightarrow> p x \<Longrightarrow> carried f a x" "size v < 2 ^ 32"
  shows "carried (\<lambda>v. won len (\<lambda>n. serialize_ptr f n v)) (arr_ptr a (ret_or 0 len)) v"
proof (cases v)
  case (V_ptr vs)
  then have vs: "len = Ret (length vs)" "vs \<noteq> []" "list_all (carried f a) vs"
    using assms(1,2) size_ptr_elem(1) by (auto simp: wf_ptr_def list_all_iff)
  have "length vs < 2 ^ 32" using length_pointee [of v vs] V_ptr assms(3) by simp
  then have "(word_of_nat (length vs) :: u32) \<noteq> 0"
    using vs(2) unat_len [of "length vs"] by (metis length_0_conv unat_0)
  then show ?thesis using array_carried [OF vs(3)] V_ptr vs(1)
    by (auto simp: carried_def serialize_ptr_def arr_ptr_def Let_def wseq_Wrote_iff won_Wrote_iff)
next
  case V_null
  then show ?thesis using assms(1)
    by (auto simp: wf_ptr_def carried_def serialize_ptr_def arr_ptr_def Let_def wseq_Wrote_iff won_Wrote_iff)
qed (use assms(1) in \<open>simp_all add: wf_ptr_def\<close>)

lemma each_carried:
  assumes "wf_each p len v" "\<And>x. size x < size v \<Longrightarrow> p x \<Longrightarrow> carried f a x"
  shows "carried (\<lambda>v. won len (\<lambda>n. serialize_each f n v)) (arr_each a (ret_or 0 len)) v"
proof (cases v)
  case (V_ptr vs)
  then have vs: "len = Ret (length vs)" "list_all (carried f a) vs"
    using assms size_ptr_elem(1) by (auto simp: wf_each_def list_all_iff)
  then show ?thesis using array_carried [OF vs(2)] V_ptr
    by (auto simp: carried_def serialize_each_def arr_each_def)
qed (use assms(1) in \<open>simp_all add: wf_each_def\<close>)

lemma op_carried:
  assumes wf: "wf_op E (wellformed E) s all op v" and v: "size v < 2 ^ 32"
    and rec: "\<And>k x. size x \<le> size v \<Longrightarrow> wellformed E k x \<Longrightarrow> carried (ser E c k) (arr E c (ser_time_offset c) k) x"
  shows "carried (ser_op E c (ser E c) s all op)
     (arr_op E c (ser_time_offset c) (arr E c (ser_time_offset c)) s all op) v"
proof -
  let ?off = "ser_time_offset c"
  have smaller: "carried (ser E c k) (arr E c ?off k) x" if "size x < size v" "wellformed E k x" for k x
    using rec that by simp
  show ?thesis
  proof (cases op)
    case (Ser f)
    then show ?thesis using rec [OF order_refl] wf by (simp add: carried_def)
  next
    case (Ser_time f)
    then obtain bs where bs: "v = V_prim bs" "length bs = 8" using wf by (auto split: xv.splits)
    then show ?thesis using word_bytes_bytes_word64 [of bs] Ser_time
      by (simp add: carried_def serialize_time_def arr_time_def Let_def)
  next
    case (Ser_xr f)
    then show ?thesis using rec [OF order_refl] wf by (simp add: carried_def)
  next
    case (Ser_array f k)
    then obtain vs where vs: "v = V_array vs" "length vs = bound_value E k"
      "list_all (wellformed E (K_val (field_type E s f))) vs"
      using wf by (auto split: xv.splits)
    then have "list_all (carried (ser E c (K_val (field_type E s f))) (arr E c ?off (K_val (field_type E s f)))) vs"
      using smaller size_ptr_elem(2) by (auto simp: list_all_iff)
    from array_carried [OF this] show ?thesis using Ser_array vs by (auto simp: carried_def)
  next
    case (Ser_ptr f k)
    let ?k = "K_val (field_type E s f)"
    show ?thesis
      using ptr_carried [of "wellformed E ?k" "count_value E all k v" v "ser E c ?k" "arr E c ?off ?k"]
        smaller v wf Ser_ptr
      by (simp add: carried_def)
  next
    case (Ser_xr_array f k)
    then show ?thesis using wf by simp
  next
    case (Ser_ptr_each f g)
    let ?k = "K_val (field_type E s f)" and ?cnt = "\<lambda>x. count_value E all C_null_terminated x"
    let ?F = "\<lambda>x. won (?cnt x) (\<lambda>len. serialize_ptr (ser E c ?k) len x)"
    let ?A = "\<lambda>x. arr_ptr (arr E c ?off ?k) (ret_or 0 (?cnt x)) x"
    have elem: "carried ?F ?A x" if "size x < size v" "wf_ptr (wellformed E ?k) (?cnt x) x" for x
      using ptr_carried [OF that(2), of "ser E c ?k" "arr E c ?off ?k"] smaller v that(1)
      by (simp add: carried_def)
    have "wf_each (\<lambda>x. wf_ptr (wellformed E ?k) (?cnt x) x) (uint_field all g) v"
      using wf Ser_ptr_each by (simp del: uint_field.simps)
    from each_carried [OF this elem]
    have "carried (\<lambda>v. won (uint_field all g) (\<lambda>n. serialize_each ?F n v))
        (arr_each ?A (ret_or 0 (uint_field all g))) v" by blast
    then show ?thesis using Ser_ptr_each by (simp add: carried_def del: uint_field.simps)
  next
    case (Ser_xr_each f g)
    then show ?thesis
      using each_carried [of "wellformed E K_xr" "uint_field all g" v "ser E c K_xr" "arr E c ?off K_xr"]
        smaller wf
      by (simp add: carried_def del: uint_field.simps)
  qed
qed

lemma fields_carried:
  assumes "run_wf (wf_op E (wellformed E) s all) ops fs" "size_list size fs < 2 ^ 32"
    and rec: "\<And>k x. size x < Suc (size_list size fs) \<Longrightarrow> wellformed E k x \<Longrightarrow>
      carried (ser E c k) (arr E c (ser_time_offset c) k) x"
  shows "(\<exists>bs. run_sops (ser_op E c (ser E c) s all) ops fs = Wrote bs) \<and>
     run_arr (arr_op E c (ser_time_offset c) (arr E c (ser_time_offset c)) s all) ops fs = fs"
  using assms
proof (induction "wf_op E (wellformed E) s all" ops fs rule: run_wf.induct)
  case (2 op ops g v fs)
  have "carried (ser_op E c (ser E c) s all op)
     (arr_op E c (ser_time_offset c) (arr E c (ser_time_offset c)) s all op) v"
    using 2(2-4) by (intro op_carried) simp_all
  then show ?case using 2 by (auto simp: carried_def wseq_Wrote_iff won_Wrote_iff)
qed simp_all

lemma wellformed_carried:
  "wellformed E k v \<Longrightarrow> size v < 2 ^ 32 \<Longrightarrow> carried (ser E c k) (arr E c (ser_time_offset c) k) v"
proof (induction "size v" arbitrary: k v rule: less_induct)
  case less
  have rec: "carried (ser E c k') (arr E c (ser_time_offset c) k') x"
    if "size x < size v" "wellformed E k' x" for k' x
    using less(1) [of x k'] that less(3) by simp
  from less(2) show ?case
  proof (cases rule: wellformed.elims(2))
    case (1 n bs)
    then show ?thesis by (simp add: carried_def)
  next
    case (2 s fs)
    then obtain ops where ops: "ser_program E s = Some ops"
      "run_wf (wf_op E (wellformed E) s fs) ops fs"
      using less(2) by (auto split: option.splits)
    have "(\<exists>bs. run_sops (ser_op E c (ser E c) s fs) ops fs = Wrote bs) \<and>
        run_arr (arr_op E c (ser_time_offset c) (arr E c (ser_time_offset c)) s fs) ops fs = fs"
      by (rule fields_carried [OF ops(2)]) (use rec less(3) 2 in simp_all)
    then show ?thesis using 2 ops(1) by (simp add: carried_def)
  next
    case 3
    then show ?thesis by (simp add: carried_def)
  next
    case (4 fs)
    then obtain ty s where ty: "struct_type fs = Some ty" "ser_lookup E ty = Some s"
      "wellformed E (K_val (T_struct s)) (V_struct fs)"
      using less(2) by (auto split: option.splits simp del: wellformed.simps(2))
    have "carried (ser E c (K_val (T_struct s))) (arr E c (ser_time_offset c) (K_val (T_struct s))) (V_struct fs)"
      by (rule less(1)) (use ty(3) 4 less(3) in simp_all)
    then show ?thesis using 4 ty(1,2) by (auto simp: carried_def wseq_Wrote_iff won_Wrote_iff)
  qed
qed

end
