(* ===== verification/Serialization_Props.thy ===== *)
theory Serialization_Props
  imports Builds Serialization_Wellformed
begin

text \<open>
  Properties of the serializers with the core tables: values and \<open>next\<close> chains make the round
  trip, unknown structs leave a chain, and what the deserializer does with input that the
  serializer of this version cannot have written.
\<close>

section \<open>Chains\<close>

text \<open>The structure types along a \<open>next\<close> chain.\<close>

function chain_types :: "xv \<Rightarrow> u32 list" where
  "chain_types (V_ref (V_struct fs)) =
     (case struct_type fs of
        None \<Rightarrow> []
      | Some ty \<Rightarrow> ty # (case find_field fs ''next'' of Some nxt \<Rightarrow> chain_types nxt | None \<Rightarrow> []))"
| "chain_types V_null = []"
| "chain_types (V_prim b) = []"
| "chain_types (V_struct fs) = []"
| "chain_types (V_array vs) = []"
| "chain_types (V_ptr vs) = []"
| "chain_types (V_ref V_null) = []"
| "chain_types (V_ref (V_prim b)) = []"
| "chain_types (V_ref (V_array vs)) = []"
| "chain_types (V_ref (V_ptr vs)) = []"
| "chain_types (V_ref (V_ref v)) = []"
  by pat_completeness auto
termination
  by (relation "measure size") (auto dest: find_field_size)

lemma arr_prim [simp]: "arr E c off (K_val ty) (V_prim b) = V_prim b"
  by (cases ty) simp_all

text \<open>
  A \<open>next\<close> chain that could be written arrives without the structs that the serializer
  does not know, with all the others, in their order; unless the context skips unknown structs
  there are none.
\<close>

theorem chain_arrives_filtered:
  assumes "ser (build_codec X exts) c K_xr v = Wrote bs"
  shows "chain_types (arr (build_codec X exts) c off K_xr v)
       = filter (\<lambda>ty. serializer_lookup X exts ty \<noteq> None) (chain_types v)
     \<and> (skip_unknown_structs c \<or> (\<forall>ty. ty \<in> set (chain_types v) \<longrightarrow> serializer_lookup X exts ty \<noteq> None))"
  using assms
proof (induction "size v" arbitrary: v bs rule: less_induct)
  case less
  let ?E = "build_codec X exts"
  have look: "ser_lookup ?E = serializer_lookup X exts" by (simp add: build_codec_def)
  consider "v = V_null" | fs where "v = V_ref (V_struct fs)"
    using ser_xr_Ret [OF less.prems] by blast
  then show ?case
  proof cases
    case 2
    then obtain ty where ty: "struct_type fs = Some ty"
      using less.prems by (cases "struct_type fs") auto
    show ?thesis
    proof (cases "ser_lookup ?E ty")
      case None
      then obtain nxt where n: "find_field fs ''next'' = Some nxt" "ser ?E c K_xr nxt = Wrote bs"
        and skip: "skip_unknown_structs c"
        using less.prems 2 ty by (auto split: if_splits option.splits)
      have "size nxt < size v" using find_field_size [OF n(1)] 2 by simp
      from less.hyps [OF this n(2)] show ?thesis using 2 ty None n(1) skip look by simp
    next
      case (Some s)
      obtain b where "ser ?E c (K_val (T_struct s)) (V_struct fs) = Wrote b"
        using less.prems 2 ty Some by (auto simp: wseq_Wrote_iff)
      then obtain ops where ops: "ser_program ?E s = Some ops"
        "run_sops (\<lambda>op v. ser_op ?E c (ser ?E c) s fs op v) ops fs = Wrote b"
        by (auto split: option.splits)
      let ?gs = "run_arr (\<lambda>op v. arr_op ?E c off (arr ?E c off) s fs op v) ops fs"
      have "arr ?E c off K_xr v = V_ref (V_struct ?gs)" using 2 ty Some ops(1) by simp
      moreover have "struct_type ?gs = Some ty"
        by (rule build.struct_type_of_program [OF ops ty])
      moreover have "(find_field fs ''next'' = None \<and> find_field ?gs ''next'' = None) \<or>
          (\<exists>nxt b. find_field fs ''next'' = Some nxt \<and> ser ?E c K_xr nxt = Wrote b \<and>
             find_field ?gs ''next'' = Some (arr ?E c off K_xr nxt))"
        by (rule build_next [OF ops])
      ultimately show ?thesis
        using less.hyps 2 ty Some look find_field_size [of fs "''next''"] by fastforce
    qed
  qed simp
qed

section \<open>A concrete header\<close>

text \<open>The part of the header that \<open>XrFrameState\<close> needs.\<close>

definition frame_openxr :: openxr where
  "frame_openxr =
     \<lparr>xr_field_type = (\<lambda>s f. if f = ''frameState'' then T_struct ''XrFrameState''
        else if f = ''type'' \<or> f = ''shouldRender'' then T_prim 4 else T_prim 8),
      xr_field_const = (\<lambda>s f. True), xr_macro = (\<lambda>s. 0), xr_type_value = (\<lambda>e. if e = ''XR_TYPE_FRAME_STATE'' then 44 else 1)\<rparr>"

definition frame_state :: "u64 \<Rightarrow> u64 \<Rightarrow> u32 \<Rightarrow> xv" where
  "frame_state time period render =
     V_ptr [V_struct [Field ''type'' (V_prim (word_bytes (44 :: u32))), Field ''next'' V_null,
       Field ''predictedDisplayTime'' (V_prim (word_bytes time)),
       Field ''predictedDisplayPeriod'' (V_prim (word_bytes period)),
       Field ''shouldRender'' (V_prim (word_bytes render))]]"

lemma frame_state_program:
  "map_of core_serializers ''XrFrameState'' = Some
     [Ser ''type'', Ser_xr ''next'', Ser_time ''predictedDisplayTime'',
      Ser ''predictedDisplayPeriod'', Ser ''shouldRender'']"
  by (simp add: core_serializers_def core_serializers_1_def core_serializers_2_def
      core_serializers_3_def core_serializers_4_def core_serializers_5_def)

lemma frame_types: "types_ok (build_codec frame_openxr [])"
proof -
  have always: "ty = 44 \<or> ty = 1" if "table_lookup frame_openxr tab ty = Some s" for ty s tab
  proof -
    have "(ty, s) \<in> set (map (\<lambda>(e, s). (xr_type_value frame_openxr e, s)) tab)"
      using that unfolding table_lookup_def by (rule map_of_SomeD)
    then show ?thesis by (auto simp: frame_openxr_def split: if_splits)
  qed
  have "ty \<noteq> 0" if "ser_lookup (build_codec frame_openxr []) ty = Some s" for ty s
  proof -
    have "ty = 44 \<or> ty = 1" using that by (intro always) (simp add: build_codec_def serializer_lookup_def)
    then show ?thesis by auto
  qed
  then show ?thesis by (simp add: types_ok_def)
qed

lemma frame_lookup:
  "serializer_lookup frame_openxr [] 44 = Some ''XrFrameState''" "serializer_lookup frame_openxr [] 99 = None"
  by (simp_all add: core_lookups table_lookup_def core_serializer_table_def frame_openxr_def)

lemmas frame_value_simps = frame_openxr_def build_codec_def frame_state_program frame_state_def
  serialize_ptr_def serialize_time_def zero32_def arr_ptr_def arr_time_def

section \<open>Round trips\<close>

text \<open>
  C5: Whatever a side could write, the other side reads back: the deserializer consumes
  exactly the bytes of the value and yields the value that arrives, into fresh memory or over an
  object of the same shape.
\<close>

theorem core_value_roundtrip:
  assumes "types_ok (build_codec X exts)" "size v < n" "size v < 2 ^ 32"
    "ser (build_codec X exts) c k v = Wrote bs" "fits old (arr (build_codec X exts) c off k v)"
  shows "des (build_codec X exts) off (Suc n) k old (bs @ rest) = Some (Ret (arr (build_codec X exts) c off k v, rest))"
  by (rule build.reads_back [OF assms])

definition frame_struct :: "u64 \<Rightarrow> xv" where
  "frame_struct t =
     V_struct [Field ''type'' (V_prim (word_bytes (44 :: u32))), Field ''next'' V_null,
       Field ''predictedDisplayTime'' (V_prim (word_bytes t)),
       Field ''predictedDisplayPeriod'' (V_prim (word_bytes (11 :: u64))),
       Field ''shouldRender'' (V_prim (word_bytes (1 :: u32)))]"

definition frame_struct_bytes :: "u64 \<Rightarrow> bytes" where
  "frame_struct_bytes t = word_bytes (44 :: u32) @ word_bytes (0 :: u32) @ word_bytes t @
     word_bytes (11 :: u64) @ word_bytes (1 :: u32)"

definition to_server :: ser_ctx where
  "to_server = \<lparr>ser_time_offset = 1000, skip_unknown_structs = False\<rparr>"

lemma frame_struct_ser:
  "ser (build_codec frame_openxr []) to_server (K_val (T_struct ''XrFrameState'')) (frame_struct 5000)
   = Wrote (frame_struct_bytes 4000)"
  by (simp add: frame_value_simps frame_struct_def frame_struct_bytes_def to_server_def)

lemma frame_struct_arr:
  "arr (build_codec frame_openxr []) to_server 0 (K_val (T_struct ''XrFrameState'')) (frame_struct 5000) = frame_struct 4000"
  by (simp add: frame_value_simps frame_struct_def to_server_def)

theorem core_value_roundtrip_witness:
  "des (build_codec frame_openxr []) 0 (Suc 200) (K_val (T_struct ''XrFrameState'')) (Some (frame_struct 0))
     (frame_struct_bytes 4000 @ [9]) = Some (Ret (frame_struct 4000, [9]))"
proof -
  have small: "size (frame_struct 5000) < 200" "size (frame_struct 5000) < 2 ^ 32"
    by (simp_all add: frame_struct_def)
  have fit: "fits (Some (frame_struct 0)) (arr (build_codec frame_openxr []) to_server 0
      (K_val (T_struct ''XrFrameState'')) (frame_struct 5000))"
    unfolding frame_struct_arr by (simp add: fits_def frame_struct_def)
  show ?thesis
    using core_value_roundtrip [OF frame_types small frame_struct_ser fit]
    unfolding frame_struct_arr .
qed

text \<open>
  C9: Every well-formed value can be written, no exception is possible, and with matching
  time offsets it is read back unchanged, into fresh memory or in place.
\<close>

theorem core_wellformed_roundtrip:
  assumes "wellformed (build_codec X exts) k v" "types_ok (build_codec X exts)" "size v < n" "size v < 2 ^ 32"
  shows "\<exists>bs. ser (build_codec X exts) c k v = Wrote bs \<and>
    des (build_codec X exts) (ser_time_offset c) (Suc n) k None (bs @ rest) = Some (Ret (v, rest)) \<and>
    des (build_codec X exts) (ser_time_offset c) (Suc n) k (Some v) (bs @ rest) = Some (Ret (v, rest))"
proof -
  obtain bs where bs: "ser (build_codec X exts) c k v = Wrote bs" "arr (build_codec X exts) c (ser_time_offset c) k v = v"
    using wellformed_carried [OF assms(1,4), of c] by (auto simp: carried_def)
  have "des (build_codec X exts) (ser_time_offset c) (Suc n) k old (bs @ rest) = Some (Ret (v, rest))"
    if "fits old v" for old
    using build.reads_back [OF assms(2-4) bs(1), of old "ser_time_offset c" rest] bs(2) that by simp
  then show ?thesis using bs(1) by (simp add: fits_def)
qed

theorem core_wellformed_roundtrip_witness:
  "\<exists>bs. ser (build_codec frame_openxr []) to_server (K_val (T_struct ''XrFrameState'')) (frame_struct 5000) = Wrote bs \<and>
    des (build_codec frame_openxr []) 1000 (Suc 200) (K_val (T_struct ''XrFrameState'')) None (bs @ [7])
      = Some (Ret (frame_struct 5000, [7])) \<and>
    des (build_codec frame_openxr []) 1000 (Suc 200) (K_val (T_struct ''XrFrameState'')) (Some (frame_struct 5000)) (bs @ [7])
      = Some (Ret (frame_struct 5000, [7]))"
proof -
  have wf: "wellformed (build_codec frame_openxr []) (K_val (T_struct ''XrFrameState'')) (frame_struct 5000)"
    by (simp add: frame_value_simps frame_struct_def)
  have small: "size (frame_struct 5000) < 200" "size (frame_struct 5000) < 2 ^ 32"
    by (simp_all add: frame_struct_def)
  have "ser_time_offset to_server = 1000" by (simp add: to_server_def)
  then show ?thesis
    using core_wellformed_roundtrip [OF wf frame_types small, of to_server "[7]"] by simp
qed


section \<open>Chains of the witness\<close>

text \<open>An unknown struct in front of a frame state, written with unknown structs skipped.\<close>

definition mixed_chain :: xv where
  "mixed_chain = V_ref (V_struct [Field ''type'' (V_prim (word_bytes (99 :: u32))),
     Field ''next'' (V_ref (frame_struct 5000))])"

definition skipping :: ser_ctx where
  "skipping = \<lparr>ser_time_offset = 0, skip_unknown_structs = True\<rparr>"

lemma codec_lookup [simp]: "ser_lookup (build_codec X exts) = serializer_lookup X exts"
  by (simp add: build_codec_def)

lemma mixed_chain_ser:
  "ser (build_codec frame_openxr []) skipping K_xr mixed_chain = Wrote (word_bytes (44 :: u32) @ frame_struct_bytes 5000)"
proof -
  have "ser (build_codec frame_openxr []) skipping (K_val (T_struct ''XrFrameState'')) (frame_struct 5000)
      = Wrote (frame_struct_bytes 5000)"
    by (simp add: frame_value_simps frame_struct_def frame_struct_bytes_def skipping_def)
  moreover have "struct_type [Field ''type'' (V_prim (word_bytes (99 :: u32))), Field ''next'' w] = Some 99" for w
    by (simp add: struct_type_def)
  ultimately show ?thesis
    by (simp add: mixed_chain_def frame_lookup skipping_def frame_struct_def struct_type_def)
qed

theorem chain_arrives_filtered_witness:
  "chain_types (arr (build_codec frame_openxr []) skipping 0 K_xr mixed_chain) = [44]"
proof -
  have "chain_types mixed_chain = [99, 44]"
    by (simp add: mixed_chain_def frame_struct_def struct_type_def)
  then show ?thesis
    using chain_arrives_filtered [OF mixed_chain_ser, of 0] by (simp add: frame_lookup)
qed

section \<open>Input the serializer cannot have written\<close>

text \<open>
  A structure type that this build does not know is not reported: \<open>deserialize_xr\<close> and
  \<open>deserialize_xr_array\<close> call the null pointer that the lookup returned, whatever follows on the
  wire, into fresh memory or over a struct.
\<close>

theorem unknown_type_faults:
  assumes "deserializer_lookup X exts ty = None" "ty \<noteq> 0"
  shows "des (build_codec X exts) off (Suc n) K_xr None (word_bytes ty @ rest) = Some Fault
    \<and> des (build_codec X exts) off (Suc n) K_xr (Some (V_ref u)) (word_bytes ty @ rest) = Some Fault
    \<and> deserialize_xr_array (build_codec X exts) rec old (word_bytes (1 :: u32) @ word_bytes ty @ rest) = Some Fault"
  using assms by (simp add: deserialize_xr_def deserialize_xr_array_def build_codec_def)

theorem unknown_type_faults_witness:
  "des (build_codec frame_openxr []) 0 (Suc 5) K_xr None (word_bytes (99 :: u32) @ []) = Some Fault"
  using unknown_type_faults [of frame_openxr "[]" 99 0 5 "[]" V_null "\<lambda>k x b. None" None]
    frame_lookup(2) by (simp add: lookups_match)

text \<open>
  \<open>serialize_xr_array\<close> and \<open>deserialize_xr_array\<close> disagree on an empty array behind a
  non-null pointer: the type is written and not read, so that the next value is read from four
  bytes too early.
\<close>

theorem empty_polymorphic_array_desyncs:
  assumes "struct_type fs = Some ty" "serializer_lookup X exts ty = Some s"
  shows "serialize_xr_array (build_codec X exts) c rec (Ret 0) (V_ptr (V_struct fs # vs)) = Wrote (zero32 @ word_bytes ty)
    \<and> deserialize_xr_array (build_codec X exts) rec' old (zero32 @ word_bytes ty @ rest)
        = Some (Ret (V_null, word_bytes ty @ rest))"
  using assms by (simp add: serialize_xr_array_def deserialize_xr_array_def build_codec_def zero32_def)

theorem empty_polymorphic_array_desyncs_witness:
  "deserialize_xr_array (build_codec frame_openxr []) (\<lambda>k x b. None) None (zero32 @ word_bytes (44 :: u32) @ [1])
     = Some (Ret (V_null, word_bytes (44 :: u32) @ [1]))"
proof -
  have "struct_type [Field ''type'' (V_prim (word_bytes (44 :: u32)))] = Some 44"
    by (simp add: struct_type_def)
  from empty_polymorphic_array_desyncs [OF this frame_lookup(1), of skipping "\<lambda>k x. Crash" "[]"]
  show ?thesis by simp
qed

end
