(* ===== verification/Serialization_Truncated.thy ===== *)
theory Serialization_Truncated
  imports Serialization_Laws
begin

text \<open>
  What a peer makes of a value that could not be written to the end. The bytes before the
  exception are sent (the destructor of the outgoing message flushes them), and reading them back
  always runs into the end of the message.
\<close>

definition truncates :: "(xv \<Rightarrow> wout) \<Rightarrow> (xv option \<Rightarrow> bytes \<Rightarrow> xv parsed) \<Rightarrow> xv \<Rightarrow> bool" where
  "truncates f g x \<longleftrightarrow> (\<forall>bs e. f x = Raised bs e \<longrightarrow> g None bs = Some (Throw msg_end))"

lemma truncatesD: "truncates f g x \<Longrightarrow> f x = Raised bs e \<Longrightarrow> g None bs = Some (Throw msg_end)"
  by (simp add: truncates_def)

lemma des_bytes_end [simp]: "0 < n \<Longrightarrow> des_bytes n [] = Some (Throw msg_end)"
  by (simp add: des_bytes_def read_exact_def)

lemma array_truncates:
  assumes "\<And>x. x \<in> set vs \<Longrightarrow> inverts f g a x" "\<And>x. x \<in> set vs \<Longrightarrow> truncates f g x"
    "serialize_array f n vs = Raised bs e"
  shows "deserialize_array g n None bs = Some (Throw msg_end)"
  using assms
proof (induction n arbitrary: vs bs)
  case (Suc n)
  then obtain v vs' where vs: "vs = v # vs'" by (cases vs) auto
  then consider "f v = Raised bs e"
    | b1 b2 where "f v = Wrote b1" "serialize_array f n vs' = Raised b2 e" "bs = b1 @ b2"
    using Suc.prems(3) by (auto simp: wseq_Raised_iff)
  then show ?case
  proof cases
    case 1
    then have "g None bs = Some (Throw msg_end)" using Suc.prems(2) vs by (auto intro: truncatesD)
    then show ?thesis by simp
  next
    case 2
    have "inverts f g a v" using Suc.prems(1) vs by simp
    then have "g None (b1 @ b2) = Some (Ret (a v, b2))" using invertsD [of f g a v b1 None b2] 2(1) by simp
    moreover have "deserialize_array g n None b2 = Some (Throw msg_end)"
      using Suc.IH [of vs' b2] Suc.prems(1,2) vs 2(2) by simp
    ultimately show ?thesis using 2(3) by simp
  qed
qed simp

lemma ptr_truncates:
  assumes "\<And>x. size x < size v \<Longrightarrow> inverts f g a x" "\<And>x. size x < size v \<Longrightarrow> truncates f g x"
    "len < 2 ^ 32" "serialize_ptr f len v = Raised bs e"
  shows "deserialize_ptr g None bs = Some (Throw msg_end)"
proof -
  obtain vs b where vs: "pointee v = Some vs" "serialize_array f len vs = Raised b e"
    "bs = word_bytes (word_of_nat len :: u32) @ b" "(word_of_nat len :: u32) \<noteq> 0"
    using assms(4) by (auto simp: serialize_ptr_def Let_def wseq_Raised_iff split: option.splits if_splits)
  have "deserialize_array g len None b = Some (Throw msg_end)"
    using array_truncates [OF _ _ vs(2), of g a] assms(1,2) size_pointee [OF vs(1)] by blast
  moreover have "len \<noteq> 0" using vs(4) by (cases len) simp_all
  ultimately show ?thesis using vs(3,4) unat_len [OF assms(3)]
    by (auto simp: deserialize_ptr_def Let_def)
qed

lemma each_truncates:
  assumes "\<And>x. size x < size v \<Longrightarrow> inverts f g a x" "\<And>x. size x < size v \<Longrightarrow> truncates f g x"
    "serialize_each f n v = Raised bs e"
  shows "deserialize_each g n None bs = Some (Throw msg_end)"
proof -
  obtain vs where vs: "v = V_ptr vs" "serialize_array f n vs = Raised bs e"
    using assms(3) by (auto simp: serialize_each_def split: xv.splits if_splits)
  have "deserialize_array g n None bs = Some (Throw msg_end)"
    using array_truncates [OF _ _ vs(2), of g a] assms(1,2) size_ptr_elem(1) vs(1) by blast
  then show ?thesis by (simp add: deserialize_each_def)
qed

definition constants_ok :: "codec \<Rightarrow> bool" where
  "constants_ok E \<longleftrightarrow> (\<forall>s. xr_constant E s < 2 ^ 32)"

lemma count_null_terminated_le: "count_null_terminated vs = Ret n \<Longrightarrow> n \<le> length vs"
  by (induction vs arbitrary: n rule: count_null_terminated.induct) (auto simp: obind_Ret_iff split: if_splits)

lemma uint_field_lt:
  assumes "uint_field fs g = Ret n"
  shows "n < 2 ^ 32"
proof -
  obtain bs where "length bs = 4" "n = le_val bs"
    using assms by (auto split: option.splits xv.splits if_splits)
  then show ?thesis using le_val_lt [of bs] by simp
qed

lemma count_value_lt:
  assumes "count_value E all k v = Ret n" "constants_ok E" "size v < 2 ^ 32"
  shows "n < 2 ^ 32"
proof (cases k)
  case (C_field g)
  then show ?thesis using assms(1) uint_field_lt by (simp add: count_value_def del: uint_field.simps)
next
  case C_null_terminated
  then consider "n = 0" | vs where "v = V_ptr vs" "count_null_terminated vs = Ret n"
    using assms(1) by (auto simp: count_value_def split: xv.splits)
  then show ?thesis
  proof cases
    case 2
    then show ?thesis using count_null_terminated_le [OF 2(2)] length_pointee [of v vs] assms(3) by simp
  qed simp
qed (use assms in \<open>auto simp: count_value_def constants_ok_def\<close>)

lemma run_sops_Cons_Raised:
  assumes "run_sops f (op # ops) fs = Raised bs e"
  shows "\<exists>v fs'. fs = Field (sop_field op) v # fs'"
proof (cases fs)
  case (Cons x fs')
  then show ?thesis using assms by (cases x) (auto split: if_splits)
qed (use assms in simp)

context agreeing_codec
begin

lemma xr_truncates:
  assumes types: "types_ok E" and rec: "\<And>x t. size x < size v \<Longrightarrow>
      truncates (ser E c (K_val (T_struct t))) (rec (K_val (T_struct t))) x"
    and ser: "ser E c K_xr v = Raised bs e"
  shows "deserialize_xr E rec const None bs = Some (Throw msg_end)"
  using rec ser
proof (induction "size v" arbitrary: v rule: less_induct)
  case less
  then obtain fs where v: "v = V_ref (V_struct fs)"
  proof (cases v)
    case (V_ref u)
    then show ?thesis using that less.prems(2) by (cases u) auto
  qed (use less.prems(2) in auto)
  then obtain ty where ty: "struct_type fs = Some ty"
    using less.prems(2) by (cases "struct_type fs") auto
  show ?case
  proof (cases "ser_lookup E ty")
    case None
    show ?thesis
    proof (cases "skip_unknown_structs c")
      case True
      then obtain nxt where n: "find_field fs ''next'' = Some nxt" "ser E c K_xr nxt = Raised bs e"
        using less.prems(2) v ty None by (auto split: option.splits)
      have sz: "size nxt < size v" using find_field_size [OF n(1)] v by simp
      show ?thesis using less.hyps [OF sz _ n(2)] less.prems(1) sz by simp
    next
      case False
      then have "bs = []" using less.prems(2) v ty None by simp
      then show ?thesis by (simp add: deserialize_xr_def)
    qed
  next
    case (Some t)
    obtain b where b: "ser E c (K_val (T_struct t)) (V_struct fs) = Raised b e" "bs = word_bytes ty @ b"
      using less.prems(2) v ty Some by (auto simp: wseq_Raised_iff)
    have "des_lookup E ty = Some t" "ty \<noteq> 0"
      using lookups_agree [OF Some] types Some by (auto simp: types_ok_def)
    moreover have "rec (K_val (T_struct t)) None b = Some (Throw msg_end)"
      by (rule truncatesD [OF less.prems(1) b(1)]) (simp add: v)
    ultimately show ?thesis using b(2) by (simp add: deserialize_xr_def)
  qed
qed

lemma op_truncates:
  assumes types: "types_ok E" and macros: "constants_ok E"
    and inv: "\<And>x ty. size x \<le> size v \<Longrightarrow>
      inverts (ser E c (K_val ty)) (rec (K_val ty)) (arr E c off (K_val ty)) x"
    and trunc: "\<And>x ty. size x \<le> size v \<Longrightarrow> truncates (ser E c (K_val ty)) (rec (K_val ty)) x"
    and v: "size v < 2 ^ 32"
    and ser: "ser_op E c (ser E c) s all op v = Raised bs e"
    and each: "\<And>f g n. op = Ser_ptr_each f g \<or> op = Ser_xr_each f g \<Longrightarrow>
      uint_field all g = Ret n \<Longrightarrow> uint_field done g = Ret n"
    and no_array: "\<And>f k. op \<noteq> Ser_xr_array f k"
  shows "des_op E off rec s done (dop_of op) None bs = Some (Throw msg_end)"
proof (cases op)
  case (Ser f)
  then show ?thesis using truncatesD [OF trunc [OF order_refl]] ser by simp
next
  case (Ser_time f)
  then show ?thesis using ser by (auto simp: serialize_time_def Let_def split: xv.splits if_splits)
next
  case (Ser_xr f)
  then show ?thesis using xr_truncates [of v c rec bs e, OF types] trunc ser by simp
next
  case (Ser_array f k)
  let ?ty = "K_val (field_type E s f)"
  obtain vs where vs: "pointee v = Some vs" "serialize_array (ser E c ?ty) (bound_value E k) vs = Raised bs e"
    using ser Ser_array by (auto split: option.splits)
  have "deserialize_array (rec ?ty) (bound_value E k) None bs = Some (Throw msg_end)"
    by (rule array_truncates [where a = "arr E c off ?ty", OF _ _ vs(2)]) (use inv trunc size_pointee [OF vs(1)] in \<open>simp_all add: less_imp_le\<close>)
  then show ?thesis using Ser_array by simp
next
  case (Ser_ptr f k)
  then obtain len where len: "count_value E all k v = Ret len"
    "serialize_ptr (ser E c (K_val (field_type E s f))) len v = Raised bs e"
    using ser by (auto simp: won_Raised_iff)
  show ?thesis
    using ptr_truncates [where a = "arr E c off (K_val (field_type E s f))",
        OF _ _ count_value_lt [OF len(1) macros v] len(2)] inv trunc Ser_ptr by simp
next
  case (Ser_xr_array f k)
  then show ?thesis using no_array by simp
next
  case (Ser_ptr_each f g)
  let ?ty = "K_val (field_type E s f)"
  let ?cnt = "\<lambda>x. count_value E all C_null_terminated x"
  let ?f = "\<lambda>x. won (?cnt x) (\<lambda>len. serialize_ptr (ser E c ?ty) len x)"
  let ?a = "\<lambda>x. arr_ptr (arr E c off ?ty) (ret_or 0 (?cnt x)) x"
  let ?g = "\<lambda>o' b. deserialize_ptr (rec ?ty) o' b"
  obtain n where n: "uint_field all g = Ret n" "serialize_each ?f n v = Raised bs e"
    using ser Ser_ptr_each by (auto simp: won_Raised_iff simp del: uint_field.simps)
  have small: "inverts (ser E c ?ty) (rec ?ty) (arr E c off ?ty) y" "truncates (ser E c ?ty) (rec ?ty) y"
    if "size x < size v" "size y < size x" for x y
    using inv trunc that by simp_all
  have "inverts ?f ?g ?a x" if x: "size x < size v" for x
    unfolding inverts_def
  proof (intro allI impI)
    fix b r o'
    assume 1: "?f x = Wrote b" and 2: "fits o' (?a x)"
    then obtain len where len: "?cnt x = Ret len" "serialize_ptr (ser E c ?ty) len x = Wrote b"
      by (auto simp: won_Wrote_iff)
    have "deserialize_ptr (rec ?ty) o' (b @ r) = Some (Ret (arr_ptr (arr E c off ?ty) len x, r))"
      by (rule ptr_inverts [OF _ _ len(2)]) (use small(1) [OF x] x v 2 len(1) in auto)
    then show "?g o' (b @ r) = Some (Ret (?a x, r))" using len(1) by simp
  qed
  moreover have "truncates ?f ?g x" if x: "size x < size v" for x
    unfolding truncates_def
  proof (intro allI impI)
    fix b e'
    assume "?f x = Raised b e'"
    then obtain len where len: "?cnt x = Ret len" "serialize_ptr (ser E c ?ty) len x = Raised b e'"
      by (auto simp: won_Raised_iff)
    have "size x < 2 ^ 32" using x v by simp
    then show "?g None b = Some (Throw msg_end)"
      using ptr_truncates [OF _ _ count_value_lt [OF len(1) macros] len(2)] small [OF x] by blast
  qed
  ultimately have "deserialize_each ?g n None bs = Some (Throw msg_end)"
    using each_truncates [OF _ _ n(2), of ?g ?a] by blast
  then show ?thesis using Ser_ptr_each n(1) each [of f g n] by (simp del: uint_field.simps)
next
  case (Ser_xr_each f g)
  let ?g = "\<lambda>o' b. deserialize_xr E rec True o' b"
  obtain n where n: "uint_field all g = Ret n" "serialize_each (ser E c K_xr) n v = Raised bs e"
    using ser Ser_xr_each by (auto simp: won_Raised_iff simp del: uint_field.simps)
  have "inverts (ser E c K_xr) ?g (arr E c off K_xr) x" if "size x < size v" for x
    unfolding inverts_def using xr_inverts [of x c rec off, OF types] inv that by simp
  moreover have "truncates (ser E c K_xr) ?g x" if "size x < size v" for x
    unfolding truncates_def using xr_truncates [of x c rec, OF types] trunc that by simp
  ultimately have "deserialize_each ?g n None bs = Some (Throw msg_end)"
    using each_truncates [OF _ _ n(2)] by blast
  then show ?thesis using Ser_xr_each n(1) each [of f g n] by (simp del: uint_field.simps)
qed

lemma ops_truncates:
  assumes types: "types_ok E" and macros: "constants_ok E"
    and inv: "\<And>x ty. size x < Suc (size_list size fs) \<Longrightarrow>
      inverts (ser E c (K_val ty)) (rec (K_val ty)) (arr E c off (K_val ty)) x"
    and trunc: "\<And>x ty. size x < Suc (size_list size fs) \<Longrightarrow> truncates (ser E c (K_val ty)) (rec (K_val ty)) x"
    and v: "size_list size fs < 2 ^ 32"
    and ser: "run_sops (\<lambda>op v. ser_op E c (ser E c) s all op v) ops fs = Raised bs e"
    and ok: "program_ok scalars names ops"
    and loops: "(\<exists>op\<in>set ops. is_loop op) \<longrightarrow> all = pre @ fs \<and> scalars_agree scalars read all"
    and names: "fld_name ` set pre = set names" "fld_name ` set read = set names"
  shows "run_dops (des_op E off rec s) read (map dop_of ops) None bs = Some (Throw msg_end)"
  using inv trunc v ser ok loops names
proof (induction ops arbitrary: fs bs scalars names pre read)
  case Nil
  then show ?case by (cases fs) simp_all
next
  case (Cons op ops)
  let ?F = "\<lambda>op v. ser_op E c (ser E c) s all op v" and ?A = "\<lambda>op v. arr_op E c off (arr E c off) s all op v"
  obtain v fs' where fs: "fs = Field (sop_field op) v # fs'"
    using run_sops_Cons_Raised [OF Cons.prems(4)] by blast
  have each: "uint_field read g = Ret n"
    if "op = Ser_ptr_each f g \<or> op = Ser_xr_each f g" "uint_field all g = Ret n" for f g n
    by (rule uint_field_agree [OF _ _ that(2)]) (use Cons.prems(5,6) that(1) in \<open>auto simp: is_loop_def\<close>)
  have no_array: "op \<noteq> Ser_xr_array f k" for f k using Cons.prems(5) by auto
  have sizes: "size v < 2 ^ 32" "size_list size fs' < 2 ^ 32" using Cons.prems(3) fs by simp_all
  have inv1: "inverts (ser E c (K_val ty)) (rec (K_val ty)) (arr E c off (K_val ty)) x"
    and trunc1: "truncates (ser E c (K_val ty)) (rec (K_val ty)) x" if "size x \<le> size v" for x ty
    using Cons.prems(1,2) that fs by simp_all
  consider "?F op v = Raised bs e"
    | b1 b2 where "?F op v = Wrote b1" "run_sops ?F ops fs' = Raised b2 e" "bs = b1 @ b2"
    using Cons.prems(4) fs by (auto simp: wseq_Raised_iff)
  then show ?case
  proof cases
    case 1
    have "des_op E off rec s read (dop_of op) None bs = Some (Throw msg_end)"
      by (rule op_truncates [OF types macros _ _ sizes(1) 1 _ no_array]) (fact inv1, fact trunc1, rule each, assumption+)
    then show ?thesis by simp
  next
    case 2
    have step: "des_op E off rec s read (dop_of op) None (b1 @ b2) = Some (Ret (?A op v, b2))"
      by (rule op_inverts [OF types _ sizes(1) 2(1) _ _ no_array]) (fact inv1, simp, rule each, assumption+)
    let ?read = "read @ [Field (sop_field op) (?A op v)]" and ?pre = "pre @ [Field (sop_field op) v]"
    let ?scalars = "case op of Ser f \<Rightarrow> f # scalars | _ \<Rightarrow> scalars"
    have fresh: "sop_field op \<notin> fld_name ` set pre" "sop_field op \<notin> fld_name ` set read"
      using Cons.prems(5,7,8) by simp_all
    have "run_dops (des_op E off rec s) ?read (map dop_of ops) None b2 = Some (Throw msg_end)"
    proof (rule Cons.IH [where fs = fs' and scalars = ?scalars and names = "sop_field op # names" and pre = ?pre])
      show "(\<exists>op\<in>set ops. is_loop op) \<longrightarrow> all = ?pre @ fs' \<and> scalars_agree ?scalars ?read all"
      proof
        assume "\<exists>op\<in>set ops. is_loop op"
        then have all: "all = pre @ fs" and agree: "scalars_agree scalars read all"
          using Cons.prems(6) by auto
        show "all = ?pre @ fs' \<and> scalars_agree ?scalars ?read all"
          using scalars_agree_step [OF agree all [unfolded fs] fresh, of "?A op v"] all fs by simp
      qed
    qed (use Cons.prems(1-3,5,7,8) sizes fs 2(2) in simp_all)
    then show ?thesis using step 2(3) by simp
  qed
qed

lemma ser_truncates:
  "types_ok E \<Longrightarrow> constants_ok E \<Longrightarrow> size v < n \<Longrightarrow> size v < 2 ^ 32 \<Longrightarrow>
   truncates (ser E c (K_val ty)) (des E off n (K_val ty)) v"
proof (induction n arbitrary: v ty)
  case (Suc n)
  show ?case
    unfolding truncates_def
  proof (intro allI impI)
    fix bs e
    assume ser: "ser E c (K_val ty) v = Raised bs e"
    obtain s fs where v: "ty = T_struct s" "v = V_struct fs"
      using ser by (cases ty; cases v) (auto split: if_splits)
    obtain ops where ops: "ser_program E s = Some ops"
      "run_sops (\<lambda>op v. ser_op E c (ser E c) s fs op v) ops fs = Raised bs e"
      using ser v by (auto split: option.splits)
    have d: "des_program E s = Some (map dop_of ops)" "program_ok [] [] ops"
      using programs_agree [OF ops(1)] by simp_all
    have "run_dops (des_op E off (des E off n) s) [] (map dop_of ops) None bs = Some (Throw msg_end)"
    proof (rule ops_truncates [OF Suc.prems(1,2) _ _ _ ops(2) d(2), where pre = "[]"])
      show "inverts (ser E c (K_val t)) (des E off n (K_val t)) (arr E c off (K_val t)) x"
        if "size x < Suc (size_list size fs)" for x t
        by (rule ser_inverts) (use Suc.prems that v in simp_all)
      show "truncates (ser E c (K_val t)) (des E off n (K_val t)) x"
        if "size x < Suc (size_list size fs)" for x t
        using Suc.IH [of x t] Suc.prems that v by simp
    qed (use Suc.prems v in \<open>simp_all add: scalars_agree_def\<close>)
    then show "des E off (Suc n) (K_val ty) None bs = Some (Throw msg_end)"
      using v(1) d(1) by simp
  qed
qed simp

end

end
