(* ===== verification/Rpc_Props.thy ===== *)
theory Rpc_Props
  imports Rpc Serialization_Props Serialization_Truncated
begin

text \<open>
  What a remote call does: the runtime sees the arguments that arrive, the caller gets back the
  result and the objects the runtime left, through both tables of the core functions.
\<close>

text \<open>The fields that arrive, from one time offset to the other.\<close>

definition arrived :: "codec \<Rightarrow> u64 \<Rightarrow> u64 \<Rightarrow> string \<Rightarrow> sop list \<Rightarrow> fld list \<Rightarrow> fld list \<Rightarrow> fld list" where
  "arrived E soff doff f ops all fs =
     run_arr (\<lambda>op v. arr_op E (call_ctx soff) doff (arr E (call_ctx soff) doff) f all op v) ops fs"

lemma call_context [simp]: "ser_time_offset (call_ctx off) = off" "\<not> skip_unknown_structs (call_ctx off)"
  by (simp_all add: call_ctx_def)

context agreeing_codec
begin

lemma fields_arrive:
  assumes "types_ok E" "size_list size fs < n" "size_list size fs < 2 ^ 32" "program_ok [] [] ops"
    "run_sops (\<lambda>op v. ser_op E (call_ctx soff) (ser E (call_ctx soff)) f all op v) ops fs = Wrote bs"
    "olds = None \<or> (\<exists>os. olds = Some os \<and> map shape_fld os = map shape_fld (arrived E soff doff f ops all fs))"
    "(\<exists>op\<in>set ops. is_loop op) \<longrightarrow> all = fs"
  shows "run_dops (des_op E doff (des E doff n) f) [] (map dop_of ops) olds (bs @ rest)
     = Some (Ret (arrived E soff doff f ops all fs, rest))"
proof -
  have "run_dops (des_op E doff (des E doff n) f) [] (map dop_of ops) olds (bs @ rest)
     = Some (Ret ([] @ arrived E soff doff f ops all fs, rest))"
    unfolding arrived_def
  proof (rule ops_inverts [OF assms(1) _ assms(3,5) _ assms(4), where pre = "[]"])
    show "inverts (ser E (call_ctx soff) (K_val ty)) (des E doff n (K_val ty))
        (arr E (call_ctx soff) doff (K_val ty)) x" if "size x < Suc (size_list size fs)" for x ty
      by (rule ser_inverts) (use assms(1-3) that in auto)
  qed (use assms(6,7) in \<open>simp_all add: arrived_def scalars_agree_def\<close>)
  then show ?thesis by simp
qed

lemma fields_truncated:
  assumes "types_ok E" "constants_ok E" "size_list size fs < n" "size_list size fs < 2 ^ 32"
    "program_ok [] [] ops"
    "run_sops (\<lambda>op v. ser_op E c (ser E c) f fs op v) ops fs = Raised bs e"
  shows "run_dops (des_op E doff (des E doff n) f) [] (map dop_of ops) None bs = Some (Throw msg_end)"
proof (rule ops_truncates [OF assms(1,2) _ _ assms(4,6,5), where pre = "[]"])
  show "inverts (ser E c (K_val ty)) (des E doff n (K_val ty)) (arr E c doff (K_val ty)) x"
    if "size x < Suc (size_list size fs)" for x ty
    by (rule ser_inverts) (use assms that in auto)
  show "truncates (ser E c (K_val ty)) (des E doff n (K_val ty)) x"
    if "size x < Suc (size_list size fs)" for x ty
    by (rule ser_truncates) (use assms that in auto)
qed (simp_all add: scalars_agree_def)

end

section \<open>A concrete runtime\<close>

text \<open>It fills in a frame state.\<close>

definition frame_params :: "xv \<Rightarrow> fld list" where
  "frame_params v =
     [Field ''session'' (V_prim (word_bytes (7 :: u64))), Field ''frameWaitInfo'' V_null,
      Field ''frameState'' v]"

definition frame_runtime :: "nat runtime" where
  "frame_runtime =
     \<lparr>rt_loads = (\<lambda>s f. True),
      rt_call = (\<lambda>f ps s. (0, frame_params (frame_state 5000 11 1), Suc s)),
      rt_duration = (\<lambda>s f. 3)\<rparr>"

lemma wait_frame_tables:
  "map_of (build_stubs []) ''xrWaitFrame'' = Some rpc_xrWaitFrame"
  "map_of (build_handlers []) ''xrWaitFrame'' = Some handle_xrWaitFrame"
  by (simp_all add: core_stubs_def core_handlers_def)

section \<open>The call\<close>

text \<open>
  C2: A core call does what a local call does. Once the request could be written, the handler
  that the id selects gets exactly the arguments that were serialized (times shifted to the
  server's clock), the runtime runs once on them, and if its results can be written and fit the
  caller's objects, the stub returns the runtime's result code and exactly the objects the runtime
  left (times shifted back). The injected functions and the polymorphic swapchain images are
  excepted.
\<close>

theorem core_call_roundtrip:
  assumes st: "map_of (build_stubs exts) f = Some st" and h: "map_of (build_handlers exts) f = Some h"
    and f: "f \<notin> set injected_functions" "plain (stub_request st)"
    and plain_reply: "plain (handler_reply h)"
    and types: "types_ok (build_codec X exts)"
    and req: "rpc_request (build_codec X exts) off f st params = Wrote msg"
    and size: "size_list size params < n" "size_list size params < 2 ^ 32"
    and loads: "rt_loads R s f"
    and run: "rt_call R f (arrived (build_codec X exts) off 0 f (stub_request st) params params) s = (res, params', s')"
    and outs: "outs = pick (map sop_field (handler_reply h)) params'"
    and out_size: "size_list size outs < n" "size_list size outs < 2 ^ 32"
    and rep: "rpc_reply (build_codec X exts) f (handler_reply h) res (rt_duration R s f) params' = Wrote reply"
    and fit: "map shape_fld (pick (map dop_field (stub_reply st)) params)
      = map shape_fld (arrived (build_codec X exts) 0 off f (handler_reply h) params' outs)"
  shows "rpc_call (build_codec X exts) exts off n R ci di f st params s =
     Some (Ret (res, Some (update_fields params
       (arrived (build_codec X exts) 0 off f (handler_reply h) params' outs))), Ret s', None)"
proof -
  have hh: "handler_params h = map dop_of (stub_request st)" "stub_reply st = map dop_of (handler_reply h)"
    using stub_handled [OF st f(1)] h by (auto simp: handler_view_def stub_view_def)
  have ok: "program_ok [] [] (stub_request st)" "program_ok [] [] (handler_reply h)"
    and no_loop: "\<not> (\<exists>op\<in>set (handler_reply h). is_loop op)"
    using row_okD(1) [OF build_request_ok [OF st f(2)]] build_reply_ok [OF h] plain_reply by auto
  obtain b where b: "msg = word_bytes (stub_id st) @ b"
    "run_sops (\<lambda>op v. ser_op (build_codec X exts) (call_ctx off) (ser (build_codec X exts) (call_ctx off)) f params op v) (stub_request st) params = Wrote b"
    using req by (auto simp: rpc_request_def wseq_Wrote_iff won_Wrote_iff)
  obtain r where r: "reply = word_bytes res @ word_bytes (rt_duration R s f) @ r"
    "run_sops (\<lambda>op v. ser_op (build_codec X exts) (call_ctx 0) (ser (build_codec X exts) (call_ctx 0)) f params' op v) (handler_reply h) outs = Wrote r"
    using rep outs by (auto simp: rpc_reply_def wseq_Wrote_iff won_Wrote_iff)
  have params: "run_dops (des_op (build_codec X exts) 0 (des (build_codec X exts) 0 n) f) [] (handler_params h) None b
      = Some (Ret (arrived (build_codec X exts) off 0 f (stub_request st) params params, []))"
    using build.fields_arrive [of X exts params n "stub_request st" off f params b None 0 "[]"]
      types size ok(1) b(2) hh(1) by simp
  have results: "run_dops (des_op (build_codec X exts) off (des (build_codec X exts) off n) f) [] (stub_reply st)
      (Some (pick (map dop_field (stub_reply st)) params)) r
      = Some (Ret (arrived (build_codec X exts) 0 off f (handler_reply h) params' outs, []))"
    using build.fields_arrive [of X exts outs n "handler_reply h" 0 f params' r
        "Some (pick (map dop_field (stub_reply st)) params)" off "[]"]
      types out_size ok(2) r(2) hh(2) fit no_loop by simp
  have "handle_function (build_codec X exts) exts n R ci di (stub_id st) b s = Some (Replied reply s')"
    using stub_dispatched [OF st] h f(1) loads params run rep
    by (simp add: handle_function_def run_handler_def injected_functions_def)
  then have server: "function_call_handler (build_codec X exts) exts n R ci di msg s = Some (Replied reply s')"
    using b(1) by (simp add: function_call_handler_def)
  have "rpc_finish (build_codec X exts) off n f st params reply
      = Some (Ret (res, Some (update_fields params (arrived (build_codec X exts) 0 off f (handler_reply h) params' outs))))"
    using results r(1) by (simp add: rpc_finish_def rpc_read_reply_def)
  then show ?thesis using req server by (simp add: rpc_call_def)
qed

lemmas frame_simps = frame_openxr_def build_codec_def frame_state_program frame_params_def frame_state_def
  rpc_xrWaitFrame_def handle_xrWaitFrame_def serialize_ptr_def serialize_time_def count_value_def
  call_ctx_def zero32_def arr_ptr_def arr_time_def

lemma frame_request:
  "rpc_request (build_codec frame_openxr []) 1000 ''xrWaitFrame'' rpc_xrWaitFrame (frame_params (frame_state 0 0 0))
   = Wrote (word_bytes (54 :: u32) @ word_bytes (7 :: u64) @ word_bytes (0 :: u32) @ word_bytes (1 :: u32) @
       word_bytes (44 :: u32) @ word_bytes (0 :: u32) @ word_bytes (- 1000 :: u64) @ word_bytes (0 :: u64) @
       word_bytes (0 :: u32))"
  by (simp add: rpc_request_def frame_simps)

lemma frame_arrived:
  "arrived (build_codec frame_openxr []) 1000 0 ''xrWaitFrame'' (stub_request rpc_xrWaitFrame)
     (frame_params (frame_state 0 0 0)) (frame_params (frame_state 0 0 0))
   = frame_params (frame_state (- 1000) 0 0)"
  by (simp add: arrived_def frame_simps)

lemma frame_reply:
  "rpc_reply (build_codec frame_openxr []) ''xrWaitFrame'' (handler_reply handle_xrWaitFrame) 0 3
     (frame_params (frame_state 5000 11 1))
   = Wrote (word_bytes (0 :: u32) @ word_bytes (3 :: u64) @ word_bytes (1 :: u32) @
       word_bytes (44 :: u32) @ word_bytes (0 :: u32) @ word_bytes (5000 :: u64) @ word_bytes (11 :: u64) @
       word_bytes (1 :: u32))"
  by (simp add: rpc_reply_def pick_def frame_simps)

lemma frame_results:
  "arrived (build_codec frame_openxr []) 0 1000 ''xrWaitFrame'' (handler_reply handle_xrWaitFrame)
     (frame_params (frame_state 5000 11 1)) [Field ''frameState'' (frame_state 5000 11 1)]
   = [Field ''frameState'' (frame_state 6000 11 1)]"
  by (simp add: arrived_def frame_simps)

theorem core_call_roundtrip_witness:
  "rpc_call (build_codec frame_openxr []) [] 1000 200 frame_runtime (\<lambda>b s. None) (\<lambda>b s. None) ''xrWaitFrame'' rpc_xrWaitFrame
     (frame_params (frame_state 0 0 0)) 0
   = Some (Ret (0, Some (frame_params (frame_state 6000 11 1))), Ret (Suc 0), None)"
proof -
  let ?outs = "[Field ''frameState'' (frame_state 5000 11 1)]"
  obtain reply where rep: "rpc_reply (build_codec frame_openxr []) ''xrWaitFrame''
      (handler_reply handle_xrWaitFrame) 0 (rt_duration frame_runtime 0 ''xrWaitFrame'')
      (frame_params (frame_state 5000 11 1)) = Wrote reply"
    using frame_reply by (simp add: frame_runtime_def)
  have "rpc_call (build_codec frame_openxr []) [] 1000 200 frame_runtime (\<lambda>b s. None) (\<lambda>b s. None) ''xrWaitFrame'' rpc_xrWaitFrame
     (frame_params (frame_state 0 0 0)) 0 = Some (Ret (0, Some (update_fields (frame_params (frame_state 0 0 0))
       (arrived (build_codec frame_openxr []) 0 1000 ''xrWaitFrame'' (handler_reply handle_xrWaitFrame)
         (frame_params (frame_state 5000 11 1)) ?outs))), Ret (Suc 0), None)"
  proof (rule core_call_roundtrip [OF wait_frame_tables _ _ _ frame_types frame_request])
    show "rpc_reply (build_codec frame_openxr []) ''xrWaitFrame'' (handler_reply handle_xrWaitFrame) 0
        (rt_duration frame_runtime 0 ''xrWaitFrame'') (frame_params (frame_state 5000 11 1)) = Wrote reply"
      by (rule rep)
    show "rt_call frame_runtime ''xrWaitFrame'' (arrived (build_codec frame_openxr []) 1000 0 ''xrWaitFrame''
        (stub_request rpc_xrWaitFrame) (frame_params (frame_state 0 0 0)) (frame_params (frame_state 0 0 0))) 0
        = (0, frame_params (frame_state 5000 11 1), Suc 0)"
      by (simp add: frame_runtime_def)
    show "map shape_fld (pick (map dop_field (stub_reply rpc_xrWaitFrame)) (frame_params (frame_state 0 0 0)))
      = map shape_fld (arrived (build_codec frame_openxr []) 0 1000 ''xrWaitFrame''
          (handler_reply handle_xrWaitFrame) (frame_params (frame_state 5000 11 1)) ?outs)"
      unfolding frame_results by (simp add: pick_def frame_params_def frame_state_def rpc_xrWaitFrame_def)
  qed (simp_all add: plain_def injected_functions_def frame_runtime_def pick_def frame_params_def
      frame_state_def rpc_xrWaitFrame_def handle_xrWaitFrame_def)
  then show ?thesis
    unfolding frame_results by (simp add: update_fields_def frame_params_def)
qed


section \<open>A request that cannot be written\<close>

text \<open>
  C32: A request whose writing raises an exception (a structure type that the client was not
  built for, anywhere in its arguments) fails without a trace: the stub returns
  \<open>XR_ERROR_RUNTIME_FAILURE\<close>; the part that was written reaches the server as a message of its own,
  but whatever it holds, its handler runs into the end of it before the runtime is called, the
  exception is caught, the state of the server stays, and no reply is on its way that the next call
  could take for its own.
\<close>

theorem unwritable_request_harmless:
  assumes st: "map_of (build_stubs exts) f = Some st" and h: "map_of (build_handlers exts) f = Some h"
    and f: "f \<notin> set injected_functions" "plain (stub_request st)"
    and codec: "types_ok (build_codec X exts)" "constants_ok (build_codec X exts)"
    and req: "rpc_request (build_codec X exts) off f st params = Raised part e"
    and size: "size_list size params < n" "size_list size params < 2 ^ 32"
  shows "rpc_call (build_codec X exts) exts off n R ci di f st params s
     = Some (Ret (XR_ERROR_RUNTIME_FAILURE, None), Ret s, None)"
proof -
  have hh: "handler_params h = map dop_of (stub_request st)"
    using stub_handled [OF st f(1)] h by (auto simp: handler_view_def stub_view_def)
  have ok: "program_ok [] [] (stub_request st)"
    using row_okD(1) [OF build_request_ok [OF st f(2)]] by simp
  obtain b where b: "part = word_bytes (stub_id st) @ b"
    "run_sops (\<lambda>op v. ser_op (build_codec X exts) (call_ctx off) (ser (build_codec X exts) (call_ctx off)) f params op v)
       (stub_request st) params = Raised b e"
    using req by (auto simp: rpc_request_def wseq_Raised_iff)
  have "run_dops (des_op (build_codec X exts) 0 (des (build_codec X exts) 0 n) f) [] (handler_params h) None b
      = Some (Throw msg_end)"
    using build.fields_truncated [OF codec size ok b(2)] hh by simp
  then have "\<exists>e. handle_function (build_codec X exts) exts n R ci di (stub_id st) b s = Some (Raised_in None e s)"
    using stub_dispatched [OF st] h f(1)
    by (simp add: handle_function_def run_handler_def injected_functions_def)
  then show ?thesis using req b(1) by (auto simp: rpc_call_def function_call_handler_def)
qed

definition frame_state_chained :: xv where
  "frame_state_chained =
     V_ptr [V_struct [Field ''type'' (V_prim (word_bytes (44 :: u32))),
       Field ''next'' (V_ref (V_struct [Field ''type'' (V_prim (word_bytes (99 :: u32))), Field ''next'' V_null])),
       Field ''predictedDisplayTime'' (V_prim (word_bytes (0 :: u64))),
       Field ''predictedDisplayPeriod'' (V_prim (word_bytes (0 :: u64))),
       Field ''shouldRender'' (V_prim (word_bytes (0 :: u32)))]]"

lemma frame_chained_request:
  "rpc_request (build_codec frame_openxr []) 0 ''xrWaitFrame'' rpc_xrWaitFrame (frame_params frame_state_chained)
   = Raised (word_bytes (54 :: u32) @ word_bytes (7 :: u64) @ word_bytes (0 :: u32) @ word_bytes (1 :: u32) @
       word_bytes (44 :: u32)) unknown_struct"
proof -
  have unknown: "ser (build_codec frame_openxr []) (call_ctx 0) K_xr
      (V_ref (V_struct [Field ''type'' (V_prim (word_bytes (99 :: u32))), Field ''next'' V_null]))
      = Raised [] unknown_struct"
    using frame_lookup(2) by (simp add: struct_type_def)
  show ?thesis
    using unknown by (simp add: rpc_request_def frame_params_def frame_state_chained_def rpc_xrWaitFrame_def
        serialize_ptr_def count_value_def frame_openxr_def build_codec_def frame_state_program del: ser.simps(4))
qed

theorem unwritable_request_harmless_witness:
  "rpc_call (build_codec frame_openxr []) [] 0 200 frame_runtime (\<lambda>b s. None) (\<lambda>b s. None) ''xrWaitFrame''
     rpc_xrWaitFrame (frame_params frame_state_chained) 0
   = Some (Ret (XR_ERROR_RUNTIME_FAILURE, None), Ret 0, None)"
proof (rule unwritable_request_harmless [OF wait_frame_tables _ _ frame_types _ frame_chained_request])
  show "constants_ok (build_codec frame_openxr [])"
    by (simp add: constants_ok_def build_codec_def frame_openxr_def)
qed (simp_all add: plain_def rpc_xrWaitFrame_def injected_functions_def frame_params_def frame_state_chained_def)

section \<open>A call that is not answered\<close>

text \<open>
  The exception of a handler does not reach the client either: when the runtime does not have the
  function, the server goes on and the stub waits for a reply that never comes.
\<close>

lemma unserved_call_waits:
  assumes st: "map_of (build_stubs exts) f = Some st" and h: "map_of (build_handlers exts) f = Some h"
    and f: "f \<notin> set injected_functions" and req: "rpc_request E off f st params = Wrote msg" and missing: "\<not> rt_loads R s f"
  shows "rpc_call E exts off n R ci di f st params s = Some (Blocked, Ret s, None)"
proof -
  obtain b where b: "msg = word_bytes (stub_id st) @ b"
    using req by (auto simp: rpc_request_def wseq_Wrote_iff won_Wrote_iff)
  have "handle_function E exts n R ci di (stub_id st) b s = Some (Raised_in None function_loader_error s)"
    using stub_dispatched [OF st] h f missing by (simp add: handle_function_def run_handler_def injected_functions_def)
  then show ?thesis using req b by (simp add: rpc_call_def function_call_handler_def)
qed

section \<open>Agreement of the two sides\<close>

text \<open>
  C24: In every build the generated files of the two sides agree: the server dispatches the id
  that a client stub sends to the handler of the same name (two functions are handled by the
  server itself), the handler reads exactly what the stub writes, the stub reads exactly what the
  handler writes, the handler releases exactly the parameters, statement by statement, and the
  client's function table has the function.
\<close>

theorem core_sides_agree:
  assumes "map_of (build_stubs exts) f = Some st"
  shows "map_of (build_dispatch exts) (stub_id st) = Some f \<and>
    (f \<in> set injected_functions \<or>
     (\<exists>h. map_of (build_handlers exts) f = Some h \<and>
        handler_params h = map dop_of (stub_request st) \<and>
        stub_reply st = map dop_of (handler_reply h) \<and>
        handler_cleanup h = map cop_of (stub_request st))) \<and>
    f \<in> set (function_table exts)"
proof -
  have "\<exists>h. map_of (build_handlers exts) f = Some h \<and> handler_params h = map dop_of (stub_request st) \<and>
      stub_reply st = map dop_of (handler_reply h) \<and> handler_cleanup h = map cop_of (stub_request st)"
    if "f \<notin> set injected_functions"
    using stub_handled [OF assms that] by (auto simp: handler_view_def stub_view_def)
  then show ?thesis using stub_dispatched [OF assms] stub_listed [OF assms] by blast
qed

theorem core_sides_agree_witness:
  "map_of (build_dispatch []) 54 = Some ''xrWaitFrame'' \<and> ''xrWaitFrame'' \<in> set (function_table [])"
proof -
  have "stub_id rpc_xrWaitFrame = 54" by (simp add: rpc_xrWaitFrame_def)
  then show ?thesis using core_sides_agree [OF wait_frame_tables(1)] by simp
qed

section \<open>Two-call idiom\<close>

lemma reference_spaces_tables:
  "map_of dispatch_table 25 = Some ''xrEnumerateReferenceSpaces''"
  "map_of core_handlers ''xrEnumerateReferenceSpaces'' = Some handle_xrEnumerateReferenceSpaces"
  by (simp_all add: dispatch_table_def core_handlers_def)

definition reference_spaces_params :: "u64 \<Rightarrow> u32 \<Rightarrow> u32 \<Rightarrow> xv \<Rightarrow> fld list" where
  "reference_spaces_params session capacity count spaces =
     [Field ''session'' (V_prim (word_bytes session)),
      Field ''spaceCapacityInput'' (V_prim (word_bytes capacity)),
      Field ''spaceCountOutput'' (V_ptr [V_prim (word_bytes count)]),
      Field ''spaces'' spaces]"

definition reference_spaces_types :: "openxr \<Rightarrow> bool" where
  "reference_spaces_types X \<longleftrightarrow>
     xr_field_type X ''xrEnumerateReferenceSpaces'' ''session'' = T_prim 8 \<and>
     xr_field_type X ''xrEnumerateReferenceSpaces'' ''spaceCapacityInput'' = T_prim 4 \<and>
     xr_field_type X ''xrEnumerateReferenceSpaces'' ''spaceCountOutput'' = T_prim 4"

lemma le_val_zero [simp]: "le_val (word_bytes (0 :: u32)) = 0"
  by (simp add: word_bytes_def le_val_le_bytes)

lemma reference_spaces_request:
  assumes "reference_spaces_types X"
  shows "rpc_request (build_codec X []) off ''xrEnumerateReferenceSpaces'' rpc_xrEnumerateReferenceSpaces
      (reference_spaces_params session 0 count (V_ptr vs))
    = Wrote (word_bytes (25 :: u32) @ word_bytes session @ word_bytes (0 :: u32) @ word_bytes (1 :: u32) @
        word_bytes count @ word_bytes (0 :: u32))"
  using assms
  by (simp add: rpc_request_def reference_spaces_params_def reference_spaces_types_def build_codec_def
      rpc_xrEnumerateReferenceSpaces_def serialize_ptr_def count_value_def)

lemma reference_spaces_reply:
  assumes "reference_spaces_types X"
  shows "rpc_reply (build_codec X []) ''xrEnumerateReferenceSpaces'' (handler_reply handle_xrEnumerateReferenceSpaces)
      res duration (reference_spaces_params session 0 count V_null)
    = Wrote (word_bytes res @ word_bytes duration @ word_bytes (1 :: u32) @ word_bytes count @ word_bytes (0 :: u32))"
  using assms
  by (simp add: rpc_reply_def reference_spaces_params_def reference_spaces_types_def build_codec_def
      handle_xrEnumerateReferenceSpaces_def serialize_ptr_def count_value_def pick_def)

lemma reference_spaces_handler:
  assumes "reference_spaces_types X" "rt_loads R s ''xrEnumerateReferenceSpaces''"
    "rt_call R ''xrEnumerateReferenceSpaces'' (reference_spaces_params session 0 count V_null) s
     = (res, reference_spaces_params session 0 count' V_null, s')"
  shows "run_handler (build_codec X []) (Suc n) R ''xrEnumerateReferenceSpaces'' handle_xrEnumerateReferenceSpaces
      (word_bytes session @ word_bytes (0 :: u32) @ word_bytes (1 :: u32) @ word_bytes count @ word_bytes (0 :: u32)) s
    = Some (Replied (word_bytes res @ word_bytes (rt_duration R s ''xrEnumerateReferenceSpaces'') @
        word_bytes (1 :: u32) @ word_bytes count' @ word_bytes (0 :: u32)) s')"
proof -
  let ?E = "build_codec X []" and ?f = "''xrEnumerateReferenceSpaces''"
  have "run_dops (des_op ?E 0 (des ?E 0 (Suc n)) ?f) [] (handler_params handle_xrEnumerateReferenceSpaces) None
      (word_bytes session @ word_bytes (0 :: u32) @ word_bytes (1 :: u32) @ word_bytes count @ word_bytes (0 :: u32))
    = Some (Ret (reference_spaces_params session 0 count V_null, []))"
    using assms(1) des_bytes_append [of "word_bytes (0 :: u32)" 4 "[]"]
    by (simp add: reference_spaces_params_def reference_spaces_types_def build_codec_def
        handle_xrEnumerateReferenceSpaces_def deserialize_ptr_def Let_def)
  then show ?thesis using assms(2,3) reference_spaces_reply [OF assms(1)]
    by (simp add: run_handler_def)
qed

lemma reference_spaces_finish:
  assumes "reference_spaces_types X"
  shows "rpc_finish (build_codec X []) off (Suc n) ''xrEnumerateReferenceSpaces'' rpc_xrEnumerateReferenceSpaces
      (reference_spaces_params session 0 count (V_ptr vs))
      (word_bytes (res :: u32) @ word_bytes (duration :: u64) @ word_bytes (1 :: u32) @ word_bytes (count' :: u32) @
        word_bytes (0 :: u32))
    = Some (Ret (XR_ERROR_RUNTIME_FAILURE, None))"
  using assms des_bytes_append [of "word_bytes (0 :: u32)" 4 "[]"]
  by (simp add: rpc_finish_def rpc_read_reply_def reference_spaces_params_def reference_spaces_types_def build_codec_def
      rpc_xrEnumerateReferenceSpaces_def deserialize_ptr_def pick_def Let_def)

text \<open>
  \<open>xrEnumerateReferenceSpaces\<close> with capacity 0 and a non-null array, which a local runtime
  answers with the count, always fails through the transport: the array is written with a zero
  count, the runtime gets a null pointer, and reading the zero count of the reply over the
  non-null array throws.
\<close>

theorem zero_capacity_call_fails:
  assumes "reference_spaces_types X" "rt_loads R s ''xrEnumerateReferenceSpaces''"
    "rt_call R ''xrEnumerateReferenceSpaces'' (reference_spaces_params session 0 count V_null) s
     = (res, reference_spaces_params session 0 count' V_null, s')"
  shows "rpc_call (build_codec X []) [] off (Suc n) R ci di ''xrEnumerateReferenceSpaces'' rpc_xrEnumerateReferenceSpaces
       (reference_spaces_params session 0 count (V_ptr vs)) s
     = Some (Ret (XR_ERROR_RUNTIME_FAILURE, None), Ret s', None)"
  using reference_spaces_handler [OF assms, of n] reference_spaces_tables
  by (simp add: rpc_call_def reference_spaces_request [OF assms(1)] function_call_handler_def
      handle_function_def reference_spaces_finish [OF assms(1)])

definition spaces_openxr :: openxr where
  "spaces_openxr =
     \<lparr>xr_field_type = (\<lambda>s f. if f = ''session'' then T_prim 8 else T_prim 4),
      xr_field_const = (\<lambda>s f. True), xr_macro = (\<lambda>s. 0), xr_type_value = (\<lambda>e. 1)\<rparr>"

definition spaces_runtime :: "nat runtime" where
  "spaces_runtime =
     \<lparr>rt_loads = (\<lambda>s f. True),
      rt_call = (\<lambda>f ps s. (0, reference_spaces_params 7 0 3 V_null, Suc s)),
      rt_duration = (\<lambda>s f. 3)\<rparr>"

theorem zero_capacity_call_fails_witness:
  "rpc_call (build_codec spaces_openxr []) [] 0 (Suc 5) spaces_runtime (\<lambda>b s. None) (\<lambda>b s. None)
     ''xrEnumerateReferenceSpaces'' rpc_xrEnumerateReferenceSpaces
     (reference_spaces_params 7 0 0 (V_ptr [V_prim (word_bytes (0 :: u32))])) 0
   = Some (Ret (XR_ERROR_RUNTIME_FAILURE, None), Ret (Suc 0), None)"
  by (rule zero_capacity_call_fails)
    (simp_all add: spaces_openxr_def spaces_runtime_def reference_spaces_types_def)

end
