(* ===== verification/Function_Layers.thy ===== *)
theory Function_Layers
  imports Main
begin

text \<open>
  The client's function table, \<open>src/client/function_table.h\<close>: a map from names to functions onto
  which layers are put, each of which keeps the function below it. The contract of a layered
  table is a locale; its laws give what a stack of layers does.
\<close>

section \<open>Layered tables\<close>

text \<open>Adds layers from the left; the functions below them, in that order, and the table.\<close>

fun add_layers :: "(string \<Rightarrow> 'f \<Rightarrow> 't \<Rightarrow> 'f option \<times> 't) \<Rightarrow> (string \<times> 'f) list \<Rightarrow> 't \<Rightarrow> 'f option list \<times> 't" where
  "add_layers add [] t = ([], t)"
| "add_layers add ((n, f) # ls) t =
     (let (old, t1) = add n f t; (olds, t2) = add_layers add ls t1 in (old # olds, t2))"

text \<open>The topmost layer with a name.\<close>

definition top_layer :: "(string \<times> 'f) list \<Rightarrow> string \<Rightarrow> 'f option" where
  "top_layer ls n = map_of (rev ls) n"

lemma top_layer_Nil [simp]: "top_layer [] n = None"
  by (simp add: top_layer_def)

lemma top_layer_Cons: "top_layer ((m, f) # ls) n
   = (case top_layer ls n of Some g \<Rightarrow> Some g | None \<Rightarrow> if m = n then Some f else None)"
  by (auto simp: top_layer_def map_add_def split: option.split)

lemma top_layer_append: "top_layer (ls @ ms) n = (case top_layer ms n of Some g \<Rightarrow> Some g | None \<Rightarrow> top_layer ls n)"
  by (simp add: top_layer_def map_add_def split: option.split)

lemma top_layer_None_iff: "top_layer ls n = None \<longleftrightarrow> n \<notin> fst ` set ls"
  by (simp add: top_layer_def map_of_eq_None_iff)

locale layered_table =
  fixes lookup :: "'t \<Rightarrow> string \<Rightarrow> 'f option"
    and add :: "string \<Rightarrow> 'f \<Rightarrow> 't \<Rightarrow> 'f option \<times> 't"
  assumes add_old: "fst (add n f t) = lookup t n"
    and add_new: "lookup (snd (add n f t)) m = (if m = n then Some f else lookup t m)"
begin

lemma add_layers_snd_Cons: "snd (add_layers add ((n, f) # ls) t) = snd (add_layers add ls (snd (add n f t)))"
  by (simp add: case_prod_unfold Let_def)

lemma add_layers_fst_Cons: "fst (add_layers add ((n, f) # ls) t) = lookup t n # fst (add_layers add ls (snd (add n f t)))"
  by (simp add: case_prod_unfold Let_def add_old)

lemma length_add_layers [simp]: "length (fst (add_layers add ls t)) = length ls"
proof (induction ls arbitrary: t)
  case (Cons l ls)
  then show ?case by (cases l) (simp only: add_layers_fst_Cons list.size)
qed simp

text \<open>After a stack of layers, a name leads to its topmost layer, or to what was there.\<close>

lemma lookup_layers:
  "lookup (snd (add_layers add ls t)) n = (case top_layer ls n of Some f \<Rightarrow> Some f | None \<Rightarrow> lookup t n)"
proof (induction ls arbitrary: t)
  case (Cons l ls)
  then show ?case
    by (cases l) (simp only: add_layers_snd_Cons, auto simp: top_layer_Cons add_new split: option.split)
qed simp

lemma lookup_layers_mono: "lookup t n \<noteq> None \<Longrightarrow> lookup (snd (add_layers add ls t)) n \<noteq> None"
  by (simp add: lookup_layers split: option.split)

text \<open>Each layer can call down: it was given the function below it.\<close>

lemma layer_below:
  "i < length ls \<Longrightarrow> fst (add_layers add ls t) ! i
   = (case top_layer (take i ls) (fst (ls ! i)) of Some f \<Rightarrow> Some f | None \<Rightarrow> lookup t (fst (ls ! i)))"
proof (induction ls arbitrary: t i)
  case (Cons l ls)
  obtain n f where l: "l = (n, f)" by (cases l)
  show ?case
  proof (cases i)
    case 0
    then show ?thesis unfolding l add_layers_fst_Cons by simp
  next
    case (Suc j)
    then show ?thesis using Cons.IH [of j "snd (add n f t)"] Cons.prems
      unfolding l add_layers_fst_Cons by (auto simp: top_layer_Cons add_new split: option.split)
  qed
qed simp

end

section \<open>The table of the client\<close>

type_synonym 'f fun_table = "string \<Rightarrow> 'f option"

definition get_function :: "'f fun_table \<Rightarrow> string \<Rightarrow> 'f option" where
  "get_function table name = table name"

definition add_function_layer :: "string \<Rightarrow> 'f \<Rightarrow> 'f fun_table \<Rightarrow> 'f option \<times> 'f fun_table" where
  "add_function_layer name new_function table =
     (case table name of
        Some old \<Rightarrow> (Some old, (table(name := None))(name \<mapsto> new_function))
      | None \<Rightarrow> (None, table(name \<mapsto> new_function)))"

text \<open>\<open>emplace\<close> of a hash map: an entry that is there already stays.\<close>

definition emplace :: "string \<Rightarrow> 'f \<Rightarrow> 'f fun_table \<Rightarrow> 'f fun_table" where
  "emplace name f table = (if table name = None then table(name \<mapsto> f) else table)"

interpretation ft: layered_table get_function add_function_layer
  by unfold_locales (auto simp: get_function_def add_function_layer_def split: option.split)

end
