(* ===== verification/Ext_Names.thy ===== *)
theory Ext_Names
  imports Xr_Prelude
begin

text \<open>
  The generated tables of \<open>include/xrtransport/extensions\<close>: the functions of each extension and of
  core OpenXR (\<open>extension_functions.h\<close>), and the extensions a build can have with the macro of
  their version (\<open>enabled_extensions.h\<close>). A row counts when its extension is compiled.
\<close>

definition extension_functions_1 :: "(string \<times> string list) list" where
  "extension_functions_1 = [
    (''XR_ALMALENCE_digital_lens_control'', [''xrSetDigitalLensControlALMALENCE'']),
    (''XR_BD_body_tracking'', [''xrCreateBodyTrackerBD'', ''xrDestroyBodyTrackerBD'', ''xrLocateBodyJointsBD'']),
    (''XR_BD_future_progress'', []),
    (''XR_BD_spatial_anchor'', [''xrCreateSpatialAnchorAsyncBD'', ''xrCreateSpatialAnchorCompleteBD'', 
        ''xrPersistSpatialAnchorAsyncBD'', ''xrPersistSpatialAnchorCompleteBD'', 
        ''xrUnpersistSpatialAnchorAsyncBD'', ''xrUnpersistSpatialAnchorCompleteBD'']),
    (''XR_BD_spatial_anchor_sharing'', [''xrDownloadSharedSpatialAnchorAsyncBD'', ''xrDownloadSharedSpatialAnchorCompleteBD'', 
        ''xrShareSpatialAnchorAsyncBD'', ''xrShareSpatialAnchorCompleteBD'']),
    (''XR_BD_spatial_mesh'', []),
    (''XR_BD_spatial_scene'', [''xrCaptureSceneAsyncBD'', ''xrCaptureSceneCompleteBD'']),
    (''XR_BD_spatial_sensing'', [''xrCreateAnchorSpaceBD'', ''xrCreateSenseDataProviderBD'', ''xrCreateSpatialEntityAnchorBD'', 
        ''xrDestroyAnchorBD'', ''xrDestroySenseDataProviderBD'', ''xrDestroySenseDataSnapshotBD'', 
        ''xrEnumerateSpatialEntityComponentTypesBD'', ''xrGetAnchorUuidBD'', 
        ''xrGetQueriedSenseDataBD'', ''xrGetSenseDataProviderStateBD'', 
        ''xrGetSpatialEntityComponentDataBD'', ''xrGetSpatialEntityUuidBD'', 
        ''xrQuerySenseDataAsyncBD'', ''xrQuerySenseDataCompleteBD'', 
        ''xrStartSenseDataProviderAsyncBD'', ''xrStartSenseDataProviderCompleteBD'', 
        ''xrStopSenseDataProviderBD'']),
    (''XR_EPIC_view_configuration_fov'', []),
    (''XR_EXTX_overlay'', []),
    (''XR_EXT_active_action_set_priority'', []),
    (''XR_EXT_conformance_automation'', [''xrSetInputDeviceActiveEXT'', ''xrSetInputDeviceLocationEXT'', 
        ''xrSetInputDeviceStateBoolEXT'', ''xrSetInputDeviceStateFloatEXT'', 
        ''xrSetInputDeviceStateVector2fEXT'']),
    (''XR_EXT_debug_utils'', [''xrCreateDebugUtilsMessengerEXT'', ''xrDestroyDebugUtilsMessengerEXT'', 
        ''xrSessionBeginDebugUtilsLabelRegionEXT'', ''xrSessionEndDebugUtilsLabelRegionEXT'', 
        ''xrSessionInsertDebugUtilsLabelEXT'', ''xrSetDebugUtilsObjectNameEXT'', 
        ''xrSubmitDebugUtilsMessageEXT'']),
    (''XR_EXT_dpad_binding'', []),
    (''XR_EXT_eye_gaze_interaction'', []),
    (''XR_EXT_frame_synthesis'', []),
    (''XR_EXT_future'', [''xrCancelFutureEXT'', ''xrPollFutureEXT'']),
    (''XR_EXT_hand_joints_motion_range'', []),
    (''XR_EXT_hand_tracking'', [''xrCreateHandTrackerEXT'', ''xrDestroyHandTrackerEXT'', ''xrLocateHandJointsEXT'']),
    (''XR_EXT_hand_tracking_data_source'', []),
    (''XR_EXT_performance_settings'', [''xrPerfSettingsSetPerformanceLevelEXT'']),
    (''XR_EXT_plane_detection'', [''xrBeginPlaneDetectionEXT'', ''xrCreatePlaneDetectorEXT'', ''xrDestroyPlaneDetectorEXT'', 
        ''xrGetPlaneDetectionStateEXT'', ''xrGetPlaneDetectionsEXT'', ''xrGetPlanePolygonBufferEXT'']),
    (''XR_EXT_thermal_query'', [''xrThermalGetTemperatureTrendEXT''])]"

definition extension_functions_2 :: "(string \<times> string list) list" where
  "extension_functions_2 = [
    (''XR_EXT_user_presence'', []),
    (''XR_EXT_view_configuration_depth_range'', []),
    (''XR_FB_android_surface_swapchain_create'', []),
    (''XR_FB_body_tracking'', [''xrCreateBodyTrackerFB'', ''xrDestroyBodyTrackerFB'', ''xrGetBodySkeletonFB'', 
        ''xrLocateBodyJointsFB'']),
    (''XR_FB_color_space'', [''xrEnumerateColorSpacesFB'', ''xrSetColorSpaceFB'']),
    (''XR_FB_composition_layer_alpha_blend'', []),
    (''XR_FB_composition_layer_depth_test'', []),
    (''XR_FB_composition_layer_image_layout'', []),
    (''XR_FB_composition_layer_secure_content'', []),
    (''XR_FB_composition_layer_settings'', []),
    (''XR_FB_display_refresh_rate'', [''xrEnumerateDisplayRefreshRatesFB'', ''xrGetDisplayRefreshRateFB'', 
        ''xrRequestDisplayRefreshRateFB'']),
    (''XR_FB_eye_tracking_social'', [''xrCreateEyeTrackerFB'', ''xrDestroyEyeTrackerFB'', ''xrGetEyeGazesFB'']),
    (''XR_FB_face_tracking'', [''xrCreateFaceTrackerFB'', ''xrDestroyFaceTrackerFB'', ''xrGetFaceExpressionWeightsFB'']),
    (''XR_FB_face_tracking2'', [''xrCreateFaceTracker2FB'', ''xrDestroyFaceTracker2FB'', ''xrGetFaceExpressionWeights2FB'']),
    (''XR_FB_foveation'', [''xrCreateFoveationProfileFB'', ''xrDestroyFoveationProfileFB'']),
    (''XR_FB_foveation_configuration'', []),
    (''XR_FB_foveation_vulkan'', []),
    (''XR_FB_hand_tracking_aim'', []),
    (''XR_FB_hand_tracking_capsules'', []),
    (''XR_FB_hand_tracking_mesh'', [''xrGetHandMeshFB'']),
    (''XR_FB_haptic_amplitude_envelope'', []),
    (''XR_FB_haptic_pcm'', [''xrGetDeviceSampleRateFB'']),
    (''XR_FB_keyboard_tracking'', [''xrCreateKeyboardSpaceFB'', ''xrQuerySystemTrackedKeyboardFB'']),
    (''XR_FB_passthrough'', [''xrCreateGeometryInstanceFB'', ''xrCreatePassthroughFB'', ''xrCreatePassthroughLayerFB'', 
        ''xrDestroyGeometryInstanceFB'', ''xrDestroyPassthroughFB'', ''xrDestroyPassthroughLayerFB'', 
        ''xrGeometryInstanceSetTransformFB'', ''xrPassthroughLayerPauseFB'', 
        ''xrPassthroughLayerResumeFB'', ''xrPassthroughLayerSetStyleFB'', ''xrPassthroughPauseFB'', 
        ''xrPassthroughStartFB'']),
    (''XR_FB_passthrough_keyboard_hands'', [''xrPassthroughLayerSetKeyboardHandsIntensityFB'']),
    (''XR_FB_render_model'', [''xrEnumerateRenderModelPathsFB'', ''xrGetRenderModelPropertiesFB'', ''xrLoadRenderModelFB''])]"

definition extension_functions_3 :: "(string \<times> string list) list" where
  "extension_functions_3 = [
    (''XR_FB_scene'', [''xrGetSpaceBoundary2DFB'', ''xrGetSpaceBoundingBox2DFB'', ''xrGetSpaceBoundingBox3DFB'', 
        ''xrGetSpaceRoomLayoutFB'', ''xrGetSpaceSemanticLabelsFB'']),
    (''XR_FB_scene_capture'', [''xrRequestSceneCaptureFB'']),
    (''XR_FB_space_warp'', []),
    (''XR_FB_spatial_entity'', [''xrCreateSpatialAnchorFB'', ''xrEnumerateSpaceSupportedComponentsFB'', 
        ''xrGetSpaceComponentStatusFB'', ''xrGetSpaceUuidFB'', ''xrSetSpaceComponentStatusFB'']),
    (''XR_FB_spatial_entity_container'', [''xrGetSpaceContainerFB'']),
    (''XR_FB_spatial_entity_query'', [''xrQuerySpacesFB'', ''xrRetrieveSpaceQueryResultsFB'']),
    (''XR_FB_spatial_entity_sharing'', [''xrShareSpacesFB'']),
    (''XR_FB_spatial_entity_storage'', [''xrEraseSpaceFB'', ''xrSaveSpaceFB'']),
    (''XR_FB_spatial_entity_storage_batch'', [''xrSaveSpaceListFB'']),
    (''XR_FB_spatial_entity_user'', [''xrCreateSpaceUserFB'', ''xrDestroySpaceUserFB'', ''xrGetSpaceUserIdFB'']),
    (''XR_FB_swapchain_update_state'', [''xrGetSwapchainStateFB'', ''xrUpdateSwapchainFB'']),
    (''XR_FB_swapchain_update_state_android_surface'', []),
    (''XR_FB_swapchain_update_state_opengl_es'', []),
    (''XR_FB_swapchain_update_state_vulkan'', []),
    (''XR_FB_triangle_mesh'', [''xrCreateTriangleMeshFB'', ''xrDestroyTriangleMeshFB'', ''xrTriangleMeshBeginUpdateFB'', 
        ''xrTriangleMeshBeginVertexBufferUpdateFB'', ''xrTriangleMeshEndUpdateFB'', 
        ''xrTriangleMeshEndVertexBufferUpdateFB'', ''xrTriangleMeshGetIndexBufferFB'', 
        ''xrTriangleMeshGetVertexBufferFB'']),
    (''XR_HTCX_vive_tracker_interaction'', [''xrEnumerateViveTrackerPathsHTCX'']),
    (''XR_HTC_anchor'', [''xrCreateSpatialAnchorHTC'', ''xrGetSpatialAnchorNameHTC'']),
    (''XR_HTC_body_tracking'', [''xrCreateBodyTrackerHTC'', ''xrDestroyBodyTrackerHTC'', ''xrGetBodySkeletonHTC'', 
        ''xrLocateBodyJointsHTC'']),
    (''XR_HTC_facial_tracking'', [''xrCreateFacialTrackerHTC'', ''xrDestroyFacialTrackerHTC'', ''xrGetFacialExpressionsHTC'']),
    (''XR_HTC_foveation'', [''xrApplyFoveationHTC'']),
    (''XR_HTC_passthrough'', [''xrCreatePassthroughHTC'', ''xrDestroyPassthroughHTC'']),
    (''XR_KHR_D3D11_enable'', [''xrGetD3D11GraphicsRequirementsKHR'']),
    (''XR_KHR_D3D12_enable'', [''xrGetD3D12GraphicsRequirementsKHR'']),
    (''XR_KHR_android_create_instance'', []),
    (''XR_KHR_android_surface_swapchain'', [''xrCreateSwapchainAndroidSurfaceKHR''])]"

definition extension_functions_4 :: "(string \<times> string list) list" where
  "extension_functions_4 = [
    (''XR_KHR_android_thread_settings'', [''xrSetAndroidApplicationThreadKHR'']),
    (''XR_KHR_binding_modification'', []),
    (''XR_KHR_composition_layer_color_scale_bias'', []),
    (''XR_KHR_composition_layer_cube'', []),
    (''XR_KHR_composition_layer_cylinder'', []),
    (''XR_KHR_composition_layer_depth'', []),
    (''XR_KHR_composition_layer_equirect'', []),
    (''XR_KHR_composition_layer_equirect2'', []),
    (''XR_KHR_convert_timespec_time'', [''xrConvertTimeToTimespecTimeKHR'', ''xrConvertTimespecTimeToTimeKHR'']),
    (''XR_KHR_extended_struct_name_lengths'', [''xrStructureTypeToString2KHR'']),
    (''XR_KHR_loader_init'', [''xrInitializeLoaderKHR'']),
    (''XR_KHR_loader_init_android'', []),
    (''XR_KHR_metal_enable'', [''xrGetMetalGraphicsRequirementsKHR'']),
    (''XR_KHR_opengl_enable'', [''xrGetOpenGLGraphicsRequirementsKHR'']),
    (''XR_KHR_opengl_es_enable'', [''xrGetOpenGLESGraphicsRequirementsKHR'']),
    (''XR_KHR_visibility_mask'', [''xrGetVisibilityMaskKHR'']),
    (''XR_KHR_vulkan_enable'', [''xrGetVulkanDeviceExtensionsKHR'', ''xrGetVulkanGraphicsDeviceKHR'', 
        ''xrGetVulkanGraphicsRequirementsKHR'', ''xrGetVulkanInstanceExtensionsKHR'']),
    (''XR_KHR_vulkan_enable2'', [''xrCreateVulkanDeviceKHR'', ''xrCreateVulkanInstanceKHR'', ''xrGetVulkanGraphicsDevice2KHR'']),
    (''XR_KHR_vulkan_swapchain_format_list'', []),
    (''XR_KHR_win32_convert_performance_counter_time'', [''xrConvertTimeToWin32PerformanceCounterKHR'', ''xrConvertWin32PerformanceCounterToTimeKHR'']),
    (''XR_META_body_tracking_full_body'', []),
    (''XR_META_colocation_discovery'', [''xrStartColocationAdvertisementMETA'', ''xrStartColocationDiscoveryMETA'', 
        ''xrStopColocationAdvertisementMETA'', ''xrStopColocationDiscoveryMETA'']),
    (''XR_META_environment_depth'', [''xrAcquireEnvironmentDepthImageMETA'', ''xrCreateEnvironmentDepthProviderMETA'', 
        ''xrCreateEnvironmentDepthSwapchainMETA'', ''xrDestroyEnvironmentDepthProviderMETA'', 
        ''xrDestroyEnvironmentDepthSwapchainMETA'', ''xrEnumerateEnvironmentDepthSwapchainImagesMETA'', 
        ''xrGetEnvironmentDepthSwapchainStateMETA'', ''xrSetEnvironmentDepthHandRemovalMETA'', 
        ''xrStartEnvironmentDepthProviderMETA'', ''xrStopEnvironmentDepthProviderMETA'']),
    (''XR_META_foveation_eye_tracked'', [''xrGetFoveationEyeTrackedStateMETA'']),
    (''XR_META_headset_id'', []),
    (''XR_META_local_dimming'', []),
    (''XR_META_passthrough_color_lut'', [''xrCreatePassthroughColorLutMETA'', ''xrDestroyPassthroughColorLutMETA'', 
        ''xrUpdatePassthroughColorLutMETA'']),
    (''XR_META_passthrough_layer_resumed_event'', [])]"

definition extension_functions_5 :: "(string \<times> string list) list" where
  "extension_functions_5 = [
    (''XR_META_passthrough_preferences'', [''xrGetPassthroughPreferencesMETA'']),
    (''XR_META_performance_metrics'', [''xrEnumeratePerformanceMetricsCounterPathsMETA'', ''xrGetPerformanceMetricsStateMETA'', 
        ''xrQueryPerformanceMetricsCounterMETA'', ''xrSetPerformanceMetricsStateMETA'']),
    (''XR_META_recommended_layer_resolution'', [''xrGetRecommendedLayerResolutionMETA'']),
    (''XR_META_simultaneous_hands_and_controllers'', [''xrPauseSimultaneousHandsAndControllersTrackingMETA'', 
        ''xrResumeSimultaneousHandsAndControllersTrackingMETA'']),
    (''XR_META_spatial_entity_group_sharing'', []),
    (''XR_META_spatial_entity_mesh'', [''xrGetSpaceTriangleMeshMETA'']),
    (''XR_META_spatial_entity_sharing'', [''xrShareSpacesMETA'']),
    (''XR_META_virtual_keyboard'', [''xrChangeVirtualKeyboardTextContextMETA'', ''xrCreateVirtualKeyboardMETA'', 
        ''xrCreateVirtualKeyboardSpaceMETA'', ''xrDestroyVirtualKeyboardMETA'', 
        ''xrGetVirtualKeyboardDirtyTexturesMETA'', ''xrGetVirtualKeyboardModelAnimationStatesMETA'', 
        ''xrGetVirtualKeyboardScaleMETA'', ''xrGetVirtualKeyboardTextureDataMETA'', 
        ''xrSendVirtualKeyboardInputMETA'', ''xrSetVirtualKeyboardModelVisibilityMETA'', 
        ''xrSuggestVirtualKeyboardLocationMETA'']),
    (''XR_META_vulkan_swapchain_create_info'', []),
    (''XR_ML_compat'', [''xrCreateSpaceFromCoordinateFrameUIDML'']),
    (''XR_ML_facial_expression'', [''xrCreateFacialExpressionClientML'', ''xrDestroyFacialExpressionClientML'', 
        ''xrGetFacialExpressionBlendShapePropertiesML'']),
    (''XR_ML_frame_end_info'', []),
    (''XR_ML_global_dimmer'', []),
    (''XR_ML_localization_map'', [''xrCreateExportedLocalizationMapML'', ''xrDestroyExportedLocalizationMapML'', 
        ''xrEnableLocalizationEventsML'', ''xrGetExportedLocalizationMapDataML'', 
        ''xrImportLocalizationMapML'', ''xrQueryLocalizationMapsML'', ''xrRequestMapLocalizationML'']),
    (''XR_ML_marker_understanding'', [''xrCreateMarkerDetectorML'', ''xrCreateMarkerSpaceML'', ''xrDestroyMarkerDetectorML'', 
        ''xrGetMarkerDetectorStateML'', ''xrGetMarkerLengthML'', ''xrGetMarkerNumberML'', 
        ''xrGetMarkerReprojectionErrorML'', ''xrGetMarkerStringML'', ''xrGetMarkersML'', 
        ''xrSnapshotMarkerDetectorML'']),
    (''XR_ML_spatial_anchors'', [''xrCreateSpatialAnchorsAsyncML'', ''xrCreateSpatialAnchorsCompleteML'', 
        ''xrGetSpatialAnchorStateML'']),
    (''XR_ML_spatial_anchors_storage'', [''xrCreateSpatialAnchorsStorageML'', ''xrDeleteSpatialAnchorsAsyncML'', 
        ''xrDeleteSpatialAnchorsCompleteML'', ''xrDestroySpatialAnchorsStorageML'', 
        ''xrPublishSpatialAnchorsAsyncML'', ''xrPublishSpatialAnchorsCompleteML'', 
        ''xrQuerySpatialAnchorsAsyncML'', ''xrQuerySpatialAnchorsCompleteML'', 
        ''xrUpdateSpatialAnchorsExpirationAsyncML'', ''xrUpdateSpatialAnchorsExpirationCompleteML'']),
    (''XR_ML_system_notifications'', [''xrSetSystemNotificationsML'']),
    (''XR_ML_user_calibration'', [''xrEnableUserCalibrationEventsML'']),
    (''XR_ML_world_mesh_detection'', [''xrAllocateWorldMeshBufferML'', ''xrCreateWorldMeshDetectorML'', 
        ''xrDestroyWorldMeshDetectorML'', ''xrFreeWorldMeshBufferML'', 
        ''xrGetWorldMeshBufferRecommendSizeML'', ''xrRequestWorldMeshAsyncML'', 
        ''xrRequestWorldMeshCompleteML'', ''xrRequestWorldMeshStateAsyncML'', 
        ''xrRequestWorldMeshStateCompleteML'']),
    (''XR_MNDX_egl_enable'', [])]"

definition extension_functions_6 :: "(string \<times> string list) list" where
  "extension_functions_6 = [
    (''XR_MNDX_force_feedback_curl'', [''xrApplyForceFeedbackCurlMNDX'']),
    (''XR_MSFT_composition_layer_reprojection'', [''xrEnumerateReprojectionModesMSFT'']),
    (''XR_MSFT_controller_model'', [''xrGetControllerModelKeyMSFT'', ''xrGetControllerModelPropertiesMSFT'', 
        ''xrGetControllerModelStateMSFT'', ''xrLoadControllerModelMSFT'']),
    (''XR_MSFT_hand_tracking_mesh'', [''xrCreateHandMeshSpaceMSFT'', ''xrUpdateHandMeshMSFT'']),
    (''XR_MSFT_holographic_window_attachment'', []),
    (''XR_MSFT_perception_anchor_interop'', [''xrCreateSpatialAnchorFromPerceptionAnchorMSFT'', 
        ''xrTryGetPerceptionAnchorFromSpatialAnchorMSFT'']),
    (''XR_MSFT_scene_marker'', [''xrGetSceneMarkerDecodedStringMSFT'', ''xrGetSceneMarkerRawDataMSFT'']),
    (''XR_MSFT_scene_understanding'', [''xrComputeNewSceneMSFT'', ''xrCreateSceneMSFT'', ''xrCreateSceneObserverMSFT'', 
        ''xrDestroySceneMSFT'', ''xrDestroySceneObserverMSFT'', 
        ''xrEnumerateSceneComputeFeaturesMSFT'', ''xrGetSceneComponentsMSFT'', 
        ''xrGetSceneComputeStateMSFT'', ''xrGetSceneMeshBuffersMSFT'', ''xrLocateSceneComponentsMSFT'']),
    (''XR_MSFT_scene_understanding_serialization'', [''xrDeserializeSceneMSFT'', ''xrGetSerializedSceneFragmentDataMSFT'']),
    (''XR_MSFT_secondary_view_configuration'', []),
    (''XR_MSFT_spatial_anchor'', [''xrCreateSpatialAnchorMSFT'', ''xrCreateSpatialAnchorSpaceMSFT'', 
        ''xrDestroySpatialAnchorMSFT'']),
    (''XR_MSFT_spatial_anchor_persistence'', [''xrClearSpatialAnchorStoreMSFT'', ''xrCreateSpatialAnchorFromPersistedNameMSFT'', 
        ''xrCreateSpatialAnchorStoreConnectionMSFT'', ''xrDestroySpatialAnchorStoreConnectionMSFT'', 
        ''xrEnumeratePersistedSpatialAnchorNamesMSFT'', ''xrPersistSpatialAnchorMSFT'', 
        ''xrUnpersistSpatialAnchorMSFT'']),
    (''XR_MSFT_spatial_graph_bridge'', [''xrCreateSpatialGraphNodeSpaceMSFT'', ''xrDestroySpatialGraphNodeBindingMSFT'', 
        ''xrGetSpatialGraphNodeBindingPropertiesMSFT'', 
        ''xrTryCreateSpatialGraphStaticNodeBindingMSFT'']),
    (''XR_OCULUS_audio_device_guid'', [''xrGetAudioInputDeviceGuidOculus'', ''xrGetAudioOutputDeviceGuidOculus'']),
    (''XR_OCULUS_external_camera'', [''xrEnumerateExternalCamerasOCULUS'']),
    (''XR_QCOM_tracking_optimization_settings'', [''xrSetTrackingOptimizationSettingsHintQCOM'']),
    (''XR_VALVE_analog_threshold'', []),
    (''XR_VARJO_composition_layer_depth_test'', []),
    (''XR_VARJO_environment_depth_estimation'', [''xrSetEnvironmentDepthEstimationVARJO'']),
    (''XR_VARJO_foveated_rendering'', []),
    (''XR_VARJO_marker_tracking'', [''xrCreateMarkerSpaceVARJO'', ''xrGetMarkerSizeVARJO'', ''xrSetMarkerTrackingPredictionVARJO'', 
        ''xrSetMarkerTrackingTimeoutVARJO'', ''xrSetMarkerTrackingVARJO'']),
    (''XR_VARJO_view_offset'', [''xrSetViewOffsetVARJO''])]"

lemmas extension_functions_defs =
  extension_functions_1_def extension_functions_2_def extension_functions_3_def extension_functions_4_def extension_functions_5_def extension_functions_6_def

definition extension_functions :: "(string \<times> string list) list" where
  "extension_functions =
     extension_functions_1 @ extension_functions_2 @ extension_functions_3 @ extension_functions_4 @ extension_functions_5 @ extension_functions_6"

definition core_functions :: "string list" where
  "core_functions = [
    ''xrAcquireSwapchainImage'', ''xrApplyHapticFeedback'', ''xrAttachSessionActionSets'', 
    ''xrBeginFrame'', ''xrBeginSession'', ''xrCreateAction'', ''xrCreateActionSet'', 
    ''xrCreateActionSpace'', ''xrCreateInstance'', ''xrCreateReferenceSpace'', ''xrCreateSession'', 
    ''xrCreateSwapchain'', ''xrDestroyAction'', ''xrDestroyActionSet'', ''xrDestroyInstance'', 
    ''xrDestroySession'', ''xrDestroySpace'', ''xrDestroySwapchain'', ''xrEndFrame'', 
    ''xrEndSession'', ''xrEnumerateApiLayerProperties'', ''xrEnumerateBoundSourcesForAction'', 
    ''xrEnumerateEnvironmentBlendModes'', ''xrEnumerateInstanceExtensionProperties'', 
    ''xrEnumerateReferenceSpaces'', ''xrEnumerateSwapchainFormats'', 
    ''xrEnumerateSwapchainImages'', ''xrEnumerateViewConfigurationViews'', 
    ''xrEnumerateViewConfigurations'', ''xrGetActionStateBoolean'', ''xrGetActionStateFloat'', 
    ''xrGetActionStatePose'', ''xrGetActionStateVector2f'', ''xrGetCurrentInteractionProfile'', 
    ''xrGetInputSourceLocalizedName'', ''xrGetInstanceProperties'', 
    ''xrGetReferenceSpaceBoundsRect'', ''xrGetSystem'', ''xrGetSystemProperties'', 
    ''xrGetViewConfigurationProperties'', ''xrLocateSpace'', ''xrLocateSpaces'', ''xrLocateViews'', 
    ''xrPathToString'', ''xrPollEvent'', ''xrReleaseSwapchainImage'', ''xrRequestExitSession'', 
    ''xrResultToString'', ''xrStopHapticFeedback'', ''xrStringToPath'', 
    ''xrStructureTypeToString'', ''xrSuggestInteractionProfileBindings'', ''xrSyncActions'', 
    ''xrWaitFrame'', ''xrWaitSwapchainImage'']"

definition enabled_extensions_1 :: "(string \<times> string) list" where
  "enabled_extensions_1 = [
    (''XR_ALMALENCE_digital_lens_control'', ''XR_ALMALENCE_digital_lens_control_SPEC_VERSION''),
    (''XR_BD_body_tracking'', ''XR_BD_body_tracking_SPEC_VERSION''),
    (''XR_BD_future_progress'', ''XR_BD_future_progress_SPEC_VERSION''),
    (''XR_BD_spatial_anchor'', ''XR_BD_spatial_anchor_SPEC_VERSION''),
    (''XR_BD_spatial_anchor_sharing'', ''XR_BD_spatial_anchor_sharing_SPEC_VERSION''),
    (''XR_BD_spatial_mesh'', ''XR_BD_spatial_mesh_SPEC_VERSION''),
    (''XR_BD_spatial_scene'', ''XR_BD_spatial_scene_SPEC_VERSION''),
    (''XR_BD_spatial_sensing'', ''XR_BD_spatial_sensing_SPEC_VERSION''),
    (''XR_EPIC_view_configuration_fov'', ''XR_EPIC_view_configuration_fov_SPEC_VERSION''),
    (''XR_EXTX_overlay'', ''XR_EXTX_overlay_SPEC_VERSION''),
    (''XR_EXT_active_action_set_priority'', ''XR_EXT_active_action_set_priority_SPEC_VERSION''),
    (''XR_EXT_conformance_automation'', ''XR_EXT_conformance_automation_SPEC_VERSION''),
    (''XR_EXT_debug_utils'', ''XR_EXT_debug_utils_SPEC_VERSION''),
    (''XR_EXT_dpad_binding'', ''XR_EXT_dpad_binding_SPEC_VERSION''),
    (''XR_EXT_eye_gaze_interaction'', ''XR_EXT_eye_gaze_interaction_SPEC_VERSION''),
    (''XR_EXT_frame_synthesis'', ''XR_EXT_frame_synthesis_SPEC_VERSION''),
    (''XR_EXT_future'', ''XR_EXT_future_SPEC_VERSION''),
    (''XR_EXT_hand_joints_motion_range'', ''XR_EXT_hand_joints_motion_range_SPEC_VERSION''),
    (''XR_EXT_hand_tracking'', ''XR_EXT_hand_tracking_SPEC_VERSION''),
    (''XR_EXT_hand_tracking_data_source'', ''XR_EXT_hand_tracking_data_source_SPEC_VERSION''),
    (''XR_EXT_performance_settings'', ''XR_EXT_performance_settings_SPEC_VERSION''),
    (''XR_EXT_plane_detection'', ''XR_EXT_plane_detection_SPEC_VERSION''),
    (''XR_EXT_thermal_query'', ''XR_EXT_thermal_query_SPEC_VERSION''),
    (''XR_EXT_user_presence'', ''XR_EXT_user_presence_SPEC_VERSION''),
    (''XR_EXT_view_configuration_depth_range'', ''XR_EXT_view_configuration_depth_range_SPEC_VERSION''),
    (''XR_FB_android_surface_swapchain_create'', ''XR_FB_android_surface_swapchain_create_SPEC_VERSION''),
    (''XR_FB_body_tracking'', ''XR_FB_body_tracking_SPEC_VERSION''),
    (''XR_FB_color_space'', ''XR_FB_color_space_SPEC_VERSION''),
    (''XR_FB_composition_layer_alpha_blend'', ''XR_FB_composition_layer_alpha_blend_SPEC_VERSION''),
    (''XR_FB_composition_layer_depth_test'', ''XR_FB_composition_layer_depth_test_SPEC_VERSION''),
    (''XR_FB_composition_layer_image_layout'', ''XR_FB_composition_layer_image_layout_SPEC_VERSION''),
    (''XR_FB_composition_layer_secure_content'', ''XR_FB_composition_layer_secure_content_SPEC_VERSION''),
    (''XR_FB_composition_layer_settings'', ''XR_FB_composition_layer_settings_SPEC_VERSION''),
    (''XR_FB_display_refresh_rate'', ''XR_FB_display_refresh_rate_SPEC_VERSION''),
    (''XR_FB_eye_tracking_social'', ''XR_FB_eye_tracking_social_SPEC_VERSION''),
    (''XR_FB_face_tracking'', ''XR_FB_face_tracking_SPEC_VERSION''),
    (''XR_FB_face_tracking2'', ''XR_FB_face_tracking2_SPEC_VERSION''),
    (''XR_FB_foveation'', ''XR_FB_foveation_SPEC_VERSION''),
    (''XR_FB_foveation_configuration'', ''XR_FB_foveation_configuration_SPEC_VERSION''),
    (''XR_FB_foveation_vulkan'', ''XR_FB_foveation_vulkan_SPEC_VERSION''),
    (''XR_FB_hand_tracking_aim'', ''XR_FB_hand_tracking_aim_SPEC_VERSION''),
    (''XR_FB_hand_tracking_capsules'', ''XR_FB_hand_tracking_capsules_SPEC_VERSION''),
    (''XR_FB_hand_tracking_mesh'', ''XR_FB_hand_tracking_mesh_SPEC_VERSION''),
    (''XR_FB_haptic_amplitude_envelope'', ''XR_FB_haptic_amplitude_envelope_SPEC_VERSION''),
    (''XR_FB_haptic_pcm'', ''XR_FB_haptic_pcm_SPEC_VERSION''),
    (''XR_FB_keyboard_tracking'', ''XR_FB_keyboard_tracking_SPEC_VERSION''),
    (''XR_FB_passthrough'', ''XR_FB_passthrough_SPEC_VERSION''),
    (''XR_FB_passthrough_keyboard_hands'', ''XR_FB_passthrough_keyboard_hands_SPEC_VERSION''),
    (''XR_FB_render_model'', ''XR_FB_render_model_SPEC_VERSION''),
    (''XR_FB_scene'', ''XR_FB_scene_SPEC_VERSION'')]"

definition enabled_extensions_2 :: "(string \<times> string) list" where
  "enabled_extensions_2 = [
    (''XR_FB_scene_capture'', ''XR_FB_scene_capture_SPEC_VERSION''),
    (''XR_FB_space_warp'', ''XR_FB_space_warp_SPEC_VERSION''),
    (''XR_FB_spatial_entity'', ''XR_FB_spatial_entity_SPEC_VERSION''),
    (''XR_FB_spatial_entity_container'', ''XR_FB_spatial_entity_container_SPEC_VERSION''),
    (''XR_FB_spatial_entity_query'', ''XR_FB_spatial_entity_query_SPEC_VERSION''),
    (''XR_FB_spatial_entity_sharing'', ''XR_FB_spatial_entity_sharing_SPEC_VERSION''),
    (''XR_FB_spatial_entity_storage'', ''XR_FB_spatial_entity_storage_SPEC_VERSION''),
    (''XR_FB_spatial_entity_storage_batch'', ''XR_FB_spatial_entity_storage_batch_SPEC_VERSION''),
    (''XR_FB_spatial_entity_user'', ''XR_FB_spatial_entity_user_SPEC_VERSION''),
    (''XR_FB_swapchain_update_state'', ''XR_FB_swapchain_update_state_SPEC_VERSION''),
    (''XR_FB_swapchain_update_state_android_surface'', ''XR_FB_swapchain_update_state_android_surface_SPEC_VERSION''),
    (''XR_FB_swapchain_update_state_opengl_es'', ''XR_FB_swapchain_update_state_opengl_es_SPEC_VERSION''),
    (''XR_FB_swapchain_update_state_vulkan'', ''XR_FB_swapchain_update_state_vulkan_SPEC_VERSION''),
    (''XR_FB_triangle_mesh'', ''XR_FB_triangle_mesh_SPEC_VERSION''),
    (''XR_HTCX_vive_tracker_interaction'', ''XR_HTCX_vive_tracker_interaction_SPEC_VERSION''),
    (''XR_HTC_anchor'', ''XR_HTC_anchor_SPEC_VERSION''),
    (''XR_HTC_body_tracking'', ''XR_HTC_body_tracking_SPEC_VERSION''),
    (''XR_HTC_facial_tracking'', ''XR_HTC_facial_tracking_SPEC_VERSION''),
    (''XR_HTC_foveation'', ''XR_HTC_foveation_SPEC_VERSION''),
    (''XR_HTC_passthrough'', ''XR_HTC_passthrough_SPEC_VERSION''),
    (''XR_KHR_D3D11_enable'', ''XR_KHR_D3D11_enable_SPEC_VERSION''),
    (''XR_KHR_D3D12_enable'', ''XR_KHR_D3D12_enable_SPEC_VERSION''),
    (''XR_KHR_android_create_instance'', ''XR_KHR_android_create_instance_SPEC_VERSION''),
    (''XR_KHR_android_surface_swapchain'', ''XR_KHR_android_surface_swapchain_SPEC_VERSION''),
    (''XR_KHR_android_thread_settings'', ''XR_KHR_android_thread_settings_SPEC_VERSION''),
    (''XR_KHR_binding_modification'', ''XR_KHR_binding_modification_SPEC_VERSION''),
    (''XR_KHR_composition_layer_color_scale_bias'', ''XR_KHR_composition_layer_color_scale_bias_SPEC_VERSION''),
    (''XR_KHR_composition_layer_cube'', ''XR_KHR_composition_layer_cube_SPEC_VERSION''),
    (''XR_KHR_composition_layer_cylinder'', ''XR_KHR_composition_layer_cylinder_SPEC_VERSION''),
    (''XR_KHR_composition_layer_depth'', ''XR_KHR_composition_layer_depth_SPEC_VERSION''),
    (''XR_KHR_composition_layer_equirect'', ''XR_KHR_composition_layer_equirect_SPEC_VERSION''),
    (''XR_KHR_composition_layer_equirect2'', ''XR_KHR_composition_layer_equirect2_SPEC_VERSION''),
    (''XR_KHR_convert_timespec_time'', ''XR_KHR_convert_timespec_time_SPEC_VERSION''),
    (''XR_KHR_extended_struct_name_lengths'', ''XR_KHR_extended_struct_name_lengths_SPEC_VERSION''),
    (''XR_KHR_loader_init'', ''XR_KHR_loader_init_SPEC_VERSION''),
    (''XR_KHR_loader_init_android'', ''XR_KHR_loader_init_android_SPEC_VERSION''),
    (''XR_KHR_metal_enable'', ''XR_KHR_metal_enable_SPEC_VERSION''),
    (''XR_KHR_opengl_enable'', ''XR_KHR_opengl_enable_SPEC_VERSION''),
    (''XR_KHR_opengl_es_enable'', ''XR_KHR_opengl_es_enable_SPEC_VERSION''),
    (''XR_KHR_visibility_mask'', ''XR_KHR_visibility_mask_SPEC_VERSION''),
    (''XR_KHR_vulkan_enable'', ''XR_KHR_vulkan_enable_SPEC_VERSION''),
    (''XR_KHR_vulkan_enable2'', ''XR_KHR_vulkan_enable2_SPEC_VERSION''),
    (''XR_KHR_vulkan_swapchain_format_list'', ''XR_KHR_vulkan_swapchain_format_list_SPEC_VERSION''),
    (''XR_KHR_win32_convert_performance_counter_time'', ''XR_KHR_win32_convert_performance_counter_time_SPEC_VERSION''),
    (''XR_META_body_tracking_full_body'', ''XR_META_body_tracking_full_body_SPEC_VERSION''),
    (''XR_META_colocation_discovery'', ''XR_META_colocation_discovery_SPEC_VERSION''),
    (''XR_META_environment_depth'', ''XR_META_environment_depth_SPEC_VERSION''),
    (''XR_META_foveation_eye_tracked'', ''XR_META_foveation_eye_tracked_SPEC_VERSION''),
    (''XR_META_headset_id'', ''XR_META_headset_id_SPEC_VERSION''),
    (''XR_META_local_dimming'', ''XR_META_local_dimming_SPEC_VERSION'')]"

definition enabled_extensions_3 :: "(string \<times> string) list" where
  "enabled_extensions_3 = [
    (''XR_META_passthrough_color_lut'', ''XR_META_passthrough_color_lut_SPEC_VERSION''),
    (''XR_META_passthrough_layer_resumed_event'', ''XR_META_passthrough_layer_resumed_event_SPEC_VERSION''),
    (''XR_META_passthrough_preferences'', ''XR_META_passthrough_preferences_SPEC_VERSION''),
    (''XR_META_performance_metrics'', ''XR_META_performance_metrics_SPEC_VERSION''),
    (''XR_META_recommended_layer_resolution'', ''XR_META_recommended_layer_resolution_SPEC_VERSION''),
    (''XR_META_simultaneous_hands_and_controllers'', ''XR_META_simultaneous_hands_and_controllers_SPEC_VERSION''),
    (''XR_META_spatial_entity_group_sharing'', ''XR_META_spatial_entity_group_sharing_SPEC_VERSION''),
    (''XR_META_spatial_entity_mesh'', ''XR_META_spatial_entity_mesh_SPEC_VERSION''),
    (''XR_META_spatial_entity_sharing'', ''XR_META_spatial_entity_sharing_SPEC_VERSION''),
    (''XR_META_virtual_keyboard'', ''XR_META_virtual_keyboard_SPEC_VERSION''),
    (''XR_META_vulkan_swapchain_create_info'', ''XR_META_vulkan_swapchain_create_info_SPEC_VERSION''),
    (''XR_ML_compat'', ''XR_ML_compat_SPEC_VERSION''),
    (''XR_ML_facial_expression'', ''XR_ML_facial_expression_SPEC_VERSION''),
    (''XR_ML_frame_end_info'', ''XR_ML_frame_end_info_SPEC_VERSION''),
    (''XR_ML_global_dimmer'', ''XR_ML_global_dimmer_SPEC_VERSION''),
    (''XR_ML_localization_map'', ''XR_ML_localization_map_SPEC_VERSION''),
    (''XR_ML_marker_understanding'', ''XR_ML_marker_understanding_SPEC_VERSION''),
    (''XR_ML_spatial_anchors'', ''XR_ML_spatial_anchors_SPEC_VERSION''),
    (''XR_ML_spatial_anchors_storage'', ''XR_ML_spatial_anchors_storage_SPEC_VERSION''),
    (''XR_ML_system_notifications'', ''XR_ML_system_notifications_SPEC_VERSION''),
    (''XR_ML_user_calibration'', ''XR_ML_user_calibration_SPEC_VERSION''),
    (''XR_ML_world_mesh_detection'', ''XR_ML_world_mesh_detection_SPEC_VERSION''),
    (''XR_MNDX_egl_enable'', ''XR_MNDX_egl_enable_SPEC_VERSION''),
    (''XR_MNDX_force_feedback_curl'', ''XR_MNDX_force_feedback_curl_SPEC_VERSION''),
    (''XR_MSFT_composition_layer_reprojection'', ''XR_MSFT_composition_layer_reprojection_SPEC_VERSION''),
    (''XR_MSFT_controller_model'', ''XR_MSFT_controller_model_SPEC_VERSION''),
    (''XR_MSFT_hand_tracking_mesh'', ''XR_MSFT_hand_tracking_mesh_SPEC_VERSION''),
    (''XR_MSFT_holographic_window_attachment'', ''XR_MSFT_holographic_window_attachment_SPEC_VERSION''),
    (''XR_MSFT_perception_anchor_interop'', ''XR_MSFT_perception_anchor_interop_SPEC_VERSION''),
    (''XR_MSFT_scene_marker'', ''XR_MSFT_scene_marker_SPEC_VERSION''),
    (''XR_MSFT_scene_understanding'', ''XR_MSFT_scene_understanding_SPEC_VERSION''),
    (''XR_MSFT_scene_understanding_serialization'', ''XR_MSFT_scene_understanding_serialization_SPEC_VERSION''),
    (''XR_MSFT_secondary_view_configuration'', ''XR_MSFT_secondary_view_configuration_SPEC_VERSION''),
    (''XR_MSFT_spatial_anchor'', ''XR_MSFT_spatial_anchor_SPEC_VERSION''),
    (''XR_MSFT_spatial_anchor_persistence'', ''XR_MSFT_spatial_anchor_persistence_SPEC_VERSION''),
    (''XR_MSFT_spatial_graph_bridge'', ''XR_MSFT_spatial_graph_bridge_SPEC_VERSION''),
    (''XR_OCULUS_audio_device_guid'', ''XR_OCULUS_audio_device_guid_SPEC_VERSION''),
    (''XR_OCULUS_external_camera'', ''XR_OCULUS_external_camera_SPEC_VERSION''),
    (''XR_QCOM_tracking_optimization_settings'', ''XR_QCOM_tracking_optimization_settings_SPEC_VERSION''),
    (''XR_VALVE_analog_threshold'', ''XR_VALVE_analog_threshold_SPEC_VERSION''),
    (''XR_VARJO_composition_layer_depth_test'', ''XR_VARJO_composition_layer_depth_test_SPEC_VERSION''),
    (''XR_VARJO_environment_depth_estimation'', ''XR_VARJO_environment_depth_estimation_SPEC_VERSION''),
    (''XR_VARJO_foveated_rendering'', ''XR_VARJO_foveated_rendering_SPEC_VERSION''),
    (''XR_VARJO_marker_tracking'', ''XR_VARJO_marker_tracking_SPEC_VERSION''),
    (''XR_VARJO_view_offset'', ''XR_VARJO_view_offset_SPEC_VERSION'')]"

lemmas enabled_extensions_defs =
  enabled_extensions_1_def enabled_extensions_2_def enabled_extensions_3_def

definition enabled_extensions :: "(string \<times> string) list" where
  "enabled_extensions =
     enabled_extensions_1 @ enabled_extensions_2 @ enabled_extensions_3"

end
