(* ===== verification/Synchronization.thy ===== *)
theory Synchronization
  imports Xr_Prelude
begin

text \<open>
  Clock synchronization, \<open>src/client/synchronization.cpp\<close>: the client asks the server for its
  time twenty times and keeps the exchange with the shortest round trip. \<open>XrTime\<close> is a signed
  64-bit integer, here an \<open>int\<close> with the wrap-around written out. The local clock and the answers
  of the server are parameters: \<open>clock k\<close> is the \<open>k\<close>-th reading and \<open>answer i\<close> the time in the
  \<open>i\<close>-th response.
\<close>

definition wrap64 :: "int \<Rightarrow> int" where
  "wrap64 x = signed_take_bit 63 x"

lemma wrap64_id: "- (2 ^ 63) \<le> x \<Longrightarrow> x < 2 ^ 63 \<Longrightarrow> wrap64 x = x"
  unfolding wrap64_def by (rule signed_take_bit_int_eq_self)

definition INT64_MAX :: int where "INT64_MAX = 2 ^ 63 - 1"
definition INT64_MIN :: int where "INT64_MIN = - (2 ^ 63)"

definition sync_interval :: int where "sync_interval = 200000000"
definition sync_iterations :: nat where "sync_iterations = 20"

record sync_state =
  last_sync :: int
  synchronization_enabled :: bool
  time_offset :: int

definition sync_init :: sync_state where
  "sync_init = \<lparr>last_sync = INT64_MIN, synchronization_enabled = False, time_offset = 0\<rparr>"

text \<open>The best exchange so far\<close>

record best =
  min_t1 :: int
  min_t2 :: int
  min_t3 :: int
  min_rtt :: int

definition no_best :: best where
  "no_best = \<lparr>min_t1 = 0, min_t2 = 0, min_t3 = 0, min_rtt = INT64_MAX\<rparr>"

definition sync_exchange :: "int \<times> int \<times> int \<Rightarrow> best \<Rightarrow> best" where
  "sync_exchange x b =
     (case x of (t1, t2, t3) \<Rightarrow>
        let rtt = wrap64 (t3 - t1)
        in if rtt < min_rtt b then \<lparr>min_t1 = t1, min_t2 = t2, min_t3 = t3, min_rtt = rtt\<rparr> else b)"

text \<open>\<open>min_rtt / 2\<close> truncates toward zero.\<close>

definition half :: "int \<Rightarrow> int" where
  "half x = (if x < 0 then - ((- x) div 2) else x div 2)"

definition exchanges :: "(nat \<Rightarrow> int) \<Rightarrow> (nat \<Rightarrow> int) \<Rightarrow> (int \<times> int \<times> int) list" where
  "exchanges clock answer = map (\<lambda>i. (clock (2 * i), answer i, clock (2 * i + 1))) [0..<sync_iterations]"

definition do_synchronize :: "(nat \<Rightarrow> int) \<Rightarrow> (nat \<Rightarrow> int) \<Rightarrow> sync_state \<Rightarrow> sync_state" where
  "do_synchronize clock answer s =
     (let b = fold sync_exchange (exchanges clock answer) no_best;
          delay = half (min_rtt b)
      in s\<lparr>time_offset := wrap64 (wrap64 (min_t1 b + delay) - min_t2 b),
           last_sync := clock (2 * sync_iterations)\<rparr>)"

text \<open>
  \<open>get_time_offset\<close> reads the clock once to decide and once more for its log line before it
  synchronizes.
\<close>

definition get_time_offset ::
  "bool \<Rightarrow> (nat \<Rightarrow> int) \<Rightarrow> (nat \<Rightarrow> int) \<Rightarrow> sync_state \<Rightarrow> int \<times> sync_state" where
  "get_time_offset try_synchronize clock answer s =
     (let s' = (if try_synchronize \<and> synchronization_enabled s \<and> clock 0 > wrap64 (last_sync s + sync_interval)
                then do_synchronize (\<lambda>k. clock (k + 2)) answer s else s)
      in (time_offset s', s'))"

definition enable_synchronization :: "sync_state \<Rightarrow> sync_state" where
  "enable_synchronization s = s\<lparr>synchronization_enabled := True\<rparr>"

definition disable_synchronization :: "sync_state \<Rightarrow> sync_state" where
  "disable_synchronization s = s\<lparr>synchronization_enabled := False\<rparr>"

section \<open>The shortest exchange\<close>

definition rtt_of :: "int \<times> int \<times> int \<Rightarrow> int" where
  "rtt_of x = (case x of (t1, t2, t3) \<Rightarrow> wrap64 (t3 - t1))"

definition from_exchange :: "best \<Rightarrow> int \<times> int \<times> int \<Rightarrow> bool" where
  "from_exchange b x \<longleftrightarrow> x = (min_t1 b, min_t2 b, min_t3 b) \<and> min_rtt b = rtt_of x"

lemma fold_best:
  "fold sync_exchange xs b = b \<or> (\<exists>x\<in>set xs. from_exchange (fold sync_exchange xs b) x)"
proof (induction xs arbitrary: b)
  case (Cons x xs)
  show ?case
  proof (cases "rtt_of x < min_rtt b")
    case True
    then have "from_exchange (sync_exchange x b) x"
      by (cases x) (simp add: sync_exchange_def from_exchange_def rtt_of_def Let_def)
    then show ?thesis using Cons.IH [of "sync_exchange x b"] by auto
  next
    case False
    then have "sync_exchange x b = b" by (cases x) (simp add: sync_exchange_def rtt_of_def Let_def)
    then show ?thesis using Cons.IH [of b] by auto
  qed
qed simp

lemma fold_best_min: "min_rtt (fold sync_exchange xs b) \<le> min_rtt b \<and>
    (\<forall>x\<in>set xs. min_rtt (fold sync_exchange xs b) \<le> rtt_of x)"
proof (induction xs arbitrary: b)
  case (Cons x xs)
  have "min_rtt (sync_exchange x b) \<le> min_rtt b" "min_rtt (sync_exchange x b) \<le> rtt_of x"
    by (cases x; simp add: sync_exchange_def rtt_of_def Let_def)+
  then show ?case using Cons.IH [of "sync_exchange x b"] by (auto intro: order_trans)
qed simp

section \<open>The error of the offset\<close>

text \<open>
  \<open>plausible\<close>: the server read its clock, which is \<open>theta\<close> behind the local one, between the
  moments the request was stamped and the response arrived, and the times are in the range of
  73 years around zero.
\<close>

definition plausible :: "int \<Rightarrow> int \<times> int \<times> int \<Rightarrow> bool" where
  "plausible theta x \<longleftrightarrow> (case x of (t1, t2, t3) \<Rightarrow>
     t1 \<le> t2 + theta \<and> t2 + theta \<le> t3 \<and> \<bar>t1\<bar> < 2 ^ 61 \<and> \<bar>t2\<bar> < 2 ^ 61 \<and> \<bar>t3\<bar> < 2 ^ 61)"

text \<open>
  C16: After a synchronization the offset is wrong by at most half of the shortest round trip
  (rounded up), for every round trip that was measured: with symmetric or asymmetric delays, and
  without overflow.
\<close>

theorem offset_error_bounded:
  assumes "list_all (plausible theta) (exchanges clock answer)" "x \<in> set (exchanges clock answer)"
  shows "2 * \<bar>time_offset (do_synchronize clock answer s) - theta\<bar> \<le> rtt_of x + 1"
proof -
  define b where "b = fold sync_exchange (exchanges clock answer) no_best"
  have small: "rtt_of y = snd (snd y) - fst y" "0 \<le> rtt_of y" "rtt_of y < INT64_MAX" if "plausible theta y" for y
  proof -
    have "wrap64 (snd (snd y) - fst y) = snd (snd y) - fst y"
      by (rule wrap64_id) (use that in \<open>auto simp: plausible_def\<close>)
    then show "rtt_of y = snd (snd y) - fst y" "0 \<le> rtt_of y" "rtt_of y < INT64_MAX"
      using that by (auto simp: plausible_def rtt_of_def INT64_MAX_def case_prod_unfold)
  qed
  have px: "plausible theta x" using assms by (simp add: list_all_iff)
  have le: "min_rtt b \<le> rtt_of x" using fold_best_min assms(2) by (simp add: b_def)
  then have "b \<noteq> no_best" using small(3) [OF px] by (auto simp: no_best_def)
  then obtain y where y: "y \<in> set (exchanges clock answer)" "from_exchange b y"
    using fold_best [of "exchanges clock answer" no_best] by (auto simp: b_def)
  have py: "plausible theta y" using assms(1) y(1) by (simp add: list_all_iff)
  have b: "min_rtt b = min_t3 b - min_t1 b" "0 \<le> min_rtt b"
    using y(2) small [OF py] by (auto simp: from_exchange_def)
  have range: "min_t1 b \<le> min_t2 b + theta" "min_t2 b + theta \<le> min_t3 b"
    "\<bar>min_t1 b\<bar> < 2 ^ 61" "\<bar>min_t2 b\<bar> < 2 ^ 61" "\<bar>min_t3 b\<bar> < 2 ^ 61"
    using py y(2) by (auto simp: plausible_def from_exchange_def)
  define h where "h = min_rtt b div 2"
  have h: "half (min_rtt b) = h" "2 * h \<le> min_rtt b" "min_rtt b \<le> 2 * h + 1" "0 \<le> h"
    using b(2) by (auto simp: half_def h_def)
  have w1: "wrap64 (min_t1 b + h) = min_t1 b + h"
    by (rule wrap64_id) (use range b h in auto)
  have w2: "wrap64 (min_t1 b + h - min_t2 b) = min_t1 b + h - min_t2 b"
    by (rule wrap64_id) (use range b h in auto)
  have "time_offset (do_synchronize clock answer s) = min_t1 b + h - min_t2 b"
    using w1 w2 h(1) by (simp add: do_synchronize_def Let_def b_def [symmetric])
  moreover have "min_t1 b + h - min_t2 b - theta \<le> h" "h - min_rtt b \<le> min_t1 b + h - min_t2 b - theta"
    using range(1,2) b(1) by simp_all
  ultimately have "2 * \<bar>time_offset (do_synchronize clock answer s) - theta\<bar> \<le> min_rtt b + 1"
    using h(2,3) by (simp add: abs_if)
  then show ?thesis using le by simp
qed

theorem offset_error_bounded_witness:
  "2 * \<bar>time_offset (do_synchronize (\<lambda>k. int k * 10) (\<lambda>i. int i * 20 + 3 - 7) sync_init) - 7\<bar> \<le> 11"
proof -
  have "list_all (plausible 7) (exchanges (\<lambda>k. int k * 10) (\<lambda>i. int i * 20 + 3 - 7))"
    by (auto simp: exchanges_def plausible_def sync_iterations_def list_all_iff)
  moreover have "(0, - 4, 10) \<in> set (exchanges (\<lambda>k. int k * 10) (\<lambda>i. int i * 20 + 3 - 7))"
    by (auto simp: exchanges_def sync_iterations_def image_iff intro!: bexI [of _ 0])
  ultimately have "2 * \<bar>time_offset (do_synchronize (\<lambda>k. int k * 10) (\<lambda>i. int i * 20 + 3 - 7) sync_init) - 7\<bar>
      \<le> rtt_of (0, - 4, 10) + 1"
    by (rule offset_error_bounded)
  then show ?thesis by (simp add: rtt_of_def wrap64_def)
qed

end
