(* ===== verification/Client_Entry.thy ===== *)
theory Client_Entry
  imports Function_Layers Ext_Names Rpc_Builds Synchronization Xr_Results "HOL-Library.AList"
begin

text \<open>
  The entry of the client, \<open>src/client/entry.cpp\<close> and \<open>src/client/available_extensions.cpp\<close>: the
  negotiation with the OpenXR loader, the extensions on offer, the creation of the instance and
  \<open>xrGetInstanceProcAddr\<close>. The answers of the server and the client modules are parameters. A
  \<open>std::unordered_map\<close> that is iterated is an association list in the order of the iteration.
\<close>

section \<open>Functions and modules\<close>

text \<open>A function pointer: a generated stub, a function of \<open>entry.cpp\<close>, or one of a module.\<close>

datatype pfn = Rpc_stub string | Entry_function string | Module_function string string

record module_extension =
  me_name :: string
  me_version :: u32
  me_functions :: "string list"

record module_info =
  mi_extensions :: "module_extension list"
  mi_functions :: "(string \<times> pfn) list"

record extension_info =
  ext_version :: u32
  ext_function_names :: "string list"

definition init_with_rpc_functions :: "string list \<Rightarrow> pfn fun_table \<Rightarrow> pfn fun_table" where
  "init_with_rpc_functions exts table = fold (\<lambda>f. emplace f (Rpc_stub f)) (function_table exts) table"

text \<open>Linux and Android; the two clock functions have other names on Windows.\<close>

definition built_in_functions :: "(string \<times> pfn) list" where
  "built_in_functions =
     map (\<lambda>f. (f, Entry_function f))
       [''xrGetInstanceProcAddr'', ''xrEnumerateInstanceExtensionProperties'', ''xrCreateInstance'', ''xrPollEvent'',
        ''xrConvertTimespecTimeToTimeKHR'', ''xrConvertTimeToTimespecTimeKHR'', ''xrtransportGetTransport'']"

definition layer_built_in_functions :: "pfn fun_table \<Rightarrow> pfn fun_table" where
  "layer_built_in_functions table = snd (add_layers add_function_layer built_in_functions table)"

definition layer_module_functions :: "module_info list \<Rightarrow> pfn fun_table \<Rightarrow> pfn fun_table" where
  "layer_module_functions modules table =
     fold (\<lambda>m t. snd (add_layers add_function_layer (mi_functions m) t)) modules table"

section \<open>Available extensions\<close>

type_synonym extension_map = "(string \<times> extension_info) list"

definition emplace_extension :: "string \<Rightarrow> extension_info \<Rightarrow> extension_map \<Rightarrow> extension_map" where
  "emplace_extension name info m = (if map_of m name = None then m @ [(name, info)] else m)"

definition compiled :: "string list \<Rightarrow> (string \<times> 'a) list \<Rightarrow> (string \<times> 'a) list" where
  "compiled exts rows = filter (\<lambda>(e, r). e \<in> set exts) rows"

definition out_of_range :: exn where
  "out_of_range = Std_exception ''unordered_map::at''"

text \<open>The loop over the extensions of the server; \<open>spec_version\<close> are the version macros.\<close>

fun server_extensions ::
  "string list \<Rightarrow> (string \<Rightarrow> u32) \<Rightarrow> (string \<times> u32) list \<Rightarrow> extension_map \<Rightarrow> extension_map outcome" where
  "server_extensions exts spec_version [] m = Ret m"
| "server_extensions exts spec_version ((name, server_version) # props) m =
     (case map_of (compiled exts enabled_extensions) name of
        None \<Rightarrow> server_extensions exts spec_version props m
      | Some transport_version \<Rightarrow>
          (case map_of (compiled exts extension_functions) name of
             None \<Rightarrow> Throw out_of_range
           | Some fs \<Rightarrow>
               server_extensions exts spec_version props
                 (emplace_extension name
                   \<lparr>ext_version = min (spec_version transport_version) server_version, ext_function_names = fs\<rparr> m)))"

record platform =
  android :: bool
  current_api_version :: u64

definition convert_timespec_time :: extension_info where
  "convert_timespec_time =
     \<lparr>ext_version = 1, ext_function_names = [''xrConvertTimespecTimeToTimeKHR'', ''xrConvertTimeToTimespecTimeKHR'']\<rparr>"

text \<open>The two calls of \<open>rpc::xrEnumerateInstanceExtensionProperties\<close>: their results and the vector.\<close>

definition collect_rpc_available_extensions ::
  "platform \<Rightarrow> string list \<Rightarrow> (string \<Rightarrow> u32) \<Rightarrow> xr_result \<Rightarrow> xr_result \<Rightarrow> (string \<times> u32) list \<Rightarrow>
   extension_map outcome" where
  "collect_rpc_available_extensions pl exts spec_version count_result list_result props =
     (if \<not> XR_SUCCEEDED count_result then Ret []
      else if \<not> XR_SUCCEEDED list_result then Ret []
      else obind (server_extensions exts spec_version props []) (\<lambda>m.
        let m = emplace_extension ''XR_KHR_convert_timespec_time'' convert_timespec_time m
        in Ret (if android pl
                then emplace_extension ''XR_KHR_android_create_instance''
                       \<lparr>ext_version = 3, ext_function_names = []\<rparr> m
                else m)))"

text \<open>The extensions of the modules replace those of the server.\<close>

definition module_extensions :: "module_info list \<Rightarrow> module_extension list" where
  "module_extensions modules = concat (map mi_extensions modules)"

definition add_module_extensions :: "module_info list \<Rightarrow> extension_map \<Rightarrow> extension_map" where
  "add_module_extensions modules m =
     fold (\<lambda>e. AList.update (me_name e) \<lparr>ext_version = me_version e, ext_function_names = me_functions e\<rparr>)
       (module_extensions modules) m"

definition collect_available_extensions ::
  "platform \<Rightarrow> string list \<Rightarrow> (string \<Rightarrow> u32) \<Rightarrow> xr_result \<Rightarrow> xr_result \<Rightarrow> (string \<times> u32) list \<Rightarrow>
   module_info list \<Rightarrow> extension_map outcome" where
  "collect_available_extensions pl exts spec_version count_result list_result props modules =
     obind (collect_rpc_available_extensions pl exts spec_version count_result list_result props)
       (\<lambda>m. Ret (add_module_extensions modules m))"

section \<open>State\<close>

record entry =
  table_of :: "pfn fun_table"
  modules_of :: "module_info list"
  available_extensions :: extension_map
  available_functions :: "string set"
  client_instance :: u64
  client_sync :: sync_state
  instance_callbacks :: "(nat \<times> u64) list"

definition global_functions :: "string list" where
  "global_functions =
     [''xrEnumerateInstanceExtensionProperties'', ''xrEnumerateApiLayerProperties'', ''xrCreateInstance'']"

definition entry_init :: entry where
  "entry_init =
     \<lparr>table_of = \<lambda>n. None, modules_of = [], available_extensions = [],
      available_functions = set global_functions, client_instance = 0, client_sync = sync_init, instance_callbacks = []\<rparr>"

section \<open>Negotiation with the loader\<close>

record loader_info =
  li_type :: u32
  li_version :: u32
  li_size :: u64
  li_min_interface :: u32
  li_max_interface :: u32
  li_min_api :: u64
  li_max_api :: u64

record runtime_request =
  rr_type :: u32
  rr_version :: u32
  rr_size :: u64

text \<open>The constants of \<open>openxr_loader_negotiation.h\<close>.\<close>

record loader_constants =
  loader_info_type :: u32
  loader_info_version :: u32
  loader_info_size :: u64
  runtime_request_type :: u32
  runtime_info_version :: u32
  runtime_request_size :: u64
  loader_interface_version :: u32

definition XR_ERROR_INITIALIZATION_FAILED :: xr_result where "XR_ERROR_INITIALIZATION_FAILED = - 6"

definition negotiation_refused ::
  "loader_constants \<Rightarrow> platform \<Rightarrow> loader_info option \<Rightarrow> runtime_request option \<Rightarrow> bool" where
  "negotiation_refused k pl info request =
     (case (info, request) of
        (Some i, Some r) \<Rightarrow>
          li_type i \<noteq> loader_info_type k \<or> li_version i \<noteq> loader_info_version k \<or> li_size i \<noteq> loader_info_size k \<or>
          rr_type r \<noteq> runtime_request_type k \<or> rr_version r \<noteq> runtime_info_version k \<or>
          rr_size r \<noteq> runtime_request_size k \<or>
          li_min_interface i > loader_interface_version k \<or> li_max_interface i < loader_interface_version k \<or>
          li_min_api i > current_api_version pl \<or> li_max_api i < current_api_version pl
      | _ \<Rightarrow> True)"

definition negotiate ::
  "loader_constants \<Rightarrow> platform \<Rightarrow> string list \<Rightarrow> (string \<Rightarrow> u32) \<Rightarrow> module_info list \<Rightarrow>
   xr_result \<Rightarrow> xr_result \<Rightarrow> (string \<times> u32) list \<Rightarrow> loader_info option \<Rightarrow> runtime_request option \<Rightarrow>
   entry \<Rightarrow> xr_result outcome \<times> entry" where
  "negotiate k pl exts spec_version modules count_result list_result props info request e =
     (if negotiation_refused k pl info request then (Ret XR_ERROR_INITIALIZATION_FAILED, e)
      else
        let e1 = e\<lparr>table_of := layer_built_in_functions (init_with_rpc_functions exts (table_of e)),
                    modules_of := modules\<rparr>
        in case collect_available_extensions pl exts spec_version count_result list_result props modules of
             Ret m \<Rightarrow>
               (Ret XR_SUCCESS,
                e1\<lparr>available_extensions := m, table_of := layer_module_functions modules (table_of e1)\<rparr>)
           | Throw x \<Rightarrow> (Throw x, e1)
           | _ \<Rightarrow> (Fault, e1))"

section \<open>Functions of the instance\<close>

text \<open>
  The result, and what is written through \<open>function\<close>: nothing, a null pointer, or a function.
\<close>

definition get_instance_proc_addr ::
  "u64 \<Rightarrow> string option \<Rightarrow> bool \<Rightarrow> entry \<Rightarrow> xr_result \<times> pfn option option" where
  "get_instance_proc_addr inst name has_function e =
     (if \<not> has_function then (XR_ERROR_HANDLE_INVALID, None)
      else case name of
        None \<Rightarrow> (XR_ERROR_FUNCTION_UNSUPPORTED, None)
      | Some n \<Rightarrow>
          if n = ''xrtransportGetTransport''
          then (XR_SUCCESS, Some (Some (Entry_function ''xrtransportGetTransport'')))
          else if inst = 0 \<and> n \<notin> set global_functions then (XR_ERROR_HANDLE_INVALID, Some None)
          else if n \<notin> available_functions e then (XR_ERROR_FUNCTION_UNSUPPORTED, None)
          else (case get_function (table_of e) n of
                  Some f \<Rightarrow> (XR_SUCCESS, Some (Some f))
                | None \<Rightarrow> (XR_ERROR_FUNCTION_UNSUPPORTED, None)))"

text \<open>The result, the count if it is written, and the properties that are written.\<close>

definition XR_MAX_EXTENSION_NAME_SIZE :: nat where "XR_MAX_EXTENSION_NAME_SIZE = 128"

definition enumerate_instance_extension_properties ::
  "bool \<Rightarrow> u32 \<Rightarrow> entry \<Rightarrow> (xr_result \<times> u32 option \<times> (string \<times> u32) list) outcome" where
  "enumerate_instance_extension_properties has_layer capacity e =
     (if has_layer then Ret (XR_SUCCESS, Some 0, [])
      else
        let extension_count = word_of_nat (length (available_extensions e))
        in if capacity \<noteq> 0 \<and> capacity < extension_count
           then Ret (XR_ERROR_SIZE_INSUFFICIENT, Some extension_count, [])
           else if capacity = 0 then Ret (XR_SUCCESS, Some extension_count, [])
           else if list_all (\<lambda>(n, i). length n < XR_MAX_EXTENSION_NAME_SIZE) (available_extensions e)
           then Ret (XR_SUCCESS, None, map (\<lambda>(n, i). (n, ext_version i)) (available_extensions e))
           else Fault)"

text \<open>
  \<open>remove_from_chain\<close> on the structure types of the \<open>next\<close> chain: the first struct of the type, if
  any, and the chain without all of them.
\<close>

fun remove_loop :: "u32 option \<Rightarrow> u32 \<Rightarrow> u32 list \<Rightarrow> u32 option \<times> u32 list" where
  "remove_loop result target [] = (result, [])"
| "remove_loop result target (t # ts) =
     (if t = target then remove_loop (if result = None then Some t else result) target ts
      else (case remove_loop result target ts of (r, ts') \<Rightarrow> (r, t # ts')))"

definition remove_from_chain :: "u32 \<Rightarrow> u32 list \<Rightarrow> u32 option \<times> u32 list" where
  "remove_from_chain target chain = remove_loop None target chain"

record create_info =
  ci_api_version :: u64
  ci_chain :: "u32 list"
  ci_extensions :: "string list"

definition XR_TYPE_INSTANCE_CREATE_INFO_ANDROID_KHR :: u32 where
  "XR_TYPE_INSTANCE_CREATE_INFO_ANDROID_KHR = 1000008000"

definition provided_extensions :: "platform \<Rightarrow> module_info list \<Rightarrow> string list" where
  "provided_extensions pl modules =
     map me_name (module_extensions modules) @ (if android pl then [''XR_KHR_android_create_instance''] else [])"

definition functions_of_extensions :: "string list \<Rightarrow> extension_map \<Rightarrow> string list" where
  "functions_of_extensions names m =
     concat (map (\<lambda>n. case map_of m n of Some i \<Rightarrow> ext_function_names i | None \<Rightarrow> []) names)"

text \<open>What is sent to the server\<close>

definition modified_create_info :: "platform \<Rightarrow> module_info list \<Rightarrow> create_info \<Rightarrow> create_info" where
  "modified_create_info pl modules info =
     info\<lparr>ci_chain := (if android pl
                        then snd (remove_from_chain XR_TYPE_INSTANCE_CREATE_INFO_ANDROID_KHR (ci_chain info))
                        else ci_chain info),
          ci_extensions := filter (\<lambda>n. n \<notin> set (provided_extensions pl modules)) (ci_extensions info)\<rparr>"

text \<open>The functions that become available\<close>

definition populate_functions :: "create_info \<Rightarrow> entry \<Rightarrow> entry" where
  "populate_functions info e =
     e\<lparr>available_functions := available_functions e \<union>
         set (functions_of_extensions (ci_extensions info) (available_extensions e)) \<union> set core_functions\<rparr>"

text \<open>What follows the call of the server\<close>

definition finish_creation :: "xr_result \<Rightarrow> u64 \<Rightarrow> entry \<Rightarrow> entry" where
  "finish_creation result handle e =
     (if XR_SUCCEEDED result
      then e\<lparr>client_instance := handle, client_sync := enable_synchronization (client_sync e),
             instance_callbacks := instance_callbacks e @ map (\<lambda>i. (i, handle)) [0..<length (modules_of e)]\<rparr>
      else e\<lparr>available_functions := {}\<rparr>)"

definition android_info_missing :: "platform \<Rightarrow> create_info \<Rightarrow> bool" where
  "android_info_missing pl info \<longleftrightarrow>
     android pl \<and> fst (remove_from_chain XR_TYPE_INSTANCE_CREATE_INFO_ANDROID_KHR (ci_chain info)) = None"

text \<open>
  \<open>call\<close> is \<open>rpc::xrCreateInstance\<close>: its result and the handle it leaves in \<open>instance\<close>. The state
  of the server is threaded through.
\<close>

definition create_instance ::
  "platform \<Rightarrow> (create_info \<Rightarrow> 's \<Rightarrow> (xr_result \<times> u64) \<times> 's) \<Rightarrow> create_info \<Rightarrow> entry \<Rightarrow> 's \<Rightarrow>
   (xr_result \<times> u64 option) \<times> entry \<times> 's" where
  "create_instance pl call info e s =
     (if client_instance e \<noteq> 0 then ((XR_ERROR_LIMIT_REACHED, None), e, s)
      else if ci_api_version info > current_api_version pl then ((XR_ERROR_API_VERSION_UNSUPPORTED, None), e, s)
      else if \<not> list_all (\<lambda>n. map_of (available_extensions e) n \<noteq> None) (ci_extensions info)
      then ((XR_ERROR_EXTENSION_NOT_PRESENT, None), e, s)
      else if android_info_missing pl info
      then ((XR_ERROR_INITIALIZATION_FAILED, None), populate_functions info e, s)
      else (case call (modified_create_info pl (modules_of e) info) s of
              ((result, handle), s') \<Rightarrow>
                ((result, Some handle), finish_creation result handle (populate_functions info e), s')))"

lemma create_instance_cases:
  assumes "create_instance pl call info e s = (r, e', s')"
  obtains "e' = e" "snd r = None" "s' = s"
    | "e' = populate_functions info e" "snd r = None" "s' = s"
    | result handle where "client_instance e = 0"
      "call (modified_create_info pl (modules_of e) info) s = ((result, handle), s')"
      "r = (result, Some handle)" "e' = finish_creation result handle (populate_functions info e)"
proof -
  let ?bad = "client_instance e \<noteq> 0 \<or> ci_api_version info > current_api_version pl \<or>
    \<not> list_all (\<lambda>n. map_of (available_extensions e) n \<noteq> None) (ci_extensions info)"
  obtain result handle t where c: "call (modified_create_info pl (modules_of e) info) s = ((result, handle), t)"
    by (metis surj_pair)
  consider ?bad | "\<not> ?bad" "android_info_missing pl info" | "\<not> ?bad" "\<not> android_info_missing pl info" by blast
  then show thesis
  proof cases
    case 1
    then have "e' = e \<and> snd r = None \<and> s' = s"
      using assms unfolding create_instance_def by (elim disjE) (auto split: if_splits)
    then show thesis by (intro that(1)) auto
  next
    case 2
    then have "e' = populate_functions info e \<and> snd r = None \<and> s' = s"
      using assms unfolding create_instance_def by auto
    then show thesis by (intro that(2)) auto
  next
    case 3
    then have "r = (result, Some handle) \<and> e' = finish_creation result handle (populate_functions info e) \<and> s' = t"
      using assms c unfolding create_instance_def by auto
    then show thesis using 3(1) c by (intro that(3)) auto
  qed
qed

lemma populate_functions_simps [simp]:
  "table_of (populate_functions info e) = table_of e" "modules_of (populate_functions info e) = modules_of e"
  "available_extensions (populate_functions info e) = available_extensions e"
  "client_sync (populate_functions info e) = client_sync e"
  by (simp_all add: populate_functions_def)

lemma finish_creation_simps [simp]:
  "table_of (finish_creation r h e) = table_of e" "modules_of (finish_creation r h e) = modules_of e"
  "available_extensions (finish_creation r h e) = available_extensions e"
  "available_functions (finish_creation r h e) \<subseteq> available_functions e"
  "XR_SUCCEEDED r \<Longrightarrow> available_functions (finish_creation r h e) = available_functions e"
  "XR_SUCCEEDED r \<Longrightarrow> client_instance (finish_creation r h e) = h"
  "XR_SUCCEEDED r \<Longrightarrow> client_sync (finish_creation r h e) = enable_synchronization (client_sync e)"
  "\<not> XR_SUCCEEDED r \<Longrightarrow> available_functions (finish_creation r h e) = {}"
  by (simp_all add: finish_creation_def)

section \<open>The generated tables\<close>

lemma extension_functions_listed: "flatten extension_functions = flatten ext_function_rows"
  unfolding extension_functions_def ext_function_rows_def extension_functions_defs ext_function_rows_defs
  by (simp add: flatten_def)

lemma core_functions_listed: "core_functions = core_function_table"
  unfolding core_functions_def core_function_table_def by (rule refl)

lemma compiled_functions:
  assumes "map_of (compiled exts extension_functions) e = Some fs" "f \<in> set fs"
  shows "f \<in> set (function_table exts)"
proof -
  have e: "(e, fs) \<in> set extension_functions" "e \<in> set exts"
    using map_of_SomeD [OF assms(1)] by (auto simp: compiled_def)
  then have "(e, f) \<in> set (flatten extension_functions)"
    using assms(2) by (force simp: flatten_def)
  then have "(e, f) \<in> set (flatten ext_function_rows)" by (simp only: extension_functions_listed)
  then show ?thesis using e(2) by (force simp: function_table_def enabled_flatten)
qed

text \<open>Every extension that can be compiled has a row of functions, so that \<open>at\<close> never throws.\<close>

lemma extensions_have_functions: "map fst extension_functions = map fst enabled_extensions"
  unfolding extension_functions_def enabled_extensions_def extension_functions_defs enabled_extensions_defs
  by simp

lemma compiled_functions_exist:
  "map_of (compiled exts enabled_extensions) e = Some v \<Longrightarrow> \<exists>fs. map_of (compiled exts extension_functions) e = Some fs"
proof -
  assume "map_of (compiled exts enabled_extensions) e = Some v"
  from map_of_SomeD [OF this] have v: "(e, v) \<in> set enabled_extensions" "e \<in> set exts"
    by (simp_all add: compiled_def)
  have "e \<in> fst ` set enabled_extensions" using v(1) by (rule image_eqI [rotated]) simp
  moreover have "fst ` set extension_functions = fst ` set enabled_extensions"
    using arg_cong [OF extensions_have_functions, of set] by simp
  ultimately have "e \<in> fst ` set (compiled exts extension_functions)"
    using v(2) by (force simp: compiled_def)
  then show ?thesis by (metis map_of_eq_None_iff not_None_eq)
qed

section \<open>The functions an application can get\<close>

text \<open>
  A module must layer every function that it advertises and that has no generated stub
  (\<open>include/xrtransport/client/module_interface.h\<close>).
\<close>

definition module_ok :: "string list \<Rightarrow> module_info \<Rightarrow> bool" where
  "module_ok exts m \<longleftrightarrow>
     (\<forall>x f. x \<in> set (mi_extensions m) \<longrightarrow> f \<in> set (me_functions x) \<longrightarrow>
        f \<in> fst ` set (mi_functions m) \<or> f \<in> set (function_table exts))"

definition served :: "pfn fun_table \<Rightarrow> string list \<Rightarrow> bool" where
  "served t fs \<longleftrightarrow> (\<forall>f. f \<in> set fs \<longrightarrow> get_function t f \<noteq> None)"

definition entry_ok :: "entry \<Rightarrow> bool" where
  "entry_ok e \<longleftrightarrow>
     (\<forall>f. f \<in> available_functions e \<longrightarrow> get_function (table_of e) f \<noteq> None) \<and>
     (\<forall>n i. (n, i) \<in> set (available_extensions e) \<longrightarrow> served (table_of e) (ext_function_names i)) \<and>
     served (table_of e) core_functions"

lemma emplace_served: "get_function (emplace n f t) m = (if m = n \<and> t n = None then Some f else t m)"
  by (auto simp: emplace_def get_function_def)

lemma init_with_rpc_functions_served: "served (init_with_rpc_functions exts t) (function_table exts)"
proof -
  have keep: "get_function t m \<noteq> None \<Longrightarrow> get_function (fold (\<lambda>f. emplace f (Rpc_stub f)) fs t) m \<noteq> None" for fs t m
    by (induction fs arbitrary: t) (auto simp: emplace_served get_function_def emplace_def)
  have "f \<in> set fs \<Longrightarrow> get_function (fold (\<lambda>f. emplace f (Rpc_stub f)) fs t) f \<noteq> None" for f fs
    using keep by (induction fs arbitrary: t) (auto simp: emplace_served)
  then show ?thesis by (simp add: served_def init_with_rpc_functions_def)
qed

lemma module_layers_mono: "get_function t n \<noteq> None \<Longrightarrow> get_function (layer_module_functions ms t) n \<noteq> None"
  unfolding layer_module_functions_def
proof (induction ms arbitrary: t)
  case (Cons m ms)
  show ?case unfolding fold.simps comp_def by (rule Cons.IH [OF ft.lookup_layers_mono [OF Cons.prems]])
qed simp

lemma module_layers_served:
  "m \<in> set ms \<Longrightarrow> n \<in> fst ` set (mi_functions m) \<Longrightarrow> get_function (layer_module_functions ms t) n \<noteq> None"
  unfolding layer_module_functions_def
proof (induction ms arbitrary: t)
  case (Cons x ms)
  show ?case
  proof (cases "m = x")
    case True
    have "top_layer (mi_functions m) n \<noteq> None" using Cons.prems(2) by (simp add: top_layer_None_iff)
    then have "get_function (snd (add_layers add_function_layer (mi_functions m) t)) n \<noteq> None"
      by (auto simp: ft.lookup_layers)
    then show ?thesis using module_layers_mono True by (simp add: layer_module_functions_def)
  next
    case False
    then show ?thesis using Cons by simp
  qed
qed simp

lemma emplace_extension_in:
  "(n, i) \<in> set (emplace_extension name info m) \<Longrightarrow> (n, i) \<in> set m \<or> (n = name \<and> i = info)"
  by (auto simp: emplace_extension_def split: if_splits)

text \<open>Where the functions of an extension on offer come from.\<close>

lemma server_extensions_from:
  "server_extensions exts v props m = Ret m' \<Longrightarrow> (n, i) \<in> set m' \<Longrightarrow>
   (n, i) \<in> set m \<or> map_of (compiled exts extension_functions) n = Some (ext_function_names i)"
proof (induction props arbitrary: m)
  case (Cons p props)
  obtain name sv where p: "p = (name, sv)" by (cases p)
  show ?case
  proof (cases "map_of (compiled exts enabled_extensions) name")
    case None
    then show ?thesis using Cons p by simp
  next
    case (Some tv)
    then obtain fs where fs: "map_of (compiled exts extension_functions) name = Some fs"
      using compiled_functions_exist by blast
    show ?thesis
      using Cons.IH [of "emplace_extension name \<lparr>ext_version = min (v tv) sv, ext_function_names = fs\<rparr> m"] Cons.prems Some fs p
      by (auto dest: emplace_extension_in)
  qed
qed simp

lemma server_extensions_Ret: "\<exists>m'. server_extensions exts v props m = Ret m'"
proof (induction props arbitrary: m)
  case (Cons p props)
  then show ?case using compiled_functions_exist [of exts "fst p"] 
    by (cases p; cases "map_of (compiled exts enabled_extensions) (fst p)") (auto split: option.split)
qed simp

lemma rpc_extensions_from:
  assumes "collect_rpc_available_extensions pl exts v r1 r2 props = Ret m" "(n, i) \<in> set m" "f \<in> set (ext_function_names i)"
  shows "f \<in> set (function_table exts) \<or> f \<in> fst ` set built_in_functions"
proof -
  have built_in: "set (ext_function_names convert_timespec_time) \<subseteq> fst ` set built_in_functions"
    by (simp add: convert_timespec_time_def built_in_functions_def)
  obtain m0 where m0: "server_extensions exts v props [] = Ret m0" using server_extensions_Ret by blast
  then have "(n, i) \<in> set m0 \<or> i = convert_timespec_time \<or> i = \<lparr>ext_version = 3, ext_function_names = []\<rparr>"
    using assms(1,2) by (auto simp: collect_rpc_available_extensions_def Let_def split: if_splits dest!: emplace_extension_in)
  then show ?thesis using server_extensions_from [OF m0, of n i] compiled_functions assms(3) built_in by auto
qed

lemma update_in: "(n, i) \<in> set (AList.update k x al) \<Longrightarrow> (n, i) \<in> set al \<or> (n = k \<and> i = x)"
  by (induction al) (auto split: if_splits)

lemma module_extensions_from:
  "(n, i) \<in> set (fold (\<lambda>e. AList.update (me_name e) \<lparr>ext_version = me_version e, ext_function_names = me_functions e\<rparr>) xs m) \<Longrightarrow>
   (n, i) \<in> set m \<or> (\<exists>x. x \<in> set xs \<and> ext_function_names i = me_functions x)"
proof (induction xs arbitrary: m)
  case (Cons x xs)
  then show ?case by (fastforce dest: update_in)
qed simp

lemma negotiation_ok:
  assumes modules: "\<And>m. m \<in> set modules \<Longrightarrow> module_ok exts m"
    and avail: "available_functions e0 = set global_functions"
    and neg: "negotiate k pl exts v modules r1 r2 props info request e0 = (Ret XR_SUCCESS, e)"
  shows "entry_ok e"
proof -
  let ?t = "layer_built_in_functions (init_with_rpc_functions exts (table_of e0))"
  obtain m where m: "collect_available_extensions pl exts v r1 r2 props modules = Ret m"
    and e: "table_of e = layer_module_functions modules ?t" "available_extensions e = m"
      "available_functions e = set global_functions"
    using neg avail by (auto simp: negotiate_def Let_def XR_ERROR_INITIALIZATION_FAILED_def XR_SUCCESS_def
        split: if_splits outcome.splits)
  have table: "get_function (table_of e) f \<noteq> None" if "f \<in> set (function_table exts) \<or> f \<in> fst ` set built_in_functions" for f
  proof -
    have "get_function ?t f \<noteq> None"
    proof (cases "f \<in> fst ` set built_in_functions")
      case True
      then show ?thesis unfolding layer_built_in_functions_def
        using top_layer_None_iff [of built_in_functions f] by (auto simp: ft.lookup_layers)
    next
      case False
      then show ?thesis unfolding layer_built_in_functions_def
        using init_with_rpc_functions_served that by (intro ft.lookup_layers_mono) (simp add: served_def)
    qed
    then show ?thesis unfolding e(1) by (rule module_layers_mono)
  qed
  have core: "f \<in> set (function_table exts)" if "f \<in> set core_functions" for f
    using that by (simp add: function_table_def core_functions_listed)
  have global: "f \<in> set core_functions" if "f \<in> set global_functions" for f
    using that by (auto simp: global_functions_def core_functions_def)
  have "get_function (table_of e) f \<noteq> None" if i: "(n, i) \<in> set m" and f: "f \<in> set (ext_function_names i)" for n i f
  proof -
    obtain m0 where m0: "collect_rpc_available_extensions pl exts v r1 r2 props = Ret m0" "m = add_module_extensions modules m0"
      using m by (cases "collect_rpc_available_extensions pl exts v r1 r2 props") (auto simp: collect_available_extensions_def)
    consider "(n, i) \<in> set m0" | x where "x \<in> set (module_extensions modules)" "ext_function_names i = me_functions x"
      using module_extensions_from i m0(2) unfolding add_module_extensions_def by blast
    then show ?thesis
    proof cases
      case 1
      then show ?thesis using rpc_extensions_from [OF m0(1) 1 f] table by blast
    next
      case 2
      then obtain mo where mo: "mo \<in> set modules" "x \<in> set (mi_extensions mo)" by (auto simp: module_extensions_def)
      have "f \<in> set (me_functions x)" using f 2(2) by simp
      then have "f \<in> fst ` set (mi_functions mo) \<or> f \<in> set (function_table exts)"
        using modules [OF mo(1)] mo(2) unfolding module_ok_def by blast
      then show ?thesis using table module_layers_served [OF mo(1)] e(1) by metis
    qed
  qed
  then show ?thesis using table core global by (auto simp: entry_ok_def served_def e)
qed

section \<open>Creating instances\<close>

lemma create_instance_table:
  assumes "create_instance pl call info e s = (r, e', s')"
  shows "table_of e' = table_of e" "available_extensions e' = available_extensions e"
  using assms by (rule create_instance_cases; simp)+

lemma functions_of_extensions_served:
  assumes "entry_ok e" "f \<in> set (functions_of_extensions names (available_extensions e))"
  shows "get_function (table_of e) f \<noteq> None"
proof -
  obtain n where n: "f \<in> set (case map_of (available_extensions e) n of Some i \<Rightarrow> ext_function_names i | None \<Rightarrow> [])"
    using assms(2) by (auto simp: functions_of_extensions_def)
  then obtain i where i: "map_of (available_extensions e) n = Some i" "f \<in> set (ext_function_names i)"
    by (cases "map_of (available_extensions e) n") simp_all
  then have "served (table_of e) (ext_function_names i)"
    using assms(1) map_of_SomeD [OF i(1)] unfolding entry_ok_def by blast
  then show ?thesis using i(2) by (simp add: served_def)
qed

lemma create_instance_ok:
  assumes "entry_ok e" "create_instance pl call info e s = (r, e', s')"
  shows "entry_ok e'"
proof -
  have "available_functions e' \<subseteq> available_functions (populate_functions info e) \<union> available_functions e"
    by (rule create_instance_cases [OF assms(2)]) (auto dest: subsetD [OF finish_creation_simps(4)])
  moreover have "get_function (table_of e) f \<noteq> None"
    if f: "f \<in> available_functions (populate_functions info e) \<union> available_functions e" for f
  proof -
    consider "f \<in> available_functions e" | "f \<in> set (functions_of_extensions (ci_extensions info) (available_extensions e))"
      | "f \<in> set core_functions"
      using f by (auto simp: populate_functions_def)
    then show ?thesis
      using assms(1) functions_of_extensions_served [OF assms(1)] by cases (auto simp: entry_ok_def served_def)
  qed
  ultimately show ?thesis
    using assms(1) unfolding entry_ok_def create_instance_table [OF assms(2)] by blast
qed

text \<open>A run of \<open>xrCreateInstance\<close> calls of the application.\<close>

fun create_instances ::
  "platform \<Rightarrow> (create_info \<Rightarrow> 's \<Rightarrow> (xr_result \<times> u64) \<times> 's) \<Rightarrow> create_info list \<Rightarrow> entry \<Rightarrow> 's \<Rightarrow>
   (xr_result \<times> u64 option) list \<times> entry \<times> 's" where
  "create_instances pl call [] e s = ([], e, s)"
| "create_instances pl call (i # is) e s =
     (case create_instance pl call i e s of
        (r, e1, s1) \<Rightarrow> (case create_instances pl call is e1 s1 of (rs, e2, s2) \<Rightarrow> (r # rs, e2, s2)))"

lemma create_instances_ok:
  "entry_ok e \<Longrightarrow> create_instances pl call is e s = (rs, e', s') \<Longrightarrow> entry_ok e' \<and> table_of e' = table_of e"
proof (induction "is" arbitrary: e s rs)
  case (Cons i "is")
  obtain r e1 s1 where c: "create_instance pl call i e s = (r, e1, s1)"
    by (cases "create_instance pl call i e s")
  then obtain rs1 where "create_instances pl call is e1 s1 = (rs1, e', s')"
    using Cons.prems(2) by (auto split: prod.splits)
  then show ?case using Cons.IH create_instance_ok [OF Cons.prems(1) c] create_instance_table(1) [OF c] by metis
qed simp

section \<open>A concrete client\<close>

text \<open>A module that layers one function and advertises it with an extension of its own.\<close>

definition small_module :: module_info where
  "small_module =
     \<lparr>mi_extensions = [\<lparr>me_name = ''XR_EXT_small'', me_version = 1, me_functions = [''xrSmall'']\<rparr>],
      mi_functions = [(''xrSmall'', Module_function ''small'' ''xrSmall''), (''xrWaitFrame'', Module_function ''small'' ''xrWaitFrame'')]\<rparr>"

definition small_constants :: loader_constants where
  "small_constants =
     \<lparr>loader_info_type = 1, loader_info_version = 1, loader_info_size = 40, runtime_request_type = 3,
      runtime_info_version = 1, runtime_request_size = 40, loader_interface_version = 1\<rparr>"

definition small_platform :: platform where
  "small_platform = \<lparr>android = False, current_api_version = 10\<rparr>"

definition small_negotiation :: "xr_result outcome \<times> entry" where
  "small_negotiation =
     negotiate small_constants small_platform [] (\<lambda>m. 1) [small_module] XR_ERROR_RUNTIME_FAILURE XR_SUCCESS []
       (Some \<lparr>li_type = 1, li_version = 1, li_size = 40, li_min_interface = 1, li_max_interface = 1, li_min_api = 1, li_max_api = 20\<rparr>)
       (Some \<lparr>rr_type = 3, rr_version = 1, rr_size = 40\<rparr>) entry_init"

definition small_entry :: entry where
  "small_entry = snd small_negotiation"

definition small_info :: create_info where
  "small_info = \<lparr>ci_api_version = 10, ci_chain = [], ci_extensions = [''XR_EXT_small'']\<rparr>"

lemma small_negotiated: "small_negotiation = (Ret XR_SUCCESS, small_entry)"
  by (simp add: small_entry_def small_negotiation_def negotiate_def negotiation_refused_def small_constants_def
      small_platform_def collect_available_extensions_def collect_rpc_available_extensions_def code_simps)

lemma small_entry_simps:
  "available_extensions small_entry = [(''XR_EXT_small'', \<lparr>ext_version = 1, ext_function_names = [''xrSmall'']\<rparr>)]"
  "modules_of small_entry = [small_module]" "client_instance small_entry = 0"
  by (simp_all add: small_entry_def small_negotiation_def negotiate_def negotiation_refused_def small_constants_def
      small_platform_def collect_available_extensions_def collect_rpc_available_extensions_def code_simps
      add_module_extensions_def module_extensions_def small_module_def entry_init_def)

lemma small_extensions: "\<forall>n. n \<in> set (ci_extensions small_info) \<longrightarrow> map_of (available_extensions small_entry) n \<noteq> None"
  by (simp add: small_info_def small_entry_simps)

lemma small_creation:
  "create_instance small_platform call small_info small_entry s =
   (case call (small_info\<lparr>ci_extensions := []\<rparr>) s of
      ((r, h), s') \<Rightarrow> ((r, Some h), finish_creation r h (populate_functions small_info small_entry), s'))"
proof -
  have "modified_create_info small_platform [small_module] small_info = small_info\<lparr>ci_extensions := []\<rparr>"
    by (simp add: modified_create_info_def provided_extensions_def module_extensions_def small_module_def
        small_info_def small_platform_def)
  then show ?thesis
    using small_extensions
    by (simp add: create_instance_def small_entry_simps android_info_missing_def)
      (simp add: small_platform_def small_info_def)
qed

text \<open>
  C17: After the negotiation, whatever extensions the server reports and however many instances are
  created, a valid instance handle gets exactly the functions that are marked available, each from
  the topmost layer of the function table: the lookup of an available function never fails.
\<close>

theorem proc_addr_served:
  assumes "\<And>m. m \<in> set modules \<Longrightarrow> module_ok exts m"
    and "negotiate k pl exts v modules r1 r2 props info request entry_init = (Ret XR_SUCCESS, e0)"
    and "create_instances pl call is e0 s = (rs, e, s')" and "inst \<noteq> 0" "name \<noteq> ''xrtransportGetTransport''"
  shows "(name \<in> available_functions e \<longrightarrow>
      (\<exists>f. table_of e0 name = Some f \<and> get_instance_proc_addr inst (Some name) True e = (XR_SUCCESS, Some (Some f)))) \<and>
    (name \<notin> available_functions e \<longrightarrow>
      get_instance_proc_addr inst (Some name) True e = (XR_ERROR_FUNCTION_UNSUPPORTED, None))"
proof -
  have "available_functions entry_init = set global_functions" by (simp add: entry_init_def)
  from negotiation_ok [OF assms(1) this assms(2)]
  have "entry_ok e0" .
  from create_instances_ok [OF this assms(3)] show ?thesis
    using assms(4,5) by (auto simp: entry_ok_def get_instance_proc_addr_def get_function_def)
qed

theorem proc_addr_served_witness:
  "\<exists>e f. create_instance small_platform (\<lambda>i s. ((XR_SUCCESS, 9), s)) small_info small_entry (0 :: nat)
       = ((XR_SUCCESS, Some 9), e, 0) \<and>
     get_instance_proc_addr 9 (Some ''xrWaitFrame'') True e = (XR_SUCCESS, Some (Some f)) \<and>
     get_instance_proc_addr 9 (Some ''xrUnknown'') True e = (XR_ERROR_FUNCTION_UNSUPPORTED, None)"
proof -
  let ?call = "\<lambda>i s. ((XR_SUCCESS, 9 :: u64), s) :: (xr_result \<times> u64) \<times> nat"
  obtain e where e: "create_instance small_platform ?call small_info small_entry 0 = ((XR_SUCCESS, Some 9), e, 0)"
    "e = finish_creation XR_SUCCESS 9 (populate_functions small_info small_entry)"
    using small_creation [of ?call 0] by simp
  then have runs: "create_instances small_platform ?call [small_info] small_entry 0 = ([(XR_SUCCESS, Some 9)], e, 0)"
    by simp
  have ok: "module_ok [] m" if "m \<in> set [small_module]" for m
    using that by (auto simp: module_ok_def small_module_def)
  have "available_functions small_entry = set global_functions"
    by (simp add: small_entry_def small_negotiation_def negotiate_def negotiation_refused_def small_constants_def
      small_platform_def collect_available_extensions_def collect_rpc_available_extensions_def code_simps entry_init_def)
  then have av: "''xrWaitFrame'' \<in> available_functions e" "''xrUnknown'' \<notin> available_functions e"
    using e(2) by (auto simp: code_simps finish_creation_def populate_functions_def core_functions_def
      functions_of_extensions_def small_info_def small_entry_simps global_functions_def)
  note served = proc_addr_served [OF ok small_negotiated [unfolded small_negotiation_def] runs]
  show ?thesis
    using served [of 9 "''xrWaitFrame''"] served [of 9 "''xrUnknown''"] av e(1) by auto
qed

text \<open>
  When the server refuses an instance, the client forgets the global functions as well: from
  then on \<open>xrGetInstanceProcAddr\<close> does not even return \<open>xrCreateInstance\<close>, so that the
  application cannot try again with other extensions.
\<close>

theorem failed_creation_locks_out:
  assumes "client_instance e = 0" "ci_api_version info \<le> current_api_version pl"
    "\<And>n. n \<in> set (ci_extensions info) \<Longrightarrow> map_of (available_extensions e) n \<noteq> None" "\<not> android pl"
    "call (modified_create_info pl (modules_of e) info) s = ((result, handle), s')" "\<not> XR_SUCCEEDED result"
  shows "\<exists>e'. create_instance pl call info e s = ((result, Some handle), e', s') \<and>
    get_instance_proc_addr 0 (Some ''xrCreateInstance'') True e' = (XR_ERROR_FUNCTION_UNSUPPORTED, None) \<and>
    available_functions e' = {}"
proof -
  have "list_all (\<lambda>n. map_of (available_extensions e) n \<noteq> None) (ci_extensions info)"
    using assms(3) by (simp add: list_all_iff)
  then have "create_instance pl call info e s
      = ((result, Some handle), finish_creation result handle (populate_functions info e), s')"
    using assms(1,2,4,5) unfolding create_instance_def android_info_missing_def by simp
  then show ?thesis using finish_creation_simps(8) [OF assms(6)]
    by (simp add: get_instance_proc_addr_def global_functions_def)
qed

theorem failed_creation_locks_out_witness:
  "\<exists>e'. create_instance small_platform (\<lambda>i s. ((XR_ERROR_RUNTIME_FAILURE, 0), s)) small_info small_entry (0 :: nat)
       = ((XR_ERROR_RUNTIME_FAILURE, Some 0), e', 0) \<and>
     get_instance_proc_addr 0 (Some ''xrCreateInstance'') True e' = (XR_ERROR_FUNCTION_UNSUPPORTED, None)"
proof -
  have "\<not> XR_SUCCEEDED XR_ERROR_RUNTIME_FAILURE" by (simp add: code_simps)
  from failed_creation_locks_out [OF small_entry_simps(3) _ small_extensions [rule_format] _ _ this,
      of small_info small_platform "\<lambda>i s. ((XR_ERROR_RUNTIME_FAILURE, 0), s)" "0 :: nat" 0 0]
  show ?thesis by (auto simp: small_platform_def small_info_def)
qed

lemma further_instances_refused:
  "client_instance e \<noteq> 0 \<Longrightarrow> create_instances pl call infos e t = (replicate (length infos) (XR_ERROR_LIMIT_REACHED, None), e, t)"
  by (induction infos) (simp_all add: create_instance_def)

text \<open>
  C36: An instance whose creation succeeds is created by one call of the server, with the extensions
  that the application asked for in their order, without those in the \<open>provided_extensions\<close> of the
  layers and modules. (\<open>XR_KHR_convert_timespec_time\<close>, whose functions are local too, is not among these
  and is sent.) The functions of the requested extensions and of core OpenXR become available, and
  every further call of \<open>xrCreateInstance\<close> is refused without reaching the server.
\<close>

theorem instance_created_once:
  assumes "create_instance pl call info e s = ((result, Some handle), e', s')" "XR_SUCCEEDED result" "handle \<noteq> 0"
  shows "(\<exists>chain. call (info\<lparr>ci_chain := chain,
        ci_extensions := filter (\<lambda>n. n \<notin> set (provided_extensions pl (modules_of e))) (ci_extensions info)\<rparr>) s
        = ((result, handle), s')) \<and>
    available_functions e' = available_functions e \<union>
      set (functions_of_extensions (ci_extensions info) (available_extensions e)) \<union> set core_functions \<and>
    synchronization_enabled (client_sync e') \<and>
    create_instances pl call infos e' t = (replicate (length infos) (XR_ERROR_LIMIT_REACHED, None), e', t)"
proof (rule create_instance_cases [OF assms(1)])
  fix result' handle'
  assume c: "call (modified_create_info pl (modules_of e) info) s = ((result', handle'), s')"
    "(result, Some handle) = (result', Some handle')" "e' = finish_creation result' handle' (populate_functions info e)"
  have "available_functions e' = available_functions (populate_functions info e)" "client_instance e' \<noteq> 0"
    "synchronization_enabled (client_sync e')"
    using c assms(2,3) by (simp_all add: enable_synchronization_def)
  then show ?thesis using c(1,2) further_instances_refused [of e']
    by (auto simp: modified_create_info_def populate_functions_def)
qed simp_all

theorem instance_created_once_witness:
  "\<exists>e'. create_instance small_platform (\<lambda>i s. ((XR_SUCCESS, 9), s)) small_info small_entry (0 :: nat)
       = ((XR_SUCCESS, Some 9), e', 0) \<and>
     create_instances small_platform (\<lambda>i s. ((XR_SUCCESS, 9), s)) [small_info, small_info] e' (1 :: nat)
       = ([(XR_ERROR_LIMIT_REACHED, None), (XR_ERROR_LIMIT_REACHED, None)], e', 1)"
proof -
  let ?call = "\<lambda>i s. ((XR_SUCCESS, 9 :: u64), s) :: (xr_result \<times> u64) \<times> nat"
  obtain e where e: "create_instance small_platform ?call small_info small_entry 0 = ((XR_SUCCESS, Some 9), e, 0)"
    using small_creation [of ?call 0] by simp
  have "XR_SUCCEEDED XR_SUCCESS" by (simp add: code_simps)
  from instance_created_once [OF e this, of "[small_info, small_info]" 1] show ?thesis using e by simp
qed

text \<open>
  A complete enumeration of the extensions, with room for all of them, leaves the count unwritten.
\<close>

theorem full_enumeration_leaves_count:
  assumes "available_extensions e \<noteq> []" "length (available_extensions e) < 2 ^ 32"
    "list_all (\<lambda>(n, i). length n < XR_MAX_EXTENSION_NAME_SIZE) (available_extensions e)"
    "length (available_extensions e) \<le> unat capacity"
  shows "enumerate_instance_extension_properties False capacity e
    = Ret (XR_SUCCESS, None, map (\<lambda>(n, i). (n, ext_version i)) (available_extensions e))"
proof -
  have "unat (word_of_nat (length (available_extensions e)) :: u32) = length (available_extensions e)"
    using assms(2) by (simp add: unat_of_nat)
  moreover have "capacity \<noteq> 0" using assms(1,4) by auto
  ultimately show ?thesis using assms(3,4)
    by (simp add: enumerate_instance_extension_properties_def word_less_nat_alt Let_def)
qed

end
