(* ===== verification/Cleaners_Frame.thy ===== *)
theory Cleaners_Frame
  imports Cleaners_Laws
begin

text \<open>
  What cleaning depends on. The runtime writes into the objects a handler passes to it before
  they are released. \<open>skeleton P\<close> forgets every scalar except the members named in \<open>P\<close>; if \<open>P\<close> has
  the structure types, the counts and the strings, values with the same skeleton are cleaned the
  same way and own the same blocks.
\<close>

section \<open>Skeletons\<close>

fun skeleton :: "string set \<Rightarrow> xv \<Rightarrow> xv" and skeleton_fld :: "string set \<Rightarrow> fld \<Rightarrow> fld" where
  "skeleton P (V_prim bs) = V_prim []"
| "skeleton P (V_struct fs) = V_struct (map (skeleton_fld P) fs)"
| "skeleton P (V_array vs) = V_array (map (skeleton P) vs)"
| "skeleton P V_null = V_null"
| "skeleton P (V_ptr vs) = V_ptr (map (skeleton P) vs)"
| "skeleton P (V_ref v) = V_ref (skeleton P v)"
| "skeleton_fld P (Field f v) = Field f (if f \<in> P then v else skeleton P v)"

lemma fld_size: "Field f v \<in> set fs \<Longrightarrow> size v < Suc (size_list size fs)"
  by (induction fs) auto

lemma blocks_skeleton: "blocks (skeleton P v) = blocks v"
proof (induction "size v" arbitrary: v rule: less_induct)
  case less
  have list: "map blocks (map (skeleton P) vs) = map blocks vs" if "v = V_ptr vs \<or> v = V_array vs" for vs
    using that less.hyps size_ptr_elem by auto
  show ?case
  proof (cases v)
    case (V_struct fs)
    have "blocks_fld (skeleton_fld P x) = blocks_fld x" if x: "x \<in> set fs" for x
    proof -
      obtain f w where "x = Field f w" by (cases x)
      then show ?thesis using less.hyps [of w] fld_size [of f w fs] x V_struct by simp
    qed
    then have "map blocks_fld (map (skeleton_fld P) fs) = map blocks_fld fs" by simp
    then show ?thesis using V_struct by (simp del: map_map)
  next
    case (V_ptr vs)
    then show ?thesis using list [of vs] by (simp del: map_map)
  next
    case (V_array vs)
    then show ?thesis using list [of vs] by (simp del: map_map)
  next
    case (V_ref u)
    then show ?thesis using less.hyps [of u] by simp
  qed simp_all
qed

lemma find_field_skeleton:
  "find_field (map (skeleton_fld P) fs) g = map_option (\<lambda>v. if g \<in> P then v else skeleton P v) (find_field fs g)"
  by (induction fs g rule: find_field.induct) auto

lemma uint_field_skeleton: "g \<in> P \<Longrightarrow> uint_field (map (skeleton_fld P) fs) g = uint_field fs g"
  by (simp add: find_field_skeleton option.map_ident)

lemma struct_type_skeleton: "''type'' \<in> P \<Longrightarrow> struct_type (map (skeleton_fld P) fs) = struct_type fs"
  by (simp add: struct_type_def find_field_skeleton option.map_ident)

lemma pointee_skeleton: "pointee (skeleton P v) = map_option (map (skeleton P)) (pointee v)"
  by (cases v) simp_all

section \<open>Cleaning a skeleton\<close>

text \<open>The members that a cleaner reads to find out how much there is to clean\<close>

fun reads_members :: "cop \<Rightarrow> string list" where
  "reads_members (Cl_ptr f (C_field g)) = [g]"
| "reads_members (Cl_ptr f C_null_terminated) = [f]"
| "reads_members (Cl_xr_array f (C_field g)) = [g]"
| "reads_members (Cl_xr_array f C_null_terminated) = [f]"
| "reads_members (Cl_ptr_each f g) = [f, g]"
| "reads_members (Cl_xr_each f g) = [g]"
| "reads_members _ = []"

definition protects :: "string set \<Rightarrow> cop list \<Rightarrow> bool" where
  "protects P cops \<longleftrightarrow> (\<forall>op\<in>set cops. set (reads_members op) \<subseteq> P)"

lemma cleanup_array_skeleton:
  "(\<And>x. x \<in> set vs \<Longrightarrow> f (skeleton P x) = f x) \<Longrightarrow> cleanup_array f i n (map (skeleton P) vs) = cleanup_array f i n vs"
proof (induction vs arbitrary: i n)
  case Nil
  then show ?case by simp
next
  case (Cons v vs)
  then show ?case by (cases n) simp_all
qed

lemma cleanup_ptr_skeleton:
  assumes "\<And>x. size x < size v \<Longrightarrow> f (skeleton P x) = f x"
  shows "cleanup_ptr f n (skeleton P v) = cleanup_ptr f n v"
proof (cases v)
  case (V_ptr vs)
  then have "cleanup_array f 0 n (map (skeleton P) vs) = cleanup_array f 0 n vs"
    using assms size_ptr_elem(1) by (intro cleanup_array_skeleton) blast
  then show ?thesis using V_ptr by (simp add: cleanup_ptr_def)
qed (simp_all add: cleanup_ptr_def)

lemma cleanup_each_skeleton:
  assumes "\<And>x. size x < size v \<Longrightarrow> f (skeleton P x) = f x"
  shows "cleanup_each f n (skeleton P v) = cleanup_each f n v"
proof (cases v)
  case (V_ptr vs)
  then have "cleanup_array f 0 n (map (skeleton P) vs) = cleanup_array f 0 n vs"
    using assms size_ptr_elem(1) by (intro cleanup_array_skeleton) blast
  then show ?thesis using V_ptr by (simp add: cleanup_each_def)
qed (simp_all add: cleanup_each_def)

lemma cleanup_xr_array_skeleton:
  assumes "\<And>x k. size x < size v \<Longrightarrow> rec k (skeleton P x) = rec k x" "''type'' \<in> P"
  shows "cleanup_xr_array K rec n (skeleton P v) = cleanup_xr_array K rec n v"
proof (cases "\<exists>fs vs. v = V_ptr (V_struct fs # vs)")
  case True
  then obtain fs vs where v: "v = V_ptr (V_struct fs # vs)" by blast
  have arr: "cleanup_array (rec k) 0 n (map (skeleton P) (V_struct fs # vs)) = cleanup_array (rec k) 0 n (V_struct fs # vs)" for k
    by (rule cleanup_array_skeleton, rule assms(1)) (use v size_ptr_elem(1) in blast)
  then show ?thesis using v struct_type_skeleton [OF assms(2)]
    by (simp add: cleanup_xr_array_def split: option.split)
next
  case False
  then show ?thesis
  proof (cases v)
    case (V_ptr vs)
    then show ?thesis using False
    proof (cases vs)
      case (Cons w ws)
      then show ?thesis using False V_ptr by (cases w) (simp_all add: cleanup_xr_array_def)
    qed (simp add: cleanup_xr_array_def)
  qed (simp_all add: cleanup_xr_array_def)
qed

lemma clean_op_skeleton:
  assumes rec: "\<And>k x. size x \<le> size v \<Longrightarrow> rec k (skeleton P x) = rec k x"
    and P: "''type'' \<in> P" "set (reads_members op) \<subseteq> P"
  shows "clean_op E K rec s (map (skeleton_fld P) fs) op (if cop_field op \<in> P then v else skeleton P v)
     = clean_op E K rec s fs op v"
proof -
  have small: "rec k (skeleton P x) = rec k x" if "size x < size v" for k x
    using rec that by simp
  have count: "count_value E (map (skeleton_fld P) fs) k w = count_value E fs k w"
    if "\<And>g. k = C_field g \<Longrightarrow> g \<in> P" for k w
    using that by (cases k) (simp_all add: count_value_def uint_field_skeleton del: uint_field.simps)
  have count0: "count_value E (map (skeleton_fld P) fs) C_null_terminated w = count_value E fs C_null_terminated w" for w
    by (rule count) simp
  have count': "count_value E all k (skeleton P v) = count_value E all k v" if "k \<noteq> C_null_terminated" for all k
    using that by (cases k) (simp_all add: count_value_def)
  show ?thesis
  proof (cases op)
    case (Cl f)
    then show ?thesis using rec by simp
  next
    case (Cl_xr f)
    then show ?thesis using rec by simp
  next
    case (Cl_array f k)
    have "cleanup_array (rec ty) 0 n (map (skeleton P) vs) = cleanup_array (rec ty) 0 n vs" if "pointee v = Some vs" for ty n vs
      using that small size_pointee by (intro cleanup_array_skeleton) blast
    then show ?thesis using Cl_array by (simp add: pointee_skeleton split: option.split)
  next
    case (Cl_ptr f k)
    have g: "g \<in> P" if "k = C_field g" for g using P(2) Cl_ptr that by simp
    have f: "f \<in> P" if "k = C_null_terminated" using P(2) Cl_ptr that by simp
    have c: "count_value E (map (skeleton_fld P) fs) k w = count_value E fs k w" for w
      by (rule count) (rule g)
    show ?thesis
      using Cl_ptr f count' [of k] cleanup_ptr_skeleton [of v "rec (K_val (field_type E s f))", OF small]
      by (cases "k = C_null_terminated") (simp_all add: c count0)
  next
    case (Cl_xr_array f k)
    have g: "g \<in> P" if "k = C_field g" for g using P(2) Cl_xr_array that by simp
    have f: "f \<in> P" if "k = C_null_terminated" using P(2) Cl_xr_array that by simp
    have c: "count_value E (map (skeleton_fld P) fs) k w = count_value E fs k w" for w
      by (rule count) (rule g)
    show ?thesis
      using Cl_xr_array f count' [of k] cleanup_xr_array_skeleton [of v rec, OF small P(1)]
      by (cases "k = C_null_terminated") (simp_all add: c count0)
  next
    case (Cl_ptr_each f g)
    then have "f \<in> P" "g \<in> P" using P(2) by simp_all
    then show ?thesis using Cl_ptr_each count0 by (simp add: uint_field_skeleton del: uint_field.simps)
  next
    case (Cl_xr_each f g)
    then have "g \<in> P" using P(2) by simp
    then show ?thesis using Cl_xr_each cleanup_each_skeleton [of v "rec K_xr", OF small]
      by (simp add: uint_field_skeleton del: uint_field.simps)
  qed
qed

lemma run_cops_skeleton:
  assumes "\<And>k x. size x < Suc (size_list size fs) \<Longrightarrow> rec k (skeleton P x) = rec k x"
    "''type'' \<in> P" "protects P cops"
  shows "run_cops (\<lambda>op v. clean_op E K rec s (map (skeleton_fld P) fs) op v) (map (skeleton_fld P) fs) cops
     = run_cops (\<lambda>op v. clean_op E K rec s fs op v) fs cops"
  using assms(3)
proof (induction cops)
  case (Cons op cops)
  have IH: "run_cops (\<lambda>op v. clean_op E K rec s (map (skeleton_fld P) fs) op v) (map (skeleton_fld P) fs) cops
     = run_cops (\<lambda>op v. clean_op E K rec s fs op v) fs cops"
    using Cons by (simp add: protects_def)
  show ?case
  proof (cases "find_field fs (cop_field op)")
    case None
    then show ?thesis by (simp add: find_field_skeleton)
  next
    case (Some v)
    have "rec k (skeleton P x) = rec k x" if "size x \<le> size v" for k x
      using assms(1) that find_field_size [OF Some] by simp
    moreover have "set (reads_members op) \<subseteq> P" using Cons.prems by (simp add: protects_def)
    ultimately have "clean_op E K rec s (map (skeleton_fld P) fs) op (if cop_field op \<in> P then v else skeleton P v)
        = clean_op E K rec s fs op v"
      using clean_op_skeleton [where E = E and K = K and s = s and fs = fs and v = v] assms(2) by blast
    then show ?thesis using Some IH by (simp add: find_field_skeleton)
  qed
qed simp

lemma clean_skeleton:
  assumes "''type'' \<in> P" "\<And>s cops. clean_program K s = Some cops \<Longrightarrow> protects P cops"
  shows "clean E K k (skeleton P v) = clean E K k v"
proof (induction "size v" arbitrary: v k rule: less_induct)
  case less
  show ?case
  proof (cases k)
    case (K_val ty)
    show ?thesis
    proof (cases ty)
      case (T_struct s)
      show ?thesis
      proof (cases v)
        case (V_struct fs)
        show ?thesis
        proof (cases "clean_program K s")
          case (Some cops)
          have "run_cops (\<lambda>op v. clean_op E K (clean E K) s (map (skeleton_fld P) fs) op v) (map (skeleton_fld P) fs) cops
              = run_cops (\<lambda>op v. clean_op E K (clean E K) s fs op v) fs cops"
            by (rule run_cops_skeleton [OF _ assms(1) assms(2) [OF Some]])
              (use less.hyps V_struct in simp)
          then show ?thesis using K_val T_struct V_struct Some by simp
        qed (use K_val T_struct V_struct in simp)
      qed (use K_val T_struct in simp_all)
    qed (use K_val in simp)
  next
    case K_xr
    show ?thesis
    proof (cases v)
      case (V_ref u)
      show ?thesis
      proof (cases u)
        case (V_struct fs)
        have "clean E K (K_val (T_struct t)) (skeleton P u) = clean E K (K_val (T_struct t)) u" for t
          by (rule less.hyps) (use V_ref in simp)
        then show ?thesis using K_xr V_ref V_struct struct_type_skeleton [OF assms(1), of fs]
          by (simp split: option.split)
      qed (use K_xr V_ref in simp_all)
    qed (use K_xr in simp_all)
  qed
qed

lemma run_cops_same_skeleton:
  assumes P: "''type'' \<in> P" "\<And>s cops. clean_program K s = Some cops \<Longrightarrow> protects P cops" "protects P cops"
    and same: "map (skeleton_fld P) fs = map (skeleton_fld P) gs"
  shows "run_cops (\<lambda>op v. clean_op E K (clean E K) s gs op v) gs cops
      = run_cops (\<lambda>op v. clean_op E K (clean E K) s fs op v) fs cops"
    and "concat (map blocks_fld gs) = concat (map blocks_fld fs)"
proof -
  have "run_cops (\<lambda>op v. clean_op E K (clean E K) s (map (skeleton_fld P) hs) op v) (map (skeleton_fld P) hs) cops
      = run_cops (\<lambda>op v. clean_op E K (clean E K) s hs op v) hs cops" for hs
    by (rule run_cops_skeleton [where rec = "clean E K", OF _ P(1,3)], rule clean_skeleton [OF P(1)], rule P(2))
  from this [of fs] this [of gs] show "run_cops (\<lambda>op v. clean_op E K (clean E K) s gs op v) gs cops
      = run_cops (\<lambda>op v. clean_op E K (clean E K) s fs op v) fs cops"
    using same by simp
  have "blocks (V_struct gs) = blocks (V_struct fs)"
    using blocks_skeleton [of P "V_struct gs"] blocks_skeleton [of P "V_struct fs"] same by simp
  then show "concat (map blocks_fld gs) = concat (map blocks_fld fs)" by simp
qed

end
