(* ===== verification/Rpc_Cleanup.thy ===== *)
theory Rpc_Cleanup
  imports Rpc_Props Cleaners_Frame
begin

text \<open>
  Memory of the two sides: what is read into fresh memory is released exactly once, in every
  build, also after a handler has passed it to the runtime. At the end, what the generated files
  do not guarantee.
\<close>

section \<open>Releasing the parameters of a call\<close>

text \<open>The statements of a handler after the reply has been sent.\<close>

definition cleanup_params :: "codec \<Rightarrow> cleaners \<Rightarrow> string \<Rightarrow> rpc_handler \<Rightarrow> fld list \<Rightarrow> path list outcome" where
  "cleanup_params E K f h params =
     run_cops (\<lambda>op v. clean_op E K (clean E K) f params op v) params (handler_cleanup h)"

text \<open>
  The runtime writes results into the objects it is given. It changes no pointer, no structure
  type, and no member that counts an array or is a string in one of the cleaners.
\<close>

definition protected_names :: "string list \<Rightarrow> string list" where
  "protected_names exts =
     ''type'' # concat (map (\<lambda>(s, cops). concat (map reads_members cops)) (build_cleaner_programs exts)) @
     concat (map (\<lambda>(f, h). concat (map reads_members (handler_cleanup h))) (build_handlers exts))"

definition runtime_keeps :: "string list \<Rightarrow> fld list \<Rightarrow> fld list \<Rightarrow> bool" where
  "runtime_keeps exts before after \<longleftrightarrow>
     map (skeleton_fld (set (protected_names exts))) before = map (skeleton_fld (set (protected_names exts))) after"

lemma protected_cleaners:
  "clean_program (build_cleaners X exts) s = Some cops \<Longrightarrow> protects (set (protected_names exts)) cops"
proof -
  assume "clean_program (build_cleaners X exts) s = Some cops"
  then have "(s, cops) \<in> set (build_cleaner_programs exts)"
    by (intro map_of_SomeD) (simp add: build_cleaners_def)
  then show ?thesis by (fastforce simp: protects_def protected_names_def)
qed

lemma protected_handlers:
  "map_of (build_handlers exts) f = Some h \<Longrightarrow> protects (set (protected_names exts)) (handler_cleanup h)"
  by (drule map_of_SomeD) (fastforce simp: protects_def protected_names_def)

text \<open>
  C15: In every build a handler releases exactly the memory that reading its parameters
  allocated: after the runtime has written its results, the cleanup statements free each heap
  block of the parameters once, inner blocks first, and nothing else, so that a call leaves no
  memory behind.
\<close>

theorem handler_releases_params:
  assumes st: "map_of (build_stubs exts) f = Some st" and h: "map_of (build_handlers exts) f = Some h"
    and f: "f \<notin> set injected_functions" "plain (stub_request st)"
    and header: "types_ok (build_codec X exts)" "times_ok (build_codec X exts)"
      "skips_ok (build_codec X exts) skipped_members"
      "\<forall>g. Ser_time g \<in> set (stub_request st) \<longrightarrow> xr_field_type X f g = T_prim 8"
    and req: "rpc_request (build_codec X exts) off f st params = Wrote (word_bytes (stub_id st) @ body)"
    and size: "size_list size params < n" "size_list size params < 2 ^ 32"
    and run: "runtime_keeps exts (arrived (build_codec X exts) off 0 f (stub_request st) params params) after"
  shows "run_dops (des_op (build_codec X exts) 0 (des (build_codec X exts) 0 n) f) [] (handler_params h) None body
      = Some (Ret (arrived (build_codec X exts) off 0 f (stub_request st) params params, []))
    \<and> cleanup_params (build_codec X exts) (build_cleaners X exts) f h after
      = Ret (concat (map blocks_fld (arrived (build_codec X exts) off 0 f (stub_request st) params params)))
    \<and> distinct (concat (map blocks_fld (arrived (build_codec X exts) off 0 f (stub_request st) params params)))"
proof -
  let ?E = "build_codec X exts" and ?K = "build_cleaners X exts" and ?P = "set (protected_names exts)"
  let ?gs = "arrived ?E off 0 f (stub_request st) params params"
  have hh: "handler_params h = map dop_of (stub_request st)" "handler_cleanup h = map cop_of (stub_request st)"
    using stub_handled [OF st f(1)] h by (auto simp: handler_view_def stub_view_def)
  have ok: "row_ok (stub_request st)" by (rule build_request_ok [OF st f(2)])
  have ser: "run_sops (\<lambda>op v. ser_op ?E (call_ctx off) (ser ?E (call_ctx off)) f params op v) (stub_request st) params
      = Wrote body"
    using req by (auto simp: rpc_request_def wseq_Wrote_iff)
  have read: "run_dops (des_op ?E 0 (des ?E 0 n) f) [] (handler_params h) None body = Some (Ret (?gs, []))"
    using build.fields_arrive [of X exts params n "stub_request st" off f params body None 0 "[]"]
      header(1) size row_okD(1) [OF ok] ser hh(1) by simp
  have clean: "run_cops (\<lambda>op v. clean_op ?E ?K (clean ?E ?K) f ?gs op v) ?gs (handler_cleanup h)
      = Ret (concat (map blocks_fld ?gs)) \<and> distinct (concat (map blocks_fld ?gs))"
    unfolding hh(2) arrived_def
    by (rule build.fields_freed [OF header(2,3) _ ser row_okD(1,2) [OF ok]])
      (use header(4) in \<open>simp add: build_codec_def\<close>)
  have "run_cops (\<lambda>op v. clean_op ?E ?K (clean ?E ?K) f after op v) after (handler_cleanup h)
      = run_cops (\<lambda>op v. clean_op ?E ?K (clean ?E ?K) f ?gs op v) ?gs (handler_cleanup h)"
  proof (rule run_cops_same_skeleton(1) [where P = ?P])
    show "''type'' \<in> ?P" by (simp add: protected_names_def)
    show "map (skeleton_fld ?P) ?gs = map (skeleton_fld ?P) after" using run by (simp add: runtime_keeps_def)
  qed (use protected_cleaners protected_handlers [OF h] in auto)
  then show ?thesis using read clean by (simp add: cleanup_params_def)
qed

text \<open>The concrete runtime only writes times, a period and a flag.\<close>

lemma written_names_free:
  "list_all (\<lambda>(s, cops). list_all (\<lambda>op. list_all (\<lambda>g. g \<noteq> ''predictedDisplayTime'' \<and> g \<noteq> ''predictedDisplayPeriod'' \<and>
     g \<noteq> ''shouldRender'' \<and> g \<noteq> ''frameState'') (reads_members op)) cops) core_cleaners"
  "list_all (\<lambda>(f, h). list_all (\<lambda>op. list_all (\<lambda>g. g \<noteq> ''predictedDisplayTime'' \<and> g \<noteq> ''predictedDisplayPeriod'' \<and>
     g \<noteq> ''shouldRender'' \<and> g \<noteq> ''frameState'') (reads_members op)) (handler_cleanup h)) core_handlers"
  by (simp_all add: core_cleaners_defs core_handlers_def handler_defs)

lemma written_names_unprotected:
  assumes "g = ''predictedDisplayTime'' \<or> g = ''predictedDisplayPeriod'' \<or> g = ''shouldRender'' \<or> g = ''frameState''"
  shows "g \<notin> set (protected_names [])"
  using written_names_free assms by (fastforce simp: protected_names_def list_all_iff)

lemma frame_runtime_keeps:
  "runtime_keeps [] (frame_params (frame_state t p r)) (frame_params (frame_state t' p' r'))"
  using written_names_unprotected by (simp add: runtime_keeps_def frame_params_def frame_state_def)

lemma frame_times: "times_ok (build_codec frame_openxr [])"
proof -
  have "list_all (\<lambda>(s, ops). list_all (\<lambda>op. case op of Ser_time f \<Rightarrow> f \<noteq> ''frameState'' \<and> f \<noteq> ''type'' \<and> f \<noteq> ''shouldRender''
      | _ \<Rightarrow> True) ops) core_serializers"
    by (simp add: core_serializers_def core_serializers_1_def core_serializers_2_def core_serializers_3_def
      core_serializers_4_def core_serializers_5_def serialize_XrInstanceCreateInfo_def serialize_XrFrameEndInfo_def)
  then show ?thesis
    by (fastforce simp: times_ok_def build_codec_def frame_openxr_def list_all_iff dest!: map_of_SomeD)
qed

lemma frame_skips: "skips_ok (build_codec frame_openxr []) skipped_members"
  by (auto simp: skips_ok_def skipped_members_def blockless_def build_codec_def frame_openxr_def split: if_splits)

theorem handler_releases_params_witness:
  "cleanup_params (build_codec frame_openxr []) (build_cleaners frame_openxr []) ''xrWaitFrame'' handle_xrWaitFrame
     (frame_params (frame_state 5000 11 1)) = Ret [[Member ''frameState'']]"
proof -
  have "cleanup_params (build_codec frame_openxr []) (build_cleaners frame_openxr []) ''xrWaitFrame'' handle_xrWaitFrame
      (frame_params (frame_state 5000 11 1)) = Ret (concat (map blocks_fld (frame_params (frame_state (- 1000) 0 0))))"
    using handler_releases_params [OF wait_frame_tables _ _ frame_types frame_times frame_skips, where off = 1000
        and params = "frame_params (frame_state 0 0 0)" and n = 200 and after = "frame_params (frame_state 5000 11 1)"
        and body = "word_bytes (7 :: u64) @ word_bytes (0 :: u32) @ word_bytes (1 :: u32) @
          word_bytes (44 :: u32) @ word_bytes (0 :: u32) @ word_bytes (- 1000 :: u64) @ word_bytes (0 :: u64) @
          word_bytes (0 :: u32)"]
      frame_request frame_runtime_keeps
    unfolding frame_arrived
    by (simp add: plain_def injected_functions_def rpc_xrWaitFrame_def frame_params_def frame_state_def)
  then show ?thesis by (simp add: frame_params_def frame_state_def)
qed

section \<open>Releasing a value\<close>

text \<open>
  C13: Whatever a peer of the same build could write is read into fresh memory and then released
  without a leak, a double free or a use after free: the cleaner frees each heap block of the value
  exactly once, inner blocks before the blocks that point to them.
\<close>

theorem value_released:
  assumes "types_ok (build_codec X exts)" "times_ok (build_codec X exts)"
    "skips_ok (build_codec X exts) skipped_members" "size v < n" "size v < 2 ^ 32"
    "ser (build_codec X exts) c k v = Wrote bs"
  shows "\<exists>w. des (build_codec X exts) off (Suc n) k None (bs @ rest) = Some (Ret (w, rest)) \<and>
    clean (build_codec X exts) (build_cleaners X exts) k w = Ret (blocks w) \<and> distinct (blocks w)"
  using build.reads_back [OF assms(1,4,5,6), of None off rest] build.freed_exactly [OF assms(2,3,6), of off] by auto

definition chained_frame :: xv where
  "chained_frame = V_ref (frame_struct 5000)"

theorem value_released_witness:
  "\<exists>w. des (build_codec frame_openxr []) 1000 (Suc 200) K_xr None
      ((word_bytes (44 :: u32) @ frame_struct_bytes 5000) @ [7]) = Some (Ret (w, [7])) \<and>
    clean (build_codec frame_openxr []) (build_cleaners frame_openxr []) K_xr w = Ret (blocks w) \<and> distinct (blocks w)"
proof (rule value_released [OF frame_types frame_times frame_skips])
  show "ser (build_codec frame_openxr []) skipping K_xr chained_frame = Wrote (word_bytes (44 :: u32) @ frame_struct_bytes 5000)"
    using mixed_chain_ser by (simp add: mixed_chain_def chained_frame_def frame_lookup skipping_def struct_type_def)
qed (simp_all add: chained_frame_def frame_struct_def)

section \<open>The generated struct functions\<close>

text \<open>
  C30: In every build the struct functions and lookup tables belong together: each struct is read
  by the statements that write it, each structure type selects the same struct for writing,
  reading, releasing and for the size of the memory to allocate, and each struct that can be
  written has a cleaner that covers all its members with the same counts (but for members
  without memory).
\<close>

theorem build_structs_agree:
  "build_deserializers exts = map (\<lambda>(s, ops). (s, map dop_of ops)) (build_serializers exts) \<and>
   deserializer_lookup X exts = serializer_lookup X exts \<and>
   cleaner_lookup X exts = serializer_lookup X exts \<and>
   size_lookup X exts = serializer_lookup X exts \<and>
   (\<forall>s ops. map_of (build_serializers exts) s = Some ops \<longrightarrow>
      (\<exists>cops. map_of (build_cleaner_programs exts) s = Some cops \<and>
         covers (\<lambda>f. f \<in> set (skipped_members s)) ops cops))"
  using build_deserializers_match lookups_match build_cleaner_program by simp

theorem build_structs_agree_witness:
  "\<exists>cops. map_of (build_cleaner_programs []) ''XrFrameState'' = Some cops \<and>
     covers (\<lambda>f. f \<in> set (skipped_members ''XrFrameState''))
       [Ser ''type'', Ser_xr ''next'', Ser_time ''predictedDisplayTime'',
        Ser ''predictedDisplayPeriod'', Ser ''shouldRender''] cops"
  using build_structs_agree [of "[]" frame_openxr] frame_state_program unfolding core_build by blast

section \<open>Counts that a peer makes up\<close>

definition action_sync_bytes :: "u32 \<Rightarrow> u32 \<Rightarrow> bytes \<Rightarrow> bytes" where
  "action_sync_bytes count marker sets =
     word_bytes (61 :: u32) @ word_bytes (0 :: u32) @ word_bytes count @ word_bytes marker @ sets"

definition active_set :: "u64 \<Rightarrow> xv" where
  "active_set a = V_struct [Field ''actionSet'' (V_prim (word_bytes a)), Field ''subactionPath'' (V_prim (word_bytes (0 :: u64)))]"

definition action_sync :: "u32 \<Rightarrow> xv \<Rightarrow> xv" where
  "action_sync count sets = V_struct [Field ''type'' (V_prim (word_bytes (61 :: u32))), Field ''next'' V_null,
     Field ''countActiveActionSets'' (V_prim (word_bytes count)), Field ''activeActionSets'' sets]"

definition sync_types :: "openxr \<Rightarrow> bool" where
  "sync_types X \<longleftrightarrow>
     xr_field_type X ''XrActionsSyncInfo'' ''type'' = T_prim 4 \<and>
     xr_field_type X ''XrActionsSyncInfo'' ''countActiveActionSets'' = T_prim 4 \<and>
     xr_field_type X ''XrActionsSyncInfo'' ''activeActionSets'' = T_struct ''XrActiveActionSet'' \<and>
     xr_field_type X ''XrActiveActionSet'' ''actionSet'' = T_prim 8 \<and>
     xr_field_type X ''XrActiveActionSet'' ''subactionPath'' = T_prim 8"

definition sync_openxr :: openxr where
  "sync_openxr =
     \<lparr>xr_field_type = \<lambda>s f.
        if f = ''activeActionSets'' then T_struct ''XrActiveActionSet''
        else if s = ''XrActiveActionSet'' then T_prim 8
        else T_prim 4,
      xr_field_const = \<lambda>s f. True, xr_macro = \<lambda>m. 0,
      xr_type_value = \<lambda>e. if e = ''XR_TYPE_ACTIONS_SYNC_INFO'' then 61 else 0\<rparr>"

lemma sync_programs:
  "map_of core_deserializers ''XrActionsSyncInfo'' = Some [De ''type'', De_xr ''next'', De ''countActiveActionSets'', De_ptr ''activeActionSets'']"
  "map_of core_deserializers ''XrActiveActionSet'' = Some [De ''actionSet'', De ''subactionPath'']"
  "map_of core_cleaners ''XrActionsSyncInfo'' = Some [Cl ''type'', Cl_xr ''next'', Cl ''countActiveActionSets'',
     Cl_ptr ''activeActionSets'' (C_field ''countActiveActionSets'')]"
  "map_of core_cleaners ''XrActiveActionSet'' = Some [Cl ''actionSet'', Cl ''subactionPath'']"
  by (simp_all add: core_deserializers_def core_deserializers_1_def core_cleaners_def core_cleaners_1_def)

lemma zero_word: "des_bytes 4 (word_bytes (0 :: u32) @ r) = Some (Ret (word_bytes (0 :: u32), r))"
  by (rule des_bytes_append) simp

lemma null_next: "deserialize_xr E rec const None (word_bytes (0 :: u32) @ r) = Some (Ret (V_null, r))"
  by (simp add: deserialize_xr_def zero_word)

lemma one_element: "deserialize_ptr f None (word_bytes (1 :: u32) @ r)
   = pbind (f None r) (\<lambda>v bs. Some (Ret (V_ptr [v], bs)))"
proof -
  have "des_bytes 4 (word_bytes (1 :: u32) @ r) = Some (Ret (word_bytes (1 :: u32), r))"
    by (rule des_bytes_append) simp
  moreover have "pbind (pbind p (\<lambda>v bs. Some (Ret ([v], bs)))) (\<lambda>vs bs. Some (Ret (V_ptr vs, bs)))
      = pbind p (\<lambda>v bs. Some (Ret (V_ptr [v], bs)))" for p
    by (cases p; cases "the p") auto
  ultimately show ?thesis by (simp add: deserialize_ptr_def)
qed

lemma read_active_set:
  assumes "sync_types X"
  shows "des (build_codec X []) off (Suc (Suc n)) (K_val (T_struct ''XrActiveActionSet'')) None
      (word_bytes a @ word_bytes (0 :: u64) @ rest) = Some (Ret (active_set a, rest))"
  using assms sync_programs(2)
  by (simp add: active_set_def sync_types_def build_codec_def)

lemma clean_action_sync:
  assumes "sync_types X"
  shows "clean (build_codec X []) (build_cleaners X []) (K_val (T_struct ''XrActionsSyncInfo''))
      (action_sync 2 (V_ptr [active_set a])) = Fault"
proof -
  have two: "le_val (word_bytes (2 :: u32)) = 2" by (simp add: word_bytes_def le_val_le_bytes)
  show ?thesis
    using assms sync_programs(3,4) two
    by (simp add: action_sync_def active_set_def sync_types_def build_codec_def build_cleaners_def cleanup_ptr_def
        count_value_def eval_nat_numeral)
qed

text \<open>
  The length of an array on the wire and the member that counts it are read independently and
  never compared: a message in which they differ is accepted, and releasing the value then runs
  past the end of the array (the count is larger) or leaves memory behind (it is smaller).
\<close>

theorem count_mismatch_accepted:
  assumes "sync_types X"
  shows "des (build_codec X []) off (Suc (Suc (Suc n))) (K_val (T_struct ''XrActionsSyncInfo'')) None
       (action_sync_bytes count 1 (word_bytes a @ word_bytes (0 :: u64)) @ rest)
      = Some (Ret (action_sync count (V_ptr [active_set a]), rest))
    \<and> (count = 2 \<longrightarrow>
        clean (build_codec X []) (build_cleaners X []) (K_val (T_struct ''XrActionsSyncInfo''))
          (action_sync count (V_ptr [active_set a])) = Fault)"
  using assms sync_programs(1) read_active_set [OF assms] clean_action_sync [OF assms] one_element null_next
  by (simp add: action_sync_bytes_def action_sync_def sync_types_def build_codec_def)

theorem count_mismatch_accepted_witness:
  "des (build_codec sync_openxr []) 0 3 (K_val (T_struct ''XrActionsSyncInfo'')) None
       (action_sync_bytes 2 1 (word_bytes (9 :: u64) @ word_bytes (0 :: u64)) @ [])
     = Some (Ret (action_sync 2 (V_ptr [active_set 9]), [])) \<and>
   clean (build_codec sync_openxr []) (build_cleaners sync_openxr []) (K_val (T_struct ''XrActionsSyncInfo''))
     (action_sync 2 (V_ptr [active_set 9])) = Fault"
proof -
  have "sync_types sync_openxr" by (simp add: sync_types_def sync_openxr_def)
  from count_mismatch_accepted [OF this, of 0 0 2 9 "[]"] show ?thesis by (simp add: eval_nat_numeral)
qed

end
