(* ===== verification/Poll_Events.thy ===== *)
theory Poll_Events
  imports Rpc_Cleanup
begin

unbundle bit_operations_syntax

text \<open>
  Events: the handler of \<open>XRTP_MSG_POLL_EVENT\<close> in \<open>src/server/server.cpp\<close> asks the runtime until
  it has an event that the client can read, and \<open>xrPollEventImpl\<close> in \<open>src/client/entry.cpp\<close> lays
  the chain of structs that arrives out in the buffer of the application.
\<close>

section \<open>The server asks for an event\<close>

definition poll_params :: "u64 \<Rightarrow> xv \<Rightarrow> fld list" where
  "poll_params inst buf = [Field ''instance'' (V_prim (word_bytes inst)), Field ''eventData'' (V_ptr [buf])]"

text \<open>The buffer before the call; the members behind \<open>next\<close> are an untyped array that nobody reads.\<close>

definition empty_event_buffer :: "openxr \<Rightarrow> xv" where
  "empty_event_buffer X =
     V_struct [Field ''type'' (V_prim (word_bytes (xr_type_value X ''XR_TYPE_EVENT_DATA_BUFFER''))), Field ''next'' V_null]"

definition event_of :: "fld list \<Rightarrow> fld list option" where
  "event_of ps = (case find_field ps ''eventData'' of Some (V_ptr (V_struct fs # _)) \<Rightarrow> Some fs | _ \<Rightarrow> None)"

text \<open>The result of the runtime and the event, if it is one; \<open>None\<close> is a loop that does not end.\<close>

partial_function (option) poll_event_loop ::
  "openxr \<Rightarrow> string list \<Rightarrow> 's runtime \<Rightarrow> u64 \<Rightarrow> 's \<Rightarrow> ((xr_result \<times> fld list option) outcome \<times> 's) option" where
  "poll_event_loop X exts R inst s =
     (case rt_call R ''xrPollEvent'' (poll_params inst (empty_event_buffer X)) s of
        (res, ps, s') \<Rightarrow>
          if res \<noteq> XR_SUCCESS then Some (Ret (res, None), s')
          else
            (case event_of ps of
               None \<Rightarrow> Some (Fault, s')
             | Some fs \<Rightarrow>
                 (case struct_type fs of
                    None \<Rightarrow> Some (Fault, s')
                  | Some ty \<Rightarrow>
                      if size_lookup X exts ty = None then poll_event_loop X exts R inst s'
                      else Some (Ret (res, Some fs), s'))))"

definition event_ctx :: ser_ctx where
  "event_ctx = \<lparr>ser_time_offset = 0, skip_unknown_structs = True\<rparr>"

definition event_reply :: "codec \<Rightarrow> xr_result \<times> fld list option \<Rightarrow> wout" where
  "event_reply E r =
     wseq (Wrote (word_bytes (fst r)))
       (case snd r of None \<Rightarrow> Wrote [] | Some fs \<Rightarrow> ser E event_ctx K_xr (V_ref (V_struct fs)))"

definition poll_event_handler ::
  "openxr \<Rightarrow> string list \<Rightarrow> 's runtime \<Rightarrow> u64 \<Rightarrow> 's \<Rightarrow> 's handled option" where
  "poll_event_handler X exts R inst s =
     (if \<not> rt_loads R s ''xrPollEvent'' then Some (Raised_in None function_loader_error s)
      else map_option (\<lambda>(r, s'). go_on r s' (\<lambda>x. send_reply (event_reply (build_codec X exts) x) s'))
        (poll_event_loop X exts R inst s))"

text \<open>The runtime has passed over events that this build does not know.\<close>

inductive skips_events :: "openxr \<Rightarrow> string list \<Rightarrow> 's runtime \<Rightarrow> u64 \<Rightarrow> 's \<Rightarrow> 's \<Rightarrow> bool"
  for X exts R inst where
  none: "skips_events X exts R inst s s"
| more: "rt_call R ''xrPollEvent'' (poll_params inst (empty_event_buffer X)) s = (XR_SUCCESS, ps, s') \<Longrightarrow>
    event_of ps = Some fs \<Longrightarrow> struct_type fs = Some ty \<Longrightarrow> size_lookup X exts ty = None \<Longrightarrow>
    skips_events X exts R inst s' s'' \<Longrightarrow> skips_events X exts R inst s s''"

lemma poll_event_loop_skips:
  "skips_events X exts R inst s s' \<Longrightarrow> poll_event_loop X exts R inst s = poll_event_loop X exts R inst s'"
proof (induction rule: skips_events.induct)
  case (more s ps s' fs ty s'')
  then show ?case by (subst poll_event_loop.simps) simp
qed simp

section \<open>The client lays out the event\<close>

text \<open>The structs of a chain, and the heap block of each, from the pointer to the first.\<close>

function (sequential) chain_structs :: "xv \<Rightarrow> fld list list" where
  "chain_structs (V_ref (V_struct fs)) =
     fs # (case find_field fs ''next'' of Some nxt \<Rightarrow> chain_structs nxt | None \<Rightarrow> [])"
| "chain_structs _ = []"
  by pat_completeness auto
termination
  by (relation "measure size") (auto dest: find_field_size)

fun chain_block :: "nat \<Rightarrow> path" where
  "chain_block 0 = []"
| "chain_block (Suc i) = Target # Member ''next'' # chain_block i"

definition event_buffer_size :: u64 where
  "event_buffer_size = 4016"

text \<open>\<open>alignof(std::max_align_t)\<close> is 16.\<close>

definition align_up :: "u64 \<Rightarrow> u64" where
  "align_up l = (l + 16 - 1) AND NOT (16 - 1)"

definition event_struct_size :: "openxr \<Rightarrow> string list \<Rightarrow> (string \<Rightarrow> u64) \<Rightarrow> fld list \<Rightarrow> u64" where
  "event_struct_size X exts sizeof fs =
     (case struct_type fs of
        None \<Rightarrow> 0
      | Some ty \<Rightarrow> (case size_lookup X exts ty of None \<Rightarrow> 0 | Some s \<Rightarrow> sizeof s))"

text \<open>
  The loop over the rest of the chain: where each struct is copied, and the heap block that the
  last copied struct still points to.
\<close>

fun pack_events ::
  "(fld list \<Rightarrow> u64) \<Rightarrow> u64 \<Rightarrow> u64 \<Rightarrow> u64 \<Rightarrow> nat \<Rightarrow> fld list list \<Rightarrow> (u64 \<times> fld list) list \<times> path option" where
  "pack_events size_of end_of_buffer last_out last_size i [] = ([], None)"
| "pack_events size_of end_of_buffer last_out last_size i (fs # rest) =
     (let out = align_up (last_out + last_size)
      in if out + size_of fs > end_of_buffer then ([], Some (chain_block i))
         else (case pack_events size_of end_of_buffer out (size_of fs) (Suc i) rest of
                 (placed, left) \<Rightarrow> ((out, fs) # placed, left)))"

record polled =
  event_structs :: "(u64 \<times> fld list) list"
  event_link :: "path option"
  event_freed :: "path list"

text \<open>
  \<open>xrPollEventImpl\<close>, from the reply of the server; the buffer of the application is at \<open>buf\<close>. The
  first struct is copied without a check.
\<close>

definition client_poll_event ::
  "openxr \<Rightarrow> string list \<Rightarrow> (string \<Rightarrow> u64) \<Rightarrow> nat \<Rightarrow> u64 \<Rightarrow> bytes \<Rightarrow> (xr_result \<times> polled option) parsed" where
  "client_poll_event X exts sizeof n buf reply =
     pbind (des_bytes 4 reply) (\<lambda>rb bs.
       let res = bytes_word rb in
       if res \<noteq> XR_SUCCESS then Some (Ret ((res, None), bs))
       else
         pbind (deserialize_xr (build_codec X exts) (des (build_codec X exts) 0 n) False None bs) (\<lambda>v rest.
           case chain_structs v of
             [] \<Rightarrow> Some Fault
           | fs # later \<Rightarrow>
               let size_of = event_struct_size X exts sizeof;
                   (placed, link) = pack_events size_of (buf + event_buffer_size) buf (size_of fs) 1 later
               in if size_of fs > event_buffer_size then Some Fault else Some (obind (clean (build_codec X exts) (build_cleaners X exts) K_xr v)
                    (\<lambda>freed. Ret ((XR_SUCCESS,
                       Some \<lparr>event_structs = (buf, fs) # placed, event_link = link, event_freed = freed\<rparr>), rest)))))"

section \<open>The layout\<close>

lemma clear_low_bits: "x AND NOT (mask n) = x - take_bit n x" for x :: "'a :: len word"
proof -
  have "NOT x AND take_bit n x = 0" by (auto simp: bit_eq_iff bit_simps)
  moreover have "x AND NOT (mask n) = x AND NOT (take_bit n x)" by (auto simp: bit_eq_iff bit_simps)
  ultimately show ?thesis by (simp add: disjunctive_diff_eq_and_not)
qed

lemma align_up_take: "align_up l = l + 15 - take_bit 4 (l + 15)"
proof -
  have "align_up l = (l + 15) AND NOT (mask 4)"
    by (simp add: align_up_def mask_eq_exp_minus_1 add.commute)
  then show ?thesis by (simp add: clear_low_bits)
qed

lemma align_up_bounds:
  assumes "unat l + 15 < 2 ^ 64"
  shows "unat l \<le> unat (align_up l)" "unat (align_up l) \<le> unat l + 15" "16 dvd unat (align_up l)"
proof -
  let ?x = "l + 15"
  have x: "unat ?x = unat l + 15" using assms by (simp add: unat_word_ariths)
  have t: "unat (take_bit 4 ?x) = unat ?x mod 16"
    unfolding unsigned_take_bit_eq by (simp add: take_bit_eq_mod)
  then have "take_bit 4 ?x \<le> ?x" by (simp add: word_le_nat_alt)
  then have a: "unat (align_up l) = unat ?x - unat ?x mod 16"
    unfolding align_up_take by (simp add: unat_sub t)
  have "unat ?x mod 16 \<le> 15" "unat ?x mod 16 \<le> unat ?x" by (simp_all add: mod_le_divisor)
  then show "unat l \<le> unat (align_up l)" "unat (align_up l) \<le> unat l + 15"
    unfolding a x by simp_all
  show "16 dvd unat (align_up l)" unfolding a by (simp add: minus_mod_eq_mult_div)
qed

text \<open>Each struct starts at an aligned address behind its predecessor.\<close>

fun laid_out :: "(fld list \<Rightarrow> u64) \<Rightarrow> nat \<Rightarrow> (u64 \<times> fld list) list \<Rightarrow> bool" where
  "laid_out size_of free [] \<longleftrightarrow> True"
| "laid_out size_of free ((a, fs) # placed) \<longleftrightarrow>
     free \<le> unat a \<and> unat a < free + 16 \<and> 16 dvd unat a \<and> laid_out size_of (unat a + unat (size_of fs)) placed"

text \<open>The first address behind the structs.\<close>

fun free_after :: "(fld list \<Rightarrow> u64) \<Rightarrow> nat \<Rightarrow> (u64 \<times> fld list) list \<Rightarrow> nat" where
  "free_after size_of free [] = free"
| "free_after size_of free ((a, fs) # placed) = free_after size_of (unat a + unat (size_of fs)) placed"

lemma pack_events_layout:
  assumes "pack_events size_of e prev n i later = (placed, link)" "unat prev + unat n \<le> unat e" "unat e + 2 ^ 33 < 2 ^ 64"
    "\<And>fs. fs \<in> set later \<Longrightarrow> unat (size_of fs) < 2 ^ 32"
  shows "laid_out size_of (unat prev + unat n) placed \<and> free_after size_of (unat prev + unat n) placed \<le> unat e \<and>
    map snd placed = take (length placed) later \<and>
    (link = None \<longrightarrow> length placed = length later) \<and>
    (\<forall>p. link = Some p \<longrightarrow> p = chain_block (i + length placed) \<and> length placed < length later \<and>
      unat e < free_after size_of (unat prev + unat n) placed + 15 + unat (size_of (later ! length placed)))"
  using assms
proof (induction later arbitrary: prev n i placed)
  case (Cons fs later)
  let ?l = "prev + n" and ?o = "align_up (prev + n)"
  have l: "unat ?l = unat prev + unat n" using Cons.prems(2,3) by (simp add: unat_word_ariths)
  have o: "unat ?l \<le> unat ?o" "unat ?o \<le> unat ?l + 15" "16 dvd unat ?o"
    by (rule align_up_bounds; use l Cons.prems(2,3) in simp)+
  have sum: "unat (?o + size_of fs) = unat ?o + unat (size_of fs)"
    using o(2) l Cons.prems(2,3) Cons.prems(4) [of fs] by (simp add: unat_word_ariths)
  show ?case
  proof (cases "?o + size_of fs > e")
    case True
    then have "placed = []" "link = Some (chain_block i)" "unat e < unat ?o + unat (size_of fs)"
      using Cons.prems(1) sum by (simp_all add: Let_def word_less_nat_alt)
    then show ?thesis using Cons.prems(2) o(2) l by simp
  next
    case False
    then obtain rest where r: "pack_events size_of e ?o (size_of fs) (Suc i) later = (rest, link)" "placed = (?o, fs) # rest"
      using Cons.prems(1) by (auto simp: Let_def split: prod.splits)
    have fits: "unat ?o + unat (size_of fs) \<le> unat e" using False sum by (simp add: word_le_nat_alt not_less)
    from Cons.IH [OF r(1) fits Cons.prems(3)] show ?thesis
      using r(2) o l Cons.prems(4) by simp
  qed
qed simp

lemma free_after_ge: "laid_out size_of free placed \<Longrightarrow> free \<le> free_after size_of free placed"
proof (induction placed arbitrary: free)
  case (Cons x placed)
  then show ?case by (cases x) fastforce
qed simp

section \<open>The blocks of a chain\<close>

lemma find_field_in: "find_field fs f = Some v \<Longrightarrow> Field f v \<in> set fs"
  by (induction fs f rule: find_field.induct) (auto split: if_splits)

lemma chain_block_freed: "i < length (chain_structs v) \<Longrightarrow> chain_block i \<in> set (blocks v)"
proof (induction v arbitrary: i rule: chain_structs.induct)
  case (1 fs)
  show ?case
  proof (cases i)
    case (Suc j)
    then obtain nxt where n: "find_field fs ''next'' = Some nxt" "j < length (chain_structs nxt)"
      using 1(2) by (auto split: option.splits)
    have "Field ''next'' nxt \<in> set fs" using find_field_in [OF n(1)] .
    moreover have "chain_block j \<in> set (blocks nxt)" using 1(1) n by simp
    ultimately have "Member ''next'' # chain_block j \<in> set (blocks (V_struct fs))" by force
    then show ?thesis using Suc by simp
  qed simp
qed simp_all

section \<open>What the client reads\<close>

lemma read_event:
  "deserialize_xr E (des E off n) const None bs = des E off (Suc n) K_xr None bs"
  by (simp add: deserialize_xr_def cong: if_cong)

lemma client_reads_event:
  fixes X exts v off
  defines "w \<equiv> arr (build_codec X exts) event_ctx 0 K_xr v"
  assumes header: "types_ok (build_codec X exts)" "times_ok (build_codec X exts)"
      "skips_ok (build_codec X exts) skipped_members"
    and v: "size v < n" "size v < 2 ^ 32" "ser (build_codec X exts) event_ctx K_xr v = Wrote bs"
    and fs: "chain_structs w = fs # later" "event_struct_size X exts sizeof fs \<le> event_buffer_size"
    and pack: "pack_events (event_struct_size X exts sizeof) (buf + event_buffer_size) buf
        (event_struct_size X exts sizeof fs) 1 later = (placed, link)"
  shows "client_poll_event X exts sizeof n buf (word_bytes XR_SUCCESS @ bs)
     = Some (Ret ((XR_SUCCESS, Some \<lparr>event_structs = (buf, fs) # placed, event_link = link, event_freed = blocks w\<rparr>), []))"
proof -
  have res: "des_bytes 4 (word_bytes XR_SUCCESS @ bs) = Some (Ret (word_bytes XR_SUCCESS, bs))"
    by (rule des_bytes_append) simp
  have read: "des (build_codec X exts) 0 (Suc n) K_xr None (bs @ []) = Some (Ret (w, []))"
    unfolding w_def by (rule build.reads_back [OF header(1) v]) (simp add: fits_def)
  have freed: "clean (build_codec X exts) (build_cleaners X exts) K_xr w = Ret (blocks w)"
    unfolding w_def using build.freed_exactly [OF header(2,3) v(3)] by blast
  show ?thesis
    using res read freed fs pack
    by (simp add: client_poll_event_def read_event not_less del: des.simps)
qed

text \<open>An event that the serializer writes is one that the client sees.\<close>

lemma event_chain:
  fixes X exts fs
  defines "w \<equiv> arr (build_codec X exts) event_ctx 0 K_xr (V_ref (V_struct fs))"
  assumes "struct_type fs = Some ty" "size_lookup X exts ty \<noteq> None"
    "ser (build_codec X exts) event_ctx K_xr (V_ref (V_struct fs)) = Wrote bs"
  shows "\<exists>gs later. chain_structs w = gs # later \<and>
    event_struct_size X exts sizeof gs = event_struct_size X exts sizeof fs"
proof -
  let ?E = "build_codec X exts"
  obtain s where s: "ser_lookup ?E ty = Some s" using assms(3) lookups_match by auto
  then obtain b where "ser ?E event_ctx (K_val (T_struct s)) (V_struct fs) = Wrote b"
    using assms(2,4) by (auto simp: wseq_Wrote_iff)
  then obtain ops where ops: "ser_program ?E s = Some ops"
    "run_sops (\<lambda>op v. ser_op ?E event_ctx (ser ?E event_ctx) s fs op v) ops fs = Wrote b"
    by (auto split: option.splits)
  let ?gs = "run_arr (\<lambda>op v. arr_op ?E event_ctx 0 (arr ?E event_ctx 0) s fs op v) ops fs"
  have "w = V_ref (V_struct ?gs)" unfolding w_def using assms(2) s ops(1) by simp
  moreover have "struct_type ?gs = Some ty" by (rule build.struct_type_of_program [OF ops assms(2)])
  ultimately show ?thesis using assms(2) by (simp add: event_struct_size_def)
qed

section \<open>Events arrive\<close>

lemma size_lookup_serializer: "size_lookup X exts ty = serializer_lookup X exts ty"
  by (simp add: lookups_match)

lemma handler_answers:
  assumes "rt_loads R s ''xrPollEvent''" "skips_events X exts R inst s s1"
    "rt_call R ''xrPollEvent'' (poll_params inst (empty_event_buffer X)) s1 = (XR_SUCCESS, ps, s2)"
    "event_of ps = Some fs" "struct_type fs = Some ty" "size_lookup X exts ty \<noteq> None"
    "ser (build_codec X exts) event_ctx K_xr (V_ref (V_struct fs)) = Wrote bs"
  shows "poll_event_handler X exts R inst s = Some (Replied (word_bytes XR_SUCCESS @ bs) s2)"
proof -
  have "poll_event_loop X exts R inst s = Some (Ret (XR_SUCCESS, Some fs), s2)"
    using poll_event_loop_skips [OF assms(2)] poll_event_loop.simps [of X exts R inst s1] assms(3-6) by simp
  then show ?thesis using assms(1,7) by (simp add: poll_event_handler_def event_reply_def del: ser.simps)
qed

definition sizes_fit :: "openxr \<Rightarrow> string list \<Rightarrow> (string \<Rightarrow> u64) \<Rightarrow> u64 \<Rightarrow> fld list \<Rightarrow> bool" where
  "sizes_fit X exts sizeof buf fs \<longleftrightarrow>
     (\<forall>s. unat (sizeof s) < 2 ^ 32) \<and> unat buf + 4016 + 2 ^ 33 < 2 ^ 64 \<and>
     event_struct_size X exts sizeof fs \<le> event_buffer_size"

lemma sizes_fitD:
  assumes "sizes_fit X exts sizeof buf fs"
  shows "unat (event_struct_size X exts sizeof gs) < 2 ^ 32" "unat (buf + event_buffer_size) = unat buf + 4016"
    "unat buf + unat (event_struct_size X exts sizeof fs) \<le> unat (buf + event_buffer_size)"
    "unat (buf + event_buffer_size) + 2 ^ 33 < 2 ^ 64"
proof -
  show "unat (event_struct_size X exts sizeof gs) < 2 ^ 32"
    using assms by (simp add: sizes_fit_def event_struct_size_def split: option.split)
  show sum: "unat (buf + event_buffer_size) = unat buf + 4016"
    using assms by (simp add: sizes_fit_def event_buffer_size_def unat_word_ariths)
  show "unat buf + unat (event_struct_size X exts sizeof fs) \<le> unat (buf + event_buffer_size)"
    using assms unfolding sum by (simp add: sizes_fit_def word_le_nat_alt event_buffer_size_def)
  show "unat (buf + event_buffer_size) + 2 ^ 33 < 2 ^ 64"
    using assms unfolding sum by (simp add: sizes_fit_def)
qed

text \<open>
  C18: However many events the runtime reports that this build does not know, the next known
  event reaches the application: the structs of its chain are copied into the event buffer in
  order, each at an aligned address behind its predecessor, none beyond the end of the buffer,
  and the memory of the message is released.
\<close>

theorem event_delivered:
  fixes X exts fs
  defines "E \<equiv> build_codec X exts"
  defines "w \<equiv> arr E event_ctx 0 K_xr (V_ref (V_struct fs))"
  assumes runtime: "rt_loads R s ''xrPollEvent''" "skips_events X exts R inst s s1"
    "rt_call R ''xrPollEvent'' (poll_params inst (empty_event_buffer X)) s1 = (XR_SUCCESS, ps, s2)"
    "event_of ps = Some fs" "struct_type fs = Some ty" "size_lookup X exts ty \<noteq> None"
    and header: "types_ok E" "times_ok E" "skips_ok E skipped_members"
    and event: "size (V_ref (V_struct fs)) < n" "size (V_ref (V_struct fs)) < 2 ^ 32"
      "ser E event_ctx K_xr (V_ref (V_struct fs)) = Wrote bs"
    and sizes: "sizes_fit X exts sizeof buf fs"
  shows "\<exists>reply gs placed link.
    poll_event_handler X exts R inst s = Some (Replied reply s2) \<and>
    client_poll_event X exts sizeof n buf reply
      = Some (Ret ((XR_SUCCESS, Some \<lparr>event_structs = (buf, gs) # placed, event_link = link, event_freed = blocks w\<rparr>), [])) \<and>
    gs # map snd placed = take (Suc (length placed)) (chain_structs w) \<and>
    laid_out (event_struct_size X exts sizeof) (unat buf + unat (event_struct_size X exts sizeof gs)) placed \<and>
    free_after (event_struct_size X exts sizeof) (unat buf + unat (event_struct_size X exts sizeof gs)) placed
      \<le> unat buf + 4016"
proof -
  obtain gs later where gs: "chain_structs w = gs # later"
    "event_struct_size X exts sizeof gs = event_struct_size X exts sizeof fs"
    using event_chain [OF runtime(5,6)] event(3) unfolding w_def E_def by blast
  obtain placed link where pack: "pack_events (event_struct_size X exts sizeof) (buf + event_buffer_size) buf
      (event_struct_size X exts sizeof gs) 1 later = (placed, link)"
    by (cases "pack_events (event_struct_size X exts sizeof) (buf + event_buffer_size) buf
      (event_struct_size X exts sizeof gs) 1 later")
  have small: "event_struct_size X exts sizeof gs \<le> event_buffer_size"
    using sizes gs(2) by (simp add: sizes_fit_def)
  note layout = pack_events_layout [OF pack _ sizes_fitD(4) [OF sizes]]
  have "laid_out (event_struct_size X exts sizeof) (unat buf + unat (event_struct_size X exts sizeof gs)) placed \<and>
      free_after (event_struct_size X exts sizeof) (unat buf + unat (event_struct_size X exts sizeof gs)) placed
        \<le> unat buf + 4016 \<and> map snd placed = take (length placed) later"
    using layout sizes_fitD [OF sizes] gs(2) by simp
  moreover have "poll_event_handler X exts R inst s = Some (Replied (word_bytes XR_SUCCESS @ bs) s2)"
    by (rule handler_answers [OF runtime]) (use event(3) E_def in simp)
  moreover have "client_poll_event X exts sizeof n buf (word_bytes XR_SUCCESS @ bs)
      = Some (Ret ((XR_SUCCESS, Some \<lparr>event_structs = (buf, gs) # placed, event_link = link, event_freed = blocks w\<rparr>), []))"
    using client_reads_event [OF header [unfolded E_def] event [unfolded E_def]] gs(1) small pack unfolding w_def E_def by blast
  ultimately show ?thesis using gs(1) by auto
qed

text \<open>A runtime that first has an event with an unknown type, then a known one, then none.\<close>

definition unknown_event :: xv where
  "unknown_event = V_struct [Field ''type'' (V_prim (word_bytes (99 :: u32))), Field ''next'' V_null]"

definition event_runtime :: "nat runtime" where
  "event_runtime =
     \<lparr>rt_loads = \<lambda>s f. True,
      rt_call = \<lambda>f ps k.
        if k = 0 then (XR_SUCCESS, poll_params 7 unknown_event, 1)
        else if k = 1 then (XR_SUCCESS, poll_params 7 (frame_struct 5000), 2)
        else (XR_EVENT_UNAVAILABLE, ps, k),
      rt_duration = \<lambda>s f. 0\<rparr>"

lemma event_ctx_skipping: "event_ctx = skipping"
  by (simp add: event_ctx_def skipping_def)

lemma frame_event_ser:
  "ser (build_codec frame_openxr []) event_ctx K_xr (V_ref (frame_struct 5000))
   = Wrote (word_bytes (44 :: u32) @ frame_struct_bytes 5000)"
  using mixed_chain_ser by (simp add: event_ctx_skipping mixed_chain_def frame_lookup skipping_def struct_type_def)

lemma frame_event_size: "event_struct_size frame_openxr [] sizeof (Field ''type'' (V_prim (word_bytes (44 :: u32))) # fs)
   = sizeof ''XrFrameState''"
  by (simp add: event_struct_size_def struct_type_def lookups_match frame_lookup)

theorem event_delivered_witness:
  "\<exists>reply p. poll_event_handler frame_openxr [] event_runtime 7 0 = Some (Replied reply 2) \<and>
     client_poll_event frame_openxr [] (\<lambda>s. 48) 200 4096 reply = Some (Ret ((XR_SUCCESS, Some p), []))"
proof -
  obtain fs where fs: "frame_struct 5000 = V_struct fs"
    "fs = Field ''type'' (V_prim (word_bytes (44 :: u32))) # tl fs"
    by (simp add: frame_struct_def)
  have ty: "struct_type fs = Some 44" by (subst fs(2)) (simp add: struct_type_def)
  have look: "size_lookup frame_openxr [] 44 \<noteq> None" "size_lookup frame_openxr [] 99 = None"
    by (simp_all add: lookups_match frame_lookup)
  have unknown: "event_of (poll_params 7 unknown_event) = Some [Field ''type'' (V_prim (word_bytes (99 :: u32))), Field ''next'' V_null]"
    "struct_type [Field ''type'' (V_prim (word_bytes (99 :: u32))), Field ''next'' V_null] = Some 99"
    by (simp_all add: event_of_def poll_params_def unknown_event_def struct_type_def)
  have skips: "skips_events frame_openxr [] event_runtime 7 0 1"
    by (rule skips_events.more [OF _ unknown look(2) skips_events.none]) (simp add: event_runtime_def)
  have call: "rt_call event_runtime ''xrPollEvent'' (poll_params 7 (empty_event_buffer frame_openxr)) 1
      = (XR_SUCCESS, poll_params 7 (V_struct fs), 2)" "event_of (poll_params 7 (V_struct fs)) = Some fs"
    by (simp_all add: event_runtime_def fs(1) event_of_def poll_params_def)
  have small: "size (V_ref (V_struct fs)) < 200" "size (V_ref (V_struct fs)) < 2 ^ 32"
    unfolding fs(1) [symmetric] by (simp_all add: frame_struct_def)
  have fit: "sizes_fit frame_openxr [] (\<lambda>s. 48) 4096 fs"
    using frame_event_size [of "\<lambda>s. 48" "tl fs"] fs(2) by (simp add: sizes_fit_def event_buffer_size_def)
  have "rt_loads event_runtime 0 ''xrPollEvent''" by (simp add: event_runtime_def)
  from event_delivered [OF this skips call ty look(1) frame_types frame_times frame_skips small
      frame_event_ser [unfolded fs(1)] fit]
  show ?thesis by blast
qed

text \<open>
  When the chain does not fit into the event buffer, the last struct that was copied keeps its
  pointer to the next one, which lies in memory that the call has released: the application
  follows a dangling pointer.
\<close>

theorem event_link_dangles:
  fixes X exts v
  defines "E \<equiv> build_codec X exts"
  defines "w \<equiv> arr E event_ctx 0 K_xr v"
  assumes header: "types_ok E" "times_ok E" "skips_ok E skipped_members"
    and event: "size v < n" "size v < 2 ^ 32" "ser E event_ctx K_xr v = Wrote bs"
    and first: "chain_structs w = gs # later" "sizes_fit X exts sizeof buf gs"
    and result: "client_poll_event X exts sizeof n buf (word_bytes XR_SUCCESS @ bs) = Some (Ret ((res, Some p), rest))"
    and cut: "length (event_structs p) < length (chain_structs w)"
  shows "\<exists>blk. event_link p = Some blk \<and> blk \<in> set (event_freed p)"
proof -
  obtain placed link where pack: "pack_events (event_struct_size X exts sizeof) (buf + event_buffer_size) buf
      (event_struct_size X exts sizeof gs) 1 later = (placed, link)"
    by (cases "pack_events (event_struct_size X exts sizeof) (buf + event_buffer_size) buf
      (event_struct_size X exts sizeof gs) 1 later")
  have "event_struct_size X exts sizeof gs \<le> event_buffer_size" using first(2) by (simp add: sizes_fit_def)
  then have p: "p = \<lparr>event_structs = (buf, gs) # placed, event_link = link, event_freed = blocks w\<rparr>"
    using client_reads_event [OF header [unfolded E_def] event [unfolded E_def]] first(1) pack result unfolding w_def E_def by fastforce
  note layout = pack_events_layout [OF pack _ sizes_fitD(4) [OF first(2)]]
  have "link \<noteq> None \<and> (\<forall>q. link = Some q \<longrightarrow> q = chain_block (Suc (length placed)))"
    using layout sizes_fitD [OF first(2)] cut p first(1) by auto
  moreover have "chain_block (Suc (length placed)) \<in> set (blocks w)"
    by (rule chain_block_freed) (use cut p first(1) in simp)
  ultimately show ?thesis using p by auto
qed

definition two_events :: xv where
  "two_events = V_ref (V_struct [Field ''type'' (V_prim (word_bytes (44 :: u32))), Field ''next'' (V_ref (frame_struct 5000)),
     Field ''predictedDisplayTime'' (V_prim (word_bytes (9 :: u64))),
     Field ''predictedDisplayPeriod'' (V_prim (word_bytes (11 :: u64))),
     Field ''shouldRender'' (V_prim (word_bytes (1 :: u32)))])"

lemma two_events_ser: "\<exists>bs. ser (build_codec frame_openxr []) event_ctx K_xr two_events = Wrote bs"
proof -
  have "struct_type (Field ''type'' (V_prim (word_bytes (44 :: u32))) # fs) = Some 44" for fs
    by (simp add: struct_type_def)
  then show ?thesis using frame_event_ser
    by (simp add: two_events_def frame_lookup)
      (simp add: frame_value_simps)
qed

lemma frame_event_arrives:
  "arr (build_codec frame_openxr []) event_ctx 0 K_xr (V_ref (frame_struct 5000)) = V_ref (frame_struct 5000)"
proof -
  have "arr (build_codec frame_openxr []) event_ctx 0 (K_val (T_struct ''XrFrameState'')) (frame_struct 5000) = frame_struct 5000"
    by (simp add: frame_value_simps frame_struct_def event_ctx_def)
  then show ?thesis
    by (simp add: frame_struct_def struct_type_def frame_lookup)
qed

lemma two_events_arrive:
  "arr (build_codec frame_openxr []) event_ctx 0 K_xr two_events = two_events"
proof -
  have "struct_type (Field ''type'' (V_prim (word_bytes (44 :: u32))) # fs) = Some 44" for fs
    by (simp add: struct_type_def)
  moreover have "ser_program (build_codec frame_openxr []) ''XrFrameState'' = Some
     [Ser ''type'', Ser_xr ''next'', Ser_time ''predictedDisplayTime'', Ser ''predictedDisplayPeriod'', Ser ''shouldRender'']"
    by (simp add: build_codec_def frame_state_program)
  ultimately show ?thesis using frame_event_arrives
    by (simp add: two_events_def frame_lookup arr_time_def event_ctx_def)
qed

lemma two_events_chain:
  "\<exists>gs hs. chain_structs two_events = [gs, hs] \<and>
     event_struct_size frame_openxr [] (\<lambda>s. 4016) gs = 4016 \<and> event_struct_size frame_openxr [] (\<lambda>s. 4016) hs = 4016"
  by (simp add: two_events_def frame_struct_def frame_event_size)

theorem event_link_dangles_witness:
  "\<exists>bs p blk. ser (build_codec frame_openxr []) event_ctx K_xr two_events = Wrote bs \<and>
     client_poll_event frame_openxr [] (\<lambda>s. 4016) 300 4096 (word_bytes XR_SUCCESS @ bs)
       = Some (Ret ((XR_SUCCESS, Some p), [])) \<and>
     event_link p = Some blk \<and> blk \<in> set (event_freed p)"
proof -
  obtain bs where bs: "ser (build_codec frame_openxr []) event_ctx K_xr two_events = Wrote bs"
    using two_events_ser by blast
  obtain gs hs where chain: "chain_structs two_events = [gs, hs]"
    "event_struct_size frame_openxr [] (\<lambda>s. 4016) gs = 4016" "event_struct_size frame_openxr [] (\<lambda>s. 4016) hs = 4016"
    using two_events_chain by blast
  have small: "size two_events < 300" "size two_events < 2 ^ 32"
    by (simp_all add: two_events_def frame_struct_def)
  have "align_up (8112 :: u64) = 8112" by (simp add: align_up_def)
  then have pack: "pack_events (event_struct_size frame_openxr [] (\<lambda>s. 4016)) (4096 + event_buffer_size) 4096
      (event_struct_size frame_openxr [] (\<lambda>s. 4016) gs) 1 [hs] = ([], Some (chain_block 1))"
    unfolding chain(2) by (simp add: event_buffer_size_def chain(3))
  have fit: "sizes_fit frame_openxr [] (\<lambda>s. 4016) 4096 gs"
    by (simp add: sizes_fit_def event_buffer_size_def chain(2))
  let ?p = "\<lparr>event_structs = [(4096, gs)], event_link = Some (chain_block 1), event_freed = blocks two_events\<rparr>"
  have result: "client_poll_event frame_openxr [] (\<lambda>s. 4016) 300 4096 (word_bytes XR_SUCCESS @ bs)
      = Some (Ret ((XR_SUCCESS, Some ?p), []))"
    using client_reads_event [OF frame_types frame_times frame_skips small bs, of gs "[hs]" "\<lambda>s. 4016" 4096 "[]"]
      chain pack unfolding two_events_arrive by (simp add: event_buffer_size_def)
  have "\<exists>blk. event_link ?p = Some blk \<and> blk \<in> set (event_freed ?p)"
    by (rule event_link_dangles [OF frame_types frame_times frame_skips small bs _ fit result])
      (simp_all add: two_events_arrive chain)
  then show ?thesis using bs result by blast
qed

end
