(* ===== verification/Actions.thy ===== *)
theory Actions
  imports Message_Buffers
begin

text \<open>
  Actions on a state that may end with an exception, with undefined behaviour or not at all: the
  sequential composition of C++ statements, loops over a container, and the triples with which the
  invariants of the Vulkan module are carried through them. A triple has a postcondition for the
  value and one for every other end.
\<close>

type_synonym ('s, 'a) action = "'s \<Rightarrow> 'a outcome \<times> 's"

definition and_then :: "('s, 'a) action \<Rightarrow> ('a \<Rightarrow> ('s, 'b) action) \<Rightarrow> ('s, 'b) action" where
  "and_then f g m =
     (case f m of
        (Ret x, m') \<Rightarrow> g x m'
      | (Throw e, m') \<Rightarrow> (Throw e, m')
      | (Terminate, m') \<Rightarrow> (Terminate, m')
      | (Fault, m') \<Rightarrow> (Fault, m')
      | (Blocked, m') \<Rightarrow> (Blocked, m'))"

definition done_with :: "'a \<Rightarrow> ('s, 'a) action" where
  "done_with x m = (Ret x, m)"

definition fail_with :: "exn \<Rightarrow> ('s, 'a) action" where
  "fail_with e m = (Throw e, m)"

definition change :: "('s \<Rightarrow> 's) \<Rightarrow> ('s, unit) action" where
  "change f m = (Ret (), f m)"

definition ask :: "('s \<Rightarrow> 'a) \<Rightarrow> ('s, 'a) action" where
  "ask f m = (Ret (f m), m)"

text \<open>\<open>std::optional::value\<close> and \<open>std::vector::at\<close>\<close>

definition bad_optional_access :: exn where
  "bad_optional_access = Std_exception ''bad_optional_access''"

definition value_of :: "('s \<Rightarrow> 'a option) \<Rightarrow> ('s, 'a) action" where
  "value_of f m = (case f m of None \<Rightarrow> (Throw bad_optional_access, m) | Some x \<Rightarrow> (Ret x, m))"

definition index_out_of_range :: exn where
  "index_out_of_range = Std_exception ''vector::at''"

definition element_at :: "'a list \<Rightarrow> nat \<Rightarrow> ('s, 'a) action" where
  "element_at xs i = (if i < length xs then done_with (xs ! i) else fail_with index_out_of_range)"

fun for_each :: "('a \<Rightarrow> ('s, 'b) action) \<Rightarrow> 'a list \<Rightarrow> ('s, 'b list) action" where
  "for_each f [] = done_with []"
| "for_each f (x # xs) = and_then (f x) (\<lambda>y. and_then (for_each f xs) (\<lambda>ys. done_with (y # ys)))"

named_theorems act_simps \<open>the basic actions\<close>

lemmas basic_actions [act_simps] = done_with_def fail_with_def change_def ask_def value_of_def

lemma and_then_cases:
  obtains x m' where "f m = (Ret x, m')" "and_then f g m = g x m'"
    | r m' where "f m = (r, m')" "\<forall>x. r \<noteq> Ret x" "\<forall>x. fst (and_then f g m) \<noteq> Ret x" "snd (and_then f g m) = m'"
proof -
  obtain r m' where "f m = (r, m')" by (cases "f m")
  then show thesis using that by (cases r) (auto simp: and_then_def)
qed

lemma and_then_Ret_iff:
  "and_then f g m = (Ret y, m'') \<longleftrightarrow> (\<exists>x m'. f m = (Ret x, m') \<and> g x m' = (Ret y, m''))"
  by (auto simp: and_then_def split: prod.splits outcome.splits)

lemma element_at_Ret_iff: "element_at xs i m = (Ret x, m') \<longleftrightarrow> i < length xs \<and> x = xs ! i \<and> m' = m"
  by (auto simp: element_at_def done_with_def fail_with_def)

lemma value_of_Ret_iff: "value_of f m = (Ret x, m') \<longleftrightarrow> f m = Some x \<and> m' = m"
  by (auto simp: value_of_def split: option.splits)

lemma and_then_assoc: "and_then (and_then f g) k = and_then f (\<lambda>x. and_then (g x) k)"
  by (rule ext) (auto simp: and_then_def split: prod.split outcome.split)

lemma for_each_length: "for_each f xs m = (Ret ys, m') \<Longrightarrow> length ys = length xs"
  by (induction xs arbitrary: m ys) (auto simp: and_then_Ret_iff done_with_def)

section \<open>Triples\<close>

definition ensures ::
  "('s \<Rightarrow> bool) \<Rightarrow> ('s, 'a) action \<Rightarrow> ('a \<Rightarrow> 's \<Rightarrow> bool) \<Rightarrow> ('s \<Rightarrow> bool) \<Rightarrow> bool" where
  "ensures P f Q E \<longleftrightarrow>
     (\<forall>m. P m \<longrightarrow> (case f m of (Ret x, m') \<Rightarrow> Q x m' | (_, m') \<Rightarrow> E m'))"

lemma ensures_and_then:
  assumes "ensures P f Q E" "\<And>x. ensures (Q x) (g x) R E"
  shows "ensures P (and_then f g) R E"
  unfolding ensures_def
proof (intro allI impI)
  fix m assume "P m"
  then have f: "case f m of (Ret x, m') \<Rightarrow> Q x m' | (_, m') \<Rightarrow> E m'" using assms(1) by (simp add: ensures_def)
  show "case and_then f g m of (Ret x, m') \<Rightarrow> R x m' | (_, m') \<Rightarrow> E m'"
  proof (cases "f m")
    case (Pair r m')
    then show ?thesis using f assms(2) by (cases r) (simp_all add: and_then_def ensures_def)
  qed
qed

lemma ensures_weaken:
  assumes "ensures P f Q E" "\<And>m. P' m \<Longrightarrow> P m" "\<And>x m. Q x m \<Longrightarrow> Q' x m" "\<And>m. E m \<Longrightarrow> E' m"
  shows "ensures P' f Q' E'"
  unfolding ensures_def
proof (intro allI impI)
  fix m assume "P' m"
  then have "case f m of (Ret x, m') \<Rightarrow> Q x m' | (_, m') \<Rightarrow> E m'" using assms(1,2) by (simp add: ensures_def)
  then show "case f m of (Ret x, m') \<Rightarrow> Q' x m' | (_, m') \<Rightarrow> E' m'"
    using assms(3,4) by (cases "f m", cases "fst (f m)") auto
qed

lemma ensures_snd: "ensures P f (\<lambda>x. Q) Q \<Longrightarrow> P m \<Longrightarrow> Q (snd (f m))"
  unfolding ensures_def by (cases "f m", cases "fst (f m)") fastforce+

lemma ensures_end:
  assumes "\<And>m. P m \<Longrightarrow> Q (snd (f m))"
  shows "ensures P f (\<lambda>x. Q) Q"
proof -
  have "case f m of (Ret x, m') \<Rightarrow> Q m' | (_, m') \<Rightarrow> Q m'" if "P m" for m
    using assms [OF that] by (cases "f m", cases "fst (f m)") auto
  then show ?thesis by (simp add: ensures_def)
qed

lemmas ensures_always = ensures_end [where P = P and Q = P for P]

lemma ensures_ask:
  "(\<And>x. ensures (\<lambda>m. P m \<and> f m = x) (g x) Q E) \<Longrightarrow> ensures P (and_then (ask f) g) Q E"
  by (simp add: ensures_def and_then_def ask_def)

lemma ensures_value_of:
  "(\<And>m. P m \<Longrightarrow> E m) \<Longrightarrow> ensures P (value_of f) (\<lambda>x m. P m \<and> f m = Some x) E"
  by (simp add: ensures_def value_of_def split: option.split)

lemma ensures_done: "(\<And>m. P m \<Longrightarrow> Q x m) \<Longrightarrow> ensures P (done_with x) Q E"
  by (simp add: ensures_def done_with_def)

lemma ensures_fail: "(\<And>m. P m \<Longrightarrow> E m) \<Longrightarrow> ensures P (fail_with e) Q E"
  by (simp add: ensures_def fail_with_def)

lemma ensures_change: "(\<And>m. P m \<Longrightarrow> Q () (f m)) \<Longrightarrow> ensures P (change f) Q E"
  by (simp add: ensures_def change_def)

lemma ensures_value:
  "ensures P f (\<lambda>x. P) E \<Longrightarrow> (\<And>m x m'. f m = (Ret x, m') \<Longrightarrow> C x) \<Longrightarrow> ensures P f (\<lambda>x m. P m \<and> C x) E"
  unfolding ensures_def by (auto split: prod.split outcome.split)

lemma ensures_assuming: "(C \<Longrightarrow> ensures P f Q E) \<Longrightarrow> ensures (\<lambda>m. P m \<and> C) f Q E"
  by (auto simp: ensures_def)

lemma ensures_for_each:
  assumes "\<And>x. ensures P (f x) (\<lambda>y. P) E"
  shows "ensures P (for_each f xs) (\<lambda>ys. P) E"
proof (induction xs)
  case (Cons x xs)
  then show ?case
    by (auto intro!: ensures_and_then [OF assms] ensures_and_then [OF Cons] ensures_done)
qed (simp add: ensures_done)

section \<open>Steps that relate states\<close>

text \<open>A preorder on states that every step of an action follows, on whatever way it ends.\<close>

locale step_preorder =
  fixes rel :: "'s \<Rightarrow> 's \<Rightarrow> bool"
  assumes rel_refl: "rel m m" and rel_trans: "rel a b \<Longrightarrow> rel b c \<Longrightarrow> rel a c"
begin

definition follows :: "('s, 'a) action \<Rightarrow> bool" where
  "follows f \<longleftrightarrow> (\<forall>m. rel m (snd (f m)))"

lemma follows_and_then: "follows f \<Longrightarrow> (\<And>x. follows (g x)) \<Longrightarrow> follows (and_then f g)"
  unfolding follows_def
proof
  fix m
  assume f: "\<forall>m. rel m (snd (f m))" and g: "\<And>x. \<forall>m. rel m (snd (g x m))"
  show "rel m (snd (and_then f g m))"
  proof (cases rule: and_then_cases [of f m g])
    case (1 x m')
    then show ?thesis using f g rel_trans [of m m' "snd (g x m')"] by (metis snd_conv)
  next
    case (2 r m')
    then show ?thesis using f by (metis snd_conv)
  qed
qed

lemma follows_basic [simp]:
  "follows (done_with x)" "follows (fail_with e)" "follows (ask p)" "follows (value_of q)"
  "follows (element_at xs i)" "follows (\<lambda>m. (Fault, m))"
  by (simp_all add: follows_def act_simps element_at_def rel_refl split: option.split)

lemma follows_change: "(\<And>m. rel m (t m)) \<Longrightarrow> follows (change t)"
  by (simp add: follows_def change_def)

lemma follows_for_each: "(\<And>x. follows (f x)) \<Longrightarrow> follows (for_each f xs)"
  by (induction xs) (auto intro!: follows_and_then)

lemma ensures_follows:
  assumes "follows f" "\<And>m m'. rel m m' \<Longrightarrow> P m \<Longrightarrow> P m'"
  shows "ensures P f (\<lambda>x. P) P"
  by (rule ensures_always) (use assms in \<open>auto simp: follows_def\<close>)

end

section \<open>Actions that end\<close>

text \<open>From a state with \<open>P\<close> the action returns or throws, and \<open>P\<close> holds again.\<close>

definition tame :: "('s \<Rightarrow> bool) \<Rightarrow> ('s, 'a) action \<Rightarrow> bool" where
  "tame P f \<longleftrightarrow>
     (\<forall>m. P m \<longrightarrow> (case f m of (Ret x, m') \<Rightarrow> P m' | (Throw e, m') \<Rightarrow> P m' | _ \<Rightarrow> False))"

lemma tame_and_then_value:
  assumes "tame P f" "\<And>m x m'. f m = (Ret x, m') \<Longrightarrow> C x" "\<And>x. C x \<Longrightarrow> tame P (g x)"
  shows "tame P (and_then f g)"
  unfolding tame_def
proof (intro allI impI)
  fix m assume "P m"
  then have f: "case f m of (Ret x, m') \<Rightarrow> P m' | (Throw e, m') \<Rightarrow> P m' | _ \<Rightarrow> False" using assms(1) by (simp add: tame_def)
  obtain r m' where r: "f m = (r, m')" by (cases "f m")
  show "case and_then f g m of (Ret x, m') \<Rightarrow> P m' | (Throw e, m') \<Rightarrow> P m' | _ \<Rightarrow> False"
  proof (cases r)
    case (Ret x)
    then have "P m'" "C x" using f r assms(2) [of m x m'] by simp_all
    then show ?thesis using assms(3) [of x] r Ret by (simp add: tame_def and_then_def)
  qed (use f r in \<open>simp_all add: and_then_def\<close>)
qed

lemma tame_and_then: "tame P f \<Longrightarrow> (\<And>x. tame P (g x)) \<Longrightarrow> tame P (and_then f g)"
  by (rule tame_and_then_value [where C = "\<lambda>x. True"]) simp_all

lemma tame_basic [simp]:
  "tame P (done_with x)" "tame P (fail_with e)" "tame P (ask p)" "tame P (value_of q)" "tame P (element_at xs i)"
  by (auto simp: tame_def act_simps element_at_def split: option.split)

lemma tame_change: "(\<And>m. P m \<Longrightarrow> P (t m)) \<Longrightarrow> tame P (change t)"
  by (simp add: tame_def change_def)

lemma tame_for_each: "(\<And>x. tame P (f x)) \<Longrightarrow> tame P (for_each f xs)"
  by (induction xs) (auto intro!: tame_and_then)

lemma tame_no_fault: "tame P f \<Longrightarrow> P m \<Longrightarrow> fst (f m) \<noteq> Fault"
  unfolding tame_def by (cases "f m"; cases "fst (f m)") fastforce+

lemma tame_keeps: "tame P f \<Longrightarrow> P m \<Longrightarrow> P (snd (f m))"
  unfolding tame_def by (cases "f m"; cases "fst (f m)") fastforce+

end
