(* ===== verification/Server_Loop.thy ===== *)
theory Server_Loop
  imports Poll_Events Actions
begin

text \<open>
  The server, \<open>src/server/server.cpp\<close>: the handlers that \<open>Server::run\<close> registers, the two handlers
  that it injects into the function dispatch, which keep track of the OpenXR instance and of the
  server modules, and the end of a connection.
\<close>

section \<open>State\<close>

text \<open>
  What the handlers of the server do, in order: the calls that create and destroy an instance, the
  calls of the modules, and the flush of an answer of the two injected handlers.
\<close>

datatype server_event =
    Instance_created u64 | Instance_destroyed u64 | Module_instance nat u64 | Module_instance_destroy nat | Answer_flushed

record 's server =
  rt_state :: 's
  server_instance :: u64
  loader_instance :: u64
  server_log :: "server_event list"

text \<open>The constructor leaves \<open>saved_instance\<close> uninitialised: it has some value \<open>garbage\<close>.\<close>

definition server_init :: "u64 \<Rightarrow> 's \<Rightarrow> 's server" where
  "server_init garbage s = \<lparr>rt_state = s, server_instance = garbage, loader_instance = 0, server_log = []\<rparr>"

definition log_events :: "server_event list \<Rightarrow> 's server \<Rightarrow> 's server" where
  "log_events es srv = srv\<lparr>server_log := server_log srv @ es\<rparr>"

text \<open>The runtime of the other handlers, which see the server only through it.\<close>

definition lift_runtime :: "'s runtime \<Rightarrow> 's server runtime" where
  "lift_runtime R =
     \<lparr>rt_loads = \<lambda>srv f. rt_loads R (rt_state srv) f,
      rt_call = \<lambda>f ps srv. case rt_call R f ps (rt_state srv) of (res, ps', s') \<Rightarrow> (res, ps', srv\<lparr>rt_state := s'\<rparr>),
      rt_duration = \<lambda>srv f. rt_duration R (rt_state srv) f\<rparr>"

section \<open>Modules\<close>

text \<open>
  A server module: the extensions it asks for and its two notices. They are code of the module, which
  calls the runtime and may throw.
\<close>

record 's server_module =
  required_extensions :: "string list"
  module_on_instance :: "u64 \<Rightarrow> 's \<Rightarrow> unit outcome \<times> 's"
  module_on_instance_destroy :: "'s \<Rightarrow> unit outcome \<times> 's"

definition of_module :: "('s \<Rightarrow> unit outcome \<times> 's) \<Rightarrow> ('s server, unit) action" where
  "of_module f srv = (case f (rt_state srv) of (r, s') \<Rightarrow> (r, srv\<lparr>rt_state := s'\<rparr>))"

fun notify_instance :: "u64 \<Rightarrow> nat \<Rightarrow> 's server_module list \<Rightarrow> ('s server, unit) action" where
  "notify_instance h i [] = done_with ()"
| "notify_instance h i (m # ms) =
     and_then (change (log_events [Module_instance i h])) (\<lambda>_.
     and_then (of_module (module_on_instance m h)) (\<lambda>_. notify_instance h (Suc i) ms))"

fun notify_instance_destroy :: "nat \<Rightarrow> 's server_module list \<Rightarrow> ('s server, unit) action" where
  "notify_instance_destroy i [] = done_with ()"
| "notify_instance_destroy i (m # ms) =
     and_then (change (log_events [Module_instance_destroy i])) (\<lambda>_.
     and_then (of_module (module_on_instance_destroy m)) (\<lambda>_. notify_instance_destroy (Suc i) ms))"

text \<open>The end of an injected handler: the destructor flushes what was written when writing throws.\<close>

definition flush_answer :: "wout \<Rightarrow> 's server \<Rightarrow> 's server handled" where
  "flush_answer w srv = send_reply w (log_events [Answer_flushed] srv)"

section \<open>Creating the instance\<close>

definition string_value :: "string \<Rightarrow> xv" where
  "string_value s = V_ptr (map (\<lambda>c. V_prim [of_char c]) s @ [V_prim [0]])"

definition timer_extension :: string where
  "timer_extension = ''XR_KHR_convert_timespec_time''"

text \<open>The vector of the requested extension names.\<close>

definition extension_vector :: "fld list \<Rightarrow> xv list outcome" where
  "extension_vector fs =
     obind (uint_field fs ''enabledExtensionCount'') (\<lambda>count.
       case find_field fs ''enabledExtensionNames'' of
         Some (V_ptr names) \<Rightarrow> if count \<le> length names then Ret (take count names) else Fault
       | Some V_null \<Rightarrow> if count = 0 then Ret [] else Fault
       | _ \<Rightarrow> Fault)"

definition with_extensions :: "xv list \<Rightarrow> fld list \<Rightarrow> fld list" where
  "with_extensions names fs =
     update_fields fs
       [Field ''enabledExtensionCount'' (V_prim (word_bytes (word_of_nat (length names) :: u32))),
        Field ''enabledExtensionNames'' (V_ptr names)]"

text \<open>The parameters of \<open>CreateInstance\<close>, with the extensions that the modules ask for.\<close>

definition all_required :: "'s server_module list \<Rightarrow> string list" where
  "all_required mods = concat (map required_extensions mods)"

definition instance_params :: "string list \<Rightarrow> fld list \<Rightarrow> fld list outcome" where
  "instance_params required params =
     (case find_field params ''createInfo'' of
        Some (V_ptr (V_struct fs # others)) \<Rightarrow>
          obind (extension_vector fs) (\<lambda>names.
            Ret (update_fields params
              [Field ''createInfo''
                 (V_ptr (V_struct (with_extensions (names @ map string_value (required @ [timer_extension])) fs) # others))]))
      | _ \<Rightarrow> Fault)"

definition instance_handle :: "fld list \<Rightarrow> u64 outcome" where
  "instance_handle params =
     (case find_field params ''instance'' of
        Some (V_ptr (V_prim bs # _)) \<Rightarrow> if length bs = 8 then Ret (bytes_word bs) else Fault
      | _ \<Rightarrow> Fault)"

text \<open>After a success the handle is kept and every module is told, before the answer is started.\<close>

definition finish_create :: "'s server_module list \<Rightarrow> u32 \<Rightarrow> fld list \<Rightarrow> ('s server, unit) action" where
  "finish_create mods res params srv =
     (if XR_SUCCEEDED res
      then (case instance_handle params of
              Ret h \<Rightarrow> notify_instance h 0 mods (log_events [Instance_created h] (srv\<lparr>server_instance := h, loader_instance := h\<rparr>))
            | _ \<Rightarrow> (Fault, srv))
      else (Ret (), srv))"

definition create_instance_handler ::
  "codec \<Rightarrow> nat \<Rightarrow> 's runtime \<Rightarrow> 's server_module list \<Rightarrow> bytes \<Rightarrow> 's server \<Rightarrow> 's server handled option" where
  "create_instance_handler E n R mods body srv =
     (if \<not> rt_loads R (rt_state srv) ''xrCreateInstance'' then Some (Raised_in None function_loader_error srv)
      else case run_dops (des_op E 0 (des E 0 n) ''xrCreateInstance'') [] [De_ptr ''createInfo'', De_ptr ''instance''] None body of
             None \<Rightarrow> None
           | Some d \<Rightarrow>
               Some (go_on d srv (\<lambda>(params, _).
                 go_on (instance_params (all_required mods) params) srv (\<lambda>params1.
                   case rt_call R ''xrCreateInstance'' params1 (rt_state srv) of
                     (res, params2, s') \<Rightarrow>
                       (case finish_create mods res params2 (srv\<lparr>rt_state := s'\<rparr>) of
                          (r, srv1) \<Rightarrow>
                            go_on r srv1 (\<lambda>_.
                              flush_answer (rpc_reply E ''xrCreateInstance'' [Ser_ptr ''instance'' C_one] res
                                (rt_duration R (rt_state srv) ''xrCreateInstance'') params2) srv1))))))"

section \<open>Destroying the instance\<close>

definition destroy_params :: "u64 \<Rightarrow> fld list" where
  "destroy_params h = [Field ''instance'' (V_prim (word_bytes h))]"

text \<open>\<open>XrInstance\<close> is a 64-bit handle. The result of the runtime goes into the answer only.\<close>

definition destroy_instance_handler ::
  "'s runtime \<Rightarrow> 's server_module list \<Rightarrow> bytes \<Rightarrow> 's server \<Rightarrow> 's server handled option" where
  "destroy_instance_handler R mods body srv =
     (if \<not> rt_loads R (rt_state srv) ''xrDestroyInstance'' then Some (Raised_in None function_loader_error srv)
      else Some (case read_exact 8 body of
        None \<Rightarrow> Raised_in None msg_end srv
      | Some (hb, rest) \<Rightarrow>
          if bytes_word hb = server_instance srv
          then (case notify_instance_destroy 0 mods srv of
                  (r, srv1) \<Rightarrow>
                    go_on r srv1 (\<lambda>_.
                      case rt_call R ''xrDestroyInstance'' (destroy_params (server_instance srv)) (rt_state srv1) of
                        (res, params', s') \<Rightarrow>
                          flush_answer (Wrote (word_bytes res @ word_bytes (rt_duration R (rt_state srv1) ''xrDestroyInstance'')))
                            (log_events [Instance_destroyed (server_instance srv)] (srv1\<lparr>rt_state := s', server_instance := 0\<rparr>))))
          else flush_answer (Wrote (word_bytes XR_ERROR_HANDLE_INVALID @ word_bytes (0 :: u64))) srv))"

section \<open>Messages\<close>

definition XRTP_MSG_FUNCTION_CALL :: u16 where "XRTP_MSG_FUNCTION_CALL = 1"
definition XRTP_MSG_FUNCTION_RETURN :: u16 where "XRTP_MSG_FUNCTION_RETURN = 2"
definition XRTP_MSG_SYNCHRONIZATION_REQUEST :: u16 where "XRTP_MSG_SYNCHRONIZATION_REQUEST = 3"
definition XRTP_MSG_SYNCHRONIZATION_RESPONSE :: u16 where "XRTP_MSG_SYNCHRONIZATION_RESPONSE = 4"
definition XRTP_MSG_POLL_EVENT :: u16 where "XRTP_MSG_POLL_EVENT = 5"
definition XRTP_MSG_POLL_EVENT_RETURN :: u16 where "XRTP_MSG_POLL_EVENT_RETURN = 6"

text \<open>
  The answer to a synchronization request; \<open>now\<close> is the current time converted by the runtime with
  the saved instance, or 0 when the conversion fails, whose result is not looked at.
\<close>

definition synchronization_handler ::
  "'s runtime \<Rightarrow> (u64 \<Rightarrow> 's \<Rightarrow> u64) \<Rightarrow> bytes \<Rightarrow> 's server \<Rightarrow> 's server handled option" where
  "synchronization_handler R now body srv =
     (if \<not> rt_loads R (rt_state srv) ''xrConvertTimespecTimeToTimeKHR'' \<or>
         \<not> rt_loads R (rt_state srv) ''xrConvertTimeToTimespecTimeKHR''
      then Some (Raised_in None function_loader_error srv)
      else Some (case read_exact 8 body of
        None \<Rightarrow> Raised_in None msg_end srv
      | Some (tb, rest) \<Rightarrow> Replied (word_bytes (now (server_instance srv) (rt_state srv))) srv))"

text \<open>
  The handlers that \<open>Server::run\<close> registers: the header of the answer and how the handler ends.
  \<open>None\<close> is a message without a handler, or a handler that does not end.
\<close>

definition server_handler ::
  "openxr \<Rightarrow> string list \<Rightarrow> nat \<Rightarrow> 's runtime \<Rightarrow> 's server_module list \<Rightarrow> (u64 \<Rightarrow> 's \<Rightarrow> u64) \<Rightarrow>
   u16 \<Rightarrow> bytes \<Rightarrow> 's server \<Rightarrow> (u16 \<times> 's server handled) option" where
  "server_handler X exts n R mods now header body srv =
     (if header = XRTP_MSG_FUNCTION_CALL
      then map_option (Pair XRTP_MSG_FUNCTION_RETURN)
        (function_call_handler (build_codec X exts) exts n (lift_runtime R)
          (create_instance_handler (build_codec X exts) n R mods) (destroy_instance_handler R mods) body srv)
      else if header = XRTP_MSG_SYNCHRONIZATION_REQUEST
      then map_option (Pair XRTP_MSG_SYNCHRONIZATION_RESPONSE) (synchronization_handler R now body srv)
      else if header = XRTP_MSG_POLL_EVENT
      then map_option (Pair XRTP_MSG_POLL_EVENT_RETURN)
        (poll_event_handler X exts (lift_runtime R) (server_instance srv) srv)
      else None)"

text \<open>The end of \<open>run\<close>, when the transport has closed.\<close>

definition server_close :: "'s runtime \<Rightarrow> 's server \<Rightarrow> 's server" where
  "server_close R srv =
     (if server_instance srv \<noteq> 0
      then (case rt_call R ''xrDestroyInstance'' (destroy_params (server_instance srv)) (rt_state srv) of
              (res, params', s') \<Rightarrow>
                log_events [Instance_destroyed (server_instance srv)]
                  (srv\<lparr>rt_state := s', server_instance := 0, loader_instance := 0\<rparr>))
      else srv\<lparr>loader_instance := 0\<rparr>)"

section \<open>The life of instances\<close>

lemma lift_runtime_simps [simp]:
  "rt_loads (lift_runtime R) srv f = rt_loads R (rt_state srv) f"
  "rt_call (lift_runtime R) f ps srv
   = (case rt_call R f ps (rt_state srv) of (res, ps', s') \<Rightarrow> (res, ps', srv\<lparr>rt_state := s'\<rparr>))"
  "rt_duration (lift_runtime R) srv f = rt_duration R (rt_state srv) f"
  by (simp_all add: lift_runtime_def)

text \<open>Everything but the state of the runtime stays.\<close>

definition same_instance :: "'s server \<Rightarrow> 's server \<Rightarrow> bool" where
  "same_instance a b \<longleftrightarrow> (\<exists>s. b = a\<lparr>rt_state := s\<rparr>)"

lemma same_instance_intros [simp]: "same_instance a a" "same_instance a (a\<lparr>rt_state := s\<rparr>)"
  unfolding same_instance_def by (rule exI [of _ "rt_state a"], simp) (rule exI, rule refl)

lemma same_instance_trans: "same_instance a b \<Longrightarrow> same_instance b c \<Longrightarrow> same_instance a c"
  by (auto simp: same_instance_def)

lemma same_instanceD: "same_instance a b \<Longrightarrow> server_instance b = server_instance a \<and> server_log b = server_log a"
  by (auto simp: same_instance_def)

lemma same_instance_ended:
  "server_goes_on (send_reply w b) = Ret (reply, c) \<Longrightarrow> same_instance a b \<Longrightarrow> same_instance a c"
  by (drule goes_on_send_reply) simp

lemma run_handler_same:
  assumes "run_handler E n (lift_runtime R) f h body srv = Some r" "server_goes_on r = Ret (reply, srv')"
  shows "same_instance srv srv'"
proof (cases "rt_loads R (rt_state srv) f")
  case True
  have "\<exists>d :: (fld list \<times> bytes) outcome. r = go_on d srv (\<lambda>(params, _).
      let (res, params', s') = rt_call (lift_runtime R) f params srv
      in send_reply (rpc_reply E f (handler_reply h) res (rt_duration (lift_runtime R) srv f) params') s')"
    using assms(1) True unfolding run_handler_def by (auto split: option.splits)
  then show ?thesis using assms(2)
    by (auto simp: goes_on_go_on split: prod.splits dest!: goes_on_send_reply)
qed (use assms in \<open>auto simp: run_handler_def\<close>)

lemma poll_event_loop_same:
  assumes "poll_event_loop X exts (lift_runtime R) inst srv = Some y"
  shows "same_instance srv (snd y)"
proof -
  have "R' = lift_runtime R \<longrightarrow> same_instance a (snd z)" if z: "poll_event_loop X exts R' inst a = Some z" for R' a z
  proof (rule poll_event_loop.raw_induct [where P = "\<lambda>X exts R' inst a z. R' = lift_runtime R \<longrightarrow> same_instance a (snd z)", OF _ z], rule impI)
    fix loop X exts R' inst a z
    assume IH: "\<And>X exts R' inst a z. loop X exts R' inst a = Some z \<Longrightarrow> R' = lift_runtime R \<longrightarrow> same_instance a (snd z)"
      and step: "(case rt_call R' ''xrPollEvent'' (poll_params inst (empty_event_buffer X)) a of
          (res, ps, s') \<Rightarrow>
            if res \<noteq> XR_SUCCESS then Some (Ret (res, None), s')
            else case event_of ps of None \<Rightarrow> Some (Fault, s')
                 | Some fs \<Rightarrow>
                     case struct_type fs of None \<Rightarrow> Some (Fault, s')
                     | Some ty \<Rightarrow>
                         if size_lookup X exts ty = None then loop X exts R' inst s' else Some (Ret (res, Some fs), s')) = Some z"
      and R: "R' = lift_runtime R"
    obtain res ps s' where call: "rt_call R ''xrPollEvent'' (poll_params inst (empty_event_buffer X)) (rt_state a) = (res, ps, s')"
      by (cases "rt_call R ''xrPollEvent'' (poll_params inst (empty_event_buffer X)) (rt_state a)")
    let ?b = "a\<lparr>rt_state := s'\<rparr>"
    have "snd z = ?b \<or> loop X exts R' inst ?b = Some z"
      using step call unfolding R by (auto split: if_splits option.splits)
    then show "same_instance a (snd z)"
      using IH [of X exts R' inst ?b z] R same_instance_trans [of a ?b "snd z"] by auto
  qed
  then show ?thesis using assms by blast
qed

lemma poll_event_handler_same:
  assumes "poll_event_handler X exts (lift_runtime R) inst srv = Some r" "server_goes_on r = Ret (reply, srv')"
  shows "same_instance srv srv'"
proof (cases "rt_loads R (rt_state srv) ''xrPollEvent''")
  case True
  then obtain d s where d: "poll_event_loop X exts (lift_runtime R) inst srv = Some (d, s)"
      "r = go_on d s (\<lambda>x. send_reply (event_reply (build_codec X exts) x) s)"
    using assms(1) unfolding poll_event_handler_def by auto
  have "srv' = s" using assms(2) d(2) by (auto simp: goes_on_go_on dest!: goes_on_send_reply)
  then show ?thesis using poll_event_loop_same [OF d(1)] by simp
qed (use assms in \<open>auto simp: poll_event_handler_def\<close>)

lemma synchronization_handler_same:
  "synchronization_handler R now body srv = Some r \<Longrightarrow> server_goes_on r = Ret (reply, srv') \<Longrightarrow> srv' = srv"
  by (auto simp: synchronization_handler_def split: if_splits option.splits)

text \<open>Modules that always return.\<close>

definition quiet :: "'s server_module list \<Rightarrow> bool" where
  "quiet mods \<longleftrightarrow> (\<forall>m\<in>set mods. \<forall>h s. fst (module_on_instance m h s) = Ret () \<and> fst (module_on_instance_destroy m s) = Ret ())"

definition instance_notices :: "u64 \<Rightarrow> nat \<Rightarrow> nat \<Rightarrow> server_event list" where
  "instance_notices h i k = map (\<lambda>j. Module_instance j h) [i..<i + k]"

definition destroy_notices :: "nat \<Rightarrow> nat \<Rightarrow> server_event list" where
  "destroy_notices i k = map Module_instance_destroy [i..<i + k]"

lemma notices_simps [simp]:
  "instance_notices h i 0 = []" "instance_notices h i (Suc k) = Module_instance i h # instance_notices h (Suc i) k"
  "destroy_notices i 0 = []" "destroy_notices i (Suc k) = Module_instance_destroy i # destroy_notices (Suc i) k"
  by (simp_all add: instance_notices_def destroy_notices_def upt_conv_Cons del: upt_Suc)

lemma log_events_twice:
  "log_events fs ((log_events es srv)\<lparr>rt_state := s\<rparr>) = log_events (es @ fs) (srv\<lparr>rt_state := s\<rparr>)"
  "(log_events es srv)\<lparr>rt_state := s\<rparr> = log_events es (srv\<lparr>rt_state := s\<rparr>)"
  by (simp_all add: log_events_def)

text \<open>The modules are told one after the other, up to the first that throws.\<close>

lemma notify_instance_log:
  "notify_instance h i mods srv = (r, srv') \<Longrightarrow>
   \<exists>k s. srv' = log_events (instance_notices h i k) (srv\<lparr>rt_state := s\<rparr>) \<and> (r = Ret () \<longrightarrow> k = length mods) \<and> (quiet mods \<longrightarrow> r = Ret ())"
proof (induction mods arbitrary: i srv)
  case Nil
  then show ?case
    by (intro exI [of _ 0] exI [of _ "rt_state srv"]) (simp add: done_with_def log_events_def)
next
  case (Cons m mods)
  obtain q s1 where q: "module_on_instance m h (rt_state srv) = (q, s1)" by force
  let ?b = "log_events [Module_instance i h] (srv\<lparr>rt_state := s1\<rparr>)"
  have told: "of_module (module_on_instance m h) (log_events [Module_instance i h] srv) = (q, ?b)"
    using q by (simp add: of_module_def log_events_def)
  show ?case
  proof (cases "q = Ret ()")
    case True
    then have "notify_instance h (Suc i) mods ?b = (r, srv')"
      using Cons.prems told by (simp add: and_then_def change_def)
    from Cons.IH [OF this] obtain k s where "srv' = log_events (instance_notices h (Suc i) k) (?b\<lparr>rt_state := s\<rparr>)"
        "r = Ret () \<longrightarrow> k = length mods" "quiet mods \<longrightarrow> r = Ret ()" by blast
    then show ?thesis
      by (intro exI [of _ "Suc k"] exI [of _ s]) (auto simp: log_events_def quiet_def)
  next
    case False
    have "r = q" "srv' = ?b" using Cons.prems told False by (cases q; simp add: and_then_def change_def)+
    moreover have "\<not> quiet (m # mods)" using False q unfolding quiet_def by (metis fst_conv list.set_intros(1))
    ultimately show ?thesis using False
      by (intro exI [of _ 1] exI [of _ s1]) simp
  qed
qed

lemma notify_instance_destroy_log:
  "notify_instance_destroy i mods srv = (r, srv') \<Longrightarrow>
   \<exists>k s. srv' = log_events (destroy_notices i k) (srv\<lparr>rt_state := s\<rparr>) \<and> (r = Ret () \<longrightarrow> k = length mods) \<and> (quiet mods \<longrightarrow> r = Ret ())"
proof (induction mods arbitrary: i srv)
  case Nil
  then show ?case
    by (intro exI [of _ 0] exI [of _ "rt_state srv"]) (simp add: done_with_def log_events_def)
next
  case (Cons m mods)
  obtain q s1 where q: "module_on_instance_destroy m (rt_state srv) = (q, s1)" by force
  let ?b = "log_events [Module_instance_destroy i] (srv\<lparr>rt_state := s1\<rparr>)"
  have told: "of_module (module_on_instance_destroy m) (log_events [Module_instance_destroy i] srv) = (q, ?b)"
    using q by (simp add: of_module_def log_events_def)
  show ?case
  proof (cases "q = Ret ()")
    case True
    then have "notify_instance_destroy (Suc i) mods ?b = (r, srv')"
      using Cons.prems told by (simp add: and_then_def change_def)
    from Cons.IH [OF this] obtain k s where "srv' = log_events (destroy_notices (Suc i) k) (?b\<lparr>rt_state := s\<rparr>)"
        "r = Ret () \<longrightarrow> k = length mods" "quiet mods \<longrightarrow> r = Ret ()" by blast
    then show ?thesis
      by (intro exI [of _ "Suc k"] exI [of _ s]) (auto simp: log_events_def quiet_def)
  next
    case False
    have "r = q" "srv' = ?b" using Cons.prems told False by (cases q; simp add: and_then_def change_def)+
    moreover have "\<not> quiet (m # mods)" using False q unfolding quiet_def by (metis fst_conv list.set_intros(1))
    ultimately show ?thesis using False
      by (intro exI [of _ 1] exI [of _ s1]) simp
  qed
qed

text \<open>What a message does to the instance, in terms of the log.\<close>

definition unchanged :: "'s server \<Rightarrow> 's server \<Rightarrow> bool" where
  "unchanged a c \<longleftrightarrow> server_instance c = server_instance a \<and>
     (\<exists>fs. set fs \<subseteq> {Answer_flushed} \<and> server_log c = server_log a @ fs)"

definition created :: "'s runtime \<Rightarrow> 's server_module list \<Rightarrow> 's server \<Rightarrow> 's server \<Rightarrow> bool" where
  "created R mods a c \<longleftrightarrow>
     (\<exists>res ps ps' s s' h k fs. rt_call R ''xrCreateInstance'' ps s = (res, ps', s') \<and> XR_SUCCEEDED res \<and>
       instance_handle ps' = Ret h \<and> server_instance c = h \<and> (quiet mods \<longrightarrow> k = length mods) \<and> set fs \<subseteq> {Answer_flushed} \<and>
       server_log c = server_log a @ Instance_created h # instance_notices h 0 k @ fs)"

definition left_alone :: "'s server_module list \<Rightarrow> 's server \<Rightarrow> 's server \<Rightarrow> bool" where
  "left_alone mods a c \<longleftrightarrow> \<not> quiet mods \<and> server_instance c = server_instance a \<and>
     (\<exists>k. server_log c = server_log a @ destroy_notices 0 k)"

definition destroyed :: "'s server_module list \<Rightarrow> 's server \<Rightarrow> 's server \<Rightarrow> bool" where
  "destroyed mods a c \<longleftrightarrow> server_instance c = 0 \<and>
     server_log c = server_log a @ destroy_notices 0 (length mods) @ [Instance_destroyed (server_instance a), Answer_flushed]"

lemma unchanged_same: "same_instance a c \<Longrightarrow> unchanged a c"
  by (auto simp: unchanged_def dest: same_instanceD intro: exI [of _ "[]"])

lemma goes_on_flush: "server_goes_on (flush_answer w b) = Ret (reply, c) \<Longrightarrow> c = log_events [Answer_flushed] b"
  by (auto simp: flush_answer_def dest: goes_on_send_reply)

lemma create_instance_effect:
  assumes "create_instance_handler E n R mods body srv = Some r" "server_goes_on r = Ret (reply, srv')"
  shows "unchanged srv srv' \<or> created R mods srv srv'"
proof -
  define ans where "ans params1 = (case rt_call R ''xrCreateInstance'' params1 (rt_state srv) of
      (res, params2, s') \<Rightarrow>
        (case finish_create mods res params2 (srv\<lparr>rt_state := s'\<rparr>) of
           (r, srv1) \<Rightarrow>
             go_on r srv1 (\<lambda>_. flush_answer (rpc_reply E ''xrCreateInstance'' [Ser_ptr ''instance'' C_one] res
               (rt_duration R (rt_state srv) ''xrCreateInstance'') params2) srv1)))" for params1
  consider "srv' = srv" | params1 where "server_goes_on (ans params1) = Ret (reply, srv')"
    using assms unfolding create_instance_handler_def ans_def [symmetric]
    by (auto simp del: run_dops.simps simp: goes_on_go_on split: if_splits option.splits)
  then show ?thesis
  proof cases
    case 1
    then show ?thesis by (simp add: unchanged_same)
  next
    case 2
    obtain res params2 s' where c: "rt_call R ''xrCreateInstance'' params1 (rt_state srv) = (res, params2, s')"
      by (cases "rt_call R ''xrCreateInstance'' params1 (rt_state srv)")
    obtain q srv1 where q: "finish_create mods res params2 (srv\<lparr>rt_state := s'\<rparr>) = (q, srv1)" by force
    obtain fs where fs: "set fs \<subseteq> {Answer_flushed}" "srv' = log_events fs srv1" and ok: "q \<noteq> Fault" "q \<noteq> Ret () \<longrightarrow> fs = []"
    proof (cases "\<exists>e. q = Throw e")
      case True
      then show ?thesis using 2 c q that [of "[]"] by (auto simp: ans_def log_events_def)
    next
      case False
      then show ?thesis using 2 c q that [of "[Answer_flushed]"] by (cases q) (auto simp: ans_def dest!: goes_on_flush)
    qed
    show ?thesis
    proof (cases "XR_SUCCEEDED res")
      case True
      then obtain h where h: "instance_handle params2 = Ret h"
          "notify_instance h 0 mods (log_events [Instance_created h] (srv\<lparr>rt_state := s', server_instance := h, loader_instance := h\<rparr>)) = (q, srv1)"
        using q ok by (auto simp: finish_create_def split: outcome.splits)
      from notify_instance_log [OF h(2)] obtain k s where k: "srv1 = log_events (instance_notices h 0 k)
          ((log_events [Instance_created h] (srv\<lparr>rt_state := s', server_instance := h, loader_instance := h\<rparr>))\<lparr>rt_state := s\<rparr>)"
          "q = Ret () \<longrightarrow> k = length mods" "quiet mods \<longrightarrow> q = Ret ()" by blast
      have "server_instance srv' = h" "server_log srv' = server_log srv @ Instance_created h # instance_notices h 0 k @ fs"
        using k(1) fs(2) by (simp_all add: log_events_def)
      then have "created R mods srv srv'" unfolding created_def using c True h(1) k(2,3) fs(1) by blast
      then show ?thesis ..
    next
      case False
      then show ?thesis using q fs by (auto simp: finish_create_def unchanged_def log_events_def)
    qed
  qed
qed

lemma destroy_instance_effect:
  assumes "destroy_instance_handler R mods body srv = Some r" "server_goes_on r = Ret (reply, srv')"
  shows "unchanged srv srv' \<or>
    (\<exists>hb rest. read_exact 8 body = Some (hb, rest) \<and> bytes_word hb = server_instance srv \<and>
       (left_alone mods srv srv' \<or> destroyed mods srv srv'))"
proof (cases "rt_loads R (rt_state srv) ''xrDestroyInstance'' \<and> (\<exists>hb rest. read_exact 8 body = Some (hb, rest) \<and> bytes_word hb = server_instance srv)")
  case True
  then obtain hb rest where hb: "read_exact 8 body = Some (hb, rest)" "bytes_word hb = server_instance srv" by blast
  obtain q srv1 where q: "notify_instance_destroy 0 mods srv = (q, srv1)" by force
  from notify_instance_destroy_log [OF q] obtain k s where k: "srv1 = log_events (destroy_notices 0 k) (srv\<lparr>rt_state := s\<rparr>)"
      "q = Ret () \<longrightarrow> k = length mods" "quiet mods \<longrightarrow> q = Ret ()" by blast
  let ?told = "go_on q srv1 (\<lambda>_. case rt_call R ''xrDestroyInstance'' (destroy_params (server_instance srv)) (rt_state srv1) of
      (res, params', s') \<Rightarrow> flush_answer (Wrote (word_bytes res @ word_bytes (rt_duration R (rt_state srv1) ''xrDestroyInstance'')))
        (log_events [Instance_destroyed (server_instance srv)] (srv1\<lparr>rt_state := s', server_instance := 0\<rparr>)))"
  have "server_goes_on ?told = Ret (reply, srv')"
    using assms True hb q by (simp add: destroy_instance_handler_def)
  then have "left_alone mods srv srv' \<or> destroyed mods srv srv'"
    unfolding goes_on_go_on using k
    by (auto simp: left_alone_def destroyed_def log_events_def split: prod.splits dest!: goes_on_flush)
  then show ?thesis using hb by blast
next
  case False
  then have "srv' = srv \<or> srv' = log_events [Answer_flushed] srv"
    using assms by (auto simp: destroy_instance_handler_def split: if_splits option.splits dest!: goes_on_flush)
  then show ?thesis by (auto simp: unchanged_def log_events_def)
qed

section \<open>Connections\<close>

text \<open>The instance handle of a request to destroy an instance, and the requests to create one.\<close>

definition destroys :: "string list \<Rightarrow> u16 \<Rightarrow> bytes \<Rightarrow> u64 \<Rightarrow> bool" where
  "destroys exts header body h \<longleftrightarrow>
     (\<exists>i rest more. header = XRTP_MSG_FUNCTION_CALL \<and> read_exact 4 body = Some (i, rest) \<and>
        map_of (build_dispatch exts) (bytes_word i) = Some ''xrDestroyInstance'' \<and>
        read_exact 8 rest = Some (more, drop 8 rest) \<and> bytes_word more = h)"

definition creates :: "string list \<Rightarrow> u16 \<Rightarrow> bytes \<Rightarrow> bool" where
  "creates exts header body \<longleftrightarrow>
     (\<exists>i rest. header = XRTP_MSG_FUNCTION_CALL \<and> read_exact 4 body = Some (i, rest) \<and>
        map_of (build_dispatch exts) (bytes_word i) = Some ''xrCreateInstance'')"

definition instance_events :: "server_event list \<Rightarrow> server_event list" where
  "instance_events es = filter (\<lambda>e. \<exists>h. e = Instance_created h \<or> e = Instance_destroyed h) es"

definition open_instance :: "server_event list \<Rightarrow> u64 option" where
  "open_instance es = (case rev (instance_events es) of Instance_created h # _ \<Rightarrow> Some h | _ \<Rightarrow> None)"

text \<open>
  A client that has one instance at a time: it creates one only when the server has none that it
  created for this client, and it destroys only what was created for it.
\<close>

definition disciplined :: "string list \<Rightarrow> u16 \<Rightarrow> bytes \<Rightarrow> 's server \<Rightarrow> bool" where
  "disciplined exts header body srv \<longleftrightarrow>
     (creates exts header body \<longrightarrow> open_instance (server_log srv) = None) \<and>
     (\<forall>h. destroys exts header body h \<longrightarrow> Instance_created h \<in> set (server_log srv))"

text \<open>The messages of a connection, whether their handlers return or throw.\<close>

inductive connection ::
  "openxr \<Rightarrow> string list \<Rightarrow> nat \<Rightarrow> 's runtime \<Rightarrow> 's server_module list \<Rightarrow> (u64 \<Rightarrow> 's \<Rightarrow> u64) \<Rightarrow> 's server \<Rightarrow> 's server \<Rightarrow> bool"
  for X exts n R mods now a where
  opened: "connection X exts n R mods now a a"
| handled: "connection X exts n R mods now a b \<Longrightarrow> disciplined exts header body b \<Longrightarrow>
    server_handler X exts n R mods now header body b = Some (answer, r) \<Longrightarrow> server_goes_on r = Ret (reply, c) \<Longrightarrow>
    connection X exts n R mods now a c"

lemma handle_function_effect:
  assumes "handle_function E exts n (lift_runtime R) (create_instance_handler E n R mods)
      (destroy_instance_handler R mods) i body srv = Some r" "server_goes_on r = Ret (reply, srv')"
  shows "same_instance srv srv' \<or>
    (map_of (build_dispatch exts) i = Some ''xrCreateInstance'' \<and> create_instance_handler E n R mods body srv = Some r) \<or>
    (map_of (build_dispatch exts) i = Some ''xrDestroyInstance'' \<and> destroy_instance_handler R mods body srv = Some r)"
  using assms run_handler_same unfolding handle_function_def
  by (fastforce split: option.splits if_splits)

lemma server_handler_effect:
  assumes "server_handler X exts n R mods now header body srv = Some (answer, r)" "server_goes_on r = Ret (reply, srv')"
  shows "unchanged srv srv' \<or> (creates exts header body \<and> created R mods srv srv') \<or>
    (destroys exts header body (server_instance srv) \<and> (left_alone mods srv srv' \<or> destroyed mods srv srv'))"
proof -
  consider "header = XRTP_MSG_FUNCTION_CALL"
      "function_call_handler (build_codec X exts) exts n (lift_runtime R)
        (create_instance_handler (build_codec X exts) n R mods) (destroy_instance_handler R mods) body srv = Some r"
    | "synchronization_handler R now body srv = Some r"
    | "poll_event_handler X exts (lift_runtime R) (server_instance srv) srv = Some r"
    using assms(1) unfolding server_handler_def by (auto split: if_splits)
  then show ?thesis
  proof cases
    case 1
    show ?thesis
    proof (cases "read_exact 4 body")
      case None
      then show ?thesis using 1(2) assms(2) by (auto simp: function_call_handler_def unchanged_same)
    next
      case (Some p)
      obtain i rest where p: "p = (i, rest)" by force
      have f: "handle_function (build_codec X exts) exts n (lift_runtime R) (create_instance_handler (build_codec X exts) n R mods)
          (destroy_instance_handler R mods) (bytes_word i) rest srv = Some r"
        using 1(2) Some p by (simp add: function_call_handler_def)
      from handle_function_effect [OF f assms(2)] show ?thesis
      proof (elim disjE conjE)
        assume "same_instance srv srv'"
        then show ?thesis by (simp add: unchanged_same)
      next
        assume c: "map_of (build_dispatch exts) (bytes_word i) = Some ''xrCreateInstance''"
          "create_instance_handler (build_codec X exts) n R mods rest srv = Some r"
        have "creates exts header body" using 1(1) Some p c(1) by (auto simp: creates_def)
        then show ?thesis using create_instance_effect [OF c(2) assms(2)] by blast
      next
        assume d: "map_of (build_dispatch exts) (bytes_word i) = Some ''xrDestroyInstance''"
          "destroy_instance_handler R mods rest srv = Some r"
        show ?thesis
        proof (cases "unchanged srv srv'")
          case False
          then obtain hb more where hb: "read_exact 8 rest = Some (hb, more)" "bytes_word hb = server_instance srv"
            and e: "left_alone mods srv srv' \<or> destroyed mods srv srv'"
            using destroy_instance_effect [OF d(2) assms(2)] by blast
          have "destroys exts header body (server_instance srv)"
            using 1(1) Some p d(1) hb by (auto simp: destroys_def read_exact_def split: if_splits)
          then show ?thesis using e by blast
        qed simp
      qed
    qed
  next
    case 2
    from synchronization_handler_same [OF this assms(2)] show ?thesis by (simp add: unchanged_same)
  next
    case 3
    from poll_event_handler_same [OF this assms(2)] show ?thesis by (simp add: unchanged_same)
  qed
qed

text \<open>The runtime never calls a new instance null.\<close>

definition instances_not_null :: "'s runtime \<Rightarrow> bool" where
  "instances_not_null R \<longleftrightarrow>
     (\<forall>ps s res ps' s'. rt_call R ''xrCreateInstance'' ps s = (res, ps', s') \<longrightarrow> XR_SUCCEEDED res \<longrightarrow>
        instance_handle ps' \<noteq> Ret 0)"

text \<open>The whole life of an instance, without its modules and with all of them.\<close>

definition life :: "u64 \<Rightarrow> server_event list" where
  "life h = [Instance_created h, Instance_destroyed h]"

definition told_life :: "'s server_module list \<Rightarrow> u64 \<Rightarrow> server_event list" where
  "told_life mods h = Instance_created h # instance_notices h 0 (length mods) @
     destroy_notices 0 (length mods) @ [Instance_destroyed h]"

text \<open>The last life, when the connection ends it: the modules are not told.\<close>

definition ended_life :: "'s server_module list \<Rightarrow> u64 \<Rightarrow> server_event list" where
  "ended_life mods h = Instance_created h # instance_notices h 0 (length mods) @ [Instance_destroyed h]"

definition but_answers :: "server_event list \<Rightarrow> server_event list" where
  "but_answers es = filter (\<lambda>e. e \<noteq> Answer_flushed) es"

lemma instance_events_simps [simp]:
  "instance_events [] = []" "instance_events (es @ fs) = instance_events es @ instance_events fs"
  "instance_events (Instance_created h # es) = Instance_created h # instance_events es"
  "instance_events (Instance_destroyed h # es) = Instance_destroyed h # instance_events es"
  "instance_events (Answer_flushed # es) = instance_events es"
  "instance_events (instance_notices h i k) = []" "instance_events (destroy_notices i k) = []"
  by (auto simp: instance_events_def instance_notices_def destroy_notices_def filter_empty_conv)

lemma but_answers_simps [simp]:
  "but_answers [] = []" "but_answers (es @ fs) = but_answers es @ but_answers fs"
  "but_answers (Instance_created h # es) = Instance_created h # but_answers es"
  "but_answers (Instance_destroyed h # es) = Instance_destroyed h # but_answers es"
  "but_answers (Answer_flushed # es) = but_answers es"
  "but_answers (instance_notices h i k) = instance_notices h i k" "but_answers (destroy_notices i k) = destroy_notices i k"
  by (auto simp: but_answers_def instance_notices_def destroy_notices_def filter_id_conv)

lemma only_answers: "set fs \<subseteq> {Answer_flushed} \<Longrightarrow> instance_events fs = [] \<and> but_answers fs = []"
  by (auto simp: instance_events_def but_answers_def filter_empty_conv)

lemma created_in_events: "Instance_created h \<in> set es \<longleftrightarrow> Instance_created h \<in> set (instance_events es)"
  by (auto simp: instance_events_def)

lemma created_some: "Instance_created h \<in> set es \<Longrightarrow> instance_events es \<noteq> []"
  by (auto simp: instance_events_def filter_empty_conv)

text \<open>Nothing was created, or the instances of the log have lived one after the other.\<close>

definition balanced :: "u64 \<Rightarrow> 's server_module list \<Rightarrow> 's server \<Rightarrow> u64 list \<Rightarrow> bool" where
  "balanced garbage mods srv hs \<longleftrightarrow>
     (if instance_events (server_log srv) = []
      then server_instance srv = garbage \<and> hs = [] \<and> but_answers (server_log srv) = []
      else 0 \<notin> set hs \<and>
        instance_events (server_log srv) = concat (map life hs) @
          (if server_instance srv = 0 then [] else [Instance_created (server_instance srv)]) \<and>
        (quiet mods \<longrightarrow> but_answers (server_log srv) = concat (map (told_life mods) hs) @
          (if server_instance srv = 0 then []
           else Instance_created (server_instance srv) # instance_notices (server_instance srv) 0 (length mods))))"

lemma balanced_open:
  assumes "balanced garbage mods srv hs" "instance_events (server_log srv) \<noteq> []"
  shows "open_instance (server_log srv) = (if server_instance srv = 0 then None else Some (server_instance srv))"
proof (cases "server_instance srv = 0")
  case True
  then have "instance_events (server_log srv) = concat (map life hs)" "hs \<noteq> []"
    using assms by (auto simp: balanced_def)
  then show ?thesis using True by (cases hs rule: rev_cases) (simp_all add: open_instance_def life_def)
qed (use assms in \<open>simp add: balanced_def open_instance_def\<close>)

lemma balanced_unchanged:
  assumes "balanced g mods a hs" "unchanged a c"
  shows "balanced g mods c hs"
proof -
  obtain fs where "server_instance c = server_instance a" "server_log c = server_log a @ fs" "set fs \<subseteq> {Answer_flushed}"
    using assms(2) by (auto simp: unchanged_def)
  then have "server_instance c = server_instance a" "instance_events (server_log c) = instance_events (server_log a)"
      "but_answers (server_log c) = but_answers (server_log a)" using only_answers [of fs] by simp_all
  then show ?thesis using assms(1) by (simp only: balanced_def)
qed

lemma balanced_created:
  assumes "balanced g mods a hs" "created R mods a c" "instances_not_null R" "open_instance (server_log a) = None"
  shows "balanced g mods c hs"
proof -
  obtain h k fs where h: "server_instance c = h" "h \<noteq> 0" "quiet mods \<longrightarrow> k = length mods" "set fs \<subseteq> {Answer_flushed}"
      "server_log c = server_log a @ Instance_created h # instance_notices h 0 k @ fs"
  proof -
    obtain res ps ps' s s' h k fs where c: "rt_call R ''xrCreateInstance'' ps s = (res, ps', s')" "XR_SUCCEEDED res"
        "instance_handle ps' = Ret h" "server_instance c = h" "quiet mods \<longrightarrow> k = length mods" "set fs \<subseteq> {Answer_flushed}"
        "server_log c = server_log a @ Instance_created h # instance_notices h 0 k @ fs"
      using assms(2) unfolding created_def by blast
    then have "h \<noteq> 0" using assms(3) unfolding instances_not_null_def by metis
    then show thesis using that c(4-7) by blast
  qed
  show ?thesis
  proof (cases "instance_events (server_log a) = []")
    case True
    then show ?thesis using assms(1) h only_answers [OF h(4)] by (simp add: balanced_def)
  next
    case False
    then have "server_instance a = 0" using balanced_open [OF assms(1)] assms(4) by (simp split: if_splits)
    then show ?thesis using assms(1) h only_answers [OF h(4)] False by (simp add: balanced_def)
  qed
qed

lemma balanced_destroyed:
  assumes "balanced g mods a hs" "destroyed mods a c" "Instance_created (server_instance a) \<in> set (server_log a)"
  shows "balanced g mods c (hs @ [server_instance a])"
proof -
  have some: "instance_events (server_log a) \<noteq> []" using assms(3) by (rule created_some)
  have "server_instance a \<noteq> 0"
  proof
    assume null: "server_instance a = 0"
    then have "Instance_created 0 \<in> set (concat (map life hs))"
      using assms(1,3) some created_in_events [of 0 "server_log a"] by (simp add: balanced_def)
    then have "0 \<in> set hs" by (auto simp: life_def)
    then show False using assms(1) some by (simp add: balanced_def)
  qed
  then show ?thesis using assms(1,2) some
    by (simp add: balanced_def destroyed_def life_def told_life_def)
qed

lemma connection_balanced:
  assumes "connection X exts n R mods now (server_init g s) b" "instances_not_null R"
  shows "\<exists>hs. balanced g mods b hs"
  using assms
proof (induction rule: connection.induct)
  case opened
  show ?case by (intro exI [of _ "[]"]) (simp add: balanced_def server_init_def)
next
  case (handled b header body answer r reply c)
  then obtain hs where hs: "balanced g mods b hs" by blast
  from server_handler_effect [OF handled.hyps(3,4)] show ?case
  proof (elim disjE conjE)
    assume "unchanged b c"
    then show ?thesis using balanced_unchanged [OF hs] by blast
  next
    assume "creates exts header body" "created R mods b c"
    then show ?thesis using balanced_created [OF hs _ handled.prems] handled.hyps(2) by (auto simp: disciplined_def)
  next
    assume d: "destroys exts header body (server_instance b)" "left_alone mods b c"
    then have "instance_events (server_log b) \<noteq> []"
      using handled.hyps(2) created_some [of "server_instance b"] unfolding disciplined_def by blast
    then have "balanced g mods c hs" using hs d(2) by (auto simp: balanced_def left_alone_def)
    then show ?thesis by blast
  next
    assume "destroys exts header body (server_instance b)" "destroyed mods b c"
    then show ?thesis using balanced_destroyed [OF hs] handled.hyps(2) by (auto simp: disciplined_def)
  qed
qed

text \<open>
  C19: Over a whole connection of a client with one instance at a time, from a server whose
  \<open>saved_instance\<close> holds any value, and whether the handlers return or throw: once an instance
  has been created, every instance was created once and is destroyed once, one after the other, the last
  one by the end of the connection at the latest; if no module throws, every module is told after each
  creation and before each destruction that the client asks for. A connection in which no instance was
  created calls \<open>xrDestroyInstance\<close> with the uninitialised value unless that happens to be null.
\<close>

theorem instances_balanced:
  assumes "connection X exts n R mods now (server_init garbage s) srv" "instances_not_null R"
  defines "current \<equiv> (if server_instance srv = 0 then [] else [server_instance srv])"
  shows "server_instance (server_close R srv) = 0 \<and>
    (if \<forall>h. Instance_created h \<notin> set (server_log srv)
     then but_answers (server_log (server_close R srv)) = (if garbage = 0 then [] else [Instance_destroyed garbage])
     else \<exists>hs. instance_events (server_log (server_close R srv)) = concat (map life (hs @ current)) \<and>
       (quiet mods \<longrightarrow> but_answers (server_log (server_close R srv))
          = concat (map (told_life mods) hs) @ concat (map (ended_life mods) current)))"
proof -
  have close: "server_log (server_close R srv) = server_log srv @
      (if server_instance srv = 0 then [] else [Instance_destroyed (server_instance srv)]) \<and>
      server_instance (server_close R srv) = 0"
    by (cases "rt_call R ''xrDestroyInstance'' (destroy_params (server_instance srv)) (rt_state srv)")
      (simp add: server_close_def log_events_def)
  from connection_balanced [OF assms(1,2)] obtain hs where hs: "balanced garbage mods srv hs" ..
  show ?thesis
  proof (cases "instance_events (server_log srv) = []")
    case True
    then have "\<forall>h. Instance_created h \<notin> set (server_log srv)" using created_some by blast
    then show ?thesis using hs close True by (simp add: balanced_def)
  next
    case False
    have some: "\<exists>h. Instance_created h \<in> set (server_log srv)"
    proof (cases "hs = [] \<and> server_instance srv = 0")
      case True
      then show ?thesis using hs False by (simp add: balanced_def)
    next
      case False
      then have "\<exists>h. Instance_created h \<in> set (instance_events (server_log srv))"
        using hs \<open>instance_events (server_log srv) \<noteq> []\<close> by (cases hs) (simp_all add: balanced_def life_def, blast+)
      then show ?thesis using created_in_events by blast
    qed
    have "instance_events (server_log (server_close R srv)) = concat (map life (hs @ current))"
      "quiet mods \<longrightarrow> but_answers (server_log (server_close R srv))
          = concat (map (told_life mods) hs) @ concat (map (ended_life mods) current)"
      using hs close False by (simp_all add: balanced_def current_def life_def ended_life_def)
    then show ?thesis using some close by auto
  qed
qed

text \<open>
  The handle of the server is not initialised: a connection that ends before an instance has
  been created destroys whatever handle that memory happens to hold.
\<close>

lemma garbage_instance_destroyed:
  assumes "garbage \<noteq> 0"
  shows "server_log (server_close R (server_init garbage s)) = [Instance_destroyed garbage]"
  using assms
  by (cases "rt_call R ''xrDestroyInstance'' (destroy_params garbage) s")
    (simp add: server_close_def server_init_def log_events_def)

text \<open>A request to destroy the null handle is taken for the instance before there is one.\<close>

lemma null_instance_destroyed:
  assumes "rt_loads R s ''xrDestroyInstance''"
  shows "\<exists>reply srv. destroy_instance_handler R [] (word_bytes (0 :: u64)) (server_init 0 s) = Some (Replied reply srv) \<and>
    server_log srv = [Instance_destroyed 0, Answer_flushed]"
  using assms
  by (cases "rt_call R ''xrDestroyInstance'' (destroy_params 0) s")
    (simp add: destroy_instance_handler_def server_init_def log_events_def flush_answer_def done_with_def)

section \<open>The extensions of an instance\<close>

lemma find_update: "find_field (update_fields fs news) g
   = (case find_field fs g of None \<Rightarrow> None | Some v \<Rightarrow> Some (case find_field news g of Some w \<Rightarrow> w | None \<Rightarrow> v))"
  by (induction fs g rule: find_field.induct) (auto simp: update_fields_def split: option.split)

lemma extension_vector_with:
  assumes "extension_vector fs = Ret old" "length names < 2 ^ 32"
  shows "extension_vector (with_extensions names fs) = Ret names"
proof -
  have "find_field fs ''enabledExtensionCount'' \<noteq> None" "find_field fs ''enabledExtensionNames'' \<noteq> None"
    using assms(1) by (auto simp: extension_vector_def obind_Ret_iff split: option.splits xv.splits)
  moreover have "le_val (word_bytes (word_of_nat n :: u32)) = n" if "n < 2 ^ 32" for n
    using that by (simp add: word_bytes_def le_val_le_bytes unat_of_nat)
  ultimately show ?thesis using assms(2)
    by (auto simp: extension_vector_def with_extensions_def find_update)
qed

text \<open>The names that \<open>params\<close> requests.\<close>

definition requested_extensions :: "fld list \<Rightarrow> xv list outcome" where
  "requested_extensions params =
     (case find_field params ''createInfo'' of
        Some (V_ptr (V_struct fs # _)) \<Rightarrow> extension_vector fs
      | _ \<Rightarrow> Fault)"

lemma instance_params_extensions:
  assumes "requested_extensions params = Ret names" "length names + length required < 2 ^ 32 - 1"
  shows "\<exists>params1. instance_params required params = Ret params1 \<and>
    requested_extensions params1 = Ret (names @ map string_value (required @ [timer_extension]))"
proof -
  obtain fs others where fs: "find_field params ''createInfo'' = Some (V_ptr (V_struct fs # others))" "extension_vector fs = Ret names"
    using assms(1) by (auto simp: requested_extensions_def split: option.splits xv.splits list.splits)
  have "extension_vector (with_extensions (names @ map string_value (required @ [timer_extension])) fs)
      = Ret (names @ map string_value (required @ [timer_extension]))"
    by (rule extension_vector_with [OF fs(2)]) (use assms(2) in simp)
  then show ?thesis using fs by (simp add: instance_params_def requested_extensions_def find_update)
qed

text \<open>The parameters that the handler reads, and what it then does.\<close>

lemma create_request_read:
  assumes "map_of (build_stubs exts) ''xrCreateInstance'' = Some rpc_xrCreateInstance" "types_ok (build_codec X exts)"
    "size_list size params < n" "size_list size params < 2 ^ 32"
    "rpc_request (build_codec X exts) off ''xrCreateInstance'' rpc_xrCreateInstance params = Wrote msg"
  shows "\<exists>b. msg = word_bytes (9 :: u32) @ b \<and>
    run_dops (des_op (build_codec X exts) 0 (des (build_codec X exts) 0 n) ''xrCreateInstance'') []
      [De_ptr ''createInfo'', De_ptr ''instance''] None b
    = Some (Ret (arrived (build_codec X exts) off 0 ''xrCreateInstance'' (stub_request rpc_xrCreateInstance) params params, []))"
proof -
  let ?E = "build_codec X exts"
  obtain b where b: "msg = word_bytes (9 :: u32) @ b"
    "run_sops (\<lambda>op v. ser_op ?E (call_ctx off) (ser ?E (call_ctx off)) ''xrCreateInstance'' params op v)
       (stub_request rpc_xrCreateInstance) params = Wrote b"
    using assms(5) by (auto simp: rpc_request_def wseq_Wrote_iff rpc_xrCreateInstance_def)
  have "plain (stub_request rpc_xrCreateInstance)" by (simp add: rpc_xrCreateInstance_def plain_def)
  from build_request_ok [OF assms(1) this] have ok: "program_ok [] [] (stub_request rpc_xrCreateInstance)"
    by (rule row_okD(1))
  then show ?thesis
    using build.fields_arrive [of X exts params n "stub_request rpc_xrCreateInstance" off "''xrCreateInstance''" params b None 0 "[]"]
      assms(2-4) b by (simp add: rpc_xrCreateInstance_def)
qed

lemma create_dispatched:
  assumes "map_of (build_stubs exts) ''xrCreateInstance'' = Some rpc_xrCreateInstance"
  shows "function_call_handler E exts n R ci di (word_bytes (9 :: u32) @ b) srv = ci b srv"
  using stub_dispatched [OF assms] by (simp add: rpc_xrCreateInstance_def function_call_handler_def handle_function_def)

lemma create_instance_handled:
  assumes "run_dops (des_op E 0 (des E 0 n) ''xrCreateInstance'') [] [De_ptr ''createInfo'', De_ptr ''instance''] None b
      = Some (Ret (ps, rest))"
    "instance_params (all_required mods) ps = Ret ps1" "rt_loads R (rt_state srv) ''xrCreateInstance''"
    "rt_call R ''xrCreateInstance'' ps1 (rt_state srv) = (res, ps2, s')" "XR_SUCCEEDED res" "instance_handle ps2 = Ret h"
    "notify_instance h 0 mods (log_events [Instance_created h] (srv\<lparr>rt_state := s', server_instance := h, loader_instance := h\<rparr>))
       = (told, srv1)"
    "rpc_reply E ''xrCreateInstance'' [Ser_ptr ''instance'' C_one] res (rt_duration R (rt_state srv) ''xrCreateInstance'') ps2
       = Wrote reply"
  shows "create_instance_handler E n R mods b srv
    = Some (go_on told srv1 (\<lambda>_. Replied reply (log_events [Answer_flushed] srv1)))"
proof -
  have "finish_create mods res ps2 (srv\<lparr>rt_state := s'\<rparr>) = (told, srv1)"
    using assms(5-7) by (simp add: finish_create_def)
  then show ?thesis unfolding create_instance_handler_def assms(1) using assms(2-4,8) by (simp add: flush_answer_def)
qed

text \<open>
  C26: The instance that a client asks for is created with the extensions that it names, those that
  the server's modules require, and the timer extension. On success the server keeps the handle and
  then tells one module after the other; only when all of them have returned it flushes the answer,
  as its last action. When one of them throws, the later ones are not told and there is no answer.
\<close>

theorem instance_created:
  fixes X exts off params
  defines "E \<equiv> build_codec X exts"
  defines "ps \<equiv> arrived E off 0 ''xrCreateInstance'' (stub_request rpc_xrCreateInstance) params params"
  assumes stub: "map_of (build_stubs exts) ''xrCreateInstance'' = Some rpc_xrCreateInstance"
    and types: "types_ok E" and size: "size_list size params < n" "size_list size params < 2 ^ 32"
    and req: "rpc_request E off ''xrCreateInstance'' rpc_xrCreateInstance params = Wrote msg"
    and names: "requested_extensions ps = Ret names" "length names + length (all_required mods) < 2 ^ 32 - 1"
      "instance_params (all_required mods) ps = Ret ps1"
    and runtime: "rt_loads R (rt_state srv) ''xrCreateInstance''"
      "rt_call R ''xrCreateInstance'' ps1 (rt_state srv) = (res, ps2, s')"
      "XR_SUCCEEDED res" "instance_handle ps2 = Ret h"
    and modules: "notify_instance h 0 mods
       (log_events [Instance_created h] (srv\<lparr>rt_state := s', server_instance := h, loader_instance := h\<rparr>)) = (told, srv1)"
    and reply: "rpc_reply E ''xrCreateInstance'' [Ser_ptr ''instance'' C_one] res (rt_duration R (rt_state srv) ''xrCreateInstance'') ps2
         = Wrote reply"
  shows "requested_extensions ps1 = Ret (names @ map string_value (all_required mods @ [timer_extension])) \<and>
    server_instance srv1 = h \<and> loader_instance srv1 = h \<and>
    (case told of
       Ret _ \<Rightarrow> \<exists>srv2. function_call_handler E exts n (lift_runtime R) (create_instance_handler E n R mods) di msg srv
           = Some (Replied reply srv2) \<and> server_instance srv2 = h \<and> rt_state srv2 = rt_state srv1 \<and>
         server_log srv2 = server_log srv @ Instance_created h # instance_notices h 0 (length mods) @ [Answer_flushed]
     | Throw e \<Rightarrow> function_call_handler E exts n (lift_runtime R) (create_instance_handler E n R mods) di msg srv
           = Some (Raised_in None e srv1) \<and>
         (\<exists>k. server_log srv1 = server_log srv @ Instance_created h # instance_notices h 0 k)
     | _ \<Rightarrow> True)"
proof -
  obtain b where b: "msg = word_bytes (9 :: u32) @ b"
    "run_dops (des_op E 0 (des E 0 n) ''xrCreateInstance'') [] [De_ptr ''createInfo'', De_ptr ''instance''] None b
      = Some (Ret (ps, []))"
    using create_request_read [OF stub types [unfolded E_def] size req [unfolded E_def]] unfolding E_def ps_def by blast
  have exts: "requested_extensions ps1 = Ret (names @ map string_value (all_required mods @ [timer_extension]))"
    using instance_params_extensions [OF names(1,2)] names(3) by auto
  have call: "function_call_handler E exts n (lift_runtime R) (create_instance_handler E n R mods) di msg srv
      = Some (go_on told srv1 (\<lambda>_. Replied reply (log_events [Answer_flushed] srv1)))"
    using create_instance_handled [OF b(2) names(3) runtime modules reply] b(1) by (simp add: create_dispatched [OF stub])
  from notify_instance_log [OF modules] obtain k s where k: "srv1 = log_events (instance_notices h 0 k)
      ((log_events [Instance_created h] (srv\<lparr>rt_state := s', server_instance := h, loader_instance := h\<rparr>))\<lparr>rt_state := s\<rparr>)"
      "told = Ret () \<longrightarrow> k = length mods" by blast
  then show ?thesis using exts call
    by (cases told) (auto simp: log_events_def)
qed

section \<open>A concrete connection\<close>

text \<open>A header whose character arrays are empty.\<close>

definition instance_openxr :: openxr where
  "instance_openxr =
     \<lparr>xr_field_type = \<lambda>s f.
        if f = ''createInfo'' then T_struct ''XrInstanceCreateInfo''
        else if f = ''applicationInfo'' then T_struct ''XrApplicationInfo''
        else if f = ''enabledExtensionNames'' \<or> f = ''enabledApiLayerNames'' then T_prim 1
        else if f = ''instance'' \<or> f = ''createFlags'' \<or> f = ''apiVersion'' then T_prim 8
        else T_prim 4,
      xr_field_const = \<lambda>s f. True, xr_macro = \<lambda>m. 0, xr_type_value = \<lambda>e. 3\<rparr>"

definition instance_request :: "u64 \<Rightarrow> fld list" where
  "instance_request h =
     [Field ''createInfo'' (V_ptr [V_struct
        [Field ''type'' (V_prim (word_bytes (3 :: u32))), Field ''next'' V_null,
         Field ''createFlags'' (V_prim (word_bytes (0 :: u64))),
         Field ''applicationInfo'' (V_struct
           [Field ''applicationName'' (V_array []), Field ''applicationVersion'' (V_prim (word_bytes (1 :: u32))),
            Field ''engineName'' (V_array []), Field ''engineVersion'' (V_prim (word_bytes (1 :: u32))),
            Field ''apiVersion'' (V_prim (word_bytes (1 :: u64)))]),
         Field ''enabledApiLayerCount'' (V_prim (word_bytes (0 :: u32))), Field ''enabledApiLayerNames'' (V_ptr []),
         Field ''enabledExtensionCount'' (V_prim (word_bytes (1 :: u32))),
         Field ''enabledExtensionNames'' (V_ptr [V_ptr [V_prim [65], V_prim [0]]])]]),
      Field ''instance'' (V_ptr [V_prim (word_bytes h)])]"

lemma instance_programs:
  "map_of core_serializers ''XrInstanceCreateInfo'' = Some serialize_XrInstanceCreateInfo"
  "map_of core_serializers ''XrApplicationInfo'' = Some
     [Ser_array ''applicationName'' (B_const ''XR_MAX_APPLICATION_NAME_SIZE''), Ser ''applicationVersion'',
      Ser_array ''engineName'' (B_const ''XR_MAX_ENGINE_NAME_SIZE''), Ser ''engineVersion'', Ser ''apiVersion'']"
  by (simp_all add: core_serializers_def core_serializers_1_def)

lemma build_codec_simps:
  "field_type (build_codec X exts) = xr_field_type X" "field_const (build_codec X exts) = xr_field_const X"
  "xr_constant (build_codec X exts) = xr_macro X" "ser_program (build_codec X exts) = map_of (build_serializers exts)"
  by (simp_all add: build_codec_def)

lemma small_counts: "le_val (word_bytes (0 :: u32)) = 0" "le_val (word_bytes (1 :: u32)) = Suc 0"
  by (simp_all add: word_bytes_def le_val_le_bytes)

lemma instance_types [simp]:
  "xr_macro instance_openxr m = 0" "xr_field_type instance_openxr s ''createInfo'' = T_struct ''XrInstanceCreateInfo''"
  "xr_field_type instance_openxr s ''applicationInfo'' = T_struct ''XrApplicationInfo''"
  "xr_field_type instance_openxr s ''enabledExtensionNames'' = T_prim 1"
  "xr_field_type instance_openxr s ''enabledApiLayerNames'' = T_prim 1"
  "xr_field_type instance_openxr s ''instance'' = T_prim 8" "xr_field_type instance_openxr s ''createFlags'' = T_prim 8"
  "xr_field_type instance_openxr s ''apiVersion'' = T_prim 8" "xr_field_type instance_openxr s ''type'' = T_prim 4"
  "xr_field_type instance_openxr s ''applicationVersion'' = T_prim 4" "xr_field_type instance_openxr s ''engineVersion'' = T_prim 4"
  "xr_field_type instance_openxr s ''enabledApiLayerCount'' = T_prim 4"
  "xr_field_type instance_openxr s ''enabledExtensionCount'' = T_prim 4" "xr_type_value instance_openxr e = 3"
  by (simp_all add: instance_openxr_def)

lemmas instance_simps = build_codec_simps instance_programs serialize_XrInstanceCreateInfo_def small_counts
  rpc_xrCreateInstance_def count_value_def serialize_each_def serialize_ptr_def bound_value_def

lemma instance_written: "\<exists>msg. rpc_request (build_codec instance_openxr []) 0 ''xrCreateInstance'' rpc_xrCreateInstance (instance_request h) = Wrote msg"
  by (simp add: rpc_request_def instance_request_def instance_simps)

lemma instance_arrives:
  "arrived (build_codec instance_openxr []) 0 0 ''xrCreateInstance'' (stub_request rpc_xrCreateInstance) (instance_request h) (instance_request h)
   = instance_request h"
  by (simp add: arrived_def instance_request_def instance_simps arr_ptr_def arr_each_def)

lemma instance_types_ok: "types_ok (build_codec instance_openxr [])"
proof -
  have "ty = 3" if "table_lookup instance_openxr tab ty = Some s" for ty s tab
  proof -
    have "(ty, s) \<in> set (map (\<lambda>(e, s). (xr_type_value instance_openxr e, s)) tab)"
      using that unfolding table_lookup_def by (rule map_of_SomeD)
    then show ?thesis by auto
  qed
  then show ?thesis by (force simp: types_ok_def serializer_lookup_def)
qed

definition instance_runtime :: "nat runtime" where
  "instance_runtime =
     \<lparr>rt_loads = \<lambda>s f. True,
      rt_call = \<lambda>f ps k.
        if f = ''xrCreateInstance''
        then (0, update_fields ps [Field ''instance'' (V_ptr [V_prim (word_bytes (9 :: u64))])], k + 1)
        else (0, ps, k),
      rt_duration = \<lambda>s f. 5\<rparr>"

lemma instance_runtime_simps [simp]:
  "rt_loads instance_runtime s f" "rt_duration instance_runtime s f = 5"
  "rt_call instance_runtime ''xrCreateInstance'' ps k
   = (0, update_fields ps [Field ''instance'' (V_ptr [V_prim (word_bytes (9 :: u64))])], k + 1)"
  by (simp_all add: instance_runtime_def)

definition instance_reply :: bytes where
  "instance_reply = word_bytes (0 :: u32) @ word_bytes (5 :: u64) @ word_bytes (1 :: u32) @ word_bytes (9 :: u64)"

abbreviation instance_codec :: codec where
  "instance_codec \<equiv> build_codec instance_openxr []"

definition instance_call_params :: "fld list" where
  "instance_call_params = (case instance_params [''B''] (instance_request 0) of Ret ps1 \<Rightarrow> ps1 | _ \<Rightarrow> [])"

lemma instance_setup:
  "map_of (build_stubs []) ''xrCreateInstance'' = Some rpc_xrCreateInstance"
  "size_list size (instance_request 0) < 200" "size_list size (instance_request 0) < 2 ^ 32"
  "requested_extensions (instance_request 0) = Ret [V_ptr [V_prim [65], V_prim [0]]]"
  by (simp_all add: build_stubs_def core_stubs_def instance_request_def requested_extensions_def extension_vector_def small_counts)

lemma instance_setup_call:
  "instance_params [''B''] (instance_request 0) = Ret instance_call_params"
  "instance_handle (update_fields instance_call_params [Field ''instance'' (V_ptr [V_prim (word_bytes (9 :: u64))])]) = Ret 9"
  "rpc_reply instance_codec ''xrCreateInstance'' [Ser_ptr ''instance'' C_one] 0 5
     (update_fields instance_call_params [Field ''instance'' (V_ptr [V_prim (word_bytes (9 :: u64))])]) = Wrote instance_reply"
  "XR_SUCCEEDED 0"
proof -
  show "instance_params [''B''] (instance_request 0) = Ret instance_call_params"
    using instance_params_extensions [OF instance_setup(4), of "[''B'']"] by (auto simp: instance_call_params_def)
  show "instance_handle (update_fields instance_call_params [Field ''instance'' (V_ptr [V_prim (word_bytes (9 :: u64))])]) = Ret 9"
    by (simp add: instance_call_params_def instance_params_def instance_request_def extension_vector_def small_counts
        instance_handle_def update_fields_def)
  show "rpc_reply instance_codec ''xrCreateInstance'' [Ser_ptr ''instance'' C_one] 0 5
     (update_fields instance_call_params [Field ''instance'' (V_ptr [V_prim (word_bytes (9 :: u64))])]) = Wrote instance_reply"
    by (simp add: instance_call_params_def instance_params_def instance_request_def extension_vector_def small_counts
        update_fields_def rpc_reply_def pick_def instance_simps instance_reply_def)
  show "XR_SUCCEEDED 0" by (simp add: XR_SUCCEEDED_def)
qed

text \<open>A module that asks for the extension \<open>B\<close> and counts its instances in the state of the runtime.\<close>

definition counting_module :: "nat server_module" where
  "counting_module = \<lparr>required_extensions = [''B''], module_on_instance = \<lambda>h k. (Ret (), k + 10),
     module_on_instance_destroy = \<lambda>k. (Ret (), k)\<rparr>"

lemma counting_required: "all_required [counting_module] = [''B'']"
  by (simp add: all_required_def counting_module_def)

definition served_instance :: "u64 \<Rightarrow> nat server" where
  "served_instance garbage = \<lparr>rt_state = 11, server_instance = 9, loader_instance = 9,
     server_log = [Instance_created 9, Module_instance 0 9]\<rparr>"

lemma counting_told:
  "notify_instance 9 0 [counting_module]
     (log_events [Instance_created 9] ((server_init garbage 0)\<lparr>rt_state := 1, server_instance := 9, loader_instance := 9\<rparr>))
   = (Ret (), served_instance garbage)"
  by (simp add: counting_module_def server_init_def log_events_def and_then_def change_def of_module_def done_with_def
      served_instance_def)

theorem instance_created_witness:
  "\<exists>msg srv. rpc_request instance_codec 0 ''xrCreateInstance'' rpc_xrCreateInstance (instance_request 0) = Wrote msg \<and>
    function_call_handler instance_codec [] 200 (lift_runtime instance_runtime)
      (create_instance_handler instance_codec 200 instance_runtime [counting_module]) (\<lambda>b s. None) msg (server_init 77 0)
      = Some (Replied instance_reply srv) \<and> server_instance srv = 9 \<and>
    server_log srv = [Instance_created 9, Module_instance 0 9, Answer_flushed]"
proof -
  obtain msg where msg: "rpc_request instance_codec 0 ''xrCreateInstance'' rpc_xrCreateInstance (instance_request 0) = Wrote msg"
    using instance_written by blast
  have room: "length [V_ptr [V_prim [65], V_prim [0]]] + length (all_required [counting_module]) < 2 ^ 32 - 1"
    by (simp add: counting_required)
  have call: "rt_call instance_runtime ''xrCreateInstance'' instance_call_params (rt_state (server_init 77 0))
      = (0, update_fields instance_call_params [Field ''instance'' (V_ptr [V_prim (word_bytes (9 :: u64))])], 1)"
    by (simp add: server_init_def)
  have reply: "rpc_reply instance_codec ''xrCreateInstance'' [Ser_ptr ''instance'' C_one] 0
      (rt_duration instance_runtime (rt_state (server_init 77 0)) ''xrCreateInstance'')
      (update_fields instance_call_params [Field ''instance'' (V_ptr [V_prim (word_bytes (9 :: u64))])]) = Wrote instance_reply"
    using instance_setup_call(3) by simp
  from instance_created [OF instance_setup(1) instance_types_ok instance_setup(2,3) msg, unfolded instance_arrives,
      OF instance_setup(4) room instance_setup_call(1) [folded counting_required] _ call instance_setup_call(4,2) counting_told reply,
      of "\<lambda>b s. None"]
  show ?thesis using msg by (fastforce simp: server_init_def instance_notices_def)
qed

lemma instance_served:
  "\<exists>msg srv. function_call_handler instance_codec [] 200 (lift_runtime instance_runtime)
      (create_instance_handler instance_codec 200 instance_runtime [counting_module]) di msg (server_init 77 0)
      = Some (Replied instance_reply srv) \<and> server_instance srv = 9 \<and>
      server_log srv = [Instance_created 9, Module_instance 0 9, Answer_flushed] \<and>
      take 4 msg = word_bytes (9 :: u32) \<and> 4 \<le> length msg"
proof -
  obtain msg where msg: "rpc_request instance_codec 0 ''xrCreateInstance'' rpc_xrCreateInstance (instance_request 0) = Wrote msg"
    using instance_written by blast
  obtain b where b: "msg = word_bytes (9 :: u32) @ b"
    "run_dops (des_op instance_codec 0 (des instance_codec 0 200) ''xrCreateInstance'') []
      [De_ptr ''createInfo'', De_ptr ''instance''] None b = Some (Ret (instance_request 0, []))"
    using create_request_read [OF instance_setup(1) instance_types_ok instance_setup(2,3) msg] unfolding instance_arrives by blast
  have call: "rt_call instance_runtime ''xrCreateInstance'' instance_call_params (rt_state (server_init 77 0))
      = (0, update_fields instance_call_params [Field ''instance'' (V_ptr [V_prim (word_bytes (9 :: u64))])], 1)"
    by (simp add: server_init_def)
  have reply: "rpc_reply instance_codec ''xrCreateInstance'' [Ser_ptr ''instance'' C_one] 0
      (rt_duration instance_runtime (rt_state (server_init 77 0)) ''xrCreateInstance'')
      (update_fields instance_call_params [Field ''instance'' (V_ptr [V_prim (word_bytes (9 :: u64))])]) = Wrote instance_reply"
    using instance_setup_call(3) by simp
  from create_instance_handled [OF b(2) instance_setup_call(1) [folded counting_required] _ call instance_setup_call(4,2) counting_told reply]
  have "create_instance_handler instance_codec 200 instance_runtime [counting_module] b (server_init 77 0)
      = Some (Replied instance_reply (log_events [Answer_flushed] (served_instance 77)))"
    by simp
  then show ?thesis using b(1)
    by (intro exI [of _ msg]) (simp add: log_events_def served_instance_def create_dispatched [OF instance_setup(1)])
qed

lemma instance_runtime_not_null: "instances_not_null instance_runtime"
proof -
  have "instance_handle (update_fields ps [Field ''instance'' (V_ptr [V_prim (word_bytes (9 :: u64))])]) \<noteq> Ret 0" for ps
    by (auto simp: instance_handle_def find_update split: option.splits)
  then show ?thesis by (simp add: instances_not_null_def)
qed

theorem instances_balanced_witness:
  "\<exists>srv. connection instance_openxr [] 200 instance_runtime [counting_module] (\<lambda>i s. 0) (server_init 77 0) srv \<and>
     server_instance srv = 9 \<and> server_instance (server_close instance_runtime srv) = 0 \<and>
     (\<exists>hs. instance_events (server_log (server_close instance_runtime srv)) = concat (map life (hs @ [9])))"
proof -
  obtain msg srv where srv: "function_call_handler instance_codec [] 200 (lift_runtime instance_runtime)
      (create_instance_handler instance_codec 200 instance_runtime [counting_module])
      (destroy_instance_handler instance_runtime [counting_module]) msg (server_init 77 0) = Some (Replied instance_reply srv)"
      "server_instance srv = 9" "server_log srv = [Instance_created 9, Module_instance 0 9, Answer_flushed]"
    and msg: "take 4 msg = word_bytes (9 :: u32)" "4 \<le> length msg"
    using instance_served by blast
  have "map_of (build_dispatch []) 9 = Some ''xrCreateInstance''"
    using stub_dispatched [OF instance_setup(1)] by (simp add: rpc_xrCreateInstance_def)
  then have "disciplined [] XRTP_MSG_FUNCTION_CALL msg (server_init 77 (0 :: nat))"
    using msg by (auto simp: disciplined_def destroys_def read_exact_def server_init_def open_instance_def)
  then have c: "connection instance_openxr [] 200 instance_runtime [counting_module] (\<lambda>i s. 0) (server_init 77 0) srv"
    by (rule connection.handled [OF connection.opened, where reply = "Some instance_reply" and r = "Replied instance_reply srv"])
      (simp_all add: server_handler_def srv(1))
  have "Instance_created 9 \<in> set (server_log srv)" using srv(3) by simp
  then show ?thesis using instances_balanced [OF c instance_runtime_not_null] c srv(2)
    by (intro exI [of _ srv]) (auto split: if_splits)
qed

end
