(* ===== verification/Serialization_Types.thy ===== *)
theory Serialization_Types
  imports Rpc_Cleanup
begin

text \<open>
  The deserializer as a type checker: whatever bytes arrive, a value that is read into fresh memory
  has the shape that the header declares for it, and no byte beyond the message is used. What the
  types do not say: a struct behind a chain pointer may call itself something else.
\<close>

section \<open>Typed values\<close>

definition pointer_typed :: "(xv \<Rightarrow> bool) \<Rightarrow> xv \<Rightarrow> bool" where
  "pointer_typed p v \<longleftrightarrow>
     v = V_null \<or> (\<exists>vs. v = V_ptr vs \<and> vs \<noteq> [] \<and> length vs < 2 ^ 32 \<and> list_all p vs)"

fun op_typed :: "codec \<Rightarrow> (kind \<Rightarrow> xv \<Rightarrow> bool) \<Rightarrow> string \<Rightarrow> fld list \<Rightarrow> dop \<Rightarrow> xv \<Rightarrow> bool" where
  "op_typed E T s fs (De f) v \<longleftrightarrow> T (K_val (field_type E s f)) v"
| "op_typed E T s fs (De_time f) v \<longleftrightarrow> (\<exists>bs. v = V_prim bs \<and> length bs = 8)"
| "op_typed E T s fs (De_xr f) v \<longleftrightarrow> T K_xr v"
| "op_typed E T s fs (De_array f k) v \<longleftrightarrow>
     (\<exists>vs. v = V_array vs \<and> length vs = bound_value E k \<and> list_all (T (K_val (field_type E s f))) vs)"
| "op_typed E T s fs (De_ptr f) v \<longleftrightarrow> pointer_typed (T (K_val (field_type E s f))) v"
| "op_typed E T s fs (De_xr_array f) v \<longleftrightarrow>
     (\<exists>ty s'. des_lookup E ty = Some s' \<and> pointer_typed (T (K_val (T_struct s'))) v) \<or> v = V_null"
| "op_typed E T s fs (De_ptr_each f g) v \<longleftrightarrow>
     (\<exists>vs. v = V_ptr vs \<and> uint_field fs g = Ret (length vs) \<and> list_all (pointer_typed (T (K_val (field_type E s f)))) vs)"
| "op_typed E T s fs (De_xr_each f g) v \<longleftrightarrow>
     (\<exists>vs. v = V_ptr vs \<and> uint_field fs g = Ret (length vs) \<and> list_all (T K_xr) vs)"

fun field_typed :: "codec \<Rightarrow> (kind \<Rightarrow> xv \<Rightarrow> bool) \<Rightarrow> string \<Rightarrow> fld list \<Rightarrow> dop \<Rightarrow> fld \<Rightarrow> bool" where
  "field_typed E T s fs op (Field g v) \<longleftrightarrow> dop_field op = g \<and> op_typed E T s fs op v"

lemma pointer_typed_mono: "(\<And>x. p x \<Longrightarrow> q x) \<Longrightarrow> pointer_typed p v \<Longrightarrow> pointer_typed q v"
  by (auto simp: pointer_typed_def list_all_iff)

lemma op_typed_mono:
  assumes le: "\<And>k x. T k x \<Longrightarrow> T' k x" and typed: "op_typed E T s fs op v"
  shows "op_typed E T' s fs op v"
proof (cases op)
  case (De_ptr_each f g)
  then show ?thesis
    using typed le pointer_typed_mono [of "T (K_val (field_type E s f))" "T' (K_val (field_type E s f))"]
    by (auto simp: list_all_iff)
next
  case (De_ptr f)
  then show ?thesis
    using typed le pointer_typed_mono [of "T (K_val (field_type E s f))" "T' (K_val (field_type E s f))"] by auto
next
  case (De_xr_array f)
  have "pointer_typed (T' k) v" if "pointer_typed (T k) v" for k by (rule pointer_typed_mono [OF le that])
  then show ?thesis using typed De_xr_array by auto
qed (use typed le in \<open>auto simp: list_all_iff\<close>)

lemma field_typed_mono:
  assumes le: "\<And>k x. T k x \<Longrightarrow> T' k x" and typed: "field_typed E T s fs op x"
  shows "field_typed E T' s fs op x"
proof (cases x)
  case (Field g v)
  then show ?thesis using typed op_typed_mono [of T T' E s fs op v] le by simp
qed

lemma fields_typed_mono [mono]:
  assumes le: "\<And>k x. T k x \<longrightarrow> T' k x"
  shows "list_all2 (field_typed E T s fs) ops gs \<longrightarrow> list_all2 (field_typed E T' s fs) ops gs"
proof
  have "field_typed E T' s fs op x" if "field_typed E T s fs op x" for op x
    by (rule field_typed_mono [OF _ that]) (use le in blast)
  then show "list_all2 (field_typed E T' s fs) ops gs" if "list_all2 (field_typed E T s fs) ops gs"
    using that list_all2_mono by blast
qed

inductive typed :: "codec \<Rightarrow> kind \<Rightarrow> xv \<Rightarrow> bool" for E where
  prim: "length bs = n \<Longrightarrow> typed E (K_val (T_prim n)) (V_prim bs)"
| struct: "des_program E s = Some ops \<Longrightarrow> list_all2 (field_typed E (typed E) s fs) ops fs \<Longrightarrow>
    typed E (K_val (T_struct s)) (V_struct fs)"
| null: "typed E K_xr V_null"
| chained: "ty \<noteq> 0 \<Longrightarrow> des_lookup E ty = Some s \<Longrightarrow> typed E (K_val (T_struct s)) v \<Longrightarrow> typed E K_xr (V_ref v)"

inductive_simps typed_simps: "typed E (K_val (T_prim n)) v" "typed E (K_val (T_struct s)) v" "typed E K_xr v"

section \<open>Readers\<close>

text \<open>A reader yields values with a property and uses a prefix of its input.\<close>

definition yields :: "(xv \<Rightarrow> bool) \<Rightarrow> (bytes \<Rightarrow> xv parsed) \<Rightarrow> bool" where
  "yields p g \<longleftrightarrow> (\<forall>bs v rest. g bs = Some (Ret (v, rest)) \<longrightarrow> p v \<and> (\<exists>used. bs = used @ rest))"

lemma yieldsD: "yields p g \<Longrightarrow> g bs = Some (Ret (v, rest)) \<Longrightarrow> p v \<and> (\<exists>used. bs = used @ rest)"
  by (simp add: yields_def)

lemma yieldsI: "(\<And>bs v rest. g bs = Some (Ret (v, rest)) \<Longrightarrow> p v \<and> (\<exists>used. bs = used @ rest)) \<Longrightarrow> yields p g"
  by (simp add: yields_def)

lemma pbind_Ret_iff: "pbind x f = Some (Ret y) \<longleftrightarrow> (\<exists>a bs. x = Some (Ret (a, bs)) \<and> f a bs = Some (Ret y))"
  by (cases "(x, f)" rule: pbind.cases) auto

lemma des_bytes_Ret_iff: "des_bytes n bs = Some (Ret (xs, rest)) \<longleftrightarrow> bs = xs @ rest \<and> length xs = n"
  by (auto simp: des_bytes_def read_exact_def split: option.splits)

lemma array_yields:
  assumes "yields p (g None)" "deserialize_array g n None bs = Some (Ret (vs, rest))"
  shows "length vs = n \<and> list_all p vs \<and> (\<exists>used. bs = used @ rest)"
  using assms(2)
proof (induction n arbitrary: bs vs)
  case (Suc n)
  then obtain v bs' vs' where v: "g None bs = Some (Ret (v, bs'))" "vs = v # vs'"
    "deserialize_array g n None bs' = Some (Ret (vs', rest))"
    by (auto simp: pbind_Ret_iff)
  then show ?case using Suc.IH [OF v(3)] yieldsD [OF assms(1) v(1)] by auto
qed auto

lemma ptr_yields:
  assumes "yields p (g None)"
  shows "yields (pointer_typed p) (deserialize_ptr g None)"
proof (rule yieldsI)
  fix bs v rest
  assume "deserialize_ptr g None bs = Some (Ret (v, rest))"
  then obtain lb bs' where lb: "bs = lb @ bs'" "length lb = 4" and
    r: "(if unat (bytes_word lb :: u32) \<noteq> 0
         then pbind (deserialize_array g (unat (bytes_word lb :: u32)) None bs') (\<lambda>vs bs''. Some (Ret (V_ptr vs, bs'')))
         else Some (Ret (V_null, bs'))) = Some (Ret (v, rest))"
    by (auto simp: deserialize_ptr_def Let_def pbind_Ret_iff des_bytes_Ret_iff cong: if_cong)
  show "pointer_typed p v \<and> (\<exists>used. bs = used @ rest)"
  proof (cases "unat (bytes_word lb :: u32) = 0")
    case True
    then show ?thesis using r lb by (simp add: pointer_typed_def)
  next
    case False
    then obtain vs where vs: "v = V_ptr vs" "deserialize_array g (unat (bytes_word lb :: u32)) None bs' = Some (Ret (vs, rest))"
      using r by (auto simp: pbind_Ret_iff)
    have "unat (bytes_word lb :: u32) < 2 ^ 32" using unsigned_less [of "bytes_word lb :: u32"] by simp
    then show ?thesis using array_yields [where g = g, OF assms vs(2)] vs(1) False lb(1) by (auto simp: pointer_typed_def)
  qed
qed

lemma each_yields:
  assumes "yields p (g None)"
  shows "yields (\<lambda>v. \<exists>vs. v = V_ptr vs \<and> length vs = n \<and> list_all p vs) (deserialize_each g n None)"
  using array_yields [where g = g, OF assms] by (auto simp: yields_def deserialize_each_def pbind_Ret_iff)

lemma xr_yields:
  assumes "\<And>s. yields (T (K_val (T_struct s))) (R (K_val (T_struct s)) None)"
  shows "yields (\<lambda>v. v = V_null \<or> (\<exists>ty s u. v = V_ref u \<and> ty \<noteq> 0 \<and> des_lookup E ty = Some s \<and> T (K_val (T_struct s)) u))
    (deserialize_xr E R const None)"
proof (rule yieldsI)
  fix bs v rest
  assume "deserialize_xr E R const None bs = Some (Ret (v, rest))"
  then obtain tb bs' where tb: "bs = tb @ bs'" and
    r: "(if (bytes_word tb :: u32) \<noteq> 0
         then (case des_lookup E (bytes_word tb) of
                 None \<Rightarrow> Some Fault
               | Some s \<Rightarrow> pbind (R (K_val (T_struct s)) None bs') (\<lambda>v bs''. Some (Ret (V_ref v, bs''))))
         else Some (Ret (V_null, bs'))) = Some (Ret (v, rest))"
    by (auto simp: deserialize_xr_def Let_def pbind_Ret_iff des_bytes_Ret_iff cong: if_cong)
  show "(v = V_null \<or> (\<exists>ty s u. v = V_ref u \<and> ty \<noteq> 0 \<and> des_lookup E ty = Some s \<and> T (K_val (T_struct s)) u))
      \<and> (\<exists>used. bs = used @ rest)"
  proof (cases "(bytes_word tb :: u32) = 0")
    case True
    then show ?thesis using r tb by simp
  next
    case False
    then obtain s u where s: "des_lookup E (bytes_word tb) = Some s" "R (K_val (T_struct s)) None bs' = Some (Ret (u, rest))" "v = V_ref u"
      using r by (auto simp: pbind_Ret_iff split: option.splits)
    then show ?thesis using yieldsD [where g = "R (K_val (T_struct s)) None", OF assms s(2)] tb False by auto
  qed
qed

lemma xr_array_yields:
  assumes "\<And>s. yields (T (K_val (T_struct s))) (R (K_val (T_struct s)) None)"
  shows "yields (\<lambda>v. (\<exists>ty s. des_lookup E ty = Some s \<and> pointer_typed (T (K_val (T_struct s))) v) \<or> v = V_null)
    (deserialize_xr_array E R None)"
proof (rule yieldsI)
  fix bs v rest
  assume "deserialize_xr_array E R None bs = Some (Ret (v, rest))"
  then obtain cb bs' where cb: "bs = cb @ bs'" "length cb = 4" and
    r: "(if unat (bytes_word cb :: u32) \<noteq> 0
         then pbind (des_bytes 4 bs') (\<lambda>tb bs''.
           case des_lookup E (bytes_word tb) of
             None \<Rightarrow> Some Fault
           | Some s \<Rightarrow> pbind (deserialize_array (R (K_val (T_struct s))) (unat (bytes_word cb :: u32)) None bs'')
                      (\<lambda>vs bs3. Some (Ret (V_ptr vs, bs3))))
         else Some (Ret (V_null, bs'))) = Some (Ret (v, rest))"
    by (auto simp: deserialize_xr_array_def Let_def pbind_Ret_iff des_bytes_Ret_iff cong: if_cong option.case_cong)
  show "((\<exists>ty s. des_lookup E ty = Some s \<and> pointer_typed (T (K_val (T_struct s))) v) \<or> v = V_null)
      \<and> (\<exists>used. bs = used @ rest)"
  proof (cases "unat (bytes_word cb :: u32) = 0")
    case True
    then show ?thesis using r cb by simp
  next
    case False
    then obtain tb bs'' s vs where s: "bs' = tb @ bs''" "des_lookup E (bytes_word tb) = Some s" "v = V_ptr vs"
      "deserialize_array (R (K_val (T_struct s))) (unat (bytes_word cb :: u32)) None bs'' = Some (Ret (vs, rest))"
      using r by (auto simp: pbind_Ret_iff des_bytes_Ret_iff split: option.splits)
    have "unat (bytes_word cb :: u32) < 2 ^ 32" using unsigned_less [of "bytes_word cb :: u32"] by simp
    then have "pointer_typed (T (K_val (T_struct s))) v" and "\<exists>used. bs'' = used @ rest"
      using array_yields [where g = "R (K_val (T_struct s))", OF assms s(4)] s(3) False by (auto simp: pointer_typed_def)
    then show ?thesis using s cb by auto
  qed
qed

lemma time_yields: "yields (\<lambda>v. \<exists>bs. v = V_prim bs \<and> length bs = 8) (deserialize_time off)"
  by (auto simp: yields_def deserialize_time_def Let_def pbind_Ret_iff des_bytes_Ret_iff)

section \<open>Programs\<close>

text \<open>What \<open>des\<close> has to provide, and the type that every operation of a program yields from it.\<close>

locale typed_reader =
  fixes E :: codec and T :: "kind \<Rightarrow> xv \<Rightarrow> bool" and R :: "kind \<Rightarrow> xv option \<Rightarrow> bytes \<Rightarrow> xv parsed"
  assumes reads: "yields (T k) (R k None)"
    and chain_end: "T K_xr V_null"
    and chain_link: "ty \<noteq> 0 \<Longrightarrow> des_lookup E ty = Some s \<Longrightarrow> T (K_val (T_struct s)) v \<Longrightarrow> T K_xr (V_ref v)"
begin

lemma yields_weaken: "yields p g \<Longrightarrow> (\<And>v. p v \<Longrightarrow> q v) \<Longrightarrow> yields q g"
  by (auto simp: yields_def)

lemma reads_chain: "yields (T K_xr) (deserialize_xr E R const None)"
  by (rule yields_weaken, rule xr_yields [of T R, OF reads]) (auto intro: chain_end chain_link)

lemma reads_op:
  assumes des: "des_op E off R s done op None bs = Some (Ret (v, rest))"
    and counts: "\<And>g n. uint_field done g = Ret n \<Longrightarrow> uint_field fs g = Ret n"
  shows "op_typed E T s fs op v \<and> (\<exists>used. bs = used @ rest)"
proof (cases op)
  case (De_ptr_each f g)
  then obtain n where n: "uint_field done g = Ret n"
    "deserialize_each (\<lambda>o' b. deserialize_ptr (R (K_val (field_type E s f))) o' b) n None bs = Some (Ret (v, rest))"
    using des by (auto split: outcome.splits simp del: uint_field.simps)
  then show ?thesis
    using yieldsD [OF each_yields n(2), OF ptr_yields [where g = "R (K_val (field_type E s f))", OF reads]] counts De_ptr_each
    by (auto simp del: uint_field.simps)
next
  case (De_xr_each f g)
  then obtain n where n: "uint_field done g = Ret n"
    "deserialize_each (\<lambda>o' b. deserialize_xr E R True o' b) n None bs = Some (Ret (v, rest))"
    using des by (auto split: outcome.splits simp del: uint_field.simps)
  then show ?thesis
    using yieldsD [OF each_yields n(2), OF reads_chain] counts De_xr_each by (auto simp del: uint_field.simps)
next
  case (De_array f k)
  then obtain vs where vs: "v = V_array vs"
    "deserialize_array (R (K_val (field_type E s f))) (bound_value E k) None bs = Some (Ret (vs, rest))"
    using des by (auto simp: pbind_Ret_iff)
  then show ?thesis
    using array_yields [where g = "R (K_val (field_type E s f))", OF reads vs(2)] De_array by simp
next
  case (De_ptr f)
  then show ?thesis using yieldsD [OF ptr_yields [where g = "R (K_val (field_type E s f))", OF reads]] des by simp
next
  case (De_xr_array f)
  then show ?thesis using yieldsD [OF xr_array_yields [of T R, OF reads]] des by simp
next
  case (De_xr f)
  then show ?thesis using yieldsD [OF reads_chain] des by simp
next
  case (De_time f)
  then show ?thesis using yieldsD [OF time_yields] des by simp
next
  case (De f)
  then show ?thesis using yieldsD [OF reads] des by simp
qed

lemma reads_program:
  assumes "run_dops (des_op E off R s) done ops None bs = Some (Ret (fs, rest))"
  shows "\<exists>gs. fs = done @ gs \<and> list_all2 (field_typed E T s fs) ops gs \<and> (\<exists>used. bs = used @ rest)"
  using assms
proof (induction ops arbitrary: "done" bs)
  case (Cons op ops)
  then obtain v bs' where v: "des_op E off R s done op None bs = Some (Ret (v, bs'))"
    "run_dops (des_op E off R s) (done @ [Field (dop_field op) v]) ops None bs' = Some (Ret (fs, rest))"
    by (auto simp: pbind_Ret_iff)
  from Cons.IH [OF v(2)] obtain gs used where gs: "fs = done @ Field (dop_field op) v # gs"
    "list_all2 (field_typed E T s fs) ops gs" "bs' = used @ rest" by auto
  have "uint_field fs g = Ret n" if "uint_field done g = Ret n" for g n
    using that by (auto simp: gs(1) find_field_append split: option.splits xv.splits)
  from reads_op [OF v(1) this] obtain used' where "op_typed E T s fs op v" "bs = used' @ bs'" by auto
  then show ?case using gs by auto
qed auto

end

lemma des_reader: "typed_reader E (typed E) (des E off n)"
proof (induction n)
  case 0
  show ?case by unfold_locales (auto simp: yields_def typed_simps)
next
  case (Suc n)
  have "typed E k v \<and> (\<exists>used. bs = used @ rest)" if des: "des E off (Suc n) k None bs = Some (Ret (v, rest))" for k bs v rest
  proof (cases k)
    case K_xr
    then show ?thesis using yieldsD [OF typed_reader.reads_chain [OF Suc]] des by simp
  next
    case (K_val t)
    show ?thesis
    proof (cases t)
      case (T_prim m)
      then show ?thesis using des K_val by (auto simp: pbind_Ret_iff des_bytes_Ret_iff typed_simps)
    next
      case (T_struct s)
      then obtain ops fs where "des_program E s = Some ops" "v = V_struct fs"
        "run_dops (des_op E off (des E off n) s) [] ops None bs = Some (Ret (fs, rest))"
        using des K_val by (auto simp: pbind_Ret_iff split: option.splits)
      then show ?thesis
        using typed_reader.reads_program [OF Suc, of off s "[]" ops bs fs rest] K_val T_struct by (auto simp: typed_simps)
    qed
  qed
  then show ?case by unfold_locales (auto simp: yields_def typed_simps)
qed

interpretation dsr: typed_reader E "typed E" "des E off n" for E off n
  by (rule des_reader)

section \<open>Every build\<close>

text \<open>
  C4: The deserializer is a type checker: whatever bytes a peer sends and however they are cut, what
  is read into fresh memory has the members, lengths and pointers that the struct functions of the
  build declare for it, and it was read from a prefix of the input.
\<close>

theorem deserialized_typed:
  assumes "des (build_codec X exts) off n k None bs = Some (Ret (v, rest))"
  shows "typed (build_codec X exts) k v \<and> (\<exists>used. bs = used @ rest)"
  by (rule yieldsD [OF dsr.reads assms])

theorem deserialized_typed_witness:
  "typed (build_codec frame_openxr []) (K_val (T_struct ''XrFrameState'')) (frame_struct 4000)"
proof -
  have "\<exists>bs. des (build_codec frame_openxr []) 0 (Suc 200) (K_val (T_struct ''XrFrameState'')) None bs
      = Some (Ret (frame_struct 4000, []))"
    using build.reads_back [OF frame_types _ _ frame_struct_ser, of 200 None 0 "[]"]
    unfolding frame_struct_arr by (auto simp: frame_struct_def)
  then show ?thesis using deserialized_typed by blast
qed

text \<open>
  The type that a chained struct carries in its first member is not compared with the type that
  was sent in front of it: whatever value the member has, the struct is accepted. A member without a
  cleaner then makes the cleanup of the received value throw, which leaves its memory allocated.
\<close>

theorem chain_type_unchecked:
  assumes "types_ok (build_codec X exts)" "size (V_struct fs) < n" "size (V_struct fs) < 2 ^ 32"
    "ser (build_codec X exts) c (K_val (T_struct s)) (V_struct fs) = Wrote bs"
    "deserializer_lookup X exts ty = Some s" "ty \<noteq> 0"
    "struct_type fs = Some inner" "cleaner_lookup X exts inner = None"
  shows "\<exists>w. des (build_codec X exts) off (Suc (Suc n)) K_xr None (word_bytes ty @ bs @ rest) = Some (Ret (V_ref w, rest))
    \<and> clean (build_codec X exts) (build_cleaners X exts) K_xr (V_ref w) = Throw unknown_struct_cleaner"
proof -
  let ?w = "arr (build_codec X exts) c off (K_val (T_struct s)) (V_struct fs)"
  obtain ops where ops: "ser_program (build_codec X exts) s = Some ops"
    "run_sops (ser_op (build_codec X exts) c (ser (build_codec X exts) c) s fs) ops fs = Wrote bs"
    using assms(4) by (auto split: option.splits)
  have "des (build_codec X exts) off (Suc n) (K_val (T_struct s)) None (bs @ rest) = Some (Ret (?w, rest))"
    by (rule build.reads_back [OF assms(1-4)]) simp
  then have "des (build_codec X exts) off (Suc (Suc n)) K_xr None (word_bytes ty @ bs @ rest) = Some (Ret (V_ref ?w, rest))"
    using assms(5,6) by (simp add: deserialize_xr_def build_codec_def)
  moreover have "clean (build_codec X exts) (build_cleaners X exts) K_xr (V_ref ?w) = Throw unknown_struct_cleaner"
    using build.struct_type_of_program [OF ops assms(7)] assms(8) ops(1) by (simp add: build_cleaners_def)
  ultimately show ?thesis by blast
qed

theorem chain_type_unchecked_witness:
  "\<exists>w. des (build_codec frame_openxr []) 0 (Suc (Suc 200)) K_xr None
      (word_bytes (44 :: u32) @ (word_bytes (99 :: u32) @ word_bytes (0 :: u32) @ word_bytes (4000 :: u64) @
        word_bytes (11 :: u64) @ word_bytes (1 :: u32)) @ []) = Some (Ret (V_ref w, []))
    \<and> clean (build_codec frame_openxr []) (build_cleaners frame_openxr []) K_xr (V_ref w) = Throw unknown_struct_cleaner"
proof (rule chain_type_unchecked [OF frame_types])
  show "ser (build_codec frame_openxr []) to_server (K_val (T_struct ''XrFrameState''))
      (V_struct [Field ''type'' (V_prim (word_bytes (99 :: u32))), Field ''next'' V_null,
        Field ''predictedDisplayTime'' (V_prim (word_bytes (5000 :: u64))),
        Field ''predictedDisplayPeriod'' (V_prim (word_bytes (11 :: u64))),
        Field ''shouldRender'' (V_prim (word_bytes (1 :: u32)))])
    = Wrote (word_bytes (99 :: u32) @ word_bytes (0 :: u32) @ word_bytes (4000 :: u64) @
        word_bytes (11 :: u64) @ word_bytes (1 :: u32))"
    by (simp add: frame_value_simps to_server_def)
  show "cleaner_lookup frame_openxr [] 99 = None" "deserializer_lookup frame_openxr [] 44 = Some ''XrFrameState''"
    unfolding lookups_match by (rule frame_lookup)+
qed (simp_all add: struct_type_def)

end
