(* ===== verification/Vulkan_Common.thy ===== *)
theory Vulkan_Common
  imports Xr_Results Message_Buffers
begin

unbundle bit_operations_syntax

text \<open>
  What the two halves of the Vulkan module share, \<open>src/modules/vulkan/common\<close>: the image that
  belongs to a swapchain, its aspects and its type, the handles of an image, and the messages. The
  bodies of the messages are values here; their encoding is the subject of the serialization.
\<close>

section \<open>Images\<close>

text \<open>The members of \<open>XrSwapchainCreateInfo\<close> and \<open>VkImageCreateInfo\<close> that vary.\<close>

record swapchain_info =
  sw_create_flags :: u64
  sw_usage :: u64
  sw_format :: u64
  sw_samples :: u32
  sw_width :: u32
  sw_height :: u32
  sw_faces :: u32
  sw_array_size :: u32
  sw_mips :: u32

record image_info =
  im_flags :: u32
  im_format :: u32
  im_width :: u32
  im_height :: u32
  im_mips :: u32
  im_layers :: u32
  im_samples :: u32
  im_usage :: u32

definition XR_SWAPCHAIN_USAGE_COLOR_ATTACHMENT_BIT :: u64 where "XR_SWAPCHAIN_USAGE_COLOR_ATTACHMENT_BIT = 1"
definition XR_SWAPCHAIN_USAGE_DEPTH_STENCIL_ATTACHMENT_BIT :: u64 where
  "XR_SWAPCHAIN_USAGE_DEPTH_STENCIL_ATTACHMENT_BIT = 2"
definition XR_SWAPCHAIN_USAGE_TRANSFER_DST_BIT :: u64 where "XR_SWAPCHAIN_USAGE_TRANSFER_DST_BIT = 16"
definition XR_SWAPCHAIN_CREATE_PROTECTED_CONTENT_BIT :: u64 where "XR_SWAPCHAIN_CREATE_PROTECTED_CONTENT_BIT = 1"
definition XR_SWAPCHAIN_CREATE_STATIC_IMAGE_BIT :: u64 where "XR_SWAPCHAIN_CREATE_STATIC_IMAGE_BIT = 2"
definition VK_IMAGE_USAGE_TRANSFER_SRC_BIT :: u32 where "VK_IMAGE_USAGE_TRANSFER_SRC_BIT = 1"

lemmas usage_bits [code_simps] =
  XR_SWAPCHAIN_USAGE_COLOR_ATTACHMENT_BIT_def XR_SWAPCHAIN_USAGE_DEPTH_STENCIL_ATTACHMENT_BIT_def
  XR_SWAPCHAIN_USAGE_TRANSFER_DST_BIT_def XR_SWAPCHAIN_CREATE_PROTECTED_CONTENT_BIT_def
  XR_SWAPCHAIN_CREATE_STATIC_IMAGE_BIT_def VK_IMAGE_USAGE_TRANSFER_SRC_BIT_def

text \<open>The usage bits of a swapchain that have a counterpart in the usage of an image.\<close>

definition usage_table :: "(u64 \<times> u32) list" where
  "usage_table =
     [(XR_SWAPCHAIN_USAGE_COLOR_ATTACHMENT_BIT, 16), (XR_SWAPCHAIN_USAGE_DEPTH_STENCIL_ATTACHMENT_BIT, 32),
      (8, VK_IMAGE_USAGE_TRANSFER_SRC_BIT), (XR_SWAPCHAIN_USAGE_TRANSFER_DST_BIT, 2), (32, 4), (128, 128)]"

definition image_usage :: "u64 \<Rightarrow> u32" where
  "image_usage usage =
     fold (\<lambda>(xr, vk) u. if usage AND xr \<noteq> 0 then u OR vk else u) usage_table 0"

text \<open>Mutable formats are bit 64 of the usage; a swapchain with six faces gives a cube.\<close>

definition image_flags :: "swapchain_info \<Rightarrow> u32" where
  "image_flags info =
     (if sw_usage info AND 64 \<noteq> 0 then 8 else 0) OR (if sw_faces info = 6 then 16 else 0)"

definition create_vk_image_create_info :: "swapchain_info \<Rightarrow> image_info" where
  "create_vk_image_create_info info =
     \<lparr>im_flags = image_flags info, im_format = ucast (sw_format info), im_width = sw_width info,
      im_height = sw_height info, im_mips = sw_mips info, im_layers = sw_array_size info * sw_faces info,
      im_samples = sw_samples info, im_usage = image_usage (sw_usage info)\<rparr>"

text \<open>The formats with depth and stencil, by their numbers in the Vulkan specification.\<close>

definition get_aspect_from_format :: "u32 \<Rightarrow> u32" where
  "get_aspect_from_format format =
     (if format = 124 \<or> format = 126 \<or> format = 125 then 2
      else if format = 128 \<or> format = 129 \<or> format = 130 then 2 OR 4
      else if format = 127 then 4
      else 1)"

datatype image_type = Color | Depth_stencil

text \<open>An image that both sides share is created with one more usage on either side.\<close>

definition shared_image_info :: "swapchain_info \<Rightarrow> image_info" where
  "shared_image_info info =
     (let i = create_vk_image_create_info info in i\<lparr>im_usage := im_usage i OR VK_IMAGE_USAGE_TRANSFER_SRC_BIT\<rparr>)"

section \<open>Handles and messages\<close>

record image_handles =
  memory_handle :: u32
  rendering_done_handle :: u32
  copying_done_handle :: u32

definition write_image_handles :: "image_handles \<Rightarrow> u32 list" where
  "write_image_handles h = [memory_handle h, rendering_done_handle h, copying_done_handle h]"

text \<open>Reading from the handles in flight; \<open>None\<close> waits for more.\<close>

fun read_image_handles :: "u32 list \<Rightarrow> (image_handles \<times> u32 list) option" where
  "read_image_handles (m # r # c # hs) =
     Some (\<lparr>memory_handle = m, rendering_done_handle = r, copying_done_handle = c\<rparr>, hs)"
| "read_image_handles _ = None"

lemma read_written_handles [simp]: "read_image_handles (write_image_handles h @ hs) = Some (h, hs)"
  by (simp add: write_image_handles_def)

datatype vulkan_request =
    Get_physical_device | Create_swapchain u64 swapchain_info | Destroy_swapchain u64
  | Create_session u64 | Destroy_session u64 | Release_swapchain_image u64 u32
  | Get_swapchain_image_handles u64 u64

datatype vulkan_reply =
    Physical_device bytes | Swapchain_refused xr_result | Swapchain_created u64 u32 u64 u32
  | Swapchain_destroyed | Session_created u64 | Session_destroyed | Image_released
  | No_image_handles

end
