(* ===== verification/Runs.thy ===== *)
theory Runs
  imports Xr_Prelude
begin

text \<open>
  Sequences of calls on an object, and the contract of an implementation with its specification:
  each call keeps the invariant and gives the result that the specification gives on the
  abstracted state. The locale carries this over to whole sequences of calls.
\<close>

fun run_calls :: "('c \<Rightarrow> 's \<Rightarrow> 'r \<times> 's) \<Rightarrow> 'c list \<Rightarrow> 's \<Rightarrow> 'r list \<times> 's" where
  "run_calls f [] s = ([], s)"
| "run_calls f (c # cs) s =
     (case f c s of (r, s') \<Rightarrow> case run_calls f cs s' of (rs, s'') \<Rightarrow> (r # rs, s''))"

lemma run_calls_Cons: "run_calls f (c # cs) s =
    (fst (f c s) # fst (run_calls f cs (snd (f c s))), snd (run_calls f cs (snd (f c s))))"
  by (simp add: case_prod_unfold)

lemma length_run_calls [simp]: "length (fst (run_calls f cs s)) = length cs"
  by (induction cs arbitrary: s) (simp_all add: case_prod_unfold)

lemma run_calls_append:
  "run_calls f (cs @ ds) s =
     (fst (run_calls f cs s) @ fst (run_calls f ds (snd (run_calls f cs s))),
      snd (run_calls f ds (snd (run_calls f cs s))))"
  by (induction cs arbitrary: s) (simp_all add: case_prod_unfold)

locale kept_invariant =
  fixes call :: "'c \<Rightarrow> 's \<Rightarrow> 'r \<times> 's" and ok :: "'c \<Rightarrow> bool" and inv :: "'s \<Rightarrow> bool"
  assumes call_keeps: "inv s \<Longrightarrow> ok c \<Longrightarrow> inv (snd (call c s))"
begin

lemma run_keeps: "inv s \<Longrightarrow> list_all ok cs \<Longrightarrow> inv (snd (run_calls call cs s))"
  by (induction cs arbitrary: s) (simp_all add: case_prod_unfold call_keeps)

end

locale data_refinement = kept_invariant call ok inv
  for call :: "'c \<Rightarrow> 's \<Rightarrow> 'r \<times> 's" and ok :: "'c \<Rightarrow> bool" and inv :: "'s \<Rightarrow> bool" +
  fixes spec :: "'c \<Rightarrow> 't \<Rightarrow> 'r \<times> 't" and abs :: "'s \<Rightarrow> 't"
  assumes call_refines: "inv s \<Longrightarrow> ok c \<Longrightarrow> spec c (abs s) = (fst (call c s), abs (snd (call c s)))"
begin

lemma run_refines:
  "inv s \<Longrightarrow> list_all ok cs \<Longrightarrow>
   run_calls spec cs (abs s) = (fst (run_calls call cs s), abs (snd (run_calls call cs s)))"
proof (induction cs arbitrary: s)
  case (Cons c cs)
  have "spec c (abs s) = (fst (call c s), abs (snd (call c s)))"
    using call_refines Cons.prems by simp
  moreover have "inv (snd (call c s))" using call_keeps Cons.prems by simp
  ultimately show ?case using Cons.IH [of "snd (call c s)"] Cons.prems(2) by (simp add: case_prod_unfold)
qed simp

end

end
