(* ===== verification/Vulkan_Server.thy ===== *)
theory Vulkan_Server
  imports Vulkan_Common Actions Runs
begin

unbundle bit_operations_syntax

text \<open>
  The server half of the Vulkan module, \<open>src/modules/vulkan/server/vulkan_server_module.cpp\<close>, in the
  build that exchanges file descriptors: sessions and swapchains, the images it shares with the
  client, and the copy into the swapchain of the runtime when the client releases an image. Vulkan
  and the OpenXR runtime are parameters, the calls on them are recorded.
\<close>

section \<open>Vulkan and the runtime\<close>

datatype barrier = Acquire_external u64 u32 | Transition_to_copy u64 u32 | Transition_back u64 image_type u32

datatype vk_op =
    Vk_create_image image_info | Vk_allocate_memory u64 u64 u32 | Vk_bind_image_memory u64 u64
  | Vk_create_semaphore | Vk_allocate_command_buffer | Vk_create_fence
  | Vk_get_memory_fd u64 | Vk_get_semaphore_fd u64
  | Vk_wait_for_fence u64 | Vk_reset_fence u64
  | Vk_begin_command_buffer u64 | Vk_pipeline_barrier u64 "barrier list"
  | Vk_copy_image u64 u64 u64 u32 u32 u32 u32 | Vk_end_command_buffer u64
  | Vk_queue_submit u64 u64 u64 u64 | Vk_queue_wait_idle
  | Vk_free_command_buffer u64 | Vk_destroy_image u64 | Vk_free_memory u64 | Vk_destroy_semaphore u64
  | Vk_create_command_pool u32 | Vk_destroy_command_pool u64 | Vk_device_wait_idle

datatype xr_op =
    Xr_get_system | Xr_get_vulkan_graphics_requirements2 u64 | Xr_create_vulkan_instance u64
  | Xr_get_vulkan_graphics_device2 u64 u64 | Xr_create_vulkan_device u64 u64 u32
  | Xr_create_session u64 | Xr_destroy_session u64
  | Xr_create_swapchain u64 swapchain_info | Xr_destroy_swapchain u64
  | Xr_enumerate_swapchain_images u64 u32
  | Xr_acquire_swapchain_image u64 | Xr_wait_swapchain_image u64 | Xr_release_swapchain_image u64

datatype gpu_call = Vulkan vk_op | Runtime xr_op

text \<open>
  A call gives a result and what its output variable holds afterwards; the two calls that create
  Vulkan objects through OpenXR also give a \<open>VkResult\<close>. The other queries are functions of the state.
\<close>

record 'd driver =
  d_call :: "gpu_call \<Rightarrow> 'd \<Rightarrow> (xr_result \<times> u64) \<times> 'd"
  d_vk_result :: "gpu_call \<Rightarrow> 'd \<Rightarrow> vk_result"
  d_memory_types :: "u32 list"
  d_memory_size :: "u64 \<Rightarrow> 'd \<Rightarrow> u64"
  d_memory_bits :: "u64 \<Rightarrow> 'd \<Rightarrow> u32"
  d_runtime_image :: "u64 \<Rightarrow> nat \<Rightarrow> 'd \<Rightarrow> u64"
  d_queue_families :: "(u32 \<times> u32) list"
  d_device_uuid :: bytes
  d_queue :: u64
  d_loads :: "string \<Rightarrow> bool"

text \<open>
  The function of the loader behind a call on the runtime, by name; \<open>d_loads\<close> says which of them the
  runtime gives out for an instance.
\<close>

fun xr_function :: "xr_op \<Rightarrow> string" where
  "xr_function Xr_get_system = ''xrGetSystem''"
| "xr_function (Xr_get_vulkan_graphics_requirements2 sys) = ''xrGetVulkanGraphicsRequirements2KHR''"
| "xr_function (Xr_create_vulkan_instance sys) = ''xrCreateVulkanInstanceKHR''"
| "xr_function (Xr_get_vulkan_graphics_device2 sys inst) = ''xrGetVulkanGraphicsDevice2KHR''"
| "xr_function (Xr_create_vulkan_device sys phys family) = ''xrCreateVulkanDeviceKHR''"
| "xr_function (Xr_create_session flags) = ''xrCreateSession''"
| "xr_function (Xr_destroy_session s) = ''xrDestroySession''"
| "xr_function (Xr_create_swapchain s info) = ''xrCreateSwapchain''"
| "xr_function (Xr_destroy_swapchain h) = ''xrDestroySwapchain''"
| "xr_function (Xr_enumerate_swapchain_images h n) = ''xrEnumerateSwapchainImages''"
| "xr_function (Xr_acquire_swapchain_image h) = ''xrAcquireSwapchainImage''"
| "xr_function (Xr_wait_swapchain_image h) = ''xrWaitSwapchainImage''"
| "xr_function (Xr_release_swapchain_image h) = ''xrReleaseSwapchainImage''"

definition vulkan_functions :: "string list" where
  "vulkan_functions =
     [''xrGetVulkanGraphicsRequirements2KHR'', ''xrCreateVulkanInstanceKHR'', ''xrGetVulkanGraphicsDevice2KHR'',
      ''xrCreateVulkanDeviceKHR'', ''xrGetSystem'', ''xrCreateSwapchain'', ''xrEnumerateSwapchainImages'',
      ''xrDestroySwapchain'', ''xrCreateSession'', ''xrDestroySession'', ''xrAcquireSwapchainImage'',
      ''xrWaitSwapchainImage'', ''xrReleaseSwapchainImage'']"

section \<open>State\<close>

record shared_image =
  si_image :: u64
  si_memory :: u64
  si_rendering_done :: u64
  si_copying_done :: u64
  si_command_buffer :: u64
  si_fence :: u64
  si_aspect :: u32
  si_levels :: u32
  si_layers :: u32
  si_info :: image_info
  si_memory_size :: u64
  si_memory_type :: u32

record swapchain_state =
  sc_parent :: u64
  shared_images :: "shared_image list"
  runtime_images :: "u64 list"
  sc_image_type :: image_type
  sc_width :: u32
  sc_height :: u32

text \<open>
  Which functions the loader \<open>vk\<close> of Vulkan has: \<open>init_global\<close>, \<open>init_instance\<close> and \<open>init_device\<close>
  make a new one each; the functions of the later levels are null in it.
\<close>

datatype vk_level = Global_functions | Instance_functions | Device_functions

text \<open>
  \<open>vm_functions\<close> are the functions of the runtime that are not null, which is what \<open>on_instance\<close> has
  loaded; before an instance exists the runtime gives none of them to the rest of the server, which
  shares the loader. \<open>handles_out\<close> are the file descriptors written to the handle exchange.
\<close>

record 'd vk_module =
  drv :: 'd
  vm_functions :: "string set"
  vm_vk :: vk_level
  gpu_trace :: "(gpu_call \<times> xr_result \<times> u64) list"
  handles_out :: "u32 list"
  swapchain_states :: "u64 \<Rightarrow> swapchain_state option"
  session_states :: "u64 \<Rightarrow> u64 set option"
  vm_instance :: u64
  vm_system :: u64
  vm_vk_instance :: u64
  vm_physical_device :: u64
  vm_device :: u64
  queue_family_index :: u32
  vm_queue :: u64
  vm_command_pool :: u64
  physical_device_uuid :: bytes

definition vk_module_init :: "'d \<Rightarrow> 'd vk_module" where
  "vk_module_init d =
     \<lparr>drv = d, vm_functions = {}, vm_vk = Global_functions, gpu_trace = [], handles_out = [], swapchain_states = \<lambda>h. None, session_states = \<lambda>h. None,
      vm_instance = 0, vm_system = 0, vm_vk_instance = 0, vm_physical_device = 0, vm_device = 0,
      queue_family_index = 0, vm_queue = 0, vm_command_pool = 0, physical_device_uuid = replicate 16 0\<rparr>"

section \<open>Actions\<close>

type_synonym ('d, 'a) act = "('d vk_module, 'a) action"

text \<open>
  A call whose result is returned, one that throws unless the result is good, one ignored. A call
  through a null pointer is undefined. All the calls on Vulkan here are functions of a device.
\<close>

definition callable :: "gpu_call \<Rightarrow> 'd vk_module \<Rightarrow> bool" where
  "callable c m = (case c of Vulkan x \<Rightarrow> vm_vk m = Device_functions | Runtime x \<Rightarrow> xr_function x \<in> vm_functions m)"

definition issue :: "'d driver \<Rightarrow> gpu_call \<Rightarrow> ('d, xr_result \<times> u64) act" where
  "issue D c m =
     (if callable c m
      then (case d_call D c (drv m) of
              (r, d') \<Rightarrow> (Ret r, m\<lparr>drv := d', gpu_trace := gpu_trace m @ [(c, r)]\<rparr>))
      else (Fault, m))"

definition require :: "(xr_result \<Rightarrow> bool) \<Rightarrow> string \<Rightarrow> 'd driver \<Rightarrow> gpu_call \<Rightarrow> ('d, u64) act" where
  "require ok msg D c =
     and_then (issue D c) (\<lambda>(r, v). if ok r then done_with v else fail_with (Std_exception msg))"

abbreviation vk_require :: "string \<Rightarrow> 'd driver \<Rightarrow> gpu_call \<Rightarrow> ('d, u64) act" where
  "vk_require \<equiv> require (\<lambda>r. r = VK_SUCCESS)"

definition perform :: "'d driver \<Rightarrow> gpu_call \<Rightarrow> ('d, unit) act" where
  "perform D c = and_then (issue D c) (\<lambda>r. done_with ())"

section \<open>Sharing images\<close>

text \<open>\<open>1 << memory_index\<close> for the at most 32 memory types; the code returns -1 for \<open>None\<close>.\<close>

fun find_memory_type :: "nat \<Rightarrow> u32 list \<Rightarrow> u32 \<Rightarrow> u32 \<Rightarrow> u32 option" where
  "find_memory_type i [] bits required = None"
| "find_memory_type i (flags # types) bits required =
     (if bits AND push_bit i 1 = 0 then find_memory_type (Suc i) types bits required
      else if flags AND required = required then Some (word_of_nat i)
      else find_memory_type (Suc i) types bits required)"

definition create_exportable_semaphore :: "'d driver \<Rightarrow> ('d, u64) act" where
  "create_exportable_semaphore D = vk_require ''Unable to create exportable semaphore'' D (Vulkan Vk_create_semaphore)"

definition create_command_buffer :: "'d driver \<Rightarrow> ('d, u64) act" where
  "create_command_buffer D = vk_require ''Unable to allocate command buffer'' D (Vulkan Vk_allocate_command_buffer)"

definition create_signaled_fence :: "'d driver \<Rightarrow> ('d, u64) act" where
  "create_signaled_fence D = vk_require ''Unable to create fence'' D (Vulkan Vk_create_fence)"

definition create_image :: "'d driver \<Rightarrow> swapchain_info \<Rightarrow> u32 \<Rightarrow> ('d, shared_image) act" where
  "create_image D info required =
     (let ii = shared_image_info info in
      and_then (vk_require ''Unable to create VkImage'' D (Vulkan (Vk_create_image ii))) (\<lambda>image.
      and_then (ask (\<lambda>m. (d_memory_size D image (drv m), d_memory_bits D image (drv m)))) (\<lambda>(size, bits).
      case find_memory_type 0 (d_memory_types D) bits required of
        None \<Rightarrow> fail_with (Std_exception ''Unable to find memory type with required bits'')
      | Some ty \<Rightarrow>
          and_then (vk_require ''Failed to allocate swapchain memory'' D (Vulkan (Vk_allocate_memory image size ty))) (\<lambda>memory.
          and_then (vk_require ''Failed to bind memory to image'' D (Vulkan (Vk_bind_image_memory image memory))) (\<lambda>_.
          and_then (create_exportable_semaphore D) (\<lambda>rendering_done.
          and_then (create_exportable_semaphore D) (\<lambda>copying_done.
          and_then (create_command_buffer D) (\<lambda>command_buffer.
          and_then (create_signaled_fence D) (\<lambda>fence.
          done_with
            \<lparr>si_image = image, si_memory = memory, si_rendering_done = rendering_done,
             si_copying_done = copying_done, si_command_buffer = command_buffer, si_fence = fence,
             si_aspect = get_aspect_from_format (im_format ii), si_levels = im_mips ii, si_layers = im_layers ii,
             si_info = ii, si_memory_size = size, si_memory_type = ty\<rparr>)))))))))"

text \<open>\<open>GetMemoryFdKHR\<close> and \<open>GetSemaphoreFdKHR\<close> give an \<open>int\<close>, which becomes a handle.\<close>

definition export_memory :: "'d driver \<Rightarrow> u64 \<Rightarrow> ('d, u32) act" where
  "export_memory D memory =
     and_then (vk_require ''Failed to get memory fd'' D (Vulkan (Vk_get_memory_fd memory))) (\<lambda>fd. done_with (ucast fd))"

definition export_semaphore :: "'d driver \<Rightarrow> u64 \<Rightarrow> ('d, u32) act" where
  "export_semaphore D sem =
     and_then (vk_require ''Unable to export FD for semaphore'' D (Vulkan (Vk_get_semaphore_fd sem))) (\<lambda>fd. done_with (ucast fd))"

definition export_image_handles :: "'d driver \<Rightarrow> shared_image \<Rightarrow> ('d, image_handles) act" where
  "export_image_handles D si =
     and_then (export_memory D (si_memory si)) (\<lambda>mh.
     and_then (export_semaphore D (si_rendering_done si)) (\<lambda>rh.
     and_then (export_semaphore D (si_copying_done si)) (\<lambda>ch.
     done_with \<lparr>memory_handle = mh, rendering_done_handle = rh, copying_done_handle = ch\<rparr>)))"

definition send_image_handles :: "'d driver \<Rightarrow> shared_image \<Rightarrow> ('d, unit) act" where
  "send_image_handles D si =
     and_then (export_image_handles D si)
       (\<lambda>h. change (\<lambda>m. m\<lparr>handles_out := handles_out m @ write_image_handles h\<rparr>))"

section \<open>Swapchains\<close>

text \<open>\<open>emplace\<close> keeps an entry that is already there.\<close>

definition store_swapchain_state :: "u64 \<Rightarrow> swapchain_state \<Rightarrow> ('d, swapchain_state) act" where
  "store_swapchain_state h sc m =
     (case swapchain_states m h of
        Some old \<Rightarrow> (Ret old, m)
      | None \<Rightarrow> (Ret sc, m\<lparr>swapchain_states := (swapchain_states m)(h \<mapsto> sc)\<rparr>))"

definition store_session_state :: "u64 \<Rightarrow> ('d, unit) act" where
  "store_session_state h m =
     (Ret (), case session_states m h of
                Some old \<Rightarrow> m
              | None \<Rightarrow> m\<lparr>session_states := (session_states m)(h \<mapsto> {})\<rparr>)"

text \<open>\<open>session_state.swapchains.emplace\<close> and \<open>erase\<close>\<close>

definition update_session :: "u64 \<Rightarrow> (u64 set \<Rightarrow> u64 set) \<Rightarrow> ('d, unit) act" where
  "update_session s f =
     change (\<lambda>m. m\<lparr>session_states := (session_states m)(s := map_option f (session_states m s))\<rparr>)"

definition image_type_of :: "u64 \<Rightarrow> image_type option" where
  "image_type_of usage =
     (if usage AND XR_SWAPCHAIN_USAGE_COLOR_ATTACHMENT_BIT \<noteq> 0 then Some Color
      else if usage AND XR_SWAPCHAIN_USAGE_DEPTH_STENCIL_ATTACHMENT_BIT \<noteq> 0 then Some Depth_stencil
      else None)"

definition required_memory :: "u64 \<Rightarrow> u32" where
  "required_memory flags = 1 OR (if flags AND XR_SWAPCHAIN_CREATE_PROTECTED_CONTENT_BIT \<noteq> 0 then 32 else 0)"

text \<open>
  The size and memory type are those of the last image; a build with assertions stops if they differ.
  The memory types are asked from a function of the Vulkan instance.
\<close>

definition has_instance_functions :: "('d, unit) act" where
  "has_instance_functions m = (if vm_vk m = Global_functions then Fault else Ret (), m)"

definition share_images ::
  "'d driver \<Rightarrow> u64 \<Rightarrow> swapchain_info \<Rightarrow> u64 \<Rightarrow> u32 \<Rightarrow> ('d, swapchain_state \<times> u64 \<times> u32) act" where
  "share_images D session info h num_images =
     and_then has_instance_functions (\<lambda>_.
     and_then (ask (\<lambda>m. map (\<lambda>i. d_runtime_image D h i (drv m)) [0..<unat num_images])) (\<lambda>runtime.
     and_then (for_each (\<lambda>i. create_image D info (required_memory (sw_create_flags info))) runtime) (\<lambda>shared.
     case image_type_of (sw_usage info) of
       None \<Rightarrow> fail_with (Std_exception ''Images must be either color or depth-stencil images'')
     | Some ty \<Rightarrow>
         and_then (store_swapchain_state h
             \<lparr>sc_parent = session, shared_images = shared, runtime_images = runtime, sc_image_type = ty,
              sc_width = sw_width info, sc_height = sw_height info\<rparr>) (\<lambda>sc.
         and_then (update_session session (insert h)) (\<lambda>_.
         done_with (sc, if shared = [] then 0 else si_memory_size (last shared),
                        if shared = [] then 0 else si_memory_type (last shared)))))))"

text \<open>The second count indexes the array that was allocated for the first.\<close>

definition create_swapchain_state ::
  "'d driver \<Rightarrow> u64 \<Rightarrow> swapchain_info \<Rightarrow> u64 \<Rightarrow> ('d, swapchain_state \<times> u64 \<times> u32) act" where
  "create_swapchain_state D session info h =
     and_then (require XR_SUCCEEDED ''Unable to get swapchain images'' D (Runtime (Xr_enumerate_swapchain_images h 0))) (\<lambda>n0.
     and_then (require XR_SUCCEEDED ''Unable to get swapchain images'' D (Runtime (Xr_enumerate_swapchain_images h (ucast n0)))) (\<lambda>n1.
     if ucast n1 > (ucast n0 :: u32) then (\<lambda>m. (Fault, m)) else share_images D session info h (ucast n1)))"

definition handle_create_swapchain :: "'d driver \<Rightarrow> u64 \<Rightarrow> swapchain_info \<Rightarrow> ('d, vulkan_reply) act" where
  "handle_create_swapchain D session info =
     and_then (issue D (Runtime (Xr_create_swapchain session
         (info\<lparr>sw_usage := sw_usage info OR XR_SWAPCHAIN_USAGE_TRANSFER_DST_BIT\<rparr>)))) (\<lambda>(r, h).
     if r \<noteq> XR_SUCCESS then done_with (Swapchain_refused r)
     else
       and_then (value_of (\<lambda>m. session_states m session)) (\<lambda>_.
       and_then (create_swapchain_state D session info h) (\<lambda>(sc, size, ty).
       and_then (for_each (send_image_handles D) (shared_images sc)) (\<lambda>_.
       done_with (Swapchain_created h (word_of_nat (length (shared_images sc))) size ty)))))"

text \<open>The fence of an image is not destroyed.\<close>

definition destroy_image :: "'d driver \<Rightarrow> shared_image \<Rightarrow> ('d, unit) act" where
  "destroy_image D si =
     and_then (perform D (Vulkan (Vk_free_command_buffer (si_command_buffer si)))) (\<lambda>_.
     and_then (perform D (Vulkan (Vk_destroy_image (si_image si)))) (\<lambda>_.
     and_then (perform D (Vulkan (Vk_free_memory (si_memory si)))) (\<lambda>_.
     and_then (perform D (Vulkan (Vk_destroy_semaphore (si_rendering_done si)))) (\<lambda>_.
     perform D (Vulkan (Vk_destroy_semaphore (si_copying_done si)))))))"

definition destroy_swapchain :: "'d driver \<Rightarrow> u64 \<Rightarrow> ('d, unit) act" where
  "destroy_swapchain D h =
     and_then (value_of (\<lambda>m. swapchain_states m h)) (\<lambda>sc.
     and_then (value_of (\<lambda>m. session_states m (sc_parent sc))) (\<lambda>_.
     and_then (perform D (Vulkan Vk_queue_wait_idle)) (\<lambda>_.
     and_then (for_each (destroy_image D) (shared_images sc)) (\<lambda>_.
     and_then (change (\<lambda>m. m\<lparr>swapchain_states := (swapchain_states m)(h := None)\<rparr>)) (\<lambda>_.
     and_then (update_session (sc_parent sc) (\<lambda>hs. hs - {h})) (\<lambda>_.
     perform D (Runtime (Xr_destroy_swapchain h))))))))"

definition handle_destroy_swapchain :: "'d driver \<Rightarrow> u64 \<Rightarrow> ('d, vulkan_reply) act" where
  "handle_destroy_swapchain D h = and_then (destroy_swapchain D h) (\<lambda>_. done_with Swapchain_destroyed)"

section \<open>Sessions\<close>

definition handle_create_session :: "'d driver \<Rightarrow> u64 \<Rightarrow> ('d, vulkan_reply) act" where
  "handle_create_session D flags =
     and_then (require XR_SUCCEEDED ''Failed to create XR session'' D (Runtime (Xr_create_session flags))) (\<lambda>h.
     and_then (store_session_state h) (\<lambda>_. done_with (Session_created h)))"

text \<open>
  The loop over the swapchains of the session destroys each one, which erases the element that the
  loop stands on: with any swapchain left its next step uses an invalid iterator. The state of the
  session is not erased.
\<close>

definition handle_destroy_session :: "'d driver \<Rightarrow> u64 \<Rightarrow> ('d, vulkan_reply) act" where
  "handle_destroy_session D s =
     and_then (value_of (\<lambda>m. session_states m s)) (\<lambda>hs.
     if hs \<noteq> {} then (\<lambda>m. (Fault, m))
     else and_then (perform D (Runtime (Xr_destroy_session s))) (\<lambda>_. done_with Session_destroyed))"

section \<open>Releasing an image\<close>

text \<open>The commands that copy an image; the first mip level and all layers are copied.\<close>

definition record_copy :: "'d driver \<Rightarrow> swapchain_state \<Rightarrow> shared_image \<Rightarrow> u64 \<Rightarrow> ('d, unit) act" where
  "record_copy D sc si dest =
     (let cb = si_command_buffer si in
      and_then (vk_require ''Failed to begin command buffer'' D (Vulkan (Vk_begin_command_buffer cb))) (\<lambda>_.
      and_then (perform D (Vulkan (Vk_pipeline_barrier cb
          [Acquire_external (si_image si) (si_layers si), Transition_to_copy dest (si_layers si)]))) (\<lambda>_.
      and_then (perform D (Vulkan (Vk_copy_image cb (si_image si) dest (si_aspect si) (si_layers si) (sc_width sc) (sc_height sc)))) (\<lambda>_.
      and_then (perform D (Vulkan (Vk_pipeline_barrier cb [Transition_back dest (sc_image_type sc) (si_layers si)]))) (\<lambda>_.
      and_then (vk_require ''Failed to end command buffer'' D (Vulkan (Vk_end_command_buffer cb))) (\<lambda>_. done_with ()))))))"

text \<open>The result of acquiring the image of the runtime is not looked at.\<close>

definition handle_release_swapchain_image :: "'d driver \<Rightarrow> u64 \<Rightarrow> u32 \<Rightarrow> ('d, vulkan_reply) act" where
  "handle_release_swapchain_image D h src_index =
     and_then (value_of (\<lambda>m. swapchain_states m h)) (\<lambda>sc.
     and_then (issue D (Runtime (Xr_acquire_swapchain_image h))) (\<lambda>(r, dest_index).
     and_then (element_at (shared_images sc) (unat src_index)) (\<lambda>si.
     and_then (element_at (runtime_images sc) (unat (ucast dest_index :: u32))) (\<lambda>dest.
     and_then (vk_require ''Failed to wait on fence'' D (Vulkan (Vk_wait_for_fence (si_fence si)))) (\<lambda>_.
     and_then (vk_require ''Failed to reset fence'' D (Vulkan (Vk_reset_fence (si_fence si)))) (\<lambda>_.
     and_then (record_copy D sc si dest) (\<lambda>_.
     and_then (require (\<lambda>r. r = XR_SUCCESS) ''Failed to wait for swapchain image'' D (Runtime (Xr_wait_swapchain_image h))) (\<lambda>_.
     and_then (vk_require ''Failed to submit copy operation to queue'' D
        (Vulkan (Vk_queue_submit (si_rendering_done si) (si_command_buffer si) (si_copying_done si) (si_fence si)))) (\<lambda>_.
     and_then (require XR_SUCCEEDED ''Failed to release swapchain image'' D (Runtime (Xr_release_swapchain_image h))) (\<lambda>_.
     done_with Image_released))))))))))"

section \<open>Messages\<close>

fun serve :: "'d driver \<Rightarrow> vulkan_request \<Rightarrow> ('d, vulkan_reply) act" where
  "serve D Get_physical_device = ask (\<lambda>m. Physical_device (physical_device_uuid m))"
| "serve D (Create_swapchain s info) = handle_create_swapchain D s info"
| "serve D (Destroy_swapchain h) = handle_destroy_swapchain D h"
| "serve D (Create_session flags) = handle_create_session D flags"
| "serve D (Destroy_session s) = handle_destroy_session D s"
| "serve D (Release_swapchain_image h i) = handle_release_swapchain_image D h i"
| "serve D (Get_swapchain_image_handles d h) = done_with No_image_handles"

section \<open>The instance\<close>

text \<open>The last family with a queue that can copy.\<close>

fun select_queue_family :: "nat \<Rightarrow> (u32 \<times> u32) list \<Rightarrow> u32 option \<Rightarrow> u32 option" where
  "select_queue_family i [] found = found"
| "select_queue_family i ((flags, count) # families) found =
     (if count < 1 then select_queue_family (Suc i) families found
      else if flags AND 4 \<noteq> 0 \<or> flags AND 1 \<noteq> 0 then select_queue_family (Suc i) families (Some (word_of_nat i))
      else select_queue_family (Suc i) families found)"

text \<open>Creating a Vulkan object through OpenXR: the \<open>VkResult\<close> is looked at first.\<close>

definition require_both ::
  "(xr_result \<Rightarrow> bool) \<Rightarrow> string \<Rightarrow> string \<Rightarrow> 'd driver \<Rightarrow> gpu_call \<Rightarrow> ('d, u64) act" where
  "require_both ok vk_msg xr_msg D c =
     and_then (ask (\<lambda>m. d_vk_result D c (drv m))) (\<lambda>vk.
     and_then (issue D c) (\<lambda>(r, v).
     if vk \<noteq> VK_SUCCESS then fail_with (Std_exception vk_msg)
     else if \<not> ok r then fail_with (Std_exception xr_msg)
     else done_with v))"

definition setup_vulkan_instance :: "'d driver \<Rightarrow> ('d, unit) act" where
  "setup_vulkan_instance D =
     and_then (require XR_SUCCEEDED ''Failed to get HMD system id'' D (Runtime Xr_get_system)) (\<lambda>sys.
     and_then (change (\<lambda>m. m\<lparr>vm_system := sys\<rparr>)) (\<lambda>_.
     and_then (require XR_SUCCEEDED ''Failed to get Vulkan graphics requirements'' D
        (Runtime (Xr_get_vulkan_graphics_requirements2 sys))) (\<lambda>_.
     and_then (require_both XR_SUCCEEDED ''Vulkan error on instance creation'' ''XR error on Vulkan instance creation'' D
        (Runtime (Xr_create_vulkan_instance sys))) (\<lambda>inst.
     and_then (change (\<lambda>m. m\<lparr>vm_vk_instance := inst, vm_vk := Instance_functions\<rparr>)) (\<lambda>_.
     and_then (require XR_SUCCEEDED ''Failed to get Vulkan graphics device'' D
        (Runtime (Xr_get_vulkan_graphics_device2 sys inst))) (\<lambda>phys.
     and_then (change (\<lambda>m. m\<lparr>vm_physical_device := phys, physical_device_uuid := d_device_uuid D\<rparr>)) (\<lambda>_.
     case select_queue_family 0 (d_queue_families D) None of
       None \<Rightarrow> fail_with (Std_exception ''Unable to find a queue family'')
     | Some family \<Rightarrow>
         and_then (change (\<lambda>m. m\<lparr>queue_family_index := family\<rparr>)) (\<lambda>_.
         and_then (require_both (\<lambda>r. r = XR_SUCCESS) ''Vulkan error on device creation'' ''XR error on Vulkan device creation'' D
            (Runtime (Xr_create_vulkan_device sys phys family))) (\<lambda>dev.
         and_then (change (\<lambda>m. m\<lparr>vm_device := dev, vm_vk := Device_functions, vm_queue := d_queue D\<rparr>)) (\<lambda>_.
         and_then (vk_require ''Failed to create command pool'' D (Vulkan (Vk_create_command_pool family))) (\<lambda>pool.
         change (\<lambda>m. m\<lparr>vm_command_pool := pool\<rparr>))))))))))))"

text \<open>\<open>ensure_function_loaded\<close> for the functions of the module, in order\<close>

definition load_function :: "'d driver \<Rightarrow> string \<Rightarrow> ('d, unit) act" where
  "load_function D name m =
     (if name \<in> vm_functions m then (Ret (), m)
      else if d_loads D name then (Ret (), m\<lparr>vm_functions := insert name (vm_functions m)\<rparr>)
      else (Throw (Std_exception ''FunctionLoaderException''), m))"

definition on_instance :: "'d driver \<Rightarrow> u64 \<Rightarrow> ('d, unit) act" where
  "on_instance D inst =
     and_then (change (\<lambda>m. m\<lparr>vm_instance := inst\<rparr>)) (\<lambda>_.
     and_then (for_each (load_function D) vulkan_functions) (\<lambda>_. setup_vulkan_instance D))"

definition on_instance_destroy :: "'d driver \<Rightarrow> ('d, unit) act" where
  "on_instance_destroy D =
     and_then (change (\<lambda>m. m\<lparr>vm_instance := 0, vm_system := 0\<rparr>)) (\<lambda>_.
     and_then (perform D (Vulkan Vk_device_wait_idle)) (\<lambda>_.
     and_then (ask vm_command_pool) (\<lambda>pool. perform D (Vulkan (Vk_destroy_command_pool pool)))))"

text \<open>What happens to a module: the server tells it of instances, the client sends requests.\<close>

datatype module_event = Told_created u64 | Told_destroyed | Requested vulkan_request

fun module_step :: "'d driver \<Rightarrow> module_event \<Rightarrow> ('d, vulkan_reply option) act" where
  "module_step D (Told_created inst) = and_then (on_instance D inst) (\<lambda>_. done_with None)"
| "module_step D Told_destroyed = and_then (on_instance_destroy D) (\<lambda>_. done_with None)"
| "module_step D (Requested req) = and_then (serve D req) (\<lambda>rep. done_with (Some rep))"

text \<open>The module exists only if the runtime has \<open>XR_KHR_vulkan_enable2\<close>, which it also asks for.\<close>

definition vulkan_required_extensions :: "string list" where
  "vulkan_required_extensions = [''XR_KHR_vulkan_enable2'']"

definition create_vulkan_module :: "string list \<Rightarrow> 'd \<Rightarrow> 'd vk_module option" where
  "create_vulkan_module extensions d =
     (if list_ex (\<lambda>e. e = ''XR_KHR_vulkan_enable2'') extensions then Some (vk_module_init d) else None)"

end
