(* ===== verification/Vulkan_Server_Laws.thy ===== *)
theory Vulkan_Server_Laws
  imports Vulkan_Server
begin

text \<open>
  The server half of the Vulkan module keeps its books: every swapchain belongs to the session that
  lists it.
\<close>

section \<open>Quiet actions\<close>

text \<open>The handles of the runtime: a new one is not in use, only destroying one ends its use.\<close>

definition runtime_handles :: "'d driver \<Rightarrow> ('d \<Rightarrow> u64 set) \<Rightarrow> bool" where
  "runtime_handles D live \<longleftrightarrow>
     (\<forall>c d. (\<forall>h. c \<noteq> Runtime (Xr_destroy_swapchain h)) \<longrightarrow> live d \<subseteq> live (snd (d_call D c d))) \<and>
     (\<forall>h d. live d - {h} \<subseteq> live (snd (d_call D (Runtime (Xr_destroy_swapchain h)) d))) \<and>
     (\<forall>s info d h. fst (d_call D (Runtime (Xr_create_swapchain s info)) d) = (XR_SUCCESS, h) \<longrightarrow>
        h \<notin> live d \<and> h \<in> live (snd (d_call D (Runtime (Xr_create_swapchain s info)) d)))"

text \<open>An action that leaves the books alone, and loses no handle of the runtime.\<close>

definition unchanged :: "('d \<Rightarrow> u64 set) \<Rightarrow> 'd vk_module \<Rightarrow> 'd vk_module \<Rightarrow> bool" where
  "unchanged live m m' \<longleftrightarrow>
     swapchain_states m' = swapchain_states m \<and> session_states m' = session_states m \<and> live (drv m) \<subseteq> live (drv m') \<and>
     vm_functions m' = vm_functions m \<and> vm_vk m' = vm_vk m"

lemma unchanged_refl [simp]: "unchanged live m m" and
  unchanged_trans: "unchanged live a b \<Longrightarrow> unchanged live b c \<Longrightarrow> unchanged live a c"
  by (auto simp: unchanged_def)

interpretation unchanged: step_preorder "unchanged live" for live
  by unfold_locales (simp, rule unchanged_trans)

abbreviation quiet :: "('d \<Rightarrow> u64 set) \<Rightarrow> ('d, 'a) act \<Rightarrow> bool" where
  "quiet live \<equiv> unchanged.follows live"

lemmas quiet_def = unchanged.follows_def
lemmas quiet_and_then = unchanged.follows_and_then
lemmas quiet_change = unchanged.follows_change
lemmas quiet_for_each = unchanged.follows_for_each

lemma quiet_issue:
  assumes "runtime_handles D live" "\<And>h. c \<noteq> Runtime (Xr_destroy_swapchain h)"
  shows "quiet live (issue D c)"
  using assms by (auto simp: quiet_def unchanged_def issue_def runtime_handles_def split: prod.split) (metis snd_conv subsetD)

lemma quiet_has_instance_functions [simp]: "quiet live has_instance_functions"
  by (simp add: quiet_def has_instance_functions_def)

lemma quiet_require:
  "runtime_handles D live \<Longrightarrow> (\<And>h. c \<noteq> Runtime (Xr_destroy_swapchain h)) \<Longrightarrow> quiet live (require ok msg D c)"
  unfolding require_def by (rule quiet_and_then [OF quiet_issue]) (auto split: prod.split)

lemma quiet_perform:
  "runtime_handles D live \<Longrightarrow> (\<And>h. c \<noteq> Runtime (Xr_destroy_swapchain h)) \<Longrightarrow> quiet live (perform D c)"
  unfolding perform_def by (rule quiet_and_then [OF quiet_issue]) auto

lemma quiet_create_image: "runtime_handles D live \<Longrightarrow> quiet live (create_image D info required)"
  unfolding create_image_def Let_def create_exportable_semaphore_def create_command_buffer_def create_signaled_fence_def
  by (auto intro!: quiet_and_then quiet_require split: option.split)

lemma quiet_send_image_handles: "runtime_handles D live \<Longrightarrow> quiet live (send_image_handles D si)"
  unfolding send_image_handles_def export_image_handles_def export_memory_def export_semaphore_def
  by (auto intro!: quiet_and_then quiet_require quiet_change simp: unchanged_def)

lemma quiet_destroy_image: "runtime_handles D live \<Longrightarrow> quiet live (destroy_image D si)"
  unfolding destroy_image_def by (auto intro!: quiet_and_then quiet_perform)

lemma quiet_record_copy: "runtime_handles D live \<Longrightarrow> quiet live (record_copy D sc si dest)"
  unfolding record_copy_def Let_def by (auto intro!: quiet_and_then quiet_perform quiet_require)

lemma quiet_release: "runtime_handles D live \<Longrightarrow> quiet live (handle_release_swapchain_image D h i)"
  unfolding handle_release_swapchain_image_def
  by (auto intro!: quiet_and_then quiet_require quiet_issue quiet_record_copy split: prod.split)

section \<open>The books\<close>

definition registry_ok :: "('d \<Rightarrow> u64 set) \<Rightarrow> 'd vk_module \<Rightarrow> bool" where
  "registry_ok live m \<longleftrightarrow>
     (\<forall>h sc. swapchain_states m h = Some sc \<longrightarrow>
        h \<in> live (drv m) \<and> length (shared_images sc) = length (runtime_images sc) \<and>
        (\<exists>hs. session_states m (sc_parent sc) = Some hs \<and> h \<in> hs)) \<and>
     (\<forall>s hs h. session_states m s = Some hs \<longrightarrow> h \<in> hs \<longrightarrow>
        (\<exists>sc. swapchain_states m h = Some sc \<and> sc_parent sc = s)) \<and>
     (vm_vk m = Device_functions \<longrightarrow> set vulkan_functions \<subseteq> vm_functions m)"

lemma registry_swapchain:
  "registry_ok live m \<Longrightarrow> swapchain_states m h = Some sc \<Longrightarrow>
   h \<in> live (drv m) \<and> length (shared_images sc) = length (runtime_images sc) \<and>
   (\<exists>hs. session_states m (sc_parent sc) = Some hs \<and> h \<in> hs)"
  by (simp add: registry_ok_def)

lemma registry_session:
  "registry_ok live m \<Longrightarrow> session_states m s = Some hs \<Longrightarrow> h \<in> hs \<Longrightarrow>
   \<exists>sc. swapchain_states m h = Some sc \<and> sc_parent sc = s"
  by (simp add: registry_ok_def)

lemma registry_functions: "registry_ok live m \<Longrightarrow> vm_vk m = Device_functions \<Longrightarrow> set vulkan_functions \<subseteq> vm_functions m"
  by (simp add: registry_ok_def)

lemma registry_unchanged: "unchanged live m m' \<Longrightarrow> registry_ok live m \<Longrightarrow> registry_ok live m'"
  unfolding registry_ok_def unchanged_def by auto

lemmas ensures_quiet = unchanged.ensures_follows

text \<open>A new swapchain of a session that exists\<close>

definition new_swapchain_of :: "('d \<Rightarrow> u64 set) \<Rightarrow> u64 \<Rightarrow> u64 \<Rightarrow> 'd vk_module \<Rightarrow> bool" where
  "new_swapchain_of live s h m \<longleftrightarrow>
     registry_ok live m \<and> h \<in> live (drv m) \<and> swapchain_states m h = None \<and> session_states m s \<noteq> None"

lemma new_swapchain_unchanged: "unchanged live m m' \<Longrightarrow> new_swapchain_of live s h m \<Longrightarrow> new_swapchain_of live s h m'"
  using registry_unchanged [of live m m'] unfolding new_swapchain_of_def unchanged_def by auto

lemma registry_add:
  assumes "new_swapchain_of live s h m" "sc_parent sc = s" "length (shared_images sc) = length (runtime_images sc)"
  shows "registry_ok live (m\<lparr>swapchain_states := (swapchain_states m)(h \<mapsto> sc),
    session_states := (session_states m)(s := map_option (insert h) (session_states m s))\<rparr>)"
proof -
  let ?m = "m\<lparr>swapchain_states := (swapchain_states m)(h \<mapsto> sc),
    session_states := (session_states m)(s := map_option (insert h) (session_states m s))\<rparr>"
  have ok: "registry_ok live m" and new: "h \<in> live (drv m)" "swapchain_states m h = None"
    and "session_states m s \<noteq> None" using assms(1) by (auto simp: new_swapchain_of_def)
  then obtain hs where hs: "session_states m s = Some hs" by auto
  have "\<exists>c. swapchain_states ?m h' = Some c \<and> sc_parent c = s'" if "session_states ?m s' = Some ls" "h' \<in> ls" for s' ls h'
  proof (cases "h' = h \<and> s' = s")
    case True
    then show ?thesis using assms(2) by simp
  next
    case False
    then have "\<exists>ls'. session_states m s' = Some ls' \<and> h' \<in> ls'"
      using that hs by (cases "s' = s") auto
    then obtain ls' where "session_states m s' = Some ls'" "h' \<in> ls'" by blast
    then show ?thesis using registry_session [OF ok] new(2) by (cases "h' = h") fastforce+
  qed
  moreover have "h' \<in> live (drv ?m) \<and> length (shared_images c) = length (runtime_images c) \<and>
      (\<exists>ls. session_states ?m (sc_parent c) = Some ls \<and> h' \<in> ls)" if "swapchain_states ?m h' = Some c" for h' c
    using that registry_swapchain [OF ok, of h' c] new assms(2,3) hs
    by (cases "h' = h"; cases "sc_parent c = s") auto
  moreover have "vm_vk ?m = Device_functions \<longrightarrow> set vulkan_functions \<subseteq> vm_functions ?m" using registry_functions [OF ok] by simp
  ultimately show ?thesis unfolding registry_ok_def by blast
qed

lemma registry_remove:
  assumes "registry_ok live m" "swapchain_states m h = Some sc"
  shows "registry_ok live (m\<lparr>swapchain_states := (swapchain_states m)(h := None),
    session_states := (session_states m)(sc_parent sc := map_option (\<lambda>hs. hs - {h}) (session_states m (sc_parent sc)))\<rparr>)"
proof -
  let ?m = "m\<lparr>swapchain_states := (swapchain_states m)(h := None),
    session_states := (session_states m)(sc_parent sc := map_option (\<lambda>hs. hs - {h}) (session_states m (sc_parent sc)))\<rparr>"
  have "\<exists>c. swapchain_states ?m h' = Some c \<and> sc_parent c = s'" if ls: "session_states ?m s' = Some ls" "h' \<in> ls" for s' ls h'
  proof -
    have "\<exists>ls'. session_states m s' = Some ls' \<and> h' \<in> ls'"
      using ls by (cases "s' = sc_parent sc") auto
    then obtain c where c: "swapchain_states m h' = Some c" "sc_parent c = s'"
      using registry_session [OF assms(1)] by blast
    have "h' \<noteq> h" using ls c assms(2) by (auto split: if_splits)
    then show ?thesis using c by simp
  qed
  moreover have "h' \<in> live (drv ?m) \<and> length (shared_images c) = length (runtime_images c) \<and>
      (\<exists>ls. session_states ?m (sc_parent c) = Some ls \<and> h' \<in> ls)" if "swapchain_states ?m h' = Some c" for h' c
    using that registry_swapchain [OF assms(1), of h' c] by (auto split: if_splits)
  moreover have "vm_vk ?m = Device_functions \<longrightarrow> set vulkan_functions \<subseteq> vm_functions ?m" using registry_functions [OF assms(1)] by simp
  ultimately show ?thesis unfolding registry_ok_def by blast
qed

lemma keeps_quiet: "quiet live f \<Longrightarrow> ensures (registry_ok live) f (\<lambda>x. registry_ok live) (registry_ok live)"
  by (rule ensures_quiet) (auto intro: registry_unchanged)

text \<open>Destroying a swapchain\<close>

definition open_swapchain :: "('d \<Rightarrow> u64 set) \<Rightarrow> u64 \<Rightarrow> swapchain_state \<Rightarrow> 'd vk_module \<Rightarrow> bool" where
  "open_swapchain live h sc m \<longleftrightarrow> registry_ok live m \<and> swapchain_states m h = Some sc"

lemma open_swapchain_unchanged: "unchanged live m m' \<Longrightarrow> open_swapchain live h sc m \<Longrightarrow> open_swapchain live h sc m'"
  using registry_unchanged [of live m m'] unfolding open_swapchain_def unchanged_def by auto

lemma quiet_open:
  "quiet live f \<Longrightarrow> ensures (open_swapchain live h sc) f (\<lambda>x. open_swapchain live h sc) (registry_ok live)"
proof (rule ensures_weaken [OF ensures_quiet [of live f "open_swapchain live h sc"]])
  show "open_swapchain live h sc m'" if "unchanged live m m'" "open_swapchain live h sc m" for m m'
    by (rule open_swapchain_unchanged [OF that])
qed (simp_all add: open_swapchain_def)

lemma quiet_then:
  "quiet live f \<Longrightarrow> (\<And>x. ensures (open_swapchain live h sc) (g x) Q (registry_ok live)) \<Longrightarrow>
   ensures (open_swapchain live h sc) (and_then f g) Q (registry_ok live)"
  by (rule ensures_and_then [OF quiet_open])

lemma registry_destroyed:
  assumes "runtime_handles D live" "registry_ok live m" "swapchain_states m h = None"
  shows "registry_ok live (snd (perform D (Runtime (Xr_destroy_swapchain h)) m))"
proof (cases "callable (Runtime (Xr_destroy_swapchain h)) m")
  case False
  then show ?thesis using assms(2) by (simp add: perform_def issue_def and_then_def)
next
  case True
  obtain r d where d: "d_call D (Runtime (Xr_destroy_swapchain h)) (drv m) = (r, d)" by (cases "d_call D (Runtime (Xr_destroy_swapchain h)) (drv m)")
  then have "live (drv m) - {h} \<subseteq> live d" using assms(1) unfolding runtime_handles_def by (metis snd_conv)
  moreover have "snd (perform D (Runtime (Xr_destroy_swapchain h)) m) = m\<lparr>drv := d, gpu_trace := gpu_trace m @ [(Runtime (Xr_destroy_swapchain h), r)]\<rparr>"
    using d True by (simp add: perform_def issue_def and_then_def done_with_def)
  ultimately show ?thesis
    using assms(2,3) unfolding registry_ok_def by auto
qed

lemma ensures_perform_destroy:
  "runtime_handles D live \<Longrightarrow>
   ensures (\<lambda>m. registry_ok live m \<and> swapchain_states m h = None) (perform D (Runtime (Xr_destroy_swapchain h)))
     (\<lambda>x. registry_ok live) (registry_ok live)"
  unfolding ensures_def using registry_destroyed [of D live _ h]
  by (auto split: prod.split outcome.split) (metis snd_conv)+

lemma destroy_swapchain_keeps:
  assumes R: "runtime_handles D live"
  shows "ensures (registry_ok live) (destroy_swapchain D h) (\<lambda>x. registry_ok live) (registry_ok live)"
  unfolding destroy_swapchain_def
proof (rule ensures_and_then [OF ensures_value_of])
  fix sc
  let ?I = "\<lambda>m. registry_ok live m \<and> swapchain_states m h = Some sc"
  have I: "?I = open_swapchain live h sc" by (simp add: open_swapchain_def fun_eq_iff)
  let ?mid = "\<lambda>m. \<exists>m0. open_swapchain live h sc m0 \<and> m = m0\<lparr>swapchain_states := (swapchain_states m0)(h := None)\<rparr>"
  let ?gone = "\<lambda>m. registry_ok live m \<and> swapchain_states m h = None"
  show "ensures ?I (and_then (value_of (\<lambda>m. session_states m (sc_parent sc))) (\<lambda>_.
     and_then (perform D (Vulkan Vk_queue_wait_idle)) (\<lambda>_.
     and_then (for_each (destroy_image D) (shared_images sc)) (\<lambda>_.
     and_then (change (\<lambda>m. m\<lparr>swapchain_states := (swapchain_states m)(h := None)\<rparr>)) (\<lambda>_.
     and_then (update_session (sc_parent sc) (\<lambda>hs. hs - {h})) (\<lambda>_.
     perform D (Runtime (Xr_destroy_swapchain h))))))))
    (\<lambda>x. registry_ok live) (registry_ok live)"
    unfolding I
  proof (rule quiet_then, simp, rule quiet_then, rule quiet_perform [OF R], simp,
      rule quiet_then, rule quiet_for_each, rule quiet_destroy_image [OF R])
    show "ensures (open_swapchain live h sc)
       (and_then (change (\<lambda>m. m\<lparr>swapchain_states := (swapchain_states m)(h := None)\<rparr>)) (\<lambda>_.
        and_then (update_session (sc_parent sc) (\<lambda>hs. hs - {h})) (\<lambda>_. perform D (Runtime (Xr_destroy_swapchain h)))))
       (\<lambda>x. registry_ok live) (registry_ok live)"
    proof (rule ensures_and_then [OF ensures_change [where Q = "\<lambda>x. ?mid"]])
      show "ensures ?mid (and_then (update_session (sc_parent sc) (\<lambda>hs. hs - {h})) (\<lambda>_. perform D (Runtime (Xr_destroy_swapchain h))))
        (\<lambda>x. registry_ok live) (registry_ok live)" for x
        unfolding update_session_def
      proof (rule ensures_and_then [OF ensures_change [where Q = "\<lambda>x. ?gone"] ensures_perform_destroy [OF R]])
        show "?gone (m\<lparr>session_states := (session_states m)(sc_parent sc := map_option (\<lambda>hs. hs - {h}) (session_states m (sc_parent sc)))\<rparr>)"
          if "?mid m" for m
          using that registry_remove [of live _ h sc] by (auto simp: open_swapchain_def)
      qed
    qed blast
  qed
qed (simp add: open_swapchain_def)

text \<open>Creating one\<close>

lemma quiet_new:
  assumes "quiet live f"
  shows "ensures (new_swapchain_of live s h) f (\<lambda>x. new_swapchain_of live s h) (registry_ok live)"
proof (rule ensures_weaken [OF ensures_quiet [OF assms, of "new_swapchain_of live s h"]])
  show "new_swapchain_of live s h m'" if "unchanged live m m'" "new_swapchain_of live s h m" for m m'
    by (rule new_swapchain_unchanged [OF that])
qed (simp_all add: new_swapchain_of_def)

lemma new_then:
  "quiet live f \<Longrightarrow> (\<And>x. ensures (new_swapchain_of live s h) (g x) Q (registry_ok live)) \<Longrightarrow>
   ensures (new_swapchain_of live s h) (and_then f g) Q (registry_ok live)"
  by (rule ensures_and_then [OF quiet_new])

lemma share_images_keeps:
  assumes R: "runtime_handles D live"
  shows "ensures (new_swapchain_of live s h) (share_images D s info h n) (\<lambda>x. registry_ok live) (registry_ok live)"
  unfolding share_images_def
proof (rule new_then, simp, rule new_then, simp)
  fix runtime
  have stored: "ensures (new_swapchain_of live s h)
      (and_then (store_swapchain_state h sc) (\<lambda>sc. and_then (update_session s (insert h)) (\<lambda>_. done_with (k sc))))
      (\<lambda>x. registry_ok live) (registry_ok live)"
    if "sc_parent sc = s" "length (shared_images sc) = length (runtime_images sc)"
    for sc and k :: "swapchain_state \<Rightarrow> swapchain_state \<times> u64 \<times> u32"
    unfolding ensures_def
    using registry_add [OF _ that] by (auto simp: store_swapchain_state_def update_session_def act_simps
        new_swapchain_of_def and_then_def)
  show "ensures (new_swapchain_of live s h)
     (and_then (for_each (\<lambda>i. create_image D info (required_memory (sw_create_flags info))) runtime) (\<lambda>shared.
       case image_type_of (sw_usage info) of
         None \<Rightarrow> fail_with (Std_exception ''Images must be either color or depth-stencil images'')
       | Some ty \<Rightarrow>
           and_then (store_swapchain_state h
               \<lparr>sc_parent = s, shared_images = shared, runtime_images = runtime, sc_image_type = ty,
                sc_width = sw_width info, sc_height = sw_height info\<rparr>) (\<lambda>sc.
           and_then (update_session s (insert h)) (\<lambda>_.
           done_with (sc, if shared = [] then 0 else si_memory_size (last shared),
                          if shared = [] then 0 else si_memory_type (last shared))))))
     (\<lambda>x. registry_ok live) (registry_ok live)"
  proof (rule ensures_and_then [OF ensures_value [OF quiet_new, where C = "\<lambda>shared. length shared = length runtime"]])
    show "quiet live (for_each (\<lambda>i. create_image D info (required_memory (sw_create_flags info))) runtime)"
      by (rule quiet_for_each, rule quiet_create_image [OF R])
  qed (simp add: for_each_length, rule ensures_assuming, split option.split, intro conjI impI allI,
      rule ensures_fail, simp add: new_swapchain_of_def, rule stored, simp_all)
qed

lemma create_swapchain_state_keeps:
  assumes R: "runtime_handles D live"
  shows "ensures (new_swapchain_of live s h) (create_swapchain_state D s info h) (\<lambda>x. registry_ok live) (registry_ok live)"
  unfolding create_swapchain_state_def
  by (rule new_then, rule quiet_require [OF R], simp, rule new_then, rule quiet_require [OF R], simp)
    (use share_images_keeps [OF R] in \<open>simp add: ensures_def new_swapchain_of_def\<close>)

lemma create_swapchain_fresh:
  assumes "runtime_handles D live"
  shows "ensures (registry_ok live) (issue D (Runtime (Xr_create_swapchain s info)))
    (\<lambda>(r, h) m. registry_ok live m \<and> (r = XR_SUCCESS \<longrightarrow> h \<in> live (drv m) \<and> swapchain_states m h = None))
    (registry_ok live)"
  unfolding ensures_def
proof (intro allI impI)
  fix m assume ok: "registry_ok live m"
  obtain r h d where d: "d_call D (Runtime (Xr_create_swapchain s info)) (drv m) = ((r, h), d)"
    by (metis surj_pair)
  let ?m = "m\<lparr>drv := d, gpu_trace := gpu_trace m @ [(Runtime (Xr_create_swapchain s info), (r, h))]\<rparr>"
  have "live (drv m) \<subseteq> live d" using assms d unfolding runtime_handles_def by (metis gpu_call.inject(2) snd_conv xr_op.distinct(127))
  then have "registry_ok live ?m" using registry_unchanged [OF _ ok, of ?m] by (simp add: unchanged_def)
  moreover have "h \<in> live d \<and> swapchain_states m h = None" if "r = XR_SUCCESS"
  proof -
    have "h \<notin> live (drv m) \<and> h \<in> live d" using assms d that unfolding runtime_handles_def by (metis fst_conv snd_conv)
    then show ?thesis using registry_swapchain [OF ok, of h] by (cases "swapchain_states m h") auto
  qed
  ultimately show "case issue D (Runtime (Xr_create_swapchain s info)) m of
      (Ret x, m') \<Rightarrow> (\<lambda>(r, h) m. registry_ok live m \<and> (r = XR_SUCCESS \<longrightarrow> h \<in> live (drv m) \<and> swapchain_states m h = None)) x m'
    | (_, m') \<Rightarrow> registry_ok live m'"
    using d ok by (simp add: issue_def)
qed

lemma create_swapchain_keeps:
  assumes R: "runtime_handles D live"
  shows "ensures (registry_ok live) (handle_create_swapchain D s info) (\<lambda>x. registry_ok live) (registry_ok live)"
  unfolding handle_create_swapchain_def
proof (rule ensures_and_then [OF create_swapchain_fresh [OF R]], clarify)
  fix r h
  let ?I = "\<lambda>m. registry_ok live m \<and> (r = XR_SUCCESS \<longrightarrow> h \<in> live (drv m) \<and> swapchain_states m h = None)"
  show "ensures ?I
     (if r \<noteq> XR_SUCCESS then done_with (Swapchain_refused r)
      else and_then (value_of (\<lambda>m. session_states m s)) (\<lambda>_.
       and_then (create_swapchain_state D s info h) (\<lambda>(sc, size, ty).
       and_then (for_each (send_image_handles D) (shared_images sc)) (\<lambda>_.
       done_with (Swapchain_created h (word_of_nat (length (shared_images sc))) size ty)))))
     (\<lambda>x. registry_ok live) (registry_ok live)"
  proof (cases "r = XR_SUCCESS")
    case False
    then show ?thesis by (simp add: ensures_def done_with_def)
  next
    case True
    have "ensures ?I (value_of (\<lambda>m. session_states m s)) (\<lambda>x. new_swapchain_of live s h) (registry_ok live)"
      using True by (auto simp: ensures_def value_of_def new_swapchain_of_def split: option.split)
    moreover have "ensures (registry_ok live)
        (case x of (sc, bytes, ty) \<Rightarrow> and_then (for_each (send_image_handles D) (shared_images sc))
          (\<lambda>_. done_with (Swapchain_created h (word_of_nat (length (shared_images sc))) bytes ty)))
        (\<lambda>x. registry_ok live) (registry_ok live)" for x
      by (cases x) (auto intro!: keeps_quiet quiet_and_then quiet_for_each quiet_send_image_handles R)
    ultimately show ?thesis
      using True by (simp, elim ensures_and_then) (rule ensures_and_then [OF create_swapchain_state_keeps [OF R]])
  qed
qed

lemma create_session_keeps:
  assumes R: "runtime_handles D live"
  shows "ensures (registry_ok live) (handle_create_session D flags) (\<lambda>x. registry_ok live) (registry_ok live)"
  unfolding handle_create_session_def
proof (rule ensures_and_then [OF keeps_quiet], rule quiet_require [OF R], simp)
  fix h
  have "registry_ok live (m\<lparr>session_states := (session_states m)(h \<mapsto> {})\<rparr>)"
    if "registry_ok live m" "session_states m h = None" for m
  proof -
    have "sc_parent sc \<noteq> h" if "swapchain_states m h' = Some sc" for h' sc
      using registry_swapchain [OF \<open>registry_ok live m\<close> that] \<open>session_states m h = None\<close> by auto
    then show ?thesis using that unfolding registry_ok_def by (auto split: if_splits)
  qed
  then show "ensures (registry_ok live) (and_then (store_session_state h) (\<lambda>_. done_with (Session_created h)))
      (\<lambda>x. registry_ok live) (registry_ok live)"
    by (auto simp: ensures_def store_session_state_def and_then_def done_with_def split: option.split)
qed

lemma destroy_session_keeps:
  assumes R: "runtime_handles D live"
  shows "ensures (registry_ok live) (handle_destroy_session D s) (\<lambda>x. registry_ok live) (registry_ok live)"
  unfolding handle_destroy_session_def
  by (rule keeps_quiet, rule quiet_and_then, simp) (auto intro!: quiet_and_then quiet_perform R)

lemma serve_keeps:
  assumes R: "runtime_handles D live" and ok: "registry_ok live m"
  shows "registry_ok live (snd (serve D req m))"
proof -
  have "ensures (registry_ok live) (serve D req) (\<lambda>x. registry_ok live) (registry_ok live)"
  proof (cases req)
    case (Create_swapchain s info)
    then show ?thesis using create_swapchain_keeps [OF R] by simp
  next
    case (Destroy_swapchain h)
    then show ?thesis
      by (simp add: handle_destroy_swapchain_def ensures_and_then [OF destroy_swapchain_keeps [OF R] ensures_done])
  next
    case (Create_session f)
    then show ?thesis using create_session_keeps [OF R] by simp
  next
    case (Destroy_session s)
    then show ?thesis using destroy_session_keeps [OF R] by simp
  next
    case (Release_swapchain_image h i)
    then show ?thesis using keeps_quiet [OF quiet_release [OF R]] by simp
  qed (simp_all add: keeps_quiet)
  then show ?thesis by (rule ensures_snd) (rule ok)
qed

section \<open>The instance\<close>

text \<open>The functions of the runtime are loaded before those of Vulkan.\<close>

definition loaded :: "('d \<Rightarrow> u64 set) \<Rightarrow> 'd vk_module \<Rightarrow> bool" where
  "loaded live m \<longleftrightarrow> registry_ok live m \<and> set vulkan_functions \<subseteq> vm_functions m"

lemma loaded_quiet: "quiet live f \<Longrightarrow> ensures (loaded live) f (\<lambda>x. loaded live) (loaded live)"
  by (rule ensures_quiet) (auto simp: loaded_def unchanged_def dest: registry_unchanged [unfolded unchanged_def, rotated])

lemma loaded_change:
  "(\<And>m. swapchain_states (t m) = swapchain_states m \<and> session_states (t m) = session_states m \<and> drv (t m) = drv m \<and>
     vm_functions (t m) = vm_functions m) \<Longrightarrow>
   ensures (loaded live) (change t) (\<lambda>x. loaded live) (loaded live)"
  by (rule ensures_change) (auto simp: loaded_def registry_ok_def)

lemma quiet_require_both:
  "runtime_handles D live \<Longrightarrow> (\<And>h. c \<noteq> Runtime (Xr_destroy_swapchain h)) \<Longrightarrow> quiet live (require_both ok vm xm D c)"
  unfolding require_both_def by (intro quiet_and_then quiet_issue) (auto intro!: quiet_and_then quiet_issue split: prod.split)

lemma setup_keeps:
  assumes R: "runtime_handles D live"
  shows "ensures (loaded live) (setup_vulkan_instance D) (\<lambda>x. loaded live) (loaded live)"
  unfolding setup_vulkan_instance_def
  by (intro ensures_and_then [OF loaded_quiet] ensures_and_then [OF loaded_change] quiet_require [OF R] quiet_require_both [OF R])
    (auto intro!: ensures_fail ensures_and_then [OF loaded_quiet] ensures_and_then [OF loaded_change] loaded_change
      quiet_require [OF R] quiet_require_both [OF R] split: option.split)

text \<open>Loading changes nothing but the functions, and when it returns all of them are there.\<close>

lemma load_function_Ret: "load_function D name m = (Ret x, m') \<Longrightarrow> m' = m\<lparr>vm_functions := insert name (vm_functions m)\<rparr>"
  by (auto simp: load_function_def insert_absorb split: if_splits)

lemma load_functions_Ret:
  "for_each (load_function D) names m = (Ret xs, m') \<Longrightarrow> m' = m\<lparr>vm_functions := set names \<union> vm_functions m\<rparr>"
proof (induction names arbitrary: m xs)
  case (Cons name names)
  then obtain m1 ys where "load_function D name m = (Ret (), m1)" "for_each (load_function D) names m1 = (Ret ys, m')"
    by (auto simp: and_then_Ret_iff done_with_def)
  then show ?case using Cons.IH [of m1 ys] load_function_Ret by fastforce
qed (simp add: done_with_def)

lemma load_function_keeps: "ensures (registry_ok live) (load_function D name) (\<lambda>x. registry_ok live) (registry_ok live)"
  by (auto simp: ensures_def load_function_def registry_ok_def)

lemma load_functions_keep:
  "ensures (registry_ok live) (for_each (load_function D) vulkan_functions) (\<lambda>x. loaded live) (registry_ok live)"
proof -
  have keeps: "ensures (registry_ok live) (for_each (load_function D) vulkan_functions) (\<lambda>x. registry_ok live) (registry_ok live)"
    by (rule ensures_for_each [OF load_function_keeps])
  have "set vulkan_functions \<subseteq> vm_functions m'" if "for_each (load_function D) vulkan_functions m = (Ret xs, m')"
    for m xs and m' :: "'a vk_module"
    using load_functions_Ret [OF that] by simp
  then show ?thesis using keeps unfolding ensures_def loaded_def by (fastforce split: prod.split outcome.split)
qed

lemma on_instance_keeps:
  assumes R: "runtime_handles D live"
  shows "ensures (registry_ok live) (on_instance D inst) (\<lambda>x. registry_ok live) (registry_ok live)"
  unfolding on_instance_def
  by (rule ensures_and_then [OF ensures_change [where Q = "\<lambda>x. registry_ok live"]], simp add: registry_ok_def, rule ensures_and_then [OF load_functions_keep],
      rule ensures_weaken [OF setup_keeps [OF R]]) (simp_all add: loaded_def)

lemma on_instance_destroy_keeps:
  assumes R: "runtime_handles D live"
  shows "ensures (registry_ok live) (on_instance_destroy D) (\<lambda>x. registry_ok live) (registry_ok live)"
  unfolding on_instance_destroy_def
  by (rule keeps_quiet) (auto intro!: quiet_and_then quiet_change quiet_perform [OF R] simp: unchanged_def)

lemma module_step_keeps:
  assumes R: "runtime_handles D live" and ok: "registry_ok live m"
  shows "registry_ok live (snd (module_step D e m))"
proof -
  have served: "ensures (registry_ok live) (serve D req) (\<lambda>x. registry_ok live) (registry_ok live)" for req
    by (rule ensures_end) (rule serve_keeps [OF R])
  have "ensures (registry_ok live) (module_step D e) (\<lambda>x. registry_ok live) (registry_ok live)"
    by (cases e) (auto intro!: ensures_and_then [OF on_instance_keeps [OF R]] ensures_and_then [OF on_instance_destroy_keeps [OF R]]
        ensures_and_then [OF served] ensures_done)
  then show ?thesis by (rule ensures_snd) (rule ok)
qed

interpretation vulkan_registry: kept_invariant "module_step D" "\<lambda>e. True" "\<lambda>m. runtime_handles D live \<and> registry_ok live m" for D live
  by unfold_locales (simp add: module_step_keeps)

text \<open>A module whose \<open>on_instance\<close> has returned can call everything.\<close>

definition vulkan_ready :: "'d vk_module \<Rightarrow> bool" where
  "vulkan_ready m \<longleftrightarrow> vm_vk m = Device_functions \<and> set vulkan_functions \<subseteq> vm_functions m"

lemma ready_callable: "vulkan_ready m \<Longrightarrow> callable c m"
  by (cases c; cases "case c of Runtime x \<Rightarrow> x")
    (auto simp: vulkan_ready_def callable_def vulkan_functions_def split: gpu_call.splits xr_op.splits)

end
