(* ===== verification/Vulkan_Server_Props.thy ===== *)
theory Vulkan_Server_Props
  imports Vulkan_Server_Laws
begin

unbundle bit_operations_syntax

text \<open>
  The properties of the server half of the Vulkan module: the books it keeps, the requests that
  have undefined behaviour, the calls of a release and of a destruction.
\<close>

section \<open>Calls\<close>

text \<open>The calls that an action adds to the trace; the books stay.\<close>

definition extends :: "gpu_call list \<Rightarrow> 'd vk_module \<Rightarrow> 'd vk_module \<Rightarrow> bool" where
  "extends cs m m' \<longleftrightarrow>
     map fst (gpu_trace m') = map fst (gpu_trace m) @ cs \<and>
     swapchain_states m' = swapchain_states m \<and> session_states m' = session_states m \<and> handles_out m' = handles_out m \<and>
     vm_functions m' = vm_functions m \<and> vm_vk m' = vm_vk m"

lemma extends_refl [simp]: "extends [] m m"
  by (simp add: extends_def)

lemma extends_trans: "extends cs a b \<Longrightarrow> extends ds b c \<Longrightarrow> extends (cs @ ds) a c"
  by (simp add: extends_def)

lemma issue_extends: "issue D c m = (Ret r, m') \<Longrightarrow> extends [c] m m'"
  by (auto simp: issue_def extends_def split: prod.splits if_splits)

lemma extends_ready: "extends cs m m' \<Longrightarrow> vulkan_ready m \<Longrightarrow> vulkan_ready m'"
  by (simp add: extends_def vulkan_ready_def)

lemma require_extends: "require ok msg D c m = (Ret v, m') \<Longrightarrow> extends [c] m m'"
  by (auto simp: require_def and_then_Ret_iff done_with_def fail_with_def split: if_splits dest: issue_extends)

lemma perform_extends: "perform D c m = (Ret x, m') \<Longrightarrow> extends [c] m m'"
  by (auto simp: perform_def and_then_Ret_iff done_with_def dest: issue_extends)

lemma perform_Ret:
  assumes "vulkan_ready m"
  shows "\<exists>m'. perform D c m = (Ret (), m') \<and> extends [c] m m' \<and> vulkan_ready m'"
proof -
  obtain r d where "d_call D c (drv m) = (r, d)" by (cases "d_call D c (drv m)")
  then show ?thesis using assms ready_callable [OF assms, of c]
    by (simp add: perform_def issue_def and_then_def done_with_def extends_def vulkan_ready_def)
qed

definition copy_calls :: "swapchain_state \<Rightarrow> shared_image \<Rightarrow> u64 \<Rightarrow> gpu_call list" where
  "copy_calls sc si dest =
     map Vulkan
       [Vk_begin_command_buffer (si_command_buffer si),
        Vk_pipeline_barrier (si_command_buffer si)
          [Acquire_external (si_image si) (si_layers si), Transition_to_copy dest (si_layers si)],
        Vk_copy_image (si_command_buffer si) (si_image si) dest (si_aspect si) (si_layers si) (sc_width sc) (sc_height sc),
        Vk_pipeline_barrier (si_command_buffer si) [Transition_back dest (sc_image_type sc) (si_layers si)],
        Vk_end_command_buffer (si_command_buffer si)]"

lemma record_copy_extends:
  assumes "record_copy D sc si dest m = (Ret x, m')"
  shows "extends (copy_calls sc si dest) m m'"
  using assms unfolding record_copy_def Let_def copy_calls_def and_then_Ret_iff done_with_def
  by (auto dest!: require_extends perform_extends simp: extends_def)

text \<open>The calls of a release, once the image of the runtime is known.\<close>

definition release_calls :: "u64 \<Rightarrow> swapchain_state \<Rightarrow> shared_image \<Rightarrow> u64 \<Rightarrow> gpu_call list" where
  "release_calls h sc si dest =
     [Runtime (Xr_acquire_swapchain_image h), Vulkan (Vk_wait_for_fence (si_fence si)), Vulkan (Vk_reset_fence (si_fence si))] @
     copy_calls sc si dest @
     [Runtime (Xr_wait_swapchain_image h),
      Vulkan (Vk_queue_submit (si_rendering_done si) (si_command_buffer si) (si_copying_done si) (si_fence si)),
      Runtime (Xr_release_swapchain_image h)]"

text \<open>
  When the server answers the release of image \<open>i\<close>, it has acquired an image of the runtime,
  waited for the fence of image \<open>i\<close>, recorded the copy of image \<open>i\<close> into that image, waited for the
  runtime, and submitted the copy so that it starts after the client's rendering
  (\<open>rendering_done\<close>) and gives the image back (\<open>copying_done\<close>), in this order and nothing else.
\<close>

theorem released_image_copied:
  assumes "serve D (Release_swapchain_image h i) m = (Ret rep, m')"
  shows "\<exists>sc dest. swapchain_states m h = Some sc \<and> unat i < length (shared_images sc) \<and> dest \<in> set (runtime_images sc) \<and>
    rep = Image_released \<and> extends (release_calls h sc (shared_images sc ! unat i) dest) m m'"
proof -
  obtain sc r dest_index m1 m2 m3 m4 m5 m6 where
    sc: "swapchain_states m h = Some sc" and acquired: "issue D (Runtime (Xr_acquire_swapchain_image h)) m = (Ret (r, dest_index), m1)"
    and i: "unat i < length (shared_images sc)" and dest: "unat (ucast dest_index :: u32) < length (runtime_images sc)"
    and waited: "\<exists>v. vk_require ''Failed to wait on fence'' D (Vulkan (Vk_wait_for_fence (si_fence (shared_images sc ! unat i)))) m1 = (Ret v, m2)"
    and reset: "\<exists>v. vk_require ''Failed to reset fence'' D (Vulkan (Vk_reset_fence (si_fence (shared_images sc ! unat i)))) m2 = (Ret v, m3)"
    and copied: "\<exists>v. record_copy D sc (shared_images sc ! unat i) (runtime_images sc ! unat (ucast dest_index :: u32)) m3 = (Ret v, m4)"
    and ready: "\<exists>v. require (\<lambda>r. r = XR_SUCCESS) ''Failed to wait for swapchain image'' D (Runtime (Xr_wait_swapchain_image h)) m4 = (Ret v, m5)"
    and submitted: "\<exists>v. vk_require ''Failed to submit copy operation to queue'' D
        (Vulkan (Vk_queue_submit (si_rendering_done (shared_images sc ! unat i)) (si_command_buffer (shared_images sc ! unat i))
          (si_copying_done (shared_images sc ! unat i)) (si_fence (shared_images sc ! unat i)))) m5 = (Ret v, m6)"
    and released: "\<exists>v. require XR_SUCCEEDED ''Failed to release swapchain image'' D (Runtime (Xr_release_swapchain_image h)) m6 = (Ret v, m')"
    and rep: "rep = Image_released"
    using assms unfolding serve.simps handle_release_swapchain_image_def and_then_Ret_iff element_at_Ret_iff value_of_Ret_iff
      done_with_def by (auto simp: and_then_Ret_iff element_at_Ret_iff done_with_def)
  let ?dest = "runtime_images sc ! unat (ucast dest_index :: u32)"
  from waited reset copied ready submitted released obtain a b c e f g where waited': "vk_require ''Failed to wait on fence'' D
        (Vulkan (Vk_wait_for_fence (si_fence (shared_images sc ! unat i)))) m1 = (Ret a, m2)"
    and reset': "vk_require ''Failed to reset fence'' D (Vulkan (Vk_reset_fence (si_fence (shared_images sc ! unat i)))) m2 = (Ret b, m3)"
    and copied': "record_copy D sc (shared_images sc ! unat i) ?dest m3 = (Ret c, m4)"
    and ready': "require (\<lambda>r. r = XR_SUCCESS) ''Failed to wait for swapchain image'' D (Runtime (Xr_wait_swapchain_image h)) m4 = (Ret e, m5)"
    and submitted': "vk_require ''Failed to submit copy operation to queue'' D
        (Vulkan (Vk_queue_submit (si_rendering_done (shared_images sc ! unat i)) (si_command_buffer (shared_images sc ! unat i))
          (si_copying_done (shared_images sc ! unat i)) (si_fence (shared_images sc ! unat i)))) m5 = (Ret f, m6)"
    and released': "require XR_SUCCEEDED ''Failed to release swapchain image'' D (Runtime (Xr_release_swapchain_image h)) m6 = (Ret g, m')"
    by (elim exE)
  have "extends (release_calls h sc (shared_images sc ! unat i) ?dest) m m'"
    using extends_trans [OF issue_extends [OF acquired] extends_trans [OF require_extends [OF waited']
        extends_trans [OF require_extends [OF reset'] extends_trans [OF record_copy_extends [OF copied']
        extends_trans [OF require_extends [OF ready'] extends_trans [OF require_extends [OF submitted'] require_extends [OF released']]]]]]]
    by (simp add: release_calls_def)
  then show ?thesis using sc i dest rep by (intro exI [of _ sc] exI [of _ ?dest]) simp
qed

section \<open>Destroying a swapchain\<close>

definition destroy_calls :: "shared_image \<Rightarrow> gpu_call list" where
  "destroy_calls si =
     map Vulkan [Vk_free_command_buffer (si_command_buffer si), Vk_destroy_image (si_image si), Vk_free_memory (si_memory si),
       Vk_destroy_semaphore (si_rendering_done si), Vk_destroy_semaphore (si_copying_done si)]"

lemma destroy_image_Ret:
  assumes "vulkan_ready m"
  shows "\<exists>m'. destroy_image D si m = (Ret (), m') \<and> extends (destroy_calls si) m m' \<and> vulkan_ready m'"
proof -
  obtain a b c d e where p: "perform D (Vulkan (Vk_free_command_buffer (si_command_buffer si))) m = (Ret (), a)"
    "perform D (Vulkan (Vk_destroy_image (si_image si))) a = (Ret (), b)"
    "perform D (Vulkan (Vk_free_memory (si_memory si))) b = (Ret (), c)"
    "perform D (Vulkan (Vk_destroy_semaphore (si_rendering_done si))) c = (Ret (), d)"
    "perform D (Vulkan (Vk_destroy_semaphore (si_copying_done si))) d = (Ret (), e)" "vulkan_ready e"
    using perform_Ret assms by metis
  then have "destroy_image D si m = (Ret (), e)" by (simp add: destroy_image_def and_then_def)
  moreover have "extends (destroy_calls si) m e"
    using p(1-5) [THEN perform_extends] by (simp add: extends_def destroy_calls_def)
  ultimately show ?thesis using p(6) by blast
qed

lemma destroy_images_Ret:
  "vulkan_ready m \<Longrightarrow>
   \<exists>xs m'. for_each (destroy_image D) sis m = (Ret xs, m') \<and> extends (concat (map destroy_calls sis)) m m' \<and> vulkan_ready m'"
proof (induction sis arbitrary: m)
  case (Cons si sis)
  obtain a where a: "destroy_image D si m = (Ret (), a)" "extends (destroy_calls si) m a" "vulkan_ready a"
    using destroy_image_Ret [OF Cons.prems] by blast
  obtain xs b where b: "for_each (destroy_image D) sis a = (Ret xs, b)" "extends (concat (map destroy_calls sis)) a b" "vulkan_ready b"
    using Cons.IH [OF a(3)] by blast
  show ?case using a b extends_trans [OF a(2) b(2)] by (auto simp: and_then_def done_with_def)
qed (simp add: done_with_def)

text \<open>
  C38: Destroying a swapchain that the module knows always succeeds, as long as the device functions of
  Vulkan are loaded, which the end of \<open>on_instance\<close> sees to: it waits until the queue is
  idle, destroys the command buffer, image, memory and both semaphores of every image once, before
  the swapchain of the runtime, and afterwards neither the swapchain nor its session's entry for
  it is left. (The fence of each image is not destroyed.) Without these functions, when a later
  \<open>on_instance\<close> has failed half-way, it is a call through a null pointer.
\<close>

theorem swapchain_destroyed:
  assumes "registry_ok live m" "swapchain_states m h = Some sc"
  shows "if vm_vk m = Device_functions
    then \<exists>m'. serve D (Destroy_swapchain h) m = (Ret Swapchain_destroyed, m') \<and>
      map fst (gpu_trace m') = map fst (gpu_trace m) @
        Vulkan Vk_queue_wait_idle # concat (map destroy_calls (shared_images sc)) @ [Runtime (Xr_destroy_swapchain h)] \<and>
      swapchain_states m' = (swapchain_states m)(h := None) \<and>
      session_states m' = (session_states m)(sc_parent sc := map_option (\<lambda>hs. hs - {h}) (session_states m (sc_parent sc)))
    else fst (serve D (Destroy_swapchain h) m) = Fault"
proof -
  obtain hs where hs: "session_states m (sc_parent sc) = Some hs" using registry_swapchain [OF assms] by blast
  show ?thesis
  proof (cases "vm_vk m = Device_functions")
    case True
    then have ready: "vulkan_ready m" using registry_functions [OF assms(1)] by (simp add: vulkan_ready_def)
    obtain a where a: "perform D (Vulkan Vk_queue_wait_idle) m = (Ret (), a)" "extends [Vulkan Vk_queue_wait_idle] m a" "vulkan_ready a"
      using perform_Ret [OF ready] by blast
    obtain xs b where b: "for_each (destroy_image D) (shared_images sc) a = (Ret xs, b)"
        "extends (concat (map destroy_calls (shared_images sc))) a b" "vulkan_ready b"
      using destroy_images_Ret [OF a(3)] by blast
    let ?c = "b\<lparr>swapchain_states := (swapchain_states b)(h := None),
        session_states := (session_states b)(sc_parent sc := map_option (\<lambda>hs. hs - {h}) (session_states b (sc_parent sc)))\<rparr>"
    have "vulkan_ready ?c" using b(3) by (simp add: vulkan_ready_def)
    then obtain e where e: "perform D (Runtime (Xr_destroy_swapchain h)) ?c = (Ret (), e)" "extends [Runtime (Xr_destroy_swapchain h)] ?c e"
      using perform_Ret by blast
    have "serve D (Destroy_swapchain h) m = (Ret Swapchain_destroyed, e)"
      using assms(2) hs a(1) b(1) e(1)
      by (simp add: handle_destroy_swapchain_def destroy_swapchain_def and_then_def value_of_def change_def update_session_def
          done_with_def)
    then show ?thesis using a(2) b(2) e(2) True by (simp add: extends_def)
  next
    case False
    then have "perform D (Vulkan Vk_queue_wait_idle) m = (Fault, m)"
      by (simp add: perform_def issue_def callable_def and_then_def)
    then show ?thesis using False assms(2) hs
      by (simp add: handle_destroy_swapchain_def destroy_swapchain_def and_then_def value_of_def)
  qed
qed

section \<open>Undefined behaviour\<close>

text \<open>The runtime counts the images of a swapchain as OpenXR asks: at least one, at most the capacity.\<close>

definition enumerates_images :: "'d driver \<Rightarrow> bool" where
  "enumerates_images D \<longleftrightarrow>
     (\<forall>h n d r v d'. d_call D (Runtime (Xr_enumerate_swapchain_images h n)) d = ((r, v), d') \<longrightarrow> XR_SUCCEEDED r \<longrightarrow>
        (ucast v :: u32) \<noteq> 0 \<and> (n \<noteq> 0 \<longrightarrow> (ucast v :: u32) \<le> n))"

abbreviation safe :: "('d, 'a) act \<Rightarrow> bool" where
  "safe \<equiv> tame vulkan_ready"

lemma safe_module [simp]:
  "safe (issue D c)" "safe (store_swapchain_state h sc)" "safe (store_session_state h)" "safe (update_session s k)"
  "safe has_instance_functions" "safe (change (\<lambda>m. m\<lparr>swapchain_states := t m\<rparr>))" "safe (change (\<lambda>m. m\<lparr>handles_out := u m\<rparr>))"
  using ready_callable by (auto simp: tame_def act_simps issue_def store_swapchain_state_def store_session_state_def update_session_def
      has_instance_functions_def vulkan_ready_def split: option.split prod.split)

lemma safe_require [simp]: "safe (require ok msg D c)" and safe_perform [simp]: "safe (perform D c)"
  unfolding require_def perform_def by (rule tame_and_then; auto)+

lemma safe_create_image [simp]: "safe (create_image D info required)"
  unfolding create_image_def Let_def create_exportable_semaphore_def create_command_buffer_def create_signaled_fence_def
  by (auto intro!: tame_and_then split: option.split)

lemma safe_send_image_handles [simp]: "safe (send_image_handles D si)"
  unfolding send_image_handles_def export_image_handles_def export_memory_def export_semaphore_def
  by (auto intro!: tame_and_then)

lemma safe_destroy [simp]: "safe (destroy_swapchain D h)"
  unfolding destroy_swapchain_def destroy_image_def by (auto intro!: tame_and_then tame_for_each)

lemma safe_release [simp]: "safe (handle_release_swapchain_image D h i)"
  unfolding handle_release_swapchain_image_def record_copy_def Let_def by (auto intro!: tame_and_then split: prod.split)

lemma enumerated:
  assumes "enumerates_images D" "require XR_SUCCEEDED msg D (Runtime (Xr_enumerate_swapchain_images h n)) m = (Ret v, m')"
  shows "(ucast v :: u32) \<noteq> 0 \<and> (n \<noteq> 0 \<longrightarrow> (ucast v :: u32) \<le> n)"
proof -
  obtain r d where "d_call D (Runtime (Xr_enumerate_swapchain_images h n)) (drv m) = ((r, v), d)" "XR_SUCCEEDED r"
    using assms(2) by (auto simp: require_def and_then_Ret_iff issue_def done_with_def fail_with_def split: prod.splits if_splits)
  then show ?thesis using assms(1) unfolding enumerates_images_def by blast
qed

lemma safe_share_images [simp]: "safe (share_images D s info h n)"
  unfolding share_images_def
  by (intro tame_and_then tame_basic tame_for_each safe_create_image safe_module) (auto intro!: tame_and_then split: option.split)

lemma safe_create_swapchain_state:
  assumes "enumerates_images D"
  shows "safe (create_swapchain_state D s info h)"
  unfolding create_swapchain_state_def
proof (rule tame_and_then_value [OF safe_require enumerated [OF assms]], assumption,
    rule tame_and_then_value [OF safe_require enumerated [OF assms]], assumption)
  fix n0 n1
  assume "(ucast n0 :: u32) \<noteq> 0 \<and> ((0 :: u32) \<noteq> 0 \<longrightarrow> (ucast n0 :: u32) \<le> 0)"
    and "(ucast n1 :: u32) \<noteq> 0 \<and> ((ucast n0 :: u32) \<noteq> 0 \<longrightarrow> (ucast n1 :: u32) \<le> ucast n0)"
  then have "\<not> ucast n1 > (ucast n0 :: u32)" by (simp add: not_less)
  then show "safe (if ucast n1 > (ucast n0 :: u32) then (\<lambda>m. (Fault, m)) else share_images D s info h (ucast n1))"
    by simp
qed

text \<open>Of the requests, only a session that still has swapchains makes the module unsafe to ask.\<close>

definition safe_request :: "vulkan_request \<Rightarrow> 'd vk_module \<Rightarrow> bool" where
  "safe_request req m \<longleftrightarrow> \<not> (\<exists>s hs. req = Destroy_session s \<and> session_states m s = Some hs \<and> hs \<noteq> {})"

lemma safe_serve:
  assumes "enumerates_images D" "\<forall>s. req \<noteq> Destroy_session s"
  shows "safe (serve D req)"
proof (cases req)
  case (Create_swapchain s info)
  then show ?thesis
    by (auto simp: handle_create_swapchain_def intro!: tame_and_then safe_create_swapchain_state assms(1) tame_for_each split: prod.split)
next
  case (Create_session f)
  then show ?thesis by (auto simp: handle_create_session_def intro!: tame_and_then)
next
  case (Destroy_swapchain h)
  then show ?thesis by (auto simp: handle_destroy_swapchain_def intro!: tame_and_then)
qed (use assms(2) in \<open>simp_all add: tame_basic(1)\<close>)

lemma ready_serve:
  assumes "enumerates_images D" "vulkan_ready m"
  shows "(fst (serve D req m) = Fault \<longleftrightarrow> \<not> safe_request req m) \<and> vulkan_ready (snd (serve D req m))"
proof (cases "\<forall>s. req \<noteq> Destroy_session s")
  case True
  then show ?thesis using tame_no_fault [OF safe_serve] tame_keeps [OF safe_serve] assms by (auto simp: safe_request_def)
next
  case False
  then obtain s where s: "req = Destroy_session s" by blast
  have "safe (and_then (perform D (Runtime (Xr_destroy_session s))) (\<lambda>_. done_with Session_destroyed))"
    by (auto intro!: tame_and_then)
  from tame_no_fault [OF this assms(2)] tame_keeps [OF this assms(2)] show ?thesis using s assms(2)
    by (auto simp: safe_request_def handle_destroy_session_def value_of_def and_then_def [of "value_of f" for f] split: option.split)
qed

interpretation vulkan_readiness: kept_invariant "serve D" "\<lambda>req. True" "\<lambda>m. enumerates_images D \<and> vulkan_ready m" for D
  by unfold_locales (simp add: ready_serve)

text \<open>What \<open>on_instance\<close> leaves when it returns\<close>

lemma ready_on_instance:
  assumes "on_instance D inst m = (Ret x, m')"
  shows "vulkan_ready m'"
proof -
  obtain m1 xs m2 where m1: "for_each (load_function D) vulkan_functions m1 = (Ret xs, m2)" and created: "setup_vulkan_instance D m2 = (Ret x, m')"
    using assms by (auto simp: on_instance_def and_then_Ret_iff)
  have "set vulkan_functions \<subseteq> vm_functions m2" using load_functions_Ret [OF m1] by simp
  moreover have "vm_functions m' = vm_functions m2 \<and> vm_vk m' = Device_functions"
    using created unfolding setup_vulkan_instance_def require_both_def
    by (auto simp: and_then_Ret_iff act_simps extends_def dest!: require_extends issue_extends split: option.splits if_splits prod.splits)
  ultimately show ?thesis by (simp add: vulkan_ready_def)
qed


section \<open>A small runtime\<close>

text \<open>
  A runtime with room for one swapchain, of handle 7, with two images; its state is the list of
  the swapchains that exist. Vulkan gives every kind of object a handle of its own.
\<close>

fun small_vulkan :: "vk_op \<Rightarrow> u64" where
  "small_vulkan (Vk_create_image i) = 21"
| "small_vulkan (Vk_allocate_memory i n t) = 22"
| "small_vulkan Vk_create_semaphore = 23"
| "small_vulkan Vk_allocate_command_buffer = 24"
| "small_vulkan Vk_create_fence = 25"
| "small_vulkan (Vk_get_memory_fd x) = 5"
| "small_vulkan (Vk_get_semaphore_fd x) = 6"
| "small_vulkan _ = 0"

fun small_runtime :: "xr_op \<Rightarrow> u64 list \<Rightarrow> (xr_result \<times> u64) \<times> u64 list" where
  "small_runtime (Xr_create_swapchain s i) d = (if 7 \<in> set d then ((XR_ERROR_RUNTIME_FAILURE, 0), d) else ((XR_SUCCESS, 7), 7 # d))"
| "small_runtime (Xr_destroy_swapchain h) d = ((XR_SUCCESS, 0), removeAll h d)"
| "small_runtime (Xr_enumerate_swapchain_images h n) d = ((XR_SUCCESS, if n = 1 then 1 else 2), d)"
| "small_runtime (Xr_create_session f) d = ((XR_SUCCESS, 3), d)"
| "small_runtime (Xr_acquire_swapchain_image h) d = ((XR_SUCCESS, 1), d)"
| "small_runtime _ d = ((XR_SUCCESS, 0), d)"

fun small_call :: "gpu_call \<Rightarrow> u64 list \<Rightarrow> (xr_result \<times> u64) \<times> u64 list" where
  "small_call (Vulkan c) d = ((VK_SUCCESS, small_vulkan c), d)"
| "small_call (Runtime c) d = small_runtime c d"

definition small_driver :: "u64 list driver" where
  "small_driver =
     \<lparr>d_call = small_call, d_vk_result = \<lambda>c d. VK_SUCCESS, d_memory_types = [1], d_memory_size = \<lambda>i d. 4096,
      d_memory_bits = \<lambda>i d. 1, d_runtime_image = \<lambda>h i d. 31 + word_of_nat i, d_queue_families = [(5, 1)],
      d_device_uuid = replicate 16 9, d_queue = 11, d_loads = \<lambda>f. True\<rparr>"

definition small_swapchain_info :: swapchain_info where
  "small_swapchain_info =
     \<lparr>sw_create_flags = 0, sw_usage = 1, sw_format = 37, sw_samples = 1, sw_width = 640, sw_height = 480, sw_faces = 1,
      sw_array_size = 2, sw_mips = 1\<rparr>"

lemma small_driver_simps [simp]:
  "d_call small_driver = small_call" "d_memory_types small_driver = [1]" "d_memory_size small_driver i d = 4096"
  "d_memory_bits small_driver i d = 1" "d_runtime_image small_driver h n d = 31 + word_of_nat n"
  by (simp_all add: small_driver_def)

lemma small_handles: "runtime_handles small_driver set"
proof -
  have "set d \<subseteq> set (snd (small_call c d))" if "\<forall>h. c \<noteq> Runtime (Xr_destroy_swapchain h)" for c d
  proof (cases c)
    case (Runtime x)
    then show ?thesis using that by (cases x) auto
  qed simp
  then show ?thesis by (auto simp: runtime_handles_def code_simps split: if_splits)
qed

lemma small_enumerates: "enumerates_images small_driver"
proof -
  have "2 \<le> n" if "n \<noteq> 0" "n \<noteq> 1" for n :: u32
  proof -
    have "unat n \<noteq> 0" "unat n \<noteq> 1" using that by (simp_all add: word_unat_eq_iff)
    then show ?thesis by (simp add: word_le_nat_alt)
  qed
  then show ?thesis by (auto simp: enumerates_images_def split: if_splits)
qed

text \<open>The module once it knows the instance, and after a session and a swapchain in it.\<close>

definition small_host :: "u64 list vk_module" where
  "small_host = snd (on_instance small_driver 1 (vk_module_init []))"

definition small_server :: "u64 list vk_module" where
  "small_server = snd (run_calls (serve small_driver) [Create_session 0, Create_swapchain 3 small_swapchain_info] small_host)"

definition small_image :: shared_image where
  "small_image =
     \<lparr>si_image = 21, si_memory = 22, si_rendering_done = 23, si_copying_done = 23, si_command_buffer = 24, si_fence = 25,
      si_aspect = 1, si_levels = 1, si_layers = 2, si_info = shared_image_info small_swapchain_info,
      si_memory_size = 4096, si_memory_type = 0\<rparr>"

definition small_state :: swapchain_state where
  "small_state =
     \<lparr>sc_parent = 3, shared_images = [small_image, small_image], runtime_images = [31, 32], sc_image_type = Color,
      sc_width = 640, sc_height = 480\<rparr>"

lemmas action_defs = require_def issue_def perform_def and_then_def done_with_def fail_with_def change_def ask_def
  value_of_def element_at_def callable_def vulkan_functions_def

lemmas creation_defs = handle_create_session_def store_session_state_def handle_create_swapchain_def
  create_swapchain_state_def share_images_def create_image_def update_session_def store_swapchain_state_def
  send_image_handles_def export_image_handles_def export_memory_def export_semaphore_def
  create_exportable_semaphore_def create_command_buffer_def create_signaled_fence_def has_instance_functions_def

lemma small_instance: "on_instance small_driver 1 (vk_module_init []) = (Ret (), small_host)"
  and small_host_state:
    "swapchain_states small_host = Map.empty \<and> session_states small_host = Map.empty \<and> drv small_host = [] \<and>
     handles_out small_host = [] \<and> vm_functions small_host = set vulkan_functions \<and> vm_vk small_host = Device_functions"
proof -
  have "fst (on_instance small_driver 1 (vk_module_init [])) = Ret () \<and>
     swapchain_states small_host = Map.empty \<and> session_states small_host = Map.empty \<and> drv small_host = [] \<and>
     handles_out small_host = [] \<and> vm_functions small_host = set vulkan_functions \<and> vm_vk small_host = Device_functions"
    by (simp add: small_host_def on_instance_def setup_vulkan_instance_def require_both_def load_function_def vk_module_init_def
        small_driver_def action_defs code_simps insert_commute)
  then show "on_instance small_driver 1 (vk_module_init []) = (Ret (), small_host)"
    "swapchain_states small_host = Map.empty \<and> session_states small_host = Map.empty \<and> drv small_host = [] \<and>
     handles_out small_host = [] \<and> vm_functions small_host = set vulkan_functions \<and> vm_vk small_host = Device_functions"
    by (auto simp: small_host_def prod_eq_iff)
qed

lemma small_info_simps:
  "im_format (shared_image_info small_swapchain_info) = 37" "im_mips (shared_image_info small_swapchain_info) = 1"
  "im_layers (shared_image_info small_swapchain_info) = 2"
  by (simp_all add: shared_image_info_def create_vk_image_create_info_def small_swapchain_info_def Let_def)

lemma small_server_state:
  "swapchain_states small_server = [7 \<mapsto> small_state] \<and> session_states small_server = [3 \<mapsto> {7}] \<and> drv small_server = [7]
   \<and> handles_out small_server = [5, 6, 6, 5, 6, 6] \<and> vm_functions small_server = set vulkan_functions \<and>
   vm_vk small_server = Device_functions"
  using small_host_state
  by (simp add: small_server_def action_defs creation_defs vk_module_init_def code_simps upt_rec Let_def
      required_memory_def image_type_of_def small_info_simps small_image_def small_state_def get_aspect_from_format_def
      write_image_handles_def)
    (simp add: small_swapchain_info_def)

lemma small_registry: "registry_ok set small_server"
  using small_server_state by (auto simp: registry_ok_def small_state_def split: if_splits)

theorem released_image_copied_witness:
  "\<exists>sc dest. swapchain_states small_server 7 = Some sc \<and> unat (0 :: u32) < length (shared_images sc) \<and> dest \<in> set (runtime_images sc) \<and>
    Image_released = Image_released \<and>
    extends (release_calls 7 sc (shared_images sc ! unat (0 :: u32)) dest) small_server
      (snd (serve small_driver (Release_swapchain_image 7 0) small_server))"
proof (rule released_image_copied [where D = small_driver])
  have "fst (serve small_driver (Release_swapchain_image 7 0) small_server) = Ret Image_released"
    using small_server_state
    by (simp add: handle_release_swapchain_image_def record_copy_def action_defs Let_def code_simps small_state_def small_image_def)
  then show "serve small_driver (Release_swapchain_image 7 0) small_server
      = (Ret Image_released, snd (serve small_driver (Release_swapchain_image 7 0) small_server))"
    by (metis prod.collapse)
qed

theorem swapchain_destroyed_witness:
  "\<exists>m'. serve small_driver (Destroy_swapchain 7) small_server = (Ret Swapchain_destroyed, m') \<and>
    map fst (gpu_trace m') = map fst (gpu_trace small_server) @
      Vulkan Vk_queue_wait_idle # concat (map destroy_calls (shared_images small_state)) @ [Runtime (Xr_destroy_swapchain 7)] \<and>
    swapchain_states m' = (swapchain_states small_server)(7 := None) \<and>
    session_states m' = (session_states small_server)
      (sc_parent small_state := map_option (\<lambda>hs. hs - {7}) (session_states small_server (sc_parent small_state)))"
  using small_server_state swapchain_destroyed [OF small_registry, of 7 small_state small_driver] by simp


section \<open>The books\<close>

text \<open>
  C29: Over any sequence of requests, answered or failed, and of instances that the module is told of,
  successfully or not, the server keeps its books: every
  swapchain it knows exists in the runtime, has as many shared images as the runtime has images,
  and is listed by the session it belongs to; every swapchain that a session lists is one of its
  own; and the functions of the runtime are loaded when those of a Vulkan device are.
\<close>

theorem vulkan_registry_kept:
  assumes "runtime_handles D live"
  shows "registry_ok live (snd (run_calls (module_step D) events (vk_module_init d)))"
proof -
  have "registry_ok live (vk_module_init d)" by (simp add: registry_ok_def vk_module_init_def)
  then show ?thesis using vulkan_registry.run_keeps [of D live "vk_module_init d" events] assms by (simp add: list.pred_True)
qed

theorem vulkan_registry_kept_witness:
  "registry_ok set (snd (run_calls (module_step small_driver)
     [Told_created 1, Requested (Create_session 0), Requested (Create_swapchain 3 small_swapchain_info),
      Requested (Destroy_swapchain 7), Told_destroyed] (vk_module_init [])))"
  by (rule vulkan_registry_kept [OF small_handles])

section \<open>What is not checked\<close>

text \<open>The state of a destroyed session stays, so that swapchains can still be created in it.\<close>

lemma destroyed_session_stays:
  assumes "serve D (Destroy_session s) m = (Ret Session_destroyed, m')"
  shows "session_states m' s = Some {}"
proof -
  have "session_states m s = Some {}"
    using assms by (auto simp: handle_destroy_session_def value_of_def and_then_def [of "value_of f" for f]
        act_simps split: option.splits if_splits)
  then show ?thesis using assms
    by (auto simp: handle_destroy_session_def and_then_Ret_iff value_of_Ret_iff done_with_def extends_def dest!: perform_extends)
qed

text \<open>
  A release goes through when the image of the runtime could not be acquired: the copy goes into
  the image that the index variable happens to name, image 0 when the runtime leaves it alone.
\<close>

definition refusing_driver :: "u64 list driver" where
  "refusing_driver = small_driver\<lparr>d_call := \<lambda>c d.
     if c = Runtime (Xr_acquire_swapchain_image 7) then ((XR_ERROR_CALL_ORDER_INVALID, 0), d) else small_call c d\<rparr>"

lemma failed_acquire_ignored:
  "fst (d_call refusing_driver (Runtime (Xr_acquire_swapchain_image 7)) d) = (XR_ERROR_CALL_ORDER_INVALID, 0) \<and>
   fst (serve refusing_driver (Release_swapchain_image 7 0) small_server) = Ret Image_released"
  using small_server_state
  by (simp add: refusing_driver_def handle_release_swapchain_image_def record_copy_def action_defs Let_def code_simps
      small_state_def small_image_def)

end
