(* ===== verification/Vulkan_Swapchain.thy ===== *)
theory Vulkan_Swapchain
  imports Xr_Results Runs
begin

text \<open>
  \<open>SwapchainState\<close> of \<open>src/modules/vulkan/client/session_state.cpp\<close>: three ring heads and a
  counter over the images of a swapchain, the state machine behind \<open>xrAcquireSwapchainImage\<close>,
  \<open>xrWaitSwapchainImage\<close> and \<open>xrReleaseSwapchainImage\<close>. The Vulkan driver is a parameter: every
  call takes the results that the driver returns to it, and the calls made on the driver are
  recorded in a trace. The mutex makes each operation atomic. At the end, the queue of images
  that OpenXR specifies and the proof that the heads implement it.
\<close>

section \<open>State and operations\<close>

datatype vk_call =
    Submit_acquire nat bool  \<comment> \<open>image, waits for \<open>copying_done\<close>\<close>
  | Wait_fence nat
  | Reset_fence nat
  | Submit_release nat

text \<open>The heads are \<open>uint32_t\<close>; \<open>has_been_acquired\<close> is the only member of an image that changes.\<close>

record swapchain =
  has_been_acquired :: "bool list"
  num_acquired :: nat
  acquire_head :: nat
  wait_head :: nat
  release_head :: nat
  is_static :: bool
  vk_trace :: "vk_call list"

definition images_size :: "swapchain \<Rightarrow> nat" where
  "images_size s = length (has_been_acquired s)"

definition new_swapchain :: "nat \<Rightarrow> bool \<Rightarrow> swapchain" where
  "new_swapchain n static =
     \<lparr>has_been_acquired = replicate n False, num_acquired = 0, acquire_head = 0, wait_head = 0,
      release_head = 0, is_static = static, vk_trace = []\<rparr>"

text \<open>\<open>(head + 1) % images.size()\<close> in 32-bit arithmetic\<close>

definition next_head :: "swapchain \<Rightarrow> nat \<Rightarrow> nat" where
  "next_head s h = ((h + 1) mod 2 ^ 32) mod images_size s"

definition vk_record :: "vk_call \<Rightarrow> swapchain \<Rightarrow> swapchain" where
  "vk_record c s = s\<lparr>vk_trace := vk_trace s @ [c]\<rparr>"

definition acquire :: "vk_result \<Rightarrow> swapchain \<Rightarrow> xr_result \<times> nat option \<times> swapchain" where
  "acquire submit s =
     (if num_acquired s \<ge> images_size s then (XR_ERROR_CALL_ORDER_INVALID, None, s)
      else if is_static s \<and> has_been_acquired s ! acquire_head s then (XR_ERROR_CALL_ORDER_INVALID, None, s)
      else let i = acquire_head s;
               waits = has_been_acquired s ! i;
               s1 = vk_record (Submit_acquire i waits)
                      (if waits then s else s\<lparr>has_been_acquired := (has_been_acquired s)[i := True]\<rparr>)
           in if submit \<noteq> VK_SUCCESS then (XR_ERROR_RUNTIME_FAILURE, None, s1)
              else (XR_SUCCESS, Some i,
                    s1\<lparr>acquire_head := next_head s i, num_acquired := num_acquired s + 1\<rparr>))"

definition wait :: "vk_result \<Rightarrow> swapchain \<Rightarrow> xr_result \<times> swapchain" where
  "wait result s =
     (if num_acquired s = 0 then (XR_ERROR_CALL_ORDER_INVALID, s)
      else if wait_head s \<noteq> release_head s then (XR_ERROR_CALL_ORDER_INVALID, s)
      else let s1 = vk_record (Wait_fence (wait_head s)) s
           in if result = VK_TIMEOUT then (XR_TIMEOUT_EXPIRED, s1)
              else if result \<noteq> VK_SUCCESS then (XR_ERROR_RUNTIME_FAILURE, s1)
              else (XR_SUCCESS, s1\<lparr>wait_head := next_head s (wait_head s)\<rparr>))"

definition release :: "vk_result \<Rightarrow> vk_result \<Rightarrow> swapchain \<Rightarrow> xr_result \<times> nat option \<times> swapchain" where
  "release reset submit s =
     (if num_acquired s = 0 then (XR_ERROR_CALL_ORDER_INVALID, None, s)
      else if wait_head s \<noteq> next_head s (release_head s) then (XR_ERROR_CALL_ORDER_INVALID, None, s)
      else let i = release_head s; s1 = vk_record (Reset_fence i) s
           in if reset \<noteq> VK_SUCCESS then (XR_ERROR_RUNTIME_FAILURE, None, s1)
              else let s2 = vk_record (Submit_release i) s1
                   in if submit \<noteq> VK_SUCCESS then (XR_ERROR_RUNTIME_FAILURE, None, s2)
                      else (XR_SUCCESS, Some i,
                            s2\<lparr>release_head := next_head s i, num_acquired := num_acquired s - 1\<rparr>))"

section \<open>Runs\<close>

datatype call = Acquire vk_result | Wait vk_result | Release vk_result vk_result

fun swapchain_call :: "call \<Rightarrow> swapchain \<Rightarrow> (xr_result \<times> nat option) \<times> swapchain" where
  "swapchain_call (Acquire r) s = (case acquire r s of (x, i, s') \<Rightarrow> ((x, i), s'))"
| "swapchain_call (Wait r) s = (case wait r s of (x, s') \<Rightarrow> ((x, None), s'))"
| "swapchain_call (Release r q) s = (case release r q s of (x, i, s') \<Rightarrow> ((x, i), s'))"

section \<open>The specification\<close>

text \<open>
  What OpenXR asks of a swapchain: the images are acquired in turn, the acquired ones form a
  queue, only the oldest can be waited on, once, and only a waited image can be released.
\<close>

record spec_swapchain =
  spec_size :: nat
  spec_next :: nat
  spec_queue :: "nat list"
  spec_waited :: bool

definition spec_new :: "nat \<Rightarrow> spec_swapchain" where
  "spec_new n = \<lparr>spec_size = n, spec_next = 0, spec_queue = [], spec_waited = False\<rparr>"

fun spec_call :: "call \<Rightarrow> spec_swapchain \<Rightarrow> (xr_result \<times> nat option) \<times> spec_swapchain" where
  "spec_call (Acquire r) q =
     (if length (spec_queue q) = spec_size q then ((XR_ERROR_CALL_ORDER_INVALID, None), q)
      else if r \<noteq> VK_SUCCESS then ((XR_ERROR_RUNTIME_FAILURE, None), q)
      else ((XR_SUCCESS, Some (spec_next q)),
            q\<lparr>spec_next := (spec_next q + 1) mod spec_size q,
              spec_queue := spec_queue q @ [spec_next q]\<rparr>))"
| "spec_call (Wait r) q =
     (if spec_queue q = [] \<or> spec_waited q then ((XR_ERROR_CALL_ORDER_INVALID, None), q)
      else if r = VK_TIMEOUT then ((XR_TIMEOUT_EXPIRED, None), q)
      else if r \<noteq> VK_SUCCESS then ((XR_ERROR_RUNTIME_FAILURE, None), q)
      else ((XR_SUCCESS, None), q\<lparr>spec_waited := True\<rparr>))"
| "spec_call (Release r r') q =
     (if spec_queue q = [] \<or> \<not> spec_waited q then ((XR_ERROR_CALL_ORDER_INVALID, None), q)
      else if r \<noteq> VK_SUCCESS \<or> r' \<noteq> VK_SUCCESS then ((XR_ERROR_RUNTIME_FAILURE, None), q)
      else ((XR_SUCCESS, Some (hd (spec_queue q))),
            q\<lparr>spec_queue := tl (spec_queue q), spec_waited := False\<rparr>))"

text \<open>The abstraction and the invariant of the heads\<close>

definition acquired_images :: "swapchain \<Rightarrow> nat list" where
  "acquired_images s = map (\<lambda>k. (release_head s + k) mod images_size s) [0..<num_acquired s]"

definition abs_swapchain :: "swapchain \<Rightarrow> spec_swapchain" where
  "abs_swapchain s =
     \<lparr>spec_size = images_size s, spec_next = acquire_head s, spec_queue = acquired_images s,
      spec_waited = (wait_head s \<noteq> release_head s)\<rparr>"

definition heads_ok :: "swapchain \<Rightarrow> bool" where
  "heads_ok s \<longleftrightarrow>
     release_head s < images_size s \<and> num_acquired s \<le> images_size s \<and> images_size s < 2 ^ 32 \<and>
     acquire_head s = (release_head s + num_acquired s) mod images_size s \<and>
     (wait_head s = release_head s \<or>
      num_acquired s > 0 \<and> wait_head s = (release_head s + 1) mod images_size s)"

lemma images_size_simps [simp]:
  "images_size (vk_record c s) = images_size s"
  "images_size (s\<lparr>has_been_acquired := (has_been_acquired s)[i := b]\<rparr>) = images_size s"
  "images_size (s\<lparr>acquire_head := a\<rparr>) = images_size s"
  "images_size (s\<lparr>num_acquired := m\<rparr>) = images_size s"
  "images_size (s\<lparr>wait_head := w\<rparr>) = images_size s"
  "images_size (s\<lparr>release_head := r\<rparr>) = images_size s"
  by (simp_all add: images_size_def vk_record_def)

lemma next_head_small: "h < images_size s \<Longrightarrow> images_size s < 2 ^ 32 \<Longrightarrow> next_head s h = (h + 1) mod images_size s"
  by (simp add: next_head_def)

lemma Suc_mod_ne: "2 \<le> n \<Longrightarrow> h < n \<Longrightarrow> Suc h mod n \<noteq> (h :: nat)"
  by (cases "Suc h = n") auto

lemma heads_ok_new: "0 < n \<Longrightarrow> n < 2 ^ 32 \<Longrightarrow> heads_ok (new_swapchain n static)"
  by (simp add: heads_ok_def new_swapchain_def images_size_def)

lemma abs_new: "abs_swapchain (new_swapchain n static) = spec_new n"
  by (simp add: abs_swapchain_def new_swapchain_def spec_new_def images_size_def acquired_images_def)


section \<open>The heads implement the queue\<close>

lemma acquired_acquire:
  "acquired_images (s\<lparr>acquire_head := a, num_acquired := num_acquired s + 1\<rparr>)
   = acquired_images s @ [(release_head s + num_acquired s) mod images_size s]"
  by (simp add: acquired_images_def images_size_def)

lemma acquired_release:
  assumes "0 < num_acquired s" "release_head s < images_size s"
  shows "hd (acquired_images s) = release_head s"
    and "tl (acquired_images s) = map (\<lambda>k. ((release_head s + 1) mod images_size s + k) mod images_size s)
       [0..<num_acquired s - 1]"
proof -
  have range: "[0..<num_acquired s] = 0 # map Suc [0..<num_acquired s - 1]"
    using assms(1) by (simp add: upt_conv_Cons map_Suc_upt)
  show "hd (acquired_images s) = release_head s"
    using assms(2) by (simp add: acquired_images_def range)
  show "tl (acquired_images s) = map (\<lambda>k. ((release_head s + 1) mod images_size s + k) mod images_size s)
       [0..<num_acquired s - 1]"
    by (simp add: acquired_images_def range comp_def mod_simps)
qed

lemma acquired_Nil_iff: "acquired_images s = [] \<longleftrightarrow> num_acquired s = 0"
  by (simp add: acquired_images_def)

text \<open>Only the heads, the counter and the number of images matter.\<close>

definition same_heads :: "swapchain \<Rightarrow> swapchain \<Rightarrow> bool" where
  "same_heads s s' \<longleftrightarrow> images_size s' = images_size s \<and> num_acquired s' = num_acquired s \<and>
     acquire_head s' = acquire_head s \<and> wait_head s' = wait_head s \<and> release_head s' = release_head s \<and>
     is_static s' = is_static s"

lemma same_heads_abs: "same_heads s s' \<Longrightarrow> abs_swapchain s' = abs_swapchain s"
  by (simp add: same_heads_def abs_swapchain_def acquired_images_def)

lemma same_heads_ok: "same_heads s s' \<Longrightarrow> heads_ok s' = heads_ok s"
  by (simp add: same_heads_def heads_ok_def)

definition ring_ok :: "nat \<Rightarrow> swapchain \<Rightarrow> bool" where
  "ring_ok n s \<longleftrightarrow> heads_ok s \<and> \<not> is_static s \<and> images_size s = n"

lemma same_heads_ring: "same_heads s s' \<Longrightarrow> ring_ok n s' = ring_ok n s"
  by (simp add: ring_ok_def same_heads_def heads_ok_def)

lemma length_acquired [simp]: "length (acquired_images s) = num_acquired s"
  by (simp add: acquired_images_def)

lemma acquire_refines:
  assumes ok: "ring_ok n s"
  shows "spec_call (Acquire r) (abs_swapchain s)
      = (fst (swapchain_call (Acquire r) s), abs_swapchain (snd (swapchain_call (Acquire r) s)))
    \<and> ring_ok n (snd (swapchain_call (Acquire r) s))"
proof (cases "num_acquired s \<ge> images_size s")
  case True
  then have "num_acquired s = images_size s" using ok by (simp add: ring_ok_def heads_ok_def)
  then show ?thesis using ok by (simp add: acquire_def abs_swapchain_def)
next
  case False
  define s1 where "s1 = vk_record (Submit_acquire (acquire_head s) (has_been_acquired s ! acquire_head s))
      (if has_been_acquired s ! acquire_head s then s
       else s\<lparr>has_been_acquired := (has_been_acquired s)[acquire_head s := True]\<rparr>)"
  have s1: "same_heads s s1" by (simp add: s1_def same_heads_def vk_record_def images_size_def)
  have call: "swapchain_call (Acquire r) s =
      (if r \<noteq> VK_SUCCESS then ((XR_ERROR_RUNTIME_FAILURE, None), s1)
       else ((XR_SUCCESS, Some (acquire_head s)),
         s1\<lparr>acquire_head := next_head s (acquire_head s), num_acquired := num_acquired s1 + 1\<rparr>))"
    using False ok s1 by (simp add: acquire_def Let_def s1_def [symmetric] ring_ok_def same_heads_def)
  let ?s2 = "s1\<lparr>acquire_head := next_head s (acquire_head s), num_acquired := num_acquired s1 + 1\<rparr>"
  have heads: "heads_ok s" "\<not> is_static s" "images_size s = n" using ok by (simp_all add: ring_ok_def)
  have head: "acquire_head s = (release_head s + num_acquired s) mod n" "0 < n" "n < 2 ^ 32"
    using heads False by (auto simp: heads_ok_def)
  have nxt: "next_head s (acquire_head s) = (acquire_head s + 1) mod n"
    using head heads(3) by (subst next_head_small) simp_all
  have n1: "images_size s1 = n" "release_head s1 = release_head s" "num_acquired s1 = num_acquired s"
    "wait_head s1 = wait_head s" "is_static s1 = is_static s"
    using s1 heads(3) by (simp_all add: same_heads_def)
  have "abs_swapchain ?s2 = (abs_swapchain s)\<lparr>spec_next := (acquire_head s + 1) mod n,
      spec_queue := acquired_images s @ [acquire_head s]\<rparr>"
    using acquired_acquire [of s1 "next_head s (acquire_head s)"] same_heads_abs [OF s1] n1 head nxt heads(3)
    by (simp add: abs_swapchain_def images_size_def)
  moreover have "(acquire_head s + 1) mod n = (release_head s + (num_acquired s + 1)) mod n"
    by (simp add: head(1) mod_simps)
  then have "ring_ok n ?s2"
    using heads False nxt n1
    by (auto simp: ring_ok_def heads_ok_def images_size_def)
  moreover have "num_acquired s \<noteq> n" using False heads(3) by simp
  ultimately show ?thesis
    using same_heads_abs [OF s1] same_heads_ring [OF s1] ok heads(3) nxt
    unfolding call by (simp add: abs_swapchain_def)
qed

lemma wait_refines:
  assumes ok: "ring_ok n s" and n: "2 \<le> n"
  shows "spec_call (Wait r) (abs_swapchain s)
      = (fst (swapchain_call (Wait r) s), abs_swapchain (snd (swapchain_call (Wait r) s)))
    \<and> ring_ok n (snd (swapchain_call (Wait r) s))"
proof (cases "num_acquired s = 0 \<or> wait_head s \<noteq> release_head s")
  case True
  then show ?thesis using ok by (auto simp: wait_def abs_swapchain_def acquired_Nil_iff)
next
  case False
  define s1 where "s1 = vk_record (Wait_fence (wait_head s)) s"
  have s1: "same_heads s s1" by (simp add: s1_def same_heads_def vk_record_def images_size_def)
  have call: "swapchain_call (Wait r) s =
      (if r = VK_TIMEOUT then ((XR_TIMEOUT_EXPIRED, None), s1)
       else if r \<noteq> VK_SUCCESS then ((XR_ERROR_RUNTIME_FAILURE, None), s1)
       else ((XR_SUCCESS, None), s1\<lparr>wait_head := next_head s (wait_head s)\<rparr>))"
    using False by (simp add: wait_def Let_def s1_def)
  let ?s2 = "s1\<lparr>wait_head := next_head s (wait_head s)\<rparr>"
  have heads: "heads_ok s" "\<not> is_static s" "images_size s = n" using ok by (simp_all add: ring_ok_def)
  have n1: "images_size s1 = n" "release_head s1 = release_head s" "num_acquired s1 = num_acquired s"
    "wait_head s1 = wait_head s" "acquire_head s1 = acquire_head s" "is_static s1 = is_static s"
    using s1 heads(3) by (simp_all add: same_heads_def)
  have nxt: "next_head s (wait_head s) = (release_head s + 1) mod n" "release_head s < n"
    using heads False by (auto simp: next_head_small heads_ok_def)
  have ne: "(release_head s + 1) mod n \<noteq> release_head s"
    using Suc_mod_ne [OF n nxt(2)] by simp
  have "abs_swapchain ?s2 = (abs_swapchain s)\<lparr>spec_waited := True\<rparr>"
    using n1 nxt ne heads(3) by (simp add: abs_swapchain_def acquired_images_def images_size_def)
  moreover have "ring_ok n ?s2"
    using heads False nxt n1 by (auto simp: ring_ok_def heads_ok_def images_size_def)
  ultimately show ?thesis
    using same_heads_abs [OF s1] same_heads_ring [OF s1] ok False
    unfolding call by (simp add: abs_swapchain_def acquired_Nil_iff)
qed

lemma release_refines:
  assumes ok: "ring_ok n s" and n: "2 \<le> n"
  shows "spec_call (Release r r') (abs_swapchain s)
      = (fst (swapchain_call (Release r r') s), abs_swapchain (snd (swapchain_call (Release r r') s)))
    \<and> ring_ok n (snd (swapchain_call (Release r r') s))"
proof -
  have heads: "heads_ok s" "\<not> is_static s" "images_size s = n" using ok by (simp_all add: ring_ok_def)
  have nxt: "next_head s (release_head s) = (release_head s + 1) mod n" "release_head s < n"
    using heads by (auto simp: next_head_small heads_ok_def)
  have ne: "(release_head s + 1) mod n \<noteq> release_head s"
    using Suc_mod_ne [OF n nxt(2)] by simp
  have waited: "wait_head s = next_head s (release_head s) \<longleftrightarrow> wait_head s \<noteq> release_head s"
    using heads nxt ne by (auto simp: heads_ok_def)
  show ?thesis
  proof (cases "num_acquired s = 0 \<or> wait_head s = release_head s")
    case True
    then show ?thesis using ok waited by (auto simp: release_def abs_swapchain_def acquired_Nil_iff)
  next
    case False
    define s1 where "s1 = vk_record (Reset_fence (release_head s)) s"
    define s2 where "s2 = vk_record (Submit_release (release_head s)) s1"
    have same: "same_heads s s1" "same_heads s s2"
      by (simp_all add: s1_def s2_def same_heads_def vk_record_def images_size_def)
    let ?s3 = "s2\<lparr>release_head := next_head s (release_head s), num_acquired := num_acquired s - 1\<rparr>"
    have call: "swapchain_call (Release r r') s =
        (if r \<noteq> VK_SUCCESS then ((XR_ERROR_RUNTIME_FAILURE, None), s1)
         else if r' \<noteq> VK_SUCCESS then ((XR_ERROR_RUNTIME_FAILURE, None), s2)
         else ((XR_SUCCESS, Some (release_head s)), ?s3))"
      using False waited by (simp add: release_def Let_def s1_def s2_def)
    have n2: "images_size s2 = n" "wait_head s2 = wait_head s" "acquire_head s2 = acquire_head s"
      "is_static s2 = is_static s"
      using same(2) heads(3) by (simp_all add: same_heads_def)
    have acq: "hd (acquired_images s) = release_head s"
      "tl (acquired_images s) = map (\<lambda>k. ((release_head s + 1) mod n + k) mod n) [0..<num_acquired s - 1]"
      using acquired_release [of s] False nxt(2) heads(3) by simp_all
    have "abs_swapchain ?s3 = (abs_swapchain s)\<lparr>spec_queue := tl (acquired_images s), spec_waited := False\<rparr>"
      using n2 nxt acq(2) heads(3) False waited
      by (simp add: abs_swapchain_def acquired_images_def images_size_def)
    moreover have "ring_ok n ?s3"
    proof -
      have "acquire_head s = ((release_head s + 1) mod n + (num_acquired s - 1)) mod n"
      proof -
        obtain m where "num_acquired s = Suc m" using False by (cases "num_acquired s") auto
        then show ?thesis using heads by (simp add: heads_ok_def mod_simps)
      qed
      then show ?thesis
        using heads False nxt n2 waited
        by (simp add: ring_ok_def heads_ok_def images_size_def le_diff_conv trans_le_add1)
    qed
    ultimately show ?thesis
      using same_heads_abs [OF same(1)] same_heads_abs [OF same(2)] same_heads_ring [OF same(1)]
        same_heads_ring [OF same(2)] ok False acq(1)
      unfolding call by (simp add: abs_swapchain_def acquired_Nil_iff)
  qed
qed

lemma call_refines:
  assumes "ring_ok n s" "2 \<le> n"
  shows "spec_call c (abs_swapchain s) = (fst (swapchain_call c s), abs_swapchain (snd (swapchain_call c s)))
    \<and> ring_ok n (snd (swapchain_call c s))"
  using acquire_refines [OF assms(1)] wait_refines [OF assms] release_refines [OF assms] by (cases c) blast+


interpretation ring: data_refinement swapchain_call "\<lambda>c. True" "\<lambda>s. ring_ok n s \<and> 2 \<le> n"
  spec_call abs_swapchain for n
  by unfold_locales (use call_refines in blast)+

lemma ring_ok_new: "2 \<le> n \<Longrightarrow> n < 2 ^ 32 \<Longrightarrow> ring_ok n (new_swapchain n False)"
  using heads_ok_new [of n False] by (simp add: ring_ok_def new_swapchain_def images_size_def)

section \<open>Semaphores\<close>

text \<open>
  An acquire that waits for \<open>copying_done\<close> needs an earlier release of that image: only then
  does the server copy the image and signal the semaphore.
\<close>

definition waits_on :: "nat \<Rightarrow> swapchain \<Rightarrow> nat" where
  "waits_on i s = count_list (vk_trace s) (Submit_acquire i True)"

definition first_acquires :: "nat \<Rightarrow> swapchain \<Rightarrow> nat" where
  "first_acquires i s = count_list (vk_trace s) (Submit_acquire i False)"

definition releases_of :: "nat \<Rightarrow> swapchain \<Rightarrow> nat" where
  "releases_of i s = count_list (vk_trace s) (Submit_release i)"

definition semaphore_ok :: "nat \<Rightarrow> swapchain \<Rightarrow> bool" where
  "semaphore_ok i s \<longleftrightarrow>
     (if has_been_acquired s ! i
      then waits_on i s + 1 = releases_of i s + (if i \<in> set (acquired_images s) then 1 else 0)
      else waits_on i s = 0 \<and> releases_of i s = 0 \<and> i \<notin> set (acquired_images s))"

definition semaphores_ok :: "swapchain \<Rightarrow> bool" where
  "semaphores_ok s \<longleftrightarrow> (\<forall>i<images_size s. semaphore_ok i s)"

fun driver_ok :: "call \<Rightarrow> bool" where
  "driver_ok (Acquire r) \<longleftrightarrow> r = VK_SUCCESS"
| "driver_ok (Wait r) \<longleftrightarrow> True"
| "driver_ok (Release r r') \<longleftrightarrow> r = VK_SUCCESS \<and> r' = VK_SUCCESS"

lemma ring_index_inj: "(r + k) mod n = (r + k') mod n \<Longrightarrow> k < n \<Longrightarrow> k' < n \<Longrightarrow> k = (k' :: nat)"
proof (induction k k' rule: linorder_wlog)
  case (le k k')
  then have "n dvd k' - k" using mod_eq_dvd_iff_nat [of "r + k" "r + k'" n] by simp
  moreover have "k' - k < n" using le by simp
  ultimately have "k' - k = 0" by (metis nat_dvd_not_less neq0_conv)
  then show ?case using le by simp
qed simp

lemma acquired_distinct: "num_acquired s \<le> images_size s \<Longrightarrow> distinct (acquired_images s)"
  by (auto simp: acquired_images_def distinct_map inj_on_def intro: ring_index_inj)

lemma acquire_head_free:
  assumes "heads_ok s" "num_acquired s < images_size s"
  shows "acquire_head s \<notin> set (acquired_images s)"
proof
  assume "acquire_head s \<in> set (acquired_images s)"
  then obtain k where k: "k < num_acquired s" "acquire_head s = (release_head s + k) mod images_size s"
    by (auto simp: acquired_images_def)
  moreover have "acquire_head s = (release_head s + num_acquired s) mod images_size s"
    using assms(1) by (simp add: heads_ok_def)
  ultimately have "(release_head s + num_acquired s) mod images_size s = (release_head s + k) mod images_size s"
    by simp
  then have "num_acquired s = k"
    by (rule ring_index_inj) (use assms(2) k(1) in simp_all)
  then show False using k(1) by simp
qed

lemma semaphores_cong:
  "semaphores_ok s \<Longrightarrow> images_size s' = images_size s \<Longrightarrow> has_been_acquired s' = has_been_acquired s \<Longrightarrow>
   acquired_images s' = acquired_images s \<Longrightarrow> (\<And>i. waits_on i s' = waits_on i s) \<Longrightarrow>
   (\<And>i. releases_of i s' = releases_of i s) \<Longrightarrow> semaphores_ok s'"
  by (simp only: semaphores_ok_def semaphore_ok_def)

lemma semaphores_call:
  assumes sem: "semaphores_ok s" and ring: "ring_ok n s" and n: "2 \<le> n" and ok: "driver_ok c"
  shows "semaphores_ok (snd (swapchain_call c s))"
proof -
  have heads: "heads_ok s" "\<not> is_static s" "images_size s = n" using ring by (simp_all add: ring_ok_def)
  show ?thesis
  proof (cases c)
    case (Wait r)
    show ?thesis
    proof (cases "num_acquired s = 0 \<or> wait_head s \<noteq> release_head s")
      case True
      then show ?thesis using Wait sem by (auto simp: wait_def)
    next
      case False
      show ?thesis
        by (rule semaphores_cong [OF sem])
          (use False Wait in \<open>simp_all add: wait_def Let_def vk_record_def acquired_images_def
            images_size_def waits_on_def releases_of_def\<close>)
    qed
  next
    case (Acquire r)
    show ?thesis
    proof (cases "num_acquired s \<ge> n")
      case True
      then show ?thesis using Acquire sem heads by (simp add: acquire_def)
    next
      case False
      let ?i = "acquire_head s"
      have i: "?i < n" "?i \<notin> set (acquired_images s)"
        using heads False acquire_head_free [of s] by (simp_all add: heads_ok_def)
      let ?s' = "snd (swapchain_call c s)"
      have set_true: "(has_been_acquired s)[?i := True] = has_been_acquired s" if "has_been_acquired s ! ?i"
        using that by (metis list_update_id)
      have s': "images_size ?s' = n" "has_been_acquired ?s' = (has_been_acquired s)[?i := True]"
        "vk_trace ?s' = vk_trace s @ [Submit_acquire ?i (has_been_acquired s ! ?i)]"
        "acquired_images ?s' = acquired_images s @ [?i]"
        using Acquire False heads i(1) ok set_true
        by (auto simp: acquire_def Let_def vk_record_def images_size_def acquired_images_def heads_ok_def)
      have len: "length (has_been_acquired s) = n" using heads(3) by (simp add: images_size_def)
      show ?thesis
        unfolding semaphores_ok_def
      proof (intro allI impI)
        fix j assume "j < images_size ?s'"
        then have j: "j < n" by (simp add: s'(1))
        have old: "semaphore_ok j s" using sem j heads(3) by (simp add: semaphores_ok_def)
        have counts: "releases_of j ?s' = releases_of j s"
          "waits_on j ?s' = waits_on j s + (if j = ?i \<and> has_been_acquired s ! j then 1 else 0)"
          using s'(3) by (auto simp: releases_of_def waits_on_def)
        show "semaphore_ok j ?s'"
          using old counts i j len unfolding semaphore_ok_def s'(2,4)
          by (cases "j = ?i"; cases "has_been_acquired s ! j") (simp_all split: if_splits)
      qed
    qed
  next
    case (Release r r')
    show ?thesis
    proof (cases "num_acquired s = 0 \<or> wait_head s \<noteq> next_head s (release_head s)")
      case True
      then show ?thesis using Release sem by (auto simp: release_def)
    next
      case False
      let ?i = "release_head s" and ?s' = "snd (swapchain_call c s)"
      have r: "?i < n" using heads by (simp add: heads_ok_def)
      have acq: "acquired_images s = ?i # tl (acquired_images s)"
        using acquired_release(1) [of s] False r heads(3) by (cases "acquired_images s") (auto simp: acquired_Nil_iff)
      have s': "images_size ?s' = n" "has_been_acquired ?s' = has_been_acquired s"
        "vk_trace ?s' = vk_trace s @ [Reset_fence ?i, Submit_release ?i]"
        using Release False heads ok by (simp_all add: release_def Let_def vk_record_def images_size_def)
      have nxt: "next_head s ?i = (?i + 1) mod n"
        using r heads by (subst next_head_small) (simp_all add: heads_ok_def)
      have tl: "acquired_images ?s' = tl (acquired_images s)"
        using acquired_release(2) [of s] Release False r heads ok nxt
        by (simp add: release_def Let_def vk_record_def images_size_def acquired_images_def)
      have "distinct (acquired_images s)" using heads by (intro acquired_distinct) (simp add: heads_ok_def)
      then have fresh: "?i \<notin> set (tl (acquired_images s))" using acq by (metis distinct.simps(2))
      show ?thesis
        unfolding semaphores_ok_def
      proof (intro allI impI)
        fix j assume "j < images_size ?s'"
        then have old: "semaphore_ok j s" using sem heads(3) by (simp add: semaphores_ok_def s'(1))
        have mem: "j \<in> set (acquired_images s) \<longleftrightarrow> j = ?i \<or> j \<in> set (tl (acquired_images s))"
          by (subst acq) auto
        have counts: "waits_on j ?s' = waits_on j s"
          "releases_of j ?s' = releases_of j s + (if j = ?i then 1 else 0)"
          using s'(3) by (auto simp: releases_of_def waits_on_def)
        show "semaphore_ok j ?s'"
          using old mem fresh unfolding semaphore_ok_def s'(2) tl counts
          by (cases "j = ?i"; cases "has_been_acquired s ! j") (simp_all split: if_splits)
      qed
    qed
  qed
qed

interpretation semaphores: kept_invariant swapchain_call driver_ok
  "\<lambda>s. semaphores_ok s \<and> ring_ok n s \<and> 2 \<le> n" for n
  by unfold_locales (use semaphores_call call_refines in blast)

lemma run_size: "images_size (snd (run_calls swapchain_call cs s)) = images_size s"
proof (induction cs arbitrary: s)
  case (Cons c cs)
  have "images_size (snd (swapchain_call c s)) = images_size s"
    by (cases c) (simp_all add: acquire_def wait_def release_def Let_def vk_record_def images_size_def)
  then show ?case using Cons.IH by (simp add: case_prod_unfold)
qed simp

section \<open>Properties\<close>

text \<open>
  C14: A dynamic swapchain of at least two images behaves exactly like the queue that OpenXR
  specifies: for every sequence of acquire, wait and release calls and whatever the Vulkan driver
  answers, the results and image indices are those of the specification.
\<close>

theorem swapchain_implements_spec:
  assumes "2 \<le> n" "n < 2 ^ 32"
  shows "fst (run_calls swapchain_call cs (new_swapchain n False)) = fst (run_calls spec_call cs (spec_new n))"
  using ring.run_refines [where s = "new_swapchain n False" and n = n and cs = cs] ring_ok_new [OF assms] assms(1)
  by (simp add: abs_new list_all_iff)

theorem swapchain_implements_spec_witness:
  "fst (run_calls swapchain_call [Acquire 0, Release 0 0, Wait 0, Acquire 0, Acquire 0, Release 0 0] (new_swapchain 2 False))
   = [(XR_SUCCESS, Some 0), (XR_ERROR_CALL_ORDER_INVALID, None), (XR_SUCCESS, None), (XR_SUCCESS, Some 1),
      (XR_ERROR_CALL_ORDER_INVALID, None), (XR_SUCCESS, Some 0)]"
  using swapchain_implements_spec [of 2 "[Acquire 0, Release 0 0, Wait 0, Acquire 0, Acquire 0, Release 0 0]"]
  by (simp add: spec_new_def code_simps)

text \<open>
  C37: As long as the driver does not fail, an acquire never waits for a semaphore that nobody
  will signal: after any calls, the acquires of an image that wait for \<open>copying_done\<close> are at most
  as many as its releases, each of which makes the server copy the image and signal.
\<close>

theorem acquire_waits_matched:
  assumes "2 \<le> n" "n < 2 ^ 32" "list_all driver_ok cs" "i < n"
  shows "waits_on i (snd (run_calls swapchain_call cs (new_swapchain n False)))
      \<le> releases_of i (snd (run_calls swapchain_call cs (new_swapchain n False)))"
proof -
  let ?s = "new_swapchain n False" and ?e = "snd (run_calls swapchain_call cs (new_swapchain n False))"
  have "semaphores_ok ?s"
    by (simp add: semaphores_ok_def semaphore_ok_def new_swapchain_def images_size_def acquired_images_def
        waits_on_def releases_of_def)
  then have "semaphores_ok ?e"
    using semaphores.run_keeps [where s = ?s and n = n and cs = cs] ring_ok_new [OF assms(1,2)] assms(1,3) by blast
  moreover have "i < images_size ?e"
    using assms(4) by (simp add: run_size) (simp add: new_swapchain_def images_size_def)
  ultimately show ?thesis by (auto simp: semaphores_ok_def semaphore_ok_def split: if_splits)
qed

theorem acquire_waits_matched_witness:
  "waits_on 0 (snd (run_calls swapchain_call [Acquire 0, Wait 0, Release 0 0, Acquire 0, Acquire 0] (new_swapchain 2 False)))
   \<le> 1"
proof -
  have "waits_on 0 (snd (run_calls swapchain_call [Acquire 0, Wait 0, Release 0 0, Acquire 0, Acquire 0] (new_swapchain 2 False)))
      \<le> releases_of 0 (snd (run_calls swapchain_call [Acquire 0, Wait 0, Release 0 0, Acquire 0, Acquire 0] (new_swapchain 2 False)))"
    by (rule acquire_waits_matched) (simp_all add: code_simps)
  also have "\<dots> = 1"
    by (simp add: acquire_def wait_def release_def new_swapchain_def images_size_def next_head_def vk_record_def
        releases_of_def code_simps Let_def)
  finally show ?thesis .
qed

text \<open>
  After one failed submission the guarantee is gone: \<open>has_been_acquired\<close> is set before the
  submission, so the retry of a first acquire waits for a semaphore that is never signalled, and
  the only image of a static swapchain can never be acquired.
\<close>

theorem failed_first_acquire_blocks:
  assumes "0 < n" "r \<noteq> VK_SUCCESS"
  shows "(let s = snd (run_calls swapchain_call [Acquire r, Acquire VK_SUCCESS] (new_swapchain n False))
          in waits_on 0 s = 1 \<and> releases_of 0 s = 0)
    \<and> fst (run_calls swapchain_call [Acquire r, Acquire VK_SUCCESS] (new_swapchain n True))
      = [(XR_ERROR_RUNTIME_FAILURE, None), (XR_ERROR_CALL_ORDER_INVALID, None)]"
  using assms
  by (simp add: acquire_def new_swapchain_def images_size_def vk_record_def waits_on_def releases_of_def Let_def)

theorem failed_first_acquire_blocks_witness:
  "fst (run_calls swapchain_call [Acquire (- 4), Acquire VK_SUCCESS] (new_swapchain 1 True))
      = [(XR_ERROR_RUNTIME_FAILURE, None), (XR_ERROR_CALL_ORDER_INVALID, None)]"
  using failed_first_acquire_blocks [of 1 "- 4"] by (simp add: VK_SUCCESS_def)

text \<open>
  A swapchain of one image, which is what every static swapchain is, does not enforce the
  call order: the heads cannot tell a waited image from one that was not, so that the image can
  be released, and its contents copied, without having been waited for.
\<close>

theorem one_image_released_unwaited:
  "fst (run_calls swapchain_call [Acquire VK_SUCCESS, Release VK_SUCCESS VK_SUCCESS] (new_swapchain 1 static))
    = [(XR_SUCCESS, Some 0), (XR_SUCCESS, Some 0)]"
  by (simp add: acquire_def release_def new_swapchain_def images_size_def vk_record_def next_head_def Let_def)

end
