(* ===== verification/Vulkan_Client.thy ===== *)
theory Vulkan_Client
  imports Vulkan_Server_Props Vulkan_Swapchain
begin

unbundle bit_operations_syntax

text \<open>
  The client half of the Vulkan module, \<open>src/modules/vulkan/client/vulkan_core.cpp\<close> and
  \<open>image_import.cpp\<close>, in the build that reads file descriptors from the handle exchange: the
  OpenXR functions it layers over the generated stubs. The client works on a connection to the
  server half; its Vulkan driver and the extension of the call chain below it are parameters.
\<close>

section \<open>State\<close>

datatype layout = Undefined | Color_attachment_optimal | Depth_stencil_attachment_optimal | Transfer_src_optimal

datatype pipeline_stage = Top_of_pipe | All_commands | Bottom_of_pipe

text \<open>An image barrier; two equal families transfer no ownership.\<close>

record image_barrier =
  ib_stages :: "pipeline_stage \<times> pipeline_stage"
  ib_layouts :: "layout \<times> layout"
  ib_families :: "u32 \<times> u32"
  ib_image :: u64
  ib_aspect :: u32
  ib_levels :: u32
  ib_layers :: u32

definition VK_QUEUE_FAMILY_EXTERNAL :: u32 where "VK_QUEUE_FAMILY_EXTERNAL = - 2"

datatype client_op =
    Cl_create_image image_info | Cl_import_memory u32 u64 u32 | Cl_bind_memory u64 u64
  | Cl_create_semaphore | Cl_import_semaphore u64 u32 | Cl_create_fence
  | Cl_allocate_command_buffer u64 | Cl_begin_command_buffer u64 | Cl_pipeline_barrier u64 image_barrier
  | Cl_end_command_buffer u64
  | Cl_get_device_queue u32 u32 | Cl_create_command_pool u32 | Cl_destroy_command_pool u64 | Cl_queue_wait_idle u64
  | Cl_free_command_buffer u64 u64 | Cl_destroy_image u64 | Cl_free_memory u64 | Cl_destroy_semaphore u64 | Cl_destroy_fence u64
  | Cl_create_instance u32 "string list" "string list" | Cl_destroy_instance u64 | Cl_create_device u64 u64 "string list"

record imported_image =
  ii_image :: u64
  ii_memory :: u64
  ii_rendering_done :: u64
  ii_copying_done :: u64

record client_image =
  ci_imported :: imported_image
  ci_fence :: u64
  ci_acquire_buffer :: u64
  ci_release_buffer :: u64

text \<open>
  The ring of a swapchain is the state machine of \<open>Vulkan_Swapchain\<close>. A swapchain holds a reference
  to the table of Vulkan functions that was current when it was created, \<open>cs_table\<close> here.
\<close>

record client_swapchain =
  cs_parent :: u64
  cs_images :: "client_image list"
  cs_ring :: swapchain
  cs_table :: nat

record graphics_binding =
  gb_family :: u32
  gb_queue_index :: u32

record client_session =
  cl_binding :: graphics_binding
  cl_queue :: u64
  cl_command_pool :: u64
  cl_swapchains :: "u64 set"

text \<open>
  \<open>vk_table\<close> is the table that \<open>vk\<close> points to: every new one has a new number, the one before
  it is freed. The two copies of \<open>saved_xr_instance\<close> are set together and are one member here.
\<close>

record 'c vk_client =
  cl_gpu :: 'c
  cl_trace :: "client_op list"
  handles_read :: nat
  client_swapchains :: "u64 \<Rightarrow> client_swapchain option"
  client_sessions :: "u64 \<Rightarrow> client_session option"
  requirements_called :: bool
  vk_table :: "nat option"
  saved_xr_instance :: u64
  saved_vk_instance :: u64
  saved_proc_addr :: u64

definition vk_client_init :: "'c \<Rightarrow> 'c vk_client" where
  "vk_client_init c =
     \<lparr>cl_gpu = c, cl_trace = [], handles_read = 0, client_swapchains = \<lambda>h. None, client_sessions = \<lambda>h. None,
      requirements_called = False, vk_table = None, saved_xr_instance = 0, saved_vk_instance = 0, saved_proc_addr = 0\<rparr>"

text \<open>Both processes, and whether their connection is gone.\<close>

record ('c, 'd) vk_world =
  near :: "'c vk_client"
  far :: "'d vk_module"
  disconnected :: bool

definition vk_world_init :: "'c \<Rightarrow> 'd \<Rightarrow> ('c, 'd) vk_world" where
  "vk_world_init c d = \<lparr>near = vk_client_init c, far = vk_module_init d, disconnected = False\<rparr>"

definition change_near :: "('c vk_client \<Rightarrow> 'c vk_client) \<Rightarrow> (('c, 'd) vk_world, unit) action" where
  "change_near f = change (\<lambda>w. w\<lparr>near := f (near w)\<rparr>)"

type_synonym ('c, 'd, 'a) client_call = "(('c, 'd) vk_world, 'a) action"

type_synonym 'c client_driver = "client_op \<Rightarrow> 'c \<Rightarrow> (vk_result \<times> u64) \<times> 'c"

section \<open>Calls\<close>

definition gpu :: "'c client_driver \<Rightarrow> client_op \<Rightarrow> ('c, 'd, vk_result \<times> u64) client_call" where
  "gpu G c w =
     (case G c (cl_gpu (near w)) of
        (r, g) \<Rightarrow> (Ret r, w\<lparr>near := (near w)\<lparr>cl_gpu := g, cl_trace := cl_trace (near w) @ [c]\<rparr>\<rparr>))"

definition gpu_require :: "string \<Rightarrow> 'c client_driver \<Rightarrow> client_op \<Rightarrow> ('c, 'd, u64) client_call" where
  "gpu_require msg G c =
     and_then (gpu G c) (\<lambda>(r, v). if r = VK_SUCCESS then done_with v else fail_with (Std_exception msg))"

definition gpu_perform :: "'c client_driver \<Rightarrow> client_op \<Rightarrow> ('c, 'd, unit) client_call" where
  "gpu_perform G c = and_then (gpu G c) (\<lambda>r. done_with ())"

text \<open>
  A call that the server answers. An exception that leaves the handler of the server is logged there,
  and the server goes on without an answer, for which the client waits. Undefined behaviour of the
  server is taken to end its process: the connection is gone, \<open>await_message\<close> throws in the client, and
  so does every later request.
\<close>

definition connection_closed :: exn where
  "connection_closed = Transport_exception ''Transport closed''"

definition far_call :: "('d, 'a) act \<Rightarrow> ('c, 'd, 'a) client_call" where
  "far_call f w =
     (if disconnected w then (Throw connection_closed, w)
      else case f (far w) of
             (Ret x, m) \<Rightarrow> (Ret x, w\<lparr>far := m\<rparr>)
           | (Throw e, m) \<Rightarrow> (Blocked, w\<lparr>far := m\<rparr>)
           | (Blocked, m) \<Rightarrow> (Blocked, w\<lparr>far := m\<rparr>)
           | (_, m) \<Rightarrow> (Throw connection_closed, w\<lparr>far := m, disconnected := True\<rparr>))"

definition remote :: "'d driver \<Rightarrow> vulkan_request \<Rightarrow> ('c, 'd, vulkan_reply) client_call" where
  "remote D req = far_call (serve D req)"

text \<open>The handles of one image, in the order of the exchange; the client waits for a missing one.\<close>

definition next_handles :: "('c, 'd, image_handles) client_call" where
  "next_handles w =
     (case read_image_handles (drop (handles_read (near w)) (handles_out (far w))) of
        None \<Rightarrow> (Blocked, w)
      | Some (h, _) \<Rightarrow> (Ret h, w\<lparr>near := (near w)\<lparr>handles_read := handles_read (near w) + 3\<rparr>\<rparr>))"

text \<open>The result of a call: its code, or whatever the next layer of the call chain makes of it.\<close>

datatype api_result = Result xr_result | Next_layer

definition without_state :: "bool \<Rightarrow> xr_result \<Rightarrow> api_result" where
  "without_state has_next r = (if has_next then Next_layer else Result r)"

text \<open>The function-try-blocks\<close>

definition catching :: "('c, 'd, api_result \<times> 'a option) client_call \<Rightarrow> ('c, 'd, api_result \<times> 'a option) client_call" where
  "catching f w = (case f w of (Throw e, w') \<Rightarrow> (Ret (Result XR_ERROR_RUNTIME_FAILURE, None), w') | r \<Rightarrow> r)"

section \<open>Importing images\<close>

definition import_semaphore :: "'c client_driver \<Rightarrow> u32 \<Rightarrow> ('c, 'd, u64) client_call" where
  "import_semaphore G fd =
     and_then (gpu_require ''Failed to create semaphore'' G Cl_create_semaphore) (\<lambda>s.
     and_then (gpu_require ''Failed to import semaphore'' G (Cl_import_semaphore s fd)) (\<lambda>_. done_with s))"

definition import_image :: "'c client_driver \<Rightarrow> image_info \<Rightarrow> u64 \<Rightarrow> u32 \<Rightarrow> ('c, 'd, imported_image) client_call" where
  "import_image G ii memory_size memory_type =
     and_then next_handles (\<lambda>h.
     and_then (gpu_require ''Failed to create VkImage'' G (Cl_create_image ii)) (\<lambda>image.
     and_then (gpu_require ''Failed to import memory from FD'' G
         (Cl_import_memory (memory_handle h) memory_size memory_type)) (\<lambda>memory.
     and_then (gpu_require ''Failed to bind memory to image'' G (Cl_bind_memory image memory)) (\<lambda>_.
     and_then (import_semaphore G (rendering_done_handle h)) (\<lambda>rendering_done.
     and_then (import_semaphore G (copying_done_handle h)) (\<lambda>copying_done.
     done_with \<lparr>ii_image = image, ii_memory = memory, ii_rendering_done = rendering_done, ii_copying_done = copying_done\<rparr>))))))"

definition import_images ::
  "'c client_driver \<Rightarrow> image_info \<Rightarrow> u32 \<Rightarrow> u64 \<Rightarrow> u32 \<Rightarrow> ('c, 'd, imported_image list) client_call" where
  "import_images G ii num_images memory_size memory_type =
     for_each (\<lambda>i. import_image G ii memory_size memory_type) [0..<unat num_images]"

text \<open>A command buffer that holds one barrier\<close>

definition record_command_buffer ::
  "'c client_driver \<Rightarrow> u64 \<Rightarrow> image_barrier \<Rightarrow> ('c, 'd, u64) client_call" where
  "record_command_buffer G pool barrier =
     and_then (gpu_require ''Failed to allocate command buffer'' G (Cl_allocate_command_buffer pool)) (\<lambda>cb.
     and_then (gpu_require ''Unable to begin command buffer'' G (Cl_begin_command_buffer cb)) (\<lambda>_.
     and_then (gpu_perform G (Cl_pipeline_barrier cb barrier)) (\<lambda>_.
     and_then (gpu_require ''Failed to record command buffer'' G (Cl_end_command_buffer cb)) (\<lambda>_.
     done_with cb))))"

definition attachment_layout :: "image_type \<Rightarrow> layout" where
  "attachment_layout ty = (case ty of Color \<Rightarrow> Color_attachment_optimal | Depth_stencil \<Rightarrow> Depth_stencil_attachment_optimal)"

definition record_acquire_command_buffer ::
  "'c client_driver \<Rightarrow> u64 \<Rightarrow> u64 \<Rightarrow> image_type \<Rightarrow> u32 \<Rightarrow> u32 \<Rightarrow> u32 \<Rightarrow> ('c, 'd, u64) client_call" where
  "record_acquire_command_buffer G pool img ty aspect num_levels num_layers =
     record_command_buffer G pool
       \<lparr>ib_stages = (Top_of_pipe, All_commands), ib_layouts = (Undefined, attachment_layout ty), ib_families = (0, 0),
        ib_image = img, ib_aspect = aspect, ib_levels = num_levels, ib_layers = num_layers\<rparr>"

definition record_release_command_buffer ::
  "'c client_driver \<Rightarrow> u64 \<Rightarrow> u64 \<Rightarrow> image_type \<Rightarrow> u32 \<Rightarrow> u32 \<Rightarrow> u32 \<Rightarrow> u32 \<Rightarrow> ('c, 'd, u64) client_call" where
  "record_release_command_buffer G pool img ty family aspect num_levels num_layers =
     record_command_buffer G pool
       \<lparr>ib_stages = (All_commands, Bottom_of_pipe), ib_layouts = (attachment_layout ty, Transfer_src_optimal),
        ib_families = (family, VK_QUEUE_FAMILY_EXTERNAL),
        ib_image = img, ib_aspect = aspect, ib_levels = num_levels, ib_layers = num_layers\<rparr>"

definition create_client_image ::
  "'c client_driver \<Rightarrow> client_session \<Rightarrow> image_info \<Rightarrow> image_type \<Rightarrow> imported_image \<Rightarrow> ('c, 'd, client_image) client_call" where
  "create_client_image G session ii ty imported =
     (let pool = cl_command_pool session; aspect = get_aspect_from_format (im_format ii) in
      and_then (gpu_require ''Unable to create fence'' G Cl_create_fence) (\<lambda>fence.
      and_then (record_acquire_command_buffer G pool (ii_image imported) ty aspect (im_mips ii) (im_layers ii)) (\<lambda>acquire_buffer.
      and_then (record_release_command_buffer G pool (ii_image imported) ty (gb_family (cl_binding session)) aspect
          (im_mips ii) (im_layers ii)) (\<lambda>release_buffer.
      done_with
        \<lparr>ci_imported = imported, ci_fence = fence, ci_acquire_buffer = acquire_buffer, ci_release_buffer = release_buffer\<rparr>))))"

section \<open>Swapchains\<close>

text \<open>Unlike the server, the client refuses images that are both; it asks after the server's reply.\<close>

definition client_image_type :: "u64 \<Rightarrow> image_type option" where
  "client_image_type usage =
     (let both = XR_SWAPCHAIN_USAGE_COLOR_ATTACHMENT_BIT OR XR_SWAPCHAIN_USAGE_DEPTH_STENCIL_ATTACHMENT_BIT
      in if usage AND both = both then None
         else if usage AND XR_SWAPCHAIN_USAGE_COLOR_ATTACHMENT_BIT \<noteq> 0 then Some Color
         else if usage AND XR_SWAPCHAIN_USAGE_DEPTH_STENCIL_ATTACHMENT_BIT \<noteq> 0 then Some Depth_stencil
         else None)"

text \<open>The constructor of the state looks its session up; \<open>emplace\<close> keeps an entry that is there.\<close>

definition store_client_swapchain :: "u64 \<Rightarrow> client_swapchain \<Rightarrow> ('c, 'd, unit) client_call" where
  "store_client_swapchain h cs =
     and_then (value_of (\<lambda>w. client_sessions (near w) (cs_parent cs))) (\<lambda>_.
     change_near (\<lambda>c. c\<lparr>client_swapchains :=
       (case client_swapchains c h of Some old \<Rightarrow> client_swapchains c | None \<Rightarrow> (client_swapchains c)(h \<mapsto> cs))\<rparr>))"

definition store_client_session :: "u64 \<Rightarrow> client_session \<Rightarrow> ('c, 'd, unit) client_call" where
  "store_client_session s ss =
     change_near (\<lambda>c. c\<lparr>client_sessions :=
       (case client_sessions c s of Some old \<Rightarrow> client_sessions c | None \<Rightarrow> (client_sessions c)(s \<mapsto> ss))\<rparr>)"

definition update_client_session :: "u64 \<Rightarrow> (u64 set \<Rightarrow> u64 set) \<Rightarrow> ('c, 'd, unit) client_call" where
  "update_client_session s f =
     change_near (\<lambda>c. c\<lparr>client_sessions :=
       (client_sessions c)(s := map_option (\<lambda>x. x\<lparr>cl_swapchains := f (cl_swapchains x)\<rparr>) (client_sessions c s))\<rparr>)"

definition is_static_swapchain :: "swapchain_info \<Rightarrow> bool" where
  "is_static_swapchain info \<longleftrightarrow> sw_create_flags info AND XR_SWAPCHAIN_CREATE_STATIC_IMAGE_BIT \<noteq> 0"

text \<open>\<open>vk\<close> is dereferenced here; it points to a table, since a session exists.\<close>

definition register_swapchain ::
  "u64 \<Rightarrow> swapchain_info \<Rightarrow> u64 \<Rightarrow> client_image list \<Rightarrow> ('c, 'd, api_result \<times> u64 option) client_call" where
  "register_swapchain session info h images =
     and_then (ask (\<lambda>w. vk_table (near w))) (\<lambda>table.
     case table of
       None \<Rightarrow> (\<lambda>w. (Fault, w))
     | Some t \<Rightarrow>
         and_then (store_client_swapchain h
             \<lparr>cs_parent = session, cs_images = images, cs_ring = new_swapchain (length images) (is_static_swapchain info),
              cs_table = t\<rparr>) (\<lambda>_.
         and_then (update_client_session session (insert h)) (\<lambda>_.
         done_with (Result XR_SUCCESS, Some h))))"

definition finish_swapchain ::
  "'c client_driver \<Rightarrow> u64 \<Rightarrow> client_session \<Rightarrow> swapchain_info \<Rightarrow> u64 \<Rightarrow> u32 \<Rightarrow> u64 \<Rightarrow> u32 \<Rightarrow> image_type \<Rightarrow>
   ('c, 'd, api_result \<times> u64 option) client_call" where
  "finish_swapchain G session ss info h num_images memory_size memory_type ty =
     and_then (import_images G (shared_image_info info) num_images memory_size memory_type) (\<lambda>imported.
     and_then (for_each (create_client_image G ss (create_vk_image_create_info info) ty) imported) (\<lambda>images.
     register_swapchain session info h images))"

text \<open>A call on a swapchain or session that this module does not know goes to the next layer.\<close>

definition of_swapchain ::
  "bool \<Rightarrow> u64 \<Rightarrow> (client_swapchain \<Rightarrow> ('c, 'd, api_result \<times> 'a option) client_call) \<Rightarrow>
   ('c, 'd, api_result \<times> 'a option) client_call" where
  "of_swapchain has_next h f =
     and_then (ask (\<lambda>w. client_swapchains (near w) h)) (\<lambda>known.
     case known of None \<Rightarrow> done_with (without_state has_next XR_ERROR_HANDLE_INVALID, None) | Some cs \<Rightarrow> f cs)"

definition of_session ::
  "bool \<Rightarrow> u64 \<Rightarrow> (client_session \<Rightarrow> ('c, 'd, api_result \<times> 'a option) client_call) \<Rightarrow>
   ('c, 'd, api_result \<times> 'a option) client_call" where
  "of_session has_next s f =
     and_then (ask (\<lambda>w. client_sessions (near w) s)) (\<lambda>known.
     case known of None \<Rightarrow> done_with (without_state has_next XR_ERROR_HANDLE_INVALID, None) | Some ss \<Rightarrow> f ss)"

definition unexpected_reply :: exn where
  "unexpected_reply = Std_exception ''unexpected reply''"

definition xrCreateSwapchain ::
  "'d driver \<Rightarrow> 'c client_driver \<Rightarrow> bool \<Rightarrow> u64 \<Rightarrow> swapchain_info \<Rightarrow> ('c, 'd, api_result \<times> u64 option) client_call" where
  "xrCreateSwapchain D G has_next session info =
     catching (of_session has_next session (\<lambda>ss.
       and_then (remote D (Create_swapchain session info)) (\<lambda>rep.
       case rep of
         Swapchain_refused r \<Rightarrow> done_with (Result r, None)
       | Swapchain_created h num_images memory_size memory_type \<Rightarrow>
           (case client_image_type (sw_usage info) of
              None \<Rightarrow> done_with (Result XR_ERROR_VALIDATION_FAILURE, None)
            | Some ty \<Rightarrow> finish_swapchain G session ss info h num_images memory_size memory_type ty)
       | _ \<Rightarrow> fail_with unexpected_reply)))"

definition destroy_client_image :: "'c client_driver \<Rightarrow> u64 \<Rightarrow> client_image \<Rightarrow> ('c, 'd, unit) client_call" where
  "destroy_client_image G pool ci =
     and_then (gpu_perform G (Cl_free_command_buffer pool (ci_acquire_buffer ci))) (\<lambda>_.
     and_then (gpu_perform G (Cl_free_command_buffer pool (ci_release_buffer ci))) (\<lambda>_.
     and_then (gpu_perform G (Cl_destroy_image (ii_image (ci_imported ci)))) (\<lambda>_.
     and_then (gpu_perform G (Cl_free_memory (ii_memory (ci_imported ci)))) (\<lambda>_.
     and_then (gpu_perform G (Cl_destroy_semaphore (ii_rendering_done (ci_imported ci)))) (\<lambda>_.
     and_then (gpu_perform G (Cl_destroy_semaphore (ii_copying_done (ci_imported ci)))) (\<lambda>_.
     gpu_perform G (Cl_destroy_fence (ci_fence ci))))))))"

definition xrDestroySwapchain ::
  "'d driver \<Rightarrow> 'c client_driver \<Rightarrow> bool \<Rightarrow> u64 \<Rightarrow> ('c, 'd, api_result \<times> unit option) client_call" where
  "xrDestroySwapchain D G has_next h =
     catching (of_swapchain has_next h (\<lambda>cs.
       and_then (value_of (\<lambda>w. client_sessions (near w) (cs_parent cs))) (\<lambda>ss.
       and_then (gpu_perform G (Cl_queue_wait_idle (cl_queue ss))) (\<lambda>_.
       and_then (for_each (destroy_client_image G (cl_command_pool ss)) (cs_images cs)) (\<lambda>_.
       and_then (update_client_session (cs_parent cs) (\<lambda>hs. hs - {h})) (\<lambda>_.
       and_then (change_near (\<lambda>c. c\<lparr>client_swapchains := (client_swapchains c)(h := None)\<rparr>)) (\<lambda>_.
       and_then (remote D (Destroy_swapchain h)) (\<lambda>_.
       done_with (Result XR_SUCCESS, None)))))))))"

text \<open>The count is not written when the capacity is too small.\<close>

definition xrEnumerateSwapchainImages ::
  "bool \<Rightarrow> u64 \<Rightarrow> u32 \<Rightarrow> ('c, 'd, api_result \<times> (u32 \<times> u64 list) option) client_call" where
  "xrEnumerateSwapchainImages has_next h capacity =
     of_swapchain has_next h (\<lambda>cs.
       let n = word_of_nat (length (cs_images cs)) in
       if capacity = 0 then done_with (Result XR_SUCCESS, Some (n, []))
       else if capacity < n then done_with (Result XR_ERROR_SIZE_INSUFFICIENT, None)
       else done_with (Result XR_SUCCESS, Some (n, map (\<lambda>ci. ii_image (ci_imported ci)) (cs_images cs))))"

text \<open>
  A call on the ring; its argument holds the results of the driver. The driver is called through the
  table of the swapchain: when that has been freed, a step that calls it is undefined.
\<close>

definition ring_step :: "u64 \<Rightarrow> client_swapchain \<Rightarrow> call \<Rightarrow> ('c, 'd, xr_result \<times> nat option) client_call" where
  "ring_step h cs c w =
     (case swapchain_call c (cs_ring cs) of
        (r, ring) \<Rightarrow>
          if vk_trace ring \<noteq> vk_trace (cs_ring cs) \<and> vk_table (near w) \<noteq> Some (cs_table cs) then (Fault, w)
          else (Ret r, w\<lparr>near := (near w)\<lparr>client_swapchains := (client_swapchains (near w))(h \<mapsto> cs\<lparr>cs_ring := ring\<rparr>)\<rparr>\<rparr>))"

definition xrAcquireSwapchainImage :: "bool \<Rightarrow> u64 \<Rightarrow> vk_result \<Rightarrow> ('c, 'd, api_result \<times> nat option) client_call" where
  "xrAcquireSwapchainImage has_next h submit =
     of_swapchain has_next h (\<lambda>cs. and_then (ring_step h cs (Acquire submit)) (\<lambda>(r, i). done_with (Result r, i)))"

definition xrWaitSwapchainImage :: "bool \<Rightarrow> u64 \<Rightarrow> vk_result \<Rightarrow> ('c, 'd, api_result \<times> nat option) client_call" where
  "xrWaitSwapchainImage has_next h result =
     of_swapchain has_next h (\<lambda>cs. and_then (ring_step h cs (Wait result)) (\<lambda>(r, i). done_with (Result r, None)))"

definition xrReleaseSwapchainImage ::
  "'d driver \<Rightarrow> bool \<Rightarrow> u64 \<Rightarrow> vk_result \<Rightarrow> vk_result \<Rightarrow> ('c, 'd, api_result \<times> unit option) client_call" where
  "xrReleaseSwapchainImage D has_next h reset submit =
     catching (of_swapchain has_next h (\<lambda>cs.
       and_then (value_of (\<lambda>w. client_sessions (near w) (cs_parent cs))) (\<lambda>ss.
       and_then (ring_step h cs (Release reset submit)) (\<lambda>(r, i).
       if r \<noteq> XR_SUCCESS then done_with (Result r, None)
       else and_then (remote D (Release_swapchain_image h (case i of None \<Rightarrow> 0 | Some k \<Rightarrow> word_of_nat k))) (\<lambda>_.
         done_with (Result XR_SUCCESS, None))))))"

section \<open>Sessions\<close>

definition initialize_vulkan :: "('c, 'd, unit) client_call" where
  "initialize_vulkan =
     change_near (\<lambda>c. c\<lparr>vk_table := (case vk_table c of None \<Rightarrow> Some 0 | Some t \<Rightarrow> Some t)\<rparr>)"

text \<open>A chain of structs: their types and what a Vulkan binding among them holds\<close>

datatype chained_struct = Vulkan_binding graphics_binding | Other_struct u32

fun find_graphics_binding :: "chained_struct list \<Rightarrow> graphics_binding option" where
  "find_graphics_binding [] = None"
| "find_graphics_binding (Vulkan_binding gb # chain) = Some gb"
| "find_graphics_binding (Other_struct ty # chain) = find_graphics_binding chain"

definition open_session ::
  "'d driver \<Rightarrow> 'c client_driver \<Rightarrow> graphics_binding \<Rightarrow> u64 \<Rightarrow> ('c, 'd, api_result \<times> u64 option) client_call" where
  "open_session D G gb flags =
     and_then (remote D (Create_session flags)) (\<lambda>rep.
     case rep of
       Session_created s \<Rightarrow>
         and_then (gpu G (Cl_get_device_queue (gb_family gb) (gb_queue_index gb))) (\<lambda>(r, queue).
         and_then (gpu_require ''Failed to create command pool'' G (Cl_create_command_pool (gb_family gb))) (\<lambda>pool.
         and_then (store_client_session s
             \<lparr>cl_binding = gb, cl_queue = queue, cl_command_pool = pool, cl_swapchains = {}\<rparr>) (\<lambda>_.
         done_with (Result XR_SUCCESS, Some s))))
     | _ \<Rightarrow> fail_with unexpected_reply)"

text \<open>The new table is loaded through the old one, and replaces it before the server is asked.\<close>

definition xrCreateSession ::
  "'d driver \<Rightarrow> 'c client_driver \<Rightarrow> bool \<Rightarrow> u64 \<Rightarrow> chained_struct list \<Rightarrow> u64 \<Rightarrow> ('c, 'd, api_result \<times> u64 option) client_call" where
  "xrCreateSession D G has_next inst chain flags =
     (case find_graphics_binding chain of
        None \<Rightarrow> done_with (without_state has_next XR_ERROR_GRAPHICS_DEVICE_INVALID, None)
      | Some gb \<Rightarrow>
          catching (and_then (ask near) (\<lambda>c.
          if inst \<noteq> saved_xr_instance c then done_with (Result XR_ERROR_HANDLE_INVALID, None)
          else if \<not> requirements_called c then done_with (Result XR_ERROR_GRAPHICS_REQUIREMENTS_CALL_MISSING, None)
          else (case vk_table c of
            None \<Rightarrow> (\<lambda>w. (Fault, w))
          | Some t \<Rightarrow>
              and_then (change_near (\<lambda>c. c\<lparr>vk_table := Some (Suc t)\<rparr>)) (\<lambda>_. open_session D G gb flags)))))"

text \<open>The swapchains are copied first, in the order of the set (here by handle).\<close>

definition xrDestroySession ::
  "'d driver \<Rightarrow> 'c client_driver \<Rightarrow> bool \<Rightarrow> u64 \<Rightarrow> ('c, 'd, api_result \<times> unit option) client_call" where
  "xrDestroySession D G has_next s =
     catching (of_session has_next s (\<lambda>ss.
       and_then (for_each (xrDestroySwapchain D G has_next) (sorted_list_of_set (cl_swapchains ss))) (\<lambda>_.
       and_then (gpu_perform G (Cl_destroy_command_pool (cl_command_pool ss))) (\<lambda>_.
       and_then (remote D (Destroy_session s)) (\<lambda>_.
       done_with (Result XR_SUCCESS, None))))))"

end
