(* ===== verification/Vulkan_Client_Module.thy ===== *)
theory Vulkan_Client_Module
  imports Vulkan_Client Client_Entry
begin

unbundle bit_operations_syntax

text \<open>
  The client module itself, \<open>src/modules/vulkan/client/vulkan_client_module.cpp\<close>: the functions of
  the two Vulkan extensions, which create instance and device for the application and choose the
  GPU of the server, and the tables with which the module registers its layer.
\<close>

section \<open>Strings\<close>

text \<open>
  The count includes the final null byte. \<open>None\<close> in the first place is a null pointer for the count,
  \<open>can_write\<close> says that the buffer is not null; the result has what is written to count and buffer.
\<close>

definition return_string_buffer ::
  "string \<Rightarrow> u32 \<Rightarrow> bool \<Rightarrow> bool \<Rightarrow> xr_result \<times> u32 option \<times> string option" where
  "return_string_buffer text capacity_in has_count can_write =
     (let n = word_of_nat (length text + 1) in
      if \<not> has_count then (XR_ERROR_VALIDATION_FAILURE, None, None)
      else if capacity_in = 0 then (XR_SUCCESS, Some n, None)
      else if capacity_in < n then (XR_ERROR_SIZE_INSUFFICIENT, Some n, None)
      else if \<not> can_write then (XR_ERROR_VALIDATION_FAILURE, Some n, None)
      else (XR_SUCCESS, Some n, Some text))"

definition vulkan_instance_extensions :: string where
  "vulkan_instance_extensions = ''VK_KHR_get_physical_device_properties2''"

definition vulkan_device_extensions :: string where
  "vulkan_device_extensions =
     ''VK_KHR_external_memory_fd VK_KHR_external_semaphore_fd VK_KHR_external_memory VK_KHR_external_semaphore VK_KHR_multiview''"

text \<open>\<open>strncmp\<close> with 256 characters, on strings without null characters\<close>

definition add_string_if_not_present :: "string \<Rightarrow> string list \<Rightarrow> string list" where
  "add_string_if_not_present s strings =
     (if list_ex (\<lambda>e. take 256 e = take 256 s) strings then strings else strings @ [s])"

section \<open>The first extension\<close>

definition for_instance :: "u64 \<Rightarrow> ('c, 'd, api_result \<times> 'a option) client_call \<Rightarrow> ('c, 'd, api_result \<times> 'a option) client_call" where
  "for_instance inst f =
     and_then (ask (\<lambda>w. saved_xr_instance (near w))) (\<lambda>known.
     if inst \<noteq> known then done_with (Result XR_ERROR_HANDLE_INVALID, None) else f)"

definition string_result :: "xr_result \<times> u32 option \<times> string option \<Rightarrow> api_result \<times> (u32 option \<times> string option) option" where
  "string_result r = (case r of (x, out) \<Rightarrow> (Result x, Some out))"

text \<open>Asking for the instance extensions is what loads the functions of Vulkan.\<close>

definition xrGetVulkanInstanceExtensions ::
  "u64 \<Rightarrow> u32 \<Rightarrow> bool \<Rightarrow> bool \<Rightarrow> ('c, 'd, api_result \<times> (u32 option \<times> string option) option) client_call" where
  "xrGetVulkanInstanceExtensions inst capacity has_count can_write =
     for_instance inst (and_then initialize_vulkan (\<lambda>_.
       done_with (string_result (return_string_buffer vulkan_instance_extensions capacity has_count can_write))))"

definition xrGetVulkanDeviceExtensions ::
  "u64 \<Rightarrow> u32 \<Rightarrow> bool \<Rightarrow> bool \<Rightarrow> ('c, 'd, api_result \<times> (u32 option \<times> string option) option) client_call" where
  "xrGetVulkanDeviceExtensions inst capacity has_count can_write =
     for_instance inst (done_with (string_result (return_string_buffer vulkan_device_extensions capacity has_count can_write)))"

text \<open>
  The GPUs of the client as its Vulkan reports them: the results of the two calls that list them, the
  list, and the UUID of each; a list that shrinks between the calls is not modelled.
\<close>

record device_list =
  dl_count_result :: vk_result
  dl_list_result :: vk_result
  dl_devices :: "u64 list"
  dl_uuid :: "u64 \<Rightarrow> bytes"

fun find_device :: "(u64 \<Rightarrow> bytes) \<Rightarrow> bytes \<Rightarrow> u64 list \<Rightarrow> u64" where
  "find_device uuid target [] = 0"
| "find_device uuid target (phys # devices) = (if uuid phys = target then phys else find_device uuid target devices)"

definition get_physical_device :: "'d driver \<Rightarrow> device_list \<Rightarrow> ('c, 'd, u64) client_call" where
  "get_physical_device D dl =
     and_then (remote D Get_physical_device) (\<lambda>rep.
     case rep of
       Physical_device target \<Rightarrow>
         if dl_count_result dl \<noteq> VK_SUCCESS then fail_with (Std_exception ''Unable to get physical device count'')
         else if dl_list_result dl \<noteq> VK_SUCCESS then fail_with (Std_exception ''Unable to list physical devices'')
         else let found = find_device (dl_uuid dl) target (dl_devices dl) in
              if found = 0 then fail_with (Std_exception ''Did not find any devices with UUID supplied by server'')
              else done_with found
     | _ \<Rightarrow> fail_with unexpected_reply)"

definition xrGetVulkanGraphicsDevice ::
  "'d driver \<Rightarrow> u64 \<Rightarrow> device_list \<Rightarrow> ('c, 'd, api_result \<times> u64 option) client_call" where
  "xrGetVulkanGraphicsDevice D inst dl =
     catching (for_instance inst (and_then (get_physical_device D dl) (\<lambda>phys. done_with (Result XR_SUCCESS, Some phys))))"

text \<open>Versions 1.1.0 to 1.4.0, as \<open>XR_MAKE_VERSION\<close> packs them\<close>

definition xr_make_version :: "u64 \<Rightarrow> u64 \<Rightarrow> u64 \<Rightarrow> u64" where
  "xr_make_version major minor patch = push_bit 48 (major AND 0xffff) OR push_bit 32 (minor AND 0xffff) OR (patch AND 0xffffffff)"

definition xrGetVulkanGraphicsRequirements :: "u64 \<Rightarrow> ('c, 'd, api_result \<times> (u64 \<times> u64) option) client_call" where
  "xrGetVulkanGraphicsRequirements inst =
     for_instance inst (and_then (change_near (\<lambda>c. c\<lparr>requirements_called := True\<rparr>)) (\<lambda>_.
       done_with (Result XR_SUCCESS, Some (xr_make_version 1 1 0, xr_make_version 1 4 0))))"

section \<open>The second extension\<close>

text \<open>
  What the application asks for, as far as it is looked at; a missing application info is a null
  pointer, which the code copies from. \<open>ndebug\<close> is the build without assertions.
\<close>

record vulkan_instance_info =
  vi_proc_addr :: u64
  vi_api_version :: "u32 option"
  vi_extensions :: "string list"
  vi_layers :: "string list"

definition VK_API_VERSION_1_1 :: u32 where "VK_API_VERSION_1_1 = push_bit 22 1 OR push_bit 12 1"

definition requested_layers :: "bool \<Rightarrow> string list \<Rightarrow> string list" where
  "requested_layers ndebug layers =
     (if ndebug then layers else add_string_if_not_present ''VK_LAYER_KHRONOS_validation'' layers)"

definition xrCreateVulkanInstance ::
  "bool \<Rightarrow> 'c client_driver \<Rightarrow> u64 \<Rightarrow> vulkan_instance_info \<Rightarrow> ('c, 'd, api_result \<times> (vk_result \<times> u64) option) client_call" where
  "xrCreateVulkanInstance ndebug G inst info =
     for_instance inst
      (and_then (change_near (\<lambda>c. c\<lparr>saved_proc_addr := vi_proc_addr info\<rparr>)) (\<lambda>_.
       and_then initialize_vulkan (\<lambda>_.
       and_then (ask (\<lambda>w. saved_vk_instance (near w))) (\<lambda>old.
       and_then (if old = 0 then done_with ()
                 else and_then (gpu_perform G (Cl_destroy_instance old)) (\<lambda>_.
                      change_near (\<lambda>c. c\<lparr>saved_vk_instance := 0\<rparr>))) (\<lambda>_.
       case vi_api_version info of
         None \<Rightarrow> (\<lambda>w. (Fault, w))
       | Some version \<Rightarrow>
           and_then (gpu G (Cl_create_instance (max version VK_API_VERSION_1_1) (vi_extensions info)
               (requested_layers ndebug (vi_layers info)))) (\<lambda>(r, v).
           if r \<noteq> VK_SUCCESS then done_with (Result XR_ERROR_VALIDATION_FAILURE, Some (r, v))
           else and_then (change_near (\<lambda>c. c\<lparr>saved_vk_instance := v\<rparr>)) (\<lambda>_.
             done_with (Result XR_SUCCESS, Some (r, v)))))))))"

definition device_extensions :: "string list \<Rightarrow> string list" where
  "device_extensions requested =
     add_string_if_not_present ''VK_KHR_external_semaphore_fd''
       (add_string_if_not_present ''VK_KHR_external_memory_fd'' requested)"

definition xrCreateVulkanDevice ::
  "bool \<Rightarrow> 'c client_driver \<Rightarrow> u64 \<Rightarrow> u64 \<Rightarrow> u64 \<Rightarrow> string list \<Rightarrow> ('c, 'd, api_result \<times> (vk_result \<times> u64) option) client_call" where
  "xrCreateVulkanDevice ndebug G inst proc_addr phys extensions =
     for_instance inst (and_then (ask near) (\<lambda>c.
       if \<not> ndebug \<and> saved_proc_addr c \<noteq> proc_addr then (\<lambda>w. (Terminate, w))
       else and_then (gpu G (Cl_create_device (saved_vk_instance c) phys (device_extensions extensions))) (\<lambda>(r, v).
         done_with (Result (if r \<noteq> VK_SUCCESS then XR_ERROR_VALIDATION_FAILURE else XR_SUCCESS), Some (r, v)))))"

section \<open>The module\<close>

text \<open>The two extensions with the functions they add, and the layer of sixteen functions.\<close>

definition vulkan_function_names :: "string list" where
  "vulkan_function_names =
     [''xrGetVulkanInstanceExtensionsKHR'', ''xrGetVulkanDeviceExtensionsKHR'', ''xrGetVulkanGraphicsDeviceKHR'',
      ''xrGetVulkanGraphicsRequirementsKHR'']"

definition vulkan2_function_names :: "string list" where
  "vulkan2_function_names =
     [''xrCreateVulkanInstanceKHR'', ''xrCreateVulkanDeviceKHR'', ''xrGetVulkanGraphicsDevice2KHR'',
      ''xrGetVulkanGraphicsRequirements2KHR'']"

definition vulkan_core_function_names :: "string list" where
  "vulkan_core_function_names =
     [''xrCreateSwapchain'', ''xrDestroySwapchain'', ''xrEnumerateSwapchainImages'', ''xrAcquireSwapchainImage'',
      ''xrWaitSwapchainImage'', ''xrReleaseSwapchainImage'', ''xrCreateSession'', ''xrDestroySession'']"

definition vulkan_module_info :: "module_info" where
  "vulkan_module_info =
     \<lparr>mi_extensions =
        [\<lparr>me_name = ''XR_KHR_vulkan_enable'', me_version = 10, me_functions = vulkan_function_names\<rparr>,
         \<lparr>me_name = ''XR_KHR_vulkan_enable2'', me_version = 2, me_functions = vulkan2_function_names\<rparr>],
      mi_functions = map (\<lambda>f. (f, Module_function ''vulkan'' f))
        (vulkan_function_names @ vulkan2_function_names @ vulkan_core_function_names)\<rparr>"

definition client_on_instance :: "u64 \<Rightarrow> ('c, 'd, unit) client_call" where
  "client_on_instance inst = change_near (\<lambda>c. c\<lparr>saved_xr_instance := inst\<rparr>)"

text \<open>
  What \<open>xrCreateInstance\<close> and \<open>xrDestroyInstance\<close> mean for the two halves: the server tells its half
  before it answers, the client its own afterwards; only the server's half hears of the end.
\<close>

definition instance_creation :: "'d driver \<Rightarrow> u64 \<Rightarrow> ('c, 'd, api_result \<times> unit option) client_call" where
  "instance_creation D inst =
     catching (and_then (far_call (on_instance D inst)) (\<lambda>_.
       and_then (client_on_instance inst) (\<lambda>_. done_with (Result XR_SUCCESS, None))))"

definition instance_end :: "'d driver \<Rightarrow> ('c, 'd, api_result \<times> unit option) client_call" where
  "instance_end D =
     catching (and_then (far_call (on_instance_destroy D)) (\<lambda>_. done_with (Result XR_SUCCESS, None)))"

end
