(* ===== verification/Vulkan_Client_Laws.thy ===== *)
theory Vulkan_Client_Laws
  imports Vulkan_Client_Module
begin

unbundle bit_operations_syntax

text \<open>
  The books of the two halves of the Vulkan module agree: what the client knows, the server knows.
  Every call of the application is an action on the two processes; the triples of \<open>Actions\<close> carry the
  agreement through it on every way it can end.
\<close>

section \<open>Steps of the client alone\<close>

text \<open>A step that touches neither the server nor the books of the client.\<close>

definition still :: "('c, 'd) vk_world \<Rightarrow> ('c, 'd) vk_world \<Rightarrow> bool" where
  "still w w' \<longleftrightarrow>
     far w' = far w \<and> disconnected w' = disconnected w \<and> client_swapchains (near w') = client_swapchains (near w) \<and>
     client_sessions (near w') = client_sessions (near w) \<and> vk_table (near w') = vk_table (near w)"

interpretation still: step_preorder still
  by unfold_locales (auto simp: still_def)

abbreviation calm :: "('c, 'd, 'a) client_call \<Rightarrow> bool" where
  "calm \<equiv> still.follows"

lemmas calm_intros = still.follows_and_then still.follows_for_each

lemma calm_gpu [simp]: "calm (gpu G c)"
  by (auto simp: still.follows_def still_def gpu_def split: prod.split)

lemma calm_gpu_require [simp]: "calm (gpu_require msg G c)"
  unfolding gpu_require_def by (intro calm_intros calm_gpu) (auto split: prod.split)

lemma calm_gpu_perform [simp]: "calm (gpu_perform G c)"
  unfolding gpu_perform_def by (intro calm_intros calm_gpu) simp

lemma calm_next_handles [simp]: "calm next_handles"
  by (auto simp: still.follows_def still_def next_handles_def split: option.split prod.split)

lemma calm_import_images [simp]: "calm (import_images G ii n sz ty)"
  unfolding import_images_def import_image_def import_semaphore_def by (intro calm_intros) simp_all

lemma calm_create_client_image [simp]: "calm (create_client_image G ss ii ty imported)"
  unfolding create_client_image_def record_acquire_command_buffer_def record_release_command_buffer_def
    record_command_buffer_def Let_def by (intro calm_intros) simp_all

lemma calm_destroy_client_image [simp]: "calm (destroy_client_image G pool ci)"
  unfolding destroy_client_image_def by (intro calm_intros) simp_all

section \<open>Steps of the server\<close>

text \<open>Swapchains stay as they are, those of \<open>H\<close> apart, and no session is lost.\<close>

definition keeps_books :: "u64 set \<Rightarrow> 'd vk_module \<Rightarrow> 'd vk_module \<Rightarrow> bool" where
  "keeps_books H m m' \<longleftrightarrow>
     (\<forall>h. h \<notin> H \<longrightarrow> swapchain_states m h \<noteq> None \<longrightarrow> swapchain_states m' h = swapchain_states m h) \<and>
     (\<forall>s. session_states m s \<noteq> None \<longrightarrow> session_states m' s \<noteq> None)"

interpretation books: step_preorder "keeps_books H" for H
  by unfold_locales (auto simp: keeps_books_def)

lemma books_quiet: "quiet live f \<Longrightarrow> books.follows H f"
  by (auto simp: quiet_def books.follows_def keeps_books_def unchanged_def)

lemma books_store_swapchain [simp]: "books.follows H (store_swapchain_state h sc)"
  and books_store_session [simp]: "books.follows H (store_session_state s)"
  and books_update_session [simp]: "books.follows H (update_session s f)"
  by (auto simp: books.follows_def keeps_books_def store_swapchain_state_def store_session_state_def update_session_def
      change_def split: option.split)

lemma books_erase: "books.follows {h} (change (\<lambda>m. m\<lparr>swapchain_states := (swapchain_states m)(h := None)\<rparr>))"
  by (simp add: books.follows_def keeps_books_def change_def)

lemma books_perform: "books.follows H (perform D c)" and books_issue: "books.follows H (issue D c)"
  by (auto simp: books.follows_def keeps_books_def perform_def issue_def and_then_def done_with_def split: prod.split)

lemma books_has_instance_functions [simp]: "books.follows H has_instance_functions"
  by (simp add: books.follows_def keeps_books_def has_instance_functions_def)

lemma books_require: "books.follows H (require ok msg D c)"
  unfolding require_def by (intro books.follows_and_then books_issue) (auto split: prod.split)

lemma books_share_images:
  assumes "runtime_handles D live"
  shows "books.follows H (share_images D s info h n)"
  unfolding share_images_def
  by (intro books.follows_and_then books.follows_for_each books_quiet [OF quiet_create_image [OF assms]])
    (auto intro!: books.follows_and_then split: option.split)

definition destroyed_by :: "vulkan_request \<Rightarrow> u64 set" where
  "destroyed_by req = (case req of Destroy_swapchain h \<Rightarrow> {h} | _ \<Rightarrow> {})"

lemma serve_keeps_books:
  assumes R: "runtime_handles D live"
  shows "keeps_books (destroyed_by req) m (snd (serve D req m))"
proof -
  have "books.follows (destroyed_by req) (serve D req)"
  proof (cases req)
    case (Create_swapchain s info)
    have "books.follows {} (handle_create_swapchain D s info)"
      unfolding handle_create_swapchain_def create_swapchain_state_def
      by (auto intro!: books.follows_and_then books.follows_for_each books_issue books_require books_share_images [OF R]
          books_quiet [OF quiet_send_image_handles [OF R]] split: prod.split)
    then show ?thesis using Create_swapchain by (simp add: destroyed_by_def)
  next
    case (Destroy_swapchain h)
    have "books.follows {h} (handle_destroy_swapchain D h)"
      unfolding handle_destroy_swapchain_def destroy_swapchain_def destroy_image_def
      by (auto intro!: books.follows_and_then books.follows_for_each books_perform books_erase)
    then show ?thesis using Destroy_swapchain by (simp add: destroyed_by_def)
  next
    case (Create_session f)
    have "books.follows {} (handle_create_session D f)"
      unfolding handle_create_session_def by (auto intro!: books.follows_and_then books_require)
    then show ?thesis using Create_session by (simp add: destroyed_by_def)
  next
    case (Destroy_session s)
    have "books.follows {} (handle_destroy_session D s)"
      unfolding handle_destroy_session_def by (auto intro!: books.follows_and_then books_perform)
    then show ?thesis using Destroy_session by (simp add: destroyed_by_def)
  next
    case (Release_swapchain_image h i)
    then show ?thesis using books_quiet [OF quiet_release [OF R]] by (simp add: destroyed_by_def)
  qed (simp_all add: destroyed_by_def)
  then show ?thesis by (simp add: books.follows_def)
qed

text \<open>The notices of an instance change none of this.\<close>

lemma books_setup: "books.follows H (setup_vulkan_instance D)"
proof -
  have change: "books.follows H (change t)"
    if "\<And>m. swapchain_states (t m) = swapchain_states m \<and> session_states (t m) = session_states m" for t :: "'a vk_module \<Rightarrow> 'a vk_module"
    by (rule books.follows_change) (use that in \<open>simp add: keeps_books_def\<close>)
  have both: "books.follows H (require_both ok vm xm D c)" for ok vm xm c
    unfolding require_both_def by (auto intro!: books.follows_and_then books_issue split: prod.split)
  show ?thesis
    unfolding setup_vulkan_instance_def
    by (auto intro!: books.follows_and_then books_require both change split: option.split)
qed

lemma books_of_on_instance: "books.follows H (on_instance D inst)"
proof -
  have "books.follows H (load_function D name)" for name
    by (simp add: books.follows_def keeps_books_def load_function_def)
  then show ?thesis unfolding on_instance_def
    by (intro books.follows_and_then books.follows_for_each books_setup books.follows_change) (simp add: keeps_books_def)
qed

lemma books_of_on_instance_destroy: "books.follows H (on_instance_destroy D)"
  unfolding on_instance_destroy_def
  by (intro books.follows_and_then books.follows_change books_perform) (simp_all add: keeps_books_def)

section \<open>What the server answers to a creation\<close>

text \<open>The descriptors of an image: what the driver gave for its memory and its two semaphores.\<close>

type_synonym fds = "u64 \<times> u64 \<times> u64"

definition handles_of :: "fds \<Rightarrow> image_handles" where
  "handles_of f = (case f of (a, b, c) \<Rightarrow>
     \<lparr>memory_handle = ucast a, rendering_done_handle = ucast b, copying_done_handle = ucast c\<rparr>)"

definition export_trace :: "shared_image \<Rightarrow> fds \<Rightarrow> (gpu_call \<times> xr_result \<times> u64) list" where
  "export_trace si f = (case f of (a, b, c) \<Rightarrow>
     [(Vulkan (Vk_get_memory_fd (si_memory si)), VK_SUCCESS, a),
      (Vulkan (Vk_get_semaphore_fd (si_rendering_done si)), VK_SUCCESS, b),
      (Vulkan (Vk_get_semaphore_fd (si_copying_done si)), VK_SUCCESS, c)])"

definition exported :: "shared_image list \<Rightarrow> fds list \<Rightarrow> 'd vk_module \<Rightarrow> 'd vk_module \<Rightarrow> bool" where
  "exported sis fs m m' \<longleftrightarrow>
     length fs = length sis \<and>
     handles_out m' = handles_out m @ concat (map (write_image_handles \<circ> handles_of) fs) \<and>
     gpu_trace m' = gpu_trace m @ concat (map2 export_trace sis fs) \<and>
     swapchain_states m' = swapchain_states m \<and> session_states m' = session_states m"

lemma vk_require_Ret:
  assumes "vk_require msg D c m = (Ret v, m')"
  shows "gpu_trace m' = gpu_trace m @ [(c, VK_SUCCESS, v)] \<and> handles_out m' = handles_out m \<and>
    swapchain_states m' = swapchain_states m \<and> session_states m' = session_states m"
  using assms by (auto simp: require_def issue_def and_then_Ret_iff done_with_def fail_with_def split: prod.splits if_splits)

lemma send_image_handles_Ret:
  assumes "send_image_handles D si m = (Ret x, m')"
  shows "\<exists>f. exported [si] [f] m m'"
proof -
  obtain a b c m1 m2 m3 where e:
    "vk_require ''Failed to get memory fd'' D (Vulkan (Vk_get_memory_fd (si_memory si))) m = (Ret a, m1)"
    "vk_require ''Unable to export FD for semaphore'' D (Vulkan (Vk_get_semaphore_fd (si_rendering_done si))) m1 = (Ret b, m2)"
    "vk_require ''Unable to export FD for semaphore'' D (Vulkan (Vk_get_semaphore_fd (si_copying_done si))) m2 = (Ret c, m3)"
    "m' = m3\<lparr>handles_out := handles_out m3 @ write_image_handles (handles_of (a, b, c))\<rparr>"
    using assms by (auto simp: send_image_handles_def export_image_handles_def export_memory_def export_semaphore_def
        and_then_Ret_iff done_with_def change_def handles_of_def)
  have "exported [si] [(a, b, c)] m m'"
    using e(1-3) [THEN vk_require_Ret] e(4) by (simp add: exported_def export_trace_def)
  then show ?thesis by blast
qed

lemma send_handles_Ret:
  "for_each (send_image_handles D) sis m = (Ret xs, m') \<Longrightarrow> \<exists>fs. exported sis fs m m'"
proof (induction sis arbitrary: m xs)
  case (Cons si sis)
  then obtain m1 ys where m1: "send_image_handles D si m = (Ret (), m1)" "for_each (send_image_handles D) sis m1 = (Ret ys, m')"
    by (auto simp: and_then_Ret_iff done_with_def)
  obtain f fs where "exported [si] [f] m m1" "exported sis fs m1 m'"
    using send_image_handles_Ret [OF m1(1)] Cons.IH [OF m1(2)] by blast
  then have "exported (si # sis) (f # fs) m m'" by (simp add: exported_def)
  then show ?case by blast
qed (simp add: exported_def done_with_def)

lemma create_image_info:
  "create_image D info required m = (Ret si, m') \<Longrightarrow> si_info si = shared_image_info info"
  by (auto simp: create_image_def Let_def and_then_Ret_iff done_with_def fail_with_def split: option.splits prod.splits)

lemma for_each_property:
  assumes "\<And>x m y m'. f x m = (Ret y, m') \<Longrightarrow> P y"
  shows "for_each f xs m = (Ret ys, m') \<Longrightarrow> \<forall>y\<in>set ys. P y"
  using assms by (induction xs arbitrary: m ys) (auto simp: and_then_Ret_iff done_with_def)

text \<open>Until then nothing is written to the exchange.\<close>

definition same_exchange :: "'d vk_module \<Rightarrow> 'd vk_module \<Rightarrow> bool" where
  "same_exchange m m' \<longleftrightarrow> handles_out m' = handles_out m"

interpretation exchange: step_preorder same_exchange
  by unfold_locales (auto simp: same_exchange_def)

lemma exchange_basic [simp]:
  "exchange.follows (require ok msg D c)" "exchange.follows has_instance_functions" "exchange.follows (store_swapchain_state h sc)" "exchange.follows (update_session s f)"
  by (auto simp: exchange.follows_def same_exchange_def require_def issue_def and_then_def done_with_def fail_with_def store_swapchain_state_def
      has_instance_functions_def update_session_def change_def split: prod.split option.split)

lemma exchange_create_image [simp]: "exchange.follows (create_image D info required)"
  unfolding create_image_def Let_def create_exportable_semaphore_def create_command_buffer_def create_signaled_fence_def
  by (auto intro!: exchange.follows_and_then split: option.split prod.split)

lemma share_images_handles:
  assumes "share_images D s info h n m = (r, m')"
  shows "handles_out m' = handles_out m"
proof -
  have "exchange.follows (share_images D s info h n)"
    unfolding share_images_def
    by (intro exchange.follows_and_then exchange.follows_for_each exchange_create_image)
      (auto intro!: exchange.follows_and_then split: option.split)
  then have "same_exchange m (snd (share_images D s info h n m))" unfolding exchange.follows_def by blast
  then show ?thesis using assms by (simp add: same_exchange_def)
qed

text \<open>
  The swapchain of a successful creation is new, it has the number of images that is reported, all
  made after the description of the client, and their descriptors are what is new in the exchange.
\<close>

definition created_with ::
  "u64 \<Rightarrow> swapchain_info \<Rightarrow> u64 \<Rightarrow> u32 \<Rightarrow> u64 \<Rightarrow> u32 \<Rightarrow> swapchain_state \<Rightarrow> fds list \<Rightarrow> 'd vk_module \<Rightarrow> 'd vk_module \<Rightarrow> bool" where
  "created_with s info h n sz ty sc fs m m' \<longleftrightarrow>
     swapchain_states m h = None \<and> swapchain_states m' h = Some sc \<and> sc_parent sc = s \<and>
     session_states m s \<noteq> None \<and> session_states m' s = map_option (insert h) (session_states m s) \<and>
     length (shared_images sc) = unat n \<and> length fs = unat n \<and>
     (\<forall>si\<in>set (shared_images sc). si_info si = shared_image_info info) \<and>
     (shared_images sc \<noteq> [] \<longrightarrow> sz = si_memory_size (last (shared_images sc)) \<and> ty = si_memory_type (last (shared_images sc))) \<and>
     handles_out m' = handles_out m @ concat (map (write_image_handles \<circ> handles_of) fs) \<and>
     (\<exists>before. gpu_trace m' = before @ concat (map2 export_trace (shared_images sc) fs))"

lemma share_images_Ret:
  assumes R: "runtime_handles D live" and new: "swapchain_states m h = None"
    and "share_images D s info h n m = (Ret (sc, sz, ty), m')"
  shows "swapchain_states m' h = Some sc \<and> sc_parent sc = s \<and> session_states m' s = map_option (insert h) (session_states m s) \<and>
    length (shared_images sc) = unat n \<and> (\<forall>si\<in>set (shared_images sc). si_info si = shared_image_info info) \<and>
    (shared_images sc \<noteq> [] \<longrightarrow> sz = si_memory_size (last (shared_images sc)) \<and> ty = si_memory_type (last (shared_images sc)))"
    (is ?created)
proof -
  let ?runtime = "map (\<lambda>i. d_runtime_image D h i (drv m)) [0..<unat n]"
  let ?each = "for_each (\<lambda>i. create_image D info (required_memory (sw_create_flags info))) ?runtime"
  obtain shared m1 where shared: "?each m = (Ret shared, m1)"
    and rest: "(case image_type_of (sw_usage info) of
       None \<Rightarrow> fail_with (Std_exception ''Images must be either color or depth-stencil images'')
     | Some ty \<Rightarrow>
         and_then (store_swapchain_state h
             \<lparr>sc_parent = s, shared_images = shared, runtime_images = ?runtime, sc_image_type = ty,
              sc_width = sw_width info, sc_height = sw_height info\<rparr>) (\<lambda>sc.
         and_then (update_session s (insert h)) (\<lambda>_.
         done_with (sc, if shared = [] then 0 else si_memory_size (last shared),
                        if shared = [] then 0 else si_memory_type (last shared))))) m1 = (Ret (sc, sz, ty), m')"
    using assms(3) by (auto simp: share_images_def has_instance_functions_def and_then_Ret_iff ask_def split: if_splits)
  have "quiet live ?each" by (rule quiet_for_each [OF quiet_create_image [OF R]])
  then have "unchanged live m (snd (?each m))" unfolding quiet_def by blast
  then have "unchanged live m m1" using shared by simp
  then have books: "swapchain_states m1 h = None" "session_states m1 = session_states m"
    using new by (simp_all add: unchanged_def)
  have "length shared = unat n" using for_each_length [OF shared] by simp
  moreover have "\<forall>si\<in>set shared. si_info si = shared_image_info info"
    by (rule for_each_property [OF create_image_info shared])
  ultimately show ?created
    using rest books
    by (auto simp: and_then_Ret_iff store_swapchain_state_def update_session_def done_with_def change_def fail_with_def
        split: option.splits)
qed

lemma create_swapchain_Ret:
  assumes R: "runtime_handles D live" and ok: "registry_ok live m"
    and "serve D (Create_swapchain s info) m = (Ret (Swapchain_created h n sz ty), m')"
  shows "\<exists>sc fs. created_with s info h n sz ty sc fs m m'"
proof -
  let ?c = "Runtime (Xr_create_swapchain s (info\<lparr>sw_usage := sw_usage info OR XR_SWAPCHAIN_USAGE_TRANSFER_DST_BIT\<rparr>))"
  obtain m1 m2 sc xs where m1: "issue D ?c m = (Ret (XR_SUCCESS, h), m1)"
    and s: "session_states m1 s \<noteq> None"
    and sc: "create_swapchain_state D s info h m1 = (Ret (sc, sz, ty), m2)"
    and sent: "for_each (send_image_handles D) (shared_images sc) m2 = (Ret xs, m')"
    and n: "n = word_of_nat (length (shared_images sc))"
    using assms(3) by (auto simp: handle_create_swapchain_def and_then_Ret_iff done_with_def value_of_Ret_iff split: if_splits prod.splits)
  have m1': "swapchain_states m1 = swapchain_states m" "session_states m1 = session_states m" "handles_out m1 = handles_out m"
    using issue_extends [OF m1] by (simp_all add: extends_def)
  have "fst (d_call D ?c (drv m)) = (XR_SUCCESS, h)" using m1 by (auto simp: issue_def split: prod.splits if_splits)
  then have "h \<notin> live (drv m)" using R unfolding runtime_handles_def by blast
  then have new: "swapchain_states m h = None"
    using registry_swapchain [OF ok] by (cases "swapchain_states m h") auto
  obtain k m3 where k: "share_images D s info h k m3 = (Ret (sc, sz, ty), m2)"
    and m3: "swapchain_states m3 = swapchain_states m" "session_states m3 = session_states m" "handles_out m3 = handles_out m"
    using sc m1' by (auto simp: create_swapchain_state_def and_then_Ret_iff extends_def dest!: require_extends split: if_splits)
  note made = share_images_Ret [OF R _ k]
  have quiet: "handles_out m2 = handles_out m3"
    using k by (rule share_images_handles)
  obtain fs where fs: "exported (shared_images sc) fs m2 m'" using send_handles_Ret [OF sent] by blast
  have "unat n = length (shared_images sc)"
    using made m3(1) new by (simp add: n)
  then have "created_with s info h n sz ty sc fs m m'"
    using made m3 new s m1' fs quiet by (auto simp: created_with_def exported_def)
  then show ?thesis by blast
qed

end
