(* ===== verification/Vulkan_Agreement.thy ===== *)
theory Vulkan_Agreement
  imports Vulkan_Client_Laws
begin

unbundle bit_operations_syntax

text \<open>
  The agreement of the two halves of the Vulkan module: every swapchain and session of the client is
  one of the server, with the same parent and as many images. Every call of the application keeps it,
  whatever the drivers and the runtime answer.
\<close>

section \<open>The agreement\<close>

definition ring_bounds :: "nat \<Rightarrow> swapchain \<Rightarrow> bool" where
  "ring_bounds n r \<longleftrightarrow>
     images_size r = n \<and> n < 2 ^ 32 \<and> (n = 0 \<longrightarrow> num_acquired r = 0) \<and>
     (0 < n \<longrightarrow> acquire_head r < n \<and> wait_head r < n \<and> release_head r < n)"

definition swapchain_agrees :: "'c vk_client \<Rightarrow> 'd vk_module \<Rightarrow> u64 \<Rightarrow> client_swapchain \<Rightarrow> bool" where
  "swapchain_agrees c m h cs \<longleftrightarrow>
     (\<exists>sc. swapchain_states m h = Some sc \<and> sc_parent sc = cs_parent cs \<and> length (shared_images sc) = length (cs_images cs)) \<and>
     ring_bounds (length (cs_images cs)) (cs_ring cs) \<and>
     (\<exists>ss. client_sessions c (cs_parent cs) = Some ss \<and> h \<in> cl_swapchains ss) \<and>
     (\<exists>t. vk_table c = Some t \<and> cs_table cs \<le> t)"

definition session_agrees :: "'c vk_client \<Rightarrow> 'd vk_module \<Rightarrow> u64 \<Rightarrow> client_session \<Rightarrow> bool" where
  "session_agrees c m s ss \<longleftrightarrow>
     session_states m s \<noteq> None \<and> vk_table c \<noteq> None \<and>
     (\<forall>h\<in>cl_swapchains ss. \<exists>cs. client_swapchains c h = Some cs \<and> cs_parent cs = s)"

definition client_agrees :: "'c vk_client \<Rightarrow> 'd vk_module \<Rightarrow> bool" where
  "client_agrees c m \<longleftrightarrow>
     (\<forall>h cs. client_swapchains c h = Some cs \<longrightarrow> swapchain_agrees c m h cs) \<and>
     (\<forall>s ss. client_sessions c s = Some ss \<longrightarrow> session_agrees c m s ss)"

definition sides_agree :: "('d \<Rightarrow> u64 set) \<Rightarrow> ('c, 'd) vk_world \<Rightarrow> bool" where
  "sides_agree live w \<longleftrightarrow> registry_ok live (far w) \<and> client_agrees (near w) (far w)"

lemma agreed_swapchain: "client_agrees c m \<Longrightarrow> client_swapchains c h = Some cs \<Longrightarrow> swapchain_agrees c m h cs"
  and agreed_session: "client_agrees c m \<Longrightarrow> client_sessions c s = Some ss \<Longrightarrow> session_agrees c m s ss"
  by (simp_all add: client_agrees_def)

text \<open>What one side does alone\<close>

lemma agrees_books:
  assumes "client_agrees c m" "keeps_books H m m'" "\<forall>h\<in>H. client_swapchains c h = None"
  shows "client_agrees c m'"
proof -
  have "swapchain_agrees c m' h cs" if "client_swapchains c h = Some cs" for h cs
  proof -
    have "h \<notin> H" using assms(3) that by auto
    then show ?thesis using agreed_swapchain [OF assms(1) that] assms(2)
      by (auto simp: swapchain_agrees_def keeps_books_def)
  qed
  moreover have "session_agrees c m' s ss" if "client_sessions c s = Some ss" for s ss
    using agreed_session [OF assms(1) that] assms(2) by (auto simp: session_agrees_def keeps_books_def)
  ultimately show ?thesis by (simp add: client_agrees_def)
qed

text \<open>The members of the client that the agreement looks at\<close>

lemma agrees_cong:
  assumes "client_swapchains c' = client_swapchains c" "client_sessions c' = client_sessions c" "vk_table c' = vk_table c"
  shows "client_agrees c' m = client_agrees c m"
  using assms by (simp add: client_agrees_def swapchain_agrees_def session_agrees_def)

lemma sides_agree_still:
  assumes "still w w'" "sides_agree live w"
  shows "sides_agree live w'"
proof -
  have "client_agrees (near w') (far w) = client_agrees (near w) (far w)"
    by (rule agrees_cong) (use assms(1) in \<open>simp_all add: still_def\<close>)
  then show ?thesis using assms by (simp add: sides_agree_def still_def)
qed

lemma agrees_new_table:
  assumes "client_agrees c m" "vk_table c = Some t" "t \<le> t'"
  shows "client_agrees (c\<lparr>vk_table := Some t'\<rparr>) m"
proof -
  have "swapchain_agrees (c\<lparr>vk_table := Some t'\<rparr>) m h cs" if "client_swapchains c h = Some cs" for h cs
    using agreed_swapchain [OF assms(1) that] assms(2,3) by (simp add: swapchain_agrees_def)
  moreover have "session_agrees (c\<lparr>vk_table := Some t'\<rparr>) m s ss" if "client_sessions c s = Some ss" for s ss
    using agreed_session [OF assms(1) that] by (simp add: session_agrees_def)
  ultimately show ?thesis by (simp add: client_agrees_def)
qed

lemma agrees_first_table:
  assumes "client_agrees c m" "vk_table c = None"
  shows "client_agrees (c\<lparr>vk_table := x\<rparr>) m"
proof -
  have "client_sessions c s = None" for s
    using agreed_session [OF assms(1), of s] assms(2) by (cases "client_sessions c s") (auto simp: session_agrees_def)
  moreover have "client_swapchains c h = None" for h
    using agreed_swapchain [OF assms(1), of h] assms(2) by (cases "client_swapchains c h") (auto simp: swapchain_agrees_def)
  ultimately show ?thesis by (simp add: client_agrees_def)
qed

text \<open>A new swapchain, a new session, the end of a swapchain, a step on a ring\<close>

lemma ring_bounds_new: "n < 2 ^ 32 \<Longrightarrow> ring_bounds n (new_swapchain n static)"
  by (simp add: ring_bounds_def new_swapchain_def images_size_def)

lemma ring_bounds_call:
  assumes "ring_bounds n r"
  shows "ring_bounds n (snd (swapchain_call c r))"
proof (cases c)
  case (Acquire x)
  then show ?thesis using assms
    by (auto simp: ring_bounds_def acquire_def Let_def next_head_def vk_record_def images_size_def)
next
  case (Wait x)
  then show ?thesis using assms
    by (auto simp: ring_bounds_def wait_def Let_def next_head_def vk_record_def images_size_def)
next
  case (Release x y)
  then show ?thesis using assms
    by (auto simp: ring_bounds_def release_def Let_def next_head_def vk_record_def images_size_def)
qed

lemma agrees_add_swapchain:
  assumes "client_agrees c m" "client_swapchains c h = None" "client_sessions c (cs_parent cs) = Some ss"
    and "swapchain_states m h = Some sc" "sc_parent sc = cs_parent cs" "length (shared_images sc) = length (cs_images cs)"
    and "ring_bounds (length (cs_images cs)) (cs_ring cs)" "vk_table c = Some (cs_table cs)"
  shows "client_agrees (c\<lparr>client_swapchains := (client_swapchains c)(h \<mapsto> cs),
    client_sessions := (client_sessions c)(cs_parent cs \<mapsto> ss\<lparr>cl_swapchains := insert h (cl_swapchains ss)\<rparr>)\<rparr>) m"
    (is "client_agrees ?c m")
proof -
  have "swapchain_agrees ?c m h' cs'" if "client_swapchains ?c h' = Some cs'" for h' cs'
  proof (cases "h' = h")
    case True
    then show ?thesis using that assms by (auto simp: swapchain_agrees_def)
  next
    case False
    then have "swapchain_agrees c m h' cs'" using that agreed_swapchain [OF assms(1)] by simp
    then show ?thesis using assms(3) by (auto simp: swapchain_agrees_def)
  qed
  moreover have "session_agrees ?c m s ss'" if "client_sessions ?c s = Some ss'" for s ss'
  proof (cases "s = cs_parent cs")
    case True
    then show ?thesis using that agreed_session [OF assms(1,3)] by (auto simp: session_agrees_def)
  next
    case False
    then have "session_agrees c m s ss'" using that agreed_session [OF assms(1)] by simp
    then show ?thesis using assms(2) by (fastforce simp: session_agrees_def)
  qed
  ultimately show ?thesis by (simp add: client_agrees_def)
qed

lemma agrees_add_session:
  assumes "client_agrees c m" "session_states m s \<noteq> None" "vk_table c \<noteq> None" "cl_swapchains ss = {}"
    and "client_sessions c s = None"
  shows "client_agrees (c\<lparr>client_sessions := (client_sessions c)(s \<mapsto> ss)\<rparr>) m"
    (is "client_agrees ?c m")
proof -
  have "swapchain_agrees ?c m h cs" if "client_swapchains c h = Some cs" for h cs
    using agreed_swapchain [OF assms(1) that] assms(5) by (auto simp: swapchain_agrees_def)
  moreover have "session_agrees ?c m s' ss'" if "client_sessions ?c s' = Some ss'" for s' ss'
  proof (cases "s' = s")
    case True
    then show ?thesis using that assms by (simp add: session_agrees_def)
  next
    case False
    then have "session_agrees c m s' ss'" using that agreed_session [OF assms(1)] by simp
    then show ?thesis by (simp add: session_agrees_def)
  qed
  ultimately show ?thesis by (simp add: client_agrees_def)
qed

lemma agrees_forget:
  assumes "client_agrees c m" "client_swapchains c h = Some cs"
  shows "client_agrees (c\<lparr>client_sessions := (client_sessions c)(cs_parent cs :=
      map_option (\<lambda>x. x\<lparr>cl_swapchains := cl_swapchains x - {h}\<rparr>) (client_sessions c (cs_parent cs))),
    client_swapchains := (client_swapchains c)(h := None)\<rparr>) m"
    (is "client_agrees ?c m")
proof -
  have "swapchain_agrees ?c m h' cs'" if "client_swapchains ?c h' = Some cs'" for h' cs'
  proof -
    have "h' \<noteq> h" "client_swapchains c h' = Some cs'" using that by (auto split: if_splits)
    then show ?thesis using agreed_swapchain [OF assms(1)] by (fastforce simp: swapchain_agrees_def)
  qed
  moreover have "session_agrees ?c m s ss" if ss: "client_sessions ?c s = Some ss" for s ss
  proof -
    obtain ss0 where ss0: "client_sessions c s = Some ss0"
      "cl_swapchains ss = (if s = cs_parent cs then cl_swapchains ss0 - {h} else cl_swapchains ss0)"
      using ss by (cases "s = cs_parent cs") auto
    have "h' \<noteq> h" if "h' \<in> cl_swapchains ss" for h'
      using that ss0 agreed_session [OF assms(1) ss0(1)] assms(2) by (auto simp: session_agrees_def split: if_splits)
    then show ?thesis using agreed_session [OF assms(1) ss0(1)] ss0(2) by (auto simp: session_agrees_def split: if_splits)
  qed
  ultimately show ?thesis by (simp add: client_agrees_def)
qed

lemma agrees_ring:
  assumes "client_agrees c m" "client_swapchains c h = Some cs" "ring_bounds (length (cs_images cs)) r"
  shows "client_agrees (c\<lparr>client_swapchains := (client_swapchains c)(h \<mapsto> cs\<lparr>cs_ring := r\<rparr>)\<rparr>) m"
    (is "client_agrees ?c m")
proof -
  have "swapchain_agrees ?c m h' cs'" if "client_swapchains ?c h' = Some cs'" for h' cs'
  proof (cases "h' = h")
    case True
    then have "cs' = cs\<lparr>cs_ring := r\<rparr>" using that by simp
    then show ?thesis using True agreed_swapchain [OF assms(1,2)] assms(3) by (simp add: swapchain_agrees_def)
  next
    case False
    then have "swapchain_agrees c m h' cs'" using that agreed_swapchain [OF assms(1)] by simp
    then show ?thesis by (simp add: swapchain_agrees_def)
  qed
  moreover have "session_agrees ?c m s ss" if "client_sessions c s = Some ss" for s ss
    using agreed_session [OF assms(1) that] assms(2) by (fastforce simp: session_agrees_def)
  ultimately show ?thesis by (simp add: client_agrees_def)
qed

section \<open>The calls\<close>

abbreviation agreeing :: "('d \<Rightarrow> u64 set) \<Rightarrow> ('c, 'd, 'a) client_call \<Rightarrow> bool" where
  "agreeing live f \<equiv> ensures (sides_agree live) f (\<lambda>x. sides_agree live) (sides_agree live)"

lemma agreeing_calm: "calm f \<Longrightarrow> agreeing live f"
  using still.ensures_follows [of f "sides_agree live"] sides_agree_still by blast

lemma agreeing_simps [simp]: "agreeing live (done_with x)" "agreeing live (fail_with e)" "agreeing live (\<lambda>w. (Fault, w))"
  "agreeing live (value_of f)" "agreeing live (ask g)" "agreeing live (\<lambda>w. (Terminate, w))"
  by (simp_all add: ensures_def act_simps split: option.split)

lemma agreeing_catching:
  fixes f :: "('c, 'd, api_result \<times> 'a option) client_call"
  assumes f: "agreeing live f"
  shows "agreeing live (catching f)"
proof (rule ensures_always)
  fix w :: "('c, 'd) vk_world" assume w: "sides_agree live w"
  have "snd (catching f w) = snd (f w)" by (cases "f w", cases "fst (f w)") (auto simp: catching_def)
  then show "sides_agree live (snd (catching f w))" using ensures_snd [OF f w] by simp
qed

lemma agreeing_change:
  fixes live :: "'d \<Rightarrow> u64 set" and f :: "'c vk_client \<Rightarrow> 'c vk_client"
  assumes "\<And>c (m :: 'd vk_module). client_agrees c m \<Longrightarrow> client_agrees (f c) m"
  shows "agreeing live (change_near f)"
  unfolding change_near_def by (rule ensures_change) (use assms in \<open>auto simp: sides_agree_def\<close>)

lemma agreeing_then: "agreeing live f \<Longrightarrow> (\<And>x. agreeing live (g x)) \<Longrightarrow> agreeing live (and_then f g)"
  by (rule ensures_and_then)

lemma far_call_near: "near (snd (far_call f w)) = near w"
  by (auto simp: far_call_def split: prod.split outcome.split)

lemma far_call_agrees:
  assumes ok: "sides_agree live w" and H: "\<forall>h\<in>H. client_swapchains (near w) h = None"
    and "registry_ok live (snd (f (far w)))" "keeps_books H (far w) (snd (f (far w)))"
  shows "sides_agree live (snd (far_call f w))"
proof -
  let ?m = "snd (f (far w))"
  have "far (snd (far_call f w)) = far w \<or> far (snd (far_call f w)) = ?m"
    by (auto simp: far_call_def split: prod.split outcome.split)
  moreover have "client_agrees (near w) ?m"
    using agrees_books [OF _ assms(4) H] ok by (simp add: sides_agree_def)
  ultimately show ?thesis using assms(3) ok by (auto simp: sides_agree_def far_call_near)
qed

lemma remote_near: "near (snd (remote D req w)) = near w"
  by (simp add: remote_def far_call_near)

lemma remote_agrees:
  assumes R: "runtime_handles D live" and "sides_agree live w" "\<forall>h\<in>destroyed_by req. client_swapchains (near w) h = None"
  shows "sides_agree live (snd (remote D req w))"
  unfolding remote_def
  by (rule far_call_agrees [OF assms(2,3)]) (use serve_keeps [OF R] serve_keeps_books [OF R] assms(2) in \<open>simp_all add: sides_agree_def\<close>)

lemma agreeing_remote: "runtime_handles D live \<Longrightarrow> destroyed_by req = {} \<Longrightarrow> agreeing live (remote D req)"
  by (rule ensures_always) (simp add: remote_agrees)

lemma agreeing_far_call:
  fixes f :: "('d, 'a) act"
  assumes "ensures (registry_ok live) f (\<lambda>x. registry_ok live) (registry_ok live)" "books.follows {} f"
  shows "agreeing live (far_call f)"
proof (rule ensures_always)
  fix w :: "('c, 'd) vk_world" assume w: "sides_agree live w"
  show "sides_agree live (snd (far_call f w))"
  proof (rule far_call_agrees [OF w, of "{}"])
    show "registry_ok live (snd (f (far w)))" by (rule ensures_snd [OF assms(1)]) (use w in \<open>simp add: sides_agree_def\<close>)
    show "keeps_books {} (far w) (snd (f (far w)))" using assms(2) by (simp add: books.follows_def)
  qed simp
qed

lemma remote_Ret:
  "remote D req w = (Ret rep, w') \<longleftrightarrow>
   \<not> disconnected w \<and> (\<exists>m. serve D req (far w) = (Ret rep, m) \<and> w' = w\<lparr>far := m\<rparr>)"
  by (auto simp: remote_def far_call_def split: prod.split outcome.split)

lemma agreeing_of_session:
  "(\<And>ss. ensures (\<lambda>w. sides_agree live w \<and> client_sessions (near w) s = Some ss) (f ss) (\<lambda>x. sides_agree live) (sides_agree live)) \<Longrightarrow>
   agreeing live (of_session has_next s f)"
  unfolding of_session_def ensures_def by (simp add: and_then_def ask_def done_with_def split: option.split)

lemma agreeing_of_swapchain:
  "(\<And>cs. ensures (\<lambda>w. sides_agree live w \<and> client_swapchains (near w) h = Some cs) (f cs) (\<lambda>x. sides_agree live) (sides_agree live)) \<Longrightarrow>
   agreeing live (of_swapchain has_next h f)"
  unfolding of_swapchain_def ensures_def by (simp add: and_then_def ask_def done_with_def split: option.split)

text \<open>Rings\<close>

lemma agreeing_ring:
  "ensures (\<lambda>w. sides_agree live w \<and> client_swapchains (near w) h = Some cs) (ring_step h cs c)
     (\<lambda>x. sides_agree live) (sides_agree live)"
proof -
  have "sides_agree live (w\<lparr>near := (near w)\<lparr>client_swapchains := (client_swapchains (near w))(h \<mapsto> cs\<lparr>cs_ring := ring\<rparr>)\<rparr>\<rparr>)"
    if "sides_agree live w" "client_swapchains (near w) h = Some cs" "swapchain_call c (cs_ring cs) = (r, ring)" for w r ring
  proof -
    have "ring_bounds (length (cs_images cs)) (cs_ring cs)"
      using agreed_swapchain that by (auto simp: sides_agree_def swapchain_agrees_def)
    then have "ring_bounds (length (cs_images cs)) ring" using ring_bounds_call [of _ "cs_ring cs" c] that(3) by simp
    moreover have "client_agrees (near w) (far w)" using that(1) by (simp add: sides_agree_def)
    ultimately show ?thesis using agrees_ring [of "near w" "far w" h cs ring] that(1,2) by (simp add: sides_agree_def)
  qed
  then show ?thesis by (auto simp: ensures_def ring_step_def split: prod.split)
qed

text \<open>Creating a swapchain: the server knows it and the client does not know it yet.\<close>

definition awaiting :: "('d \<Rightarrow> u64 set) \<Rightarrow> u64 \<Rightarrow> u64 \<Rightarrow> nat \<Rightarrow> ('c, 'd) vk_world \<Rightarrow> bool" where
  "awaiting live s h n w \<longleftrightarrow>
     sides_agree live w \<and> client_swapchains (near w) h = None \<and> client_sessions (near w) s \<noteq> None \<and> n < 2 ^ 32 \<and>
     (\<exists>sc. swapchain_states (far w) h = Some sc \<and> sc_parent sc = s \<and> length (shared_images sc) = n)"

lemma awaiting_still: "still w w' \<Longrightarrow> awaiting live s h n w \<Longrightarrow> awaiting live s h n w'"
  using sides_agree_still [of w w' live] by (simp add: awaiting_def still_def)

lemma remote_creation:
  assumes R: "runtime_handles D live"
  shows "ensures (\<lambda>w. sides_agree live w \<and> client_sessions (near w) s = Some ss) (remote D (Create_swapchain s info))
     (\<lambda>rep w. sides_agree live w \<and> (\<forall>h n sz ty. rep = Swapchain_created h n sz ty \<longrightarrow> awaiting live s h (unat n) w))
     (sides_agree live)"
proof -
  have "awaiting live s h (unat n) w'"
    if w: "sides_agree live w" "client_sessions (near w) s = Some ss"
      and w': "remote D (Create_swapchain s info) w = (Ret (Swapchain_created h n sz ty), w')" for w w' h n sz ty
  proof -
    obtain m where m: "serve D (Create_swapchain s info) (far w) = (Ret (Swapchain_created h n sz ty), m)" "w' = w\<lparr>far := m\<rparr>"
      using w' by (auto simp: remote_Ret)
    obtain sc fs where "created_with s info h n sz ty sc fs (far w) m"
      using create_swapchain_Ret [OF R _ m(1)] w(1) by (auto simp: sides_agree_def)
    then have "swapchain_states (far w) h = None" "swapchain_states m h = Some sc" "sc_parent sc = s"
        "length (shared_images sc) = unat n"
      by (simp_all add: created_with_def)
    moreover have "client_swapchains (near w) h = None"
      using agreed_swapchain [of "near w" "far w" h] w(1) calculation(1)
      by (cases "client_swapchains (near w) h") (auto simp: sides_agree_def swapchain_agrees_def)
    moreover have "sides_agree live w'"
      using remote_agrees [OF R w(1), of "Create_swapchain s info"] w' by (simp add: destroyed_by_def)
    ultimately show ?thesis using m(2) w(2) unsigned_less [of n] by (simp add: awaiting_def)
  qed
  moreover have "sides_agree live (snd (remote D (Create_swapchain s info) w))" if "sides_agree live w" for w
    using remote_agrees [OF R that] by (simp add: destroyed_by_def)
  ultimately show ?thesis unfolding ensures_def
    by (fastforce split: prod.split outcome.split)
qed

lemma register_agrees:
  "ensures (awaiting live s h (length images)) (register_swapchain s info h images) (\<lambda>x. sides_agree live) (sides_agree live)"
proof -
  have "sides_agree live (snd (register_swapchain s info h images w))" if w: "awaiting live s h (length images) w" for w
  proof -
    obtain ss sc where ss: "client_sessions (near w) s = Some ss" and new: "client_swapchains (near w) h = None"
      and sc: "swapchain_states (far w) h = Some sc" "sc_parent sc = s" "length (shared_images sc) = length images"
      and ok: "sides_agree live w" and small: "length images < 2 ^ 32"
      using w by (auto simp: awaiting_def)
    show ?thesis
    proof (cases "vk_table (near w)")
      case (Some t)
      let ?cs = "\<lparr>cs_parent = s, cs_images = images, cs_ring = new_swapchain (length images) (is_static_swapchain info), cs_table = t\<rparr>"
      have "client_agrees ((near w)\<lparr>client_swapchains := (client_swapchains (near w))(h \<mapsto> ?cs),
          client_sessions := (client_sessions (near w))(s \<mapsto> ss\<lparr>cl_swapchains := insert h (cl_swapchains ss)\<rparr>)\<rparr>) (far w)"
        using agrees_add_swapchain [of "near w" "far w" h ?cs ss sc] ok ss new sc Some small
        by (simp add: sides_agree_def ring_bounds_new)
      then show ?thesis using ok ss new Some
        by (simp add: register_swapchain_def store_client_swapchain_def update_client_session_def change_near_def and_then_def
            ask_def value_of_def change_def done_with_def sides_agree_def)
    qed (use ok in \<open>simp add: register_swapchain_def and_then_def ask_def\<close>)
  qed
  then show ?thesis by (rule ensures_end)
qed

lemma awaiting_calm:
  assumes "calm f"
  shows "ensures (awaiting live s h n) f (\<lambda>x. awaiting live s h n) (sides_agree live)"
proof (rule ensures_weaken [OF still.ensures_follows [OF assms, of "awaiting live s h n"]])
  show "awaiting live s h n m'" if "still m m'" "awaiting live s h n m" for m m'
    by (rule awaiting_still [OF that])
qed (auto simp: awaiting_def)

lemma finish_agrees:
  "ensures (awaiting live s h (unat n)) (finish_swapchain G s ss info h n sz ty image_ty) (\<lambda>x. sides_agree live) (sides_agree live)"
  unfolding finish_swapchain_def
proof (rule ensures_and_then [OF ensures_value [OF awaiting_calm, where C = "\<lambda>xs. length xs = unat n"]])
  show "length xs = unat n" if "import_images G (shared_image_info info) n sz ty m = (Ret xs, m')"
    for xs m and m' :: "('a, 'b) vk_world"
    using that by (simp add: import_images_def for_each_length)
  fix imported :: "imported_image list"
  let ?each = "for_each (create_client_image G ss (create_vk_image_create_info info) image_ty) imported"
  show "ensures (\<lambda>w. awaiting live s h (unat n) w \<and> length imported = unat n) (and_then ?each (register_swapchain s info h))
     (\<lambda>x. sides_agree live) (sides_agree live)"
  proof (rule ensures_assuming, rule ensures_and_then [OF ensures_value [OF awaiting_calm, where C = "\<lambda>xs. length xs = unat n"]])
    assume n: "length imported = unat n"
    show "calm ?each" by (intro calm_intros) simp
    show "length images = unat n" if "?each m = (Ret images, m')" for images m and m' :: "('a, 'b) vk_world"
      using for_each_length [OF that] n by simp
    show "ensures (\<lambda>w. awaiting live s h (unat n) w \<and> length images = unat n) (register_swapchain s info h images)
        (\<lambda>x. sides_agree live) (sides_agree live)" for images
      using register_agrees [of live s h images info] by (auto intro: ensures_assuming)
  qed
qed simp

lemma xrCreateSwapchain_agrees:
  assumes R: "runtime_handles D live"
  shows "agreeing live (xrCreateSwapchain D G has_next s info)"
  unfolding xrCreateSwapchain_def
proof (intro agreeing_catching agreeing_of_session ensures_and_then [OF remote_creation [OF R]])
  fix ss rep
  show "ensures (\<lambda>w. sides_agree live w \<and> (\<forall>h n sz ty. rep = Swapchain_created h n sz ty \<longrightarrow> awaiting live s h (unat n) w))
     (case rep of
        Swapchain_refused r \<Rightarrow> done_with (Result r, None)
      | Swapchain_created h n sz ty \<Rightarrow>
          (case client_image_type (sw_usage info) of
             None \<Rightarrow> done_with (Result XR_ERROR_VALIDATION_FAILURE, None)
           | Some image_ty \<Rightarrow> finish_swapchain G s ss info h n sz ty image_ty)
      | _ \<Rightarrow> fail_with unexpected_reply) (\<lambda>x. sides_agree live) (sides_agree live)"
  proof (cases rep)
    case (Swapchain_created h n sz ty)
    have "ensures (\<lambda>w. sides_agree live w \<and> awaiting live s h (unat n) w)
       (case client_image_type (sw_usage info) of
             None \<Rightarrow> done_with (Result XR_ERROR_VALIDATION_FAILURE, None)
           | Some image_ty \<Rightarrow> finish_swapchain G s ss info h n sz ty image_ty) (\<lambda>x. sides_agree live) (sides_agree live)"
      by (cases "client_image_type (sw_usage info)")
        (auto intro: ensures_done ensures_weaken [OF finish_agrees])
    then show ?thesis using Swapchain_created by simp
  qed (auto intro: ensures_done ensures_fail)
qed

text \<open>Destroying: the client forgets the swapchain before the server is asked.\<close>

definition known_swapchain :: "('d \<Rightarrow> u64 set) \<Rightarrow> u64 \<Rightarrow> client_swapchain \<Rightarrow> ('c, 'd) vk_world \<Rightarrow> bool" where
  "known_swapchain live h cs w \<longleftrightarrow> sides_agree live w \<and> client_swapchains (near w) h = Some cs"

lemma known_calm:
  assumes "calm f"
  shows "ensures (known_swapchain live h cs) f (\<lambda>x. known_swapchain live h cs) (sides_agree live)"
proof (rule ensures_weaken [OF still.ensures_follows [OF assms, of "known_swapchain live h cs"]])
  show "known_swapchain live h cs m'" if "still m m'" "known_swapchain live h cs m" for m m'
    using that sides_agree_still [OF that(1)] by (simp add: known_swapchain_def still_def)
qed (auto simp: known_swapchain_def)

definition forget_swapchain :: "u64 \<Rightarrow> u64 \<Rightarrow> ('c, 'd, unit) client_call" where
  "forget_swapchain s h =
     and_then (update_client_session s (\<lambda>hs. hs - {h})) (\<lambda>_.
     change_near (\<lambda>c. c\<lparr>client_swapchains := (client_swapchains c)(h := None)\<rparr>))"

lemma forget_agrees:
  "ensures (known_swapchain live h cs) (forget_swapchain (cs_parent cs) h)
     (\<lambda>x w. sides_agree live w \<and> client_swapchains (near w) h = None) (sides_agree live)"
  unfolding ensures_def forget_swapchain_def
  by (auto simp: known_swapchain_def update_client_session_def change_near_def change_def and_then_def sides_agree_def
      dest: agrees_forget)

lemma xrDestroySwapchain_agrees:
  assumes R: "runtime_handles D live"
  shows "agreeing live (xrDestroySwapchain D G has_next h)"
  unfolding xrDestroySwapchain_def
proof (intro agreeing_catching agreeing_of_swapchain, fold known_swapchain_def, rule ensures_and_then [OF known_calm], simp,
    rule ensures_and_then [OF known_calm], simp, rule ensures_and_then [OF known_calm], intro calm_intros, simp)
  fix cs ss a b
  have "ensures (known_swapchain live h cs)
     (and_then (forget_swapchain (cs_parent cs) h) (\<lambda>_. and_then (remote D (Destroy_swapchain h)) (\<lambda>_. done_with (Result XR_SUCCESS, None))))
     (\<lambda>x. sides_agree live) (sides_agree live)"
  proof (rule ensures_and_then [OF forget_agrees], rule ensures_and_then [OF ensures_end])
    show "sides_agree live (snd (remote D (Destroy_swapchain h) w))"
      if "sides_agree live w \<and> client_swapchains (near w) h = None" for w
      using remote_agrees [OF R, of w "Destroy_swapchain h"] that by (simp add: destroyed_by_def)
  qed simp
  then show "ensures (known_swapchain live h cs)
     (and_then (update_client_session (cs_parent cs) (\<lambda>hs. hs - {h})) (\<lambda>_.
      and_then (change_near (\<lambda>c. c\<lparr>client_swapchains := (client_swapchains c)(h := None)\<rparr>)) (\<lambda>_.
      and_then (remote D (Destroy_swapchain h)) (\<lambda>_. done_with (Result XR_SUCCESS, None)))))
     (\<lambda>x. sides_agree live) (sides_agree live)"
    by (simp add: forget_swapchain_def and_then_assoc)
qed

text \<open>Sessions\<close>

lemma remote_session:
  assumes R: "runtime_handles D live"
  shows "ensures (\<lambda>w. sides_agree live w \<and> vk_table (near w) \<noteq> None) (remote D (Create_session flags))
     (\<lambda>rep w. sides_agree live w \<and> vk_table (near w) \<noteq> None \<and> (\<forall>s. rep = Session_created s \<longrightarrow> session_states (far w) s \<noteq> None))
     (sides_agree live)"
proof -
  have "session_states (far w') s \<noteq> None" if w: "remote D (Create_session flags) w = (Ret (Session_created s), w')" for w w' s
  proof -
    obtain m where "serve D (Create_session flags) (far w) = (Ret (Session_created s), m)" "w' = w\<lparr>far := m\<rparr>"
      using w by (auto simp: remote_Ret)
    then obtain m1 where "store_session_state s m1 = (Ret (), m)" "w' = w\<lparr>far := m\<rparr>"
      by (auto simp: handle_create_session_def and_then_Ret_iff done_with_def)
    then show ?thesis by (cases "session_states m1 s") (auto simp: store_session_state_def)
  qed
  moreover have "sides_agree live (snd (remote D (Create_session flags) w)) \<and> near (snd (remote D (Create_session flags) w)) = near w"
    if "sides_agree live w" for w
    using remote_agrees [OF R that] by (simp add: destroyed_by_def remote_near)
  ultimately show ?thesis unfolding ensures_def by (fastforce split: prod.split outcome.split)
qed

definition session_ready :: "('d \<Rightarrow> u64 set) \<Rightarrow> u64 \<Rightarrow> ('c, 'd) vk_world \<Rightarrow> bool" where
  "session_ready live s w \<longleftrightarrow> sides_agree live w \<and> vk_table (near w) \<noteq> None \<and> session_states (far w) s \<noteq> None"

lemma ready_calm:
  assumes "calm f"
  shows "ensures (session_ready live s) f (\<lambda>x. session_ready live s) (sides_agree live)"
proof (rule ensures_weaken [OF still.ensures_follows [OF assms, of "session_ready live s"]])
  show "session_ready live s m'" if "still m m'" "session_ready live s m" for m m'
    using that sides_agree_still [OF that(1)] by (simp add: session_ready_def still_def)
qed (auto simp: session_ready_def)

lemma store_session_agrees:
  assumes "cl_swapchains ss = {}"
  shows "ensures (session_ready live s) (store_client_session s ss) (\<lambda>x. sides_agree live) (sides_agree live)"
proof (rule ensures_end)
  fix w assume w: "session_ready live s w"
  then have "client_agrees (near w) (far w)" "registry_ok live (far w)" by (simp_all add: session_ready_def sides_agree_def)
  then show "sides_agree live (snd (store_client_session s ss w))"
    using w assms agrees_add_session [of "near w" "far w" s ss]
    by (cases "client_sessions (near w) s")
      (simp_all add: store_client_session_def change_near_def change_def sides_agree_def session_ready_def)
qed

lemma open_session_agrees:
  assumes R: "runtime_handles D live"
  shows "ensures (\<lambda>w. sides_agree live w \<and> vk_table (near w) \<noteq> None) (open_session D G gb flags) (\<lambda>x. sides_agree live) (sides_agree live)"
  unfolding open_session_def
proof (rule ensures_and_then [OF remote_session [OF R]])
  fix rep
  let ?after = "\<lambda>rep. case rep of
      Session_created s \<Rightarrow>
        and_then (gpu G (Cl_get_device_queue (gb_family gb) (gb_queue_index gb))) (\<lambda>(r, queue).
        and_then (gpu_require ''Failed to create command pool'' G (Cl_create_command_pool (gb_family gb))) (\<lambda>pool.
        and_then (store_client_session s
            \<lparr>cl_binding = gb, cl_queue = queue, cl_command_pool = pool, cl_swapchains = {}\<rparr>) (\<lambda>_.
        done_with (Result XR_SUCCESS, Some s))))
    | _ \<Rightarrow> fail_with unexpected_reply"
  show "ensures (\<lambda>w. sides_agree live w \<and> vk_table (near w) \<noteq> None \<and> (\<forall>s. rep = Session_created s \<longrightarrow> session_states (far w) s \<noteq> None))
     (?after rep) (\<lambda>x. sides_agree live) (sides_agree live)"
  proof (cases rep)
    case (Session_created s)
    have "ensures (session_ready live s) (?after (Session_created s)) (\<lambda>x. sides_agree live) (sides_agree live)"
      by (auto intro!: ensures_and_then [OF ready_calm] ensures_and_then [OF store_session_agrees] split: prod.split)
    then show ?thesis using Session_created by (auto elim: ensures_weaken simp: session_ready_def)
  qed (auto intro: ensures_fail)
qed

lemma xrCreateSession_agrees:
  assumes R: "runtime_handles D live"
  shows "agreeing live (xrCreateSession D G has_next inst chain flags)"
proof -
  have table: "ensures (\<lambda>w. sides_agree live w \<and> vk_table (near w) = Some t)
     (and_then (change_near (\<lambda>c. c\<lparr>vk_table := Some (Suc t)\<rparr>)) (\<lambda>_. open_session D G gb flags)) (\<lambda>x. sides_agree live) (sides_agree live)" for t gb
    unfolding change_near_def
    by (rule ensures_and_then [OF ensures_change open_session_agrees [OF R]]) (auto simp: sides_agree_def intro: agrees_new_table)
  have "ensures (\<lambda>w. sides_agree live w \<and> near w = c)
      (if inst \<noteq> saved_xr_instance c then done_with (Result XR_ERROR_HANDLE_INVALID, None)
       else if \<not> requirements_called c then done_with (Result XR_ERROR_GRAPHICS_REQUIREMENTS_CALL_MISSING, None)
       else (case vk_table c of None \<Rightarrow> (\<lambda>w. (Fault, w)) | Some t \<Rightarrow>
          and_then (change_near (\<lambda>c. c\<lparr>vk_table := Some (Suc t)\<rparr>)) (\<lambda>_. open_session D G gb flags)))
      (\<lambda>x. sides_agree live) (sides_agree live)" for c gb
  proof (cases "vk_table c")
    case (Some t)
    then show ?thesis using ensures_weaken [OF table [of t gb], of "\<lambda>w. sides_agree live w \<and> near w = c"]
      by (auto intro!: ensures_done)
  qed (auto simp: ensures_def done_with_def)
  then show ?thesis
    unfolding xrCreateSession_def by (auto intro!: agreeing_catching ensures_ask split: option.split)
qed

lemma xrDestroySession_agrees:
  assumes R: "runtime_handles D live"
  shows "agreeing live (xrDestroySession D G has_next s)"
  unfolding xrDestroySession_def
proof (intro agreeing_catching agreeing_of_session)
  fix ss :: client_session
  have "agreeing live (and_then (for_each (xrDestroySwapchain D G has_next) (sorted_list_of_set (cl_swapchains ss))) (\<lambda>_.
      and_then (gpu_perform G (Cl_destroy_command_pool (cl_command_pool ss))) (\<lambda>_.
      and_then (remote D (Destroy_session s)) (\<lambda>_. done_with (Result XR_SUCCESS, None)))))"
    by (intro agreeing_then ensures_for_each xrDestroySwapchain_agrees [OF R] agreeing_calm agreeing_remote [OF R])
      (simp_all add: destroyed_by_def)
  then show "ensures (\<lambda>w. sides_agree live w \<and> client_sessions (near w) s = Some ss)
     (and_then (for_each (xrDestroySwapchain D G has_next) (sorted_list_of_set (cl_swapchains ss))) (\<lambda>_.
      and_then (gpu_perform G (Cl_destroy_command_pool (cl_command_pool ss))) (\<lambda>_.
      and_then (remote D (Destroy_session s)) (\<lambda>_. done_with (Result XR_SUCCESS, None)))))
     (\<lambda>x. sides_agree live) (sides_agree live)"
    by (rule ensures_weaken) simp_all
qed

text \<open>The calls on a swapchain\<close>

lemma xrEnumerateSwapchainImages_agrees: "agreeing live (xrEnumerateSwapchainImages has_next h capacity)"
  unfolding xrEnumerateSwapchainImages_def Let_def by (rule agreeing_of_swapchain) (auto intro: ensures_done)

lemma xrAcquireSwapchainImage_agrees: "agreeing live (xrAcquireSwapchainImage has_next h r)"
  and xrWaitSwapchainImage_agrees: "agreeing live (xrWaitSwapchainImage has_next h r)"
  unfolding xrAcquireSwapchainImage_def xrWaitSwapchainImage_def
  by (rule agreeing_of_swapchain, rule ensures_and_then [OF agreeing_ring], simp split: prod.split)+

lemma xrReleaseSwapchainImage_agrees:
  assumes R: "runtime_handles D live"
  shows "agreeing live (xrReleaseSwapchainImage D has_next h reset submit)"
  unfolding xrReleaseSwapchainImage_def
  by (intro agreeing_catching agreeing_of_swapchain, fold known_swapchain_def, rule ensures_and_then [OF known_calm], simp,
      unfold known_swapchain_def, rule ensures_and_then [OF agreeing_ring])
    (auto intro!: agreeing_then agreeing_remote [OF R] simp: destroyed_by_def split: prod.split option.split)

end
