(* ===== verification/Vulkan_Client_Props.thy ===== *)
theory Vulkan_Client_Props
  imports Vulkan_Agreement
begin

unbundle bit_operations_syntax

text \<open>
  The properties of the two halves of the Vulkan module together: the agreement of their books over
  every sequence of calls, the images they share, the copy that a release leads to, and two calls of
  an application after which they no longer fit together.
\<close>

section \<open>Every sequence of calls\<close>

text \<open>
  The functions that the client module puts into its layer, and the notices of both halves when the
  application creates and destroys an instance.
\<close>

datatype api_call =
    Create_session_call u64 "chained_struct list" u64 | Destroy_session_call u64
  | Create_swapchain_call u64 swapchain_info | Destroy_swapchain_call u64 | Enumerate_images_call u64 u32
  | Acquire_image_call u64 vk_result | Wait_image_call u64 vk_result | Release_image_call u64 vk_result vk_result
  | Requirements_call u64 | Instance_extensions_call u64 u32 bool bool | Device_extensions_call u64 u32 bool bool
  | Graphics_device_call u64 device_list | Create_instance_call u64 vulkan_instance_info
  | Create_device_call u64 u64 u64 "string list" | Instance_notice u64 | Instance_end

definition code_of :: "('c, 'd, api_result \<times> 'a option) client_call \<Rightarrow> ('c, 'd, api_result) client_call" where
  "code_of f = and_then f (\<lambda>(r, x). done_with r)"

fun application_call ::
  "bool \<Rightarrow> bool \<Rightarrow> 'd driver \<Rightarrow> 'c client_driver \<Rightarrow> api_call \<Rightarrow> ('c, 'd, api_result) client_call" where
  "application_call ndebug has_next D G (Create_session_call inst chain flags) = code_of (xrCreateSession D G has_next inst chain flags)"
| "application_call ndebug has_next D G (Destroy_session_call s) = code_of (xrDestroySession D G has_next s)"
| "application_call ndebug has_next D G (Create_swapchain_call s info) = code_of (xrCreateSwapchain D G has_next s info)"
| "application_call ndebug has_next D G (Destroy_swapchain_call h) = code_of (xrDestroySwapchain D G has_next h)"
| "application_call ndebug has_next D G (Enumerate_images_call h capacity) = code_of (xrEnumerateSwapchainImages has_next h capacity)"
| "application_call ndebug has_next D G (Acquire_image_call h r) = code_of (xrAcquireSwapchainImage has_next h r)"
| "application_call ndebug has_next D G (Wait_image_call h r) = code_of (xrWaitSwapchainImage has_next h r)"
| "application_call ndebug has_next D G (Release_image_call h r q) = code_of (xrReleaseSwapchainImage D has_next h r q)"
| "application_call ndebug has_next D G (Requirements_call inst) = code_of (xrGetVulkanGraphicsRequirements inst)"
| "application_call ndebug has_next D G (Instance_extensions_call inst n p q) = code_of (xrGetVulkanInstanceExtensions inst n p q)"
| "application_call ndebug has_next D G (Device_extensions_call inst n p q) = code_of (xrGetVulkanDeviceExtensions inst n p q)"
| "application_call ndebug has_next D G (Graphics_device_call inst dl) = code_of (xrGetVulkanGraphicsDevice D inst dl)"
| "application_call ndebug has_next D G (Create_instance_call inst info) = code_of (xrCreateVulkanInstance ndebug G inst info)"
| "application_call ndebug has_next D G (Create_device_call inst gipa phys es) = code_of (xrCreateVulkanDevice ndebug G inst gipa phys es)"
| "application_call ndebug has_next D G (Instance_notice inst) = code_of (instance_creation D inst)"
| "application_call ndebug has_next D G Instance_end = code_of (instance_end D)"

lemma agreeing_near:
  assumes "\<And>c. client_swapchains (f c) = client_swapchains c" "\<And>c. client_sessions (f c) = client_sessions c" "\<And>c. vk_table (f c) = vk_table c"
  shows "agreeing live (change_near f)"
  by (rule agreeing_change) (simp add: agrees_cong [OF assms])

lemma agreeing_initialize: "agreeing live initialize_vulkan"
  unfolding initialize_vulkan_def
proof (rule agreeing_change)
  show "client_agrees (c\<lparr>vk_table := case vk_table c of None \<Rightarrow> Some 0 | Some t \<Rightarrow> Some t\<rparr>) m" if "client_agrees c m" for c m
    using that agrees_first_table [OF that] agrees_new_table [OF that] by (cases "vk_table c") simp_all
qed

lemma agreeing_for_instance: "agreeing live f \<Longrightarrow> agreeing live (for_instance inst f)"
  unfolding for_instance_def by (rule agreeing_then) simp_all

lemma agreeing_code: "agreeing live f \<Longrightarrow> agreeing live (code_of f)"
  unfolding code_of_def by (rule agreeing_then) (simp_all split: prod.split)

lemmas driver_calls_agree = agreeing_calm [OF calm_gpu] agreeing_calm [OF calm_gpu_perform]

lemma module_calls_agree:
  assumes R: "runtime_handles D live"
  shows "agreeing live (xrGetVulkanGraphicsRequirements inst)" "agreeing live (xrGetVulkanInstanceExtensions inst n p q)"
    "agreeing live (xrGetVulkanDeviceExtensions inst n p q)" "agreeing live (xrGetVulkanGraphicsDevice D inst dl)"
    "agreeing live (xrCreateVulkanInstance ndebug G inst info)" "agreeing live (xrCreateVulkanDevice ndebug G inst gipa phys es)"
proof -
  show "agreeing live (xrGetVulkanGraphicsRequirements inst)"
    unfolding xrGetVulkanGraphicsRequirements_def by (intro agreeing_for_instance agreeing_then agreeing_near) simp_all
  show "agreeing live (xrGetVulkanInstanceExtensions inst n p q)" "agreeing live (xrGetVulkanDeviceExtensions inst n p q)"
    unfolding xrGetVulkanInstanceExtensions_def xrGetVulkanDeviceExtensions_def
    by (intro agreeing_for_instance agreeing_then agreeing_initialize agreeing_simps)+
  show "agreeing live (xrGetVulkanGraphicsDevice D inst dl)"
    unfolding xrGetVulkanGraphicsDevice_def get_physical_device_def Let_def
    by (intro agreeing_catching agreeing_for_instance agreeing_then agreeing_remote [OF R])
      (simp_all add: destroyed_by_def split: vulkan_reply.split)
  show "agreeing live (xrCreateVulkanInstance ndebug G inst info)"
    unfolding xrCreateVulkanInstance_def
    by (intro agreeing_for_instance agreeing_then agreeing_initialize)
      (auto intro!: agreeing_then agreeing_near simp: driver_calls_agree split: option.split prod.split)
  show "agreeing live (xrCreateVulkanDevice ndebug G inst gipa phys es)"
    unfolding xrCreateVulkanDevice_def
    by (intro agreeing_for_instance agreeing_then)
      (auto intro!: agreeing_then simp: driver_calls_agree split: prod.split)
qed

lemma notices_agree:
  assumes R: "runtime_handles D live"
  shows "agreeing live (instance_creation D inst)" "agreeing live (instance_end D)"
proof -
  show "agreeing live (instance_creation D inst)"
    unfolding instance_creation_def client_on_instance_def
    by (intro agreeing_catching agreeing_then agreeing_far_call on_instance_keeps [OF R] books_of_on_instance agreeing_near) simp_all
  show "agreeing live (instance_end D)"
    unfolding instance_end_def
    by (intro agreeing_catching agreeing_then agreeing_far_call on_instance_destroy_keeps [OF R] books_of_on_instance_destroy) simp
qed

lemma application_call_agrees:
  assumes R: "runtime_handles D live"
  shows "agreeing live (application_call ndebug has_next D G c)"
  by (cases c) (simp_all add: agreeing_code notices_agree [OF R] module_calls_agree [OF R] xrCreateSession_agrees [OF R] xrDestroySession_agrees [OF R]
    xrCreateSwapchain_agrees [OF R] xrDestroySwapchain_agrees [OF R] xrEnumerateSwapchainImages_agrees
    xrAcquireSwapchainImage_agrees xrWaitSwapchainImage_agrees xrReleaseSwapchainImage_agrees [OF R])

interpretation vulkan_sides: kept_invariant "application_call ndebug has_next D G" "\<lambda>c. True"
    "\<lambda>w. runtime_handles D live \<and> sides_agree live w" for ndebug has_next D G live
  by unfold_locales (auto intro: ensures_snd [OF application_call_agrees])

lemma sides_agree_init: "sides_agree live (vk_world_init c d)"
  by (simp add: sides_agree_def client_agrees_def registry_ok_def vk_world_init_def vk_client_init_def vk_module_init_def)

text \<open>
  C6: Over any sequence of calls of the application, instances created and destroyed included, answered,
  refused, failed or never answered, and whatever both
  Vulkan drivers and the runtime answer, the two halves agree: every swapchain of the client is one
  of the server, with the same session and as many images, and its ring stays within them; every
  session of the client is one of the server and lists exactly swapchains of its own.
\<close>

theorem vulkan_sides_agree:
  assumes "runtime_handles D live"
  shows "sides_agree live (snd (run_calls (application_call ndebug has_next D G) calls (vk_world_init c d)))"
  using vulkan_sides.run_keeps [of D live "vk_world_init c d" calls ndebug has_next G] assms sides_agree_init [of live c d]
  by (simp add: list.pred_True)

section \<open>Releasing an image\<close>

lemma ring_step_Ret:
  "ring_step h cs c w = (Ret r, w') \<longleftrightarrow>
   (\<exists>ring. swapchain_call c (cs_ring cs) = (r, ring) \<and>
     (vk_trace ring = vk_trace (cs_ring cs) \<or> vk_table (near w) = Some (cs_table cs)) \<and>
     w' = w\<lparr>near := (near w)\<lparr>client_swapchains := (client_swapchains (near w))(h \<mapsto> cs\<lparr>cs_ring := ring\<rparr>)\<rparr>\<rparr>)"
  by (auto simp: ring_step_def split: prod.split)

lemma release_success:
  assumes "swapchain_call (Release reset submit) ring = ((XR_SUCCESS, i), ring')"
  shows "i = Some (release_head ring) \<and> 0 < num_acquired ring \<and>
    vk_trace ring' = vk_trace ring @ [Reset_fence (release_head ring), Submit_release (release_head ring)]"
  using assms by (auto simp: release_def Let_def vk_record_def code_simps split: if_splits)

lemma catching_success:
  "catching f w = (Ret (Result XR_SUCCESS, x), w') \<longleftrightarrow> f w = (Ret (Result XR_SUCCESS, x), w')"
  by (cases "f w"; cases "fst (f w)") (auto simp: catching_def code_simps)

lemma of_swapchain_success:
  "of_swapchain has_next h f w = (Ret (Result XR_SUCCESS, x), w') \<longleftrightarrow>
   (\<exists>cs. client_swapchains (near w) h = Some cs \<and> f cs w = (Ret (Result XR_SUCCESS, x), w'))"
  by (auto simp: of_swapchain_def and_then_def ask_def done_with_def without_state_def code_simps split: option.splits)

lemma of_session_success:
  "of_session has_next s f w = (Ret (Result XR_SUCCESS, x), w') \<longleftrightarrow>
   (\<exists>ss. client_sessions (near w) s = Some ss \<and> f ss w = (Ret (Result XR_SUCCESS, x), w'))"
  by (auto simp: of_session_def and_then_def ask_def done_with_def without_state_def code_simps split: option.splits)

text \<open>
  C10: When the application's release succeeds, the client has reset the fence of the image at its
  release head and submitted the end of its rendering, and the server has then copied exactly this
  image into an image of the runtime, with the calls in the order that the semaphores need.
\<close>

theorem release_reaches_runtime:
  assumes "sides_agree live w" "xrReleaseSwapchainImage D has_next h reset submit w = (Ret (Result XR_SUCCESS, x), w')"
  shows "\<exists>cs ring sc dest. client_swapchains (near w) h = Some cs \<and> client_swapchains (near w') h = Some (cs\<lparr>cs_ring := ring\<rparr>) \<and>
    vk_trace ring = vk_trace (cs_ring cs) @ [Reset_fence (release_head (cs_ring cs)), Submit_release (release_head (cs_ring cs))] \<and>
    swapchain_states (far w) h = Some sc \<and> release_head (cs_ring cs) < length (shared_images sc) \<and> dest \<in> set (runtime_images sc) \<and>
    extends (release_calls h sc (shared_images sc ! release_head (cs_ring cs)) dest) (far w) (far w')"
proof -
  obtain cs r i w1 where cs: "client_swapchains (near w) h = Some cs"
    and step: "ring_step h cs (Release reset submit) w = (Ret (XR_SUCCESS, i), w1)"
    and sent: "\<exists>rep. remote D (Release_swapchain_image h (case i of None \<Rightarrow> 0 | Some k \<Rightarrow> word_of_nat k)) w1 = (Ret rep, w')"
    using assms(2) unfolding xrReleaseSwapchainImage_def catching_success of_swapchain_success
    by (auto simp: and_then_Ret_iff value_of_Ret_iff done_with_def split: if_splits prod.splits)
  obtain ring where ring: "swapchain_call (Release reset submit) (cs_ring cs) = ((XR_SUCCESS, i), ring)"
    and w1: "w1 = w\<lparr>near := (near w)\<lparr>client_swapchains := (client_swapchains (near w))(h \<mapsto> cs\<lparr>cs_ring := ring\<rparr>)\<rparr>\<rparr>"
    using step unfolding ring_step_Ret by blast
  let ?i = "release_head (cs_ring cs)"
  have i: "i = Some ?i" "0 < num_acquired (cs_ring cs)" "vk_trace ring = vk_trace (cs_ring cs) @ [Reset_fence ?i, Submit_release ?i]"
    using release_success [OF ring] by simp_all
  have agrees: "swapchain_agrees (near w) (far w) h cs"
    using assms(1) cs by (auto simp: sides_agree_def intro: agreed_swapchain)
  then obtain sc where sc: "swapchain_states (far w) h = Some sc" "length (shared_images sc) = length (cs_images cs)"
    by (auto simp: swapchain_agrees_def)
  have small: "?i < length (cs_images cs)" "length (cs_images cs) < 2 ^ 32"
    using agrees i(2) by (cases "length (cs_images cs) = 0"; simp add: swapchain_agrees_def ring_bounds_def)+
  then have unat: "unat (word_of_nat ?i :: u32) = ?i" by (simp add: unat_of_nat)
  obtain rep where "remote D (Release_swapchain_image h (word_of_nat ?i)) w1 = (Ret rep, w')" using sent i(1) by auto
  then obtain m where m: "serve D (Release_swapchain_image h (word_of_nat ?i)) (far w) = (Ret rep, m)" "w' = w1\<lparr>far := m\<rparr>"
    unfolding remote_Ret w1 by auto
  obtain dest where "dest \<in> set (runtime_images sc)" "extends (release_calls h sc (shared_images sc ! ?i) dest) (far w) m"
    using released_image_copied [OF m(1)] sc(1) unat by auto
  then show ?thesis using cs i(3) sc small m(2) w1 by auto
qed

section \<open>Sharing images\<close>

text \<open>What the client asks of its driver for one image, in order.\<close>

definition import_trace :: "image_info \<Rightarrow> u64 \<Rightarrow> u32 \<Rightarrow> fds \<Rightarrow> imported_image \<Rightarrow> client_op list" where
  "import_trace ii sz ty f img =
     [Cl_create_image ii, Cl_import_memory (memory_handle (handles_of f)) sz ty, Cl_bind_memory (ii_image img) (ii_memory img),
      Cl_create_semaphore, Cl_import_semaphore (ii_rendering_done img) (rendering_done_handle (handles_of f)),
      Cl_create_semaphore, Cl_import_semaphore (ii_copying_done img) (copying_done_handle (handles_of f))]"

text \<open>A step of the client that makes the calls \<open>cs\<close> and reads \<open>k\<close> handles.\<close>

definition client_steps :: "client_op list \<Rightarrow> nat \<Rightarrow> ('c, 'd) vk_world \<Rightarrow> ('c, 'd) vk_world \<Rightarrow> bool" where
  "client_steps cs k w w' \<longleftrightarrow>
     still w w' \<and> cl_trace (near w') = cl_trace (near w) @ cs \<and> handles_read (near w') = handles_read (near w) + k"

lemma client_steps_trans: "client_steps cs k a b \<Longrightarrow> client_steps ds l b c \<Longrightarrow> client_steps (cs @ ds) (k + l) a c"
  by (simp add: client_steps_def still_def)

lemma client_steps_refl [simp]: "client_steps [] 0 w w"
  by (simp add: client_steps_def still_def)

lemma gpu_steps: "gpu G c w = (Ret r, w') \<Longrightarrow> client_steps [c] 0 w w'"
  by (auto simp: gpu_def client_steps_def still_def split: prod.splits)

lemma gpu_require_steps: "gpu_require msg G c w = (Ret v, w') \<Longrightarrow> client_steps [c] 0 w w'"
  by (auto simp: gpu_require_def and_then_Ret_iff done_with_def fail_with_def dest!: gpu_steps split: if_splits)

lemma gpu_perform_Ret: "\<exists>w'. gpu_perform G c w = (Ret (), w') \<and> client_steps [c] 0 w w'"
  by (cases "G c (cl_gpu (near w))") (auto simp: gpu_perform_def gpu_def and_then_def done_with_def client_steps_def still_def)

lemma gpu_perform_steps: "gpu_perform G c w = (Ret x, w') \<Longrightarrow> client_steps [c] 0 w w'"
  using gpu_perform_Ret [of G c w] by auto

definition pending :: "('c, 'd) vk_world \<Rightarrow> u32 list" where
  "pending w = drop (handles_read (near w)) (handles_out (far w))"

lemma next_handles_steps:
  assumes "next_handles w = (Ret h, w')" "pending w = write_image_handles (handles_of f) @ hs"
  shows "h = handles_of f \<and> client_steps [] 3 w w'"
  using assms by (auto simp: next_handles_def pending_def client_steps_def still_def)

lemma import_image_steps:
  assumes "import_image G ii sz ty w = (Ret img, w')" "pending w = write_image_handles (handles_of f) @ hs"
  shows "client_steps (import_trace ii sz ty f img) 3 w w'"
proof -
  obtain h w1 where h: "next_handles w = (Ret h, w1)"
    and rest: "and_then (gpu_require ''Failed to create VkImage'' G (Cl_create_image ii)) (\<lambda>image.
       and_then (gpu_require ''Failed to import memory from FD'' G (Cl_import_memory (memory_handle h) sz ty)) (\<lambda>memory.
       and_then (gpu_require ''Failed to bind memory to image'' G (Cl_bind_memory image memory)) (\<lambda>_.
       and_then (import_semaphore G (rendering_done_handle h)) (\<lambda>rendering_done.
       and_then (import_semaphore G (copying_done_handle h)) (\<lambda>copying_done.
       done_with \<lparr>ii_image = image, ii_memory = memory, ii_rendering_done = rendering_done, ii_copying_done = copying_done\<rparr>)))))
       w1 = (Ret img, w')"
    using assms(1) by (auto simp: import_image_def and_then_Ret_iff)
  have w1: "h = handles_of f" "client_steps [] 3 w w1" using next_handles_steps [OF h assms(2)] by simp_all
  have "client_steps (import_trace ii sz ty f img) 0 w1 w'"
    using rest unfolding and_then_Ret_iff import_semaphore_def done_with_def w1(1)
    by (auto simp: import_trace_def client_steps_def still_def and_then_Ret_iff done_with_def dest!: gpu_require_steps)
  then show ?thesis using client_steps_trans [OF w1(2)] by fastforce
qed

lemma pending_after:
  assumes "client_steps cs k w w'" "pending w = xs @ ys" "length xs = k"
  shows "pending w' = ys"
proof -
  have "pending w' = drop k (pending w)" using assms(1) by (simp add: pending_def client_steps_def still_def add.commute)
  then show ?thesis using assms(2,3) by simp
qed

lemma import_images_steps:
  "for_each (\<lambda>i. import_image G ii sz ty) ks w = (Ret imgs, w') \<Longrightarrow> length fs = length ks \<Longrightarrow>
   pending w = concat (map (write_image_handles \<circ> handles_of) fs) @ hs \<Longrightarrow>
   client_steps (concat (map2 (import_trace ii sz ty) fs imgs)) (3 * length fs) w w'"
proof (induction ks arbitrary: w fs imgs)
  case (Cons k ks)
  obtain f gs where fs: "fs = f # gs" using Cons.prems(2) by (cases fs) auto
  obtain img js w1 where img: "import_image G ii sz ty w = (Ret img, w1)" "imgs = img # js"
    and rest: "for_each (\<lambda>i. import_image G ii sz ty) ks w1 = (Ret js, w')"
    using Cons.prems(1) by (auto simp: and_then_Ret_iff done_with_def)
  let ?more = "concat (map (write_image_handles \<circ> handles_of) gs) @ hs"
  have now: "pending w = write_image_handles (handles_of f) @ ?more" using Cons.prems(3) fs by (simp add: comp_def)
  have one: "client_steps (import_trace ii sz ty f img) 3 w w1" by (rule import_image_steps [OF img(1) now])
  have "pending w1 = ?more" by (rule pending_after [OF one now]) (simp add: write_image_handles_def)
  then have "client_steps (concat (map2 (import_trace ii sz ty) gs js)) (3 * length gs) w1 w'"
    by (intro Cons.IH [OF rest]) (use Cons.prems(2) fs in \<open>simp_all add: comp_def\<close>)
  then show ?case using client_steps_trans [OF one] fs img(2) by fastforce
qed (simp add: done_with_def)

lemma record_command_buffer_steps:
  "record_command_buffer G pool barrier w = (Ret cb, w') \<Longrightarrow> \<exists>cs. client_steps cs 0 w w'"
  unfolding record_command_buffer_def and_then_Ret_iff done_with_def client_steps_def
  by (fastforce dest!: gpu_require_steps gpu_perform_steps simp: client_steps_def still_def)

lemma create_client_image_steps:
  assumes "create_client_image G ss ii ty im w = (Ret ci, w')"
  shows "ci_imported ci = im \<and> (\<exists>cs. client_steps cs 0 w w')"
proof -
  let ?aspect = "get_aspect_from_format (im_format ii)"
  obtain fence w1 a w2 b where steps: "gpu_require ''Unable to create fence'' G Cl_create_fence w = (Ret fence, w1)"
    and a: "record_acquire_command_buffer G (cl_command_pool ss) (ii_image im) ty ?aspect (im_mips ii) (im_layers ii) w1 = (Ret a, w2)"
    and b: "record_release_command_buffer G (cl_command_pool ss) (ii_image im) ty (gb_family (cl_binding ss)) ?aspect
       (im_mips ii) (im_layers ii) w2 = (Ret b, w')" and ci: "ci_imported ci = im"
    using assms by (auto simp: create_client_image_def Let_def and_then_Ret_iff done_with_def)
  obtain as bs where "client_steps as 0 w1 w2" "client_steps bs 0 w2 w'"
    using a b unfolding record_acquire_command_buffer_def record_release_command_buffer_def
    by (blast dest: record_command_buffer_steps)
  then have "client_steps ([Cl_create_fence] @ as @ bs) 0 w w'"
    using gpu_require_steps [OF steps] by (simp add: client_steps_def still_def)
  then show ?thesis using ci by blast
qed

lemma create_images_steps:
  "for_each (create_client_image G ss ii ty) ims w = (Ret cis, w') \<Longrightarrow>
   map ci_imported cis = ims \<and> (\<exists>cs. client_steps cs 0 w w')"
proof (induction ims arbitrary: w cis)
  case (Cons im ims)
  then obtain ci js w1 where "create_client_image G ss ii ty im w = (Ret ci, w1)" "cis = ci # js"
      "for_each (create_client_image G ss ii ty) ims w1 = (Ret js, w')"
    by (auto simp: and_then_Ret_iff done_with_def)
  then have one: "ci_imported ci = im" "\<exists>cs. client_steps cs 0 w w1" "cis = ci # js"
    and more: "map ci_imported js = ims" "\<exists>cs. client_steps cs 0 w1 w'"
    using create_client_image_steps [of G ss ii ty im w ci w1] Cons.IH [of w1 js] by auto
  then obtain as bs where "client_steps as 0 w w1" "client_steps bs 0 w1 w'" by blast
  then have "client_steps (as @ bs) 0 w w'" using client_steps_trans by fastforce
  then show ?case using one more by auto
qed (auto simp: done_with_def intro: exI [of _ "[]"])

lemma register_Ret:
  assumes "register_swapchain s info h images w = (Ret (Result XR_SUCCESS, Some h'), w')" "client_swapchains (near w) h = None"
  shows "h' = h \<and> far w' = far w \<and> handles_read (near w') = handles_read (near w) \<and> cl_trace (near w') = cl_trace (near w) \<and>
    (\<exists>cs. client_swapchains (near w') h = Some cs \<and> cs_images cs = images)"
  using assms by (auto simp: register_swapchain_def and_then_Ret_iff ask_def store_client_swapchain_def update_client_session_def
      change_near_def change_def value_of_Ret_iff done_with_def split: option.splits)

lemma length_handles: "length (concat (map (write_image_handles \<circ> handles_of) fs)) = 3 * length fs"
  by (induction fs) (simp_all add: write_image_handles_def)

text \<open>Every handle that the server has written is read.\<close>

definition exchange_empty :: "('c, 'd) vk_world \<Rightarrow> bool" where
  "exchange_empty w \<longleftrightarrow> handles_read (near w) = length (handles_out (far w))"

text \<open>
  C8: When no handle is left over and a creation succeeds, the client has imported, for every image
  in order, exactly the three descriptors that the server exported for the memory and the two
  semaphores of this image, with the size and the memory type of the server, into images made after
  the same description as the server's; and no handle is left over again.
\<close>

theorem images_shared:
  assumes "runtime_handles D live" "sides_agree live w" "exchange_empty w"
    and "xrCreateSwapchain D G has_next s info w = (Ret (Result XR_SUCCESS, Some h), w')"
  shows "\<exists>sc cs fs sz ty before after.
    swapchain_states (far w') h = Some sc \<and> client_swapchains (near w') h = Some cs \<and>
    length (cs_images cs) = length (shared_images sc) \<and> length fs = length (shared_images sc) \<and>
    (\<forall>si\<in>set (shared_images sc). si_info si = shared_image_info info) \<and>
    (shared_images sc \<noteq> [] \<longrightarrow> sz = si_memory_size (last (shared_images sc)) \<and> ty = si_memory_type (last (shared_images sc))) \<and>
    gpu_trace (far w') = before @ concat (map2 export_trace (shared_images sc) fs) \<and>
    cl_trace (near w') = cl_trace (near w) @
      concat (map2 (import_trace (shared_image_info info) sz ty) fs (map ci_imported (cs_images cs))) @ after \<and>
    exchange_empty w'"
proof -
  obtain ss rep w1 where rep: "remote D (Create_swapchain s info) w = (Ret rep, w1)"
    and after: "(case rep of
         Swapchain_refused r \<Rightarrow> done_with (Result r, None)
       | Swapchain_created h n sz ty \<Rightarrow>
           (case client_image_type (sw_usage info) of
              None \<Rightarrow> done_with (Result XR_ERROR_VALIDATION_FAILURE, None)
            | Some ity \<Rightarrow> finish_swapchain G s ss info h n sz ty ity)
       | _ \<Rightarrow> fail_with unexpected_reply) w1 = (Ret (Result XR_SUCCESS, Some h), w')"
    using assms(4) unfolding xrCreateSwapchain_def catching_success of_session_success and_then_Ret_iff by blast
  from after obtain h0 n sz ty ity where "rep = Swapchain_created h0 n sz ty"
    and finish: "finish_swapchain G s ss info h0 n sz ty ity w1 = (Ret (Result XR_SUCCESS, Some h), w')"
    by (cases rep) (auto simp: done_with_def fail_with_def split: option.splits)
  then have sent: "remote D (Create_swapchain s info) w = (Ret (Swapchain_created h0 n sz ty), w1)" using rep by simp
  obtain m where m: "serve D (Create_swapchain s info) (far w) = (Ret (Swapchain_created h0 n sz ty), m)" "w1 = w\<lparr>far := m\<rparr>"
    using sent by (auto simp: remote_Ret)
  obtain sc fs where made: "created_with s info h0 n sz ty sc fs (far w) m"
    using create_swapchain_Ret [OF assms(1) _ m(1)] assms(2) by (auto simp: sides_agree_def)
  have new: "client_swapchains (near w) h0 = None"
    using made assms(2) agreed_swapchain [of "near w" "far w" h0]
    by (cases "client_swapchains (near w) h0") (auto simp: sides_agree_def created_with_def swapchain_agrees_def)
  have pending: "pending w1 = concat (map (write_image_handles \<circ> handles_of) fs) @ []"
    using made assms(3) m(2) by (simp add: pending_def created_with_def exchange_empty_def)
  obtain imported images w2 w3 where
      imported: "for_each (\<lambda>i. import_image G (shared_image_info info) sz ty) [0..<unat n] w1 = (Ret imported, w2)"
    and images: "for_each (create_client_image G ss (create_vk_image_create_info info) ity) imported w2 = (Ret images, w3)"
    and registered: "register_swapchain s info h0 images w3 = (Ret (Result XR_SUCCESS, Some h), w')"
    using finish by (auto simp: finish_swapchain_def import_images_def and_then_Ret_iff)
  have "length fs = unat n" using made by (simp add: created_with_def)
  then have first: "client_steps (concat (map2 (import_trace (shared_image_info info) sz ty) fs imported)) (3 * length fs) w1 w2"
    using import_images_steps [OF imported _ pending] by simp
  obtain after where second: "map ci_imported images = imported" "client_steps after 0 w2 w3"
    using create_images_steps [OF images] by blast
  have both: "client_steps (concat (map2 (import_trace (shared_image_info info) sz ty) fs imported) @ after) (3 * length fs) w1 w3"
    using client_steps_trans [OF first second(2)] by simp
  then have "client_swapchains (near w3) h0 = None" using new m(2) by (simp add: client_steps_def still_def)
  from register_Ret [OF registered this] obtain cs where cs: "h = h0" "far w' = far w3" "handles_read (near w') = handles_read (near w3)"
      "cl_trace (near w') = cl_trace (near w3)" "client_swapchains (near w') h0 = Some cs" "cs_images cs = images" by blast
  have "length (handles_out m) = length (handles_out (far w)) + 3 * length fs"
    using made by (simp add: created_with_def length_handles)
  then have "exchange_empty w'" using both cs assms(3) m(2) by (simp add: exchange_empty_def client_steps_def still_def)
  moreover have "length images = length (shared_images sc)"
    using made for_each_length [OF images] for_each_length [OF imported] by (simp add: created_with_def)
  ultimately show ?thesis
    using made both cs m(2) second(1) unfolding created_with_def client_steps_def still_def
    by (intro exI [of _ sc] exI [of _ cs] exI [of _ fs] exI [of _ sz] exI [of _ ty]) auto
qed

section \<open>Images that are both\<close>

text \<open>
  C40: The client refuses images that are both color and depth-stencil, after the server has made
  them: the creation fails, the server keeps the swapchain, and the descriptors of all its images
  stay in the exchange, where the next creation reads them. When the client then destroys the
  session, without other swapchains of its own, the loop of the server uses an invalid iterator; if that
  ends the server, the client sees the connection close.
\<close>

theorem refused_images_stay:
  assumes "runtime_handles D live" "sides_agree live w" "client_sessions (near w) s = Some ss" "\<not> disconnected w"
    and "serve D (Create_swapchain s info) (far w) = (Ret (Swapchain_created h n sz ty), m)" "client_image_type (sw_usage info) = None"
  shows "xrCreateSwapchain D G has_next s info w = (Ret (Result XR_ERROR_VALIDATION_FAILURE, None), w\<lparr>far := m\<rparr>) \<and>
    swapchain_states m h \<noteq> None \<and> length (handles_out m) = length (handles_out (far w)) + 3 * unat n \<and>
    fst (serve D (Destroy_session s) m) = Fault \<and>
    (cl_swapchains ss = {} \<longrightarrow>
      (\<exists>w'. xrDestroySession D G has_next s (w\<lparr>far := m\<rparr>) = (Ret (Result XR_ERROR_RUNTIME_FAILURE, None), w') \<and> disconnected w'))"
proof -
  obtain sc fs where made: "created_with s info h n sz ty sc fs (far w) m"
    using create_swapchain_Ret [OF assms(1) _ assms(5)] assms(2) by (auto simp: sides_agree_def)
  have created: "xrCreateSwapchain D G has_next s info w = (Ret (Result XR_ERROR_VALIDATION_FAILURE, None), w\<lparr>far := m\<rparr>)"
    using assms(3-6) by (simp add: xrCreateSwapchain_def catching_def of_session_def and_then_def ask_def remote_def far_call_def done_with_def)
  obtain hs where hs: "session_states m s = Some hs" "hs \<noteq> {}" using made by (auto simp: created_with_def)
  then have fault: "serve D (Destroy_session s) m = (Fault, m)"
    by (simp add: handle_destroy_session_def and_then_def value_of_def)
  have crashed: "\<exists>w'. xrDestroySession D G has_next s (w\<lparr>far := m\<rparr>) = (Ret (Result XR_ERROR_RUNTIME_FAILURE, None), w') \<and> disconnected w'"
    if empty: "cl_swapchains ss = {}"
  proof -
    let ?w = "w\<lparr>far := m\<rparr>"
    obtain w1 where w1: "gpu_perform G (Cl_destroy_command_pool (cl_command_pool ss)) ?w = (Ret (), w1)" "still ?w w1"
      using gpu_perform_Ret [of G "Cl_destroy_command_pool (cl_command_pool ss)" ?w] by (auto simp: client_steps_def)
    have "remote D (Destroy_session s) w1 = (Throw connection_closed, w1\<lparr>far := m, disconnected := True\<rparr>)"
      using w1(2) fault assms(4) by (simp add: remote_def far_call_def still_def)
    then show ?thesis using assms(3) empty w1(1)
      by (simp add: xrDestroySession_def catching_def of_session_def and_then_def ask_def done_with_def)
  qed
  have "length (handles_out m) = length (handles_out (far w)) + 3 * unat n"
    using made by (simp add: created_with_def length_handles)
  then show ?thesis using made created crashed fault by (auto simp: created_with_def)
qed

section \<open>A second session\<close>

text \<open>A step that keeps the swapchains and the table of Vulkan functions\<close>

definition same_table :: "('c, 'd) vk_world \<Rightarrow> ('c, 'd) vk_world \<Rightarrow> bool" where
  "same_table w w' \<longleftrightarrow> client_swapchains (near w') = client_swapchains (near w) \<and> vk_table (near w') = vk_table (near w)"

interpretation same_table: step_preorder same_table
  by unfold_locales (auto simp: same_table_def)

lemma same_table_calm: "calm f \<Longrightarrow> same_table.follows f"
  by (auto simp: still.follows_def same_table.follows_def still_def same_table_def)

lemma same_table_remote: "same_table.follows (remote D req)"
  by (simp add: same_table.follows_def same_table_def remote_near)

lemma same_table_store: "same_table.follows (store_client_session s ss)"
  by (simp add: same_table.follows_def same_table_def store_client_session_def change_near_def change_def)

lemma catching_snd: "snd (catching f w) = snd (f w)"
  by (cases "f w", cases "fst (f w)") (auto simp: catching_def)

lemma same_table_open: "same_table.follows (open_session D G gb flags)"
  unfolding open_session_def
proof (rule same_table.follows_and_then [OF same_table_remote])
  fix rep
  show "same_table.follows (case rep of
      Session_created s \<Rightarrow>
        and_then (gpu G (Cl_get_device_queue (gb_family gb) (gb_queue_index gb))) (\<lambda>(r, queue).
        and_then (gpu_require ''Failed to create command pool'' G (Cl_create_command_pool (gb_family gb))) (\<lambda>pool.
        and_then (store_client_session s
            \<lparr>cl_binding = gb, cl_queue = queue, cl_command_pool = pool, cl_swapchains = {}\<rparr>) (\<lambda>_.
        done_with (Result XR_SUCCESS, Some s))))
    | _ \<Rightarrow> fail_with unexpected_reply)"
    by (cases rep) (auto intro!: same_table.follows_and_then same_table_store same_table_calm [OF calm_gpu]
        same_table_calm [OF calm_gpu_require] split: prod.split)
qed

lemma xrCreateSession_table:
  assumes "find_graphics_binding chain = Some gb" "inst = saved_xr_instance (near w)" "requirements_called (near w)"
    and "vk_table (near w) = Some t"
  shows "client_swapchains (near (snd (xrCreateSession D G has_next inst chain flags w))) = client_swapchains (near w) \<and>
    vk_table (near (snd (xrCreateSession D G has_next inst chain flags w))) = Some (Suc t)"
proof -
  let ?w = "w\<lparr>near := (near w)\<lparr>vk_table := Some (Suc t)\<rparr>\<rparr>"
  have "same_table ?w (snd (open_session D G gb flags ?w))"
    using same_table_open unfolding same_table.follows_def by blast
  moreover have "snd (xrCreateSession D G has_next inst chain flags w) = snd (open_session D G gb flags ?w)"
    using assms by (simp add: xrCreateSession_def catching_snd and_then_def ask_def change_near_def change_def)
  ultimately show ?thesis by (simp add: same_table_def)
qed

text \<open>
  C39: A swapchain refers to the table of Vulkan functions that was current at its creation, and every
  attempt to create another session that gets as far as asking the server, successful or not, frees this
  table: the next image that is acquired from the swapchain is a call through a dangling reference.
\<close>

theorem second_session_dangles:
  assumes "sides_agree live w" "client_swapchains (near w) h = Some cs" "num_acquired (cs_ring cs) < length (cs_images cs)"
    and "\<not> is_static (cs_ring cs)" "find_graphics_binding chain = Some gb" "requirements_called (near w)"
  shows "fst (xrAcquireSwapchainImage has_next h submit
    (snd (xrCreateSession D G has_layer (saved_xr_instance (near w)) chain flags w))) = Fault"
proof -
  have agrees: "swapchain_agrees (near w) (far w) h cs"
    using assms(1,2) by (auto simp: sides_agree_def intro: agreed_swapchain)
  then obtain t where t: "vk_table (near w) = Some t" "cs_table cs \<le> t" by (auto simp: swapchain_agrees_def)
  let ?w = "snd (xrCreateSession D G has_layer (saved_xr_instance (near w)) chain flags w)"
  have after: "client_swapchains (near ?w) h = Some cs" "vk_table (near ?w) = Some (Suc t)"
    using xrCreateSession_table [OF assms(5) refl assms(6) t(1)] assms(2) by simp_all
  obtain r ring where ring: "swapchain_call (Acquire submit) (cs_ring cs) = (r, ring)" by (cases "swapchain_call (Acquire submit) (cs_ring cs)")
  have "images_size (cs_ring cs) = length (cs_images cs)" using agrees by (simp add: swapchain_agrees_def ring_bounds_def)
  then have "vk_trace ring \<noteq> vk_trace (cs_ring cs)"
    using ring assms(3,4) by (auto simp: acquire_def Let_def vk_record_def split: if_splits)
  then show ?thesis using after ring t(2)
    by (simp add: xrAcquireSwapchainImage_def of_swapchain_def and_then_def ask_def ring_step_def)
qed

section \<open>A small application\<close>

text \<open>The runtime of \<open>Vulkan_Server_Props\<close> and a client whose driver gives every kind of object one handle.\<close>

definition small_client :: "unit client_driver" where
  "small_client c u =
     ((VK_SUCCESS,
       case c of
         Cl_create_image i \<Rightarrow> 41 | Cl_import_memory f n t \<Rightarrow> 42 | Cl_create_semaphore \<Rightarrow> 43 | Cl_create_fence \<Rightarrow> 44
       | Cl_allocate_command_buffer p \<Rightarrow> 45 | Cl_get_device_queue f i \<Rightarrow> 46 | Cl_create_command_pool f \<Rightarrow> 47 | _ \<Rightarrow> 0), u)"

definition small_session :: client_session where
  "small_session = \<lparr>cl_binding = \<lparr>gb_family = 0, gb_queue_index = 0\<rparr>, cl_queue = 46, cl_command_pool = 47, cl_swapchains = {}\<rparr>"

text \<open>After the creation of the session\<close>

definition session_module :: "u64 list vk_module" where
  "session_module = snd (serve small_driver (Create_session 0) small_host)"

definition ready_client :: "unit vk_client" where
  "ready_client = (vk_client_init ())
     \<lparr>client_sessions := [3 \<mapsto> small_session], requirements_called := True, vk_table := Some 1, saved_xr_instance := 1\<rparr>"

definition ready_world :: "(unit, u64 list) vk_world" where
  "ready_world = \<lparr>near = ready_client, far = session_module, disconnected = False\<rparr>"

text \<open>After the creation of a swapchain, whose first image has been acquired and waited for\<close>

definition small_client_swapchain :: client_swapchain where
  "small_client_swapchain =
     (let ci = \<lparr>ci_imported = \<lparr>ii_image = 41, ii_memory = 42, ii_rendering_done = 43, ii_copying_done = 43\<rparr>,
                ci_fence = 44, ci_acquire_buffer = 45, ci_release_buffer = 45\<rparr>
      in \<lparr>cs_parent = 3, cs_images = [ci, ci],
          cs_ring = snd (run_calls swapchain_call [Acquire VK_SUCCESS, Wait VK_SUCCESS] (new_swapchain 2 False)), cs_table = 1\<rparr>)"

definition shared_world :: "(unit, u64 list) vk_world" where
  "shared_world =
     \<lparr>near = ready_client\<lparr>client_sessions := [3 \<mapsto> small_session\<lparr>cl_swapchains := {7}\<rparr>],
               client_swapchains := [7 \<mapsto> small_client_swapchain]\<rparr>,
      far = small_server, disconnected = False\<rparr>"

lemma session_module_state:
  "swapchain_states session_module = (\<lambda>h. None) \<and> session_states session_module = [3 \<mapsto> {}] \<and> handles_out session_module = []
   \<and> drv session_module = [] \<and> vm_functions session_module = set vulkan_functions \<and> vm_vk session_module = Device_functions"
  using small_host_state by (simp add: session_module_def action_defs creation_defs vk_module_init_def code_simps)

lemma small_swapchain_creation:
  "serve small_driver (Create_swapchain 3 small_swapchain_info) session_module = (Ret (Swapchain_created 7 2 4096 0), small_server)"
proof -
  have "fst (serve small_driver (Create_swapchain 3 small_swapchain_info) session_module) = Ret (Swapchain_created 7 2 4096 0)"
    using session_module_state
    by (simp add: action_defs creation_defs code_simps upt_rec Let_def required_memory_def image_type_of_def small_info_simps)
      (simp add: small_swapchain_info_def)
  moreover have "snd (serve small_driver (Create_swapchain 3 small_swapchain_info) session_module) = small_server"
    by (simp add: small_server_def session_module_def run_calls_Cons del: run_calls.simps(2) serve.simps)
  ultimately show ?thesis by (metis prod.collapse)
qed

lemma ready_agrees: "sides_agree set ready_world"
  using session_module_state
  by (simp add: sides_agree_def client_agrees_def registry_ok_def session_agrees_def ready_world_def ready_client_def
      vk_client_init_def small_session_def)

lemma small_ring:
  "images_size (cs_ring small_client_swapchain) = 2 \<and> num_acquired (cs_ring small_client_swapchain) = 1 \<and>
   acquire_head (cs_ring small_client_swapchain) = 1 \<and> wait_head (cs_ring small_client_swapchain) = 1 \<and>
   release_head (cs_ring small_client_swapchain) = 0 \<and> \<not> is_static (cs_ring small_client_swapchain)"
  by (simp add: small_client_swapchain_def Let_def acquire_def wait_def new_swapchain_def images_size_def next_head_def vk_record_def
      code_simps)

lemma small_client_swapchain_simps [simp]:
  "cs_parent small_client_swapchain = 3" "length (cs_images small_client_swapchain) = 2" "cs_images small_client_swapchain \<noteq> []"
  "cs_table small_client_swapchain = 1"
  by (simp_all add: small_client_swapchain_def Let_def)

lemma shared_agrees: "sides_agree set shared_world"
  using small_registry small_server_state small_ring
  by (simp add: sides_agree_def client_agrees_def swapchain_agrees_def session_agrees_def ring_bounds_def shared_world_def
      ready_client_def vk_client_init_def small_session_def small_state_def)

theorem vulkan_sides_agree_witness:
  "sides_agree set (snd (run_calls (application_call True False small_driver small_client)
     [Instance_notice 1, Instance_extensions_call 1 0 True True, Requirements_call 1,
      Create_session_call 1 [Vulkan_binding \<lparr>gb_family = 0, gb_queue_index = 0\<rparr>] 0,
      Create_swapchain_call 3 small_swapchain_info, Acquire_image_call 7 VK_SUCCESS, Destroy_session_call 3, Instance_end]
     (vk_world_init () [])))"
  by (rule vulkan_sides_agree [OF small_handles])

lemma small_release:
  "fst (xrReleaseSwapchainImage small_driver False 7 VK_SUCCESS VK_SUCCESS shared_world) = Ret (Result XR_SUCCESS, None)"
  using small_server_state small_ring
  by (simp add: xrReleaseSwapchainImage_def of_swapchain_def catching_def ring_step_def remote_def far_call_def shared_world_def ready_client_def
      release_def next_head_def vk_record_def handle_release_swapchain_image_def record_copy_def action_defs Let_def code_simps
      small_state_def small_image_def images_size_def)

theorem release_reaches_runtime_witness:
  "\<exists>cs ring sc dest. client_swapchains (near shared_world) 7 = Some cs \<and>
    client_swapchains (near (snd (xrReleaseSwapchainImage small_driver False 7 VK_SUCCESS VK_SUCCESS shared_world))) 7
      = Some (cs\<lparr>cs_ring := ring\<rparr>) \<and>
    vk_trace ring = vk_trace (cs_ring cs) @ [Reset_fence (release_head (cs_ring cs)), Submit_release (release_head (cs_ring cs))] \<and>
    swapchain_states (far shared_world) 7 = Some sc \<and> release_head (cs_ring cs) < length (shared_images sc) \<and>
    dest \<in> set (runtime_images sc) \<and>
    extends (release_calls 7 sc (shared_images sc ! release_head (cs_ring cs)) dest) (far shared_world)
      (far (snd (xrReleaseSwapchainImage small_driver False 7 VK_SUCCESS VK_SUCCESS shared_world)))"
  using small_release by (intro release_reaches_runtime [OF shared_agrees]) (rule prod_eqI; simp)

theorem second_session_dangles_witness:
  "fst (xrAcquireSwapchainImage False 7 VK_SUCCESS (snd (xrCreateSession small_driver small_client False (saved_xr_instance (near shared_world))
     [Other_struct 4, Vulkan_binding \<lparr>gb_family = 0, gb_queue_index = 0\<rparr>] 0 shared_world))) = Fault"
  by (rule second_session_dangles [OF shared_agrees, of 7 small_client_swapchain])
    (use small_ring in \<open>simp_all add: shared_world_def ready_client_def\<close>)

lemma small_client_creation:
  "fst (xrCreateSwapchain small_driver small_client False 3 small_swapchain_info ready_world) = Ret (Result XR_SUCCESS, Some 7)"
proof -
  have usage: "client_image_type (sw_usage small_swapchain_info) = Some Color"
    by (simp add: client_image_type_def small_swapchain_info_def Let_def code_simps)
  show ?thesis
    using small_server_state session_module_state
    by (simp add: xrCreateSwapchain_def catching_def of_session_def remote_def far_call_def small_swapchain_creation usage ready_world_def ready_client_def
        vk_client_init_def small_session_def finish_swapchain_def import_images_def import_image_def import_semaphore_def
        next_handles_def gpu_require_def gpu_perform_def gpu_def small_client_def create_client_image_def record_acquire_command_buffer_def
        record_release_command_buffer_def record_command_buffer_def register_swapchain_def store_client_swapchain_def
        update_client_session_def change_near_def action_defs Let_def upt_rec del: serve.simps)
qed

theorem images_shared_witness:
  "exchange_empty (snd (xrCreateSwapchain small_driver small_client False 3 small_swapchain_info ready_world)) \<and>
   (\<exists>cs. client_swapchains (near (snd (xrCreateSwapchain small_driver small_client False 3 small_swapchain_info ready_world))) 7 = Some cs)"
proof -
  have "exchange_empty ready_world"
    using session_module_state by (simp add: exchange_empty_def ready_world_def ready_client_def vk_client_init_def)
  moreover have "xrCreateSwapchain small_driver small_client False 3 small_swapchain_info ready_world =
      (Ret (Result XR_SUCCESS, Some 7), snd (xrCreateSwapchain small_driver small_client False 3 small_swapchain_info ready_world))"
    using small_client_creation by (metis prod.collapse)
  ultimately show ?thesis using images_shared [OF small_handles ready_agrees] by blast
qed

text \<open>Both usages\<close>

definition both_info :: swapchain_info where
  "both_info = small_swapchain_info\<lparr>sw_usage := 3\<rparr>"

lemma both_creation:
  "fst (serve small_driver (Create_swapchain 3 both_info) session_module) = Ret (Swapchain_created 7 2 4096 0)"
proof -
  have "im_format (shared_image_info both_info) = 37" "im_mips (shared_image_info both_info) = 1" "im_layers (shared_image_info both_info) = 2"
    by (simp_all add: shared_image_info_def create_vk_image_create_info_def both_info_def small_swapchain_info_def Let_def)
  then show ?thesis
    using session_module_state
    by (simp add: action_defs creation_defs code_simps upt_rec Let_def required_memory_def image_type_of_def)
      (simp add: both_info_def small_swapchain_info_def)
qed

theorem refused_images_stay_witness:
  "fst (xrCreateSwapchain small_driver small_client False 3 both_info ready_world) = Ret (Result XR_ERROR_VALIDATION_FAILURE, None) \<and>
   length (handles_out (snd (serve small_driver (Create_swapchain 3 both_info) session_module))) = 6"
proof -
  let ?m = "snd (serve small_driver (Create_swapchain 3 both_info) session_module)"
  have usage: "client_image_type (sw_usage both_info) = None"
    by (simp add: client_image_type_def both_info_def Let_def code_simps)
  have served: "serve small_driver (Create_swapchain 3 both_info) (far ready_world) = (Ret (Swapchain_created 7 2 4096 0), ?m)"
    using both_creation by (simp add: ready_world_def prod_eq_iff del: serve.simps)
  have known: "client_sessions (near ready_world) 3 = Some small_session" "\<not> disconnected ready_world"
    by (simp_all add: ready_world_def ready_client_def)
  note refused = refused_images_stay [OF small_handles ready_agrees known served usage, of small_client False]
  have "fst (xrCreateSwapchain small_driver small_client False 3 both_info ready_world) = Ret (Result XR_ERROR_VALIDATION_FAILURE, None)"
    unfolding refused [THEN conjunct1] by simp
  moreover have "length (handles_out ?m) = 6"
    unfolding refused [THEN conjunct2, THEN conjunct2, THEN conjunct1]
    using session_module_state by (simp add: ready_world_def)
  ultimately show ?thesis ..
qed

end
