(* ===== verification/Handshake.thy ===== *)
theory Handshake
  imports Runs
begin

text \<open>
  The handshake that precedes the transport: \<open>do_handshake\<close> of \<open>src/client/runtime.cpp\<close> and
  \<open>Server::do_handshake\<close> of \<open>src/server/server.cpp\<close>, over a pair of byte streams. Both are
  programs over blocking reads, writes and \<open>close\<close>; the two processes run in any interleaving.
  The magic number and the versions are parameters of each side, since the point of the
  handshake is that they may differ.
\<close>

section \<open>Programs over a stream\<close>

text \<open>
  \<open>asio::read\<close> waits for exactly the bytes it was asked for and raises an exception at the end
  of the stream; using a stream after closing it raises one, too.
\<close>

datatype proc =
    Return bool
  | Raise
  | Write bytes proc
  | Read nat "bytes \<Rightarrow> proc"
  | Close_stream proc

definition client_handshake :: "u32 \<Rightarrow> u64 \<Rightarrow> u32 \<Rightarrow> proc" where
  "client_handshake client_magic client_api client_protocol =
     Write (word_bytes client_magic)
    (Read 4 (\<lambda>b. let server_magic = bytes_word b in
       if client_magic \<noteq> server_magic then Close_stream (Return False)
       else
         Write (word_bytes client_api)
        (Write (word_bytes client_protocol)
        (Read 8 (\<lambda>b. let server_api = bytes_word b in
         Read 4 (\<lambda>b. let server_protocol = bytes_word b;
                       client_ok = (client_api = server_api \<and> client_protocol = server_protocol) in
         Write (word_bytes (if client_ok then 1 else 0 :: u32))
           (if \<not> client_ok then Close_stream (Return False)
            else Read 4 (\<lambda>b. let server_ok = (bytes_word b :: u32) in
              if server_ok = 0 then Close_stream (Return False) else Return True))))))))"

definition server_handshake :: "u32 \<Rightarrow> u64 \<Rightarrow> u32 \<Rightarrow> proc" where
  "server_handshake server_magic server_api server_protocol =
     Read 4 (\<lambda>b. let client_magic = bytes_word b in
       if server_magic \<noteq> client_magic then Close_stream (Return False)
       else
         Write (word_bytes server_magic)
        (Read 8 (\<lambda>b. let client_api = bytes_word b in
         Read 4 (\<lambda>b. let client_protocol = bytes_word b in
         Write (word_bytes server_api)
        (Write (word_bytes server_protocol)
        (Read 4 (\<lambda>b. let client_ok = (bytes_word b :: u32) in
           if client_ok = 0 then Close_stream (Return False)
           else
             let server_ok = (client_api = server_api \<and> client_protocol = server_protocol) in
             Write (word_bytes (if server_ok then 1 else 0 :: u32))
               (if \<not> server_ok then Close_stream (Return False) else Return True)))))))) "

section \<open>Two processes and their streams\<close>

text \<open>An end point: its program, the bytes on their way to it, and whether it closed its stream.\<close>

record endpoint =
  program :: proc
  incoming :: bytes
  is_closed :: bool

text \<open>One action of an end point \<open>a\<close> whose peer is \<open>b\<close>; \<open>None\<close> when it is blocked or finished.\<close>

definition act :: "endpoint \<Rightarrow> endpoint \<Rightarrow> (endpoint \<times> endpoint) option" where
  "act a b =
     (case program a of
        Return r \<Rightarrow> None
      | Raise \<Rightarrow> None
      | Write bs p \<Rightarrow>
          if is_closed a then Some (a\<lparr>program := Raise\<rparr>, b)
          else Some (a\<lparr>program := p\<rparr>, b\<lparr>incoming := incoming b @ bs\<rparr>)
      | Read n k \<Rightarrow>
          if is_closed a then Some (a\<lparr>program := Raise\<rparr>, b)
          else if n \<le> length (incoming a)
            then Some (a\<lparr>program := k (take n (incoming a)), incoming := drop n (incoming a)\<rparr>, b)
          else if is_closed b then Some (a\<lparr>program := Raise\<rparr>, b)
          else None
      | Close_stream p \<Rightarrow> Some (a\<lparr>program := p, is_closed := True\<rparr>, b))"

inductive net_step :: "endpoint \<times> endpoint \<Rightarrow> endpoint \<times> endpoint \<Rightarrow> bool" where
  client: "act c s = Some (c', s') \<Longrightarrow> net_step (c, s) (c', s')"
| server: "act s c = Some (s', c') \<Longrightarrow> net_step (c, s) (c', s')"

inductive_simps net_step_simps: "net_step (c, s) x"

text \<open>
  What \<open>act\<close> does to the two end points does not depend on actions of the other that come first.
\<close>

lemma act_commute:
  assumes "act a b = Some (a1, b1)" "act b a = Some (b2, a2)"
  shows "\<exists>a3 b3. act b1 a1 = Some (b3, a3) \<and> act a2 b2 = Some (a3, b3)"
  using assms by (cases "program a"; cases "program b") (auto simp: act_def split: if_splits)

section \<open>Confluent systems\<close>

text \<open>
  When two different steps can always be joined by one further step each, then all runs that
  cannot go on end in the same state after the same number of steps.
\<close>

locale diamond =
  fixes step :: "'s \<Rightarrow> 's \<Rightarrow> bool"
  assumes join: "step x y \<Longrightarrow> step x z \<Longrightarrow> y = z \<or> (\<exists>w. step y w \<and> step z w)"
begin

lemma strip:
  "(step ^^ n) x y \<Longrightarrow> \<not> (\<exists>w. step y w) \<Longrightarrow> step x z \<Longrightarrow> 0 < n \<and> (step ^^ (n - 1)) z y"
proof (induction n arbitrary: x z)
  case 0
  then show ?case by auto
next
  case (Suc n)
  obtain u where u: "step x u" "(step ^^ n) u y" using relpowp_Suc_D2 [OF Suc.prems(1)] by blast
  consider "u = z" | w where "step u w" "step z w" using join [OF u(1) Suc.prems(3)] by blast
  then show ?case
  proof cases
    case 1
    then show ?thesis using u(2) by simp
  next
    case 2
    then have "0 < n" "(step ^^ (n - 1)) w y" using Suc.IH [OF u(2) Suc.prems(2)] by blast+
    then have "(step ^^ Suc (n - 1)) z y" using relpowp_Suc_I2 [where P = step and x = z and y = w and n = "n - 1" and z = y] 2(2) by blast
    then show ?thesis using \<open>0 < n\<close> by simp
  qed
qed

lemma all_runs:
  "(step ^^ n) x y \<Longrightarrow> \<not> (\<exists>w. step y w) \<Longrightarrow> (step ^^ m) x z \<Longrightarrow> m \<le> n \<and> (step ^^ (n - m)) z y"
proof (induction m arbitrary: n x)
  case (Suc m)
  obtain u where u: "step x u" "(step ^^ m) u z" using relpowp_Suc_D2 [OF Suc.prems(3)] by blast
  have n: "0 < n" "(step ^^ (n - 1)) u y" using strip [OF Suc.prems(1,2) u(1)] by blast+
  show ?case using Suc.IH [OF n(2) Suc.prems(2) u(2)] n(1) by auto
qed simp

end

lemma net_step_iff:
  "net_step (c, s) x \<longleftrightarrow> (\<exists>c' s'. x = (c', s') \<and> (act c s = Some (c', s') \<or> act s c = Some (s', c')))"
  by (auto simp: net_step_simps)

lemma net_diamond:
  assumes "net_step x y" "net_step x z"
  shows "y = z \<or> (\<exists>w. net_step y w \<and> net_step z w)"
proof -
  obtain c s where x: "x = (c, s)" by (cases x)
  obtain yc ys zc zs where yz: "y = (yc, ys)" "z = (zc, zs)" by (cases y; cases z) blast
  have join: "\<exists>w. net_step (c1, s1) w \<and> net_step (c2, s2) w"
    if "act c s = Some (c1, s1)" "act s c = Some (s2, c2)" for c1 s1 c2 s2
    using act_commute [OF that] by (auto simp: net_step_iff)
  have "act c s = Some (yc, ys) \<or> act s c = Some (ys, yc)" "act c s = Some (zc, zs) \<or> act s c = Some (zs, zc)"
    using assms x yz by (auto simp: net_step_iff)
  then consider "y = z" | "act c s = Some (yc, ys)" "act s c = Some (zs, zc)"
    | "act s c = Some (ys, yc)" "act c s = Some (zc, zs)"
    using yz by auto
  then show ?thesis
  proof cases
    case 2
    then show ?thesis using join yz by blast
  next
    case 3
    then show ?thesis using join yz by blast
  qed blast
qed

interpretation net: diamond net_step
  by unfold_locales (rule net_diamond)

section \<open>A run\<close>

text \<open>The run in which the client goes first; \<open>n\<close> counts the steps.\<close>

fun client_first :: "nat \<Rightarrow> endpoint \<times> endpoint \<Rightarrow> endpoint \<times> endpoint" where
  "client_first 0 x = x"
| "client_first (Suc n) (c, s) =
     (case act c s of
        Some (c', s') \<Rightarrow> client_first n (c', s')
      | None \<Rightarrow> (case act s c of Some (s', c') \<Rightarrow> client_first n (c', s') | None \<Rightarrow> (c, s)))"

fun run_length :: "nat \<Rightarrow> endpoint \<times> endpoint \<Rightarrow> nat" where
  "run_length 0 x = 0"
| "run_length (Suc n) (c, s) =
     (case act c s of
        Some (c', s') \<Rightarrow> Suc (run_length n (c', s'))
      | None \<Rightarrow> (case act s c of Some (s', c') \<Rightarrow> Suc (run_length n (c', s')) | None \<Rightarrow> 0))"

lemma client_first_runs: "(net_step ^^ run_length n x) x (client_first n x)"
proof (induction n arbitrary: x)
  case (Suc n)
  obtain c s where x: "x = (c, s)" by (cases x)
  have go: "(net_step ^^ Suc (run_length n y)) x (client_first n y)" if "net_step x y" for y
    using relpowp_Suc_I2 [where P = net_step] that Suc.IH by blast
  show ?case
  proof (cases "act c s")
    case (Some y)
    then show ?thesis using go [of y] x by (cases y) (simp add: net_step_iff del: relpowp.simps)
  next
    case None
    show ?thesis
    proof (cases "act s c")
      case (Some y)
      then show ?thesis using None go [of "(snd y, fst y)"] x
        by (cases y) (simp add: net_step_iff del: relpowp.simps)
    qed (simp add: None x)
  qed
qed simp

definition finished :: "endpoint \<times> endpoint \<Rightarrow> bool" where
  "finished x \<longleftrightarrow> (case x of (c, s) \<Rightarrow> act c s = None \<and> act s c = None)"

lemma finished_iff: "finished x \<longleftrightarrow> \<not> (\<exists>y. net_step x y)"
  by (cases x; cases "act (fst x) (snd x)"; cases "act (snd x) (fst x)")
    (auto simp: finished_def net_step_iff)

text \<open>Every run ends like that one, and is no longer.\<close>

lemma every_run:
  assumes "finished (client_first n x)" "(net_step ^^ m) x z"
  shows "m \<le> run_length n x" and "finished z \<Longrightarrow> z = client_first n x"
proof -
  have all: "m \<le> run_length n x \<and> (net_step ^^ (run_length n x - m)) z (client_first n x)"
    by (rule net.all_runs [OF client_first_runs _ assms(2)]) (use assms(1) in \<open>simp add: finished_iff\<close>)
  then show "m \<le> run_length n x" by simp
  assume "finished z"
  have "run_length n x - m = 0"
  proof (cases "run_length n x - m")
    case (Suc k)
    then obtain y where "net_step z y" using all relpowp_Suc_D2 by metis
    then show ?thesis using \<open>finished z\<close> finished_iff by blast
  qed simp
  then show "z = client_first n x" using all by simp
qed

section \<open>Both sides together\<close>

definition both_start :: "proc \<Rightarrow> proc \<Rightarrow> endpoint \<times> endpoint" where
  "both_start c s = (\<lparr>program = c, incoming = [], is_closed = False\<rparr>, \<lparr>program = s, incoming = [], is_closed = False\<rparr>)"

definition handshake_start :: "u32 \<Rightarrow> u64 \<Rightarrow> u32 \<Rightarrow> u32 \<Rightarrow> u64 \<Rightarrow> u32 \<Rightarrow> endpoint \<times> endpoint" where
  "handshake_start cm ca cp sm sa sp = both_start (client_handshake cm ca cp) (server_handshake sm sa sp)"

definition handshake_end :: "u32 \<Rightarrow> u64 \<Rightarrow> u32 \<Rightarrow> u32 \<Rightarrow> u64 \<Rightarrow> u32 \<Rightarrow> endpoint \<times> endpoint" where
  "handshake_end cm ca cp sm sa sp =
     (if cm \<noteq> sm then
        (\<lparr>program = Raise, incoming = [], is_closed = False\<rparr>, \<lparr>program = Return False, incoming = [], is_closed = True\<rparr>)
      else if ca = sa \<and> cp = sp then
        (\<lparr>program = Return True, incoming = [], is_closed = False\<rparr>, \<lparr>program = Return True, incoming = [], is_closed = False\<rparr>)
      else
        (\<lparr>program = Return False, incoming = [], is_closed = True\<rparr>, \<lparr>program = Return False, incoming = [], is_closed = True\<rparr>))"

lemma client_first_handshake:
  "client_first 20 (handshake_start cm ca cp sm sa sp) = handshake_end cm ca cp sm sa sp
   \<and> run_length 20 (handshake_start cm ca cp sm sa sp) \<le> 20"
  by (simp add: handshake_start_def both_start_def handshake_end_def client_handshake_def server_handshake_def
      act_def eval_nat_numeral Let_def)

text \<open>
  C7: However the two processes are scheduled, the handshake ends after at most 20 actions in one
  of three ways: the magic numbers differ, the server refuses and the client gets an exception;
  the versions differ and both refuse and close; everything agrees and both accept, with no byte
  left in either stream. Neither side ever accepts alone, and no run gets stuck half-way.
\<close>

theorem handshake_agreement:
  assumes "(net_step ^^ m) (handshake_start cm ca cp sm sa sp) z"
  shows "m \<le> 20 \<and> (finished z \<longrightarrow> z = handshake_end cm ca cp sm sa sp)"
proof -
  let ?x = "handshake_start cm ca cp sm sa sp"
  have ends: "client_first 20 ?x = handshake_end cm ca cp sm sa sp" "run_length 20 ?x \<le> 20"
    using client_first_handshake by blast+
  then have "finished (client_first 20 ?x)"
    by (simp add: finished_def handshake_end_def act_def)
  then show ?thesis using every_run [OF _ assms, of 20] ends by auto
qed

theorem handshake_agreement_witness:
  "\<exists>m\<le>20. (net_step ^^ m) (handshake_start 7 1 3 7 1 3) (handshake_end 7 1 3 7 1 3)"
proof -
  let ?m = "run_length 20 (handshake_start 7 1 3 7 1 3)"
  have "(net_step ^^ ?m) (handshake_start 7 1 3 7 1 3) (handshake_end 7 1 3 7 1 3)"
    using client_first_runs [of 20 "handshake_start 7 1 3 7 1 3"] client_first_handshake by simp
  then show ?thesis using handshake_agreement by blast
qed

end
