(* ===== verification/Platform_Time.thy ===== *)
theory Platform_Time
  imports Xr_Results Message_Buffers "HOL-Library.Signed_Division"
begin

text \<open>
  Times: \<open>XrTime\<close> counts nanoseconds in 64 signed bits, the monotonic clock of Linux gives a
  \<open>timespec\<close>. The conversions of \<open>include/xrtransport/time.h\<close> and the two functions of the
  extension \<open>XR_KHR_convert_timespec_time\<close> in \<open>src/client/entry.cpp\<close>. Signed arithmetic that
  leaves the 64 bits is undefined, division truncates toward zero.
\<close>

definition fits64 :: "int \<Rightarrow> bool" where
  "fits64 x \<longleftrightarrow> - (2 ^ 63) \<le> x \<and> x < 2 ^ 63"

definition in64 :: "int \<Rightarrow> int outcome" where
  "in64 x = (if fits64 x then Ret x else Fault)"

record timespec =
  tv_sec :: int
  tv_nsec :: int

definition convert_from_platform_time :: "timespec \<Rightarrow> int outcome" where
  "convert_from_platform_time ts =
     (case in64 (tv_sec ts * 1000000000) of
        Ret ns \<Rightarrow> in64 (ns + tv_nsec ts)
      | r \<Rightarrow> r)"

definition convert_to_platform_time :: "int \<Rightarrow> timespec" where
  "convert_to_platform_time t = \<lparr>tv_sec = t sdiv 1000000000, tv_nsec = t smod 1000000000\<rparr>"

text \<open>\<open>clock_gettime\<close> is a parameter.\<close>

definition get_time :: "(unit \<Rightarrow> timespec) \<Rightarrow> int outcome" where
  "get_time clock = convert_from_platform_time (clock ())"

section \<open>The functions of the extension\<close>

definition xrConvertTimespecTimeToTime :: "u64 \<Rightarrow> u64 \<Rightarrow> timespec \<Rightarrow> (xr_result \<times> int option) outcome" where
  "xrConvertTimespecTimeToTime saved inst ts =
     (if inst \<noteq> saved then Ret (XR_ERROR_HANDLE_INVALID, None)
      else case convert_from_platform_time ts of Ret t \<Rightarrow> Ret (XR_SUCCESS, Some t) | _ \<Rightarrow> Fault)"

definition xrConvertTimeToTimespecTime :: "u64 \<Rightarrow> u64 \<Rightarrow> int \<Rightarrow> xr_result \<times> timespec option" where
  "xrConvertTimeToTimespecTime saved inst t =
     (if inst \<noteq> saved then (XR_ERROR_HANDLE_INVALID, None)
      else (XR_SUCCESS, Some (convert_to_platform_time t)))"

section \<open>Laws\<close>

text \<open>What \<open>clock_gettime\<close> returns: the nanoseconds are those of a second.\<close>

definition normal_timespec :: "timespec \<Rightarrow> bool" where
  "normal_timespec ts \<longleftrightarrow> 0 \<le> tv_nsec ts \<and> tv_nsec ts < 1000000000"

lemma trunc_div_mod:
  fixes a b :: int
  assumes "b > 0"
  shows trunc_eq: "a sdiv b * b + a smod b = a" and trunc_bound: "\<bar>a smod b\<bar> < b"
    and trunc_nonneg: "0 \<le> a \<Longrightarrow> 0 \<le> a smod b" and trunc_nonpos: "a \<le> 0 \<Longrightarrow> a smod b \<le> 0"
proof -
  have eq: "\<bar>a\<bar> div b * b + \<bar>a\<bar> mod b = \<bar>a\<bar>" by (rule div_mult_mod_eq)
  show "a sdiv b * b + a smod b = a"
  proof (cases "0 \<le> a")
    case True
    then show ?thesis using assms eq unfolding signed_divide_int_def signed_modulo_int_def
      by (cases "a = 0") (simp_all add: sgn_if)
  next
    case False
    then have sgn: "sgn a = - 1" "sgn b = 1" "\<bar>b\<bar> = b" using assms by simp_all
    have "a sdiv b * b + a smod b = - (\<bar>a\<bar> div b * b) - \<bar>a\<bar> mod b"
      unfolding signed_divide_int_def signed_modulo_int_def sgn by simp
    then show ?thesis using False eq by linarith
  qed
  have "0 \<le> \<bar>a\<bar> mod b" "\<bar>a\<bar> mod b < b" using assms by simp_all
  then show "\<bar>a smod b\<bar> < b" "0 \<le> a \<Longrightarrow> 0 \<le> a smod b" "a \<le> 0 \<Longrightarrow> a smod b \<le> 0"
    unfolding signed_modulo_int_def by (auto simp: sgn_if)
qed

lemma from_platform_Ret_iff:
  "convert_from_platform_time ts = Ret t \<longleftrightarrow>
   t = tv_sec ts * 1000000000 + tv_nsec ts \<and> fits64 (tv_sec ts * 1000000000) \<and> fits64 t"
  by (auto simp: convert_from_platform_time_def in64_def)

lemma to_platform_seconds:
  assumes "fits64 t"
  shows "fits64 (t sdiv 1000000000 * 1000000000)"
proof -
  have eq: "t sdiv 1000000000 * 1000000000 = t - t smod 1000000000" and b: "\<bar>t smod 1000000000\<bar> < 1000000000"
    using trunc_eq [of 1000000000 t] trunc_bound [of 1000000000 t] by simp_all
  show ?thesis
  proof (cases "0 \<le> t")
    case True
    then show ?thesis using assms eq b trunc_nonneg [of 1000000000 t] by (simp add: fits64_def)
  next
    case False
    then show ?thesis using assms eq b trunc_nonpos [of 1000000000 t] by (simp add: fits64_def)
  qed
qed

lemma from_to_platform:
  "fits64 t \<Longrightarrow> convert_from_platform_time (convert_to_platform_time t) = Ret t"
  using trunc_eq [of 1000000000 t] to_platform_seconds [of t]
  by (simp add: from_platform_Ret_iff convert_to_platform_time_def)

lemma to_from_platform:
  assumes "normal_timespec ts" "0 \<le> tv_sec ts" "convert_from_platform_time ts = Ret t"
  shows "convert_to_platform_time t = ts"
proof -
  have "t = tv_sec ts * 1000000000 + tv_nsec ts" using assms(3) by (simp add: from_platform_Ret_iff)
  then have "t div 1000000000 = tv_sec ts" "t mod 1000000000 = tv_nsec ts" "0 \<le> t"
    using assms(1,2) by (auto simp: normal_timespec_def)
  then show ?thesis
    by (simp add: convert_to_platform_time_def signed_divide_int_def signed_modulo_int_def sgn_if)
      (use \<open>0 \<le> t\<close> in \<open>auto intro: timespec.equality\<close>)
qed

section \<open>Properties\<close>

text \<open>
  C27: the two conversions of the extension are inverse to each other. Every \<open>XrTime\<close> survives the
  way through a \<open>timespec\<close> without leaving the 64 bits; the \<open>timespec\<close> is normal for a time that is
  not negative, and a negative time that is not a whole number of seconds gives negative nanoseconds.
  A normal \<open>timespec\<close> of a time after the start of the clock survives the way through an \<open>XrTime\<close>.
\<close>

theorem time_conversions_inverse:
  assumes "fits64 t" "normal_timespec ts" "0 \<le> tv_sec ts" "tv_sec ts < 9223372036"
  shows "xrConvertTimeToTimespecTime inst inst t = (XR_SUCCESS, Some (convert_to_platform_time t)) \<and>
    xrConvertTimespecTimeToTime inst inst (convert_to_platform_time t) = Ret (XR_SUCCESS, Some t) \<and>
    (normal_timespec (convert_to_platform_time t) \<longleftrightarrow> 0 \<le> t \<or> tv_nsec (convert_to_platform_time t) = 0) \<and>
    (\<exists>t'. xrConvertTimespecTimeToTime inst inst ts = Ret (XR_SUCCESS, Some t') \<and>
          xrConvertTimeToTimespecTime inst inst t' = (XR_SUCCESS, Some ts))"
proof (intro conjI)
  show "xrConvertTimeToTimespecTime inst inst t = (XR_SUCCESS, Some (convert_to_platform_time t))"
    by (simp add: xrConvertTimeToTimespecTime_def)
  show "xrConvertTimespecTimeToTime inst inst (convert_to_platform_time t) = Ret (XR_SUCCESS, Some t)"
    using from_to_platform [OF assms(1)] by (simp add: xrConvertTimespecTimeToTime_def)
  have "0 \<le> t \<or> t \<le> 0" by linarith
  then show "normal_timespec (convert_to_platform_time t) \<longleftrightarrow> 0 \<le> t \<or> tv_nsec (convert_to_platform_time t) = 0"
    using trunc_bound [of 1000000000 t] trunc_nonneg [of 1000000000 t] trunc_nonpos [of 1000000000 t]
    by (auto simp: normal_timespec_def convert_to_platform_time_def)
  have "convert_from_platform_time ts = Ret (tv_sec ts * 1000000000 + tv_nsec ts)"
    using assms(2-4) by (simp add: from_platform_Ret_iff fits64_def normal_timespec_def)
  then show "\<exists>t'. xrConvertTimespecTimeToTime inst inst ts = Ret (XR_SUCCESS, Some t') \<and>
          xrConvertTimeToTimespecTime inst inst t' = (XR_SUCCESS, Some ts)"
    using to_from_platform [OF assms(2,3)]
    by (simp add: xrConvertTimespecTimeToTime_def xrConvertTimeToTimespecTime_def)
qed

lemma time_conversions_inverse_witness:
  "xrConvertTimespecTimeToTime 7 7 (convert_to_platform_time (- (2 ^ 63))) = Ret (XR_SUCCESS, Some (- (2 ^ 63))) \<and>
   \<not> normal_timespec (convert_to_platform_time (- 1)) \<and>
   (\<exists>t'. xrConvertTimespecTimeToTime 7 7 \<lparr>tv_sec = 5, tv_nsec = 999999999\<rparr> = Ret (XR_SUCCESS, Some t') \<and>
     xrConvertTimeToTimespecTime 7 7 t' = (XR_SUCCESS, Some \<lparr>tv_sec = 5, tv_nsec = 999999999\<rparr>))"
proof -
  let ?ts = "\<lparr>tv_sec = 5, tv_nsec = 999999999\<rparr>"
  have ts: "normal_timespec ?ts" "0 \<le> tv_sec ?ts" "tv_sec ?ts < 9223372036"
    by (simp_all add: normal_timespec_def)
  have fits: "fits64 (- (2 ^ 63))" "fits64 (- 1)" by (simp_all add: fits64_def)
  have "tv_nsec (convert_to_platform_time (- 1)) \<noteq> 0"
    by (simp add: convert_to_platform_time_def signed_modulo_int_def)
  then show ?thesis
    using time_conversions_inverse [OF fits(1) ts, of 7] time_conversions_inverse [OF fits(2) ts, of 7] by simp
qed

text \<open>A reading of the clock can always be converted, for 292 years after its start.\<close>

lemma get_time_total:
  "normal_timespec (clock ()) \<Longrightarrow> 0 \<le> tv_sec (clock ()) \<Longrightarrow> tv_sec (clock ()) < 9223372036 \<Longrightarrow>
   get_time clock = Ret (tv_sec (clock ()) * 1000000000 + tv_nsec (clock ()))"
  by (simp add: get_time_def from_platform_Ret_iff fits64_def normal_timespec_def)

end
