(* ===== verification/Handle_Exchange.thy ===== *)
theory Handle_Exchange
  imports Actions Vulkan_Common "HOL-Library.Multiset"
begin

text \<open>
  The handle exchange of Linux, \<open>src/modules/handle_exchange_linux\<close>: a Unix socket beside the
  transport, over which the server passes file descriptors to the client. The system calls are
  parameters; \<open>server_held\<close> and \<open>client_held\<close> record which descriptors the modules have opened and
  not closed.
\<close>

section \<open>System calls\<close>

text \<open>The first control message of a received message: its level, its type and the descriptor in it.\<close>

datatype control = No_control | Control int int int

definition SOL_SOCKET :: int where "SOL_SOCKET = 1"
definition SCM_RIGHTS :: int where "SCM_RIGHTS = 1"

text \<open>The calls that wait give \<open>None\<close> while there is nothing to return.\<close>

record 'k sockets =
  os_socket :: "'k \<Rightarrow> int \<times> 'k"
  os_unlink :: "string \<Rightarrow> 'k \<Rightarrow> unit \<times> 'k"
  os_bind :: "int \<Rightarrow> string \<Rightarrow> 'k \<Rightarrow> int \<times> 'k"
  os_chmod :: "string \<Rightarrow> 'k \<Rightarrow> unit \<times> 'k"
  os_listen :: "int \<Rightarrow> int \<Rightarrow> 'k \<Rightarrow> int \<times> 'k"
  os_accept :: "int \<Rightarrow> 'k \<Rightarrow> (int \<times> 'k) option"
  os_connect :: "int \<Rightarrow> string \<Rightarrow> 'k \<Rightarrow> int \<times> 'k"
  os_close :: "int \<Rightarrow> 'k \<Rightarrow> 'k"
  os_sendmsg :: "int \<Rightarrow> int \<Rightarrow> 'k \<Rightarrow> int \<times> 'k"
  os_recvmsg :: "int \<Rightarrow> 'k \<Rightarrow> (int \<times> control \<times> 'k) option"
  os_errno :: "'k \<Rightarrow> nat"

text \<open>
  The two processes: the globals \<open>server_fd\<close> and \<open>socket_fd\<close> of the server, \<open>socket_fd\<close> of the
  client, and the messages \<open>CLIENT_CONNECTING\<close> on their way.
\<close>

record 'k exchange =
  os :: 'k
  server_fd :: int
  socket_fd :: int
  client_fd :: int
  connecting :: nat
  server_held :: "int list"
  client_held :: "int list"

definition exchange_init :: "'k \<Rightarrow> 'k exchange" where
  "exchange_init k =
     \<lparr>os = k, server_fd = - 1, socket_fd = - 1, client_fd = - 1, connecting = 0, server_held = [], client_held = []\<rparr>"

type_synonym ('k, 'a) xact = "('k exchange, 'a) action"

definition sys_call :: "('k \<Rightarrow> 'a \<times> 'k) \<Rightarrow> ('k, 'a) xact" where
  "sys_call f w = (case f (os w) of (r, k) \<Rightarrow> (Ret r, w\<lparr>os := k\<rparr>))"

text \<open>\<open>sun_path\<close> has 108 characters, the last one for the terminator.\<close>

definition sun_path :: "string \<Rightarrow> string" where
  "sun_path p = take 107 p"

section \<open>The server\<close>

definition close_server_fd :: "'k sockets \<Rightarrow> ('k, unit) xact" where
  "close_server_fd S = change (\<lambda>w.
     if server_fd w \<ge> 0
     then w\<lparr>os := os_close S (server_fd w) (os w), server_held := remove1 (server_fd w) (server_held w), server_fd := - 1\<rparr>
     else w)"

definition close_socket_fd :: "'k sockets \<Rightarrow> ('k, unit) xact" where
  "close_socket_fd S = change (\<lambda>w.
     if socket_fd w \<ge> 0
     then w\<lparr>os := os_close S (socket_fd w) (os w), server_held := remove1 (socket_fd w) (server_held w), socket_fd := - 1\<rparr>
     else w)"

definition hold :: "int \<Rightarrow> int list \<Rightarrow> int list" where
  "hold fd fds = (if fd \<ge> 0 then fds @ [fd] else fds)"

definition open_listener :: "'k sockets \<Rightarrow> ('k, int) xact" where
  "open_listener S =
     and_then (sys_call (os_socket S)) (\<lambda>fd.
     and_then (change (\<lambda>w. w\<lparr>server_fd := fd, server_held := hold fd (server_held w)\<rparr>)) (\<lambda>_.
     done_with fd))"

text \<open>\<open>path\<close> is \<open>XRTP_SERVER_FD_EXCHANGE_PATH\<close> of the environment.\<close>

definition server_on_instance :: "'k sockets \<Rightarrow> string option \<Rightarrow> ('k, unit) xact" where
  "server_on_instance S path =
     (case path of
        None \<Rightarrow> done_with ()
      | Some p \<Rightarrow>
          and_then (close_server_fd S) (\<lambda>_.
          and_then (close_socket_fd S) (\<lambda>_.
          and_then (open_listener S) (\<lambda>fd.
          if fd < 0 then done_with ()
          else
            and_then (sys_call (os_unlink S p)) (\<lambda>_.
            and_then (sys_call (os_bind S fd (sun_path p))) (\<lambda>r.
            if r < 0 then close_server_fd S
            else
              and_then (sys_call (os_chmod S p)) (\<lambda>_.
              and_then (sys_call (os_listen S fd 1)) (\<lambda>r.
              if r < 0 then close_server_fd S else done_with ()))))))))"

text \<open>The destructor of the module does the same.\<close>

definition server_on_instance_destroy :: "'k sockets \<Rightarrow> ('k, unit) xact" where
  "server_on_instance_destroy S = and_then (close_server_fd S) (\<lambda>_. close_socket_fd S)"

text \<open>
  The handlers of the two messages. The path for the client is sent as it is in the environment,
  an unset variable as a null pointer.
\<close>

definition handle_get_path :: "string option \<Rightarrow> ('k, string option) xact" where
  "handle_get_path client_path = done_with client_path"

definition handle_client_connecting :: "'k sockets \<Rightarrow> ('k, unit) xact" where
  "handle_client_connecting S w =
     (case os_accept S (server_fd w) (os w) of
        None \<Rightarrow> (Blocked, w)
      | Some (fd, k) \<Rightarrow> (Ret (), w\<lparr>os := k, socket_fd := fd, server_held := hold fd (server_held w)\<rparr>))"

section \<open>The client\<close>

text \<open>
  \<open>reply\<close> is the path that the server returned; copying a null pointer is undefined, and so is the
  log line of a failed connection, which prints the path that has been freed.
\<close>

definition exchange_on_instance :: "'k sockets \<Rightarrow> string option \<Rightarrow> ('k, unit) xact" where
  "exchange_on_instance C reply =
     and_then (sys_call (os_socket C)) (\<lambda>fd.
     and_then (change (\<lambda>w. w\<lparr>client_fd := fd, client_held := hold fd (client_held w)\<rparr>)) (\<lambda>_.
     if fd < 0 then done_with ()
     else (case reply of
         None \<Rightarrow> (\<lambda>w. (Fault, w))
       | Some p \<Rightarrow>
           and_then (change (\<lambda>w. w\<lparr>connecting := Suc (connecting w)\<rparr>)) (\<lambda>_.
           and_then (sys_call (os_connect C fd (sun_path p))) (\<lambda>r.
           if r < 0 then (\<lambda>w. (Fault, w)) else done_with ())))))"

section \<open>Handles\<close>

text \<open>What \<open>recvmsg\<close> gave; a failure is the null handle.\<close>

definition received_handle :: "(int \<times> control) \<Rightarrow> u32 option" where
  "received_handle m =
     (case m of (r, c) \<Rightarrow>
        if r < 0 then None
        else case c of
          Control level type fd \<Rightarrow> if level = SOL_SOCKET \<and> type = SCM_RIGHTS then Some (word_of_int fd) else None
        | No_control \<Rightarrow> None)"

definition receive :: "'k sockets \<Rightarrow> int \<Rightarrow> ('k, int \<times> control) xact" where
  "receive K fd w =
     (case os_recvmsg K fd (os w) of
        None \<Rightarrow> (Blocked, w)
      | Some (r, c, k) \<Rightarrow> (Ret (r, c), w\<lparr>os := k\<rparr>))"

definition client_read_handle :: "'k sockets \<Rightarrow> ('k, u32) xact" where
  "client_read_handle C =
     and_then (ask client_fd) (\<lambda>fd.
     if fd < 0 then done_with 0
     else and_then (receive C fd) (\<lambda>m.
       done_with (case received_handle m of None \<Rightarrow> 0 | Some h \<Rightarrow> h)))"

text \<open>
  The server adds \<open>errno\<close> to the address of its message about an invalid control message, which
  has 25 characters.
\<close>

definition server_read_handle :: "'k sockets \<Rightarrow> ('k, u32) xact" where
  "server_read_handle S =
     and_then (ask socket_fd) (\<lambda>fd.
     if fd < 0 then done_with 0
     else and_then (receive S fd) (\<lambda>m.
       case received_handle m of
         Some h \<Rightarrow> done_with h
       | None \<Rightarrow>
           and_then (ask (\<lambda>w. os_errno S (os w))) (\<lambda>errno.
           if fst m \<ge> 0 \<and> errno > 25 then (\<lambda>w. (Fault, w)) else done_with 0)))"

text \<open>The message is sent, with or without success, then the descriptor is closed.\<close>

definition send_and_close :: "'k sockets \<Rightarrow> int \<Rightarrow> u32 \<Rightarrow> ('k, unit) xact" where
  "send_and_close K conn h =
     and_then (sys_call (os_sendmsg K conn (sint h))) (\<lambda>_.
     change (\<lambda>w. w\<lparr>os := os_close K (sint h) (os w)\<rparr>))"

definition client_write_handle :: "'k sockets \<Rightarrow> u32 \<Rightarrow> ('k, unit) xact" where
  "client_write_handle C h =
     and_then (ask client_fd) (\<lambda>fd. if fd < 0 then done_with () else send_and_close C fd h)"

definition server_write_handle :: "'k sockets \<Rightarrow> u32 \<Rightarrow> ('k, unit) xact" where
  "server_write_handle S h =
     and_then (ask socket_fd) (\<lambda>fd. if fd \<le> 0 then done_with () else send_and_close S fd h)"

section \<open>The descriptors of the server\<close>

datatype server_call = Notify_instance "string option" | Notify_destroy | Client_connecting

fun server_step :: "'k sockets \<Rightarrow> server_call \<Rightarrow> ('k, unit) xact" where
  "server_step S (Notify_instance path) = server_on_instance S path"
| "server_step S Notify_destroy = server_on_instance_destroy S"
| "server_step S Client_connecting = handle_client_connecting S"

definition owned :: "'k exchange \<Rightarrow> int multiset" where
  "owned w = mset (filter (\<lambda>fd. fd \<ge> 0) [server_fd w, socket_fd w])"

text \<open>Nothing is closed that is not owned; \<open>lost\<close> are the descriptors that no variable names.\<close>

definition books :: "int multiset \<Rightarrow> 'k exchange \<Rightarrow> bool" where
  "books lost w \<longleftrightarrow> mset (server_held w) = owned w + lost"

lemma books_sys_call [simp]: "books lost (snd (sys_call f w)) = books lost w"
  by (simp add: sys_call_def books_def owned_def split: prod.split)

lemma books_close:
  "books lost w \<Longrightarrow> books lost (snd (close_server_fd S w)) \<and> books lost (snd (close_socket_fd S w))"
  by (auto simp: close_server_fd_def close_socket_fd_def change_def books_def owned_def)

lemma closed_fds:
  "close_server_fd S w = (Ret (), w') \<Longrightarrow> server_fd w' < 0 \<and> socket_fd w' = socket_fd w"
  "close_socket_fd S w = (Ret (), w') \<Longrightarrow> socket_fd w' < 0 \<and> server_fd w' = server_fd w"
  by (auto simp: close_server_fd_def close_socket_fd_def change_def split: if_splits)

lemmas ensures_books_close =
  ensures_end [where P = "books lost" and Q = "books lost" and f = "close_server_fd S" for lost S,
    OF conjunct1 [OF books_close]]
  ensures_end [where P = "books lost" and Q = "books lost" and f = "close_socket_fd S" for lost S,
    OF conjunct2 [OF books_close]]

lemma ensures_books_sys:
  "ensures (books lost) (sys_call f) (\<lambda>r. books lost) (books lost)"
  by (rule ensures_end) simp

lemma ensures_free:
  "ensures (books lost) (close_server_fd S) (\<lambda>x w. books lost w \<and> server_fd w < 0) (books lost)"
  "ensures (\<lambda>w. books lost w \<and> server_fd w < 0) (close_socket_fd S)
     (\<lambda>x w. books lost w \<and> server_fd w < 0) (books lost)"
  using books_close closed_fds unfolding ensures_def
  by (force split: prod.split outcome.split simp: close_server_fd_def close_socket_fd_def change_def)+

lemma ensures_open_listener:
  "ensures (\<lambda>w. books lost w \<and> server_fd w < 0) (open_listener S) (\<lambda>fd. books lost) (books lost)"
  unfolding ensures_def open_listener_def
  by (auto simp: and_then_def sys_call_def change_def done_with_def books_def owned_def hold_def split: prod.split)

lemma books_on_instance: "ensures (books lost) (server_on_instance S path) (\<lambda>x. books lost) (books lost)"
proof (cases path)
  case None
  then show ?thesis by (simp add: server_on_instance_def ensures_done)
next
  case (Some p)
  have tail: "ensures (books lost)
      (and_then (sys_call (os_unlink S p)) (\<lambda>_. and_then (sys_call (os_bind S fd (sun_path p))) (\<lambda>r.
         if r < 0 then close_server_fd S
         else and_then (sys_call (os_chmod S p)) (\<lambda>_. and_then (sys_call (os_listen S fd 1)) (\<lambda>r.
           if r < 0 then close_server_fd S else done_with ()))))) (\<lambda>x. books lost) (books lost)" for fd
    by (intro ensures_and_then [OF ensures_books_sys])
      (auto intro!: ensures_and_then [OF ensures_books_sys] ensures_books_close ensures_done)
  show ?thesis
    unfolding server_on_instance_def Some option.case
    by (intro ensures_and_then [OF ensures_free(1)] ensures_and_then [OF ensures_free(2)]
        ensures_and_then [OF ensures_open_listener]) (simp add: tail ensures_done)
qed

lemma books_on_instance_destroy:
  "ensures (books lost) (server_on_instance_destroy S) (\<lambda>x w. books lost w \<and> owned w = {#}) (books lost)"
proof -
  have "ensures (\<lambda>w. books lost w \<and> server_fd w < 0) (close_socket_fd S)
      (\<lambda>x w. books lost w \<and> owned w = {#}) (books lost)"
    using books_close closed_fds(2) unfolding ensures_def owned_def
    by (force split: prod.split outcome.split simp: close_socket_fd_def change_def)
  then show ?thesis
    unfolding server_on_instance_destroy_def by (intro ensures_and_then [OF ensures_free(1)])
qed

text \<open>A client that connects while another connection is open makes the server forget the first.\<close>

definition forgotten :: "server_call \<Rightarrow> 'k exchange \<Rightarrow> int multiset" where
  "forgotten c w = (if c = Client_connecting \<and> socket_fd w \<ge> 0 then {#socket_fd w#} else {#})"

lemma books_connecting:
  "books lost w \<Longrightarrow> handle_client_connecting S w = (Ret (), w') \<Longrightarrow> books (lost + forgotten Client_connecting w) w'"
  by (auto simp: handle_client_connecting_def books_def owned_def hold_def forgotten_def
      split: option.splits prod.splits if_splits)

lemma books_step:
  assumes "books lost w" "server_step S c w = (Ret (), w')"
  shows "books (lost + forgotten c w) w'"
proof (cases c)
  case Client_connecting
  then show ?thesis using books_connecting assms by simp
next
  case (Notify_instance path)
  then show ?thesis using ensures_snd [OF books_on_instance assms(1), of S path] assms(2)
    by (simp add: forgotten_def)
next
  case Notify_destroy
  have "ensures (books lost) (server_on_instance_destroy S) (\<lambda>x. books lost) (books lost)"
    by (rule ensures_weaken [OF books_on_instance_destroy]) auto
  then show ?thesis using ensures_snd [of "books lost" "server_on_instance_destroy S"] assms Notify_destroy
    by (fastforce simp: forgotten_def)
qed

text \<open>The calls of a connection in order, with the descriptors they make the server forget.\<close>

fun server_run :: "'k sockets \<Rightarrow> server_call list \<Rightarrow> 'k exchange \<Rightarrow> (int multiset \<times> 'k exchange) outcome" where
  "server_run S [] w = Ret ({#}, w)"
| "server_run S (c # cs) w =
     (case server_step S c w of
        (Ret _, w') \<Rightarrow>
          (case server_run S cs w' of
             Ret (lost, w'') \<Rightarrow> Ret (forgotten c w + lost, w'')
           | r \<Rightarrow> r)
      | (Throw e, _) \<Rightarrow> Throw e | (Terminate, _) \<Rightarrow> Terminate | (Fault, _) \<Rightarrow> Fault | (Blocked, _) \<Rightarrow> Blocked)"

lemma books_run:
  "books lost w \<Longrightarrow> server_run S cs w = Ret (lost', w') \<Longrightarrow> books (lost + lost') w'"
proof (induction cs arbitrary: w lost lost')
  case Nil
  then show ?case by simp
next
  case (Cons c cs)
  obtain w1 where w1: "server_step S c w = (Ret (), w1)"
    using Cons.prems(2) by (auto split: prod.splits outcome.splits)
  obtain l where l: "server_run S cs w1 = Ret (l, w')" "lost' = forgotten c w + l"
    using Cons.prems(2) w1 by (auto split: prod.splits outcome.splits)
  from Cons.IH [OF books_step [OF Cons.prems(1) w1] l(1)] show ?case
    using l(2) by (simp add: add.assoc)
qed

section \<open>The way of a descriptor\<close>

text \<open>
  What the manual pages \<open>unix(7)\<close> and \<open>close(2)\<close> promise for the connected sockets \<open>s\<close> of the
  server and \<open>c\<close> of the client, as long as no more than \<open>cap\<close> descriptors are in flight and the
  client has fewer than \<open>lim\<close> open. The open file behind a descriptor of either process is given by
  \<open>fs\<close> and \<open>fc\<close>, the files in flight by \<open>q\<close>: a message carries the file on, the receiver gets a
  descriptor that was free.
\<close>

definition connected ::
  "'k sockets \<Rightarrow> 'k sockets \<Rightarrow> int \<Rightarrow> int \<Rightarrow> nat \<Rightarrow> nat \<Rightarrow> ('k \<Rightarrow> int \<Rightarrow> 'f option) \<Rightarrow> ('k \<Rightarrow> int \<Rightarrow> 'f option) \<Rightarrow> ('k \<Rightarrow> 'f list) \<Rightarrow> bool" where
  "connected S C s c cap lim fs fc q \<longleftrightarrow>
     (\<forall>k fd f. fs k fd = Some f \<and> length (q k) < cap \<longrightarrow>
        (case os_sendmsg S s fd k of (r, k') \<Rightarrow> r \<ge> 0 \<and> fs k' = fs k \<and> fc k' = fc k \<and> q k' = q k @ [f])) \<and>
     (\<forall>k fd. let k' = os_close S fd k in fs k' = (fs k)(fd := None) \<and> fc k' = fc k \<and> q k' = q k) \<and>
     (\<forall>k f rest. q k = f # rest \<and> finite (dom (fc k)) \<and> card (dom (fc k)) < lim \<longrightarrow>
        (\<exists>r d k'. os_recvmsg C c k = Some (r, Control SOL_SOCKET SCM_RIGHTS d, k') \<and> r \<ge> 0 \<and> 0 \<le> d \<and> d < 2 ^ 31 \<and>
           fc k d = None \<and> fc k' = (fc k)(d := Some f) \<and> fs k' = fs k \<and> q k' = rest))"

lemma connected_send:
  "connected S C s c cap lim fs fc q \<Longrightarrow> fs k fd = Some f \<Longrightarrow> length (q k) < cap \<Longrightarrow> os_sendmsg S s fd k = (r, k') \<Longrightarrow>
   fs k' = fs k \<and> fc k' = fc k \<and> q k' = q k @ [f]"
  unfolding connected_def by fastforce

lemma connected_close:
  "connected S C s c cap lim fs fc q \<Longrightarrow>
   fs (os_close S fd k) = (fs k)(fd := None) \<and> fc (os_close S fd k) = fc k \<and> q (os_close S fd k) = q k"
  unfolding connected_def by (simp add: Let_def)

lemma connected_recv:
  assumes "connected S C s c cap lim fs fc q" "q k = f # rest" "finite (dom (fc k))" "card (dom (fc k)) < lim"
  obtains r d k' where "os_recvmsg C c k = Some (r, Control SOL_SOCKET SCM_RIGHTS d, k')" "r \<ge> 0" "0 \<le> d" "d < 2 ^ 31"
    "fc k d = None" "fc k' = (fc k)(d := Some f)" "fs k' = fs k" "q k' = rest"
  using assms unfolding connected_def by blast

lemma server_write_delivers:
  assumes con: "connected S C s c cap lim fs fc q"
    and w: "socket_fd w = s" "s > 0" "fs (os w) (sint h) = Some f" "length (q (os w)) < cap"
  shows "\<exists>w'. server_write_handle S h w = (Ret (), w') \<and> socket_fd w' = s \<and> client_fd w' = client_fd w \<and>
    fs (os w') = (fs (os w))(sint h := None) \<and> fc (os w') = fc (os w) \<and> q (os w') = q (os w) @ [f]"
proof -
  obtain r k where k: "os_sendmsg S s (sint h) (os w) = (r, k)" by (cases "os_sendmsg S s (sint h) (os w)")
  show ?thesis
    using w(1,2) k connected_send [OF con w(3,4) k] connected_close [OF con, of "sint h" k]
    by (simp add: server_write_handle_def send_and_close_def and_then_def act_simps sys_call_def)
qed

lemma server_writes_deliver:
  assumes con: "connected S C s c cap lim fs fc q"
  shows "socket_fd w = s \<Longrightarrow> s > 0 \<Longrightarrow> distinct hs \<Longrightarrow>
    map (fs (os w) \<circ> sint) hs = map Some files \<Longrightarrow> length (q (os w)) + length hs \<le> cap \<Longrightarrow>
    \<exists>us w'. for_each (server_write_handle S) hs w = (Ret us, w') \<and> socket_fd w' = s \<and> client_fd w' = client_fd w \<and>
      fs (os w') = (\<lambda>d. if d \<in> set (map sint hs) then None else fs (os w) d) \<and> fc (os w') = fc (os w) \<and>
      q (os w') = q (os w) @ files"
proof (induction hs arbitrary: w files)
  case Nil
  then show ?case by (simp add: done_with_def)
next
  case (Cons h hs)
  obtain f files' where files: "files = f # files'" "fs (os w) (sint h) = Some f"
    using Cons.prems(4) by auto
  obtain w1 where w1: "server_write_handle S h w = (Ret (), w1)" "socket_fd w1 = s" "client_fd w1 = client_fd w"
      "fs (os w1) = (fs (os w))(sint h := None)" "fc (os w1) = fc (os w)" "q (os w1) = q (os w) @ [f]"
    using server_write_delivers [OF con Cons.prems(1,2) files(2)] Cons.prems(5) by auto
  have "sint x \<noteq> sint h" if "x \<in> set hs" for x
    using that Cons.prems(3) signed_word_eqI [of x h] by auto
  then have "map (fs (os w1) \<circ> sint) hs = map (fs (os w) \<circ> sint) hs"
    using w1(4) by simp
  also have "\<dots> = map Some files'" using Cons.prems(4) files(1) by (simp add: comp_def)
  finally have same: "map (fs (os w1) \<circ> sint) hs = map Some files'" .
  have room: "distinct hs" "length (q (os w1)) + length hs \<le> cap" using Cons.prems(3,5) w1(6) by simp_all
  then obtain us w' where "for_each (server_write_handle S) hs w1 = (Ret us, w')" "socket_fd w' = s"
      "client_fd w' = client_fd w1" "q (os w') = q (os w1) @ files'" "fc (os w') = fc (os w1)"
      "fs (os w') = (\<lambda>d. if d \<in> set (map sint hs) then None else fs (os w1) d)"
    using Cons.IH [OF w1(2) Cons.prems(2) room(1) same room(2)] by blast
  then show ?case using w1 files(1)
    by (auto simp: and_then_def done_with_def intro!: ext)
qed

lemma client_read_delivers:
  assumes con: "connected S C s c cap lim fs fc q"
    and w: "client_fd w = c" "c \<ge> 0" "q (os w) = f # rest" "finite (dom (fc (os w)))" "card (dom (fc (os w))) < lim"
  shows "\<exists>h w'. client_read_handle C w = (Ret h, w') \<and> client_fd w' = c \<and> fs (os w') = fs (os w) \<and>
    fc (os w) (sint h) = None \<and> fc (os w') = (fc (os w))(sint h := Some f) \<and> q (os w') = rest"
proof -
  obtain r d k where k: "os_recvmsg C c (os w) = Some (r, Control SOL_SOCKET SCM_RIGHTS d, k)" "r \<ge> 0" "0 \<le> d"
      "d < 2 ^ 31" "fc (os w) d = None" "fc k = (fc (os w))(d := Some f)" "fs k = fs (os w)" "q k = rest"
    using connected_recv [OF con w(3-5)] .
  have "sint (word_of_int d :: u32) = d"
    using k(3,4) by (simp add: signed_of_int signed_take_bit_int_eq_self)
  then show ?thesis
    using w k by (simp add: client_read_handle_def and_then_def act_simps receive_def received_handle_def)
qed

lemma client_reads_deliver:
  assumes con: "connected S C s c cap lim fs fc q"
  shows "client_fd w = c \<Longrightarrow> c \<ge> 0 \<Longrightarrow> q (os w) = files \<Longrightarrow> length xs = length files \<Longrightarrow>
    finite (dom (fc (os w))) \<Longrightarrow> card (dom (fc (os w))) + length files \<le> lim \<Longrightarrow>
    \<exists>hs w'. for_each (\<lambda>_. client_read_handle C) xs w = (Ret hs, w') \<and>
      fs (os w') = fs (os w) \<and> distinct hs \<and> (\<forall>h \<in> set hs. fc (os w) (sint h) = None) \<and>
      map (fc (os w') \<circ> sint) hs = map Some files \<and>
      (\<forall>d. d \<notin> set (map sint hs) \<longrightarrow> fc (os w') d = fc (os w) d) \<and> q (os w') = []"
proof (induction files arbitrary: w xs)
  case Nil
  then show ?case by (simp add: done_with_def)
next
  case (Cons f files)
  obtain x xs' where xs: "xs = x # xs'" using Cons.prems(4) by (cases xs) auto
  obtain h w1 where w1: "client_read_handle C w = (Ret h, w1)" "client_fd w1 = c" "fs (os w1) = fs (os w)"
      "fc (os w) (sint h) = None" "fc (os w1) = (fc (os w))(sint h := Some f)" "q (os w1) = files"
    using client_read_delivers [OF con Cons.prems(1-3,5)] Cons.prems(6) by auto
  have len: "length xs' = length files" using Cons.prems(4) xs by simp
  have room: "finite (dom (fc (os w1)))" "card (dom (fc (os w1))) + length files \<le> lim"
    using Cons.prems(5,6) w1(4,5) by (simp_all add: card_insert_if)
  obtain hs w' where w': "for_each (\<lambda>_. client_read_handle C) xs' w1 = (Ret hs, w')" "fs (os w') = fs (os w1)"
      "distinct hs" "\<forall>h \<in> set hs. fc (os w1) (sint h) = None" "map (fc (os w') \<circ> sint) hs = map Some files"
      "\<forall>d. d \<notin> set (map sint hs) \<longrightarrow> fc (os w') d = fc (os w1) d" "q (os w') = []"
    using Cons.IH [OF w1(2) Cons.prems(2) w1(6) len room] by blast
  have new: "sint h \<notin> set (map sint hs)" using w'(4) w1(5) by auto
  then have "fc (os w') (sint h) = Some f" "h \<notin> set hs" using w'(6) w1(5) by auto
  moreover have "\<forall>h \<in> set hs. fc (os w) (sint h) = None" using w'(4) w1(5) by (auto split: if_splits)
  ultimately show ?case using w1 w' xs
    by (auto simp: and_then_def done_with_def comp_def split: if_splits)
qed

section \<open>Properties\<close>

text \<open>
  C22: the server never closes a descriptor that it does not own, and knows every descriptor it
  holds, apart from those of a client that connected again while it was still connected: after any
  calls in any order, whatever the system calls answer, the descriptors it holds are the two of its
  variables and the forgotten ones, and \<open>on_instance_destroy\<close> (or the destructor) closes all but the
  forgotten ones.
\<close>

theorem exchange_descriptors_kept:
  assumes "server_run S cs (exchange_init k) = Ret (lost, w)"
  shows "mset (server_held w) = owned w + lost \<and>
    mset (server_held (snd (server_on_instance_destroy S w))) = lost"
proof -
  have "books {#} (exchange_init k)" by (simp add: books_def owned_def exchange_init_def)
  from books_run [OF this assms] have b: "books lost w" by simp
  have "fst (server_on_instance_destroy S w) = Ret ()"
    by (simp add: server_on_instance_destroy_def and_then_def close_server_fd_def close_socket_fd_def change_def)
  then obtain w' where w': "server_on_instance_destroy S w = (Ret (), w')" by (cases "server_on_instance_destroy S w") simp
  have "books lost w' \<and> owned w' = {#}"
    using books_on_instance_destroy [of lost S] b w' unfolding ensures_def by fastforce
  then show ?thesis using b w' by (simp add: books_def)
qed

text \<open>A small kernel: the two tables of open files and the files in flight.\<close>

record kernel =
  kernel_server :: "int \<Rightarrow> nat option"
  kernel_client :: "int \<Rightarrow> nat option"
  kernel_queue :: "nat list"

definition free_descriptor :: "(int \<Rightarrow> nat option) \<Rightarrow> int" where
  "free_descriptor t = (case find (\<lambda>d. t d = None) (map int [0..<1024]) of None \<Rightarrow> - 1 | Some d \<Rightarrow> d)"

definition small_sockets :: "kernel sockets" where
  "small_sockets =
     \<lparr>os_socket = \<lambda>k. (3, k), os_unlink = \<lambda>p k. ((), k), os_bind = \<lambda>fd p k. (0, k), os_chmod = \<lambda>p k. ((), k),
      os_listen = \<lambda>fd n k. (0, k), os_accept = \<lambda>fd k. if fd < 0 then Some (- 1, k) else Some (4, k),
      os_connect = \<lambda>fd p k. (0, k),
      os_close = \<lambda>fd k. k\<lparr>kernel_server := (kernel_server k)(fd := None)\<rparr>,
      os_sendmsg = \<lambda>s fd k. (case kernel_server k fd of None \<Rightarrow> (- 1, k) | Some f \<Rightarrow> (1, k\<lparr>kernel_queue := kernel_queue k @ [f]\<rparr>)),
      os_recvmsg = \<lambda>c k. (case kernel_queue k of
          [] \<Rightarrow> None
        | f # rest \<Rightarrow>
            let d = free_descriptor (kernel_client k) in
            if d < 0 then Some (1, No_control, k\<lparr>kernel_queue := rest\<rparr>)
            else Some (1, Control SOL_SOCKET SCM_RIGHTS d,
              k\<lparr>kernel_queue := rest, kernel_client := (kernel_client k)(d := Some f)\<rparr>)),
      os_errno = \<lambda>k. 0\<rparr>"

definition small_kernel :: kernel where
  "small_kernel = \<lparr>kernel_server = [5 \<mapsto> 50, 6 \<mapsto> 60], kernel_client = [0 \<mapsto> 1, 1 \<mapsto> 2], kernel_queue = []\<rparr>"

text \<open>A client that connects twice: the first connection, descriptor 4, stays open.\<close>

lemma exchange_descriptors_kept_witness:
  "\<exists>w. server_run small_sockets [Notify_instance (Some ''a''), Client_connecting, Client_connecting]
        (exchange_init small_kernel) = Ret ({#4#}, w) \<and>
       mset (server_held w) = {#3, 4, 4#} \<and>
       mset (server_held (snd (server_on_instance_destroy small_sockets w))) = {#4#}"
proof -
  have "\<exists>w. server_run small_sockets [Notify_instance (Some ''a''), Client_connecting, Client_connecting]
      (exchange_init small_kernel) = Ret ({#4#}, w) \<and> server_fd w = 3 \<and> socket_fd w = 4"
    by (simp add: server_on_instance_def close_server_fd_def close_socket_fd_def open_listener_def and_then_def sys_call_def
        act_simps exchange_init_def small_sockets_def handle_client_connecting_def hold_def forgotten_def)
  then obtain w where w: "server_run small_sockets [Notify_instance (Some ''a''), Client_connecting, Client_connecting]
      (exchange_init small_kernel) = Ret ({#4#}, w)" "server_fd w = 3" "socket_fd w = 4"
    by blast
  show ?thesis using exchange_descriptors_kept [OF w(1)] w by (intro exI [of _ w]) (simp add: owned_def)
qed

text \<open>
  C11: the descriptors that the server writes arrive at the client in order: over a connected pair of
  sockets, the handles that the client reads stand for the open files that the server wrote, one new
  descriptor for each, no other descriptor of the client changes, and the copies of the server are
  closed.
\<close>

theorem handles_delivered:
  assumes "connected S C (socket_fd w) (client_fd w) cap lim fs fc q" "socket_fd w > 0" "client_fd w \<ge> 0"
    and "distinct hs" "map (fs (os w) \<circ> sint) hs = map Some files" "q (os w) = []" "length hs \<le> cap"
    and "finite (dom (fc (os w)))" "card (dom (fc (os w))) + length hs \<le> lim"
  shows "\<exists>us w1 rs w2. for_each (server_write_handle S) hs w = (Ret us, w1) \<and>
    for_each (\<lambda>_. client_read_handle C) hs w1 = (Ret rs, w2) \<and>
    map (fc (os w2) \<circ> sint) rs = map Some files \<and> distinct rs \<and> (\<forall>r \<in> set rs. fc (os w) (sint r) = None) \<and>
    (\<forall>d. d \<notin> set (map sint rs) \<longrightarrow> fc (os w2) d = fc (os w) d) \<and>
    (\<forall>h \<in> set hs. fs (os w2) (sint h) = None) \<and> q (os w2) = []"
proof -
  have len: "length hs = length files" using assms(5) by (metis length_map)
  obtain us w1 where w1: "for_each (server_write_handle S) hs w = (Ret us, w1)" "client_fd w1 = client_fd w"
      "fs (os w1) = (\<lambda>d. if d \<in> set (map sint hs) then None else fs (os w) d)" "fc (os w1) = fc (os w)"
      "q (os w1) = files"
    using server_writes_deliver [OF assms(1) refl assms(2,4,5)] assms(6,7) by auto
  have room: "finite (dom (fc (os w1)))" "card (dom (fc (os w1))) + length files \<le> lim"
    using assms(8,9) w1(4) len by simp_all
  obtain rs w2 where w2: "for_each (\<lambda>_. client_read_handle C) hs w1 = (Ret rs, w2)" "fs (os w2) = fs (os w1)" "distinct rs"
      "\<forall>h \<in> set rs. fc (os w1) (sint h) = None" "map (fc (os w2) \<circ> sint) rs = map Some files"
      "\<forall>d. d \<notin> set (map sint rs) \<longrightarrow> fc (os w2) d = fc (os w1) d" "q (os w2) = []"
    using client_reads_deliver [OF assms(1) w1(2) assms(3) w1(5) len room] by blast
  show ?thesis
    using w1(1,3,4) w2 by (intro exI conjI) auto
qed

lemma free_descriptor_free:
  assumes "finite (dom t)" "card (dom t) < 1024"
  shows "0 \<le> free_descriptor t \<and> free_descriptor t < 1024 \<and> t (free_descriptor t) = None"
proof (cases "find (\<lambda>d. t d = None) (map int [0..<1024])")
  case None
  then have "int ` {0..<1024} \<subseteq> dom t" by (auto simp: find_None_iff)
  from card_mono [OF assms(1) this] assms(2) show ?thesis by (simp add: card_image)
next
  case (Some d)
  then have "free_descriptor t = d" by (simp add: free_descriptor_def)
  moreover have "0 \<le> d \<and> d < 1024 \<and> t d = None" using Some by (auto simp: find_Some_iff)
  ultimately show ?thesis by simp
qed

lemma small_connected:
  "connected small_sockets small_sockets s c cap 1024 kernel_server kernel_client kernel_queue"
proof -
  have free: "0 \<le> free_descriptor (kernel_client k) \<and> free_descriptor (kernel_client k) < 1024 \<and>
      kernel_client k (free_descriptor (kernel_client k)) = None"
    if "finite (dom (kernel_client k))" "card (dom (kernel_client k)) < 1024" for k :: kernel
    using free_descriptor_free [OF that] .
  show ?thesis
    unfolding connected_def using free by (force simp: small_sockets_def Let_def)
qed

text \<open>The two files of a server with descriptors 5 and 6 become descriptors 2 and 3 of the client.\<close>

lemma handles_delivered_witness:
  "\<exists>us w1 rs w2. for_each (server_write_handle small_sockets) [6, 5]
        ((exchange_init small_kernel)\<lparr>socket_fd := 4, client_fd := 3\<rparr>) = (Ret us, w1) \<and>
      for_each (\<lambda>_. client_read_handle small_sockets) [6, 5 :: u32] w1 = (Ret rs, w2) \<and>
      map (kernel_client (os w2) \<circ> sint) rs = [Some 60, Some 50] \<and> kernel_server (os w2) 5 = None"
proof -
  let ?w = "(exchange_init small_kernel)\<lparr>socket_fd := 4, client_fd := 3\<rparr>"
  have "dom (kernel_client small_kernel) = {0, 1}" by (auto simp: small_kernel_def split: if_splits)
  then have "finite (dom (kernel_client (os ?w)))" "card (dom (kernel_client (os ?w))) + length [6, 5 :: u32] \<le> 1024"
    by (simp_all add: exchange_init_def)
  moreover have "map (kernel_server (os ?w) \<circ> sint) [6, 5 :: u32] = map Some [60, 50]" "kernel_queue (os ?w) = []"
    by (simp_all add: exchange_init_def small_kernel_def)
  ultimately show ?thesis
    using handles_delivered [of small_sockets small_sockets ?w 8 1024 kernel_server kernel_client kernel_queue "[6, 5]" "[60, 50]"]
      small_connected [of 4 3 8]
    by (fastforce simp: exchange_init_def)
qed

end
