(* ===== verification/Function_Loader.thy ===== *)
theory Function_Loader
  imports Rpc_Builds Actions Xr_Results
begin

text \<open>
  \<open>FunctionLoader\<close> of \<open>include/xrtransport/server/function_loader.h\<close>, through which the server calls
  the runtime: one member for every function of a build, fetched from \<open>xrGetInstanceProcAddr\<close> when
  it is used first. At the beginning the generated members, extension by extension.
\<close>

section \<open>Members\<close>

definition loader_members_1 :: "(string \<times> string list) list" where
  "loader_members_1 = [
    (''XR_ALMALENCE_digital_lens_control'', [''xrSetDigitalLensControlALMALENCE'']),
    (''XR_BD_body_tracking'', [''xrCreateBodyTrackerBD'', ''xrDestroyBodyTrackerBD'',
       ''xrLocateBodyJointsBD'']),
    (''XR_BD_spatial_anchor'', [''xrCreateSpatialAnchorAsyncBD'', ''xrCreateSpatialAnchorCompleteBD'',
       ''xrPersistSpatialAnchorAsyncBD'', ''xrPersistSpatialAnchorCompleteBD'',
       ''xrUnpersistSpatialAnchorAsyncBD'', ''xrUnpersistSpatialAnchorCompleteBD'']),
    (''XR_BD_spatial_anchor_sharing'', [''xrDownloadSharedSpatialAnchorAsyncBD'',
       ''xrDownloadSharedSpatialAnchorCompleteBD'', ''xrShareSpatialAnchorAsyncBD'',
       ''xrShareSpatialAnchorCompleteBD'']),
    (''XR_BD_spatial_scene'', [''xrCaptureSceneAsyncBD'', ''xrCaptureSceneCompleteBD'']),
    (''XR_BD_spatial_sensing'', [''xrCreateAnchorSpaceBD'', ''xrCreateSenseDataProviderBD'',
       ''xrCreateSpatialEntityAnchorBD'', ''xrDestroyAnchorBD'', ''xrDestroySenseDataProviderBD'',
       ''xrDestroySenseDataSnapshotBD'', ''xrEnumerateSpatialEntityComponentTypesBD'',
       ''xrGetAnchorUuidBD'', ''xrGetQueriedSenseDataBD'', ''xrGetSenseDataProviderStateBD'',
       ''xrGetSpatialEntityComponentDataBD'', ''xrGetSpatialEntityUuidBD'',
       ''xrQuerySenseDataAsyncBD'', ''xrQuerySenseDataCompleteBD'',
       ''xrStartSenseDataProviderAsyncBD'', ''xrStartSenseDataProviderCompleteBD'',
       ''xrStopSenseDataProviderBD'']),
    (''XR_EXT_conformance_automation'', [''xrSetInputDeviceActiveEXT'', ''xrSetInputDeviceLocationEXT'',
       ''xrSetInputDeviceStateBoolEXT'', ''xrSetInputDeviceStateFloatEXT'',
       ''xrSetInputDeviceStateVector2fEXT'']),
    (''XR_EXT_debug_utils'', [''xrCreateDebugUtilsMessengerEXT'', ''xrDestroyDebugUtilsMessengerEXT'',
       ''xrSessionBeginDebugUtilsLabelRegionEXT'', ''xrSessionEndDebugUtilsLabelRegionEXT'',
       ''xrSessionInsertDebugUtilsLabelEXT'', ''xrSetDebugUtilsObjectNameEXT'',
       ''xrSubmitDebugUtilsMessageEXT'']),
    (''XR_EXT_future'', [''xrCancelFutureEXT'', ''xrPollFutureEXT'']),
    (''XR_EXT_hand_tracking'', [''xrCreateHandTrackerEXT'', ''xrDestroyHandTrackerEXT'',
       ''xrLocateHandJointsEXT'']),
    (''XR_EXT_performance_settings'', [''xrPerfSettingsSetPerformanceLevelEXT'']),
    (''XR_EXT_plane_detection'', [''xrBeginPlaneDetectionEXT'', ''xrCreatePlaneDetectorEXT'',
       ''xrDestroyPlaneDetectorEXT'', ''xrGetPlaneDetectionStateEXT'', ''xrGetPlaneDetectionsEXT'',
       ''xrGetPlanePolygonBufferEXT'']),
    (''XR_EXT_thermal_query'', [''xrThermalGetTemperatureTrendEXT'']),
    (''XR_FB_body_tracking'', [''xrCreateBodyTrackerFB'', ''xrDestroyBodyTrackerFB'',
       ''xrGetBodySkeletonFB'', ''xrLocateBodyJointsFB'']),
    (''XR_FB_color_space'', [''xrEnumerateColorSpacesFB'', ''xrSetColorSpaceFB'']),
    (''XR_FB_display_refresh_rate'', [''xrEnumerateDisplayRefreshRatesFB'',
       ''xrGetDisplayRefreshRateFB'', ''xrRequestDisplayRefreshRateFB'']),
    (''XR_FB_eye_tracking_social'', [''xrCreateEyeTrackerFB'', ''xrDestroyEyeTrackerFB'',
       ''xrGetEyeGazesFB'']),
    (''XR_FB_face_tracking'', [''xrCreateFaceTrackerFB'', ''xrDestroyFaceTrackerFB'',
       ''xrGetFaceExpressionWeightsFB'']),
    (''XR_FB_face_tracking2'', [''xrCreateFaceTracker2FB'', ''xrDestroyFaceTracker2FB'',
       ''xrGetFaceExpressionWeights2FB'']),
    (''XR_FB_foveation'', [''xrCreateFoveationProfileFB'', ''xrDestroyFoveationProfileFB'']),
    (''XR_FB_hand_tracking_mesh'', [''xrGetHandMeshFB'']),
    (''XR_FB_haptic_pcm'', [''xrGetDeviceSampleRateFB'']),
    (''XR_FB_keyboard_tracking'', [''xrCreateKeyboardSpaceFB'', ''xrQuerySystemTrackedKeyboardFB'']),
    (''XR_FB_passthrough'', [''xrCreateGeometryInstanceFB'', ''xrCreatePassthroughFB'',
       ''xrCreatePassthroughLayerFB'', ''xrDestroyGeometryInstanceFB'', ''xrDestroyPassthroughFB'',
       ''xrDestroyPassthroughLayerFB'', ''xrGeometryInstanceSetTransformFB'',
       ''xrPassthroughLayerPauseFB'', ''xrPassthroughLayerResumeFB'',
       ''xrPassthroughLayerSetStyleFB'', ''xrPassthroughPauseFB'', ''xrPassthroughStartFB'']),
    (''XR_FB_passthrough_keyboard_hands'', [''xrPassthroughLayerSetKeyboardHandsIntensityFB'']),
    (''XR_FB_render_model'', [''xrEnumerateRenderModelPathsFB'', ''xrGetRenderModelPropertiesFB'',
       ''xrLoadRenderModelFB''])]"

definition loader_members_2 :: "(string \<times> string list) list" where
  "loader_members_2 = [
    (''XR_FB_scene'', [''xrGetSpaceBoundary2DFB'', ''xrGetSpaceBoundingBox2DFB'',
       ''xrGetSpaceBoundingBox3DFB'', ''xrGetSpaceRoomLayoutFB'', ''xrGetSpaceSemanticLabelsFB'']),
    (''XR_FB_scene_capture'', [''xrRequestSceneCaptureFB'']),
    (''XR_FB_spatial_entity'', [''xrCreateSpatialAnchorFB'', ''xrEnumerateSpaceSupportedComponentsFB'',
       ''xrGetSpaceComponentStatusFB'', ''xrGetSpaceUuidFB'', ''xrSetSpaceComponentStatusFB'']),
    (''XR_FB_spatial_entity_container'', [''xrGetSpaceContainerFB'']),
    (''XR_FB_spatial_entity_query'', [''xrQuerySpacesFB'', ''xrRetrieveSpaceQueryResultsFB'']),
    (''XR_FB_spatial_entity_sharing'', [''xrShareSpacesFB'']),
    (''XR_FB_spatial_entity_storage'', [''xrEraseSpaceFB'', ''xrSaveSpaceFB'']),
    (''XR_FB_spatial_entity_storage_batch'', [''xrSaveSpaceListFB'']),
    (''XR_FB_spatial_entity_user'', [''xrCreateSpaceUserFB'', ''xrDestroySpaceUserFB'',
       ''xrGetSpaceUserIdFB'']),
    (''XR_FB_swapchain_update_state'', [''xrGetSwapchainStateFB'', ''xrUpdateSwapchainFB'']),
    (''XR_FB_triangle_mesh'', [''xrCreateTriangleMeshFB'', ''xrDestroyTriangleMeshFB'',
       ''xrTriangleMeshBeginUpdateFB'', ''xrTriangleMeshBeginVertexBufferUpdateFB'',
       ''xrTriangleMeshEndUpdateFB'', ''xrTriangleMeshEndVertexBufferUpdateFB'',
       ''xrTriangleMeshGetIndexBufferFB'', ''xrTriangleMeshGetVertexBufferFB'']),
    (''XR_HTCX_vive_tracker_interaction'', [''xrEnumerateViveTrackerPathsHTCX'']),
    (''XR_HTC_anchor'', [''xrCreateSpatialAnchorHTC'', ''xrGetSpatialAnchorNameHTC'']),
    (''XR_HTC_body_tracking'', [''xrCreateBodyTrackerHTC'', ''xrDestroyBodyTrackerHTC'',
       ''xrGetBodySkeletonHTC'', ''xrLocateBodyJointsHTC'']),
    (''XR_HTC_facial_tracking'', [''xrCreateFacialTrackerHTC'', ''xrDestroyFacialTrackerHTC'',
       ''xrGetFacialExpressionsHTC'']),
    (''XR_HTC_foveation'', [''xrApplyFoveationHTC'']),
    (''XR_HTC_passthrough'', [''xrCreatePassthroughHTC'', ''xrDestroyPassthroughHTC'']),
    (''XR_KHR_D3D11_enable'', [''xrGetD3D11GraphicsRequirementsKHR'']),
    (''XR_KHR_D3D12_enable'', [''xrGetD3D12GraphicsRequirementsKHR'']),
    (''XR_KHR_android_surface_swapchain'', [''xrCreateSwapchainAndroidSurfaceKHR'']),
    (''XR_KHR_android_thread_settings'', [''xrSetAndroidApplicationThreadKHR'']),
    (''XR_KHR_convert_timespec_time'', [''xrConvertTimeToTimespecTimeKHR'',
       ''xrConvertTimespecTimeToTimeKHR'']),
    (''XR_KHR_extended_struct_name_lengths'', [''xrStructureTypeToString2KHR'']),
    (''XR_KHR_loader_init'', [''xrInitializeLoaderKHR'']),
    (''XR_KHR_metal_enable'', [''xrGetMetalGraphicsRequirementsKHR'']),
    (''XR_KHR_opengl_enable'', [''xrGetOpenGLGraphicsRequirementsKHR'']),
    (''XR_KHR_opengl_es_enable'', [''xrGetOpenGLESGraphicsRequirementsKHR'']),
    (''XR_KHR_visibility_mask'', [''xrGetVisibilityMaskKHR'']),
    (''XR_KHR_vulkan_enable'', [''xrGetVulkanDeviceExtensionsKHR'', ''xrGetVulkanGraphicsDeviceKHR'',
       ''xrGetVulkanGraphicsRequirementsKHR'', ''xrGetVulkanInstanceExtensionsKHR'']),
    (''XR_KHR_vulkan_enable2'', [''xrCreateVulkanDeviceKHR'', ''xrCreateVulkanInstanceKHR'',
       ''xrGetVulkanGraphicsDevice2KHR'']),
    (''XR_KHR_win32_convert_performance_counter_time'', [''xrConvertTimeToWin32PerformanceCounterKHR'',
       ''xrConvertWin32PerformanceCounterToTimeKHR'']),
    (''XR_META_colocation_discovery'', [''xrStartColocationAdvertisementMETA'',
       ''xrStartColocationDiscoveryMETA'', ''xrStopColocationAdvertisementMETA'',
       ''xrStopColocationDiscoveryMETA'']),
    (''XR_META_environment_depth'', [''xrAcquireEnvironmentDepthImageMETA'',
       ''xrCreateEnvironmentDepthProviderMETA'', ''xrCreateEnvironmentDepthSwapchainMETA'',
       ''xrDestroyEnvironmentDepthProviderMETA'', ''xrDestroyEnvironmentDepthSwapchainMETA'',
       ''xrEnumerateEnvironmentDepthSwapchainImagesMETA'',
       ''xrGetEnvironmentDepthSwapchainStateMETA'', ''xrSetEnvironmentDepthHandRemovalMETA'',
       ''xrStartEnvironmentDepthProviderMETA'', ''xrStopEnvironmentDepthProviderMETA'']),
    (''XR_META_foveation_eye_tracked'', [''xrGetFoveationEyeTrackedStateMETA''])]"

definition loader_members_3 :: "(string \<times> string list) list" where
  "loader_members_3 = [
    (''XR_META_passthrough_color_lut'', [''xrCreatePassthroughColorLutMETA'',
       ''xrDestroyPassthroughColorLutMETA'', ''xrUpdatePassthroughColorLutMETA'']),
    (''XR_META_passthrough_preferences'', [''xrGetPassthroughPreferencesMETA'']),
    (''XR_META_performance_metrics'', [''xrEnumeratePerformanceMetricsCounterPathsMETA'',
       ''xrGetPerformanceMetricsStateMETA'', ''xrQueryPerformanceMetricsCounterMETA'',
       ''xrSetPerformanceMetricsStateMETA'']),
    (''XR_META_recommended_layer_resolution'', [''xrGetRecommendedLayerResolutionMETA'']),
    (''XR_META_simultaneous_hands_and_controllers'', [
       ''xrPauseSimultaneousHandsAndControllersTrackingMETA'',
       ''xrResumeSimultaneousHandsAndControllersTrackingMETA'']),
    (''XR_META_spatial_entity_mesh'', [''xrGetSpaceTriangleMeshMETA'']),
    (''XR_META_spatial_entity_sharing'', [''xrShareSpacesMETA'']),
    (''XR_META_virtual_keyboard'', [''xrChangeVirtualKeyboardTextContextMETA'',
       ''xrCreateVirtualKeyboardMETA'', ''xrCreateVirtualKeyboardSpaceMETA'',
       ''xrDestroyVirtualKeyboardMETA'', ''xrGetVirtualKeyboardDirtyTexturesMETA'',
       ''xrGetVirtualKeyboardModelAnimationStatesMETA'', ''xrGetVirtualKeyboardScaleMETA'',
       ''xrGetVirtualKeyboardTextureDataMETA'', ''xrSendVirtualKeyboardInputMETA'',
       ''xrSetVirtualKeyboardModelVisibilityMETA'', ''xrSuggestVirtualKeyboardLocationMETA'']),
    (''XR_ML_compat'', [''xrCreateSpaceFromCoordinateFrameUIDML'']),
    (''XR_ML_facial_expression'', [''xrCreateFacialExpressionClientML'',
       ''xrDestroyFacialExpressionClientML'', ''xrGetFacialExpressionBlendShapePropertiesML'']),
    (''XR_ML_localization_map'', [''xrCreateExportedLocalizationMapML'',
       ''xrDestroyExportedLocalizationMapML'', ''xrEnableLocalizationEventsML'',
       ''xrGetExportedLocalizationMapDataML'', ''xrImportLocalizationMapML'',
       ''xrQueryLocalizationMapsML'', ''xrRequestMapLocalizationML'']),
    (''XR_ML_marker_understanding'', [''xrCreateMarkerDetectorML'', ''xrCreateMarkerSpaceML'',
       ''xrDestroyMarkerDetectorML'', ''xrGetMarkerDetectorStateML'', ''xrGetMarkerLengthML'',
       ''xrGetMarkerNumberML'', ''xrGetMarkerReprojectionErrorML'', ''xrGetMarkerStringML'',
       ''xrGetMarkersML'', ''xrSnapshotMarkerDetectorML'']),
    (''XR_ML_spatial_anchors'', [''xrCreateSpatialAnchorsAsyncML'', ''xrCreateSpatialAnchorsCompleteML'',
       ''xrGetSpatialAnchorStateML'']),
    (''XR_ML_spatial_anchors_storage'', [''xrCreateSpatialAnchorsStorageML'',
       ''xrDeleteSpatialAnchorsAsyncML'', ''xrDeleteSpatialAnchorsCompleteML'',
       ''xrDestroySpatialAnchorsStorageML'', ''xrPublishSpatialAnchorsAsyncML'',
       ''xrPublishSpatialAnchorsCompleteML'', ''xrQuerySpatialAnchorsAsyncML'',
       ''xrQuerySpatialAnchorsCompleteML'', ''xrUpdateSpatialAnchorsExpirationAsyncML'',
       ''xrUpdateSpatialAnchorsExpirationCompleteML'']),
    (''XR_ML_system_notifications'', [''xrSetSystemNotificationsML'']),
    (''XR_ML_user_calibration'', [''xrEnableUserCalibrationEventsML'']),
    (''XR_ML_world_mesh_detection'', [''xrAllocateWorldMeshBufferML'', ''xrCreateWorldMeshDetectorML'',
       ''xrDestroyWorldMeshDetectorML'', ''xrFreeWorldMeshBufferML'',
       ''xrGetWorldMeshBufferRecommendSizeML'', ''xrRequestWorldMeshAsyncML'',
       ''xrRequestWorldMeshCompleteML'', ''xrRequestWorldMeshStateAsyncML'',
       ''xrRequestWorldMeshStateCompleteML'']),
    (''XR_MNDX_force_feedback_curl'', [''xrApplyForceFeedbackCurlMNDX'']),
    (''XR_MSFT_composition_layer_reprojection'', [''xrEnumerateReprojectionModesMSFT'']),
    (''XR_MSFT_controller_model'', [''xrGetControllerModelKeyMSFT'',
       ''xrGetControllerModelPropertiesMSFT'', ''xrGetControllerModelStateMSFT'',
       ''xrLoadControllerModelMSFT'']),
    (''XR_MSFT_hand_tracking_mesh'', [''xrCreateHandMeshSpaceMSFT'', ''xrUpdateHandMeshMSFT'']),
    (''XR_MSFT_perception_anchor_interop'', [''xrCreateSpatialAnchorFromPerceptionAnchorMSFT'',
       ''xrTryGetPerceptionAnchorFromSpatialAnchorMSFT'']),
    (''XR_MSFT_scene_marker'', [''xrGetSceneMarkerDecodedStringMSFT'', ''xrGetSceneMarkerRawDataMSFT'']),
    (''XR_MSFT_scene_understanding'', [''xrComputeNewSceneMSFT'', ''xrCreateSceneMSFT'',
       ''xrCreateSceneObserverMSFT'', ''xrDestroySceneMSFT'', ''xrDestroySceneObserverMSFT'',
       ''xrEnumerateSceneComputeFeaturesMSFT'', ''xrGetSceneComponentsMSFT'',
       ''xrGetSceneComputeStateMSFT'', ''xrGetSceneMeshBuffersMSFT'',
       ''xrLocateSceneComponentsMSFT'']),
    (''XR_MSFT_scene_understanding_serialization'', [''xrDeserializeSceneMSFT'',
       ''xrGetSerializedSceneFragmentDataMSFT'']),
    (''XR_MSFT_spatial_anchor'', [''xrCreateSpatialAnchorMSFT'', ''xrCreateSpatialAnchorSpaceMSFT'',
       ''xrDestroySpatialAnchorMSFT''])]"

definition loader_members_4 :: "(string \<times> string list) list" where
  "loader_members_4 = [
    (''XR_MSFT_spatial_anchor_persistence'', [''xrClearSpatialAnchorStoreMSFT'',
       ''xrCreateSpatialAnchorFromPersistedNameMSFT'', ''xrCreateSpatialAnchorStoreConnectionMSFT'',
       ''xrDestroySpatialAnchorStoreConnectionMSFT'', ''xrEnumeratePersistedSpatialAnchorNamesMSFT'',
       ''xrPersistSpatialAnchorMSFT'', ''xrUnpersistSpatialAnchorMSFT'']),
    (''XR_MSFT_spatial_graph_bridge'', [''xrCreateSpatialGraphNodeSpaceMSFT'',
       ''xrDestroySpatialGraphNodeBindingMSFT'', ''xrGetSpatialGraphNodeBindingPropertiesMSFT'',
       ''xrTryCreateSpatialGraphStaticNodeBindingMSFT'']),
    (''XR_OCULUS_audio_device_guid'', [''xrGetAudioInputDeviceGuidOculus'',
       ''xrGetAudioOutputDeviceGuidOculus'']),
    (''XR_OCULUS_external_camera'', [''xrEnumerateExternalCamerasOCULUS'']),
    (''XR_QCOM_tracking_optimization_settings'', [''xrSetTrackingOptimizationSettingsHintQCOM'']),
    (''XR_VARJO_environment_depth_estimation'', [''xrSetEnvironmentDepthEstimationVARJO'']),
    (''XR_VARJO_marker_tracking'', [''xrCreateMarkerSpaceVARJO'', ''xrGetMarkerSizeVARJO'',
       ''xrSetMarkerTrackingPredictionVARJO'', ''xrSetMarkerTrackingTimeoutVARJO'',
       ''xrSetMarkerTrackingVARJO'']),
    (''XR_VARJO_view_offset'', [''xrSetViewOffsetVARJO''])]"

definition core_loader_members :: "string list" where
  "core_loader_members = [
    ''xrAcquireSwapchainImage'', ''xrApplyHapticFeedback'', ''xrAttachSessionActionSets'',
    ''xrBeginFrame'', ''xrBeginSession'', ''xrCreateAction'', ''xrCreateActionSet'',
    ''xrCreateActionSpace'', ''xrCreateInstance'', ''xrCreateReferenceSpace'', ''xrCreateSession'',
    ''xrCreateSwapchain'', ''xrDestroyAction'', ''xrDestroyActionSet'', ''xrDestroyInstance'',
    ''xrDestroySession'', ''xrDestroySpace'', ''xrDestroySwapchain'', ''xrEndFrame'',
    ''xrEndSession'', ''xrEnumerateApiLayerProperties'', ''xrEnumerateBoundSourcesForAction'',
    ''xrEnumerateEnvironmentBlendModes'', ''xrEnumerateInstanceExtensionProperties'',
    ''xrEnumerateReferenceSpaces'', ''xrEnumerateSwapchainFormats'',
    ''xrEnumerateSwapchainImages'', ''xrEnumerateViewConfigurationViews'',
    ''xrEnumerateViewConfigurations'', ''xrGetActionStateBoolean'', ''xrGetActionStateFloat'',
    ''xrGetActionStatePose'', ''xrGetActionStateVector2f'', ''xrGetCurrentInteractionProfile'',
    ''xrGetInputSourceLocalizedName'', ''xrGetInstanceProperties'',
    ''xrGetReferenceSpaceBoundsRect'', ''xrGetSystem'', ''xrGetSystemProperties'',
    ''xrGetViewConfigurationProperties'', ''xrLocateSpace'', ''xrLocateSpaces'', ''xrLocateViews'',
    ''xrPathToString'', ''xrPollEvent'', ''xrReleaseSwapchainImage'', ''xrRequestExitSession'',
    ''xrResultToString'', ''xrStopHapticFeedback'', ''xrStringToPath'',
    ''xrStructureTypeToString'', ''xrSuggestInteractionProfileBindings'', ''xrSyncActions'',
    ''xrWaitFrame'', ''xrWaitSwapchainImage'']"

definition ext_loader_members :: "(string \<times> string list) list" where
  "ext_loader_members = loader_members_1 @ loader_members_2 @ loader_members_3 @ loader_members_4"

definition loader_members :: "string list \<Rightarrow> string list" where
  "loader_members exts = enabled exts ext_loader_members @ core_loader_members"

lemma ext_loader_members_match: "flatten ext_loader_members = flatten ext_function_rows"
  unfolding ext_loader_members_def ext_function_rows_def
  by (simp only: loader_members_1_def loader_members_2_def loader_members_3_def loader_members_4_def
      ext_function_rows_defs flatten_def append.simps list.map concat.simps prod.case)

text \<open>A build has a member for every function that its client can call.\<close>

lemma loader_members_complete: "loader_members exts = function_table exts"
proof -
  have "core_loader_members = core_function_table" by (simp add: core_loader_members_def core_function_table_def)
  then show ?thesis
    by (simp add: loader_members_def function_table_def enabled_flatten ext_loader_members_match)
qed

section \<open>Loading\<close>

text \<open>A member that was not loaded is a null pointer.\<close>

record 'f function_loader =
  fl_instance :: u64
  fl_member :: "string \<Rightarrow> 'f option"

definition function_loader_init :: "'f function_loader" where
  "function_loader_init = \<lparr>fl_instance = 0, fl_member = \<lambda>name. None\<rparr>"

definition function_not_found :: exn where
  "function_not_found = Std_exception ''FunctionLoaderException''"

text \<open>
  \<open>get\<close> is \<open>xrGetInstanceProcAddr\<close>: its result and what it leaves in the member.
\<close>

definition ensure_function_loaded ::
  "(u64 \<Rightarrow> string \<Rightarrow> xr_result \<times> 'f option) \<Rightarrow> string \<Rightarrow> ('f function_loader, unit) action" where
  "ensure_function_loaded get name L =
     (if fl_member L name \<noteq> None then (Ret (), L)
      else case get (fl_instance L) name of
        (res, f) \<Rightarrow>
          (if XR_SUCCEEDED res then Ret () else Throw function_not_found,
           L\<lparr>fl_member := (fl_member L)(name := f)\<rparr>))"

text \<open>
  What happens to the loader of a server: handlers and modules load functions, the handler of
  \<open>xrCreateInstance\<close> sets the instance; that of \<open>xrDestroyInstance\<close> leaves the loader alone.
\<close>

datatype loader_call = Ensure string | Set_instance u64

fun loader_step ::
  "(u64 \<Rightarrow> string \<Rightarrow> xr_result \<times> 'f option) \<Rightarrow> loader_call \<Rightarrow> 'f function_loader \<Rightarrow> 'f function_loader" where
  "loader_step get (Ensure name) L = snd (ensure_function_loaded get name L)"
| "loader_step get (Set_instance h) L = L\<lparr>fl_instance := h\<rparr>"

definition loader_run ::
  "(u64 \<Rightarrow> string \<Rightarrow> xr_result \<times> 'f option) \<Rightarrow> loader_call list \<Rightarrow> 'f function_loader \<Rightarrow> 'f function_loader" where
  "loader_run get cs L = fold (loader_step get) cs L"

lemma loader_step_keeps: "fl_member L name = Some f \<Longrightarrow> fl_member (loader_step get c L) name = Some f"
  by (cases c) (auto simp: ensure_function_loaded_def split: prod.split)

lemma loader_run_keeps: "fl_member L name = Some f \<Longrightarrow> fl_member (loader_run get cs L) name = Some f"
  unfolding loader_run_def by (induction cs arbitrary: L) (simp_all add: loader_step_keeps)

lemma ensure_loads:
  assumes "fl_member L name = None" "get (fl_instance L) name = (res, Some f)" "XR_SUCCEEDED res"
  shows "ensure_function_loaded get name L = (Ret (), L\<lparr>fl_member := (fl_member L)(name := Some f)\<rparr>)"
  using assms by (simp add: ensure_function_loaded_def)

text \<open>
  Where the functions of a loader come from: every member was the answer for an instance that the
  loader has had, not necessarily the current one.
\<close>

definition had_instances :: "loader_call list \<Rightarrow> u64 set" where
  "had_instances cs = insert 0 {h. Set_instance h \<in> set cs}"

lemma loader_run_sources:
  "fl_instance (loader_run get cs function_loader_init) \<in> had_instances cs \<and>
   (\<forall>name f. fl_member (loader_run get cs function_loader_init) name = Some f \<longrightarrow>
     (\<exists>h \<in> had_instances cs. snd (get h name) = Some f))"
proof (induction cs rule: rev_induct)
  case Nil
  then show ?case by (simp add: loader_run_def function_loader_init_def had_instances_def)
next
  case (snoc c cs)
  have run: "loader_run get (cs @ [c]) function_loader_init = loader_step get c (loader_run get cs function_loader_init)"
    by (simp add: loader_run_def)
  show ?case
  proof (cases c)
    case (Ensure n)
    then have "had_instances (cs @ [c]) = had_instances cs" by (simp add: had_instances_def)
    then show ?thesis using snoc Ensure run
      by (auto simp: ensure_function_loaded_def split: prod.splits if_splits) (metis snd_conv)+
  next
    case (Set_instance h)
    then have "had_instances (cs @ [c]) = insert h (had_instances cs)" by (auto simp: had_instances_def)
    then show ?thesis using snoc Set_instance run by auto
  qed
qed

section \<open>Properties\<close>

text \<open>
  A function that was fetched once is used for ever: whatever instances are created and
  functions loaded afterwards, the member keeps the pointer it was given for the instance of the
  first use, loading it again succeeds without asking the runtime, and so after a second instance has
  been created the server calls a function that was fetched for the first.
\<close>

theorem fetched_function_stays:
  assumes "fl_member L name = None" "get (fl_instance L) name = (res, Some f)" "XR_SUCCEEDED res"
  shows "fst (ensure_function_loaded get name L) = Ret () \<and>
    (let L' = loader_run get cs (snd (ensure_function_loaded get name L))
     in fl_member L' name = Some f \<and> ensure_function_loaded get name L' = (Ret (), L'))"
proof -
  let ?L' = "loader_run get cs (snd (ensure_function_loaded get name L))"
  have ens: "ensure_function_loaded get name L = (Ret (), L\<lparr>fl_member := (fl_member L)(name := Some f)\<rparr>)"
    using ensure_loads [of L name get res f] assms by simp
  have "fl_member ?L' name = Some f" by (rule loader_run_keeps) (simp add: ens)
  moreover from this have "ensure_function_loaded get name ?L' = (Ret (), ?L')"
    by (simp add: ensure_function_loaded_def)
  ultimately show ?thesis using ens by (simp add: Let_def)
qed

text \<open>A runtime whose functions depend on the instance: after the second instance the first one's are called.\<close>

definition small_get :: "u64 \<Rightarrow> string \<Rightarrow> xr_result \<times> (u64 \<times> string) option" where
  "small_get h name = (XR_SUCCESS, Some (h, name))"

lemma fetched_function_stays_witness:
  "let L = function_loader_init\<lparr>fl_instance := 7\<rparr>;
       L' = loader_run small_get [Ensure ''xrEndFrame'', Set_instance 8, Ensure ''xrSyncActions'']
         (snd (ensure_function_loaded small_get ''xrSyncActions'' L))
   in fl_member L' ''xrSyncActions'' = Some (7, ''xrSyncActions'') \<and> fl_instance L' = 8"
proof -
  let ?L = "function_loader_init\<lparr>fl_instance := 7\<rparr> :: (u64 \<times> string) function_loader"
  let ?cs = "[Ensure ''xrEndFrame'', Set_instance 8, Ensure ''xrSyncActions'']"
  have "fl_member ?L ''xrSyncActions'' = None" by (simp add: function_loader_init_def)
  moreover have "small_get (fl_instance ?L) ''xrSyncActions'' = (XR_SUCCESS, Some (7, ''xrSyncActions''))"
    by (simp add: small_get_def)
  moreover have "XR_SUCCEEDED XR_SUCCESS" by (simp add: code_simps)
  ultimately have "fl_member (loader_run small_get ?cs (snd (ensure_function_loaded small_get ''xrSyncActions'' ?L)))
      ''xrSyncActions'' = Some (7, ''xrSyncActions'')"
    using fetched_function_stays [of ?L "''xrSyncActions''" small_get XR_SUCCESS "(7, ''xrSyncActions'')" ?cs]
    unfolding Let_def by blast
  moreover have "fl_instance (snd (ensure_function_loaded small_get n K)) = fl_instance K" for n K
    by (simp add: ensure_function_loaded_def split: prod.split)
  ultimately show ?thesis by (simp add: loader_run_def Let_def)
qed

end
