(* ===== verification/Module_Loading.thy ===== *)
theory Module_Loading
  imports Function_Loader "HOL-Library.Sublist"
begin

text \<open>
  Loading the modules: \<open>src/server/module_loader.cpp\<close> and \<open>LoadedModule\<close> of
  \<open>src/server/module.h\<close>, \<open>src/client/module_loader.cpp\<close>, and the statically linked modules of
  \<open>src/modules\<close>. The dynamic linker and the entry points of the libraries are parameters.
\<close>

section \<open>Finding modules\<close>

definition module_prefix :: string where "module_prefix = ''libmodule_''"
definition module_ext :: string where "module_ext = ''.so''"

text \<open>\<open>std::equal\<close> over the beginning, and over the end from behind.\<close>

definition is_filename_module :: "string \<Rightarrow> bool" where
  "is_filename_module filename =
     (let prefix_matches = length filename \<ge> length module_prefix \<and>
            take (length module_prefix) filename = module_prefix;
          ext_matches = length filename \<ge> length module_ext \<and>
            take (length module_ext) (rev filename) = rev module_ext
      in prefix_matches \<and> ext_matches)"

record dir_entry =
  is_regular_file :: bool
  entry_filename :: string
  entry_path :: string

fun collect_module_paths :: "dir_entry list \<Rightarrow> string list" where
  "collect_module_paths [] = []"
| "collect_module_paths (e # es) =
     (if \<not> is_regular_file e then collect_module_paths es
      else if \<not> is_filename_module (entry_filename e) then collect_module_paths es
      else entry_path e # collect_module_paths es)"

lemma is_filename_module_iff: "is_filename_module f \<longleftrightarrow> (\<exists>name. f = module_prefix @ name @ module_ext)"
proof
  assume "is_filename_module f"
  then have pre: "take 10 f = ''libmodule_''" "10 \<le> length f" and post: "take 3 (rev f) = ''os.''" "3 \<le> length f"
    by (auto simp: is_filename_module_def module_prefix_def module_ext_def Let_def eval_nat_numeral)
  obtain rest where rest: "f = ''libmodule_'' @ rest" using pre by (metis append_take_drop_id)
  have "3 \<le> length rest"
  proof (rule ccontr)
    assume "\<not> 3 \<le> length rest"
    then consider "rest = []" | a where "rest = [a]" | a b where "rest = [a, b]"
      by (cases rest; cases "tl rest"; cases "tl (tl rest)") auto
    then show False using post(1) rest by cases auto
  qed
  moreover have "take 3 (rev rest) = ''os.''" using post(1) rest \<open>3 \<le> length rest\<close> by simp
  then have "rest = take (length rest - 3) rest @ ''.so''"
    using \<open>3 \<le> length rest\<close> by (metis append_take_drop_id rev_rev_ident rev_take rev.simps append.simps append_Nil length_rev)
  ultimately show "\<exists>name. f = module_prefix @ name @ module_ext"
    using rest by (auto simp: module_prefix_def module_ext_def)
qed (auto simp: is_filename_module_def module_prefix_def module_ext_def Let_def)

lemma collect_module_paths_filter:
  "collect_module_paths es = map entry_path (filter (\<lambda>e. is_regular_file e \<and> is_filename_module (entry_filename e)) es)"
  by (induction es) auto

section \<open>Libraries and modules\<close>

text \<open>
  A module is an object whose code lies in a library, or in the program itself. \<open>lib_refs\<close> counts
  how often a library was loaded, \<open>ended\<close> are the modules whose destructor has run.
\<close>

record module =
  module_library :: "nat option"
  module_id :: nat

record libraries =
  lib_refs :: "nat \<Rightarrow> nat"
  ended :: "nat list"

definition no_libraries :: libraries where
  "no_libraries = \<lparr>lib_refs = \<lambda>h. 0, ended = []\<rparr>"

text \<open>
  \<open>dl_open\<close> gives a handle or null, \<open>dl_entry\<close> is \<open>dlsym\<close> for the entry point, of which null is not a
  function; calling it gives a module or null. Its argument are the extensions of the runtime.
\<close>

record linker =
  dl_open :: "string \<Rightarrow> nat option"
  dl_entry :: "nat option \<Rightarrow> (string list \<Rightarrow> module option) option"

record loaded_module =
  lm_handle :: "nat option"
  lm_module :: "module option"

definition is_enabled :: "loaded_module \<Rightarrow> bool" where
  "is_enabled lm = (lm_module lm \<noteq> None)"

definition acquire_library :: "nat option \<Rightarrow> (libraries, unit) action" where
  "acquire_library h =
     (case h of None \<Rightarrow> done_with () | Some l \<Rightarrow> change (\<lambda>w. w\<lparr>lib_refs := (lib_refs w)(l := Suc (lib_refs w l))\<rparr>))"

definition module_unload :: "nat option \<Rightarrow> (libraries, unit) action" where
  "module_unload h =
     (case h of None \<Rightarrow> done_with () | Some l \<Rightarrow> change (\<lambda>w. w\<lparr>lib_refs := (lib_refs w)(l := lib_refs w l - 1)\<rparr>))"

text \<open>The virtual destructor of a module: its code must still be there.\<close>

definition end_module :: "module option \<Rightarrow> (libraries, unit) action" where
  "end_module m w =
     (case m of
        None \<Rightarrow> (Ret (), w)
      | Some m \<Rightarrow>
          (case module_library m of
             Some l \<Rightarrow> if lib_refs w l = 0 then (Fault, w) else (Ret (), w\<lparr>ended := ended w @ [module_id m]\<rparr>)
           | None \<Rightarrow> (Ret (), w\<lparr>ended := ended w @ [module_id m]\<rparr>)))"

section \<open>LoadedModule\<close>

definition open_module :: "linker \<Rightarrow> string list \<Rightarrow> string \<Rightarrow> (libraries, loaded_module) action" where
  "open_module D exts path =
     (let h = dl_open D path in
      and_then (acquire_library h) (\<lambda>_.
      case dl_entry D h of
        None \<Rightarrow> (\<lambda>w. (Fault, w))
      | Some get_server_module \<Rightarrow> done_with \<lparr>lm_handle = h, lm_module = get_server_module exts\<rparr>))"

definition static_module :: "module \<Rightarrow> loaded_module" where
  "static_module m = \<lparr>lm_handle = None, lm_module = Some m\<rparr>"

text \<open>The body of the destructor, then the destructors of the members.\<close>

definition destroy_loaded_module :: "loaded_module \<Rightarrow> (libraries, unit) action" where
  "destroy_loaded_module lm = and_then (module_unload (lm_handle lm)) (\<lambda>_. end_module (lm_module lm))"

text \<open>The move constructor: the new object and what is left of the other one.\<close>

definition move_module :: "loaded_module \<Rightarrow> loaded_module \<times> loaded_module" where
  "move_module other = (\<lparr>lm_handle = lm_handle other, lm_module = lm_module other\<rparr>, \<lparr>lm_handle = None, lm_module = None\<rparr>)"

text \<open>The move assignment to another object; it does not reset the handle of the other one.\<close>

definition assign_module :: "loaded_module \<Rightarrow> loaded_module \<Rightarrow> (libraries, loaded_module \<times> loaded_module) action" where
  "assign_module this other =
     and_then (module_unload (lm_handle this)) (\<lambda>_.
     and_then (end_module (lm_module this)) (\<lambda>_.
     done_with (\<lparr>lm_handle = lm_handle other, lm_module = lm_module other\<rparr>, \<lparr>lm_handle = lm_handle other, lm_module = None\<rparr>)))"

section \<open>The loaders\<close>

fun load_dynamic_modules :: "linker \<Rightarrow> string list \<Rightarrow> string list \<Rightarrow> (libraries, loaded_module list) action" where
  "load_dynamic_modules D exts [] = done_with []"
| "load_dynamic_modules D exts (path # paths) =
     and_then (open_module D exts path) (\<lambda>lm.
     let (stored, rest) = (if is_enabled lm then (\<lambda>(s, r). ([s], r)) (move_module lm) else ([], lm)) in
     and_then (destroy_loaded_module rest) (\<lambda>_.
     and_then (load_dynamic_modules D exts paths) (\<lambda>lms. done_with (stored @ lms))))"

text \<open>The loop that erases the modules that failed to enable.\<close>

fun erase_null :: "module option list \<Rightarrow> module list" where
  "erase_null [] = []"
| "erase_null (None # ms) = erase_null ms"
| "erase_null (Some m # ms) = m # erase_null ms"

definition get_static_modules :: "bool \<Rightarrow> bool \<Rightarrow> module option \<Rightarrow> module option \<Rightarrow> module list" where
  "get_static_modules build_handle_exchange build_vulkan handle_exchange vulkan =
     erase_null ((if build_handle_exchange then [handle_exchange] else []) @ (if build_vulkan then [vulkan] else []))"

text \<open>
  The extensions that the modules see: the number of a first call gives the size of the vector, a
  second call fills it and sets the number again; a number beyond the vector would be read beyond it.
\<close>

definition seen_extensions :: "nat \<Rightarrow> nat \<Rightarrow> string list \<Rightarrow> string list outcome" where
  "seen_extensions n1 n2 filled =
     (let vector = take n1 (filled @ replicate n1 '''') in if n2 \<le> n1 then Ret (take n2 vector) else Fault)"

text \<open>The modules of the server live as long as the server: the vector destroys them in order.\<close>

definition destroy_modules :: "loaded_module list \<Rightarrow> (libraries, unit list) action" where
  "destroy_modules lms = for_each destroy_loaded_module lms"

text \<open>
  The client keeps its libraries loaded; it loads once, and keeps a null module.
\<close>

definition modules_loaded_twice :: exn where
  "modules_loaded_twice = Std_exception ''Attempted to load modules twice''"

fun client_modules :: "linker \<Rightarrow> string list \<Rightarrow> module option list outcome" where
  "client_modules D [] = Ret []"
| "client_modules D (path # paths) =
     (case dl_entry D (dl_open D path) of
        None \<Rightarrow> Fault
      | Some get_client_module \<Rightarrow>
          (case client_modules D paths of Ret ms \<Rightarrow> Ret (get_client_module [] # ms) | r \<Rightarrow> r))"

definition client_load_dynamic_modules ::
  "linker \<Rightarrow> dir_entry list option \<Rightarrow> (bool, module option list) action" where
  "client_load_dynamic_modules D runtime_folder modules_loaded =
     (if modules_loaded then (Throw modules_loaded_twice, modules_loaded)
      else case runtime_folder of
        None \<Rightarrow> (Ret [], modules_loaded)
      | Some entries \<Rightarrow>
          (case client_modules D (collect_module_paths entries) of
             Ret ms \<Rightarrow> (Ret ms, True)
           | r \<Rightarrow> (r, modules_loaded)))"

section \<open>Laws\<close>

lemma erase_null_filter: "map Some (erase_null ms) = filter (\<lambda>m. m \<noteq> None) ms"
  by (induction ms rule: erase_null.induct) auto

text \<open>Modules that are linked into the program end one after the other.\<close>

lemma static_modules_end:
  "\<forall>m \<in> set ms. module_library m = None \<Longrightarrow>
   \<exists>us. destroy_modules (map static_module ms) w = (Ret us, w\<lparr>ended := ended w @ map module_id ms\<rparr>)"
proof (induction ms arbitrary: w)
  case Nil
  then show ?case by (simp add: destroy_modules_def done_with_def)
next
  case (Cons m ms)
  let ?w = "w\<lparr>ended := ended w @ [module_id m]\<rparr>"
  have "destroy_loaded_module (static_module m) w = (Ret (), ?w)"
    using Cons.prems
    by (simp add: destroy_loaded_module_def static_module_def module_unload_def and_then_def done_with_def end_module_def)
  moreover obtain us where "destroy_modules (map static_module ms) ?w = (Ret us, ?w\<lparr>ended := ended ?w @ map module_id ms\<rparr>)"
    using Cons.IH [of ?w] Cons.prems by auto
  ultimately show ?case by (simp add: destroy_modules_def and_then_def done_with_def)
qed

text \<open>The libraries behind the paths, and modules whose code lies in the library they come from.\<close>

definition libraries_of ::
  "linker \<Rightarrow> string list \<Rightarrow> nat list \<Rightarrow> (nat \<Rightarrow> string list \<Rightarrow> module option) \<Rightarrow> bool" where
  "libraries_of D paths libs entry \<longleftrightarrow>
     map (dl_open D) paths = map Some libs \<and> (\<forall>l \<in> set libs. dl_entry D (Some l) = Some (entry l)) \<and>
     (\<forall>l \<in> set libs. \<forall>exts m. entry l exts = Some m \<longrightarrow> module_library m = Some l)"

definition loaded_from :: "(nat \<Rightarrow> string list \<Rightarrow> module option) \<Rightarrow> string list \<Rightarrow> nat list \<Rightarrow> loaded_module list" where
  "loaded_from entry exts libs = map (\<lambda>l. \<lparr>lm_handle = Some l, lm_module = entry l exts\<rparr>) (filter (\<lambda>l. entry l exts \<noteq> None) libs)"

lemma load_dynamic_modules_effect:
  assumes "libraries_of D paths libs entry" "distinct libs" "\<forall>l \<in> set libs. lib_refs w l = 0"
  shows "load_dynamic_modules D exts paths w =
    (Ret (loaded_from entry exts libs),
     w\<lparr>lib_refs := (\<lambda>l. if l \<in> set libs \<and> entry l exts \<noteq> None then 1 else lib_refs w l)\<rparr>)"
  using assms
proof (induction paths arbitrary: libs w)
  case Nil
  then show ?case by (simp add: libraries_of_def loaded_from_def done_with_def)
next
  case (Cons path paths)
  obtain l ls where libs: "libs = l # ls" "dl_open D path = Some l" "libraries_of D paths ls entry"
      "dl_entry D (Some l) = Some (entry l)"
    using Cons.prems(1) by (auto simp: libraries_of_def)
  let ?w = "if entry l exts = None then w else w\<lparr>lib_refs := (lib_refs w)(l := 1)\<rparr>"
  have "\<forall>k \<in> set ls. lib_refs ?w k = 0" using Cons.prems(2,3) libs(1) by auto
  then have rest: "load_dynamic_modules D exts paths ?w = (Ret (loaded_from entry exts ls),
      ?w\<lparr>lib_refs := (\<lambda>k. if k \<in> set ls \<and> entry k exts \<noteq> None then 1 else lib_refs ?w k)\<rparr>)"
    using Cons.IH [OF libs(3), of ?w] Cons.prems(2) libs(1) by auto
  have "(\<lambda>k. if k \<in> set ls \<and> entry k exts \<noteq> None then 1 else lib_refs ?w k) =
      (\<lambda>k. if k \<in> set libs \<and> entry k exts \<noteq> None then 1 else lib_refs w k)"
    by (rule ext) (use Cons.prems(2) libs(1) in auto)
  with rest have rest: "load_dynamic_modules D exts paths ?w = (Ret (loaded_from entry exts ls),
      w\<lparr>lib_refs := (\<lambda>k. if k \<in> set libs \<and> entry k exts \<noteq> None then 1 else lib_refs w k)\<rparr>)"
    by (cases "entry l exts") simp_all
  have zero: "lib_refs w l = 0" using Cons.prems(3) libs(1) by simp
  then have restored: "w\<lparr>lib_refs := (lib_refs w)(l := 0)\<rparr> = w" by (metis fun_upd_triv libraries.surjective libraries.update_convs(1))
  have loaded: "open_module D exts path w = (Ret \<lparr>lm_handle = Some l, lm_module = entry l exts\<rparr>, w\<lparr>lib_refs := (lib_refs w)(l := 1)\<rparr>)"
    using libs zero by (simp add: open_module_def acquire_library_def and_then_def act_simps)
  show ?case
  proof (cases "entry l exts")
    case None
    have "destroy_loaded_module \<lparr>lm_handle = Some l, lm_module = None\<rparr> (w\<lparr>lib_refs := (lib_refs w)(l := 1)\<rparr>) = (Ret (), w)"
      using restored by (simp add: destroy_loaded_module_def module_unload_def and_then_def act_simps end_module_def)
    then show ?thesis using None loaded rest libs(1)
      by (simp add: and_then_def is_enabled_def loaded_from_def done_with_def)
  next
    case (Some m)
    have "destroy_loaded_module \<lparr>lm_handle = None, lm_module = None\<rparr> v = (Ret (), v)" for v
      by (simp add: destroy_loaded_module_def module_unload_def and_then_def act_simps end_module_def)
    then show ?thesis using Some loaded rest libs(1)
      by (simp add: and_then_def is_enabled_def move_module_def loaded_from_def done_with_def)
  qed
qed

lemma first_destroyed_faults:
  assumes "entry l exts = Some m" "module_library m = Some l" "lib_refs w l = 1"
  shows "fst (destroy_modules (\<lparr>lm_handle = Some l, lm_module = entry l exts\<rparr> # lms) w) = Fault"
  using assms by (simp add: destroy_modules_def destroy_loaded_module_def and_then_def module_unload_def act_simps end_module_def)

section \<open>Properties\<close>

text \<open>
  C34: loading the dynamic modules of the server keeps exactly the libraries whose module is enabled,
  each loaded once, and unloads the others. But the server cannot end: as soon as one module is
  enabled, destroying the vector has undefined behaviour, because \<open>LoadedModule\<close> unloads the library
  before the destructor of its module runs.
\<close>

theorem dynamic_modules_end:
  assumes "libraries_of D paths libs entry" "distinct libs" "\<forall>l \<in> set libs. lib_refs w l = 0"
  shows "\<exists>w'. load_dynamic_modules D exts paths w = (Ret (loaded_from entry exts libs), w') \<and> ended w' = ended w \<and>
    lib_refs w' = (\<lambda>l. if l \<in> set libs \<and> entry l exts \<noteq> None then 1 else lib_refs w l) \<and>
    (fst (destroy_modules (loaded_from entry exts libs) w') = Fault \<longleftrightarrow> (\<exists>l \<in> set libs. entry l exts \<noteq> None))"
proof -
  let ?w' = "w\<lparr>lib_refs := (\<lambda>l. if l \<in> set libs \<and> entry l exts \<noteq> None then 1 else lib_refs w l)\<rparr>"
  have "fst (destroy_modules (loaded_from entry exts libs) ?w') = Fault \<longleftrightarrow> (\<exists>l \<in> set libs. entry l exts \<noteq> None)"
  proof (cases "filter (\<lambda>l. entry l exts \<noteq> None) libs")
    case Nil
    then show ?thesis by (auto simp: loaded_from_def destroy_modules_def done_with_def filter_empty_conv)
  next
    case (Cons l ls)
    then have l: "l \<in> set libs" "entry l exts \<noteq> None" by (auto simp: filter_eq_Cons_iff)
    then obtain m where m: "entry l exts = Some m" by blast
    with assms(1) l(1) have "module_library m = Some l" by (auto simp: libraries_of_def)
    from first_destroyed_faults [of entry l exts m ?w'] this l m Cons show ?thesis
      by (auto simp: loaded_from_def)
  qed
  then show ?thesis using load_dynamic_modules_effect [OF assms] by (intro exI [of _ ?w']) simp
qed

text \<open>Two libraries, of which the first has a module for the runtime.\<close>

definition small_linker :: linker where
  "small_linker =
     \<lparr>dl_open = \<lambda>p. if p = ''a'' then Some 1 else Some 2,
      dl_entry = \<lambda>h. (case h of None \<Rightarrow> None
        | Some l \<Rightarrow> Some (\<lambda>exts. if l = 1 then Some \<lparr>module_library = Some 1, module_id = 10\<rparr> else None))\<rparr>"

lemma dynamic_modules_end_witness:
  "\<exists>w'. load_dynamic_modules small_linker [] [''a'', ''b''] no_libraries =
      (Ret [\<lparr>lm_handle = Some 1, lm_module = Some \<lparr>module_library = Some 1, module_id = 10\<rparr>\<rparr>], w') \<and>
    lib_refs w' 1 = 1 \<and> lib_refs w' 2 = 0 \<and>
    fst (destroy_modules [\<lparr>lm_handle = Some 1, lm_module = Some \<lparr>module_library = Some 1, module_id = 10\<rparr>\<rparr>] w') = Fault"
proof -
  let ?entry = "\<lambda>l (exts :: string list). if l = (1 :: nat) then Some \<lparr>module_library = Some 1, module_id = 10\<rparr> else None"
  have "libraries_of small_linker [''a'', ''b''] [1, 2] ?entry"
    by (auto simp: libraries_of_def small_linker_def)
  moreover have "loaded_from ?entry [] [1, 2] = [\<lparr>lm_handle = Some 1, lm_module = Some \<lparr>module_library = Some 1, module_id = 10\<rparr>\<rparr>]"
    by (simp add: loaded_from_def)
  ultimately show ?thesis
    using dynamic_modules_end [of small_linker "[''a'', ''b'']" "[1, 2]" ?entry no_libraries "[]"]
    by (auto simp: no_libraries_def)
qed

end
