(* ===== verification/Configuration.thy ===== *)
theory Configuration
  imports Serialization
begin

text \<open>
  The configuration of the client, \<open>src/common/config/config.cpp\<close>, from a JSON file or from the
  system properties of Android, and the command line of the server, \<open>src/server/main.cpp\<close>. The JSON
  library is a parameter; \<open>std::stoul\<close> is written out for 64-bit \<open>unsigned long\<close>.
\<close>

section \<open>Numbers\<close>

definition is_space :: "char \<Rightarrow> bool" where
  "is_space c = (c \<in> {CHR '' '', CHR 0x09, CHR 0x0A, CHR 0x0B, CHR 0x0C, CHR 0x0D})"

definition is_digit :: "char \<Rightarrow> bool" where
  "is_digit c = (48 \<le> (of_char c :: nat) \<and> (of_char c :: nat) \<le> 57)"

definition digits_value :: "string \<Rightarrow> nat" where
  "digits_value ds = fold (\<lambda>c n. 10 * n + (of_char c - 48)) ds 0"

text \<open>\<open>None\<close> is one of the exceptions \<open>invalid_argument\<close> and \<open>out_of_range\<close>; a minus sign negates modulo \<open>2 ^ 64\<close>.\<close>

definition stoul :: "string \<Rightarrow> u64 option" where
  "stoul str =
     (let s = dropWhile is_space str;
          negative = (s \<noteq> [] \<and> hd s = CHR ''-'');
          unsigned_part = (if s \<noteq> [] \<and> (hd s = CHR ''-'' \<or> hd s = CHR ''+'') then tl s else s);
          ds = takeWhile is_digit unsigned_part
      in if ds = [] \<or> digits_value ds \<ge> 2 ^ 64 then None
         else Some (if negative then - word_of_nat (digits_value ds) else word_of_nat (digits_value ds)))"

section \<open>The client\<close>

datatype transport_type = TCP | UNIX | ASG

text \<open>Members that a kind of transport does not use stay unset.\<close>

record config =
  cf_transport_type :: transport_type
  cf_ip_address :: "string option"
  cf_port :: "u16 option"
  cf_unix_path :: "string option"

definition tcp_config :: "string \<Rightarrow> u16 \<Rightarrow> config" where
  "tcp_config ip port = \<lparr>cf_transport_type = TCP, cf_ip_address = Some ip, cf_port = Some port, cf_unix_path = None\<rparr>"

definition unix_config :: "string \<Rightarrow> config" where
  "unix_config path = \<lparr>cf_transport_type = UNIX, cf_ip_address = None, cf_port = None, cf_unix_path = Some path\<rparr>"

definition asg_config :: config where
  "asg_config = \<lparr>cf_transport_type = ASG, cf_ip_address = None, cf_port = None, cf_unix_path = None\<rparr>"

definition config_exception :: exn where
  "config_exception = Std_exception ''ConfigException''"

definition or_config_exception :: "'a option \<Rightarrow> 'a outcome" where
  "or_config_exception x = (case x of None \<Rightarrow> Throw config_exception | Some y \<Rightarrow> Ret y)"

text \<open>
  The JSON library: parsing, and the values of a member as a string and as a \<open>uint16_t\<close>; \<open>None\<close>
  is a \<open>json::exception\<close>, which becomes a \<open>ConfigException\<close>.
\<close>

record 'j json =
  js_parse :: "string \<Rightarrow> 'j option"
  js_string :: "'j \<Rightarrow> string \<Rightarrow> string option"
  js_uint16 :: "'j \<Rightarrow> string \<Rightarrow> u16 option"

definition from_json :: "'j json \<Rightarrow> string \<Rightarrow> config outcome" where
  "from_json J str =
     obind (or_config_exception (js_parse J str)) (\<lambda>data.
     obind (or_config_exception (js_string J data ''transport_type'')) (\<lambda>type.
     if type = ''tcp'' then
       obind (or_config_exception (js_string J data ''ip_address'')) (\<lambda>ip.
       obind (or_config_exception (js_uint16 J data ''port'')) (\<lambda>port. Ret (tcp_config ip port)))
     else if type = ''unix'' then
       obind (or_config_exception (js_string J data ''unix_path'')) (\<lambda>path. Ret (unix_config path))
     else if type = ''asg'' then Ret asg_config
     else Throw config_exception))"

definition from_android_system_properties :: "(string \<Rightarrow> string option) \<Rightarrow> config outcome" where
  "from_android_system_properties props =
     obind (or_config_exception (props ''xrtransport.transport_type'')) (\<lambda>type.
     if type = ''tcp'' then
       obind (or_config_exception (props ''xrtransport.ip_address'')) (\<lambda>ip.
       obind (or_config_exception (props ''xrtransport.port'')) (\<lambda>port_string.
       obind (or_config_exception (stoul port_string)) (\<lambda>port_long.
       if port_long > 65535 then Throw config_exception else Ret (tcp_config ip (ucast port_long)))))
     else if type = ''unix'' then
       obind (or_config_exception (props ''xrtransport.unix_path'')) (\<lambda>path. Ret (unix_config path))
     else if type = ''asg'' then Ret asg_config
     else Throw config_exception)"

text \<open>\<open>read\<close> gives the contents of a file, empty when it cannot be read.\<close>

definition load_config_linux :: "'j json \<Rightarrow> (string \<Rightarrow> string) \<Rightarrow> string option \<Rightarrow> string \<Rightarrow> config outcome" where
  "load_config_linux J read env compiled_path =
     from_json J (read (case env of None \<Rightarrow> compiled_path | Some path \<Rightarrow> path))"

section \<open>The command line of the server\<close>

datatype server_choice =
    Exit_with_usage | Exit_with_error | Listen_tcp string u16 | Listen_unix string

text \<open>The arguments after the name of the program; the port is narrowed to \<open>unsigned short\<close>.\<close>

definition main_arguments :: "string list \<Rightarrow> server_choice" where
  "main_arguments args =
     (case args of
        [] \<Rightarrow> Exit_with_usage
      | type # rest \<Rightarrow>
          if type = ''tcp'' then
            (let bind_addr = (case rest of [] \<Rightarrow> ''127.0.0.1'' | a # _ \<Rightarrow> a);
                 port_str = (case rest of a # p # _ \<Rightarrow> p | _ \<Rightarrow> ''5892'')
             in case stoul port_str of
                  None \<Rightarrow> Exit_with_error
                | Some port_num \<Rightarrow> Listen_tcp bind_addr (ucast port_num))
          else if type = ''unix'' then (case rest of [] \<Rightarrow> Exit_with_usage | path # _ \<Rightarrow> Listen_unix path)
          else Exit_with_usage)"

section \<open>Ports\<close>

definition android_tcp :: "string \<Rightarrow> string \<Rightarrow> string \<Rightarrow> string option" where
  "android_tcp ip port =
     [''xrtransport.transport_type'' \<mapsto> ''tcp'', ''xrtransport.ip_address'' \<mapsto> ip, ''xrtransport.port'' \<mapsto> port]"

lemma android_tcp_config:
  "from_android_system_properties (android_tcp ip port) =
     (case stoul port of
        None \<Rightarrow> Throw config_exception
      | Some v \<Rightarrow> if v > 65535 then Throw config_exception else Ret (tcp_config ip (ucast v)))"
  by (simp add: from_android_system_properties_def android_tcp_def or_config_exception_def split: option.split)

text \<open>
  A port that the client accepts from a system property is the port that the server listens on
  when it is started with the same text, and it is the number in the text; but the server accepts more:
  for a number beyond 65535, which the client refuses, it silently listens on the number modulo 65536.
\<close>

theorem port_texts:
  "case from_android_system_properties (android_tcp ip port) of
     Ret c \<Rightarrow> \<exists>v p. stoul port = Some v \<and> cf_port c = Some p \<and> uint p = uint v \<and>
       main_arguments [''tcp'', ip, port] = Listen_tcp ip p
   | Throw e \<Rightarrow> e = config_exception \<and>
       (case stoul port of
          None \<Rightarrow> main_arguments [''tcp'', ip, port] = Exit_with_error
        | Some v \<Rightarrow> uint v > 65535 \<and> main_arguments [''tcp'', ip, port] = Listen_tcp ip (word_of_int (uint v mod 65536)))
   | _ \<Rightarrow> False"
proof (cases "stoul port")
  case None
  then show ?thesis by (simp add: android_tcp_config main_arguments_def)
next
  case (Some v)
  have narrow: "(ucast v :: u16) = word_of_int (uint v mod 65536)"
    by (simp add: word_uint_eq_iff unsigned_ucast_eq uint_word_of_int take_bit_eq_mod)
  show ?thesis
  proof (cases "v > 65535")
    case True
    then have "uint v > 65535" by (simp add: word_less_def)
    then show ?thesis using True Some narrow by (simp add: android_tcp_config main_arguments_def)
  next
    case False
    then have "uint v \<le> 65535" by (simp add: word_less_def)
    then have "uint (ucast v :: u16) = uint v" by (simp add: unsigned_ucast_eq take_bit_eq_mod)
    then show ?thesis using False Some by (simp add: android_tcp_config main_arguments_def tcp_config_def)
  qed
qed

lemma port_examples:
  "stoul '' 5892'' = Some 5892" "stoul ''71428x'' = Some 71428" "stoul ''-1'' = Some (- 1)" "stoul ''x'' = None"
  "main_arguments [''tcp'', ''0.0.0.0'', ''71428''] = Listen_tcp ''0.0.0.0'' 5892"
  by (simp_all add: stoul_def main_arguments_def is_space_def is_digit_def digits_value_def)

end
