(* ===== verification/Connections.thy ===== *)
theory Connections
  imports Configuration Actions
begin

text \<open>
  Making connections: the singleton \<open>Runtime\<close> of the client in \<open>src/client/runtime.cpp\<close>, the loop
  of \<open>src/server/main.cpp\<close> that serves one client after the other, and the C interface of the server,
  \<open>src/server/server_c_api.cpp\<close>. Sockets, the handshake and the server itself are parameters; the
  handshake and the server have theories of their own.
\<close>

section \<open>The client\<close>

datatype server_address = Tcp_endpoint string u16 | Unix_endpoint string

text \<open>
  What a call of \<open>get_runtime\<close> meets: the configuration that would be read, the socket that an endpoint
  gives, the answer of the handshake over it, and the start of the transport.
\<close>

record surroundings =
  su_config :: "config outcome"
  su_connect :: "server_address \<Rightarrow> nat outcome"
  su_handshake :: "nat \<Rightarrow> bool outcome"
  su_start :: "nat \<Rightarrow> unit outcome"

text \<open>
  The two statics \<open>runtime\<close> (by its stream) and \<open>config\<close>; \<open>attempts\<close> are the endpoints that were
  connected to.
\<close>

record client_statics =
  cs_runtime :: "nat option"
  cs_config :: "config option"
  attempts :: "server_address list"

definition client_statics_init :: client_statics where
  "client_statics_init = \<lparr>cs_runtime = None, cs_config = None, attempts = []\<rparr>"

definition give :: "'a outcome \<Rightarrow> ('s, 'a) action" where
  "give r m = (r, m)"

definition runtime_error :: "string \<Rightarrow> exn" where
  "runtime_error what = Std_exception what"

definition read_config :: "surroundings \<Rightarrow> (client_statics, config) action" where
  "read_config E =
     and_then (ask cs_config) (\<lambda>c.
     case c of
       Some c \<Rightarrow> done_with c
     | None \<Rightarrow>
         and_then (give (su_config E)) (\<lambda>c.
         and_then (change (\<lambda>m. m\<lparr>cs_config := Some c\<rparr>)) (\<lambda>_. done_with c)))"

definition connect_to :: "surroundings \<Rightarrow> server_address \<Rightarrow> (client_statics, nat) action" where
  "connect_to E ep =
     and_then (change (\<lambda>m. m\<lparr>attempts := attempts m @ [ep]\<rparr>)) (\<lambda>_. give (su_connect E ep))"

text \<open>
  Members of a configuration that its kind of transport does not set are not read. Streams of the
  kind ASG are compiled in the gfxstream build only.
\<close>

definition create_connection :: "surroundings \<Rightarrow> (client_statics, nat) action" where
  "create_connection E =
     and_then (ask cs_runtime) (\<lambda>r.
     if r \<noteq> None then fail_with (runtime_error ''Connection already exists'')
     else
       and_then (read_config E) (\<lambda>c.
       case (cf_transport_type c, cf_ip_address c, cf_port c, cf_unix_path c) of
         (TCP, Some ip, Some port, _) \<Rightarrow> connect_to E (Tcp_endpoint ip port)
       | (UNIX, _, _, Some path) \<Rightarrow> connect_to E (Unix_endpoint path)
       | (ASG, _, _, _) \<Rightarrow> fail_with (runtime_error ''ASG streams not supported'')
       | _ \<Rightarrow> (\<lambda>m. (Fault, m))))"

definition get_runtime :: "surroundings \<Rightarrow> (client_statics, nat) action" where
  "get_runtime E =
     and_then (ask cs_runtime) (\<lambda>r.
     case r of
       Some s \<Rightarrow> done_with s
     | None \<Rightarrow>
         and_then (create_connection E) (\<lambda>s.
         and_then (give (su_handshake E s)) (\<lambda>ok.
         if \<not> ok then fail_with (runtime_error ''Transport handshake failed'')
         else
           and_then (change (\<lambda>m. m\<lparr>cs_runtime := Some s\<rparr>)) (\<lambda>_.
           and_then (give (su_start E s)) (\<lambda>_.
           done_with s)))))"

text \<open>Calls one after the other; an exception goes to the caller, who may call again.\<close>

fun get_runtimes :: "surroundings list \<Rightarrow> client_statics \<Rightarrow> nat outcome list \<times> client_statics" where
  "get_runtimes [] m = ([], m)"
| "get_runtimes (E # Es) m =
     (case get_runtime E m of (r, m') \<Rightarrow> case get_runtimes Es m' of (rs, m'') \<Rightarrow> (r # rs, m''))"

definition endpoint_of :: "config \<Rightarrow> server_address option" where
  "endpoint_of c =
     (case (cf_transport_type c, cf_ip_address c, cf_port c, cf_unix_path c) of
        (TCP, Some ip, Some port, _) \<Rightarrow> Some (Tcp_endpoint ip port)
      | (UNIX, _, _, Some path) \<Rightarrow> Some (Unix_endpoint path)
      | _ \<Rightarrow> None)"

section \<open>The server\<close>

text \<open>What one round of the loop meets: accepting, the handshake, and the run of the server.\<close>

record visitor =
  vi_accept :: "unit outcome"
  vi_handshake :: "bool outcome"
  vi_server :: "unit outcome"

datatype main_event = Client_connected | Handshake_failed | Server_ran | Connection_error

text \<open>
  A round: its log, and whether the process goes on. Exceptions are logged; what is neither a value
  nor an exception ends the process or never returns.
\<close>

definition serve_visitor :: "visitor \<Rightarrow> main_event list \<times> bool" where
  "serve_visitor v =
     (case vi_accept v of
        Ret _ \<Rightarrow>
          (case vi_handshake v of
             Ret ok \<Rightarrow>
               if \<not> ok then ([Client_connected, Handshake_failed], True)
               else (case vi_server v of
                 Ret _ \<Rightarrow> ([Client_connected, Server_ran], True)
               | Throw e \<Rightarrow> ([Client_connected, Connection_error], True)
               | _ \<Rightarrow> ([Client_connected], False))
           | Throw e \<Rightarrow> ([Client_connected, Connection_error], True)
           | _ \<Rightarrow> ([Client_connected], False))
      | Throw e \<Rightarrow> ([Connection_error], True)
      | _ \<Rightarrow> ([], False))"

fun serve_visitors :: "visitor list \<Rightarrow> main_event list" where
  "serve_visitors [] = []"
| "serve_visitors (v # vs) =
     (case serve_visitor v of (log, go_on) \<Rightarrow> log @ (if go_on then serve_visitors vs else []))"

text \<open>\<open>xrtp_run_server\<close>: the same for the one stream it is given; all exceptions are caught.\<close>

definition xrtp_run_server :: "bool outcome \<Rightarrow> unit outcome \<Rightarrow> bool outcome" where
  "xrtp_run_server handshake server =
     (case handshake of
        Ret ok \<Rightarrow>
          if \<not> ok then Ret False
          else (case server of
            Ret _ \<Rightarrow> Ret True
          | Throw e \<Rightarrow> Ret False
          | Terminate \<Rightarrow> Terminate | Fault \<Rightarrow> Fault | Blocked \<Rightarrow> Blocked)
      | Throw e \<Rightarrow> Ret False
      | Terminate \<Rightarrow> Terminate | Fault \<Rightarrow> Fault | Blocked \<Rightarrow> Blocked)"

text \<open>
  The stream over the three functions of the caller, which set an error number; the category of an
  error is \<open>generic_category\<close>.
\<close>

definition delegate_read_some :: "('k \<Rightarrow> nat \<Rightarrow> bytes \<times> int \<times> 'k) \<Rightarrow> nat \<Rightarrow> 'k \<Rightarrow> (bytes \<times> int option) \<times> 'k" where
  "delegate_read_some read len k =
     (case read k len of (bs, error, k') \<Rightarrow> ((bs, if error \<noteq> 0 then Some error else None), k'))"

definition delegate_write_some :: "('k \<Rightarrow> bytes \<Rightarrow> nat \<times> int \<times> 'k) \<Rightarrow> bytes \<Rightarrow> 'k \<Rightarrow> (nat \<times> int option) \<times> 'k" where
  "delegate_write_some write bs k =
     (case write k bs of (n, error, k') \<Rightarrow> ((n, if error \<noteq> 0 then Some error else None), k'))"

definition delegate_close :: "('k \<Rightarrow> int \<times> 'k) \<Rightarrow> 'k \<Rightarrow> int option \<times> 'k" where
  "delegate_close close k = (case close k of (error, k') \<Rightarrow> (if error \<noteq> 0 then Some error else None, k'))"

section \<open>Laws\<close>

lemma visitors_served:
  "\<forall>v \<in> set vs. snd (serve_visitor v) \<Longrightarrow> serve_visitors vs = concat (map (fst \<circ> serve_visitor) vs)"
  by (induction vs) (auto split: prod.split)

text \<open>The runtime and the configuration are set once; connections go where the configuration says.\<close>

definition settled :: "client_statics \<Rightarrow> bool" where
  "settled m \<longleftrightarrow> (\<forall>ep \<in> set (attempts m). \<exists>c. cs_config m = Some c \<and> endpoint_of c = Some ep)"

definition continues :: "client_statics \<Rightarrow> client_statics \<Rightarrow> bool" where
  "continues m m' \<longleftrightarrow>
     (settled m \<longrightarrow> settled m') \<and> (\<forall>c. cs_config m = Some c \<longrightarrow> cs_config m' = Some c) \<and>
     (\<forall>s. cs_runtime m = Some s \<longrightarrow> cs_runtime m' = Some s \<and> attempts m' = attempts m)"

interpretation continuing: step_preorder continues
  by unfold_locales (auto simp: continues_def)

lemma read_config_effect:
  assumes "read_config E m = (Ret c, m')"
  shows "cs_config m' = Some c \<and> cs_runtime m' = cs_runtime m \<and> attempts m' = attempts m \<and>
    (\<forall>d. cs_config m = Some d \<longrightarrow> d = c)"
  using assms unfolding read_config_def
  by (auto simp: and_then_Ret_iff act_simps give_def split: option.splits)

lemma read_config_fails:
  assumes "read_config E m = (r, m')" "\<forall>c. r \<noteq> Ret c"
  shows "m' = m"
proof (cases "cs_config m")
  case None
  then have "read_config E m = (case su_config E of Ret c \<Rightarrow> (Ret c, m\<lparr>cs_config := Some c\<rparr>) | x \<Rightarrow> (x, m))"
    unfolding read_config_def by (cases "su_config E") (simp_all add: and_then_def act_simps give_def)
  then show ?thesis using assms by (simp split: outcome.splits)
next
  case (Some c)
  then show ?thesis using assms by (simp add: read_config_def and_then_def act_simps)
qed

lemma create_connection_effect:
  assumes "cs_runtime m = None" "create_connection E m = (r, m')"
  shows "continues m m' \<and> cs_runtime m' = None"
proof (cases "read_config E m")
  case (Pair rc m1)
  show ?thesis
  proof (cases "\<exists>c. rc = Ret c")
    case True
    then obtain c where c: "read_config E m = (Ret c, m1)" using Pair by auto
    note eff = read_config_effect [OF c]
    have "m' = m1 \<or> (\<exists>ep. endpoint_of c = Some ep \<and> m' = m1\<lparr>attempts := attempts m1 @ [ep]\<rparr>)"
      using assms c unfolding create_connection_def
      by (auto simp: and_then_def act_simps connect_to_def give_def endpoint_of_def
          split: transport_type.splits option.splits outcome.splits)
    then show ?thesis using eff assms(1) by (auto simp: continues_def settled_def)
  next
    case False
    then have "m' = m" using assms Pair read_config_fails [OF Pair] unfolding create_connection_def
      by (cases rc) (auto simp: and_then_def act_simps)
    then show ?thesis using assms(1) by (simp add: continues_def)
  qed
qed

lemma get_runtime_continues:
  assumes "get_runtime E m = (r, m')"
  shows "continues m m' \<and> (\<forall>s. r = Ret s \<longrightarrow> cs_runtime m' = Some s)"
proof (cases "cs_runtime m")
  case (Some s)
  then show ?thesis using assms by (auto simp: get_runtime_def and_then_def act_simps continues_def)
next
  case None
  obtain rc m1 where c: "create_connection E m = (rc, m1)" by (cases "create_connection E m")
  note eff = create_connection_effect [OF None c]
  have "m' = m1 \<and> (\<forall>s. r \<noteq> Ret s) \<or> (\<exists>s. m' = m1\<lparr>cs_runtime := Some s\<rparr> \<and> (\<forall>s'. r = Ret s' \<longrightarrow> s' = s))"
    using assms None c unfolding get_runtime_def
    by (cases rc) (auto simp: and_then_def act_simps give_def split: outcome.splits if_splits)
  then show ?thesis using eff None by (auto simp: continues_def settled_def)
qed

lemma get_runtimes_continues:
  assumes "get_runtimes Es m = (rs, m')"
  shows "continues m m' \<and> (\<forall>s. Ret s \<in> set rs \<longrightarrow> cs_runtime m' = Some s)"
  using assms
proof (induction Es arbitrary: m rs)
  case Nil
  then show ?case by (auto simp: continues_def)
next
  case (Cons E Es)
  obtain r m1 where r: "get_runtime E m = (r, m1)" by (cases "get_runtime E m")
  obtain rs' where rs': "get_runtimes Es m1 = (rs', m')" "rs = r # rs'"
    using Cons.prems r by (auto split: prod.splits)
  have one: "continues m m1 \<and> (\<forall>s. r = Ret s \<longrightarrow> cs_runtime m1 = Some s)" by (rule get_runtime_continues [OF r])
  have more: "continues m1 m' \<and> (\<forall>s. Ret s \<in> set rs' \<longrightarrow> cs_runtime m' = Some s)" by (rule Cons.IH [OF rs'(1)])
  then have "continues m m'" using one continuing.rel_trans by blast
  moreover have "cs_runtime m' = Some s" if "r = Ret s" for s
    using that one more by (auto simp: continues_def)
  ultimately show ?case using more rs'(2) by auto
qed

section \<open>Properties\<close>

text \<open>
  C25: the client has one runtime and one configuration. Over any sequence of calls of \<open>get_runtime\<close>,
  whatever files, sockets and handshakes they meet, all calls that succeed return the same runtime,
  once there is one no connection is made any more, and every attempt went to the endpoint of the
  configuration that was read first: a later call never reads it again.
\<close>

theorem one_runtime:
  assumes "get_runtimes Es client_statics_init = (rs, m)" "get_runtimes Es' m = (rs', m')"
  shows "(\<forall>s. Ret s \<in> set (rs @ rs') \<longrightarrow> cs_runtime m' = Some s) \<and>
    (\<forall>s. Ret s \<in> set rs \<longrightarrow> attempts m' = attempts m \<and> (\<forall>r \<in> set rs'. r = Ret s)) \<and>
    (\<forall>ep \<in> set (attempts m'). \<exists>c. cs_config m' = Some c \<and> endpoint_of c = Some ep) \<and>
    (\<forall>c. cs_config m = Some c \<longrightarrow> cs_config m' = Some c)"
proof -
  note first = get_runtimes_continues [OF assms(1)] and second = get_runtimes_continues [OF assms(2)]
  have same: "r = Ret s" if "cs_runtime m = Some s" "r \<in> set rs'" for r s
    using assms(2) that
  proof (induction Es' arbitrary: rs')
    case (Cons E Es')
    have "get_runtime E m = (Ret s, m)" using Cons.prems(2) by (simp add: get_runtime_def and_then_def act_simps)
    then show ?case using Cons.IH Cons.prems by (auto split: prod.splits)
  qed simp
  have init: "settled client_statics_init" by (simp add: settled_def client_statics_init_def)
  then have "settled m'" using first second by (auto simp: continues_def)
  then have "\<forall>ep \<in> set (attempts m'). \<exists>c. cs_config m' = Some c \<and> endpoint_of c = Some ep"
    by (simp add: settled_def)
  moreover have "\<forall>s. Ret s \<in> set (rs @ rs') \<longrightarrow> cs_runtime m' = Some s"
    using first second unfolding continues_def set_append Un_iff by blast
  moreover have "\<forall>s. Ret s \<in> set rs \<longrightarrow> attempts m' = attempts m \<and> (\<forall>r \<in> set rs'. r = Ret s)"
  proof (intro allI impI)
    fix s assume "Ret s \<in> set rs"
    then have "cs_runtime m = Some s" using first by blast
    then show "attempts m' = attempts m \<and> (\<forall>r \<in> set rs'. r = Ret s)"
      using second same by (simp add: continues_def)
  qed
  moreover have "\<forall>c. cs_config m = Some c \<longrightarrow> cs_config m' = Some c" using second by (auto simp: continues_def)
  ultimately show ?thesis by blast
qed

text \<open>The server is reached at the second try; the corrected address of that call is not used.\<close>

definition small_surroundings :: "string \<Rightarrow> nat outcome \<Rightarrow> surroundings" where
  "small_surroundings ip stream =
     \<lparr>su_config = Ret (tcp_config ip 5892), su_connect = \<lambda>ep. stream, su_handshake = \<lambda>s. Ret True, su_start = \<lambda>s. Ret ()\<rparr>"

lemma one_runtime_witness:
  "let refused = Throw (runtime_error ''refused'');
       (rs, m) = get_runtimes [small_surroundings ''10.0.0.1'' refused, small_surroundings ''10.0.0.2'' (Ret 3)] client_statics_init;
       (rs', m') = get_runtimes [small_surroundings ''10.0.0.3'' (Ret 4)] m
   in rs = [refused, Ret 3] \<and> rs' = [Ret 3] \<and> cs_runtime m' = Some 3 \<and>
      attempts m' = [Tcp_endpoint ''10.0.0.1'' 5892, Tcp_endpoint ''10.0.0.1'' 5892]"
proof -
  let ?refused = "Throw (runtime_error ''refused'') :: nat outcome"
  let ?m = "\<lparr>cs_runtime = Some 3, cs_config = Some (tcp_config ''10.0.0.1'' 5892),
      attempts = [Tcp_endpoint ''10.0.0.1'' 5892, Tcp_endpoint ''10.0.0.1'' 5892]\<rparr>"
  have first: "get_runtimes [small_surroundings ''10.0.0.1'' ?refused, small_surroundings ''10.0.0.2'' (Ret 3)] client_statics_init
      = ([?refused, Ret 3], ?m)"
    by (simp add: get_runtime_def create_connection_def read_config_def connect_to_def and_then_def act_simps give_def
        small_surroundings_def client_statics_init_def tcp_config_def)
  obtain rs' m' where second: "get_runtimes [small_surroundings ''10.0.0.3'' (Ret 4)] ?m = (rs', m')"
    by (cases "get_runtimes [small_surroundings ''10.0.0.3'' (Ret 4)] ?m")
  then have "length rs' = 1" by (auto split: prod.splits)
  moreover have "cs_runtime m' = Some 3 \<and> attempts m' = attempts ?m \<and> (\<forall>r \<in> set rs'. r = Ret 3)"
    using one_runtime [OF first second] by auto
  ultimately show ?thesis using first second by (cases rs') (auto simp: Let_def)
qed

end
