(* ===== verification/Ring_Buffer.thy ===== *)
theory Ring_Buffer
  imports Runs Message_Buffers
begin

unbundle bit_operations_syntax

text \<open>
  The ring buffer under the streams of the gfxstream build, \<open>ring_buffer.cpp\<close> and \<open>ring_buffer.h\<close> in
  \<open>src/client/gfxstream_asg\<close>: two positions that only grow, modulo \<open>2 ^ 32\<close>, and a buffer whose size is
  a power of two. The functions exist for the buffer inside of the struct and for a view of another
  buffer; they differ in size and mask.
\<close>

section \<open>Ring and view\<close>

record ring =
  write_pos :: u32
  read_pos :: u32
  ring_bytes :: bytes

record ring_view =
  vw_size :: u32
  vw_mask :: u32

definition static_view :: ring_view where
  "static_view = \<lparr>vw_size = 2048, vw_mask = 2047\<rparr>"

definition ring_buffer_init :: "bytes \<Rightarrow> ring" where
  "ring_buffer_init buf = \<lparr>write_pos = 0, read_pos = 0, ring_bytes = buf\<rparr>"

text \<open>
  The loop that looks for the shift; \<open>1 << shift\<close> needs a shift below 32. For the size 0 the shift wraps
  around to \<open>2 ^ 32 - 1\<close>.
\<close>

fun calc_shift_from :: "nat \<Rightarrow> nat \<Rightarrow> u32 \<Rightarrow> nat option" where
  "calc_shift_from 0 shift len = None"
| "calc_shift_from (Suc n) shift len =
     (if 2 ^ shift < unat len then calc_shift_from n (Suc shift) len else Some shift)"

definition ring_buffer_calc_shift :: "u32 \<Rightarrow> u32 outcome" where
  "ring_buffer_calc_shift len =
     (case calc_shift_from 32 0 len of
        None \<Rightarrow> Fault
      | Some shift \<Rightarrow> Ret (if 2 ^ shift > unat len then word_of_nat shift - 1 else word_of_nat shift))"

definition ring_buffer_init_view_only :: "u32 \<Rightarrow> ring_view outcome" where
  "ring_buffer_init_view_only len =
     (case ring_buffer_calc_shift len of
        Ret shift \<Rightarrow> if shift < 32 then Ret \<lparr>vw_size = 2 ^ unat shift, vw_mask = 2 ^ unat shift - 1\<rparr> else Fault
      | _ \<Rightarrow> Fault)"

definition get_ring_pos :: "ring_view \<Rightarrow> u32 \<Rightarrow> u32" where
  "get_ring_pos v index = index AND vw_mask v"

definition available_write :: "ring_view \<Rightarrow> ring \<Rightarrow> u32" where
  "available_write v r = get_ring_pos v (read_pos r - write_pos r - 1)"

definition available_read :: "ring_view \<Rightarrow> ring \<Rightarrow> u32" where
  "available_read v r = get_ring_pos v (write_pos r - read_pos r)"

definition can_write :: "ring_view \<Rightarrow> ring \<Rightarrow> u32 \<Rightarrow> bool" where
  "can_write v r bytes = (available_write v r \<ge> bytes)"

definition can_read :: "ring_view \<Rightarrow> ring \<Rightarrow> u32 \<Rightarrow> bool" where
  "can_read v r bytes = (available_read v r \<ge> bytes)"

section \<open>Copying\<close>

text \<open>\<open>memcpy\<close> into and out of the buffer, undefined beyond its end.\<close>

definition put_bytes :: "nat \<Rightarrow> bytes \<Rightarrow> bytes \<Rightarrow> bytes outcome" where
  "put_bytes p bs buf =
     (if p + length bs \<le> length buf then Ret (take p buf @ bs @ drop (p + length bs) buf) else Fault)"

definition get_bytes :: "nat \<Rightarrow> nat \<Rightarrow> bytes \<Rightarrow> bytes outcome" where
  "get_bytes p n buf = (if p + n \<le> length buf then Ret (take n (drop p buf)) else Fault)"

definition copy_in :: "ring_view \<Rightarrow> bytes \<Rightarrow> u32 \<Rightarrow> ring \<Rightarrow> bytes outcome" where
  "copy_in v data step_size r =
     (let available_at_end = vw_size v - get_ring_pos v (write_pos r);
          p = unat (get_ring_pos v (write_pos r))
      in if step_size > available_at_end
         then (case put_bytes p (take (unat available_at_end) data) (ring_bytes r) of
             Ret buf \<Rightarrow> put_bytes (unat (get_ring_pos v (write_pos r + available_at_end))) (drop (unat available_at_end) data) buf
           | x \<Rightarrow> x)
         else put_bytes p data (ring_bytes r))"

text \<open>
  Copying out from \<open>read_pos\<close>; \<open>available_at_end\<close> is what the function takes for the number of bytes up
  to the end of the buffer.
\<close>

definition copy_out :: "ring_view \<Rightarrow> u32 \<Rightarrow> u32 \<Rightarrow> ring \<Rightarrow> bytes outcome" where
  "copy_out v available_at_end n r =
     (let p = unat (get_ring_pos v (read_pos r))
      in if n > available_at_end
         then (case get_bytes p (unat available_at_end) (ring_bytes r) of
             Ret a \<Rightarrow>
               (case get_bytes (unat (get_ring_pos v (read_pos r + available_at_end))) (unat (n - available_at_end)) (ring_bytes r) of
                  Ret b \<Rightarrow> Ret (a @ b) | x \<Rightarrow> x)
           | x \<Rightarrow> x)
         else get_bytes p (unat n) (ring_bytes r))"

section \<open>Writing and reading\<close>

text \<open>
  The number of steps that were made, and whether \<open>errno\<close> says to try again. The arguments are the step to
  come and the number of steps left.
\<close>

fun ring_write_from :: "ring_view \<Rightarrow> bytes \<Rightarrow> u32 \<Rightarrow> nat \<Rightarrow> nat \<Rightarrow> ring \<Rightarrow> (nat \<times> bool) outcome \<times> ring" where
  "ring_write_from v data step_size i 0 r = (Ret (i, False), r)"
| "ring_write_from v data step_size i (Suc n) r =
     (if \<not> can_write v r step_size then (Ret (i, True), r)
      else case copy_in v (take (unat step_size) (drop (i * unat step_size) data)) step_size r of
        Ret buf \<Rightarrow>
          ring_write_from v data step_size (Suc i) n (r\<lparr>ring_bytes := buf, write_pos := write_pos r + step_size\<rparr>)
      | _ \<Rightarrow> (Fault, r))"

definition ring_buffer_write :: "ring_view \<Rightarrow> bytes \<Rightarrow> u32 \<Rightarrow> u32 \<Rightarrow> ring \<Rightarrow> (nat \<times> bool) outcome \<times> ring" where
  "ring_buffer_write v data step_size steps r = ring_write_from v data step_size 0 (unat steps) r"

fun ring_read_from :: "ring_view \<Rightarrow> u32 \<Rightarrow> nat \<Rightarrow> nat \<Rightarrow> bytes \<Rightarrow> ring \<Rightarrow> (bytes \<times> nat \<times> bool) outcome \<times> ring" where
  "ring_read_from v step_size i 0 data r = (Ret (data, i, False), r)"
| "ring_read_from v step_size i (Suc n) data r =
     (if \<not> can_read v r step_size then (Ret (data, i, True), r)
      else case copy_out v (vw_size v - get_ring_pos v (read_pos r)) step_size r of
        Ret bs \<Rightarrow> ring_read_from v step_size (Suc i) n (data @ bs) (r\<lparr>read_pos := read_pos r + step_size\<rparr>)
      | _ \<Rightarrow> (Fault, r))"

definition ring_buffer_read :: "ring_view \<Rightarrow> u32 \<Rightarrow> u32 \<Rightarrow> ring \<Rightarrow> (bytes \<times> nat \<times> bool) outcome \<times> ring" where
  "ring_buffer_read v step_size steps r = ring_read_from v step_size 0 (unat steps) [] r"

text \<open>
  \<open>ring_buffer_copy_contents\<close> leaves the positions alone. Without a view it takes the distance of
  \<open>write_pos\<close>, not \<open>read_pos\<close>, from the end.
\<close>

definition ring_buffer_copy_contents :: "ring_view option \<Rightarrow> u32 \<Rightarrow> ring \<Rightarrow> bytes option outcome" where
  "ring_buffer_copy_contents view wanted_bytes r =
     (let v = (case view of None \<Rightarrow> static_view | Some v \<Rightarrow> v);
          available_at_end = (case view of
              Some v \<Rightarrow> vw_size v - get_ring_pos v (read_pos r)
            | None \<Rightarrow> vw_size static_view - get_ring_pos static_view (write_pos r))
      in if available_read v r < wanted_bytes then Ret None
         else case copy_out v available_at_end wanted_bytes r of Ret bs \<Rightarrow> Ret (Some bs) | _ \<Rightarrow> Fault)"

section \<open>Positions\<close>

definition view_ok :: "nat \<Rightarrow> ring_view \<Rightarrow> bool" where
  "view_ok k v \<longleftrightarrow> k \<le> 31 \<and> vw_size v = 2 ^ k \<and> vw_mask v = mask k"

definition used :: "ring \<Rightarrow> nat" where
  "used r = unat (write_pos r - read_pos r)"

definition ring_ok :: "nat \<Rightarrow> ring_view \<Rightarrow> ring \<Rightarrow> bool" where
  "ring_ok k v r \<longleftrightarrow> view_ok k v \<and> length (ring_bytes r) = 2 ^ k \<and> used r < 2 ^ k"

lemma unat_ring_pos: "view_ok k v \<Longrightarrow> unat (get_ring_pos v i) = unat i mod 2 ^ k"
proof -
  assume "view_ok k v"
  then have "get_ring_pos v i = take_bit k i" by (simp add: view_ok_def get_ring_pos_def take_bit_eq_mask)
  then have "unat (get_ring_pos v i) = take_bit k (unat i)" by (simp add: unsigned_take_bit_eq)
  then show ?thesis by (simp only: take_bit_eq_mod)
qed

lemma pow32_split: "k \<le> 31 \<Longrightarrow> (4294967296 :: nat) = 2 ^ k * 2 ^ (32 - k)"
proof -
  assume "k \<le> 31"
  then have "(2 :: nat) ^ 32 = 2 ^ k * 2 ^ (32 - k)" by (simp add: power_add [symmetric])
  then show ?thesis by simp
qed

lemma unat_size: "view_ok k v \<Longrightarrow> unat (vw_size v) = 2 ^ k"
proof -
  assume "view_ok k v"
  then have k: "k \<le> 31" "vw_size v = 2 ^ k" by (simp_all add: view_ok_def)
  have "(2 :: nat) ^ k \<le> 2 ^ 31" using k(1) by (intro power_increasing) simp_all
  then have "(2 :: nat) ^ k < 2 ^ 32" by simp
  then show ?thesis using k(2) unat_of_nat [of "2 ^ k", where ?'a = 32] by simp
qed

lemma unat_mod_add: "view_ok k v \<Longrightarrow> unat (a + b :: u32) mod 2 ^ k = (unat a + unat b) mod 2 ^ k"
proof -
  assume "view_ok k v"
  then have k: "k \<le> 31" by (simp add: view_ok_def)
  have "unat (a + b) = (unat a + unat b) mod 4294967296" by (simp add: unat_word_ariths)
  then show ?thesis unfolding pow32_split [OF k] by (simp add: mod_mult2_eq)
qed

lemma mod_sum_once: "x < S \<Longrightarrow> 0 < y \<Longrightarrow> y \<le> S \<Longrightarrow> (x + y) mod S = 0 \<Longrightarrow> x + y = (S :: nat)"
proof -
  assume a: "x < S" "0 < y" "y \<le> S" "(x + y) mod S = 0"
  then have "S \<le> x + y" by (metis add_is_0 leI mod_less not_less_zero)
  then show ?thesis using a by (simp add: le_mod_geq)
qed

lemma available_read_used: "ring_ok k v r \<Longrightarrow> unat (available_read v r) = used r"
  using unat_ring_pos [of k v "write_pos r - read_pos r"] by (simp add: ring_ok_def available_read_def used_def)

lemma available_write_used:
  assumes "ring_ok k v r"
  shows "unat (available_write v r) = 2 ^ k - 1 - used r"
proof -
  let ?u = "write_pos r - read_pos r"
  have k: "view_ok k v" "k \<le> 31" "used r < 2 ^ k" using assms by (simp_all add: ring_ok_def view_ok_def)
  have eq: "read_pos r - write_pos r - 1 + (?u + 1) = 0" by simp
  have "(unat (read_pos r - write_pos r - 1) + unat (?u + 1)) mod 2 ^ k = 0"
    using unat_mod_add [OF k(1), of "read_pos r - write_pos r - 1" "?u + 1"] unfolding eq by simp
  moreover have "unat (?u + 1) mod 2 ^ k = (used r + 1) mod 2 ^ k"
    using unat_mod_add [OF k(1), of ?u 1] by (simp add: used_def)
  ultimately have "(unat (read_pos r - write_pos r - 1) mod 2 ^ k + (used r + 1) mod 2 ^ k) mod 2 ^ k = 0"
    by (metis mod_add_eq)
  then have "(unat (read_pos r - write_pos r - 1) mod 2 ^ k + (used r + 1)) mod 2 ^ k = 0"
    by (simp only: mod_add_right_eq)
  moreover have "unat (read_pos r - write_pos r - 1) mod 2 ^ k < 2 ^ k" by simp
  ultimately have "unat (read_pos r - write_pos r - 1) mod 2 ^ k + (used r + 1) = 2 ^ k"
    using k(3) by (intro mod_sum_once) simp_all
  then show ?thesis using unat_ring_pos [OF k(1), of "read_pos r - write_pos r - 1"] by (simp add: available_write_def)
qed

section \<open>The bytes of the ring\<close>

text \<open>The bytes from a position on, around the end of the buffer.\<close>

definition ring_from :: "nat \<Rightarrow> nat \<Rightarrow> bytes \<Rightarrow> bytes" where
  "ring_from p n buf = map (\<lambda>i. buf ! ((p + i) mod length buf)) [0..<n]"

definition contents :: "ring \<Rightarrow> bytes" where
  "contents r = ring_from (unat (read_pos r)) (used r) (ring_bytes r)"

lemma length_ring_from [simp]: "length (ring_from p n buf) = n"
  by (simp add: ring_from_def)

lemma ring_from_mod: "ring_from (p mod length buf) n buf = ring_from p n buf"
  by (simp add: ring_from_def mod_simps)

lemma ring_from_append: "ring_from p (m + n) buf = ring_from p m buf @ ring_from (p + m) n buf"
  by (simp add: ring_from_def map_upt_append add.assoc)

lemma ring_from_inside: "p + n \<le> length buf \<Longrightarrow> ring_from p n buf = take n (drop p buf)"
  by (rule nth_equalityI) (auto simp: ring_from_def)

lemma length_contents [simp]: "length (contents r) = used r"
  by (simp add: contents_def)

text \<open>Copying out, with the right distance to the end.\<close>

lemma unat_available_at_end:
  assumes "view_ok k v"
  shows "unat (vw_size v - get_ring_pos v i) = 2 ^ k - unat i mod 2 ^ k"
proof -
  have "unat i mod 2 ^ k < 2 ^ k" by simp
  then have "unat (get_ring_pos v i) \<le> unat (vw_size v)" using unat_ring_pos [OF assms] unat_size [OF assms] by simp
  then show ?thesis using unat_ring_pos [OF assms] unat_size [OF assms]
    by (simp add: unat_sub_if_size word_size)
qed

lemma next_ring_pos:
  assumes "view_ok k v"
  shows "unat (get_ring_pos v (i + (vw_size v - get_ring_pos v i))) = 0"
proof -
  have "unat (i + (vw_size v - get_ring_pos v i)) mod 2 ^ k = (unat i + (2 ^ k - unat i mod 2 ^ k)) mod 2 ^ k"
    using unat_mod_add [OF assms] unat_available_at_end [OF assms] by simp
  also have "\<dots> = (unat i mod 2 ^ k + (2 ^ k - unat i mod 2 ^ k)) mod 2 ^ k" by (simp only: mod_add_left_eq)
  also have "\<dots> = 0" by simp
  finally show ?thesis using unat_ring_pos [OF assms] by simp
qed

lemma copy_out_ring:
  assumes "ring_ok k v r" "unat n \<le> 2 ^ k"
  shows "copy_out v (vw_size v - get_ring_pos v (read_pos r)) n r = Ret (ring_from (unat (read_pos r)) (unat n) (ring_bytes r))"
proof -
  have v: "view_ok k v" and len: "length (ring_bytes r) = 2 ^ k" using assms(1) by (simp_all add: ring_ok_def)
  let ?p = "unat (read_pos r) mod 2 ^ k" and ?e = "vw_size v - get_ring_pos v (read_pos r)" and ?b = "ring_bytes r"
  have p: "unat (get_ring_pos v (read_pos r)) = ?p" "?p < 2 ^ k" using unat_ring_pos [OF v] by simp_all
  have e: "unat ?e = 2 ^ k - ?p" by (rule unat_available_at_end [OF v])
  have from_p: "ring_from (unat (read_pos r)) m ?b = ring_from ?p m ?b" for m
    using ring_from_mod [of "unat (read_pos r)" ?b m] len by simp
  show ?thesis
  proof (cases "n > ?e")
    case True
    then have n: "unat n = (2 ^ k - ?p) + unat (n - ?e)"
      using e by (simp add: word_less_nat_alt unat_sub_if_size word_size)
    have rest: "unat (n - ?e) \<le> 2 ^ k" using n assms(2) by linarith
    have "ring_from ?p (unat n) ?b = ring_from ?p (2 ^ k - ?p) ?b @ ring_from (2 ^ k) (unat (n - ?e)) ?b"
      using ring_from_append [of ?p "2 ^ k - ?p" "unat (n - ?e)" ?b] n p(2) by simp
    also have "ring_from (2 ^ k) (unat (n - ?e)) ?b = ring_from 0 (unat (n - ?e)) ?b"
      using ring_from_mod [of "2 ^ k" ?b] len by simp
    finally show ?thesis
      using True p e rest len next_ring_pos [OF v, of "read_pos r"] from_p
      by (simp add: copy_out_def Let_def get_bytes_def ring_from_inside)
  next
    case False
    then have "unat n \<le> 2 ^ k - ?p" using e by (simp add: word_less_nat_alt)
    then have "?p + unat n \<le> 2 ^ k" using p(2) by linarith
    then show ?thesis using False p len from_p [of "unat n"]
      by (simp add: copy_out_def Let_def get_bytes_def ring_from_inside)
  qed
qed

text \<open>Copying in: the bytes from \<open>write_pos\<close> on are the data, the others stay.\<close>

definition offset_from :: "nat \<Rightarrow> nat \<Rightarrow> nat \<Rightarrow> nat" where
  "offset_from S w p = (if w \<le> p then p - w else p + S - w)"

lemma put_bytes_nth:
  "put_bytes w bs buf = Ret buf' \<Longrightarrow> p < length buf \<Longrightarrow>
   buf' ! p = (if w \<le> p \<and> p < w + length bs then bs ! (p - w) else buf ! p)"
  by (auto simp: put_bytes_def nth_append min_def split: if_splits)

lemma put_bytes_length: "put_bytes w bs buf = Ret buf' \<Longrightarrow> length buf' = length buf"
  by (auto simp: put_bytes_def split: if_splits)

lemma copy_in_ring:
  assumes "ring_ok k v r" "length data = unat n" "unat n \<le> 2 ^ k"
  shows "\<exists>buf'. copy_in v data n r = Ret buf' \<and> length buf' = 2 ^ k \<and>
    (\<forall>p < 2 ^ k. let d = offset_from (2 ^ k) (unat (write_pos r) mod 2 ^ k) p
       in buf' ! p = (if d < unat n then data ! d else ring_bytes r ! p))"
proof -
  have v: "view_ok k v" and len: "length (ring_bytes r) = 2 ^ k" using assms(1) by (simp_all add: ring_ok_def)
  let ?w = "unat (write_pos r) mod 2 ^ k" and ?e = "vw_size v - get_ring_pos v (write_pos r)" and ?b = "ring_bytes r"
  have w: "unat (get_ring_pos v (write_pos r)) = ?w" "?w < 2 ^ k" using unat_ring_pos [OF v] by simp_all
  have e: "unat ?e = 2 ^ k - ?w" by (rule unat_available_at_end [OF v])
  show ?thesis
  proof (cases "n > ?e")
    case True
    then have n: "2 ^ k - ?w < unat n" using e by (simp add: word_less_nat_alt)
    obtain b1 where b1: "put_bytes ?w (take (2 ^ k - ?w) data) ?b = Ret b1"
      using n w(2) len assms(2) by (simp add: put_bytes_def)
    note l1 = put_bytes_length [OF b1]
    have "unat n + ?w - 2 ^ k \<le> 2 ^ k" using assms(3) w(2) by linarith
    then obtain b2 where b2: "put_bytes 0 (drop (2 ^ k - ?w) data) b1 = Ret b2"
      using n w(2) len assms(2,3) l1 by (simp add: put_bytes_def)
    have "copy_in v data n r = Ret b2"
      using True w e b1 b2 next_ring_pos [OF v, of "write_pos r"] by (simp add: copy_in_def Let_def)
    moreover have "b2 ! p = (if offset_from (2 ^ k) ?w p < unat n then data ! offset_from (2 ^ k) ?w p else ?b ! p)"
      if "p < 2 ^ k" for p
      using put_bytes_nth [OF b1, of p] put_bytes_nth [OF b2, of p] that n w(2) len l1 assms(2,3)
      by (auto simp: offset_from_def add.commute)
    ultimately show ?thesis using put_bytes_length [OF b2] l1 len by (simp add: Let_def)
  next
    case False
    then have n: "unat n \<le> 2 ^ k - ?w" using e by (simp add: word_less_nat_alt)
    then have "?w + unat n \<le> 2 ^ k" using w(2) by linarith
    then obtain b1 where b1: "put_bytes ?w data ?b = Ret b1"
      using n w(2) len assms(2) by (simp add: put_bytes_def)
    have "copy_in v data n r = Ret b1" using False w b1 by (simp add: copy_in_def Let_def)
    moreover have "b1 ! p = (if offset_from (2 ^ k) ?w p < unat n then data ! offset_from (2 ^ k) ?w p else ?b ! p)"
      if "p < 2 ^ k" for p
      using put_bytes_nth [OF b1, of p] that n w(2) len assms(2) by (auto simp: offset_from_def)
    ultimately show ?thesis using put_bytes_length [OF b1] len by (simp add: Let_def)
  qed
qed

section \<open>Steps\<close>

lemma offset_mod: "i < S \<Longrightarrow> offset_from S (a mod S) ((a + i) mod S) = i"
proof -
  assume i: "i < S"
  then have a: "a mod S < S" by (intro mod_less_divisor) simp
  have eq: "(a + i) mod S = (a mod S + i) mod S" by (simp only: mod_add_left_eq)
  show ?thesis
  proof (cases "a mod S + i < S")
    case True
    then show ?thesis using eq by (simp add: offset_from_def)
  next
    case False
    then have "(a mod S + i) mod S = a mod S + i - S"
      using a i mod_less [of "a mod S + i - S" S] by (simp only: le_mod_geq not_less)
    moreover have "\<not> a mod S \<le> a mod S + i - S" "a mod S + i - S + S - a mod S = i" using i False by linarith+
    ultimately show ?thesis using eq by (simp add: offset_from_def)
  qed
qed

lemma write_pos_used: "ring_ok k v r \<Longrightarrow> unat (write_pos r) mod 2 ^ k = (unat (read_pos r) + used r) mod 2 ^ k"
proof -
  assume "ring_ok k v r"
  then have "view_ok k v" by (simp add: ring_ok_def)
  from unat_mod_add [OF this, of "read_pos r" "write_pos r - read_pos r"] show ?thesis by (simp add: used_def)
qed

lemma used_small: "ring_ok k v r \<Longrightarrow> used r + unat n < 2 ^ k \<Longrightarrow> used r + unat (n :: u32) < 2 ^ 32"
proof -
  assume "ring_ok k v r" and n: "used r + unat n < 2 ^ k"
  then have "(2 :: nat) ^ k \<le> 2 ^ 32" by (intro power_increasing) (simp_all add: ring_ok_def view_ok_def)
  then show ?thesis using n by linarith
qed

lemma write_step:
  assumes ok: "ring_ok k v r" and data: "length data = unat n" and room: "used r + unat n < 2 ^ k"
  shows "\<exists>buf. copy_in v data n r = Ret buf \<and>
    ring_ok k v (r\<lparr>ring_bytes := buf, write_pos := write_pos r + n\<rparr>) \<and>
    contents (r\<lparr>ring_bytes := buf, write_pos := write_pos r + n\<rparr>) = contents r @ data"
proof -
  let ?S = "2 ^ k :: nat" and ?a = "unat (read_pos r) + used r"
  obtain buf where buf: "copy_in v data n r = Ret buf" "length buf = ?S"
      "\<And>p. p < ?S \<Longrightarrow> buf ! p = (if offset_from ?S (unat (write_pos r) mod ?S) p < unat n
          then data ! offset_from ?S (unat (write_pos r) mod ?S) p else ring_bytes r ! p)"
    using copy_in_ring [OF ok data] room by (auto simp: Let_def)
  let ?r = "r\<lparr>ring_bytes := buf, write_pos := write_pos r + n\<rparr>"
  have len: "length (ring_bytes r) = ?S" using ok by (simp add: ring_ok_def)
  have "used ?r = unat ((write_pos r - read_pos r) + n)" by (simp add: used_def algebra_simps)
  also have "\<dots> = (unat (write_pos r - read_pos r) + unat n) mod 2 ^ 32"
    using unat_word_ariths(1) [of "write_pos r - read_pos r" n] by simp
  also have "\<dots> = used r + unat n" using used_small [OF ok room] by (simp add: used_def)
  finally have used: "used ?r = used r + unat n" .
  have at: "buf ! ((?a + j) mod ?S) = (if j < unat n then data ! j else ring_bytes r ! ((?a + j) mod ?S))" if "j < ?S" for j
    using buf(3) [of "(?a + j) mod ?S"] offset_mod [OF that, of ?a] write_pos_used [OF ok] by simp
  have old: "buf ! ((unat (read_pos r) + i) mod ?S) = ring_bytes r ! ((unat (read_pos r) + i) mod ?S)" if "i < used r" for i
  proof -
    have "(?a + (?S - used r + i)) mod ?S = (unat (read_pos r) + i + ?S) mod ?S" using room by (simp add: algebra_simps)
    then have "(?a + (?S - used r + i)) mod ?S = (unat (read_pos r) + i) mod ?S" by simp
    moreover have "?S - used r + i < ?S" "\<not> ?S - used r + i < unat n" using that room by linarith+
    ultimately show ?thesis using at [of "?S - used r + i"] by presburger
  qed
  have "contents ?r = ring_from (unat (read_pos r)) (used r) buf @ ring_from ?a (unat n) buf"
    unfolding contents_def used using ring_from_append [of "unat (read_pos r)" "used r" "unat n" buf] by simp
  moreover have "ring_from (unat (read_pos r)) (used r) buf = contents r"
    using old buf(2) len by (simp add: contents_def ring_from_def)
  moreover have "ring_from ?a (unat n) buf = data"
    using at room buf(2) data by (intro nth_equalityI) (simp_all add: ring_from_def)
  ultimately show ?thesis using buf(1,2) ok used room by (simp add: ring_ok_def)
qed

lemma read_step:
  assumes ok: "ring_ok k v r" and n: "unat n \<le> used r"
  shows "copy_out v (vw_size v - get_ring_pos v (read_pos r)) n r = Ret (take (unat n) (contents r)) \<and>
    ring_ok k v (r\<lparr>read_pos := read_pos r + n\<rparr>) \<and> contents (r\<lparr>read_pos := read_pos r + n\<rparr>) = drop (unat n) (contents r)"
proof -
  let ?r = "r\<lparr>read_pos := read_pos r + n\<rparr>"
  have len: "length (ring_bytes r) = 2 ^ k" and v: "view_ok k v" and small: "used r < 2 ^ k"
    using ok by (simp_all add: ring_ok_def)
  have split: "contents r = ring_from (unat (read_pos r)) (unat n) (ring_bytes r) @
      ring_from (unat (read_pos r) + unat n) (used r - unat n) (ring_bytes r)"
    using ring_from_append [of "unat (read_pos r)" "unat n" "used r - unat n"] n by (simp add: contents_def)
  have "used ?r = unat ((write_pos r - read_pos r) - n)" by (simp add: used_def algebra_simps)
  also have "\<dots> = used r - unat n"
    using n unat_sub [of n "write_pos r - read_pos r"] by (simp add: used_def word_le_nat_alt)
  finally have used: "used ?r = used r - unat n" .
  have "ring_from (unat (read_pos r + n)) m (ring_bytes r) = ring_from (unat (read_pos r) + unat n) m (ring_bytes r)" for m
    using ring_from_mod [of "unat (read_pos r + n)" "ring_bytes r" m] ring_from_mod [of "unat (read_pos r) + unat n" "ring_bytes r" m]
      unat_mod_add [OF v, of "read_pos r" n] len by simp
  then have "contents ?r = drop (unat n) (contents r)" using split used by (simp add: contents_def)
  moreover have "ring_ok k v ?r" using ok used small by (simp add: ring_ok_def)
  moreover have "take (unat n) (contents r) = ring_from (unat (read_pos r)) (unat n) (ring_bytes r)" using split by simp
  ultimately show ?thesis using copy_out_ring [OF ok, of n] n small by simp
qed

section \<open>A bounded queue\<close>

fun queue_write :: "nat \<Rightarrow> bytes \<Rightarrow> nat \<Rightarrow> nat \<Rightarrow> nat \<Rightarrow> bytes \<Rightarrow> (nat \<times> bool) \<times> bytes" where
  "queue_write cap data n i 0 q = ((i, False), q)"
| "queue_write cap data n i (Suc m) q =
     (if length q + n > cap then ((i, True), q)
      else queue_write cap data n (Suc i) m (q @ take n (drop (i * n) data)))"

fun queue_read :: "nat \<Rightarrow> nat \<Rightarrow> nat \<Rightarrow> bytes \<Rightarrow> bytes \<Rightarrow> (bytes \<times> nat \<times> bool) \<times> bytes" where
  "queue_read n i 0 data q = ((data, i, False), q)"
| "queue_read n i (Suc m) data q =
     (if length q < n then ((data, i, True), q)
      else queue_read n (Suc i) m (data @ take n q) (drop n q))"

lemma ring_write_refines:
  "ring_ok k v r \<Longrightarrow> (i + m) * unat n \<le> length data \<Longrightarrow>
   (case queue_write (2 ^ k - 1) data (unat n) i m (contents r) of (res, q) \<Rightarrow>
      fst (ring_write_from v data n i m r) = Ret res \<and> ring_ok k v (snd (ring_write_from v data n i m r)) \<and>
      contents (snd (ring_write_from v data n i m r)) = q)"
proof (induction m arbitrary: i r)
  case 0
  then show ?case by simp
next
  case (Suc m)
  have room: "can_write v r n \<longleftrightarrow> \<not> used r + unat n > 2 ^ k - 1"
    using available_write_used [OF Suc.prems(1)] Suc.prems(1)
    by (auto simp: can_write_def word_le_nat_alt ring_ok_def)
  show ?case
  proof (cases "can_write v r n")
    case False
    then show ?thesis using room Suc.prems(1) by simp
  next
    case True
    have "i * unat n + unat n \<le> length data" using Suc.prems(2) by (simp add: algebra_simps)
    then have len: "length (take (unat n) (drop (i * unat n) data)) = unat n" by simp
    have "used r + unat n < 2 ^ k"
      using True room less_le_trans [of "used r" "2 ^ k"] by (simp add: less_eq_Suc_le [symmetric] not_less Suc_le_eq)
        (metis One_nat_def Suc_pred le_imp_less_Suc zero_less_numeral zero_less_power)
    from write_step [OF Suc.prems(1) len this] obtain buf where buf:
      "copy_in v (take (unat n) (drop (i * unat n) data)) n r = Ret buf"
      "ring_ok k v (r\<lparr>ring_bytes := buf, write_pos := write_pos r + n\<rparr>)"
      "contents (r\<lparr>ring_bytes := buf, write_pos := write_pos r + n\<rparr>) = contents r @ take (unat n) (drop (i * unat n) data)"
      by blast
    show ?thesis using Suc.IH [OF buf(2), of "Suc i"] Suc.prems(2) True room buf(1,3) by simp
  qed
qed

lemma ring_read_refines:
  "ring_ok k v r \<Longrightarrow>
   (case queue_read (unat n) i m data (contents r) of (res, q) \<Rightarrow>
      fst (ring_read_from v n i m data r) = Ret res \<and> ring_ok k v (snd (ring_read_from v n i m data r)) \<and>
      contents (snd (ring_read_from v n i m data r)) = q)"
proof (induction m arbitrary: i r data)
  case 0
  then show ?case by simp
next
  case (Suc m)
  have avail: "can_read v r n \<longleftrightarrow> \<not> used r < unat n"
    using available_read_used [OF Suc.prems] by (auto simp: can_read_def word_le_nat_alt)
  show ?case
  proof (cases "can_read v r n")
    case False
    then show ?thesis using avail Suc.prems by simp
  next
    case True
    with avail have "unat n \<le> used r" by simp
    note step = read_step [OF Suc.prems this]
    then show ?thesis using Suc.IH [of "r\<lparr>read_pos := read_pos r + n\<rparr>" "Suc i" "data @ take (unat n) (contents r)"] True avail
      by simp
  qed
qed

section \<open>Calls\<close>

datatype ring_call = Ring_write bytes u32 u32 | Ring_read u32 u32 | Ring_available_read | Ring_available_write | Ring_copy u32

datatype ring_result =
    Wrote_steps "nat \<times> bool" | Read_steps "bytes \<times> nat \<times> bool" | Number nat | Copied "bytes option" | Undefined

fun call_ring :: "ring_view \<Rightarrow> ring_call \<Rightarrow> ring \<Rightarrow> ring_result \<times> ring" where
  "call_ring v (Ring_write data n steps) r =
     (case ring_buffer_write v data n steps r of (Ret x, r') \<Rightarrow> (Wrote_steps x, r') | (_, r') \<Rightarrow> (Undefined, r'))"
| "call_ring v (Ring_read n steps) r =
     (case ring_buffer_read v n steps r of (Ret x, r') \<Rightarrow> (Read_steps x, r') | (_, r') \<Rightarrow> (Undefined, r'))"
| "call_ring v Ring_available_read r = (Number (unat (available_read v r)), r)"
| "call_ring v Ring_available_write r = (Number (unat (available_write v r)), r)"
| "call_ring v (Ring_copy n) r =
     (case ring_buffer_copy_contents (Some v) n r of Ret x \<Rightarrow> (Copied x, r) | _ \<Rightarrow> (Undefined, r))"

text \<open>The same calls on a queue of at most \<open>cap\<close> bytes.\<close>

fun call_queue :: "nat \<Rightarrow> ring_call \<Rightarrow> bytes \<Rightarrow> ring_result \<times> bytes" where
  "call_queue cap (Ring_write data n steps) q =
     (case queue_write cap data (unat n) 0 (unat steps) q of (x, q') \<Rightarrow> (Wrote_steps x, q'))"
| "call_queue cap (Ring_read n steps) q =
     (case queue_read (unat n) 0 (unat steps) [] q of (x, q') \<Rightarrow> (Read_steps x, q'))"
| "call_queue cap Ring_available_read q = (Number (length q), q)"
| "call_queue cap Ring_available_write q = (Number (cap - length q), q)"
| "call_queue cap (Ring_copy n) q = (Copied (if length q < unat n then None else Some (take (unat n) q)), q)"

text \<open>The memory that a write is given must hold all of its steps.\<close>

fun enough_data :: "ring_call \<Rightarrow> bool" where
  "enough_data (Ring_write data n steps) = (unat steps * unat n \<le> length data)"
| "enough_data _ = True"

lemma call_ring_refines:
  assumes ok: "ring_ok k v r" and data: "enough_data c"
  shows "ring_ok k v (snd (call_ring v c r)) \<and>
    call_queue (2 ^ k - 1) c (contents r) = (fst (call_ring v c r), contents (snd (call_ring v c r)))"
proof (cases c)
  case (Ring_write d n steps)
  then show ?thesis using ring_write_refines [OF ok, of 0 "unat steps" n d] data
    by (cases "ring_write_from v d n 0 (unat steps) r") (auto simp: ring_buffer_write_def split: prod.splits)
next
  case (Ring_read n steps)
  then show ?thesis using ring_read_refines [OF ok, of n 0 "unat steps" "[]"]
    by (cases "ring_read_from v n 0 (unat steps) [] r") (auto simp: ring_buffer_read_def split: prod.splits)
next
  case Ring_available_read
  then show ?thesis using ok available_read_used by simp
next
  case Ring_available_write
  then show ?thesis using ok available_write_used by simp
next
  case (Ring_copy n)
  show ?thesis
  proof (cases "used r < unat n")
    case True
    then show ?thesis using Ring_copy ok available_read_used [OF ok]
      by (simp add: ring_buffer_copy_contents_def word_less_nat_alt)
  next
    case False
    then show ?thesis using Ring_copy ok available_read_used [OF ok] read_step [OF ok, of n]
      by (simp add: ring_buffer_copy_contents_def word_less_nat_alt)
  qed
qed

interpretation byte_ring: data_refinement "call_ring v" enough_data "ring_ok k v" "call_queue (2 ^ k - 1)" contents
  for k v
  by unfold_locales (use call_ring_refines in blast)+

lemma new_ring_ok: "view_ok k v \<Longrightarrow> length buf = 2 ^ k \<Longrightarrow> ring_ok k v (ring_buffer_init buf)"
  by (simp add: ring_ok_def ring_buffer_init_def used_def)

section \<open>Views\<close>

lemma calc_shift_from_least:
  "calc_shift_from n s len = Some t \<longleftrightarrow> s \<le> t \<and> t < s + n \<and> unat len \<le> 2 ^ t \<and> (\<forall>u. s \<le> u \<and> u < t \<longrightarrow> 2 ^ u < unat len)"
proof (induction n s len rule: calc_shift_from.induct)
  case (2 n s len)
  show ?case
  proof (cases "2 ^ s < unat len")
    case True
    then show ?thesis using 2 by (auto simp: not_less) (metis Suc_leI le_neq_implies_less not_less)+
  next
    case False
    then show ?thesis by (auto simp: not_less)
  qed
qed simp

lemma view_from_size:
  assumes "0 < unat len" "unat len \<le> 2 ^ 31"
  shows "\<exists>k v. ring_buffer_init_view_only len = Ret v \<and> view_ok k v \<and> 2 ^ k \<le> unat len \<and> unat len < 2 ^ Suc k"
proof -
  define t where "t = (LEAST t. unat len \<le> 2 ^ t)"
  have t: "unat len \<le> 2 ^ t" unfolding t_def by (rule LeastI [of _ 31]) (rule assms(2))
  have least: "2 ^ u < unat len" if "u < t" for u using not_less_Least [of u "\<lambda>t. unat len \<le> 2 ^ t"] that by (simp add: t_def)
  have "t \<le> 31" unfolding t_def by (rule Least_le) (rule assms(2))
  then have shift: "calc_shift_from 32 0 len = Some t" using t least by (simp add: calc_shift_from_least)
  define k where "k = (if 2 ^ t > unat len then t - 1 else t)"
  have pos: "0 < t" if "2 ^ t > unat len" using that assms(1) by (cases t) simp_all
  then have k: "k \<le> 31" "2 ^ k \<le> unat len" "unat len < 2 ^ Suc k"
    using \<open>t \<le> 31\<close> t least [of "t - 1"] assms(1)
    by (cases t; auto simp: k_def le_less)+
  have "ring_buffer_calc_shift len = Ret (word_of_nat k)"
    using shift pos by (auto simp: ring_buffer_calc_shift_def k_def of_nat_diff Suc_leI)
  moreover have "unat (word_of_nat k :: u32) = k" "(word_of_nat k :: u32) < 32"
    using k(1) by (simp_all add: unat_of_nat word_less_nat_alt)
  ultimately have "ring_buffer_init_view_only len = Ret \<lparr>vw_size = 2 ^ k, vw_mask = 2 ^ k - 1\<rparr>"
    by (simp add: ring_buffer_init_view_only_def)
  then show ?thesis using k
    by (intro exI [of _ k] exI [of _ "\<lparr>vw_size = 2 ^ k, vw_mask = 2 ^ k - 1\<rparr>"]) (simp add: view_ok_def mask_eq_exp_minus_1)
qed

lemma static_view_ok: "view_ok 11 static_view"
  by (simp add: view_ok_def static_view_def mask_eq_exp_minus_1)

section \<open>Properties\<close>

text \<open>
  C28: a ring buffer with a view is a queue of bytes that holds one byte less than the size of the
  view, a power of two not larger than the buffer it was given: over any sequence of writes, reads,
  peeks and questions that name the view the results are those of the queue, also when the positions
  wrap around at the end of the buffer and at \<open>2 ^ 32\<close>, and none of them reaches beyond the buffer.
  (Without a view the peek does: \<open>static_peek_overruns\<close>.)
\<close>

theorem ring_is_queue:
  assumes "0 < unat len" "unat len \<le> 2 ^ 31" "list_all enough_data cs"
  shows "\<exists>k v. ring_buffer_init_view_only len = Ret v \<and> 2 ^ k \<le> unat len \<and> unat len < 2 ^ Suc k \<and>
    (\<forall>r. length (ring_bytes r) = 2 ^ k \<and> write_pos r = read_pos r \<longrightarrow>
       fst (run_calls (call_ring v) cs r) = fst (run_calls (call_queue (2 ^ k - 1)) cs []))"
proof -
  obtain k v where v: "ring_buffer_init_view_only len = Ret v" "view_ok k v" "2 ^ k \<le> unat len" "unat len < 2 ^ Suc k"
    using view_from_size [OF assms(1,2)] by blast
  have "fst (run_calls (call_ring v) cs r) = fst (run_calls (call_queue (2 ^ k - 1)) cs [])"
    if "length (ring_bytes r) = 2 ^ k" "write_pos r = read_pos r" for r
  proof -
    have "ring_ok k v r" "contents r = []"
      using that v(2) by (simp_all add: ring_ok_def used_def contents_def ring_from_def)
    then show ?thesis using byte_ring.run_refines [of k v r cs] assms(3) by simp
  qed
  then show ?thesis using v(1,3,4) by blast
qed

text \<open>A view of ten bytes has eight; positions just below \<open>2 ^ 32\<close>.\<close>

lemma ring_is_queue_witness:
  "\<exists>v. ring_buffer_init_view_only 10 = Ret v \<and>
    fst (run_calls (call_ring v) [Ring_write [1, 2, 3, 4, 5, 6] 3 2, Ring_read 4 1, Ring_write [7, 8, 9, 10] 4 1, Ring_read 2 9]
      \<lparr>write_pos = - 2, read_pos = - 2, ring_bytes = replicate 8 0\<rparr>) =
    [Wrote_steps (2, False), Read_steps ([1, 2, 3, 4], 1, False), Wrote_steps (1, False),
     Read_steps ([5, 6, 7, 8, 9, 10], 3, True)]"
proof -
  let ?cs = "[Ring_write [1, 2, 3, 4, 5, 6] 3 2, Ring_read 4 1, Ring_write [7, 8, 9, 10] 4 1, Ring_read 2 9]"
  let ?r = "\<lparr>write_pos = - 2, read_pos = - 2, ring_bytes = replicate 8 0\<rparr>"
  have "0 < unat (10 :: u32)" "unat (10 :: u32) \<le> 2 ^ 31" "list_all enough_data ?cs" by simp_all
  from ring_is_queue [OF this] obtain k v where v: "ring_buffer_init_view_only 10 = Ret v" "2 ^ k \<le> (10 :: nat)" "(10 :: nat) < 2 ^ Suc k"
      "\<forall>r. length (ring_bytes r) = 2 ^ k \<and> write_pos r = read_pos r \<longrightarrow>
        fst (run_calls (call_ring v) ?cs r) = fst (run_calls (call_queue (2 ^ k - 1)) ?cs [])"
    by auto
  have "k = 3"
  proof -
    have "\<not> k \<ge> 4" using v(2) power_increasing [of 4 k "2 :: nat"] by auto
    moreover have "\<not> k \<le> 2" using v(3) power_increasing [of "Suc k" 3 "2 :: nat"] by auto
    ultimately show ?thesis by simp
  qed
  then have "fst (run_calls (call_ring v) ?cs ?r) = fst (run_calls (call_queue (2 ^ 3 - 1)) ?cs [])" using v(4) by simp
  also have "\<dots> = [Wrote_steps (2, False), Read_steps ([1, 2, 3, 4], 1, False), Wrote_steps (1, False),
     Read_steps ([5, 6, 7, 8, 9, 10], 3, True)]"
    by code_simp
  finally show ?thesis using v(1) by blast
qed

text \<open>
  Without a view the peek measures the distance of the wrong position: bytes that wrap around are
  read beyond the end of the buffer, although they are all there.
\<close>

lemma static_peek_overruns:
  assumes "ring_ok 11 static_view r" "unat n \<le> used r" "unat (get_ring_pos static_view (read_pos r)) + unat n > 2048"
    "unat n \<le> unat (vw_size static_view - get_ring_pos static_view (write_pos r))"
  shows "ring_buffer_copy_contents None n r = Fault"
proof -
  have "\<not> available_read static_view r < n"
    using available_read_used [OF assms(1)] assms(2) by (simp add: word_less_nat_alt)
  moreover have "\<not> vw_size static_view - get_ring_pos static_view (write_pos r) < n"
    using assms(4) by (simp add: word_less_nat_alt)
  moreover have "length (ring_bytes r) = 2048" using assms(1) by (simp add: ring_ok_def)
  ultimately show ?thesis using assms(3)
    by (simp add: ring_buffer_copy_contents_def copy_out_def get_bytes_def Let_def)
qed

lemma static_peek_overruns_example:
  "ring_buffer_copy_contents None 20 \<lparr>write_pos = 2060, read_pos = 2040, ring_bytes = replicate 2048 0\<rparr> = Fault"
  by (rule static_peek_overruns)
    (use static_view_ok in \<open>simp_all add: ring_ok_def used_def get_ring_pos_def static_view_def\<close>)

end
