(* ===== verification/Message_Objects.thy ===== *)
theory Message_Objects
  imports Transport_Api Actions
begin

text \<open>
  Who owns a message. The C interface hands out heap objects, each with a lock on the recursive
  \<open>message_mutex\<close>, and takes them back with a release function; the classes \<open>MessageLockIn\<close>,
  \<open>MessageLockOut\<close> and \<open>MessageLock\<close> of \<open>include/xrtransport/transport/transport.h\<close> wrap them. The three
  move in the same way; destroying a \<open>MessageLockOut\<close> flushes its message, which may fail. At the end
  the remaining members of \<open>Transport\<close>.
\<close>

section \<open>Objects and wrappers\<close>

datatype lock_kind = Msg_in | Msg_out | Msg_lock

text \<open>
  \<open>wrappers\<close> are the variables of the program: not declared, or of one of the three classes, empty or
  around an object. \<open>alive\<close> are the objects of the heap, each of which holds the mutex once;
  \<open>out_message\<close> is the message of each outgoing one. They belong to the transport \<open>link\<close>.
\<close>

record ('h, 'e) message_objects =
  wrappers :: "nat \<Rightarrow> (lock_kind \<times> nat option) option"
  alive :: "nat list"
  out_message :: "nat \<Rightarrow> message_out"
  link :: "('h, 'e) transport"
  next_object :: nat

definition no_message_objects :: "('h, 'e) transport \<Rightarrow> ('h, 'e) message_objects" where
  "no_message_objects t =
     \<lparr>wrappers = \<lambda>v. None, alive = [], out_message = \<lambda>h. message_out_init 0, link = t, next_object = 0\<rparr>"

definition mutex_depth :: "('h, 'e) message_objects \<Rightarrow> nat" where
  "mutex_depth s = length (alive s)"

section \<open>The C functions\<close>

text \<open>
  \<open>new\<close> in \<open>xrtp_start_message\<close>, and in \<open>xrtp_await_message\<close> and \<open>xrtp_msg_lock_acquire\<close> once they have
  what they wait for.
\<close>

definition new_object :: "message_out \<Rightarrow> ('h, 'e) message_objects \<Rightarrow> ('h, 'e) message_objects" where
  "new_object m s =
     s\<lparr>alive := alive s @ [next_object s], out_message := (out_message s)(next_object s := m),
       next_object := Suc (next_object s)\<rparr>"

definition xrtp_acquire ::
  "lock_kind \<Rightarrow> u16 \<Rightarrow> ('h, 'e) message_objects \<Rightarrow> (xrtp_result \<times> nat option) outcome \<times> ('h, 'e) message_objects" where
  "xrtp_acquire k header s =
     xrtp_try
       (if k = Msg_out
        then (case start_message header (link s) of
                Ret m \<Rightarrow> (Ret (next_object s), new_object m s)
              | Throw e \<Rightarrow> (Throw e, s)
              | _ \<Rightarrow> (Fault, s))
        else (Ret (next_object s), new_object (message_out_init 0) s))"

text \<open>Using or deleting an object that is not there is undefined.\<close>

definition xrtp_flush ::
  "nat \<Rightarrow> ('h, 'e) message_objects \<Rightarrow> (xrtp_result \<times> unit option) outcome \<times> ('h, 'e) message_objects" where
  "xrtp_flush h s =
     xrtp_try
       (if h \<in> set (alive s)
        then (case message_out_flush (out_message s h) (link s) of
                (r, m, t) \<Rightarrow> (r, s\<lparr>out_message := (out_message s)(h := m), link := t\<rparr>))
        else (Fault, s))"

definition xrtp_write ::
  "nat \<Rightarrow> bytes \<Rightarrow> ('h, 'e) message_objects \<Rightarrow> (xrtp_result \<times> unit option) outcome \<times> ('h, 'e) message_objects" where
  "xrtp_write h bs s =
     xrtp_try
       (if h \<in> set (alive s)
        then (Ret (), s\<lparr>out_message := (out_message s)(h := message_out_write bs (out_message s h))\<rparr>)
        else (Fault, s))"

text \<open>\<open>delete\<close> in the release functions; the destructor of an outgoing message flushes.\<close>

definition xrtp_release ::
  "lock_kind \<Rightarrow> nat \<Rightarrow> ('h, 'e) message_objects \<Rightarrow> (xrtp_result \<times> unit option) outcome \<times> ('h, 'e) message_objects" where
  "xrtp_release k h s =
     xrtp_try
       (if h \<notin> set (alive s) then (Fault, s)
        else if k = Msg_out
        then (case message_out_release (out_message s h) (link s) of
                (Ret _, t) \<Rightarrow> (Ret (), s\<lparr>alive := remove1 h (alive s), link := t\<rparr>)
              | (r, t) \<Rightarrow> (r, s\<lparr>link := t\<rparr>))
        else (Ret (), s\<lparr>alive := remove1 h (alive s)\<rparr>))"

section \<open>The wrappers\<close>

type_synonym ('h, 'e, 'a) wrapper_action = "(('h, 'e) message_objects, 'a) action"

definition set_wrapper :: "nat \<Rightarrow> (lock_kind \<times> nat option) option \<Rightarrow> ('h, 'e, unit) wrapper_action" where
  "set_wrapper v w = change (\<lambda>s. s\<lparr>wrappers := (wrappers s)(v := w)\<rparr>)"

definition wrapper_of :: "nat \<Rightarrow> ('h, 'e) message_objects \<Rightarrow> lock_kind \<times> nat option" where
  "wrapper_of v s = (case wrappers s v of Some w \<Rightarrow> w | None \<Rightarrow> (Msg_lock, None))"

text \<open>An empty wrapper holds a null pointer; its members check for that only where the code does.\<close>

definition with_object :: "('h, 'e, unit) wrapper_action \<Rightarrow> (nat \<Rightarrow> ('h, 'e, unit) wrapper_action) \<Rightarrow> nat option \<Rightarrow> ('h, 'e, unit) wrapper_action" where
  "with_object none f h = (case h of None \<Rightarrow> none | Some h \<Rightarrow> f h)"

definition checked_release :: "lock_kind \<Rightarrow> nat option \<Rightarrow> ('h, 'e, unit) wrapper_action" where
  "checked_release k = with_object (done_with ()) (\<lambda>h s. chk_xrtp () (xrtp_release k h s))"

definition checked_flush :: "nat option \<Rightarrow> ('h, 'e, unit) wrapper_action" where
  "checked_flush = with_object (\<lambda>s. (Fault, s)) (\<lambda>h s. chk_xrtp () (xrtp_flush h s))"

definition wrapper_new :: "nat \<Rightarrow> lock_kind \<Rightarrow> u16 \<Rightarrow> ('h, 'e, unit) wrapper_action" where
  "wrapper_new v k header = and_then (\<lambda>s. chk_xrtp 0 (xrtp_acquire k header s)) (\<lambda>h. set_wrapper v (Some (k, Some h)))"

definition wrapper_move :: "nat \<Rightarrow> nat \<Rightarrow> ('h, 'e, unit) wrapper_action" where
  "wrapper_move v other =
     and_then (ask (wrapper_of other)) (\<lambda>(k, h).
     and_then (set_wrapper v (Some (k, h))) (\<lambda>_. set_wrapper other (Some (k, None))))"

text \<open>Assignment releases what the variable held, without the flush of the wrapper's destructor.\<close>

definition wrapper_assign :: "nat \<Rightarrow> nat \<Rightarrow> ('h, 'e, unit) wrapper_action" where
  "wrapper_assign v other =
     (if v = other then done_with ()
      else
        and_then (ask (wrapper_of v)) (\<lambda>(k, h).
        and_then (checked_release k h) (\<lambda>_. wrapper_move v other)))"

definition wrapper_flush :: "nat \<Rightarrow> ('h, 'e, unit) wrapper_action" where
  "wrapper_flush v = and_then (ask (wrapper_of v)) (\<lambda>(k, h). checked_flush h)"

definition wrapper_write :: "nat \<Rightarrow> bytes \<Rightarrow> ('h, 'e, unit) wrapper_action" where
  "wrapper_write v bs =
     and_then (ask (wrapper_of v)) (\<lambda>(k, h). with_object (\<lambda>s. (Fault, s)) (\<lambda>h s. chk_xrtp () (xrtp_write h bs s)) h)"

text \<open>
  The destructors: \<open>~MessageLockOut\<close> flushes and then releases, the other two only release. An exception
  that leaves a destructor ends the process.
\<close>

definition noexcept :: "('h, 'e, unit) wrapper_action \<Rightarrow> ('h, 'e, unit) wrapper_action" where
  "noexcept f s = (case f s of (Throw e, s') \<Rightarrow> (Terminate, s') | x \<Rightarrow> x)"

definition wrapper_end :: "nat \<Rightarrow> ('h, 'e, unit) wrapper_action" where
  "wrapper_end v =
     and_then (ask (wrapper_of v)) (\<lambda>(k, h).
     and_then (noexcept
       (if k = Msg_out \<and> h \<noteq> None then and_then (checked_flush h) (\<lambda>_. checked_release k h) else checked_release k h)) (\<lambda>_.
     set_wrapper v None))"

section \<open>Programs\<close>

text \<open>Meanwhile the other threads may bring the transport into any state.\<close>

datatype ('h, 'e) wrapper_op =
    New_wrapper nat lock_kind u16 | Move_wrapper nat nat | Assign_wrapper nat nat | Write_wrapper nat bytes
  | Flush_wrapper nat | End_wrapper nat | Other_threads "('h, 'e) transport"

fun wrapper_step :: "('h, 'e) wrapper_op \<Rightarrow> ('h, 'e, unit) wrapper_action" where
  "wrapper_step (New_wrapper v k header) = wrapper_new v k header"
| "wrapper_step (Move_wrapper v u) = wrapper_move v u"
| "wrapper_step (Assign_wrapper v u) = wrapper_assign v u"
| "wrapper_step (Write_wrapper v bs) = wrapper_write v bs"
| "wrapper_step (Flush_wrapper v) = wrapper_flush v"
| "wrapper_step (End_wrapper v) = wrapper_end v"
| "wrapper_step (Other_threads t) = change (\<lambda>s. s\<lparr>link := t\<rparr>)"

definition unsent :: "nat \<Rightarrow> ('h, 'e) message_objects \<Rightarrow> bool" where
  "unsent h s \<longleftrightarrow> sb_buffer (mo_buffer (out_message s h)) \<noteq> []"

text \<open>
  A program names variables that exist, of the right class, and new ones where it declares them; it
  writes and flushes a message that it has, and does not write to it again after a flush.
\<close>

fun in_scope :: "('h, 'e) wrapper_op \<Rightarrow> ('h, 'e) message_objects \<Rightarrow> bool" where
  "in_scope (New_wrapper v k header) s = (wrappers s v = None)"
| "in_scope (Move_wrapper v u) s = (wrappers s v = None \<and> wrappers s u \<noteq> None)"
| "in_scope (Assign_wrapper v u) s =
     (wrappers s v \<noteq> None \<and> wrappers s u \<noteq> None \<and> fst (wrapper_of v s) = fst (wrapper_of u s))"
| "in_scope (Write_wrapper v bs) s = (\<exists>h. wrappers s v = Some (Msg_out, Some h) \<and> unsent h s)"
| "in_scope (Flush_wrapper v) s = (\<exists>h. wrappers s v = Some (Msg_out, Some h))"
| "in_scope (End_wrapper v) s = (wrappers s v \<noteq> None)"
| "in_scope (Other_threads t) s = True"

text \<open>A program goes on after an exception, which it catches; \<open>Terminate\<close> and \<open>Fault\<close> end it.\<close>

fun run_program :: "('h, 'e) wrapper_op list \<Rightarrow> ('h, 'e, unit) wrapper_action" where
  "run_program [] s = (Ret (), s)"
| "run_program (c # cs) s =
     (case wrapper_step c s of
        (Ret _, s') \<Rightarrow> run_program cs s'
      | (Throw _, s') \<Rightarrow> run_program cs s'
      | (r, s') \<Rightarrow> (r, s'))"

fun all_in_scope :: "('h, 'e) wrapper_op list \<Rightarrow> ('h, 'e) message_objects \<Rightarrow> bool" where
  "all_in_scope [] s = True"
| "all_in_scope (c # cs) s = (in_scope c s \<and> all_in_scope cs (snd (wrapper_step c s)))"

section \<open>Transport\<close>

text \<open>
  \<open>join\<close> returns when the threads have ended, or were never started; what makes them end is the
  subject of \<open>Transport_Threads\<close>.
\<close>

definition transport_join :: "('h, 'e) transport \<Rightarrow> unit outcome \<times> ('h, 'e) transport" where
  "transport_join t = (if status t = STATUS_CREATED \<or> status t = STATUS_CLOSED then (Ret (), t) else (Blocked, t))"

definition xrtp_transport_join where
  "xrtp_transport_join (t :: ('h, 'e) transport) = xrtp_try (transport_join t)"

definition of_wrapper ::
  "((nat, 'e) transport \<Rightarrow> 'a outcome \<times> (nat, 'e) transport) \<Rightarrow> ('f, 'e) wrapper \<Rightarrow> 'a outcome \<times> ('f, 'e) wrapper" where
  "of_wrapper f w = (case f (wrapped w) of (r, t) \<Rightarrow> (r, w\<lparr>wrapped := t\<rparr>))"

definition wrapper_start :: "('f, 'e) wrapper \<Rightarrow> unit outcome \<times> ('f, 'e) wrapper" where
  "wrapper_start = of_wrapper (\<lambda>t. chk_xrtp () (xrtp_transport_start t))"

definition wrapper_shutdown :: "('f, 'e) wrapper \<Rightarrow> unit outcome \<times> ('f, 'e) wrapper" where
  "wrapper_shutdown = of_wrapper (\<lambda>t. chk_xrtp () (xrtp_transport_shutdown t))"

definition wrapper_join :: "('f, 'e) wrapper \<Rightarrow> unit outcome \<times> ('f, 'e) wrapper" where
  "wrapper_join = of_wrapper (\<lambda>t. chk_xrtp () (xrtp_transport_join t))"

definition wrapper_get_status :: "('f, 'e) wrapper \<Rightarrow> transport_status outcome \<times> ('f, 'e) wrapper" where
  "wrapper_get_status = of_wrapper (\<lambda>t. chk_xrtp STATUS_CREATED (xrtp_transport_get_status t))"

definition wrapper_close :: "('f, 'e) wrapper \<Rightarrow> unit outcome \<times> ('f, 'e) wrapper" where
  "wrapper_close = of_wrapper (\<lambda>t. chk_xrtp () (xrtp_transport_close t))"

definition wrapper_await_message where
  "wrapper_await_message exec fuel sched header (w :: ('f, 'e) wrapper) =
     map_option (\<lambda>r. case chk_xrtp [] r of (x, t) \<Rightarrow> (x, w\<lparr>wrapped := t\<rparr>)) (xrtp_await_message exec fuel sched header (wrapped w))"

definition wrapper_handle_message where
  "wrapper_handle_message exec fuel sched header (w :: ('f, 'e) wrapper) =
     map_option (\<lambda>r. case chk_xrtp () r of (x, t) \<Rightarrow> (x, w\<lparr>wrapped := t\<rparr>)) (xrtp_handle_message exec fuel sched header (wrapped w))"

text \<open>Only a wrapper that created its transport releases it.\<close>

definition wrapper_borrow :: "(nat, 'e) transport \<Rightarrow> ('f, 'e) wrapper" where
  "wrapper_borrow t = \<lparr>owns_transport = False, wrapped = t, stored = (\<lambda>_. None), nodes = (\<lambda>_. None), next_node = 0\<rparr>"

definition wrapper_destroy :: "('f, 'e) wrapper \<Rightarrow> unit outcome \<times> ('f, 'e) wrapper" where
  "wrapper_destroy w =
     (if owns_transport w
      then (case of_wrapper (\<lambda>t. chk_xrtp () (xrtp_transport_release t)) w of (Throw e, w') \<Rightarrow> (Terminate, w') | x \<Rightarrow> x)
      else (Ret (), w))"

text \<open>
  The members that only forward do what the implementation does; destroying a borrowed transport
  leaves it running, and its handlers in place, although the wrapper's functions are gone.
\<close>

lemma borrowed_transport_stays: "wrapper_destroy (wrapper_borrow t) = (Ret (), wrapper_borrow t)"
  by (simp add: wrapper_destroy_def wrapper_borrow_def)

lemma owned_transport_released:
  "owns_transport w \<Longrightarrow> wrapper_destroy w = (Ret (), w\<lparr>wrapped := transport_destroy (wrapped w)\<rparr>)"
  by (simp add: wrapper_destroy_def of_wrapper_def xrtp_transport_release_def)

section \<open>Ownership\<close>

text \<open>The object of each wrapper.\<close>

definition held :: "('h, 'e) message_objects \<Rightarrow> nat \<Rightarrow> nat option" where
  "held s v = snd (wrapper_of v s)"

definition owners_ok :: "(nat \<Rightarrow> nat option) \<Rightarrow> nat list \<Rightarrow> bool" where
  "owners_ok H hs \<longleftrightarrow> distinct hs \<and> (\<forall>h. h \<in> set hs \<longleftrightarrow> (\<exists>v. H v = Some h)) \<and> inj_on H (dom H)"

text \<open>A message that was not flushed has room for its header.\<close>

definition buffer_ok :: "message_out \<Rightarrow> bool" where
  "buffer_ok m \<longleftrightarrow> sb_buffer (mo_buffer m) = [] \<or> 8 \<le> length (sb_buffer (mo_buffer m))"

definition objects_ok :: "('h, 'e) message_objects \<Rightarrow> bool" where
  "objects_ok s \<longleftrightarrow> owners_ok (held s) (alive s) \<and> (\<forall>h \<in> set (alive s). h < next_object s) \<and> (\<forall>h. buffer_ok (out_message s h))"

lemma owners_same: "owners_ok H hs \<Longrightarrow> H u = Some h \<Longrightarrow> H v = Some h \<Longrightarrow> u = v"
  unfolding owners_ok_def by (metis domI inj_onD)

lemma owners_ok_empty:
  assumes "owners_ok H hs"
  shows "owners_ok (H(v := None)) (case H v of None \<Rightarrow> hs | Some h \<Rightarrow> remove1 h hs)"
proof (cases "H v")
  case None
  then have "H(v := None) = H" by auto
  then show ?thesis using assms None by simp
next
  case (Some h)
  have "g \<in> set (remove1 h hs) \<longleftrightarrow> (\<exists>u. (H(v := None)) u = Some g)" for g
  proof -
    have "g \<in> set (remove1 h hs) \<longleftrightarrow> g \<noteq> h \<and> (\<exists>u. H u = Some g)"
      using assms by (auto simp: owners_ok_def)
    also have "\<dots> \<longleftrightarrow> (\<exists>u. u \<noteq> v \<and> H u = Some g)"
    proof
      assume "g \<noteq> h \<and> (\<exists>u. H u = Some g)"
      then obtain u where "g \<noteq> h" "H u = Some g" by blast
      then have "u \<noteq> v \<and> H u = Some g" using Some by auto
      then show "\<exists>u. u \<noteq> v \<and> H u = Some g" ..
    next
      assume "\<exists>u. u \<noteq> v \<and> H u = Some g"
      then obtain u where u: "u \<noteq> v" "H u = Some g" by blast
      then have "g \<noteq> h" using owners_same [OF assms _ Some, of u] by auto
      then show "g \<noteq> h \<and> (\<exists>u. H u = Some g)" using u by blast
    qed
    finally show ?thesis by auto
  qed
  moreover have "inj_on (H(v := None)) (dom (H(v := None)))"
    using assms by (auto simp: owners_ok_def inj_on_def dom_def)
  moreover have "distinct (remove1 h hs)" using assms by (simp add: owners_ok_def distinct_remove1)
  ultimately show ?thesis using Some by (simp add: owners_ok_def)
qed

lemma owners_ok_move:
  assumes "owners_ok H hs" "H v = None" "v \<noteq> u"
  shows "owners_ok (H(v := H u, u := None)) hs"
proof -
  have "(\<exists>x. (H(v := H u, u := None)) x = Some g) \<longleftrightarrow> (\<exists>x. H x = Some g)" for g
  proof
    assume "\<exists>x. H x = Some g"
    then obtain x where x: "H x = Some g" by blast
    show "\<exists>x. (H(v := H u, u := None)) x = Some g"
      by (rule exI [of _ "if x = u then v else x"]) (use x assms(2,3) in auto)
  qed (auto split: if_splits)
  moreover have "inj_on (H(v := H u, u := None)) (dom (H(v := H u, u := None)))"
  proof (rule inj_onI)
    fix x y
    assume x: "x \<in> dom (H(v := H u, u := None))" and y: "(H(v := H u, u := None)) x = (H(v := H u, u := None)) y"
    then obtain g where g: "(H(v := H u, u := None)) x = Some g" "(H(v := H u, u := None)) y = Some g"
      by (metis domD)
    then have "H (if x = v then u else x) = Some g" "H (if y = v then u else y) = Some g" "x \<noteq> u" "y \<noteq> u"
      by (auto split: if_splits)
    then show "x = y" using owners_same [OF assms(1)] by (metis (full_types))
  qed
  ultimately show ?thesis using assms(1) by (simp add: owners_ok_def)
qed

lemma owners_ok_new:
  assumes "owners_ok H hs" "H v = None" "h \<notin> set hs"
  shows "owners_ok (H(v := Some h)) (hs @ [h])"
proof -
  have "g \<in> set (hs @ [h]) \<longleftrightarrow> (\<exists>x. (H(v := Some h)) x = Some g)" for g
  proof -
    have "(\<exists>x. (H(v := Some h)) x = Some g) \<longleftrightarrow> g = h \<or> (\<exists>x. x \<noteq> v \<and> H x = Some g)" by auto
    also have "\<dots> \<longleftrightarrow> g = h \<or> (\<exists>x. H x = Some g)" using assms(2) by (metis option.distinct(1))
    finally show ?thesis using assms(1) by (auto simp: owners_ok_def)
  qed
  moreover have "\<forall>x. H x \<noteq> Some h" using assms(1,3) by (auto simp: owners_ok_def)
  then have "inj_on (H(v := Some h)) (dom (H(v := Some h)))"
    using assms(1) by (auto simp: owners_ok_def inj_on_def dom_def)
  ultimately show ?thesis using assms(1,3) by (simp add: owners_ok_def)
qed

lemma held_update [simp]:
  "held (s\<lparr>wrappers := (wrappers s)(v := Some w)\<rparr>) = (held s)(v := snd w)"
  "held (s\<lparr>wrappers := (wrappers s)(v := None)\<rparr>) = (held s)(v := None)"
  "held (s\<lparr>wrappers := (wrappers s)(u := Some a, v := Some b)\<rparr>) = (held s)(u := snd a, v := snd b)"
  "held (s\<lparr>alive := hs\<rparr>) = held s" "held (s\<lparr>next_object := n\<rparr>) = held s" "held (s\<lparr>link := t\<rparr>) = held s"
  "held (s\<lparr>out_message := m\<rparr>) = held s"
  by (auto simp: held_def wrapper_of_def split: option.splits)

lemma held_undeclared: "wrappers s v = None \<Longrightarrow> held s v = None"
  by (simp add: held_def wrapper_of_def)

lemma held_alive: "objects_ok s \<Longrightarrow> held s v = Some h \<Longrightarrow> h \<in> set (alive s)"
  by (auto simp: objects_ok_def owners_ok_def)

lemma init_buffer_ok [simp]: "buffer_ok (message_out_init c)"
  by (simp add: buffer_ok_def message_out_buffer header_bytes_def)

definition crosses :: "exn \<Rightarrow> bool" where
  "crosses e \<longleftrightarrow> (\<forall>c. e \<noteq> System_error c 0)"

lemma chk_thrown: "crosses e \<Longrightarrow> \<exists>e'. chk_xrtp () (xrtp_try (Throw e, s)) = (Throw e', s)"
  by (cases e) (auto simp: exception_across_boundary crosses_def)

text \<open>A flush sends the message or fails; it is never undefined.\<close>

lemma flush_cases:
  assumes "buffer_ok m"
  obtains (sent) m' t' where "message_out_flush m t = (Ret (), m', t')" "sb_buffer (mo_buffer m') = []"
    | (failed) e m' t' where "message_out_flush m t = (Throw e, m', t')" "buffer_ok m'" "crosses e"
proof (cases "sb_buffer (mo_buffer m) = []")
  case True
  then show thesis using sent by (simp add: message_out_flush_empty)
next
  case False
  then obtain m' where m': "message_out_seal m = Ret m'" "8 \<le> length (sb_buffer (mo_buffer m'))"
    using assms by (auto simp: buffer_ok_def message_out_seal_def message_header_size_def Let_def)
  show thesis
  proof (cases "flush_to_stream (sb_buffer (mo_buffer m')) t")
    case (Pair r t')
    then have "r = Ret () \<or> (\<exists>e. r = Throw e \<and> crosses e)"
      by (auto simp: flush_to_stream_def stream_write_def crosses_def split: if_splits)
    then show thesis
    proof (elim disjE exE conjE)
      assume "r = Ret ()"
      then show thesis using sent [of "m'\<lparr>mo_buffer := send_clear (mo_buffer m')\<rparr>" t'] Pair m' False
        by (simp add: message_out_flush_def send_clear_def)
    next
      fix e assume "r = Throw e" "crosses e"
      then show thesis using failed [of e m' t'] Pair m' False by (simp add: message_out_flush_def buffer_ok_def)
    qed
  qed
qed

lemma released_empty: "sb_buffer (mo_buffer m) = [] \<Longrightarrow> message_out_release m t = (Ret (), t)"
  by (simp add: message_out_release_def message_out_flush_empty)

definition emptied :: "nat \<Rightarrow> ('h, 'e) message_objects \<Rightarrow> ('h, 'e) message_objects" where
  "emptied v s = s\<lparr>alive := (case held s v of None \<Rightarrow> alive s | Some h \<Rightarrow> remove1 h (alive s))\<rparr>"

lemma emptied_ok: "objects_ok s \<Longrightarrow> owners_ok ((held s)(v := None)) (alive (emptied v s)) \<and>
    (\<forall>h \<in> set (alive (emptied v s)). h < next_object s)"
  using owners_ok_empty [of "held s" "alive s" v] notin_set_remove1 [of _ "alive s"]
  by (auto simp: objects_ok_def emptied_def split: option.splits dest: notin_set_remove1)

text \<open>Releasing the object of a variable frees it, or ends the process because its message cannot be sent.\<close>

definition lost :: "nat \<Rightarrow> ('h, 'e) message_objects \<Rightarrow> bool" where
  "lost v s \<longleftrightarrow> (\<exists>h e. wrappers s v = Some (Msg_out, Some h) \<and> fst (message_out_flush (out_message s h) (link s)) = Throw e)"

definition ends :: "('h, 'e) wrapper_op \<Rightarrow> nat \<Rightarrow> bool" where
  "ends c v \<longleftrightarrow> c = End_wrapper v \<or> (\<exists>u. c = Assign_wrapper v u \<and> u \<noteq> v)"

lemma checked_release_effect:
  assumes ok: "objects_ok s" and w: "wrappers s v = Some (k, h)"
  shows "(\<exists>t. checked_release k h s = (Ret (), (emptied v s)\<lparr>link := t\<rparr>)) \<or> (fst (checked_release k h s) = Terminate \<and> lost v s)"
proof (cases h)
  case None
  then have "checked_release k h s = (Ret (), (emptied v s)\<lparr>link := link s\<rparr>)"
    using w by (simp add: checked_release_def with_object_def done_with_def emptied_def held_def wrapper_of_def)
  then show ?thesis by blast
next
  case (Some ob)
  have held: "held s v = Some ob" using w Some by (simp add: held_def wrapper_of_def)
  have live: "ob \<in> set (alive s)" using held_alive [OF ok held] .
  have e: "(emptied v s)\<lparr>link := t\<rparr> = s\<lparr>alive := remove1 ob (alive s), link := t\<rparr>" for t using held by (simp add: emptied_def)
  show ?thesis
  proof (cases "k = Msg_out")
    case True
    have "buffer_ok (out_message s ob)" using ok by (simp add: objects_ok_def)
    then show ?thesis
    proof (cases rule: flush_cases [of _ "link s"])
      case (sent m' t')
      then have "checked_release k h s = (Ret (), (emptied v s)\<lparr>link := t'\<rparr>)" using Some True live e
        by (simp add: checked_release_def with_object_def xrtp_release_def message_out_release_def)
      then show ?thesis by blast
    next
      case (failed x m' t')
      then show ?thesis using Some True live w
        by (simp add: checked_release_def with_object_def xrtp_release_def message_out_release_def lost_def)
    qed
  next
    case False
    then have "checked_release k h s = (Ret (), (emptied v s)\<lparr>link := link s\<rparr>)"
      using Some live e by (simp add: checked_release_def with_object_def xrtp_release_def)
    then show ?thesis by blast
  qed
qed

lemma checked_flush_effect:
  assumes ok: "objects_ok s" and w: "wrappers s v = Some (Msg_out, Some ob)"
  shows "(\<exists>m t. checked_flush (Some ob) s = (Ret (), s\<lparr>out_message := (out_message s)(ob := m), link := t\<rparr>) \<and> sb_buffer (mo_buffer m) = []) \<or>
    (\<exists>e m t. checked_flush (Some ob) s = (Throw e, s\<lparr>out_message := (out_message s)(ob := m), link := t\<rparr>) \<and> buffer_ok m \<and> lost v s)"
proof -
  have held: "held s v = Some ob" using w by (simp add: held_def wrapper_of_def)
  have live: "ob \<in> set (alive s)" using held_alive [OF ok held] .
  have "buffer_ok (out_message s ob)" using ok by (simp add: objects_ok_def)
  then show ?thesis
  proof (cases rule: flush_cases [of _ "link s"])
    case (sent m' t')
    then show ?thesis using live by (auto simp: checked_flush_def with_object_def xrtp_flush_def)
  next
    case (failed x m' t')
    then have "lost v s" using w by (simp add: lost_def)
    moreover obtain e' where "chk_xrtp () (xrtp_try (Throw x, s\<lparr>out_message := (out_message s)(ob := m'), link := t'\<rparr>))
        = (Throw e', s\<lparr>out_message := (out_message s)(ob := m'), link := t'\<rparr>)"
      using chk_thrown [OF failed(3), of "s\<lparr>out_message := (out_message s)(ob := m'), link := t'\<rparr>"] ..
    moreover from this have "checked_flush (Some ob) s = (Throw e', s\<lparr>out_message := (out_message s)(ob := m'), link := t'\<rparr>)"
      using failed(1) live by (simp add: checked_flush_def with_object_def xrtp_flush_def)
    ultimately show ?thesis using failed(2) by blast
  qed
qed

lemma wrapper_move_effect:
  "wrapper_move v u s =
   (Ret (), s\<lparr>wrappers := (wrappers s)(v := Some (fst (wrapper_of u s), held s u), u := Some (fst (wrapper_of u s), None))\<rparr>)"
  by (cases "wrapper_of u s") (simp add: wrapper_move_def and_then_def act_simps set_wrapper_def held_def)

lemma objects_ok_message:
  "objects_ok s \<Longrightarrow> buffer_ok m \<Longrightarrow> objects_ok (s\<lparr>out_message := (out_message s)(h := m), link := t\<rparr>)"
  "objects_ok s \<Longrightarrow> buffer_ok m \<Longrightarrow> objects_ok (s\<lparr>out_message := (out_message s)(h := m)\<rparr>)"
  "objects_ok s \<Longrightarrow> objects_ok (s\<lparr>link := t\<rparr>)"
  using held_update by (auto simp: objects_ok_def)

lemma objects_ok_new:
  assumes "objects_ok s" "wrappers s v = None" "buffer_ok m"
  shows "objects_ok ((new_object m s)\<lparr>wrappers := (wrappers s)(v := Some (k, Some (next_object s)))\<rparr>)"
proof -
  have "next_object s \<notin> set (alive s)" using assms(1) by (auto simp: objects_ok_def)
  then have "owners_ok ((held s)(v := Some (next_object s))) (alive s @ [next_object s])"
    using owners_ok_new [of "held s" "alive s" v] held_undeclared [OF assms(2)] assms(1) by (simp add: objects_ok_def)
  moreover have "held ((new_object m s)\<lparr>wrappers := (wrappers s)(v := Some (k, Some (next_object s)))\<rparr>) = (held s)(v := Some (next_object s))"
    by (auto simp: held_def wrapper_of_def new_object_def)
  ultimately show ?thesis using assms(1,3) by (auto simp: objects_ok_def new_object_def)
qed

lemma wrapper_step_ok:
  assumes ok: "objects_ok s" and scope: "in_scope c s"
  shows "\<exists>r s'. wrapper_step c s = (r, s') \<and>
    ((r = Ret () \<or> (\<exists>e. r = Throw e)) \<and> objects_ok s' \<or> r = Terminate \<and> (\<exists>v. ends c v \<and> lost v s))"
proof (cases c)
  case (New_wrapper v k header)
  have w: "wrappers s v = None" using scope New_wrapper by simp
  have new: "set_wrapper v (Some (k, Some (next_object s))) (new_object m s)
      = (Ret (), (new_object m s)\<lparr>wrappers := (wrappers s)(v := Some (k, Some (next_object s)))\<rparr>)" for m
    by (simp add: set_wrapper_def change_def new_object_def)
  show ?thesis
  proof (cases "k = Msg_out")
    case True
    show ?thesis
    proof (cases "start_message header (link s)")
      case (Ret m)
      then have "buffer_ok m" by (auto simp: start_message_def split: if_splits)
      then show ?thesis using New_wrapper True Ret new objects_ok_new [OF ok w]
        by (simp add: wrapper_new_def and_then_def xrtp_acquire_def)
    qed (use New_wrapper True ok in \<open>auto simp: wrapper_new_def and_then_def xrtp_acquire_def start_message_def
        exception_across_boundary split: if_splits\<close>)
  next
    case False
    then show ?thesis using New_wrapper new objects_ok_new [OF ok w]
      by (simp add: wrapper_new_def and_then_def xrtp_acquire_def)
  qed
next
  case (Move_wrapper v u)
  then have "v \<noteq> u" "held s v = None" using scope held_undeclared by auto
  then show ?thesis using Move_wrapper ok owners_ok_move [of "held s" "alive s" v u]
    by (simp add: wrapper_move_effect objects_ok_def fun_upd_twist)
next
  case (Assign_wrapper v u)
  show ?thesis
  proof (cases "v = u")
    case True
    then show ?thesis using Assign_wrapper ok by (simp add: wrapper_assign_def done_with_def)
  next
    case False
    obtain k h where w: "wrappers s v = Some (k, h)" using scope Assign_wrapper by auto
    then have wo: "wrapper_of v s = (k, h)" by (simp add: wrapper_of_def)
    from checked_release_effect [OF ok w] show ?thesis
    proof (elim disjE exE conjE)
      fix t assume r: "checked_release k h s = (Ret (), (emptied v s)\<lparr>link := t\<rparr>)"
      let ?e = "(emptied v s)\<lparr>link := t\<rparr>"
      have e: "held ?e = held s" "wrappers ?e = wrappers s" "next_object ?e = next_object s" "out_message ?e = out_message s"
        by (simp_all add: emptied_def)
      have "owners_ok (((held s)(v := None))(v := held s u, u := None)) (alive ?e)"
        using owners_ok_move [OF conjunct1 [OF emptied_ok [OF ok, of v]], of v u] False by simp
      moreover have "held (?e\<lparr>wrappers := (wrappers s)(v := Some (k', held s u), u := Some (k', None))\<rparr>) = (held s)(v := held s u, u := None)" for k'
        using held_update(3) [of ?e v "(k', held s u)" u "(k', None)"] e by simp
      ultimately show ?thesis using Assign_wrapper False r emptied_ok [OF ok, of v] e ok wo
        by (simp add: wrapper_assign_def and_then_def act_simps wrapper_move_effect objects_ok_def)
    next
      assume t: "fst (checked_release k h s) = Terminate" "lost v s"
      then obtain s' where "checked_release k h s = (Terminate, s')" by (cases "checked_release k h s") auto
      then show ?thesis using Assign_wrapper False t wo
        by (auto simp: wrapper_assign_def and_then_def act_simps ends_def)
    qed
  qed
next
  case (Write_wrapper v bs)
  then obtain ob where w: "wrappers s v = Some (Msg_out, Some ob)" "unsent ob s" using scope by auto
  then have "ob \<in> set (alive s)" using held_alive [OF ok, of v] by (simp add: held_def wrapper_of_def)
  moreover have "buffer_ok (message_out_write bs (out_message s ob))"
    using ok w(2) by (auto simp: objects_ok_def buffer_ok_def unsent_def message_out_buffer dest: spec [of _ ob])
  ultimately show ?thesis using Write_wrapper w ok
    by (simp add: wrapper_write_def and_then_def act_simps wrapper_of_def with_object_def xrtp_write_def objects_ok_message)
next
  case (Flush_wrapper v)
  then obtain ob where w: "wrappers s v = Some (Msg_out, Some ob)" using scope by auto
  have "wrapper_step c s = checked_flush (Some ob) s"
    using Flush_wrapper w by (simp add: wrapper_flush_def and_then_def act_simps wrapper_of_def split: prod.split outcome.split)
  then show ?thesis using checked_flush_effect [OF ok w] ok
    by (auto simp: buffer_ok_def intro!: objects_ok_message)
next
  case (End_wrapper v)
  obtain k h where w: "wrappers s v = Some (k, h)" using scope End_wrapper by auto
  then have wo: "wrapper_of v s = (k, h)" by (simp add: wrapper_of_def)
  have gone: "objects_ok s2" if "set_wrapper v None ((emptied v s1)\<lparr>link := t\<rparr>) = (Ret (), s2)" "objects_ok s1" for s1 s2 t
  proof -
    have "s2 = (emptied v s1)\<lparr>link := t, wrappers := (wrappers s1)(v := None)\<rparr>"
      using that(1) by (auto simp: set_wrapper_def change_def emptied_def)
    moreover have "held ((emptied v s1)\<lparr>link := t, wrappers := (wrappers s1)(v := None)\<rparr>) = (held s1)(v := None)"
      by (auto simp: held_def wrapper_of_def emptied_def)
    ultimately show ?thesis using emptied_ok [OF that(2), of v] that(2) by (simp add: objects_ok_def emptied_def)
  qed
  have sets: "\<exists>s2. set_wrapper v None s1 = (Ret (), s2)" for s1 :: "('a, 'b) message_objects"
    by (simp add: set_wrapper_def change_def)
  show ?thesis
  proof (cases "k = Msg_out \<and> h \<noteq> None")
    case True
    then obtain ob where ob: "h = Some ob" "k = Msg_out" by blast
    from checked_flush_effect [OF ok w [unfolded ob]] show ?thesis
    proof (elim disjE exE conjE)
      fix m t assume f: "checked_flush (Some ob) s = (Ret (), s\<lparr>out_message := (out_message s)(ob := m), link := t\<rparr>)"
        and m: "sb_buffer (mo_buffer m) = []"
      let ?s = "s\<lparr>out_message := (out_message s)(ob := m), link := t\<rparr>"
      have ok1: "objects_ok ?s" using objects_ok_message(1) [OF ok] m by (simp add: buffer_ok_def)
      have "\<not> lost v ?s" using w ob m by (simp add: lost_def message_out_flush_empty)
      then obtain t' where r: "checked_release Msg_out (Some ob) ?s = (Ret (), (emptied v ?s)\<lparr>link := t'\<rparr>)"
        using checked_release_effect [OF ok1, of v Msg_out "Some ob"] w ob by auto
      obtain s2 where s2: "set_wrapper v None ((emptied v ?s)\<lparr>link := t'\<rparr>) = (Ret (), s2)" using sets by blast
      show ?thesis using End_wrapper wo ob f r s2 gone [OF s2 ok1]
        by (simp add: wrapper_end_def and_then_def act_simps noexcept_def)
    next
      fix e m t assume f: "checked_flush (Some ob) s = (Throw e, s\<lparr>out_message := (out_message s)(ob := m), link := t\<rparr>)" "lost v s"
      then show ?thesis using End_wrapper wo ob
        by (auto simp: wrapper_end_def and_then_def act_simps noexcept_def ends_def)
    qed
  next
    case False
    then have "\<not> lost v s" using w by (auto simp: lost_def)
    then obtain t where r: "checked_release k h s = (Ret (), (emptied v s)\<lparr>link := t\<rparr>)"
      using checked_release_effect [OF ok w] by blast
    obtain s2 where s2: "set_wrapper v None ((emptied v s)\<lparr>link := t\<rparr>) = (Ret (), s2)" using sets by blast
    show ?thesis using End_wrapper wo False r s2 gone [OF s2 ok]
      by (auto simp: wrapper_end_def and_then_def act_simps noexcept_def)
  qed
next
  case (Other_threads t)
  then show ?thesis using objects_ok_message(3) [OF ok] by (simp add: change_def)
qed

lemma run_program_ok:
  assumes "objects_ok s" "all_in_scope cs s"
  shows "case run_program cs s of (Ret _, s') \<Rightarrow> objects_ok s'
     | (Terminate, _) \<Rightarrow> \<exists>cs1 c cs2 s1 v. cs = cs1 @ c # cs2 \<and> run_program cs1 s = (Ret (), s1) \<and> ends c v \<and> lost v s1
     | _ \<Rightarrow> False"
  using assms
proof (induction cs arbitrary: s)
  case (Cons c cs)
  from wrapper_step_ok [OF Cons.prems(1), of c] Cons.prems(2) obtain r s1 where step: "wrapper_step c s = (r, s1)"
    "(r = Ret () \<or> (\<exists>e. r = Throw e)) \<and> objects_ok s1 \<or> r = Terminate \<and> (\<exists>v. ends c v \<and> lost v s)" by auto
  show ?case
  proof (cases "r = Terminate")
    case True
    then obtain v where "ends c v" "lost v s" using step(2) by auto
    then have "c # cs = [] @ c # cs \<and> run_program [] s = (Ret (), s) \<and> ends c v \<and> lost v s" by simp
    then have "\<exists>cs1 d cs2 s2 v. c # cs = cs1 @ d # cs2 \<and> run_program cs1 s = (Ret (), s2) \<and> ends d v \<and> lost v s2" by blast
    then show ?thesis using True step(1) by simp
  next
    case False
    then have go: "run_program (c # ds) s = run_program ds s1" for ds using step by auto
    have ih: "case run_program cs s1 of (Ret _, s') \<Rightarrow> objects_ok s'
       | (Terminate, _) \<Rightarrow> \<exists>cs1 c cs2 s2 v. cs = cs1 @ c # cs2 \<and> run_program cs1 s1 = (Ret (), s2) \<and> ends c v \<and> lost v s2
       | _ \<Rightarrow> False"
      using Cons.IH [of s1] step False Cons.prems(2) by auto
    obtain q s' where q: "run_program cs s1 = (q, s')" by force
    show ?thesis
    proof (cases "q = Terminate")
      case True
      then obtain cs1 d cs2 s2 v where "cs = cs1 @ d # cs2" "run_program cs1 s1 = (Ret (), s2)" "ends d v" "lost v s2"
        using ih q by auto
      then have "c # cs = (c # cs1) @ d # cs2 \<and> run_program (c # cs1) s = (Ret (), s2) \<and> ends d v \<and> lost v s2"
        using go by simp
      then have "\<exists>as a bs s3 v. c # cs = as @ a # bs \<and> run_program as s = (Ret (), s3) \<and> ends a v \<and> lost v s3" by (intro exI)
      then show ?thesis unfolding go q True by simp
    next
      case False
      then show ?thesis using ih unfolding go q by (cases q) auto
    qed
  qed
qed simp

section \<open>Properties\<close>


text \<open>A message is started, moved into another variable and overwritten by a second one.\<close>

abbreviation open_link :: "(nat, unit) transport" where
  "open_link \<equiv> connected [] ()"


end
