(* ===== verification/Spec2Isabelle.thy ===== *)
theory Spec2Isabelle
  imports Transport_Api Transport_Threads Rpc_Props Client_Entry Server_Loop Serialization_Types Vulkan_Client_Props Handshake Synchronization
    Platform_Time Handle_Exchange Module_Loading Connections Ring_Buffer Message_Objects
begin

text \<open>
  Verification library for xrtransport, an OpenXR runtime whose calls are executed on another machine.
  An application loads the client (\<open>src/client\<close>), which turns every OpenXR call into a message; the
  server (\<open>src/server\<close>) makes the call on a real runtime and sends back the result and the objects it
  wrote. Between the two lie the transport (\<open>src/common/transport\<close>), the serialization of all OpenXR
  structures (\<open>src/common/serialization\<close>, generated), and modules that replace calls which cannot be
  forwarded as they are: Vulkan (\<open>src/modules/vulkan\<close>), whose images are shared between the processes by
  file descriptors, and the handle exchange (\<open>src/modules/handle_exchange_linux\<close>), which carries these.
  The model is that of the Linux build; generated code is modelled for every set of compiled extensions.

  Conventions.
  \<^item> Words have the width of the C++ type (\<open>u16\<close>, \<open>u32\<close>, \<open>u64\<close>); \<open>XrTime\<close> and file descriptors are \<open>int\<close>
    with the range written out. Bytes on the wire are lists of 8-bit words, little-endian.
  \<^item> An operation that may end in several ways gives an \<open>outcome\<close> (\<open>Message_Buffers\<close>): a value, an
    exception, \<open>Terminate\<close> for an exception that leaves a destructor or a thread, \<open>Fault\<close> for
    undefined behaviour, \<open>Blocked\<close> for a wait that nothing ends. An exception that leaves a message
    handler is caught by \<open>dispatch_to_handler\<close>, which logs it: the server goes on, in the state that the
    handler left, and a client whose handler had not started an answer waits for ever. A reader or writer also says how much it
    consumed or had written. Stateful code is an action, a function from a state to an outcome and a
    state (\<open>Actions\<close>); threads and processes are step relations.
  \<^item> OpenXR values are \<open>xv\<close>: primitive bytes, pointers to arrays, structs with named members and \<open>next\<close>
    chains. A generated function is the list of its statements, a program over the templates it calls.
  \<^item> What is not in the repository is a parameter: the real runtime (\<open>runtime\<close>), Vulkan drivers, the
    functions of other modules, the JSON library, the system calls. What is assumed of them is a named
    predicate in the hypotheses (\<open>connected\<close>, \<open>libraries_of\<close>, \<open>driver_ok\<close>, ...), and a witness beside each
    property applies it to a concrete instance.

  The theories, from the bottom up.

  Foundations. \<open>Xr_Prelude\<close>: bytes and lists, \<open>wire_simps\<close>. \<open>Xr_Results\<close>: result codes. \<open>Message_Buffers\<close>:
  message headers and the buffers of \<open>transport_impl.h\<close>, with the locale \<open>byte_source\<close> of readers. \<open>Actions\<close>:
  statements in sequence, triples, the locale \<open>step_preorder\<close> of relations that every step follows.
  \<open>Runs\<close>: sequences of calls, the locales \<open>kept_invariant\<close> and \<open>data_refinement\<close>.

  Transport. \<open>Transport_Core\<close> is \<open>TransportImpl\<close> as one thread sees it: start, stop, the producer's and
  the consumer's step, sending, awaiting and handling messages, shutdown. \<open>Transport_Laws\<close> and
  \<open>Transport_Props\<close>: frames, what is sent is received whatever the interleaving with the producer,
  the first matching message is returned and the others dispatched, an orderly shutdown ends both
  sides, the status moves forward but for a \<open>shutdown\<close> that is overtaken by a close between its flush and
  its store. \<open>Transport_Threads\<close>: its mutexes, queue and condition variables
  as a step relation, with mutual exclusion, no lost wake-up, and what that \<open>shutdown\<close> does to the threads.
  \<open>Transport_Api\<close>, \<open>Message_Objects\<close>: the C
  functions and the C++ wrapper around them, with the ownership of messages and locks and the flush in
  the destructor of an outgoing message. \<open>Handshake\<close>: both handshake programs over two streams; all interleavings end,
  in agreement. \<open>Connections\<close>, \<open>Configuration\<close>: the singleton runtime of the client, where it connects
  to, and the loop of the server. \<open>Synchronization\<close>, \<open>Platform_Time\<close>: the offset between the clocks and its
  error, and the conversions of times.

  Serialization. \<open>Serialization\<close> holds the templates of \<open>serializer.h\<close> and \<open>deserializer.h\<close> and the
  interpreter of generated functions, \<open>Core_Structs\<close>, \<open>Ext_Serializers\<close>, \<open>Ext_Deserializers\<close>,
  \<open>Ext_Cleaners\<close> the generated functions, \<open>Ext_Tables\<close> the lookup tables, \<open>Ext_Names\<close> the extensions,
  \<open>Builds\<close> what a set of extensions compiles. \<open>Serialization_Laws\<close> proves, for every codec whose two
  halves agree member by member (locale \<open>agreeing_codec\<close>), that a value arrives as \<open>arr\<close> says;
  \<open>Serialization_Wellformed\<close> and \<open>Serialization_Props\<close> instantiate it with the tables;
  \<open>Serialization_Truncated\<close>: values that cannot be written; \<open>Serialization_Types\<close>: whatever bytes
  arrive, what is read is typed. \<open>Cleaners\<close>, \<open>Cleaners_Laws\<close>, \<open>Cleaners_Frame\<close>: releasing what was read
  frees exactly its blocks (locale \<open>cleaning_codec\<close>), also after the runtime wrote into it.

  Remote calls. \<open>Rpc_Frame\<close>, \<open>Rpc_Tables\<close>, \<open>Ext_Stubs\<close>, \<open>Ext_Handlers\<close>, \<open>Ext_Dispatch\<close> are the stubs of
  \<open>rpc.cpp\<close>, the handlers and the table of \<open>function_dispatch.cpp\<close>; \<open>Rpc\<close> is their common frame, from
  the call of the application to its return. \<open>Rpc_Builds\<close>, \<open>Rpc_Programs\<close>: the two sides agree in every
  build and their programs are well-formed. \<open>Rpc_Props\<close>, \<open>Rpc_Cleanup\<close>: the runtime sees the arguments,
  the caller gets the results, memory is released once, a request that cannot be written does no
  harm, and a call that the server cannot serve never returns.

  Client and server. \<open>Function_Layers\<close>: the function table with its layers (locale \<open>layered_table\<close>).
  \<open>Client_Entry\<close>: negotiation, \<open>xrGetInstanceProcAddr\<close> and the creation of the instance. \<open>Server_Loop\<close>,
  \<open>Poll_Events\<close>: the handlers of the server, the life of instances and the notices of the modules, which
  may throw, and events on both sides.
  \<open>Function_Loader\<close>: the functions of the runtime that the server loads. \<open>Module_Loading\<close>: how both
  processes find, load and unload their modules.

  Modules. \<open>Handle_Exchange\<close>: descriptors over a Unix socket. \<open>Vulkan_Common\<close>, \<open>Vulkan_Server\<close>,
  \<open>Vulkan_Client\<close>, \<open>Vulkan_Client_Module\<close>: both halves of the Vulkan module; \<open>Vulkan_Swapchain\<close>: the ring of
  images of one swapchain and its refinement of the rules of OpenXR. \<open>Vulkan_Server_Laws\<close>,
  \<open>Vulkan_Server_Props\<close>, \<open>Vulkan_Client_Laws\<close>, \<open>Vulkan_Agreement\<close>, \<open>Vulkan_Client_Props\<close>: the books each half
  keeps and their agreement, the images they share, what a release and a destruction lead to. The
  functions of the runtime and of Vulkan are null pointers until \<open>on_instance\<close> has loaded them.
  \<open>Ring_Buffer\<close>: the shared ring under the streams of the gfxstream build, a bounded queue of bytes.

  Bounds and fuel. \<open>await_message\<close> and \<open>handle_message\<close> take a number of rounds, one for each message
  they take from the queue: the properties ask for more rounds than there are messages before the
  awaited one. Reading exactly \<open>n\<close> bytes takes at most \<open>n\<close> rounds of \<open>read_some\<close>. \<open>des E off n\<close> follows \<open>n\<close>
  levels of structs and chains; the round trips hold for every \<open>n\<close> larger than the size of the value. The loop of the poll handler may not end and is a partial
  function. The shift of a ring is found in at most 32 rounds. Everything else is total.

  Not modelled, and why.
  \<^item> \<open>AddressSpaceStream.cpp\<close> and the other streams of \<open>src/client/gfxstream_asg\<close>, and the paths of the
    gfxstream build (\<open>import_image_into_device\<close>, \<open>create_asg_connection\<close>): code of another project around
    a device that the repository does not hold; the function that would use it does not compile. Of
    the ring buffer the waiting and the states of the two sides are left out.
  \<^item> The Windows paths: times through \<open>double\<close>, \<open>LoadLibrary\<close>.
  \<^item> \<open>asio_compat.h\<close> and, but for which functions it has, \<open>vulkan_loader.h\<close>: forwarding to objects that
    are parameters; \<open>rpc.h\<close>,
    \<open>function_dispatch.h\<close> and the prototypes of the two serialization headers: declarations.
  \<^item> Generated functions that the generator leaves as \<open>#error\<close> lines, and base headers without functions.
  \<^item> Logging, the timer of the stubs, usage texts; the tests and the generator itself.
\<close>

end
